(* ===== verification/Rust_Prelude.thy ===== *)
theory Rust_Prelude
  imports Main "HOL-Library.Word"
begin

text \<open>
  Shared vocabulary of the development: the integer types of the Rust sources as machine words,
  results (an error of \<^verbatim>\<open>anyhow\<close>, a panic, or a value), the string functions of the standard
  library that the sources call, and the hexadecimal formatting of bytes
  (\<^verbatim>\<open>write!(f, "{:02x}", byte)\<close>).

  Arithmetic on words wraps, which is what the release profile of \<^verbatim>\<open>src/Cargo.toml\<close> compiles
  (it does not set \<^verbatim>\<open>overflow-checks\<close>); the theorems that need a sum to be exact say so.

  Strings are lists of \<open>char\<close>, that is of bytes: \<^verbatim>\<open>str::len\<close> counts bytes in Rust as well.
\<close>

section \<open>Types of the sources\<close>

type_synonym u8 = "8 word"
type_synonym u16 = "16 word"
type_synonym u32 = "32 word"
type_synonym u64 = "64 word"
type_synonym u128 = "128 word"

text \<open>An account address and an authentication key are 32 bytes; both are read big-endian, so the
  order of \<open>256 word\<close> is the byte order that \<^verbatim>\<open>BTreeMap\<close> uses.\<close>

type_synonym AccountAddress = "256 word"
type_synonym AuthenticationKey = "256 word"

named_theorems result_simps \<open>equations of the result combinators\<close>
named_theorems hex_simps \<open>equations of the hexadecimal formatting\<close>
named_theorems str_simps \<open>equations of the string functions\<close>

section \<open>Results\<close>

text \<open>\<open>Err\<close> is an error returned to the caller (\<^verbatim>\<open>bail!\<close>, \<^verbatim>\<open>?\<close>, \<^verbatim>\<open>Err(..)\<close>); \<open>Panic\<close> is a panic
  (\<^verbatim>\<open>unwrap\<close>, \<^verbatim>\<open>expect\<close>, \<^verbatim>\<open>assert!\<close>, an index out of range), which no caller catches.\<close>

datatype error = Err string | Panic string

type_synonym 'a result = "error + 'a"

definition and_then :: "'a result \<Rightarrow> ('a \<Rightarrow> 'b result) \<Rightarrow> 'b result" where
  "and_then r f = (case r of Inl e \<Rightarrow> Inl e | Inr x \<Rightarrow> f x)"

definition unwrap :: "string \<Rightarrow> 'a option \<Rightarrow> 'a result" where
  "unwrap msg x = (case x of None \<Rightarrow> Inl (Panic msg) | Some v \<Rightarrow> Inr v)"

definition ok_or :: "string \<Rightarrow> 'a option \<Rightarrow> 'a result" where
  "ok_or msg x = (case x of None \<Rightarrow> Inl (Err msg) | Some v \<Rightarrow> Inr v)"

text \<open>\<^verbatim>\<open>expect\<close> on a result: an error becomes a panic.\<close>

definition expect :: "string \<Rightarrow> 'a result \<Rightarrow> 'a result" where
  "expect msg r = (case r of Inl _ \<Rightarrow> Inl (Panic msg) | Inr v \<Rightarrow> Inr v)"

definition is_ok :: "'a result \<Rightarrow> bool" where
  "is_ok r = (case r of Inl _ \<Rightarrow> False | Inr _ \<Rightarrow> True)"

fun map_result :: "('a \<Rightarrow> 'b result) \<Rightarrow> 'a list \<Rightarrow> 'b list result" where
  "map_result f [] = Inr []"
| "map_result f (x # xs) = and_then (f x) (\<lambda>y. and_then (map_result f xs) (\<lambda>ys. Inr (y # ys)))"

lemma and_then_simps [simp, result_simps]:
  "and_then (Inl e) f = Inl e"
  "and_then (Inr x) f = f x"
  by (simp_all add: and_then_def)

lemma unwrap_simps [simp, result_simps]:
  "unwrap m None = Inl (Panic m)"
  "unwrap m (Some x) = Inr x"
  by (simp_all add: unwrap_def)

lemma ok_or_simps [simp, result_simps]:
  "ok_or m None = Inl (Err m)"
  "ok_or m (Some x) = Inr x"
  by (simp_all add: ok_or_def)

lemma expect_simps [simp, result_simps]:
  "expect m (Inl e) = Inl (Panic m)"
  "expect m (Inr x) = Inr x"
  by (simp_all add: expect_def)

lemma is_ok_simps [simp, result_simps]:
  "\<not> is_ok (Inl e)"
  "is_ok (Inr x)"
  by (simp_all add: is_ok_def)

lemma and_then_eq_Inr: "and_then r f = Inr y \<longleftrightarrow> (\<exists>x. r = Inr x \<and> f x = Inr y)"
  by (cases r) simp_all

lemma ok_or_eq_Inr: "ok_or m x = Inr y \<longleftrightarrow> x = Some y"
  by (cases x) simp_all

lemma unwrap_eq_Inr: "unwrap m x = Inr y \<longleftrightarrow> x = Some y"
  by (cases x) simp_all

lemma is_ok_iff: "is_ok r \<longleftrightarrow> (\<exists>x. r = Inr x)"
  by (cases r) simp_all

lemma expect_eq_Inr: "expect m r = Inr y \<longleftrightarrow> r = Inr y"
  by (auto simp: expect_def split: sum.splits)

lemmas result_Inr_iffs = and_then_eq_Inr ok_or_eq_Inr unwrap_eq_Inr expect_eq_Inr

lemma map_result_Inr: "(\<And>x. x \<in> set xs \<Longrightarrow> f x = Inr (g x)) \<Longrightarrow> map_result f xs = Inr (map g xs)"
  by (induction xs) simp_all

lemma map_result_length: "map_result f xs = Inr ys \<Longrightarrow> length ys = length xs"
  by (induction xs arbitrary: ys) (auto simp: and_then_eq_Inr)

section \<open>Strings of the standard library\<close>

definition starts_with :: "string \<Rightarrow> string \<Rightarrow> bool" where
  "starts_with p s = (take (length p) s = p)"

text \<open>\<^verbatim>\<open>s.contains(n)\<close>\<close>

fun str_contains :: "string \<Rightarrow> string \<Rightarrow> bool" where
  "str_contains [] n = (n = [])"
| "str_contains (c # s) n = (starts_with n (c # s) \<or> str_contains s n)"

text \<open>\<^verbatim>\<open>s.split(c)\<close> on one separator character: one piece more than separators.\<close>

fun str_split :: "char \<Rightarrow> string \<Rightarrow> string list" where
  "str_split c [] = [[]]"
| "str_split c (x # s) =
     (if x = c then [] # str_split c s
      else (case str_split c s of [] \<Rightarrow> [[x]] | w # ws \<Rightarrow> (x # w) # ws))"

text \<open>\<^verbatim>\<open>words.join(" ")\<close>\<close>

fun str_join :: "string \<Rightarrow> string list \<Rightarrow> string" where
  "str_join sep [] = []"
| "str_join sep [w] = w"
| "str_join sep (w # v # ws) = w @ sep @ str_join sep (v # ws)"

text \<open>\<^verbatim>\<open>trim_start_matches(c)\<close>\<close>

definition trim_start_matches :: "char \<Rightarrow> string \<Rightarrow> string" where
  "trim_start_matches c s = dropWhile (\<lambda>x. x = c) s"

definition is_ascii_ws :: "char \<Rightarrow> bool" where
  "is_ascii_ws c = (of_char c \<in> {9, 10, 11, 12, 13, 32 :: nat})"

text \<open>\<^verbatim>\<open>str::trim\<close> on ASCII text.\<close>

definition trim :: "string \<Rightarrow> string" where
  "trim s = rev (dropWhile is_ascii_ws (rev (dropWhile is_ascii_ws s)))"

lemma trim_id: "s \<noteq> [] \<Longrightarrow> \<not> is_ascii_ws (hd s) \<Longrightarrow> \<not> is_ascii_ws (last s) \<Longrightarrow> trim s = s"
proof -
  assume "s \<noteq> []" "\<not> is_ascii_ws (hd s)" "\<not> is_ascii_ws (last s)"
  then have "dropWhile is_ascii_ws s = s" "dropWhile is_ascii_ws (rev s) = rev s"
    by (auto simp: dropWhile_eq_self_iff hd_rev)
  then show "trim s = s" by (simp add: trim_def)
qed

lemma starts_with_iff [str_simps]: "starts_with p s \<longleftrightarrow> (\<exists>r. s = p @ r)"
  unfolding starts_with_def by (metis append_eq_conv_conj append_take_drop_id)

lemma str_contains_iff: "str_contains s n \<longleftrightarrow> (\<exists>a b. s = a @ n @ b)"
proof (induction s)
  case Nil
  then show ?case by auto
next
  case (Cons c s)
  have "(\<exists>a b. c # s = a @ n @ b) \<longleftrightarrow> (\<exists>b. c # s = n @ b) \<or> (\<exists>a b. s = a @ n @ b)"
    by (metis append_Cons append_Nil list.exhaust list.inject)
  with Cons.IH show ?case by (simp add: starts_with_iff)
qed

lemma str_contains_append_left [str_simps]: "str_contains (n @ s) n"
  by (auto simp: str_contains_iff)

lemma str_split_not_Nil [simp]: "str_split c s \<noteq> []"
  by (induction s) (auto split: list.splits)

lemma str_split_word [str_simps]:
  "c \<notin> set w \<Longrightarrow> str_split c w = [w]"
  by (induction w) auto

lemma str_split_append [str_simps]:
  "c \<notin> set w \<Longrightarrow> str_split c (w @ c # s) = w # str_split c s"
  by (induction w) auto

lemma str_split_join:
  "ws \<noteq> [] \<Longrightarrow> \<forall>w \<in> set ws. c \<notin> set w \<Longrightarrow> str_split c (str_join [c] ws) = ws"
  by (induction "[c]" ws rule: str_join.induct) (auto simp: str_simps)

text \<open>\<^verbatim>\<open>as_bytes\<close>, \<^verbatim>\<open>into_bytes\<close>\<close>

definition into_bytes :: "string \<Rightarrow> u8 list" where
  "into_bytes s = map of_char s"

section \<open>Files\<close>

text \<open>The file system: contents of the files, and which files can be created or overwritten.\<close>

record file_system =
  files :: "string \<rightharpoonup> string"
  writable :: "string \<Rightarrow> bool"

definition path_join :: "string \<Rightarrow> string \<Rightarrow> string" where
  "path_join dir file = dir @ ''/'' @ file"

section \<open>Hexadecimal formatting\<close>

definition hex_char :: "nat \<Rightarrow> char" where
  "hex_char n = ''0123456789abcdef'' ! n"

definition hex_char_upper :: "nat \<Rightarrow> char" where
  "hex_char_upper n = ''0123456789ABCDEF'' ! n"

definition is_hexdigit :: "char \<Rightarrow> bool" where
  "is_hexdigit c =
     (let n = of_char c :: nat in
      48 \<le> n \<and> n \<le> 57 \<or> 97 \<le> n \<and> n \<le> 102 \<or> 65 \<le> n \<and> n \<le> 70)"

text \<open>\<open>lower_hex_byte\<close> is \<^verbatim>\<open>{:02x}\<close>, \<open>upper_hex_byte\<close> is \<^verbatim>\<open>{:02X}\<close>.\<close>

definition lower_hex_byte :: "u8 \<Rightarrow> string" where
  "lower_hex_byte b = [hex_char (unat b div 16), hex_char (unat b mod 16)]"

definition upper_hex_byte :: "u8 \<Rightarrow> string" where
  "upper_hex_byte b = [hex_char_upper (unat b div 16), hex_char_upper (unat b mod 16)]"

definition lower_hex :: "u8 list \<Rightarrow> string" where
  "lower_hex bs = concat (map lower_hex_byte bs)"

definition upper_hex :: "u8 list \<Rightarrow> string" where
  "upper_hex bs = concat (map upper_hex_byte bs)"

definition hex_value :: "char \<Rightarrow> nat option" where
  "hex_value c =
     (let n = of_char c :: nat in
      if 48 \<le> n \<and> n \<le> 57 then Some (n - 48)
      else if 97 \<le> n \<and> n \<le> 102 then Some (n - 87)
      else if 65 \<le> n \<and> n \<le> 70 then Some (n - 55)
      else None)"

lemma less_16_cases: "(n::nat) < 16 \<Longrightarrow> n \<in> {0,1,2,3,4,5,6,7,8,9,10,11,12,13,14,15}"
  by (simp only: insert_iff empty_iff) presburger

lemma hex_value_hex_char [hex_simps]: "n < 16 \<Longrightarrow> hex_value (hex_char n) = Some n"
  by (drule less_16_cases) (auto simp: hex_value_def hex_char_def)

lemma hex_value_hex_char_upper [hex_simps]: "n < 16 \<Longrightarrow> hex_value (hex_char_upper n) = Some n"
  by (drule less_16_cases) (auto simp: hex_value_def hex_char_upper_def)

lemma hex_char_inj: "m < 16 \<Longrightarrow> n < 16 \<Longrightarrow> hex_char m = hex_char n \<Longrightarrow> m = n"
  using hex_value_hex_char by (metis option.inject)

lemma hex_char_eq_0 [hex_simps]: "n < 16 \<Longrightarrow> hex_char n = CHR ''0'' \<longleftrightarrow> n = 0"
  by (drule less_16_cases) (auto simp: hex_char_def)

lemma is_hexdigit_hex_char [hex_simps]: "n < 16 \<Longrightarrow> is_hexdigit (hex_char n)"
  by (drule less_16_cases) (auto simp: is_hexdigit_def hex_char_def)

lemma is_hexdigit_hex_char_upper [hex_simps]: "n < 16 \<Longrightarrow> is_hexdigit (hex_char_upper n)"
  by (drule less_16_cases) (auto simp: is_hexdigit_def hex_char_upper_def)

lemma unat_u8_less [simp]: "unat (b :: u8) < 256"
  using unsigned_less [of b] by simp

lemma u8_nibble_bounds [simp]: "unat (b :: u8) div 16 < 16" "unat (b :: u8) mod 16 < 16"
  using unat_u8_less [of b] by linarith+

lemma length_lower_hex [simp]: "length (lower_hex bs) = 2 * length bs"
  by (induction bs) (simp_all add: lower_hex_def lower_hex_byte_def)

lemma length_upper_hex [simp]: "length (upper_hex bs) = 2 * length bs"
  by (induction bs) (simp_all add: upper_hex_def upper_hex_byte_def)

lemma lower_hex_Nil [simp]: "lower_hex [] = []"
  by (simp add: lower_hex_def)

lemma lower_hex_Cons [hex_simps]:
  "lower_hex (b # bs) = hex_char (unat b div 16) # hex_char (unat b mod 16) # lower_hex bs"
  by (simp add: lower_hex_def lower_hex_byte_def)

lemma upper_hex_Nil [simp]: "upper_hex [] = []"
  by (simp add: upper_hex_def)

lemma upper_hex_Cons [hex_simps]:
  "upper_hex (b # bs) =
     hex_char_upper (unat b div 16) # hex_char_upper (unat b mod 16) # upper_hex bs"
  by (simp add: upper_hex_def upper_hex_byte_def)

lemma lower_hex_append: "lower_hex (as @ bs) = lower_hex as @ lower_hex bs"
  by (simp add: lower_hex_def)

lemma lower_hex_hexdigits: "list_all is_hexdigit (lower_hex bs)"
  by (induction bs) (simp_all add: hex_simps)

lemma lower_hex_inj: "lower_hex as = lower_hex bs \<Longrightarrow> as = bs"
proof (induction as arbitrary: bs)
  case Nil
  then show ?case by (metis length_0_conv length_lower_hex mult_eq_0_iff zero_neq_numeral)
next
  case (Cons a as)
  then obtain b bs' where bs: "bs = b # bs'"
    by (cases bs) (auto simp: hex_simps)
  from Cons.prems have "unat a div 16 = unat b div 16" "unat a mod 16 = unat b mod 16"
      "lower_hex as = lower_hex bs'"
    by (auto simp: bs hex_simps intro: hex_char_inj)
  then show ?case
    using Cons.IH bs by (metis div_mult_mod_eq word_unat_eq_iff)
qed

section \<open>Lists\<close>

lemma find_Some_set: "List.find P xs = Some x \<Longrightarrow> x \<in> set xs \<and> P x"
  by (auto simp: find_Some_iff)

lemma filter_map_length: "length (List.map_filter f xs) \<le> length xs"
  by (induction xs) (auto split: option.splits)

section \<open>Parsing unsigned integers\<close>

text \<open>\<^verbatim>\<open>str::parse::<u64>()\<close>: an optional plus sign, then at least one decimal digit, no overflow.\<close>

definition digit_value :: "char \<Rightarrow> nat option" where
  "digit_value c = (let n = of_char c :: nat in if 48 \<le> n \<and> n \<le> 57 then Some (n - 48) else None)"

fun digits_value :: "nat \<Rightarrow> string \<Rightarrow> nat option" where
  "digits_value acc [] = Some acc"
| "digits_value acc (c # s) =
     (case digit_value c of None \<Rightarrow> None | Some d \<Rightarrow> digits_value (10 * acc + d) s)"

definition parse_u64 :: "string \<Rightarrow> u64 option" where
  "parse_u64 s =
     (let t = (case s of c # r \<Rightarrow> if c = CHR ''+'' \<and> r \<noteq> [] then r else s | [] \<Rightarrow> []) in
      if t = [] then None
      else case digits_value 0 t of
             None \<Rightarrow> None
           | Some n \<Rightarrow> if n < 2 ^ 64 then Some (of_nat n) else None)"

fun show_nat :: "nat \<Rightarrow> string" where
  "show_nat n = (if n < 10 then [char_of (48 + n)] else show_nat (n div 10) @ [char_of (48 + n mod 10)])"

declare show_nat.simps [simp del]

lemma digit_value_char_of: "d < 10 \<Longrightarrow> digit_value (char_of (48 + d)) = Some d"
  by (simp add: digit_value_def)

lemma digit_value_plus: "digit_value CHR ''+'' = None"
  by (simp add: digit_value_def)

lemma digits_value_append:
  "digits_value acc (s @ t) = (case digits_value acc s of None \<Rightarrow> None | Some a \<Rightarrow> digits_value a t)"
  by (induction s arbitrary: acc) (simp_all split: option.splits)

lemma digits_value_show_nat: "digits_value 0 (show_nat n) = Some n"
proof (induction n rule: show_nat.induct)
  case (1 n)
  show ?case
    using "1.IH"
    by (subst show_nat.simps) (auto simp: digits_value_append digit_value_char_of)
qed

lemma show_nat_not_Nil [simp]: "show_nat n \<noteq> []"
  by (subst show_nat.simps) simp

lemma hd_show_nat: "hd (show_nat n) \<noteq> CHR ''+''"
proof (induction n rule: show_nat.induct)
  case (1 n)
  have "char_of (48 + n) \<noteq> CHR ''+''" if "n < 10"
    using digit_value_char_of [OF that]
    by (metis digit_value_plus option.distinct(1))
  with 1 show ?case by (subst show_nat.simps) auto
qed

lemma parse_u64_show: "parse_u64 (show_nat (unat n)) = Some n"
proof -
  have "(case show_nat (unat n) of c # r \<Rightarrow> if c = CHR ''+'' \<and> r \<noteq> [] then r else show_nat (unat n) | [] \<Rightarrow> [])
      = show_nat (unat n)"
    using hd_show_nat [of "unat n"] by (cases "show_nat (unat n)") auto
  moreover have "unat n < 2 ^ 64" using unsigned_less [of n] by simp
  ultimately show ?thesis by (simp add: parse_u64_def digits_value_show_nat)
qed

end
