(* ===== verification/Account_Address.thy ===== *)
theory Account_Address
  imports Rust_Prelude
begin

text \<open>
  The account address of the vendor library (\<^verbatim>\<open>move_core_types::AccountAddress\<close>, not part of the
  sources) as the sources use it: its text form and the parser of a hexadecimal literal. The
  locale states the documented behaviour; the definitions of the development take the two
  functions as arguments. \<open>addr_hex\<close> and \<open>addr_from_hex_literal\<close> are a reference instance, on
  which the locale is interpreted and the witnesses are evaluated.
\<close>

text \<open>\<^verbatim>\<open>AsRef<[u8]>\<close>: the 32 bytes of the address, most significant first.\<close>

fun be_bytes :: "nat \<Rightarrow> nat \<Rightarrow> u8 list" where
  "be_bytes 0 n = []"
| "be_bytes (Suc k) n = be_bytes k (n div 256) @ [of_nat n]"

definition address_bytes :: "AccountAddress \<Rightarrow> u8 list" where
  "address_bytes a = be_bytes 32 (unat a)"

lemma length_be_bytes [simp]: "length (be_bytes k n) = k"
  by (induction k arbitrary: n) simp_all

lemma length_address_bytes [simp]: "length (address_bytes a) = 32"
  by (simp add: address_bytes_def)

locale account_address =
  fixes to_string :: "AccountAddress \<Rightarrow> string"
    and from_hex_literal :: "string \<Rightarrow> AccountAddress result"
  assumes to_string_bytes: "to_string a = lower_hex (address_bytes a)"
    and from_hex_literal_to_string: "from_hex_literal (''0x'' @ to_string a) = Inr a"
    and to_string_low_half:
      "to_string (take_bit 128 a) = replicate 32 CHR ''0'' @ drop 32 (to_string a)"
    and from_hex_literal_pads:
      "length s \<le> 64 \<Longrightarrow>
       from_hex_literal (''0x'' @ replicate (64 - length s) CHR ''0'' @ s) = from_hex_literal (''0x'' @ s)"
begin

lemma length_to_string: "length (to_string a) = 64"
  by (simp add: to_string_bytes)

lemma to_string_hexdigits: "list_all is_hexdigit (to_string a)"
  by (simp add: to_string_bytes lower_hex_hexdigits)

lemma to_string_inj: "to_string a = to_string b \<Longrightarrow> a = b"
  using from_hex_literal_to_string by (metis sum.inject(2))

lemma from_hex_literal_low_half:
  "from_hex_literal (''0x'' @ replicate 32 CHR ''0'' @ drop 32 (to_string a)) = Inr (take_bit 128 a)"
  by (simp only: to_string_low_half [symmetric] from_hex_literal_to_string)

end

section \<open>Reference instance\<close>

fun hex_digits :: "nat \<Rightarrow> nat \<Rightarrow> string" where
  "hex_digits 0 n = []"
| "hex_digits (Suc k) n = hex_digits k (n div 16) @ [hex_char (n mod 16)]"

fun hex_nat :: "nat \<Rightarrow> string \<Rightarrow> nat option" where
  "hex_nat acc [] = Some acc"
| "hex_nat acc (c # s) = (case hex_value c of None \<Rightarrow> None | Some d \<Rightarrow> hex_nat (16 * acc + d) s)"

definition addr_hex :: "AccountAddress \<Rightarrow> string" where
  "addr_hex a = hex_digits 64 (unat a)"

definition addr_from_hex_literal :: "string \<Rightarrow> AccountAddress result" where
  "addr_from_hex_literal s =
     (if \<not> starts_with ''0x'' s \<or> 66 < length s then Inl (Err ''AccountAddressParseError'')
      else ok_or ''AccountAddressParseError'' (map_option of_nat (hex_nat 0 (drop 2 s))))"

lemma length_hex_digits [simp]: "length (hex_digits k n) = k"
  by (induction k arbitrary: n) simp_all

lemma hex_digits_be_bytes: "hex_digits (2 * k) n = lower_hex (be_bytes k n)"
proof (induction k arbitrary: n)
  case (Suc k)
  have "unat (of_nat n :: u8) = n mod 256" by (simp add: unat_of_nat)
  moreover have "n mod 256 div 16 = n div 16 mod 16" "n mod 256 mod 16 = n mod 16"
    using mod_mult2_eq [of n 16 16] by simp_all
  ultimately have "lower_hex_byte (of_nat n) = [hex_char (n div 16 mod 16), hex_char (n mod 16)]"
    by (simp add: lower_hex_byte_def)
  moreover have "n div 16 div 16 = n div 256" using div_mult2_eq [of n 16 16] by simp
  ultimately show ?case using Suc.IH [of "n div 256"] by (simp add: lower_hex_append lower_hex_def)
qed simp

lemma hex_nat_append:
  "hex_nat acc (s @ t) = (case hex_nat acc s of None \<Rightarrow> None | Some a \<Rightarrow> hex_nat a t)"
  by (induction s arbitrary: acc) (simp_all split: option.splits)

lemma hex_nat_hex_digits: "n < 16 ^ k \<Longrightarrow> hex_nat 0 (hex_digits k n) = Some n"
proof (induction k arbitrary: n)
  case (Suc k)
  then have "n div 16 < 16 ^ k" by (simp add: less_mult_imp_div_less mult.commute)
  with Suc.IH show ?case by (simp add: hex_nat_append hex_simps)
qed simp

lemma hex_nat_zeros: "hex_nat 0 (replicate m CHR ''0'' @ s) = hex_nat 0 s"
  by (induction m) (simp_all add: hex_value_def)

lemma hex_digits_add:
  "hex_digits (j + k) n = hex_digits j (n div 16 ^ k) @ hex_digits k (n mod 16 ^ k)"
proof (induction k arbitrary: n)
  case 0
  then show ?case by simp
next
  case (Suc k)
  have "n div 16 div 16 ^ k = n div 16 ^ Suc k" by (simp add: div_mult2_eq)
  moreover have "n div 16 mod 16 ^ k = n mod 16 ^ Suc k div 16" by (simp add: mod_mult2_eq)
  moreover have "n mod 16 ^ Suc k mod 16 = n mod 16" by (simp add: mod_mod_cancel)
  ultimately show ?case using Suc.IH [of "n div 16"] by simp
qed

lemma hex_digits_0: "hex_digits k 0 = replicate k CHR ''0''"
  by (induction k) (simp_all add: hex_char_def replicate_append_same)

lemma unat_addr_less: "unat (a :: AccountAddress) < 16 ^ 64"
  using unsigned_less [of a] by simp

lemma starts_with_0x [simp]: "starts_with ''0x'' (CHR ''0'' # CHR ''x'' # s)"
  by (simp add: starts_with_def)

interpretation addr: account_address addr_hex addr_from_hex_literal
proof
  fix a :: AccountAddress
  show "addr_hex a = lower_hex (address_bytes a)"
    using hex_digits_be_bytes [of 32 "unat a"] by (simp add: addr_hex_def address_bytes_def)
  show "addr_from_hex_literal (''0x'' @ addr_hex a) = Inr a"
    by (simp add: addr_from_hex_literal_def addr_hex_def hex_nat_hex_digits [OF unat_addr_less])
  have t: "unat (take_bit 128 a) = unat a mod 16 ^ 32"
    unfolding unsigned_take_bit_eq by (simp add: take_bit_eq_mod)
  have d: "hex_digits 64 n = hex_digits 32 (n div 16 ^ 32) @ hex_digits 32 (n mod 16 ^ 32)" for n
    using hex_digits_add [of 32 32 n] by simp
  show "addr_hex (take_bit 128 a) = replicate 32 CHR ''0'' @ drop 32 (addr_hex a)"
    unfolding addr_hex_def t d by (simp add: hex_digits_0 del: hex_digits.simps)
next
  fix s :: string assume "length s \<le> 64"
  then show "addr_from_hex_literal (''0x'' @ replicate (64 - length s) CHR ''0'' @ s)
      = addr_from_hex_literal (''0x'' @ s)"
    by (simp add: addr_from_hex_literal_def hex_nat_zeros)
qed

end
