(* ===== verification/Bcs.thy ===== *)
theory Bcs
  imports Account_Address
begin

text \<open>
  The BCS serialization library (\<^verbatim>\<open>bcs\<close>, not part of the sources) as the sources use it:
  \<^verbatim>\<open>to_bytes\<close> and \<^verbatim>\<open>from_bytes\<close> for the argument types of the entry functions. A \<open>codec\<close> is the pair
  for one type; the definitions that serialize take the record \<open>bcs\<close> of codecs as an argument. The
  locale \<open>bcs_library\<close> states the documented law, that decoding inverts encoding and that only
  sequences longer than \<open>2 ^ 31 - 1\<close> fail to encode. \<open>ref_bcs\<close> is a reference instance (little-endian
  integers, ULEB128 length prefixes), on which the locale is interpreted.
\<close>

section \<open>Interface\<close>

record 'a codec =
  to_bytes :: "'a \<Rightarrow> u8 list result"
  from_bytes :: "u8 list \<Rightarrow> 'a result"

record bcs =
  bcs_u8 :: "u8 codec"
  bcs_u64 :: "u64 codec"
  bcs_bool :: "bool codec"
  bcs_address :: "AccountAddress codec"
  bcs_bytes :: "u8 list codec"
  bcs_addresses :: "AccountAddress list codec"
  bcs_bytes_vec :: "u8 list list codec"

abbreviation MAX_SEQUENCE_LENGTH :: nat where
  "MAX_SEQUENCE_LENGTH \<equiv> 2 ^ 31 - 1"

definition codec_ok :: "('a \<Rightarrow> bool) \<Rightarrow> 'a codec \<Rightarrow> bool" where
  "codec_ok fits c \<longleftrightarrow>
     (\<forall>x bs. to_bytes c x = Inr bs \<longrightarrow> from_bytes c bs = Inr x) \<and>
     (\<forall>x. fits x \<longrightarrow> is_ok (to_bytes c x))"

abbreviation short :: "'a list \<Rightarrow> bool" where
  "short xs \<equiv> length xs \<le> MAX_SEQUENCE_LENGTH"

locale bcs_library =
  fixes b :: bcs
  assumes u8_ok: "codec_ok (\<lambda>_. True) (bcs_u8 b)"
    and u64_ok: "codec_ok (\<lambda>_. True) (bcs_u64 b)"
    and bool_ok: "codec_ok (\<lambda>_. True) (bcs_bool b)"
    and address_ok: "codec_ok (\<lambda>_. True) (bcs_address b)"
    and bytes_ok: "codec_ok short (bcs_bytes b)"
    and addresses_ok: "codec_ok short (bcs_addresses b)"
    and bytes_vec_ok: "codec_ok (\<lambda>xs. short xs \<and> list_all short xs) (bcs_bytes_vec b)"
begin

lemmas codecs_ok = u8_ok u64_ok bool_ok address_ok bytes_ok addresses_ok bytes_vec_ok

lemma from_to_bytes:
  "to_bytes (bcs_u8 b) x1 = Inr bs \<Longrightarrow> from_bytes (bcs_u8 b) bs = Inr x1"
  "to_bytes (bcs_u64 b) x2 = Inr bs \<Longrightarrow> from_bytes (bcs_u64 b) bs = Inr x2"
  "to_bytes (bcs_bool b) x3 = Inr bs \<Longrightarrow> from_bytes (bcs_bool b) bs = Inr x3"
  "to_bytes (bcs_address b) x4 = Inr bs \<Longrightarrow> from_bytes (bcs_address b) bs = Inr x4"
  "to_bytes (bcs_bytes b) x5 = Inr bs \<Longrightarrow> from_bytes (bcs_bytes b) bs = Inr x5"
  "to_bytes (bcs_addresses b) x6 = Inr bs \<Longrightarrow> from_bytes (bcs_addresses b) bs = Inr x6"
  "to_bytes (bcs_bytes_vec b) x7 = Inr bs \<Longrightarrow> from_bytes (bcs_bytes_vec b) bs = Inr x7"
  using codecs_ok by (auto simp: codec_ok_def)

end

section \<open>Reference instance\<close>

text \<open>A scheme is an encoder with a parser that returns the unread rest.\<close>

type_synonym 'a parser = "u8 list \<Rightarrow> ('a \<times> u8 list) option"

definition parses :: "('a \<Rightarrow> u8 list) \<Rightarrow> 'a parser \<Rightarrow> bool" where
  "parses enc dec \<longleftrightarrow> (\<forall>x r. dec (enc x @ r) = Some (x, r))"

definition whole :: "('a \<Rightarrow> bool) \<Rightarrow> ('a \<Rightarrow> u8 list) \<Rightarrow> 'a parser \<Rightarrow> 'a codec" where
  "whole fits enc dec =
     \<lparr>to_bytes = (\<lambda>x. if fits x then Inr (enc x) else Inl (Err ''ExceededMaxLen'')),
      from_bytes = (\<lambda>bs. case dec bs of Some (x, []) \<Rightarrow> Inr x | _ \<Rightarrow> Inl (Err ''malformed''))\<rparr>"

lemma whole_ok: "parses enc dec \<Longrightarrow> codec_ok fits (whole fits enc dec)"
proof -
  assume "parses enc dec"
  then have "dec (enc x) = Some (x, [])" for x
    using append_Nil2 [of "enc x"] unfolding parses_def by metis
  then show ?thesis by (simp add: codec_ok_def whole_def split: if_splits)
qed

fun le_bytes :: "nat \<Rightarrow> nat \<Rightarrow> u8 list" where
  "le_bytes 0 n = []"
| "le_bytes (Suc k) n = of_nat n # le_bytes k (n div 256)"

fun le_parse :: "nat \<Rightarrow> nat parser" where
  "le_parse 0 bs = Some (0, bs)"
| "le_parse (Suc k) [] = None"
| "le_parse (Suc k) (c # bs) = map_option (\<lambda>(n, r). (unat c + 256 * n, r)) (le_parse k bs)"

lemma le_parse_bytes: "n < 256 ^ k \<Longrightarrow> le_parse k (le_bytes k n @ r) = Some (n, r)"
proof (induction k arbitrary: n)
  case (Suc k)
  have "n div 256 < 256 ^ k" using Suc.prems by (simp add: less_mult_imp_div_less mult.commute)
  then show ?case by (simp add: Suc.IH unat_of_nat)
qed simp

definition word_enc :: "nat \<Rightarrow> 'a::len word \<Rightarrow> u8 list" where
  "word_enc k w = le_bytes k (unat w)"

definition word_dec :: "nat \<Rightarrow> 'a::len word parser" where
  "word_dec k bs = map_option (\<lambda>(n, r). (of_nat n, r)) (le_parse k bs)"

lemma word_parses: "LENGTH('a) = 8 * k \<Longrightarrow> parses (word_enc k :: 'a::len word \<Rightarrow> u8 list) (word_dec k)"
proof -
  assume l: "LENGTH('a) = 8 * k"
  have "unat (w :: 'a word) < 256 ^ k" for w
    using unsigned_less [of w, where 'a = nat] by (simp add: l power_mult)
  then show ?thesis by (simp add: parses_def word_enc_def word_dec_def le_parse_bytes)
qed

function uleb128 :: "nat \<Rightarrow> u8 list" where
  "uleb128 n = (if n < 128 then [of_nat n] else of_nat (128 + n mod 128) # uleb128 (n div 128))"
  by auto
termination by (relation "measure id") auto

declare uleb128.simps [simp del]

fun uleb128_parse :: "nat parser" where
  "uleb128_parse [] = None"
| "uleb128_parse (c # bs) =
     (if c < 128 then Some (unat c, bs)
      else map_option (\<lambda>(n, r). (unat c - 128 + 128 * n, r)) (uleb128_parse bs))"

lemma uleb128_parses: "parses uleb128 uleb128_parse"
proof -
  have "uleb128_parse (uleb128 n @ r) = Some (n, r)" for n r
  proof (induction n rule: uleb128.induct)
    case (1 n)
    have u: "unat (of_nat (128 + n mod 128) :: u8) = 128 + n mod 128"
      using mod_less_divisor [of 128 n] by (subst unat_of_nat) (simp add: mod_less)
    show ?case
    proof (cases "n < 128")
      case True
      then show ?thesis by (simp add: uleb128.simps [of n] word_less_nat_alt unat_of_nat)
    next
      case False
      have "\<not> (of_nat (128 + n mod 128) :: u8) < 128" unfolding word_less_nat_alt u by simp
      then show ?thesis using 1 False u by (simp add: uleb128.simps [of n])
    qed
  qed
  then show ?thesis by (simp add: parses_def)
qed

definition vec_enc :: "('a \<Rightarrow> u8 list) \<Rightarrow> 'a list \<Rightarrow> u8 list" where
  "vec_enc enc xs = uleb128 (length xs) @ concat (map enc xs)"

fun parse_n :: "'a parser \<Rightarrow> nat \<Rightarrow> 'a list parser" where
  "parse_n dec 0 bs = Some ([], bs)"
| "parse_n dec (Suc n) bs =
     (case dec bs of None \<Rightarrow> None
      | Some (x, r) \<Rightarrow> map_option (\<lambda>(xs, r). (x # xs, r)) (parse_n dec n r))"

definition vec_dec :: "'a parser \<Rightarrow> 'a list parser" where
  "vec_dec dec bs = (case uleb128_parse bs of None \<Rightarrow> None | Some (n, r) \<Rightarrow> parse_n dec n r)"

lemma parse_n_concat: "parses enc dec \<Longrightarrow> parse_n dec (length xs) (concat (map enc xs) @ r) = Some (xs, r)"
  by (induction xs) (simp_all add: parses_def)

lemma vec_parses: "parses enc dec \<Longrightarrow> parses (vec_enc enc) (vec_dec dec)"
  using uleb128_parses by (simp add: parses_def vec_enc_def vec_dec_def) (simp add: parse_n_concat parses_def)

definition ref_bcs :: bcs where
  "ref_bcs =
     \<lparr>bcs_u8 = whole (\<lambda>_. True) (word_enc 1) (word_dec 1),
      bcs_u64 = whole (\<lambda>_. True) (word_enc 8) (word_dec 8),
      bcs_bool = whole (\<lambda>_. True) (\<lambda>x. [if x then 1 else 0])
        (\<lambda>bs. case bs of [] \<Rightarrow> None | c # r \<Rightarrow> if c = 0 then Some (False, r) else if c = 1 then Some (True, r) else None),
      bcs_address = whole (\<lambda>_. True) (word_enc 32) (word_dec 32),
      bcs_bytes = whole short (vec_enc (word_enc 1)) (vec_dec (word_dec 1)),
      bcs_addresses = whole short (vec_enc (word_enc 32)) (vec_dec (word_dec 32)),
      bcs_bytes_vec = whole (\<lambda>xs. short xs \<and> list_all short xs)
        (vec_enc (vec_enc (word_enc 1))) (vec_dec (vec_dec (word_dec 1)))\<rparr>"

interpretation ref_bcs: bcs_library ref_bcs
  by unfold_locales
    (simp_all add: ref_bcs_def whole_ok word_parses vec_parses parses_def [of "\<lambda>x. [if x then 1 else 0]"])

end
