(* ===== verification/Entry_Function.thy ===== *)
theory Entry_Function
  imports Bcs
begin

text \<open>
  What the generated transaction builders of all releases share: the payloads of the vendor library, the
  shape of a builder and of a decoder, and the table of decoders. The locale \<open>decoder_keys\<close> states
  what makes the table a function of its entries; \<open>sdk_release\<close> states what a release promises, and its
  consequences are proved once for every release.
\<close>

section \<open>Payloads of the vendor library\<close>

text \<open>A type tag by its text.\<close>

type_synonym TypeTag = string

record EntryFunction =
  ef_address :: AccountAddress
  ef_module :: string
  ef_function :: string
  ty_args :: "TypeTag list"
  args :: "u8 list list"

datatype TransactionArgument = ArgU64 u64 | ArgOther "u8 list"

datatype TransactionPayload =
    Script "u8 list" "TypeTag list" "TransactionArgument list"
  | ModuleBundle "u8 list list"
  | EntryFunction EntryFunction
  | Multisig AccountAddress "EntryFunction option"

section \<open>Builders\<close>

text \<open>\<^verbatim>\<open>EntryFunction::new\<close> on a module of the framework address, with the serialized arguments unwrapped.\<close>

definition framework_call :: "string \<Rightarrow> string \<Rightarrow> TypeTag list \<Rightarrow> u8 list result list \<Rightarrow> TransactionPayload result" where
  "framework_call module function tys as =
     and_then (map_result (expect ''called Result::unwrap() on an Err value'') as) (\<lambda>bs.
     Inr (EntryFunction \<lparr>ef_address = 1, ef_module = module, ef_function = function,
       ty_args = tys, args = bs\<rparr>))"

lemma framework_call_Inr:
  "framework_call m f tys as = Inr p \<longleftrightarrow>
   (\<exists>bs. map_result (expect ''called Result::unwrap() on an Err value'') as = Inr bs \<and>
     p = EntryFunction \<lparr>ef_address = 1, ef_module = m, ef_function = f, ty_args = tys, args = bs\<rparr>)"
  by (auto simp: framework_call_def and_then_eq_Inr)

lemma framework_call_ok: "is_ok (framework_call m f tys as) \<longleftrightarrow> list_all is_ok as"
proof -
  have "is_ok (map_result (expect e) as) \<longleftrightarrow> list_all is_ok as" for e :: string
    by (induction as) (auto simp: is_ok_iff and_then_eq_Inr expect_eq_Inr)
  then show ?thesis by (auto simp: framework_call_def is_ok_iff and_then_eq_Inr)
qed

section \<open>Decoders\<close>

text \<open>\<^verbatim>\<open>bcs::from_bytes(script.args().get(i)?).ok()?\<close> and \<^verbatim>\<open>script.ty_args().get(i)?\<close>\<close>

definition arg_at :: "'a codec \<Rightarrow> EntryFunction \<Rightarrow> nat \<Rightarrow> 'a option" where
  "arg_at c script i =
     (if i < length (args script)
      then (case from_bytes c (args script ! i) of Inr x \<Rightarrow> Some x | Inl _ \<Rightarrow> None) else None)"

definition ty_arg_at :: "EntryFunction \<Rightarrow> nat \<Rightarrow> TypeTag option" where
  "ty_arg_at script i = (if i < length (ty_args script) then Some (ty_args script ! i) else None)"

text \<open>\<^verbatim>\<open>if let TransactionPayload::EntryFunction(script) = payload { Some(..) } else { None }\<close>\<close>

definition on_script :: "(EntryFunction \<Rightarrow> 'c option) \<Rightarrow> TransactionPayload \<Rightarrow> 'c option" where
  "on_script f payload = (case payload of EntryFunction script \<Rightarrow> f script | _ \<Rightarrow> None)"

context bcs_library
begin

lemma to_bytes_ok:
  "is_ok (to_bytes (bcs_u8 b) x1)"
  "is_ok (to_bytes (bcs_u64 b) x2)"
  "is_ok (to_bytes (bcs_bool b) x3)"
  "is_ok (to_bytes (bcs_address b) x4)"
  "short x5 \<Longrightarrow> is_ok (to_bytes (bcs_bytes b) x5)"
  "short x6 \<Longrightarrow> is_ok (to_bytes (bcs_addresses b) x6)"
  "short x7 \<Longrightarrow> list_all short x7 \<Longrightarrow> is_ok (to_bytes (bcs_bytes_vec b) x7)"
  using codecs_ok by (auto simp: codec_ok_def)

end

section \<open>The table of decoders\<close>

text \<open>\<^verbatim>\<open>HashMap::insert\<close>\<close>

definition table_insert :: "'k \<times> 'v \<Rightarrow> ('k \<rightharpoonup> 'v) \<Rightarrow> ('k \<rightharpoonup> 'v)" where
  "table_insert e m = m(fst e \<mapsto> snd e)"

definition decoder_table :: "('k \<times> 'v) list \<Rightarrow> 'k \<rightharpoonup> 'v" where
  "decoder_table entries = fold table_insert entries Map.empty"

text \<open>The lookup under the joined name, and the call of the decoder that is found.\<close>

definition decode_by :: "(string \<rightharpoonup> (TransactionPayload \<Rightarrow> 'c option)) \<Rightarrow> TransactionPayload \<Rightarrow> 'c option" where
  "decode_by table payload =
     (case payload of
        EntryFunction script \<Rightarrow>
          (case table (ef_module script @ ''_'' @ ef_function script) of
             Some decoder \<Rightarrow> decoder payload
           | None \<Rightarrow> None)
      | _ \<Rightarrow> None)"

lemma table_insert_apply: "table_insert e m k = (if k = fst e then Some (snd e) else m k)"
  by (simp add: table_insert_def)

lemma fold_upd_other: "k \<notin> fst ` set xs \<Longrightarrow> fold table_insert xs m k = m k"
  by (induction xs arbitrary: m) (auto simp: table_insert_apply)

lemma fold_upd_member:
  "distinct (map fst xs) \<Longrightarrow> (k, d) \<in> set xs \<Longrightarrow> fold table_insert xs m k = Some d"
proof (induction xs arbitrary: m)
  case (Cons x xs)
  show ?case
  proof (cases "x = (k, d)")
    case True
    have "fold table_insert (x # xs) m k = fold table_insert xs (table_insert x m) k" by (simp only: fold_simps)
    also have "\<dots> = table_insert x m k" using True Cons.prems(1) by (intro fold_upd_other) auto
    also have "\<dots> = Some d" using True by (simp add: table_insert_apply)
    finally show ?thesis .
  next
    case False
    then show ?thesis using Cons by simp
  qed
qed simp

lemma decoder_table_member: "decoder_table xs k = Some d \<Longrightarrow> (k, d) \<in> set xs"
proof -
  have "fold table_insert xs m k = Some d \<Longrightarrow> m k = Some d \<or> (k, d) \<in> set xs" for m
    by (induction xs arbitrary: m) (fastforce simp: table_insert_apply split: if_splits)+
  from this [of Map.empty] show "decoder_table xs k = Some d \<Longrightarrow> ?thesis" by (simp add: decoder_table_def)
qed

lemma decoder_table_absent: "k \<notin> set (map fst xs) \<Longrightarrow> decoder_table xs k = None"
  by (simp add: decoder_table_def fold_upd_other)

text \<open>The tables of the later releases list their keys in ascending order, which shows them distinct.\<close>

fun key_less :: "string \<Rightarrow> string \<Rightarrow> bool" where
  "key_less [] ys = (ys \<noteq> [])"
| "key_less (x # xs) [] = False"
| "key_less (x # xs) (y # ys) = (if x = y then key_less xs ys else (of_char x :: nat) < of_char y)"

lemma key_less_irrefl: "\<not> key_less xs xs"
  by (induction xs) simp_all

lemma key_less_trans: "key_less xs ys \<Longrightarrow> key_less ys zs \<Longrightarrow> key_less xs zs"
proof (induction xs ys arbitrary: zs rule: key_less.induct)
  case (3 x xs y ys)
  then show ?case by (cases zs) (auto split: if_splits)
qed (auto elim: key_less.elims)

lemma ascending_distinct: "successively key_less xs \<Longrightarrow> distinct xs"
proof -
  have "transp key_less" by (rule transpI) (rule key_less_trans)
  then have "successively key_less xs \<Longrightarrow> sorted_wrt key_less xs" by (simp add: successively_conv_sorted_wrt)
  moreover have "sorted_wrt key_less xs \<Longrightarrow> distinct xs" by (induction xs) (auto simp: key_less_irrefl)
  ultimately show "successively key_less xs \<Longrightarrow> distinct xs" by blast
qed

section \<open>Releases\<close>

locale decoder_keys =
  fixes entries :: "('k \<times> 'd) list"
  assumes distinct_keys: "distinct (map fst entries)"
begin

lemma lookup: "(k, d) \<in> set entries \<Longrightarrow> decoder_table entries k = Some d"
  unfolding decoder_table_def by (rule fold_upd_member [OF distinct_keys])

end

text \<open>A release: decoding inverts encoding, every call goes to the framework address, and a decoder looks
  only at the arguments.\<close>

locale sdk_release = decoder_keys entries
  for entries :: "(string \<times> (TransactionPayload \<Rightarrow> 'c option)) list" +
  fixes encode :: "'c \<Rightarrow> TransactionPayload result"
  assumes to_framework: "encode c = Inr p \<Longrightarrow> \<exists>s. p = EntryFunction s \<and> ef_address s = 1"
    and inverts: "encode c = Inr p \<Longrightarrow> decode_by (decoder_table entries) p = Some c"
    and by_args: "d \<in> snd ` set entries \<Longrightarrow> ty_args s = ty_args t \<Longrightarrow> args s = args t \<Longrightarrow> d (EntryFunction s) = d (EntryFunction t)"
begin

lemma encode_unique: "encode c = Inr p \<Longrightarrow> encode c' = Inr p \<Longrightarrow> c = c'"
  using inverts [of c p] inverts [of c' p] by simp

lemma decode_joined_name:
  assumes "ef_module s @ ''_'' @ ef_function s = ef_module t @ ''_'' @ ef_function t" "ty_args s = ty_args t" "args s = args t"
  shows "decode_by (decoder_table entries) (EntryFunction s) = decode_by (decoder_table entries) (EntryFunction t)"
proof (cases "decoder_table entries (ef_module t @ ''_'' @ ef_function t)")
  case None
  then show ?thesis using assms(1) by (simp add: decode_by_def)
next
  case (Some d)
  then have "d \<in> snd ` set entries" using decoder_table_member by (force simp: image_iff)
  then have "d (EntryFunction s) = d (EntryFunction t)" using by_args assms(2,3) by blast
  then show ?thesis using Some assms(1) by (simp add: decode_by_def)
qed

end

end
