(* ===== verification/Hex_Id.thy ===== *)
theory Hex_Id
  imports Rust_Prelude
begin

text \<open>
  Fixed-length byte identifiers that are printed and parsed in hexadecimal.

  \<open>hex_crate\<close> states the documented behaviour of the third-party \<^verbatim>\<open>hex\<close> crate: \<open>hex_encode\<close> prints two
  lower-case digits per byte, \<open>hex_array n\<close> (\<^verbatim>\<open>FromHex for [u8; n]\<close>) reads exactly \<open>2 * n\<close> digits of
  either case. \<open>byte_id\<close> is the contract of an identifier type of the sources, which the 32-byte
  hash value and the 16-byte legacy address both satisfy; its lemmas are proved once.
\<close>

text \<open>The serde data model, as far as the identifiers use it.\<close>

datatype serde_value = SerStr string | SerNewtypeBytes string "u8 list"

section \<open>The hex crate\<close>

locale hex_crate =
  fixes hex_encode :: "u8 list \<Rightarrow> string"
    and hex_array :: "nat \<Rightarrow> string \<Rightarrow> u8 list option"
  assumes hex_encode_lower: "hex_encode bs = lower_hex bs"
    and hex_array_lower: "length bs = n \<Longrightarrow> hex_array n (lower_hex bs) = Some bs"
    and hex_array_upper: "length bs = n \<Longrightarrow> hex_array n (upper_hex bs) = Some bs"
    and hex_array_Some: "hex_array n s = Some bs \<Longrightarrow>
       length bs = n \<and> length s = 2 * n \<and> list_all is_hexdigit s"

text \<open>A reference implementation, for evaluation.\<close>

fun hex_pairs :: "string \<Rightarrow> u8 list option" where
  "hex_pairs [] = Some []"
| "hex_pairs [c] = None"
| "hex_pairs (c # d # s) =
     (case (hex_value c, hex_value d, hex_pairs s) of
        (Some h, Some l, Some bs) \<Rightarrow> Some (of_nat (16 * h + l) # bs)
      | _ \<Rightarrow> None)"

definition ref_hex_array :: "nat \<Rightarrow> string \<Rightarrow> u8 list option" where
  "ref_hex_array n s = (if length s = 2 * n then hex_pairs s else None)"

lemma hex_pairs_lower: "hex_pairs (lower_hex bs) = Some bs"
  by (induction bs) (simp_all add: hex_simps)

lemma hex_pairs_upper: "hex_pairs (upper_hex bs) = Some bs"
  by (induction bs) (simp_all add: hex_simps)

lemma hex_value_is_hexdigit: "hex_value c = Some d \<Longrightarrow> is_hexdigit c"
  by (auto simp: hex_value_def is_hexdigit_def Let_def split: if_splits)

lemma hex_pairs_Some: "hex_pairs s = Some bs \<Longrightarrow> length s = 2 * length bs \<and> list_all is_hexdigit s"
proof (induction s arbitrary: bs rule: hex_pairs.induct)
  case (3 c d s)
  then show ?case by (auto split: option.splits intro: hex_value_is_hexdigit)
qed auto

interpretation ref_hex: hex_crate lower_hex ref_hex_array
  by unfold_locales
    (auto simp: ref_hex_array_def hex_pairs_lower hex_pairs_upper split: if_splits dest: hex_pairs_Some)

section \<open>Byte identifiers\<close>

locale byte_id =
  fixes len :: nat
    and bytes :: "'a \<Rightarrow> u8 list"
    and to_hex :: "'a \<Rightarrow> string"
    and from_hex :: "string \<Rightarrow> 'a result"
    and from_bytes :: "u8 list \<Rightarrow> 'a result"
  assumes from_bytes_iff: "from_bytes bs = Inr a \<longleftrightarrow> length bs = len \<and> bytes a = bs"
    and to_hex_lower: "to_hex a = lower_hex (bytes a)"
    and from_hex_lower: "length bs = len \<Longrightarrow> from_hex (lower_hex bs) = from_bytes bs"
    and from_hex_Inr: "from_hex s = Inr a \<Longrightarrow> length (bytes a) = len \<and> length s = 2 * len"
begin

lemma from_to_hex: "length (bytes a) = len \<Longrightarrow> from_hex (to_hex a) = Inr a"
  using from_hex_lower from_bytes_iff by (simp add: to_hex_lower)

lemma to_hex_inj: "length (bytes a) = len \<Longrightarrow> length (bytes b) = len \<Longrightarrow> to_hex a = to_hex b \<Longrightarrow> a = b"
  using from_to_hex by (metis sum.inject(2))

lemma from_hex_canonical: "from_hex s = Inr a \<Longrightarrow> from_hex (to_hex a) = Inr a"
  using from_hex_Inr from_to_hex by blast

lemma from_hex_wrong_length: "length s \<noteq> 2 * len \<Longrightarrow> \<not> is_ok (from_hex s)"
  using from_hex_Inr by (auto simp: is_ok_iff)

lemma from_bytes_bytes: "length (bytes a) = len \<Longrightarrow> from_bytes (bytes a) = Inr a"
  by (simp add: from_bytes_iff)

end

end
