(* ===== verification/Legacy_Address.thy ===== *)
theory Legacy_Address
  imports Hex_Id
begin

text \<open>
  The 16-byte account address of the chain before version 7
  (\<^verbatim>\<open>compatibility/src/version_five/legacy_address_v5.rs\<close>): construction, the short and the full
  hexadecimal forms, the literal parser that pads a short literal, and the serde form. The
  \<^verbatim>\<open>hex\<close> crate is a parameter, with its documented behaviour in the locale \<open>hex_crate\<close>.
\<close>

section \<open>The address\<close>

record LegacyAddressV5 =
  addr_bytes :: "u8 list"

definition ADDRESS_LENGTH :: nat where
  "ADDRESS_LENGTH = 16"

definition LegacyAddressV5_new :: "u8 list \<Rightarrow> LegacyAddressV5" where
  "LegacyAddressV5_new address = \<lparr>addr_bytes = address\<rparr>"

definition wf_address :: "LegacyAddressV5 \<Rightarrow> bool" where
  "wf_address a = (length (addr_bytes a) = ADDRESS_LENGTH)"

definition LEGACY_CORE_CODE_ADDRESS :: LegacyAddressV5 where
  "LEGACY_CORE_CODE_ADDRESS = LegacyAddressV5_new [0,0,0,0, 0,0,0,0, 0,0,0,0, 0,0,0,1]"

definition ADDRESS_ZERO :: LegacyAddressV5 where
  "ADDRESS_ZERO = \<lparr>addr_bytes = replicate ADDRESS_LENGTH 0\<rparr>"

definition AccountAddressParseError :: error where
  "AccountAddressParseError = Err ''unable to parse AccoutAddress''"

section \<open>Printing and parsing\<close>

definition short_str_lossless :: "(u8 list \<Rightarrow> string) \<Rightarrow> LegacyAddressV5 \<Rightarrow> string" where
  "short_str_lossless hex_encode self =
     (let hex_str = trim_start_matches CHR ''0'' (hex_encode (addr_bytes self)) in
      if hex_str = [] then ''0'' else hex_str)"

definition address_into_bytes :: "LegacyAddressV5 \<Rightarrow> u8 list" where
  "address_into_bytes self = addr_bytes self"

definition address_from_hex :: "(nat \<Rightarrow> string \<Rightarrow> u8 list option) \<Rightarrow> string \<Rightarrow> LegacyAddressV5 result" where
  "address_from_hex hex_array s =
     (case hex_array ADDRESS_LENGTH s of
        None \<Rightarrow> Inl AccountAddressParseError
      | Some bs \<Rightarrow> Inr \<lparr>addr_bytes = bs\<rparr>)"

definition address_from_bytes :: "u8 list \<Rightarrow> LegacyAddressV5 result" where
  "address_from_bytes bs =
     (if length bs = ADDRESS_LENGTH then Inr \<lparr>addr_bytes = bs\<rparr> else Inl AccountAddressParseError)"

definition address_from_hex_literal ::
  "(nat \<Rightarrow> string \<Rightarrow> u8 list option) \<Rightarrow> string \<Rightarrow> LegacyAddressV5 result" where
  "address_from_hex_literal hex_array literal =
     (if \<not> starts_with ''0x'' literal then Inl AccountAddressParseError
      else let hex_len = length literal - 2 in
        if hex_len < ADDRESS_LENGTH * 2
        then address_from_hex hex_array
               (replicate (ADDRESS_LENGTH * 2 - hex_len) CHR ''0'' @ drop 2 literal)
        else address_from_hex hex_array (drop 2 literal))"

definition address_to_hex_literal :: "(u8 list \<Rightarrow> string) \<Rightarrow> LegacyAddressV5 \<Rightarrow> string" where
  "address_to_hex_literal hex_encode self = ''0x'' @ short_str_lossless hex_encode self"

text \<open>\<^verbatim>\<open>LowerHex\<close> and \<^verbatim>\<open>UpperHex\<close>, whose first argument is the alternate flag of the formatter, and
  \<^verbatim>\<open>Display\<close> and \<^verbatim>\<open>Debug\<close>, which format with a fresh plain \<^verbatim>\<open>{:X}\<close>.\<close>

definition address_fmt_lower :: "bool \<Rightarrow> LegacyAddressV5 \<Rightarrow> string" where
  "address_fmt_lower alternate self = (if alternate then ''0x'' else []) @ lower_hex (addr_bytes self)"

definition address_fmt_upper :: "bool \<Rightarrow> LegacyAddressV5 \<Rightarrow> string" where
  "address_fmt_upper alternate self = (if alternate then ''0x'' else []) @ upper_hex (addr_bytes self)"

definition address_fmt_display :: "LegacyAddressV5 \<Rightarrow> string" where
  "address_fmt_display self = address_fmt_upper False self"

definition address_to_hex :: "LegacyAddressV5 \<Rightarrow> string" where
  "address_to_hex self = address_fmt_lower False self"

text \<open>The conversions: from a slice or a vector, from and to a \<^verbatim>\<open>String\<close>, and \<^verbatim>\<open>FromStr\<close>.\<close>

definition address_try_from_slice :: "u8 list \<Rightarrow> LegacyAddressV5 result" where
  "address_try_from_slice bs = address_from_bytes bs"

definition string_from_address :: "(u8 list \<Rightarrow> string) \<Rightarrow> LegacyAddressV5 \<Rightarrow> string" where
  "string_from_address hex_encode addr = hex_encode (addr_bytes addr)"

definition address_from_str :: "(nat \<Rightarrow> string \<Rightarrow> u8 list option) \<Rightarrow> string \<Rightarrow> LegacyAddressV5 result" where
  "address_from_str hex_array s = address_from_hex hex_array s"

definition address_deserialize ::
  "(nat \<Rightarrow> string \<Rightarrow> u8 list option) \<Rightarrow> bool \<Rightarrow> serde_value \<Rightarrow> LegacyAddressV5 result" where
  "address_deserialize hex_array human_readable v =
     (case (human_readable, v) of
        (True, SerStr s) \<Rightarrow> address_from_hex hex_array s
      | (False, SerNewtypeBytes n bs) \<Rightarrow>
          if n = ''LegacyAddressV5'' \<and> length bs = ADDRESS_LENGTH
          then Inr (LegacyAddressV5_new bs) else Inl (Err ''invalid type'')
      | _ \<Rightarrow> Inl (Err ''invalid type''))"

definition address_serialize :: "bool \<Rightarrow> LegacyAddressV5 \<Rightarrow> serde_value" where
  "address_serialize human_readable self =
     (if human_readable then SerStr (address_to_hex self)
      else SerNewtypeBytes ''LegacyAddressV5'' (addr_bytes self))"

section \<open>Identifier laws\<close>

lemma legacy_address_byte_id:
  assumes "hex_crate hex_encode hex_array"
  shows "byte_id ADDRESS_LENGTH addr_bytes address_to_hex (address_from_hex hex_array) address_from_bytes"
proof
  fix bs :: "u8 list" and a :: LegacyAddressV5
  show "address_from_bytes bs = Inr a \<longleftrightarrow> length bs = ADDRESS_LENGTH \<and> addr_bytes a = bs"
    by (auto simp: address_from_bytes_def)
  show "address_to_hex a = lower_hex (addr_bytes a)"
    by (simp add: address_to_hex_def address_fmt_lower_def)
  show "length bs = ADDRESS_LENGTH \<Longrightarrow> address_from_hex hex_array (lower_hex bs) = address_from_bytes bs"
    using hex_crate.hex_array_lower [OF assms, of bs ADDRESS_LENGTH]
    by (simp add: address_from_hex_def address_from_bytes_def)
next
  fix s and a :: LegacyAddressV5
  assume "address_from_hex hex_array s = Inr a"
  then show "length (addr_bytes a) = ADDRESS_LENGTH \<and> length s = 2 * ADDRESS_LENGTH"
    using hex_crate.hex_array_Some [OF assms]
    by (fastforce simp: address_from_hex_def split: option.splits)
qed

interpretation legacy_id: byte_id ADDRESS_LENGTH addr_bytes address_to_hex
  "address_from_hex ref_hex_array" address_from_bytes
  by (rule legacy_address_byte_id [OF ref_hex.hex_crate_axioms])

lemma repad_dropWhile:
  "replicate (length s - length (dropWhile (\<lambda>x. x = c) s)) c @ dropWhile (\<lambda>x. x = c) s = s"
  by (induction s) (simp_all add: Suc_diff_le length_dropWhile_le)

lemma dropWhile_Nil_replicate: "dropWhile (\<lambda>x. x = c) s = [] \<Longrightarrow> s = replicate (length s) c"
  by (induction s) (auto split: if_splits)

text \<open>A literal is read as its digits, padded with zeros on the left to 32.\<close>

lemma address_from_hex_literal_pads:
  "length s \<le> 32 \<Longrightarrow> address_from_hex_literal hex_array (''0x'' @ s) =
     address_from_hex hex_array (replicate (32 - length s) CHR ''0'' @ s)"
  by (simp add: address_from_hex_literal_def starts_with_def ADDRESS_LENGTH_def Let_def)

lemma short_str_repad:
  assumes "length s = 32"
  defines "t \<equiv> trim_start_matches CHR ''0'' s"
  defines "u \<equiv> if t = [] then ''0'' else t"
  shows "length u \<le> 32" "replicate (32 - length u) CHR ''0'' @ u = s"
proof -
  have "length t \<le> 32" using assms(1) length_dropWhile_le by (simp add: t_def trim_start_matches_def flip: assms(1))
  then show "length u \<le> 32" by (simp add: u_def)
  show "replicate (32 - length u) CHR ''0'' @ u = s"
  proof (cases "t = []")
    case True
    then have "s = replicate 32 CHR ''0''"
      using dropWhile_Nil_replicate assms(1) by (fastforce simp: t_def trim_start_matches_def)
    also have "\<dots> = replicate 31 CHR ''0'' @ ''0''" by (simp add: numeral_eq_Suc)
    finally show ?thesis using True by (simp add: u_def)
  next
    case False
    then have "u = dropWhile (\<lambda>x. x = CHR ''0'') s" by (auto simp: u_def t_def trim_start_matches_def)
    then show ?thesis using repad_dropWhile [of s "CHR ''0''"] assms(1) by simp
  qed
qed

lemma address_literal_roundtrip:
  assumes hex: "hex_crate hex_encode hex_array" and wf: "wf_address a"
  shows "address_from_hex_literal hex_array (address_to_hex_literal hex_encode a) = Inr a"
    "length (short_str_lossless hex_encode a) \<le> 32"
proof -
  have len: "length (addr_bytes a) = ADDRESS_LENGTH" using wf by (simp add: wf_address_def)
  let ?s = "lower_hex (addr_bytes a)" and ?u = "short_str_lossless hex_encode a"
  have s: "length ?s = 32" using len by (simp add: ADDRESS_LENGTH_def)
  have u: "length ?u \<le> 32" "replicate (32 - length ?u) CHR ''0'' @ ?u = ?s"
    using short_str_repad [OF s] hex_crate.hex_encode_lower [OF hex]
    by (simp_all add: short_str_lossless_def Let_def)
  then show "length ?u \<le> 32" by simp
  show "address_from_hex_literal hex_array (address_to_hex_literal hex_encode a) = Inr a"
    using byte_id.from_to_hex [OF legacy_address_byte_id [OF hex], OF len] u
    by (simp add: address_to_hex_literal_def address_from_hex_literal_pads [OF u(1), simplified]
      address_to_hex_def address_fmt_lower_def)
qed

section \<open>Properties\<close>

text \<open>C24. Every text form of a legacy address parses back to the address: the full hexadecimal form, the
  short \<^verbatim>\<open>0x\<close> literal without leading zeros, the upper-case display, and the serialized form in both
  modes. The short literal has at most 34 characters.\<close>

theorem legacy_address_roundtrip:
  assumes hex: "hex_crate hex_encode hex_array" and wf: "wf_address a"
  shows "address_from_hex hex_array (address_to_hex a) = Inr a \<and>
    address_from_hex_literal hex_array (address_to_hex_literal hex_encode a) = Inr a \<and>
    length (address_to_hex_literal hex_encode a) \<le> 34 \<and>
    address_from_str hex_array (address_fmt_display a) = Inr a \<and>
    address_deserialize hex_array hr (address_serialize hr a) = Inr a"
proof -
  have len: "length (addr_bytes a) = ADDRESS_LENGTH" using wf by (simp add: wf_address_def)
  have h: "address_from_hex hex_array (address_to_hex a) = Inr a"
    using byte_id.from_to_hex [OF legacy_address_byte_id [OF hex]] len by simp
  note l = address_literal_roundtrip [OF hex wf]
  have d: "address_from_str hex_array (address_fmt_display a) = Inr a"
    using hex_crate.hex_array_upper [OF hex len] by (simp add: address_from_str_def address_fmt_display_def
      address_fmt_upper_def address_from_hex_def)
  from h l d len show ?thesis
    by (cases hr) (auto simp: address_to_hex_literal_def address_deserialize_def address_serialize_def
      LegacyAddressV5_new_def)
qed

theorem legacy_address_roundtrip_witness:
  "address_from_hex_literal ref_hex_array (address_to_hex_literal lower_hex LEGACY_CORE_CODE_ADDRESS)
     = Inr LEGACY_CORE_CODE_ADDRESS \<and> address_to_hex_literal lower_hex LEGACY_CORE_CODE_ADDRESS = ''0x1''"
proof -
  have "wf_address LEGACY_CORE_CODE_ADDRESS"
    by (simp add: wf_address_def LEGACY_CORE_CODE_ADDRESS_def LegacyAddressV5_new_def ADDRESS_LENGTH_def)
  moreover have "address_to_hex_literal lower_hex LEGACY_CORE_CODE_ADDRESS = ''0x1''"
    by (simp add: address_to_hex_literal_def short_str_lossless_def trim_start_matches_def
      LEGACY_CORE_CODE_ADDRESS_def LegacyAddressV5_new_def lower_hex_Cons hex_char_def)
  ultimately show ?thesis using legacy_address_roundtrip [OF ref_hex.hex_crate_axioms] by blast
qed

text \<open>The literal parser accepts nothing else: an accepted literal starts with \<^verbatim>\<open>0x\<close>, has at most 32
  digits after it, each a hexadecimal digit, and yields a 16-byte address; a text without the prefix
  is rejected, although the documentation of the function calls the prefix optional.\<close>

theorem address_literal_accepts_only:
  assumes hex: "hex_crate hex_encode hex_array"
  shows "(address_from_hex_literal hex_array s = Inr a \<longrightarrow>
      starts_with ''0x'' s \<and> length s \<le> 34 \<and> list_all is_hexdigit (drop 2 s) \<and> wf_address a) \<and>
    (\<not> starts_with ''0x'' s \<longrightarrow> address_from_hex_literal hex_array s = Inl AccountAddressParseError)"
proof (intro conjI impI)
  assume a: "address_from_hex_literal hex_array s = Inr a"
  then have p: "starts_with ''0x'' s" by (auto simp: address_from_hex_literal_def split: if_splits)
  then have l2: "2 \<le> length s" by (auto simp: starts_with_iff)
  obtain z where z: "hex_array ADDRESS_LENGTH (replicate z CHR ''0'' @ drop 2 s) = Some (addr_bytes a)"
      "length s \<le> 34"
  proof (cases "length s - 2 < ADDRESS_LENGTH * 2")
    case True
    then show ?thesis using a p that [of "ADDRESS_LENGTH * 2 - (length s - 2)"]
      by (auto simp: address_from_hex_literal_def address_from_hex_def ADDRESS_LENGTH_def split: option.splits)
  next
    case False
    then have "hex_array ADDRESS_LENGTH (drop 2 s) = Some (addr_bytes a)" using a p
      by (auto simp: address_from_hex_literal_def address_from_hex_def split: option.splits)
    then show ?thesis using that [of 0] hex_crate.hex_array_Some [OF hex, of ADDRESS_LENGTH "drop 2 s"] l2
      by (auto simp: ADDRESS_LENGTH_def)
  qed
  from hex_crate.hex_array_Some [OF hex z(1)]
  show "list_all is_hexdigit (drop 2 s)" "wf_address a" by (auto simp: wf_address_def)
  from p z(2) show "starts_with ''0x'' s" "length s \<le> 34" .
qed (simp add: address_from_hex_literal_def)

theorem address_literal_accepts_only_witness:
  "address_from_hex_literal ref_hex_array ''ca84'' = Inl AccountAddressParseError"
  using address_literal_accepts_only [OF ref_hex.hex_crate_axioms, of "''ca84''"] by (simp add: starts_with_def)

end
