(* ===== verification/Type_Tags.thy ===== *)
theory Type_Tags
  imports Legacy_Address Bcs
begin

text \<open>
  The type tags of the chain before version 7
  (\<^verbatim>\<open>compatibility/src/version_five/language_storage_v5.rs\<close>) and their serialization with a bound on
  the nesting (\<^verbatim>\<open>compatibility/src/version_five/safe_serialize_v5.rs\<close>): the thread-local counter is a
  state that the derived serializers thread through, \<open>TYPE_TAG_DEPTH\<close>.

  The serde format is a parameter (the record \<open>serde_format\<close>: how a variant index, a sequence length,
  a byte array of known length and a string are written and read); the locale \<open>serde_binary\<close> states
  that reading inverts writing and leaves the rest of the input, and is interpreted on the reference
  encoding of \<open>Bcs\<close>. The derived implementations write the fields in order.
\<close>

section \<open>Tags\<close>

datatype TypeTagV5 =
    TagBool | TagU8 | TagU64 | TagU128 | TagAddress | TagSigner
  | TagVector TypeTagV5
  | TagStruct StructTagV5
and StructTagV5 =
    StructTagV5 (tag_address: LegacyAddressV5) (tag_module: string) (tag_name: string)
      (tag_type_params: "TypeTagV5 list")

record ModuleIdV5 =
  module_address :: LegacyAddressV5
  module_ident :: string

record ResourceKeyV5 =
  resource_address :: LegacyAddressV5
  resource_type :: StructTagV5

definition CODE_TAG :: u8 where
  "CODE_TAG = 0"

definition RESOURCE_TAG :: u8 where
  "RESOURCE_TAG = 1"

definition ModuleIdV5_new :: "LegacyAddressV5 \<Rightarrow> string \<Rightarrow> ModuleIdV5" where
  "ModuleIdV5_new a name = \<lparr>module_address = a, module_ident = name\<rparr>"

definition ResourceKeyV5_new :: "LegacyAddressV5 \<Rightarrow> StructTagV5 \<Rightarrow> ResourceKeyV5" where
  "ResourceKeyV5_new a ty = \<lparr>resource_address = a, resource_type = ty\<rparr>"

definition module_id :: "StructTagV5 \<Rightarrow> ModuleIdV5" where
  "module_id self = ModuleIdV5_new (tag_address self) (tag_module self)"

definition type_tag_from_struct :: "StructTagV5 \<Rightarrow> TypeTagV5" where
  "type_tag_from_struct t = TagStruct t"

section \<open>The format\<close>

record serde_format =
  put_variant :: "nat \<Rightarrow> u8 list"
  get_variant :: "nat parser"
  put_len :: "nat \<Rightarrow> u8 list result"
  get_len :: "nat parser"
  put_fixed :: "u8 list \<Rightarrow> u8 list"
  get_fixed :: "nat \<Rightarrow> u8 list parser"
  put_str :: "string \<Rightarrow> u8 list result"
  get_str :: "string parser"

locale serde_binary =
  fixes F :: serde_format
  assumes variant: "i < 2 ^ 32 \<Longrightarrow> get_variant F (put_variant F i @ r) = Some (i, r)"
    and len: "put_len F n = Inr bs \<Longrightarrow> get_len F (bs @ r) = Some (n, r)"
    and len_ok: "n \<le> MAX_SEQUENCE_LENGTH \<Longrightarrow> is_ok (put_len F n)"
    and fixed: "length bs = n \<Longrightarrow> get_fixed F n (put_fixed F bs @ r) = Some (bs, r)"
    and str: "put_str F s = Inr bs \<Longrightarrow> get_str F (bs @ r) = Some (s, r)"
    and str_ok: "short s \<Longrightarrow> is_ok (put_str F s)"

text \<open>The reference encoding: ULEB128 for indices and lengths, byte arrays without a prefix, strings
  with their length.\<close>

definition ref_format :: serde_format where
  "ref_format =
     \<lparr>put_variant = uleb128, get_variant = uleb128_parse,
      put_len = (\<lambda>n. if n \<le> MAX_SEQUENCE_LENGTH then Inr (uleb128 n) else Inl (Err ''ExceededMaxLen'')),
      get_len = uleb128_parse,
      put_fixed = id,
      get_fixed = (\<lambda>n bs. if n \<le> length bs then Some (take n bs, drop n bs) else None),
      put_str = (\<lambda>s. if short s then Inr (vec_enc (word_enc 1 :: u8 \<Rightarrow> _) (map of_char s))
                     else Inl (Err ''ExceededMaxLen'')),
      get_str = (\<lambda>bs. map_option (\<lambda>(cs, r). (map (\<lambda>c. char_of (unat c)) cs, r)) (vec_dec (word_dec 1 :: u8 parser) bs))\<rparr>"

lemma char_of_u8 [simp]: "char_of (unat (of_char c :: u8)) = c"
proof -
  have "(of_char c :: u8) = of_nat (of_char c)" by (simp add: of_nat_of_char)
  then have "unat (of_char c :: u8) = of_char c" by (simp add: unat_of_nat)
  then show ?thesis by simp
qed

interpretation ref_format: serde_binary ref_format
proof
  show "put_str ref_format s = Inr bs \<Longrightarrow> get_str ref_format (bs @ r) = Some (s, r)" for s bs r
    using vec_parses [OF word_parses [of 1, where 'a = 8]]
    by (auto simp: ref_format_def parses_def comp_def split: if_splits)
qed (use uleb128_parses in \<open>auto simp: ref_format_def parses_def split: if_splits\<close>)

section \<open>Serialization with a nesting bound\<close>

text \<open>A computation that may fail and that reads and writes the counter \<^verbatim>\<open>TYPE_TAG_DEPTH\<close>.\<close>

type_synonym 'a depth_io = "u8 \<Rightarrow> 'a result \<times> u8"

definition depth_lift :: "'a result \<Rightarrow> 'a depth_io" where
  "depth_lift r depth = (r, depth)"

definition depth_bind :: "'a depth_io \<Rightarrow> ('a \<Rightarrow> 'b depth_io) \<Rightarrow> 'b depth_io" where
  "depth_bind m f depth = (case m depth of (Inl e, depth') \<Rightarrow> (Inl e, depth') | (Inr x, depth') \<Rightarrow> f x depth')"

definition MAX_TYPE_TAG_NESTING :: u8 where
  "MAX_TYPE_TAG_NESTING = 9"

definition ser_nesting_exceeded :: error where
  "ser_nesting_exceeded = Err ''type tag nesting exceeded during serialization''"

definition de_nesting_exceeded :: error where
  "de_nesting_exceeded = Err ''type tag nesting exceeded during deserialization''"

definition type_tag_recursive_serialize :: "'a depth_io \<Rightarrow> 'a depth_io" where
  "type_tag_recursive_serialize serialize depth =
     (if MAX_TYPE_TAG_NESTING \<le> depth then (Inl ser_nesting_exceeded, depth)
      else case serialize (depth + 1) of (res, depth') \<Rightarrow> (res, depth' - 1))"

definition type_tag_recursive_deserialize :: "'a depth_io \<Rightarrow> 'a depth_io" where
  "type_tag_recursive_deserialize deserialize depth =
     (if MAX_TYPE_TAG_NESTING - 1 \<le> depth then (Inl de_nesting_exceeded, depth)
      else case deserialize (depth + 1) of (res, depth') \<Rightarrow> (res, depth' - 1))"

text \<open>The two parts of an encoding, one after the other.\<close>

definition ser_then :: "u8 list depth_io \<Rightarrow> u8 list depth_io \<Rightarrow> u8 list depth_io" where
  "ser_then m n = depth_bind m (\<lambda>bs. depth_bind n (\<lambda>cs. depth_lift (Inr (bs @ cs))))"

definition ser_address :: "serde_format \<Rightarrow> LegacyAddressV5 \<Rightarrow> u8 list result" where
  "ser_address F a =
     (case address_serialize False a of SerNewtypeBytes _ bs \<Rightarrow> Inr (put_fixed F bs) | SerStr s \<Rightarrow> put_str F s)"

fun ser_type_tag :: "serde_format \<Rightarrow> TypeTagV5 \<Rightarrow> u8 list depth_io"
  and ser_struct_tag :: "serde_format \<Rightarrow> StructTagV5 \<Rightarrow> u8 list depth_io"
  and ser_type_tags :: "serde_format \<Rightarrow> TypeTagV5 list \<Rightarrow> u8 list depth_io" where
  "ser_type_tag F TagBool = depth_lift (Inr (put_variant F 0))"
| "ser_type_tag F TagU8 = depth_lift (Inr (put_variant F 1))"
| "ser_type_tag F TagU64 = depth_lift (Inr (put_variant F 2))"
| "ser_type_tag F TagU128 = depth_lift (Inr (put_variant F 3))"
| "ser_type_tag F TagAddress = depth_lift (Inr (put_variant F 4))"
| "ser_type_tag F TagSigner = depth_lift (Inr (put_variant F 5))"
| "ser_type_tag F (TagVector t) =
     ser_then (depth_lift (Inr (put_variant F 6))) (type_tag_recursive_serialize (ser_type_tag F t))"
| "ser_type_tag F (TagStruct s) =
     ser_then (depth_lift (Inr (put_variant F 7))) (type_tag_recursive_serialize (ser_struct_tag F s))"
| "ser_struct_tag F (StructTagV5 a m n ts) =
     ser_then (depth_lift (ser_address F a))
       (ser_then (depth_lift (put_str F m))
          (ser_then (depth_lift (put_str F n))
             (ser_then (depth_lift (put_len F (length ts))) (ser_type_tags F ts))))"
| "ser_type_tags F [] = depth_lift (Inr [])"
| "ser_type_tags F (t # ts) = ser_then (ser_type_tag F t) (ser_type_tags F ts)"

definition ser_module_id :: "serde_format \<Rightarrow> ModuleIdV5 \<Rightarrow> u8 list result" where
  "ser_module_id F m = and_then (ser_address F (module_address m)) (\<lambda>bs.
     and_then (put_str F (module_ident m)) (\<lambda>cs. Inr (bs @ cs)))"

text \<open>Reading. The recursion is bounded by the nesting alone, so the reader takes that many steps of
  fuel; \<open>de_type_tag_fuel\<close> below shows that more fuel changes nothing.\<close>

definition de_part :: "'a parser \<Rightarrow> u8 list \<Rightarrow> ('a \<times> u8 list) depth_io" where
  "de_part get bs = depth_lift (ok_or ''bcs'' (get bs))"

definition de_address :: "serde_format \<Rightarrow> LegacyAddressV5 parser" where
  "de_address F bs = (case get_fixed F ADDRESS_LENGTH bs of
     None \<Rightarrow> None
   | Some (a, r) \<Rightarrow> (case address_deserialize (\<lambda>_ _. None) False (SerNewtypeBytes ''LegacyAddressV5'' a) of
       Inl _ \<Rightarrow> None | Inr a \<Rightarrow> Some (a, r)))"

fun de_elements :: "(u8 list \<Rightarrow> ('a \<times> u8 list) depth_io) \<Rightarrow> nat \<Rightarrow> u8 list \<Rightarrow> ('a list \<times> u8 list) depth_io" where
  "de_elements get 0 bs = depth_lift (Inr ([], bs))"
| "de_elements get (Suc n) bs =
     depth_bind (get bs) (\<lambda>(x, r). depth_bind (de_elements get n r) (\<lambda>(xs, r). depth_lift (Inr (x # xs, r))))"

definition de_struct_tag_with ::
  "serde_format \<Rightarrow> (u8 list \<Rightarrow> (TypeTagV5 \<times> u8 list) depth_io) \<Rightarrow> u8 list \<Rightarrow> (StructTagV5 \<times> u8 list) depth_io" where
  "de_struct_tag_with F get bs =
     depth_bind (de_part (de_address F) bs) (\<lambda>(a, r).
     depth_bind (de_part (get_str F) r) (\<lambda>(m, r).
     depth_bind (de_part (get_str F) r) (\<lambda>(n, r).
     depth_bind (de_part (get_len F) r) (\<lambda>(k, r).
     depth_bind (de_elements get k r) (\<lambda>(ts, r).
     depth_lift (Inr (StructTagV5 a m n ts, r)))))))"

fun de_type_tag :: "serde_format \<Rightarrow> nat \<Rightarrow> u8 list \<Rightarrow> (TypeTagV5 \<times> u8 list) depth_io" where
  "de_type_tag F 0 bs = depth_lift (Inl (Err ''fuel''))"
| "de_type_tag F (Suc k) bs =
     depth_bind (de_part (get_variant F) bs) (\<lambda>(i, r).
       if i = 0 then depth_lift (Inr (TagBool, r))
       else if i = 1 then depth_lift (Inr (TagU8, r))
       else if i = 2 then depth_lift (Inr (TagU64, r))
       else if i = 3 then depth_lift (Inr (TagU128, r))
       else if i = 4 then depth_lift (Inr (TagAddress, r))
       else if i = 5 then depth_lift (Inr (TagSigner, r))
       else if i = 6 then depth_bind (type_tag_recursive_deserialize (de_type_tag F k r))
         (\<lambda>(t, r). depth_lift (Inr (TagVector t, r)))
       else if i = 7 then depth_bind (type_tag_recursive_deserialize (de_struct_tag_with F (de_type_tag F k) r))
         (\<lambda>(s, r). depth_lift (Inr (TagStruct s, r)))
       else depth_lift (Inl (Err ''variant index'')))"

definition NESTING_FUEL :: nat where
  "NESTING_FUEL = 9"

text \<open>\<^verbatim>\<open>bcs::to_bytes\<close> and \<^verbatim>\<open>bcs::from_bytes\<close>, which rejects input that is left over.\<close>

definition type_tag_to_bytes :: "serde_format \<Rightarrow> TypeTagV5 \<Rightarrow> u8 list depth_io" where
  "type_tag_to_bytes F t = ser_type_tag F t"

definition all_read :: "'a \<times> u8 list \<Rightarrow> 'a depth_io" where
  "all_read x = depth_lift (if snd x = [] then Inr (fst x) else Inl (Err ''remaining input''))"

definition type_tag_from_bytes :: "serde_format \<Rightarrow> u8 list \<Rightarrow> TypeTagV5 depth_io" where
  "type_tag_from_bytes F bs = depth_bind (de_type_tag F NESTING_FUEL bs) all_read"

definition struct_tag_from_bytes :: "serde_format \<Rightarrow> u8 list \<Rightarrow> StructTagV5 depth_io" where
  "struct_tag_from_bytes F bs = depth_bind (de_struct_tag_with F (de_type_tag F NESTING_FUEL) bs) all_read"

text \<open>The keys of the account state: the tag byte, then the serialized path.\<close>

definition struct_access_vector :: "serde_format \<Rightarrow> StructTagV5 \<Rightarrow> u8 list depth_io" where
  "struct_access_vector F self depth =
     (case ser_struct_tag F self depth of (r, depth') \<Rightarrow>
        (and_then (expect ''called Result::unwrap() on an Err value'' r) (\<lambda>bs. Inr (RESOURCE_TAG # bs)), depth'))"

definition module_access_vector :: "serde_format \<Rightarrow> ModuleIdV5 \<Rightarrow> u8 list result" where
  "module_access_vector F self =
     and_then (expect ''called Result::unwrap() on an Err value'' (ser_module_id F self)) (\<lambda>bs. Inr (CODE_TAG # bs))"

section \<open>Display\<close>

definition fmt_module_id :: "ModuleIdV5 \<Rightarrow> string" where
  "fmt_module_id self = address_fmt_display (module_address self) @ ''::'' @ module_ident self"

fun fmt_struct_tag :: "(u8 list \<Rightarrow> string) \<Rightarrow> StructTagV5 \<Rightarrow> string"
  and fmt_type_tag :: "(u8 list \<Rightarrow> string) \<Rightarrow> TypeTagV5 \<Rightarrow> string"
  and fmt_type_tags :: "(u8 list \<Rightarrow> string) \<Rightarrow> TypeTagV5 list \<Rightarrow> string" where
  "fmt_struct_tag hex_encode (StructTagV5 a m n ts) =
     ''0x'' @ short_str_lossless hex_encode a @ ''::'' @ m @ ''::'' @ n @
     (case ts of [] \<Rightarrow> []
      | t # ts \<Rightarrow> ''<'' @ fmt_type_tag hex_encode t @ fmt_type_tags hex_encode ts @ ''>'')"
| "fmt_type_tag hex_encode (TagStruct s) = fmt_struct_tag hex_encode s"
| "fmt_type_tag hex_encode (TagVector t) = ''vector<'' @ fmt_type_tag hex_encode t @ ''>''"
| "fmt_type_tag hex_encode TagU8 = ''u8''"
| "fmt_type_tag hex_encode TagU64 = ''u64''"
| "fmt_type_tag hex_encode TagU128 = ''u128''"
| "fmt_type_tag hex_encode TagAddress = ''address''"
| "fmt_type_tag hex_encode TagSigner = ''signer''"
| "fmt_type_tag hex_encode TagBool = ''bool''"
| "fmt_type_tags hex_encode [] = []"
| "fmt_type_tags hex_encode (t # ts) = '', '' @ fmt_type_tag hex_encode t @ fmt_type_tags hex_encode ts"

definition fmt_resource_key :: "(u8 list \<Rightarrow> string) \<Rightarrow> ResourceKeyV5 \<Rightarrow> string" where
  "fmt_resource_key hex_encode self =
     ''0x'' @ short_str_lossless hex_encode (resource_address self) @ ''/'' @ fmt_struct_tag hex_encode (resource_type self)"

section \<open>The counter\<close>

text \<open>Every serializer and deserializer leaves the counter as it found it, whether it fails or not.\<close>

definition restores :: "'a depth_io \<Rightarrow> bool" where
  "restores m \<longleftrightarrow> (\<forall>depth. snd (m depth) = depth)"

named_theorems restores_intros \<open>computations that restore the nesting counter\<close>

lemma restores_lift [restores_intros]: "restores (depth_lift r)"
  by (simp add: restores_def depth_lift_def)

lemma restores_bind [restores_intros]: "restores m \<Longrightarrow> (\<And>x. restores (f x)) \<Longrightarrow> restores (depth_bind m f)"
  by (auto simp: restores_def depth_bind_def split: prod.splits sum.splits) (metis snd_conv)+

lemma restores_ser_rec [restores_intros]: "restores m \<Longrightarrow> restores (type_tag_recursive_serialize m)"
  by (simp add: restores_def type_tag_recursive_serialize_def case_prod_beta)

lemma restores_de_rec [restores_intros]: "restores m \<Longrightarrow> restores (type_tag_recursive_deserialize m)"
  by (simp add: restores_def type_tag_recursive_deserialize_def case_prod_beta)

lemma restores_ser_then [restores_intros]: "restores m \<Longrightarrow> restores n \<Longrightarrow> restores (ser_then m n)"
  by (simp add: ser_then_def restores_intros)

lemma restores_part [restores_intros]: "restores (de_part get bs)"
  by (simp add: de_part_def restores_intros)

lemma restores_all_read [restores_intros]: "restores (all_read x)"
  by (simp add: all_read_def restores_intros)

lemma ser_restores [restores_intros]:
  "restores (ser_type_tag F t)" "restores (ser_struct_tag F st)" "restores (ser_type_tags F ts)"
  by (induction F t and F st and F ts rule: ser_type_tag_ser_struct_tag_ser_type_tags.induct)
    (simp_all add: restores_intros)

lemma de_elements_restores [restores_intros]: "(\<And>bs. restores (get bs)) \<Longrightarrow> restores (de_elements get n bs)"
  by (induction n arbitrary: bs) (auto intro!: restores_intros)

lemma de_struct_restores [restores_intros]: "(\<And>bs. restores (get bs)) \<Longrightarrow> restores (de_struct_tag_with F get bs)"
  by (auto simp: de_struct_tag_with_def intro!: restores_intros)

lemma de_restores [restores_intros]: "restores (de_type_tag F k bs)"
  by (induction k arbitrary: bs) (auto intro!: restores_intros)

text \<open>So only the outcome matters.\<close>

definition outcome :: "'a depth_io \<Rightarrow> u8 \<Rightarrow> 'a result" where
  "outcome m depth = fst (m depth)"

lemma run_restores: "restores m \<Longrightarrow> m depth = (outcome m depth, depth)"
  by (simp add: restores_def outcome_def prod_eq_iff)

lemma outcome_lift [simp]: "outcome (depth_lift r) d = r"
  by (simp add: outcome_def depth_lift_def)

lemma outcome_bind: "restores m \<Longrightarrow> outcome (depth_bind m f) d = and_then (outcome m d) (\<lambda>x. outcome (f x) d)"
  by (cases "m d") (auto simp: outcome_def depth_bind_def restores_def split: sum.splits dest: spec [of _ d])

lemma outcome_ser_then: "restores m \<Longrightarrow> restores n \<Longrightarrow>
    outcome (ser_then m n) d = and_then (outcome m d) (\<lambda>bs. and_then (outcome n d) (\<lambda>cs. Inr (bs @ cs)))"
  by (simp add: ser_then_def outcome_bind restores_intros)

lemma outcome_ser_rec: "outcome (type_tag_recursive_serialize m) d =
    (if MAX_TYPE_TAG_NESTING \<le> d then Inl ser_nesting_exceeded else outcome m (d + 1))"
  by (simp add: outcome_def type_tag_recursive_serialize_def case_prod_beta)

lemma outcome_de_rec: "outcome (type_tag_recursive_deserialize m) d =
    (if MAX_TYPE_TAG_NESTING - 1 \<le> d then Inl de_nesting_exceeded else outcome m (d + 1))"
  by (simp add: outcome_def type_tag_recursive_deserialize_def case_prod_beta)

lemma outcome_part [simp]: "outcome (de_part get bs) d = ok_or ''bcs'' (get bs)"
  by (simp add: de_part_def)

lemmas outcome_simps = outcome_bind outcome_ser_then outcome_ser_rec outcome_de_rec restores_intros

section \<open>Nesting\<close>

fun type_nesting :: "TypeTagV5 \<Rightarrow> nat"
  and struct_nesting :: "StructTagV5 \<Rightarrow> nat"
  and tags_nesting :: "TypeTagV5 list \<Rightarrow> nat" where
  "type_nesting (TagVector t) = Suc (type_nesting t)"
| "type_nesting (TagStruct s) = Suc (struct_nesting s)"
| "type_nesting _ = 0"
| "struct_nesting (StructTagV5 a m n ts) = tags_nesting ts"
| "tags_nesting [] = 0"
| "tags_nesting (t # ts) = max (type_nesting t) (tags_nesting ts)"

text \<open>The tags that the format can write: addresses of 16 bytes, and names and parameter lists that are
  not too long.\<close>

fun type_tag_fits :: "serde_format \<Rightarrow> TypeTagV5 \<Rightarrow> bool"
  and struct_tag_fits :: "serde_format \<Rightarrow> StructTagV5 \<Rightarrow> bool"
  and type_tags_fit :: "serde_format \<Rightarrow> TypeTagV5 list \<Rightarrow> bool" where
  "type_tag_fits F (TagVector t) = type_tag_fits F t"
| "type_tag_fits F (TagStruct s) = struct_tag_fits F s"
| "type_tag_fits F _ = True"
| "struct_tag_fits F (StructTagV5 a m n ts) \<longleftrightarrow>
     is_ok (put_str F m) \<and> is_ok (put_str F n) \<and> is_ok (put_len F (length ts)) \<and> type_tags_fit F ts"
| "type_tags_fit F [] = True"
| "type_tags_fit F (t # ts) \<longleftrightarrow> type_tag_fits F t \<and> type_tags_fit F ts"

fun wf_type_tag :: "TypeTagV5 \<Rightarrow> bool"
  and wf_struct_tag :: "StructTagV5 \<Rightarrow> bool"
  and wf_type_tags :: "TypeTagV5 list \<Rightarrow> bool" where
  "wf_type_tag (TagVector t) = wf_type_tag t"
| "wf_type_tag (TagStruct s) = wf_struct_tag s"
| "wf_type_tag _ = True"
| "wf_struct_tag (StructTagV5 a m n ts) \<longleftrightarrow> wf_address a \<and> wf_type_tags ts"
| "wf_type_tags [] = True"
| "wf_type_tags (t # ts) \<longleftrightarrow> wf_type_tag t \<and> wf_type_tags ts"

lemma depth_step:
  assumes "\<not> m \<le> (d :: u8)"
  shows "unat (d + 1) = Suc (unat d)" "d + 1 \<le> m"
proof -
  have "unat d < unat m" using assms by (simp add: word_le_nat_alt)
  moreover have "unat m < 256" by simp
  ultimately have "Suc (unat d) < 256" by linarith
  then show "unat (d + 1) = Suc (unat d)" by (simp add: unat_word_ariths)
  with \<open>unat d < unat m\<close> show "d + 1 \<le> m" by (simp add: word_le_nat_alt)
qed

lemma is_ok_seq: "is_ok (and_then r (\<lambda>bs. and_then q (\<lambda>cs. Inr (f bs cs)))) \<longleftrightarrow> is_ok r \<and> is_ok q"
  by (cases r; cases q) simp_all

lemma is_ok_map: "is_ok (and_then r (\<lambda>x. Inr (f x))) \<longleftrightarrow> is_ok r"
  by (cases r) simp_all

lemma ser_address_Inr [simp]: "ser_address F a = Inr (put_fixed F (addr_bytes a))"
  by (simp add: ser_address_def address_serialize_def)

lemma ser_ok_iff:
  "d \<le> MAX_TYPE_TAG_NESTING \<Longrightarrow>
     is_ok (outcome (ser_type_tag F t) d) \<longleftrightarrow> type_tag_fits F t \<and> unat d + type_nesting t \<le> 9"
  "d \<le> MAX_TYPE_TAG_NESTING \<Longrightarrow>
     is_ok (outcome (ser_struct_tag F st) d) \<longleftrightarrow> struct_tag_fits F st \<and> unat d + struct_nesting st \<le> 9"
  "d \<le> MAX_TYPE_TAG_NESTING \<Longrightarrow>
     is_ok (outcome (ser_type_tags F ts) d) \<longleftrightarrow> type_tags_fit F ts \<and> unat d + tags_nesting ts \<le> 9"
proof (induction F t and F st and F ts arbitrary: d and d and d rule: ser_type_tag_ser_struct_tag_ser_type_tags.induct)
  case (7 F t)
  then show ?case using depth_step [of 9 d]
    by (auto simp: outcome_simps is_ok_seq is_ok_map MAX_TYPE_TAG_NESTING_def word_le_nat_alt)
next
  case (8 F s)
  then show ?case using depth_step [of 9 d]
    by (auto simp: outcome_simps is_ok_seq is_ok_map MAX_TYPE_TAG_NESTING_def word_le_nat_alt)
qed (auto simp: outcome_simps is_ok_seq is_ok_map MAX_TYPE_TAG_NESTING_def word_le_nat_alt)

lemma de_address_fixed:
  "get_fixed F ADDRESS_LENGTH bs = Some (addr_bytes a, r) \<Longrightarrow> wf_address a \<Longrightarrow> de_address F bs = Some (a, r)"
  by (simp add: de_address_def address_deserialize_def LegacyAddressV5_new_def wf_address_def)

lemma fuel_Suc: "8 < n + k \<Longrightarrow> n \<le> 8 \<Longrightarrow> (\<And>k'. k = Suc k' \<Longrightarrow> P) \<Longrightarrow> P" for n :: nat
  by (cases k) auto

context serde_binary
begin

lemma de_ser:
  "outcome (ser_type_tag F t) d' = Inr bs \<Longrightarrow> wf_type_tag t \<Longrightarrow> d \<le> 8 \<Longrightarrow> 8 < unat d + k \<Longrightarrow>
     outcome (de_type_tag F k (bs @ r)) d =
       (if unat d + type_nesting t \<le> 8 then Inr (t, r) else Inl de_nesting_exceeded)"
  "outcome (ser_struct_tag F st) d' = Inr bs \<Longrightarrow> wf_struct_tag st \<Longrightarrow> d \<le> 8 \<Longrightarrow> 8 < unat d + k \<Longrightarrow>
     outcome (de_struct_tag_with F (de_type_tag F k) (bs @ r)) d =
       (if unat d + struct_nesting st \<le> 8 then Inr (st, r) else Inl de_nesting_exceeded)"
  "outcome (ser_type_tags F ts) d' = Inr bs \<Longrightarrow> wf_type_tags ts \<Longrightarrow> d \<le> 8 \<Longrightarrow> 8 < unat d + k \<Longrightarrow>
     outcome (de_elements (de_type_tag F k) (length ts) (bs @ r)) d =
       (if unat d + tags_nesting ts \<le> 8 then Inr (ts, r) else Inl de_nesting_exceeded)"
proof (induction t and st and ts arbitrary: bs d d' k r and bs d d' k r and bs d d' k r
    rule: type_nesting_struct_nesting_tags_nesting.induct)
  case (1 t)
  then obtain k' cs where k: "k = Suc k'" and cs: "outcome (ser_type_tag F t) (d' + 1) = Inr cs" "bs = put_variant F 6 @ cs"
    using word_le_nat_alt [of d 8] by (cases k) (auto simp: outcome_simps and_then_eq_Inr split: if_splits)
  from 1 cs(1) k depth_step [of 8 d] show ?case
    by (auto simp: cs(2) variant outcome_simps MAX_TYPE_TAG_NESTING_def word_le_nat_alt)
next
  case (2 s)
  then obtain k' cs where k: "k = Suc k'" and cs: "outcome (ser_struct_tag F s) (d' + 1) = Inr cs" "bs = put_variant F 7 @ cs"
    using word_le_nat_alt [of d 8] by (cases k) (auto simp: outcome_simps and_then_eq_Inr split: if_splits)
  from 2 cs(1) k depth_step [of 8 d] show ?case
    by (auto simp: cs(2) variant outcome_simps MAX_TYPE_TAG_NESTING_def word_le_nat_alt)
next
  case (4 a m n ts)
  then obtain bm bn bl bt where b: "put_str F m = Inr bm" "put_str F n = Inr bn" "put_len F (length ts) = Inr bl"
      "outcome (ser_type_tags F ts) d' = Inr bt" "bs = put_fixed F (addr_bytes a) @ bm @ bn @ bl @ bt"
    by (auto simp: outcome_simps and_then_eq_Inr)
  have "de_address F (put_fixed F (addr_bytes a) @ q) = Some (a, q)" for q
    using 4 fixed by (intro de_address_fixed) (auto simp: wf_address_def)
  with 4 b show ?case by (simp add: de_struct_tag_with_def outcome_simps str len)
next
  case (6 t ts)
  then obtain b c where "outcome (ser_type_tag F t) d' = Inr b" "outcome (ser_type_tags F ts) d' = Inr c" "bs = b @ c"
    by (auto simp: outcome_simps and_then_eq_Inr)
  with 6 show ?case by (simp add: outcome_simps max_def)
qed (auto simp: outcome_simps variant word_le_nat_alt elim!: fuel_Suc)

lemma module_id_parts:
  "ser_module_id F m = Inr bs \<Longrightarrow> wf_address (module_address m) \<Longrightarrow>
     \<exists>r. get_fixed F ADDRESS_LENGTH bs = Some (addr_bytes (module_address m), r) \<and> get_str F r = Some (module_ident m, [])"
  using str [of "module_ident m" _ "[]"] fixed
  by (auto simp: ser_module_id_def and_then_eq_Inr wf_address_def)

end

section \<open>Fuel\<close>

lemma and_then_cong: "r = r' \<Longrightarrow> (\<And>x. r' = Inr x \<Longrightarrow> f x = f' x) \<Longrightarrow> and_then r f = and_then r' f'"
  by (cases r') simp_all

lemma outcome_if: "outcome (if b then m else n) d = (if b then outcome m d else outcome n d)"
  by simp

lemma de_elements_cong:
  assumes "\<And>bs. restores (g bs)" "\<And>bs. restores (g' bs)" "\<And>bs. outcome (g bs) d = outcome (g' bs) d"
  shows "outcome (de_elements g n bs) d = outcome (de_elements g' n bs) d"
proof (induction n arbitrary: bs)
  case (Suc n)
  then show ?case using assms by (auto simp: outcome_simps intro!: and_then_cong)
qed simp

lemma de_struct_cong:
  assumes "\<And>bs. restores (g bs)" "\<And>bs. restores (g' bs)" "\<And>bs. outcome (g bs) d = outcome (g' bs) d"
  shows "outcome (de_struct_tag_with F g bs) d = outcome (de_struct_tag_with F g' bs) d"
  using assms de_elements_cong [OF assms]
  by (auto simp: de_struct_tag_with_def outcome_simps intro!: and_then_cong)

lemma de_type_tag_fuel:
  "d \<le> 8 \<Longrightarrow> 8 < unat d + k \<Longrightarrow> 8 < unat d + k' \<Longrightarrow>
     outcome (de_type_tag F k bs) d = outcome (de_type_tag F k' bs) d"
proof (induction k arbitrary: k' d bs)
  case 0
  then show ?case by (simp add: word_le_nat_alt)
next
  case (Suc k)
  then obtain j where k': "k' = Suc j" by (cases k') (auto simp: word_le_nat_alt)
  have IH: "outcome (de_type_tag F k r) (d + 1) = outcome (de_type_tag F j r) (d + 1)" if "\<not> 8 \<le> d" for r
    using Suc.prems depth_step [OF that] by (intro Suc.IH) (simp_all add: k')
  have IHs: "outcome (de_struct_tag_with F (de_type_tag F k) r) (d + 1) =
      outcome (de_struct_tag_with F (de_type_tag F j) r) (d + 1)" if "\<not> 8 \<le> d" for r
    using IH [OF that] by (intro de_struct_cong) (simp_all add: restores_intros)
  have rec: "outcome (type_tag_recursive_deserialize (de_type_tag F k r)) d =
      outcome (type_tag_recursive_deserialize (de_type_tag F j r)) d"
    "outcome (type_tag_recursive_deserialize (de_struct_tag_with F (de_type_tag F k) r)) d =
      outcome (type_tag_recursive_deserialize (de_struct_tag_with F (de_type_tag F j) r)) d" for r
    using IH IHs by (simp_all add: outcome_de_rec MAX_TYPE_TAG_NESTING_def)
  show ?case unfolding k'
    by (simp only: de_type_tag.simps outcome_bind restores_intros case_prod_beta outcome_if rec cong: if_cong)
qed

section \<open>Properties of the encoding\<close>

lemma outcome_from_bytes:
  "outcome (type_tag_from_bytes F bs) d = and_then (outcome (de_type_tag F NESTING_FUEL bs) d) (\<lambda>x. outcome (all_read x) d)"
  by (simp add: type_tag_from_bytes_def outcome_simps)

text \<open>C31. The encoding of type tags is exact: with a format that reads what it writes, a tag whose names and
  parameter lists fit the format is encoded if and only if it is nested at most 9 deep, its encoding
  is decoded to the same tag if and only if it is nested at most 8 deep, and a tag nested 9 deep is
  written but rejected on reading. Encoding and decoding both leave the nesting counter at zero,
  also when they fail, and no more than nine levels of recursion are ever needed.\<close>

theorem type_tag_roundtrip:
  assumes F: "serde_binary F" and wf: "wf_type_tag t" "type_tag_fits F t"
  shows "snd (type_tag_to_bytes F t 0) = 0 \<and> snd (type_tag_from_bytes F bs 0) = 0 \<and>
    (is_ok (fst (type_tag_to_bytes F t 0)) \<longleftrightarrow> type_nesting t \<le> 9) \<and>
    (fst (type_tag_to_bytes F t 0) = Inr bs \<longrightarrow>
       fst (type_tag_from_bytes F bs 0) = (if type_nesting t \<le> 8 then Inr t else Inl de_nesting_exceeded)) \<and>
    (\<forall>k \<ge> NESTING_FUEL. fst (de_type_tag F k bs 0) = fst (de_type_tag F NESTING_FUEL bs 0))"
proof (intro conjI)
  have "restores (type_tag_to_bytes F t)" "restores (type_tag_from_bytes F bs)"
    by (auto simp: type_tag_to_bytes_def type_tag_from_bytes_def intro!: restores_intros)
  then show "snd (type_tag_to_bytes F t 0) = 0" "snd (type_tag_from_bytes F bs 0) = 0" by (auto simp: restores_def)
  show "is_ok (fst (type_tag_to_bytes F t 0)) \<longleftrightarrow> type_nesting t \<le> 9"
    using ser_ok_iff(1) [of 0 F t] wf(2) by (simp add: type_tag_to_bytes_def outcome_def MAX_TYPE_TAG_NESTING_def)
  show "fst (type_tag_to_bytes F t 0) = Inr bs \<longrightarrow>
       fst (type_tag_from_bytes F bs 0) = (if type_nesting t \<le> 8 then Inr t else Inl de_nesting_exceeded)"
    using serde_binary.de_ser(1) [OF F _ wf(1), of 0 bs 0 NESTING_FUEL "[]"] outcome_from_bytes [of F bs 0]
    by (simp add: type_tag_to_bytes_def outcome_def [symmetric] NESTING_FUEL_def) (simp add: all_read_def)
  show "\<forall>k \<ge> NESTING_FUEL. fst (de_type_tag F k bs 0) = fst (de_type_tag F NESTING_FUEL bs 0)"
    unfolding outcome_def [symmetric]
    by (intro allI impI de_type_tag_fuel) (simp_all add: NESTING_FUEL_def)
qed

theorem type_tag_roundtrip_witness:
  "let nine = (TagVector ^^ 9) TagBool; bs = replicate 9 6 @ [0] in
     fst (type_tag_to_bytes ref_format nine 0) = Inr bs \<and>
     type_tag_from_bytes ref_format bs 0 = (Inl de_nesting_exceeded, 0) \<and>
     fst (type_tag_from_bytes ref_format (replicate 8 6 @ [0]) 0) = Inr ((TagVector ^^ 8) TagBool)"
proof -
  let ?n = "\<lambda>k. (TagVector ^^ k) TagBool"
  have u: "uleb128 6 = [6]" "uleb128 0 = [0]" by (simp_all add: uleb128.simps)
  have ser: "unat d + k \<le> 9 \<Longrightarrow> outcome (ser_type_tag ref_format (?n k)) d = Inr (replicate k 6 @ [0])" for k d
  proof (induction k arbitrary: d)
    case (Suc k)
    then have d: "\<not> 9 \<le> d" by (simp add: word_le_nat_alt)
    show ?case using Suc depth_step [OF d] d
      by (simp add: outcome_simps MAX_TYPE_TAG_NESTING_def) (simp add: ref_format_def u)
  qed (simp add: ref_format_def u)
  have n: "type_nesting (?n k) = k" "wf_type_tag (?n k)" "type_tag_fits ref_format (?n k)" for k
    by (induction k) simp_all
  note rt = type_tag_roundtrip [OF ref_format.serde_binary_axioms n(2,3), unfolded n]
  have to: "k \<le> 9 \<Longrightarrow> fst (type_tag_to_bytes ref_format (?n k) 0) = Inr (replicate k 6 @ [0])" for k
    using ser [of 0 k] by (simp add: type_tag_to_bytes_def outcome_def)
  have "k \<le> 9 \<Longrightarrow> fst (type_tag_from_bytes ref_format (replicate k 6 @ [0]) 0) =
      (if k \<le> 8 then Inr (?n k) else Inl de_nesting_exceeded)" for k
    using rt [of k "replicate k 6 @ [0]"] to [of k] by blast
  note this [of 9] this [of 8]
  moreover have "snd (type_tag_from_bytes ref_format (replicate 9 6 @ [0]) 0) = 0"
    using rt [of 0 "replicate 9 6 @ [0]"] by blast
  ultimately show ?thesis using to [of 9] by (simp del: funpow.simps add: Let_def prod_eq_iff)
qed

text \<open>The keys of an account state identify what they name: the key of a resource starts with the resource
  byte and decodes to the tag it was built from, two modules with the same key are the same module,
  and no module has the key of a resource. Building the key of a tag nested more than 9 deep, or
  with a name that is too long, panics.\<close>

theorem access_vector_identifies:
  assumes F: "serde_binary F" and wf: "wf_struct_tag st" "wf_address (module_address m)" "wf_address (module_address m')"
  shows "(fst (struct_access_vector F st 0) = Inr key \<and> struct_nesting st \<le> 8 \<longrightarrow>
       hd key = RESOURCE_TAG \<and> fst (struct_tag_from_bytes F (tl key) 0) = Inr st) \<and>
    (module_access_vector F m = Inr key \<and> module_access_vector F m' = Inr key \<longrightarrow> m = m') \<and>
    \<not> (module_access_vector F m = Inr key \<and> fst (struct_access_vector F st 0) = Inr key) \<and>
    (if struct_tag_fits F st \<and> struct_nesting st \<le> 9 then is_ok (fst (struct_access_vector F st 0))
     else fst (struct_access_vector F st 0) = Inl (Panic ''called Result::unwrap() on an Err value''))"
proof -
  have sav: "fst (struct_access_vector F st 0) =
      and_then (expect ''called Result::unwrap() on an Err value'' (outcome (ser_struct_tag F st) 0)) (\<lambda>bs. Inr (RESOURCE_TAG # bs))"
    by (simp add: struct_access_vector_def outcome_def case_prod_beta)
  have 1: "hd key = RESOURCE_TAG \<and> fst (struct_tag_from_bytes F (tl key) 0) = Inr st"
    if k: "fst (struct_access_vector F st 0) = Inr key" "struct_nesting st \<le> 8"
  proof -
    obtain bs where bs: "outcome (ser_struct_tag F st) 0 = Inr bs" "key = RESOURCE_TAG # bs"
      using k(1) by (auto simp: sav and_then_eq_Inr expect_eq_Inr)
    have "outcome (struct_tag_from_bytes F bs) 0 = Inr st"
      using serde_binary.de_ser(2) [OF F bs(1) wf(1), of 0 NESTING_FUEL "[]"] k(2)
      by (simp add: struct_tag_from_bytes_def outcome_simps NESTING_FUEL_def) (simp add: all_read_def)
    then show ?thesis by (simp add: bs(2) outcome_def)
  qed
  have 2: "m = m'" if k: "module_access_vector F m = Inr key" "module_access_vector F m' = Inr key"
  proof -
    obtain bs where bs: "ser_module_id F m = Inr bs" "ser_module_id F m' = Inr bs"
      using k by (auto simp: module_access_vector_def and_then_eq_Inr expect_eq_Inr)
    from serde_binary.module_id_parts [OF F bs(1) wf(2)] serde_binary.module_id_parts [OF F bs(2) wf(3)]
    show ?thesis by (cases m; cases m'; cases "module_address m"; cases "module_address m'") auto
  qed
  have 3: "key' \<noteq> key" if "module_access_vector F m = Inr key" "fst (struct_access_vector F st 0) = Inr key'" for key'
    using that by (auto simp: sav module_access_vector_def and_then_eq_Inr CODE_TAG_def RESOURCE_TAG_def)
  show ?thesis
    using 1 2 3 [of key] ser_ok_iff(2) [of 0 F st]
    by (cases "outcome (ser_struct_tag F st) 0") (auto simp: sav MAX_TYPE_TAG_NESTING_def)
qed

definition example_resource :: StructTagV5 where
  "example_resource = StructTagV5 LEGACY_CORE_CODE_ADDRESS ''GAS'' ''GAS'' [TagVector TagU8, TagU64]"

theorem access_vector_identifies_witness:
  "\<exists>key. fst (struct_access_vector ref_format example_resource 0) = Inr key \<and>
     fst (struct_tag_from_bytes ref_format (tl key) 0) = Inr example_resource \<and>
     module_access_vector ref_format (module_id example_resource) \<noteq> Inr key"
proof -
  have wf: "wf_address LEGACY_CORE_CODE_ADDRESS"
    by (simp add: wf_address_def LEGACY_CORE_CODE_ADDRESS_def LegacyAddressV5_new_def ADDRESS_LENGTH_def)
  have e: "wf_struct_tag example_resource" "struct_nesting example_resource \<le> 8"
      "wf_address (module_address (module_id example_resource))" "struct_tag_fits ref_format example_resource"
    by (simp_all add: example_resource_def wf module_id_def ModuleIdV5_new_def ref_format_def)
  note av = access_vector_identifies [OF ref_format.serde_binary_axioms e(1,3,3)]
  from av [of undefined] e obtain key where "fst (struct_access_vector ref_format example_resource 0) = Inr key"
    by (auto simp: is_ok_iff)
  with av [of key] e(2) show ?thesis by blast
qed

section \<open>Display is injective\<close>

text \<open>The characters of Move identifiers.\<close>

definition ident_char :: "char \<Rightarrow> bool" where
  "ident_char c = (let n = of_char c :: nat in
     48 \<le> n \<and> n \<le> 57 \<or> 97 \<le> n \<and> n \<le> 122 \<or> 65 \<le> n \<and> n \<le> 90 \<or> n = 95)"

abbreviation plain_ident :: "string \<Rightarrow> bool" where
  "plain_ident s \<equiv> list_all ident_char s"

fun named_type_tag :: "TypeTagV5 \<Rightarrow> bool"
  and named_struct_tag :: "StructTagV5 \<Rightarrow> bool"
  and named_type_tags :: "TypeTagV5 list \<Rightarrow> bool" where
  "named_type_tag (TagVector t) = named_type_tag t"
| "named_type_tag (TagStruct s) = named_struct_tag s"
| "named_type_tag _ = True"
| "named_struct_tag (StructTagV5 a m n ts) \<longleftrightarrow>
     wf_address a \<and> plain_ident m \<and> plain_ident n \<and> named_type_tags ts"
| "named_type_tags [] = True"
| "named_type_tags (t # ts) \<longleftrightarrow> named_type_tag t \<and> named_type_tags ts"

definition ends_run :: "(char \<Rightarrow> bool) \<Rightarrow> string \<Rightarrow> bool" where
  "ends_run P s = (case s of [] \<Rightarrow> True | c # _ \<Rightarrow> \<not> P c)"

lemma ends_run_simps [simp]: "ends_run P []" "ends_run P (c # s) \<longleftrightarrow> \<not> P c"
  by (simp_all add: ends_run_def)

lemma takeWhile_run: "list_all P a \<Longrightarrow> ends_run P x \<Longrightarrow> takeWhile P (a @ x) = a"
  by (cases x) (auto simp: list_all_iff)

lemma run_unique: "list_all P a \<Longrightarrow> list_all P b \<Longrightarrow> ends_run P x \<Longrightarrow> ends_run P y \<Longrightarrow> a @ x = b @ y \<Longrightarrow> a = b \<and> x = y"
  using takeWhile_run by (metis same_append_eq)

text \<open>What may follow a printed tag.\<close>

definition stops :: "string \<Rightarrow> bool" where
  "stops r = (case r of [] \<Rightarrow> True | c # _ \<Rightarrow> c = CHR '','' \<or> c = CHR ''>'')"

lemma stops_simps [simp]: "stops []" "stops (c # r) \<longleftrightarrow> c = CHR '','' \<or> c = CHR ''>''"
  by (simp_all add: stops_def)

lemma short_str_hexdigits: "list_all is_hexdigit (short_str_lossless lower_hex a)"
proof -
  have "list_all is_hexdigit (dropWhile P s)" if "list_all is_hexdigit s" for P s
    using that set_dropWhileD by (metis list_all_iff)
  moreover have "is_hexdigit CHR ''0''" by (simp add: is_hexdigit_def)
  ultimately show ?thesis using lower_hex_hexdigits [of "addr_bytes a"]
    by (simp add: short_str_lossless_def trim_start_matches_def Let_def)
qed

lemma short_str_inj:
  assumes "wf_address a" "wf_address b" "short_str_lossless lower_hex a = short_str_lossless lower_hex b"
  shows "a = b"
proof -
  have l: "length (lower_hex (addr_bytes a)) = 32" "length (lower_hex (addr_bytes b)) = 32"
    using assms by (simp_all add: wf_address_def ADDRESS_LENGTH_def)
  have "lower_hex (addr_bytes a) = lower_hex (addr_bytes b)"
    using short_str_repad(2) [OF l(1)] short_str_repad(2) [OF l(2)] assms(3)
    by (simp add: short_str_lossless_def Let_def)
  then show ?thesis using lower_hex_inj by (cases a; cases b) auto
qed

lemma colon_not_ident [simp]: "\<not> is_hexdigit CHR '':''" "\<not> ident_char CHR '':''" "\<not> is_hexdigit CHR ''/''"
    "\<not> ident_char CHR ''<''" "\<not> ident_char CHR '',''" "\<not> ident_char CHR ''>''"
  by (simp_all add: is_hexdigit_def ident_char_def)


lemma stops_ends_run: "stops r \<Longrightarrow> ends_run ident_char r"
  by (cases r) auto

lemma stops_tags [simp]: "stops (fmt_type_tags h ts @ CHR ''>'' # r)"
  by (cases ts) simp_all

definition fmt_params :: "TypeTagV5 list \<Rightarrow> string" where
  "fmt_params ts = (case ts of [] \<Rightarrow> []
     | t # ts \<Rightarrow> ''<'' @ fmt_type_tag lower_hex t @ fmt_type_tags lower_hex ts @ ''>'')"

lemma fmt_struct_tag_parts:
  assumes "fmt_struct_tag lower_hex (StructTagV5 a m n ts) @ r = fmt_struct_tag lower_hex (StructTagV5 a' m' n' ts') @ r'"
    and named: "named_struct_tag (StructTagV5 a m n ts)" "named_struct_tag (StructTagV5 a' m' n' ts')"
    and "stops r" "stops r'"
  shows "a = a' \<and> m = m' \<and> n = n' \<and> fmt_params ts @ r = fmt_params ts' @ r'"
proof -
  let ?s = "short_str_lossless lower_hex"
  have e: "ends_run ident_char (fmt_params ts @ r)" "ends_run ident_char (fmt_params ts' @ r')"
    using assms(4,5) by (simp_all add: fmt_params_def stops_ends_run split: list.splits)
  have 1: "?s a @ '':'' @ '':'' @ m @ ''::'' @ n @ fmt_params ts @ r = ?s a' @ '':'' @ '':'' @ m' @ ''::'' @ n' @ fmt_params ts' @ r'"
    using assms(1) by (simp add: fmt_params_def split: list.splits)
  from run_unique [OF short_str_hexdigits short_str_hexdigits _ _ 1]
  have 2: "?s a = ?s a'" "m @ '':'' @ '':'' @ n @ fmt_params ts @ r = m' @ '':'' @ '':'' @ n' @ fmt_params ts' @ r'" by simp_all
  from run_unique [OF _ _ _ _ 2(2), of ident_char] named
  have 3: "m = m'" "n @ fmt_params ts @ r = n' @ fmt_params ts' @ r'" by simp_all
  from run_unique [OF _ _ e 3(2)] named show ?thesis using 2(1) 3(1) short_str_inj by simp
qed

lemma fmt_struct_tag_hd [simp]:
  "c \<noteq> CHR ''0'' \<Longrightarrow> fmt_struct_tag h st @ r \<noteq> c # z" "c \<noteq> CHR ''0'' \<Longrightarrow> c # z \<noteq> fmt_struct_tag h st @ r"
  by (cases st; simp)+

lemma fmt_params_tags: "ts \<noteq> [] \<Longrightarrow> '', '' @ tl (fmt_params ts @ r) = fmt_type_tags lower_hex ts @ ''>'' @ r"
  by (cases ts) (simp_all add: fmt_params_def)

lemma fmt_params_eq:
  assumes "fmt_params ts @ r = fmt_params us @ q" "stops r" "stops q"
  shows "ts = [] \<and> us = [] \<and> r = q \<or> fmt_type_tags lower_hex ts @ CHR ''>'' # r = fmt_type_tags lower_hex us @ CHR ''>'' # q"
proof (cases "ts = [] \<or> us = []")
  case True
  then show ?thesis using assms by (auto simp: fmt_params_def split: list.splits)
next
  case False
  then show ?thesis using fmt_params_tags [of ts r] fmt_params_tags [of us q] assms(1) by simp
qed

lemma fmt_unique:
  "fmt_type_tag lower_hex t @ r = fmt_type_tag lower_hex t' @ r' \<Longrightarrow> stops r \<Longrightarrow> stops r' \<Longrightarrow>
     named_type_tag t \<Longrightarrow> named_type_tag t' \<Longrightarrow> t = t' \<and> r = r'"
  "fmt_struct_tag lower_hex st @ r = fmt_struct_tag lower_hex st' @ r' \<Longrightarrow> stops r \<Longrightarrow> stops r' \<Longrightarrow>
     named_struct_tag st \<Longrightarrow> named_struct_tag st' \<Longrightarrow> st = st' \<and> r = r'"
  "fmt_type_tags lower_hex ts @ CHR ''>'' # r = fmt_type_tags lower_hex ts' @ CHR ''>'' # r' \<Longrightarrow>
     named_type_tags ts \<Longrightarrow> named_type_tags ts' \<Longrightarrow> ts = ts' \<and> r = r'"
proof (induction t and st and ts arbitrary: t' r r' and st' r r' and ts' r r'
    rule: named_type_tag_named_struct_tag_named_type_tags.induct)
  case (1 t)
  from "1.prems"(1) obtain u where u: "t' = TagVector u" by (cases t') simp_all
  with 1 "1.IH" [of "CHR ''>'' # r" u "CHR ''>'' # r'"] show ?case by simp
next
  case (2 s)
  from "2.prems"(1) obtain s' where s': "t' = TagStruct s'" by (cases t') simp_all
  with 2 "2.IH" [of r s' r'] show ?case by simp
next
  case (4 a m n ts)
  obtain a' m' n' ts' where s: "st' = StructTagV5 a' m' n' ts'" by (cases st')
  have p: "a = a' \<and> m = m' \<and> n = n' \<and> fmt_params ts @ r = fmt_params ts' @ r'"
    using fmt_struct_tag_parts 4 unfolding s by blast
  then have "ts = [] \<and> ts' = [] \<and> r = r' \<or>
      fmt_type_tags lower_hex ts @ CHR ''>'' # r = fmt_type_tags lower_hex ts' @ CHR ''>'' # r'"
    using fmt_params_eq 4 by blast
  with "4.IH" [of r ts' r'] "4.prems"(4,5) p show ?case by (elim disjE) (simp_all add: s)
next
  case (6 t ts)
  show ?case
  proof (cases ts')
    case (Cons u us)
    have "fmt_type_tag lower_hex t @ fmt_type_tags lower_hex ts @ CHR ''>'' # r =
        fmt_type_tag lower_hex u @ fmt_type_tags lower_hex us @ CHR ''>'' # r'"
      using "6.prems"(1) by (simp add: Cons)
    from "6.IH"(1) [OF this stops_tags stops_tags] "6.prems" have "t = u"
      "fmt_type_tags lower_hex ts @ CHR ''>'' # r = fmt_type_tags lower_hex us @ CHR ''>'' # r'"
      by (simp_all add: Cons)
    with "6.IH"(2) [OF this(2)] "6.prems" show ?thesis by (simp add: Cons)
  qed (use "6.prems" in simp)
next
  case (5 ts')
  then show ?case by (cases ts') auto
qed (case_tac t'; simp)+

text \<open>Printed tags are unambiguous: two type tags over 16-byte addresses and names of identifier
  characters that print the same are the same tag, and so are two resource keys; two module
  identifiers that print the same are equal whatever their names.\<close>

theorem fmt_injective:
  assumes hex: "hex_crate hex_encode hex_array"
  shows "(named_type_tag t \<and> named_type_tag t' \<and> fmt_type_tag hex_encode t = fmt_type_tag hex_encode t' \<longrightarrow> t = t') \<and>
    (named_struct_tag (resource_type k) \<and> named_struct_tag (resource_type k') \<and>
     wf_address (resource_address k) \<and> wf_address (resource_address k') \<and>
     fmt_resource_key hex_encode k = fmt_resource_key hex_encode k' \<longrightarrow> k = k') \<and>
    (wf_address (module_address m) \<and> wf_address (module_address m') \<and> fmt_module_id m = fmt_module_id m' \<longrightarrow> m = m')"
proof (intro conjI impI)
  have h: "hex_encode = lower_hex" using hex_crate.hex_encode_lower [OF hex] by blast
  show "t = t'" if "named_type_tag t \<and> named_type_tag t' \<and> fmt_type_tag hex_encode t = fmt_type_tag hex_encode t'"
    using fmt_unique(1) [of t "[]" t' "[]"] that by (simp add: h)
  show "k = k'" if k: "named_struct_tag (resource_type k) \<and> named_struct_tag (resource_type k') \<and>
     wf_address (resource_address k) \<and> wf_address (resource_address k') \<and>
     fmt_resource_key hex_encode k = fmt_resource_key hex_encode k'"
  proof -
    have "short_str_lossless lower_hex (resource_address k) @ ''/'' @ fmt_struct_tag lower_hex (resource_type k) =
        short_str_lossless lower_hex (resource_address k') @ ''/'' @ fmt_struct_tag lower_hex (resource_type k')"
      using k by (simp add: fmt_resource_key_def h)
    from run_unique [OF short_str_hexdigits short_str_hexdigits _ _ this]
    show ?thesis using k short_str_inj fmt_unique(2) [of "resource_type k" "[]" "resource_type k'" "[]"] by (cases k; cases k') auto
  qed
  show "m = m'" if m: "wf_address (module_address m) \<and> wf_address (module_address m') \<and> fmt_module_id m = fmt_module_id m'"
  proof -
    have "upper_hex (addr_bytes (module_address m)) = upper_hex (addr_bytes (module_address m'))" "module_ident m = module_ident m'"
      using m by (auto simp: fmt_module_id_def address_fmt_display_def address_fmt_upper_def wf_address_def)
    then have "addr_bytes (module_address m) = addr_bytes (module_address m')" by (metis hex_pairs_upper option.inject)
    with \<open>module_ident m = module_ident m'\<close> show ?thesis by simp
  qed
qed

theorem fmt_injective_witness:
  "fmt_type_tag lower_hex (TagStruct example_resource) = ''0x1::GAS::GAS<vector<u8>, u64>'' \<and>
   fmt_type_tag lower_hex (TagStruct example_resource) \<noteq> fmt_type_tag lower_hex (TagVector (TagStruct example_resource))"
proof -
  have "named_type_tag (TagStruct example_resource)"
    by (simp add: example_resource_def ident_char_def wf_address_def LEGACY_CORE_CODE_ADDRESS_def LegacyAddressV5_new_def ADDRESS_LENGTH_def)
  moreover have "fmt_type_tag lower_hex (TagStruct example_resource) = ''0x1::GAS::GAS<vector<u8>, u64>''"
    by (simp add: example_resource_def short_str_lossless_def trim_start_matches_def
      LEGACY_CORE_CODE_ADDRESS_def LegacyAddressV5_new_def lower_hex_Cons hex_char_def)
  ultimately show ?thesis
    using fmt_injective [OF ref_hex.hex_crate_axioms, of "TagStruct example_resource" "TagVector (TagStruct example_resource)"]
    by auto
qed

end
