(* ===== verification/Event_Key.thy ===== *)
theory Event_Key
  imports Legacy_Address Bcs
begin

text \<open>
  The keys of the event streams of the chain before version 7
  (\<^verbatim>\<open>compatibility/src/version_five/event_v5.rs\<close>): 8 bytes of counter, little-endian, then the 16 bytes
  of the address that created the stream. A key is one more instance of the contract \<open>byte_id\<close>.
\<close>

section \<open>Keys and handles\<close>

record EventKeyV5 =
  event_key_bytes :: "u8 list"

record EventHandleV5 =
  handle_count :: u64
  handle_key :: EventKeyV5

definition EVENT_KEY_LENGTH :: nat where
  "EVENT_KEY_LENGTH = ADDRESS_LENGTH + 8"

definition wf_event_key :: "EventKeyV5 \<Rightarrow> bool" where
  "wf_event_key k = (length (event_key_bytes k) = EVENT_KEY_LENGTH)"

definition EventKeyV5_new :: "u8 list \<Rightarrow> EventKeyV5" where
  "EventKeyV5_new bs = \<lparr>event_key_bytes = bs\<rparr>"

definition EventKeyParseError :: error where
  "EventKeyParseError = Err ''unable to parse EventKey''"

definition event_key_to_vec :: "EventKeyV5 \<Rightarrow> u8 list" where
  "event_key_to_vec self = event_key_bytes self"

definition EventHandleV5_new :: "EventKeyV5 \<Rightarrow> u64 \<Rightarrow> EventHandleV5" where
  "EventHandleV5_new k n = \<lparr>handle_count = n, handle_key = k\<rparr>"

text \<open>\<^verbatim>\<open>u64::to_le_bytes\<close> and \<^verbatim>\<open>u64::from_le_bytes\<close>, which takes exactly eight bytes.\<close>

definition u64_to_le_bytes :: "u64 \<Rightarrow> u8 list" where
  "u64_to_le_bytes n = le_bytes 8 (unat n)"

definition u64_from_le_bytes :: "u8 list \<Rightarrow> u64" where
  "u64_from_le_bytes bs = (case le_parse 8 bs of Some (n, _) \<Rightarrow> of_nat n | None \<Rightarrow> 0)"

definition get_creator_address :: "EventKeyV5 \<Rightarrow> LegacyAddressV5 result" where
  "get_creator_address self =
     expect ''get_creator_address failed''
       (address_try_from_slice (drop (EVENT_KEY_LENGTH - ADDRESS_LENGTH) (event_key_bytes self)))"

definition get_creation_number :: "EventKeyV5 \<Rightarrow> u64 result" where
  "get_creation_number self =
     (let salt = take 8 (event_key_bytes self) in
      if length salt = 8 then Inr (u64_from_le_bytes salt) else Inl (Panic ''try_into''))"

definition new_from_address :: "LegacyAddressV5 \<Rightarrow> u64 \<Rightarrow> EventKeyV5" where
  "new_from_address addr salt = \<lparr>event_key_bytes = u64_to_le_bytes salt @ addr_bytes addr\<rparr>"

section \<open>Text and serialized forms\<close>

definition event_key_from_hex :: "(nat \<Rightarrow> string \<Rightarrow> u8 list option) \<Rightarrow> string \<Rightarrow> EventKeyV5 result" where
  "event_key_from_hex hex_array s =
     (case hex_array EVENT_KEY_LENGTH s of
        None \<Rightarrow> Inl EventKeyParseError
      | Some bs \<Rightarrow> Inr \<lparr>event_key_bytes = bs\<rparr>)"

definition event_key_from_bytes :: "u8 list \<Rightarrow> EventKeyV5 result" where
  "event_key_from_bytes bs =
     (if length bs = EVENT_KEY_LENGTH then Inr \<lparr>event_key_bytes = bs\<rparr> else Inl EventKeyParseError)"

definition event_key_from_str :: "(nat \<Rightarrow> string \<Rightarrow> u8 list option) \<Rightarrow> string \<Rightarrow> EventKeyV5 result" where
  "event_key_from_str hex_array s = event_key_from_hex hex_array s"

definition event_key_try_from :: "u8 list \<Rightarrow> EventKeyV5 result" where
  "event_key_try_from bs = event_key_from_bytes bs"

definition event_key_fmt_lower :: "bool \<Rightarrow> EventKeyV5 \<Rightarrow> string" where
  "event_key_fmt_lower alternate self = (if alternate then ''0x'' else []) @ lower_hex (event_key_bytes self)"

definition event_key_fmt_display :: "EventKeyV5 \<Rightarrow> string" where
  "event_key_fmt_display self = event_key_fmt_lower False self"

definition event_key_fmt_debug :: "EventKeyV5 \<Rightarrow> string" where
  "event_key_fmt_debug self = ''EventKey('' @ event_key_fmt_lower False self @ '')''"

definition event_key_serialize :: "bool \<Rightarrow> EventKeyV5 \<Rightarrow> serde_value" where
  "event_key_serialize human_readable self =
     (if human_readable then SerStr (event_key_fmt_display self)
      else SerNewtypeBytes ''EventKey'' (event_key_bytes self))"

definition event_key_deserialize ::
  "(nat \<Rightarrow> string \<Rightarrow> u8 list option) \<Rightarrow> bool \<Rightarrow> serde_value \<Rightarrow> EventKeyV5 result" where
  "event_key_deserialize hex_array human_readable v =
     (case (human_readable, v) of
        (True, SerStr s) \<Rightarrow> event_key_from_hex hex_array s
      | (False, SerNewtypeBytes n bs) \<Rightarrow>
          if n = ''EventKey'' then event_key_try_from bs else Inl (Err ''invalid type'')
      | _ \<Rightarrow> Inl (Err ''invalid type''))"

section \<open>Laws\<close>

lemma event_key_byte_id:
  assumes "hex_crate hex_encode hex_array"
  shows "byte_id EVENT_KEY_LENGTH event_key_bytes event_key_fmt_display (event_key_from_hex hex_array) event_key_from_bytes"
proof
  show "event_key_from_bytes bs = Inr a \<longleftrightarrow> length bs = EVENT_KEY_LENGTH \<and> event_key_bytes a = bs"
    for bs and a :: EventKeyV5 by (auto simp: event_key_from_bytes_def)
  show "event_key_fmt_display a = lower_hex (event_key_bytes a)" for a :: EventKeyV5
    by (simp add: event_key_fmt_display_def event_key_fmt_lower_def)
  show "length bs = EVENT_KEY_LENGTH \<Longrightarrow> event_key_from_hex hex_array (lower_hex bs) = event_key_from_bytes bs" for bs
    using hex_crate.hex_array_lower [OF assms, of bs EVENT_KEY_LENGTH]
    by (simp add: event_key_from_hex_def event_key_from_bytes_def)
  show "event_key_from_hex hex_array s = Inr a \<Longrightarrow> length (event_key_bytes a) = EVENT_KEY_LENGTH \<and> length s = 2 * EVENT_KEY_LENGTH"
    for s and a :: EventKeyV5
    using hex_crate.hex_array_Some [OF assms] by (fastforce simp: event_key_from_hex_def split: option.splits)
qed

interpretation event_id: byte_id EVENT_KEY_LENGTH event_key_bytes event_key_fmt_display
  "event_key_from_hex ref_hex_array" event_key_from_bytes
  by (rule event_key_byte_id [OF ref_hex.hex_crate_axioms])

lemma length_le_bytes [simp]: "length (le_bytes k n) = k"
  by (induction k n rule: le_bytes.induct) simp_all

lemma u64_le_roundtrip [simp]: "u64_from_le_bytes (u64_to_le_bytes n) = n"
proof -
  have "unat n < 256 ^ 8" using unsigned_less [of n, where 'a = nat] by simp
  from le_parse_bytes [OF this, of "[]"] show ?thesis by (simp add: u64_from_le_bytes_def u64_to_le_bytes_def)
qed

lemma le_parse_all: "length bs = k \<Longrightarrow> \<exists>n < 256 ^ k. le_parse k bs = Some (n, []) \<and> le_bytes k n = bs"
proof (induction k arbitrary: bs)
  case (Suc k)
  then obtain c cs where bs: "bs = c # cs" "length cs = k" by (cases bs) auto
  from Suc.IH [OF bs(2)] obtain n where n: "n < 256 ^ k" "le_parse k cs = Some (n, [])" "le_bytes k n = cs" by blast
  have bound: "unat c + 256 * n < 256 * 256 ^ k" using n(1) unat_u8_less [of c] by linarith
  have "(256 :: u8) = 0" by simp
  then have c: "(of_nat (unat c + 256 * n) :: u8) = c" by (simp only: of_nat_add of_nat_mult of_nat_numeral) simp
  have "(unat c + 256 * n) div 256 = n" using unat_u8_less [of c] by simp
  with bound c n show ?case by (auto simp: bs(1) intro!: exI [of _ "unat c + 256 * n"])
qed simp

lemma u64_bytes_roundtrip: "length bs = 8 \<Longrightarrow> u64_to_le_bytes (u64_from_le_bytes bs) = bs"
  using le_parse_all [of bs 8] by (auto simp: u64_from_le_bytes_def u64_to_le_bytes_def unat_of_nat)

text \<open>The accessors of a 24-byte key do not panic.\<close>

definition event_creator :: "EventKeyV5 \<Rightarrow> LegacyAddressV5" where
  "event_creator k = \<lparr>addr_bytes = drop 8 (event_key_bytes k)\<rparr>"

lemma event_key_accessors:
  assumes "wf_event_key k"
  shows "get_creator_address k = Inr (event_creator k)" "wf_address (event_creator k)"
    "get_creation_number k = Inr (u64_from_le_bytes (take 8 (event_key_bytes k)))"
    "new_from_address (event_creator k) (u64_from_le_bytes (take 8 (event_key_bytes k))) = k"
  using assms u64_bytes_roundtrip [of "take 8 (event_key_bytes k)"]
  by (simp_all add: wf_event_key_def EVENT_KEY_LENGTH_def event_creator_def get_creator_address_def
    get_creation_number_def address_try_from_slice_def address_from_bytes_def wf_address_def new_from_address_def)

text \<open>An event key is a counter and an address, and nothing else: building a key from an address and
  a counter gives a 24-byte key from which both are recovered, every 24-byte key is built in this way
  from its own parts, and neither accessor panics; the printed key and both serialized forms parse
  back to the key.\<close>

theorem event_key_parts:
  assumes hex: "hex_crate hex_encode hex_array" and wf: "wf_address a" "wf_event_key k"
  shows "wf_event_key (new_from_address a n) \<and>
    get_creator_address (new_from_address a n) = Inr a \<and> get_creation_number (new_from_address a n) = Inr n \<and>
    (\<exists>b m. get_creator_address k = Inr b \<and> get_creation_number k = Inr m \<and> wf_address b \<and> new_from_address b m = k) \<and>
    event_key_from_str hex_array (event_key_fmt_display k) = Inr k \<and>
    event_key_deserialize hex_array hr (event_key_serialize hr k) = Inr k"
proof -
  have parts: "\<exists>b m. get_creator_address k = Inr b \<and> get_creation_number k = Inr m \<and>
      wf_address b \<and> new_from_address b m = k" using event_key_accessors [OF wf(2)] by blast
  have new: "wf_event_key (new_from_address a n)" "get_creator_address (new_from_address a n) = Inr a"
      "get_creation_number (new_from_address a n) = Inr n"
    using wf(1) u64_le_roundtrip [of n] length_le_bytes [of 8 "unat n"]
    by (simp_all add: wf_event_key_def wf_address_def new_from_address_def get_creator_address_def EVENT_KEY_LENGTH_def
      address_try_from_slice_def address_from_bytes_def get_creation_number_def u64_to_le_bytes_def)
  have "event_key_from_hex hex_array (event_key_fmt_display k) = Inr k"
    using byte_id.from_to_hex [OF event_key_byte_id [OF hex]] wf(2) by (simp add: wf_event_key_def)
  then show ?thesis using parts new wf(2)
    by (cases hr) (simp_all add: event_key_from_str_def event_key_deserialize_def event_key_serialize_def
      event_key_try_from_def event_key_from_bytes_def wf_event_key_def)
qed

theorem event_key_parts_witness:
  "get_creator_address (new_from_address LEGACY_CORE_CODE_ADDRESS 258) = Inr LEGACY_CORE_CODE_ADDRESS \<and>
   event_key_fmt_display (new_from_address LEGACY_CORE_CODE_ADDRESS 258) =
     ''020100000000000000000000000000000000000000000001''"
proof -
  have wf: "wf_address LEGACY_CORE_CODE_ADDRESS"
    by (simp add: wf_address_def LEGACY_CORE_CODE_ADDRESS_def LegacyAddressV5_new_def ADDRESS_LENGTH_def)
  have k: "wf_event_key (EventKeyV5_new (replicate 24 0))"
    by (simp add: wf_event_key_def EventKeyV5_new_def EVENT_KEY_LENGTH_def ADDRESS_LENGTH_def)
  have "le_bytes 8 258 = [2, 1, 0, 0, 0, 0, 0, 0]" by code_simp
  then have "event_key_fmt_display (new_from_address LEGACY_CORE_CODE_ADDRESS 258) =
     ''020100000000000000000000000000000000000000000001''"
    by (simp add: event_key_fmt_display_def event_key_fmt_lower_def new_from_address_def u64_to_le_bytes_def
      LEGACY_CORE_CODE_ADDRESS_def LegacyAddressV5_new_def lower_hex_Cons hex_char_def)
  then show ?thesis using event_key_parts [OF ref_hex.hex_crate_axioms wf k] by blast
qed

end
