(* ===== verification/Hash_Value.thy ===== *)
theory Hash_Value
  imports Hex_Id
begin

text \<open>
  \<^verbatim>\<open>compatibility/src/version_five/hash_value_v5.rs\<close>: the 32-byte hash value of the version five
  data, its bits and nibbles, the double-ended iterator over its bits, and its text and serde
  forms. The array \<^verbatim>\<open>[u8; 32]\<close> is a list with the invariant \<open>wf_hash\<close>. The digest of \<^verbatim>\<open>tiny_keccak\<close>
  and the array parser of \<^verbatim>\<open>hex\<close> are parameters.
\<close>

unbundle bit_operations_syntax

section \<open>Model\<close>

record HashValueV5 =
  hash :: "u8 list"

definition HASH_LENGTH :: nat where
  "HASH_LENGTH = 32"

definition LENGTH_IN_BITS :: nat where
  "LENGTH_IN_BITS = HASH_LENGTH * 8"

definition wf_hash :: "HashValueV5 \<Rightarrow> bool" where
  "wf_hash h \<longleftrightarrow> length (hash h) = HASH_LENGTH"

definition HashValueParseError :: error where
  "HashValueParseError = Err ''unable to parse HashValue''"

definition from_slice :: "u8 list \<Rightarrow> HashValueV5 result" where
  "from_slice bs = (if length bs = HASH_LENGTH then Inr \<lparr>hash = bs\<rparr> else Inl HashValueParseError)"

definition to_vec :: "HashValueV5 \<Rightarrow> u8 list" where
  "to_vec self = hash self"

definition zero :: HashValueV5 where
  "zero = \<lparr>hash = replicate HASH_LENGTH 0\<rparr>"

text \<open>\<open>digest\<close> finalizes the sponge into the 32 bytes of a zeroed buffer.\<close>

definition from_keccak :: "u8 list \<Rightarrow> HashValueV5" where
  "from_keccak digest = zero\<lparr>hash := take HASH_LENGTH digest @ drop (length digest) (hash zero)\<rparr>"

definition sha3_256_of :: "(u8 list \<Rightarrow> u8 list) \<Rightarrow> u8 list \<Rightarrow> HashValueV5" where
  "sha3_256_of sha3 buffer = from_keccak (sha3 buffer)"

definition hash_bit :: "HashValueV5 \<Rightarrow> nat \<Rightarrow> bool result" where
  "hash_bit self index =
     (if \<not> index < LENGTH_IN_BITS then Inl (Panic ''assertion failed'')
      else let pos = index div 8; b = 7 - index mod 8
           in Inr ((drop_bit b (hash self ! pos) AND 1) \<noteq> 0))"

definition nibble :: "HashValueV5 \<Rightarrow> nat \<Rightarrow> u8 result" where
  "nibble self index =
     (if \<not> index < HASH_LENGTH * 2 then Inl (Panic ''assertion failed'')
      else let pos = index div 2; shift = (if index mod 2 = 0 then 4 else 0)
           in Inr (drop_bit shift (hash self ! pos) AND 0x0f))"

subsection \<open>The bit iterator\<close>

record HashValueBitIterator =
  hash_bytes :: "u8 list"
  pos_start :: nat
  pos_end :: nat

definition iter_bits :: "HashValueV5 \<Rightarrow> HashValueBitIterator" where
  "iter_bits self = \<lparr>hash_bytes = hash self, pos_start = 0, pos_end = LENGTH_IN_BITS\<rparr>"

text \<open>\<^verbatim>\<open>get_bit\<close> asserts its index against the current end of the range, so it is evaluated against the
  iterator after the range was advanced.\<close>

definition get_bit :: "HashValueBitIterator \<Rightarrow> nat \<Rightarrow> bool result" where
  "get_bit self index =
     (if \<not> index < pos_end self then Inl (Panic ''assertion failed: index'')
      else if length (hash_bytes self) \<noteq> HASH_LENGTH then Inl (Panic ''assertion failed: invariant'')
      else if pos_end self \<noteq> length (hash_bytes self) * 8 then Inl (Panic ''assertion failed: invariant'')
      else let pos = index div 8; b = 7 - index mod 8
           in Inr ((drop_bit b (hash_bytes self ! pos) AND 1) \<noteq> 0))"

definition iter_next :: "HashValueBitIterator \<Rightarrow> (bool result option) \<times> HashValueBitIterator" where
  "iter_next self =
     (if pos_start self < pos_end self
      then let self' = self\<lparr>pos_start := Suc (pos_start self)\<rparr>
           in (Some (get_bit self' (pos_start self)), self')
      else (None, self))"

definition iter_next_back :: "HashValueBitIterator \<Rightarrow> (bool result option) \<times> HashValueBitIterator" where
  "iter_next_back self =
     (if pos_start self < pos_end self
      then let self' = self\<lparr>pos_end := pos_end self - 1\<rparr>
           in (Some (get_bit self' (pos_end self')), self')
      else (None, self))"

definition size_hint :: "HashValueBitIterator \<Rightarrow> nat \<times> nat option" where
  "size_hint self = (let n = pos_end self - pos_start self in (n, Some n))"

text \<open>Running an iterator to its end with \<^verbatim>\<open>next\<close>; a panic stops the run.\<close>

function iter_collect :: "HashValueBitIterator \<Rightarrow> bool list result" where
  "iter_collect it =
     (if pos_start it < pos_end it
      then (case iter_next it of
              (Some (Inr b), it') \<Rightarrow> and_then (iter_collect it') (\<lambda>bs. Inr (b # bs))
            | (Some (Inl e), _) \<Rightarrow> Inl e
            | (None, _) \<Rightarrow> Inr [])
      else Inr [])"
  by pat_completeness auto
termination
  by (relation "measure (\<lambda>it. pos_end it - pos_start it)")
    (auto simp: iter_next_def Let_def split: if_splits)

declare iter_collect.simps [simp del]

fun set_bits :: "nat \<Rightarrow> bool list \<Rightarrow> u8 list \<Rightarrow> u8 list" where
  "set_bits i [] buf = buf"
| "set_bits i (b # bs) buf =
     set_bits (Suc i) bs
       (if b then buf[i div 8 := (buf ! (i div 8)) OR push_bit (7 - i mod 8) 1] else buf)"

definition from_bit_iter :: "bool list \<Rightarrow> HashValueV5 result" where
  "from_bit_iter iter =
     (if length iter \<noteq> LENGTH_IN_BITS then Inl HashValueParseError
      else Inr \<lparr>hash = set_bits 0 iter (replicate HASH_LENGTH 0)\<rparr>)"

definition common_prefix_bits_len :: "HashValueV5 \<Rightarrow> HashValueV5 \<Rightarrow> nat result" where
  "common_prefix_bits_len self other =
     and_then (iter_collect (iter_bits self)) (\<lambda>xs.
     and_then (iter_collect (iter_bits other)) (\<lambda>ys.
     Inr (length (takeWhile (\<lambda>(x, y). x = y) (zip xs ys)))))"

subsection \<open>Text and serde forms\<close>

definition fmt_lower_hex :: "bool \<Rightarrow> HashValueV5 \<Rightarrow> string" where
  "fmt_lower_hex alternate self = (if alternate then ''0x'' else '''') @ lower_hex (hash self)"

definition bin8 :: "u8 \<Rightarrow> string" where
  "bin8 b = map (\<lambda>i. if bit b (7 - i) then CHR ''1'' else CHR ''0'') [0..<8]"

definition fmt_binary :: "HashValueV5 \<Rightarrow> string" where
  "fmt_binary self = concat (map bin8 (hash self))"

definition fmt_debug :: "HashValueV5 \<Rightarrow> string" where
  "fmt_debug self = ''HashValue('' @ fmt_lower_hex False self @ '')''"

definition fmt_display :: "HashValueV5 \<Rightarrow> string" where
  "fmt_display self = lower_hex (take 4 (hash self))"

definition to_hex :: "HashValueV5 \<Rightarrow> string" where
  "to_hex self = fmt_lower_hex False self"

definition to_hex_literal :: "HashValueV5 \<Rightarrow> string" where
  "to_hex_literal self = fmt_lower_hex True self"

definition from_hex :: "(nat \<Rightarrow> string \<Rightarrow> u8 list option) \<Rightarrow> string \<Rightarrow> HashValueV5 result" where
  "from_hex hex_array s =
     (case hex_array HASH_LENGTH s of None \<Rightarrow> Inl HashValueParseError | Some bs \<Rightarrow> Inr \<lparr>hash = bs\<rparr>)"

definition serialize :: "bool \<Rightarrow> HashValueV5 \<Rightarrow> serde_value" where
  "serialize human_readable self =
     (if human_readable then SerStr (to_hex self) else SerNewtypeBytes ''HashValue'' (hash self))"

definition deserialize ::
  "(nat \<Rightarrow> string \<Rightarrow> u8 list option) \<Rightarrow> bool \<Rightarrow> serde_value \<Rightarrow> HashValueV5 result" where
  "deserialize hex_array human_readable v =
     (case (human_readable, v) of
        (True, SerStr s) \<Rightarrow> from_hex hex_array s
      | (False, SerNewtypeBytes n bs) \<Rightarrow>
          if n = ''HashValue'' then from_slice bs else Inl (Err ''invalid type'')
      | _ \<Rightarrow> Inl (Err ''invalid type''))"

section \<open>Identifier laws\<close>

lemma hash_value_byte_id:
  assumes "hex_crate hex_encode hex_array"
  shows "byte_id HASH_LENGTH hash to_hex (from_hex hex_array) from_slice"
proof
  fix bs :: "u8 list" and a :: HashValueV5
  show "from_slice bs = Inr a \<longleftrightarrow> length bs = HASH_LENGTH \<and> hash a = bs" by (auto simp: from_slice_def)
  show "to_hex a = lower_hex (hash a)" by (simp add: to_hex_def fmt_lower_hex_def)
  show "length bs = HASH_LENGTH \<Longrightarrow> from_hex hex_array (lower_hex bs) = from_slice bs"
    using hex_crate.hex_array_lower [OF assms, of bs HASH_LENGTH] by (simp add: from_hex_def from_slice_def)
next
  fix s and a :: HashValueV5
  assume "from_hex hex_array s = Inr a"
  then show "length (hash a) = HASH_LENGTH \<and> length s = 2 * HASH_LENGTH"
    using hex_crate.hex_array_Some [OF assms] by (fastforce simp: from_hex_def split: option.splits)
qed

interpretation hash_id: byte_id HASH_LENGTH hash to_hex "from_hex ref_hex_array" from_slice
  by (rule hash_value_byte_id [OF ref_hex.hex_crate_axioms])

text \<open>A hash value survives its text and its serde form in both modes: parsing the hexadecimal
  form, or deserializing the serialized value, gives the value back; two values with the same
  text are equal.\<close>

theorem hash_value_roundtrip:
  assumes hex: "hex_crate hex_encode hex_array" and wf: "wf_hash h"
  shows "from_hex hex_array (to_hex h) = Inr h \<and> from_slice (to_vec h) = Inr h \<and>
    deserialize hex_array hr (serialize hr h) = Inr h \<and>
    (\<forall>h'. wf_hash h' \<and> to_hex h' = to_hex h \<longrightarrow> h' = h)"
proof -
  note id = hash_value_byte_id [OF hex]
  have len: "length (hash h) = HASH_LENGTH" using wf by (simp add: wf_hash_def)
  have a: "from_hex hex_array (to_hex h) = Inr h" using byte_id.from_to_hex [OF id] len by simp
  have b: "from_slice (hash h) = Inr h" using byte_id.from_bytes_bytes [OF id] len by simp
  have c: "h' = h" if "wf_hash h'" "to_hex h' = to_hex h" for h'
    using byte_id.to_hex_inj [OF id] len that by (simp add: wf_hash_def)
  from a b c show ?thesis by (cases hr) (auto simp: deserialize_def serialize_def to_vec_def)
qed

theorem hash_value_roundtrip_witness: "from_hex ref_hex_array (to_hex zero) = Inr zero"
  using hash_value_roundtrip [OF ref_hex.hex_crate_axioms, of zero] by (simp add: wf_hash_def zero_def)

section \<open>Bits\<close>

lemma drop_bit_AND_1: "(drop_bit n (w :: u8) AND 1) \<noteq> 0 \<longleftrightarrow> bit w n"
  by (simp add: and_one_eq bit_iff_odd_drop_bit odd_iff_mod_2_eq_one)

lemma hash_bit_eq: "i < LENGTH_IN_BITS \<Longrightarrow> hash_bit h i = Inr (bit (hash h ! (i div 8)) (7 - i mod 8))"
  by (simp add: hash_bit_def drop_bit_AND_1)

definition bits_of :: "u8 list \<Rightarrow> bool list" where
  "bits_of bs = map (\<lambda>i. bit (bs ! (i div 8)) (7 - i mod 8)) [0..<8 * length bs]"

lemma length_bits_of [simp]: "length (bits_of bs) = 8 * length bs"
  by (simp add: bits_of_def)

lemma bits_of_nth: "i < 8 * length bs \<Longrightarrow> bits_of bs ! i = bit (bs ! (i div 8)) (7 - i mod 8)"
  by (simp add: bits_of_def)

lemma iter_collect_from:
  assumes "length bs = HASH_LENGTH" "n = LENGTH_IN_BITS - k" "k \<le> LENGTH_IN_BITS"
  shows "iter_collect \<lparr>hash_bytes = bs, pos_start = k, pos_end = LENGTH_IN_BITS\<rparr> = Inr (drop k (bits_of bs))"
  using assms(2,3)
proof (induction n arbitrary: k)
  case 0
  then show ?case using assms(1) by (subst iter_collect.simps) (simp add: LENGTH_IN_BITS_def)
next
  case (Suc n)
  then have k: "k < LENGTH_IN_BITS" by simp
  have ih: "iter_collect \<lparr>hash_bytes = bs, pos_start = Suc k, pos_end = LENGTH_IN_BITS\<rparr> =
      Inr (drop (Suc k) (bits_of bs))" using Suc by simp
  have "k < length (bits_of bs)" using k assms(1) by (simp add: LENGTH_IN_BITS_def mult.commute)
  then have d: "drop k (bits_of bs) = bits_of bs ! k # drop (Suc k) (bits_of bs)"
    by (simp add: Cons_nth_drop_Suc)
  have "bits_of bs ! k = bit (bs ! (k div 8)) (7 - k mod 8)"
    using k assms(1) by (intro bits_of_nth) (simp add: LENGTH_IN_BITS_def)
  with k ih d assms(1) show ?case
    by (subst iter_collect.simps)
      (simp add: iter_next_def get_bit_def drop_bit_AND_1 Let_def LENGTH_IN_BITS_def)
qed

lemma iter_collect_bits: "wf_hash h \<Longrightarrow> iter_collect (iter_bits h) = Inr (bits_of (hash h))"
  using iter_collect_from [of "hash h" "LENGTH_IN_BITS" 0] by (simp add: iter_bits_def wf_hash_def)

lemma length_set_bits [simp]: "length (set_bits i bs buf) = length buf"
  by (induction i bs buf rule: set_bits.induct) simp_all

lemma bit_or_push_bit: "c < 8 \<Longrightarrow> bit ((w :: u8) OR 2 ^ m) c \<longleftrightarrow> bit w c \<or> c = m"
  by (auto simp: bit_or_iff bit_exp_iff)

lemma byte_index:
  assumes "c < 8"
  shows "(8 * k + (7 - c)) div 8 = k" "(8 * k + (7 - c)) mod 8 = 7 - (c :: nat)"
proof -
  obtain m :: nat where m: "m = 7 - c" by simp
  then have "m < 8" by simp
  then show "(8 * k + (7 - c)) div 8 = k" "(8 * k + (7 - c)) mod 8 = 7 - c"
    unfolding m [symmetric] by simp_all
qed

lemma byte_index_iff: "c < 8 \<Longrightarrow> 8 * k + (7 - c) = i \<longleftrightarrow> i div 8 = k \<and> 7 - i mod 8 = (c :: nat)"
proof
  assume c: "c < 8"
  show "i div 8 = k \<and> 7 - i mod 8 = c" if "8 * k + (7 - c) = i"
    using byte_index [OF c, of k] that c by auto
  show "8 * k + (7 - c) = i" if a: "i div 8 = k \<and> 7 - i mod 8 = c"
  proof -
    have "i = 8 * (i div 8) + i mod 8" "i mod 8 < 8" by simp_all
    then show ?thesis using a by linarith
  qed
qed

lemma set_bits_bit:
  assumes "i + length bs \<le> 8 * length buf" "k < length buf" "c < 8"
  shows "bit (set_bits i bs buf ! k) c \<longleftrightarrow> bit (buf ! k) c \<or>
    (let p = 8 * k + (7 - c) in i \<le> p \<and> p < i + length bs \<and> bs ! (p - i))"
  using assms
proof (induction i bs buf rule: set_bits.induct)
  case (1 i buf)
  then show ?case by (auto simp: Let_def)
next
  case (2 i b bs buf)
  define p where "p = 8 * k + (7 - c)"
  define buf' where "buf' = (if b then buf[i div 8 := (buf ! (i div 8)) OR push_bit (7 - i mod 8) 1] else buf)"
  have len: "length buf' = length buf" by (simp add: buf'_def)
  have ih: "bit (set_bits (Suc i) bs buf' ! k) c \<longleftrightarrow> bit (buf' ! k) c \<or>
      (Suc i \<le> p \<and> p < Suc i + length bs \<and> bs ! (p - Suc i))"
    using 2 unfolding buf'_def [symmetric] p_def by (simp add: len Let_def)
  have i8: "i div 8 < length buf" using 2 by auto
  have pc: "p = i \<longleftrightarrow> i div 8 = k \<and> 7 - i mod 8 = c"
    unfolding p_def using byte_index_iff 2(4) by blast
  have "bit (buf' ! k) c \<longleftrightarrow> bit (buf ! k) c \<or> (b \<and> p = i)"
    using i8 2(3,4) unfolding pc by (auto simp: buf'_def nth_list_update bit_or_push_bit)
  then have "bit (set_bits i (b # bs) buf ! k) c \<longleftrightarrow>
      bit (buf ! k) c \<or> (b \<and> p = i) \<or> (Suc i \<le> p \<and> p < Suc i + length bs \<and> bs ! (p - Suc i))"
    using ih by (simp add: buf'_def)
  then show ?case unfolding p_def [symmetric] Let_def
    by (auto simp: nth_Cons' Suc_diff_Suc le_eq_less_or_eq)
qed

lemma set_bits_bits_of:
  assumes "length buf = length bs" "\<forall>k < length buf. buf ! k = 0"
  shows "set_bits 0 (bits_of bs) buf = bs"
proof (rule nth_equalityI)
  show "length (set_bits 0 (bits_of bs) buf) = length bs" using assms by simp
  fix k assume k: "k < length (set_bits 0 (bits_of bs) buf)"
  then have kb: "k < length buf" by simp
  show "set_bits 0 (bits_of bs) buf ! k = bs ! k"
  proof (rule bit_word_eqI)
    fix c assume "c < LENGTH(8)"
    then have c: "c < 8" by simp
    define p where "p = 8 * k + (7 - c)"
    have p: "p < 8 * length bs" using kb c assms(1) by (simp add: p_def)
    have "bits_of bs ! p = bit (bs ! k) c"
      using bits_of_nth [OF p] byte_index [OF c, of k] c by (simp add: p_def)
    then show "bit (set_bits 0 (bits_of bs) buf ! k) c = bit (bs ! k) c"
      using set_bits_bit [of 0 "bits_of bs" buf k c] kb c assms p by (simp add: p_def Let_def)
  qed
qed

text \<open>Iterating over the bits yields the 256 bits in order without a panic, and \<open>from_bit_iter\<close>
  rebuilds exactly the hash value from them; any other number of bits is rejected.\<close>

theorem bit_iter_roundtrip:
  assumes "wf_hash h"
  shows "\<exists>bs. iter_collect (iter_bits h) = Inr bs \<and> length bs = 256 \<and>
    (\<forall>i < 256. hash_bit h i = Inr (bs ! i)) \<and> from_bit_iter bs = Inr h \<and>
    (\<forall>xs. length xs \<noteq> 256 \<longrightarrow> from_bit_iter xs = Inl HashValueParseError)"
proof -
  have len: "length (hash h) = 32" using assms by (simp add: wf_hash_def HASH_LENGTH_def)
  have "from_bit_iter (bits_of (hash h)) = Inr h"
    using set_bits_bits_of [of "replicate HASH_LENGTH 0" "hash h"] len
    by (simp add: from_bit_iter_def LENGTH_IN_BITS_def HASH_LENGTH_def)
  moreover have "\<forall>i < 256. hash_bit h i = Inr (bits_of (hash h) ! i)"
    using len by (simp add: hash_bit_eq LENGTH_IN_BITS_def HASH_LENGTH_def bits_of_nth)
  ultimately show ?thesis
    using iter_collect_bits [OF assms] len
    by (auto simp: from_bit_iter_def LENGTH_IN_BITS_def HASH_LENGTH_def)
qed

theorem bit_iter_roundtrip_witness: "\<exists>bs. iter_collect (iter_bits zero) = Inr bs \<and> from_bit_iter bs = Inr zero"
  using bit_iter_roundtrip [of zero] by (auto simp: wf_hash_def zero_def)

text \<open>The iterator cannot be run from its back: as long as bits are left, \<open>next_back\<close> panics, because
  the assertion of \<open>get_bit\<close> compares the index with the end of the range that was just
  decremented to that index.\<close>

theorem iter_next_back_panics:
  assumes "pos_start it < pos_end it"
  shows "\<exists>it' msg. iter_next_back it = (Some (Inl (Panic msg)), it')"
  using assms by (simp add: iter_next_back_def get_bit_def Let_def)

theorem iter_next_back_panics_witness: "\<exists>it' msg. iter_next_back (iter_bits zero) = (Some (Inl (Panic msg)), it')"
  by (rule iter_next_back_panics) (simp add: iter_bits_def LENGTH_IN_BITS_def HASH_LENGTH_def)

section \<open>Common prefixes\<close>

lemma takeWhile_zip_eq:
  "length xs = length ys \<Longrightarrow>
   (let n = length (takeWhile (\<lambda>(x, y). x = y) (zip xs ys)) in
     take n xs = take n ys \<and> (n < length xs \<longrightarrow> xs ! n \<noteq> ys ! n) \<and> n \<le> length xs)"
  by (induction xs ys rule: list_induct2) (auto simp: Let_def)

lemma bits_of_inj: "length as = length bs \<Longrightarrow> bits_of as = bits_of bs \<Longrightarrow> as = bs"
  using set_bits_bits_of [of "replicate (length bs) 0" bs] set_bits_bits_of [of "replicate (length as) 0" as]
  by simp

text \<open>\<open>common_prefix_bits_len\<close> is the length of the longest common prefix of the two bit strings:
  the bits below it agree, the bit at it differs, and it is 256 exactly for equal values.\<close>

theorem common_prefix_spec:
  assumes "wf_hash h" "wf_hash g"
  shows "\<exists>n. common_prefix_bits_len h g = Inr n \<and> n \<le> 256 \<and>
    (\<forall>i < n. hash_bit h i = hash_bit g i) \<and> (n < 256 \<longrightarrow> hash_bit h n \<noteq> hash_bit g n) \<and>
    (n = 256 \<longleftrightarrow> h = g)"
proof -
  let ?x = "bits_of (hash h)" and ?y = "bits_of (hash g)"
  define n where "n = length (takeWhile (\<lambda>(x, y). x = y) (zip ?x ?y))"
  have len: "length (hash h) = 32" "length (hash g) = 32"
    using assms by (simp_all add: wf_hash_def HASH_LENGTH_def)
  have n: "take n ?x = take n ?y" "n < 256 \<longrightarrow> ?x ! n \<noteq> ?y ! n" "n \<le> 256"
    using takeWhile_zip_eq [of ?x ?y] len by (simp_all add: n_def Let_def)
  have hb: "hash_bit h i = Inr (?x ! i)" "hash_bit g i = Inr (?y ! i)" if "i < 256" for i
    using that len by (simp_all add: hash_bit_eq LENGTH_IN_BITS_def HASH_LENGTH_def bits_of_nth)
  have pre: "\<forall>i < n. hash_bit h i = hash_bit g i"
    using n(1,3) hb by (metis nth_take order_less_le_trans)
  have "n = 256 \<longleftrightarrow> h = g"
  proof
    assume "n = 256"
    then have "?x = ?y" using n(1) len by simp
    then show "h = g" using bits_of_inj len by (metis HashValueV5.equality unit.exhaust old.unit.exhaust)
  next
    assume "h = g"
    then show "n = 256" using n(2,3) by (metis order_le_less)
  qed
  then show ?thesis
    using iter_collect_bits [OF assms(1)] iter_collect_bits [OF assms(2)] n pre hb
    by (auto simp: common_prefix_bits_len_def n_def [symmetric])
qed

theorem common_prefix_spec_witness: "common_prefix_bits_len zero zero = Inr 256"
  using common_prefix_spec [of zero zero] by (simp add: wf_hash_def zero_def)

section \<open>Every value has 32 bytes\<close>

lemma set_bits_length [simp]: "length (set_bits i bs buf) = length buf"
  by (induction i bs buf rule: set_bits.induct) simp_all

lemma from_keccak_wf: "wf_hash (from_keccak digest)"
  by (simp add: wf_hash_def from_keccak_def zero_def)

lemma from_slice_wf: "from_slice bs = Inr h \<Longrightarrow> wf_hash h"
  by (auto simp: from_slice_def wf_hash_def split: if_splits)

lemma from_bit_iter_wf: "from_bit_iter bits = Inr h \<Longrightarrow> wf_hash h"
  by (auto simp: from_bit_iter_def wf_hash_def split: if_splits)

lemma from_hex_wf:
  assumes "hex_crate hex_encode hex_array" "from_hex hex_array s = Inr h"
  shows "wf_hash h"
  using byte_id.from_hex_Inr [OF hash_value_byte_id [OF assms(1)] assms(2)] by (simp add: wf_hash_def)

lemma deserialize_wf:
  assumes "hex_crate hex_encode hex_array" "deserialize hex_array hr v = Inr h"
  shows "wf_hash h"
  using assms(2) from_hex_wf [OF assms(1)] from_slice_wf
  by (cases hr; cases v) (auto simp: deserialize_def split: if_splits)



end
