(* ===== verification/Serde_Layout.thy ===== *)
theory Serde_Layout
  imports Type_Tags Event_Key Hash_Value
begin

text \<open>
  Derived serde implementations. A \<open>layout\<close> is the pair of the serializer and the deserializer of one
  type in the binary format; \<^verbatim>\<open>#[derive(Serialize, Deserialize)]\<close> puts the layouts of the fields one
  after the other, a variant index before those of an enum. The primitive layouts are parameters
  (the record \<open>binary_format\<close>), with the documented laws in the locale \<open>binary_layouts\<close>, interpreted
  on the reference encoding. The layouts of the identifiers of the sources are built here.
\<close>

section \<open>Layouts\<close>

record 'a layout =
  lay_put :: "'a \<Rightarrow> u8 list result"
  lay_get :: "'a parser"

text \<open>Reading inverts writing, for the values that satisfy \<open>P\<close>, and leaves the rest of the input.\<close>

definition layout_ok :: "('a \<Rightarrow> bool) \<Rightarrow> 'a layout \<Rightarrow> bool" where
  "layout_ok P l \<longleftrightarrow> (\<forall>x bs r. P x \<longrightarrow> lay_put l x = Inr bs \<longrightarrow> lay_get l (bs @ r) = Some (x, r))"

definition lay_pair :: "'a layout \<Rightarrow> 'b layout \<Rightarrow> ('a \<times> 'b) layout" where
  "lay_pair l m =
     \<lparr>lay_put = (\<lambda>(x, y). and_then (lay_put l x) (\<lambda>a. and_then (lay_put m y) (\<lambda>b. Inr (a @ b)))),
      lay_get = (\<lambda>bs. case lay_get l bs of None \<Rightarrow> None
        | Some (x, r) \<Rightarrow> map_option (\<lambda>(y, r). ((x, y), r)) (lay_get m r))\<rparr>"

text \<open>A newtype or a record: \<open>f\<close> takes the value apart, \<open>g\<close> builds it and may refuse.\<close>

definition lay_conv :: "('b \<Rightarrow> 'a) \<Rightarrow> ('a \<Rightarrow> 'b result) \<Rightarrow> 'a layout \<Rightarrow> 'b layout" where
  "lay_conv f g l =
     \<lparr>lay_put = (\<lambda>x. lay_put l (f x)),
      lay_get = (\<lambda>bs. case lay_get l bs of None \<Rightarrow> None
        | Some (y, r) \<Rightarrow> (case g y of Inl _ \<Rightarrow> None | Inr x \<Rightarrow> Some (x, r)))\<rparr>"

abbreviation lay_iso :: "('b \<Rightarrow> 'a) \<Rightarrow> ('a \<Rightarrow> 'b) \<Rightarrow> 'a layout \<Rightarrow> 'b layout" where
  "lay_iso f g l \<equiv> lay_conv f (\<lambda>y. Inr (g y)) l"

definition lay_unit :: "unit layout" where
  "lay_unit = \<lparr>lay_put = (\<lambda>_. Inr []), lay_get = (\<lambda>bs. Some ((), bs))\<rparr>"

text \<open>An enum: the variant index chooses the layout of the payload.\<close>

definition lay_enum :: "serde_format \<Rightarrow> ('a \<Rightarrow> nat) \<Rightarrow> 'a layout list \<Rightarrow> 'a layout" where
  "lay_enum F idx ls =
     \<lparr>lay_put = (\<lambda>x. and_then (lay_put (ls ! idx x) x) (\<lambda>bs. Inr (put_variant F (idx x) @ bs))),
      lay_get = (\<lambda>bs. case get_variant F bs of None \<Rightarrow> None
        | Some (i, r) \<Rightarrow> if i < length ls then lay_get (ls ! i) r else None)\<rparr>"

fun put_all :: "'a layout \<Rightarrow> 'a list \<Rightarrow> u8 list result" where
  "put_all l [] = Inr []"
| "put_all l (x # xs) = and_then (lay_put l x) (\<lambda>a. and_then (put_all l xs) (\<lambda>b. Inr (a @ b)))"

definition lay_vec :: "serde_format \<Rightarrow> 'a layout \<Rightarrow> 'a list layout" where
  "lay_vec F l =
     \<lparr>lay_put = (\<lambda>xs. and_then (put_len F (length xs)) (\<lambda>a. and_then (put_all l xs) (\<lambda>b. Inr (a @ b)))),
      lay_get = (\<lambda>bs. case get_len F bs of None \<Rightarrow> None | Some (n, r) \<Rightarrow> parse_n (lay_get l) n r)\<rparr>"

definition lay_option :: "bool layout \<Rightarrow> 'a layout \<Rightarrow> 'a option layout" where
  "lay_option flag l =
     \<lparr>lay_put = (\<lambda>x. case x of None \<Rightarrow> lay_put flag False
        | Some y \<Rightarrow> and_then (lay_put flag True) (\<lambda>a. and_then (lay_put l y) (\<lambda>b. Inr (a @ b)))),
      lay_get = (\<lambda>bs. case lay_get flag bs of None \<Rightarrow> None
        | Some (False, r) \<Rightarrow> Some (None, r)
        | Some (True, r) \<Rightarrow> map_option (\<lambda>(y, r). (Some y, r)) (lay_get l r))\<rparr>"

text \<open>\<^verbatim>\<open>bcs::to_bytes\<close> and \<^verbatim>\<open>bcs::from_bytes\<close>.\<close>

definition lay_to_bytes :: "'a layout \<Rightarrow> 'a \<Rightarrow> u8 list result" where
  "lay_to_bytes l x = lay_put l x"

definition lay_from_bytes :: "'a layout \<Rightarrow> u8 list \<Rightarrow> 'a result" where
  "lay_from_bytes l bs =
     (case lay_get l bs of None \<Rightarrow> Inl (Err ''bcs'')
      | Some (x, r) \<Rightarrow> if r = [] then Inr x else Inl (Err ''remaining input''))"

named_theorems layout_intros \<open>layouts whose reader inverts their writer\<close>

lemma layout_okD: "layout_ok P l \<Longrightarrow> P x \<Longrightarrow> lay_put l x = Inr bs \<Longrightarrow> lay_get l (bs @ r) = Some (x, r)"
  by (simp add: layout_ok_def)

lemma layout_ok_pair [layout_intros]:
  "layout_ok P l \<Longrightarrow> layout_ok Q m \<Longrightarrow> layout_ok (\<lambda>(x, y). P x \<and> Q y) (lay_pair l m)"
  by (auto simp: layout_ok_def lay_pair_def and_then_eq_Inr)

lemma layout_ok_conv:
  assumes "layout_ok Q l" "\<And>x. P x \<Longrightarrow> Q (f x) \<and> g (f x) = Inr x"
  shows "layout_ok P (lay_conv f g l)"
  unfolding layout_ok_def
proof (intro allI impI)
  fix x bs r assume "P x" "lay_put (lay_conv f g l) x = Inr bs"
  then have "lay_get l (bs @ r) = Some (f x, r)" using assms(2)
    by (intro layout_okD [OF assms(1)]) (auto simp: lay_conv_def)
  then show "lay_get (lay_conv f g l) (bs @ r) = Some (x, r)" using assms(2) \<open>P x\<close> by (simp add: lay_conv_def)
qed

lemma layout_ok_unit [layout_intros]: "layout_ok (\<lambda>_. True) lay_unit"
  by (simp add: layout_ok_def lay_unit_def)

lemma layout_ok_option [layout_intros]:
  "layout_ok (\<lambda>_. True) flag \<Longrightarrow> layout_ok P l \<Longrightarrow> layout_ok (\<lambda>x. case x of None \<Rightarrow> True | Some y \<Rightarrow> P y) (lay_option flag l)"
  by (auto simp: layout_ok_def lay_option_def and_then_eq_Inr split: option.splits)

lemma parse_n_put_all:
  "layout_ok P l \<Longrightarrow> list_all P xs \<Longrightarrow> put_all l xs = Inr bs \<Longrightarrow> parse_n (lay_get l) (length xs) (bs @ r) = Some (xs, r)"
  by (induction xs arbitrary: bs) (auto simp: and_then_eq_Inr layout_ok_def)

lemma layout_from_to_bytes: "layout_ok P l \<Longrightarrow> P x \<Longrightarrow> lay_to_bytes l x = Inr bs \<Longrightarrow> lay_from_bytes l bs = Inr x"
  using layout_okD [of P l x bs "[]"] by (simp add: lay_to_bytes_def lay_from_bytes_def)

lemma layout_ok_weaken: "layout_ok Q l \<Longrightarrow> (\<And>x. P x \<Longrightarrow> Q x) \<Longrightarrow> layout_ok P l"
  by (auto simp: layout_ok_def)

context serde_binary
begin

lemma layout_ok_vec [layout_intros]: "layout_ok P l \<Longrightarrow> layout_ok (list_all P) (lay_vec F l)"
  by (auto simp: layout_ok_def [of "list_all P"] lay_vec_def and_then_eq_Inr len parse_n_put_all)

lemma layout_ok_enum:
  assumes "\<And>x. P x \<Longrightarrow> idx x < length ls" "\<And>i. i < length ls \<Longrightarrow> layout_ok (\<lambda>x. P x \<and> idx x = i) (ls ! i)"
    "length ls < 2 ^ 32"
  shows "layout_ok P (lay_enum F idx ls)"
proof -
  have "lay_get (ls ! idx x) (bs @ r) = Some (x, r)" if "P x" "lay_put (ls ! idx x) x = Inr bs" for x bs r
    using assms(1) [OF that(1)] assms(2) that by (auto simp: layout_ok_def)
  moreover have "idx x < 2 ^ 32" if "P x" for x using assms(1) [OF that] assms(3) by simp
  ultimately show ?thesis using assms(1)
    by (auto simp: layout_ok_def lay_enum_def and_then_eq_Inr variant)
qed

end

section \<open>Primitive layouts\<close>

record binary_format =
  base :: serde_format
  lay_bool :: "bool layout"
  lay_u8 :: "u8 layout"
  lay_u16 :: "u16 layout"
  lay_u64 :: "u64 layout"
  lay_u128 :: "u128 layout"
  lay_bytes :: "u8 list layout"

locale binary_layouts = serde_binary "base B" for B :: binary_format +
  assumes bool_layout [layout_intros]: "layout_ok (\<lambda>_. True) (lay_bool B)"
    and u8_layout [layout_intros]: "layout_ok (\<lambda>_. True) (lay_u8 B)"
    and u16_layout [layout_intros]: "layout_ok (\<lambda>_. True) (lay_u16 B)"
    and u64_layout [layout_intros]: "layout_ok (\<lambda>_. True) (lay_u64 B)"
    and u128_layout [layout_intros]: "layout_ok (\<lambda>_. True) (lay_u128 B)"
    and bytes_layout [layout_intros]: "layout_ok (\<lambda>_. True) (lay_bytes B)"

definition total_layout :: "('a \<Rightarrow> u8 list) \<Rightarrow> 'a parser \<Rightarrow> 'a layout" where
  "total_layout enc dec = \<lparr>lay_put = (\<lambda>x. Inr (enc x)), lay_get = dec\<rparr>"

lemma total_layout_ok: "parses enc dec \<Longrightarrow> layout_ok (\<lambda>_. True) (total_layout enc dec)"
  by (simp add: parses_def layout_ok_def total_layout_def)

definition bool_dec :: "bool parser" where
  "bool_dec bs = (case bs of [] \<Rightarrow> None
     | c # r \<Rightarrow> if c = 0 then Some (False, r) else if c = 1 then Some (True, r) else None)"

definition ref_binary :: binary_format where
  "ref_binary =
     \<lparr>base = ref_format,
      lay_bool = total_layout (\<lambda>x. [if x then 1 else 0]) bool_dec,
      lay_u8 = total_layout (word_enc 1) (word_dec 1),
      lay_u16 = total_layout (word_enc 2) (word_dec 2),
      lay_u64 = total_layout (word_enc 8) (word_dec 8),
      lay_u128 = total_layout (word_enc 16) (word_dec 16),
      lay_bytes = \<lparr>lay_put = (\<lambda>bs. if short bs then Inr (vec_enc (word_enc 1) bs) else Inl (Err ''ExceededMaxLen'')),
        lay_get = vec_dec (word_dec 1)\<rparr>\<rparr>"

interpretation ref_binary: binary_layouts ref_binary
proof
  have "parses (vec_enc (word_enc 1 :: u8 \<Rightarrow> _)) (vec_dec (word_dec 1))" by (simp add: vec_parses word_parses)
  then show "layout_ok (\<lambda>_. True) (lay_bytes ref_binary)" by (auto simp: layout_ok_def ref_binary_def parses_def)
  have "parses (\<lambda>x. [if x then 1 else 0]) bool_dec" by (simp add: parses_def bool_dec_def)
  then show "layout_ok (\<lambda>_. True) (lay_bool ref_binary)" by (simp add: ref_binary_def total_layout_ok)
qed (simp_all add: ref_binary_def total_layout_ok word_parses ref_format.variant ref_format.len ref_format.len_ok
    ref_format.fixed ref_format.str ref_format.str_ok)

section \<open>Layouts of the identifiers\<close>

definition lay_address :: "binary_format \<Rightarrow> LegacyAddressV5 layout" where
  "lay_address B = \<lparr>lay_put = ser_address (base B), lay_get = de_address (base B)\<rparr>"

text \<open>Event keys and hash values go through their hand-written implementations, as a newtype around
  length-prefixed bytes.\<close>

definition newtype_bytes :: "serde_value \<Rightarrow> u8 list" where
  "newtype_bytes v = (case v of SerNewtypeBytes _ bs \<Rightarrow> bs | SerStr s \<Rightarrow> into_bytes s)"

definition lay_event_key :: "binary_format \<Rightarrow> EventKeyV5 layout" where
  "lay_event_key B = lay_conv (\<lambda>k. newtype_bytes (event_key_serialize False k))
     (\<lambda>bs. event_key_deserialize (\<lambda>_ _. None) False (SerNewtypeBytes ''EventKey'' bs)) (lay_bytes B)"

definition lay_hash :: "binary_format \<Rightarrow> HashValueV5 layout" where
  "lay_hash B = lay_conv (\<lambda>h. newtype_bytes (serialize False h))
     (\<lambda>bs. deserialize (\<lambda>_ _. None) False (SerNewtypeBytes ''HashValue'' bs)) (lay_bytes B)"

definition lay_str :: "binary_format \<Rightarrow> string layout" where
  "lay_str B = \<lparr>lay_put = put_str (base B), lay_get = get_str (base B)\<rparr>"

definition lay_type_tag :: "binary_format \<Rightarrow> TypeTagV5 layout" where
  "lay_type_tag B =
     \<lparr>lay_put = (\<lambda>t. fst (ser_type_tag (base B) t 0)),
      lay_get = (\<lambda>bs. case fst (de_type_tag (base B) NESTING_FUEL bs 0) of Inl _ \<Rightarrow> None | Inr x \<Rightarrow> Some x)\<rparr>"

definition lay_module_id :: "binary_format \<Rightarrow> ModuleIdV5 layout" where
  "lay_module_id B = lay_iso (\<lambda>m. (module_address m, module_ident m)) (\<lambda>(a, n). ModuleIdV5_new a n)
     (lay_pair (lay_address B) (lay_str B))"

abbreviation wf_tag :: "TypeTagV5 \<Rightarrow> bool" where
  "wf_tag t \<equiv> wf_type_tag t \<and> type_nesting t \<le> 8"

context binary_layouts
begin

lemma address_layout [layout_intros]: "layout_ok wf_address (lay_address B)"
  using fixed by (auto simp: layout_ok_def lay_address_def wf_address_def intro!: de_address_fixed)

lemma str_layout [layout_intros]: "layout_ok (\<lambda>_. True) (lay_str B)"
  by (simp add: layout_ok_def lay_str_def str)

lemma event_key_layout [layout_intros]: "layout_ok wf_event_key (lay_event_key B)"
  unfolding lay_event_key_def
  by (rule layout_ok_conv [OF bytes_layout]) (simp add: event_key_serialize_def newtype_bytes_def
    event_key_deserialize_def event_key_try_from_def event_key_from_bytes_def wf_event_key_def)

lemma hash_layout [layout_intros]: "layout_ok wf_hash (lay_hash B)"
  unfolding lay_hash_def
  by (rule layout_ok_conv [OF bytes_layout]) (simp add: serialize_def newtype_bytes_def deserialize_def from_slice_def wf_hash_def)

lemma type_tag_layout [layout_intros]: "layout_ok wf_tag (lay_type_tag B)"
  using de_ser(1) [of _ 0 _ 0 NESTING_FUEL]
  by (auto simp: layout_ok_def lay_type_tag_def outcome_def NESTING_FUEL_def)

lemma module_id_layout [layout_intros]: "layout_ok (\<lambda>m. wf_address (module_address m)) (lay_module_id B)"
  unfolding lay_module_id_def
  by (rule layout_ok_conv [OF layout_ok_pair [OF address_layout str_layout]]) (simp add: ModuleIdV5_new_def)

end

end
