(* ===== verification/Account_State.thy ===== *)
theory Account_State
  imports Serde_Layout
begin

text \<open>
  The state of an account of the chain before version 7, as the archives hold it
  (\<^verbatim>\<open>compatibility/src/version_five/\<close>: \<^verbatim>\<open>account_blob_v5.rs\<close>, \<^verbatim>\<open>move_resource_v5.rs\<close>, and one file per
  resource). An account state maps the access vector of a resource to the bytes of the resource; the
  typed accessors build the key, look it up and decode the bytes. Each resource is a record with the
  layout that serde derives from its fields.
\<close>

section \<open>Resources\<close>

text \<open>\<^verbatim>\<open>MoveStructTypeV5\<close>: the constants of a resource type, and the tag they give.\<close>

definition struct_tag :: "string \<Rightarrow> string \<Rightarrow> TypeTagV5 list \<Rightarrow> StructTagV5" where
  "struct_tag module_name struct_name type_params =
     StructTagV5 LEGACY_CORE_CODE_ADDRESS module_name struct_name type_params"

definition resource_path :: "serde_format \<Rightarrow> StructTagV5 \<Rightarrow> u8 list result" where
  "resource_path F tag = fst (struct_access_vector F tag 0)"

record AccountResourceV5 =
  ar_authentication_key :: "u8 list"
  ar_sequence_number :: u64
  ar_self_address :: LegacyAddressV5

record WithdrawCapabilityResource =
  withdraw_account_address :: LegacyAddressV5

record KeyRotationCapabilityResource =
  rotation_account_address :: LegacyAddressV5

record DiemAccountResourceV5 =
  da_authentication_key :: "u8 list"
  da_withdrawal_capability :: "WithdrawCapabilityResource option"
  da_key_rotation_capability :: "KeyRotationCapabilityResource option"
  da_received_events :: EventHandleV5
  da_sent_events :: EventHandleV5
  da_sequence_number :: u64

record BalanceResourceV5 =
  balance_coin :: u64

record FreezingBit =
  is_frozen :: bool

record SlowWalletResourceV5 =
  slow_unlocked :: u64
  slow_transferred :: u64

record CumulativeDepositResource =
  deposit_value :: u64
  deposit_index :: u64

record TowerStateResource =
  previous_proof_hash :: "u8 list"
  verified_tower_height :: u64
  latest_epoch_mining :: u64
  count_proofs_in_epoch :: u64
  epochs_validating_and_mining :: u64
  contiguous_epochs_validating_and_mining :: u64
  epochs_since_last_account_creation :: u64

record ReceiptsResource =
  receipts_destination :: "LegacyAddressV5 list"
  receipts_cumulative :: "u64 list"
  receipts_last_payment_timestamp :: "u64 list"
  receipts_last_payment_value :: "u64 list"

text \<open>\<^verbatim>\<open>AncestryResource\<close>, \<^verbatim>\<open>CommunityWalletsResourceLegacyV5\<close> and \<^verbatim>\<open>SlowWalletListResourceV5\<close> wrap a list of
  addresses, \<^verbatim>\<open>NewEpochEventV5\<close> a number.\<close>

record AncestryResource =
  ancestry_tree :: "LegacyAddressV5 list"

record CommunityWalletsResourceLegacyV5 =
  community_list :: "LegacyAddressV5 list"

record SlowWalletListResourceV5 =
  slow_wallet_list :: "LegacyAddressV5 list"

record NewEpochEventV5 =
  new_epoch :: u64

definition account_tag :: StructTagV5 where
  "account_tag = struct_tag ''Account'' ''Account'' []"

definition diem_account_tag :: StructTagV5 where
  "diem_account_tag = struct_tag ''DiemAccount'' ''DiemAccount'' []"

definition v5_legacy_struct_tag :: StructTagV5 where
  "v5_legacy_struct_tag = StructTagV5 LEGACY_CORE_CODE_ADDRESS ''DiemAccount'' ''DiemAccount'' []"

definition withdraw_capability_tag :: StructTagV5 where
  "withdraw_capability_tag = struct_tag ''DiemAccount'' ''WithdrawCapability'' []"

definition key_rotation_capability_tag :: StructTagV5 where
  "key_rotation_capability_tag = struct_tag ''DiemAccount'' ''KeyRotationCapability'' []"

definition balance_tag :: StructTagV5 where
  "balance_tag = struct_tag ''DiemAccount'' ''Balance''
     [TagStruct (StructTagV5 LEGACY_CORE_CODE_ADDRESS ''GAS'' ''GAS'' [])]"

definition freezing_tag :: StructTagV5 where
  "freezing_tag = struct_tag ''AccountFreezing'' ''FreezingBit'' []"

definition slow_wallet_tag :: StructTagV5 where
  "slow_wallet_tag = struct_tag ''DiemAccount'' ''SlowWallet'' []"

definition slow_wallet_list_tag :: StructTagV5 where
  "slow_wallet_list_tag = struct_tag ''DiemAccount'' ''SlowWalletList'' []"

definition cumulative_deposit_tag :: StructTagV5 where
  "cumulative_deposit_tag = struct_tag ''DiemAccount'' ''CumulativeDeposits'' []"

definition tower_state_tag :: StructTagV5 where
  "tower_state_tag = struct_tag ''TowerState'' ''TowerProofHistory'' []"

definition receipts_tag :: StructTagV5 where
  "receipts_tag = struct_tag ''Receipts'' ''UserReceipts'' []"

definition ancestry_tag :: StructTagV5 where
  "ancestry_tag = struct_tag ''Ancestry'' ''Ancestry'' []"

definition community_wallets_tag :: StructTagV5 where
  "community_wallets_tag = struct_tag ''Wallet'' ''CommunityWalletList'' []"

definition new_epoch_tag :: StructTagV5 where
  "new_epoch_tag = struct_tag ''DiemConfig'' ''NewEpochEvent'' []"

section \<open>Their layouts\<close>

definition lay_account_resource :: "binary_format \<Rightarrow> AccountResourceV5 layout" where
  "lay_account_resource B =
     lay_iso (\<lambda>x. (ar_authentication_key x, ar_sequence_number x, ar_self_address x))
       (\<lambda>(k, n, a). \<lparr>ar_authentication_key = k, ar_sequence_number = n, ar_self_address = a\<rparr>)
       (lay_pair (lay_bytes B) (lay_pair (lay_u64 B) (lay_address B)))"

definition lay_event_handle :: "binary_format \<Rightarrow> EventHandleV5 layout" where
  "lay_event_handle B =
     lay_iso (\<lambda>h. (handle_count h, handle_key h)) (\<lambda>(n, k). EventHandleV5_new k n)
       (lay_pair (lay_u64 B) (lay_event_key B))"

definition lay_withdraw_capability :: "binary_format \<Rightarrow> WithdrawCapabilityResource layout" where
  "lay_withdraw_capability B =
     lay_iso withdraw_account_address (\<lambda>a. \<lparr>withdraw_account_address = a\<rparr>) (lay_address B)"

definition lay_key_rotation_capability :: "binary_format \<Rightarrow> KeyRotationCapabilityResource layout" where
  "lay_key_rotation_capability B =
     lay_iso rotation_account_address (\<lambda>a. \<lparr>rotation_account_address = a\<rparr>) (lay_address B)"

definition lay_diem_account :: "binary_format \<Rightarrow> DiemAccountResourceV5 layout" where
  "lay_diem_account B =
     lay_iso (\<lambda>x. (da_authentication_key x, da_withdrawal_capability x, da_key_rotation_capability x,
         da_received_events x, da_sent_events x, da_sequence_number x))
       (\<lambda>(k, w, r, re, se, n). \<lparr>da_authentication_key = k, da_withdrawal_capability = w,
         da_key_rotation_capability = r, da_received_events = re, da_sent_events = se, da_sequence_number = n\<rparr>)
       (lay_pair (lay_bytes B) (lay_pair (lay_option (lay_bool B) (lay_withdraw_capability B))
         (lay_pair (lay_option (lay_bool B) (lay_key_rotation_capability B))
           (lay_pair (lay_event_handle B) (lay_pair (lay_event_handle B) (lay_u64 B))))))"

definition lay_balance :: "binary_format \<Rightarrow> BalanceResourceV5 layout" where
  "lay_balance B = lay_iso balance_coin (\<lambda>n. \<lparr>balance_coin = n\<rparr>) (lay_u64 B)"

definition lay_freezing :: "binary_format \<Rightarrow> FreezingBit layout" where
  "lay_freezing B = lay_iso is_frozen (\<lambda>b. \<lparr>is_frozen = b\<rparr>) (lay_bool B)"

definition lay_slow_wallet :: "binary_format \<Rightarrow> SlowWalletResourceV5 layout" where
  "lay_slow_wallet B =
     lay_iso (\<lambda>x. (slow_unlocked x, slow_transferred x)) (\<lambda>(u, t). \<lparr>slow_unlocked = u, slow_transferred = t\<rparr>)
       (lay_pair (lay_u64 B) (lay_u64 B))"

definition lay_cumulative_deposit :: "binary_format \<Rightarrow> CumulativeDepositResource layout" where
  "lay_cumulative_deposit B =
     lay_iso (\<lambda>x. (deposit_value x, deposit_index x)) (\<lambda>(v, i). \<lparr>deposit_value = v, deposit_index = i\<rparr>)
       (lay_pair (lay_u64 B) (lay_u64 B))"

definition lay_tower_state :: "binary_format \<Rightarrow> TowerStateResource layout" where
  "lay_tower_state B =
     lay_iso (\<lambda>x. (previous_proof_hash x, verified_tower_height x, latest_epoch_mining x, count_proofs_in_epoch x,
         epochs_validating_and_mining x, contiguous_epochs_validating_and_mining x, epochs_since_last_account_creation x))
       (\<lambda>(h, t, l, c, e, g, s). \<lparr>previous_proof_hash = h, verified_tower_height = t, latest_epoch_mining = l,
         count_proofs_in_epoch = c, epochs_validating_and_mining = e, contiguous_epochs_validating_and_mining = g,
         epochs_since_last_account_creation = s\<rparr>)
       (lay_pair (lay_bytes B) (lay_pair (lay_u64 B) (lay_pair (lay_u64 B) (lay_pair (lay_u64 B)
         (lay_pair (lay_u64 B) (lay_pair (lay_u64 B) (lay_u64 B)))))))"

definition lay_receipts :: "binary_format \<Rightarrow> ReceiptsResource layout" where
  "lay_receipts B =
     lay_iso (\<lambda>x. (receipts_destination x, receipts_cumulative x, receipts_last_payment_timestamp x,
         receipts_last_payment_value x))
       (\<lambda>(d, c, t, v). \<lparr>receipts_destination = d, receipts_cumulative = c, receipts_last_payment_timestamp = t,
         receipts_last_payment_value = v\<rparr>)
       (lay_pair (lay_vec (base B) (lay_address B)) (lay_pair (lay_vec (base B) (lay_u64 B))
         (lay_pair (lay_vec (base B) (lay_u64 B)) (lay_vec (base B) (lay_u64 B)))))"

definition lay_ancestry :: "binary_format \<Rightarrow> AncestryResource layout" where
  "lay_ancestry B = lay_iso ancestry_tree (\<lambda>as. \<lparr>ancestry_tree = as\<rparr>) (lay_vec (base B) (lay_address B))"

definition lay_community_wallets :: "binary_format \<Rightarrow> CommunityWalletsResourceLegacyV5 layout" where
  "lay_community_wallets B = lay_iso community_list (\<lambda>as. \<lparr>community_list = as\<rparr>) (lay_vec (base B) (lay_address B))"

definition lay_slow_wallet_list :: "binary_format \<Rightarrow> SlowWalletListResourceV5 layout" where
  "lay_slow_wallet_list B = lay_iso slow_wallet_list (\<lambda>as. \<lparr>slow_wallet_list = as\<rparr>) (lay_vec (base B) (lay_address B))"

definition lay_new_epoch :: "binary_format \<Rightarrow> NewEpochEventV5 layout" where
  "lay_new_epoch B = lay_iso new_epoch (\<lambda>n. \<lparr>new_epoch = n\<rparr>) (lay_u64 B)"

text \<open>\<^verbatim>\<open>try_from_bytes\<close> of the resources: \<open>lay_from_bytes\<close> at the layout of each.\<close>

definition try_from_bytes :: "'a layout \<Rightarrow> u8 list \<Rightarrow> 'a result" where
  "try_from_bytes l bs = lay_from_bytes l bs"

section \<open>Accessors of the account resources\<close>

definition AccountResourceV5_new :: "u64 \<Rightarrow> u8 list \<Rightarrow> LegacyAddressV5 \<Rightarrow> AccountResourceV5" where
  "AccountResourceV5_new n k a = \<lparr>ar_authentication_key = k, ar_sequence_number = n, ar_self_address = a\<rparr>"

definition rotate_auth_key :: "AccountResourceV5 \<Rightarrow> u8 list \<Rightarrow> AccountResourceV5" where
  "rotate_auth_key self new_key = self\<lparr>ar_authentication_key := new_key\<rparr>"

definition DiemAccountResourceV5_new :: "u64 \<Rightarrow> u8 list \<Rightarrow> EventHandleV5 \<Rightarrow> EventHandleV5 \<Rightarrow> DiemAccountResourceV5" where
  "DiemAccountResourceV5_new n k sent received =
     \<lparr>da_authentication_key = k, da_withdrawal_capability = None, da_key_rotation_capability = None,
      da_received_events = received, da_sent_events = sent, da_sequence_number = n\<rparr>"

definition has_delegated_withdrawal_capability :: "DiemAccountResourceV5 \<Rightarrow> bool" where
  "has_delegated_withdrawal_capability self = (da_withdrawal_capability self = None)"

definition has_delegated_key_rotation_capability :: "DiemAccountResourceV5 \<Rightarrow> bool" where
  "has_delegated_key_rotation_capability self = (da_key_rotation_capability self = None)"

text \<open>The address of the account: the creator of its stream of sent events, through its text form.\<close>

definition diem_account_address ::
  "(u8 list \<Rightarrow> string) \<Rightarrow> (nat \<Rightarrow> string \<Rightarrow> u8 list option) \<Rightarrow> DiemAccountResourceV5 \<Rightarrow> LegacyAddressV5 result" where
  "diem_account_address hex_encode hex_array self =
     and_then (get_creator_address (handle_key (da_sent_events self))) (\<lambda>a.
       expect ''cannot decode DiemAccount address''
         (address_from_hex_literal hex_array (address_to_hex_literal hex_encode a)))"

section \<open>Account state\<close>

record AccountStateV5 =
  account_entries :: "(u8 list \<times> u8 list) list"

definition get_resource_data :: "serde_format \<Rightarrow> StructTagV5 \<Rightarrow> AccountStateV5 \<Rightarrow> u8 list result" where
  "get_resource_data F tag self =
     and_then (resource_path F tag) (\<lambda>key.
       ok_or ''could not find in btree type'' (map_of (account_entries self) key))"

definition find_bytes_legacy_struct_tag_v5 :: "serde_format \<Rightarrow> StructTagV5 \<Rightarrow> AccountStateV5 \<Rightarrow> u8 list result" where
  "find_bytes_legacy_struct_tag_v5 F tag self =
     and_then (fst (struct_access_vector F tag 0)) (\<lambda>key.
       ok_or (''could not find in btree type '' @ tag_module tag) (map_of (account_entries self) key))"

definition get_resource :: "serde_format \<Rightarrow> 'a layout \<Rightarrow> StructTagV5 \<Rightarrow> AccountStateV5 \<Rightarrow> 'a result" where
  "get_resource F l tag self = and_then (get_resource_data F tag self) (\<lambda>bytes. lay_from_bytes l bytes)"

definition get_diem_account_resource :: "binary_format \<Rightarrow> AccountStateV5 \<Rightarrow> DiemAccountResourceV5 result" where
  "get_diem_account_resource B self = get_resource (base B) (lay_diem_account B) diem_account_tag self"

definition get_address ::
  "(u8 list \<Rightarrow> string) \<Rightarrow> (nat \<Rightarrow> string \<Rightarrow> u8 list option) \<Rightarrow> binary_format \<Rightarrow> AccountStateV5 \<Rightarrow> LegacyAddressV5 result" where
  "get_address hex_encode hex_array B self =
     and_then (get_diem_account_resource B self) (\<lambda>dr. diem_account_address hex_encode hex_array dr)"

text \<open>A panic of \<^verbatim>\<open>access_vector\<close> is not caught by the match; the tags of the two account resources are
  short, so there is none (\<open>resource_paths\<close> below).\<close>

definition get_account_resource ::
  "(u8 list \<Rightarrow> string) \<Rightarrow> (nat \<Rightarrow> string \<Rightarrow> u8 list option) \<Rightarrow> binary_format \<Rightarrow> AccountStateV5 \<Rightarrow> AccountResourceV5 result" where
  "get_account_resource hex_encode hex_array B self =
     (case get_resource (base B) (lay_account_resource B) account_tag self of
        Inr x \<Rightarrow> Inr x
      | Inl (Panic m) \<Rightarrow> Inl (Panic m)
      | Inl (Err _) \<Rightarrow>
          (case get_resource (base B) (lay_diem_account B) diem_account_tag self of
             Inr diem_ar \<Rightarrow> and_then (diem_account_address hex_encode hex_array diem_ar) (\<lambda>a.
               Inr (AccountResourceV5_new (da_sequence_number diem_ar) (da_authentication_key diem_ar) a))
           | Inl (Panic m) \<Rightarrow> Inl (Panic m)
           | Inl (Err _) \<Rightarrow> Inl (Err ''can't find an AccountResource or DiemAccountResource'')))"

text \<open>The blob: the bytes of a state, with their hash, which is not serialized. \<open>lay_map\<close> is the layout
  of \<^verbatim>\<open>BTreeMap<Vec<u8>, Vec<u8>>\<close>.\<close>

record AccountStateBlob =
  blob :: "u8 list"
  blob_hash :: "u8 list"

definition AccountStateBlob_new :: "(u8 list \<Rightarrow> u8 list) \<Rightarrow> u8 list \<Rightarrow> AccountStateBlob" where
  "AccountStateBlob_new hasher bs = \<lparr>blob = bs, blob_hash = hasher bs\<rparr>"

definition lay_blob :: "(u8 list \<Rightarrow> u8 list) \<Rightarrow> binary_format \<Rightarrow> AccountStateBlob layout" where
  "lay_blob hasher B = lay_iso blob (AccountStateBlob_new hasher) (lay_bytes B)"

definition to_account_state :: "(u8 list \<times> u8 list) list layout \<Rightarrow> AccountStateBlob \<Rightarrow> AccountStateV5 result" where
  "to_account_state lay_map self =
     and_then (lay_from_bytes lay_map (blob self)) (\<lambda>m. Inr \<lparr>account_entries = m\<rparr>)"

section \<open>Resources are read back\<close>

definition wf_handle :: "EventHandleV5 \<Rightarrow> bool" where
  "wf_handle h = wf_event_key (handle_key h)"

definition wf_diem_account :: "DiemAccountResourceV5 \<Rightarrow> bool" where
  "wf_diem_account d \<longleftrightarrow> wf_handle (da_received_events d) \<and> wf_handle (da_sent_events d) \<and>
     (case da_withdrawal_capability d of None \<Rightarrow> True | Some c \<Rightarrow> wf_address (withdraw_account_address c)) \<and>
     (case da_key_rotation_capability d of None \<Rightarrow> True | Some c \<Rightarrow> wf_address (rotation_account_address c))"

context binary_layouts
begin

lemma account_resource_layout: "layout_ok (\<lambda>x. wf_address (ar_self_address x)) (lay_account_resource B)"
  unfolding lay_account_resource_def by (rule layout_ok_conv, (rule layout_intros)+, simp)

lemma event_handle_layout [layout_intros]: "layout_ok wf_handle (lay_event_handle B)"
  unfolding lay_event_handle_def
  by (rule layout_ok_conv, (rule layout_intros)+, simp add: wf_handle_def EventHandleV5_new_def)

lemma capability_layouts [layout_intros]:
  "layout_ok (\<lambda>c. wf_address (withdraw_account_address c)) (lay_withdraw_capability B)"
  "layout_ok (\<lambda>c. wf_address (rotation_account_address c)) (lay_key_rotation_capability B)"
  unfolding lay_withdraw_capability_def lay_key_rotation_capability_def
  by (rule layout_ok_conv, rule address_layout, simp)+

lemma diem_account_layout: "layout_ok wf_diem_account (lay_diem_account B)"
  unfolding lay_diem_account_def
  by (rule layout_ok_conv, (rule layout_intros)+, simp add: wf_diem_account_def)

lemma number_resource_layouts:
  "layout_ok (\<lambda>_. True) (lay_balance B)" "layout_ok (\<lambda>_. True) (lay_freezing B)"
  "layout_ok (\<lambda>_. True) (lay_slow_wallet B)" "layout_ok (\<lambda>_. True) (lay_cumulative_deposit B)"
  "layout_ok (\<lambda>_. True) (lay_tower_state B)" "layout_ok (\<lambda>_. True) (lay_new_epoch B)"
  unfolding lay_balance_def lay_freezing_def lay_slow_wallet_def lay_cumulative_deposit_def lay_tower_state_def lay_new_epoch_def
  by (rule layout_ok_conv, (rule layout_intros)+, simp)+

lemma address_list_layouts:
  "layout_ok (\<lambda>x. list_all wf_address (ancestry_tree x)) (lay_ancestry B)"
  "layout_ok (\<lambda>x. list_all wf_address (community_list x)) (lay_community_wallets B)"
  "layout_ok (\<lambda>x. list_all wf_address (slow_wallet_list x)) (lay_slow_wallet_list B)"
  "layout_ok (\<lambda>x. list_all wf_address (receipts_destination x)) (lay_receipts B)"
  unfolding lay_ancestry_def lay_community_wallets_def lay_slow_wallet_list_def lay_receipts_def
  by (rule layout_ok_conv, (rule layout_intros)+, simp add: list_all_iff)+

lemma get_resource_found:
  assumes "layout_ok P l" "P x" "resource_path F' tag = Inr key" "map_of (account_entries s) key = Some bs"
    "lay_to_bytes l x = Inr bs"
  shows "get_resource F' l tag s = Inr x"
  using assms layout_from_to_bytes by (simp add: get_resource_def get_resource_data_def)

end

text \<open>Every resource of the sources has a path, and no two have the same.\<close>

definition resource_tags :: "StructTagV5 list" where
  "resource_tags = [account_tag, diem_account_tag, withdraw_capability_tag, key_rotation_capability_tag, balance_tag,
     freezing_tag, slow_wallet_tag, slow_wallet_list_tag, cumulative_deposit_tag, tower_state_tag, receipts_tag,
     ancestry_tag, community_wallets_tag, new_epoch_tag]"

lemmas tag_defs = account_tag_def diem_account_tag_def withdraw_capability_tag_def key_rotation_capability_tag_def
  balance_tag_def freezing_tag_def slow_wallet_tag_def slow_wallet_list_tag_def cumulative_deposit_tag_def
  tower_state_tag_def receipts_tag_def ancestry_tag_def community_wallets_tag_def new_epoch_tag_def struct_tag_def

lemma core_address_wf [simp]: "wf_address LEGACY_CORE_CODE_ADDRESS"
  by (simp add: wf_address_def LEGACY_CORE_CODE_ADDRESS_def LegacyAddressV5_new_def ADDRESS_LENGTH_def)

lemma resource_tags_small:
  assumes "t \<in> set resource_tags"
  shows "wf_struct_tag t" "struct_nesting t \<le> 8"
  using assms by (auto simp: resource_tags_def tag_defs)

lemma resource_tags_fit: "serde_binary F \<Longrightarrow> t \<in> set resource_tags \<Longrightarrow> struct_tag_fits F t"
  by (auto simp: resource_tags_def tag_defs serde_binary.len_ok serde_binary.str_ok)

lemma resource_tags_distinct: "distinct resource_tags"
  by (simp add: resource_tags_def tag_defs)

lemma resource_path_ok:
  assumes F: "serde_binary F" and t: "t \<in> set resource_tags"
  shows "\<exists>key. resource_path F t = Inr key"
  using ser_ok_iff(2) [of 0 F t] resource_tags_fit [OF F t] resource_tags_small [OF t]
  by (auto simp: resource_path_def struct_access_vector_def MAX_TYPE_TAG_NESTING_def outcome_def is_ok_iff split: prod.splits)

lemma resource_path_inj:
  assumes F: "serde_binary F" and t: "t \<in> set resource_tags" "u \<in> set resource_tags"
    and eq: "resource_path F t = resource_path F u"
  shows "t = u"
proof -
  obtain bs where bs: "outcome (ser_struct_tag F t) 0 = Inr bs" "outcome (ser_struct_tag F u) 0 = Inr bs"
    using resource_path_ok [OF F t(1)] eq
    by (auto simp: resource_path_def struct_access_vector_def outcome_def and_then_eq_Inr expect_eq_Inr split: prod.splits)
  have "outcome (de_struct_tag_with F (de_type_tag F 9) (bs @ [])) 0 = Inr (v, [])"
    if "v \<in> {t, u}" for v
    using serde_binary.de_ser(2) [OF F, of v 0 bs 0 9 "[]"] bs that resource_tags_small t by auto
  from this [of t] this [of u] show ?thesis by simp
qed

lemma diem_account_address_creator:
  assumes "hex_crate hex_encode hex_array" "wf_diem_account d"
  shows "diem_account_address hex_encode hex_array d = Inr (event_creator (handle_key (da_sent_events d)))"
  using event_key_accessors [of "handle_key (da_sent_events d)"] assms address_literal_roundtrip(1) [OF assms(1)]
  by (simp add: diem_account_address_def wf_diem_account_def wf_handle_def)

lemma get_resource_absent:
  assumes "resource_path F tag = Inr key" "map_of (account_entries s) key = None"
  shows "\<exists>e. get_resource F l tag s = Inl (Err e)"
  using assms by (simp add: get_resource_def get_resource_data_def)

text \<open>C32. The account resource of a legacy account state: an account that holds a current account resource
  gets that resource back; one that holds only the older one gets its sequence number and its
  authentication key, with the address that created its stream of sent events, which is also what
  \<^verbatim>\<open>get_address\<close> returns; with neither resource both accessors return an error and nothing panics.\<close>

theorem account_resource_lookup:
  assumes B: "binary_layouts B" and hex: "hex_crate hex_encode hex_array"
    and paths: "resource_path (base B) account_tag = Inr k" "resource_path (base B) diem_account_tag = Inr k'"
    and wf: "wf_address (ar_self_address ar)" "wf_diem_account d"
    and enc: "lay_to_bytes (lay_account_resource B) ar = Inr bs" "lay_to_bytes (lay_diem_account B) d = Inr bs'"
  shows "(map_of (account_entries s) k = Some bs \<longrightarrow> get_account_resource hex_encode hex_array B s = Inr ar) \<and>
    (map_of (account_entries s) k = None \<and> map_of (account_entries s) k' = Some bs' \<longrightarrow>
       (let a = event_creator (handle_key (da_sent_events d)) in
        get_account_resource hex_encode hex_array B s =
          Inr (AccountResourceV5_new (da_sequence_number d) (da_authentication_key d) a) \<and>
        get_address hex_encode hex_array B s = Inr a)) \<and>
    (map_of (account_entries s) k = None \<and> map_of (account_entries s) k' = None \<longrightarrow>
       get_account_resource hex_encode hex_array B s = Inl (Err ''can't find an AccountResource or DiemAccountResource'') \<and>
       (\<exists>e. get_address hex_encode hex_array B s = Inl (Err e)))"
proof (intro conjI impI)
  note found = binary_layouts.get_resource_found [OF B]
  assume "map_of (account_entries s) k = Some bs"
  from found [OF binary_layouts.account_resource_layout [OF B] wf(1) paths(1) this enc(1)]
  show "get_account_resource hex_encode hex_array B s = Inr ar" by (simp add: get_account_resource_def)
next
  note found = binary_layouts.get_resource_found [OF B]
  assume a: "map_of (account_entries s) k = None \<and> map_of (account_entries s) k' = Some bs'"
  from found [OF binary_layouts.diem_account_layout [OF B] wf(2) paths(2) _ enc(2)] a
  have d: "get_resource (base B) (lay_diem_account B) diem_account_tag s = Inr d" by simp
  from get_resource_absent [OF paths(1)] a
  obtain e where "get_resource (base B) (lay_account_resource B) account_tag s = Inl (Err e)" by blast
  with d show "let a = event_creator (handle_key (da_sent_events d)) in
      get_account_resource hex_encode hex_array B s =
        Inr (AccountResourceV5_new (da_sequence_number d) (da_authentication_key d) a) \<and>
      get_address hex_encode hex_array B s = Inr a"
    using diem_account_address_creator [OF hex wf(2)]
    by (simp add: get_account_resource_def get_address_def get_diem_account_resource_def)
next
  assume a: "map_of (account_entries s) k = None \<and> map_of (account_entries s) k' = None"
  obtain e e' where "get_resource (base B) (lay_account_resource B) account_tag s = Inl (Err e)"
      "get_resource (base B) (lay_diem_account B) diem_account_tag s = Inl (Err e')"
    using get_resource_absent [OF paths(1)] get_resource_absent [OF paths(2)] a by blast
  then show "get_account_resource hex_encode hex_array B s = Inl (Err ''can't find an AccountResource or DiemAccountResource'')"
    "\<exists>e. get_address hex_encode hex_array B s = Inl (Err e)"
    by (simp_all add: get_account_resource_def get_address_def get_diem_account_resource_def)
qed

text \<open>The resources of the account record in \<^verbatim>\<open>decode_record_from_string\<close>, a test of the sources.\<close>

definition example_diem_account :: DiemAccountResourceV5 where
  "example_diem_account =
     (let a = LegacyAddressV5_new [196, 143, 214, 249, 130, 146, 218, 51, 177, 28, 72, 120, 179, 109, 222, 27] in
      \<lparr>da_authentication_key = [137, 69, 80, 36, 176, 201, 21, 124, 106, 97, 3, 175, 45, 180, 152, 244] @ addr_bytes a,
       da_withdrawal_capability = Some \<lparr>withdraw_account_address = a\<rparr>,
       da_key_rotation_capability = Some \<lparr>rotation_account_address = a\<rparr>,
       da_received_events = EventHandleV5_new (new_from_address a 0) 1,
       da_sent_events = EventHandleV5_new (new_from_address a 1) 0,
       da_sequence_number = 0\<rparr>)"

definition example_diem_account_bytes :: "u8 list" where
  "example_diem_account_bytes =
     [32, 137, 69, 80, 36, 176, 201, 21, 124, 106, 97, 3, 175, 45, 180, 152, 244, 196, 143, 214, 249, 130, 146, 218, 51,
      177, 28, 72, 120, 179, 109, 222, 27, 1, 196, 143, 214, 249, 130, 146, 218, 51, 177, 28, 72, 120, 179, 109, 222, 27,
      1, 196, 143, 214, 249, 130, 146, 218, 51, 177, 28, 72, 120, 179, 109, 222, 27, 1, 0, 0, 0, 0, 0, 0, 0, 24, 0, 0,
      0, 0, 0, 0, 0, 0, 196, 143, 214, 249, 130, 146, 218, 51, 177, 28, 72, 120, 179, 109, 222, 27, 0, 0, 0, 0, 0, 0,
      0, 0, 24, 1, 0, 0, 0, 0, 0, 0, 0, 196, 143, 214, 249, 130, 146, 218, 51, 177, 28, 72, 120, 179, 109, 222, 27,
      0, 0, 0, 0, 0, 0, 0, 0]"

lemma le_bytes_8_small: "le_bytes 8 0 = [0,0,0,0,0,0,0,0]" "le_bytes 8 (Suc 0) = [1,0,0,0,0,0,0,0]"
  by code_simp+

lemma word_enc_1: "word_enc 1 (b :: u8) = [b]" "word_enc (Suc 0) (b :: u8) = [b]"
  by (simp_all add: word_enc_def)

lemma example_diem_account_encoded:
  "lay_to_bytes (lay_diem_account ref_binary) example_diem_account = Inr example_diem_account_bytes"
  by (simp add: lay_to_bytes_def lay_diem_account_def lay_conv_def lay_pair_def lay_option_def lay_withdraw_capability_def
    lay_key_rotation_capability_def lay_event_handle_def lay_event_key_def lay_address_def ref_binary_def total_layout_def
    example_diem_account_def example_diem_account_bytes_def Let_def EventHandleV5_new_def newtype_bytes_def
    event_key_serialize_def new_from_address_def u64_to_le_bytes_def le_bytes_8_small LegacyAddressV5_new_def
    word_enc_1 vec_enc_def uleb128.simps word_enc_def [where 'a = 64] ref_format_def)

lemma example_diem_account_wf: "wf_diem_account example_diem_account"
  by (simp add: wf_diem_account_def example_diem_account_def Let_def wf_handle_def EventHandleV5_new_def wf_event_key_def
    EVENT_KEY_LENGTH_def ADDRESS_LENGTH_def LegacyAddressV5_new_def new_from_address_def u64_to_le_bytes_def wf_address_def)

theorem account_resource_lookup_witness:
  "\<exists>k. resource_path ref_format diem_account_tag = Inr k \<and>
     get_account_resource lower_hex ref_hex_array ref_binary \<lparr>account_entries = [(k, example_diem_account_bytes)]\<rparr> =
       Inr (AccountResourceV5_new 0 (da_authentication_key example_diem_account)
         (withdraw_account_address (the (da_withdrawal_capability example_diem_account))))"
proof -
  have rb: "base ref_binary = ref_format" by (simp add: ref_binary_def)
  obtain k k' where k: "resource_path ref_format account_tag = Inr k" "resource_path ref_format diem_account_tag = Inr k'"
    using resource_path_ok [OF ref_format.serde_binary_axioms, of account_tag]
      resource_path_ok [OF ref_format.serde_binary_axioms, of diem_account_tag] by (auto simp: resource_tags_def)
  have "account_tag \<noteq> diem_account_tag" by (simp add: tag_defs)
  then have ne: "k' \<noteq> k"
    using k resource_path_inj [OF ref_format.serde_binary_axioms, of account_tag diem_account_tag] by (auto simp: resource_tags_def)
  let ?ar = "AccountResourceV5_new 0 [] LEGACY_CORE_CODE_ADDRESS"
  have ar: "\<exists>bs. lay_to_bytes (lay_account_resource ref_binary) ?ar = Inr bs"
    by (simp add: lay_to_bytes_def lay_account_resource_def lay_conv_def lay_pair_def lay_address_def ref_binary_def
      total_layout_def AccountResourceV5_new_def)
  have wf: "wf_diem_account example_diem_account" "wf_address (ar_self_address ?ar)"
    by (simp_all add: example_diem_account_wf AccountResourceV5_new_def)
  have c: "event_creator (handle_key (da_sent_events example_diem_account)) =
      withdraw_account_address (the (da_withdrawal_capability example_diem_account))" "da_sequence_number example_diem_account = 0"
    by (simp_all add: event_creator_def example_diem_account_def Let_def EventHandleV5_new_def new_from_address_def
      u64_to_le_bytes_def le_bytes_8_small LegacyAddressV5_new_def)
  from ar obtain bs where "lay_to_bytes (lay_account_resource ref_binary) ?ar = Inr bs" by blast
  from account_resource_lookup [OF ref_binary.binary_layouts_axioms ref_hex.hex_crate_axioms, unfolded rb, OF k wf(2,1) this
      example_diem_account_encoded, of "\<lparr>account_entries = [(k', example_diem_account_bytes)]\<rparr>"] ne c k(2)
  show ?thesis by (simp add: Let_def)
qed

text \<open>The record of the test, decoded: every assertion of the test holds of the model.\<close>

definition record_entries :: "(u8 list \<times> u8 list) list" where
  "record_entries =
     [([1, 0, 0, 0, 0, 0, 0, 0, 0, 0, 0, 0, 0, 0, 0, 0, 1, 5, 82, 111, 108, 101, 115, 6, 82, 111, 108, 101, 73,
       100, 0],
       [10, 0, 0, 0, 0, 0, 0, 0]),
      ([1, 0, 0, 0, 0, 0, 0, 0, 0, 0, 0, 0, 0, 0, 0, 0, 1, 8, 82, 101, 99, 101, 105, 112, 116, 115, 12, 85, 115,
       101, 114, 82, 101, 99, 101, 105, 112, 116, 115, 0],
       [0, 0, 0, 0]),
      ([1, 0, 0, 0, 0, 0, 0, 0, 0, 0, 0, 0, 0, 0, 0, 0, 1, 11, 68, 105, 101, 109, 65, 99, 99, 111, 117, 110, 116,
       11, 68, 105, 101, 109, 65, 99, 99, 111, 117, 110, 116, 0],
       example_diem_account_bytes),
      ([1, 0, 0, 0, 0, 0, 0, 0, 0, 0, 0, 0, 0, 0, 0, 0, 1, 5, 69, 118, 101, 110, 116, 20, 69, 118, 101, 110, 116,
       72, 97, 110, 100, 108, 101, 71, 101, 110, 101, 114, 97, 116, 111, 114, 0],
       [2, 0, 0, 0, 0, 0, 0, 0, 196, 143, 214, 249, 130, 146, 218, 51, 177, 28, 72, 120, 179, 109, 222, 27]),
      ([1, 0, 0, 0, 0, 0, 0, 0, 0, 0, 0, 0, 0, 0, 0, 0, 1, 15, 65, 99, 99, 111, 117, 110, 116, 70, 114, 101, 101,
       122, 105, 110, 103, 11, 70, 114, 101, 101, 122, 105, 110, 103, 66, 105, 116, 0],
       [0]),
      ([1, 0, 0, 0, 0, 0, 0, 0, 0, 0, 0, 0, 0, 0, 0, 0, 1, 11, 68, 105, 101, 109, 65, 99, 99, 111, 117, 110, 116,
       7, 66, 97, 108, 97, 110, 99, 101, 1, 7, 0, 0, 0, 0, 0, 0, 0, 0, 0, 0, 0, 0, 0, 0, 0, 1, 3, 71, 65, 83, 3,
       71, 65, 83, 0],
       [64, 66, 15, 0, 0, 0, 0, 0])]"

definition record_hash :: HashValueV5 where
  "record_hash = \<lparr>hash = [0, 3, 90, 124, 150, 41, 183, 229, 46, 148, 222, 101, 230, 168, 146, 112, 31, 226, 131, 81, 24, 100, 5, 190,
     150, 237, 35, 244, 177, 37, 47, 122]\<rparr>"

definition record_bytes :: "u8 list" where
  "record_bytes =
     [32, 0, 3, 90, 124, 150, 41, 183, 229, 46, 148, 222, 101, 230, 168, 146, 112, 31, 226, 131, 81, 24, 100, 5,
      190, 150, 237, 35, 244, 177, 37, 47, 122, 212, 3, 6, 31, 1, 0, 0, 0, 0, 0, 0, 0, 0, 0, 0, 0, 0, 0, 0, 0, 1,
      5, 82, 111, 108, 101, 115, 6, 82, 111, 108, 101, 73, 100, 0, 8, 10, 0, 0, 0, 0, 0, 0, 0, 40, 1, 0, 0, 0, 0,
      0, 0, 0, 0, 0, 0, 0, 0, 0, 0, 0, 1, 8, 82, 101, 99, 101, 105, 112, 116, 115, 12, 85, 115, 101, 114, 82, 101,
      99, 101, 105, 112, 116, 115, 0, 4, 0, 0, 0, 0, 42, 1, 0, 0, 0, 0, 0, 0, 0, 0, 0, 0, 0, 0, 0, 0, 0, 1, 11,
      68, 105, 101, 109, 65, 99, 99, 111, 117, 110, 116, 11, 68, 105, 101, 109, 65, 99, 99, 111, 117, 110, 116, 0,
      141, 1, 32, 137, 69, 80, 36, 176, 201, 21, 124, 106, 97, 3, 175, 45, 180, 152, 244, 196, 143, 214, 249, 130,
      146, 218, 51, 177, 28, 72, 120, 179, 109, 222, 27, 1, 196, 143, 214, 249, 130, 146, 218, 51, 177, 28, 72,
      120, 179, 109, 222, 27, 1, 196, 143, 214, 249, 130, 146, 218, 51, 177, 28, 72, 120, 179, 109, 222, 27, 1, 0,
      0, 0, 0, 0, 0, 0, 24, 0, 0, 0, 0, 0, 0, 0, 0, 196, 143, 214, 249, 130, 146, 218, 51, 177, 28, 72, 120, 179,
      109, 222, 27, 0, 0, 0, 0, 0, 0, 0, 0, 24, 1, 0, 0, 0, 0, 0, 0, 0, 196, 143, 214, 249, 130, 146, 218, 51,
      177, 28, 72, 120, 179, 109, 222, 27, 0, 0, 0, 0, 0, 0, 0, 0, 45, 1, 0, 0, 0, 0, 0, 0, 0, 0, 0, 0, 0, 0, 0,
      0, 0, 1, 5, 69, 118, 101, 110, 116, 20, 69, 118, 101, 110, 116, 72, 97, 110, 100, 108, 101, 71, 101, 110,
      101, 114, 97, 116, 111, 114, 0, 24, 2, 0, 0, 0, 0, 0, 0, 0, 196, 143, 214, 249, 130, 146, 218, 51, 177, 28,
      72, 120, 179, 109, 222, 27, 46, 1, 0, 0, 0, 0, 0, 0, 0, 0, 0, 0, 0, 0, 0, 0, 0, 1, 15, 65, 99, 99, 111, 117,
      110, 116, 70, 114, 101, 101, 122, 105, 110, 103, 11, 70, 114, 101, 101, 122, 105, 110, 103, 66, 105, 116, 0,
      1, 0, 64, 1, 0, 0, 0, 0, 0, 0, 0, 0, 0, 0, 0, 0, 0, 0, 0, 1, 11, 68, 105, 101, 109, 65, 99, 99, 111, 117,
      110, 116, 7, 66, 97, 108, 97, 110, 99, 101, 1, 7, 0, 0, 0, 0, 0, 0, 0, 0, 0, 0, 0, 0, 0, 0, 0, 1, 3, 71, 65,
      83, 3, 71, 65, 83, 0, 8, 64, 66, 15, 0, 0, 0, 0, 0]"

definition ref_map :: "(u8 list \<times> u8 list) list layout" where
  "ref_map = lay_vec ref_format (lay_pair (lay_bytes ref_binary) (lay_bytes ref_binary))"

lemma ref_map_ok: "layout_ok (\<lambda>_. True) ref_map"
proof -
  have "serde_binary ref_format" by (rule ref_format.serde_binary_axioms)
  from serde_binary.layout_ok_vec [OF this layout_ok_pair [OF ref_binary.bytes_layout ref_binary.bytes_layout]]
  show ?thesis unfolding ref_map_def by (rule layout_ok_weaken) (simp add: list_all_iff case_prod_beta)
qed

lemma concat_word_enc_1: "concat (map (word_enc (Suc 0)) bs) = (bs :: u8 list)"
  by (induction bs) (simp_all add: word_enc_1)

lemma put_bytes_ref: "short bs \<Longrightarrow> lay_put (lay_bytes ref_binary) bs = Inr (uleb128 (length bs) @ bs)"
  by (simp add: ref_binary_def vec_enc_def concat_word_enc_1)

lemma record_blob:
  "\<exists>bs. lay_to_bytes ref_map record_entries = Inr bs \<and>
     lay_to_bytes (lay_pair (lay_hash ref_binary) (lay_blob H ref_binary)) (record_hash, AccountStateBlob_new H bs) = Inr record_bytes"
  by (simp add: lay_to_bytes_def ref_map_def lay_vec_def lay_pair_def lay_hash_def lay_blob_def lay_conv_def put_bytes_ref
    record_entries_def example_diem_account_bytes_def record_hash_def record_bytes_def AccountStateBlob_new_def
    newtype_bytes_def serialize_def ref_format_def uleb128.simps)

lemma record_paths:
  "resource_path ref_format freezing_tag = Inr (fst (record_entries ! 4))"
  "resource_path ref_format balance_tag = Inr (fst (record_entries ! 5))"
  "resource_path ref_format diem_account_tag = Inr (fst (record_entries ! 2))"
  by (simp_all add: resource_path_def struct_access_vector_def tag_defs depth_bind_def ser_then_def depth_lift_def
    type_tag_recursive_serialize_def MAX_TYPE_TAG_NESTING_def
    ref_format_def RESOURCE_TAG_def LEGACY_CORE_CODE_ADDRESS_def LegacyAddressV5_new_def vec_enc_def uleb128.simps word_enc_1
    record_entries_def)

lemma record_found: "i < 6 \<Longrightarrow> map_of record_entries (fst (record_entries ! i)) = Some (snd (record_entries ! i))"
proof -
  assume "i < 6"
  then have "record_entries ! i \<in> set record_entries" by (intro nth_mem) (simp add: record_entries_def)
  moreover have "distinct (map fst record_entries)" by (simp add: record_entries_def)
  ultimately show ?thesis by (simp add: map_of_eq_Some_iff prod.collapse)
qed

theorem decode_record_from_string:
  "\<exists>b s. lay_from_bytes (lay_pair (lay_hash ref_binary) (lay_blob H ref_binary)) record_bytes = Inr (record_hash, b) \<and>
     to_account_state ref_map b = Inr s \<and>
     get_resource ref_format (lay_freezing ref_binary) freezing_tag s = Inr \<lparr>is_frozen = False\<rparr> \<and>
     get_resource ref_format (lay_balance ref_binary) balance_tag s = Inr \<lparr>balance_coin = 1000000\<rparr> \<and>
     get_diem_account_resource ref_binary s = Inr example_diem_account"
proof -
  obtain bs where bs: "lay_to_bytes ref_map record_entries = Inr bs"
    "lay_to_bytes (lay_pair (lay_hash ref_binary) (lay_blob H ref_binary)) (record_hash, AccountStateBlob_new H bs) = Inr record_bytes"
    using record_blob by blast
  have "layout_ok (\<lambda>b. b = AccountStateBlob_new H (blob b)) (lay_blob H ref_binary)"
    unfolding lay_blob_def by (rule layout_ok_conv [OF ref_binary.bytes_layout]) simp
  from layout_from_to_bytes [OF layout_ok_pair [OF ref_binary.hash_layout this] _ bs(2)]
  have r: "lay_from_bytes (lay_pair (lay_hash ref_binary) (lay_blob H ref_binary)) record_bytes =
      Inr (record_hash, AccountStateBlob_new H bs)"
    by (simp add: AccountStateBlob_new_def wf_hash_def record_hash_def HASH_LENGTH_def)
  let ?s = "\<lparr>account_entries = record_entries\<rparr>"
  have st: "to_account_state ref_map (AccountStateBlob_new H bs) = Inr ?s"
    using layout_from_to_bytes [OF ref_map_ok _ bs(1)] by (simp add: to_account_state_def AccountStateBlob_new_def)
  have rb: "base ref_binary = ref_format" by (simp add: ref_binary_def)
  have "lay_to_bytes (lay_freezing ref_binary) \<lparr>is_frozen = False\<rparr> = Inr (snd (record_entries ! 4))"
    by (simp add: lay_to_bytes_def lay_freezing_def lay_conv_def ref_binary_def total_layout_def record_entries_def)
  then have fr: "get_resource ref_format (lay_freezing ref_binary) freezing_tag ?s = Inr \<lparr>is_frozen = False\<rparr>"
    by (rule ref_binary.get_resource_found [OF ref_binary.number_resource_layouts(2) TrueI record_paths(1), rotated])
      (simp add: record_found)
  have "le_bytes (Suc (Suc (Suc (Suc (Suc (Suc (Suc (Suc 0)))))))) 1000000 = [64, 66, 15, 0, 0, 0, 0, 0]" by simp
  moreover have "Suc (Suc (Suc (Suc (Suc (Suc (Suc (Suc 0))))))) = 8" by simp
  ultimately have "le_bytes 8 1000000 = [64, 66, 15, 0, 0, 0, 0, 0]" by (simp only:)
  then have "lay_to_bytes (lay_balance ref_binary) \<lparr>balance_coin = 1000000\<rparr> = Inr (snd (record_entries ! 5))"
    by (simp add: lay_to_bytes_def lay_balance_def lay_conv_def ref_binary_def total_layout_def record_entries_def word_enc_def)
  then have ba: "get_resource ref_format (lay_balance ref_binary) balance_tag ?s = Inr \<lparr>balance_coin = 1000000\<rparr>"
    by (rule ref_binary.get_resource_found [OF ref_binary.number_resource_layouts(1) TrueI record_paths(2), rotated])
      (simp add: record_found)
  have "snd (record_entries ! 2) = example_diem_account_bytes" by (simp add: record_entries_def)
  moreover note example_diem_account_wf
  ultimately have "get_diem_account_resource ref_binary ?s = Inr example_diem_account"
    unfolding get_diem_account_resource_def rb using record_found [of 2] example_diem_account_encoded
    by (intro ref_binary.get_resource_found [OF ref_binary.diem_account_layout _ record_paths(3)]) simp_all
  with r st fr ba show ?thesis by blast
qed

end
