(* ===== verification/Legacy_Archive.thy ===== *)
theory Legacy_Archive
  imports Account_State
begin

text \<open>
  The archives of the chain before version 7 (\<^verbatim>\<open>compatibility/src/version_five/\<close>:
  \<^verbatim>\<open>state_snapshot_v5.rs\<close>, \<^verbatim>\<open>transaction_manifest_v5.rs\<close>, \<^verbatim>\<open>transaction_restore_v5.rs\<close>). A manifest
  lists chunk files; a chunk file is a sequence of framed records. The framing
  (\<^verbatim>\<open>ReadRecordBytes\<close> of \<^verbatim>\<open>diem_backup_cli\<close>) is a parameter with its laws in the locale
  \<open>record_framing\<close>, and so is the JSON parser of the manifests.
\<close>

section \<open>Framed records\<close>

text \<open>Reading the next record of the open file: an error, the end of the file, or a record and the rest.\<close>

type_synonym record_reader = "u8 list \<Rightarrow> (u8 list \<times> u8 list) option result"

locale record_framing =
  fixes read_record_bytes :: record_reader
    and frame :: "u8 list \<Rightarrow> u8 list"
  assumes at_end: "read_record_bytes [] = Inr None"
    and next_record: "length r < 2 ^ 32 \<Longrightarrow> read_record_bytes (frame r @ rest) = Inr (Some (r, rest))"
    and progress: "read_record_bytes bs = Inr (Some (r, rest)) \<Longrightarrow> length rest < length bs"

text \<open>The reference framing: four bytes of length, big-endian, then the record.\<close>

definition ref_frame :: "u8 list \<Rightarrow> u8 list" where
  "ref_frame r = rev (le_bytes 4 (length r)) @ r"

definition ref_read_record :: record_reader where
  "ref_read_record bs =
     (if bs = [] then Inr None
      else case le_parse 4 (rev (take 4 bs)) of
        None \<Rightarrow> Inl (Err ''Hit EOF while reading'')
      | Some (n, _) \<Rightarrow>
          let r = drop 4 bs in
          if length (take 4 bs) = 4 \<and> n \<le> length r then Inr (Some (take n r, drop n r)) else Inl (Err ''Hit EOF while reading''))"

interpretation ref_framing: record_framing ref_read_record ref_frame
proof
  show "ref_read_record [] = Inr None" by (simp add: ref_read_record_def)
next
  fix r rest :: "u8 list" assume l: "length r < 2 ^ 32"
  have "le_parse 4 (le_bytes 4 (length r) @ []) = Some (length r, [])" by (rule le_parse_bytes) (use l in simp)
  moreover have "le_bytes 4 (length r) \<noteq> []" using length_le_bytes [of 4 "length r"] by force
  ultimately show "ref_read_record (ref_frame r @ rest) = Inr (Some (r, rest))"
    using length_le_bytes [of 4 "length r"] by (auto simp: ref_read_record_def ref_frame_def Let_def)
next
  fix bs r rest assume "ref_read_record bs = Inr (Some (r, rest))"
  then show "length rest < length bs"
    by (auto simp: ref_read_record_def Let_def min_def split: if_splits option.splits)
qed

text \<open>The loop \<^verbatim>\<open>while let Some(record_bytes) = file.read_record_bytes().await?\<close>. Every record consumes
  input, so the length of the file bounds the number of rounds.\<close>

fun read_records :: "record_reader \<Rightarrow> (u8 list \<Rightarrow> 'a result) \<Rightarrow> nat \<Rightarrow> u8 list \<Rightarrow> 'a list result" where
  "read_records rd decode 0 bs = Inl (Err ''fuel'')"
| "read_records rd decode (Suc k) bs =
     (case rd bs of
        Inl e \<Rightarrow> Inl e
      | Inr None \<Rightarrow> Inr []
      | Inr (Some (r, rest)) \<Rightarrow>
          and_then (decode r) (\<lambda>x. and_then (read_records rd decode k rest) (\<lambda>xs. Inr (x # xs))))"

context record_framing
begin

lemma read_records_fuel:
  "length bs < k \<Longrightarrow> length bs < j \<Longrightarrow> read_records read_record_bytes decode k bs = read_records read_record_bytes decode j bs"
proof (induction k arbitrary: j bs)
  case (Suc k)
  then obtain i where j: "j = Suc i" by (cases j) auto
  have "read_records read_record_bytes decode k rest = read_records read_record_bytes decode i rest"
    if "read_record_bytes bs = Inr (Some (r, rest))" for r rest
    using progress [OF that] Suc by (intro Suc.IH) (auto simp: j)
  then show ?case by (auto simp: j split: sum.splits option.splits)
qed simp

lemma read_records_frames:
  assumes "\<And>r. r \<in> set rs \<Longrightarrow> length r < 2 ^ 32"
  shows "length rs < k \<Longrightarrow> read_records read_record_bytes decode k (concat (map frame rs)) = map_result decode rs"
  using assms
proof (induction rs arbitrary: k)
  case Nil
  then show ?case by (cases k) (simp_all add: at_end)
next
  case (Cons r rs)
  then show ?case by (cases k) (simp_all add: next_record)
qed

lemma frame_not_Nil: "length r < 2 ^ 32 \<Longrightarrow> frame r \<noteq> []"
  using next_record [of r "[]"] at_end by auto

lemma length_frames: "(\<And>r. r \<in> set rs \<Longrightarrow> length r < 2 ^ 32) \<Longrightarrow> length rs \<le> length (concat (map frame rs))"
proof (induction rs)
  case (Cons r rs)
  then show ?case using frame_not_Nil [of r] by (cases "frame r") auto
qed simp

end

section \<open>Files\<close>

record archive =
  text_files :: "string \<rightharpoonup> string"
  binary_files :: "string \<rightharpoonup> u8 list"

text \<open>\<^verbatim>\<open>Path::parent\<close> and \<^verbatim>\<open>Path::join\<close>, for paths without a trailing or doubled separator.\<close>

definition path_parent :: "string \<Rightarrow> string option" where
  "path_parent s =
     (if s = [] \<or> s = ''/'' then None
      else if CHR ''/'' \<in> set s
      then let d = rev (tl (dropWhile (\<lambda>c. c \<noteq> CHR ''/'') (rev s))) in Some (if d = [] then ''/'' else d)
      else Some [])"

definition path_push :: "string \<Rightarrow> string \<Rightarrow> string" where
  "path_push dir file =
     (if starts_with ''/'' file \<or> dir = [] then file
      else if last dir = CHR ''/'' then dir @ file
      else dir @ ''/'' @ file)"

definition open_for_read :: "archive \<Rightarrow> string \<Rightarrow> u8 list result" where
  "open_for_read fs handle = ok_or ''No such file or directory'' (binary_files fs handle)"

text \<open>A chunk of either kind: the handle is relative to the parent of the archive directory.\<close>

definition read_chunk ::
  "record_reader \<Rightarrow> (u8 list \<Rightarrow> 'a result) \<Rightarrow> archive \<Rightarrow> string \<Rightarrow> string \<Rightarrow> 'a list result" where
  "read_chunk rd decode fs file_handle archive_path =
     and_then (unwrap ''could not read archive path'' (path_parent archive_path)) (\<lambda>parent.
       let full_handle = path_push parent file_handle in
       if binary_files fs full_handle = None then Inl (Panic ''file does not exist'')
       else and_then (open_for_read fs full_handle) (\<lambda>file. read_records rd decode (Suc (length file)) file))"

section \<open>State snapshots\<close>

record StateSnapshotChunk =
  chunk_blobs :: string
  chunk_proof :: string

record StateSnapshotBackupV5 =
  snapshot_version :: u64
  snapshot_root_hash :: HashValueV5
  snapshot_chunks :: "StateSnapshotChunk list"
  snapshot_proof :: string

type_synonym AccountStateBlobRecord = "HashValueV5 \<times> AccountStateBlob"

definition lay_blob_record :: "(u8 list \<Rightarrow> u8 list) \<Rightarrow> binary_format \<Rightarrow> AccountStateBlobRecord layout" where
  "lay_blob_record hasher B = lay_pair (lay_hash B) (lay_blob hasher B)"

definition v5_read_from_snapshot_manifest ::
  "(string \<Rightarrow> StateSnapshotBackupV5 result) \<Rightarrow> archive \<Rightarrow> string \<Rightarrow> StateSnapshotBackupV5 result" where
  "v5_read_from_snapshot_manifest from_json fs path =
     and_then (ok_or ''No such file or directory'' (text_files fs path)) (\<lambda>config. from_json config)"

definition read_account_state_chunk ::
  "record_reader \<Rightarrow> AccountStateBlobRecord layout \<Rightarrow> archive \<Rightarrow> string \<Rightarrow> string \<Rightarrow> AccountStateBlobRecord list result" where
  "read_account_state_chunk rd lay fs file_handle archive_path =
     read_chunk rd (lay_from_bytes lay) fs file_handle archive_path"

fun v5_accounts_from_chunks ::
  "record_reader \<Rightarrow> AccountStateBlobRecord layout \<Rightarrow> archive \<Rightarrow> StateSnapshotChunk list \<Rightarrow> string \<Rightarrow> AccountStateBlob list result" where
  "v5_accounts_from_chunks rd lay fs [] archive_path = Inr []"
| "v5_accounts_from_chunks rd lay fs (chunk # chunks) archive_path =
     and_then (read_account_state_chunk rd lay fs (chunk_blobs chunk) archive_path) (\<lambda>records.
       and_then (v5_accounts_from_chunks rd lay fs chunks archive_path) (\<lambda>rest. Inr (map snd records @ rest)))"

definition v5_accounts_from_snapshot_backup ::
  "record_reader \<Rightarrow> AccountStateBlobRecord layout \<Rightarrow> archive \<Rightarrow> StateSnapshotBackupV5 \<Rightarrow> string \<Rightarrow> AccountStateBlob list result" where
  "v5_accounts_from_snapshot_backup rd lay fs manifest archive_path =
     v5_accounts_from_chunks rd lay fs (snapshot_chunks manifest) archive_path"

definition v5_accounts_from_manifest_path ::
  "record_reader \<Rightarrow> AccountStateBlobRecord layout \<Rightarrow> (string \<Rightarrow> StateSnapshotBackupV5 result) \<Rightarrow> archive \<Rightarrow> string \<Rightarrow>
     AccountStateBlob list result" where
  "v5_accounts_from_manifest_path rd lay from_json fs manifest_file =
     and_then (ok_or ''could not get archive path from manifest file'' (path_parent manifest_file)) (\<lambda>archive_path.
       and_then (v5_read_from_snapshot_manifest from_json fs manifest_file) (\<lambda>manifest.
         v5_accounts_from_snapshot_backup rd lay fs manifest archive_path))"

section \<open>Transaction backups\<close>

record TransactionChunk =
  tc_first_version :: u64
  tc_last_version :: u64
  tc_transactions :: string
  tc_proof :: string

record TransactionBackup =
  tb_first_version :: u64
  tb_last_version :: u64
  tb_chunks :: "TransactionChunk list"

fun verify_chunks :: "u64 \<Rightarrow> TransactionChunk list \<Rightarrow> u64 result" where
  "verify_chunks next_version [] = Inr next_version"
| "verify_chunks next_version (chunk # chunks) =
     (if tc_first_version chunk \<noteq> next_version then Inl (Err ''Chunk ranges not continuous.'')
      else if \<not> tc_first_version chunk \<le> tc_last_version chunk then Inl (Err ''Chunk range invalid.'')
      else verify_chunks (tc_last_version chunk + 1) chunks)"

definition verify :: "TransactionBackup \<Rightarrow> unit result" where
  "verify self =
     (if \<not> tb_first_version self \<le> tb_last_version self then Inl (Err ''Bad version range'')
      else if tb_chunks self = [] then Inl (Err ''No chunks.'')
      else and_then (verify_chunks (tb_first_version self) (tb_chunks self)) (\<lambda>next_version.
        if next_version - 1 = tb_last_version self then Inr ()
        else Inl (Err ''Last version in chunks differs from the manifest'')))"

definition v5_read_from_transaction_manifest ::
  "(string \<Rightarrow> TransactionBackup result) \<Rightarrow> archive \<Rightarrow> string \<Rightarrow> TransactionBackup result" where
  "v5_read_from_transaction_manifest from_json fs path =
     and_then (ok_or ''No such file or directory'' (text_files fs path)) (\<lambda>config. from_json config)"

section \<open>Properties\<close>

text \<open>A chunk file that holds the given records.\<close>

definition holds_records :: "(u8 list \<Rightarrow> u8 list) \<Rightarrow> 'a layout \<Rightarrow> archive \<Rightarrow> string \<Rightarrow> 'a list \<Rightarrow> bool" where
  "holds_records frame lay fs path xs \<longleftrightarrow>
     (\<exists>bss. map_result (lay_to_bytes lay) xs = Inr bss \<and> (\<forall>bs \<in> set bss. length bs < 2 ^ 32) \<and>
       binary_files fs path = Some (concat (map frame bss)))"

lemma map_result_inverse:
  "map_result f xs = Inr ys \<Longrightarrow> (\<And>x y. x \<in> set xs \<Longrightarrow> f x = Inr y \<Longrightarrow> g y = Inr x) \<Longrightarrow> map_result g ys = Inr xs"
  by (induction xs arbitrary: ys) (auto simp: and_then_eq_Inr)

lemma read_chunk_holds:
  assumes R: "record_framing rd frame" and lay: "layout_ok P lay" "list_all P xs"
    and path: "path_parent archive_path = Some parent" "holds_records frame lay fs (path_push parent handle) xs"
  shows "read_chunk rd (lay_from_bytes lay) fs handle archive_path = Inr xs"
proof -
  obtain bss where bss: "map_result (lay_to_bytes lay) xs = Inr bss" "\<And>bs. bs \<in> set bss \<Longrightarrow> length bs < 2 ^ 32"
      "binary_files fs (path_push parent handle) = Some (concat (map frame bss))"
    using path(2) by (auto simp: holds_records_def)
  have "map_result (lay_from_bytes lay) bss = Inr xs"
    using bss(1) by (rule map_result_inverse) (use lay(2) layout_from_to_bytes [OF lay(1)] in \<open>auto simp: list_all_iff\<close>)
  moreover have "length bss < Suc (length (concat (map frame bss)))"
    using record_framing.length_frames [OF R, of bss] bss(2) by simp
  ultimately have "read_records rd (lay_from_bytes lay) (Suc (length (concat (map frame bss)))) (concat (map frame bss)) = Inr xs"
    using record_framing.read_records_frames [OF R, of bss] bss(2) by metis
  then show ?thesis by (simp add: read_chunk_def path(1) bss(3) open_for_read_def Let_def del: read_records.simps)
qed

lemma read_chunk_exists:
  "read_chunk rd decode fs handle archive_path = Inr xs \<Longrightarrow> path_parent archive_path = Some parent \<Longrightarrow>
     binary_files fs (path_push parent handle) \<noteq> None"
  by (auto simp: read_chunk_def Let_def split: if_splits)

definition wf_blob_record :: "(u8 list \<Rightarrow> u8 list) \<Rightarrow> AccountStateBlobRecord \<Rightarrow> bool" where
  "wf_blob_record hasher r \<longleftrightarrow> wf_hash (fst r) \<and> blob_hash (snd r) = hasher (blob (snd r))"

lemma blob_record_layout:
  assumes "binary_layouts B"
  shows "layout_ok (wf_blob_record hasher) (lay_blob_record hasher B)"
proof -
  have "layout_ok (\<lambda>b. blob_hash b = hasher (blob b)) (lay_blob hasher B)"
    unfolding lay_blob_def
    by (rule layout_ok_conv [OF binary_layouts.bytes_layout [OF assms]]) (auto simp: AccountStateBlob_new_def)
  from layout_ok_pair [OF binary_layouts.hash_layout [OF assms] this] show ?thesis
    unfolding lay_blob_record_def by (rule layout_ok_weaken) (auto simp: wf_blob_record_def)
qed

text \<open>C33. Reading a state snapshot loses nothing: when every chunk file of the manifest holds framed,
  serialized account records, the reader returns the blobs of all records, in the order of the
  chunks and of the records in them, each with the hash of its bytes; and it never returns a list
  when the file of a chunk does not exist.\<close>

theorem snapshot_accounts_complete:
  assumes R: "record_framing rd frame" and B: "binary_layouts B"
    and paths: "path_parent manifest_file = Some archive_path" "path_parent archive_path = Some parent"
    and manifest: "text_files fs manifest_file = Some config" "from_json config = Inr m"
  shows "(length rss = length (snapshot_chunks m) \<and> (\<forall>rs \<in> set rss. list_all (wf_blob_record hasher) rs) \<and>
      list_all2 (\<lambda>c rs. holds_records frame (lay_blob_record hasher B) fs (path_push parent (chunk_blobs c)) rs)
        (snapshot_chunks m) rss \<longrightarrow>
      v5_accounts_from_manifest_path rd (lay_blob_record hasher B) from_json fs manifest_file = Inr (map snd (concat rss))) \<and>
    (v5_accounts_from_manifest_path rd (lay_blob_record hasher B) from_json fs manifest_file = Inr blobs \<longrightarrow>
      (\<forall>c \<in> set (snapshot_chunks m). binary_files fs (path_push parent (chunk_blobs c)) \<noteq> None))"
proof -
  let ?L = "lay_blob_record hasher B"
  have all: "list_all2 (\<lambda>c rs. holds_records frame ?L fs (path_push parent (chunk_blobs c)) rs) cs rss \<Longrightarrow>
      \<forall>rs \<in> set rss. list_all (wf_blob_record hasher) rs \<Longrightarrow>
      v5_accounts_from_chunks rd ?L fs cs archive_path = Inr (map snd (concat rss))" for cs rss
  proof (induction cs rss rule: list_all2_induct)
    case (Cons c cs rs rss)
    from Cons have "read_chunk rd (lay_from_bytes ?L) fs (chunk_blobs c) archive_path = Inr rs"
      by (intro read_chunk_holds [OF R blob_record_layout [OF B] _ paths(2)]) simp_all
    with Cons show ?case by (simp add: read_account_state_chunk_def)
  qed simp
  have ex: "v5_accounts_from_chunks rd ?L fs cs archive_path = Inr bs \<Longrightarrow>
      \<forall>c \<in> set cs. binary_files fs (path_push parent (chunk_blobs c)) \<noteq> None" for cs bs
    by (induction cs arbitrary: bs)
      (use read_chunk_exists [OF _ paths(2)] in \<open>auto simp: and_then_eq_Inr read_account_state_chunk_def\<close>)
  have run: "v5_accounts_from_manifest_path rd ?L from_json fs manifest_file =
      v5_accounts_from_chunks rd ?L fs (snapshot_chunks m) archive_path"
    using paths manifest by (simp add: v5_accounts_from_manifest_path_def v5_read_from_snapshot_manifest_def
      v5_accounts_from_snapshot_backup_def)
  show ?thesis unfolding run using all ex by blast
qed

theorem snapshot_accounts_complete_witness:
  "\<exists>fs. v5_accounts_from_manifest_path ref_read_record (lay_blob_record rev ref_binary)
     (\<lambda>_. Inr \<lparr>snapshot_version = 7, snapshot_root_hash = record_hash,
        snapshot_chunks = [\<lparr>chunk_blobs = ''b/0.chunk'', chunk_proof = []\<rparr>], snapshot_proof = []\<rparr>)
     fs ''/a/b/state.manifest'' = Inr [AccountStateBlob_new rev [1, 2]]"
proof -
  let ?r = "(record_hash, AccountStateBlob_new rev [1, 2])"
  let ?L = "lay_blob_record rev ref_binary"
  let ?m = "\<lparr>snapshot_version = 7, snapshot_root_hash = record_hash,
    snapshot_chunks = [\<lparr>chunk_blobs = ''b/0.chunk'', chunk_proof = []\<rparr>], snapshot_proof = []\<rparr> :: StateSnapshotBackupV5"
  have wf: "wf_blob_record rev ?r" by (simp add: wf_blob_record_def wf_hash_def record_hash_def HASH_LENGTH_def AccountStateBlob_new_def)
  obtain bs where bs: "lay_to_bytes ?L ?r = Inr bs" "length bs < 2 ^ 32"
    by (simp add: lay_to_bytes_def lay_blob_record_def lay_pair_def lay_hash_def lay_blob_def lay_conv_def put_bytes_ref
      newtype_bytes_def serialize_def record_hash_def AccountStateBlob_new_def uleb128.simps)
  let ?fs = "\<lparr>text_files = (\<lambda>_. Some []), binary_files = [''/a/b/0.chunk'' \<mapsto> ref_frame bs]\<rparr>"
  have p: "path_parent ''/a/b/state.manifest'' = Some ''/a/b''" "path_parent ''/a/b'' = Some ''/a''"
    by (simp_all add: path_parent_def)
  have "path_push ''/a'' ''b/0.chunk'' = ''/a/b/0.chunk''" by (simp add: path_push_def starts_with_def)
  then have "holds_records ref_frame ?L ?fs (path_push ''/a'' ''b/0.chunk'') [?r]" using bs by (simp add: holds_records_def)
  then have "v5_accounts_from_manifest_path ref_read_record ?L (\<lambda>_. Inr ?m) ?fs ''/a/b/state.manifest'' = Inr (map snd (concat [[?r]]))"
    using wf snapshot_accounts_complete [OF ref_framing.record_framing_axioms ref_binary.binary_layouts_axioms p,
      of ?fs "[]" "\<lambda>_. Inr ?m" ?m "[[?r]]" rev]
    by (simp del: concat.simps)
  then show ?thesis by auto
qed

text \<open>Versions of a chunk.\<close>

definition in_chunk :: "u64 \<Rightarrow> TransactionChunk \<Rightarrow> bool" where
  "in_chunk v c \<longleftrightarrow> tc_first_version c \<le> v \<and> v \<le> tc_last_version c"

lemma u64_Suc: "(x :: u64) \<noteq> - 1 \<Longrightarrow> unat (x + 1) = Suc (unat x)"
  by (metis add.commute add.inverse_inverse add_eq_0_iff unatSuc)

lemma verify_chunks_cover:
  "verify_chunks n cs = Inr n' \<Longrightarrow> cs \<noteq> [] \<Longrightarrow> (\<And>c. c \<in> set (butlast cs) \<Longrightarrow> tc_last_version c \<noteq> - 1) \<Longrightarrow>
     n \<le> n' - 1 \<and> length (filter (in_chunk v) cs) = (if n \<le> v \<and> v \<le> n' - 1 then 1 else 0)"
proof (induction cs arbitrary: n)
  case (Cons c cs)
  have c: "tc_first_version c = n" "n \<le> tc_last_version c" "verify_chunks (tc_last_version c + 1) cs = Inr n'"
    using Cons.prems(1) by (auto split: if_splits)
  show ?case
  proof (cases "cs = []")
    case True
    then show ?thesis using c by (auto simp: in_chunk_def)
  next
    case False
    with Cons.prems(3) have l: "tc_last_version c \<noteq> - 1" by simp
    from Cons.IH [OF c(3) False] Cons.prems(3) False
    have "tc_last_version c + 1 \<le> n' - 1"
      "length (filter (in_chunk v) cs) = (if tc_last_version c + 1 \<le> v \<and> v \<le> n' - 1 then 1 else 0)" by auto
    with c(1,2) u64_Suc [OF l] show ?thesis by (auto simp: in_chunk_def [of v c] word_le_nat_alt)
  qed
qed simp

lemma verify_chunks_continuous:
  "verify_chunks n cs = Inr n' \<Longrightarrow> Suc i < length cs \<Longrightarrow> tc_first_version (cs ! Suc i) = tc_last_version (cs ! i) + 1"
proof (induction cs arbitrary: n i)
  case (Cons c cs)
  then show ?case by (cases i; cases cs) (auto split: if_splits)
qed simp

text \<open>C34. A verified transaction manifest covers its range exactly once: each chunk starts right after the
  one before it, and every version between the first and the last version of the manifest lies in
  exactly one chunk while any other version lies in none. Only the last chunk may end at the largest
  version, whose successor wraps to zero.\<close>

theorem verified_manifest_covers:
  assumes "verify b = Inr ()" "\<forall>c \<in> set (butlast (tb_chunks b)). tc_last_version c \<noteq> - 1"
  shows "length (filter (in_chunk v) (tb_chunks b)) = (if tb_first_version b \<le> v \<and> v \<le> tb_last_version b then 1 else 0) \<and>
    (Suc i < length (tb_chunks b) \<longrightarrow> tc_first_version (tb_chunks b ! Suc i) = tc_last_version (tb_chunks b ! i) + 1)"
proof -
  obtain n' where n: "verify_chunks (tb_first_version b) (tb_chunks b) = Inr n'" "n' - 1 = tb_last_version b"
      "tb_chunks b \<noteq> []"
    using assms(1) by (auto simp: verify_def and_then_eq_Inr split: if_splits)
  from verify_chunks_cover [OF n(1,3)] verify_chunks_continuous [OF n(1)] assms(2) n(2) show ?thesis by auto
qed

definition example_backup :: TransactionBackup where
  "example_backup = \<lparr>tb_first_version = 0, tb_last_version = 9, tb_chunks =
     [\<lparr>tc_first_version = 0, tc_last_version = 4, tc_transactions = [], tc_proof = []\<rparr>,
      \<lparr>tc_first_version = 5, tc_last_version = 9, tc_transactions = [], tc_proof = []\<rparr>]\<rparr>"

theorem verified_manifest_covers_witness:
  "verify example_backup = Inr () \<and> length (filter (in_chunk 5) (tb_chunks example_backup)) = 1"
proof -
  have "verify example_backup = Inr ()" by (simp add: verify_def example_backup_def)
  moreover have "\<forall>c \<in> set (butlast (tb_chunks example_backup)). tc_last_version c \<noteq> - 1" by (simp add: example_backup_def)
  ultimately show ?thesis using verified_manifest_covers [of example_backup 5 0] by (simp add: example_backup_def)
qed

text \<open>Without the condition the wrap-around lets overlapping chunks pass.\<close>

lemma verify_wraps:
  "verify \<lparr>tb_first_version = 0, tb_last_version = 5, tb_chunks =
     [\<lparr>tc_first_version = 0, tc_last_version = - 1, tc_transactions = [], tc_proof = []\<rparr>,
      \<lparr>tc_first_version = 0, tc_last_version = 5, tc_transactions = [], tc_proof = []\<rparr>]\<rparr> = Inr ()"
  by (simp add: verify_def)

end
