(* ===== verification/Legacy_Transactions.thy ===== *)
theory Legacy_Transactions
  imports Legacy_Archive
begin

text \<open>
  The transactions of the chain before version 7 (\<^verbatim>\<open>compatibility/src/version_five/\<close>:
  \<^verbatim>\<open>transaction_type_v5.rs\<close>, \<^verbatim>\<open>script_v5.rs\<close>, \<^verbatim>\<open>module_v5.rs\<close>, \<^verbatim>\<open>transaction_argument_v5.rs\<close>) with the layouts
  that serde derives, and the reader of a chunk of a transaction backup
  (\<^verbatim>\<open>transaction_restore_v5.rs\<close>). Write sets, signatures, keys, authenticators and the chain id belong
  to other packages: their values are opaque bytes, their layouts the record \<open>external_layouts\<close>.
\<close>

section \<open>Scripts and modules\<close>

datatype TransactionArgument =
    ArgU8 (arg_u8: u8)
  | ArgU64 (arg_u64: u64)
  | ArgU128 (arg_u128: u128)
  | ArgAddress (arg_address: LegacyAddressV5)
  | ArgU8Vector (arg_u8_vector: "u8 list")
  | ArgAddressVector (arg_address_vector: "LegacyAddressV5 list")
  | ArgBool (arg_bool: bool)

record Script =
  script_code :: "u8 list"
  script_ty_args :: "TypeTagV5 list"
  script_args :: "TransactionArgument list"

record Module =
  module_code :: "u8 list"

record ModuleBundle =
  bundle_codes :: "Module list"

definition ModuleBundle_new :: "u8 list list \<Rightarrow> ModuleBundle" where
  "ModuleBundle_new codes = \<lparr>bundle_codes = map (\<lambda>c. \<lparr>module_code = c\<rparr>) codes\<rparr>"

definition ModuleBundle_singleton :: "u8 list \<Rightarrow> ModuleBundle" where
  "ModuleBundle_singleton code = \<lparr>bundle_codes = [\<lparr>module_code = code\<rparr>]\<rparr>"

definition bundle_into_inner :: "ModuleBundle \<Rightarrow> u8 list list" where
  "bundle_into_inner self = map module_code (bundle_codes self)"

record ScriptFunction =
  sf_module :: ModuleIdV5
  sf_function :: string
  sf_ty_args :: "TypeTagV5 list"
  sf_args :: "u8 list list"

definition Script_new :: "u8 list \<Rightarrow> TypeTagV5 list \<Rightarrow> TransactionArgument list \<Rightarrow> Script" where
  "Script_new c ts xs = \<lparr>script_code = c, script_ty_args = ts, script_args = xs\<rparr>"

definition ScriptFunction_new :: "ModuleIdV5 \<Rightarrow> string \<Rightarrow> TypeTagV5 list \<Rightarrow> u8 list list \<Rightarrow> ScriptFunction" where
  "ScriptFunction_new m f ts xs = \<lparr>sf_module = m, sf_function = f, sf_ty_args = ts, sf_args = xs\<rparr>"

section \<open>Transactions\<close>

type_synonym external = "u8 list"

datatype WriteSetPayload =
    Direct (change_set: external)
  | WriteSetScript (execute_as: LegacyAddressV5) (write_set_script: Script)

datatype TransactionPayload =
    WriteSet (payload_write_set: WriteSetPayload)
  | PayloadScript (payload_script: Script)
  | PayloadModuleBundle (payload_bundle: ModuleBundle)
  | PayloadScriptFunction (payload_function: ScriptFunction)

definition write_set_triggers_reconfiguration :: "WriteSetPayload \<Rightarrow> bool" where
  "write_set_triggers_reconfiguration self = (case self of Direct _ \<Rightarrow> True | WriteSetScript _ _ \<Rightarrow> False)"

definition should_trigger_reconfiguration_by_default :: "TransactionPayload \<Rightarrow> bool" where
  "should_trigger_reconfiguration_by_default self =
     (case self of WriteSet ws \<Rightarrow> write_set_triggers_reconfiguration ws
      | PayloadScript _ \<Rightarrow> False | PayloadScriptFunction _ \<Rightarrow> False | PayloadModuleBundle _ \<Rightarrow> False)"

definition into_script_function :: "TransactionPayload \<Rightarrow> ScriptFunction result" where
  "into_script_function self =
     (case self of PayloadScriptFunction f \<Rightarrow> Inr f | _ \<Rightarrow> Inl (Panic ''Expected ScriptFunction(_) payload''))"

record RawTransaction =
  rt_sender :: LegacyAddressV5
  rt_sequence_number :: u64
  rt_payload :: TransactionPayload
  rt_max_gas_amount :: u64
  rt_gas_unit_price :: u64
  rt_gas_currency_code :: string
  rt_expiration_timestamp_secs :: u64
  rt_chain_id :: u8

definition into_payload :: "RawTransaction \<Rightarrow> TransactionPayload" where
  "into_payload self = rt_payload self"

datatype TransactionAuthenticator =
    Ed25519 (auth_public_key: external) (auth_signature: external)
  | MultiEd25519 (auth_multi_public_key: external) (auth_multi_signature: external)
  | MultiAgent (auth_sender: external) (secondary_signer_addresses: "LegacyAddressV5 list")
      (secondary_signers: "external list")

record SignedTransaction =
  raw_txn :: RawTransaction
  authenticator :: TransactionAuthenticator

record BlockMetadata =
  bm_id :: HashValueV5
  bm_round :: u64
  bm_timestamp_usecs :: u64
  bm_previous_block_votes :: "LegacyAddressV5 list"
  bm_proposer :: LegacyAddressV5

datatype TransactionV5 =
    UserTransaction (user_transaction: SignedTransaction)
  | GenesisTransaction (genesis_payload: WriteSetPayload)
  | BlockMetadataTransaction (block_metadata: BlockMetadata)

datatype AbortLocation = AbortModule (abort_module: ModuleIdV5) | AbortScript

datatype KeptVMStatus =
    Executed
  | OutOfGas
  | MoveAbort (abort_location: AbortLocation) (abort_code: u64)
  | ExecutionFailure (failure_location: AbortLocation) (failure_function: u16) (failure_code_offset: u16)
  | MiscellaneousError

record TransactionInfoV5 =
  ti_transaction_hash :: HashValueV5
  ti_state_root_hash :: HashValueV5
  ti_event_root_hash :: HashValueV5
  ti_gas_used :: u64
  ti_status :: KeptVMStatus

record ContractEventV0 =
  ce_key :: EventKeyV5
  ce_sequence_number :: u64
  ce_type_tag :: TypeTagV5
  ce_event_data :: "u8 list"

datatype ContractEventV5 = V0 (event_v0: ContractEventV0)

type_synonym TxRecord = "TransactionV5 \<times> TransactionInfoV5 \<times> ContractEventV5 list"

section \<open>Layouts\<close>

record external_layouts =
  lay_change_set :: "external layout"
  lay_public_key :: "external layout"
  lay_signature :: "external layout"
  lay_multi_public_key :: "external layout"
  lay_multi_signature :: "external layout"
  lay_account_authenticator :: "external layout"
  lay_chain_id :: "u8 layout"

fun argument_index :: "TransactionArgument \<Rightarrow> nat" where
  "argument_index (ArgU8 _) = 0"
| "argument_index (ArgU64 _) = 1"
| "argument_index (ArgU128 _) = 2"
| "argument_index (ArgAddress _) = 3"
| "argument_index (ArgU8Vector _) = 4"
| "argument_index (ArgAddressVector _) = 5"
| "argument_index (ArgBool _) = 6"

definition lay_argument :: "binary_format \<Rightarrow> TransactionArgument layout" where
  "lay_argument B = lay_enum (base B) argument_index
     [lay_iso arg_u8 ArgU8 (lay_u8 B), lay_iso arg_u64 ArgU64 (lay_u64 B), lay_iso arg_u128 ArgU128 (lay_u128 B),
      lay_iso arg_address ArgAddress (lay_address B), lay_iso arg_u8_vector ArgU8Vector (lay_bytes B),
      lay_iso arg_address_vector ArgAddressVector (lay_vec (base B) (lay_address B)),
      lay_iso arg_bool ArgBool (lay_bool B)]"

definition lay_script :: "binary_format \<Rightarrow> Script layout" where
  "lay_script B = lay_iso (\<lambda>s. (script_code s, script_ty_args s, script_args s)) (\<lambda>(c, ts, xs). Script_new c ts xs)
     (lay_pair (lay_bytes B) (lay_pair (lay_vec (base B) (lay_type_tag B)) (lay_vec (base B) (lay_argument B))))"

definition lay_module :: "binary_format \<Rightarrow> Module layout" where
  "lay_module B = lay_iso module_code (\<lambda>c. \<lparr>module_code = c\<rparr>) (lay_bytes B)"

definition lay_bundle :: "binary_format \<Rightarrow> ModuleBundle layout" where
  "lay_bundle B = lay_iso bundle_codes (\<lambda>cs. \<lparr>bundle_codes = cs\<rparr>) (lay_vec (base B) (lay_module B))"

definition lay_script_function :: "binary_format \<Rightarrow> ScriptFunction layout" where
  "lay_script_function B =
     lay_iso (\<lambda>f. (sf_module f, sf_function f, sf_ty_args f, sf_args f)) (\<lambda>(m, f, ts, xs). ScriptFunction_new m f ts xs)
       (lay_pair (lay_module_id B) (lay_pair (lay_str B) (lay_pair (lay_vec (base B) (lay_type_tag B))
         (lay_vec (base B) (lay_bytes B)))))"

definition lay_write_set :: "binary_format \<Rightarrow> external_layouts \<Rightarrow> WriteSetPayload layout" where
  "lay_write_set B E = lay_enum (base B) (\<lambda>w. case w of Direct _ \<Rightarrow> 0 | WriteSetScript _ _ \<Rightarrow> 1)
     [lay_iso change_set Direct (lay_change_set E),
      lay_iso (\<lambda>w. (execute_as w, write_set_script w)) (\<lambda>(a, s). WriteSetScript a s)
        (lay_pair (lay_address B) (lay_script B))]"

definition lay_payload :: "binary_format \<Rightarrow> external_layouts \<Rightarrow> TransactionPayload layout" where
  "lay_payload B E = lay_enum (base B)
     (\<lambda>p. case p of WriteSet _ \<Rightarrow> 0 | PayloadScript _ \<Rightarrow> 1 | PayloadModuleBundle _ \<Rightarrow> 2 | PayloadScriptFunction _ \<Rightarrow> 3)
     [lay_iso payload_write_set WriteSet (lay_write_set B E), lay_iso payload_script PayloadScript (lay_script B),
      lay_iso payload_bundle PayloadModuleBundle (lay_bundle B),
      lay_iso payload_function PayloadScriptFunction (lay_script_function B)]"

definition lay_raw_transaction :: "binary_format \<Rightarrow> external_layouts \<Rightarrow> RawTransaction layout" where
  "lay_raw_transaction B E =
     lay_iso (\<lambda>t. (rt_sender t, rt_sequence_number t, rt_payload t, rt_max_gas_amount t, rt_gas_unit_price t,
         rt_gas_currency_code t, rt_expiration_timestamp_secs t, rt_chain_id t))
       (\<lambda>(a, n, p, m, g, c, e, i). \<lparr>rt_sender = a, rt_sequence_number = n, rt_payload = p, rt_max_gas_amount = m,
         rt_gas_unit_price = g, rt_gas_currency_code = c, rt_expiration_timestamp_secs = e, rt_chain_id = i\<rparr>)
       (lay_pair (lay_address B) (lay_pair (lay_u64 B) (lay_pair (lay_payload B E) (lay_pair (lay_u64 B)
         (lay_pair (lay_u64 B) (lay_pair (lay_str B) (lay_pair (lay_u64 B) (lay_chain_id E))))))))"

definition lay_authenticator :: "binary_format \<Rightarrow> external_layouts \<Rightarrow> TransactionAuthenticator layout" where
  "lay_authenticator B E = lay_enum (base B)
     (\<lambda>a. case a of Ed25519 _ _ \<Rightarrow> 0 | MultiEd25519 _ _ \<Rightarrow> 1 | MultiAgent _ _ _ \<Rightarrow> 2)
     [lay_iso (\<lambda>a. (auth_public_key a, auth_signature a)) (\<lambda>(k, s). Ed25519 k s)
        (lay_pair (lay_public_key E) (lay_signature E)),
      lay_iso (\<lambda>a. (auth_multi_public_key a, auth_multi_signature a)) (\<lambda>(k, s). MultiEd25519 k s)
        (lay_pair (lay_multi_public_key E) (lay_multi_signature E)),
      lay_iso (\<lambda>a. (auth_sender a, secondary_signer_addresses a, secondary_signers a)) (\<lambda>(x, as, ss). MultiAgent x as ss)
        (lay_pair (lay_account_authenticator E) (lay_pair (lay_vec (base B) (lay_address B))
          (lay_vec (base B) (lay_account_authenticator E))))]"

definition lay_signed_transaction :: "binary_format \<Rightarrow> external_layouts \<Rightarrow> SignedTransaction layout" where
  "lay_signed_transaction B E = lay_iso (\<lambda>t. (raw_txn t, authenticator t)) (\<lambda>(r, a). \<lparr>raw_txn = r, authenticator = a\<rparr>)
     (lay_pair (lay_raw_transaction B E) (lay_authenticator B E))"

definition lay_block_metadata :: "binary_format \<Rightarrow> BlockMetadata layout" where
  "lay_block_metadata B =
     lay_iso (\<lambda>m. (bm_id m, bm_round m, bm_timestamp_usecs m, bm_previous_block_votes m, bm_proposer m))
       (\<lambda>(i, r, t, v, p). \<lparr>bm_id = i, bm_round = r, bm_timestamp_usecs = t, bm_previous_block_votes = v, bm_proposer = p\<rparr>)
       (lay_pair (lay_hash B) (lay_pair (lay_u64 B) (lay_pair (lay_u64 B)
         (lay_pair (lay_vec (base B) (lay_address B)) (lay_address B)))))"

definition lay_transaction :: "binary_format \<Rightarrow> external_layouts \<Rightarrow> TransactionV5 layout" where
  "lay_transaction B E = lay_enum (base B)
     (\<lambda>t. case t of UserTransaction _ \<Rightarrow> 0 | GenesisTransaction _ \<Rightarrow> 1 | BlockMetadataTransaction _ \<Rightarrow> 2)
     [lay_iso user_transaction UserTransaction (lay_signed_transaction B E),
      lay_iso genesis_payload GenesisTransaction (lay_write_set B E),
      lay_iso block_metadata BlockMetadataTransaction (lay_block_metadata B)]"

definition lay_abort_location :: "binary_format \<Rightarrow> AbortLocation layout" where
  "lay_abort_location B = lay_enum (base B) (\<lambda>l. case l of AbortModule _ \<Rightarrow> 0 | AbortScript \<Rightarrow> 1)
     [lay_iso abort_module AbortModule (lay_module_id B), lay_iso (\<lambda>_. ()) (\<lambda>_. AbortScript) lay_unit]"

definition lay_vm_status :: "binary_format \<Rightarrow> KeptVMStatus layout" where
  "lay_vm_status B = lay_enum (base B)
     (\<lambda>s. case s of Executed \<Rightarrow> 0 | OutOfGas \<Rightarrow> 1 | MoveAbort _ _ \<Rightarrow> 2 | ExecutionFailure _ _ _ \<Rightarrow> 3 | MiscellaneousError \<Rightarrow> 4)
     [lay_iso (\<lambda>_. ()) (\<lambda>_. Executed) lay_unit, lay_iso (\<lambda>_. ()) (\<lambda>_. OutOfGas) lay_unit,
      lay_iso (\<lambda>s. (abort_location s, abort_code s)) (\<lambda>(l, c). MoveAbort l c) (lay_pair (lay_abort_location B) (lay_u64 B)),
      lay_iso (\<lambda>s. (failure_location s, failure_function s, failure_code_offset s)) (\<lambda>(l, f, c). ExecutionFailure l f c)
        (lay_pair (lay_abort_location B) (lay_pair (lay_u16 B) (lay_u16 B))),
      lay_iso (\<lambda>_. ()) (\<lambda>_. MiscellaneousError) lay_unit]"

definition lay_transaction_info :: "binary_format \<Rightarrow> TransactionInfoV5 layout" where
  "lay_transaction_info B =
     lay_iso (\<lambda>t. (ti_transaction_hash t, ti_state_root_hash t, ti_event_root_hash t, ti_gas_used t, ti_status t))
       (\<lambda>(h, s, e, g, v). \<lparr>ti_transaction_hash = h, ti_state_root_hash = s, ti_event_root_hash = e, ti_gas_used = g, ti_status = v\<rparr>)
       (lay_pair (lay_hash B) (lay_pair (lay_hash B) (lay_pair (lay_hash B) (lay_pair (lay_u64 B) (lay_vm_status B)))))"

definition lay_event_v0 :: "binary_format \<Rightarrow> ContractEventV0 layout" where
  "lay_event_v0 B =
     lay_iso (\<lambda>e. (ce_key e, ce_sequence_number e, ce_type_tag e, ce_event_data e))
       (\<lambda>(k, n, t, d). \<lparr>ce_key = k, ce_sequence_number = n, ce_type_tag = t, ce_event_data = d\<rparr>)
       (lay_pair (lay_event_key B) (lay_pair (lay_u64 B) (lay_pair (lay_type_tag B) (lay_bytes B))))"

definition lay_event :: "binary_format \<Rightarrow> ContractEventV5 layout" where
  "lay_event B = lay_enum (base B) (\<lambda>_. 0) [lay_iso event_v0 V0 (lay_event_v0 B)]"

definition lay_tx_record :: "binary_format \<Rightarrow> external_layouts \<Rightarrow> TxRecord layout" where
  "lay_tx_record B E = lay_pair (lay_transaction B E) (lay_pair (lay_transaction_info B) (lay_vec (base B) (lay_event B)))"

definition read_transaction_chunk ::
  "record_reader \<Rightarrow> binary_format \<Rightarrow> external_layouts \<Rightarrow> archive \<Rightarrow> string \<Rightarrow> string \<Rightarrow> TxRecord list result" where
  "read_transaction_chunk rd B E fs file_handle archive_path =
     read_chunk rd (lay_from_bytes (lay_tx_record B E)) fs file_handle archive_path"

section \<open>Transactions are read back\<close>

text \<open>The values of the Rust types: addresses of 16 bytes, hashes of 32, event keys of 24, type tags that
  the deserializer accepts.\<close>

fun wf_argument :: "TransactionArgument \<Rightarrow> bool" where
  "wf_argument (ArgAddress a) = wf_address a"
| "wf_argument (ArgAddressVector as) = list_all wf_address as"
| "wf_argument _ = True"

definition wf_script :: "Script \<Rightarrow> bool" where
  "wf_script s \<longleftrightarrow> list_all wf_tag (script_ty_args s) \<and> list_all wf_argument (script_args s)"

definition wf_script_function :: "ScriptFunction \<Rightarrow> bool" where
  "wf_script_function f \<longleftrightarrow> wf_address (module_address (sf_module f)) \<and> list_all wf_tag (sf_ty_args f)"

fun wf_write_set :: "WriteSetPayload \<Rightarrow> bool" where
  "wf_write_set (Direct c) = True"
| "wf_write_set (WriteSetScript a s) \<longleftrightarrow> wf_address a \<and> wf_script s"

fun wf_payload :: "TransactionPayload \<Rightarrow> bool" where
  "wf_payload (WriteSet w) = wf_write_set w"
| "wf_payload (PayloadScript s) = wf_script s"
| "wf_payload (PayloadModuleBundle b) = True"
| "wf_payload (PayloadScriptFunction f) = wf_script_function f"

definition wf_raw_transaction :: "RawTransaction \<Rightarrow> bool" where
  "wf_raw_transaction t \<longleftrightarrow> wf_address (rt_sender t) \<and> wf_payload (rt_payload t)"

fun wf_authenticator :: "TransactionAuthenticator \<Rightarrow> bool" where
  "wf_authenticator (MultiAgent x as ss) = list_all wf_address as"
| "wf_authenticator _ = True"

definition wf_signed_transaction :: "SignedTransaction \<Rightarrow> bool" where
  "wf_signed_transaction t \<longleftrightarrow> wf_raw_transaction (raw_txn t) \<and> wf_authenticator (authenticator t)"

definition wf_block_metadata :: "BlockMetadata \<Rightarrow> bool" where
  "wf_block_metadata m \<longleftrightarrow> wf_hash (bm_id m) \<and> list_all wf_address (bm_previous_block_votes m) \<and> wf_address (bm_proposer m)"

fun wf_transaction :: "TransactionV5 \<Rightarrow> bool" where
  "wf_transaction (UserTransaction t) = wf_signed_transaction t"
| "wf_transaction (GenesisTransaction w) = wf_write_set w"
| "wf_transaction (BlockMetadataTransaction m) = wf_block_metadata m"

fun wf_abort_location :: "AbortLocation \<Rightarrow> bool" where
  "wf_abort_location (AbortModule m) = wf_address (module_address m)"
| "wf_abort_location AbortScript = True"

fun wf_vm_status :: "KeptVMStatus \<Rightarrow> bool" where
  "wf_vm_status (MoveAbort l c) = wf_abort_location l"
| "wf_vm_status (ExecutionFailure l f c) = wf_abort_location l"
| "wf_vm_status _ = True"

definition wf_transaction_info :: "TransactionInfoV5 \<Rightarrow> bool" where
  "wf_transaction_info t \<longleftrightarrow> wf_hash (ti_transaction_hash t) \<and> wf_hash (ti_state_root_hash t) \<and>
     wf_hash (ti_event_root_hash t) \<and> wf_vm_status (ti_status t)"

definition wf_event :: "ContractEventV5 \<Rightarrow> bool" where
  "wf_event e \<longleftrightarrow> wf_event_key (ce_key (event_v0 e)) \<and> wf_tag (ce_type_tag (event_v0 e))"

definition wf_tx_record :: "TxRecord \<Rightarrow> bool" where
  "wf_tx_record r = (case r of (t, i, es) \<Rightarrow> wf_transaction t \<and> wf_transaction_info i \<and> list_all wf_event es)"

locale transaction_layouts = binary_layouts B for B :: binary_format +
  fixes E :: external_layouts
  assumes external_ok [layout_intros]:
    "layout_ok (\<lambda>_. True) (lay_change_set E)" "layout_ok (\<lambda>_. True) (lay_public_key E)"
    "layout_ok (\<lambda>_. True) (lay_signature E)" "layout_ok (\<lambda>_. True) (lay_multi_public_key E)"
    "layout_ok (\<lambda>_. True) (lay_multi_signature E)" "layout_ok (\<lambda>_. True) (lay_account_authenticator E)"
    "layout_ok (\<lambda>_. True) (lay_chain_id E)"
begin

lemma enum_ok:
  assumes "list_all (\<lambda>(i, l). layout_ok (\<lambda>x. P x \<and> idx x = i) l) (enumerate 0 ls)" "\<And>x. P x \<Longrightarrow> idx x < length ls"
    "length ls < 2 ^ 32"
  shows "layout_ok P (lay_enum (base B) idx ls)"
proof (rule layout_ok_enum [OF assms(2) _ assms(3)])
  fix i assume "i < length ls"
  then have "(i, ls ! i) \<in> set (enumerate 0 ls)" by (auto simp: in_set_enumerate_eq)
  then show "layout_ok (\<lambda>x. P x \<and> idx x = i) (ls ! i)" using assms(1) by (auto simp: list_all_iff)
qed

lemma argument_layout [layout_intros]: "layout_ok wf_argument (lay_argument B)"
  unfolding lay_argument_def
proof (rule enum_ok, goal_cases)
  case 1
  show ?case by (simp, intro conjI; rule layout_ok_conv, (rule layout_intros)+, case_tac x; simp add: list_all_iff)
next
  case (2 x)
  then show ?case by (cases x) simp_all
qed simp

lemma script_layout [layout_intros]: "layout_ok wf_script (lay_script B)"
  unfolding lay_script_def by (rule layout_ok_conv, (rule layout_intros)+, simp add: wf_script_def Script_new_def)

lemma module_layout [layout_intros]: "layout_ok (\<lambda>_. True) (lay_module B)"
  unfolding lay_module_def by (rule layout_ok_conv, (rule layout_intros)+, simp add: list_all_iff)

lemma bundle_layout [layout_intros]: "layout_ok (\<lambda>_. True) (lay_bundle B)"
  unfolding lay_bundle_def by (rule layout_ok_conv, (rule layout_intros)+, simp add: list_all_iff)

lemma script_function_layout [layout_intros]: "layout_ok wf_script_function (lay_script_function B)"
  unfolding lay_script_function_def by (rule layout_ok_conv, (rule layout_intros)+, simp add: wf_script_function_def ScriptFunction_new_def list_all_iff)

lemma write_set_layout [layout_intros]: "layout_ok wf_write_set (lay_write_set B E)"
  unfolding lay_write_set_def
proof (rule enum_ok, goal_cases)
  case 1
  show ?case by (simp, intro conjI; rule layout_ok_conv, (rule layout_intros)+, case_tac x; simp add: list_all_iff)
next
  case (2 x)
  then show ?case by (cases x) simp_all
qed simp

lemma payload_layout [layout_intros]: "layout_ok wf_payload (lay_payload B E)"
  unfolding lay_payload_def
proof (rule enum_ok, goal_cases)
  case 1
  show ?case by (simp, intro conjI; rule layout_ok_conv, (rule layout_intros)+, case_tac x; simp add: list_all_iff)
next
  case (2 x)
  then show ?case by (cases x) simp_all
qed simp

lemma raw_transaction_layout [layout_intros]: "layout_ok wf_raw_transaction (lay_raw_transaction B E)"
  unfolding lay_raw_transaction_def by (rule layout_ok_conv, (rule layout_intros)+, simp add: wf_raw_transaction_def)

lemma authenticator_layout [layout_intros]: "layout_ok wf_authenticator (lay_authenticator B E)"
  unfolding lay_authenticator_def
proof (rule enum_ok, goal_cases)
  case 1
  show ?case by (simp, intro conjI; rule layout_ok_conv, (rule layout_intros)+, case_tac x; simp add: list_all_iff)
next
  case (2 x)
  then show ?case by (cases x) simp_all
qed simp

lemma signed_transaction_layout [layout_intros]: "layout_ok wf_signed_transaction (lay_signed_transaction B E)"
  unfolding lay_signed_transaction_def by (rule layout_ok_conv, (rule layout_intros)+, simp add: wf_signed_transaction_def)

lemma block_metadata_layout [layout_intros]: "layout_ok wf_block_metadata (lay_block_metadata B)"
  unfolding lay_block_metadata_def by (rule layout_ok_conv, (rule layout_intros)+, simp add: wf_block_metadata_def)

lemma transaction_layout [layout_intros]: "layout_ok wf_transaction (lay_transaction B E)"
  unfolding lay_transaction_def
proof (rule enum_ok, goal_cases)
  case 1
  show ?case by (simp, intro conjI; rule layout_ok_conv, (rule layout_intros)+, case_tac x; simp add: list_all_iff)
next
  case (2 x)
  then show ?case by (cases x) simp_all
qed simp

lemma abort_location_layout [layout_intros]: "layout_ok wf_abort_location (lay_abort_location B)"
  unfolding lay_abort_location_def
proof (rule enum_ok, goal_cases)
  case 1
  show ?case by (simp, intro conjI; rule layout_ok_conv, (rule layout_intros)+, case_tac x; simp add: list_all_iff)
next
  case (2 x)
  then show ?case by (cases x) simp_all
qed simp

lemma vm_status_layout [layout_intros]: "layout_ok wf_vm_status (lay_vm_status B)"
  unfolding lay_vm_status_def
proof (rule enum_ok, goal_cases)
  case 1
  show ?case by (simp, intro conjI; rule layout_ok_conv, (rule layout_intros)+, case_tac x; simp add: list_all_iff)
next
  case (2 x)
  then show ?case by (cases x) simp_all
qed simp

lemma transaction_info_layout [layout_intros]: "layout_ok wf_transaction_info (lay_transaction_info B)"
  unfolding lay_transaction_info_def by (rule layout_ok_conv, (rule layout_intros)+, simp add: wf_transaction_info_def)

lemma event_v0_layout [layout_intros]: "layout_ok (\<lambda>e. wf_event_key (ce_key e) \<and> wf_tag (ce_type_tag e)) (lay_event_v0 B)"
  unfolding lay_event_v0_def by (rule layout_ok_conv, (rule layout_intros)+, simp add: list_all_iff)

lemma event_layout [layout_intros]: "layout_ok wf_event (lay_event B)"
  unfolding lay_event_def
proof (rule enum_ok, goal_cases)
  case 1
  show ?case by (simp, rule layout_ok_conv, (rule layout_intros)+, case_tac x, simp add: wf_event_def)
next
  case (2 x)
  then show ?case by (cases x) simp_all
qed simp

lemma tx_record_layout: "layout_ok wf_tx_record (lay_tx_record B E)"
  unfolding lay_tx_record_def
  by (rule layout_ok_weaken, (rule layout_intros)+) (simp add: wf_tx_record_def case_prod_beta)

end

text \<open>The reference encoding, with length-prefixed bytes for the opaque values.\<close>

definition ref_external :: external_layouts where
  "ref_external =
     \<lparr>lay_change_set = lay_bytes ref_binary, lay_public_key = lay_bytes ref_binary, lay_signature = lay_bytes ref_binary,
      lay_multi_public_key = lay_bytes ref_binary, lay_multi_signature = lay_bytes ref_binary,
      lay_account_authenticator = lay_bytes ref_binary, lay_chain_id = lay_u8 ref_binary\<rparr>"

interpretation ref_transactions: transaction_layouts ref_binary ref_external
  by unfold_locales (simp_all add: ref_external_def ref_binary.bytes_layout ref_binary.u8_layout)


definition example_tx_record :: TxRecord where
  "example_tx_record =
     (UserTransaction
        \<lparr>raw_txn = \<lparr>rt_sender = LEGACY_CORE_CODE_ADDRESS, rt_sequence_number = 0,
           rt_payload = PayloadScriptFunction (ScriptFunction_new (ModuleIdV5_new LEGACY_CORE_CODE_ADDRESS ''M'') ''f'' [TagU64] [[1]]),
           rt_max_gas_amount = 0, rt_gas_unit_price = 0, rt_gas_currency_code = ''GAS'', rt_expiration_timestamp_secs = 0,
           rt_chain_id = 1\<rparr>,
         authenticator = Ed25519 [1] [2]\<rparr>,
      \<lparr>ti_transaction_hash = record_hash, ti_state_root_hash = record_hash, ti_event_root_hash = record_hash, ti_gas_used = 0,
       ti_status = MoveAbort AbortScript 3\<rparr>,
      [V0 \<lparr>ce_key = new_from_address LEGACY_CORE_CODE_ADDRESS 0, ce_sequence_number = 0, ce_type_tag = TagVector TagBool,
         ce_event_data = [9]\<rparr>])"

lemma put_u64_ref: "lay_put (lay_u64 ref_binary) n = Inr (le_bytes 8 (unat n))" "lay_put (lay_u8 ref_binary) b = Inr [b]"
  by (simp_all add: ref_binary_def total_layout_def word_enc_def)

lemma put_str_ref: "short s \<Longrightarrow> put_str ref_format s = Inr (uleb128 (length s) @ map of_char s)"
  by (simp add: ref_format_def vec_enc_def concat_word_enc_1 del: map_map)

lemma example_tx_record_encoded:
  "\<exists>bs. lay_to_bytes (lay_tx_record ref_binary ref_external) example_tx_record = Inr bs \<and> length bs < 300"
proof -
  have b: "base ref_binary = ref_format" "put_variant ref_format = uleb128" "put_len ref_format = (\<lambda>n. if n \<le> MAX_SEQUENCE_LENGTH then Inr (uleb128 n) else Inl (Err ''ExceededMaxLen''))"
    "put_fixed ref_format = id"
    by (simp_all add: ref_binary_def ref_format_def)
  show ?thesis
    by (simp add: lay_to_bytes_def lay_tx_record_def example_tx_record_def lay_pair_def lay_transaction_def lay_enum_def lay_conv_def
      lay_signed_transaction_def lay_raw_transaction_def lay_payload_def lay_script_function_def lay_authenticator_def
      lay_transaction_info_def lay_vm_status_def lay_abort_location_def lay_unit_def lay_vec_def lay_event_def lay_event_v0_def
      lay_address_def lay_module_id_def lay_str_def lay_type_tag_def lay_hash_def lay_event_key_def ref_external_def put_u64_ref
      put_bytes_ref put_str_ref b ScriptFunction_new_def ModuleIdV5_new_def newtype_bytes_def serialize_def event_key_serialize_def
      new_from_address_def u64_to_le_bytes_def record_hash_def LEGACY_CORE_CODE_ADDRESS_def LegacyAddressV5_new_def
      depth_lift_def ser_then_def depth_bind_def type_tag_recursive_serialize_def MAX_TYPE_TAG_NESTING_def uleb128.simps)
qed


end
