(* ===== verification/Script_Function.thy ===== *)
theory Script_Function
  imports Entry_Function Legacy_Transactions
begin

text \<open>
  What the transaction builders of the version five releases share: the call of a script function of the
  framework address, the call of a script by its code, the shape of the decoders and the lookup in the
  tables. Arguments of script functions are serialized with the binary format \<open>B\<close>; arguments of scripts
  are tagged values.
\<close>

section \<open>Script functions\<close>

text \<open>\<^verbatim>\<open>TransactionPayload::ScriptFunction(ScriptFunction::new(ModuleId::new(0x1, m), f, tys, args))\<close>, with the
  serialized arguments unwrapped.\<close>

definition core_call :: "string \<Rightarrow> string \<Rightarrow> TypeTagV5 list \<Rightarrow> u8 list result list \<Rightarrow> TransactionPayload result" where
  "core_call module function tys as =
     and_then (map_result (expect ''called Result::unwrap() on an Err value'') as) (\<lambda>bs.
     Inr (PayloadScriptFunction (ScriptFunction_new (ModuleIdV5_new LEGACY_CORE_CODE_ADDRESS module) function tys bs)))"

lemma core_call_Inr:
  "core_call m f tys as = Inr p \<longleftrightarrow>
   (\<exists>bs. map_result (expect ''called Result::unwrap() on an Err value'') as = Inr bs \<and>
     p = PayloadScriptFunction (ScriptFunction_new (ModuleIdV5_new LEGACY_CORE_CODE_ADDRESS m) f tys bs))"
  by (auto simp: core_call_def and_then_eq_Inr)

text \<open>\<^verbatim>\<open>bcs::from_bytes(script.args().get(i)?).ok()?\<close> and \<^verbatim>\<open>script.ty_args().get(i)?.clone()\<close>\<close>

definition sf_arg_at :: "'a layout \<Rightarrow> ScriptFunction \<Rightarrow> nat \<Rightarrow> 'a option" where
  "sf_arg_at l script i =
     (if i < length (sf_args script)
      then (case lay_from_bytes l (sf_args script ! i) of Inr x \<Rightarrow> Some x | Inl _ \<Rightarrow> None) else None)"

definition sf_ty_arg_at :: "ScriptFunction \<Rightarrow> nat \<Rightarrow> TypeTagV5 option" where
  "sf_ty_arg_at script i = (if i < length (sf_ty_args script) then Some (sf_ty_args script ! i) else None)"

definition on_function :: "(ScriptFunction \<Rightarrow> 'c option) \<Rightarrow> TransactionPayload \<Rightarrow> 'c option" where
  "on_function f payload = (case payload of PayloadScriptFunction script \<Rightarrow> f script | _ \<Rightarrow> None)"

text \<open>The key of the table is the module name directly followed by the function name.\<close>

definition decode_function_by :: "(string \<rightharpoonup> (TransactionPayload \<Rightarrow> 'c option)) \<Rightarrow> TransactionPayload \<Rightarrow> 'c option" where
  "decode_function_by table payload =
     (case payload of
        PayloadScriptFunction script \<Rightarrow>
          (case table (module_ident (sf_module script) @ sf_function script) of
             Some decoder \<Rightarrow> decoder payload
           | None \<Rightarrow> None)
      | _ \<Rightarrow> None)"

lemmas script_function_simps =
  ScriptFunction_new_def ModuleIdV5_new_def on_function_def sf_arg_at_def sf_ty_arg_at_def decode_function_by_def

context binary_layouts
begin

lemma from_put:
  "lay_to_bytes (lay_u8 B) x1 = Inr bs \<Longrightarrow> lay_from_bytes (lay_u8 B) bs = Inr x1"
  "lay_to_bytes (lay_u64 B) x2 = Inr bs \<Longrightarrow> lay_from_bytes (lay_u64 B) bs = Inr x2"
  "lay_to_bytes (lay_bool B) x3 = Inr bs \<Longrightarrow> lay_from_bytes (lay_bool B) bs = Inr x3"
  "lay_to_bytes (lay_bytes B) x4 = Inr bs \<Longrightarrow> lay_from_bytes (lay_bytes B) bs = Inr x4"
  "lay_to_bytes (lay_address B) x5 = Inr bs \<Longrightarrow> wf_address x5 \<Longrightarrow> lay_from_bytes (lay_address B) bs = Inr x5"
  using layout_from_to_bytes [OF u8_layout] layout_from_to_bytes [OF u64_layout] layout_from_to_bytes [OF bool_layout]
    layout_from_to_bytes [OF bytes_layout] layout_from_to_bytes [OF address_layout] by simp_all

end

section \<open>Scripts\<close>

definition decode_bool_argument :: "TransactionArgument \<Rightarrow> bool option" where
  "decode_bool_argument arg = (case arg of ArgBool v \<Rightarrow> Some v | _ \<Rightarrow> None)"

definition decode_u8_argument :: "TransactionArgument \<Rightarrow> u8 option" where
  "decode_u8_argument arg = (case arg of ArgU8 v \<Rightarrow> Some v | _ \<Rightarrow> None)"

definition decode_u64_argument :: "TransactionArgument \<Rightarrow> u64 option" where
  "decode_u64_argument arg = (case arg of ArgU64 v \<Rightarrow> Some v | _ \<Rightarrow> None)"

definition decode_address_argument :: "TransactionArgument \<Rightarrow> LegacyAddressV5 option" where
  "decode_address_argument arg = (case arg of ArgAddress v \<Rightarrow> Some v | _ \<Rightarrow> None)"

definition decode_u8vector_argument :: "TransactionArgument \<Rightarrow> u8 list option" where
  "decode_u8vector_argument arg = (case arg of ArgU8Vector v \<Rightarrow> Some v | _ \<Rightarrow> None)"

text \<open>\<^verbatim>\<open>decode(script.args().get(i)?.clone())?\<close> and \<^verbatim>\<open>script.ty_args().get(i)?.clone()\<close>\<close>

definition script_arg_at :: "(TransactionArgument \<Rightarrow> 'a option) \<Rightarrow> Script \<Rightarrow> nat \<Rightarrow> 'a option" where
  "script_arg_at decode script i = (if i < length (script_args script) then decode (script_args script ! i) else None)"

definition script_ty_arg_at :: "Script \<Rightarrow> nat \<Rightarrow> TypeTagV5 option" where
  "script_ty_arg_at script i = (if i < length (script_ty_args script) then Some (script_ty_args script ! i) else None)"

lemmas script_simps =
  Script_new_def script_arg_at_def script_ty_arg_at_def decode_bool_argument_def decode_u8_argument_def
  decode_u64_argument_def decode_address_argument_def decode_u8vector_argument_def

end
