(* ===== verification/V5_2_Sdk.thy ===== *)
theory V5_2_Sdk
  imports Script_Function
begin

text \<open>
  The script functions of release 5.2 (\<^verbatim>\<open>compatibility/src/sdk/v5_2_0_transaction_script_builder.rs\<close>):
  the 54 calls, their builders and decoders, and the decoder table. The scripts of the same file are in \<open>V5_Scripts\<close>.
\<close>

section \<open>Calls\<close>

datatype (plugins only: extraction) ScriptFunctionCall =
    AddCurrencyToAccount TypeTagV5
  | AddDiemIdDomain LegacyAddressV5 "u8 list"
  | AddRecoveryRotationCapability LegacyAddressV5
  | AddValidatorAndReconfigure u64 "u8 list" LegacyAddressV5
  | AutopayCreateInstruction u64 u8 LegacyAddressV5 u64 u64
  | AutopayDisable
  | AutopayEnable
  | BurnTxnFees TypeTagV5
  | BurnWithAmount TypeTagV5 u64 LegacyAddressV5 u64
  | CancelBurnWithAmount TypeTagV5 LegacyAddressV5 u64
  | CreateAccUser "u8 list" "u8 list"
  | CreateAccVal "u8 list" "u8 list" "u8 list" LegacyAddressV5 "u8 list" "u8 list" "u8 list" "u8 list" "u8 list"
  | CreateChildVaspAccount TypeTagV5 LegacyAddressV5 "u8 list" bool u64
  | CreateDesignatedDealer TypeTagV5 u64 LegacyAddressV5 "u8 list" "u8 list" bool
  | CreateDiemIdDomains
  | CreateParentVaspAccount TypeTagV5 u64 LegacyAddressV5 "u8 list" "u8 list" bool
  | CreateRecoveryAddress
  | CreateValidatorAccount u64 LegacyAddressV5 "u8 list" "u8 list"
  | CreateValidatorOperatorAccount u64 LegacyAddressV5 "u8 list" "u8 list"
  | DemoE2e u64
  | FreezeAccount u64 LegacyAddressV5
  | InitializeDiemConsensusConfig u64
  | Join
  | Leave
  | MinerstateCommit "u8 list" "u8 list"
  | MinerstateCommitByOperator LegacyAddressV5 "u8 list" "u8 list"
  | MinerstateHelper
  | OlOracleTx u64 "u8 list"
  | OlReconfigBulkUpdateSetup LegacyAddressV5 LegacyAddressV5 LegacyAddressV5 LegacyAddressV5 LegacyAddressV5
  | PeerToPeerWithMetadata TypeTagV5 LegacyAddressV5 u64 "u8 list" "u8 list"
  | Preburn TypeTagV5 u64
  | PublishSharedEd25519PublicKey "u8 list"
  | RegisterValidatorConfig LegacyAddressV5 "u8 list" "u8 list" "u8 list"
  | RemoveDiemIdDomain LegacyAddressV5 "u8 list"
  | RemoveValidatorAndReconfigure u64 "u8 list" LegacyAddressV5
  | RotateAuthenticationKey "u8 list"
  | RotateAuthenticationKeyWithNonce u64 "u8 list"
  | RotateAuthenticationKeyWithNonceAdmin u64 "u8 list"
  | RotateAuthenticationKeyWithRecoveryAddress LegacyAddressV5 LegacyAddressV5 "u8 list"
  | RotateDualAttestationInfo "u8 list" "u8 list"
  | RotateSharedEd25519PublicKey "u8 list"
  | SetGasConstants u64 u64 u64 u64 u64 u64 u64 u64 u64 u64 u64 u64
  | SetValidatorConfigAndReconfigure LegacyAddressV5 "u8 list" "u8 list" "u8 list"
  | SetValidatorOperator "u8 list" LegacyAddressV5
  | SetValidatorOperatorWithNonceAdmin u64 "u8 list" LegacyAddressV5
  | SetWalletType u8
  | TieredMint TypeTagV5 u64 LegacyAddressV5 u64 u64
  | UnfreezeAccount u64 LegacyAddressV5
  | UpdateDiemConsensusConfig u64 "u8 list"
  | UpdateDiemVersion u64 u64
  | UpdateDualAttestationLimit u64 u64
  | UpdateExchangeRate TypeTagV5 u64 u64 u64
  | UpdateMintingAbility TypeTagV5 bool
  | ValAddSelf

section \<open>Builders\<close>

definition encode_add_currency_to_account_script_function ::
  "binary_format \<Rightarrow> TypeTagV5 \<Rightarrow> TransactionPayload result" where
  "encode_add_currency_to_account_script_function B currency =
     core_call ''AccountAdministrationScripts'' ''add_currency_to_account'' [currency] []"

definition encode_add_diem_id_domain_script_function ::
  "binary_format \<Rightarrow> LegacyAddressV5 \<Rightarrow> u8 list \<Rightarrow> TransactionPayload result" where
  "encode_add_diem_id_domain_script_function B address domain =
     core_call ''TreasuryComplianceScripts'' ''add_diem_id_domain'' []
       [lay_to_bytes (lay_address B) address,
        lay_to_bytes (lay_bytes B) domain]"

definition encode_add_recovery_rotation_capability_script_function ::
  "binary_format \<Rightarrow> LegacyAddressV5 \<Rightarrow> TransactionPayload result" where
  "encode_add_recovery_rotation_capability_script_function B recovery_address =
     core_call ''AccountAdministrationScripts'' ''add_recovery_rotation_capability'' []
       [lay_to_bytes (lay_address B) recovery_address]"

definition encode_add_validator_and_reconfigure_script_function ::
  "binary_format \<Rightarrow> u64 \<Rightarrow> u8 list \<Rightarrow> LegacyAddressV5 \<Rightarrow> TransactionPayload result" where
  "encode_add_validator_and_reconfigure_script_function B sliding_nonce validator_name validator_address =
     core_call ''ValidatorAdministrationScripts'' ''add_validator_and_reconfigure'' []
       [lay_to_bytes (lay_u64 B) sliding_nonce,
        lay_to_bytes (lay_bytes B) validator_name,
        lay_to_bytes (lay_address B) validator_address]"

definition encode_autopay_create_instruction_script_function ::
  "binary_format \<Rightarrow> u64 \<Rightarrow> u8 \<Rightarrow> LegacyAddressV5 \<Rightarrow> u64 \<Rightarrow> u64 \<Rightarrow> TransactionPayload result" where
  "encode_autopay_create_instruction_script_function B uid in_type payee end_epoch value_arg =
     core_call ''AutoPayScripts'' ''autopay_create_instruction'' []
       [lay_to_bytes (lay_u64 B) uid,
        lay_to_bytes (lay_u8 B) in_type,
        lay_to_bytes (lay_address B) payee,
        lay_to_bytes (lay_u64 B) end_epoch,
        lay_to_bytes (lay_u64 B) value_arg]"

definition encode_autopay_disable_script_function ::
  "binary_format \<Rightarrow> TransactionPayload result" where
  "encode_autopay_disable_script_function B =
     core_call ''AutoPayScripts'' ''autopay_disable'' [] []"

definition encode_autopay_enable_script_function ::
  "binary_format \<Rightarrow> TransactionPayload result" where
  "encode_autopay_enable_script_function B =
     core_call ''AutoPayScripts'' ''autopay_enable'' [] []"

definition encode_burn_txn_fees_script_function ::
  "binary_format \<Rightarrow> TypeTagV5 \<Rightarrow> TransactionPayload result" where
  "encode_burn_txn_fees_script_function B coin_type =
     core_call ''TreasuryComplianceScripts'' ''burn_txn_fees'' [coin_type] []"

definition encode_burn_with_amount_script_function ::
  "binary_format \<Rightarrow> TypeTagV5 \<Rightarrow> u64 \<Rightarrow> LegacyAddressV5 \<Rightarrow> u64 \<Rightarrow> TransactionPayload result" where
  "encode_burn_with_amount_script_function B token sliding_nonce preburn_address amount =
     core_call ''TreasuryComplianceScripts'' ''burn_with_amount'' [token]
       [lay_to_bytes (lay_u64 B) sliding_nonce,
        lay_to_bytes (lay_address B) preburn_address,
        lay_to_bytes (lay_u64 B) amount]"

definition encode_cancel_burn_with_amount_script_function ::
  "binary_format \<Rightarrow> TypeTagV5 \<Rightarrow> LegacyAddressV5 \<Rightarrow> u64 \<Rightarrow> TransactionPayload result" where
  "encode_cancel_burn_with_amount_script_function B token preburn_address amount =
     core_call ''TreasuryComplianceScripts'' ''cancel_burn_with_amount'' [token]
       [lay_to_bytes (lay_address B) preburn_address,
        lay_to_bytes (lay_u64 B) amount]"

definition encode_create_acc_user_script_function ::
  "binary_format \<Rightarrow> u8 list \<Rightarrow> u8 list \<Rightarrow> TransactionPayload result" where
  "encode_create_acc_user_script_function B challenge solution =
     core_call ''AccountScripts'' ''create_acc_user'' []
       [lay_to_bytes (lay_bytes B) challenge,
        lay_to_bytes (lay_bytes B) solution]"

definition encode_create_acc_val_script_function ::
  "binary_format \<Rightarrow> u8 list \<Rightarrow> u8 list \<Rightarrow> u8 list \<Rightarrow> LegacyAddressV5 \<Rightarrow> u8 list \<Rightarrow> u8 list \<Rightarrow> u8 list \<Rightarrow> u8 list \<Rightarrow> u8 list \<Rightarrow> TransactionPayload result" where
  "encode_create_acc_val_script_function B challenge solution ow_human_name op_address op_auth_key_prefix op_consensus_pubkey op_validator_network_addresses op_fullnode_network_addresses op_human_name =
     core_call ''AccountScripts'' ''create_acc_val'' []
       [lay_to_bytes (lay_bytes B) challenge,
        lay_to_bytes (lay_bytes B) solution,
        lay_to_bytes (lay_bytes B) ow_human_name,
        lay_to_bytes (lay_address B) op_address,
        lay_to_bytes (lay_bytes B) op_auth_key_prefix,
        lay_to_bytes (lay_bytes B) op_consensus_pubkey,
        lay_to_bytes (lay_bytes B) op_validator_network_addresses,
        lay_to_bytes (lay_bytes B) op_fullnode_network_addresses,
        lay_to_bytes (lay_bytes B) op_human_name]"

definition encode_create_child_vasp_account_script_function ::
  "binary_format \<Rightarrow> TypeTagV5 \<Rightarrow> LegacyAddressV5 \<Rightarrow> u8 list \<Rightarrow> bool \<Rightarrow> u64 \<Rightarrow> TransactionPayload result" where
  "encode_create_child_vasp_account_script_function B coin_type child_address auth_key_prefix add_all_currencies child_initial_balance =
     core_call ''AccountCreationScripts'' ''create_child_vasp_account'' [coin_type]
       [lay_to_bytes (lay_address B) child_address,
        lay_to_bytes (lay_bytes B) auth_key_prefix,
        lay_to_bytes (lay_bool B) add_all_currencies,
        lay_to_bytes (lay_u64 B) child_initial_balance]"

definition encode_create_designated_dealer_script_function ::
  "binary_format \<Rightarrow> TypeTagV5 \<Rightarrow> u64 \<Rightarrow> LegacyAddressV5 \<Rightarrow> u8 list \<Rightarrow> u8 list \<Rightarrow> bool \<Rightarrow> TransactionPayload result" where
  "encode_create_designated_dealer_script_function B currency sliding_nonce addr auth_key_prefix human_name add_all_currencies =
     core_call ''AccountCreationScripts'' ''create_designated_dealer'' [currency]
       [lay_to_bytes (lay_u64 B) sliding_nonce,
        lay_to_bytes (lay_address B) addr,
        lay_to_bytes (lay_bytes B) auth_key_prefix,
        lay_to_bytes (lay_bytes B) human_name,
        lay_to_bytes (lay_bool B) add_all_currencies]"

definition encode_create_diem_id_domains_script_function ::
  "binary_format \<Rightarrow> TransactionPayload result" where
  "encode_create_diem_id_domains_script_function B =
     core_call ''AccountAdministrationScripts'' ''create_diem_id_domains'' [] []"

definition encode_create_parent_vasp_account_script_function ::
  "binary_format \<Rightarrow> TypeTagV5 \<Rightarrow> u64 \<Rightarrow> LegacyAddressV5 \<Rightarrow> u8 list \<Rightarrow> u8 list \<Rightarrow> bool \<Rightarrow> TransactionPayload result" where
  "encode_create_parent_vasp_account_script_function B coin_type sliding_nonce new_account_address auth_key_prefix human_name add_all_currencies =
     core_call ''AccountCreationScripts'' ''create_parent_vasp_account'' [coin_type]
       [lay_to_bytes (lay_u64 B) sliding_nonce,
        lay_to_bytes (lay_address B) new_account_address,
        lay_to_bytes (lay_bytes B) auth_key_prefix,
        lay_to_bytes (lay_bytes B) human_name,
        lay_to_bytes (lay_bool B) add_all_currencies]"

definition encode_create_recovery_address_script_function ::
  "binary_format \<Rightarrow> TransactionPayload result" where
  "encode_create_recovery_address_script_function B =
     core_call ''AccountAdministrationScripts'' ''create_recovery_address'' [] []"

definition encode_create_validator_account_script_function ::
  "binary_format \<Rightarrow> u64 \<Rightarrow> LegacyAddressV5 \<Rightarrow> u8 list \<Rightarrow> u8 list \<Rightarrow> TransactionPayload result" where
  "encode_create_validator_account_script_function B sliding_nonce new_account_address auth_key_prefix human_name =
     core_call ''AccountCreationScripts'' ''create_validator_account'' []
       [lay_to_bytes (lay_u64 B) sliding_nonce,
        lay_to_bytes (lay_address B) new_account_address,
        lay_to_bytes (lay_bytes B) auth_key_prefix,
        lay_to_bytes (lay_bytes B) human_name]"

definition encode_create_validator_operator_account_script_function ::
  "binary_format \<Rightarrow> u64 \<Rightarrow> LegacyAddressV5 \<Rightarrow> u8 list \<Rightarrow> u8 list \<Rightarrow> TransactionPayload result" where
  "encode_create_validator_operator_account_script_function B sliding_nonce new_account_address auth_key_prefix human_name =
     core_call ''AccountCreationScripts'' ''create_validator_operator_account'' []
       [lay_to_bytes (lay_u64 B) sliding_nonce,
        lay_to_bytes (lay_address B) new_account_address,
        lay_to_bytes (lay_bytes B) auth_key_prefix,
        lay_to_bytes (lay_bytes B) human_name]"

definition encode_demo_e2e_script_function ::
  "binary_format \<Rightarrow> u64 \<Rightarrow> TransactionPayload result" where
  "encode_demo_e2e_script_function B world =
     core_call ''DemoScripts'' ''demo_e2e'' [] [lay_to_bytes (lay_u64 B) world]"

definition encode_freeze_account_script_function ::
  "binary_format \<Rightarrow> u64 \<Rightarrow> LegacyAddressV5 \<Rightarrow> TransactionPayload result" where
  "encode_freeze_account_script_function B sliding_nonce to_freeze_account =
     core_call ''TreasuryComplianceScripts'' ''freeze_account'' []
       [lay_to_bytes (lay_u64 B) sliding_nonce,
        lay_to_bytes (lay_address B) to_freeze_account]"

definition encode_initialize_diem_consensus_config_script_function ::
  "binary_format \<Rightarrow> u64 \<Rightarrow> TransactionPayload result" where
  "encode_initialize_diem_consensus_config_script_function B sliding_nonce =
     core_call ''SystemAdministrationScripts'' ''initialize_diem_consensus_config'' []
       [lay_to_bytes (lay_u64 B) sliding_nonce]"

definition encode_join_script_function ::
  "binary_format \<Rightarrow> TransactionPayload result" where
  "encode_join_script_function B =
     core_call ''ValidatorScripts'' ''join'' [] []"

definition encode_leave_script_function ::
  "binary_format \<Rightarrow> TransactionPayload result" where
  "encode_leave_script_function B =
     core_call ''ValidatorScripts'' ''leave'' [] []"

definition encode_minerstate_commit_script_function ::
  "binary_format \<Rightarrow> u8 list \<Rightarrow> u8 list \<Rightarrow> TransactionPayload result" where
  "encode_minerstate_commit_script_function B challenge solution =
     core_call ''MinerStateScripts'' ''minerstate_commit'' []
       [lay_to_bytes (lay_bytes B) challenge,
        lay_to_bytes (lay_bytes B) solution]"

definition encode_minerstate_commit_by_operator_script_function ::
  "binary_format \<Rightarrow> LegacyAddressV5 \<Rightarrow> u8 list \<Rightarrow> u8 list \<Rightarrow> TransactionPayload result" where
  "encode_minerstate_commit_by_operator_script_function B owner_address challenge solution =
     core_call ''MinerStateScripts'' ''minerstate_commit_by_operator'' []
       [lay_to_bytes (lay_address B) owner_address,
        lay_to_bytes (lay_bytes B) challenge,
        lay_to_bytes (lay_bytes B) solution]"

definition encode_minerstate_helper_script_function ::
  "binary_format \<Rightarrow> TransactionPayload result" where
  "encode_minerstate_helper_script_function B =
     core_call ''MinerStateScripts'' ''minerstate_helper'' [] []"

definition encode_ol_oracle_tx_script_function ::
  "binary_format \<Rightarrow> u64 \<Rightarrow> u8 list \<Rightarrow> TransactionPayload result" where
  "encode_ol_oracle_tx_script_function B id_arg data_arg =
     core_call ''OracleScripts'' ''ol_oracle_tx'' []
       [lay_to_bytes (lay_u64 B) id_arg,
        lay_to_bytes (lay_bytes B) data_arg]"

definition encode_ol_reconfig_bulk_update_setup_script_function ::
  "binary_format \<Rightarrow> LegacyAddressV5 \<Rightarrow> LegacyAddressV5 \<Rightarrow> LegacyAddressV5 \<Rightarrow> LegacyAddressV5 \<Rightarrow> LegacyAddressV5 \<Rightarrow> TransactionPayload result" where
  "encode_ol_reconfig_bulk_update_setup_script_function B alice bob carol sha ram =
     core_call ''ValidatorScripts'' ''ol_reconfig_bulk_update_setup'' []
       [lay_to_bytes (lay_address B) alice,
        lay_to_bytes (lay_address B) bob,
        lay_to_bytes (lay_address B) carol,
        lay_to_bytes (lay_address B) sha,
        lay_to_bytes (lay_address B) ram]"

definition encode_peer_to_peer_with_metadata_script_function ::
  "binary_format \<Rightarrow> TypeTagV5 \<Rightarrow> LegacyAddressV5 \<Rightarrow> u64 \<Rightarrow> u8 list \<Rightarrow> u8 list \<Rightarrow> TransactionPayload result" where
  "encode_peer_to_peer_with_metadata_script_function B currency payee amount metadata metadata_signature =
     core_call ''PaymentScripts'' ''peer_to_peer_with_metadata'' [currency]
       [lay_to_bytes (lay_address B) payee,
        lay_to_bytes (lay_u64 B) amount,
        lay_to_bytes (lay_bytes B) metadata,
        lay_to_bytes (lay_bytes B) metadata_signature]"

definition encode_preburn_script_function ::
  "binary_format \<Rightarrow> TypeTagV5 \<Rightarrow> u64 \<Rightarrow> TransactionPayload result" where
  "encode_preburn_script_function B token amount =
     core_call ''TreasuryComplianceScripts'' ''preburn'' [token] [lay_to_bytes (lay_u64 B) amount]"

definition encode_publish_shared_ed25519_public_key_script_function ::
  "binary_format \<Rightarrow> u8 list \<Rightarrow> TransactionPayload result" where
  "encode_publish_shared_ed25519_public_key_script_function B public_key =
     core_call ''AccountAdministrationScripts'' ''publish_shared_ed25519_public_key'' []
       [lay_to_bytes (lay_bytes B) public_key]"

definition encode_register_validator_config_script_function ::
  "binary_format \<Rightarrow> LegacyAddressV5 \<Rightarrow> u8 list \<Rightarrow> u8 list \<Rightarrow> u8 list \<Rightarrow> TransactionPayload result" where
  "encode_register_validator_config_script_function B validator_account consensus_pubkey validator_network_addresses fullnode_network_addresses =
     core_call ''ValidatorAdministrationScripts'' ''register_validator_config'' []
       [lay_to_bytes (lay_address B) validator_account,
        lay_to_bytes (lay_bytes B) consensus_pubkey,
        lay_to_bytes (lay_bytes B) validator_network_addresses,
        lay_to_bytes (lay_bytes B) fullnode_network_addresses]"

definition encode_remove_diem_id_domain_script_function ::
  "binary_format \<Rightarrow> LegacyAddressV5 \<Rightarrow> u8 list \<Rightarrow> TransactionPayload result" where
  "encode_remove_diem_id_domain_script_function B address domain =
     core_call ''TreasuryComplianceScripts'' ''remove_diem_id_domain'' []
       [lay_to_bytes (lay_address B) address,
        lay_to_bytes (lay_bytes B) domain]"

definition encode_remove_validator_and_reconfigure_script_function ::
  "binary_format \<Rightarrow> u64 \<Rightarrow> u8 list \<Rightarrow> LegacyAddressV5 \<Rightarrow> TransactionPayload result" where
  "encode_remove_validator_and_reconfigure_script_function B sliding_nonce validator_name validator_address =
     core_call ''ValidatorAdministrationScripts'' ''remove_validator_and_reconfigure'' []
       [lay_to_bytes (lay_u64 B) sliding_nonce,
        lay_to_bytes (lay_bytes B) validator_name,
        lay_to_bytes (lay_address B) validator_address]"

definition encode_rotate_authentication_key_script_function ::
  "binary_format \<Rightarrow> u8 list \<Rightarrow> TransactionPayload result" where
  "encode_rotate_authentication_key_script_function B new_key =
     core_call ''AccountAdministrationScripts'' ''rotate_authentication_key'' []
       [lay_to_bytes (lay_bytes B) new_key]"

definition encode_rotate_authentication_key_with_nonce_script_function ::
  "binary_format \<Rightarrow> u64 \<Rightarrow> u8 list \<Rightarrow> TransactionPayload result" where
  "encode_rotate_authentication_key_with_nonce_script_function B sliding_nonce new_key =
     core_call ''AccountAdministrationScripts'' ''rotate_authentication_key_with_nonce'' []
       [lay_to_bytes (lay_u64 B) sliding_nonce,
        lay_to_bytes (lay_bytes B) new_key]"

definition encode_rotate_authentication_key_with_nonce_admin_script_function ::
  "binary_format \<Rightarrow> u64 \<Rightarrow> u8 list \<Rightarrow> TransactionPayload result" where
  "encode_rotate_authentication_key_with_nonce_admin_script_function B sliding_nonce new_key =
     core_call ''AccountAdministrationScripts'' ''rotate_authentication_key_with_nonce_admin'' []
       [lay_to_bytes (lay_u64 B) sliding_nonce,
        lay_to_bytes (lay_bytes B) new_key]"

definition encode_rotate_authentication_key_with_recovery_address_script_function ::
  "binary_format \<Rightarrow> LegacyAddressV5 \<Rightarrow> LegacyAddressV5 \<Rightarrow> u8 list \<Rightarrow> TransactionPayload result" where
  "encode_rotate_authentication_key_with_recovery_address_script_function B recovery_address to_recover new_key =
     core_call ''AccountAdministrationScripts'' ''rotate_authentication_key_with_recovery_address'' []
       [lay_to_bytes (lay_address B) recovery_address,
        lay_to_bytes (lay_address B) to_recover,
        lay_to_bytes (lay_bytes B) new_key]"

definition encode_rotate_dual_attestation_info_script_function ::
  "binary_format \<Rightarrow> u8 list \<Rightarrow> u8 list \<Rightarrow> TransactionPayload result" where
  "encode_rotate_dual_attestation_info_script_function B new_url new_key =
     core_call ''AccountAdministrationScripts'' ''rotate_dual_attestation_info'' []
       [lay_to_bytes (lay_bytes B) new_url,
        lay_to_bytes (lay_bytes B) new_key]"

definition encode_rotate_shared_ed25519_public_key_script_function ::
  "binary_format \<Rightarrow> u8 list \<Rightarrow> TransactionPayload result" where
  "encode_rotate_shared_ed25519_public_key_script_function B public_key =
     core_call ''AccountAdministrationScripts'' ''rotate_shared_ed25519_public_key'' []
       [lay_to_bytes (lay_bytes B) public_key]"

definition encode_set_gas_constants_script_function ::
  "binary_format \<Rightarrow> u64 \<Rightarrow> u64 \<Rightarrow> u64 \<Rightarrow> u64 \<Rightarrow> u64 \<Rightarrow> u64 \<Rightarrow> u64 \<Rightarrow> u64 \<Rightarrow> u64 \<Rightarrow> u64 \<Rightarrow> u64 \<Rightarrow> u64 \<Rightarrow> TransactionPayload result" where
  "encode_set_gas_constants_script_function B sliding_nonce global_memory_per_byte_cost global_memory_per_byte_write_cost min_transaction_gas_units large_transaction_cutoff intrinsic_gas_per_byte maximum_number_of_gas_units min_price_per_gas_unit max_price_per_gas_unit max_transaction_size_in_bytes gas_unit_scaling_factor default_account_size =
     core_call ''SystemAdministrationScripts'' ''set_gas_constants'' []
       [lay_to_bytes (lay_u64 B) sliding_nonce,
        lay_to_bytes (lay_u64 B) global_memory_per_byte_cost,
        lay_to_bytes (lay_u64 B) global_memory_per_byte_write_cost,
        lay_to_bytes (lay_u64 B) min_transaction_gas_units,
        lay_to_bytes (lay_u64 B) large_transaction_cutoff,
        lay_to_bytes (lay_u64 B) intrinsic_gas_per_byte,
        lay_to_bytes (lay_u64 B) maximum_number_of_gas_units,
        lay_to_bytes (lay_u64 B) min_price_per_gas_unit,
        lay_to_bytes (lay_u64 B) max_price_per_gas_unit,
        lay_to_bytes (lay_u64 B) max_transaction_size_in_bytes,
        lay_to_bytes (lay_u64 B) gas_unit_scaling_factor,
        lay_to_bytes (lay_u64 B) default_account_size]"

definition encode_set_validator_config_and_reconfigure_script_function ::
  "binary_format \<Rightarrow> LegacyAddressV5 \<Rightarrow> u8 list \<Rightarrow> u8 list \<Rightarrow> u8 list \<Rightarrow> TransactionPayload result" where
  "encode_set_validator_config_and_reconfigure_script_function B validator_account consensus_pubkey validator_network_addresses fullnode_network_addresses =
     core_call ''ValidatorAdministrationScripts'' ''set_validator_config_and_reconfigure'' []
       [lay_to_bytes (lay_address B) validator_account,
        lay_to_bytes (lay_bytes B) consensus_pubkey,
        lay_to_bytes (lay_bytes B) validator_network_addresses,
        lay_to_bytes (lay_bytes B) fullnode_network_addresses]"

definition encode_set_validator_operator_script_function ::
  "binary_format \<Rightarrow> u8 list \<Rightarrow> LegacyAddressV5 \<Rightarrow> TransactionPayload result" where
  "encode_set_validator_operator_script_function B operator_name operator_account =
     core_call ''ValidatorAdministrationScripts'' ''set_validator_operator'' []
       [lay_to_bytes (lay_bytes B) operator_name,
        lay_to_bytes (lay_address B) operator_account]"

definition encode_set_validator_operator_with_nonce_admin_script_function ::
  "binary_format \<Rightarrow> u64 \<Rightarrow> u8 list \<Rightarrow> LegacyAddressV5 \<Rightarrow> TransactionPayload result" where
  "encode_set_validator_operator_with_nonce_admin_script_function B sliding_nonce operator_name operator_account =
     core_call ''ValidatorAdministrationScripts'' ''set_validator_operator_with_nonce_admin'' []
       [lay_to_bytes (lay_u64 B) sliding_nonce,
        lay_to_bytes (lay_bytes B) operator_name,
        lay_to_bytes (lay_address B) operator_account]"

definition encode_set_wallet_type_script_function ::
  "binary_format \<Rightarrow> u8 \<Rightarrow> TransactionPayload result" where
  "encode_set_wallet_type_script_function B type_of =
     core_call ''WalletScripts'' ''set_wallet_type'' [] [lay_to_bytes (lay_u8 B) type_of]"

definition encode_tiered_mint_script_function ::
  "binary_format \<Rightarrow> TypeTagV5 \<Rightarrow> u64 \<Rightarrow> LegacyAddressV5 \<Rightarrow> u64 \<Rightarrow> u64 \<Rightarrow> TransactionPayload result" where
  "encode_tiered_mint_script_function B coin_type sliding_nonce designated_dealer_address mint_amount tier_index =
     core_call ''TreasuryComplianceScripts'' ''tiered_mint'' [coin_type]
       [lay_to_bytes (lay_u64 B) sliding_nonce,
        lay_to_bytes (lay_address B) designated_dealer_address,
        lay_to_bytes (lay_u64 B) mint_amount,
        lay_to_bytes (lay_u64 B) tier_index]"

definition encode_unfreeze_account_script_function ::
  "binary_format \<Rightarrow> u64 \<Rightarrow> LegacyAddressV5 \<Rightarrow> TransactionPayload result" where
  "encode_unfreeze_account_script_function B sliding_nonce to_unfreeze_account =
     core_call ''TreasuryComplianceScripts'' ''unfreeze_account'' []
       [lay_to_bytes (lay_u64 B) sliding_nonce,
        lay_to_bytes (lay_address B) to_unfreeze_account]"

definition encode_update_diem_consensus_config_script_function ::
  "binary_format \<Rightarrow> u64 \<Rightarrow> u8 list \<Rightarrow> TransactionPayload result" where
  "encode_update_diem_consensus_config_script_function B sliding_nonce config =
     core_call ''SystemAdministrationScripts'' ''update_diem_consensus_config'' []
       [lay_to_bytes (lay_u64 B) sliding_nonce,
        lay_to_bytes (lay_bytes B) config]"

definition encode_update_diem_version_script_function ::
  "binary_format \<Rightarrow> u64 \<Rightarrow> u64 \<Rightarrow> TransactionPayload result" where
  "encode_update_diem_version_script_function B sliding_nonce major =
     core_call ''SystemAdministrationScripts'' ''update_diem_version'' []
       [lay_to_bytes (lay_u64 B) sliding_nonce,
        lay_to_bytes (lay_u64 B) major]"

definition encode_update_dual_attestation_limit_script_function ::
  "binary_format \<Rightarrow> u64 \<Rightarrow> u64 \<Rightarrow> TransactionPayload result" where
  "encode_update_dual_attestation_limit_script_function B sliding_nonce new_micro_xdx_limit =
     core_call ''TreasuryComplianceScripts'' ''update_dual_attestation_limit'' []
       [lay_to_bytes (lay_u64 B) sliding_nonce,
        lay_to_bytes (lay_u64 B) new_micro_xdx_limit]"

definition encode_update_exchange_rate_script_function ::
  "binary_format \<Rightarrow> TypeTagV5 \<Rightarrow> u64 \<Rightarrow> u64 \<Rightarrow> u64 \<Rightarrow> TransactionPayload result" where
  "encode_update_exchange_rate_script_function B currency sliding_nonce new_exchange_rate_numerator new_exchange_rate_denominator =
     core_call ''TreasuryComplianceScripts'' ''update_exchange_rate'' [currency]
       [lay_to_bytes (lay_u64 B) sliding_nonce,
        lay_to_bytes (lay_u64 B) new_exchange_rate_numerator,
        lay_to_bytes (lay_u64 B) new_exchange_rate_denominator]"

definition encode_update_minting_ability_script_function ::
  "binary_format \<Rightarrow> TypeTagV5 \<Rightarrow> bool \<Rightarrow> TransactionPayload result" where
  "encode_update_minting_ability_script_function B currency allow_minting =
     core_call ''TreasuryComplianceScripts'' ''update_minting_ability'' [currency]
       [lay_to_bytes (lay_bool B) allow_minting]"

definition encode_val_add_self_script_function ::
  "binary_format \<Rightarrow> TransactionPayload result" where
  "encode_val_add_self_script_function B =
     core_call ''ValidatorScripts'' ''val_add_self'' [] []"

section \<open>Encoding\<close>

primrec encode :: "binary_format \<Rightarrow> ScriptFunctionCall \<Rightarrow> TransactionPayload result" where
  "encode B (AddCurrencyToAccount currency) = encode_add_currency_to_account_script_function B currency"
| "encode B (AddDiemIdDomain address domain) = encode_add_diem_id_domain_script_function B address domain"
| "encode B (AddRecoveryRotationCapability recovery_address) =
     encode_add_recovery_rotation_capability_script_function B recovery_address"
| "encode B (AddValidatorAndReconfigure sliding_nonce validator_name validator_address) =
     encode_add_validator_and_reconfigure_script_function B sliding_nonce validator_name validator_address"
| "encode B (AutopayCreateInstruction uid in_type payee end_epoch value_arg) =
     encode_autopay_create_instruction_script_function B uid in_type payee end_epoch value_arg"
| "encode B AutopayDisable = encode_autopay_disable_script_function B"
| "encode B AutopayEnable = encode_autopay_enable_script_function B"
| "encode B (BurnTxnFees coin_type) = encode_burn_txn_fees_script_function B coin_type"
| "encode B (BurnWithAmount token sliding_nonce preburn_address amount) =
     encode_burn_with_amount_script_function B token sliding_nonce preburn_address amount"
| "encode B (CancelBurnWithAmount token preburn_address amount) =
     encode_cancel_burn_with_amount_script_function B token preburn_address amount"
| "encode B (CreateAccUser challenge solution) = encode_create_acc_user_script_function B challenge solution"
| "encode B (CreateAccVal challenge solution ow_human_name op_address op_auth_key_prefix op_consensus_pubkey op_validator_network_addresses op_fullnode_network_addresses op_human_name) =
     encode_create_acc_val_script_function B challenge solution ow_human_name op_address op_auth_key_prefix op_consensus_pubkey op_validator_network_addresses op_fullnode_network_addresses op_human_name"
| "encode B (CreateChildVaspAccount coin_type child_address auth_key_prefix add_all_currencies child_initial_balance) =
     encode_create_child_vasp_account_script_function B coin_type child_address auth_key_prefix add_all_currencies child_initial_balance"
| "encode B (CreateDesignatedDealer currency sliding_nonce addr auth_key_prefix human_name add_all_currencies) =
     encode_create_designated_dealer_script_function B currency sliding_nonce addr auth_key_prefix human_name add_all_currencies"
| "encode B CreateDiemIdDomains = encode_create_diem_id_domains_script_function B"
| "encode B (CreateParentVaspAccount coin_type sliding_nonce new_account_address auth_key_prefix human_name add_all_currencies) =
     encode_create_parent_vasp_account_script_function B coin_type sliding_nonce new_account_address auth_key_prefix human_name add_all_currencies"
| "encode B CreateRecoveryAddress = encode_create_recovery_address_script_function B"
| "encode B (CreateValidatorAccount sliding_nonce new_account_address auth_key_prefix human_name) =
     encode_create_validator_account_script_function B sliding_nonce new_account_address auth_key_prefix human_name"
| "encode B (CreateValidatorOperatorAccount sliding_nonce new_account_address auth_key_prefix human_name) =
     encode_create_validator_operator_account_script_function B sliding_nonce new_account_address auth_key_prefix human_name"
| "encode B (DemoE2e world) = encode_demo_e2e_script_function B world"
| "encode B (FreezeAccount sliding_nonce to_freeze_account) =
     encode_freeze_account_script_function B sliding_nonce to_freeze_account"
| "encode B (InitializeDiemConsensusConfig sliding_nonce) =
     encode_initialize_diem_consensus_config_script_function B sliding_nonce"
| "encode B Join = encode_join_script_function B"
| "encode B Leave = encode_leave_script_function B"
| "encode B (MinerstateCommit challenge solution) = encode_minerstate_commit_script_function B challenge solution"
| "encode B (MinerstateCommitByOperator owner_address challenge solution) =
     encode_minerstate_commit_by_operator_script_function B owner_address challenge solution"
| "encode B MinerstateHelper = encode_minerstate_helper_script_function B"
| "encode B (OlOracleTx id_arg data_arg) = encode_ol_oracle_tx_script_function B id_arg data_arg"
| "encode B (OlReconfigBulkUpdateSetup alice bob carol sha ram) =
     encode_ol_reconfig_bulk_update_setup_script_function B alice bob carol sha ram"
| "encode B (PeerToPeerWithMetadata currency payee amount metadata metadata_signature) =
     encode_peer_to_peer_with_metadata_script_function B currency payee amount metadata metadata_signature"
| "encode B (Preburn token amount) = encode_preburn_script_function B token amount"
| "encode B (PublishSharedEd25519PublicKey public_key) =
     encode_publish_shared_ed25519_public_key_script_function B public_key"
| "encode B (RegisterValidatorConfig validator_account consensus_pubkey validator_network_addresses fullnode_network_addresses) =
     encode_register_validator_config_script_function B validator_account consensus_pubkey validator_network_addresses fullnode_network_addresses"
| "encode B (RemoveDiemIdDomain address domain) = encode_remove_diem_id_domain_script_function B address domain"
| "encode B (RemoveValidatorAndReconfigure sliding_nonce validator_name validator_address) =
     encode_remove_validator_and_reconfigure_script_function B sliding_nonce validator_name validator_address"
| "encode B (RotateAuthenticationKey new_key) = encode_rotate_authentication_key_script_function B new_key"
| "encode B (RotateAuthenticationKeyWithNonce sliding_nonce new_key) =
     encode_rotate_authentication_key_with_nonce_script_function B sliding_nonce new_key"
| "encode B (RotateAuthenticationKeyWithNonceAdmin sliding_nonce new_key) =
     encode_rotate_authentication_key_with_nonce_admin_script_function B sliding_nonce new_key"
| "encode B (RotateAuthenticationKeyWithRecoveryAddress recovery_address to_recover new_key) =
     encode_rotate_authentication_key_with_recovery_address_script_function B recovery_address to_recover new_key"
| "encode B (RotateDualAttestationInfo new_url new_key) =
     encode_rotate_dual_attestation_info_script_function B new_url new_key"
| "encode B (RotateSharedEd25519PublicKey public_key) =
     encode_rotate_shared_ed25519_public_key_script_function B public_key"
| "encode B (SetGasConstants sliding_nonce global_memory_per_byte_cost global_memory_per_byte_write_cost min_transaction_gas_units large_transaction_cutoff intrinsic_gas_per_byte maximum_number_of_gas_units min_price_per_gas_unit max_price_per_gas_unit max_transaction_size_in_bytes gas_unit_scaling_factor default_account_size) =
     encode_set_gas_constants_script_function B sliding_nonce global_memory_per_byte_cost global_memory_per_byte_write_cost min_transaction_gas_units large_transaction_cutoff intrinsic_gas_per_byte maximum_number_of_gas_units min_price_per_gas_unit max_price_per_gas_unit max_transaction_size_in_bytes gas_unit_scaling_factor default_account_size"
| "encode B (SetValidatorConfigAndReconfigure validator_account consensus_pubkey validator_network_addresses fullnode_network_addresses) =
     encode_set_validator_config_and_reconfigure_script_function B validator_account consensus_pubkey validator_network_addresses fullnode_network_addresses"
| "encode B (SetValidatorOperator operator_name operator_account) =
     encode_set_validator_operator_script_function B operator_name operator_account"
| "encode B (SetValidatorOperatorWithNonceAdmin sliding_nonce operator_name operator_account) =
     encode_set_validator_operator_with_nonce_admin_script_function B sliding_nonce operator_name operator_account"
| "encode B (SetWalletType type_of) = encode_set_wallet_type_script_function B type_of"
| "encode B (TieredMint coin_type sliding_nonce designated_dealer_address mint_amount tier_index) =
     encode_tiered_mint_script_function B coin_type sliding_nonce designated_dealer_address mint_amount tier_index"
| "encode B (UnfreezeAccount sliding_nonce to_unfreeze_account) =
     encode_unfreeze_account_script_function B sliding_nonce to_unfreeze_account"
| "encode B (UpdateDiemConsensusConfig sliding_nonce config) =
     encode_update_diem_consensus_config_script_function B sliding_nonce config"
| "encode B (UpdateDiemVersion sliding_nonce major) =
     encode_update_diem_version_script_function B sliding_nonce major"
| "encode B (UpdateDualAttestationLimit sliding_nonce new_micro_xdx_limit) =
     encode_update_dual_attestation_limit_script_function B sliding_nonce new_micro_xdx_limit"
| "encode B (UpdateExchangeRate currency sliding_nonce new_exchange_rate_numerator new_exchange_rate_denominator) =
     encode_update_exchange_rate_script_function B currency sliding_nonce new_exchange_rate_numerator new_exchange_rate_denominator"
| "encode B (UpdateMintingAbility currency allow_minting) =
     encode_update_minting_ability_script_function B currency allow_minting"
| "encode B ValAddSelf = encode_val_add_self_script_function B"

section \<open>Decoders\<close>

definition decode_add_currency_to_account_script_function :: "binary_format \<Rightarrow> TransactionPayload \<Rightarrow> ScriptFunctionCall option" where
  "decode_add_currency_to_account_script_function B = on_function (\<lambda>script.
     Option.bind (sf_ty_arg_at script 0) (\<lambda>currency.
     Some (AddCurrencyToAccount currency)))"

definition decode_add_diem_id_domain_script_function :: "binary_format \<Rightarrow> TransactionPayload \<Rightarrow> ScriptFunctionCall option" where
  "decode_add_diem_id_domain_script_function B = on_function (\<lambda>script.
     Option.bind (sf_arg_at (lay_address B) script 0) (\<lambda>address.
     Option.bind (sf_arg_at (lay_bytes B) script 1) (\<lambda>domain.
     Some (AddDiemIdDomain address domain))))"

definition decode_add_recovery_rotation_capability_script_function :: "binary_format \<Rightarrow> TransactionPayload \<Rightarrow> ScriptFunctionCall option" where
  "decode_add_recovery_rotation_capability_script_function B = on_function (\<lambda>script.
     Option.bind (sf_arg_at (lay_address B) script 0) (\<lambda>recovery_address.
     Some (AddRecoveryRotationCapability recovery_address)))"

definition decode_add_validator_and_reconfigure_script_function :: "binary_format \<Rightarrow> TransactionPayload \<Rightarrow> ScriptFunctionCall option" where
  "decode_add_validator_and_reconfigure_script_function B = on_function (\<lambda>script.
     Option.bind (sf_arg_at (lay_u64 B) script 0) (\<lambda>sliding_nonce.
     Option.bind (sf_arg_at (lay_bytes B) script 1) (\<lambda>validator_name.
     Option.bind (sf_arg_at (lay_address B) script 2) (\<lambda>validator_address.
     Some (AddValidatorAndReconfigure sliding_nonce validator_name validator_address)))))"

definition decode_autopay_create_instruction_script_function :: "binary_format \<Rightarrow> TransactionPayload \<Rightarrow> ScriptFunctionCall option" where
  "decode_autopay_create_instruction_script_function B = on_function (\<lambda>script.
     Option.bind (sf_arg_at (lay_u64 B) script 0) (\<lambda>uid.
     Option.bind (sf_arg_at (lay_u8 B) script 1) (\<lambda>in_type.
     Option.bind (sf_arg_at (lay_address B) script 2) (\<lambda>payee.
     Option.bind (sf_arg_at (lay_u64 B) script 3) (\<lambda>end_epoch.
     Option.bind (sf_arg_at (lay_u64 B) script 4) (\<lambda>value_arg.
     Some (AutopayCreateInstruction uid in_type payee end_epoch value_arg)))))))"

definition decode_autopay_disable_script_function :: "binary_format \<Rightarrow> TransactionPayload \<Rightarrow> ScriptFunctionCall option" where
  "decode_autopay_disable_script_function B = on_function (\<lambda>script.
     Some AutopayDisable)"

definition decode_autopay_enable_script_function :: "binary_format \<Rightarrow> TransactionPayload \<Rightarrow> ScriptFunctionCall option" where
  "decode_autopay_enable_script_function B = on_function (\<lambda>script.
     Some AutopayEnable)"

definition decode_burn_txn_fees_script_function :: "binary_format \<Rightarrow> TransactionPayload \<Rightarrow> ScriptFunctionCall option" where
  "decode_burn_txn_fees_script_function B = on_function (\<lambda>script.
     Option.bind (sf_ty_arg_at script 0) (\<lambda>coin_type.
     Some (BurnTxnFees coin_type)))"

definition decode_burn_with_amount_script_function :: "binary_format \<Rightarrow> TransactionPayload \<Rightarrow> ScriptFunctionCall option" where
  "decode_burn_with_amount_script_function B = on_function (\<lambda>script.
     Option.bind (sf_ty_arg_at script 0) (\<lambda>token.
     Option.bind (sf_arg_at (lay_u64 B) script 0) (\<lambda>sliding_nonce.
     Option.bind (sf_arg_at (lay_address B) script 1) (\<lambda>preburn_address.
     Option.bind (sf_arg_at (lay_u64 B) script 2) (\<lambda>amount.
     Some (BurnWithAmount token sliding_nonce preburn_address amount))))))"

definition decode_cancel_burn_with_amount_script_function :: "binary_format \<Rightarrow> TransactionPayload \<Rightarrow> ScriptFunctionCall option" where
  "decode_cancel_burn_with_amount_script_function B = on_function (\<lambda>script.
     Option.bind (sf_ty_arg_at script 0) (\<lambda>token.
     Option.bind (sf_arg_at (lay_address B) script 0) (\<lambda>preburn_address.
     Option.bind (sf_arg_at (lay_u64 B) script 1) (\<lambda>amount.
     Some (CancelBurnWithAmount token preburn_address amount)))))"

definition decode_create_acc_user_script_function :: "binary_format \<Rightarrow> TransactionPayload \<Rightarrow> ScriptFunctionCall option" where
  "decode_create_acc_user_script_function B = on_function (\<lambda>script.
     Option.bind (sf_arg_at (lay_bytes B) script 0) (\<lambda>challenge.
     Option.bind (sf_arg_at (lay_bytes B) script 1) (\<lambda>solution.
     Some (CreateAccUser challenge solution))))"

definition decode_create_acc_val_script_function :: "binary_format \<Rightarrow> TransactionPayload \<Rightarrow> ScriptFunctionCall option" where
  "decode_create_acc_val_script_function B = on_function (\<lambda>script.
     Option.bind (sf_arg_at (lay_bytes B) script 0) (\<lambda>challenge.
     Option.bind (sf_arg_at (lay_bytes B) script 1) (\<lambda>solution.
     Option.bind (sf_arg_at (lay_bytes B) script 2) (\<lambda>ow_human_name.
     Option.bind (sf_arg_at (lay_address B) script 3) (\<lambda>op_address.
     Option.bind (sf_arg_at (lay_bytes B) script 4) (\<lambda>op_auth_key_prefix.
     Option.bind (sf_arg_at (lay_bytes B) script 5) (\<lambda>op_consensus_pubkey.
     Option.bind (sf_arg_at (lay_bytes B) script 6) (\<lambda>op_validator_network_addresses.
     Option.bind (sf_arg_at (lay_bytes B) script 7) (\<lambda>op_fullnode_network_addresses.
     Option.bind (sf_arg_at (lay_bytes B) script 8) (\<lambda>op_human_name.
     Some (CreateAccVal challenge solution ow_human_name op_address op_auth_key_prefix op_consensus_pubkey op_validator_network_addresses op_fullnode_network_addresses op_human_name)))))))))))"

definition decode_create_child_vasp_account_script_function :: "binary_format \<Rightarrow> TransactionPayload \<Rightarrow> ScriptFunctionCall option" where
  "decode_create_child_vasp_account_script_function B = on_function (\<lambda>script.
     Option.bind (sf_ty_arg_at script 0) (\<lambda>coin_type.
     Option.bind (sf_arg_at (lay_address B) script 0) (\<lambda>child_address.
     Option.bind (sf_arg_at (lay_bytes B) script 1) (\<lambda>auth_key_prefix.
     Option.bind (sf_arg_at (lay_bool B) script 2) (\<lambda>add_all_currencies.
     Option.bind (sf_arg_at (lay_u64 B) script 3) (\<lambda>child_initial_balance.
     Some (CreateChildVaspAccount coin_type child_address auth_key_prefix add_all_currencies child_initial_balance)))))))"

definition decode_create_designated_dealer_script_function :: "binary_format \<Rightarrow> TransactionPayload \<Rightarrow> ScriptFunctionCall option" where
  "decode_create_designated_dealer_script_function B = on_function (\<lambda>script.
     Option.bind (sf_ty_arg_at script 0) (\<lambda>currency.
     Option.bind (sf_arg_at (lay_u64 B) script 0) (\<lambda>sliding_nonce.
     Option.bind (sf_arg_at (lay_address B) script 1) (\<lambda>addr.
     Option.bind (sf_arg_at (lay_bytes B) script 2) (\<lambda>auth_key_prefix.
     Option.bind (sf_arg_at (lay_bytes B) script 3) (\<lambda>human_name.
     Option.bind (sf_arg_at (lay_bool B) script 4) (\<lambda>add_all_currencies.
     Some (CreateDesignatedDealer currency sliding_nonce addr auth_key_prefix human_name add_all_currencies))))))))"

definition decode_create_diem_id_domains_script_function :: "binary_format \<Rightarrow> TransactionPayload \<Rightarrow> ScriptFunctionCall option" where
  "decode_create_diem_id_domains_script_function B = on_function (\<lambda>script.
     Some CreateDiemIdDomains)"

definition decode_create_parent_vasp_account_script_function :: "binary_format \<Rightarrow> TransactionPayload \<Rightarrow> ScriptFunctionCall option" where
  "decode_create_parent_vasp_account_script_function B = on_function (\<lambda>script.
     Option.bind (sf_ty_arg_at script 0) (\<lambda>coin_type.
     Option.bind (sf_arg_at (lay_u64 B) script 0) (\<lambda>sliding_nonce.
     Option.bind (sf_arg_at (lay_address B) script 1) (\<lambda>new_account_address.
     Option.bind (sf_arg_at (lay_bytes B) script 2) (\<lambda>auth_key_prefix.
     Option.bind (sf_arg_at (lay_bytes B) script 3) (\<lambda>human_name.
     Option.bind (sf_arg_at (lay_bool B) script 4) (\<lambda>add_all_currencies.
     Some (CreateParentVaspAccount coin_type sliding_nonce new_account_address auth_key_prefix human_name add_all_currencies))))))))"

definition decode_create_recovery_address_script_function :: "binary_format \<Rightarrow> TransactionPayload \<Rightarrow> ScriptFunctionCall option" where
  "decode_create_recovery_address_script_function B = on_function (\<lambda>script.
     Some CreateRecoveryAddress)"

definition decode_create_validator_account_script_function :: "binary_format \<Rightarrow> TransactionPayload \<Rightarrow> ScriptFunctionCall option" where
  "decode_create_validator_account_script_function B = on_function (\<lambda>script.
     Option.bind (sf_arg_at (lay_u64 B) script 0) (\<lambda>sliding_nonce.
     Option.bind (sf_arg_at (lay_address B) script 1) (\<lambda>new_account_address.
     Option.bind (sf_arg_at (lay_bytes B) script 2) (\<lambda>auth_key_prefix.
     Option.bind (sf_arg_at (lay_bytes B) script 3) (\<lambda>human_name.
     Some (CreateValidatorAccount sliding_nonce new_account_address auth_key_prefix human_name))))))"

definition decode_create_validator_operator_account_script_function :: "binary_format \<Rightarrow> TransactionPayload \<Rightarrow> ScriptFunctionCall option" where
  "decode_create_validator_operator_account_script_function B = on_function (\<lambda>script.
     Option.bind (sf_arg_at (lay_u64 B) script 0) (\<lambda>sliding_nonce.
     Option.bind (sf_arg_at (lay_address B) script 1) (\<lambda>new_account_address.
     Option.bind (sf_arg_at (lay_bytes B) script 2) (\<lambda>auth_key_prefix.
     Option.bind (sf_arg_at (lay_bytes B) script 3) (\<lambda>human_name.
     Some (CreateValidatorOperatorAccount sliding_nonce new_account_address auth_key_prefix human_name))))))"

definition decode_demo_e2e_script_function :: "binary_format \<Rightarrow> TransactionPayload \<Rightarrow> ScriptFunctionCall option" where
  "decode_demo_e2e_script_function B = on_function (\<lambda>script.
     Option.bind (sf_arg_at (lay_u64 B) script 0) (\<lambda>world.
     Some (DemoE2e world)))"

definition decode_freeze_account_script_function :: "binary_format \<Rightarrow> TransactionPayload \<Rightarrow> ScriptFunctionCall option" where
  "decode_freeze_account_script_function B = on_function (\<lambda>script.
     Option.bind (sf_arg_at (lay_u64 B) script 0) (\<lambda>sliding_nonce.
     Option.bind (sf_arg_at (lay_address B) script 1) (\<lambda>to_freeze_account.
     Some (FreezeAccount sliding_nonce to_freeze_account))))"

definition decode_initialize_diem_consensus_config_script_function :: "binary_format \<Rightarrow> TransactionPayload \<Rightarrow> ScriptFunctionCall option" where
  "decode_initialize_diem_consensus_config_script_function B = on_function (\<lambda>script.
     Option.bind (sf_arg_at (lay_u64 B) script 0) (\<lambda>sliding_nonce.
     Some (InitializeDiemConsensusConfig sliding_nonce)))"

definition decode_join_script_function :: "binary_format \<Rightarrow> TransactionPayload \<Rightarrow> ScriptFunctionCall option" where
  "decode_join_script_function B = on_function (\<lambda>script.
     Some Join)"

definition decode_leave_script_function :: "binary_format \<Rightarrow> TransactionPayload \<Rightarrow> ScriptFunctionCall option" where
  "decode_leave_script_function B = on_function (\<lambda>script.
     Some Leave)"

definition decode_minerstate_commit_script_function :: "binary_format \<Rightarrow> TransactionPayload \<Rightarrow> ScriptFunctionCall option" where
  "decode_minerstate_commit_script_function B = on_function (\<lambda>script.
     Option.bind (sf_arg_at (lay_bytes B) script 0) (\<lambda>challenge.
     Option.bind (sf_arg_at (lay_bytes B) script 1) (\<lambda>solution.
     Some (MinerstateCommit challenge solution))))"

definition decode_minerstate_commit_by_operator_script_function :: "binary_format \<Rightarrow> TransactionPayload \<Rightarrow> ScriptFunctionCall option" where
  "decode_minerstate_commit_by_operator_script_function B = on_function (\<lambda>script.
     Option.bind (sf_arg_at (lay_address B) script 0) (\<lambda>owner_address.
     Option.bind (sf_arg_at (lay_bytes B) script 1) (\<lambda>challenge.
     Option.bind (sf_arg_at (lay_bytes B) script 2) (\<lambda>solution.
     Some (MinerstateCommitByOperator owner_address challenge solution)))))"

definition decode_minerstate_helper_script_function :: "binary_format \<Rightarrow> TransactionPayload \<Rightarrow> ScriptFunctionCall option" where
  "decode_minerstate_helper_script_function B = on_function (\<lambda>script.
     Some MinerstateHelper)"

definition decode_ol_oracle_tx_script_function :: "binary_format \<Rightarrow> TransactionPayload \<Rightarrow> ScriptFunctionCall option" where
  "decode_ol_oracle_tx_script_function B = on_function (\<lambda>script.
     Option.bind (sf_arg_at (lay_u64 B) script 0) (\<lambda>id_arg.
     Option.bind (sf_arg_at (lay_bytes B) script 1) (\<lambda>data_arg.
     Some (OlOracleTx id_arg data_arg))))"

definition decode_ol_reconfig_bulk_update_setup_script_function :: "binary_format \<Rightarrow> TransactionPayload \<Rightarrow> ScriptFunctionCall option" where
  "decode_ol_reconfig_bulk_update_setup_script_function B = on_function (\<lambda>script.
     Option.bind (sf_arg_at (lay_address B) script 0) (\<lambda>alice.
     Option.bind (sf_arg_at (lay_address B) script 1) (\<lambda>bob.
     Option.bind (sf_arg_at (lay_address B) script 2) (\<lambda>carol.
     Option.bind (sf_arg_at (lay_address B) script 3) (\<lambda>sha.
     Option.bind (sf_arg_at (lay_address B) script 4) (\<lambda>ram.
     Some (OlReconfigBulkUpdateSetup alice bob carol sha ram)))))))"

definition decode_peer_to_peer_with_metadata_script_function :: "binary_format \<Rightarrow> TransactionPayload \<Rightarrow> ScriptFunctionCall option" where
  "decode_peer_to_peer_with_metadata_script_function B = on_function (\<lambda>script.
     Option.bind (sf_ty_arg_at script 0) (\<lambda>currency.
     Option.bind (sf_arg_at (lay_address B) script 0) (\<lambda>payee.
     Option.bind (sf_arg_at (lay_u64 B) script 1) (\<lambda>amount.
     Option.bind (sf_arg_at (lay_bytes B) script 2) (\<lambda>metadata.
     Option.bind (sf_arg_at (lay_bytes B) script 3) (\<lambda>metadata_signature.
     Some (PeerToPeerWithMetadata currency payee amount metadata metadata_signature)))))))"

definition decode_preburn_script_function :: "binary_format \<Rightarrow> TransactionPayload \<Rightarrow> ScriptFunctionCall option" where
  "decode_preburn_script_function B = on_function (\<lambda>script.
     Option.bind (sf_ty_arg_at script 0) (\<lambda>token.
     Option.bind (sf_arg_at (lay_u64 B) script 0) (\<lambda>amount.
     Some (Preburn token amount))))"

definition decode_publish_shared_ed25519_public_key_script_function :: "binary_format \<Rightarrow> TransactionPayload \<Rightarrow> ScriptFunctionCall option" where
  "decode_publish_shared_ed25519_public_key_script_function B = on_function (\<lambda>script.
     Option.bind (sf_arg_at (lay_bytes B) script 0) (\<lambda>public_key.
     Some (PublishSharedEd25519PublicKey public_key)))"

definition decode_register_validator_config_script_function :: "binary_format \<Rightarrow> TransactionPayload \<Rightarrow> ScriptFunctionCall option" where
  "decode_register_validator_config_script_function B = on_function (\<lambda>script.
     Option.bind (sf_arg_at (lay_address B) script 0) (\<lambda>validator_account.
     Option.bind (sf_arg_at (lay_bytes B) script 1) (\<lambda>consensus_pubkey.
     Option.bind (sf_arg_at (lay_bytes B) script 2) (\<lambda>validator_network_addresses.
     Option.bind (sf_arg_at (lay_bytes B) script 3) (\<lambda>fullnode_network_addresses.
     Some (RegisterValidatorConfig validator_account consensus_pubkey validator_network_addresses fullnode_network_addresses))))))"

definition decode_remove_diem_id_domain_script_function :: "binary_format \<Rightarrow> TransactionPayload \<Rightarrow> ScriptFunctionCall option" where
  "decode_remove_diem_id_domain_script_function B = on_function (\<lambda>script.
     Option.bind (sf_arg_at (lay_address B) script 0) (\<lambda>address.
     Option.bind (sf_arg_at (lay_bytes B) script 1) (\<lambda>domain.
     Some (RemoveDiemIdDomain address domain))))"

definition decode_remove_validator_and_reconfigure_script_function :: "binary_format \<Rightarrow> TransactionPayload \<Rightarrow> ScriptFunctionCall option" where
  "decode_remove_validator_and_reconfigure_script_function B = on_function (\<lambda>script.
     Option.bind (sf_arg_at (lay_u64 B) script 0) (\<lambda>sliding_nonce.
     Option.bind (sf_arg_at (lay_bytes B) script 1) (\<lambda>validator_name.
     Option.bind (sf_arg_at (lay_address B) script 2) (\<lambda>validator_address.
     Some (RemoveValidatorAndReconfigure sliding_nonce validator_name validator_address)))))"

definition decode_rotate_authentication_key_script_function :: "binary_format \<Rightarrow> TransactionPayload \<Rightarrow> ScriptFunctionCall option" where
  "decode_rotate_authentication_key_script_function B = on_function (\<lambda>script.
     Option.bind (sf_arg_at (lay_bytes B) script 0) (\<lambda>new_key.
     Some (RotateAuthenticationKey new_key)))"

definition decode_rotate_authentication_key_with_nonce_script_function :: "binary_format \<Rightarrow> TransactionPayload \<Rightarrow> ScriptFunctionCall option" where
  "decode_rotate_authentication_key_with_nonce_script_function B = on_function (\<lambda>script.
     Option.bind (sf_arg_at (lay_u64 B) script 0) (\<lambda>sliding_nonce.
     Option.bind (sf_arg_at (lay_bytes B) script 1) (\<lambda>new_key.
     Some (RotateAuthenticationKeyWithNonce sliding_nonce new_key))))"

definition decode_rotate_authentication_key_with_nonce_admin_script_function :: "binary_format \<Rightarrow> TransactionPayload \<Rightarrow> ScriptFunctionCall option" where
  "decode_rotate_authentication_key_with_nonce_admin_script_function B = on_function (\<lambda>script.
     Option.bind (sf_arg_at (lay_u64 B) script 0) (\<lambda>sliding_nonce.
     Option.bind (sf_arg_at (lay_bytes B) script 1) (\<lambda>new_key.
     Some (RotateAuthenticationKeyWithNonceAdmin sliding_nonce new_key))))"

definition decode_rotate_authentication_key_with_recovery_address_script_function :: "binary_format \<Rightarrow> TransactionPayload \<Rightarrow> ScriptFunctionCall option" where
  "decode_rotate_authentication_key_with_recovery_address_script_function B = on_function (\<lambda>script.
     Option.bind (sf_arg_at (lay_address B) script 0) (\<lambda>recovery_address.
     Option.bind (sf_arg_at (lay_address B) script 1) (\<lambda>to_recover.
     Option.bind (sf_arg_at (lay_bytes B) script 2) (\<lambda>new_key.
     Some (RotateAuthenticationKeyWithRecoveryAddress recovery_address to_recover new_key)))))"

definition decode_rotate_dual_attestation_info_script_function :: "binary_format \<Rightarrow> TransactionPayload \<Rightarrow> ScriptFunctionCall option" where
  "decode_rotate_dual_attestation_info_script_function B = on_function (\<lambda>script.
     Option.bind (sf_arg_at (lay_bytes B) script 0) (\<lambda>new_url.
     Option.bind (sf_arg_at (lay_bytes B) script 1) (\<lambda>new_key.
     Some (RotateDualAttestationInfo new_url new_key))))"

definition decode_rotate_shared_ed25519_public_key_script_function :: "binary_format \<Rightarrow> TransactionPayload \<Rightarrow> ScriptFunctionCall option" where
  "decode_rotate_shared_ed25519_public_key_script_function B = on_function (\<lambda>script.
     Option.bind (sf_arg_at (lay_bytes B) script 0) (\<lambda>public_key.
     Some (RotateSharedEd25519PublicKey public_key)))"

definition decode_set_gas_constants_script_function :: "binary_format \<Rightarrow> TransactionPayload \<Rightarrow> ScriptFunctionCall option" where
  "decode_set_gas_constants_script_function B = on_function (\<lambda>script.
     Option.bind (sf_arg_at (lay_u64 B) script 0) (\<lambda>sliding_nonce.
     Option.bind (sf_arg_at (lay_u64 B) script 1) (\<lambda>global_memory_per_byte_cost.
     Option.bind (sf_arg_at (lay_u64 B) script 2) (\<lambda>global_memory_per_byte_write_cost.
     Option.bind (sf_arg_at (lay_u64 B) script 3) (\<lambda>min_transaction_gas_units.
     Option.bind (sf_arg_at (lay_u64 B) script 4) (\<lambda>large_transaction_cutoff.
     Option.bind (sf_arg_at (lay_u64 B) script 5) (\<lambda>intrinsic_gas_per_byte.
     Option.bind (sf_arg_at (lay_u64 B) script 6) (\<lambda>maximum_number_of_gas_units.
     Option.bind (sf_arg_at (lay_u64 B) script 7) (\<lambda>min_price_per_gas_unit.
     Option.bind (sf_arg_at (lay_u64 B) script 8) (\<lambda>max_price_per_gas_unit.
     Option.bind (sf_arg_at (lay_u64 B) script 9) (\<lambda>max_transaction_size_in_bytes.
     Option.bind (sf_arg_at (lay_u64 B) script 10) (\<lambda>gas_unit_scaling_factor.
     Option.bind (sf_arg_at (lay_u64 B) script 11) (\<lambda>default_account_size.
     Some (SetGasConstants sliding_nonce global_memory_per_byte_cost global_memory_per_byte_write_cost min_transaction_gas_units large_transaction_cutoff intrinsic_gas_per_byte maximum_number_of_gas_units min_price_per_gas_unit max_price_per_gas_unit max_transaction_size_in_bytes gas_unit_scaling_factor default_account_size))))))))))))))"

definition decode_set_validator_config_and_reconfigure_script_function :: "binary_format \<Rightarrow> TransactionPayload \<Rightarrow> ScriptFunctionCall option" where
  "decode_set_validator_config_and_reconfigure_script_function B = on_function (\<lambda>script.
     Option.bind (sf_arg_at (lay_address B) script 0) (\<lambda>validator_account.
     Option.bind (sf_arg_at (lay_bytes B) script 1) (\<lambda>consensus_pubkey.
     Option.bind (sf_arg_at (lay_bytes B) script 2) (\<lambda>validator_network_addresses.
     Option.bind (sf_arg_at (lay_bytes B) script 3) (\<lambda>fullnode_network_addresses.
     Some (SetValidatorConfigAndReconfigure validator_account consensus_pubkey validator_network_addresses fullnode_network_addresses))))))"

definition decode_set_validator_operator_script_function :: "binary_format \<Rightarrow> TransactionPayload \<Rightarrow> ScriptFunctionCall option" where
  "decode_set_validator_operator_script_function B = on_function (\<lambda>script.
     Option.bind (sf_arg_at (lay_bytes B) script 0) (\<lambda>operator_name.
     Option.bind (sf_arg_at (lay_address B) script 1) (\<lambda>operator_account.
     Some (SetValidatorOperator operator_name operator_account))))"

definition decode_set_validator_operator_with_nonce_admin_script_function :: "binary_format \<Rightarrow> TransactionPayload \<Rightarrow> ScriptFunctionCall option" where
  "decode_set_validator_operator_with_nonce_admin_script_function B = on_function (\<lambda>script.
     Option.bind (sf_arg_at (lay_u64 B) script 0) (\<lambda>sliding_nonce.
     Option.bind (sf_arg_at (lay_bytes B) script 1) (\<lambda>operator_name.
     Option.bind (sf_arg_at (lay_address B) script 2) (\<lambda>operator_account.
     Some (SetValidatorOperatorWithNonceAdmin sliding_nonce operator_name operator_account)))))"

definition decode_set_wallet_type_script_function :: "binary_format \<Rightarrow> TransactionPayload \<Rightarrow> ScriptFunctionCall option" where
  "decode_set_wallet_type_script_function B = on_function (\<lambda>script.
     Option.bind (sf_arg_at (lay_u8 B) script 0) (\<lambda>type_of.
     Some (SetWalletType type_of)))"

definition decode_tiered_mint_script_function :: "binary_format \<Rightarrow> TransactionPayload \<Rightarrow> ScriptFunctionCall option" where
  "decode_tiered_mint_script_function B = on_function (\<lambda>script.
     Option.bind (sf_ty_arg_at script 0) (\<lambda>coin_type.
     Option.bind (sf_arg_at (lay_u64 B) script 0) (\<lambda>sliding_nonce.
     Option.bind (sf_arg_at (lay_address B) script 1) (\<lambda>designated_dealer_address.
     Option.bind (sf_arg_at (lay_u64 B) script 2) (\<lambda>mint_amount.
     Option.bind (sf_arg_at (lay_u64 B) script 3) (\<lambda>tier_index.
     Some (TieredMint coin_type sliding_nonce designated_dealer_address mint_amount tier_index)))))))"

definition decode_unfreeze_account_script_function :: "binary_format \<Rightarrow> TransactionPayload \<Rightarrow> ScriptFunctionCall option" where
  "decode_unfreeze_account_script_function B = on_function (\<lambda>script.
     Option.bind (sf_arg_at (lay_u64 B) script 0) (\<lambda>sliding_nonce.
     Option.bind (sf_arg_at (lay_address B) script 1) (\<lambda>to_unfreeze_account.
     Some (UnfreezeAccount sliding_nonce to_unfreeze_account))))"

definition decode_update_diem_consensus_config_script_function :: "binary_format \<Rightarrow> TransactionPayload \<Rightarrow> ScriptFunctionCall option" where
  "decode_update_diem_consensus_config_script_function B = on_function (\<lambda>script.
     Option.bind (sf_arg_at (lay_u64 B) script 0) (\<lambda>sliding_nonce.
     Option.bind (sf_arg_at (lay_bytes B) script 1) (\<lambda>config.
     Some (UpdateDiemConsensusConfig sliding_nonce config))))"

definition decode_update_diem_version_script_function :: "binary_format \<Rightarrow> TransactionPayload \<Rightarrow> ScriptFunctionCall option" where
  "decode_update_diem_version_script_function B = on_function (\<lambda>script.
     Option.bind (sf_arg_at (lay_u64 B) script 0) (\<lambda>sliding_nonce.
     Option.bind (sf_arg_at (lay_u64 B) script 1) (\<lambda>major.
     Some (UpdateDiemVersion sliding_nonce major))))"

definition decode_update_dual_attestation_limit_script_function :: "binary_format \<Rightarrow> TransactionPayload \<Rightarrow> ScriptFunctionCall option" where
  "decode_update_dual_attestation_limit_script_function B = on_function (\<lambda>script.
     Option.bind (sf_arg_at (lay_u64 B) script 0) (\<lambda>sliding_nonce.
     Option.bind (sf_arg_at (lay_u64 B) script 1) (\<lambda>new_micro_xdx_limit.
     Some (UpdateDualAttestationLimit sliding_nonce new_micro_xdx_limit))))"

definition decode_update_exchange_rate_script_function :: "binary_format \<Rightarrow> TransactionPayload \<Rightarrow> ScriptFunctionCall option" where
  "decode_update_exchange_rate_script_function B = on_function (\<lambda>script.
     Option.bind (sf_ty_arg_at script 0) (\<lambda>currency.
     Option.bind (sf_arg_at (lay_u64 B) script 0) (\<lambda>sliding_nonce.
     Option.bind (sf_arg_at (lay_u64 B) script 1) (\<lambda>new_exchange_rate_numerator.
     Option.bind (sf_arg_at (lay_u64 B) script 2) (\<lambda>new_exchange_rate_denominator.
     Some (UpdateExchangeRate currency sliding_nonce new_exchange_rate_numerator new_exchange_rate_denominator))))))"

definition decode_update_minting_ability_script_function :: "binary_format \<Rightarrow> TransactionPayload \<Rightarrow> ScriptFunctionCall option" where
  "decode_update_minting_ability_script_function B = on_function (\<lambda>script.
     Option.bind (sf_ty_arg_at script 0) (\<lambda>currency.
     Option.bind (sf_arg_at (lay_bool B) script 0) (\<lambda>allow_minting.
     Some (UpdateMintingAbility currency allow_minting))))"

definition decode_val_add_self_script_function :: "binary_format \<Rightarrow> TransactionPayload \<Rightarrow> ScriptFunctionCall option" where
  "decode_val_add_self_script_function B = on_function (\<lambda>script.
     Some ValAddSelf)"

section \<open>Decoding\<close>

definition decoder_entries :: "binary_format \<Rightarrow> (string \<times> (TransactionPayload \<Rightarrow> ScriptFunctionCall option)) list" where
  "decoder_entries B =
    [(''AccountAdministrationScriptsadd_currency_to_account'', decode_add_currency_to_account_script_function B),
     (''TreasuryComplianceScriptsadd_diem_id_domain'', decode_add_diem_id_domain_script_function B),
     (''AccountAdministrationScriptsadd_recovery_rotation_capability'', decode_add_recovery_rotation_capability_script_function B),
     (''ValidatorAdministrationScriptsadd_validator_and_reconfigure'', decode_add_validator_and_reconfigure_script_function B),
     (''AutoPayScriptsautopay_create_instruction'', decode_autopay_create_instruction_script_function B),
     (''AutoPayScriptsautopay_disable'', decode_autopay_disable_script_function B),
     (''AutoPayScriptsautopay_enable'', decode_autopay_enable_script_function B),
     (''TreasuryComplianceScriptsburn_txn_fees'', decode_burn_txn_fees_script_function B),
     (''TreasuryComplianceScriptsburn_with_amount'', decode_burn_with_amount_script_function B),
     (''TreasuryComplianceScriptscancel_burn_with_amount'', decode_cancel_burn_with_amount_script_function B),
     (''AccountScriptscreate_acc_user'', decode_create_acc_user_script_function B),
     (''AccountScriptscreate_acc_val'', decode_create_acc_val_script_function B),
     (''AccountCreationScriptscreate_child_vasp_account'', decode_create_child_vasp_account_script_function B),
     (''AccountCreationScriptscreate_designated_dealer'', decode_create_designated_dealer_script_function B),
     (''AccountAdministrationScriptscreate_diem_id_domains'', decode_create_diem_id_domains_script_function B),
     (''AccountCreationScriptscreate_parent_vasp_account'', decode_create_parent_vasp_account_script_function B),
     (''AccountAdministrationScriptscreate_recovery_address'', decode_create_recovery_address_script_function B),
     (''AccountCreationScriptscreate_validator_account'', decode_create_validator_account_script_function B),
     (''AccountCreationScriptscreate_validator_operator_account'', decode_create_validator_operator_account_script_function B),
     (''DemoScriptsdemo_e2e'', decode_demo_e2e_script_function B),
     (''TreasuryComplianceScriptsfreeze_account'', decode_freeze_account_script_function B),
     (''SystemAdministrationScriptsinitialize_diem_consensus_config'', decode_initialize_diem_consensus_config_script_function B),
     (''ValidatorScriptsjoin'', decode_join_script_function B),
     (''ValidatorScriptsleave'', decode_leave_script_function B),
     (''MinerStateScriptsminerstate_commit'', decode_minerstate_commit_script_function B),
     (''MinerStateScriptsminerstate_commit_by_operator'', decode_minerstate_commit_by_operator_script_function B),
     (''MinerStateScriptsminerstate_helper'', decode_minerstate_helper_script_function B),
     (''OracleScriptsol_oracle_tx'', decode_ol_oracle_tx_script_function B),
     (''ValidatorScriptsol_reconfig_bulk_update_setup'', decode_ol_reconfig_bulk_update_setup_script_function B),
     (''PaymentScriptspeer_to_peer_with_metadata'', decode_peer_to_peer_with_metadata_script_function B),
     (''TreasuryComplianceScriptspreburn'', decode_preburn_script_function B),
     (''AccountAdministrationScriptspublish_shared_ed25519_public_key'', decode_publish_shared_ed25519_public_key_script_function B),
     (''ValidatorAdministrationScriptsregister_validator_config'', decode_register_validator_config_script_function B),
     (''TreasuryComplianceScriptsremove_diem_id_domain'', decode_remove_diem_id_domain_script_function B),
     (''ValidatorAdministrationScriptsremove_validator_and_reconfigure'', decode_remove_validator_and_reconfigure_script_function B),
     (''AccountAdministrationScriptsrotate_authentication_key'', decode_rotate_authentication_key_script_function B),
     (''AccountAdministrationScriptsrotate_authentication_key_with_nonce'', decode_rotate_authentication_key_with_nonce_script_function B),
     (''AccountAdministrationScriptsrotate_authentication_key_with_nonce_admin'', decode_rotate_authentication_key_with_nonce_admin_script_function B),
     (''AccountAdministrationScriptsrotate_authentication_key_with_recovery_address'', decode_rotate_authentication_key_with_recovery_address_script_function B),
     (''AccountAdministrationScriptsrotate_dual_attestation_info'', decode_rotate_dual_attestation_info_script_function B),
     (''AccountAdministrationScriptsrotate_shared_ed25519_public_key'', decode_rotate_shared_ed25519_public_key_script_function B),
     (''SystemAdministrationScriptsset_gas_constants'', decode_set_gas_constants_script_function B),
     (''ValidatorAdministrationScriptsset_validator_config_and_reconfigure'', decode_set_validator_config_and_reconfigure_script_function B),
     (''ValidatorAdministrationScriptsset_validator_operator'', decode_set_validator_operator_script_function B),
     (''ValidatorAdministrationScriptsset_validator_operator_with_nonce_admin'', decode_set_validator_operator_with_nonce_admin_script_function B),
     (''WalletScriptsset_wallet_type'', decode_set_wallet_type_script_function B),
     (''TreasuryComplianceScriptstiered_mint'', decode_tiered_mint_script_function B),
     (''TreasuryComplianceScriptsunfreeze_account'', decode_unfreeze_account_script_function B),
     (''SystemAdministrationScriptsupdate_diem_consensus_config'', decode_update_diem_consensus_config_script_function B),
     (''SystemAdministrationScriptsupdate_diem_version'', decode_update_diem_version_script_function B),
     (''TreasuryComplianceScriptsupdate_dual_attestation_limit'', decode_update_dual_attestation_limit_script_function B),
     (''TreasuryComplianceScriptsupdate_exchange_rate'', decode_update_exchange_rate_script_function B),
     (''TreasuryComplianceScriptsupdate_minting_ability'', decode_update_minting_ability_script_function B),
     (''ValidatorScriptsval_add_self'', decode_val_add_self_script_function B)]"

definition SCRIPT_FUNCTION_DECODER_MAP :: "binary_format \<Rightarrow> string \<rightharpoonup> (TransactionPayload \<Rightarrow> ScriptFunctionCall option)" where
  "SCRIPT_FUNCTION_DECODER_MAP B = decoder_table (decoder_entries B)"

definition decode :: "binary_format \<Rightarrow> TransactionPayload \<Rightarrow> ScriptFunctionCall option" where
  "decode B payload = decode_function_by (SCRIPT_FUNCTION_DECODER_MAP B) payload"

lemmas v52_builder_defs =
  encode_add_currency_to_account_script_function_def encode_add_diem_id_domain_script_function_def
  encode_add_recovery_rotation_capability_script_function_def
  encode_add_validator_and_reconfigure_script_function_def
  encode_autopay_create_instruction_script_function_def encode_autopay_disable_script_function_def
  encode_autopay_enable_script_function_def encode_burn_txn_fees_script_function_def
  encode_burn_with_amount_script_function_def encode_cancel_burn_with_amount_script_function_def
  encode_create_acc_user_script_function_def encode_create_acc_val_script_function_def
  encode_create_child_vasp_account_script_function_def encode_create_designated_dealer_script_function_def
  encode_create_diem_id_domains_script_function_def encode_create_parent_vasp_account_script_function_def
  encode_create_recovery_address_script_function_def encode_create_validator_account_script_function_def
  encode_create_validator_operator_account_script_function_def encode_demo_e2e_script_function_def
  encode_freeze_account_script_function_def encode_initialize_diem_consensus_config_script_function_def
  encode_join_script_function_def encode_leave_script_function_def
  encode_minerstate_commit_script_function_def encode_minerstate_commit_by_operator_script_function_def
  encode_minerstate_helper_script_function_def encode_ol_oracle_tx_script_function_def
  encode_ol_reconfig_bulk_update_setup_script_function_def
  encode_peer_to_peer_with_metadata_script_function_def encode_preburn_script_function_def
  encode_publish_shared_ed25519_public_key_script_function_def
  encode_register_validator_config_script_function_def encode_remove_diem_id_domain_script_function_def
  encode_remove_validator_and_reconfigure_script_function_def
  encode_rotate_authentication_key_script_function_def
  encode_rotate_authentication_key_with_nonce_script_function_def
  encode_rotate_authentication_key_with_nonce_admin_script_function_def
  encode_rotate_authentication_key_with_recovery_address_script_function_def
  encode_rotate_dual_attestation_info_script_function_def
  encode_rotate_shared_ed25519_public_key_script_function_def encode_set_gas_constants_script_function_def
  encode_set_validator_config_and_reconfigure_script_function_def
  encode_set_validator_operator_script_function_def
  encode_set_validator_operator_with_nonce_admin_script_function_def
  encode_set_wallet_type_script_function_def encode_tiered_mint_script_function_def
  encode_unfreeze_account_script_function_def encode_update_diem_consensus_config_script_function_def
  encode_update_diem_version_script_function_def encode_update_dual_attestation_limit_script_function_def
  encode_update_exchange_rate_script_function_def encode_update_minting_ability_script_function_def
  encode_val_add_self_script_function_def

lemmas v52_decoder_defs =
  decode_add_currency_to_account_script_function_def decode_add_diem_id_domain_script_function_def
  decode_add_recovery_rotation_capability_script_function_def
  decode_add_validator_and_reconfigure_script_function_def
  decode_autopay_create_instruction_script_function_def decode_autopay_disable_script_function_def
  decode_autopay_enable_script_function_def decode_burn_txn_fees_script_function_def
  decode_burn_with_amount_script_function_def decode_cancel_burn_with_amount_script_function_def
  decode_create_acc_user_script_function_def decode_create_acc_val_script_function_def
  decode_create_child_vasp_account_script_function_def decode_create_designated_dealer_script_function_def
  decode_create_diem_id_domains_script_function_def decode_create_parent_vasp_account_script_function_def
  decode_create_recovery_address_script_function_def decode_create_validator_account_script_function_def
  decode_create_validator_operator_account_script_function_def decode_demo_e2e_script_function_def
  decode_freeze_account_script_function_def decode_initialize_diem_consensus_config_script_function_def
  decode_join_script_function_def decode_leave_script_function_def
  decode_minerstate_commit_script_function_def decode_minerstate_commit_by_operator_script_function_def
  decode_minerstate_helper_script_function_def decode_ol_oracle_tx_script_function_def
  decode_ol_reconfig_bulk_update_setup_script_function_def
  decode_peer_to_peer_with_metadata_script_function_def decode_preburn_script_function_def
  decode_publish_shared_ed25519_public_key_script_function_def
  decode_register_validator_config_script_function_def decode_remove_diem_id_domain_script_function_def
  decode_remove_validator_and_reconfigure_script_function_def
  decode_rotate_authentication_key_script_function_def
  decode_rotate_authentication_key_with_nonce_script_function_def
  decode_rotate_authentication_key_with_nonce_admin_script_function_def
  decode_rotate_authentication_key_with_recovery_address_script_function_def
  decode_rotate_dual_attestation_info_script_function_def
  decode_rotate_shared_ed25519_public_key_script_function_def decode_set_gas_constants_script_function_def
  decode_set_validator_config_and_reconfigure_script_function_def
  decode_set_validator_operator_script_function_def
  decode_set_validator_operator_with_nonce_admin_script_function_def
  decode_set_wallet_type_script_function_def decode_tiered_mint_script_function_def
  decode_unfreeze_account_script_function_def decode_update_diem_consensus_config_script_function_def
  decode_update_diem_version_script_function_def decode_update_dual_attestation_limit_script_function_def
  decode_update_exchange_rate_script_function_def decode_update_minting_ability_script_function_def
  decode_val_add_self_script_function_def

section \<open>Decoding inverts encoding\<close>

lemma v52_keys_distinct: "distinct (map fst (decoder_entries B))"
  unfolding decoder_entries_def list.map fst_conv by simp

interpretation v52_table: decoder_keys "decoder_entries B" for B
  by unfold_locales (rule v52_keys_distinct)

lemma v52_decoder_lookup: "(k, d) \<in> set (decoder_entries B) \<Longrightarrow> SCRIPT_FUNCTION_DECODER_MAP B k = Some d"
  unfolding SCRIPT_FUNCTION_DECODER_MAP_def by (rule v52_table.lookup)

lemma v52_decoder_lookups:
  "SCRIPT_FUNCTION_DECODER_MAP B ''AccountAdministrationScriptsadd_currency_to_account'' = Some (decode_add_currency_to_account_script_function B)"
  "SCRIPT_FUNCTION_DECODER_MAP B ''TreasuryComplianceScriptsadd_diem_id_domain'' = Some (decode_add_diem_id_domain_script_function B)"
  "SCRIPT_FUNCTION_DECODER_MAP B ''AccountAdministrationScriptsadd_recovery_rotation_capability'' = Some (decode_add_recovery_rotation_capability_script_function B)"
  "SCRIPT_FUNCTION_DECODER_MAP B ''ValidatorAdministrationScriptsadd_validator_and_reconfigure'' = Some (decode_add_validator_and_reconfigure_script_function B)"
  "SCRIPT_FUNCTION_DECODER_MAP B ''AutoPayScriptsautopay_create_instruction'' = Some (decode_autopay_create_instruction_script_function B)"
  "SCRIPT_FUNCTION_DECODER_MAP B ''AutoPayScriptsautopay_disable'' = Some (decode_autopay_disable_script_function B)"
  "SCRIPT_FUNCTION_DECODER_MAP B ''AutoPayScriptsautopay_enable'' = Some (decode_autopay_enable_script_function B)"
  "SCRIPT_FUNCTION_DECODER_MAP B ''TreasuryComplianceScriptsburn_txn_fees'' = Some (decode_burn_txn_fees_script_function B)"
  "SCRIPT_FUNCTION_DECODER_MAP B ''TreasuryComplianceScriptsburn_with_amount'' = Some (decode_burn_with_amount_script_function B)"
  "SCRIPT_FUNCTION_DECODER_MAP B ''TreasuryComplianceScriptscancel_burn_with_amount'' = Some (decode_cancel_burn_with_amount_script_function B)"
  "SCRIPT_FUNCTION_DECODER_MAP B ''AccountScriptscreate_acc_user'' = Some (decode_create_acc_user_script_function B)"
  "SCRIPT_FUNCTION_DECODER_MAP B ''AccountScriptscreate_acc_val'' = Some (decode_create_acc_val_script_function B)"
  "SCRIPT_FUNCTION_DECODER_MAP B ''AccountCreationScriptscreate_child_vasp_account'' = Some (decode_create_child_vasp_account_script_function B)"
  "SCRIPT_FUNCTION_DECODER_MAP B ''AccountCreationScriptscreate_designated_dealer'' = Some (decode_create_designated_dealer_script_function B)"
  "SCRIPT_FUNCTION_DECODER_MAP B ''AccountAdministrationScriptscreate_diem_id_domains'' = Some (decode_create_diem_id_domains_script_function B)"
  "SCRIPT_FUNCTION_DECODER_MAP B ''AccountCreationScriptscreate_parent_vasp_account'' = Some (decode_create_parent_vasp_account_script_function B)"
  "SCRIPT_FUNCTION_DECODER_MAP B ''AccountAdministrationScriptscreate_recovery_address'' = Some (decode_create_recovery_address_script_function B)"
  "SCRIPT_FUNCTION_DECODER_MAP B ''AccountCreationScriptscreate_validator_account'' = Some (decode_create_validator_account_script_function B)"
  "SCRIPT_FUNCTION_DECODER_MAP B ''AccountCreationScriptscreate_validator_operator_account'' = Some (decode_create_validator_operator_account_script_function B)"
  "SCRIPT_FUNCTION_DECODER_MAP B ''DemoScriptsdemo_e2e'' = Some (decode_demo_e2e_script_function B)"
  "SCRIPT_FUNCTION_DECODER_MAP B ''TreasuryComplianceScriptsfreeze_account'' = Some (decode_freeze_account_script_function B)"
  "SCRIPT_FUNCTION_DECODER_MAP B ''SystemAdministrationScriptsinitialize_diem_consensus_config'' = Some (decode_initialize_diem_consensus_config_script_function B)"
  "SCRIPT_FUNCTION_DECODER_MAP B ''ValidatorScriptsjoin'' = Some (decode_join_script_function B)"
  "SCRIPT_FUNCTION_DECODER_MAP B ''ValidatorScriptsleave'' = Some (decode_leave_script_function B)"
  "SCRIPT_FUNCTION_DECODER_MAP B ''MinerStateScriptsminerstate_commit'' = Some (decode_minerstate_commit_script_function B)"
  "SCRIPT_FUNCTION_DECODER_MAP B ''MinerStateScriptsminerstate_commit_by_operator'' = Some (decode_minerstate_commit_by_operator_script_function B)"
  "SCRIPT_FUNCTION_DECODER_MAP B ''MinerStateScriptsminerstate_helper'' = Some (decode_minerstate_helper_script_function B)"
  "SCRIPT_FUNCTION_DECODER_MAP B ''OracleScriptsol_oracle_tx'' = Some (decode_ol_oracle_tx_script_function B)"
  "SCRIPT_FUNCTION_DECODER_MAP B ''ValidatorScriptsol_reconfig_bulk_update_setup'' = Some (decode_ol_reconfig_bulk_update_setup_script_function B)"
  "SCRIPT_FUNCTION_DECODER_MAP B ''PaymentScriptspeer_to_peer_with_metadata'' = Some (decode_peer_to_peer_with_metadata_script_function B)"
  "SCRIPT_FUNCTION_DECODER_MAP B ''TreasuryComplianceScriptspreburn'' = Some (decode_preburn_script_function B)"
  "SCRIPT_FUNCTION_DECODER_MAP B ''AccountAdministrationScriptspublish_shared_ed25519_public_key'' = Some (decode_publish_shared_ed25519_public_key_script_function B)"
  "SCRIPT_FUNCTION_DECODER_MAP B ''ValidatorAdministrationScriptsregister_validator_config'' = Some (decode_register_validator_config_script_function B)"
  "SCRIPT_FUNCTION_DECODER_MAP B ''TreasuryComplianceScriptsremove_diem_id_domain'' = Some (decode_remove_diem_id_domain_script_function B)"
  "SCRIPT_FUNCTION_DECODER_MAP B ''ValidatorAdministrationScriptsremove_validator_and_reconfigure'' = Some (decode_remove_validator_and_reconfigure_script_function B)"
  "SCRIPT_FUNCTION_DECODER_MAP B ''AccountAdministrationScriptsrotate_authentication_key'' = Some (decode_rotate_authentication_key_script_function B)"
  "SCRIPT_FUNCTION_DECODER_MAP B ''AccountAdministrationScriptsrotate_authentication_key_with_nonce'' = Some (decode_rotate_authentication_key_with_nonce_script_function B)"
  "SCRIPT_FUNCTION_DECODER_MAP B ''AccountAdministrationScriptsrotate_authentication_key_with_nonce_admin'' = Some (decode_rotate_authentication_key_with_nonce_admin_script_function B)"
  "SCRIPT_FUNCTION_DECODER_MAP B ''AccountAdministrationScriptsrotate_authentication_key_with_recovery_address'' = Some (decode_rotate_authentication_key_with_recovery_address_script_function B)"
  "SCRIPT_FUNCTION_DECODER_MAP B ''AccountAdministrationScriptsrotate_dual_attestation_info'' = Some (decode_rotate_dual_attestation_info_script_function B)"
  "SCRIPT_FUNCTION_DECODER_MAP B ''AccountAdministrationScriptsrotate_shared_ed25519_public_key'' = Some (decode_rotate_shared_ed25519_public_key_script_function B)"
  "SCRIPT_FUNCTION_DECODER_MAP B ''SystemAdministrationScriptsset_gas_constants'' = Some (decode_set_gas_constants_script_function B)"
  "SCRIPT_FUNCTION_DECODER_MAP B ''ValidatorAdministrationScriptsset_validator_config_and_reconfigure'' = Some (decode_set_validator_config_and_reconfigure_script_function B)"
  "SCRIPT_FUNCTION_DECODER_MAP B ''ValidatorAdministrationScriptsset_validator_operator'' = Some (decode_set_validator_operator_script_function B)"
  "SCRIPT_FUNCTION_DECODER_MAP B ''ValidatorAdministrationScriptsset_validator_operator_with_nonce_admin'' = Some (decode_set_validator_operator_with_nonce_admin_script_function B)"
  "SCRIPT_FUNCTION_DECODER_MAP B ''WalletScriptsset_wallet_type'' = Some (decode_set_wallet_type_script_function B)"
  "SCRIPT_FUNCTION_DECODER_MAP B ''TreasuryComplianceScriptstiered_mint'' = Some (decode_tiered_mint_script_function B)"
  "SCRIPT_FUNCTION_DECODER_MAP B ''TreasuryComplianceScriptsunfreeze_account'' = Some (decode_unfreeze_account_script_function B)"
  "SCRIPT_FUNCTION_DECODER_MAP B ''SystemAdministrationScriptsupdate_diem_consensus_config'' = Some (decode_update_diem_consensus_config_script_function B)"
  "SCRIPT_FUNCTION_DECODER_MAP B ''SystemAdministrationScriptsupdate_diem_version'' = Some (decode_update_diem_version_script_function B)"
  "SCRIPT_FUNCTION_DECODER_MAP B ''TreasuryComplianceScriptsupdate_dual_attestation_limit'' = Some (decode_update_dual_attestation_limit_script_function B)"
  "SCRIPT_FUNCTION_DECODER_MAP B ''TreasuryComplianceScriptsupdate_exchange_rate'' = Some (decode_update_exchange_rate_script_function B)"
  "SCRIPT_FUNCTION_DECODER_MAP B ''TreasuryComplianceScriptsupdate_minting_ability'' = Some (decode_update_minting_ability_script_function B)"
  "SCRIPT_FUNCTION_DECODER_MAP B ''ValidatorScriptsval_add_self'' = Some (decode_val_add_self_script_function B)"
  by (rule v52_decoder_lookup, unfold decoder_entries_def, (rule list.set_intros(1) | rule list.set_intros(2))+)+

text \<open>Addresses have their sixteen bytes.\<close>

primrec wf_call :: "ScriptFunctionCall \<Rightarrow> bool" where
  "wf_call (AddCurrencyToAccount currency) \<longleftrightarrow> True"
| "wf_call (AddDiemIdDomain address domain) \<longleftrightarrow> wf_address address"
| "wf_call (AddRecoveryRotationCapability recovery_address) \<longleftrightarrow> wf_address recovery_address"
| "wf_call (AddValidatorAndReconfigure sliding_nonce validator_name validator_address) \<longleftrightarrow> wf_address validator_address"
| "wf_call (AutopayCreateInstruction uid in_type payee end_epoch value_arg) \<longleftrightarrow> wf_address payee"
| "wf_call AutopayDisable \<longleftrightarrow> True"
| "wf_call AutopayEnable \<longleftrightarrow> True"
| "wf_call (BurnTxnFees coin_type) \<longleftrightarrow> True"
| "wf_call (BurnWithAmount token sliding_nonce preburn_address amount) \<longleftrightarrow> wf_address preburn_address"
| "wf_call (CancelBurnWithAmount token preburn_address amount) \<longleftrightarrow> wf_address preburn_address"
| "wf_call (CreateAccUser challenge solution) \<longleftrightarrow> True"
| "wf_call (CreateAccVal challenge solution ow_human_name op_address op_auth_key_prefix op_consensus_pubkey op_validator_network_addresses op_fullnode_network_addresses op_human_name) \<longleftrightarrow> wf_address op_address"
| "wf_call (CreateChildVaspAccount coin_type child_address auth_key_prefix add_all_currencies child_initial_balance) \<longleftrightarrow> wf_address child_address"
| "wf_call (CreateDesignatedDealer currency sliding_nonce addr auth_key_prefix human_name add_all_currencies) \<longleftrightarrow> wf_address addr"
| "wf_call CreateDiemIdDomains \<longleftrightarrow> True"
| "wf_call (CreateParentVaspAccount coin_type sliding_nonce new_account_address auth_key_prefix human_name add_all_currencies) \<longleftrightarrow> wf_address new_account_address"
| "wf_call CreateRecoveryAddress \<longleftrightarrow> True"
| "wf_call (CreateValidatorAccount sliding_nonce new_account_address auth_key_prefix human_name) \<longleftrightarrow> wf_address new_account_address"
| "wf_call (CreateValidatorOperatorAccount sliding_nonce new_account_address auth_key_prefix human_name) \<longleftrightarrow> wf_address new_account_address"
| "wf_call (DemoE2e world) \<longleftrightarrow> True"
| "wf_call (FreezeAccount sliding_nonce to_freeze_account) \<longleftrightarrow> wf_address to_freeze_account"
| "wf_call (InitializeDiemConsensusConfig sliding_nonce) \<longleftrightarrow> True"
| "wf_call Join \<longleftrightarrow> True"
| "wf_call Leave \<longleftrightarrow> True"
| "wf_call (MinerstateCommit challenge solution) \<longleftrightarrow> True"
| "wf_call (MinerstateCommitByOperator owner_address challenge solution) \<longleftrightarrow> wf_address owner_address"
| "wf_call MinerstateHelper \<longleftrightarrow> True"
| "wf_call (OlOracleTx id_arg data_arg) \<longleftrightarrow> True"
| "wf_call (OlReconfigBulkUpdateSetup alice bob carol sha ram) \<longleftrightarrow> wf_address alice \<and> wf_address bob \<and> wf_address carol \<and> wf_address sha \<and> wf_address ram"
| "wf_call (PeerToPeerWithMetadata currency payee amount metadata metadata_signature) \<longleftrightarrow> wf_address payee"
| "wf_call (Preburn token amount) \<longleftrightarrow> True"
| "wf_call (PublishSharedEd25519PublicKey public_key) \<longleftrightarrow> True"
| "wf_call (RegisterValidatorConfig validator_account consensus_pubkey validator_network_addresses fullnode_network_addresses) \<longleftrightarrow> wf_address validator_account"
| "wf_call (RemoveDiemIdDomain address domain) \<longleftrightarrow> wf_address address"
| "wf_call (RemoveValidatorAndReconfigure sliding_nonce validator_name validator_address) \<longleftrightarrow> wf_address validator_address"
| "wf_call (RotateAuthenticationKey new_key) \<longleftrightarrow> True"
| "wf_call (RotateAuthenticationKeyWithNonce sliding_nonce new_key) \<longleftrightarrow> True"
| "wf_call (RotateAuthenticationKeyWithNonceAdmin sliding_nonce new_key) \<longleftrightarrow> True"
| "wf_call (RotateAuthenticationKeyWithRecoveryAddress recovery_address to_recover new_key) \<longleftrightarrow> wf_address recovery_address \<and> wf_address to_recover"
| "wf_call (RotateDualAttestationInfo new_url new_key) \<longleftrightarrow> True"
| "wf_call (RotateSharedEd25519PublicKey public_key) \<longleftrightarrow> True"
| "wf_call (SetGasConstants sliding_nonce global_memory_per_byte_cost global_memory_per_byte_write_cost min_transaction_gas_units large_transaction_cutoff intrinsic_gas_per_byte maximum_number_of_gas_units min_price_per_gas_unit max_price_per_gas_unit max_transaction_size_in_bytes gas_unit_scaling_factor default_account_size) \<longleftrightarrow> True"
| "wf_call (SetValidatorConfigAndReconfigure validator_account consensus_pubkey validator_network_addresses fullnode_network_addresses) \<longleftrightarrow> wf_address validator_account"
| "wf_call (SetValidatorOperator operator_name operator_account) \<longleftrightarrow> wf_address operator_account"
| "wf_call (SetValidatorOperatorWithNonceAdmin sliding_nonce operator_name operator_account) \<longleftrightarrow> wf_address operator_account"
| "wf_call (SetWalletType type_of) \<longleftrightarrow> True"
| "wf_call (TieredMint coin_type sliding_nonce designated_dealer_address mint_amount tier_index) \<longleftrightarrow> wf_address designated_dealer_address"
| "wf_call (UnfreezeAccount sliding_nonce to_unfreeze_account) \<longleftrightarrow> wf_address to_unfreeze_account"
| "wf_call (UpdateDiemConsensusConfig sliding_nonce config) \<longleftrightarrow> True"
| "wf_call (UpdateDiemVersion sliding_nonce major) \<longleftrightarrow> True"
| "wf_call (UpdateDualAttestationLimit sliding_nonce new_micro_xdx_limit) \<longleftrightarrow> True"
| "wf_call (UpdateExchangeRate currency sliding_nonce new_exchange_rate_numerator new_exchange_rate_denominator) \<longleftrightarrow> True"
| "wf_call (UpdateMintingAbility currency allow_minting) \<longleftrightarrow> True"
| "wf_call ValAddSelf \<longleftrightarrow> True"

context binary_layouts
begin

lemma v52_decode_encode: "encode B c = Inr p \<Longrightarrow> wf_call c \<Longrightarrow> decode B p = Some c"
  by (cases c)
    (auto simp: v52_builder_defs core_call_Inr and_then_eq_Inr expect_eq_Inr decode_def v52_decoder_lookups v52_decoder_defs
      script_function_simps from_put)

end

text \<open>The builders and the decoders of all script functions of release 5.2 agree: the payload of a call is a
  script function published at the framework address, and decoding it gives back exactly the call,
  provided the binary format reads what it writes and the addresses have sixteen bytes.\<close>

theorem v52_functions_roundtrip:
  assumes "binary_layouts B" "wf_call c" "encode B c = Inr p"
  shows "decode B p = Some c \<and> (\<exists>s. p = PayloadScriptFunction s \<and> module_address (sf_module s) = LEGACY_CORE_CODE_ADDRESS)"
proof -
  have "\<exists>s. p = PayloadScriptFunction s \<and> module_address (sf_module s) = LEGACY_CORE_CODE_ADDRESS"
    using assms(3) by (cases c) (auto simp: v52_builder_defs core_call_Inr ScriptFunction_new_def ModuleIdV5_new_def)
  with binary_layouts.v52_decode_encode [OF assms(1,3,2)] show ?thesis by blast
qed

lemma v52_example_encoded: "\<exists>p. encode ref_binary (MinerstateCommit [1, 2] [3]) = Inr p"
  by (simp add: encode_minerstate_commit_script_function_def core_call_def lay_to_bytes_def put_bytes_ref)

theorem v52_functions_roundtrip_witness:
  "\<exists>p. encode ref_binary (MinerstateCommit [1, 2] [3]) = Inr p \<and> decode ref_binary p = Some (MinerstateCommit [1, 2] [3])"
proof -
  obtain p where p: "encode ref_binary (MinerstateCommit [1, 2] [3]) = Inr p" using v52_example_encoded by blast
  have "wf_call (MinerstateCommit [1, 2] [3])" by simp
  with v52_functions_roundtrip [OF ref_binary.binary_layouts_axioms _ p] p show ?thesis by blast
qed

end
