(* ===== verification/V5_Scripts.thy ===== *)
theory V5_Scripts
  imports Script_Function
begin

text \<open>
  The scripts of the version five releases (\<^verbatim>\<open>compatibility/src/sdk/v5_2_0_transaction_script_builder.rs\<close>, and
  literally the same in \<^verbatim>\<open>v5_0_0_genesis_transaction_script_builder.rs\<close>): the 33 calls, the compiled code of
  each script, builders, decoders, the table that finds a decoder by the code, and the names.
\<close>

section \<open>Calls and codes\<close>

datatype (plugins only: extraction) ScriptCall =
    AddCurrencyToAccount TypeTagV5
  | AddRecoveryRotationCapability LegacyAddressV5
  | AddValidatorAndReconfigure u64 "u8 list" LegacyAddressV5
  | Burn TypeTagV5 u64 LegacyAddressV5
  | BurnTxnFees TypeTagV5
  | CancelBurn TypeTagV5 LegacyAddressV5
  | CreateChildVaspAccount TypeTagV5 LegacyAddressV5 "u8 list" bool u64
  | CreateDesignatedDealer TypeTagV5 u64 LegacyAddressV5 "u8 list" "u8 list" bool
  | CreateParentVaspAccount TypeTagV5 u64 LegacyAddressV5 "u8 list" "u8 list" bool
  | CreateRecoveryAddress
  | CreateValidatorAccount u64 LegacyAddressV5 "u8 list" "u8 list"
  | CreateValidatorOperatorAccount u64 LegacyAddressV5 "u8 list" "u8 list"
  | FreezeAccount u64 LegacyAddressV5
  | PeerToPeerWithMetadata TypeTagV5 LegacyAddressV5 u64 "u8 list" "u8 list"
  | Preburn TypeTagV5 u64
  | PublishSharedEd25519PublicKey "u8 list"
  | RegisterValidatorConfig LegacyAddressV5 "u8 list" "u8 list" "u8 list"
  | RemoveValidatorAndReconfigure u64 "u8 list" LegacyAddressV5
  | RotateAuthenticationKey "u8 list"
  | RotateAuthenticationKeyWithNonce u64 "u8 list"
  | RotateAuthenticationKeyWithNonceAdmin u64 "u8 list"
  | RotateAuthenticationKeyWithRecoveryAddress LegacyAddressV5 LegacyAddressV5 "u8 list"
  | RotateDualAttestationInfo "u8 list" "u8 list"
  | RotateSharedEd25519PublicKey "u8 list"
  | SetValidatorConfigAndReconfigure LegacyAddressV5 "u8 list" "u8 list" "u8 list"
  | SetValidatorOperator "u8 list" LegacyAddressV5
  | SetValidatorOperatorWithNonceAdmin u64 "u8 list" LegacyAddressV5
  | TieredMint TypeTagV5 u64 LegacyAddressV5 u64 u64
  | UnfreezeAccount u64 LegacyAddressV5
  | UpdateDiemVersion u64 u64
  | UpdateDualAttestationLimit u64 u64
  | UpdateExchangeRate TypeTagV5 u64 u64 u64
  | UpdateMintingAbility TypeTagV5 bool

definition ADD_CURRENCY_TO_ACCOUNT_CODE :: "u8 list" where
  "ADD_CURRENCY_TO_ACCOUNT_CODE = [
    161, 28, 235, 11, 1, 0, 0, 0, 6, 1, 0, 2, 3, 2, 6, 4, 8, 2, 5, 10, 7, 7, 17, 25, 8, 42, 16, 0, 0, 0, 1,
    0, 1, 1, 1, 0, 2, 1, 6, 12, 0, 1, 9, 0, 11, 68, 105, 101, 109, 65, 99, 99, 111, 117, 110, 116, 12, 97,
    100, 100, 95, 99, 117, 114, 114, 101, 110, 99, 121, 0, 0, 0, 0, 0, 0, 0, 0, 0, 0, 0, 0, 0, 0, 0, 1, 1, 1,
    0, 1, 3, 11, 0, 56, 0, 2]"

definition ADD_RECOVERY_ROTATION_CAPABILITY_CODE :: "u8 list" where
  "ADD_RECOVERY_ROTATION_CAPABILITY_CODE = [
    161, 28, 235, 11, 1, 0, 0, 0, 6, 1, 0, 4, 2, 4, 4, 3, 8, 10, 5, 18, 15, 7, 33, 106, 8, 139, 1, 16, 0, 0,
    0, 1, 0, 2, 1, 0, 0, 3, 0, 1, 0, 1, 4, 2, 3, 0, 1, 6, 12, 1, 8, 0, 2, 8, 0, 5, 0, 2, 6, 12, 5, 11, 68,
    105, 101, 109, 65, 99, 99, 111, 117, 110, 116, 15, 82, 101, 99, 111, 118, 101, 114, 121, 65, 100, 100,
    114, 101, 115, 115, 21, 75, 101, 121, 82, 111, 116, 97, 116, 105, 111, 110, 67, 97, 112, 97, 98, 105,
    108, 105, 116, 121, 31, 101, 120, 116, 114, 97, 99, 116, 95, 107, 101, 121, 95, 114, 111, 116, 97, 116,
    105, 111, 110, 95, 99, 97, 112, 97, 98, 105, 108, 105, 116, 121, 23, 97, 100, 100, 95, 114, 111, 116, 97,
    116, 105, 111, 110, 95, 99, 97, 112, 97, 98, 105, 108, 105, 116, 121, 0, 0, 0, 0, 0, 0, 0, 0, 0, 0, 0, 0,
    0, 0, 0, 1, 0, 4, 3, 5, 11, 0, 17, 0, 10, 1, 17, 1, 2]"

definition ADD_VALIDATOR_AND_RECONFIGURE_CODE :: "u8 list" where
  "ADD_VALIDATOR_AND_RECONFIGURE_CODE = [
    161, 28, 235, 11, 1, 0, 0, 0, 5, 1, 0, 6, 3, 6, 15, 5, 21, 24, 7, 45, 91, 8, 136, 1, 16, 0, 0, 0, 1, 0,
    2, 1, 3, 0, 1, 0, 2, 4, 2, 3, 0, 0, 5, 4, 1, 0, 2, 6, 12, 3, 0, 1, 5, 1, 10, 2, 2, 6, 12, 5, 4, 6, 12, 3,
    10, 2, 5, 2, 1, 3, 10, 68, 105, 101, 109, 83, 121, 115, 116, 101, 109, 12, 83, 108, 105, 100, 105, 110,
    103, 78, 111, 110, 99, 101, 15, 86, 97, 108, 105, 100, 97, 116, 111, 114, 67, 111, 110, 102, 105, 103,
    21, 114, 101, 99, 111, 114, 100, 95, 110, 111, 110, 99, 101, 95, 111, 114, 95, 97, 98, 111, 114, 116, 14,
    103, 101, 116, 95, 104, 117, 109, 97, 110, 95, 110, 97, 109, 101, 13, 97, 100, 100, 95, 118, 97, 108,
    105, 100, 97, 116, 111, 114, 0, 0, 0, 0, 0, 0, 0, 0, 0, 0, 0, 0, 0, 0, 0, 1, 0, 5, 6, 18, 10, 0, 10, 1,
    17, 0, 10, 3, 17, 1, 11, 2, 33, 12, 4, 11, 4, 3, 14, 11, 0, 1, 6, 0, 0, 0, 0, 0, 0, 0, 0, 39, 11, 0, 10,
    3, 17, 2, 2]"

definition BURN_CODE :: "u8 list" where
  "BURN_CODE = [
    161, 28, 235, 11, 1, 0, 0, 0, 6, 1, 0, 4, 3, 4, 11, 4, 15, 2, 5, 17, 17, 7, 34, 45, 8, 79, 16, 0, 0, 0,
    1, 1, 2, 0, 1, 0, 0, 3, 2, 1, 1, 1, 1, 4, 2, 6, 12, 3, 0, 2, 6, 12, 5, 3, 6, 12, 3, 5, 1, 9, 0, 4, 68,
    105, 101, 109, 12, 83, 108, 105, 100, 105, 110, 103, 78, 111, 110, 99, 101, 21, 114, 101, 99, 111, 114,
    100, 95, 110, 111, 110, 99, 101, 95, 111, 114, 95, 97, 98, 111, 114, 116, 4, 98, 117, 114, 110, 0, 0, 0,
    0, 0, 0, 0, 0, 0, 0, 0, 0, 0, 0, 0, 1, 1, 1, 3, 1, 7, 10, 0, 10, 1, 17, 0, 11, 0, 10, 2, 56, 0, 2]"

definition BURN_TXN_FEES_CODE :: "u8 list" where
  "BURN_TXN_FEES_CODE = [
    161, 28, 235, 11, 1, 0, 0, 0, 6, 1, 0, 2, 3, 2, 6, 4, 8, 2, 5, 10, 7, 7, 17, 25, 8, 42, 16, 0, 0, 0, 1,
    0, 1, 1, 1, 0, 2, 1, 6, 12, 0, 1, 9, 0, 14, 84, 114, 97, 110, 115, 97, 99, 116, 105, 111, 110, 70, 101,
    101, 9, 98, 117, 114, 110, 95, 102, 101, 101, 115, 0, 0, 0, 0, 0, 0, 0, 0, 0, 0, 0, 0, 0, 0, 0, 1, 1, 1,
    0, 1, 3, 11, 0, 56, 0, 2]"

definition CANCEL_BURN_CODE :: "u8 list" where
  "CANCEL_BURN_CODE = [
    161, 28, 235, 11, 1, 0, 0, 0, 6, 1, 0, 2, 3, 2, 6, 4, 8, 2, 5, 10, 8, 7, 18, 24, 8, 42, 16, 0, 0, 0, 1,
    0, 1, 1, 1, 0, 2, 2, 6, 12, 5, 0, 1, 9, 0, 11, 68, 105, 101, 109, 65, 99, 99, 111, 117, 110, 116, 11, 99,
    97, 110, 99, 101, 108, 95, 98, 117, 114, 110, 0, 0, 0, 0, 0, 0, 0, 0, 0, 0, 0, 0, 0, 0, 0, 1, 1, 1, 0, 1,
    4, 11, 0, 10, 1, 56, 0, 2]"

definition CREATE_CHILD_VASP_ACCOUNT_CODE :: "u8 list" where
  "CREATE_CHILD_VASP_ACCOUNT_CODE = [
    161, 28, 235, 11, 1, 0, 0, 0, 8, 1, 0, 2, 2, 2, 4, 3, 6, 22, 4, 28, 4, 5, 32, 35, 7, 67, 122, 8, 189, 1,
    16, 6, 205, 1, 4, 0, 0, 0, 1, 1, 0, 0, 2, 0, 1, 1, 1, 0, 3, 2, 3, 0, 0, 4, 4, 1, 1, 1, 0, 5, 3, 1, 0, 0,
    6, 2, 6, 4, 6, 12, 5, 10, 2, 1, 0, 1, 6, 12, 1, 8, 0, 5, 6, 8, 0, 5, 3, 10, 2, 10, 2, 5, 6, 12, 5, 10, 2,
    1, 3, 1, 9, 0, 11, 68, 105, 101, 109, 65, 99, 99, 111, 117, 110, 116, 18, 87, 105, 116, 104, 100, 114,
    97, 119, 67, 97, 112, 97, 98, 105, 108, 105, 116, 121, 25, 99, 114, 101, 97, 116, 101, 95, 99, 104, 105,
    108, 100, 95, 118, 97, 115, 112, 95, 97, 99, 99, 111, 117, 110, 116, 27, 101, 120, 116, 114, 97, 99, 116,
    95, 119, 105, 116, 104, 100, 114, 97, 119, 95, 99, 97, 112, 97, 98, 105, 108, 105, 116, 121, 8, 112, 97,
    121, 95, 102, 114, 111, 109, 27, 114, 101, 115, 116, 111, 114, 101, 95, 119, 105, 116, 104, 100, 114, 97,
    119, 95, 99, 97, 112, 97, 98, 105, 108, 105, 116, 121, 0, 0, 0, 0, 0, 0, 0, 0, 0, 0, 0, 0, 0, 0, 0, 1,
    10, 2, 1, 0, 1, 1, 5, 3, 25, 10, 0, 10, 1, 11, 2, 10, 3, 56, 0, 10, 4, 6, 0, 0, 0, 0, 0, 0, 0, 0, 36, 3,
    10, 5, 22, 11, 0, 17, 1, 12, 5, 14, 5, 10, 1, 10, 4, 7, 0, 7, 0, 56, 1, 11, 5, 17, 3, 5, 24, 11, 0, 1, 2]"

definition CREATE_DESIGNATED_DEALER_CODE :: "u8 list" where
  "CREATE_DESIGNATED_DEALER_CODE = [
    161, 28, 235, 11, 1, 0, 0, 0, 6, 1, 0, 4, 3, 4, 11, 4, 15, 2, 5, 17, 27, 7, 44, 72, 8, 116, 16, 0, 0, 0,
    1, 1, 2, 0, 1, 0, 0, 3, 2, 1, 1, 1, 1, 4, 2, 6, 12, 3, 0, 5, 6, 12, 5, 10, 2, 10, 2, 1, 6, 6, 12, 3, 5,
    10, 2, 10, 2, 1, 1, 9, 0, 11, 68, 105, 101, 109, 65, 99, 99, 111, 117, 110, 116, 12, 83, 108, 105, 100,
    105, 110, 103, 78, 111, 110, 99, 101, 21, 114, 101, 99, 111, 114, 100, 95, 110, 111, 110, 99, 101, 95,
    111, 114, 95, 97, 98, 111, 114, 116, 24, 99, 114, 101, 97, 116, 101, 95, 100, 101, 115, 105, 103, 110,
    97, 116, 101, 100, 95, 100, 101, 97, 108, 101, 114, 0, 0, 0, 0, 0, 0, 0, 0, 0, 0, 0, 0, 0, 0, 0, 1, 1, 1,
    3, 1, 10, 10, 0, 10, 1, 17, 0, 11, 0, 10, 2, 11, 3, 11, 4, 10, 5, 56, 0, 2]"

definition CREATE_PARENT_VASP_ACCOUNT_CODE :: "u8 list" where
  "CREATE_PARENT_VASP_ACCOUNT_CODE = [
    161, 28, 235, 11, 1, 0, 0, 0, 6, 1, 0, 4, 3, 4, 11, 4, 15, 2, 5, 17, 27, 7, 44, 74, 8, 118, 16, 0, 0, 0,
    1, 1, 2, 0, 1, 0, 0, 3, 2, 1, 1, 1, 1, 4, 2, 6, 12, 3, 0, 5, 6, 12, 5, 10, 2, 10, 2, 1, 6, 6, 12, 3, 5,
    10, 2, 10, 2, 1, 1, 9, 0, 11, 68, 105, 101, 109, 65, 99, 99, 111, 117, 110, 116, 12, 83, 108, 105, 100,
    105, 110, 103, 78, 111, 110, 99, 101, 21, 114, 101, 99, 111, 114, 100, 95, 110, 111, 110, 99, 101, 95,
    111, 114, 95, 97, 98, 111, 114, 116, 26, 99, 114, 101, 97, 116, 101, 95, 112, 97, 114, 101, 110, 116, 95,
    118, 97, 115, 112, 95, 97, 99, 99, 111, 117, 110, 116, 0, 0, 0, 0, 0, 0, 0, 0, 0, 0, 0, 0, 0, 0, 0, 1, 1,
    1, 3, 1, 10, 10, 0, 10, 1, 17, 0, 11, 0, 10, 2, 11, 3, 11, 4, 10, 5, 56, 0, 2]"

definition CREATE_RECOVERY_ADDRESS_CODE :: "u8 list" where
  "CREATE_RECOVERY_ADDRESS_CODE = [
    161, 28, 235, 11, 1, 0, 0, 0, 6, 1, 0, 4, 2, 4, 4, 3, 8, 10, 5, 18, 12, 7, 30, 90, 8, 120, 16, 0, 0, 0,
    1, 0, 2, 1, 0, 0, 3, 0, 1, 0, 1, 4, 2, 3, 0, 1, 6, 12, 1, 8, 0, 2, 6, 12, 8, 0, 0, 11, 68, 105, 101, 109,
    65, 99, 99, 111, 117, 110, 116, 15, 82, 101, 99, 111, 118, 101, 114, 121, 65, 100, 100, 114, 101, 115,
    115, 21, 75, 101, 121, 82, 111, 116, 97, 116, 105, 111, 110, 67, 97, 112, 97, 98, 105, 108, 105, 116,
    121, 31, 101, 120, 116, 114, 97, 99, 116, 95, 107, 101, 121, 95, 114, 111, 116, 97, 116, 105, 111, 110,
    95, 99, 97, 112, 97, 98, 105, 108, 105, 116, 121, 7, 112, 117, 98, 108, 105, 115, 104, 0, 0, 0, 0, 0, 0,
    0, 0, 0, 0, 0, 0, 0, 0, 0, 1, 0, 0, 3, 5, 10, 0, 11, 0, 17, 0, 17, 1, 2]"

definition CREATE_VALIDATOR_ACCOUNT_CODE :: "u8 list" where
  "CREATE_VALIDATOR_ACCOUNT_CODE = [
    161, 28, 235, 11, 1, 0, 0, 0, 5, 1, 0, 4, 3, 4, 10, 5, 14, 22, 7, 36, 72, 8, 108, 16, 0, 0, 0, 1, 1, 2,
    0, 1, 0, 0, 3, 2, 1, 0, 2, 6, 12, 3, 0, 4, 6, 12, 5, 10, 2, 10, 2, 5, 6, 12, 3, 5, 10, 2, 10, 2, 11, 68,
    105, 101, 109, 65, 99, 99, 111, 117, 110, 116, 12, 83, 108, 105, 100, 105, 110, 103, 78, 111, 110, 99,
    101, 21, 114, 101, 99, 111, 114, 100, 95, 110, 111, 110, 99, 101, 95, 111, 114, 95, 97, 98, 111, 114,
    116, 24, 99, 114, 101, 97, 116, 101, 95, 118, 97, 108, 105, 100, 97, 116, 111, 114, 95, 97, 99, 99, 111,
    117, 110, 116, 0, 0, 0, 0, 0, 0, 0, 0, 0, 0, 0, 0, 0, 0, 0, 1, 0, 3, 1, 9, 10, 0, 10, 1, 17, 0, 11, 0,
    10, 2, 11, 3, 11, 4, 17, 1, 2]"

definition CREATE_VALIDATOR_OPERATOR_ACCOUNT_CODE :: "u8 list" where
  "CREATE_VALIDATOR_OPERATOR_ACCOUNT_CODE = [
    161, 28, 235, 11, 1, 0, 0, 0, 5, 1, 0, 4, 3, 4, 10, 5, 14, 22, 7, 36, 81, 8, 117, 16, 0, 0, 0, 1, 1, 2,
    0, 1, 0, 0, 3, 2, 1, 0, 2, 6, 12, 3, 0, 4, 6, 12, 5, 10, 2, 10, 2, 5, 6, 12, 3, 5, 10, 2, 10, 2, 11, 68,
    105, 101, 109, 65, 99, 99, 111, 117, 110, 116, 12, 83, 108, 105, 100, 105, 110, 103, 78, 111, 110, 99,
    101, 21, 114, 101, 99, 111, 114, 100, 95, 110, 111, 110, 99, 101, 95, 111, 114, 95, 97, 98, 111, 114,
    116, 33, 99, 114, 101, 97, 116, 101, 95, 118, 97, 108, 105, 100, 97, 116, 111, 114, 95, 111, 112, 101,
    114, 97, 116, 111, 114, 95, 97, 99, 99, 111, 117, 110, 116, 0, 0, 0, 0, 0, 0, 0, 0, 0, 0, 0, 0, 0, 0, 0,
    1, 0, 3, 1, 9, 10, 0, 10, 1, 17, 0, 11, 0, 10, 2, 11, 3, 11, 4, 17, 1, 2]"

definition FREEZE_ACCOUNT_CODE :: "u8 list" where
  "FREEZE_ACCOUNT_CODE = [
    161, 28, 235, 11, 1, 0, 0, 0, 5, 1, 0, 4, 3, 4, 10, 5, 14, 14, 7, 28, 66, 8, 94, 16, 0, 0, 0, 1, 0, 2, 0,
    1, 0, 1, 3, 2, 1, 0, 2, 6, 12, 5, 0, 2, 6, 12, 3, 3, 6, 12, 3, 5, 15, 65, 99, 99, 111, 117, 110, 116, 70,
    114, 101, 101, 122, 105, 110, 103, 12, 83, 108, 105, 100, 105, 110, 103, 78, 111, 110, 99, 101, 14, 102,
    114, 101, 101, 122, 101, 95, 97, 99, 99, 111, 117, 110, 116, 21, 114, 101, 99, 111, 114, 100, 95, 110,
    111, 110, 99, 101, 95, 111, 114, 95, 97, 98, 111, 114, 116, 0, 0, 0, 0, 0, 0, 0, 0, 0, 0, 0, 0, 0, 0, 0,
    1, 0, 3, 1, 7, 10, 0, 10, 1, 17, 1, 11, 0, 10, 2, 17, 0, 2]"

definition PEER_TO_PEER_WITH_METADATA_CODE :: "u8 list" where
  "PEER_TO_PEER_WITH_METADATA_CODE = [
    161, 28, 235, 11, 1, 0, 0, 0, 7, 1, 0, 2, 2, 2, 4, 3, 6, 16, 4, 22, 2, 5, 24, 29, 7, 53, 96, 8, 149, 1,
    16, 0, 0, 0, 1, 1, 0, 0, 2, 0, 1, 0, 0, 3, 2, 3, 1, 1, 0, 4, 1, 3, 0, 1, 5, 1, 6, 12, 1, 8, 0, 5, 6, 8,
    0, 5, 3, 10, 2, 10, 2, 0, 5, 6, 12, 5, 3, 10, 2, 10, 2, 1, 9, 0, 11, 68, 105, 101, 109, 65, 99, 99, 111,
    117, 110, 116, 18, 87, 105, 116, 104, 100, 114, 97, 119, 67, 97, 112, 97, 98, 105, 108, 105, 116, 121,
    27, 101, 120, 116, 114, 97, 99, 116, 95, 119, 105, 116, 104, 100, 114, 97, 119, 95, 99, 97, 112, 97, 98,
    105, 108, 105, 116, 121, 8, 112, 97, 121, 95, 102, 114, 111, 109, 27, 114, 101, 115, 116, 111, 114, 101,
    95, 119, 105, 116, 104, 100, 114, 97, 119, 95, 99, 97, 112, 97, 98, 105, 108, 105, 116, 121, 0, 0, 0, 0,
    0, 0, 0, 0, 0, 0, 0, 0, 0, 0, 0, 1, 1, 1, 4, 1, 12, 11, 0, 17, 0, 12, 5, 14, 5, 10, 1, 10, 2, 11, 3, 11,
    4, 56, 0, 11, 5, 17, 2, 2]"

definition PREBURN_CODE :: "u8 list" where
  "PREBURN_CODE = [
    161, 28, 235, 11, 1, 0, 0, 0, 7, 1, 0, 2, 2, 2, 4, 3, 6, 16, 4, 22, 2, 5, 24, 21, 7, 45, 95, 8, 140, 1,
    16, 0, 0, 0, 1, 1, 0, 0, 2, 0, 1, 0, 0, 3, 2, 3, 1, 1, 0, 4, 1, 3, 0, 1, 5, 1, 6, 12, 1, 8, 0, 3, 6, 12,
    6, 8, 0, 3, 0, 2, 6, 12, 3, 1, 9, 0, 11, 68, 105, 101, 109, 65, 99, 99, 111, 117, 110, 116, 18, 87, 105,
    116, 104, 100, 114, 97, 119, 67, 97, 112, 97, 98, 105, 108, 105, 116, 121, 27, 101, 120, 116, 114, 97,
    99, 116, 95, 119, 105, 116, 104, 100, 114, 97, 119, 95, 99, 97, 112, 97, 98, 105, 108, 105, 116, 121, 7,
    112, 114, 101, 98, 117, 114, 110, 27, 114, 101, 115, 116, 111, 114, 101, 95, 119, 105, 116, 104, 100,
    114, 97, 119, 95, 99, 97, 112, 97, 98, 105, 108, 105, 116, 121, 0, 0, 0, 0, 0, 0, 0, 0, 0, 0, 0, 0, 0, 0,
    0, 1, 1, 1, 4, 1, 10, 10, 0, 17, 0, 12, 2, 11, 0, 14, 2, 10, 1, 56, 0, 11, 2, 17, 2, 2]"

definition PUBLISH_SHARED_ED25519_PUBLIC_KEY_CODE :: "u8 list" where
  "PUBLISH_SHARED_ED25519_PUBLIC_KEY_CODE = [
    161, 28, 235, 11, 1, 0, 0, 0, 5, 1, 0, 2, 3, 2, 5, 5, 7, 6, 7, 13, 31, 8, 44, 16, 0, 0, 0, 1, 0, 1, 0, 2,
    6, 12, 10, 2, 0, 22, 83, 104, 97, 114, 101, 100, 69, 100, 50, 53, 53, 49, 57, 80, 117, 98, 108, 105, 99,
    75, 101, 121, 7, 112, 117, 98, 108, 105, 115, 104, 0, 0, 0, 0, 0, 0, 0, 0, 0, 0, 0, 0, 0, 0, 0, 1, 0, 0,
    1, 4, 11, 0, 11, 1, 17, 0, 2]"

definition REGISTER_VALIDATOR_CONFIG_CODE :: "u8 list" where
  "REGISTER_VALIDATOR_CONFIG_CODE = [
    161, 28, 235, 11, 1, 0, 0, 0, 5, 1, 0, 2, 3, 2, 5, 5, 7, 11, 7, 18, 27, 8, 45, 16, 0, 0, 0, 1, 0, 1, 0,
    5, 6, 12, 5, 10, 2, 10, 2, 10, 2, 0, 15, 86, 97, 108, 105, 100, 97, 116, 111, 114, 67, 111, 110, 102,
    105, 103, 10, 115, 101, 116, 95, 99, 111, 110, 102, 105, 103, 0, 0, 0, 0, 0, 0, 0, 0, 0, 0, 0, 0, 0, 0,
    0, 1, 0, 0, 1, 7, 11, 0, 10, 1, 11, 2, 11, 3, 11, 4, 17, 0, 2]"

definition REMOVE_VALIDATOR_AND_RECONFIGURE_CODE :: "u8 list" where
  "REMOVE_VALIDATOR_AND_RECONFIGURE_CODE = [
    161, 28, 235, 11, 1, 0, 0, 0, 5, 1, 0, 6, 3, 6, 15, 5, 21, 24, 7, 45, 94, 8, 139, 1, 16, 0, 0, 0, 1, 0,
    2, 1, 3, 0, 1, 0, 2, 4, 2, 3, 0, 0, 5, 4, 1, 0, 2, 6, 12, 3, 0, 1, 5, 1, 10, 2, 2, 6, 12, 5, 4, 6, 12, 3,
    10, 2, 5, 2, 1, 3, 10, 68, 105, 101, 109, 83, 121, 115, 116, 101, 109, 12, 83, 108, 105, 100, 105, 110,
    103, 78, 111, 110, 99, 101, 15, 86, 97, 108, 105, 100, 97, 116, 111, 114, 67, 111, 110, 102, 105, 103,
    21, 114, 101, 99, 111, 114, 100, 95, 110, 111, 110, 99, 101, 95, 111, 114, 95, 97, 98, 111, 114, 116, 14,
    103, 101, 116, 95, 104, 117, 109, 97, 110, 95, 110, 97, 109, 101, 16, 114, 101, 109, 111, 118, 101, 95,
    118, 97, 108, 105, 100, 97, 116, 111, 114, 0, 0, 0, 0, 0, 0, 0, 0, 0, 0, 0, 0, 0, 0, 0, 1, 0, 5, 6, 18,
    10, 0, 10, 1, 17, 0, 10, 3, 17, 1, 11, 2, 33, 12, 4, 11, 4, 3, 14, 11, 0, 1, 6, 0, 0, 0, 0, 0, 0, 0, 0,
    39, 11, 0, 10, 3, 17, 2, 2]"

definition ROTATE_AUTHENTICATION_KEY_CODE :: "u8 list" where
  "ROTATE_AUTHENTICATION_KEY_CODE = [
    161, 28, 235, 11, 1, 0, 0, 0, 6, 1, 0, 2, 2, 2, 4, 3, 6, 15, 5, 21, 18, 7, 39, 124, 8, 163, 1, 16, 0, 0,
    0, 1, 1, 0, 0, 2, 0, 1, 0, 0, 3, 1, 2, 0, 0, 4, 3, 2, 0, 1, 6, 12, 1, 8, 0, 0, 2, 6, 8, 0, 10, 2, 2, 6,
    12, 10, 2, 11, 68, 105, 101, 109, 65, 99, 99, 111, 117, 110, 116, 21, 75, 101, 121, 82, 111, 116, 97,
    116, 105, 111, 110, 67, 97, 112, 97, 98, 105, 108, 105, 116, 121, 31, 101, 120, 116, 114, 97, 99, 116,
    95, 107, 101, 121, 95, 114, 111, 116, 97, 116, 105, 111, 110, 95, 99, 97, 112, 97, 98, 105, 108, 105,
    116, 121, 31, 114, 101, 115, 116, 111, 114, 101, 95, 107, 101, 121, 95, 114, 111, 116, 97, 116, 105, 111,
    110, 95, 99, 97, 112, 97, 98, 105, 108, 105, 116, 121, 25, 114, 111, 116, 97, 116, 101, 95, 97, 117, 116,
    104, 101, 110, 116, 105, 99, 97, 116, 105, 111, 110, 95, 107, 101, 121, 0, 0, 0, 0, 0, 0, 0, 0, 0, 0, 0,
    0, 0, 0, 0, 1, 0, 4, 1, 9, 11, 0, 17, 0, 12, 2, 14, 2, 11, 1, 17, 2, 11, 2, 17, 1, 2]"

definition ROTATE_AUTHENTICATION_KEY_WITH_NONCE_CODE :: "u8 list" where
  "ROTATE_AUTHENTICATION_KEY_WITH_NONCE_CODE = [
    161, 28, 235, 11, 1, 0, 0, 0, 6, 1, 0, 4, 2, 4, 4, 3, 8, 20, 5, 28, 23, 7, 51, 159, 1, 8, 210, 1, 16, 0,
    0, 0, 1, 0, 3, 1, 0, 1, 2, 0, 1, 0, 0, 4, 2, 3, 0, 0, 5, 3, 1, 0, 0, 6, 4, 1, 0, 2, 6, 12, 3, 0, 1, 6,
    12, 1, 8, 0, 2, 6, 8, 0, 10, 2, 3, 6, 12, 3, 10, 2, 11, 68, 105, 101, 109, 65, 99, 99, 111, 117, 110,
    116, 12, 83, 108, 105, 100, 105, 110, 103, 78, 111, 110, 99, 101, 21, 114, 101, 99, 111, 114, 100, 95,
    110, 111, 110, 99, 101, 95, 111, 114, 95, 97, 98, 111, 114, 116, 21, 75, 101, 121, 82, 111, 116, 97, 116,
    105, 111, 110, 67, 97, 112, 97, 98, 105, 108, 105, 116, 121, 31, 101, 120, 116, 114, 97, 99, 116, 95,
    107, 101, 121, 95, 114, 111, 116, 97, 116, 105, 111, 110, 95, 99, 97, 112, 97, 98, 105, 108, 105, 116,
    121, 31, 114, 101, 115, 116, 111, 114, 101, 95, 107, 101, 121, 95, 114, 111, 116, 97, 116, 105, 111, 110,
    95, 99, 97, 112, 97, 98, 105, 108, 105, 116, 121, 25, 114, 111, 116, 97, 116, 101, 95, 97, 117, 116, 104,
    101, 110, 116, 105, 99, 97, 116, 105, 111, 110, 95, 107, 101, 121, 0, 0, 0, 0, 0, 0, 0, 0, 0, 0, 0, 0, 0,
    0, 0, 1, 0, 5, 3, 12, 10, 0, 10, 1, 17, 0, 11, 0, 17, 1, 12, 3, 14, 3, 11, 2, 17, 3, 11, 3, 17, 2, 2]"

definition ROTATE_AUTHENTICATION_KEY_WITH_NONCE_ADMIN_CODE :: "u8 list" where
  "ROTATE_AUTHENTICATION_KEY_WITH_NONCE_ADMIN_CODE = [
    161, 28, 235, 11, 1, 0, 0, 0, 6, 1, 0, 4, 2, 4, 4, 3, 8, 20, 5, 28, 25, 7, 53, 159, 1, 8, 212, 1, 16, 0,
    0, 0, 1, 0, 3, 1, 0, 1, 2, 0, 1, 0, 0, 4, 2, 3, 0, 0, 5, 3, 1, 0, 0, 6, 4, 1, 0, 2, 6, 12, 3, 0, 1, 6,
    12, 1, 8, 0, 2, 6, 8, 0, 10, 2, 4, 6, 12, 6, 12, 3, 10, 2, 11, 68, 105, 101, 109, 65, 99, 99, 111, 117,
    110, 116, 12, 83, 108, 105, 100, 105, 110, 103, 78, 111, 110, 99, 101, 21, 114, 101, 99, 111, 114, 100,
    95, 110, 111, 110, 99, 101, 95, 111, 114, 95, 97, 98, 111, 114, 116, 21, 75, 101, 121, 82, 111, 116, 97,
    116, 105, 111, 110, 67, 97, 112, 97, 98, 105, 108, 105, 116, 121, 31, 101, 120, 116, 114, 97, 99, 116,
    95, 107, 101, 121, 95, 114, 111, 116, 97, 116, 105, 111, 110, 95, 99, 97, 112, 97, 98, 105, 108, 105,
    116, 121, 31, 114, 101, 115, 116, 111, 114, 101, 95, 107, 101, 121, 95, 114, 111, 116, 97, 116, 105, 111,
    110, 95, 99, 97, 112, 97, 98, 105, 108, 105, 116, 121, 25, 114, 111, 116, 97, 116, 101, 95, 97, 117, 116,
    104, 101, 110, 116, 105, 99, 97, 116, 105, 111, 110, 95, 107, 101, 121, 0, 0, 0, 0, 0, 0, 0, 0, 0, 0, 0,
    0, 0, 0, 0, 1, 0, 5, 3, 12, 11, 0, 10, 2, 17, 0, 11, 1, 17, 1, 12, 4, 14, 4, 11, 3, 17, 3, 11, 4, 17, 2,
    2]"

definition ROTATE_AUTHENTICATION_KEY_WITH_RECOVERY_ADDRESS_CODE :: "u8 list" where
  "ROTATE_AUTHENTICATION_KEY_WITH_RECOVERY_ADDRESS_CODE = [
    161, 28, 235, 11, 1, 0, 0, 0, 5, 1, 0, 2, 3, 2, 5, 5, 7, 8, 7, 15, 42, 8, 57, 16, 0, 0, 0, 1, 0, 1, 0, 4,
    6, 12, 5, 5, 10, 2, 0, 15, 82, 101, 99, 111, 118, 101, 114, 121, 65, 100, 100, 114, 101, 115, 115, 25,
    114, 111, 116, 97, 116, 101, 95, 97, 117, 116, 104, 101, 110, 116, 105, 99, 97, 116, 105, 111, 110, 95,
    107, 101, 121, 0, 0, 0, 0, 0, 0, 0, 0, 0, 0, 0, 0, 0, 0, 0, 1, 0, 0, 1, 6, 11, 0, 10, 1, 10, 2, 11, 3,
    17, 0, 2]"

definition ROTATE_DUAL_ATTESTATION_INFO_CODE :: "u8 list" where
  "ROTATE_DUAL_ATTESTATION_INFO_CODE = [
    161, 28, 235, 11, 1, 0, 0, 0, 5, 1, 0, 2, 3, 2, 10, 5, 12, 13, 7, 25, 61, 8, 86, 16, 0, 0, 0, 1, 0, 1, 0,
    0, 2, 0, 1, 0, 2, 6, 12, 10, 2, 0, 3, 6, 12, 10, 2, 10, 2, 15, 68, 117, 97, 108, 65, 116, 116, 101, 115,
    116, 97, 116, 105, 111, 110, 15, 114, 111, 116, 97, 116, 101, 95, 98, 97, 115, 101, 95, 117, 114, 108,
    28, 114, 111, 116, 97, 116, 101, 95, 99, 111, 109, 112, 108, 105, 97, 110, 99, 101, 95, 112, 117, 98,
    108, 105, 99, 95, 107, 101, 121, 0, 0, 0, 0, 0, 0, 0, 0, 0, 0, 0, 0, 0, 0, 0, 1, 0, 2, 1, 7, 10, 0, 11,
    1, 17, 0, 11, 0, 11, 2, 17, 1, 2]"

definition ROTATE_SHARED_ED25519_PUBLIC_KEY_CODE :: "u8 list" where
  "ROTATE_SHARED_ED25519_PUBLIC_KEY_CODE = [
    161, 28, 235, 11, 1, 0, 0, 0, 5, 1, 0, 2, 3, 2, 5, 5, 7, 6, 7, 13, 34, 8, 47, 16, 0, 0, 0, 1, 0, 1, 0, 2,
    6, 12, 10, 2, 0, 22, 83, 104, 97, 114, 101, 100, 69, 100, 50, 53, 53, 49, 57, 80, 117, 98, 108, 105, 99,
    75, 101, 121, 10, 114, 111, 116, 97, 116, 101, 95, 107, 101, 121, 0, 0, 0, 0, 0, 0, 0, 0, 0, 0, 0, 0, 0,
    0, 0, 1, 0, 0, 1, 4, 11, 0, 11, 1, 17, 0, 2]"

definition SET_VALIDATOR_CONFIG_AND_RECONFIGURE_CODE :: "u8 list" where
  "SET_VALIDATOR_CONFIG_AND_RECONFIGURE_CODE = [
    161, 28, 235, 11, 1, 0, 0, 0, 5, 1, 0, 4, 3, 4, 10, 5, 14, 15, 7, 29, 68, 8, 97, 16, 0, 0, 0, 1, 1, 2, 0,
    1, 0, 0, 3, 2, 1, 0, 5, 6, 12, 5, 10, 2, 10, 2, 10, 2, 0, 2, 6, 12, 5, 10, 68, 105, 101, 109, 83, 121,
    115, 116, 101, 109, 15, 86, 97, 108, 105, 100, 97, 116, 111, 114, 67, 111, 110, 102, 105, 103, 10, 115,
    101, 116, 95, 99, 111, 110, 102, 105, 103, 29, 117, 112, 100, 97, 116, 101, 95, 99, 111, 110, 102, 105,
    103, 95, 97, 110, 100, 95, 114, 101, 99, 111, 110, 102, 105, 103, 117, 114, 101, 0, 0, 0, 0, 0, 0, 0, 0,
    0, 0, 0, 0, 0, 0, 0, 1, 0, 0, 1, 10, 10, 0, 10, 1, 11, 2, 11, 3, 11, 4, 17, 0, 11, 0, 10, 1, 17, 1, 2]"

definition SET_VALIDATOR_OPERATOR_CODE :: "u8 list" where
  "SET_VALIDATOR_OPERATOR_CODE = [
    161, 28, 235, 11, 1, 0, 0, 0, 5, 1, 0, 4, 3, 4, 10, 5, 14, 19, 7, 33, 68, 8, 101, 16, 0, 0, 0, 1, 1, 2,
    0, 1, 0, 0, 3, 2, 3, 0, 1, 5, 1, 10, 2, 2, 6, 12, 5, 0, 3, 6, 12, 10, 2, 5, 2, 1, 3, 15, 86, 97, 108,
    105, 100, 97, 116, 111, 114, 67, 111, 110, 102, 105, 103, 23, 86, 97, 108, 105, 100, 97, 116, 111, 114,
    79, 112, 101, 114, 97, 116, 111, 114, 67, 111, 110, 102, 105, 103, 14, 103, 101, 116, 95, 104, 117, 109,
    97, 110, 95, 110, 97, 109, 101, 12, 115, 101, 116, 95, 111, 112, 101, 114, 97, 116, 111, 114, 0, 0, 0, 0,
    0, 0, 0, 0, 0, 0, 0, 0, 0, 0, 0, 1, 0, 4, 5, 15, 10, 2, 17, 0, 11, 1, 33, 12, 3, 11, 3, 3, 11, 11, 0, 1,
    6, 0, 0, 0, 0, 0, 0, 0, 0, 39, 11, 0, 10, 2, 17, 1, 2]"

definition SET_VALIDATOR_OPERATOR_WITH_NONCE_ADMIN_CODE :: "u8 list" where
  "SET_VALIDATOR_OPERATOR_WITH_NONCE_ADMIN_CODE = [
    161, 28, 235, 11, 1, 0, 0, 0, 5, 1, 0, 6, 3, 6, 15, 5, 21, 26, 7, 47, 103, 8, 150, 1, 16, 0, 0, 0, 1, 0,
    2, 0, 3, 0, 1, 0, 2, 4, 2, 3, 0, 1, 5, 4, 1, 0, 2, 6, 12, 3, 0, 1, 5, 1, 10, 2, 2, 6, 12, 5, 5, 6, 12, 6,
    12, 3, 10, 2, 5, 2, 1, 3, 12, 83, 108, 105, 100, 105, 110, 103, 78, 111, 110, 99, 101, 15, 86, 97, 108,
    105, 100, 97, 116, 111, 114, 67, 111, 110, 102, 105, 103, 23, 86, 97, 108, 105, 100, 97, 116, 111, 114,
    79, 112, 101, 114, 97, 116, 111, 114, 67, 111, 110, 102, 105, 103, 21, 114, 101, 99, 111, 114, 100, 95,
    110, 111, 110, 99, 101, 95, 111, 114, 95, 97, 98, 111, 114, 116, 14, 103, 101, 116, 95, 104, 117, 109,
    97, 110, 95, 110, 97, 109, 101, 12, 115, 101, 116, 95, 111, 112, 101, 114, 97, 116, 111, 114, 0, 0, 0, 0,
    0, 0, 0, 0, 0, 0, 0, 0, 0, 0, 0, 1, 0, 5, 6, 18, 11, 0, 10, 2, 17, 0, 10, 4, 17, 1, 11, 3, 33, 12, 5, 11,
    5, 3, 14, 11, 1, 1, 6, 0, 0, 0, 0, 0, 0, 0, 0, 39, 11, 1, 10, 4, 17, 2, 2]"

definition TIERED_MINT_CODE :: "u8 list" where
  "TIERED_MINT_CODE = [
    161, 28, 235, 11, 1, 0, 0, 0, 6, 1, 0, 4, 3, 4, 11, 4, 15, 2, 5, 17, 21, 7, 38, 59, 8, 97, 16, 0, 0, 0,
    1, 1, 2, 0, 1, 0, 0, 3, 2, 1, 1, 1, 1, 4, 2, 6, 12, 3, 0, 4, 6, 12, 5, 3, 3, 5, 6, 12, 3, 5, 3, 3, 1, 9,
    0, 11, 68, 105, 101, 109, 65, 99, 99, 111, 117, 110, 116, 12, 83, 108, 105, 100, 105, 110, 103, 78, 111,
    110, 99, 101, 21, 114, 101, 99, 111, 114, 100, 95, 110, 111, 110, 99, 101, 95, 111, 114, 95, 97, 98, 111,
    114, 116, 11, 116, 105, 101, 114, 101, 100, 95, 109, 105, 110, 116, 0, 0, 0, 0, 0, 0, 0, 0, 0, 0, 0, 0,
    0, 0, 0, 1, 1, 1, 3, 1, 9, 10, 0, 10, 1, 17, 0, 11, 0, 10, 2, 10, 3, 10, 4, 56, 0, 2]"

definition UNFREEZE_ACCOUNT_CODE :: "u8 list" where
  "UNFREEZE_ACCOUNT_CODE = [
    161, 28, 235, 11, 1, 0, 0, 0, 5, 1, 0, 4, 3, 4, 10, 5, 14, 14, 7, 28, 68, 8, 96, 16, 0, 0, 0, 1, 0, 2, 0,
    1, 0, 1, 3, 2, 1, 0, 2, 6, 12, 5, 0, 2, 6, 12, 3, 3, 6, 12, 3, 5, 15, 65, 99, 99, 111, 117, 110, 116, 70,
    114, 101, 101, 122, 105, 110, 103, 12, 83, 108, 105, 100, 105, 110, 103, 78, 111, 110, 99, 101, 16, 117,
    110, 102, 114, 101, 101, 122, 101, 95, 97, 99, 99, 111, 117, 110, 116, 21, 114, 101, 99, 111, 114, 100,
    95, 110, 111, 110, 99, 101, 95, 111, 114, 95, 97, 98, 111, 114, 116, 0, 0, 0, 0, 0, 0, 0, 0, 0, 0, 0, 0,
    0, 0, 0, 1, 0, 3, 1, 7, 10, 0, 10, 1, 17, 1, 11, 0, 10, 2, 17, 0, 2]"

definition UPDATE_DIEM_VERSION_CODE :: "u8 list" where
  "UPDATE_DIEM_VERSION_CODE = [
    161, 28, 235, 11, 1, 0, 0, 0, 5, 1, 0, 4, 3, 4, 10, 5, 14, 10, 7, 24, 51, 8, 75, 16, 0, 0, 0, 1, 0, 2, 0,
    1, 0, 1, 3, 0, 1, 0, 2, 6, 12, 3, 0, 3, 6, 12, 3, 3, 11, 68, 105, 101, 109, 86, 101, 114, 115, 105, 111,
    110, 12, 83, 108, 105, 100, 105, 110, 103, 78, 111, 110, 99, 101, 3, 115, 101, 116, 21, 114, 101, 99,
    111, 114, 100, 95, 110, 111, 110, 99, 101, 95, 111, 114, 95, 97, 98, 111, 114, 116, 0, 0, 0, 0, 0, 0, 0,
    0, 0, 0, 0, 0, 0, 0, 0, 1, 0, 2, 1, 7, 10, 0, 10, 1, 17, 1, 11, 0, 10, 2, 17, 0, 2]"

definition UPDATE_DUAL_ATTESTATION_LIMIT_CODE :: "u8 list" where
  "UPDATE_DUAL_ATTESTATION_LIMIT_CODE = [
    161, 28, 235, 11, 1, 0, 0, 0, 5, 1, 0, 4, 3, 4, 10, 5, 14, 10, 7, 24, 71, 8, 95, 16, 0, 0, 0, 1, 0, 2, 0,
    1, 0, 1, 3, 0, 1, 0, 2, 6, 12, 3, 0, 3, 6, 12, 3, 3, 15, 68, 117, 97, 108, 65, 116, 116, 101, 115, 116,
    97, 116, 105, 111, 110, 12, 83, 108, 105, 100, 105, 110, 103, 78, 111, 110, 99, 101, 19, 115, 101, 116,
    95, 109, 105, 99, 114, 111, 100, 105, 101, 109, 95, 108, 105, 109, 105, 116, 21, 114, 101, 99, 111, 114,
    100, 95, 110, 111, 110, 99, 101, 95, 111, 114, 95, 97, 98, 111, 114, 116, 0, 0, 0, 0, 0, 0, 0, 0, 0, 0,
    0, 0, 0, 0, 0, 1, 0, 2, 1, 7, 10, 0, 10, 1, 17, 1, 11, 0, 10, 2, 17, 0, 2]"

definition UPDATE_EXCHANGE_RATE_CODE :: "u8 list" where
  "UPDATE_EXCHANGE_RATE_CODE = [
    161, 28, 235, 11, 1, 0, 0, 0, 7, 1, 0, 6, 2, 6, 4, 3, 10, 16, 4, 26, 2, 5, 28, 25, 7, 53, 99, 8, 152, 1,
    16, 0, 0, 0, 1, 0, 2, 1, 1, 2, 0, 1, 3, 0, 1, 0, 2, 4, 2, 3, 0, 0, 5, 4, 3, 1, 1, 2, 6, 2, 3, 3, 1, 8, 0,
    2, 6, 12, 3, 0, 2, 6, 12, 8, 0, 4, 6, 12, 3, 3, 3, 1, 9, 0, 4, 68, 105, 101, 109, 12, 70, 105, 120, 101,
    100, 80, 111, 105, 110, 116, 51, 50, 12, 83, 108, 105, 100, 105, 110, 103, 78, 111, 110, 99, 101, 20, 99,
    114, 101, 97, 116, 101, 95, 102, 114, 111, 109, 95, 114, 97, 116, 105, 111, 110, 97, 108, 21, 114, 101,
    99, 111, 114, 100, 95, 110, 111, 110, 99, 101, 95, 111, 114, 95, 97, 98, 111, 114, 116, 24, 117, 112,
    100, 97, 116, 101, 95, 120, 100, 120, 95, 101, 120, 99, 104, 97, 110, 103, 101, 95, 114, 97, 116, 101, 0,
    0, 0, 0, 0, 0, 0, 0, 0, 0, 0, 0, 0, 0, 0, 1, 1, 1, 5, 1, 11, 10, 0, 10, 1, 17, 1, 10, 2, 10, 3, 17, 0,
    12, 4, 11, 0, 11, 4, 56, 0, 2]"

definition UPDATE_MINTING_ABILITY_CODE :: "u8 list" where
  "UPDATE_MINTING_ABILITY_CODE = [
    161, 28, 235, 11, 1, 0, 0, 0, 6, 1, 0, 2, 3, 2, 6, 4, 8, 2, 5, 10, 8, 7, 18, 28, 8, 46, 16, 0, 0, 0, 1,
    0, 1, 1, 1, 0, 2, 2, 6, 12, 1, 0, 1, 9, 0, 4, 68, 105, 101, 109, 22, 117, 112, 100, 97, 116, 101, 95,
    109, 105, 110, 116, 105, 110, 103, 95, 97, 98, 105, 108, 105, 116, 121, 0, 0, 0, 0, 0, 0, 0, 0, 0, 0, 0,
    0, 0, 0, 0, 1, 1, 1, 0, 1, 4, 11, 0, 10, 1, 56, 0, 2]"

section \<open>Builders\<close>

definition encode_add_currency_to_account_script ::
  "TypeTagV5 \<Rightarrow> Script" where
  "encode_add_currency_to_account_script currency =
     Script_new ADD_CURRENCY_TO_ACCOUNT_CODE [currency] []"

definition encode_add_recovery_rotation_capability_script ::
  "LegacyAddressV5 \<Rightarrow> Script" where
  "encode_add_recovery_rotation_capability_script recovery_address =
     Script_new ADD_RECOVERY_ROTATION_CAPABILITY_CODE [] [ArgAddress recovery_address]"

definition encode_add_validator_and_reconfigure_script ::
  "u64 \<Rightarrow> u8 list \<Rightarrow> LegacyAddressV5 \<Rightarrow> Script" where
  "encode_add_validator_and_reconfigure_script sliding_nonce validator_name validator_address =
     Script_new ADD_VALIDATOR_AND_RECONFIGURE_CODE []
       [ArgU64 sliding_nonce, ArgU8Vector validator_name, ArgAddress validator_address]"

definition encode_burn_script ::
  "TypeTagV5 \<Rightarrow> u64 \<Rightarrow> LegacyAddressV5 \<Rightarrow> Script" where
  "encode_burn_script token sliding_nonce preburn_address =
     Script_new BURN_CODE [token] [ArgU64 sliding_nonce, ArgAddress preburn_address]"

definition encode_burn_txn_fees_script ::
  "TypeTagV5 \<Rightarrow> Script" where
  "encode_burn_txn_fees_script coin_type =
     Script_new BURN_TXN_FEES_CODE [coin_type] []"

definition encode_cancel_burn_script ::
  "TypeTagV5 \<Rightarrow> LegacyAddressV5 \<Rightarrow> Script" where
  "encode_cancel_burn_script token preburn_address =
     Script_new CANCEL_BURN_CODE [token] [ArgAddress preburn_address]"

definition encode_create_child_vasp_account_script ::
  "TypeTagV5 \<Rightarrow> LegacyAddressV5 \<Rightarrow> u8 list \<Rightarrow> bool \<Rightarrow> u64 \<Rightarrow> Script" where
  "encode_create_child_vasp_account_script coin_type child_address auth_key_prefix add_all_currencies child_initial_balance =
     Script_new CREATE_CHILD_VASP_ACCOUNT_CODE [coin_type]
       [ArgAddress child_address, ArgU8Vector auth_key_prefix, ArgBool add_all_currencies, ArgU64 child_initial_balance]"

definition encode_create_designated_dealer_script ::
  "TypeTagV5 \<Rightarrow> u64 \<Rightarrow> LegacyAddressV5 \<Rightarrow> u8 list \<Rightarrow> u8 list \<Rightarrow> bool \<Rightarrow> Script" where
  "encode_create_designated_dealer_script currency sliding_nonce addr auth_key_prefix human_name add_all_currencies =
     Script_new CREATE_DESIGNATED_DEALER_CODE [currency]
       [ArgU64 sliding_nonce, ArgAddress addr, ArgU8Vector auth_key_prefix, ArgU8Vector human_name, ArgBool add_all_currencies]"

definition encode_create_parent_vasp_account_script ::
  "TypeTagV5 \<Rightarrow> u64 \<Rightarrow> LegacyAddressV5 \<Rightarrow> u8 list \<Rightarrow> u8 list \<Rightarrow> bool \<Rightarrow> Script" where
  "encode_create_parent_vasp_account_script coin_type sliding_nonce new_account_address auth_key_prefix human_name add_all_currencies =
     Script_new CREATE_PARENT_VASP_ACCOUNT_CODE [coin_type]
       [ArgU64 sliding_nonce, ArgAddress new_account_address, ArgU8Vector auth_key_prefix, ArgU8Vector human_name, ArgBool add_all_currencies]"

definition encode_create_recovery_address_script ::
  "Script" where
  "encode_create_recovery_address_script =
     Script_new CREATE_RECOVERY_ADDRESS_CODE [] []"

definition encode_create_validator_account_script ::
  "u64 \<Rightarrow> LegacyAddressV5 \<Rightarrow> u8 list \<Rightarrow> u8 list \<Rightarrow> Script" where
  "encode_create_validator_account_script sliding_nonce new_account_address auth_key_prefix human_name =
     Script_new CREATE_VALIDATOR_ACCOUNT_CODE []
       [ArgU64 sliding_nonce, ArgAddress new_account_address, ArgU8Vector auth_key_prefix, ArgU8Vector human_name]"

definition encode_create_validator_operator_account_script ::
  "u64 \<Rightarrow> LegacyAddressV5 \<Rightarrow> u8 list \<Rightarrow> u8 list \<Rightarrow> Script" where
  "encode_create_validator_operator_account_script sliding_nonce new_account_address auth_key_prefix human_name =
     Script_new CREATE_VALIDATOR_OPERATOR_ACCOUNT_CODE []
       [ArgU64 sliding_nonce, ArgAddress new_account_address, ArgU8Vector auth_key_prefix, ArgU8Vector human_name]"

definition encode_freeze_account_script ::
  "u64 \<Rightarrow> LegacyAddressV5 \<Rightarrow> Script" where
  "encode_freeze_account_script sliding_nonce to_freeze_account =
     Script_new FREEZE_ACCOUNT_CODE [] [ArgU64 sliding_nonce, ArgAddress to_freeze_account]"

definition encode_peer_to_peer_with_metadata_script ::
  "TypeTagV5 \<Rightarrow> LegacyAddressV5 \<Rightarrow> u64 \<Rightarrow> u8 list \<Rightarrow> u8 list \<Rightarrow> Script" where
  "encode_peer_to_peer_with_metadata_script currency payee amount metadata metadata_signature =
     Script_new PEER_TO_PEER_WITH_METADATA_CODE [currency]
       [ArgAddress payee, ArgU64 amount, ArgU8Vector metadata, ArgU8Vector metadata_signature]"

definition encode_preburn_script ::
  "TypeTagV5 \<Rightarrow> u64 \<Rightarrow> Script" where
  "encode_preburn_script token amount =
     Script_new PREBURN_CODE [token] [ArgU64 amount]"

definition encode_publish_shared_ed25519_public_key_script ::
  "u8 list \<Rightarrow> Script" where
  "encode_publish_shared_ed25519_public_key_script public_key =
     Script_new PUBLISH_SHARED_ED25519_PUBLIC_KEY_CODE [] [ArgU8Vector public_key]"

definition encode_register_validator_config_script ::
  "LegacyAddressV5 \<Rightarrow> u8 list \<Rightarrow> u8 list \<Rightarrow> u8 list \<Rightarrow> Script" where
  "encode_register_validator_config_script validator_account consensus_pubkey validator_network_addresses fullnode_network_addresses =
     Script_new REGISTER_VALIDATOR_CONFIG_CODE []
       [ArgAddress validator_account, ArgU8Vector consensus_pubkey, ArgU8Vector validator_network_addresses, ArgU8Vector fullnode_network_addresses]"

definition encode_remove_validator_and_reconfigure_script ::
  "u64 \<Rightarrow> u8 list \<Rightarrow> LegacyAddressV5 \<Rightarrow> Script" where
  "encode_remove_validator_and_reconfigure_script sliding_nonce validator_name validator_address =
     Script_new REMOVE_VALIDATOR_AND_RECONFIGURE_CODE []
       [ArgU64 sliding_nonce, ArgU8Vector validator_name, ArgAddress validator_address]"

definition encode_rotate_authentication_key_script ::
  "u8 list \<Rightarrow> Script" where
  "encode_rotate_authentication_key_script new_key =
     Script_new ROTATE_AUTHENTICATION_KEY_CODE [] [ArgU8Vector new_key]"

definition encode_rotate_authentication_key_with_nonce_script ::
  "u64 \<Rightarrow> u8 list \<Rightarrow> Script" where
  "encode_rotate_authentication_key_with_nonce_script sliding_nonce new_key =
     Script_new ROTATE_AUTHENTICATION_KEY_WITH_NONCE_CODE [] [ArgU64 sliding_nonce, ArgU8Vector new_key]"

definition encode_rotate_authentication_key_with_nonce_admin_script ::
  "u64 \<Rightarrow> u8 list \<Rightarrow> Script" where
  "encode_rotate_authentication_key_with_nonce_admin_script sliding_nonce new_key =
     Script_new ROTATE_AUTHENTICATION_KEY_WITH_NONCE_ADMIN_CODE []
       [ArgU64 sliding_nonce, ArgU8Vector new_key]"

definition encode_rotate_authentication_key_with_recovery_address_script ::
  "LegacyAddressV5 \<Rightarrow> LegacyAddressV5 \<Rightarrow> u8 list \<Rightarrow> Script" where
  "encode_rotate_authentication_key_with_recovery_address_script recovery_address to_recover new_key =
     Script_new ROTATE_AUTHENTICATION_KEY_WITH_RECOVERY_ADDRESS_CODE []
       [ArgAddress recovery_address, ArgAddress to_recover, ArgU8Vector new_key]"

definition encode_rotate_dual_attestation_info_script ::
  "u8 list \<Rightarrow> u8 list \<Rightarrow> Script" where
  "encode_rotate_dual_attestation_info_script new_url new_key =
     Script_new ROTATE_DUAL_ATTESTATION_INFO_CODE [] [ArgU8Vector new_url, ArgU8Vector new_key]"

definition encode_rotate_shared_ed25519_public_key_script ::
  "u8 list \<Rightarrow> Script" where
  "encode_rotate_shared_ed25519_public_key_script public_key =
     Script_new ROTATE_SHARED_ED25519_PUBLIC_KEY_CODE [] [ArgU8Vector public_key]"

definition encode_set_validator_config_and_reconfigure_script ::
  "LegacyAddressV5 \<Rightarrow> u8 list \<Rightarrow> u8 list \<Rightarrow> u8 list \<Rightarrow> Script" where
  "encode_set_validator_config_and_reconfigure_script validator_account consensus_pubkey validator_network_addresses fullnode_network_addresses =
     Script_new SET_VALIDATOR_CONFIG_AND_RECONFIGURE_CODE []
       [ArgAddress validator_account, ArgU8Vector consensus_pubkey, ArgU8Vector validator_network_addresses, ArgU8Vector fullnode_network_addresses]"

definition encode_set_validator_operator_script ::
  "u8 list \<Rightarrow> LegacyAddressV5 \<Rightarrow> Script" where
  "encode_set_validator_operator_script operator_name operator_account =
     Script_new SET_VALIDATOR_OPERATOR_CODE [] [ArgU8Vector operator_name, ArgAddress operator_account]"

definition encode_set_validator_operator_with_nonce_admin_script ::
  "u64 \<Rightarrow> u8 list \<Rightarrow> LegacyAddressV5 \<Rightarrow> Script" where
  "encode_set_validator_operator_with_nonce_admin_script sliding_nonce operator_name operator_account =
     Script_new SET_VALIDATOR_OPERATOR_WITH_NONCE_ADMIN_CODE []
       [ArgU64 sliding_nonce, ArgU8Vector operator_name, ArgAddress operator_account]"

definition encode_tiered_mint_script ::
  "TypeTagV5 \<Rightarrow> u64 \<Rightarrow> LegacyAddressV5 \<Rightarrow> u64 \<Rightarrow> u64 \<Rightarrow> Script" where
  "encode_tiered_mint_script coin_type sliding_nonce designated_dealer_address mint_amount tier_index =
     Script_new TIERED_MINT_CODE [coin_type]
       [ArgU64 sliding_nonce, ArgAddress designated_dealer_address, ArgU64 mint_amount, ArgU64 tier_index]"

definition encode_unfreeze_account_script ::
  "u64 \<Rightarrow> LegacyAddressV5 \<Rightarrow> Script" where
  "encode_unfreeze_account_script sliding_nonce to_unfreeze_account =
     Script_new UNFREEZE_ACCOUNT_CODE [] [ArgU64 sliding_nonce, ArgAddress to_unfreeze_account]"

definition encode_update_diem_version_script ::
  "u64 \<Rightarrow> u64 \<Rightarrow> Script" where
  "encode_update_diem_version_script sliding_nonce major =
     Script_new UPDATE_DIEM_VERSION_CODE [] [ArgU64 sliding_nonce, ArgU64 major]"

definition encode_update_dual_attestation_limit_script ::
  "u64 \<Rightarrow> u64 \<Rightarrow> Script" where
  "encode_update_dual_attestation_limit_script sliding_nonce new_micro_xdx_limit =
     Script_new UPDATE_DUAL_ATTESTATION_LIMIT_CODE [] [ArgU64 sliding_nonce, ArgU64 new_micro_xdx_limit]"

definition encode_update_exchange_rate_script ::
  "TypeTagV5 \<Rightarrow> u64 \<Rightarrow> u64 \<Rightarrow> u64 \<Rightarrow> Script" where
  "encode_update_exchange_rate_script currency sliding_nonce new_exchange_rate_numerator new_exchange_rate_denominator =
     Script_new UPDATE_EXCHANGE_RATE_CODE [currency]
       [ArgU64 sliding_nonce, ArgU64 new_exchange_rate_numerator, ArgU64 new_exchange_rate_denominator]"

definition encode_update_minting_ability_script ::
  "TypeTagV5 \<Rightarrow> bool \<Rightarrow> Script" where
  "encode_update_minting_ability_script currency allow_minting =
     Script_new UPDATE_MINTING_ABILITY_CODE [currency] [ArgBool allow_minting]"

primrec encode_script :: "ScriptCall \<Rightarrow> Script" where
  "encode_script (AddCurrencyToAccount currency) = encode_add_currency_to_account_script currency"
| "encode_script (AddRecoveryRotationCapability recovery_address) = encode_add_recovery_rotation_capability_script recovery_address"
| "encode_script (AddValidatorAndReconfigure sliding_nonce validator_name validator_address) = encode_add_validator_and_reconfigure_script sliding_nonce validator_name validator_address"
| "encode_script (Burn token sliding_nonce preburn_address) = encode_burn_script token sliding_nonce preburn_address"
| "encode_script (BurnTxnFees coin_type) = encode_burn_txn_fees_script coin_type"
| "encode_script (CancelBurn token preburn_address) = encode_cancel_burn_script token preburn_address"
| "encode_script (CreateChildVaspAccount coin_type child_address auth_key_prefix add_all_currencies child_initial_balance) = encode_create_child_vasp_account_script coin_type child_address auth_key_prefix add_all_currencies child_initial_balance"
| "encode_script (CreateDesignatedDealer currency sliding_nonce addr auth_key_prefix human_name add_all_currencies) = encode_create_designated_dealer_script currency sliding_nonce addr auth_key_prefix human_name add_all_currencies"
| "encode_script (CreateParentVaspAccount coin_type sliding_nonce new_account_address auth_key_prefix human_name add_all_currencies) = encode_create_parent_vasp_account_script coin_type sliding_nonce new_account_address auth_key_prefix human_name add_all_currencies"
| "encode_script CreateRecoveryAddress = encode_create_recovery_address_script"
| "encode_script (CreateValidatorAccount sliding_nonce new_account_address auth_key_prefix human_name) = encode_create_validator_account_script sliding_nonce new_account_address auth_key_prefix human_name"
| "encode_script (CreateValidatorOperatorAccount sliding_nonce new_account_address auth_key_prefix human_name) = encode_create_validator_operator_account_script sliding_nonce new_account_address auth_key_prefix human_name"
| "encode_script (FreezeAccount sliding_nonce to_freeze_account) = encode_freeze_account_script sliding_nonce to_freeze_account"
| "encode_script (PeerToPeerWithMetadata currency payee amount metadata metadata_signature) = encode_peer_to_peer_with_metadata_script currency payee amount metadata metadata_signature"
| "encode_script (Preburn token amount) = encode_preburn_script token amount"
| "encode_script (PublishSharedEd25519PublicKey public_key) = encode_publish_shared_ed25519_public_key_script public_key"
| "encode_script (RegisterValidatorConfig validator_account consensus_pubkey validator_network_addresses fullnode_network_addresses) = encode_register_validator_config_script validator_account consensus_pubkey validator_network_addresses fullnode_network_addresses"
| "encode_script (RemoveValidatorAndReconfigure sliding_nonce validator_name validator_address) = encode_remove_validator_and_reconfigure_script sliding_nonce validator_name validator_address"
| "encode_script (RotateAuthenticationKey new_key) = encode_rotate_authentication_key_script new_key"
| "encode_script (RotateAuthenticationKeyWithNonce sliding_nonce new_key) = encode_rotate_authentication_key_with_nonce_script sliding_nonce new_key"
| "encode_script (RotateAuthenticationKeyWithNonceAdmin sliding_nonce new_key) = encode_rotate_authentication_key_with_nonce_admin_script sliding_nonce new_key"
| "encode_script (RotateAuthenticationKeyWithRecoveryAddress recovery_address to_recover new_key) = encode_rotate_authentication_key_with_recovery_address_script recovery_address to_recover new_key"
| "encode_script (RotateDualAttestationInfo new_url new_key) = encode_rotate_dual_attestation_info_script new_url new_key"
| "encode_script (RotateSharedEd25519PublicKey public_key) = encode_rotate_shared_ed25519_public_key_script public_key"
| "encode_script (SetValidatorConfigAndReconfigure validator_account consensus_pubkey validator_network_addresses fullnode_network_addresses) = encode_set_validator_config_and_reconfigure_script validator_account consensus_pubkey validator_network_addresses fullnode_network_addresses"
| "encode_script (SetValidatorOperator operator_name operator_account) = encode_set_validator_operator_script operator_name operator_account"
| "encode_script (SetValidatorOperatorWithNonceAdmin sliding_nonce operator_name operator_account) = encode_set_validator_operator_with_nonce_admin_script sliding_nonce operator_name operator_account"
| "encode_script (TieredMint coin_type sliding_nonce designated_dealer_address mint_amount tier_index) = encode_tiered_mint_script coin_type sliding_nonce designated_dealer_address mint_amount tier_index"
| "encode_script (UnfreezeAccount sliding_nonce to_unfreeze_account) = encode_unfreeze_account_script sliding_nonce to_unfreeze_account"
| "encode_script (UpdateDiemVersion sliding_nonce major) = encode_update_diem_version_script sliding_nonce major"
| "encode_script (UpdateDualAttestationLimit sliding_nonce new_micro_xdx_limit) = encode_update_dual_attestation_limit_script sliding_nonce new_micro_xdx_limit"
| "encode_script (UpdateExchangeRate currency sliding_nonce new_exchange_rate_numerator new_exchange_rate_denominator) = encode_update_exchange_rate_script currency sliding_nonce new_exchange_rate_numerator new_exchange_rate_denominator"
| "encode_script (UpdateMintingAbility currency allow_minting) = encode_update_minting_ability_script currency allow_minting"

primrec script_name :: "ScriptCall \<Rightarrow> string" where
  "script_name (AddCurrencyToAccount currency) = ''add_currency_to_account''"
| "script_name (AddRecoveryRotationCapability recovery_address) = ''add_recovery_rotation_capability''"
| "script_name (AddValidatorAndReconfigure sliding_nonce validator_name validator_address) = ''add_validator_and_reconfigure''"
| "script_name (Burn token sliding_nonce preburn_address) = ''burn''"
| "script_name (BurnTxnFees coin_type) = ''burn_txn_fees''"
| "script_name (CancelBurn token preburn_address) = ''cancel_burn''"
| "script_name (CreateChildVaspAccount coin_type child_address auth_key_prefix add_all_currencies child_initial_balance) = ''create_child_vasp_account''"
| "script_name (CreateDesignatedDealer currency sliding_nonce addr auth_key_prefix human_name add_all_currencies) = ''create_designated_dealer''"
| "script_name (CreateParentVaspAccount coin_type sliding_nonce new_account_address auth_key_prefix human_name add_all_currencies) = ''create_parent_vasp_account''"
| "script_name CreateRecoveryAddress = ''create_recovery_address''"
| "script_name (CreateValidatorAccount sliding_nonce new_account_address auth_key_prefix human_name) = ''create_validator_account''"
| "script_name (CreateValidatorOperatorAccount sliding_nonce new_account_address auth_key_prefix human_name) = ''create_validator_operator_account''"
| "script_name (FreezeAccount sliding_nonce to_freeze_account) = ''freeze_account''"
| "script_name (PeerToPeerWithMetadata currency payee amount metadata metadata_signature) = ''peer_to_peer_with_metadata''"
| "script_name (Preburn token amount) = ''preburn''"
| "script_name (PublishSharedEd25519PublicKey public_key) = ''publish_shared_ed25519_public_key''"
| "script_name (RegisterValidatorConfig validator_account consensus_pubkey validator_network_addresses fullnode_network_addresses) = ''register_validator_config''"
| "script_name (RemoveValidatorAndReconfigure sliding_nonce validator_name validator_address) = ''remove_validator_and_reconfigure''"
| "script_name (RotateAuthenticationKey new_key) = ''rotate_authentication_key''"
| "script_name (RotateAuthenticationKeyWithNonce sliding_nonce new_key) = ''rotate_authentication_key_with_nonce''"
| "script_name (RotateAuthenticationKeyWithNonceAdmin sliding_nonce new_key) = ''rotate_authentication_key_with_nonce_admin''"
| "script_name (RotateAuthenticationKeyWithRecoveryAddress recovery_address to_recover new_key) = ''rotate_authentication_key_with_recovery_address''"
| "script_name (RotateDualAttestationInfo new_url new_key) = ''rotate_dual_attestation_info''"
| "script_name (RotateSharedEd25519PublicKey public_key) = ''rotate_shared_ed25519_public_key''"
| "script_name (SetValidatorConfigAndReconfigure validator_account consensus_pubkey validator_network_addresses fullnode_network_addresses) = ''set_validator_config_and_reconfigure''"
| "script_name (SetValidatorOperator operator_name operator_account) = ''set_validator_operator''"
| "script_name (SetValidatorOperatorWithNonceAdmin sliding_nonce operator_name operator_account) = ''set_validator_operator_with_nonce_admin''"
| "script_name (TieredMint coin_type sliding_nonce designated_dealer_address mint_amount tier_index) = ''tiered_mint''"
| "script_name (UnfreezeAccount sliding_nonce to_unfreeze_account) = ''unfreeze_account''"
| "script_name (UpdateDiemVersion sliding_nonce major) = ''update_diem_version''"
| "script_name (UpdateDualAttestationLimit sliding_nonce new_micro_xdx_limit) = ''update_dual_attestation_limit''"
| "script_name (UpdateExchangeRate currency sliding_nonce new_exchange_rate_numerator new_exchange_rate_denominator) = ''update_exchange_rate''"
| "script_name (UpdateMintingAbility currency allow_minting) = ''update_minting_ability''"

section \<open>Decoders\<close>

definition decode_add_currency_to_account_script :: "Script \<Rightarrow> ScriptCall option" where
  "decode_add_currency_to_account_script script =
    Option.bind (script_ty_arg_at script 0) (\<lambda>currency.
     Some (AddCurrencyToAccount currency))"

definition decode_add_recovery_rotation_capability_script :: "Script \<Rightarrow> ScriptCall option" where
  "decode_add_recovery_rotation_capability_script script =
    Option.bind (script_arg_at decode_address_argument script 0) (\<lambda>recovery_address.
     Some (AddRecoveryRotationCapability recovery_address))"

definition decode_add_validator_and_reconfigure_script :: "Script \<Rightarrow> ScriptCall option" where
  "decode_add_validator_and_reconfigure_script script =
    Option.bind (script_arg_at decode_u64_argument script 0) (\<lambda>sliding_nonce.
     Option.bind (script_arg_at decode_u8vector_argument script 1) (\<lambda>validator_name.
     Option.bind (script_arg_at decode_address_argument script 2) (\<lambda>validator_address.
     Some (AddValidatorAndReconfigure sliding_nonce validator_name validator_address))))"

definition decode_burn_script :: "Script \<Rightarrow> ScriptCall option" where
  "decode_burn_script script =
    Option.bind (script_ty_arg_at script 0) (\<lambda>token.
     Option.bind (script_arg_at decode_u64_argument script 0) (\<lambda>sliding_nonce.
     Option.bind (script_arg_at decode_address_argument script 1) (\<lambda>preburn_address.
     Some (Burn token sliding_nonce preburn_address))))"

definition decode_burn_txn_fees_script :: "Script \<Rightarrow> ScriptCall option" where
  "decode_burn_txn_fees_script script =
    Option.bind (script_ty_arg_at script 0) (\<lambda>coin_type.
     Some (BurnTxnFees coin_type))"

definition decode_cancel_burn_script :: "Script \<Rightarrow> ScriptCall option" where
  "decode_cancel_burn_script script =
    Option.bind (script_ty_arg_at script 0) (\<lambda>token.
     Option.bind (script_arg_at decode_address_argument script 0) (\<lambda>preburn_address.
     Some (CancelBurn token preburn_address)))"

definition decode_create_child_vasp_account_script :: "Script \<Rightarrow> ScriptCall option" where
  "decode_create_child_vasp_account_script script =
    Option.bind (script_ty_arg_at script 0) (\<lambda>coin_type.
     Option.bind (script_arg_at decode_address_argument script 0) (\<lambda>child_address.
     Option.bind (script_arg_at decode_u8vector_argument script 1) (\<lambda>auth_key_prefix.
     Option.bind (script_arg_at decode_bool_argument script 2) (\<lambda>add_all_currencies.
     Option.bind (script_arg_at decode_u64_argument script 3) (\<lambda>child_initial_balance.
     Some (CreateChildVaspAccount coin_type child_address auth_key_prefix add_all_currencies child_initial_balance))))))"

definition decode_create_designated_dealer_script :: "Script \<Rightarrow> ScriptCall option" where
  "decode_create_designated_dealer_script script =
    Option.bind (script_ty_arg_at script 0) (\<lambda>currency.
     Option.bind (script_arg_at decode_u64_argument script 0) (\<lambda>sliding_nonce.
     Option.bind (script_arg_at decode_address_argument script 1) (\<lambda>addr.
     Option.bind (script_arg_at decode_u8vector_argument script 2) (\<lambda>auth_key_prefix.
     Option.bind (script_arg_at decode_u8vector_argument script 3) (\<lambda>human_name.
     Option.bind (script_arg_at decode_bool_argument script 4) (\<lambda>add_all_currencies.
     Some (CreateDesignatedDealer currency sliding_nonce addr auth_key_prefix human_name add_all_currencies)))))))"

definition decode_create_parent_vasp_account_script :: "Script \<Rightarrow> ScriptCall option" where
  "decode_create_parent_vasp_account_script script =
    Option.bind (script_ty_arg_at script 0) (\<lambda>coin_type.
     Option.bind (script_arg_at decode_u64_argument script 0) (\<lambda>sliding_nonce.
     Option.bind (script_arg_at decode_address_argument script 1) (\<lambda>new_account_address.
     Option.bind (script_arg_at decode_u8vector_argument script 2) (\<lambda>auth_key_prefix.
     Option.bind (script_arg_at decode_u8vector_argument script 3) (\<lambda>human_name.
     Option.bind (script_arg_at decode_bool_argument script 4) (\<lambda>add_all_currencies.
     Some (CreateParentVaspAccount coin_type sliding_nonce new_account_address auth_key_prefix human_name add_all_currencies)))))))"

definition decode_create_recovery_address_script :: "Script \<Rightarrow> ScriptCall option" where
  "decode_create_recovery_address_script script =
    Some CreateRecoveryAddress"

definition decode_create_validator_account_script :: "Script \<Rightarrow> ScriptCall option" where
  "decode_create_validator_account_script script =
    Option.bind (script_arg_at decode_u64_argument script 0) (\<lambda>sliding_nonce.
     Option.bind (script_arg_at decode_address_argument script 1) (\<lambda>new_account_address.
     Option.bind (script_arg_at decode_u8vector_argument script 2) (\<lambda>auth_key_prefix.
     Option.bind (script_arg_at decode_u8vector_argument script 3) (\<lambda>human_name.
     Some (CreateValidatorAccount sliding_nonce new_account_address auth_key_prefix human_name)))))"

definition decode_create_validator_operator_account_script :: "Script \<Rightarrow> ScriptCall option" where
  "decode_create_validator_operator_account_script script =
    Option.bind (script_arg_at decode_u64_argument script 0) (\<lambda>sliding_nonce.
     Option.bind (script_arg_at decode_address_argument script 1) (\<lambda>new_account_address.
     Option.bind (script_arg_at decode_u8vector_argument script 2) (\<lambda>auth_key_prefix.
     Option.bind (script_arg_at decode_u8vector_argument script 3) (\<lambda>human_name.
     Some (CreateValidatorOperatorAccount sliding_nonce new_account_address auth_key_prefix human_name)))))"

definition decode_freeze_account_script :: "Script \<Rightarrow> ScriptCall option" where
  "decode_freeze_account_script script =
    Option.bind (script_arg_at decode_u64_argument script 0) (\<lambda>sliding_nonce.
     Option.bind (script_arg_at decode_address_argument script 1) (\<lambda>to_freeze_account.
     Some (FreezeAccount sliding_nonce to_freeze_account)))"

definition decode_peer_to_peer_with_metadata_script :: "Script \<Rightarrow> ScriptCall option" where
  "decode_peer_to_peer_with_metadata_script script =
    Option.bind (script_ty_arg_at script 0) (\<lambda>currency.
     Option.bind (script_arg_at decode_address_argument script 0) (\<lambda>payee.
     Option.bind (script_arg_at decode_u64_argument script 1) (\<lambda>amount.
     Option.bind (script_arg_at decode_u8vector_argument script 2) (\<lambda>metadata.
     Option.bind (script_arg_at decode_u8vector_argument script 3) (\<lambda>metadata_signature.
     Some (PeerToPeerWithMetadata currency payee amount metadata metadata_signature))))))"

definition decode_preburn_script :: "Script \<Rightarrow> ScriptCall option" where
  "decode_preburn_script script =
    Option.bind (script_ty_arg_at script 0) (\<lambda>token.
     Option.bind (script_arg_at decode_u64_argument script 0) (\<lambda>amount.
     Some (Preburn token amount)))"

definition decode_publish_shared_ed25519_public_key_script :: "Script \<Rightarrow> ScriptCall option" where
  "decode_publish_shared_ed25519_public_key_script script =
    Option.bind (script_arg_at decode_u8vector_argument script 0) (\<lambda>public_key.
     Some (PublishSharedEd25519PublicKey public_key))"

definition decode_register_validator_config_script :: "Script \<Rightarrow> ScriptCall option" where
  "decode_register_validator_config_script script =
    Option.bind (script_arg_at decode_address_argument script 0) (\<lambda>validator_account.
     Option.bind (script_arg_at decode_u8vector_argument script 1) (\<lambda>consensus_pubkey.
     Option.bind (script_arg_at decode_u8vector_argument script 2) (\<lambda>validator_network_addresses.
     Option.bind (script_arg_at decode_u8vector_argument script 3) (\<lambda>fullnode_network_addresses.
     Some (RegisterValidatorConfig validator_account consensus_pubkey validator_network_addresses fullnode_network_addresses)))))"

definition decode_remove_validator_and_reconfigure_script :: "Script \<Rightarrow> ScriptCall option" where
  "decode_remove_validator_and_reconfigure_script script =
    Option.bind (script_arg_at decode_u64_argument script 0) (\<lambda>sliding_nonce.
     Option.bind (script_arg_at decode_u8vector_argument script 1) (\<lambda>validator_name.
     Option.bind (script_arg_at decode_address_argument script 2) (\<lambda>validator_address.
     Some (RemoveValidatorAndReconfigure sliding_nonce validator_name validator_address))))"

definition decode_rotate_authentication_key_script :: "Script \<Rightarrow> ScriptCall option" where
  "decode_rotate_authentication_key_script script =
    Option.bind (script_arg_at decode_u8vector_argument script 0) (\<lambda>new_key.
     Some (RotateAuthenticationKey new_key))"

definition decode_rotate_authentication_key_with_nonce_script :: "Script \<Rightarrow> ScriptCall option" where
  "decode_rotate_authentication_key_with_nonce_script script =
    Option.bind (script_arg_at decode_u64_argument script 0) (\<lambda>sliding_nonce.
     Option.bind (script_arg_at decode_u8vector_argument script 1) (\<lambda>new_key.
     Some (RotateAuthenticationKeyWithNonce sliding_nonce new_key)))"

definition decode_rotate_authentication_key_with_nonce_admin_script :: "Script \<Rightarrow> ScriptCall option" where
  "decode_rotate_authentication_key_with_nonce_admin_script script =
    Option.bind (script_arg_at decode_u64_argument script 0) (\<lambda>sliding_nonce.
     Option.bind (script_arg_at decode_u8vector_argument script 1) (\<lambda>new_key.
     Some (RotateAuthenticationKeyWithNonceAdmin sliding_nonce new_key)))"

definition decode_rotate_authentication_key_with_recovery_address_script :: "Script \<Rightarrow> ScriptCall option" where
  "decode_rotate_authentication_key_with_recovery_address_script script =
    Option.bind (script_arg_at decode_address_argument script 0) (\<lambda>recovery_address.
     Option.bind (script_arg_at decode_address_argument script 1) (\<lambda>to_recover.
     Option.bind (script_arg_at decode_u8vector_argument script 2) (\<lambda>new_key.
     Some (RotateAuthenticationKeyWithRecoveryAddress recovery_address to_recover new_key))))"

definition decode_rotate_dual_attestation_info_script :: "Script \<Rightarrow> ScriptCall option" where
  "decode_rotate_dual_attestation_info_script script =
    Option.bind (script_arg_at decode_u8vector_argument script 0) (\<lambda>new_url.
     Option.bind (script_arg_at decode_u8vector_argument script 1) (\<lambda>new_key.
     Some (RotateDualAttestationInfo new_url new_key)))"

definition decode_rotate_shared_ed25519_public_key_script :: "Script \<Rightarrow> ScriptCall option" where
  "decode_rotate_shared_ed25519_public_key_script script =
    Option.bind (script_arg_at decode_u8vector_argument script 0) (\<lambda>public_key.
     Some (RotateSharedEd25519PublicKey public_key))"

definition decode_set_validator_config_and_reconfigure_script :: "Script \<Rightarrow> ScriptCall option" where
  "decode_set_validator_config_and_reconfigure_script script =
    Option.bind (script_arg_at decode_address_argument script 0) (\<lambda>validator_account.
     Option.bind (script_arg_at decode_u8vector_argument script 1) (\<lambda>consensus_pubkey.
     Option.bind (script_arg_at decode_u8vector_argument script 2) (\<lambda>validator_network_addresses.
     Option.bind (script_arg_at decode_u8vector_argument script 3) (\<lambda>fullnode_network_addresses.
     Some (SetValidatorConfigAndReconfigure validator_account consensus_pubkey validator_network_addresses fullnode_network_addresses)))))"

definition decode_set_validator_operator_script :: "Script \<Rightarrow> ScriptCall option" where
  "decode_set_validator_operator_script script =
    Option.bind (script_arg_at decode_u8vector_argument script 0) (\<lambda>operator_name.
     Option.bind (script_arg_at decode_address_argument script 1) (\<lambda>operator_account.
     Some (SetValidatorOperator operator_name operator_account)))"

definition decode_set_validator_operator_with_nonce_admin_script :: "Script \<Rightarrow> ScriptCall option" where
  "decode_set_validator_operator_with_nonce_admin_script script =
    Option.bind (script_arg_at decode_u64_argument script 0) (\<lambda>sliding_nonce.
     Option.bind (script_arg_at decode_u8vector_argument script 1) (\<lambda>operator_name.
     Option.bind (script_arg_at decode_address_argument script 2) (\<lambda>operator_account.
     Some (SetValidatorOperatorWithNonceAdmin sliding_nonce operator_name operator_account))))"

definition decode_tiered_mint_script :: "Script \<Rightarrow> ScriptCall option" where
  "decode_tiered_mint_script script =
    Option.bind (script_ty_arg_at script 0) (\<lambda>coin_type.
     Option.bind (script_arg_at decode_u64_argument script 0) (\<lambda>sliding_nonce.
     Option.bind (script_arg_at decode_address_argument script 1) (\<lambda>designated_dealer_address.
     Option.bind (script_arg_at decode_u64_argument script 2) (\<lambda>mint_amount.
     Option.bind (script_arg_at decode_u64_argument script 3) (\<lambda>tier_index.
     Some (TieredMint coin_type sliding_nonce designated_dealer_address mint_amount tier_index))))))"

definition decode_unfreeze_account_script :: "Script \<Rightarrow> ScriptCall option" where
  "decode_unfreeze_account_script script =
    Option.bind (script_arg_at decode_u64_argument script 0) (\<lambda>sliding_nonce.
     Option.bind (script_arg_at decode_address_argument script 1) (\<lambda>to_unfreeze_account.
     Some (UnfreezeAccount sliding_nonce to_unfreeze_account)))"

definition decode_update_diem_version_script :: "Script \<Rightarrow> ScriptCall option" where
  "decode_update_diem_version_script script =
    Option.bind (script_arg_at decode_u64_argument script 0) (\<lambda>sliding_nonce.
     Option.bind (script_arg_at decode_u64_argument script 1) (\<lambda>major.
     Some (UpdateDiemVersion sliding_nonce major)))"

definition decode_update_dual_attestation_limit_script :: "Script \<Rightarrow> ScriptCall option" where
  "decode_update_dual_attestation_limit_script script =
    Option.bind (script_arg_at decode_u64_argument script 0) (\<lambda>sliding_nonce.
     Option.bind (script_arg_at decode_u64_argument script 1) (\<lambda>new_micro_xdx_limit.
     Some (UpdateDualAttestationLimit sliding_nonce new_micro_xdx_limit)))"

definition decode_update_exchange_rate_script :: "Script \<Rightarrow> ScriptCall option" where
  "decode_update_exchange_rate_script script =
    Option.bind (script_ty_arg_at script 0) (\<lambda>currency.
     Option.bind (script_arg_at decode_u64_argument script 0) (\<lambda>sliding_nonce.
     Option.bind (script_arg_at decode_u64_argument script 1) (\<lambda>new_exchange_rate_numerator.
     Option.bind (script_arg_at decode_u64_argument script 2) (\<lambda>new_exchange_rate_denominator.
     Some (UpdateExchangeRate currency sliding_nonce new_exchange_rate_numerator new_exchange_rate_denominator)))))"

definition decode_update_minting_ability_script :: "Script \<Rightarrow> ScriptCall option" where
  "decode_update_minting_ability_script script =
    Option.bind (script_ty_arg_at script 0) (\<lambda>currency.
     Option.bind (script_arg_at decode_bool_argument script 0) (\<lambda>allow_minting.
     Some (UpdateMintingAbility currency allow_minting)))"

definition script_decoder_entries :: "(u8 list \<times> (Script \<Rightarrow> ScriptCall option)) list" where
  "script_decoder_entries =
    [(ADD_CURRENCY_TO_ACCOUNT_CODE, decode_add_currency_to_account_script),
     (ADD_RECOVERY_ROTATION_CAPABILITY_CODE, decode_add_recovery_rotation_capability_script),
     (ADD_VALIDATOR_AND_RECONFIGURE_CODE, decode_add_validator_and_reconfigure_script),
     (BURN_CODE, decode_burn_script),
     (BURN_TXN_FEES_CODE, decode_burn_txn_fees_script),
     (CANCEL_BURN_CODE, decode_cancel_burn_script),
     (CREATE_CHILD_VASP_ACCOUNT_CODE, decode_create_child_vasp_account_script),
     (CREATE_DESIGNATED_DEALER_CODE, decode_create_designated_dealer_script),
     (CREATE_PARENT_VASP_ACCOUNT_CODE, decode_create_parent_vasp_account_script),
     (CREATE_RECOVERY_ADDRESS_CODE, decode_create_recovery_address_script),
     (CREATE_VALIDATOR_ACCOUNT_CODE, decode_create_validator_account_script),
     (CREATE_VALIDATOR_OPERATOR_ACCOUNT_CODE, decode_create_validator_operator_account_script),
     (FREEZE_ACCOUNT_CODE, decode_freeze_account_script),
     (PEER_TO_PEER_WITH_METADATA_CODE, decode_peer_to_peer_with_metadata_script),
     (PREBURN_CODE, decode_preburn_script),
     (PUBLISH_SHARED_ED25519_PUBLIC_KEY_CODE, decode_publish_shared_ed25519_public_key_script),
     (REGISTER_VALIDATOR_CONFIG_CODE, decode_register_validator_config_script),
     (REMOVE_VALIDATOR_AND_RECONFIGURE_CODE, decode_remove_validator_and_reconfigure_script),
     (ROTATE_AUTHENTICATION_KEY_CODE, decode_rotate_authentication_key_script),
     (ROTATE_AUTHENTICATION_KEY_WITH_NONCE_CODE, decode_rotate_authentication_key_with_nonce_script),
     (ROTATE_AUTHENTICATION_KEY_WITH_NONCE_ADMIN_CODE, decode_rotate_authentication_key_with_nonce_admin_script),
     (ROTATE_AUTHENTICATION_KEY_WITH_RECOVERY_ADDRESS_CODE, decode_rotate_authentication_key_with_recovery_address_script),
     (ROTATE_DUAL_ATTESTATION_INFO_CODE, decode_rotate_dual_attestation_info_script),
     (ROTATE_SHARED_ED25519_PUBLIC_KEY_CODE, decode_rotate_shared_ed25519_public_key_script),
     (SET_VALIDATOR_CONFIG_AND_RECONFIGURE_CODE, decode_set_validator_config_and_reconfigure_script),
     (SET_VALIDATOR_OPERATOR_CODE, decode_set_validator_operator_script),
     (SET_VALIDATOR_OPERATOR_WITH_NONCE_ADMIN_CODE, decode_set_validator_operator_with_nonce_admin_script),
     (TIERED_MINT_CODE, decode_tiered_mint_script),
     (UNFREEZE_ACCOUNT_CODE, decode_unfreeze_account_script),
     (UPDATE_DIEM_VERSION_CODE, decode_update_diem_version_script),
     (UPDATE_DUAL_ATTESTATION_LIMIT_CODE, decode_update_dual_attestation_limit_script),
     (UPDATE_EXCHANGE_RATE_CODE, decode_update_exchange_rate_script),
     (UPDATE_MINTING_ABILITY_CODE, decode_update_minting_ability_script)]"

definition TRANSACTION_SCRIPT_DECODER_MAP :: "u8 list \<rightharpoonup> (Script \<Rightarrow> ScriptCall option)" where
  "TRANSACTION_SCRIPT_DECODER_MAP = decoder_table script_decoder_entries"

definition decode_script :: "Script \<Rightarrow> ScriptCall option" where
  "decode_script script = (case TRANSACTION_SCRIPT_DECODER_MAP (script_code script) of Some decoder \<Rightarrow> decoder script | None \<Rightarrow> None)"

lemmas script_code_defs =
  ADD_CURRENCY_TO_ACCOUNT_CODE_def ADD_RECOVERY_ROTATION_CAPABILITY_CODE_def
  ADD_VALIDATOR_AND_RECONFIGURE_CODE_def BURN_CODE_def BURN_TXN_FEES_CODE_def CANCEL_BURN_CODE_def
  CREATE_CHILD_VASP_ACCOUNT_CODE_def CREATE_DESIGNATED_DEALER_CODE_def CREATE_PARENT_VASP_ACCOUNT_CODE_def
  CREATE_RECOVERY_ADDRESS_CODE_def CREATE_VALIDATOR_ACCOUNT_CODE_def
  CREATE_VALIDATOR_OPERATOR_ACCOUNT_CODE_def FREEZE_ACCOUNT_CODE_def PEER_TO_PEER_WITH_METADATA_CODE_def
  PREBURN_CODE_def PUBLISH_SHARED_ED25519_PUBLIC_KEY_CODE_def REGISTER_VALIDATOR_CONFIG_CODE_def
  REMOVE_VALIDATOR_AND_RECONFIGURE_CODE_def ROTATE_AUTHENTICATION_KEY_CODE_def
  ROTATE_AUTHENTICATION_KEY_WITH_NONCE_CODE_def ROTATE_AUTHENTICATION_KEY_WITH_NONCE_ADMIN_CODE_def
  ROTATE_AUTHENTICATION_KEY_WITH_RECOVERY_ADDRESS_CODE_def ROTATE_DUAL_ATTESTATION_INFO_CODE_def
  ROTATE_SHARED_ED25519_PUBLIC_KEY_CODE_def SET_VALIDATOR_CONFIG_AND_RECONFIGURE_CODE_def
  SET_VALIDATOR_OPERATOR_CODE_def SET_VALIDATOR_OPERATOR_WITH_NONCE_ADMIN_CODE_def TIERED_MINT_CODE_def
  UNFREEZE_ACCOUNT_CODE_def UPDATE_DIEM_VERSION_CODE_def UPDATE_DUAL_ATTESTATION_LIMIT_CODE_def
  UPDATE_EXCHANGE_RATE_CODE_def UPDATE_MINTING_ABILITY_CODE_def

lemmas script_builder_defs =
  encode_add_currency_to_account_script_def encode_add_recovery_rotation_capability_script_def
  encode_add_validator_and_reconfigure_script_def encode_burn_script_def encode_burn_txn_fees_script_def
  encode_cancel_burn_script_def encode_create_child_vasp_account_script_def
  encode_create_designated_dealer_script_def encode_create_parent_vasp_account_script_def
  encode_create_recovery_address_script_def encode_create_validator_account_script_def
  encode_create_validator_operator_account_script_def encode_freeze_account_script_def
  encode_peer_to_peer_with_metadata_script_def encode_preburn_script_def
  encode_publish_shared_ed25519_public_key_script_def encode_register_validator_config_script_def
  encode_remove_validator_and_reconfigure_script_def encode_rotate_authentication_key_script_def
  encode_rotate_authentication_key_with_nonce_script_def
  encode_rotate_authentication_key_with_nonce_admin_script_def
  encode_rotate_authentication_key_with_recovery_address_script_def
  encode_rotate_dual_attestation_info_script_def encode_rotate_shared_ed25519_public_key_script_def
  encode_set_validator_config_and_reconfigure_script_def encode_set_validator_operator_script_def
  encode_set_validator_operator_with_nonce_admin_script_def encode_tiered_mint_script_def
  encode_unfreeze_account_script_def encode_update_diem_version_script_def
  encode_update_dual_attestation_limit_script_def encode_update_exchange_rate_script_def
  encode_update_minting_ability_script_def

lemmas script_decoder_defs =
  decode_add_currency_to_account_script_def decode_add_recovery_rotation_capability_script_def
  decode_add_validator_and_reconfigure_script_def decode_burn_script_def decode_burn_txn_fees_script_def
  decode_cancel_burn_script_def decode_create_child_vasp_account_script_def
  decode_create_designated_dealer_script_def decode_create_parent_vasp_account_script_def
  decode_create_recovery_address_script_def decode_create_validator_account_script_def
  decode_create_validator_operator_account_script_def decode_freeze_account_script_def
  decode_peer_to_peer_with_metadata_script_def decode_preburn_script_def
  decode_publish_shared_ed25519_public_key_script_def decode_register_validator_config_script_def
  decode_remove_validator_and_reconfigure_script_def decode_rotate_authentication_key_script_def
  decode_rotate_authentication_key_with_nonce_script_def
  decode_rotate_authentication_key_with_nonce_admin_script_def
  decode_rotate_authentication_key_with_recovery_address_script_def
  decode_rotate_dual_attestation_info_script_def decode_rotate_shared_ed25519_public_key_script_def
  decode_set_validator_config_and_reconfigure_script_def decode_set_validator_operator_script_def
  decode_set_validator_operator_with_nonce_admin_script_def decode_tiered_mint_script_def
  decode_unfreeze_account_script_def decode_update_diem_version_script_def
  decode_update_dual_attestation_limit_script_def decode_update_exchange_rate_script_def
  decode_update_minting_ability_script_def

section \<open>Decoding inverts encoding\<close>

text \<open>The codes differ in their length or in the sum of their bytes.\<close>

definition fingerprint :: "u8 list \<Rightarrow> nat" where
  "fingerprint code = length code * 65536 + fold (\<lambda>x n. unat x + n) code 0"

lemma script_fingerprints:
  "fingerprint ADD_CURRENCY_TO_ACCOUNT_CODE = 6229028"
  "fingerprint ADD_RECOVERY_ROTATION_CAPABILITY_CODE = 12856709"
  "fingerprint ADD_VALIDATOR_AND_RECONFIGURE_CODE = 14428081"
  "fingerprint BURN_CODE = 9180284"
  "fingerprint BURN_TXN_FEES_CODE = 6229044"
  "fingerprint CANCEL_BURN_CODE = 6359999"
  "fingerprint CREATE_CHILD_VASP_ACCOUNT_CODE = 19871682"
  "fingerprint CREATE_DESIGNATED_DEALER_CODE = 12001311"
  "fingerprint CREATE_PARENT_VASP_ACCOUNT_CODE = 12132656"
  "fingerprint CREATE_RECOVERY_ADDRESS_CODE = 11544248"
  "fingerprint CREATE_VALIDATOR_ACCOUNT_CODE = 11083729"
  "fingerprint CREATE_VALIDATOR_OPERATOR_ACCOUNT_CODE = 11674551"
  "fingerprint FREEZE_ACCOUNT_CODE = 9903351"
  "fingerprint PEER_TO_PEER_WITH_METADATA_CODE = 14691060"
  "fingerprint PREBURN_CODE = 13838883"
  "fingerprint PUBLISH_SHARED_ED25519_PUBLIC_KEY_CODE = 6229315"
  "fingerprint REGISTER_VALIDATOR_CONFIG_CODE = 6688042"
  "fingerprint REMOVE_VALIDATOR_AND_RECONFIGURE_CODE = 14625055"
  "fingerprint ROTATE_AUTHENTICATION_KEY_CODE = 14956039"
  "fingerprint ROTATE_AUTHENTICATION_KEY_WITH_NONCE_CODE = 18498659"
  "fingerprint ROTATE_AUTHENTICATION_KEY_WITH_NONCE_ADMIN_CODE = 18629763"
  "fingerprint ROTATE_AUTHENTICATION_KEY_WITH_RECOVERY_ADDRESS_CODE = 7345047"
  "fingerprint ROTATE_DUAL_ATTESTATION_INFO_CODE = 9378686"
  "fingerprint ROTATE_SHARED_ED25519_PUBLIC_KEY_CODE = 6426252"
  "fingerprint SET_VALIDATOR_CONFIG_AND_RECONFIGURE_CODE = 10493439"
  "fingerprint SET_VALIDATOR_OPERATOR_CODE = 11673224"
  "fingerprint SET_VALIDATOR_OPERATOR_WITH_NONCE_ADMIN_CODE = 15346948"
  "fingerprint TIERED_MINT_CODE = 10623625"
  "fingerprint UNFREEZE_ACCOUNT_CODE = 10034656"
  "fingerprint UPDATE_DIEM_VERSION_CODE = 8656509"
  "fingerprint UPDATE_DUAL_ATTESTATION_LIMIT_CODE = 9969408"
  "fingerprint UPDATE_EXCHANGE_RATE_CODE = 14756539"
  "fingerprint UPDATE_MINTING_ABILITY_CODE = 6622627"
  by (simp_all add: fingerprint_def script_code_defs)

lemma script_codes_distinct: "distinct (map fst script_decoder_entries)"
proof -
  have "distinct (map fingerprint (map fst script_decoder_entries))"
    unfolding script_decoder_entries_def list.map fst_conv script_fingerprints by simp
  then show ?thesis by (simp only: distinct_map)
qed

interpretation script_table: decoder_keys script_decoder_entries
  by unfold_locales (rule script_codes_distinct)

lemma script_lookup: "(k, d) \<in> set script_decoder_entries \<Longrightarrow> TRANSACTION_SCRIPT_DECODER_MAP k = Some d"
  unfolding TRANSACTION_SCRIPT_DECODER_MAP_def by (rule script_table.lookup)

lemma script_lookups:
  "TRANSACTION_SCRIPT_DECODER_MAP ADD_CURRENCY_TO_ACCOUNT_CODE = Some decode_add_currency_to_account_script"
  "TRANSACTION_SCRIPT_DECODER_MAP ADD_RECOVERY_ROTATION_CAPABILITY_CODE = Some decode_add_recovery_rotation_capability_script"
  "TRANSACTION_SCRIPT_DECODER_MAP ADD_VALIDATOR_AND_RECONFIGURE_CODE = Some decode_add_validator_and_reconfigure_script"
  "TRANSACTION_SCRIPT_DECODER_MAP BURN_CODE = Some decode_burn_script"
  "TRANSACTION_SCRIPT_DECODER_MAP BURN_TXN_FEES_CODE = Some decode_burn_txn_fees_script"
  "TRANSACTION_SCRIPT_DECODER_MAP CANCEL_BURN_CODE = Some decode_cancel_burn_script"
  "TRANSACTION_SCRIPT_DECODER_MAP CREATE_CHILD_VASP_ACCOUNT_CODE = Some decode_create_child_vasp_account_script"
  "TRANSACTION_SCRIPT_DECODER_MAP CREATE_DESIGNATED_DEALER_CODE = Some decode_create_designated_dealer_script"
  "TRANSACTION_SCRIPT_DECODER_MAP CREATE_PARENT_VASP_ACCOUNT_CODE = Some decode_create_parent_vasp_account_script"
  "TRANSACTION_SCRIPT_DECODER_MAP CREATE_RECOVERY_ADDRESS_CODE = Some decode_create_recovery_address_script"
  "TRANSACTION_SCRIPT_DECODER_MAP CREATE_VALIDATOR_ACCOUNT_CODE = Some decode_create_validator_account_script"
  "TRANSACTION_SCRIPT_DECODER_MAP CREATE_VALIDATOR_OPERATOR_ACCOUNT_CODE = Some decode_create_validator_operator_account_script"
  "TRANSACTION_SCRIPT_DECODER_MAP FREEZE_ACCOUNT_CODE = Some decode_freeze_account_script"
  "TRANSACTION_SCRIPT_DECODER_MAP PEER_TO_PEER_WITH_METADATA_CODE = Some decode_peer_to_peer_with_metadata_script"
  "TRANSACTION_SCRIPT_DECODER_MAP PREBURN_CODE = Some decode_preburn_script"
  "TRANSACTION_SCRIPT_DECODER_MAP PUBLISH_SHARED_ED25519_PUBLIC_KEY_CODE = Some decode_publish_shared_ed25519_public_key_script"
  "TRANSACTION_SCRIPT_DECODER_MAP REGISTER_VALIDATOR_CONFIG_CODE = Some decode_register_validator_config_script"
  "TRANSACTION_SCRIPT_DECODER_MAP REMOVE_VALIDATOR_AND_RECONFIGURE_CODE = Some decode_remove_validator_and_reconfigure_script"
  "TRANSACTION_SCRIPT_DECODER_MAP ROTATE_AUTHENTICATION_KEY_CODE = Some decode_rotate_authentication_key_script"
  "TRANSACTION_SCRIPT_DECODER_MAP ROTATE_AUTHENTICATION_KEY_WITH_NONCE_CODE = Some decode_rotate_authentication_key_with_nonce_script"
  "TRANSACTION_SCRIPT_DECODER_MAP ROTATE_AUTHENTICATION_KEY_WITH_NONCE_ADMIN_CODE = Some decode_rotate_authentication_key_with_nonce_admin_script"
  "TRANSACTION_SCRIPT_DECODER_MAP ROTATE_AUTHENTICATION_KEY_WITH_RECOVERY_ADDRESS_CODE = Some decode_rotate_authentication_key_with_recovery_address_script"
  "TRANSACTION_SCRIPT_DECODER_MAP ROTATE_DUAL_ATTESTATION_INFO_CODE = Some decode_rotate_dual_attestation_info_script"
  "TRANSACTION_SCRIPT_DECODER_MAP ROTATE_SHARED_ED25519_PUBLIC_KEY_CODE = Some decode_rotate_shared_ed25519_public_key_script"
  "TRANSACTION_SCRIPT_DECODER_MAP SET_VALIDATOR_CONFIG_AND_RECONFIGURE_CODE = Some decode_set_validator_config_and_reconfigure_script"
  "TRANSACTION_SCRIPT_DECODER_MAP SET_VALIDATOR_OPERATOR_CODE = Some decode_set_validator_operator_script"
  "TRANSACTION_SCRIPT_DECODER_MAP SET_VALIDATOR_OPERATOR_WITH_NONCE_ADMIN_CODE = Some decode_set_validator_operator_with_nonce_admin_script"
  "TRANSACTION_SCRIPT_DECODER_MAP TIERED_MINT_CODE = Some decode_tiered_mint_script"
  "TRANSACTION_SCRIPT_DECODER_MAP UNFREEZE_ACCOUNT_CODE = Some decode_unfreeze_account_script"
  "TRANSACTION_SCRIPT_DECODER_MAP UPDATE_DIEM_VERSION_CODE = Some decode_update_diem_version_script"
  "TRANSACTION_SCRIPT_DECODER_MAP UPDATE_DUAL_ATTESTATION_LIMIT_CODE = Some decode_update_dual_attestation_limit_script"
  "TRANSACTION_SCRIPT_DECODER_MAP UPDATE_EXCHANGE_RATE_CODE = Some decode_update_exchange_rate_script"
  "TRANSACTION_SCRIPT_DECODER_MAP UPDATE_MINTING_ABILITY_CODE = Some decode_update_minting_ability_script"
  by (rule script_lookup, unfold script_decoder_entries_def, (rule list.set_intros(1) | rule list.set_intros(2))+)+

text \<open>The scripts of the version five releases are told apart by their code alone: the 33 codes are pairwise
  different, decoding the script of a call gives back exactly the call, and so two calls never have
  the same script.\<close>

theorem scripts_roundtrip:
  "decode_script (encode_script c) = Some c \<and> distinct (map fst script_decoder_entries) \<and> inj encode_script"
proof -
  have *: "decode_script (encode_script c) = Some c" for c
    by (cases c) (simp_all add: decode_script_def script_builder_defs script_lookups script_decoder_defs script_simps)
  then have "inj encode_script" by (intro injI) (metis option.inject)
  with * script_codes_distinct show ?thesis by blast
qed

end
