(* ===== verification/Framework_Sdk.thy ===== *)
theory Framework_Sdk
  imports Entry_Function
begin

text \<open>
  The transaction builders of the framework
  (\<^verbatim>\<open>framework/cached-packages/src/libra_framework_sdk_builder.rs\<close>): the structured calls
  \<open>EntryFunctionCall\<close>, one builder per entry function of the framework, the function \<open>encode\<close> that maps a
  call to its builder, one decoder per entry function, the table of decoders and \<open>decode\<close>. Serialization
  is the parameter \<open>b\<close> of codecs; a serialization failure is unwrapped by the builders and panics. The
  decoders of the module \<^verbatim>\<open>decoder\<close> have the prefix \<open>decode_\<close> here. The lemmas show that decoding inverts
  encoding for every call, that every call goes to the framework address, and what \<open>decode\<close> ignores.
\<close>

section \<open>Calls\<close>

datatype (plugins only: extraction) EntryFunctionCall =
    AccountOfferRotationCapability "u8 list" u8 "u8 list" AccountAddress
  | AccountOfferSignerCapability "u8 list" u8 "u8 list" AccountAddress
  | AccountRevokeAnyRotationCapability
  | AccountRevokeAnySignerCapability
  | AccountRevokeRotationCapability AccountAddress
  | AccountRevokeSignerCapability AccountAddress
  | AccountRotateAuthenticationKey u8 "u8 list" u8 "u8 list" "u8 list" "u8 list"
  | AccountRotateAuthenticationKeyWithRotationCapability AccountAddress u8 "u8 list" "u8 list"
  | BurnSetSendCommunity bool
  | CodePublishPackageTxn "u8 list" "u8 list list"
  | CoinTransfer TypeTag AccountAddress u64
  | CommunityWalletInitChangeSignerCommunityMultisig AccountAddress AccountAddress bool u64 u64
  | CommunityWalletInitFinalizeAndCage u64
  | CommunityWalletInitInitCommunity "AccountAddress list" u64
  | CommunityWalletInitProposeOffer "AccountAddress list" u64
  | DiemGovernanceAddApprovedScriptHashScript u64
  | DiemGovernanceAssertCanResolve u64
  | DiemGovernanceCreateProposalV2 "u8 list" "u8 list" "u8 list" bool
  | DiemGovernanceOlCreateProposalV2 "u8 list" "u8 list" "u8 list" bool
  | DiemGovernanceOlVote u64 bool
  | DiemGovernanceSmokeTriggerEpoch
  | DiemGovernanceTriggerEpoch
  | DiemGovernanceVote u64 bool
  | DonorVoiceTxsProposeLiquidateTx AccountAddress
  | DonorVoiceTxsProposePaymentTx AccountAddress AccountAddress u64 "u8 list"
  | DonorVoiceTxsProposeVetoTx AccountAddress u64
  | DonorVoiceTxsVoteLiquidationTx AccountAddress
  | DonorVoiceTxsVoteVetoTx AccountAddress u64
  | EpochBoundarySmokeTriggerEpoch
  | JailUnjailByVoucher AccountAddress
  | LibraCoinClaimMintCapability
  | LibraCoinDelegateMintCapability AccountAddress
  | LibraCoinMintToImpl AccountAddress u64
  | MultiActionClaimOffer AccountAddress
  | MultiActionInitGovDeprecated
  | MultiActionMigrationMigrateOffer AccountAddress
  | MultisigAccountAddOwner AccountAddress
  | MultisigAccountAddOwners "AccountAddress list"
  | MultisigAccountApproveTransaction AccountAddress u64
  | MultisigAccountCreate u64 "u8 list list" "u8 list list"
  | MultisigAccountCreateTransaction AccountAddress "u8 list"
  | MultisigAccountCreateTransactionWithHash AccountAddress "u8 list"
  | MultisigAccountCreateWithExistingAccount AccountAddress "AccountAddress list" u64 u8 "u8 list" "u8 list" "u8 list list" "u8 list list"
  | MultisigAccountCreateWithOwners "AccountAddress list" u64 "u8 list list" "u8 list list"
  | MultisigAccountExecuteRejectedTransaction AccountAddress
  | MultisigAccountMigrateWithOwners "AccountAddress list" u64 "u8 list list" "u8 list list"
  | MultisigAccountRejectTransaction AccountAddress u64
  | MultisigAccountRemoveOwner AccountAddress
  | MultisigAccountRemoveOwners "AccountAddress list"
  | MultisigAccountUpdateMetadata "u8 list list" "u8 list list"
  | MultisigAccountUpdateSignaturesRequired u64
  | MultisigAccountVoteTransanction AccountAddress u64 bool
  | ObjectTransferCall AccountAddress AccountAddress
  | OlAccountCreateAccount AccountAddress
  | OlAccountSetAllowDirectCoinTransfers bool
  | OlAccountTransfer AccountAddress u64
  | ProofOfFeeInitBidding
  | ProofOfFeePofRetractBid
  | ProofOfFeePofUpdateBid u64 u64
  | ProofOfFeePofUpdateBidNetReward u64 u64
  | SafeInitPaymentMultisig "AccountAddress list"
  | SlowWalletSmokeTestVmUnlock AccountAddress u64 u64
  | SlowWalletUserSetSlow
  | StakeInitializeValidator "u8 list" "u8 list" "u8 list" "u8 list"
  | StakeRotateConsensusKey AccountAddress "u8 list" "u8 list"
  | StakeUpdateNetworkAndFullnodeAddresses AccountAddress "u8 list" "u8 list"
  | ValidatorUniverseRegisterValidator "u8 list" "u8 list" "u8 list" "u8 list"
  | VersionSetVersion u64
  | VouchInsistVouchFor AccountAddress
  | VouchRevoke AccountAddress
  | VouchVouchFor AccountAddress

section \<open>Builders\<close>

definition account_offer_rotation_capability ::
  "bcs \<Rightarrow> u8 list \<Rightarrow> u8 \<Rightarrow> u8 list \<Rightarrow> AccountAddress \<Rightarrow> TransactionPayload result" where
  "account_offer_rotation_capability b rotation_capability_sig_bytes account_scheme account_public_key_bytes recipient_address =
     framework_call ''account'' ''offer_rotation_capability'' []
       [to_bytes (bcs_bytes b) rotation_capability_sig_bytes,
        to_bytes (bcs_u8 b) account_scheme,
        to_bytes (bcs_bytes b) account_public_key_bytes,
        to_bytes (bcs_address b) recipient_address]"

definition account_offer_signer_capability ::
  "bcs \<Rightarrow> u8 list \<Rightarrow> u8 \<Rightarrow> u8 list \<Rightarrow> AccountAddress \<Rightarrow> TransactionPayload result" where
  "account_offer_signer_capability b signer_capability_sig_bytes account_scheme account_public_key_bytes recipient_address =
     framework_call ''account'' ''offer_signer_capability'' []
       [to_bytes (bcs_bytes b) signer_capability_sig_bytes,
        to_bytes (bcs_u8 b) account_scheme,
        to_bytes (bcs_bytes b) account_public_key_bytes,
        to_bytes (bcs_address b) recipient_address]"

definition account_revoke_any_rotation_capability ::
  "bcs \<Rightarrow> TransactionPayload result" where
  "account_revoke_any_rotation_capability b =
     framework_call ''account'' ''revoke_any_rotation_capability'' [] []"

definition account_revoke_any_signer_capability ::
  "bcs \<Rightarrow> TransactionPayload result" where
  "account_revoke_any_signer_capability b =
     framework_call ''account'' ''revoke_any_signer_capability'' [] []"

definition account_revoke_rotation_capability ::
  "bcs \<Rightarrow> AccountAddress \<Rightarrow> TransactionPayload result" where
  "account_revoke_rotation_capability b to_be_revoked_address =
     framework_call ''account'' ''revoke_rotation_capability'' []
       [to_bytes (bcs_address b) to_be_revoked_address]"

definition account_revoke_signer_capability ::
  "bcs \<Rightarrow> AccountAddress \<Rightarrow> TransactionPayload result" where
  "account_revoke_signer_capability b to_be_revoked_address =
     framework_call ''account'' ''revoke_signer_capability'' []
       [to_bytes (bcs_address b) to_be_revoked_address]"

definition account_rotate_authentication_key ::
  "bcs \<Rightarrow> u8 \<Rightarrow> u8 list \<Rightarrow> u8 \<Rightarrow> u8 list \<Rightarrow> u8 list \<Rightarrow> u8 list \<Rightarrow> TransactionPayload result" where
  "account_rotate_authentication_key b from_scheme from_public_key_bytes to_scheme to_public_key_bytes cap_rotate_key cap_update_table =
     framework_call ''account'' ''rotate_authentication_key'' []
       [to_bytes (bcs_u8 b) from_scheme,
        to_bytes (bcs_bytes b) from_public_key_bytes,
        to_bytes (bcs_u8 b) to_scheme,
        to_bytes (bcs_bytes b) to_public_key_bytes,
        to_bytes (bcs_bytes b) cap_rotate_key,
        to_bytes (bcs_bytes b) cap_update_table]"

definition account_rotate_authentication_key_with_rotation_capability ::
  "bcs \<Rightarrow> AccountAddress \<Rightarrow> u8 \<Rightarrow> u8 list \<Rightarrow> u8 list \<Rightarrow> TransactionPayload result" where
  "account_rotate_authentication_key_with_rotation_capability b rotation_cap_offerer_address new_scheme new_public_key_bytes cap_update_table =
     framework_call ''account'' ''rotate_authentication_key_with_rotation_capability'' []
       [to_bytes (bcs_address b) rotation_cap_offerer_address,
        to_bytes (bcs_u8 b) new_scheme,
        to_bytes (bcs_bytes b) new_public_key_bytes,
        to_bytes (bcs_bytes b) cap_update_table]"

definition burn_set_send_community ::
  "bcs \<Rightarrow> bool \<Rightarrow> TransactionPayload result" where
  "burn_set_send_community b community =
     framework_call ''burn'' ''set_send_community'' [] [to_bytes (bcs_bool b) community]"

definition code_publish_package_txn ::
  "bcs \<Rightarrow> u8 list \<Rightarrow> u8 list list \<Rightarrow> TransactionPayload result" where
  "code_publish_package_txn b metadata_serialized code_arg =
     framework_call ''code'' ''publish_package_txn'' []
       [to_bytes (bcs_bytes b) metadata_serialized,
        to_bytes (bcs_bytes_vec b) code_arg]"

definition coin_transfer ::
  "bcs \<Rightarrow> TypeTag \<Rightarrow> AccountAddress \<Rightarrow> u64 \<Rightarrow> TransactionPayload result" where
  "coin_transfer b coin_type to_arg amount =
     framework_call ''coin'' ''transfer'' [coin_type]
       [to_bytes (bcs_address b) to_arg,
        to_bytes (bcs_u64 b) amount]"

definition community_wallet_init_change_signer_community_multisig ::
  "bcs \<Rightarrow> AccountAddress \<Rightarrow> AccountAddress \<Rightarrow> bool \<Rightarrow> u64 \<Rightarrow> u64 \<Rightarrow> TransactionPayload result" where
  "community_wallet_init_change_signer_community_multisig b multisig_address new_signer is_add_operation n_of_m vote_duration_epochs =
     framework_call ''community_wallet_init'' ''change_signer_community_multisig'' []
       [to_bytes (bcs_address b) multisig_address,
        to_bytes (bcs_address b) new_signer,
        to_bytes (bcs_bool b) is_add_operation,
        to_bytes (bcs_u64 b) n_of_m,
        to_bytes (bcs_u64 b) vote_duration_epochs]"

definition community_wallet_init_finalize_and_cage ::
  "bcs \<Rightarrow> u64 \<Rightarrow> TransactionPayload result" where
  "community_wallet_init_finalize_and_cage b num_signers =
     framework_call ''community_wallet_init'' ''finalize_and_cage'' [] [to_bytes (bcs_u64 b) num_signers]"

definition community_wallet_init_init_community ::
  "bcs \<Rightarrow> AccountAddress list \<Rightarrow> u64 \<Rightarrow> TransactionPayload result" where
  "community_wallet_init_init_community b initial_authorities check_threshold =
     framework_call ''community_wallet_init'' ''init_community'' []
       [to_bytes (bcs_addresses b) initial_authorities,
        to_bytes (bcs_u64 b) check_threshold]"

definition community_wallet_init_propose_offer ::
  "bcs \<Rightarrow> AccountAddress list \<Rightarrow> u64 \<Rightarrow> TransactionPayload result" where
  "community_wallet_init_propose_offer b new_signers num_signers =
     framework_call ''community_wallet_init'' ''propose_offer'' []
       [to_bytes (bcs_addresses b) new_signers,
        to_bytes (bcs_u64 b) num_signers]"

definition diem_governance_add_approved_script_hash_script ::
  "bcs \<Rightarrow> u64 \<Rightarrow> TransactionPayload result" where
  "diem_governance_add_approved_script_hash_script b proposal_id =
     framework_call ''diem_governance'' ''add_approved_script_hash_script'' []
       [to_bytes (bcs_u64 b) proposal_id]"

definition diem_governance_assert_can_resolve ::
  "bcs \<Rightarrow> u64 \<Rightarrow> TransactionPayload result" where
  "diem_governance_assert_can_resolve b proposal_id =
     framework_call ''diem_governance'' ''assert_can_resolve'' [] [to_bytes (bcs_u64 b) proposal_id]"

definition diem_governance_create_proposal_v2 ::
  "bcs \<Rightarrow> u8 list \<Rightarrow> u8 list \<Rightarrow> u8 list \<Rightarrow> bool \<Rightarrow> TransactionPayload result" where
  "diem_governance_create_proposal_v2 b execution_hash metadata_location metadata_hash is_multi_step_proposal =
     framework_call ''diem_governance'' ''create_proposal_v2'' []
       [to_bytes (bcs_bytes b) execution_hash,
        to_bytes (bcs_bytes b) metadata_location,
        to_bytes (bcs_bytes b) metadata_hash,
        to_bytes (bcs_bool b) is_multi_step_proposal]"

definition diem_governance_ol_create_proposal_v2 ::
  "bcs \<Rightarrow> u8 list \<Rightarrow> u8 list \<Rightarrow> u8 list \<Rightarrow> bool \<Rightarrow> TransactionPayload result" where
  "diem_governance_ol_create_proposal_v2 b execution_hash metadata_location metadata_hash is_multi_step_proposal =
     framework_call ''diem_governance'' ''ol_create_proposal_v2'' []
       [to_bytes (bcs_bytes b) execution_hash,
        to_bytes (bcs_bytes b) metadata_location,
        to_bytes (bcs_bytes b) metadata_hash,
        to_bytes (bcs_bool b) is_multi_step_proposal]"

definition diem_governance_ol_vote ::
  "bcs \<Rightarrow> u64 \<Rightarrow> bool \<Rightarrow> TransactionPayload result" where
  "diem_governance_ol_vote b proposal_id should_pass =
     framework_call ''diem_governance'' ''ol_vote'' []
       [to_bytes (bcs_u64 b) proposal_id,
        to_bytes (bcs_bool b) should_pass]"

definition diem_governance_smoke_trigger_epoch ::
  "bcs \<Rightarrow> TransactionPayload result" where
  "diem_governance_smoke_trigger_epoch b =
     framework_call ''diem_governance'' ''smoke_trigger_epoch'' [] []"

definition diem_governance_trigger_epoch ::
  "bcs \<Rightarrow> TransactionPayload result" where
  "diem_governance_trigger_epoch b =
     framework_call ''diem_governance'' ''trigger_epoch'' [] []"

definition diem_governance_vote ::
  "bcs \<Rightarrow> u64 \<Rightarrow> bool \<Rightarrow> TransactionPayload result" where
  "diem_governance_vote b proposal_id should_pass =
     framework_call ''diem_governance'' ''vote'' []
       [to_bytes (bcs_u64 b) proposal_id,
        to_bytes (bcs_bool b) should_pass]"

definition donor_voice_txs_propose_liquidate_tx ::
  "bcs \<Rightarrow> AccountAddress \<Rightarrow> TransactionPayload result" where
  "donor_voice_txs_propose_liquidate_tx b multisig_address =
     framework_call ''donor_voice_txs'' ''propose_liquidate_tx'' []
       [to_bytes (bcs_address b) multisig_address]"

definition donor_voice_txs_propose_payment_tx ::
  "bcs \<Rightarrow> AccountAddress \<Rightarrow> AccountAddress \<Rightarrow> u64 \<Rightarrow> u8 list \<Rightarrow> TransactionPayload result" where
  "donor_voice_txs_propose_payment_tx b multisig_address payee value description =
     framework_call ''donor_voice_txs'' ''propose_payment_tx'' []
       [to_bytes (bcs_address b) multisig_address,
        to_bytes (bcs_address b) payee,
        to_bytes (bcs_u64 b) value,
        to_bytes (bcs_bytes b) description]"

definition donor_voice_txs_propose_veto_tx ::
  "bcs \<Rightarrow> AccountAddress \<Rightarrow> u64 \<Rightarrow> TransactionPayload result" where
  "donor_voice_txs_propose_veto_tx b multisig_address id_arg =
     framework_call ''donor_voice_txs'' ''propose_veto_tx'' []
       [to_bytes (bcs_address b) multisig_address,
        to_bytes (bcs_u64 b) id_arg]"

definition donor_voice_txs_vote_liquidation_tx ::
  "bcs \<Rightarrow> AccountAddress \<Rightarrow> TransactionPayload result" where
  "donor_voice_txs_vote_liquidation_tx b multisig_address =
     framework_call ''donor_voice_txs'' ''vote_liquidation_tx'' []
       [to_bytes (bcs_address b) multisig_address]"

definition donor_voice_txs_vote_veto_tx ::
  "bcs \<Rightarrow> AccountAddress \<Rightarrow> u64 \<Rightarrow> TransactionPayload result" where
  "donor_voice_txs_vote_veto_tx b multisig_address id_arg =
     framework_call ''donor_voice_txs'' ''vote_veto_tx'' []
       [to_bytes (bcs_address b) multisig_address,
        to_bytes (bcs_u64 b) id_arg]"

definition epoch_boundary_smoke_trigger_epoch ::
  "bcs \<Rightarrow> TransactionPayload result" where
  "epoch_boundary_smoke_trigger_epoch b =
     framework_call ''epoch_boundary'' ''smoke_trigger_epoch'' [] []"

definition jail_unjail_by_voucher ::
  "bcs \<Rightarrow> AccountAddress \<Rightarrow> TransactionPayload result" where
  "jail_unjail_by_voucher b addr =
     framework_call ''jail'' ''unjail_by_voucher'' [] [to_bytes (bcs_address b) addr]"

definition libra_coin_claim_mint_capability ::
  "bcs \<Rightarrow> TransactionPayload result" where
  "libra_coin_claim_mint_capability b =
     framework_call ''libra_coin'' ''claim_mint_capability'' [] []"

definition libra_coin_delegate_mint_capability ::
  "bcs \<Rightarrow> AccountAddress \<Rightarrow> TransactionPayload result" where
  "libra_coin_delegate_mint_capability b to_arg =
     framework_call ''libra_coin'' ''delegate_mint_capability'' [] [to_bytes (bcs_address b) to_arg]"

definition libra_coin_mint_to_impl ::
  "bcs \<Rightarrow> AccountAddress \<Rightarrow> u64 \<Rightarrow> TransactionPayload result" where
  "libra_coin_mint_to_impl b dst_addr amount =
     framework_call ''libra_coin'' ''mint_to_impl'' []
       [to_bytes (bcs_address b) dst_addr,
        to_bytes (bcs_u64 b) amount]"

definition multi_action_claim_offer ::
  "bcs \<Rightarrow> AccountAddress \<Rightarrow> TransactionPayload result" where
  "multi_action_claim_offer b multisig_address =
     framework_call ''multi_action'' ''claim_offer'' [] [to_bytes (bcs_address b) multisig_address]"

definition multi_action_init_gov_deprecated ::
  "bcs \<Rightarrow> TransactionPayload result" where
  "multi_action_init_gov_deprecated b =
     framework_call ''multi_action'' ''init_gov_deprecated'' [] []"

definition multi_action_migration_migrate_offer ::
  "bcs \<Rightarrow> AccountAddress \<Rightarrow> TransactionPayload result" where
  "multi_action_migration_migrate_offer b multisig_address =
     framework_call ''multi_action_migration'' ''migrate_offer'' []
       [to_bytes (bcs_address b) multisig_address]"

definition multisig_account_add_owner ::
  "bcs \<Rightarrow> AccountAddress \<Rightarrow> TransactionPayload result" where
  "multisig_account_add_owner b new_owner =
     framework_call ''multisig_account'' ''add_owner'' [] [to_bytes (bcs_address b) new_owner]"

definition multisig_account_add_owners ::
  "bcs \<Rightarrow> AccountAddress list \<Rightarrow> TransactionPayload result" where
  "multisig_account_add_owners b new_owners =
     framework_call ''multisig_account'' ''add_owners'' [] [to_bytes (bcs_addresses b) new_owners]"

definition multisig_account_approve_transaction ::
  "bcs \<Rightarrow> AccountAddress \<Rightarrow> u64 \<Rightarrow> TransactionPayload result" where
  "multisig_account_approve_transaction b multisig_account sequence_number =
     framework_call ''multisig_account'' ''approve_transaction'' []
       [to_bytes (bcs_address b) multisig_account,
        to_bytes (bcs_u64 b) sequence_number]"

definition multisig_account_create ::
  "bcs \<Rightarrow> u64 \<Rightarrow> u8 list list \<Rightarrow> u8 list list \<Rightarrow> TransactionPayload result" where
  "multisig_account_create b num_signatures_required metadata_keys metadata_values =
     framework_call ''multisig_account'' ''create'' []
       [to_bytes (bcs_u64 b) num_signatures_required,
        to_bytes (bcs_bytes_vec b) metadata_keys,
        to_bytes (bcs_bytes_vec b) metadata_values]"

definition multisig_account_create_transaction ::
  "bcs \<Rightarrow> AccountAddress \<Rightarrow> u8 list \<Rightarrow> TransactionPayload result" where
  "multisig_account_create_transaction b multisig_account payload_arg =
     framework_call ''multisig_account'' ''create_transaction'' []
       [to_bytes (bcs_address b) multisig_account,
        to_bytes (bcs_bytes b) payload_arg]"

definition multisig_account_create_transaction_with_hash ::
  "bcs \<Rightarrow> AccountAddress \<Rightarrow> u8 list \<Rightarrow> TransactionPayload result" where
  "multisig_account_create_transaction_with_hash b multisig_account payload_hash =
     framework_call ''multisig_account'' ''create_transaction_with_hash'' []
       [to_bytes (bcs_address b) multisig_account,
        to_bytes (bcs_bytes b) payload_hash]"

definition multisig_account_create_with_existing_account ::
  "bcs \<Rightarrow> AccountAddress \<Rightarrow> AccountAddress list \<Rightarrow> u64 \<Rightarrow> u8 \<Rightarrow> u8 list \<Rightarrow> u8 list \<Rightarrow> u8 list list \<Rightarrow> u8 list list \<Rightarrow> TransactionPayload result" where
  "multisig_account_create_with_existing_account b multisig_address owners num_signatures_required account_scheme account_public_key create_multisig_account_signed_message metadata_keys metadata_values =
     framework_call ''multisig_account'' ''create_with_existing_account'' []
       [to_bytes (bcs_address b) multisig_address,
        to_bytes (bcs_addresses b) owners,
        to_bytes (bcs_u64 b) num_signatures_required,
        to_bytes (bcs_u8 b) account_scheme,
        to_bytes (bcs_bytes b) account_public_key,
        to_bytes (bcs_bytes b) create_multisig_account_signed_message,
        to_bytes (bcs_bytes_vec b) metadata_keys,
        to_bytes (bcs_bytes_vec b) metadata_values]"

definition multisig_account_create_with_owners ::
  "bcs \<Rightarrow> AccountAddress list \<Rightarrow> u64 \<Rightarrow> u8 list list \<Rightarrow> u8 list list \<Rightarrow> TransactionPayload result" where
  "multisig_account_create_with_owners b additional_owners num_signatures_required metadata_keys metadata_values =
     framework_call ''multisig_account'' ''create_with_owners'' []
       [to_bytes (bcs_addresses b) additional_owners,
        to_bytes (bcs_u64 b) num_signatures_required,
        to_bytes (bcs_bytes_vec b) metadata_keys,
        to_bytes (bcs_bytes_vec b) metadata_values]"

definition multisig_account_execute_rejected_transaction ::
  "bcs \<Rightarrow> AccountAddress \<Rightarrow> TransactionPayload result" where
  "multisig_account_execute_rejected_transaction b multisig_account =
     framework_call ''multisig_account'' ''execute_rejected_transaction'' []
       [to_bytes (bcs_address b) multisig_account]"

definition multisig_account_migrate_with_owners ::
  "bcs \<Rightarrow> AccountAddress list \<Rightarrow> u64 \<Rightarrow> u8 list list \<Rightarrow> u8 list list \<Rightarrow> TransactionPayload result" where
  "multisig_account_migrate_with_owners b additional_owners num_signatures_required metadata_keys metadata_values =
     framework_call ''multisig_account'' ''migrate_with_owners'' []
       [to_bytes (bcs_addresses b) additional_owners,
        to_bytes (bcs_u64 b) num_signatures_required,
        to_bytes (bcs_bytes_vec b) metadata_keys,
        to_bytes (bcs_bytes_vec b) metadata_values]"

definition multisig_account_reject_transaction ::
  "bcs \<Rightarrow> AccountAddress \<Rightarrow> u64 \<Rightarrow> TransactionPayload result" where
  "multisig_account_reject_transaction b multisig_account sequence_number =
     framework_call ''multisig_account'' ''reject_transaction'' []
       [to_bytes (bcs_address b) multisig_account,
        to_bytes (bcs_u64 b) sequence_number]"

definition multisig_account_remove_owner ::
  "bcs \<Rightarrow> AccountAddress \<Rightarrow> TransactionPayload result" where
  "multisig_account_remove_owner b owner_to_remove =
     framework_call ''multisig_account'' ''remove_owner'' [] [to_bytes (bcs_address b) owner_to_remove]"

definition multisig_account_remove_owners ::
  "bcs \<Rightarrow> AccountAddress list \<Rightarrow> TransactionPayload result" where
  "multisig_account_remove_owners b owners_to_remove =
     framework_call ''multisig_account'' ''remove_owners'' [] [to_bytes (bcs_addresses b) owners_to_remove]"

definition multisig_account_update_metadata ::
  "bcs \<Rightarrow> u8 list list \<Rightarrow> u8 list list \<Rightarrow> TransactionPayload result" where
  "multisig_account_update_metadata b keys values =
     framework_call ''multisig_account'' ''update_metadata'' []
       [to_bytes (bcs_bytes_vec b) keys,
        to_bytes (bcs_bytes_vec b) values]"

definition multisig_account_update_signatures_required ::
  "bcs \<Rightarrow> u64 \<Rightarrow> TransactionPayload result" where
  "multisig_account_update_signatures_required b new_num_signatures_required =
     framework_call ''multisig_account'' ''update_signatures_required'' []
       [to_bytes (bcs_u64 b) new_num_signatures_required]"

definition multisig_account_vote_transanction ::
  "bcs \<Rightarrow> AccountAddress \<Rightarrow> u64 \<Rightarrow> bool \<Rightarrow> TransactionPayload result" where
  "multisig_account_vote_transanction b multisig_account sequence_number approved =
     framework_call ''multisig_account'' ''vote_transanction'' []
       [to_bytes (bcs_address b) multisig_account,
        to_bytes (bcs_u64 b) sequence_number,
        to_bytes (bcs_bool b) approved]"

definition object_transfer_call ::
  "bcs \<Rightarrow> AccountAddress \<Rightarrow> AccountAddress \<Rightarrow> TransactionPayload result" where
  "object_transfer_call b object to_arg =
     framework_call ''object'' ''transfer_call'' []
       [to_bytes (bcs_address b) object,
        to_bytes (bcs_address b) to_arg]"

definition ol_account_create_account ::
  "bcs \<Rightarrow> AccountAddress \<Rightarrow> TransactionPayload result" where
  "ol_account_create_account b auth_key =
     framework_call ''ol_account'' ''create_account'' [] [to_bytes (bcs_address b) auth_key]"

definition ol_account_set_allow_direct_coin_transfers ::
  "bcs \<Rightarrow> bool \<Rightarrow> TransactionPayload result" where
  "ol_account_set_allow_direct_coin_transfers b allow =
     framework_call ''ol_account'' ''set_allow_direct_coin_transfers'' [] [to_bytes (bcs_bool b) allow]"

definition ol_account_transfer ::
  "bcs \<Rightarrow> AccountAddress \<Rightarrow> u64 \<Rightarrow> TransactionPayload result" where
  "ol_account_transfer b to_arg amount =
     framework_call ''ol_account'' ''transfer'' []
       [to_bytes (bcs_address b) to_arg,
        to_bytes (bcs_u64 b) amount]"

definition proof_of_fee_init_bidding ::
  "bcs \<Rightarrow> TransactionPayload result" where
  "proof_of_fee_init_bidding b =
     framework_call ''proof_of_fee'' ''init_bidding'' [] []"

definition proof_of_fee_pof_retract_bid ::
  "bcs \<Rightarrow> TransactionPayload result" where
  "proof_of_fee_pof_retract_bid b =
     framework_call ''proof_of_fee'' ''pof_retract_bid'' [] []"

definition proof_of_fee_pof_update_bid ::
  "bcs \<Rightarrow> u64 \<Rightarrow> u64 \<Rightarrow> TransactionPayload result" where
  "proof_of_fee_pof_update_bid b bid epoch_expiry =
     framework_call ''proof_of_fee'' ''pof_update_bid'' []
       [to_bytes (bcs_u64 b) bid,
        to_bytes (bcs_u64 b) epoch_expiry]"

definition proof_of_fee_pof_update_bid_net_reward ::
  "bcs \<Rightarrow> u64 \<Rightarrow> u64 \<Rightarrow> TransactionPayload result" where
  "proof_of_fee_pof_update_bid_net_reward b net_reward epoch_expiry =
     framework_call ''proof_of_fee'' ''pof_update_bid_net_reward'' []
       [to_bytes (bcs_u64 b) net_reward,
        to_bytes (bcs_u64 b) epoch_expiry]"

definition safe_init_payment_multisig ::
  "bcs \<Rightarrow> AccountAddress list \<Rightarrow> TransactionPayload result" where
  "safe_init_payment_multisig b authorities =
     framework_call ''safe'' ''init_payment_multisig'' [] [to_bytes (bcs_addresses b) authorities]"

definition slow_wallet_smoke_test_vm_unlock ::
  "bcs \<Rightarrow> AccountAddress \<Rightarrow> u64 \<Rightarrow> u64 \<Rightarrow> TransactionPayload result" where
  "slow_wallet_smoke_test_vm_unlock b user_addr unlocked transferred =
     framework_call ''slow_wallet'' ''smoke_test_vm_unlock'' []
       [to_bytes (bcs_address b) user_addr,
        to_bytes (bcs_u64 b) unlocked,
        to_bytes (bcs_u64 b) transferred]"

definition slow_wallet_user_set_slow ::
  "bcs \<Rightarrow> TransactionPayload result" where
  "slow_wallet_user_set_slow b =
     framework_call ''slow_wallet'' ''user_set_slow'' [] []"

definition stake_initialize_validator ::
  "bcs \<Rightarrow> u8 list \<Rightarrow> u8 list \<Rightarrow> u8 list \<Rightarrow> u8 list \<Rightarrow> TransactionPayload result" where
  "stake_initialize_validator b consensus_pubkey proof_of_possession network_addresses fullnode_addresses =
     framework_call ''stake'' ''initialize_validator'' []
       [to_bytes (bcs_bytes b) consensus_pubkey,
        to_bytes (bcs_bytes b) proof_of_possession,
        to_bytes (bcs_bytes b) network_addresses,
        to_bytes (bcs_bytes b) fullnode_addresses]"

definition stake_rotate_consensus_key ::
  "bcs \<Rightarrow> AccountAddress \<Rightarrow> u8 list \<Rightarrow> u8 list \<Rightarrow> TransactionPayload result" where
  "stake_rotate_consensus_key b validator_address new_consensus_pubkey proof_of_possession =
     framework_call ''stake'' ''rotate_consensus_key'' []
       [to_bytes (bcs_address b) validator_address,
        to_bytes (bcs_bytes b) new_consensus_pubkey,
        to_bytes (bcs_bytes b) proof_of_possession]"

definition stake_update_network_and_fullnode_addresses ::
  "bcs \<Rightarrow> AccountAddress \<Rightarrow> u8 list \<Rightarrow> u8 list \<Rightarrow> TransactionPayload result" where
  "stake_update_network_and_fullnode_addresses b validator_address new_network_addresses new_fullnode_addresses =
     framework_call ''stake'' ''update_network_and_fullnode_addresses'' []
       [to_bytes (bcs_address b) validator_address,
        to_bytes (bcs_bytes b) new_network_addresses,
        to_bytes (bcs_bytes b) new_fullnode_addresses]"

definition validator_universe_register_validator ::
  "bcs \<Rightarrow> u8 list \<Rightarrow> u8 list \<Rightarrow> u8 list \<Rightarrow> u8 list \<Rightarrow> TransactionPayload result" where
  "validator_universe_register_validator b consensus_pubkey proof_of_possession network_addresses fullnode_addresses =
     framework_call ''validator_universe'' ''register_validator'' []
       [to_bytes (bcs_bytes b) consensus_pubkey,
        to_bytes (bcs_bytes b) proof_of_possession,
        to_bytes (bcs_bytes b) network_addresses,
        to_bytes (bcs_bytes b) fullnode_addresses]"

definition version_set_version ::
  "bcs \<Rightarrow> u64 \<Rightarrow> TransactionPayload result" where
  "version_set_version b major =
     framework_call ''version'' ''set_version'' [] [to_bytes (bcs_u64 b) major]"

definition vouch_insist_vouch_for ::
  "bcs \<Rightarrow> AccountAddress \<Rightarrow> TransactionPayload result" where
  "vouch_insist_vouch_for b friend_account =
     framework_call ''vouch'' ''insist_vouch_for'' [] [to_bytes (bcs_address b) friend_account]"

definition vouch_revoke ::
  "bcs \<Rightarrow> AccountAddress \<Rightarrow> TransactionPayload result" where
  "vouch_revoke b friend_account =
     framework_call ''vouch'' ''revoke'' [] [to_bytes (bcs_address b) friend_account]"

definition vouch_vouch_for ::
  "bcs \<Rightarrow> AccountAddress \<Rightarrow> TransactionPayload result" where
  "vouch_vouch_for b friend_account =
     framework_call ''vouch'' ''vouch_for'' [] [to_bytes (bcs_address b) friend_account]"

section \<open>Encoding\<close>

primrec encode :: "bcs \<Rightarrow> EntryFunctionCall \<Rightarrow> TransactionPayload result" where
  "encode b (AccountOfferRotationCapability rotation_capability_sig_bytes account_scheme account_public_key_bytes recipient_address) =
     account_offer_rotation_capability b rotation_capability_sig_bytes account_scheme account_public_key_bytes recipient_address"
| "encode b (AccountOfferSignerCapability signer_capability_sig_bytes account_scheme account_public_key_bytes recipient_address) =
     account_offer_signer_capability b signer_capability_sig_bytes account_scheme account_public_key_bytes recipient_address"
| "encode b AccountRevokeAnyRotationCapability = account_revoke_any_rotation_capability b"
| "encode b AccountRevokeAnySignerCapability = account_revoke_any_signer_capability b"
| "encode b (AccountRevokeRotationCapability to_be_revoked_address) =
     account_revoke_rotation_capability b to_be_revoked_address"
| "encode b (AccountRevokeSignerCapability to_be_revoked_address) =
     account_revoke_signer_capability b to_be_revoked_address"
| "encode b (AccountRotateAuthenticationKey from_scheme from_public_key_bytes to_scheme to_public_key_bytes cap_rotate_key cap_update_table) =
     account_rotate_authentication_key b from_scheme from_public_key_bytes to_scheme to_public_key_bytes cap_rotate_key cap_update_table"
| "encode b (AccountRotateAuthenticationKeyWithRotationCapability rotation_cap_offerer_address new_scheme new_public_key_bytes cap_update_table) =
     account_rotate_authentication_key_with_rotation_capability b rotation_cap_offerer_address new_scheme new_public_key_bytes cap_update_table"
| "encode b (BurnSetSendCommunity community) = burn_set_send_community b community"
| "encode b (CodePublishPackageTxn metadata_serialized code_arg) =
     code_publish_package_txn b metadata_serialized code_arg"
| "encode b (CoinTransfer coin_type to_arg amount) = coin_transfer b coin_type to_arg amount"
| "encode b (CommunityWalletInitChangeSignerCommunityMultisig multisig_address new_signer is_add_operation n_of_m vote_duration_epochs) =
     community_wallet_init_change_signer_community_multisig b multisig_address new_signer is_add_operation n_of_m vote_duration_epochs"
| "encode b (CommunityWalletInitFinalizeAndCage num_signers) = community_wallet_init_finalize_and_cage b num_signers"
| "encode b (CommunityWalletInitInitCommunity initial_authorities check_threshold) =
     community_wallet_init_init_community b initial_authorities check_threshold"
| "encode b (CommunityWalletInitProposeOffer new_signers num_signers) =
     community_wallet_init_propose_offer b new_signers num_signers"
| "encode b (DiemGovernanceAddApprovedScriptHashScript proposal_id) =
     diem_governance_add_approved_script_hash_script b proposal_id"
| "encode b (DiemGovernanceAssertCanResolve proposal_id) = diem_governance_assert_can_resolve b proposal_id"
| "encode b (DiemGovernanceCreateProposalV2 execution_hash metadata_location metadata_hash is_multi_step_proposal) =
     diem_governance_create_proposal_v2 b execution_hash metadata_location metadata_hash is_multi_step_proposal"
| "encode b (DiemGovernanceOlCreateProposalV2 execution_hash metadata_location metadata_hash is_multi_step_proposal) =
     diem_governance_ol_create_proposal_v2 b execution_hash metadata_location metadata_hash is_multi_step_proposal"
| "encode b (DiemGovernanceOlVote proposal_id should_pass) = diem_governance_ol_vote b proposal_id should_pass"
| "encode b DiemGovernanceSmokeTriggerEpoch = diem_governance_smoke_trigger_epoch b"
| "encode b DiemGovernanceTriggerEpoch = diem_governance_trigger_epoch b"
| "encode b (DiemGovernanceVote proposal_id should_pass) = diem_governance_vote b proposal_id should_pass"
| "encode b (DonorVoiceTxsProposeLiquidateTx multisig_address) =
     donor_voice_txs_propose_liquidate_tx b multisig_address"
| "encode b (DonorVoiceTxsProposePaymentTx multisig_address payee value description) =
     donor_voice_txs_propose_payment_tx b multisig_address payee value description"
| "encode b (DonorVoiceTxsProposeVetoTx multisig_address id_arg) =
     donor_voice_txs_propose_veto_tx b multisig_address id_arg"
| "encode b (DonorVoiceTxsVoteLiquidationTx multisig_address) =
     donor_voice_txs_vote_liquidation_tx b multisig_address"
| "encode b (DonorVoiceTxsVoteVetoTx multisig_address id_arg) =
     donor_voice_txs_vote_veto_tx b multisig_address id_arg"
| "encode b EpochBoundarySmokeTriggerEpoch = epoch_boundary_smoke_trigger_epoch b"
| "encode b (JailUnjailByVoucher addr) = jail_unjail_by_voucher b addr"
| "encode b LibraCoinClaimMintCapability = libra_coin_claim_mint_capability b"
| "encode b (LibraCoinDelegateMintCapability to_arg) = libra_coin_delegate_mint_capability b to_arg"
| "encode b (LibraCoinMintToImpl dst_addr amount) = libra_coin_mint_to_impl b dst_addr amount"
| "encode b (MultiActionClaimOffer multisig_address) = multi_action_claim_offer b multisig_address"
| "encode b MultiActionInitGovDeprecated = multi_action_init_gov_deprecated b"
| "encode b (MultiActionMigrationMigrateOffer multisig_address) =
     multi_action_migration_migrate_offer b multisig_address"
| "encode b (MultisigAccountAddOwner new_owner) = multisig_account_add_owner b new_owner"
| "encode b (MultisigAccountAddOwners new_owners) = multisig_account_add_owners b new_owners"
| "encode b (MultisigAccountApproveTransaction multisig_account sequence_number) =
     multisig_account_approve_transaction b multisig_account sequence_number"
| "encode b (MultisigAccountCreate num_signatures_required metadata_keys metadata_values) =
     multisig_account_create b num_signatures_required metadata_keys metadata_values"
| "encode b (MultisigAccountCreateTransaction multisig_account payload_arg) =
     multisig_account_create_transaction b multisig_account payload_arg"
| "encode b (MultisigAccountCreateTransactionWithHash multisig_account payload_hash) =
     multisig_account_create_transaction_with_hash b multisig_account payload_hash"
| "encode b (MultisigAccountCreateWithExistingAccount multisig_address owners num_signatures_required account_scheme account_public_key create_multisig_account_signed_message metadata_keys metadata_values) =
     multisig_account_create_with_existing_account b multisig_address owners num_signatures_required account_scheme account_public_key create_multisig_account_signed_message metadata_keys metadata_values"
| "encode b (MultisigAccountCreateWithOwners additional_owners num_signatures_required metadata_keys metadata_values) =
     multisig_account_create_with_owners b additional_owners num_signatures_required metadata_keys metadata_values"
| "encode b (MultisigAccountExecuteRejectedTransaction multisig_account) =
     multisig_account_execute_rejected_transaction b multisig_account"
| "encode b (MultisigAccountMigrateWithOwners additional_owners num_signatures_required metadata_keys metadata_values) =
     multisig_account_migrate_with_owners b additional_owners num_signatures_required metadata_keys metadata_values"
| "encode b (MultisigAccountRejectTransaction multisig_account sequence_number) =
     multisig_account_reject_transaction b multisig_account sequence_number"
| "encode b (MultisigAccountRemoveOwner owner_to_remove) = multisig_account_remove_owner b owner_to_remove"
| "encode b (MultisigAccountRemoveOwners owners_to_remove) = multisig_account_remove_owners b owners_to_remove"
| "encode b (MultisigAccountUpdateMetadata keys values) = multisig_account_update_metadata b keys values"
| "encode b (MultisigAccountUpdateSignaturesRequired new_num_signatures_required) =
     multisig_account_update_signatures_required b new_num_signatures_required"
| "encode b (MultisigAccountVoteTransanction multisig_account sequence_number approved) =
     multisig_account_vote_transanction b multisig_account sequence_number approved"
| "encode b (ObjectTransferCall object to_arg) = object_transfer_call b object to_arg"
| "encode b (OlAccountCreateAccount auth_key) = ol_account_create_account b auth_key"
| "encode b (OlAccountSetAllowDirectCoinTransfers allow) = ol_account_set_allow_direct_coin_transfers b allow"
| "encode b (OlAccountTransfer to_arg amount) = ol_account_transfer b to_arg amount"
| "encode b ProofOfFeeInitBidding = proof_of_fee_init_bidding b"
| "encode b ProofOfFeePofRetractBid = proof_of_fee_pof_retract_bid b"
| "encode b (ProofOfFeePofUpdateBid bid epoch_expiry) = proof_of_fee_pof_update_bid b bid epoch_expiry"
| "encode b (ProofOfFeePofUpdateBidNetReward net_reward epoch_expiry) =
     proof_of_fee_pof_update_bid_net_reward b net_reward epoch_expiry"
| "encode b (SafeInitPaymentMultisig authorities) = safe_init_payment_multisig b authorities"
| "encode b (SlowWalletSmokeTestVmUnlock user_addr unlocked transferred) =
     slow_wallet_smoke_test_vm_unlock b user_addr unlocked transferred"
| "encode b SlowWalletUserSetSlow = slow_wallet_user_set_slow b"
| "encode b (StakeInitializeValidator consensus_pubkey proof_of_possession network_addresses fullnode_addresses) =
     stake_initialize_validator b consensus_pubkey proof_of_possession network_addresses fullnode_addresses"
| "encode b (StakeRotateConsensusKey validator_address new_consensus_pubkey proof_of_possession) =
     stake_rotate_consensus_key b validator_address new_consensus_pubkey proof_of_possession"
| "encode b (StakeUpdateNetworkAndFullnodeAddresses validator_address new_network_addresses new_fullnode_addresses) =
     stake_update_network_and_fullnode_addresses b validator_address new_network_addresses new_fullnode_addresses"
| "encode b (ValidatorUniverseRegisterValidator consensus_pubkey proof_of_possession network_addresses fullnode_addresses) =
     validator_universe_register_validator b consensus_pubkey proof_of_possession network_addresses fullnode_addresses"
| "encode b (VersionSetVersion major) = version_set_version b major"
| "encode b (VouchInsistVouchFor friend_account) = vouch_insist_vouch_for b friend_account"
| "encode b (VouchRevoke friend_account) = vouch_revoke b friend_account"
| "encode b (VouchVouchFor friend_account) = vouch_vouch_for b friend_account"

section \<open>Decoders\<close>

definition decode_account_offer_rotation_capability :: "bcs \<Rightarrow> TransactionPayload \<Rightarrow> EntryFunctionCall option" where
  "decode_account_offer_rotation_capability b = on_script (\<lambda>script.
     Option.bind (arg_at (bcs_bytes b) script 0) (\<lambda>rotation_capability_sig_bytes.
     Option.bind (arg_at (bcs_u8 b) script 1) (\<lambda>account_scheme.
     Option.bind (arg_at (bcs_bytes b) script 2) (\<lambda>account_public_key_bytes.
     Option.bind (arg_at (bcs_address b) script 3) (\<lambda>recipient_address.
     Some (AccountOfferRotationCapability rotation_capability_sig_bytes account_scheme account_public_key_bytes recipient_address))))))"

definition decode_account_offer_signer_capability :: "bcs \<Rightarrow> TransactionPayload \<Rightarrow> EntryFunctionCall option" where
  "decode_account_offer_signer_capability b = on_script (\<lambda>script.
     Option.bind (arg_at (bcs_bytes b) script 0) (\<lambda>signer_capability_sig_bytes.
     Option.bind (arg_at (bcs_u8 b) script 1) (\<lambda>account_scheme.
     Option.bind (arg_at (bcs_bytes b) script 2) (\<lambda>account_public_key_bytes.
     Option.bind (arg_at (bcs_address b) script 3) (\<lambda>recipient_address.
     Some (AccountOfferSignerCapability signer_capability_sig_bytes account_scheme account_public_key_bytes recipient_address))))))"

definition decode_account_revoke_any_rotation_capability :: "bcs \<Rightarrow> TransactionPayload \<Rightarrow> EntryFunctionCall option" where
  "decode_account_revoke_any_rotation_capability b = on_script (\<lambda>script.
     Some AccountRevokeAnyRotationCapability)"

definition decode_account_revoke_any_signer_capability :: "bcs \<Rightarrow> TransactionPayload \<Rightarrow> EntryFunctionCall option" where
  "decode_account_revoke_any_signer_capability b = on_script (\<lambda>script.
     Some AccountRevokeAnySignerCapability)"

definition decode_account_revoke_rotation_capability :: "bcs \<Rightarrow> TransactionPayload \<Rightarrow> EntryFunctionCall option" where
  "decode_account_revoke_rotation_capability b = on_script (\<lambda>script.
     Option.bind (arg_at (bcs_address b) script 0) (\<lambda>to_be_revoked_address.
     Some (AccountRevokeRotationCapability to_be_revoked_address)))"

definition decode_account_revoke_signer_capability :: "bcs \<Rightarrow> TransactionPayload \<Rightarrow> EntryFunctionCall option" where
  "decode_account_revoke_signer_capability b = on_script (\<lambda>script.
     Option.bind (arg_at (bcs_address b) script 0) (\<lambda>to_be_revoked_address.
     Some (AccountRevokeSignerCapability to_be_revoked_address)))"

definition decode_account_rotate_authentication_key :: "bcs \<Rightarrow> TransactionPayload \<Rightarrow> EntryFunctionCall option" where
  "decode_account_rotate_authentication_key b = on_script (\<lambda>script.
     Option.bind (arg_at (bcs_u8 b) script 0) (\<lambda>from_scheme.
     Option.bind (arg_at (bcs_bytes b) script 1) (\<lambda>from_public_key_bytes.
     Option.bind (arg_at (bcs_u8 b) script 2) (\<lambda>to_scheme.
     Option.bind (arg_at (bcs_bytes b) script 3) (\<lambda>to_public_key_bytes.
     Option.bind (arg_at (bcs_bytes b) script 4) (\<lambda>cap_rotate_key.
     Option.bind (arg_at (bcs_bytes b) script 5) (\<lambda>cap_update_table.
     Some (AccountRotateAuthenticationKey from_scheme from_public_key_bytes to_scheme to_public_key_bytes cap_rotate_key cap_update_table))))))))"

definition decode_account_rotate_authentication_key_with_rotation_capability :: "bcs \<Rightarrow> TransactionPayload \<Rightarrow> EntryFunctionCall option" where
  "decode_account_rotate_authentication_key_with_rotation_capability b = on_script (\<lambda>script.
     Option.bind (arg_at (bcs_address b) script 0) (\<lambda>rotation_cap_offerer_address.
     Option.bind (arg_at (bcs_u8 b) script 1) (\<lambda>new_scheme.
     Option.bind (arg_at (bcs_bytes b) script 2) (\<lambda>new_public_key_bytes.
     Option.bind (arg_at (bcs_bytes b) script 3) (\<lambda>cap_update_table.
     Some (AccountRotateAuthenticationKeyWithRotationCapability rotation_cap_offerer_address new_scheme new_public_key_bytes cap_update_table))))))"

definition decode_burn_set_send_community :: "bcs \<Rightarrow> TransactionPayload \<Rightarrow> EntryFunctionCall option" where
  "decode_burn_set_send_community b = on_script (\<lambda>script.
     Option.bind (arg_at (bcs_bool b) script 0) (\<lambda>community.
     Some (BurnSetSendCommunity community)))"

definition decode_code_publish_package_txn :: "bcs \<Rightarrow> TransactionPayload \<Rightarrow> EntryFunctionCall option" where
  "decode_code_publish_package_txn b = on_script (\<lambda>script.
     Option.bind (arg_at (bcs_bytes b) script 0) (\<lambda>metadata_serialized.
     Option.bind (arg_at (bcs_bytes_vec b) script 1) (\<lambda>code_arg.
     Some (CodePublishPackageTxn metadata_serialized code_arg))))"

definition decode_coin_transfer :: "bcs \<Rightarrow> TransactionPayload \<Rightarrow> EntryFunctionCall option" where
  "decode_coin_transfer b = on_script (\<lambda>script.
     Option.bind (ty_arg_at script 0) (\<lambda>coin_type.
     Option.bind (arg_at (bcs_address b) script 0) (\<lambda>to_arg.
     Option.bind (arg_at (bcs_u64 b) script 1) (\<lambda>amount.
     Some (CoinTransfer coin_type to_arg amount)))))"

definition decode_community_wallet_init_change_signer_community_multisig :: "bcs \<Rightarrow> TransactionPayload \<Rightarrow> EntryFunctionCall option" where
  "decode_community_wallet_init_change_signer_community_multisig b = on_script (\<lambda>script.
     Option.bind (arg_at (bcs_address b) script 0) (\<lambda>multisig_address.
     Option.bind (arg_at (bcs_address b) script 1) (\<lambda>new_signer.
     Option.bind (arg_at (bcs_bool b) script 2) (\<lambda>is_add_operation.
     Option.bind (arg_at (bcs_u64 b) script 3) (\<lambda>n_of_m.
     Option.bind (arg_at (bcs_u64 b) script 4) (\<lambda>vote_duration_epochs.
     Some (CommunityWalletInitChangeSignerCommunityMultisig multisig_address new_signer is_add_operation n_of_m vote_duration_epochs)))))))"

definition decode_community_wallet_init_finalize_and_cage :: "bcs \<Rightarrow> TransactionPayload \<Rightarrow> EntryFunctionCall option" where
  "decode_community_wallet_init_finalize_and_cage b = on_script (\<lambda>script.
     Option.bind (arg_at (bcs_u64 b) script 0) (\<lambda>num_signers.
     Some (CommunityWalletInitFinalizeAndCage num_signers)))"

definition decode_community_wallet_init_init_community :: "bcs \<Rightarrow> TransactionPayload \<Rightarrow> EntryFunctionCall option" where
  "decode_community_wallet_init_init_community b = on_script (\<lambda>script.
     Option.bind (arg_at (bcs_addresses b) script 0) (\<lambda>initial_authorities.
     Option.bind (arg_at (bcs_u64 b) script 1) (\<lambda>check_threshold.
     Some (CommunityWalletInitInitCommunity initial_authorities check_threshold))))"

definition decode_community_wallet_init_propose_offer :: "bcs \<Rightarrow> TransactionPayload \<Rightarrow> EntryFunctionCall option" where
  "decode_community_wallet_init_propose_offer b = on_script (\<lambda>script.
     Option.bind (arg_at (bcs_addresses b) script 0) (\<lambda>new_signers.
     Option.bind (arg_at (bcs_u64 b) script 1) (\<lambda>num_signers.
     Some (CommunityWalletInitProposeOffer new_signers num_signers))))"

definition decode_diem_governance_add_approved_script_hash_script :: "bcs \<Rightarrow> TransactionPayload \<Rightarrow> EntryFunctionCall option" where
  "decode_diem_governance_add_approved_script_hash_script b = on_script (\<lambda>script.
     Option.bind (arg_at (bcs_u64 b) script 0) (\<lambda>proposal_id.
     Some (DiemGovernanceAddApprovedScriptHashScript proposal_id)))"

definition decode_diem_governance_assert_can_resolve :: "bcs \<Rightarrow> TransactionPayload \<Rightarrow> EntryFunctionCall option" where
  "decode_diem_governance_assert_can_resolve b = on_script (\<lambda>script.
     Option.bind (arg_at (bcs_u64 b) script 0) (\<lambda>proposal_id.
     Some (DiemGovernanceAssertCanResolve proposal_id)))"

definition decode_diem_governance_create_proposal_v2 :: "bcs \<Rightarrow> TransactionPayload \<Rightarrow> EntryFunctionCall option" where
  "decode_diem_governance_create_proposal_v2 b = on_script (\<lambda>script.
     Option.bind (arg_at (bcs_bytes b) script 0) (\<lambda>execution_hash.
     Option.bind (arg_at (bcs_bytes b) script 1) (\<lambda>metadata_location.
     Option.bind (arg_at (bcs_bytes b) script 2) (\<lambda>metadata_hash.
     Option.bind (arg_at (bcs_bool b) script 3) (\<lambda>is_multi_step_proposal.
     Some (DiemGovernanceCreateProposalV2 execution_hash metadata_location metadata_hash is_multi_step_proposal))))))"

definition decode_diem_governance_ol_create_proposal_v2 :: "bcs \<Rightarrow> TransactionPayload \<Rightarrow> EntryFunctionCall option" where
  "decode_diem_governance_ol_create_proposal_v2 b = on_script (\<lambda>script.
     Option.bind (arg_at (bcs_bytes b) script 0) (\<lambda>execution_hash.
     Option.bind (arg_at (bcs_bytes b) script 1) (\<lambda>metadata_location.
     Option.bind (arg_at (bcs_bytes b) script 2) (\<lambda>metadata_hash.
     Option.bind (arg_at (bcs_bool b) script 3) (\<lambda>is_multi_step_proposal.
     Some (DiemGovernanceOlCreateProposalV2 execution_hash metadata_location metadata_hash is_multi_step_proposal))))))"

definition decode_diem_governance_ol_vote :: "bcs \<Rightarrow> TransactionPayload \<Rightarrow> EntryFunctionCall option" where
  "decode_diem_governance_ol_vote b = on_script (\<lambda>script.
     Option.bind (arg_at (bcs_u64 b) script 0) (\<lambda>proposal_id.
     Option.bind (arg_at (bcs_bool b) script 1) (\<lambda>should_pass.
     Some (DiemGovernanceOlVote proposal_id should_pass))))"

definition decode_diem_governance_smoke_trigger_epoch :: "bcs \<Rightarrow> TransactionPayload \<Rightarrow> EntryFunctionCall option" where
  "decode_diem_governance_smoke_trigger_epoch b = on_script (\<lambda>script.
     Some DiemGovernanceSmokeTriggerEpoch)"

definition decode_diem_governance_trigger_epoch :: "bcs \<Rightarrow> TransactionPayload \<Rightarrow> EntryFunctionCall option" where
  "decode_diem_governance_trigger_epoch b = on_script (\<lambda>script.
     Some DiemGovernanceTriggerEpoch)"

definition decode_diem_governance_vote :: "bcs \<Rightarrow> TransactionPayload \<Rightarrow> EntryFunctionCall option" where
  "decode_diem_governance_vote b = on_script (\<lambda>script.
     Option.bind (arg_at (bcs_u64 b) script 0) (\<lambda>proposal_id.
     Option.bind (arg_at (bcs_bool b) script 1) (\<lambda>should_pass.
     Some (DiemGovernanceVote proposal_id should_pass))))"

definition decode_donor_voice_txs_propose_liquidate_tx :: "bcs \<Rightarrow> TransactionPayload \<Rightarrow> EntryFunctionCall option" where
  "decode_donor_voice_txs_propose_liquidate_tx b = on_script (\<lambda>script.
     Option.bind (arg_at (bcs_address b) script 0) (\<lambda>multisig_address.
     Some (DonorVoiceTxsProposeLiquidateTx multisig_address)))"

definition decode_donor_voice_txs_propose_payment_tx :: "bcs \<Rightarrow> TransactionPayload \<Rightarrow> EntryFunctionCall option" where
  "decode_donor_voice_txs_propose_payment_tx b = on_script (\<lambda>script.
     Option.bind (arg_at (bcs_address b) script 0) (\<lambda>multisig_address.
     Option.bind (arg_at (bcs_address b) script 1) (\<lambda>payee.
     Option.bind (arg_at (bcs_u64 b) script 2) (\<lambda>value.
     Option.bind (arg_at (bcs_bytes b) script 3) (\<lambda>description.
     Some (DonorVoiceTxsProposePaymentTx multisig_address payee value description))))))"

definition decode_donor_voice_txs_propose_veto_tx :: "bcs \<Rightarrow> TransactionPayload \<Rightarrow> EntryFunctionCall option" where
  "decode_donor_voice_txs_propose_veto_tx b = on_script (\<lambda>script.
     Option.bind (arg_at (bcs_address b) script 0) (\<lambda>multisig_address.
     Option.bind (arg_at (bcs_u64 b) script 1) (\<lambda>id_arg.
     Some (DonorVoiceTxsProposeVetoTx multisig_address id_arg))))"

definition decode_donor_voice_txs_vote_liquidation_tx :: "bcs \<Rightarrow> TransactionPayload \<Rightarrow> EntryFunctionCall option" where
  "decode_donor_voice_txs_vote_liquidation_tx b = on_script (\<lambda>script.
     Option.bind (arg_at (bcs_address b) script 0) (\<lambda>multisig_address.
     Some (DonorVoiceTxsVoteLiquidationTx multisig_address)))"

definition decode_donor_voice_txs_vote_veto_tx :: "bcs \<Rightarrow> TransactionPayload \<Rightarrow> EntryFunctionCall option" where
  "decode_donor_voice_txs_vote_veto_tx b = on_script (\<lambda>script.
     Option.bind (arg_at (bcs_address b) script 0) (\<lambda>multisig_address.
     Option.bind (arg_at (bcs_u64 b) script 1) (\<lambda>id_arg.
     Some (DonorVoiceTxsVoteVetoTx multisig_address id_arg))))"

definition decode_epoch_boundary_smoke_trigger_epoch :: "bcs \<Rightarrow> TransactionPayload \<Rightarrow> EntryFunctionCall option" where
  "decode_epoch_boundary_smoke_trigger_epoch b = on_script (\<lambda>script.
     Some EpochBoundarySmokeTriggerEpoch)"

definition decode_jail_unjail_by_voucher :: "bcs \<Rightarrow> TransactionPayload \<Rightarrow> EntryFunctionCall option" where
  "decode_jail_unjail_by_voucher b = on_script (\<lambda>script.
     Option.bind (arg_at (bcs_address b) script 0) (\<lambda>addr.
     Some (JailUnjailByVoucher addr)))"

definition decode_libra_coin_claim_mint_capability :: "bcs \<Rightarrow> TransactionPayload \<Rightarrow> EntryFunctionCall option" where
  "decode_libra_coin_claim_mint_capability b = on_script (\<lambda>script.
     Some LibraCoinClaimMintCapability)"

definition decode_libra_coin_delegate_mint_capability :: "bcs \<Rightarrow> TransactionPayload \<Rightarrow> EntryFunctionCall option" where
  "decode_libra_coin_delegate_mint_capability b = on_script (\<lambda>script.
     Option.bind (arg_at (bcs_address b) script 0) (\<lambda>to_arg.
     Some (LibraCoinDelegateMintCapability to_arg)))"

definition decode_libra_coin_mint_to_impl :: "bcs \<Rightarrow> TransactionPayload \<Rightarrow> EntryFunctionCall option" where
  "decode_libra_coin_mint_to_impl b = on_script (\<lambda>script.
     Option.bind (arg_at (bcs_address b) script 0) (\<lambda>dst_addr.
     Option.bind (arg_at (bcs_u64 b) script 1) (\<lambda>amount.
     Some (LibraCoinMintToImpl dst_addr amount))))"

definition decode_multi_action_claim_offer :: "bcs \<Rightarrow> TransactionPayload \<Rightarrow> EntryFunctionCall option" where
  "decode_multi_action_claim_offer b = on_script (\<lambda>script.
     Option.bind (arg_at (bcs_address b) script 0) (\<lambda>multisig_address.
     Some (MultiActionClaimOffer multisig_address)))"

definition decode_multi_action_init_gov_deprecated :: "bcs \<Rightarrow> TransactionPayload \<Rightarrow> EntryFunctionCall option" where
  "decode_multi_action_init_gov_deprecated b = on_script (\<lambda>script.
     Some MultiActionInitGovDeprecated)"

definition decode_multi_action_migration_migrate_offer :: "bcs \<Rightarrow> TransactionPayload \<Rightarrow> EntryFunctionCall option" where
  "decode_multi_action_migration_migrate_offer b = on_script (\<lambda>script.
     Option.bind (arg_at (bcs_address b) script 0) (\<lambda>multisig_address.
     Some (MultiActionMigrationMigrateOffer multisig_address)))"

definition decode_multisig_account_add_owner :: "bcs \<Rightarrow> TransactionPayload \<Rightarrow> EntryFunctionCall option" where
  "decode_multisig_account_add_owner b = on_script (\<lambda>script.
     Option.bind (arg_at (bcs_address b) script 0) (\<lambda>new_owner.
     Some (MultisigAccountAddOwner new_owner)))"

definition decode_multisig_account_add_owners :: "bcs \<Rightarrow> TransactionPayload \<Rightarrow> EntryFunctionCall option" where
  "decode_multisig_account_add_owners b = on_script (\<lambda>script.
     Option.bind (arg_at (bcs_addresses b) script 0) (\<lambda>new_owners.
     Some (MultisigAccountAddOwners new_owners)))"

definition decode_multisig_account_approve_transaction :: "bcs \<Rightarrow> TransactionPayload \<Rightarrow> EntryFunctionCall option" where
  "decode_multisig_account_approve_transaction b = on_script (\<lambda>script.
     Option.bind (arg_at (bcs_address b) script 0) (\<lambda>multisig_account.
     Option.bind (arg_at (bcs_u64 b) script 1) (\<lambda>sequence_number.
     Some (MultisigAccountApproveTransaction multisig_account sequence_number))))"

definition decode_multisig_account_create :: "bcs \<Rightarrow> TransactionPayload \<Rightarrow> EntryFunctionCall option" where
  "decode_multisig_account_create b = on_script (\<lambda>script.
     Option.bind (arg_at (bcs_u64 b) script 0) (\<lambda>num_signatures_required.
     Option.bind (arg_at (bcs_bytes_vec b) script 1) (\<lambda>metadata_keys.
     Option.bind (arg_at (bcs_bytes_vec b) script 2) (\<lambda>metadata_values.
     Some (MultisigAccountCreate num_signatures_required metadata_keys metadata_values)))))"

definition decode_multisig_account_create_transaction :: "bcs \<Rightarrow> TransactionPayload \<Rightarrow> EntryFunctionCall option" where
  "decode_multisig_account_create_transaction b = on_script (\<lambda>script.
     Option.bind (arg_at (bcs_address b) script 0) (\<lambda>multisig_account.
     Option.bind (arg_at (bcs_bytes b) script 1) (\<lambda>payload_arg.
     Some (MultisigAccountCreateTransaction multisig_account payload_arg))))"

definition decode_multisig_account_create_transaction_with_hash :: "bcs \<Rightarrow> TransactionPayload \<Rightarrow> EntryFunctionCall option" where
  "decode_multisig_account_create_transaction_with_hash b = on_script (\<lambda>script.
     Option.bind (arg_at (bcs_address b) script 0) (\<lambda>multisig_account.
     Option.bind (arg_at (bcs_bytes b) script 1) (\<lambda>payload_hash.
     Some (MultisigAccountCreateTransactionWithHash multisig_account payload_hash))))"

definition decode_multisig_account_create_with_existing_account :: "bcs \<Rightarrow> TransactionPayload \<Rightarrow> EntryFunctionCall option" where
  "decode_multisig_account_create_with_existing_account b = on_script (\<lambda>script.
     Option.bind (arg_at (bcs_address b) script 0) (\<lambda>multisig_address.
     Option.bind (arg_at (bcs_addresses b) script 1) (\<lambda>owners.
     Option.bind (arg_at (bcs_u64 b) script 2) (\<lambda>num_signatures_required.
     Option.bind (arg_at (bcs_u8 b) script 3) (\<lambda>account_scheme.
     Option.bind (arg_at (bcs_bytes b) script 4) (\<lambda>account_public_key.
     Option.bind (arg_at (bcs_bytes b) script 5) (\<lambda>create_multisig_account_signed_message.
     Option.bind (arg_at (bcs_bytes_vec b) script 6) (\<lambda>metadata_keys.
     Option.bind (arg_at (bcs_bytes_vec b) script 7) (\<lambda>metadata_values.
     Some (MultisigAccountCreateWithExistingAccount multisig_address owners num_signatures_required account_scheme account_public_key create_multisig_account_signed_message metadata_keys metadata_values))))))))))"

definition decode_multisig_account_create_with_owners :: "bcs \<Rightarrow> TransactionPayload \<Rightarrow> EntryFunctionCall option" where
  "decode_multisig_account_create_with_owners b = on_script (\<lambda>script.
     Option.bind (arg_at (bcs_addresses b) script 0) (\<lambda>additional_owners.
     Option.bind (arg_at (bcs_u64 b) script 1) (\<lambda>num_signatures_required.
     Option.bind (arg_at (bcs_bytes_vec b) script 2) (\<lambda>metadata_keys.
     Option.bind (arg_at (bcs_bytes_vec b) script 3) (\<lambda>metadata_values.
     Some (MultisigAccountCreateWithOwners additional_owners num_signatures_required metadata_keys metadata_values))))))"

definition decode_multisig_account_execute_rejected_transaction :: "bcs \<Rightarrow> TransactionPayload \<Rightarrow> EntryFunctionCall option" where
  "decode_multisig_account_execute_rejected_transaction b = on_script (\<lambda>script.
     Option.bind (arg_at (bcs_address b) script 0) (\<lambda>multisig_account.
     Some (MultisigAccountExecuteRejectedTransaction multisig_account)))"

definition decode_multisig_account_migrate_with_owners :: "bcs \<Rightarrow> TransactionPayload \<Rightarrow> EntryFunctionCall option" where
  "decode_multisig_account_migrate_with_owners b = on_script (\<lambda>script.
     Option.bind (arg_at (bcs_addresses b) script 0) (\<lambda>additional_owners.
     Option.bind (arg_at (bcs_u64 b) script 1) (\<lambda>num_signatures_required.
     Option.bind (arg_at (bcs_bytes_vec b) script 2) (\<lambda>metadata_keys.
     Option.bind (arg_at (bcs_bytes_vec b) script 3) (\<lambda>metadata_values.
     Some (MultisigAccountMigrateWithOwners additional_owners num_signatures_required metadata_keys metadata_values))))))"

definition decode_multisig_account_reject_transaction :: "bcs \<Rightarrow> TransactionPayload \<Rightarrow> EntryFunctionCall option" where
  "decode_multisig_account_reject_transaction b = on_script (\<lambda>script.
     Option.bind (arg_at (bcs_address b) script 0) (\<lambda>multisig_account.
     Option.bind (arg_at (bcs_u64 b) script 1) (\<lambda>sequence_number.
     Some (MultisigAccountRejectTransaction multisig_account sequence_number))))"

definition decode_multisig_account_remove_owner :: "bcs \<Rightarrow> TransactionPayload \<Rightarrow> EntryFunctionCall option" where
  "decode_multisig_account_remove_owner b = on_script (\<lambda>script.
     Option.bind (arg_at (bcs_address b) script 0) (\<lambda>owner_to_remove.
     Some (MultisigAccountRemoveOwner owner_to_remove)))"

definition decode_multisig_account_remove_owners :: "bcs \<Rightarrow> TransactionPayload \<Rightarrow> EntryFunctionCall option" where
  "decode_multisig_account_remove_owners b = on_script (\<lambda>script.
     Option.bind (arg_at (bcs_addresses b) script 0) (\<lambda>owners_to_remove.
     Some (MultisigAccountRemoveOwners owners_to_remove)))"

definition decode_multisig_account_update_metadata :: "bcs \<Rightarrow> TransactionPayload \<Rightarrow> EntryFunctionCall option" where
  "decode_multisig_account_update_metadata b = on_script (\<lambda>script.
     Option.bind (arg_at (bcs_bytes_vec b) script 0) (\<lambda>keys.
     Option.bind (arg_at (bcs_bytes_vec b) script 1) (\<lambda>values.
     Some (MultisigAccountUpdateMetadata keys values))))"

definition decode_multisig_account_update_signatures_required :: "bcs \<Rightarrow> TransactionPayload \<Rightarrow> EntryFunctionCall option" where
  "decode_multisig_account_update_signatures_required b = on_script (\<lambda>script.
     Option.bind (arg_at (bcs_u64 b) script 0) (\<lambda>new_num_signatures_required.
     Some (MultisigAccountUpdateSignaturesRequired new_num_signatures_required)))"

definition decode_multisig_account_vote_transanction :: "bcs \<Rightarrow> TransactionPayload \<Rightarrow> EntryFunctionCall option" where
  "decode_multisig_account_vote_transanction b = on_script (\<lambda>script.
     Option.bind (arg_at (bcs_address b) script 0) (\<lambda>multisig_account.
     Option.bind (arg_at (bcs_u64 b) script 1) (\<lambda>sequence_number.
     Option.bind (arg_at (bcs_bool b) script 2) (\<lambda>approved.
     Some (MultisigAccountVoteTransanction multisig_account sequence_number approved)))))"

definition decode_object_transfer_call :: "bcs \<Rightarrow> TransactionPayload \<Rightarrow> EntryFunctionCall option" where
  "decode_object_transfer_call b = on_script (\<lambda>script.
     Option.bind (arg_at (bcs_address b) script 0) (\<lambda>object.
     Option.bind (arg_at (bcs_address b) script 1) (\<lambda>to_arg.
     Some (ObjectTransferCall object to_arg))))"

definition decode_ol_account_create_account :: "bcs \<Rightarrow> TransactionPayload \<Rightarrow> EntryFunctionCall option" where
  "decode_ol_account_create_account b = on_script (\<lambda>script.
     Option.bind (arg_at (bcs_address b) script 0) (\<lambda>auth_key.
     Some (OlAccountCreateAccount auth_key)))"

definition decode_ol_account_set_allow_direct_coin_transfers :: "bcs \<Rightarrow> TransactionPayload \<Rightarrow> EntryFunctionCall option" where
  "decode_ol_account_set_allow_direct_coin_transfers b = on_script (\<lambda>script.
     Option.bind (arg_at (bcs_bool b) script 0) (\<lambda>allow.
     Some (OlAccountSetAllowDirectCoinTransfers allow)))"

definition decode_ol_account_transfer :: "bcs \<Rightarrow> TransactionPayload \<Rightarrow> EntryFunctionCall option" where
  "decode_ol_account_transfer b = on_script (\<lambda>script.
     Option.bind (arg_at (bcs_address b) script 0) (\<lambda>to_arg.
     Option.bind (arg_at (bcs_u64 b) script 1) (\<lambda>amount.
     Some (OlAccountTransfer to_arg amount))))"

definition decode_proof_of_fee_init_bidding :: "bcs \<Rightarrow> TransactionPayload \<Rightarrow> EntryFunctionCall option" where
  "decode_proof_of_fee_init_bidding b = on_script (\<lambda>script.
     Some ProofOfFeeInitBidding)"

definition decode_proof_of_fee_pof_retract_bid :: "bcs \<Rightarrow> TransactionPayload \<Rightarrow> EntryFunctionCall option" where
  "decode_proof_of_fee_pof_retract_bid b = on_script (\<lambda>script.
     Some ProofOfFeePofRetractBid)"

definition decode_proof_of_fee_pof_update_bid :: "bcs \<Rightarrow> TransactionPayload \<Rightarrow> EntryFunctionCall option" where
  "decode_proof_of_fee_pof_update_bid b = on_script (\<lambda>script.
     Option.bind (arg_at (bcs_u64 b) script 0) (\<lambda>bid.
     Option.bind (arg_at (bcs_u64 b) script 1) (\<lambda>epoch_expiry.
     Some (ProofOfFeePofUpdateBid bid epoch_expiry))))"

definition decode_proof_of_fee_pof_update_bid_net_reward :: "bcs \<Rightarrow> TransactionPayload \<Rightarrow> EntryFunctionCall option" where
  "decode_proof_of_fee_pof_update_bid_net_reward b = on_script (\<lambda>script.
     Option.bind (arg_at (bcs_u64 b) script 0) (\<lambda>net_reward.
     Option.bind (arg_at (bcs_u64 b) script 1) (\<lambda>epoch_expiry.
     Some (ProofOfFeePofUpdateBidNetReward net_reward epoch_expiry))))"

definition decode_safe_init_payment_multisig :: "bcs \<Rightarrow> TransactionPayload \<Rightarrow> EntryFunctionCall option" where
  "decode_safe_init_payment_multisig b = on_script (\<lambda>script.
     Option.bind (arg_at (bcs_addresses b) script 0) (\<lambda>authorities.
     Some (SafeInitPaymentMultisig authorities)))"

definition decode_slow_wallet_smoke_test_vm_unlock :: "bcs \<Rightarrow> TransactionPayload \<Rightarrow> EntryFunctionCall option" where
  "decode_slow_wallet_smoke_test_vm_unlock b = on_script (\<lambda>script.
     Option.bind (arg_at (bcs_address b) script 0) (\<lambda>user_addr.
     Option.bind (arg_at (bcs_u64 b) script 1) (\<lambda>unlocked.
     Option.bind (arg_at (bcs_u64 b) script 2) (\<lambda>transferred.
     Some (SlowWalletSmokeTestVmUnlock user_addr unlocked transferred)))))"

definition decode_slow_wallet_user_set_slow :: "bcs \<Rightarrow> TransactionPayload \<Rightarrow> EntryFunctionCall option" where
  "decode_slow_wallet_user_set_slow b = on_script (\<lambda>script.
     Some SlowWalletUserSetSlow)"

definition decode_stake_initialize_validator :: "bcs \<Rightarrow> TransactionPayload \<Rightarrow> EntryFunctionCall option" where
  "decode_stake_initialize_validator b = on_script (\<lambda>script.
     Option.bind (arg_at (bcs_bytes b) script 0) (\<lambda>consensus_pubkey.
     Option.bind (arg_at (bcs_bytes b) script 1) (\<lambda>proof_of_possession.
     Option.bind (arg_at (bcs_bytes b) script 2) (\<lambda>network_addresses.
     Option.bind (arg_at (bcs_bytes b) script 3) (\<lambda>fullnode_addresses.
     Some (StakeInitializeValidator consensus_pubkey proof_of_possession network_addresses fullnode_addresses))))))"

definition decode_stake_rotate_consensus_key :: "bcs \<Rightarrow> TransactionPayload \<Rightarrow> EntryFunctionCall option" where
  "decode_stake_rotate_consensus_key b = on_script (\<lambda>script.
     Option.bind (arg_at (bcs_address b) script 0) (\<lambda>validator_address.
     Option.bind (arg_at (bcs_bytes b) script 1) (\<lambda>new_consensus_pubkey.
     Option.bind (arg_at (bcs_bytes b) script 2) (\<lambda>proof_of_possession.
     Some (StakeRotateConsensusKey validator_address new_consensus_pubkey proof_of_possession)))))"

definition decode_stake_update_network_and_fullnode_addresses :: "bcs \<Rightarrow> TransactionPayload \<Rightarrow> EntryFunctionCall option" where
  "decode_stake_update_network_and_fullnode_addresses b = on_script (\<lambda>script.
     Option.bind (arg_at (bcs_address b) script 0) (\<lambda>validator_address.
     Option.bind (arg_at (bcs_bytes b) script 1) (\<lambda>new_network_addresses.
     Option.bind (arg_at (bcs_bytes b) script 2) (\<lambda>new_fullnode_addresses.
     Some (StakeUpdateNetworkAndFullnodeAddresses validator_address new_network_addresses new_fullnode_addresses)))))"

definition decode_validator_universe_register_validator :: "bcs \<Rightarrow> TransactionPayload \<Rightarrow> EntryFunctionCall option" where
  "decode_validator_universe_register_validator b = on_script (\<lambda>script.
     Option.bind (arg_at (bcs_bytes b) script 0) (\<lambda>consensus_pubkey.
     Option.bind (arg_at (bcs_bytes b) script 1) (\<lambda>proof_of_possession.
     Option.bind (arg_at (bcs_bytes b) script 2) (\<lambda>network_addresses.
     Option.bind (arg_at (bcs_bytes b) script 3) (\<lambda>fullnode_addresses.
     Some (ValidatorUniverseRegisterValidator consensus_pubkey proof_of_possession network_addresses fullnode_addresses))))))"

definition decode_version_set_version :: "bcs \<Rightarrow> TransactionPayload \<Rightarrow> EntryFunctionCall option" where
  "decode_version_set_version b = on_script (\<lambda>script.
     Option.bind (arg_at (bcs_u64 b) script 0) (\<lambda>major.
     Some (VersionSetVersion major)))"

definition decode_vouch_insist_vouch_for :: "bcs \<Rightarrow> TransactionPayload \<Rightarrow> EntryFunctionCall option" where
  "decode_vouch_insist_vouch_for b = on_script (\<lambda>script.
     Option.bind (arg_at (bcs_address b) script 0) (\<lambda>friend_account.
     Some (VouchInsistVouchFor friend_account)))"

definition decode_vouch_revoke :: "bcs \<Rightarrow> TransactionPayload \<Rightarrow> EntryFunctionCall option" where
  "decode_vouch_revoke b = on_script (\<lambda>script.
     Option.bind (arg_at (bcs_address b) script 0) (\<lambda>friend_account.
     Some (VouchRevoke friend_account)))"

definition decode_vouch_vouch_for :: "bcs \<Rightarrow> TransactionPayload \<Rightarrow> EntryFunctionCall option" where
  "decode_vouch_vouch_for b = on_script (\<lambda>script.
     Option.bind (arg_at (bcs_address b) script 0) (\<lambda>friend_account.
     Some (VouchVouchFor friend_account)))"

section \<open>Decoding\<close>

text \<open>The table is filled by insertions in this order.\<close>

definition decoder_entries :: "bcs \<Rightarrow> (string \<times> (TransactionPayload \<Rightarrow> EntryFunctionCall option)) list" where
  "decoder_entries b =
    [(''account_offer_rotation_capability'', decode_account_offer_rotation_capability b),
     (''account_offer_signer_capability'', decode_account_offer_signer_capability b),
     (''account_revoke_any_rotation_capability'', decode_account_revoke_any_rotation_capability b),
     (''account_revoke_any_signer_capability'', decode_account_revoke_any_signer_capability b),
     (''account_revoke_rotation_capability'', decode_account_revoke_rotation_capability b),
     (''account_revoke_signer_capability'', decode_account_revoke_signer_capability b),
     (''account_rotate_authentication_key'', decode_account_rotate_authentication_key b),
     (''account_rotate_authentication_key_with_rotation_capability'', decode_account_rotate_authentication_key_with_rotation_capability b),
     (''burn_set_send_community'', decode_burn_set_send_community b),
     (''code_publish_package_txn'', decode_code_publish_package_txn b),
     (''coin_transfer'', decode_coin_transfer b),
     (''community_wallet_init_change_signer_community_multisig'', decode_community_wallet_init_change_signer_community_multisig b),
     (''community_wallet_init_finalize_and_cage'', decode_community_wallet_init_finalize_and_cage b),
     (''community_wallet_init_init_community'', decode_community_wallet_init_init_community b),
     (''community_wallet_init_propose_offer'', decode_community_wallet_init_propose_offer b),
     (''diem_governance_add_approved_script_hash_script'', decode_diem_governance_add_approved_script_hash_script b),
     (''diem_governance_assert_can_resolve'', decode_diem_governance_assert_can_resolve b),
     (''diem_governance_create_proposal_v2'', decode_diem_governance_create_proposal_v2 b),
     (''diem_governance_ol_create_proposal_v2'', decode_diem_governance_ol_create_proposal_v2 b),
     (''diem_governance_ol_vote'', decode_diem_governance_ol_vote b),
     (''diem_governance_smoke_trigger_epoch'', decode_diem_governance_smoke_trigger_epoch b),
     (''diem_governance_trigger_epoch'', decode_diem_governance_trigger_epoch b),
     (''diem_governance_vote'', decode_diem_governance_vote b),
     (''donor_voice_txs_propose_liquidate_tx'', decode_donor_voice_txs_propose_liquidate_tx b),
     (''donor_voice_txs_propose_payment_tx'', decode_donor_voice_txs_propose_payment_tx b),
     (''donor_voice_txs_propose_veto_tx'', decode_donor_voice_txs_propose_veto_tx b),
     (''donor_voice_txs_vote_liquidation_tx'', decode_donor_voice_txs_vote_liquidation_tx b),
     (''donor_voice_txs_vote_veto_tx'', decode_donor_voice_txs_vote_veto_tx b),
     (''epoch_boundary_smoke_trigger_epoch'', decode_epoch_boundary_smoke_trigger_epoch b),
     (''jail_unjail_by_voucher'', decode_jail_unjail_by_voucher b),
     (''libra_coin_claim_mint_capability'', decode_libra_coin_claim_mint_capability b),
     (''libra_coin_delegate_mint_capability'', decode_libra_coin_delegate_mint_capability b),
     (''libra_coin_mint_to_impl'', decode_libra_coin_mint_to_impl b),
     (''multi_action_claim_offer'', decode_multi_action_claim_offer b),
     (''multi_action_init_gov_deprecated'', decode_multi_action_init_gov_deprecated b),
     (''multi_action_migration_migrate_offer'', decode_multi_action_migration_migrate_offer b),
     (''multisig_account_add_owner'', decode_multisig_account_add_owner b),
     (''multisig_account_add_owners'', decode_multisig_account_add_owners b),
     (''multisig_account_approve_transaction'', decode_multisig_account_approve_transaction b),
     (''multisig_account_create'', decode_multisig_account_create b),
     (''multisig_account_create_transaction'', decode_multisig_account_create_transaction b),
     (''multisig_account_create_transaction_with_hash'', decode_multisig_account_create_transaction_with_hash b),
     (''multisig_account_create_with_existing_account'', decode_multisig_account_create_with_existing_account b),
     (''multisig_account_create_with_owners'', decode_multisig_account_create_with_owners b),
     (''multisig_account_execute_rejected_transaction'', decode_multisig_account_execute_rejected_transaction b),
     (''multisig_account_migrate_with_owners'', decode_multisig_account_migrate_with_owners b),
     (''multisig_account_reject_transaction'', decode_multisig_account_reject_transaction b),
     (''multisig_account_remove_owner'', decode_multisig_account_remove_owner b),
     (''multisig_account_remove_owners'', decode_multisig_account_remove_owners b),
     (''multisig_account_update_metadata'', decode_multisig_account_update_metadata b),
     (''multisig_account_update_signatures_required'', decode_multisig_account_update_signatures_required b),
     (''multisig_account_vote_transanction'', decode_multisig_account_vote_transanction b),
     (''object_transfer_call'', decode_object_transfer_call b),
     (''ol_account_create_account'', decode_ol_account_create_account b),
     (''ol_account_set_allow_direct_coin_transfers'', decode_ol_account_set_allow_direct_coin_transfers b),
     (''ol_account_transfer'', decode_ol_account_transfer b),
     (''proof_of_fee_init_bidding'', decode_proof_of_fee_init_bidding b),
     (''proof_of_fee_pof_retract_bid'', decode_proof_of_fee_pof_retract_bid b),
     (''proof_of_fee_pof_update_bid'', decode_proof_of_fee_pof_update_bid b),
     (''proof_of_fee_pof_update_bid_net_reward'', decode_proof_of_fee_pof_update_bid_net_reward b),
     (''safe_init_payment_multisig'', decode_safe_init_payment_multisig b),
     (''slow_wallet_smoke_test_vm_unlock'', decode_slow_wallet_smoke_test_vm_unlock b),
     (''slow_wallet_user_set_slow'', decode_slow_wallet_user_set_slow b),
     (''stake_initialize_validator'', decode_stake_initialize_validator b),
     (''stake_rotate_consensus_key'', decode_stake_rotate_consensus_key b),
     (''stake_update_network_and_fullnode_addresses'', decode_stake_update_network_and_fullnode_addresses b),
     (''validator_universe_register_validator'', decode_validator_universe_register_validator b),
     (''version_set_version'', decode_version_set_version b),
     (''vouch_insist_vouch_for'', decode_vouch_insist_vouch_for b),
     (''vouch_revoke'', decode_vouch_revoke b),
     (''vouch_vouch_for'', decode_vouch_vouch_for b)]"

definition SCRIPT_FUNCTION_DECODER_MAP :: "bcs \<Rightarrow> string \<rightharpoonup> (TransactionPayload \<Rightarrow> EntryFunctionCall option)" where
  "SCRIPT_FUNCTION_DECODER_MAP b = decoder_table (decoder_entries b)"

definition decode :: "bcs \<Rightarrow> TransactionPayload \<Rightarrow> EntryFunctionCall option" where
  "decode b payload = decode_by (SCRIPT_FUNCTION_DECODER_MAP b) payload"

lemmas builder_defs =
  account_offer_rotation_capability_def account_offer_signer_capability_def
  account_revoke_any_rotation_capability_def account_revoke_any_signer_capability_def
  account_revoke_rotation_capability_def account_revoke_signer_capability_def
  account_rotate_authentication_key_def account_rotate_authentication_key_with_rotation_capability_def
  burn_set_send_community_def code_publish_package_txn_def coin_transfer_def
  community_wallet_init_change_signer_community_multisig_def community_wallet_init_finalize_and_cage_def
  community_wallet_init_init_community_def community_wallet_init_propose_offer_def
  diem_governance_add_approved_script_hash_script_def diem_governance_assert_can_resolve_def
  diem_governance_create_proposal_v2_def diem_governance_ol_create_proposal_v2_def
  diem_governance_ol_vote_def diem_governance_smoke_trigger_epoch_def diem_governance_trigger_epoch_def
  diem_governance_vote_def donor_voice_txs_propose_liquidate_tx_def donor_voice_txs_propose_payment_tx_def
  donor_voice_txs_propose_veto_tx_def donor_voice_txs_vote_liquidation_tx_def
  donor_voice_txs_vote_veto_tx_def epoch_boundary_smoke_trigger_epoch_def jail_unjail_by_voucher_def
  libra_coin_claim_mint_capability_def libra_coin_delegate_mint_capability_def libra_coin_mint_to_impl_def
  multi_action_claim_offer_def multi_action_init_gov_deprecated_def multi_action_migration_migrate_offer_def
  multisig_account_add_owner_def multisig_account_add_owners_def multisig_account_approve_transaction_def
  multisig_account_create_def multisig_account_create_transaction_def
  multisig_account_create_transaction_with_hash_def multisig_account_create_with_existing_account_def
  multisig_account_create_with_owners_def multisig_account_execute_rejected_transaction_def
  multisig_account_migrate_with_owners_def multisig_account_reject_transaction_def
  multisig_account_remove_owner_def multisig_account_remove_owners_def multisig_account_update_metadata_def
  multisig_account_update_signatures_required_def multisig_account_vote_transanction_def
  object_transfer_call_def ol_account_create_account_def ol_account_set_allow_direct_coin_transfers_def
  ol_account_transfer_def proof_of_fee_init_bidding_def proof_of_fee_pof_retract_bid_def
  proof_of_fee_pof_update_bid_def proof_of_fee_pof_update_bid_net_reward_def safe_init_payment_multisig_def
  slow_wallet_smoke_test_vm_unlock_def slow_wallet_user_set_slow_def stake_initialize_validator_def
  stake_rotate_consensus_key_def stake_update_network_and_fullnode_addresses_def
  validator_universe_register_validator_def version_set_version_def vouch_insist_vouch_for_def
  vouch_revoke_def vouch_vouch_for_def

lemmas decoder_defs =
  decode_account_offer_rotation_capability_def decode_account_offer_signer_capability_def
  decode_account_revoke_any_rotation_capability_def decode_account_revoke_any_signer_capability_def
  decode_account_revoke_rotation_capability_def decode_account_revoke_signer_capability_def
  decode_account_rotate_authentication_key_def
  decode_account_rotate_authentication_key_with_rotation_capability_def decode_burn_set_send_community_def
  decode_code_publish_package_txn_def decode_coin_transfer_def
  decode_community_wallet_init_change_signer_community_multisig_def
  decode_community_wallet_init_finalize_and_cage_def decode_community_wallet_init_init_community_def
  decode_community_wallet_init_propose_offer_def decode_diem_governance_add_approved_script_hash_script_def
  decode_diem_governance_assert_can_resolve_def decode_diem_governance_create_proposal_v2_def
  decode_diem_governance_ol_create_proposal_v2_def decode_diem_governance_ol_vote_def
  decode_diem_governance_smoke_trigger_epoch_def decode_diem_governance_trigger_epoch_def
  decode_diem_governance_vote_def decode_donor_voice_txs_propose_liquidate_tx_def
  decode_donor_voice_txs_propose_payment_tx_def decode_donor_voice_txs_propose_veto_tx_def
  decode_donor_voice_txs_vote_liquidation_tx_def decode_donor_voice_txs_vote_veto_tx_def
  decode_epoch_boundary_smoke_trigger_epoch_def decode_jail_unjail_by_voucher_def
  decode_libra_coin_claim_mint_capability_def decode_libra_coin_delegate_mint_capability_def
  decode_libra_coin_mint_to_impl_def decode_multi_action_claim_offer_def
  decode_multi_action_init_gov_deprecated_def decode_multi_action_migration_migrate_offer_def
  decode_multisig_account_add_owner_def decode_multisig_account_add_owners_def
  decode_multisig_account_approve_transaction_def decode_multisig_account_create_def
  decode_multisig_account_create_transaction_def decode_multisig_account_create_transaction_with_hash_def
  decode_multisig_account_create_with_existing_account_def decode_multisig_account_create_with_owners_def
  decode_multisig_account_execute_rejected_transaction_def decode_multisig_account_migrate_with_owners_def
  decode_multisig_account_reject_transaction_def decode_multisig_account_remove_owner_def
  decode_multisig_account_remove_owners_def decode_multisig_account_update_metadata_def
  decode_multisig_account_update_signatures_required_def decode_multisig_account_vote_transanction_def
  decode_object_transfer_call_def decode_ol_account_create_account_def
  decode_ol_account_set_allow_direct_coin_transfers_def decode_ol_account_transfer_def
  decode_proof_of_fee_init_bidding_def decode_proof_of_fee_pof_retract_bid_def
  decode_proof_of_fee_pof_update_bid_def decode_proof_of_fee_pof_update_bid_net_reward_def
  decode_safe_init_payment_multisig_def decode_slow_wallet_smoke_test_vm_unlock_def
  decode_slow_wallet_user_set_slow_def decode_stake_initialize_validator_def
  decode_stake_rotate_consensus_key_def decode_stake_update_network_and_fullnode_addresses_def
  decode_validator_universe_register_validator_def decode_version_set_version_def
  decode_vouch_insist_vouch_for_def decode_vouch_revoke_def decode_vouch_vouch_for_def


section \<open>Lookup in the table\<close>

lemma decoder_keys_ascending: "successively key_less (map fst (decoder_entries b))"
  unfolding decoder_entries_def list.map fst_conv
  by (unfold successively.simps, intro conjI) simp_all

interpretation table: decoder_keys "decoder_entries b" for b
  by unfold_locales (rule ascending_distinct [OF decoder_keys_ascending])

lemma decoder_lookup: "(k, d) \<in> set (decoder_entries b) \<Longrightarrow> SCRIPT_FUNCTION_DECODER_MAP b k = Some d"
  unfolding SCRIPT_FUNCTION_DECODER_MAP_def by (rule table.lookup)

lemma decoder_lookups:
  "SCRIPT_FUNCTION_DECODER_MAP b ''account_offer_rotation_capability'' = Some (decode_account_offer_rotation_capability b)"
  "SCRIPT_FUNCTION_DECODER_MAP b ''account_offer_signer_capability'' = Some (decode_account_offer_signer_capability b)"
  "SCRIPT_FUNCTION_DECODER_MAP b ''account_revoke_any_rotation_capability'' = Some (decode_account_revoke_any_rotation_capability b)"
  "SCRIPT_FUNCTION_DECODER_MAP b ''account_revoke_any_signer_capability'' = Some (decode_account_revoke_any_signer_capability b)"
  "SCRIPT_FUNCTION_DECODER_MAP b ''account_revoke_rotation_capability'' = Some (decode_account_revoke_rotation_capability b)"
  "SCRIPT_FUNCTION_DECODER_MAP b ''account_revoke_signer_capability'' = Some (decode_account_revoke_signer_capability b)"
  "SCRIPT_FUNCTION_DECODER_MAP b ''account_rotate_authentication_key'' = Some (decode_account_rotate_authentication_key b)"
  "SCRIPT_FUNCTION_DECODER_MAP b ''account_rotate_authentication_key_with_rotation_capability'' = Some (decode_account_rotate_authentication_key_with_rotation_capability b)"
  "SCRIPT_FUNCTION_DECODER_MAP b ''burn_set_send_community'' = Some (decode_burn_set_send_community b)"
  "SCRIPT_FUNCTION_DECODER_MAP b ''code_publish_package_txn'' = Some (decode_code_publish_package_txn b)"
  "SCRIPT_FUNCTION_DECODER_MAP b ''coin_transfer'' = Some (decode_coin_transfer b)"
  "SCRIPT_FUNCTION_DECODER_MAP b ''community_wallet_init_change_signer_community_multisig'' = Some (decode_community_wallet_init_change_signer_community_multisig b)"
  "SCRIPT_FUNCTION_DECODER_MAP b ''community_wallet_init_finalize_and_cage'' = Some (decode_community_wallet_init_finalize_and_cage b)"
  "SCRIPT_FUNCTION_DECODER_MAP b ''community_wallet_init_init_community'' = Some (decode_community_wallet_init_init_community b)"
  "SCRIPT_FUNCTION_DECODER_MAP b ''community_wallet_init_propose_offer'' = Some (decode_community_wallet_init_propose_offer b)"
  "SCRIPT_FUNCTION_DECODER_MAP b ''diem_governance_add_approved_script_hash_script'' = Some (decode_diem_governance_add_approved_script_hash_script b)"
  "SCRIPT_FUNCTION_DECODER_MAP b ''diem_governance_assert_can_resolve'' = Some (decode_diem_governance_assert_can_resolve b)"
  "SCRIPT_FUNCTION_DECODER_MAP b ''diem_governance_create_proposal_v2'' = Some (decode_diem_governance_create_proposal_v2 b)"
  "SCRIPT_FUNCTION_DECODER_MAP b ''diem_governance_ol_create_proposal_v2'' = Some (decode_diem_governance_ol_create_proposal_v2 b)"
  "SCRIPT_FUNCTION_DECODER_MAP b ''diem_governance_ol_vote'' = Some (decode_diem_governance_ol_vote b)"
  "SCRIPT_FUNCTION_DECODER_MAP b ''diem_governance_smoke_trigger_epoch'' = Some (decode_diem_governance_smoke_trigger_epoch b)"
  "SCRIPT_FUNCTION_DECODER_MAP b ''diem_governance_trigger_epoch'' = Some (decode_diem_governance_trigger_epoch b)"
  "SCRIPT_FUNCTION_DECODER_MAP b ''diem_governance_vote'' = Some (decode_diem_governance_vote b)"
  "SCRIPT_FUNCTION_DECODER_MAP b ''donor_voice_txs_propose_liquidate_tx'' = Some (decode_donor_voice_txs_propose_liquidate_tx b)"
  "SCRIPT_FUNCTION_DECODER_MAP b ''donor_voice_txs_propose_payment_tx'' = Some (decode_donor_voice_txs_propose_payment_tx b)"
  "SCRIPT_FUNCTION_DECODER_MAP b ''donor_voice_txs_propose_veto_tx'' = Some (decode_donor_voice_txs_propose_veto_tx b)"
  "SCRIPT_FUNCTION_DECODER_MAP b ''donor_voice_txs_vote_liquidation_tx'' = Some (decode_donor_voice_txs_vote_liquidation_tx b)"
  "SCRIPT_FUNCTION_DECODER_MAP b ''donor_voice_txs_vote_veto_tx'' = Some (decode_donor_voice_txs_vote_veto_tx b)"
  "SCRIPT_FUNCTION_DECODER_MAP b ''epoch_boundary_smoke_trigger_epoch'' = Some (decode_epoch_boundary_smoke_trigger_epoch b)"
  "SCRIPT_FUNCTION_DECODER_MAP b ''jail_unjail_by_voucher'' = Some (decode_jail_unjail_by_voucher b)"
  "SCRIPT_FUNCTION_DECODER_MAP b ''libra_coin_claim_mint_capability'' = Some (decode_libra_coin_claim_mint_capability b)"
  "SCRIPT_FUNCTION_DECODER_MAP b ''libra_coin_delegate_mint_capability'' = Some (decode_libra_coin_delegate_mint_capability b)"
  "SCRIPT_FUNCTION_DECODER_MAP b ''libra_coin_mint_to_impl'' = Some (decode_libra_coin_mint_to_impl b)"
  "SCRIPT_FUNCTION_DECODER_MAP b ''multi_action_claim_offer'' = Some (decode_multi_action_claim_offer b)"
  "SCRIPT_FUNCTION_DECODER_MAP b ''multi_action_init_gov_deprecated'' = Some (decode_multi_action_init_gov_deprecated b)"
  "SCRIPT_FUNCTION_DECODER_MAP b ''multi_action_migration_migrate_offer'' = Some (decode_multi_action_migration_migrate_offer b)"
  "SCRIPT_FUNCTION_DECODER_MAP b ''multisig_account_add_owner'' = Some (decode_multisig_account_add_owner b)"
  "SCRIPT_FUNCTION_DECODER_MAP b ''multisig_account_add_owners'' = Some (decode_multisig_account_add_owners b)"
  "SCRIPT_FUNCTION_DECODER_MAP b ''multisig_account_approve_transaction'' = Some (decode_multisig_account_approve_transaction b)"
  "SCRIPT_FUNCTION_DECODER_MAP b ''multisig_account_create'' = Some (decode_multisig_account_create b)"
  "SCRIPT_FUNCTION_DECODER_MAP b ''multisig_account_create_transaction'' = Some (decode_multisig_account_create_transaction b)"
  "SCRIPT_FUNCTION_DECODER_MAP b ''multisig_account_create_transaction_with_hash'' = Some (decode_multisig_account_create_transaction_with_hash b)"
  "SCRIPT_FUNCTION_DECODER_MAP b ''multisig_account_create_with_existing_account'' = Some (decode_multisig_account_create_with_existing_account b)"
  "SCRIPT_FUNCTION_DECODER_MAP b ''multisig_account_create_with_owners'' = Some (decode_multisig_account_create_with_owners b)"
  "SCRIPT_FUNCTION_DECODER_MAP b ''multisig_account_execute_rejected_transaction'' = Some (decode_multisig_account_execute_rejected_transaction b)"
  "SCRIPT_FUNCTION_DECODER_MAP b ''multisig_account_migrate_with_owners'' = Some (decode_multisig_account_migrate_with_owners b)"
  "SCRIPT_FUNCTION_DECODER_MAP b ''multisig_account_reject_transaction'' = Some (decode_multisig_account_reject_transaction b)"
  "SCRIPT_FUNCTION_DECODER_MAP b ''multisig_account_remove_owner'' = Some (decode_multisig_account_remove_owner b)"
  "SCRIPT_FUNCTION_DECODER_MAP b ''multisig_account_remove_owners'' = Some (decode_multisig_account_remove_owners b)"
  "SCRIPT_FUNCTION_DECODER_MAP b ''multisig_account_update_metadata'' = Some (decode_multisig_account_update_metadata b)"
  "SCRIPT_FUNCTION_DECODER_MAP b ''multisig_account_update_signatures_required'' = Some (decode_multisig_account_update_signatures_required b)"
  "SCRIPT_FUNCTION_DECODER_MAP b ''multisig_account_vote_transanction'' = Some (decode_multisig_account_vote_transanction b)"
  "SCRIPT_FUNCTION_DECODER_MAP b ''object_transfer_call'' = Some (decode_object_transfer_call b)"
  "SCRIPT_FUNCTION_DECODER_MAP b ''ol_account_create_account'' = Some (decode_ol_account_create_account b)"
  "SCRIPT_FUNCTION_DECODER_MAP b ''ol_account_set_allow_direct_coin_transfers'' = Some (decode_ol_account_set_allow_direct_coin_transfers b)"
  "SCRIPT_FUNCTION_DECODER_MAP b ''ol_account_transfer'' = Some (decode_ol_account_transfer b)"
  "SCRIPT_FUNCTION_DECODER_MAP b ''proof_of_fee_init_bidding'' = Some (decode_proof_of_fee_init_bidding b)"
  "SCRIPT_FUNCTION_DECODER_MAP b ''proof_of_fee_pof_retract_bid'' = Some (decode_proof_of_fee_pof_retract_bid b)"
  "SCRIPT_FUNCTION_DECODER_MAP b ''proof_of_fee_pof_update_bid'' = Some (decode_proof_of_fee_pof_update_bid b)"
  "SCRIPT_FUNCTION_DECODER_MAP b ''proof_of_fee_pof_update_bid_net_reward'' = Some (decode_proof_of_fee_pof_update_bid_net_reward b)"
  "SCRIPT_FUNCTION_DECODER_MAP b ''safe_init_payment_multisig'' = Some (decode_safe_init_payment_multisig b)"
  "SCRIPT_FUNCTION_DECODER_MAP b ''slow_wallet_smoke_test_vm_unlock'' = Some (decode_slow_wallet_smoke_test_vm_unlock b)"
  "SCRIPT_FUNCTION_DECODER_MAP b ''slow_wallet_user_set_slow'' = Some (decode_slow_wallet_user_set_slow b)"
  "SCRIPT_FUNCTION_DECODER_MAP b ''stake_initialize_validator'' = Some (decode_stake_initialize_validator b)"
  "SCRIPT_FUNCTION_DECODER_MAP b ''stake_rotate_consensus_key'' = Some (decode_stake_rotate_consensus_key b)"
  "SCRIPT_FUNCTION_DECODER_MAP b ''stake_update_network_and_fullnode_addresses'' = Some (decode_stake_update_network_and_fullnode_addresses b)"
  "SCRIPT_FUNCTION_DECODER_MAP b ''validator_universe_register_validator'' = Some (decode_validator_universe_register_validator b)"
  "SCRIPT_FUNCTION_DECODER_MAP b ''version_set_version'' = Some (decode_version_set_version b)"
  "SCRIPT_FUNCTION_DECODER_MAP b ''vouch_insist_vouch_for'' = Some (decode_vouch_insist_vouch_for b)"
  "SCRIPT_FUNCTION_DECODER_MAP b ''vouch_revoke'' = Some (decode_vouch_revoke b)"
  "SCRIPT_FUNCTION_DECODER_MAP b ''vouch_vouch_for'' = Some (decode_vouch_vouch_for b)"
  by (rule decoder_lookup, unfold decoder_entries_def, (rule list.set_intros(1) | rule list.set_intros(2))+)+

section \<open>Decoding inverts encoding\<close>

text \<open>The calls whose vectors are short enough to be serialized.\<close>

primrec fits :: "EntryFunctionCall \<Rightarrow> bool" where
  "fits (AccountOfferRotationCapability rotation_capability_sig_bytes account_scheme account_public_key_bytes recipient_address) = (short rotation_capability_sig_bytes \<and> short account_public_key_bytes)"
| "fits (AccountOfferSignerCapability signer_capability_sig_bytes account_scheme account_public_key_bytes recipient_address) = (short signer_capability_sig_bytes \<and> short account_public_key_bytes)"
| "fits AccountRevokeAnyRotationCapability = True"
| "fits AccountRevokeAnySignerCapability = True"
| "fits (AccountRevokeRotationCapability to_be_revoked_address) = True"
| "fits (AccountRevokeSignerCapability to_be_revoked_address) = True"
| "fits (AccountRotateAuthenticationKey from_scheme from_public_key_bytes to_scheme to_public_key_bytes cap_rotate_key cap_update_table) = (short from_public_key_bytes \<and> short to_public_key_bytes \<and> short cap_rotate_key \<and> short cap_update_table)"
| "fits (AccountRotateAuthenticationKeyWithRotationCapability rotation_cap_offerer_address new_scheme new_public_key_bytes cap_update_table) = (short new_public_key_bytes \<and> short cap_update_table)"
| "fits (BurnSetSendCommunity community) = True"
| "fits (CodePublishPackageTxn metadata_serialized code_arg) = (short metadata_serialized \<and> short code_arg \<and> list_all short code_arg)"
| "fits (CoinTransfer coin_type to_arg amount) = True"
| "fits (CommunityWalletInitChangeSignerCommunityMultisig multisig_address new_signer is_add_operation n_of_m vote_duration_epochs) = True"
| "fits (CommunityWalletInitFinalizeAndCage num_signers) = True"
| "fits (CommunityWalletInitInitCommunity initial_authorities check_threshold) = (short initial_authorities)"
| "fits (CommunityWalletInitProposeOffer new_signers num_signers) = (short new_signers)"
| "fits (DiemGovernanceAddApprovedScriptHashScript proposal_id) = True"
| "fits (DiemGovernanceAssertCanResolve proposal_id) = True"
| "fits (DiemGovernanceCreateProposalV2 execution_hash metadata_location metadata_hash is_multi_step_proposal) = (short execution_hash \<and> short metadata_location \<and> short metadata_hash)"
| "fits (DiemGovernanceOlCreateProposalV2 execution_hash metadata_location metadata_hash is_multi_step_proposal) = (short execution_hash \<and> short metadata_location \<and> short metadata_hash)"
| "fits (DiemGovernanceOlVote proposal_id should_pass) = True"
| "fits DiemGovernanceSmokeTriggerEpoch = True"
| "fits DiemGovernanceTriggerEpoch = True"
| "fits (DiemGovernanceVote proposal_id should_pass) = True"
| "fits (DonorVoiceTxsProposeLiquidateTx multisig_address) = True"
| "fits (DonorVoiceTxsProposePaymentTx multisig_address payee value description) = (short description)"
| "fits (DonorVoiceTxsProposeVetoTx multisig_address id_arg) = True"
| "fits (DonorVoiceTxsVoteLiquidationTx multisig_address) = True"
| "fits (DonorVoiceTxsVoteVetoTx multisig_address id_arg) = True"
| "fits EpochBoundarySmokeTriggerEpoch = True"
| "fits (JailUnjailByVoucher addr) = True"
| "fits LibraCoinClaimMintCapability = True"
| "fits (LibraCoinDelegateMintCapability to_arg) = True"
| "fits (LibraCoinMintToImpl dst_addr amount) = True"
| "fits (MultiActionClaimOffer multisig_address) = True"
| "fits MultiActionInitGovDeprecated = True"
| "fits (MultiActionMigrationMigrateOffer multisig_address) = True"
| "fits (MultisigAccountAddOwner new_owner) = True"
| "fits (MultisigAccountAddOwners new_owners) = (short new_owners)"
| "fits (MultisigAccountApproveTransaction multisig_account sequence_number) = True"
| "fits (MultisigAccountCreate num_signatures_required metadata_keys metadata_values) = (short metadata_keys \<and> list_all short metadata_keys \<and> short metadata_values \<and> list_all short metadata_values)"
| "fits (MultisigAccountCreateTransaction multisig_account payload_arg) = (short payload_arg)"
| "fits (MultisigAccountCreateTransactionWithHash multisig_account payload_hash) = (short payload_hash)"
| "fits (MultisigAccountCreateWithExistingAccount multisig_address owners num_signatures_required account_scheme account_public_key create_multisig_account_signed_message metadata_keys metadata_values) = (short owners \<and> short account_public_key \<and> short create_multisig_account_signed_message \<and> short metadata_keys \<and> list_all short metadata_keys \<and> short metadata_values \<and> list_all short metadata_values)"
| "fits (MultisigAccountCreateWithOwners additional_owners num_signatures_required metadata_keys metadata_values) = (short additional_owners \<and> short metadata_keys \<and> list_all short metadata_keys \<and> short metadata_values \<and> list_all short metadata_values)"
| "fits (MultisigAccountExecuteRejectedTransaction multisig_account) = True"
| "fits (MultisigAccountMigrateWithOwners additional_owners num_signatures_required metadata_keys metadata_values) = (short additional_owners \<and> short metadata_keys \<and> list_all short metadata_keys \<and> short metadata_values \<and> list_all short metadata_values)"
| "fits (MultisigAccountRejectTransaction multisig_account sequence_number) = True"
| "fits (MultisigAccountRemoveOwner owner_to_remove) = True"
| "fits (MultisigAccountRemoveOwners owners_to_remove) = (short owners_to_remove)"
| "fits (MultisigAccountUpdateMetadata keys values) = (short keys \<and> list_all short keys \<and> short values \<and> list_all short values)"
| "fits (MultisigAccountUpdateSignaturesRequired new_num_signatures_required) = True"
| "fits (MultisigAccountVoteTransanction multisig_account sequence_number approved) = True"
| "fits (ObjectTransferCall object to_arg) = True"
| "fits (OlAccountCreateAccount auth_key) = True"
| "fits (OlAccountSetAllowDirectCoinTransfers allow) = True"
| "fits (OlAccountTransfer to_arg amount) = True"
| "fits ProofOfFeeInitBidding = True"
| "fits ProofOfFeePofRetractBid = True"
| "fits (ProofOfFeePofUpdateBid bid epoch_expiry) = True"
| "fits (ProofOfFeePofUpdateBidNetReward net_reward epoch_expiry) = True"
| "fits (SafeInitPaymentMultisig authorities) = (short authorities)"
| "fits (SlowWalletSmokeTestVmUnlock user_addr unlocked transferred) = True"
| "fits SlowWalletUserSetSlow = True"
| "fits (StakeInitializeValidator consensus_pubkey proof_of_possession network_addresses fullnode_addresses) = (short consensus_pubkey \<and> short proof_of_possession \<and> short network_addresses \<and> short fullnode_addresses)"
| "fits (StakeRotateConsensusKey validator_address new_consensus_pubkey proof_of_possession) = (short new_consensus_pubkey \<and> short proof_of_possession)"
| "fits (StakeUpdateNetworkAndFullnodeAddresses validator_address new_network_addresses new_fullnode_addresses) = (short new_network_addresses \<and> short new_fullnode_addresses)"
| "fits (ValidatorUniverseRegisterValidator consensus_pubkey proof_of_possession network_addresses fullnode_addresses) = (short consensus_pubkey \<and> short proof_of_possession \<and> short network_addresses \<and> short fullnode_addresses)"
| "fits (VersionSetVersion major) = True"
| "fits (VouchInsistVouchFor friend_account) = True"
| "fits (VouchRevoke friend_account) = True"
| "fits (VouchVouchFor friend_account) = True"

lemma encode_address: "encode b c = Inr p \<Longrightarrow> \<exists>s. p = EntryFunction s \<and> ef_address s = 1"
  by (cases c) (auto simp: builder_defs framework_call_Inr)

lemma decoders_args:
  assumes "ty_args s = ty_args t" "args s = args t"
  shows "\<forall>d \<in> snd ` set (decoder_entries b). d (EntryFunction s) = d (EntryFunction t)"
  unfolding decoder_entries_def image_set list.map snd_conv list.set ball_simps decoder_defs on_script_def
  by (simp only: arg_at_def ty_arg_at_def assms TransactionPayload.case simp_thms)

context bcs_library
begin

lemma encode_fits: "fits c \<Longrightarrow> is_ok (encode b c)"
  by (cases c) (simp_all add: builder_defs framework_call_ok to_bytes_ok)

lemma decode_encode: "encode b c = Inr p \<Longrightarrow> decode b p = Some c"
  by (cases c)
    (auto simp: builder_defs framework_call_Inr and_then_eq_Inr expect_eq_Inr decode_def decode_by_def decoder_lookups decoder_defs
      on_script_def arg_at_def ty_arg_at_def from_to_bytes)

end

text \<open>The builders are a release, for every serialization library that keeps its promise.\<close>

lemma current_release: "bcs_library b \<Longrightarrow> sdk_release (decoder_entries b) (encode b)"
proof -
  assume l: "bcs_library b"
  show ?thesis
  proof unfold_locales
    fix c p assume e: "encode b c = Inr p"
    show "\<exists>s. p = EntryFunction s \<and> ef_address s = 1" by (rule encode_address [OF e])
    show "decode_by (decoder_table (decoder_entries b)) p = Some c"
      using bcs_library.decode_encode [OF l e] by (simp add: decode_def SCRIPT_FUNCTION_DECODER_MAP_def)
  qed (use decoders_args in blast)
qed

interpretation ref_current: sdk_release "decoder_entries ref_bcs" "encode ref_bcs"
  by (rule current_release [OF ref_bcs.bcs_library_axioms])

text \<open>C15. The builders and the decoders of all 71 entry functions agree: a call whose vectors can be
  serialized is encoded without a panic, the payload is an entry function of the framework address, and
  decoding it gives back exactly the call, with every argument in its place.\<close>

theorem encode_decode_roundtrip:
  assumes "bcs_library b"
  shows "(fits c \<longrightarrow> is_ok (encode b c)) \<and>
    (\<forall>p. encode b c = Inr p \<longrightarrow> decode b p = Some c \<and> (\<exists>s. p = EntryFunction s \<and> ef_address s = 1))"
  using bcs_library.encode_fits [OF assms] bcs_library.decode_encode [OF assms] encode_address by blast

theorem encode_decode_roundtrip_witness:
  "\<exists>p. encode ref_bcs (VouchVouchFor 7) = Inr p \<and> decode ref_bcs p = Some (VouchVouchFor 7)"
  using encode_decode_roundtrip [OF ref_bcs.bcs_library_axioms, of "VouchVouchFor 7"] by (auto simp: is_ok_iff)

text \<open>Decoding looks only at the joined name of module and function and at the arguments: two entry
  functions with the same joined name and the same arguments decode to the same call, whatever the
  address that publishes the module and wherever the name is split. A payload for a foreign module
  is therefore recognised as a framework call.\<close>

theorem decode_ignores_publisher:
  assumes "bcs_library b" "ef_module s @ ''_'' @ ef_function s = ef_module t @ ''_'' @ ef_function t"
    and "ty_args s = ty_args t" "args s = args t"
  shows "decode b (EntryFunction s) = decode b (EntryFunction t)"
  using sdk_release.decode_joined_name [OF current_release [OF assms(1)] assms(2-4)]
  by (simp add: decode_def SCRIPT_FUNCTION_DECODER_MAP_def)

theorem decode_ignores_publisher_witness:
  "\<exists>s. encode ref_bcs (VouchVouchFor 7) = Inr (EntryFunction s) \<and> ef_address s = 1 \<and>
    decode ref_bcs (EntryFunction (s\<lparr>ef_address := 666, ef_module := ''vouch_vouch'', ef_function := ''for''\<rparr>)) =
      decode ref_bcs (EntryFunction s)"
proof -
  have "is_ok (encode ref_bcs (VouchVouchFor 7))"
    by (rule ref_bcs.encode_fits) simp
  then obtain p where p: "encode ref_bcs (VouchVouchFor 7) = Inr p" by (auto simp: is_ok_iff)
  then obtain s where s: "p = EntryFunction s" "ef_address s = 1" "ef_module s = ''vouch''" "ef_function s = ''vouch_for''"
    by (auto simp: builder_defs framework_call_Inr)
  let ?t = "s\<lparr>ef_address := 666, ef_module := ''vouch_vouch'', ef_function := ''for''\<rparr>"
  have "decode ref_bcs (EntryFunction ?t) = decode ref_bcs (EntryFunction s)"
    by (rule decode_ignores_publisher [OF ref_bcs.bcs_library_axioms]) (simp_all add: s)
  then show ?thesis using p s by blast
qed

end
