(* ===== verification/V6_Sdk.thy ===== *)
theory V6_Sdk
  imports V7_Sdk
begin

text \<open>
  The transaction builders of release six (\<^verbatim>\<open>compatibility/src/sdk/v6_libra_framework_sdk_builder.rs\<close>), kept
  to read the transactions of that release: its 72 calls, builders, decoders and decoder table, in the form of
  \<open>Framework_Sdk\<close>. \<open>upgrade\<close> gives the call of release seven with the same arguments, if there is one.
\<close>

section \<open>Calls\<close>

datatype (plugins only: extraction) EntryFunctionCall =
    AccountOfferRotationCapability "u8 list" u8 "u8 list" AccountAddress
  | AccountOfferSignerCapability "u8 list" u8 "u8 list" AccountAddress
  | AccountRevokeAnyRotationCapability
  | AccountRevokeAnySignerCapability
  | AccountRevokeRotationCapability AccountAddress
  | AccountRevokeSignerCapability AccountAddress
  | AccountRotateAuthenticationKey u8 "u8 list" u8 "u8 list" "u8 list" "u8 list"
  | AccountRotateAuthenticationKeyWithRotationCapability AccountAddress u8 "u8 list" "u8 list"
  | BurnSetSendCommunity bool
  | CodePublishPackageTxn "u8 list" "u8 list list"
  | CoinTransfer TypeTag AccountAddress u64
  | CommunityWalletInitChangeSignerCommunityMultisig AccountAddress AccountAddress bool u64 u64
  | CommunityWalletInitFinalizeAndCage "AccountAddress list" u64
  | CommunityWalletInitInitCommunity "AccountAddress list" u64
  | DiemGovernanceAddApprovedScriptHashScript u64
  | DiemGovernanceAssertCanResolve u64
  | DiemGovernanceCreateProposal AccountAddress "u8 list" "u8 list" "u8 list"
  | DiemGovernanceCreateProposalV2 AccountAddress "u8 list" "u8 list" "u8 list" bool
  | DiemGovernanceOlCreateProposalV2 "u8 list" "u8 list" "u8 list" bool
  | DiemGovernanceOlVote u64 bool
  | DiemGovernanceSmokeTriggerEpoch
  | DiemGovernanceTriggerEpoch
  | DiemGovernanceVote u64 bool
  | DonorVoiceTxsProposeLiquidateTx AccountAddress
  | DonorVoiceTxsProposePaymentTx AccountAddress AccountAddress u64 "u8 list"
  | DonorVoiceTxsProposeVetoTx AccountAddress u64
  | DonorVoiceTxsVoteLiquidationTx AccountAddress
  | DonorVoiceTxsVoteVetoTx AccountAddress u64
  | EpochBoundarySmokeTriggerEpoch
  | JailUnjailByVoucher AccountAddress
  | LibraCoinClaimMintCapability
  | LibraCoinDelegateMintCapability AccountAddress
  | LibraCoinMintToImpl AccountAddress u64
  | MultiActionFinalizeAndCage "AccountAddress list" u64
  | MultisigAccountAddOwner AccountAddress
  | MultisigAccountAddOwners "AccountAddress list"
  | MultisigAccountApproveTransaction AccountAddress u64
  | MultisigAccountCreate u64 "u8 list list" "u8 list list"
  | MultisigAccountCreateTransaction AccountAddress "u8 list"
  | MultisigAccountCreateTransactionWithHash AccountAddress "u8 list"
  | MultisigAccountCreateWithExistingAccount AccountAddress "AccountAddress list" u64 u8 "u8 list" "u8 list" "u8 list list" "u8 list list"
  | MultisigAccountCreateWithOwners "AccountAddress list" u64 "u8 list list" "u8 list list"
  | MultisigAccountExecuteRejectedTransaction AccountAddress
  | MultisigAccountMigrateWithOwners "AccountAddress list" u64 "u8 list list" "u8 list list"
  | MultisigAccountRejectTransaction AccountAddress u64
  | MultisigAccountRemoveOwner AccountAddress
  | MultisigAccountRemoveOwners "AccountAddress list"
  | MultisigAccountUpdateMetadata "u8 list list" "u8 list list"
  | MultisigAccountUpdateSignaturesRequired u64
  | MultisigAccountVoteTransanction AccountAddress u64 bool
  | ObjectTransferCall AccountAddress AccountAddress
  | OlAccountCreateAccount AccountAddress
  | OlAccountSetAllowDirectCoinTransfers bool
  | OlAccountTransfer AccountAddress u64
  | OracleInitProvider
  | ProofOfFeeInitBidding
  | ProofOfFeePofRetractBid
  | ProofOfFeePofUpdateBid u64 u64
  | SafeInitPaymentMultisig
  | SlowWalletSmokeTestVmUnlock AccountAddress u64 u64
  | SlowWalletUserSetSlow
  | StakeInitializeStakeOwner u64 AccountAddress AccountAddress
  | StakeInitializeValidator "u8 list" "u8 list" "u8 list" "u8 list"
  | StakeRotateConsensusKey AccountAddress "u8 list" "u8 list"
  | StakeSetOperator AccountAddress
  | StakeUpdateNetworkAndFullnodeAddresses AccountAddress "u8 list" "u8 list"
  | TowerStateMinerstateCommit "u8 list" "u8 list" u64 u64
  | ValidatorUniverseRegisterValidator "u8 list" "u8 list" "u8 list" "u8 list"
  | VersionSetVersion u64
  | VouchInsistVouchFor AccountAddress
  | VouchRevoke AccountAddress
  | VouchVouchFor AccountAddress

section \<open>Builders\<close>

definition account_offer_rotation_capability ::
  "bcs \<Rightarrow> u8 list \<Rightarrow> u8 \<Rightarrow> u8 list \<Rightarrow> AccountAddress \<Rightarrow> TransactionPayload result" where
  "account_offer_rotation_capability b rotation_capability_sig_bytes account_scheme account_public_key_bytes recipient_address =
     framework_call ''account'' ''offer_rotation_capability'' []
       [to_bytes (bcs_bytes b) rotation_capability_sig_bytes,
        to_bytes (bcs_u8 b) account_scheme,
        to_bytes (bcs_bytes b) account_public_key_bytes,
        to_bytes (bcs_address b) recipient_address]"

definition account_offer_signer_capability ::
  "bcs \<Rightarrow> u8 list \<Rightarrow> u8 \<Rightarrow> u8 list \<Rightarrow> AccountAddress \<Rightarrow> TransactionPayload result" where
  "account_offer_signer_capability b signer_capability_sig_bytes account_scheme account_public_key_bytes recipient_address =
     framework_call ''account'' ''offer_signer_capability'' []
       [to_bytes (bcs_bytes b) signer_capability_sig_bytes,
        to_bytes (bcs_u8 b) account_scheme,
        to_bytes (bcs_bytes b) account_public_key_bytes,
        to_bytes (bcs_address b) recipient_address]"

definition account_revoke_any_rotation_capability ::
  "bcs \<Rightarrow> TransactionPayload result" where
  "account_revoke_any_rotation_capability b =
     framework_call ''account'' ''revoke_any_rotation_capability'' [] []"

definition account_revoke_any_signer_capability ::
  "bcs \<Rightarrow> TransactionPayload result" where
  "account_revoke_any_signer_capability b =
     framework_call ''account'' ''revoke_any_signer_capability'' [] []"

definition account_revoke_rotation_capability ::
  "bcs \<Rightarrow> AccountAddress \<Rightarrow> TransactionPayload result" where
  "account_revoke_rotation_capability b to_be_revoked_address =
     framework_call ''account'' ''revoke_rotation_capability'' []
       [to_bytes (bcs_address b) to_be_revoked_address]"

definition account_revoke_signer_capability ::
  "bcs \<Rightarrow> AccountAddress \<Rightarrow> TransactionPayload result" where
  "account_revoke_signer_capability b to_be_revoked_address =
     framework_call ''account'' ''revoke_signer_capability'' []
       [to_bytes (bcs_address b) to_be_revoked_address]"

definition account_rotate_authentication_key ::
  "bcs \<Rightarrow> u8 \<Rightarrow> u8 list \<Rightarrow> u8 \<Rightarrow> u8 list \<Rightarrow> u8 list \<Rightarrow> u8 list \<Rightarrow> TransactionPayload result" where
  "account_rotate_authentication_key b from_scheme from_public_key_bytes to_scheme to_public_key_bytes cap_rotate_key cap_update_table =
     framework_call ''account'' ''rotate_authentication_key'' []
       [to_bytes (bcs_u8 b) from_scheme,
        to_bytes (bcs_bytes b) from_public_key_bytes,
        to_bytes (bcs_u8 b) to_scheme,
        to_bytes (bcs_bytes b) to_public_key_bytes,
        to_bytes (bcs_bytes b) cap_rotate_key,
        to_bytes (bcs_bytes b) cap_update_table]"

definition account_rotate_authentication_key_with_rotation_capability ::
  "bcs \<Rightarrow> AccountAddress \<Rightarrow> u8 \<Rightarrow> u8 list \<Rightarrow> u8 list \<Rightarrow> TransactionPayload result" where
  "account_rotate_authentication_key_with_rotation_capability b rotation_cap_offerer_address new_scheme new_public_key_bytes cap_update_table =
     framework_call ''account'' ''rotate_authentication_key_with_rotation_capability'' []
       [to_bytes (bcs_address b) rotation_cap_offerer_address,
        to_bytes (bcs_u8 b) new_scheme,
        to_bytes (bcs_bytes b) new_public_key_bytes,
        to_bytes (bcs_bytes b) cap_update_table]"

definition burn_set_send_community ::
  "bcs \<Rightarrow> bool \<Rightarrow> TransactionPayload result" where
  "burn_set_send_community b community =
     framework_call ''burn'' ''set_send_community'' [] [to_bytes (bcs_bool b) community]"

definition code_publish_package_txn ::
  "bcs \<Rightarrow> u8 list \<Rightarrow> u8 list list \<Rightarrow> TransactionPayload result" where
  "code_publish_package_txn b metadata_serialized code_arg =
     framework_call ''code'' ''publish_package_txn'' []
       [to_bytes (bcs_bytes b) metadata_serialized,
        to_bytes (bcs_bytes_vec b) code_arg]"

definition coin_transfer ::
  "bcs \<Rightarrow> TypeTag \<Rightarrow> AccountAddress \<Rightarrow> u64 \<Rightarrow> TransactionPayload result" where
  "coin_transfer b coin_type to_arg amount =
     framework_call ''coin'' ''transfer'' [coin_type]
       [to_bytes (bcs_address b) to_arg,
        to_bytes (bcs_u64 b) amount]"

definition community_wallet_init_change_signer_community_multisig ::
  "bcs \<Rightarrow> AccountAddress \<Rightarrow> AccountAddress \<Rightarrow> bool \<Rightarrow> u64 \<Rightarrow> u64 \<Rightarrow> TransactionPayload result" where
  "community_wallet_init_change_signer_community_multisig b multisig_address new_signer is_add_operation n_of_m vote_duration_epochs =
     framework_call ''community_wallet_init'' ''change_signer_community_multisig'' []
       [to_bytes (bcs_address b) multisig_address,
        to_bytes (bcs_address b) new_signer,
        to_bytes (bcs_bool b) is_add_operation,
        to_bytes (bcs_u64 b) n_of_m,
        to_bytes (bcs_u64 b) vote_duration_epochs]"

definition community_wallet_init_finalize_and_cage ::
  "bcs \<Rightarrow> AccountAddress list \<Rightarrow> u64 \<Rightarrow> TransactionPayload result" where
  "community_wallet_init_finalize_and_cage b initial_authorities num_signers =
     framework_call ''community_wallet_init'' ''finalize_and_cage'' []
       [to_bytes (bcs_addresses b) initial_authorities,
        to_bytes (bcs_u64 b) num_signers]"

definition community_wallet_init_init_community ::
  "bcs \<Rightarrow> AccountAddress list \<Rightarrow> u64 \<Rightarrow> TransactionPayload result" where
  "community_wallet_init_init_community b check_addresses check_threshold =
     framework_call ''community_wallet_init'' ''init_community'' []
       [to_bytes (bcs_addresses b) check_addresses,
        to_bytes (bcs_u64 b) check_threshold]"

definition diem_governance_add_approved_script_hash_script ::
  "bcs \<Rightarrow> u64 \<Rightarrow> TransactionPayload result" where
  "diem_governance_add_approved_script_hash_script b proposal_id =
     framework_call ''diem_governance'' ''add_approved_script_hash_script'' []
       [to_bytes (bcs_u64 b) proposal_id]"

definition diem_governance_assert_can_resolve ::
  "bcs \<Rightarrow> u64 \<Rightarrow> TransactionPayload result" where
  "diem_governance_assert_can_resolve b proposal_id =
     framework_call ''diem_governance'' ''assert_can_resolve'' [] [to_bytes (bcs_u64 b) proposal_id]"

definition diem_governance_create_proposal ::
  "bcs \<Rightarrow> AccountAddress \<Rightarrow> u8 list \<Rightarrow> u8 list \<Rightarrow> u8 list \<Rightarrow> TransactionPayload result" where
  "diem_governance_create_proposal b stake_pool execution_hash metadata_location metadata_hash =
     framework_call ''diem_governance'' ''create_proposal'' []
       [to_bytes (bcs_address b) stake_pool,
        to_bytes (bcs_bytes b) execution_hash,
        to_bytes (bcs_bytes b) metadata_location,
        to_bytes (bcs_bytes b) metadata_hash]"

definition diem_governance_create_proposal_v2 ::
  "bcs \<Rightarrow> AccountAddress \<Rightarrow> u8 list \<Rightarrow> u8 list \<Rightarrow> u8 list \<Rightarrow> bool \<Rightarrow> TransactionPayload result" where
  "diem_governance_create_proposal_v2 b stake_pool execution_hash metadata_location metadata_hash is_multi_step_proposal =
     framework_call ''diem_governance'' ''create_proposal_v2'' []
       [to_bytes (bcs_address b) stake_pool,
        to_bytes (bcs_bytes b) execution_hash,
        to_bytes (bcs_bytes b) metadata_location,
        to_bytes (bcs_bytes b) metadata_hash,
        to_bytes (bcs_bool b) is_multi_step_proposal]"

definition diem_governance_ol_create_proposal_v2 ::
  "bcs \<Rightarrow> u8 list \<Rightarrow> u8 list \<Rightarrow> u8 list \<Rightarrow> bool \<Rightarrow> TransactionPayload result" where
  "diem_governance_ol_create_proposal_v2 b execution_hash metadata_location metadata_hash is_multi_step_proposal =
     framework_call ''diem_governance'' ''ol_create_proposal_v2'' []
       [to_bytes (bcs_bytes b) execution_hash,
        to_bytes (bcs_bytes b) metadata_location,
        to_bytes (bcs_bytes b) metadata_hash,
        to_bytes (bcs_bool b) is_multi_step_proposal]"

definition diem_governance_ol_vote ::
  "bcs \<Rightarrow> u64 \<Rightarrow> bool \<Rightarrow> TransactionPayload result" where
  "diem_governance_ol_vote b proposal_id should_pass =
     framework_call ''diem_governance'' ''ol_vote'' []
       [to_bytes (bcs_u64 b) proposal_id,
        to_bytes (bcs_bool b) should_pass]"

definition diem_governance_smoke_trigger_epoch ::
  "bcs \<Rightarrow> TransactionPayload result" where
  "diem_governance_smoke_trigger_epoch b =
     framework_call ''diem_governance'' ''smoke_trigger_epoch'' [] []"

definition diem_governance_trigger_epoch ::
  "bcs \<Rightarrow> TransactionPayload result" where
  "diem_governance_trigger_epoch b =
     framework_call ''diem_governance'' ''trigger_epoch'' [] []"

definition diem_governance_vote ::
  "bcs \<Rightarrow> u64 \<Rightarrow> bool \<Rightarrow> TransactionPayload result" where
  "diem_governance_vote b proposal_id should_pass =
     framework_call ''diem_governance'' ''vote'' []
       [to_bytes (bcs_u64 b) proposal_id,
        to_bytes (bcs_bool b) should_pass]"

definition donor_voice_txs_propose_liquidate_tx ::
  "bcs \<Rightarrow> AccountAddress \<Rightarrow> TransactionPayload result" where
  "donor_voice_txs_propose_liquidate_tx b multisig_address =
     framework_call ''donor_voice_txs'' ''propose_liquidate_tx'' []
       [to_bytes (bcs_address b) multisig_address]"

definition donor_voice_txs_propose_payment_tx ::
  "bcs \<Rightarrow> AccountAddress \<Rightarrow> AccountAddress \<Rightarrow> u64 \<Rightarrow> u8 list \<Rightarrow> TransactionPayload result" where
  "donor_voice_txs_propose_payment_tx b multisig_address payee value description =
     framework_call ''donor_voice_txs'' ''propose_payment_tx'' []
       [to_bytes (bcs_address b) multisig_address,
        to_bytes (bcs_address b) payee,
        to_bytes (bcs_u64 b) value,
        to_bytes (bcs_bytes b) description]"

definition donor_voice_txs_propose_veto_tx ::
  "bcs \<Rightarrow> AccountAddress \<Rightarrow> u64 \<Rightarrow> TransactionPayload result" where
  "donor_voice_txs_propose_veto_tx b multisig_address id_arg =
     framework_call ''donor_voice_txs'' ''propose_veto_tx'' []
       [to_bytes (bcs_address b) multisig_address,
        to_bytes (bcs_u64 b) id_arg]"

definition donor_voice_txs_vote_liquidation_tx ::
  "bcs \<Rightarrow> AccountAddress \<Rightarrow> TransactionPayload result" where
  "donor_voice_txs_vote_liquidation_tx b multisig_address =
     framework_call ''donor_voice_txs'' ''vote_liquidation_tx'' []
       [to_bytes (bcs_address b) multisig_address]"

definition donor_voice_txs_vote_veto_tx ::
  "bcs \<Rightarrow> AccountAddress \<Rightarrow> u64 \<Rightarrow> TransactionPayload result" where
  "donor_voice_txs_vote_veto_tx b multisig_address id_arg =
     framework_call ''donor_voice_txs'' ''vote_veto_tx'' []
       [to_bytes (bcs_address b) multisig_address,
        to_bytes (bcs_u64 b) id_arg]"

definition epoch_boundary_smoke_trigger_epoch ::
  "bcs \<Rightarrow> TransactionPayload result" where
  "epoch_boundary_smoke_trigger_epoch b =
     framework_call ''epoch_boundary'' ''smoke_trigger_epoch'' [] []"

definition jail_unjail_by_voucher ::
  "bcs \<Rightarrow> AccountAddress \<Rightarrow> TransactionPayload result" where
  "jail_unjail_by_voucher b addr =
     framework_call ''jail'' ''unjail_by_voucher'' [] [to_bytes (bcs_address b) addr]"

definition libra_coin_claim_mint_capability ::
  "bcs \<Rightarrow> TransactionPayload result" where
  "libra_coin_claim_mint_capability b =
     framework_call ''libra_coin'' ''claim_mint_capability'' [] []"

definition libra_coin_delegate_mint_capability ::
  "bcs \<Rightarrow> AccountAddress \<Rightarrow> TransactionPayload result" where
  "libra_coin_delegate_mint_capability b to_arg =
     framework_call ''libra_coin'' ''delegate_mint_capability'' [] [to_bytes (bcs_address b) to_arg]"

definition libra_coin_mint_to_impl ::
  "bcs \<Rightarrow> AccountAddress \<Rightarrow> u64 \<Rightarrow> TransactionPayload result" where
  "libra_coin_mint_to_impl b dst_addr amount =
     framework_call ''libra_coin'' ''mint_to_impl'' []
       [to_bytes (bcs_address b) dst_addr,
        to_bytes (bcs_u64 b) amount]"

definition multi_action_finalize_and_cage ::
  "bcs \<Rightarrow> AccountAddress list \<Rightarrow> u64 \<Rightarrow> TransactionPayload result" where
  "multi_action_finalize_and_cage b initial_authorities num_signers =
     framework_call ''multi_action'' ''finalize_and_cage'' []
       [to_bytes (bcs_addresses b) initial_authorities,
        to_bytes (bcs_u64 b) num_signers]"

definition multisig_account_add_owner ::
  "bcs \<Rightarrow> AccountAddress \<Rightarrow> TransactionPayload result" where
  "multisig_account_add_owner b new_owner =
     framework_call ''multisig_account'' ''add_owner'' [] [to_bytes (bcs_address b) new_owner]"

definition multisig_account_add_owners ::
  "bcs \<Rightarrow> AccountAddress list \<Rightarrow> TransactionPayload result" where
  "multisig_account_add_owners b new_owners =
     framework_call ''multisig_account'' ''add_owners'' [] [to_bytes (bcs_addresses b) new_owners]"

definition multisig_account_approve_transaction ::
  "bcs \<Rightarrow> AccountAddress \<Rightarrow> u64 \<Rightarrow> TransactionPayload result" where
  "multisig_account_approve_transaction b multisig_account sequence_number =
     framework_call ''multisig_account'' ''approve_transaction'' []
       [to_bytes (bcs_address b) multisig_account,
        to_bytes (bcs_u64 b) sequence_number]"

definition multisig_account_create ::
  "bcs \<Rightarrow> u64 \<Rightarrow> u8 list list \<Rightarrow> u8 list list \<Rightarrow> TransactionPayload result" where
  "multisig_account_create b num_signatures_required metadata_keys metadata_values =
     framework_call ''multisig_account'' ''create'' []
       [to_bytes (bcs_u64 b) num_signatures_required,
        to_bytes (bcs_bytes_vec b) metadata_keys,
        to_bytes (bcs_bytes_vec b) metadata_values]"

definition multisig_account_create_transaction ::
  "bcs \<Rightarrow> AccountAddress \<Rightarrow> u8 list \<Rightarrow> TransactionPayload result" where
  "multisig_account_create_transaction b multisig_account payload_arg =
     framework_call ''multisig_account'' ''create_transaction'' []
       [to_bytes (bcs_address b) multisig_account,
        to_bytes (bcs_bytes b) payload_arg]"

definition multisig_account_create_transaction_with_hash ::
  "bcs \<Rightarrow> AccountAddress \<Rightarrow> u8 list \<Rightarrow> TransactionPayload result" where
  "multisig_account_create_transaction_with_hash b multisig_account payload_hash =
     framework_call ''multisig_account'' ''create_transaction_with_hash'' []
       [to_bytes (bcs_address b) multisig_account,
        to_bytes (bcs_bytes b) payload_hash]"

definition multisig_account_create_with_existing_account ::
  "bcs \<Rightarrow> AccountAddress \<Rightarrow> AccountAddress list \<Rightarrow> u64 \<Rightarrow> u8 \<Rightarrow> u8 list \<Rightarrow> u8 list \<Rightarrow> u8 list list \<Rightarrow> u8 list list \<Rightarrow> TransactionPayload result" where
  "multisig_account_create_with_existing_account b multisig_address owners num_signatures_required account_scheme account_public_key create_multisig_account_signed_message metadata_keys metadata_values =
     framework_call ''multisig_account'' ''create_with_existing_account'' []
       [to_bytes (bcs_address b) multisig_address,
        to_bytes (bcs_addresses b) owners,
        to_bytes (bcs_u64 b) num_signatures_required,
        to_bytes (bcs_u8 b) account_scheme,
        to_bytes (bcs_bytes b) account_public_key,
        to_bytes (bcs_bytes b) create_multisig_account_signed_message,
        to_bytes (bcs_bytes_vec b) metadata_keys,
        to_bytes (bcs_bytes_vec b) metadata_values]"

definition multisig_account_create_with_owners ::
  "bcs \<Rightarrow> AccountAddress list \<Rightarrow> u64 \<Rightarrow> u8 list list \<Rightarrow> u8 list list \<Rightarrow> TransactionPayload result" where
  "multisig_account_create_with_owners b additional_owners num_signatures_required metadata_keys metadata_values =
     framework_call ''multisig_account'' ''create_with_owners'' []
       [to_bytes (bcs_addresses b) additional_owners,
        to_bytes (bcs_u64 b) num_signatures_required,
        to_bytes (bcs_bytes_vec b) metadata_keys,
        to_bytes (bcs_bytes_vec b) metadata_values]"

definition multisig_account_execute_rejected_transaction ::
  "bcs \<Rightarrow> AccountAddress \<Rightarrow> TransactionPayload result" where
  "multisig_account_execute_rejected_transaction b multisig_account =
     framework_call ''multisig_account'' ''execute_rejected_transaction'' []
       [to_bytes (bcs_address b) multisig_account]"

definition multisig_account_migrate_with_owners ::
  "bcs \<Rightarrow> AccountAddress list \<Rightarrow> u64 \<Rightarrow> u8 list list \<Rightarrow> u8 list list \<Rightarrow> TransactionPayload result" where
  "multisig_account_migrate_with_owners b additional_owners num_signatures_required metadata_keys metadata_values =
     framework_call ''multisig_account'' ''migrate_with_owners'' []
       [to_bytes (bcs_addresses b) additional_owners,
        to_bytes (bcs_u64 b) num_signatures_required,
        to_bytes (bcs_bytes_vec b) metadata_keys,
        to_bytes (bcs_bytes_vec b) metadata_values]"

definition multisig_account_reject_transaction ::
  "bcs \<Rightarrow> AccountAddress \<Rightarrow> u64 \<Rightarrow> TransactionPayload result" where
  "multisig_account_reject_transaction b multisig_account sequence_number =
     framework_call ''multisig_account'' ''reject_transaction'' []
       [to_bytes (bcs_address b) multisig_account,
        to_bytes (bcs_u64 b) sequence_number]"

definition multisig_account_remove_owner ::
  "bcs \<Rightarrow> AccountAddress \<Rightarrow> TransactionPayload result" where
  "multisig_account_remove_owner b owner_to_remove =
     framework_call ''multisig_account'' ''remove_owner'' [] [to_bytes (bcs_address b) owner_to_remove]"

definition multisig_account_remove_owners ::
  "bcs \<Rightarrow> AccountAddress list \<Rightarrow> TransactionPayload result" where
  "multisig_account_remove_owners b owners_to_remove =
     framework_call ''multisig_account'' ''remove_owners'' [] [to_bytes (bcs_addresses b) owners_to_remove]"

definition multisig_account_update_metadata ::
  "bcs \<Rightarrow> u8 list list \<Rightarrow> u8 list list \<Rightarrow> TransactionPayload result" where
  "multisig_account_update_metadata b keys values =
     framework_call ''multisig_account'' ''update_metadata'' []
       [to_bytes (bcs_bytes_vec b) keys,
        to_bytes (bcs_bytes_vec b) values]"

definition multisig_account_update_signatures_required ::
  "bcs \<Rightarrow> u64 \<Rightarrow> TransactionPayload result" where
  "multisig_account_update_signatures_required b new_num_signatures_required =
     framework_call ''multisig_account'' ''update_signatures_required'' []
       [to_bytes (bcs_u64 b) new_num_signatures_required]"

definition multisig_account_vote_transanction ::
  "bcs \<Rightarrow> AccountAddress \<Rightarrow> u64 \<Rightarrow> bool \<Rightarrow> TransactionPayload result" where
  "multisig_account_vote_transanction b multisig_account sequence_number approved =
     framework_call ''multisig_account'' ''vote_transanction'' []
       [to_bytes (bcs_address b) multisig_account,
        to_bytes (bcs_u64 b) sequence_number,
        to_bytes (bcs_bool b) approved]"

definition object_transfer_call ::
  "bcs \<Rightarrow> AccountAddress \<Rightarrow> AccountAddress \<Rightarrow> TransactionPayload result" where
  "object_transfer_call b object to_arg =
     framework_call ''object'' ''transfer_call'' []
       [to_bytes (bcs_address b) object,
        to_bytes (bcs_address b) to_arg]"

definition ol_account_create_account ::
  "bcs \<Rightarrow> AccountAddress \<Rightarrow> TransactionPayload result" where
  "ol_account_create_account b auth_key =
     framework_call ''ol_account'' ''create_account'' [] [to_bytes (bcs_address b) auth_key]"

definition ol_account_set_allow_direct_coin_transfers ::
  "bcs \<Rightarrow> bool \<Rightarrow> TransactionPayload result" where
  "ol_account_set_allow_direct_coin_transfers b allow =
     framework_call ''ol_account'' ''set_allow_direct_coin_transfers'' [] [to_bytes (bcs_bool b) allow]"

definition ol_account_transfer ::
  "bcs \<Rightarrow> AccountAddress \<Rightarrow> u64 \<Rightarrow> TransactionPayload result" where
  "ol_account_transfer b to_arg amount =
     framework_call ''ol_account'' ''transfer'' []
       [to_bytes (bcs_address b) to_arg,
        to_bytes (bcs_u64 b) amount]"

definition oracle_init_provider ::
  "bcs \<Rightarrow> TransactionPayload result" where
  "oracle_init_provider b =
     framework_call ''oracle'' ''init_provider'' [] []"

definition proof_of_fee_init_bidding ::
  "bcs \<Rightarrow> TransactionPayload result" where
  "proof_of_fee_init_bidding b =
     framework_call ''proof_of_fee'' ''init_bidding'' [] []"

definition proof_of_fee_pof_retract_bid ::
  "bcs \<Rightarrow> TransactionPayload result" where
  "proof_of_fee_pof_retract_bid b =
     framework_call ''proof_of_fee'' ''pof_retract_bid'' [] []"

definition proof_of_fee_pof_update_bid ::
  "bcs \<Rightarrow> u64 \<Rightarrow> u64 \<Rightarrow> TransactionPayload result" where
  "proof_of_fee_pof_update_bid b bid epoch_expiry =
     framework_call ''proof_of_fee'' ''pof_update_bid'' []
       [to_bytes (bcs_u64 b) bid,
        to_bytes (bcs_u64 b) epoch_expiry]"

definition safe_init_payment_multisig ::
  "bcs \<Rightarrow> TransactionPayload result" where
  "safe_init_payment_multisig b =
     framework_call ''safe'' ''init_payment_multisig'' [] []"

definition slow_wallet_smoke_test_vm_unlock ::
  "bcs \<Rightarrow> AccountAddress \<Rightarrow> u64 \<Rightarrow> u64 \<Rightarrow> TransactionPayload result" where
  "slow_wallet_smoke_test_vm_unlock b user_addr unlocked transferred =
     framework_call ''slow_wallet'' ''smoke_test_vm_unlock'' []
       [to_bytes (bcs_address b) user_addr,
        to_bytes (bcs_u64 b) unlocked,
        to_bytes (bcs_u64 b) transferred]"

definition slow_wallet_user_set_slow ::
  "bcs \<Rightarrow> TransactionPayload result" where
  "slow_wallet_user_set_slow b =
     framework_call ''slow_wallet'' ''user_set_slow'' [] []"

definition stake_initialize_stake_owner ::
  "bcs \<Rightarrow> u64 \<Rightarrow> AccountAddress \<Rightarrow> AccountAddress \<Rightarrow> TransactionPayload result" where
  "stake_initialize_stake_owner b initial_stake_amount operator voter =
     framework_call ''stake'' ''initialize_stake_owner'' []
       [to_bytes (bcs_u64 b) initial_stake_amount,
        to_bytes (bcs_address b) operator,
        to_bytes (bcs_address b) voter]"

definition stake_initialize_validator ::
  "bcs \<Rightarrow> u8 list \<Rightarrow> u8 list \<Rightarrow> u8 list \<Rightarrow> u8 list \<Rightarrow> TransactionPayload result" where
  "stake_initialize_validator b consensus_pubkey proof_of_possession network_addresses fullnode_addresses =
     framework_call ''stake'' ''initialize_validator'' []
       [to_bytes (bcs_bytes b) consensus_pubkey,
        to_bytes (bcs_bytes b) proof_of_possession,
        to_bytes (bcs_bytes b) network_addresses,
        to_bytes (bcs_bytes b) fullnode_addresses]"

definition stake_rotate_consensus_key ::
  "bcs \<Rightarrow> AccountAddress \<Rightarrow> u8 list \<Rightarrow> u8 list \<Rightarrow> TransactionPayload result" where
  "stake_rotate_consensus_key b validator_address new_consensus_pubkey proof_of_possession =
     framework_call ''stake'' ''rotate_consensus_key'' []
       [to_bytes (bcs_address b) validator_address,
        to_bytes (bcs_bytes b) new_consensus_pubkey,
        to_bytes (bcs_bytes b) proof_of_possession]"

definition stake_set_operator ::
  "bcs \<Rightarrow> AccountAddress \<Rightarrow> TransactionPayload result" where
  "stake_set_operator b new_operator =
     framework_call ''stake'' ''set_operator'' [] [to_bytes (bcs_address b) new_operator]"

definition stake_update_network_and_fullnode_addresses ::
  "bcs \<Rightarrow> AccountAddress \<Rightarrow> u8 list \<Rightarrow> u8 list \<Rightarrow> TransactionPayload result" where
  "stake_update_network_and_fullnode_addresses b validator_address new_network_addresses new_fullnode_addresses =
     framework_call ''stake'' ''update_network_and_fullnode_addresses'' []
       [to_bytes (bcs_address b) validator_address,
        to_bytes (bcs_bytes b) new_network_addresses,
        to_bytes (bcs_bytes b) new_fullnode_addresses]"

definition tower_state_minerstate_commit ::
  "bcs \<Rightarrow> u8 list \<Rightarrow> u8 list \<Rightarrow> u64 \<Rightarrow> u64 \<Rightarrow> TransactionPayload result" where
  "tower_state_minerstate_commit b challenge solution difficulty security =
     framework_call ''tower_state'' ''minerstate_commit'' []
       [to_bytes (bcs_bytes b) challenge,
        to_bytes (bcs_bytes b) solution,
        to_bytes (bcs_u64 b) difficulty,
        to_bytes (bcs_u64 b) security]"

definition validator_universe_register_validator ::
  "bcs \<Rightarrow> u8 list \<Rightarrow> u8 list \<Rightarrow> u8 list \<Rightarrow> u8 list \<Rightarrow> TransactionPayload result" where
  "validator_universe_register_validator b consensus_pubkey proof_of_possession network_addresses fullnode_addresses =
     framework_call ''validator_universe'' ''register_validator'' []
       [to_bytes (bcs_bytes b) consensus_pubkey,
        to_bytes (bcs_bytes b) proof_of_possession,
        to_bytes (bcs_bytes b) network_addresses,
        to_bytes (bcs_bytes b) fullnode_addresses]"

definition version_set_version ::
  "bcs \<Rightarrow> u64 \<Rightarrow> TransactionPayload result" where
  "version_set_version b major =
     framework_call ''version'' ''set_version'' [] [to_bytes (bcs_u64 b) major]"

definition vouch_insist_vouch_for ::
  "bcs \<Rightarrow> AccountAddress \<Rightarrow> TransactionPayload result" where
  "vouch_insist_vouch_for b wanna_be_my_friend =
     framework_call ''vouch'' ''insist_vouch_for'' [] [to_bytes (bcs_address b) wanna_be_my_friend]"

definition vouch_revoke ::
  "bcs \<Rightarrow> AccountAddress \<Rightarrow> TransactionPayload result" where
  "vouch_revoke b its_not_me_its_you =
     framework_call ''vouch'' ''revoke'' [] [to_bytes (bcs_address b) its_not_me_its_you]"

definition vouch_vouch_for ::
  "bcs \<Rightarrow> AccountAddress \<Rightarrow> TransactionPayload result" where
  "vouch_vouch_for b wanna_be_my_friend =
     framework_call ''vouch'' ''vouch_for'' [] [to_bytes (bcs_address b) wanna_be_my_friend]"

section \<open>Encoding\<close>

primrec encode :: "bcs \<Rightarrow> EntryFunctionCall \<Rightarrow> TransactionPayload result" where
  "encode b (AccountOfferRotationCapability rotation_capability_sig_bytes account_scheme account_public_key_bytes recipient_address) =
     account_offer_rotation_capability b rotation_capability_sig_bytes account_scheme account_public_key_bytes recipient_address"
| "encode b (AccountOfferSignerCapability signer_capability_sig_bytes account_scheme account_public_key_bytes recipient_address) =
     account_offer_signer_capability b signer_capability_sig_bytes account_scheme account_public_key_bytes recipient_address"
| "encode b AccountRevokeAnyRotationCapability = account_revoke_any_rotation_capability b"
| "encode b AccountRevokeAnySignerCapability = account_revoke_any_signer_capability b"
| "encode b (AccountRevokeRotationCapability to_be_revoked_address) =
     account_revoke_rotation_capability b to_be_revoked_address"
| "encode b (AccountRevokeSignerCapability to_be_revoked_address) =
     account_revoke_signer_capability b to_be_revoked_address"
| "encode b (AccountRotateAuthenticationKey from_scheme from_public_key_bytes to_scheme to_public_key_bytes cap_rotate_key cap_update_table) =
     account_rotate_authentication_key b from_scheme from_public_key_bytes to_scheme to_public_key_bytes cap_rotate_key cap_update_table"
| "encode b (AccountRotateAuthenticationKeyWithRotationCapability rotation_cap_offerer_address new_scheme new_public_key_bytes cap_update_table) =
     account_rotate_authentication_key_with_rotation_capability b rotation_cap_offerer_address new_scheme new_public_key_bytes cap_update_table"
| "encode b (BurnSetSendCommunity community) = burn_set_send_community b community"
| "encode b (CodePublishPackageTxn metadata_serialized code_arg) =
     code_publish_package_txn b metadata_serialized code_arg"
| "encode b (CoinTransfer coin_type to_arg amount) = coin_transfer b coin_type to_arg amount"
| "encode b (CommunityWalletInitChangeSignerCommunityMultisig multisig_address new_signer is_add_operation n_of_m vote_duration_epochs) =
     community_wallet_init_change_signer_community_multisig b multisig_address new_signer is_add_operation n_of_m vote_duration_epochs"
| "encode b (CommunityWalletInitFinalizeAndCage initial_authorities num_signers) =
     community_wallet_init_finalize_and_cage b initial_authorities num_signers"
| "encode b (CommunityWalletInitInitCommunity check_addresses check_threshold) =
     community_wallet_init_init_community b check_addresses check_threshold"
| "encode b (DiemGovernanceAddApprovedScriptHashScript proposal_id) =
     diem_governance_add_approved_script_hash_script b proposal_id"
| "encode b (DiemGovernanceAssertCanResolve proposal_id) = diem_governance_assert_can_resolve b proposal_id"
| "encode b (DiemGovernanceCreateProposal stake_pool execution_hash metadata_location metadata_hash) =
     diem_governance_create_proposal b stake_pool execution_hash metadata_location metadata_hash"
| "encode b (DiemGovernanceCreateProposalV2 stake_pool execution_hash metadata_location metadata_hash is_multi_step_proposal) =
     diem_governance_create_proposal_v2 b stake_pool execution_hash metadata_location metadata_hash is_multi_step_proposal"
| "encode b (DiemGovernanceOlCreateProposalV2 execution_hash metadata_location metadata_hash is_multi_step_proposal) =
     diem_governance_ol_create_proposal_v2 b execution_hash metadata_location metadata_hash is_multi_step_proposal"
| "encode b (DiemGovernanceOlVote proposal_id should_pass) = diem_governance_ol_vote b proposal_id should_pass"
| "encode b DiemGovernanceSmokeTriggerEpoch = diem_governance_smoke_trigger_epoch b"
| "encode b DiemGovernanceTriggerEpoch = diem_governance_trigger_epoch b"
| "encode b (DiemGovernanceVote proposal_id should_pass) = diem_governance_vote b proposal_id should_pass"
| "encode b (DonorVoiceTxsProposeLiquidateTx multisig_address) =
     donor_voice_txs_propose_liquidate_tx b multisig_address"
| "encode b (DonorVoiceTxsProposePaymentTx multisig_address payee value description) =
     donor_voice_txs_propose_payment_tx b multisig_address payee value description"
| "encode b (DonorVoiceTxsProposeVetoTx multisig_address id_arg) =
     donor_voice_txs_propose_veto_tx b multisig_address id_arg"
| "encode b (DonorVoiceTxsVoteLiquidationTx multisig_address) =
     donor_voice_txs_vote_liquidation_tx b multisig_address"
| "encode b (DonorVoiceTxsVoteVetoTx multisig_address id_arg) =
     donor_voice_txs_vote_veto_tx b multisig_address id_arg"
| "encode b EpochBoundarySmokeTriggerEpoch = epoch_boundary_smoke_trigger_epoch b"
| "encode b (JailUnjailByVoucher addr) = jail_unjail_by_voucher b addr"
| "encode b LibraCoinClaimMintCapability = libra_coin_claim_mint_capability b"
| "encode b (LibraCoinDelegateMintCapability to_arg) = libra_coin_delegate_mint_capability b to_arg"
| "encode b (LibraCoinMintToImpl dst_addr amount) = libra_coin_mint_to_impl b dst_addr amount"
| "encode b (MultiActionFinalizeAndCage initial_authorities num_signers) =
     multi_action_finalize_and_cage b initial_authorities num_signers"
| "encode b (MultisigAccountAddOwner new_owner) = multisig_account_add_owner b new_owner"
| "encode b (MultisigAccountAddOwners new_owners) = multisig_account_add_owners b new_owners"
| "encode b (MultisigAccountApproveTransaction multisig_account sequence_number) =
     multisig_account_approve_transaction b multisig_account sequence_number"
| "encode b (MultisigAccountCreate num_signatures_required metadata_keys metadata_values) =
     multisig_account_create b num_signatures_required metadata_keys metadata_values"
| "encode b (MultisigAccountCreateTransaction multisig_account payload_arg) =
     multisig_account_create_transaction b multisig_account payload_arg"
| "encode b (MultisigAccountCreateTransactionWithHash multisig_account payload_hash) =
     multisig_account_create_transaction_with_hash b multisig_account payload_hash"
| "encode b (MultisigAccountCreateWithExistingAccount multisig_address owners num_signatures_required account_scheme account_public_key create_multisig_account_signed_message metadata_keys metadata_values) =
     multisig_account_create_with_existing_account b multisig_address owners num_signatures_required account_scheme account_public_key create_multisig_account_signed_message metadata_keys metadata_values"
| "encode b (MultisigAccountCreateWithOwners additional_owners num_signatures_required metadata_keys metadata_values) =
     multisig_account_create_with_owners b additional_owners num_signatures_required metadata_keys metadata_values"
| "encode b (MultisigAccountExecuteRejectedTransaction multisig_account) =
     multisig_account_execute_rejected_transaction b multisig_account"
| "encode b (MultisigAccountMigrateWithOwners additional_owners num_signatures_required metadata_keys metadata_values) =
     multisig_account_migrate_with_owners b additional_owners num_signatures_required metadata_keys metadata_values"
| "encode b (MultisigAccountRejectTransaction multisig_account sequence_number) =
     multisig_account_reject_transaction b multisig_account sequence_number"
| "encode b (MultisigAccountRemoveOwner owner_to_remove) = multisig_account_remove_owner b owner_to_remove"
| "encode b (MultisigAccountRemoveOwners owners_to_remove) = multisig_account_remove_owners b owners_to_remove"
| "encode b (MultisigAccountUpdateMetadata keys values) = multisig_account_update_metadata b keys values"
| "encode b (MultisigAccountUpdateSignaturesRequired new_num_signatures_required) =
     multisig_account_update_signatures_required b new_num_signatures_required"
| "encode b (MultisigAccountVoteTransanction multisig_account sequence_number approved) =
     multisig_account_vote_transanction b multisig_account sequence_number approved"
| "encode b (ObjectTransferCall object to_arg) = object_transfer_call b object to_arg"
| "encode b (OlAccountCreateAccount auth_key) = ol_account_create_account b auth_key"
| "encode b (OlAccountSetAllowDirectCoinTransfers allow) = ol_account_set_allow_direct_coin_transfers b allow"
| "encode b (OlAccountTransfer to_arg amount) = ol_account_transfer b to_arg amount"
| "encode b OracleInitProvider = oracle_init_provider b"
| "encode b ProofOfFeeInitBidding = proof_of_fee_init_bidding b"
| "encode b ProofOfFeePofRetractBid = proof_of_fee_pof_retract_bid b"
| "encode b (ProofOfFeePofUpdateBid bid epoch_expiry) = proof_of_fee_pof_update_bid b bid epoch_expiry"
| "encode b SafeInitPaymentMultisig = safe_init_payment_multisig b"
| "encode b (SlowWalletSmokeTestVmUnlock user_addr unlocked transferred) =
     slow_wallet_smoke_test_vm_unlock b user_addr unlocked transferred"
| "encode b SlowWalletUserSetSlow = slow_wallet_user_set_slow b"
| "encode b (StakeInitializeStakeOwner initial_stake_amount operator voter) =
     stake_initialize_stake_owner b initial_stake_amount operator voter"
| "encode b (StakeInitializeValidator consensus_pubkey proof_of_possession network_addresses fullnode_addresses) =
     stake_initialize_validator b consensus_pubkey proof_of_possession network_addresses fullnode_addresses"
| "encode b (StakeRotateConsensusKey validator_address new_consensus_pubkey proof_of_possession) =
     stake_rotate_consensus_key b validator_address new_consensus_pubkey proof_of_possession"
| "encode b (StakeSetOperator new_operator) = stake_set_operator b new_operator"
| "encode b (StakeUpdateNetworkAndFullnodeAddresses validator_address new_network_addresses new_fullnode_addresses) =
     stake_update_network_and_fullnode_addresses b validator_address new_network_addresses new_fullnode_addresses"
| "encode b (TowerStateMinerstateCommit challenge solution difficulty security) =
     tower_state_minerstate_commit b challenge solution difficulty security"
| "encode b (ValidatorUniverseRegisterValidator consensus_pubkey proof_of_possession network_addresses fullnode_addresses) =
     validator_universe_register_validator b consensus_pubkey proof_of_possession network_addresses fullnode_addresses"
| "encode b (VersionSetVersion major) = version_set_version b major"
| "encode b (VouchInsistVouchFor wanna_be_my_friend) = vouch_insist_vouch_for b wanna_be_my_friend"
| "encode b (VouchRevoke its_not_me_its_you) = vouch_revoke b its_not_me_its_you"
| "encode b (VouchVouchFor wanna_be_my_friend) = vouch_vouch_for b wanna_be_my_friend"

section \<open>Decoders\<close>

definition decode_account_offer_rotation_capability :: "bcs \<Rightarrow> TransactionPayload \<Rightarrow> EntryFunctionCall option" where
  "decode_account_offer_rotation_capability b = on_script (\<lambda>script.
     Option.bind (arg_at (bcs_bytes b) script 0) (\<lambda>rotation_capability_sig_bytes.
     Option.bind (arg_at (bcs_u8 b) script 1) (\<lambda>account_scheme.
     Option.bind (arg_at (bcs_bytes b) script 2) (\<lambda>account_public_key_bytes.
     Option.bind (arg_at (bcs_address b) script 3) (\<lambda>recipient_address.
     Some (AccountOfferRotationCapability rotation_capability_sig_bytes account_scheme account_public_key_bytes recipient_address))))))"

definition decode_account_offer_signer_capability :: "bcs \<Rightarrow> TransactionPayload \<Rightarrow> EntryFunctionCall option" where
  "decode_account_offer_signer_capability b = on_script (\<lambda>script.
     Option.bind (arg_at (bcs_bytes b) script 0) (\<lambda>signer_capability_sig_bytes.
     Option.bind (arg_at (bcs_u8 b) script 1) (\<lambda>account_scheme.
     Option.bind (arg_at (bcs_bytes b) script 2) (\<lambda>account_public_key_bytes.
     Option.bind (arg_at (bcs_address b) script 3) (\<lambda>recipient_address.
     Some (AccountOfferSignerCapability signer_capability_sig_bytes account_scheme account_public_key_bytes recipient_address))))))"

definition decode_account_revoke_any_rotation_capability :: "bcs \<Rightarrow> TransactionPayload \<Rightarrow> EntryFunctionCall option" where
  "decode_account_revoke_any_rotation_capability b = on_script (\<lambda>script.
     Some AccountRevokeAnyRotationCapability)"

definition decode_account_revoke_any_signer_capability :: "bcs \<Rightarrow> TransactionPayload \<Rightarrow> EntryFunctionCall option" where
  "decode_account_revoke_any_signer_capability b = on_script (\<lambda>script.
     Some AccountRevokeAnySignerCapability)"

definition decode_account_revoke_rotation_capability :: "bcs \<Rightarrow> TransactionPayload \<Rightarrow> EntryFunctionCall option" where
  "decode_account_revoke_rotation_capability b = on_script (\<lambda>script.
     Option.bind (arg_at (bcs_address b) script 0) (\<lambda>to_be_revoked_address.
     Some (AccountRevokeRotationCapability to_be_revoked_address)))"

definition decode_account_revoke_signer_capability :: "bcs \<Rightarrow> TransactionPayload \<Rightarrow> EntryFunctionCall option" where
  "decode_account_revoke_signer_capability b = on_script (\<lambda>script.
     Option.bind (arg_at (bcs_address b) script 0) (\<lambda>to_be_revoked_address.
     Some (AccountRevokeSignerCapability to_be_revoked_address)))"

definition decode_account_rotate_authentication_key :: "bcs \<Rightarrow> TransactionPayload \<Rightarrow> EntryFunctionCall option" where
  "decode_account_rotate_authentication_key b = on_script (\<lambda>script.
     Option.bind (arg_at (bcs_u8 b) script 0) (\<lambda>from_scheme.
     Option.bind (arg_at (bcs_bytes b) script 1) (\<lambda>from_public_key_bytes.
     Option.bind (arg_at (bcs_u8 b) script 2) (\<lambda>to_scheme.
     Option.bind (arg_at (bcs_bytes b) script 3) (\<lambda>to_public_key_bytes.
     Option.bind (arg_at (bcs_bytes b) script 4) (\<lambda>cap_rotate_key.
     Option.bind (arg_at (bcs_bytes b) script 5) (\<lambda>cap_update_table.
     Some (AccountRotateAuthenticationKey from_scheme from_public_key_bytes to_scheme to_public_key_bytes cap_rotate_key cap_update_table))))))))"

definition decode_account_rotate_authentication_key_with_rotation_capability :: "bcs \<Rightarrow> TransactionPayload \<Rightarrow> EntryFunctionCall option" where
  "decode_account_rotate_authentication_key_with_rotation_capability b = on_script (\<lambda>script.
     Option.bind (arg_at (bcs_address b) script 0) (\<lambda>rotation_cap_offerer_address.
     Option.bind (arg_at (bcs_u8 b) script 1) (\<lambda>new_scheme.
     Option.bind (arg_at (bcs_bytes b) script 2) (\<lambda>new_public_key_bytes.
     Option.bind (arg_at (bcs_bytes b) script 3) (\<lambda>cap_update_table.
     Some (AccountRotateAuthenticationKeyWithRotationCapability rotation_cap_offerer_address new_scheme new_public_key_bytes cap_update_table))))))"

definition decode_burn_set_send_community :: "bcs \<Rightarrow> TransactionPayload \<Rightarrow> EntryFunctionCall option" where
  "decode_burn_set_send_community b = on_script (\<lambda>script.
     Option.bind (arg_at (bcs_bool b) script 0) (\<lambda>community.
     Some (BurnSetSendCommunity community)))"

definition decode_code_publish_package_txn :: "bcs \<Rightarrow> TransactionPayload \<Rightarrow> EntryFunctionCall option" where
  "decode_code_publish_package_txn b = on_script (\<lambda>script.
     Option.bind (arg_at (bcs_bytes b) script 0) (\<lambda>metadata_serialized.
     Option.bind (arg_at (bcs_bytes_vec b) script 1) (\<lambda>code_arg.
     Some (CodePublishPackageTxn metadata_serialized code_arg))))"

definition decode_coin_transfer :: "bcs \<Rightarrow> TransactionPayload \<Rightarrow> EntryFunctionCall option" where
  "decode_coin_transfer b = on_script (\<lambda>script.
     Option.bind (ty_arg_at script 0) (\<lambda>coin_type.
     Option.bind (arg_at (bcs_address b) script 0) (\<lambda>to_arg.
     Option.bind (arg_at (bcs_u64 b) script 1) (\<lambda>amount.
     Some (CoinTransfer coin_type to_arg amount)))))"

definition decode_community_wallet_init_change_signer_community_multisig :: "bcs \<Rightarrow> TransactionPayload \<Rightarrow> EntryFunctionCall option" where
  "decode_community_wallet_init_change_signer_community_multisig b = on_script (\<lambda>script.
     Option.bind (arg_at (bcs_address b) script 0) (\<lambda>multisig_address.
     Option.bind (arg_at (bcs_address b) script 1) (\<lambda>new_signer.
     Option.bind (arg_at (bcs_bool b) script 2) (\<lambda>is_add_operation.
     Option.bind (arg_at (bcs_u64 b) script 3) (\<lambda>n_of_m.
     Option.bind (arg_at (bcs_u64 b) script 4) (\<lambda>vote_duration_epochs.
     Some (CommunityWalletInitChangeSignerCommunityMultisig multisig_address new_signer is_add_operation n_of_m vote_duration_epochs)))))))"

definition decode_community_wallet_init_finalize_and_cage :: "bcs \<Rightarrow> TransactionPayload \<Rightarrow> EntryFunctionCall option" where
  "decode_community_wallet_init_finalize_and_cage b = on_script (\<lambda>script.
     Option.bind (arg_at (bcs_addresses b) script 0) (\<lambda>initial_authorities.
     Option.bind (arg_at (bcs_u64 b) script 1) (\<lambda>num_signers.
     Some (CommunityWalletInitFinalizeAndCage initial_authorities num_signers))))"

definition decode_community_wallet_init_init_community :: "bcs \<Rightarrow> TransactionPayload \<Rightarrow> EntryFunctionCall option" where
  "decode_community_wallet_init_init_community b = on_script (\<lambda>script.
     Option.bind (arg_at (bcs_addresses b) script 0) (\<lambda>check_addresses.
     Option.bind (arg_at (bcs_u64 b) script 1) (\<lambda>check_threshold.
     Some (CommunityWalletInitInitCommunity check_addresses check_threshold))))"

definition decode_diem_governance_add_approved_script_hash_script :: "bcs \<Rightarrow> TransactionPayload \<Rightarrow> EntryFunctionCall option" where
  "decode_diem_governance_add_approved_script_hash_script b = on_script (\<lambda>script.
     Option.bind (arg_at (bcs_u64 b) script 0) (\<lambda>proposal_id.
     Some (DiemGovernanceAddApprovedScriptHashScript proposal_id)))"

definition decode_diem_governance_assert_can_resolve :: "bcs \<Rightarrow> TransactionPayload \<Rightarrow> EntryFunctionCall option" where
  "decode_diem_governance_assert_can_resolve b = on_script (\<lambda>script.
     Option.bind (arg_at (bcs_u64 b) script 0) (\<lambda>proposal_id.
     Some (DiemGovernanceAssertCanResolve proposal_id)))"

definition decode_diem_governance_create_proposal :: "bcs \<Rightarrow> TransactionPayload \<Rightarrow> EntryFunctionCall option" where
  "decode_diem_governance_create_proposal b = on_script (\<lambda>script.
     Option.bind (arg_at (bcs_address b) script 0) (\<lambda>stake_pool.
     Option.bind (arg_at (bcs_bytes b) script 1) (\<lambda>execution_hash.
     Option.bind (arg_at (bcs_bytes b) script 2) (\<lambda>metadata_location.
     Option.bind (arg_at (bcs_bytes b) script 3) (\<lambda>metadata_hash.
     Some (DiemGovernanceCreateProposal stake_pool execution_hash metadata_location metadata_hash))))))"

definition decode_diem_governance_create_proposal_v2 :: "bcs \<Rightarrow> TransactionPayload \<Rightarrow> EntryFunctionCall option" where
  "decode_diem_governance_create_proposal_v2 b = on_script (\<lambda>script.
     Option.bind (arg_at (bcs_address b) script 0) (\<lambda>stake_pool.
     Option.bind (arg_at (bcs_bytes b) script 1) (\<lambda>execution_hash.
     Option.bind (arg_at (bcs_bytes b) script 2) (\<lambda>metadata_location.
     Option.bind (arg_at (bcs_bytes b) script 3) (\<lambda>metadata_hash.
     Option.bind (arg_at (bcs_bool b) script 4) (\<lambda>is_multi_step_proposal.
     Some (DiemGovernanceCreateProposalV2 stake_pool execution_hash metadata_location metadata_hash is_multi_step_proposal)))))))"

definition decode_diem_governance_ol_create_proposal_v2 :: "bcs \<Rightarrow> TransactionPayload \<Rightarrow> EntryFunctionCall option" where
  "decode_diem_governance_ol_create_proposal_v2 b = on_script (\<lambda>script.
     Option.bind (arg_at (bcs_bytes b) script 0) (\<lambda>execution_hash.
     Option.bind (arg_at (bcs_bytes b) script 1) (\<lambda>metadata_location.
     Option.bind (arg_at (bcs_bytes b) script 2) (\<lambda>metadata_hash.
     Option.bind (arg_at (bcs_bool b) script 3) (\<lambda>is_multi_step_proposal.
     Some (DiemGovernanceOlCreateProposalV2 execution_hash metadata_location metadata_hash is_multi_step_proposal))))))"

definition decode_diem_governance_ol_vote :: "bcs \<Rightarrow> TransactionPayload \<Rightarrow> EntryFunctionCall option" where
  "decode_diem_governance_ol_vote b = on_script (\<lambda>script.
     Option.bind (arg_at (bcs_u64 b) script 0) (\<lambda>proposal_id.
     Option.bind (arg_at (bcs_bool b) script 1) (\<lambda>should_pass.
     Some (DiemGovernanceOlVote proposal_id should_pass))))"

definition decode_diem_governance_smoke_trigger_epoch :: "bcs \<Rightarrow> TransactionPayload \<Rightarrow> EntryFunctionCall option" where
  "decode_diem_governance_smoke_trigger_epoch b = on_script (\<lambda>script.
     Some DiemGovernanceSmokeTriggerEpoch)"

definition decode_diem_governance_trigger_epoch :: "bcs \<Rightarrow> TransactionPayload \<Rightarrow> EntryFunctionCall option" where
  "decode_diem_governance_trigger_epoch b = on_script (\<lambda>script.
     Some DiemGovernanceTriggerEpoch)"

definition decode_diem_governance_vote :: "bcs \<Rightarrow> TransactionPayload \<Rightarrow> EntryFunctionCall option" where
  "decode_diem_governance_vote b = on_script (\<lambda>script.
     Option.bind (arg_at (bcs_u64 b) script 0) (\<lambda>proposal_id.
     Option.bind (arg_at (bcs_bool b) script 1) (\<lambda>should_pass.
     Some (DiemGovernanceVote proposal_id should_pass))))"

definition decode_donor_voice_txs_propose_liquidate_tx :: "bcs \<Rightarrow> TransactionPayload \<Rightarrow> EntryFunctionCall option" where
  "decode_donor_voice_txs_propose_liquidate_tx b = on_script (\<lambda>script.
     Option.bind (arg_at (bcs_address b) script 0) (\<lambda>multisig_address.
     Some (DonorVoiceTxsProposeLiquidateTx multisig_address)))"

definition decode_donor_voice_txs_propose_payment_tx :: "bcs \<Rightarrow> TransactionPayload \<Rightarrow> EntryFunctionCall option" where
  "decode_donor_voice_txs_propose_payment_tx b = on_script (\<lambda>script.
     Option.bind (arg_at (bcs_address b) script 0) (\<lambda>multisig_address.
     Option.bind (arg_at (bcs_address b) script 1) (\<lambda>payee.
     Option.bind (arg_at (bcs_u64 b) script 2) (\<lambda>value.
     Option.bind (arg_at (bcs_bytes b) script 3) (\<lambda>description.
     Some (DonorVoiceTxsProposePaymentTx multisig_address payee value description))))))"

definition decode_donor_voice_txs_propose_veto_tx :: "bcs \<Rightarrow> TransactionPayload \<Rightarrow> EntryFunctionCall option" where
  "decode_donor_voice_txs_propose_veto_tx b = on_script (\<lambda>script.
     Option.bind (arg_at (bcs_address b) script 0) (\<lambda>multisig_address.
     Option.bind (arg_at (bcs_u64 b) script 1) (\<lambda>id_arg.
     Some (DonorVoiceTxsProposeVetoTx multisig_address id_arg))))"

definition decode_donor_voice_txs_vote_liquidation_tx :: "bcs \<Rightarrow> TransactionPayload \<Rightarrow> EntryFunctionCall option" where
  "decode_donor_voice_txs_vote_liquidation_tx b = on_script (\<lambda>script.
     Option.bind (arg_at (bcs_address b) script 0) (\<lambda>multisig_address.
     Some (DonorVoiceTxsVoteLiquidationTx multisig_address)))"

definition decode_donor_voice_txs_vote_veto_tx :: "bcs \<Rightarrow> TransactionPayload \<Rightarrow> EntryFunctionCall option" where
  "decode_donor_voice_txs_vote_veto_tx b = on_script (\<lambda>script.
     Option.bind (arg_at (bcs_address b) script 0) (\<lambda>multisig_address.
     Option.bind (arg_at (bcs_u64 b) script 1) (\<lambda>id_arg.
     Some (DonorVoiceTxsVoteVetoTx multisig_address id_arg))))"

definition decode_epoch_boundary_smoke_trigger_epoch :: "bcs \<Rightarrow> TransactionPayload \<Rightarrow> EntryFunctionCall option" where
  "decode_epoch_boundary_smoke_trigger_epoch b = on_script (\<lambda>script.
     Some EpochBoundarySmokeTriggerEpoch)"

definition decode_jail_unjail_by_voucher :: "bcs \<Rightarrow> TransactionPayload \<Rightarrow> EntryFunctionCall option" where
  "decode_jail_unjail_by_voucher b = on_script (\<lambda>script.
     Option.bind (arg_at (bcs_address b) script 0) (\<lambda>addr.
     Some (JailUnjailByVoucher addr)))"

definition decode_libra_coin_claim_mint_capability :: "bcs \<Rightarrow> TransactionPayload \<Rightarrow> EntryFunctionCall option" where
  "decode_libra_coin_claim_mint_capability b = on_script (\<lambda>script.
     Some LibraCoinClaimMintCapability)"

definition decode_libra_coin_delegate_mint_capability :: "bcs \<Rightarrow> TransactionPayload \<Rightarrow> EntryFunctionCall option" where
  "decode_libra_coin_delegate_mint_capability b = on_script (\<lambda>script.
     Option.bind (arg_at (bcs_address b) script 0) (\<lambda>to_arg.
     Some (LibraCoinDelegateMintCapability to_arg)))"

definition decode_libra_coin_mint_to_impl :: "bcs \<Rightarrow> TransactionPayload \<Rightarrow> EntryFunctionCall option" where
  "decode_libra_coin_mint_to_impl b = on_script (\<lambda>script.
     Option.bind (arg_at (bcs_address b) script 0) (\<lambda>dst_addr.
     Option.bind (arg_at (bcs_u64 b) script 1) (\<lambda>amount.
     Some (LibraCoinMintToImpl dst_addr amount))))"

definition decode_multi_action_finalize_and_cage :: "bcs \<Rightarrow> TransactionPayload \<Rightarrow> EntryFunctionCall option" where
  "decode_multi_action_finalize_and_cage b = on_script (\<lambda>script.
     Option.bind (arg_at (bcs_addresses b) script 0) (\<lambda>initial_authorities.
     Option.bind (arg_at (bcs_u64 b) script 1) (\<lambda>num_signers.
     Some (MultiActionFinalizeAndCage initial_authorities num_signers))))"

definition decode_multisig_account_add_owner :: "bcs \<Rightarrow> TransactionPayload \<Rightarrow> EntryFunctionCall option" where
  "decode_multisig_account_add_owner b = on_script (\<lambda>script.
     Option.bind (arg_at (bcs_address b) script 0) (\<lambda>new_owner.
     Some (MultisigAccountAddOwner new_owner)))"

definition decode_multisig_account_add_owners :: "bcs \<Rightarrow> TransactionPayload \<Rightarrow> EntryFunctionCall option" where
  "decode_multisig_account_add_owners b = on_script (\<lambda>script.
     Option.bind (arg_at (bcs_addresses b) script 0) (\<lambda>new_owners.
     Some (MultisigAccountAddOwners new_owners)))"

definition decode_multisig_account_approve_transaction :: "bcs \<Rightarrow> TransactionPayload \<Rightarrow> EntryFunctionCall option" where
  "decode_multisig_account_approve_transaction b = on_script (\<lambda>script.
     Option.bind (arg_at (bcs_address b) script 0) (\<lambda>multisig_account.
     Option.bind (arg_at (bcs_u64 b) script 1) (\<lambda>sequence_number.
     Some (MultisigAccountApproveTransaction multisig_account sequence_number))))"

definition decode_multisig_account_create :: "bcs \<Rightarrow> TransactionPayload \<Rightarrow> EntryFunctionCall option" where
  "decode_multisig_account_create b = on_script (\<lambda>script.
     Option.bind (arg_at (bcs_u64 b) script 0) (\<lambda>num_signatures_required.
     Option.bind (arg_at (bcs_bytes_vec b) script 1) (\<lambda>metadata_keys.
     Option.bind (arg_at (bcs_bytes_vec b) script 2) (\<lambda>metadata_values.
     Some (MultisigAccountCreate num_signatures_required metadata_keys metadata_values)))))"

definition decode_multisig_account_create_transaction :: "bcs \<Rightarrow> TransactionPayload \<Rightarrow> EntryFunctionCall option" where
  "decode_multisig_account_create_transaction b = on_script (\<lambda>script.
     Option.bind (arg_at (bcs_address b) script 0) (\<lambda>multisig_account.
     Option.bind (arg_at (bcs_bytes b) script 1) (\<lambda>payload_arg.
     Some (MultisigAccountCreateTransaction multisig_account payload_arg))))"

definition decode_multisig_account_create_transaction_with_hash :: "bcs \<Rightarrow> TransactionPayload \<Rightarrow> EntryFunctionCall option" where
  "decode_multisig_account_create_transaction_with_hash b = on_script (\<lambda>script.
     Option.bind (arg_at (bcs_address b) script 0) (\<lambda>multisig_account.
     Option.bind (arg_at (bcs_bytes b) script 1) (\<lambda>payload_hash.
     Some (MultisigAccountCreateTransactionWithHash multisig_account payload_hash))))"

definition decode_multisig_account_create_with_existing_account :: "bcs \<Rightarrow> TransactionPayload \<Rightarrow> EntryFunctionCall option" where
  "decode_multisig_account_create_with_existing_account b = on_script (\<lambda>script.
     Option.bind (arg_at (bcs_address b) script 0) (\<lambda>multisig_address.
     Option.bind (arg_at (bcs_addresses b) script 1) (\<lambda>owners.
     Option.bind (arg_at (bcs_u64 b) script 2) (\<lambda>num_signatures_required.
     Option.bind (arg_at (bcs_u8 b) script 3) (\<lambda>account_scheme.
     Option.bind (arg_at (bcs_bytes b) script 4) (\<lambda>account_public_key.
     Option.bind (arg_at (bcs_bytes b) script 5) (\<lambda>create_multisig_account_signed_message.
     Option.bind (arg_at (bcs_bytes_vec b) script 6) (\<lambda>metadata_keys.
     Option.bind (arg_at (bcs_bytes_vec b) script 7) (\<lambda>metadata_values.
     Some (MultisigAccountCreateWithExistingAccount multisig_address owners num_signatures_required account_scheme account_public_key create_multisig_account_signed_message metadata_keys metadata_values))))))))))"

definition decode_multisig_account_create_with_owners :: "bcs \<Rightarrow> TransactionPayload \<Rightarrow> EntryFunctionCall option" where
  "decode_multisig_account_create_with_owners b = on_script (\<lambda>script.
     Option.bind (arg_at (bcs_addresses b) script 0) (\<lambda>additional_owners.
     Option.bind (arg_at (bcs_u64 b) script 1) (\<lambda>num_signatures_required.
     Option.bind (arg_at (bcs_bytes_vec b) script 2) (\<lambda>metadata_keys.
     Option.bind (arg_at (bcs_bytes_vec b) script 3) (\<lambda>metadata_values.
     Some (MultisigAccountCreateWithOwners additional_owners num_signatures_required metadata_keys metadata_values))))))"

definition decode_multisig_account_execute_rejected_transaction :: "bcs \<Rightarrow> TransactionPayload \<Rightarrow> EntryFunctionCall option" where
  "decode_multisig_account_execute_rejected_transaction b = on_script (\<lambda>script.
     Option.bind (arg_at (bcs_address b) script 0) (\<lambda>multisig_account.
     Some (MultisigAccountExecuteRejectedTransaction multisig_account)))"

definition decode_multisig_account_migrate_with_owners :: "bcs \<Rightarrow> TransactionPayload \<Rightarrow> EntryFunctionCall option" where
  "decode_multisig_account_migrate_with_owners b = on_script (\<lambda>script.
     Option.bind (arg_at (bcs_addresses b) script 0) (\<lambda>additional_owners.
     Option.bind (arg_at (bcs_u64 b) script 1) (\<lambda>num_signatures_required.
     Option.bind (arg_at (bcs_bytes_vec b) script 2) (\<lambda>metadata_keys.
     Option.bind (arg_at (bcs_bytes_vec b) script 3) (\<lambda>metadata_values.
     Some (MultisigAccountMigrateWithOwners additional_owners num_signatures_required metadata_keys metadata_values))))))"

definition decode_multisig_account_reject_transaction :: "bcs \<Rightarrow> TransactionPayload \<Rightarrow> EntryFunctionCall option" where
  "decode_multisig_account_reject_transaction b = on_script (\<lambda>script.
     Option.bind (arg_at (bcs_address b) script 0) (\<lambda>multisig_account.
     Option.bind (arg_at (bcs_u64 b) script 1) (\<lambda>sequence_number.
     Some (MultisigAccountRejectTransaction multisig_account sequence_number))))"

definition decode_multisig_account_remove_owner :: "bcs \<Rightarrow> TransactionPayload \<Rightarrow> EntryFunctionCall option" where
  "decode_multisig_account_remove_owner b = on_script (\<lambda>script.
     Option.bind (arg_at (bcs_address b) script 0) (\<lambda>owner_to_remove.
     Some (MultisigAccountRemoveOwner owner_to_remove)))"

definition decode_multisig_account_remove_owners :: "bcs \<Rightarrow> TransactionPayload \<Rightarrow> EntryFunctionCall option" where
  "decode_multisig_account_remove_owners b = on_script (\<lambda>script.
     Option.bind (arg_at (bcs_addresses b) script 0) (\<lambda>owners_to_remove.
     Some (MultisigAccountRemoveOwners owners_to_remove)))"

definition decode_multisig_account_update_metadata :: "bcs \<Rightarrow> TransactionPayload \<Rightarrow> EntryFunctionCall option" where
  "decode_multisig_account_update_metadata b = on_script (\<lambda>script.
     Option.bind (arg_at (bcs_bytes_vec b) script 0) (\<lambda>keys.
     Option.bind (arg_at (bcs_bytes_vec b) script 1) (\<lambda>values.
     Some (MultisigAccountUpdateMetadata keys values))))"

definition decode_multisig_account_update_signatures_required :: "bcs \<Rightarrow> TransactionPayload \<Rightarrow> EntryFunctionCall option" where
  "decode_multisig_account_update_signatures_required b = on_script (\<lambda>script.
     Option.bind (arg_at (bcs_u64 b) script 0) (\<lambda>new_num_signatures_required.
     Some (MultisigAccountUpdateSignaturesRequired new_num_signatures_required)))"

definition decode_multisig_account_vote_transanction :: "bcs \<Rightarrow> TransactionPayload \<Rightarrow> EntryFunctionCall option" where
  "decode_multisig_account_vote_transanction b = on_script (\<lambda>script.
     Option.bind (arg_at (bcs_address b) script 0) (\<lambda>multisig_account.
     Option.bind (arg_at (bcs_u64 b) script 1) (\<lambda>sequence_number.
     Option.bind (arg_at (bcs_bool b) script 2) (\<lambda>approved.
     Some (MultisigAccountVoteTransanction multisig_account sequence_number approved)))))"

definition decode_object_transfer_call :: "bcs \<Rightarrow> TransactionPayload \<Rightarrow> EntryFunctionCall option" where
  "decode_object_transfer_call b = on_script (\<lambda>script.
     Option.bind (arg_at (bcs_address b) script 0) (\<lambda>object.
     Option.bind (arg_at (bcs_address b) script 1) (\<lambda>to_arg.
     Some (ObjectTransferCall object to_arg))))"

definition decode_ol_account_create_account :: "bcs \<Rightarrow> TransactionPayload \<Rightarrow> EntryFunctionCall option" where
  "decode_ol_account_create_account b = on_script (\<lambda>script.
     Option.bind (arg_at (bcs_address b) script 0) (\<lambda>auth_key.
     Some (OlAccountCreateAccount auth_key)))"

definition decode_ol_account_set_allow_direct_coin_transfers :: "bcs \<Rightarrow> TransactionPayload \<Rightarrow> EntryFunctionCall option" where
  "decode_ol_account_set_allow_direct_coin_transfers b = on_script (\<lambda>script.
     Option.bind (arg_at (bcs_bool b) script 0) (\<lambda>allow.
     Some (OlAccountSetAllowDirectCoinTransfers allow)))"

definition decode_ol_account_transfer :: "bcs \<Rightarrow> TransactionPayload \<Rightarrow> EntryFunctionCall option" where
  "decode_ol_account_transfer b = on_script (\<lambda>script.
     Option.bind (arg_at (bcs_address b) script 0) (\<lambda>to_arg.
     Option.bind (arg_at (bcs_u64 b) script 1) (\<lambda>amount.
     Some (OlAccountTransfer to_arg amount))))"

definition decode_oracle_init_provider :: "bcs \<Rightarrow> TransactionPayload \<Rightarrow> EntryFunctionCall option" where
  "decode_oracle_init_provider b = on_script (\<lambda>script.
     Some OracleInitProvider)"

definition decode_proof_of_fee_init_bidding :: "bcs \<Rightarrow> TransactionPayload \<Rightarrow> EntryFunctionCall option" where
  "decode_proof_of_fee_init_bidding b = on_script (\<lambda>script.
     Some ProofOfFeeInitBidding)"

definition decode_proof_of_fee_pof_retract_bid :: "bcs \<Rightarrow> TransactionPayload \<Rightarrow> EntryFunctionCall option" where
  "decode_proof_of_fee_pof_retract_bid b = on_script (\<lambda>script.
     Some ProofOfFeePofRetractBid)"

definition decode_proof_of_fee_pof_update_bid :: "bcs \<Rightarrow> TransactionPayload \<Rightarrow> EntryFunctionCall option" where
  "decode_proof_of_fee_pof_update_bid b = on_script (\<lambda>script.
     Option.bind (arg_at (bcs_u64 b) script 0) (\<lambda>bid.
     Option.bind (arg_at (bcs_u64 b) script 1) (\<lambda>epoch_expiry.
     Some (ProofOfFeePofUpdateBid bid epoch_expiry))))"

definition decode_safe_init_payment_multisig :: "bcs \<Rightarrow> TransactionPayload \<Rightarrow> EntryFunctionCall option" where
  "decode_safe_init_payment_multisig b = on_script (\<lambda>script.
     Some SafeInitPaymentMultisig)"

definition decode_slow_wallet_smoke_test_vm_unlock :: "bcs \<Rightarrow> TransactionPayload \<Rightarrow> EntryFunctionCall option" where
  "decode_slow_wallet_smoke_test_vm_unlock b = on_script (\<lambda>script.
     Option.bind (arg_at (bcs_address b) script 0) (\<lambda>user_addr.
     Option.bind (arg_at (bcs_u64 b) script 1) (\<lambda>unlocked.
     Option.bind (arg_at (bcs_u64 b) script 2) (\<lambda>transferred.
     Some (SlowWalletSmokeTestVmUnlock user_addr unlocked transferred)))))"

definition decode_slow_wallet_user_set_slow :: "bcs \<Rightarrow> TransactionPayload \<Rightarrow> EntryFunctionCall option" where
  "decode_slow_wallet_user_set_slow b = on_script (\<lambda>script.
     Some SlowWalletUserSetSlow)"

definition decode_stake_initialize_stake_owner :: "bcs \<Rightarrow> TransactionPayload \<Rightarrow> EntryFunctionCall option" where
  "decode_stake_initialize_stake_owner b = on_script (\<lambda>script.
     Option.bind (arg_at (bcs_u64 b) script 0) (\<lambda>initial_stake_amount.
     Option.bind (arg_at (bcs_address b) script 1) (\<lambda>operator.
     Option.bind (arg_at (bcs_address b) script 2) (\<lambda>voter.
     Some (StakeInitializeStakeOwner initial_stake_amount operator voter)))))"

definition decode_stake_initialize_validator :: "bcs \<Rightarrow> TransactionPayload \<Rightarrow> EntryFunctionCall option" where
  "decode_stake_initialize_validator b = on_script (\<lambda>script.
     Option.bind (arg_at (bcs_bytes b) script 0) (\<lambda>consensus_pubkey.
     Option.bind (arg_at (bcs_bytes b) script 1) (\<lambda>proof_of_possession.
     Option.bind (arg_at (bcs_bytes b) script 2) (\<lambda>network_addresses.
     Option.bind (arg_at (bcs_bytes b) script 3) (\<lambda>fullnode_addresses.
     Some (StakeInitializeValidator consensus_pubkey proof_of_possession network_addresses fullnode_addresses))))))"

definition decode_stake_rotate_consensus_key :: "bcs \<Rightarrow> TransactionPayload \<Rightarrow> EntryFunctionCall option" where
  "decode_stake_rotate_consensus_key b = on_script (\<lambda>script.
     Option.bind (arg_at (bcs_address b) script 0) (\<lambda>validator_address.
     Option.bind (arg_at (bcs_bytes b) script 1) (\<lambda>new_consensus_pubkey.
     Option.bind (arg_at (bcs_bytes b) script 2) (\<lambda>proof_of_possession.
     Some (StakeRotateConsensusKey validator_address new_consensus_pubkey proof_of_possession)))))"

definition decode_stake_set_operator :: "bcs \<Rightarrow> TransactionPayload \<Rightarrow> EntryFunctionCall option" where
  "decode_stake_set_operator b = on_script (\<lambda>script.
     Option.bind (arg_at (bcs_address b) script 0) (\<lambda>new_operator.
     Some (StakeSetOperator new_operator)))"

definition decode_stake_update_network_and_fullnode_addresses :: "bcs \<Rightarrow> TransactionPayload \<Rightarrow> EntryFunctionCall option" where
  "decode_stake_update_network_and_fullnode_addresses b = on_script (\<lambda>script.
     Option.bind (arg_at (bcs_address b) script 0) (\<lambda>validator_address.
     Option.bind (arg_at (bcs_bytes b) script 1) (\<lambda>new_network_addresses.
     Option.bind (arg_at (bcs_bytes b) script 2) (\<lambda>new_fullnode_addresses.
     Some (StakeUpdateNetworkAndFullnodeAddresses validator_address new_network_addresses new_fullnode_addresses)))))"

definition decode_tower_state_minerstate_commit :: "bcs \<Rightarrow> TransactionPayload \<Rightarrow> EntryFunctionCall option" where
  "decode_tower_state_minerstate_commit b = on_script (\<lambda>script.
     Option.bind (arg_at (bcs_bytes b) script 0) (\<lambda>challenge.
     Option.bind (arg_at (bcs_bytes b) script 1) (\<lambda>solution.
     Option.bind (arg_at (bcs_u64 b) script 2) (\<lambda>difficulty.
     Option.bind (arg_at (bcs_u64 b) script 3) (\<lambda>security.
     Some (TowerStateMinerstateCommit challenge solution difficulty security))))))"

definition decode_validator_universe_register_validator :: "bcs \<Rightarrow> TransactionPayload \<Rightarrow> EntryFunctionCall option" where
  "decode_validator_universe_register_validator b = on_script (\<lambda>script.
     Option.bind (arg_at (bcs_bytes b) script 0) (\<lambda>consensus_pubkey.
     Option.bind (arg_at (bcs_bytes b) script 1) (\<lambda>proof_of_possession.
     Option.bind (arg_at (bcs_bytes b) script 2) (\<lambda>network_addresses.
     Option.bind (arg_at (bcs_bytes b) script 3) (\<lambda>fullnode_addresses.
     Some (ValidatorUniverseRegisterValidator consensus_pubkey proof_of_possession network_addresses fullnode_addresses))))))"

definition decode_version_set_version :: "bcs \<Rightarrow> TransactionPayload \<Rightarrow> EntryFunctionCall option" where
  "decode_version_set_version b = on_script (\<lambda>script.
     Option.bind (arg_at (bcs_u64 b) script 0) (\<lambda>major.
     Some (VersionSetVersion major)))"

definition decode_vouch_insist_vouch_for :: "bcs \<Rightarrow> TransactionPayload \<Rightarrow> EntryFunctionCall option" where
  "decode_vouch_insist_vouch_for b = on_script (\<lambda>script.
     Option.bind (arg_at (bcs_address b) script 0) (\<lambda>wanna_be_my_friend.
     Some (VouchInsistVouchFor wanna_be_my_friend)))"

definition decode_vouch_revoke :: "bcs \<Rightarrow> TransactionPayload \<Rightarrow> EntryFunctionCall option" where
  "decode_vouch_revoke b = on_script (\<lambda>script.
     Option.bind (arg_at (bcs_address b) script 0) (\<lambda>its_not_me_its_you.
     Some (VouchRevoke its_not_me_its_you)))"

definition decode_vouch_vouch_for :: "bcs \<Rightarrow> TransactionPayload \<Rightarrow> EntryFunctionCall option" where
  "decode_vouch_vouch_for b = on_script (\<lambda>script.
     Option.bind (arg_at (bcs_address b) script 0) (\<lambda>wanna_be_my_friend.
     Some (VouchVouchFor wanna_be_my_friend)))"

section \<open>Decoding\<close>

definition decoder_entries :: "bcs \<Rightarrow> (string \<times> (TransactionPayload \<Rightarrow> EntryFunctionCall option)) list" where
  "decoder_entries b =
    [(''account_offer_rotation_capability'', decode_account_offer_rotation_capability b),
     (''account_offer_signer_capability'', decode_account_offer_signer_capability b),
     (''account_revoke_any_rotation_capability'', decode_account_revoke_any_rotation_capability b),
     (''account_revoke_any_signer_capability'', decode_account_revoke_any_signer_capability b),
     (''account_revoke_rotation_capability'', decode_account_revoke_rotation_capability b),
     (''account_revoke_signer_capability'', decode_account_revoke_signer_capability b),
     (''account_rotate_authentication_key'', decode_account_rotate_authentication_key b),
     (''account_rotate_authentication_key_with_rotation_capability'', decode_account_rotate_authentication_key_with_rotation_capability b),
     (''burn_set_send_community'', decode_burn_set_send_community b),
     (''code_publish_package_txn'', decode_code_publish_package_txn b),
     (''coin_transfer'', decode_coin_transfer b),
     (''community_wallet_init_change_signer_community_multisig'', decode_community_wallet_init_change_signer_community_multisig b),
     (''community_wallet_init_finalize_and_cage'', decode_community_wallet_init_finalize_and_cage b),
     (''community_wallet_init_init_community'', decode_community_wallet_init_init_community b),
     (''diem_governance_add_approved_script_hash_script'', decode_diem_governance_add_approved_script_hash_script b),
     (''diem_governance_assert_can_resolve'', decode_diem_governance_assert_can_resolve b),
     (''diem_governance_create_proposal'', decode_diem_governance_create_proposal b),
     (''diem_governance_create_proposal_v2'', decode_diem_governance_create_proposal_v2 b),
     (''diem_governance_ol_create_proposal_v2'', decode_diem_governance_ol_create_proposal_v2 b),
     (''diem_governance_ol_vote'', decode_diem_governance_ol_vote b),
     (''diem_governance_smoke_trigger_epoch'', decode_diem_governance_smoke_trigger_epoch b),
     (''diem_governance_trigger_epoch'', decode_diem_governance_trigger_epoch b),
     (''diem_governance_vote'', decode_diem_governance_vote b),
     (''donor_voice_txs_propose_liquidate_tx'', decode_donor_voice_txs_propose_liquidate_tx b),
     (''donor_voice_txs_propose_payment_tx'', decode_donor_voice_txs_propose_payment_tx b),
     (''donor_voice_txs_propose_veto_tx'', decode_donor_voice_txs_propose_veto_tx b),
     (''donor_voice_txs_vote_liquidation_tx'', decode_donor_voice_txs_vote_liquidation_tx b),
     (''donor_voice_txs_vote_veto_tx'', decode_donor_voice_txs_vote_veto_tx b),
     (''epoch_boundary_smoke_trigger_epoch'', decode_epoch_boundary_smoke_trigger_epoch b),
     (''jail_unjail_by_voucher'', decode_jail_unjail_by_voucher b),
     (''libra_coin_claim_mint_capability'', decode_libra_coin_claim_mint_capability b),
     (''libra_coin_delegate_mint_capability'', decode_libra_coin_delegate_mint_capability b),
     (''libra_coin_mint_to_impl'', decode_libra_coin_mint_to_impl b),
     (''multi_action_finalize_and_cage'', decode_multi_action_finalize_and_cage b),
     (''multisig_account_add_owner'', decode_multisig_account_add_owner b),
     (''multisig_account_add_owners'', decode_multisig_account_add_owners b),
     (''multisig_account_approve_transaction'', decode_multisig_account_approve_transaction b),
     (''multisig_account_create'', decode_multisig_account_create b),
     (''multisig_account_create_transaction'', decode_multisig_account_create_transaction b),
     (''multisig_account_create_transaction_with_hash'', decode_multisig_account_create_transaction_with_hash b),
     (''multisig_account_create_with_existing_account'', decode_multisig_account_create_with_existing_account b),
     (''multisig_account_create_with_owners'', decode_multisig_account_create_with_owners b),
     (''multisig_account_execute_rejected_transaction'', decode_multisig_account_execute_rejected_transaction b),
     (''multisig_account_migrate_with_owners'', decode_multisig_account_migrate_with_owners b),
     (''multisig_account_reject_transaction'', decode_multisig_account_reject_transaction b),
     (''multisig_account_remove_owner'', decode_multisig_account_remove_owner b),
     (''multisig_account_remove_owners'', decode_multisig_account_remove_owners b),
     (''multisig_account_update_metadata'', decode_multisig_account_update_metadata b),
     (''multisig_account_update_signatures_required'', decode_multisig_account_update_signatures_required b),
     (''multisig_account_vote_transanction'', decode_multisig_account_vote_transanction b),
     (''object_transfer_call'', decode_object_transfer_call b),
     (''ol_account_create_account'', decode_ol_account_create_account b),
     (''ol_account_set_allow_direct_coin_transfers'', decode_ol_account_set_allow_direct_coin_transfers b),
     (''ol_account_transfer'', decode_ol_account_transfer b),
     (''oracle_init_provider'', decode_oracle_init_provider b),
     (''proof_of_fee_init_bidding'', decode_proof_of_fee_init_bidding b),
     (''proof_of_fee_pof_retract_bid'', decode_proof_of_fee_pof_retract_bid b),
     (''proof_of_fee_pof_update_bid'', decode_proof_of_fee_pof_update_bid b),
     (''safe_init_payment_multisig'', decode_safe_init_payment_multisig b),
     (''slow_wallet_smoke_test_vm_unlock'', decode_slow_wallet_smoke_test_vm_unlock b),
     (''slow_wallet_user_set_slow'', decode_slow_wallet_user_set_slow b),
     (''stake_initialize_stake_owner'', decode_stake_initialize_stake_owner b),
     (''stake_initialize_validator'', decode_stake_initialize_validator b),
     (''stake_rotate_consensus_key'', decode_stake_rotate_consensus_key b),
     (''stake_set_operator'', decode_stake_set_operator b),
     (''stake_update_network_and_fullnode_addresses'', decode_stake_update_network_and_fullnode_addresses b),
     (''tower_state_minerstate_commit'', decode_tower_state_minerstate_commit b),
     (''validator_universe_register_validator'', decode_validator_universe_register_validator b),
     (''version_set_version'', decode_version_set_version b),
     (''vouch_insist_vouch_for'', decode_vouch_insist_vouch_for b),
     (''vouch_revoke'', decode_vouch_revoke b),
     (''vouch_vouch_for'', decode_vouch_vouch_for b)]"

definition SCRIPT_FUNCTION_DECODER_MAP :: "bcs \<Rightarrow> string \<rightharpoonup> (TransactionPayload \<Rightarrow> EntryFunctionCall option)" where
  "SCRIPT_FUNCTION_DECODER_MAP b = decoder_table (decoder_entries b)"

definition decode :: "bcs \<Rightarrow> TransactionPayload \<Rightarrow> EntryFunctionCall option" where
  "decode b payload = decode_by (SCRIPT_FUNCTION_DECODER_MAP b) payload"

lemmas v6_builder_defs =
  account_offer_rotation_capability_def account_offer_signer_capability_def
  account_revoke_any_rotation_capability_def account_revoke_any_signer_capability_def
  account_revoke_rotation_capability_def account_revoke_signer_capability_def
  account_rotate_authentication_key_def account_rotate_authentication_key_with_rotation_capability_def
  burn_set_send_community_def code_publish_package_txn_def coin_transfer_def
  community_wallet_init_change_signer_community_multisig_def community_wallet_init_finalize_and_cage_def
  community_wallet_init_init_community_def diem_governance_add_approved_script_hash_script_def
  diem_governance_assert_can_resolve_def diem_governance_create_proposal_def
  diem_governance_create_proposal_v2_def diem_governance_ol_create_proposal_v2_def
  diem_governance_ol_vote_def diem_governance_smoke_trigger_epoch_def diem_governance_trigger_epoch_def
  diem_governance_vote_def donor_voice_txs_propose_liquidate_tx_def donor_voice_txs_propose_payment_tx_def
  donor_voice_txs_propose_veto_tx_def donor_voice_txs_vote_liquidation_tx_def
  donor_voice_txs_vote_veto_tx_def epoch_boundary_smoke_trigger_epoch_def jail_unjail_by_voucher_def
  libra_coin_claim_mint_capability_def libra_coin_delegate_mint_capability_def libra_coin_mint_to_impl_def
  multi_action_finalize_and_cage_def multisig_account_add_owner_def multisig_account_add_owners_def
  multisig_account_approve_transaction_def multisig_account_create_def
  multisig_account_create_transaction_def multisig_account_create_transaction_with_hash_def
  multisig_account_create_with_existing_account_def multisig_account_create_with_owners_def
  multisig_account_execute_rejected_transaction_def multisig_account_migrate_with_owners_def
  multisig_account_reject_transaction_def multisig_account_remove_owner_def
  multisig_account_remove_owners_def multisig_account_update_metadata_def
  multisig_account_update_signatures_required_def multisig_account_vote_transanction_def
  object_transfer_call_def ol_account_create_account_def ol_account_set_allow_direct_coin_transfers_def
  ol_account_transfer_def oracle_init_provider_def proof_of_fee_init_bidding_def
  proof_of_fee_pof_retract_bid_def proof_of_fee_pof_update_bid_def safe_init_payment_multisig_def
  slow_wallet_smoke_test_vm_unlock_def slow_wallet_user_set_slow_def stake_initialize_stake_owner_def
  stake_initialize_validator_def stake_rotate_consensus_key_def stake_set_operator_def
  stake_update_network_and_fullnode_addresses_def tower_state_minerstate_commit_def
  validator_universe_register_validator_def version_set_version_def vouch_insist_vouch_for_def
  vouch_revoke_def vouch_vouch_for_def

lemmas v6_decoder_defs =
  decode_account_offer_rotation_capability_def decode_account_offer_signer_capability_def
  decode_account_revoke_any_rotation_capability_def decode_account_revoke_any_signer_capability_def
  decode_account_revoke_rotation_capability_def decode_account_revoke_signer_capability_def
  decode_account_rotate_authentication_key_def
  decode_account_rotate_authentication_key_with_rotation_capability_def decode_burn_set_send_community_def
  decode_code_publish_package_txn_def decode_coin_transfer_def
  decode_community_wallet_init_change_signer_community_multisig_def
  decode_community_wallet_init_finalize_and_cage_def decode_community_wallet_init_init_community_def
  decode_diem_governance_add_approved_script_hash_script_def decode_diem_governance_assert_can_resolve_def
  decode_diem_governance_create_proposal_def decode_diem_governance_create_proposal_v2_def
  decode_diem_governance_ol_create_proposal_v2_def decode_diem_governance_ol_vote_def
  decode_diem_governance_smoke_trigger_epoch_def decode_diem_governance_trigger_epoch_def
  decode_diem_governance_vote_def decode_donor_voice_txs_propose_liquidate_tx_def
  decode_donor_voice_txs_propose_payment_tx_def decode_donor_voice_txs_propose_veto_tx_def
  decode_donor_voice_txs_vote_liquidation_tx_def decode_donor_voice_txs_vote_veto_tx_def
  decode_epoch_boundary_smoke_trigger_epoch_def decode_jail_unjail_by_voucher_def
  decode_libra_coin_claim_mint_capability_def decode_libra_coin_delegate_mint_capability_def
  decode_libra_coin_mint_to_impl_def decode_multi_action_finalize_and_cage_def
  decode_multisig_account_add_owner_def decode_multisig_account_add_owners_def
  decode_multisig_account_approve_transaction_def decode_multisig_account_create_def
  decode_multisig_account_create_transaction_def decode_multisig_account_create_transaction_with_hash_def
  decode_multisig_account_create_with_existing_account_def decode_multisig_account_create_with_owners_def
  decode_multisig_account_execute_rejected_transaction_def decode_multisig_account_migrate_with_owners_def
  decode_multisig_account_reject_transaction_def decode_multisig_account_remove_owner_def
  decode_multisig_account_remove_owners_def decode_multisig_account_update_metadata_def
  decode_multisig_account_update_signatures_required_def decode_multisig_account_vote_transanction_def
  decode_object_transfer_call_def decode_ol_account_create_account_def
  decode_ol_account_set_allow_direct_coin_transfers_def decode_ol_account_transfer_def
  decode_oracle_init_provider_def decode_proof_of_fee_init_bidding_def
  decode_proof_of_fee_pof_retract_bid_def decode_proof_of_fee_pof_update_bid_def
  decode_safe_init_payment_multisig_def decode_slow_wallet_smoke_test_vm_unlock_def
  decode_slow_wallet_user_set_slow_def decode_stake_initialize_stake_owner_def
  decode_stake_initialize_validator_def decode_stake_rotate_consensus_key_def decode_stake_set_operator_def
  decode_stake_update_network_and_fullnode_addresses_def decode_tower_state_minerstate_commit_def
  decode_validator_universe_register_validator_def decode_version_set_version_def
  decode_vouch_insist_vouch_for_def decode_vouch_revoke_def decode_vouch_vouch_for_def


section \<open>Decoding inverts encoding\<close>

lemma v6_keys_ascending: "successively key_less (map fst (decoder_entries b))"
  unfolding decoder_entries_def list.map fst_conv
  by (unfold successively.simps, intro conjI) simp_all

interpretation v6_table: decoder_keys "decoder_entries b" for b
  by unfold_locales (rule ascending_distinct [OF v6_keys_ascending])

lemma v6_decoder_lookup: "(k, d) \<in> set (decoder_entries b) \<Longrightarrow> SCRIPT_FUNCTION_DECODER_MAP b k = Some d"
  unfolding SCRIPT_FUNCTION_DECODER_MAP_def by (rule v6_table.lookup)

lemma v6_decoder_lookups:
  "SCRIPT_FUNCTION_DECODER_MAP b ''account_offer_rotation_capability'' = Some (decode_account_offer_rotation_capability b)"
  "SCRIPT_FUNCTION_DECODER_MAP b ''account_offer_signer_capability'' = Some (decode_account_offer_signer_capability b)"
  "SCRIPT_FUNCTION_DECODER_MAP b ''account_revoke_any_rotation_capability'' = Some (decode_account_revoke_any_rotation_capability b)"
  "SCRIPT_FUNCTION_DECODER_MAP b ''account_revoke_any_signer_capability'' = Some (decode_account_revoke_any_signer_capability b)"
  "SCRIPT_FUNCTION_DECODER_MAP b ''account_revoke_rotation_capability'' = Some (decode_account_revoke_rotation_capability b)"
  "SCRIPT_FUNCTION_DECODER_MAP b ''account_revoke_signer_capability'' = Some (decode_account_revoke_signer_capability b)"
  "SCRIPT_FUNCTION_DECODER_MAP b ''account_rotate_authentication_key'' = Some (decode_account_rotate_authentication_key b)"
  "SCRIPT_FUNCTION_DECODER_MAP b ''account_rotate_authentication_key_with_rotation_capability'' = Some (decode_account_rotate_authentication_key_with_rotation_capability b)"
  "SCRIPT_FUNCTION_DECODER_MAP b ''burn_set_send_community'' = Some (decode_burn_set_send_community b)"
  "SCRIPT_FUNCTION_DECODER_MAP b ''code_publish_package_txn'' = Some (decode_code_publish_package_txn b)"
  "SCRIPT_FUNCTION_DECODER_MAP b ''coin_transfer'' = Some (decode_coin_transfer b)"
  "SCRIPT_FUNCTION_DECODER_MAP b ''community_wallet_init_change_signer_community_multisig'' = Some (decode_community_wallet_init_change_signer_community_multisig b)"
  "SCRIPT_FUNCTION_DECODER_MAP b ''community_wallet_init_finalize_and_cage'' = Some (decode_community_wallet_init_finalize_and_cage b)"
  "SCRIPT_FUNCTION_DECODER_MAP b ''community_wallet_init_init_community'' = Some (decode_community_wallet_init_init_community b)"
  "SCRIPT_FUNCTION_DECODER_MAP b ''diem_governance_add_approved_script_hash_script'' = Some (decode_diem_governance_add_approved_script_hash_script b)"
  "SCRIPT_FUNCTION_DECODER_MAP b ''diem_governance_assert_can_resolve'' = Some (decode_diem_governance_assert_can_resolve b)"
  "SCRIPT_FUNCTION_DECODER_MAP b ''diem_governance_create_proposal'' = Some (decode_diem_governance_create_proposal b)"
  "SCRIPT_FUNCTION_DECODER_MAP b ''diem_governance_create_proposal_v2'' = Some (decode_diem_governance_create_proposal_v2 b)"
  "SCRIPT_FUNCTION_DECODER_MAP b ''diem_governance_ol_create_proposal_v2'' = Some (decode_diem_governance_ol_create_proposal_v2 b)"
  "SCRIPT_FUNCTION_DECODER_MAP b ''diem_governance_ol_vote'' = Some (decode_diem_governance_ol_vote b)"
  "SCRIPT_FUNCTION_DECODER_MAP b ''diem_governance_smoke_trigger_epoch'' = Some (decode_diem_governance_smoke_trigger_epoch b)"
  "SCRIPT_FUNCTION_DECODER_MAP b ''diem_governance_trigger_epoch'' = Some (decode_diem_governance_trigger_epoch b)"
  "SCRIPT_FUNCTION_DECODER_MAP b ''diem_governance_vote'' = Some (decode_diem_governance_vote b)"
  "SCRIPT_FUNCTION_DECODER_MAP b ''donor_voice_txs_propose_liquidate_tx'' = Some (decode_donor_voice_txs_propose_liquidate_tx b)"
  "SCRIPT_FUNCTION_DECODER_MAP b ''donor_voice_txs_propose_payment_tx'' = Some (decode_donor_voice_txs_propose_payment_tx b)"
  "SCRIPT_FUNCTION_DECODER_MAP b ''donor_voice_txs_propose_veto_tx'' = Some (decode_donor_voice_txs_propose_veto_tx b)"
  "SCRIPT_FUNCTION_DECODER_MAP b ''donor_voice_txs_vote_liquidation_tx'' = Some (decode_donor_voice_txs_vote_liquidation_tx b)"
  "SCRIPT_FUNCTION_DECODER_MAP b ''donor_voice_txs_vote_veto_tx'' = Some (decode_donor_voice_txs_vote_veto_tx b)"
  "SCRIPT_FUNCTION_DECODER_MAP b ''epoch_boundary_smoke_trigger_epoch'' = Some (decode_epoch_boundary_smoke_trigger_epoch b)"
  "SCRIPT_FUNCTION_DECODER_MAP b ''jail_unjail_by_voucher'' = Some (decode_jail_unjail_by_voucher b)"
  "SCRIPT_FUNCTION_DECODER_MAP b ''libra_coin_claim_mint_capability'' = Some (decode_libra_coin_claim_mint_capability b)"
  "SCRIPT_FUNCTION_DECODER_MAP b ''libra_coin_delegate_mint_capability'' = Some (decode_libra_coin_delegate_mint_capability b)"
  "SCRIPT_FUNCTION_DECODER_MAP b ''libra_coin_mint_to_impl'' = Some (decode_libra_coin_mint_to_impl b)"
  "SCRIPT_FUNCTION_DECODER_MAP b ''multi_action_finalize_and_cage'' = Some (decode_multi_action_finalize_and_cage b)"
  "SCRIPT_FUNCTION_DECODER_MAP b ''multisig_account_add_owner'' = Some (decode_multisig_account_add_owner b)"
  "SCRIPT_FUNCTION_DECODER_MAP b ''multisig_account_add_owners'' = Some (decode_multisig_account_add_owners b)"
  "SCRIPT_FUNCTION_DECODER_MAP b ''multisig_account_approve_transaction'' = Some (decode_multisig_account_approve_transaction b)"
  "SCRIPT_FUNCTION_DECODER_MAP b ''multisig_account_create'' = Some (decode_multisig_account_create b)"
  "SCRIPT_FUNCTION_DECODER_MAP b ''multisig_account_create_transaction'' = Some (decode_multisig_account_create_transaction b)"
  "SCRIPT_FUNCTION_DECODER_MAP b ''multisig_account_create_transaction_with_hash'' = Some (decode_multisig_account_create_transaction_with_hash b)"
  "SCRIPT_FUNCTION_DECODER_MAP b ''multisig_account_create_with_existing_account'' = Some (decode_multisig_account_create_with_existing_account b)"
  "SCRIPT_FUNCTION_DECODER_MAP b ''multisig_account_create_with_owners'' = Some (decode_multisig_account_create_with_owners b)"
  "SCRIPT_FUNCTION_DECODER_MAP b ''multisig_account_execute_rejected_transaction'' = Some (decode_multisig_account_execute_rejected_transaction b)"
  "SCRIPT_FUNCTION_DECODER_MAP b ''multisig_account_migrate_with_owners'' = Some (decode_multisig_account_migrate_with_owners b)"
  "SCRIPT_FUNCTION_DECODER_MAP b ''multisig_account_reject_transaction'' = Some (decode_multisig_account_reject_transaction b)"
  "SCRIPT_FUNCTION_DECODER_MAP b ''multisig_account_remove_owner'' = Some (decode_multisig_account_remove_owner b)"
  "SCRIPT_FUNCTION_DECODER_MAP b ''multisig_account_remove_owners'' = Some (decode_multisig_account_remove_owners b)"
  "SCRIPT_FUNCTION_DECODER_MAP b ''multisig_account_update_metadata'' = Some (decode_multisig_account_update_metadata b)"
  "SCRIPT_FUNCTION_DECODER_MAP b ''multisig_account_update_signatures_required'' = Some (decode_multisig_account_update_signatures_required b)"
  "SCRIPT_FUNCTION_DECODER_MAP b ''multisig_account_vote_transanction'' = Some (decode_multisig_account_vote_transanction b)"
  "SCRIPT_FUNCTION_DECODER_MAP b ''object_transfer_call'' = Some (decode_object_transfer_call b)"
  "SCRIPT_FUNCTION_DECODER_MAP b ''ol_account_create_account'' = Some (decode_ol_account_create_account b)"
  "SCRIPT_FUNCTION_DECODER_MAP b ''ol_account_set_allow_direct_coin_transfers'' = Some (decode_ol_account_set_allow_direct_coin_transfers b)"
  "SCRIPT_FUNCTION_DECODER_MAP b ''ol_account_transfer'' = Some (decode_ol_account_transfer b)"
  "SCRIPT_FUNCTION_DECODER_MAP b ''oracle_init_provider'' = Some (decode_oracle_init_provider b)"
  "SCRIPT_FUNCTION_DECODER_MAP b ''proof_of_fee_init_bidding'' = Some (decode_proof_of_fee_init_bidding b)"
  "SCRIPT_FUNCTION_DECODER_MAP b ''proof_of_fee_pof_retract_bid'' = Some (decode_proof_of_fee_pof_retract_bid b)"
  "SCRIPT_FUNCTION_DECODER_MAP b ''proof_of_fee_pof_update_bid'' = Some (decode_proof_of_fee_pof_update_bid b)"
  "SCRIPT_FUNCTION_DECODER_MAP b ''safe_init_payment_multisig'' = Some (decode_safe_init_payment_multisig b)"
  "SCRIPT_FUNCTION_DECODER_MAP b ''slow_wallet_smoke_test_vm_unlock'' = Some (decode_slow_wallet_smoke_test_vm_unlock b)"
  "SCRIPT_FUNCTION_DECODER_MAP b ''slow_wallet_user_set_slow'' = Some (decode_slow_wallet_user_set_slow b)"
  "SCRIPT_FUNCTION_DECODER_MAP b ''stake_initialize_stake_owner'' = Some (decode_stake_initialize_stake_owner b)"
  "SCRIPT_FUNCTION_DECODER_MAP b ''stake_initialize_validator'' = Some (decode_stake_initialize_validator b)"
  "SCRIPT_FUNCTION_DECODER_MAP b ''stake_rotate_consensus_key'' = Some (decode_stake_rotate_consensus_key b)"
  "SCRIPT_FUNCTION_DECODER_MAP b ''stake_set_operator'' = Some (decode_stake_set_operator b)"
  "SCRIPT_FUNCTION_DECODER_MAP b ''stake_update_network_and_fullnode_addresses'' = Some (decode_stake_update_network_and_fullnode_addresses b)"
  "SCRIPT_FUNCTION_DECODER_MAP b ''tower_state_minerstate_commit'' = Some (decode_tower_state_minerstate_commit b)"
  "SCRIPT_FUNCTION_DECODER_MAP b ''validator_universe_register_validator'' = Some (decode_validator_universe_register_validator b)"
  "SCRIPT_FUNCTION_DECODER_MAP b ''version_set_version'' = Some (decode_version_set_version b)"
  "SCRIPT_FUNCTION_DECODER_MAP b ''vouch_insist_vouch_for'' = Some (decode_vouch_insist_vouch_for b)"
  "SCRIPT_FUNCTION_DECODER_MAP b ''vouch_revoke'' = Some (decode_vouch_revoke b)"
  "SCRIPT_FUNCTION_DECODER_MAP b ''vouch_vouch_for'' = Some (decode_vouch_vouch_for b)"
  by (rule v6_decoder_lookup, unfold decoder_entries_def, (rule list.set_intros(1) | rule list.set_intros(2))+)+

text \<open>The calls whose vectors are short enough to be serialized.\<close>

primrec fits :: "EntryFunctionCall \<Rightarrow> bool" where
  "fits (AccountOfferRotationCapability rotation_capability_sig_bytes account_scheme account_public_key_bytes recipient_address) = (short rotation_capability_sig_bytes \<and> short account_public_key_bytes)"
| "fits (AccountOfferSignerCapability signer_capability_sig_bytes account_scheme account_public_key_bytes recipient_address) = (short signer_capability_sig_bytes \<and> short account_public_key_bytes)"
| "fits AccountRevokeAnyRotationCapability = True"
| "fits AccountRevokeAnySignerCapability = True"
| "fits (AccountRevokeRotationCapability to_be_revoked_address) = True"
| "fits (AccountRevokeSignerCapability to_be_revoked_address) = True"
| "fits (AccountRotateAuthenticationKey from_scheme from_public_key_bytes to_scheme to_public_key_bytes cap_rotate_key cap_update_table) = (short from_public_key_bytes \<and> short to_public_key_bytes \<and> short cap_rotate_key \<and> short cap_update_table)"
| "fits (AccountRotateAuthenticationKeyWithRotationCapability rotation_cap_offerer_address new_scheme new_public_key_bytes cap_update_table) = (short new_public_key_bytes \<and> short cap_update_table)"
| "fits (BurnSetSendCommunity community) = True"
| "fits (CodePublishPackageTxn metadata_serialized code_arg) = (short metadata_serialized \<and> short code_arg \<and> list_all short code_arg)"
| "fits (CoinTransfer coin_type to_arg amount) = True"
| "fits (CommunityWalletInitChangeSignerCommunityMultisig multisig_address new_signer is_add_operation n_of_m vote_duration_epochs) = True"
| "fits (CommunityWalletInitFinalizeAndCage initial_authorities num_signers) = (short initial_authorities)"
| "fits (CommunityWalletInitInitCommunity check_addresses check_threshold) = (short check_addresses)"
| "fits (DiemGovernanceAddApprovedScriptHashScript proposal_id) = True"
| "fits (DiemGovernanceAssertCanResolve proposal_id) = True"
| "fits (DiemGovernanceCreateProposal stake_pool execution_hash metadata_location metadata_hash) = (short execution_hash \<and> short metadata_location \<and> short metadata_hash)"
| "fits (DiemGovernanceCreateProposalV2 stake_pool execution_hash metadata_location metadata_hash is_multi_step_proposal) = (short execution_hash \<and> short metadata_location \<and> short metadata_hash)"
| "fits (DiemGovernanceOlCreateProposalV2 execution_hash metadata_location metadata_hash is_multi_step_proposal) = (short execution_hash \<and> short metadata_location \<and> short metadata_hash)"
| "fits (DiemGovernanceOlVote proposal_id should_pass) = True"
| "fits DiemGovernanceSmokeTriggerEpoch = True"
| "fits DiemGovernanceTriggerEpoch = True"
| "fits (DiemGovernanceVote proposal_id should_pass) = True"
| "fits (DonorVoiceTxsProposeLiquidateTx multisig_address) = True"
| "fits (DonorVoiceTxsProposePaymentTx multisig_address payee value description) = (short description)"
| "fits (DonorVoiceTxsProposeVetoTx multisig_address id_arg) = True"
| "fits (DonorVoiceTxsVoteLiquidationTx multisig_address) = True"
| "fits (DonorVoiceTxsVoteVetoTx multisig_address id_arg) = True"
| "fits EpochBoundarySmokeTriggerEpoch = True"
| "fits (JailUnjailByVoucher addr) = True"
| "fits LibraCoinClaimMintCapability = True"
| "fits (LibraCoinDelegateMintCapability to_arg) = True"
| "fits (LibraCoinMintToImpl dst_addr amount) = True"
| "fits (MultiActionFinalizeAndCage initial_authorities num_signers) = (short initial_authorities)"
| "fits (MultisigAccountAddOwner new_owner) = True"
| "fits (MultisigAccountAddOwners new_owners) = (short new_owners)"
| "fits (MultisigAccountApproveTransaction multisig_account sequence_number) = True"
| "fits (MultisigAccountCreate num_signatures_required metadata_keys metadata_values) = (short metadata_keys \<and> list_all short metadata_keys \<and> short metadata_values \<and> list_all short metadata_values)"
| "fits (MultisigAccountCreateTransaction multisig_account payload_arg) = (short payload_arg)"
| "fits (MultisigAccountCreateTransactionWithHash multisig_account payload_hash) = (short payload_hash)"
| "fits (MultisigAccountCreateWithExistingAccount multisig_address owners num_signatures_required account_scheme account_public_key create_multisig_account_signed_message metadata_keys metadata_values) = (short owners \<and> short account_public_key \<and> short create_multisig_account_signed_message \<and> short metadata_keys \<and> list_all short metadata_keys \<and> short metadata_values \<and> list_all short metadata_values)"
| "fits (MultisigAccountCreateWithOwners additional_owners num_signatures_required metadata_keys metadata_values) = (short additional_owners \<and> short metadata_keys \<and> list_all short metadata_keys \<and> short metadata_values \<and> list_all short metadata_values)"
| "fits (MultisigAccountExecuteRejectedTransaction multisig_account) = True"
| "fits (MultisigAccountMigrateWithOwners additional_owners num_signatures_required metadata_keys metadata_values) = (short additional_owners \<and> short metadata_keys \<and> list_all short metadata_keys \<and> short metadata_values \<and> list_all short metadata_values)"
| "fits (MultisigAccountRejectTransaction multisig_account sequence_number) = True"
| "fits (MultisigAccountRemoveOwner owner_to_remove) = True"
| "fits (MultisigAccountRemoveOwners owners_to_remove) = (short owners_to_remove)"
| "fits (MultisigAccountUpdateMetadata keys values) = (short keys \<and> list_all short keys \<and> short values \<and> list_all short values)"
| "fits (MultisigAccountUpdateSignaturesRequired new_num_signatures_required) = True"
| "fits (MultisigAccountVoteTransanction multisig_account sequence_number approved) = True"
| "fits (ObjectTransferCall object to_arg) = True"
| "fits (OlAccountCreateAccount auth_key) = True"
| "fits (OlAccountSetAllowDirectCoinTransfers allow) = True"
| "fits (OlAccountTransfer to_arg amount) = True"
| "fits OracleInitProvider = True"
| "fits ProofOfFeeInitBidding = True"
| "fits ProofOfFeePofRetractBid = True"
| "fits (ProofOfFeePofUpdateBid bid epoch_expiry) = True"
| "fits SafeInitPaymentMultisig = True"
| "fits (SlowWalletSmokeTestVmUnlock user_addr unlocked transferred) = True"
| "fits SlowWalletUserSetSlow = True"
| "fits (StakeInitializeStakeOwner initial_stake_amount operator voter) = True"
| "fits (StakeInitializeValidator consensus_pubkey proof_of_possession network_addresses fullnode_addresses) = (short consensus_pubkey \<and> short proof_of_possession \<and> short network_addresses \<and> short fullnode_addresses)"
| "fits (StakeRotateConsensusKey validator_address new_consensus_pubkey proof_of_possession) = (short new_consensus_pubkey \<and> short proof_of_possession)"
| "fits (StakeSetOperator new_operator) = True"
| "fits (StakeUpdateNetworkAndFullnodeAddresses validator_address new_network_addresses new_fullnode_addresses) = (short new_network_addresses \<and> short new_fullnode_addresses)"
| "fits (TowerStateMinerstateCommit challenge solution difficulty security) = (short challenge \<and> short solution)"
| "fits (ValidatorUniverseRegisterValidator consensus_pubkey proof_of_possession network_addresses fullnode_addresses) = (short consensus_pubkey \<and> short proof_of_possession \<and> short network_addresses \<and> short fullnode_addresses)"
| "fits (VersionSetVersion major) = True"
| "fits (VouchInsistVouchFor wanna_be_my_friend) = True"
| "fits (VouchRevoke its_not_me_its_you) = True"
| "fits (VouchVouchFor wanna_be_my_friend) = True"

lemma v6_encode_address: "encode b c = Inr p \<Longrightarrow> \<exists>s. p = EntryFunction s \<and> ef_address s = 1"
  by (cases c) (auto simp: v6_builder_defs framework_call_Inr)

lemma v6_decoders_args:
  assumes "ty_args s = ty_args t" "args s = args t"
  shows "\<forall>d \<in> snd ` set (decoder_entries b). d (EntryFunction s) = d (EntryFunction t)"
  unfolding decoder_entries_def image_set list.map snd_conv list.set ball_simps v6_decoder_defs on_script_def
  by (simp only: arg_at_def ty_arg_at_def assms TransactionPayload.case simp_thms)

context bcs_library
begin

lemma v6_encode_fits: "fits c \<Longrightarrow> is_ok (encode b c)"
  by (cases c) (simp_all add: v6_builder_defs framework_call_ok to_bytes_ok)

lemma v6_decode_encode: "encode b c = Inr p \<Longrightarrow> decode b p = Some c"
  by (cases c)
    (auto simp: v6_builder_defs framework_call_Inr and_then_eq_Inr expect_eq_Inr decode_def decode_by_def v6_decoder_lookups v6_decoder_defs
      on_script_def arg_at_def ty_arg_at_def from_to_bytes)

end

lemma v6_release: "bcs_library b \<Longrightarrow> sdk_release (decoder_entries b) (encode b)"
proof -
  assume l: "bcs_library b"
  show ?thesis
  proof unfold_locales
    fix c p assume e: "encode b c = Inr p"
    show "\<exists>s. p = EntryFunction s \<and> ef_address s = 1" by (rule v6_encode_address [OF e])
    show "decode_by (decoder_table (decoder_entries b)) p = Some c"
      using bcs_library.v6_decode_encode [OF l e] by (simp add: decode_def SCRIPT_FUNCTION_DECODER_MAP_def)
  qed (use v6_decoders_args in blast)
qed

interpretation ref_v6: sdk_release "decoder_entries ref_bcs" "encode ref_bcs"
  by (rule v6_release [OF ref_bcs.bcs_library_axioms])

section \<open>The same calls in the next release\<close>


primrec upgrade :: "EntryFunctionCall \<Rightarrow> V7_Sdk.EntryFunctionCall option" where
  "upgrade (AccountOfferRotationCapability rotation_capability_sig_bytes account_scheme account_public_key_bytes recipient_address) = Some (V7_Sdk.AccountOfferRotationCapability rotation_capability_sig_bytes account_scheme account_public_key_bytes recipient_address)"
| "upgrade (AccountOfferSignerCapability signer_capability_sig_bytes account_scheme account_public_key_bytes recipient_address) = Some (V7_Sdk.AccountOfferSignerCapability signer_capability_sig_bytes account_scheme account_public_key_bytes recipient_address)"
| "upgrade AccountRevokeAnyRotationCapability = Some V7_Sdk.AccountRevokeAnyRotationCapability"
| "upgrade AccountRevokeAnySignerCapability = Some V7_Sdk.AccountRevokeAnySignerCapability"
| "upgrade (AccountRevokeRotationCapability to_be_revoked_address) = Some (V7_Sdk.AccountRevokeRotationCapability to_be_revoked_address)"
| "upgrade (AccountRevokeSignerCapability to_be_revoked_address) = Some (V7_Sdk.AccountRevokeSignerCapability to_be_revoked_address)"
| "upgrade (AccountRotateAuthenticationKey from_scheme from_public_key_bytes to_scheme to_public_key_bytes cap_rotate_key cap_update_table) = Some (V7_Sdk.AccountRotateAuthenticationKey from_scheme from_public_key_bytes to_scheme to_public_key_bytes cap_rotate_key cap_update_table)"
| "upgrade (AccountRotateAuthenticationKeyWithRotationCapability rotation_cap_offerer_address new_scheme new_public_key_bytes cap_update_table) = Some (V7_Sdk.AccountRotateAuthenticationKeyWithRotationCapability rotation_cap_offerer_address new_scheme new_public_key_bytes cap_update_table)"
| "upgrade (BurnSetSendCommunity community) = Some (V7_Sdk.BurnSetSendCommunity community)"
| "upgrade (CodePublishPackageTxn metadata_serialized code_arg) = Some (V7_Sdk.CodePublishPackageTxn metadata_serialized code_arg)"
| "upgrade (CoinTransfer coin_type to_arg amount) = Some (V7_Sdk.CoinTransfer coin_type to_arg amount)"
| "upgrade (CommunityWalletInitChangeSignerCommunityMultisig multisig_address new_signer is_add_operation n_of_m vote_duration_epochs) = Some (V7_Sdk.CommunityWalletInitChangeSignerCommunityMultisig multisig_address new_signer is_add_operation n_of_m vote_duration_epochs)"
| "upgrade (CommunityWalletInitFinalizeAndCage initial_authorities num_signers) = None"
| "upgrade (CommunityWalletInitInitCommunity check_addresses check_threshold) = Some (V7_Sdk.CommunityWalletInitInitCommunity check_addresses check_threshold)"
| "upgrade (DiemGovernanceAddApprovedScriptHashScript proposal_id) = Some (V7_Sdk.DiemGovernanceAddApprovedScriptHashScript proposal_id)"
| "upgrade (DiemGovernanceAssertCanResolve proposal_id) = Some (V7_Sdk.DiemGovernanceAssertCanResolve proposal_id)"
| "upgrade (DiemGovernanceCreateProposal stake_pool execution_hash metadata_location metadata_hash) = None"
| "upgrade (DiemGovernanceCreateProposalV2 stake_pool execution_hash metadata_location metadata_hash is_multi_step_proposal) = None"
| "upgrade (DiemGovernanceOlCreateProposalV2 execution_hash metadata_location metadata_hash is_multi_step_proposal) = Some (V7_Sdk.DiemGovernanceOlCreateProposalV2 execution_hash metadata_location metadata_hash is_multi_step_proposal)"
| "upgrade (DiemGovernanceOlVote proposal_id should_pass) = Some (V7_Sdk.DiemGovernanceOlVote proposal_id should_pass)"
| "upgrade DiemGovernanceSmokeTriggerEpoch = Some V7_Sdk.DiemGovernanceSmokeTriggerEpoch"
| "upgrade DiemGovernanceTriggerEpoch = Some V7_Sdk.DiemGovernanceTriggerEpoch"
| "upgrade (DiemGovernanceVote proposal_id should_pass) = Some (V7_Sdk.DiemGovernanceVote proposal_id should_pass)"
| "upgrade (DonorVoiceTxsProposeLiquidateTx multisig_address) = Some (V7_Sdk.DonorVoiceTxsProposeLiquidateTx multisig_address)"
| "upgrade (DonorVoiceTxsProposePaymentTx multisig_address payee value description) = Some (V7_Sdk.DonorVoiceTxsProposePaymentTx multisig_address payee value description)"
| "upgrade (DonorVoiceTxsProposeVetoTx multisig_address id_arg) = Some (V7_Sdk.DonorVoiceTxsProposeVetoTx multisig_address id_arg)"
| "upgrade (DonorVoiceTxsVoteLiquidationTx multisig_address) = Some (V7_Sdk.DonorVoiceTxsVoteLiquidationTx multisig_address)"
| "upgrade (DonorVoiceTxsVoteVetoTx multisig_address id_arg) = Some (V7_Sdk.DonorVoiceTxsVoteVetoTx multisig_address id_arg)"
| "upgrade EpochBoundarySmokeTriggerEpoch = Some V7_Sdk.EpochBoundarySmokeTriggerEpoch"
| "upgrade (JailUnjailByVoucher addr) = Some (V7_Sdk.JailUnjailByVoucher addr)"
| "upgrade LibraCoinClaimMintCapability = Some V7_Sdk.LibraCoinClaimMintCapability"
| "upgrade (LibraCoinDelegateMintCapability to_arg) = Some (V7_Sdk.LibraCoinDelegateMintCapability to_arg)"
| "upgrade (LibraCoinMintToImpl dst_addr amount) = Some (V7_Sdk.LibraCoinMintToImpl dst_addr amount)"
| "upgrade (MultiActionFinalizeAndCage initial_authorities num_signers) = None"
| "upgrade (MultisigAccountAddOwner new_owner) = Some (V7_Sdk.MultisigAccountAddOwner new_owner)"
| "upgrade (MultisigAccountAddOwners new_owners) = Some (V7_Sdk.MultisigAccountAddOwners new_owners)"
| "upgrade (MultisigAccountApproveTransaction multisig_account sequence_number) = Some (V7_Sdk.MultisigAccountApproveTransaction multisig_account sequence_number)"
| "upgrade (MultisigAccountCreate num_signatures_required metadata_keys metadata_values) = Some (V7_Sdk.MultisigAccountCreate num_signatures_required metadata_keys metadata_values)"
| "upgrade (MultisigAccountCreateTransaction multisig_account payload_arg) = Some (V7_Sdk.MultisigAccountCreateTransaction multisig_account payload_arg)"
| "upgrade (MultisigAccountCreateTransactionWithHash multisig_account payload_hash) = Some (V7_Sdk.MultisigAccountCreateTransactionWithHash multisig_account payload_hash)"
| "upgrade (MultisigAccountCreateWithExistingAccount multisig_address owners num_signatures_required account_scheme account_public_key create_multisig_account_signed_message metadata_keys metadata_values) = Some (V7_Sdk.MultisigAccountCreateWithExistingAccount multisig_address owners num_signatures_required account_scheme account_public_key create_multisig_account_signed_message metadata_keys metadata_values)"
| "upgrade (MultisigAccountCreateWithOwners additional_owners num_signatures_required metadata_keys metadata_values) = Some (V7_Sdk.MultisigAccountCreateWithOwners additional_owners num_signatures_required metadata_keys metadata_values)"
| "upgrade (MultisigAccountExecuteRejectedTransaction multisig_account) = Some (V7_Sdk.MultisigAccountExecuteRejectedTransaction multisig_account)"
| "upgrade (MultisigAccountMigrateWithOwners additional_owners num_signatures_required metadata_keys metadata_values) = Some (V7_Sdk.MultisigAccountMigrateWithOwners additional_owners num_signatures_required metadata_keys metadata_values)"
| "upgrade (MultisigAccountRejectTransaction multisig_account sequence_number) = Some (V7_Sdk.MultisigAccountRejectTransaction multisig_account sequence_number)"
| "upgrade (MultisigAccountRemoveOwner owner_to_remove) = Some (V7_Sdk.MultisigAccountRemoveOwner owner_to_remove)"
| "upgrade (MultisigAccountRemoveOwners owners_to_remove) = Some (V7_Sdk.MultisigAccountRemoveOwners owners_to_remove)"
| "upgrade (MultisigAccountUpdateMetadata keys values) = Some (V7_Sdk.MultisigAccountUpdateMetadata keys values)"
| "upgrade (MultisigAccountUpdateSignaturesRequired new_num_signatures_required) = Some (V7_Sdk.MultisigAccountUpdateSignaturesRequired new_num_signatures_required)"
| "upgrade (MultisigAccountVoteTransanction multisig_account sequence_number approved) = Some (V7_Sdk.MultisigAccountVoteTransanction multisig_account sequence_number approved)"
| "upgrade (ObjectTransferCall object to_arg) = Some (V7_Sdk.ObjectTransferCall object to_arg)"
| "upgrade (OlAccountCreateAccount auth_key) = Some (V7_Sdk.OlAccountCreateAccount auth_key)"
| "upgrade (OlAccountSetAllowDirectCoinTransfers allow) = Some (V7_Sdk.OlAccountSetAllowDirectCoinTransfers allow)"
| "upgrade (OlAccountTransfer to_arg amount) = Some (V7_Sdk.OlAccountTransfer to_arg amount)"
| "upgrade OracleInitProvider = None"
| "upgrade ProofOfFeeInitBidding = Some V7_Sdk.ProofOfFeeInitBidding"
| "upgrade ProofOfFeePofRetractBid = Some V7_Sdk.ProofOfFeePofRetractBid"
| "upgrade (ProofOfFeePofUpdateBid bid epoch_expiry) = Some (V7_Sdk.ProofOfFeePofUpdateBid bid epoch_expiry)"
| "upgrade SafeInitPaymentMultisig = None"
| "upgrade (SlowWalletSmokeTestVmUnlock user_addr unlocked transferred) = Some (V7_Sdk.SlowWalletSmokeTestVmUnlock user_addr unlocked transferred)"
| "upgrade SlowWalletUserSetSlow = Some V7_Sdk.SlowWalletUserSetSlow"
| "upgrade (StakeInitializeStakeOwner initial_stake_amount operator voter) = None"
| "upgrade (StakeInitializeValidator consensus_pubkey proof_of_possession network_addresses fullnode_addresses) = Some (V7_Sdk.StakeInitializeValidator consensus_pubkey proof_of_possession network_addresses fullnode_addresses)"
| "upgrade (StakeRotateConsensusKey validator_address new_consensus_pubkey proof_of_possession) = Some (V7_Sdk.StakeRotateConsensusKey validator_address new_consensus_pubkey proof_of_possession)"
| "upgrade (StakeSetOperator new_operator) = None"
| "upgrade (StakeUpdateNetworkAndFullnodeAddresses validator_address new_network_addresses new_fullnode_addresses) = Some (V7_Sdk.StakeUpdateNetworkAndFullnodeAddresses validator_address new_network_addresses new_fullnode_addresses)"
| "upgrade (TowerStateMinerstateCommit challenge solution difficulty security) = None"
| "upgrade (ValidatorUniverseRegisterValidator consensus_pubkey proof_of_possession network_addresses fullnode_addresses) = Some (V7_Sdk.ValidatorUniverseRegisterValidator consensus_pubkey proof_of_possession network_addresses fullnode_addresses)"
| "upgrade (VersionSetVersion major) = Some (V7_Sdk.VersionSetVersion major)"
| "upgrade (VouchInsistVouchFor wanna_be_my_friend) = Some (V7_Sdk.VouchInsistVouchFor wanna_be_my_friend)"
| "upgrade (VouchRevoke its_not_me_its_you) = Some (V7_Sdk.VouchRevoke its_not_me_its_you)"
| "upgrade (VouchVouchFor wanna_be_my_friend) = Some (V7_Sdk.VouchVouchFor wanna_be_my_friend)"

text \<open>The calls that release seven does not have, or has with arguments added.\<close>

primrec retired :: "EntryFunctionCall \<Rightarrow> bool" where
  "retired (AccountOfferRotationCapability rotation_capability_sig_bytes account_scheme account_public_key_bytes recipient_address) \<longleftrightarrow> False"
| "retired (AccountOfferSignerCapability signer_capability_sig_bytes account_scheme account_public_key_bytes recipient_address) \<longleftrightarrow> False"
| "retired AccountRevokeAnyRotationCapability \<longleftrightarrow> False"
| "retired AccountRevokeAnySignerCapability \<longleftrightarrow> False"
| "retired (AccountRevokeRotationCapability to_be_revoked_address) \<longleftrightarrow> False"
| "retired (AccountRevokeSignerCapability to_be_revoked_address) \<longleftrightarrow> False"
| "retired (AccountRotateAuthenticationKey from_scheme from_public_key_bytes to_scheme to_public_key_bytes cap_rotate_key cap_update_table) \<longleftrightarrow> False"
| "retired (AccountRotateAuthenticationKeyWithRotationCapability rotation_cap_offerer_address new_scheme new_public_key_bytes cap_update_table) \<longleftrightarrow> False"
| "retired (BurnSetSendCommunity community) \<longleftrightarrow> False"
| "retired (CodePublishPackageTxn metadata_serialized code_arg) \<longleftrightarrow> False"
| "retired (CoinTransfer coin_type to_arg amount) \<longleftrightarrow> False"
| "retired (CommunityWalletInitChangeSignerCommunityMultisig multisig_address new_signer is_add_operation n_of_m vote_duration_epochs) \<longleftrightarrow> False"
| "retired (CommunityWalletInitFinalizeAndCage initial_authorities num_signers) \<longleftrightarrow> False"
| "retired (CommunityWalletInitInitCommunity check_addresses check_threshold) \<longleftrightarrow> False"
| "retired (DiemGovernanceAddApprovedScriptHashScript proposal_id) \<longleftrightarrow> False"
| "retired (DiemGovernanceAssertCanResolve proposal_id) \<longleftrightarrow> False"
| "retired (DiemGovernanceCreateProposal stake_pool execution_hash metadata_location metadata_hash) \<longleftrightarrow> True"
| "retired (DiemGovernanceCreateProposalV2 stake_pool execution_hash metadata_location metadata_hash is_multi_step_proposal) \<longleftrightarrow> False"
| "retired (DiemGovernanceOlCreateProposalV2 execution_hash metadata_location metadata_hash is_multi_step_proposal) \<longleftrightarrow> False"
| "retired (DiemGovernanceOlVote proposal_id should_pass) \<longleftrightarrow> False"
| "retired DiemGovernanceSmokeTriggerEpoch \<longleftrightarrow> False"
| "retired DiemGovernanceTriggerEpoch \<longleftrightarrow> False"
| "retired (DiemGovernanceVote proposal_id should_pass) \<longleftrightarrow> False"
| "retired (DonorVoiceTxsProposeLiquidateTx multisig_address) \<longleftrightarrow> False"
| "retired (DonorVoiceTxsProposePaymentTx multisig_address payee value description) \<longleftrightarrow> False"
| "retired (DonorVoiceTxsProposeVetoTx multisig_address id_arg) \<longleftrightarrow> False"
| "retired (DonorVoiceTxsVoteLiquidationTx multisig_address) \<longleftrightarrow> False"
| "retired (DonorVoiceTxsVoteVetoTx multisig_address id_arg) \<longleftrightarrow> False"
| "retired EpochBoundarySmokeTriggerEpoch \<longleftrightarrow> False"
| "retired (JailUnjailByVoucher addr) \<longleftrightarrow> False"
| "retired LibraCoinClaimMintCapability \<longleftrightarrow> False"
| "retired (LibraCoinDelegateMintCapability to_arg) \<longleftrightarrow> False"
| "retired (LibraCoinMintToImpl dst_addr amount) \<longleftrightarrow> False"
| "retired (MultiActionFinalizeAndCage initial_authorities num_signers) \<longleftrightarrow> True"
| "retired (MultisigAccountAddOwner new_owner) \<longleftrightarrow> False"
| "retired (MultisigAccountAddOwners new_owners) \<longleftrightarrow> False"
| "retired (MultisigAccountApproveTransaction multisig_account sequence_number) \<longleftrightarrow> False"
| "retired (MultisigAccountCreate num_signatures_required metadata_keys metadata_values) \<longleftrightarrow> False"
| "retired (MultisigAccountCreateTransaction multisig_account payload_arg) \<longleftrightarrow> False"
| "retired (MultisigAccountCreateTransactionWithHash multisig_account payload_hash) \<longleftrightarrow> False"
| "retired (MultisigAccountCreateWithExistingAccount multisig_address owners num_signatures_required account_scheme account_public_key create_multisig_account_signed_message metadata_keys metadata_values) \<longleftrightarrow> False"
| "retired (MultisigAccountCreateWithOwners additional_owners num_signatures_required metadata_keys metadata_values) \<longleftrightarrow> False"
| "retired (MultisigAccountExecuteRejectedTransaction multisig_account) \<longleftrightarrow> False"
| "retired (MultisigAccountMigrateWithOwners additional_owners num_signatures_required metadata_keys metadata_values) \<longleftrightarrow> False"
| "retired (MultisigAccountRejectTransaction multisig_account sequence_number) \<longleftrightarrow> False"
| "retired (MultisigAccountRemoveOwner owner_to_remove) \<longleftrightarrow> False"
| "retired (MultisigAccountRemoveOwners owners_to_remove) \<longleftrightarrow> False"
| "retired (MultisigAccountUpdateMetadata keys values) \<longleftrightarrow> False"
| "retired (MultisigAccountUpdateSignaturesRequired new_num_signatures_required) \<longleftrightarrow> False"
| "retired (MultisigAccountVoteTransanction multisig_account sequence_number approved) \<longleftrightarrow> False"
| "retired (ObjectTransferCall object to_arg) \<longleftrightarrow> False"
| "retired (OlAccountCreateAccount auth_key) \<longleftrightarrow> False"
| "retired (OlAccountSetAllowDirectCoinTransfers allow) \<longleftrightarrow> False"
| "retired (OlAccountTransfer to_arg amount) \<longleftrightarrow> False"
| "retired OracleInitProvider \<longleftrightarrow> True"
| "retired ProofOfFeeInitBidding \<longleftrightarrow> False"
| "retired ProofOfFeePofRetractBid \<longleftrightarrow> False"
| "retired (ProofOfFeePofUpdateBid bid epoch_expiry) \<longleftrightarrow> False"
| "retired SafeInitPaymentMultisig \<longleftrightarrow> True"
| "retired (SlowWalletSmokeTestVmUnlock user_addr unlocked transferred) \<longleftrightarrow> False"
| "retired SlowWalletUserSetSlow \<longleftrightarrow> False"
| "retired (StakeInitializeStakeOwner initial_stake_amount operator voter) \<longleftrightarrow> True"
| "retired (StakeInitializeValidator consensus_pubkey proof_of_possession network_addresses fullnode_addresses) \<longleftrightarrow> False"
| "retired (StakeRotateConsensusKey validator_address new_consensus_pubkey proof_of_possession) \<longleftrightarrow> False"
| "retired (StakeSetOperator new_operator) \<longleftrightarrow> True"
| "retired (StakeUpdateNetworkAndFullnodeAddresses validator_address new_network_addresses new_fullnode_addresses) \<longleftrightarrow> False"
| "retired (TowerStateMinerstateCommit challenge solution difficulty security) \<longleftrightarrow> True"
| "retired (ValidatorUniverseRegisterValidator consensus_pubkey proof_of_possession network_addresses fullnode_addresses) \<longleftrightarrow> False"
| "retired (VersionSetVersion major) \<longleftrightarrow> False"
| "retired (VouchInsistVouchFor wanna_be_my_friend) \<longleftrightarrow> False"
| "retired (VouchRevoke its_not_me_its_you) \<longleftrightarrow> False"
| "retired (VouchVouchFor wanna_be_my_friend) \<longleftrightarrow> False"

lemma retired_keys:
  "V7_Sdk.SCRIPT_FUNCTION_DECODER_MAP b ''diem_governance_create_proposal'' = None"
  "V7_Sdk.SCRIPT_FUNCTION_DECODER_MAP b ''multi_action_finalize_and_cage'' = None"
  "V7_Sdk.SCRIPT_FUNCTION_DECODER_MAP b ''oracle_init_provider'' = None"
  "V7_Sdk.SCRIPT_FUNCTION_DECODER_MAP b ''stake_initialize_stake_owner'' = None"
  "V7_Sdk.SCRIPT_FUNCTION_DECODER_MAP b ''stake_set_operator'' = None"
  "V7_Sdk.SCRIPT_FUNCTION_DECODER_MAP b ''tower_state_minerstate_commit'' = None"
  unfolding V7_Sdk.SCRIPT_FUNCTION_DECODER_MAP_def
  by (rule decoder_table_absent, unfold V7_Sdk.decoder_entries_def list.map fst_conv, simp)+

text \<open>C37. What release seven makes of a call of release six: a call that both have, with the same arguments, has the
  same payload in both, and both decoders read it as the same call; a call that was removed, and the
  payment wallet whose arguments were added, is not recognised.\<close>

theorem v6_calls_carried:
  assumes b: "bcs_library b"
  shows "(\<forall>c'. upgrade c = Some c' \<longrightarrow> encode b c = V7_Sdk.encode b c') \<and>
    (\<forall>p. encode b c = Inr p \<longrightarrow> decode b p = Some c \<and>
      (\<forall>c'. upgrade c = Some c' \<longrightarrow> V7_Sdk.decode b p = Some c') \<and> (retired c \<longrightarrow> V7_Sdk.decode b p = None))"
proof -
  have e: "encode b c = V7_Sdk.encode b c'" if "upgrade c = Some c'" for c'
    using that by (cases c) (auto simp: v6_builder_defs v7_builder_defs)
  moreover have "V7_Sdk.decode b p = Some c'" if "encode b c = Inr p" "upgrade c = Some c'" for p c'
    using bcs_library.v7_decode_encode [OF b, of c' p] e [OF that(2)] that(1) by simp
  moreover have "V7_Sdk.decode b p = None" if "encode b c = Inr p" "retired c" for p
    using that by (cases c) (auto simp: v6_builder_defs framework_call_Inr V7_Sdk.decode_def decode_by_def retired_keys
      v7_decoder_lookups v7_decoder_defs on_script_def arg_at_def)
  ultimately show ?thesis using bcs_library.v6_decode_encode [OF b] by blast
qed

theorem v6_calls_carried_witness:
  "(\<exists>p. encode ref_bcs (VouchVouchFor 7) = Inr p \<and> V7_Sdk.decode ref_bcs p = Some (V7_Sdk.VouchVouchFor 7)) \<and>
   (\<exists>p. encode ref_bcs (StakeSetOperator 7) = Inr p \<and> V7_Sdk.decode ref_bcs p = None)"
proof -
  have "is_ok (encode ref_bcs (VouchVouchFor 7))" "is_ok (encode ref_bcs (StakeSetOperator 7))"
    by (rule ref_bcs.v6_encode_fits, simp)+
  with v6_calls_carried [OF ref_bcs.bcs_library_axioms, of "VouchVouchFor 7"] v6_calls_carried [OF ref_bcs.bcs_library_axioms, of "StakeSetOperator 7"]
  show ?thesis by (auto simp: is_ok_iff simp del: encode.simps)
qed

end
