(* ===== verification/Restore_Bundle.thy ===== *)
theory Restore_Bundle
  imports Legacy_Archive
begin

text \<open>
  Restoring a database from an archive (\<^verbatim>\<open>tools/storage/src/\<close>: \<^verbatim>\<open>restore_bundle.rs\<close>,
  \<^verbatim>\<open>dbtool_init.rs\<close>, \<^verbatim>\<open>restore.rs\<close>, \<^verbatim>\<open>storage_cli.rs\<close>). The bundle finds the manifests of an epoch
  ending, a state snapshot and a transaction backup under a directory; a full restore runs the vendor's
  three restore controllers on them. File patterns (\<^verbatim>\<open>glob\<close>), the JSON parsers, the database and the
  controllers are parameters; the controllers are seen as the list of calls made to them.
\<close>

section \<open>The bundle\<close>

record Waypoint =
  wp_version :: u64
  wp_value :: HashValueV5

record EpochEndingBackup =
  ee_first_epoch :: u64
  ee_last_epoch :: u64
  ee_waypoints :: "Waypoint list"

record RestoreBundle =
  restore_bundle_dir :: string
  rb_epoch :: u64
  rb_version :: u64
  rb_waypoint :: "Waypoint option"
  epoch_manifest :: string
  snapshot_manifest :: string
  transaction_manifest :: string

definition RestoreBundle_new :: "string \<Rightarrow> RestoreBundle" where
  "RestoreBundle_new dir = \<lparr>restore_bundle_dir = dir, rb_epoch = 0, rb_version = 0, rb_waypoint = None,
     epoch_manifest = [], snapshot_manifest = [], transaction_manifest = []\<rparr>"

record bundle_env =
  be_fs :: archive
  be_glob :: "string \<Rightarrow> string list result"
  be_epoch_json :: "string \<Rightarrow> EpochEndingBackup result"
  be_tx_json :: "string \<Rightarrow> TransactionBackup result"

definition path_exists :: "bundle_env \<Rightarrow> string \<Rightarrow> bool" where
  "path_exists env p \<longleftrightarrow> text_files (be_fs env) p \<noteq> None"

text \<open>Paths are ordered by their components; \<^verbatim>\<open>Iterator::max\<close> keeps the last of equal maxima.\<close>

fun lex_less :: "('a \<Rightarrow> 'a \<Rightarrow> bool) \<Rightarrow> 'a list \<Rightarrow> 'a list \<Rightarrow> bool" where
  "lex_less lt xs [] = False"
| "lex_less lt [] (y # ys) = True"
| "lex_less lt (x # xs) (y # ys) = (lt x y \<or> (\<not> lt y x \<and> lex_less lt xs ys))"

definition path_less :: "string \<Rightarrow> string \<Rightarrow> bool" where
  "path_less p q = lex_less (lex_less (\<lambda>c d. (of_char c :: nat) < of_char d)) (str_split CHR ''/'' p) (str_split CHR ''/'' q)"

fun path_max_from :: "string \<Rightarrow> string list \<Rightarrow> string" where
  "path_max_from p [] = p"
| "path_max_from p (q # ps) = path_max_from (if path_less q p then p else q) ps"

fun path_max :: "string list \<Rightarrow> string option" where
  "path_max [] = None"
| "path_max (p # ps) = Some (path_max_from p ps)"

section \<open>Searching the manifests\<close>

type_synonym bundle_op = "RestoreBundle \<Rightarrow> unit result \<times> RestoreBundle"

definition read_epoch_manifest :: "bundle_env \<Rightarrow> string \<Rightarrow> EpochEndingBackup result" where
  "read_epoch_manifest env p = and_then (ok_or ''No such file or directory'' (text_files (be_fs env) p)) (be_epoch_json env)"

definition any_epoch_manifest :: "bundle_env \<Rightarrow> bundle_op" where
  "any_epoch_manifest env self =
     (case be_glob env (restore_bundle_dir self @ ''/epoch_ending*/epoch_ending.manifest'') of
        Inl e \<Rightarrow> (Inl e, self)
      | Inr file_list \<Rightarrow>
          (case path_max file_list of
             None \<Rightarrow> (Inr (), self)
           | Some p \<Rightarrow>
               let self = self\<lparr>epoch_manifest := p\<rparr> in
               (case read_epoch_manifest env p of
                  Inl e \<Rightarrow> (Inl e, self)
                | Inr m \<Rightarrow> (Inr (), self\<lparr>rb_epoch := ee_first_epoch m,
                    rb_waypoint := (if ee_waypoints m = [] then None else Some (last (ee_waypoints m)))\<rparr>))))"

definition specific_epoch_manifest :: "bundle_env \<Rightarrow> u64 \<Rightarrow> bundle_op" where
  "specific_epoch_manifest env epoch self =
     (case be_glob env (restore_bundle_dir self @ ''/*_'' @ show_nat (unat epoch) @ ''*/epoch_ending.manifest'') of
        Inl e \<Rightarrow> (Inl e, self)
      | Inr file_list \<Rightarrow> (Inr (), case path_max file_list of None \<Rightarrow> self | Some p \<Rightarrow> self\<lparr>epoch_manifest := p\<rparr>))"

definition set_version :: "bundle_env \<Rightarrow> bundle_op" where
  "set_version env self =
     (if \<not> path_exists env (epoch_manifest self) then (Inl (Panic ''this epoch manifest file does not exist''), self)
      else case read_epoch_manifest env (epoch_manifest self) of
        Inl e \<Rightarrow> (Inl e, self)
      | Inr m \<Rightarrow> (Inr (), case ee_waypoints m of [] \<Rightarrow> self
          | wp # _ \<Rightarrow> self\<lparr>rb_version := wp_version wp, rb_epoch := ee_first_epoch m\<rparr>))"

definition search_snapshot_manifest :: "bundle_env \<Rightarrow> bundle_op" where
  "search_snapshot_manifest env self =
     (if \<not> path_exists env (epoch_manifest self) then (Inl (Panic ''this epoch manifest file does not exist''), self)
      else if \<not> 0 < rb_version self then (Inl (Panic ''you haven't yet set the version of the epoch restore''), self)
      else case be_glob env (restore_bundle_dir self @ ''/state_epoch*'' @ show_nat (unat (rb_epoch self)) @ ''*'' @
             show_nat (unat (rb_version self)) @ ''*/state.manifest'') of
        Inl e \<Rightarrow> (Inl e, self)
      | Inr file_list \<Rightarrow> (Inr (), case path_max file_list of None \<Rightarrow> self | Some p \<Rightarrow> self\<lparr>snapshot_manifest := p\<rparr>))"

definition verify_valid_transaction_list :: "bundle_env \<Rightarrow> string \<Rightarrow> u64 \<Rightarrow> unit result" where
  "verify_valid_transaction_list env p version =
     and_then (ok_or ''No such file or directory'' (text_files (be_fs env) p)) (\<lambda>s.
     and_then (be_tx_json env s) (\<lambda>tm.
       if tb_last_version tm < version then Inl (Err ''the transaction you are looking for is newer than the last version in this bundle. Get a newer transaction backup'')
       else if version < tb_first_version tm then Inl (Err ''the transaction you are looking for is older than the last version in this bundle. Get an older transaction backup.'')
       else Inr ()))"

fun pick_transactions :: "bundle_env \<Rightarrow> RestoreBundle \<Rightarrow> string list \<Rightarrow> RestoreBundle" where
  "pick_transactions env self [] = self"
| "pick_transactions env self (p # ps) =
     pick_transactions env (if is_ok (verify_valid_transaction_list env p (rb_version self))
       then self\<lparr>transaction_manifest := p\<rparr> else self) ps"

definition search_transaction_manifest :: "bundle_env \<Rightarrow> bundle_op" where
  "search_transaction_manifest env self =
     (if \<not> path_exists env (epoch_manifest self) then (Inl (Panic ''this epoch manifest file does not exist''), self)
      else if \<not> 0 < rb_version self then (Inl (Panic ''you haven't yet set the version of the epoch restore''), self)
      else case be_glob env (restore_bundle_dir self @ ''/**/transaction.manifest'') of
        Inl e \<Rightarrow> (Inl e, self)
      | Inr file_list \<Rightarrow> (Inr (), pick_transactions env self file_list))"

text \<open>Steps on the bundle in a row, each stopping the rest with its error.\<close>

definition bundle_then :: "bundle_op \<Rightarrow> bundle_op \<Rightarrow> bundle_op" where
  "bundle_then f g self = (case f self of (Inl e, self) \<Rightarrow> (Inl e, self) | (Inr _, self) \<Rightarrow> g self)"

definition load :: "bundle_env \<Rightarrow> bundle_op" where
  "load env = bundle_then (any_epoch_manifest env) (bundle_then (set_version env)
     (bundle_then (search_snapshot_manifest env) (search_transaction_manifest env)))"

definition is_loaded :: "bundle_env \<Rightarrow> RestoreBundle \<Rightarrow> bool" where
  "is_loaded env self \<longleftrightarrow> 0 < rb_epoch self \<and> 0 < rb_version self \<and> path_exists env (epoch_manifest self) \<and>
     path_exists env (snapshot_manifest self) \<and> path_exists env (transaction_manifest self)"

section \<open>The restore\<close>

datatype RestoreTypes = Epoch | Snapshot | Transaction

text \<open>The options common to the controllers, and a call of a controller on the database of a directory
  with the storage of a bundle directory.\<close>

record GlobalRestoreOptions =
  target_version :: u64
  trusted_waypoint :: Waypoint

datatype controller_call =
  EpochEndingRestore (call_manifest: string)
| StateSnapshotRestore (call_manifest: string) (call_version: u64)
| TransactionRestore (call_manifest: string)

record restore_call =
  rc_db :: string
  rc_storage :: string
  rc_global :: GlobalRestoreOptions
  rc_controller :: controller_call

text \<open>The database opens or not; the waypoint list passes the vendor's check or not; a controller
  succeeds or not after the calls made so far.\<close>

record restore_vendor =
  open_kv_only :: "string \<Rightarrow> unit result"
  verify_waypoints :: "Waypoint list \<Rightarrow> unit result"
  controller_run :: "restore_call list \<Rightarrow> restore_call \<Rightarrow> unit result"

definition get_global_db_opts :: "restore_vendor \<Rightarrow> string \<Rightarrow> RestoreBundle \<Rightarrow> GlobalRestoreOptions result" where
  "get_global_db_opts v db_dir bundle =
     and_then (open_kv_only v db_dir) (\<lambda>_.
     and_then (unwrap ''no waypoint'' (rb_waypoint bundle)) (\<lambda>wp.
     and_then (expect ''cannot verify waypoint'' (verify_waypoints v [wp])) (\<lambda>_.
       Inr \<lparr>target_version = rb_version bundle, trusted_waypoint = wp\<rparr>)))"

fun controller_of :: "RestoreTypes \<Rightarrow> RestoreBundle \<Rightarrow> controller_call" where
  "controller_of Epoch bundle = EpochEndingRestore (epoch_manifest bundle)"
| "controller_of Snapshot bundle = StateSnapshotRestore (snapshot_manifest bundle) (rb_version bundle)"
| "controller_of Transaction bundle = TransactionRestore (transaction_manifest bundle)"

definition run_restore :: "restore_vendor \<Rightarrow> RestoreTypes \<Rightarrow> string \<Rightarrow> RestoreBundle \<Rightarrow> restore_call list \<Rightarrow> unit result \<times> restore_call list" where
  "run_restore v rtype db_path bundle calls =
     (case get_global_db_opts v db_path bundle of
        Inl e \<Rightarrow> (Inl e, calls)
      | Inr global \<Rightarrow>
          let call = \<lparr>rc_db = db_path, rc_storage = restore_bundle_dir bundle, rc_global = global, rc_controller = controller_of rtype bundle\<rparr>
          in (controller_run v calls call, calls @ [call]))"

fun run_restores :: "restore_vendor \<Rightarrow> RestoreTypes list \<Rightarrow> string \<Rightarrow> RestoreBundle \<Rightarrow> restore_call list \<Rightarrow> unit result \<times> restore_call list" where
  "run_restores v [] db_path bundle calls = (Inr (), calls)"
| "run_restores v (t # ts) db_path bundle calls =
     (case run_restore v t db_path bundle calls of
        (Inl e, calls) \<Rightarrow> (Inl e, calls)
      | (Inr _, calls) \<Rightarrow> run_restores v ts db_path bundle calls)"

definition full_restore :: "bundle_env \<Rightarrow> restore_vendor \<Rightarrow> string \<Rightarrow> RestoreBundle \<Rightarrow> unit result \<times> restore_call list" where
  "full_restore env v db_destination bundle =
     (if \<not> is_loaded env bundle then (Inl (Panic ''the restore bundle hasn't been checked yet''), [])
      else run_restores v [Epoch, Snapshot, Transaction] db_destination bundle [])"

text \<open>The command: directories that exist, \<^verbatim>\<open>create_dir_all\<close> and \<^verbatim>\<open>canonicalize\<close> are parameters; the
  result comes with the calls made and whether the destination was created.\<close>

record dir_env =
  dir_exists :: "string \<Rightarrow> bool"
  create_dir_all :: "string \<Rightarrow> unit result"
  canonicalize :: "string \<Rightarrow> string result"

definition EpochRestore_run ::
  "dir_env \<Rightarrow> bundle_env \<Rightarrow> restore_vendor \<Rightarrow> string \<Rightarrow> string \<Rightarrow> RestoreBundle result \<times> restore_call list" where
  "EpochRestore_run dirs env v bundle_path destination_db =
     (if \<not> dir_exists dirs bundle_path then (Inl (Err (''bundle directory not found: '' @ bundle_path)), [])
      else if dir_exists dirs destination_db
      then (Inl (Err (''you are trying to restore to a directory that already exists, and may have conflicting state: '' @ destination_db)), [])
      else case and_then (create_dir_all dirs destination_db) (\<lambda>_. and_then (canonicalize dirs bundle_path) (\<lambda>b.
             and_then (canonicalize dirs destination_db) (\<lambda>d. Inr (b, d)))) of
        Inl e \<Rightarrow> (Inl e, [])
      | Inr (b, d) \<Rightarrow>
          (case load env (RestoreBundle_new b) of
             (Inl e, bundle) \<Rightarrow> (Inl e, [])
           | (Inr _, bundle) \<Rightarrow>
               (case full_restore env v d bundle of
                  (Inl e, calls) \<Rightarrow> (Inl e, calls)
                | (Inr _, calls) \<Rightarrow> (Inr bundle, calls))))"

section \<open>What a restore does\<close>

lemma bundle_then_Inr:
  "bundle_then f g b = (Inr (), b') \<longleftrightarrow> (\<exists>b1. f b = (Inr (), b1) \<and> g b1 = (Inr (), b'))"
  by (cases "f b"; cases "fst (f b)") (auto simp: bundle_then_def)

lemma any_epoch_manifest_Inr:
  assumes "any_epoch_manifest env (RestoreBundle_new dir) = (Inr (), b)" "path_exists env (epoch_manifest b)" "\<not> path_exists env []"
  shows "\<exists>p m. read_epoch_manifest env p = Inr m \<and>
    b = (RestoreBundle_new dir)\<lparr>epoch_manifest := p, rb_epoch := ee_first_epoch m,
      rb_waypoint := (if ee_waypoints m = [] then None else Some (last (ee_waypoints m)))\<rparr>"
proof -
  obtain ps where ps: "be_glob env (dir @ ''/epoch_ending*/epoch_ending.manifest'') = Inr ps"
    using assms(1) by (cases "be_glob env (dir @ ''/epoch_ending*/epoch_ending.manifest'')") (simp_all add: any_epoch_manifest_def RestoreBundle_new_def)
  obtain p where p: "path_max ps = Some p"
    using assms ps by (cases "path_max ps") (auto simp: any_epoch_manifest_def RestoreBundle_new_def)
  obtain m where "read_epoch_manifest env p = Inr m"
    using assms(1) ps p by (cases "read_epoch_manifest env p") (simp_all add: any_epoch_manifest_def RestoreBundle_new_def)
  moreover from this have "b = (RestoreBundle_new dir)\<lparr>epoch_manifest := p, rb_epoch := ee_first_epoch m,
      rb_waypoint := (if ee_waypoints m = [] then None else Some (last (ee_waypoints m)))\<rparr>"
    using assms(1) ps p by (simp add: any_epoch_manifest_def RestoreBundle_new_def)
  ultimately show ?thesis by blast
qed

lemma set_version_Inr:
  assumes "set_version env b = (Inr (), b')"
  shows "path_exists env (epoch_manifest b) \<and> (\<exists>m. read_epoch_manifest env (epoch_manifest b) = Inr m \<and>
    b' = (case ee_waypoints m of [] \<Rightarrow> b | wp # _ \<Rightarrow> b\<lparr>rb_version := wp_version wp, rb_epoch := ee_first_epoch m\<rparr>))"
  using assms by (auto simp: set_version_def split: if_splits sum.splits)

lemma search_snapshot_Inr:
  "search_snapshot_manifest env b = (Inr (), b') \<Longrightarrow> 0 < rb_version b \<and> (\<exists>p. b' = b\<lparr>snapshot_manifest := p\<rparr>)"
  by (auto simp: search_snapshot_manifest_def split: if_splits sum.splits option.splits intro: exI [of _ "snapshot_manifest b'"])

definition covers_version :: "bundle_env \<Rightarrow> u64 \<Rightarrow> string \<Rightarrow> bool" where
  "covers_version env version p \<longleftrightarrow> (\<exists>s tm. text_files (be_fs env) p = Some s \<and> be_tx_json env s = Inr tm \<and>
     tb_first_version tm \<le> version \<and> version \<le> tb_last_version tm)"

lemma verify_valid_iff: "is_ok (verify_valid_transaction_list env p version) \<longleftrightarrow> covers_version env version p"
proof (cases "text_files (be_fs env) p")
  case (Some s)
  then show ?thesis
    by (cases "be_tx_json env s") (auto simp: verify_valid_transaction_list_def covers_version_def not_less)
qed (simp add: verify_valid_transaction_list_def covers_version_def)

lemma pick_transactions_spec:
  "\<exists>p. pick_transactions env b ps = b\<lparr>transaction_manifest := p\<rparr> \<and>
     (p = transaction_manifest b \<or> covers_version env (rb_version b) p)"
proof (induction ps arbitrary: b)
  case Nil
  have "pick_transactions env b [] = b\<lparr>transaction_manifest := transaction_manifest b\<rparr>" by simp
  then show ?case by blast
next
  case (Cons p ps)
  then show ?case
    using Cons [of b] Cons [of "b\<lparr>transaction_manifest := p\<rparr>"] by (auto simp: verify_valid_iff)
qed

lemma search_transaction_Inr:
  assumes "search_transaction_manifest env b = (Inr (), b')"
  shows "\<exists>p. b' = b\<lparr>transaction_manifest := p\<rparr> \<and> (p = transaction_manifest b \<or> covers_version env (rb_version b) p)"
  using assms pick_transactions_spec by (auto simp: search_transaction_manifest_def split: if_splits sum.splits)

text \<open>What a loaded bundle promises.\<close>

definition bundle_ok :: "bundle_env \<Rightarrow> RestoreBundle \<Rightarrow> bool" where
  "bundle_ok env b \<longleftrightarrow> (\<exists>m. read_epoch_manifest env (epoch_manifest b) = Inr m \<and> ee_waypoints m \<noteq> [] \<and>
     rb_epoch b = ee_first_epoch m \<and> rb_version b = wp_version (hd (ee_waypoints m)) \<and>
     rb_waypoint b = Some (last (ee_waypoints m))) \<and> 0 < rb_version b \<and> 0 < rb_epoch b \<and>
     path_exists env (snapshot_manifest b) \<and> covers_version env (rb_version b) (transaction_manifest b)"

lemma load_bundle_ok:
  assumes l: "load env (RestoreBundle_new dir) = (Inr (), b)" and e: "\<not> path_exists env []" "is_loaded env b"
  shows "bundle_ok env b \<and> restore_bundle_dir b = dir"
proof -
  obtain b1 b2 b3 where s: "any_epoch_manifest env (RestoreBundle_new dir) = (Inr (), b1)" "set_version env b1 = (Inr (), b2)"
      "search_snapshot_manifest env b2 = (Inr (), b3)" "search_transaction_manifest env b3 = (Inr (), b)"
    using l by (auto simp: load_def bundle_then_Inr)
  from set_version_Inr [OF s(2)] obtain m where m: "path_exists env (epoch_manifest b1)" "read_epoch_manifest env (epoch_manifest b1) = Inr m"
      "b2 = (case ee_waypoints m of [] \<Rightarrow> b1 | wp # _ \<Rightarrow> b1\<lparr>rb_version := wp_version wp, rb_epoch := ee_first_epoch m\<rparr>)" by blast
  from any_epoch_manifest_Inr [OF s(1) m(1) e(1)] obtain p m' where b1: "read_epoch_manifest env p = Inr m'"
      "b1 = (RestoreBundle_new dir)\<lparr>epoch_manifest := p, rb_epoch := ee_first_epoch m',
        rb_waypoint := (if ee_waypoints m' = [] then None else Some (last (ee_waypoints m')))\<rparr>" by blast
  with m(2) have m': "m' = m" by simp
  obtain q where b3: "0 < rb_version b2" "b3 = b2\<lparr>snapshot_manifest := q\<rparr>" using search_snapshot_Inr [OF s(3)] by blast
  obtain t where b: "b = b3\<lparr>transaction_manifest := t\<rparr>" "t = transaction_manifest b3 \<or> covers_version env (rb_version b3) t"
    using search_transaction_Inr [OF s(4)] by blast
  obtain wp wps where wp: "ee_waypoints m = wp # wps"
    using b3(1) m(3) b1(2) by (cases "ee_waypoints m") (auto simp: RestoreBundle_new_def)
  note eqs = b(1) b3(2) m(3) b1(2) m' wp RestoreBundle_new_def
  have "covers_version env (rb_version b) t" using b(2) e by (auto simp: is_loaded_def eqs)
  with e(2) b1(1) show ?thesis by (auto simp: bundle_ok_def is_loaded_def eqs)
qed

text \<open>The call of one kind of restore on a bundle.\<close>

definition call_of :: "string \<Rightarrow> RestoreBundle \<Rightarrow> Waypoint \<Rightarrow> RestoreTypes \<Rightarrow> restore_call" where
  "call_of db b wp t = \<lparr>rc_db = db, rc_storage = restore_bundle_dir b,
     rc_global = \<lparr>target_version = rb_version b, trusted_waypoint = wp\<rparr>, rc_controller = controller_of t b\<rparr>"

lemma run_restore_cases:
  assumes "run_restore v t db b calls = (r, calls')" "rb_waypoint b = Some wp"
  shows "(\<exists>e. r = Inl e \<and> calls' = calls) \<or> calls' = calls @ [call_of db b wp t]"
  using assms by (auto simp: run_restore_def get_global_db_opts_def call_of_def Let_def and_then_eq_Inr unwrap_eq_Inr split: sum.splits)

lemma run_restores_calls:
  assumes "rb_waypoint b = Some wp"
  shows "run_restores v ts db b calls = (r, calls') \<Longrightarrow>
    \<exists>n \<le> length ts. calls' = calls @ map (call_of db b wp) (take n ts) \<and> (r = Inr () \<longrightarrow> n = length ts)"
proof (induction ts arbitrary: calls)
  case (Cons t ts)
  obtain r1 c1 where r1: "run_restore v t db b calls = (r1, c1)" by fastforce
  note c1 = run_restore_cases [OF r1 assms]
  show ?case
  proof (cases r1)
    case (Inl e)
    with Cons(2) r1 c1 show ?thesis by (auto intro: exI [of _ 0] exI [of _ "Suc 0"])
  next
    case (Inr u)
    with Cons(2) r1 have "run_restores v ts db b c1 = (r, calls')" by simp
    from Cons(1) [OF this] obtain n where n: "n \<le> length ts" "calls' = c1 @ map (call_of db b wp) (take n ts)" "r = Inr () \<longrightarrow> n = length ts"
      by blast
    then have "calls' = calls @ map (call_of db b wp) (take (Suc n) (t # ts))" using c1 Inr by simp
    with n(1,3) show ?thesis by (intro exI [of _ "Suc n"]) simp
  qed
qed simp

lemma EpochRestore_run_cases:
  assumes run: "EpochRestore_run dirs env v bundle_path destination_db = (r, calls)"
  shows "(calls = [] \<and> \<not> is_ok r) \<or> (\<exists>dir db b r'. canonicalize dirs destination_db = Inr db \<and> load env (RestoreBundle_new dir) = (Inr (), b) \<and>
    is_loaded env b \<and> run_restores v [Epoch, Snapshot, Transaction] db b [] = (r', calls) \<and> r = and_then r' (\<lambda>_. Inr b))"
proof (cases "dir_exists dirs bundle_path \<and> \<not> dir_exists dirs destination_db")
  case True
  show ?thesis
  proof (cases "and_then (create_dir_all dirs destination_db) (\<lambda>_. and_then (canonicalize dirs bundle_path) (\<lambda>b.
      and_then (canonicalize dirs destination_db) (\<lambda>d. Inr (b, d))))")
    case (Inl e)
    with True run show ?thesis by (auto simp: EpochRestore_run_def)
  next
    case (Inr p)
    then obtain dir db where p: "p = (dir, db)" "canonicalize dirs destination_db = Inr db" by (auto simp: and_then_eq_Inr)
    obtain r1 b where l: "load env (RestoreBundle_new dir) = (r1, b)" by fastforce
    obtain r2 c where f: "full_restore env v db b = (r2, c)" by fastforce
    show ?thesis
    proof (cases "r1 = Inr () \<and> is_loaded env b")
      case loaded: True
      then have "run_restores v [Epoch, Snapshot, Transaction] db b [] = (r2, c)" using f by (simp add: full_restore_def)
      moreover have "r = and_then r2 (\<lambda>_. Inr b)" "calls = c"
        using run True Inr p l f loaded by (auto simp: EpochRestore_run_def split: sum.splits)
      ultimately show ?thesis using p(2) l loaded by blast
    next
      case False
      then have "calls = [] \<and> \<not> is_ok r"
        using run True Inr p l by (cases r1) (auto simp: EpochRestore_run_def full_restore_def)
      then show ?thesis ..
    qed
  qed
qed (use run in \<open>auto simp: EpochRestore_run_def split: if_splits\<close>)


text \<open>An archive with one bundle.\<close>

definition example_bundle_env :: bundle_env where
  "example_bundle_env =
     \<lparr>be_fs = \<lparr>text_files = [''/b/epoch_ending_7-/epoch_ending.manifest'' \<mapsto> ''e'', ''/b/state_epoch_7_ver_90/state.manifest'' \<mapsto> ''s'',
        ''/b/transaction_0-/transaction.manifest'' \<mapsto> ''t''], binary_files = Map.empty\<rparr>,
      be_glob = (\<lambda>p. Inr (if p = ''/b/epoch_ending*/epoch_ending.manifest'' then [''/b/epoch_ending_7-/epoch_ending.manifest'']
        else if p = ''/b/**/transaction.manifest'' then [''/b/transaction_0-/transaction.manifest'']
        else [''/b/state_epoch_7_ver_90/state.manifest''])),
      be_epoch_json = (\<lambda>_. Inr \<lparr>ee_first_epoch = 7, ee_last_epoch = 7, ee_waypoints = [\<lparr>wp_version = 90, wp_value = record_hash\<rparr>]\<rparr>),
      be_tx_json = (\<lambda>_. Inr \<lparr>tb_first_version = 0, tb_last_version = 100, tb_chunks = []\<rparr>)\<rparr>"

definition example_dirs :: dir_env where
  "example_dirs = \<lparr>dir_exists = (\<lambda>d. d = ''/b''), create_dir_all = (\<lambda>_. Inr ()), canonicalize = Inr\<rparr>"

definition example_restore_vendor :: restore_vendor where
  "example_restore_vendor = \<lparr>open_kv_only = (\<lambda>_. Inr ()), verify_waypoints = (\<lambda>_. Inr ()), controller_run = (\<lambda>_ _. Inr ())\<rparr>"

lemma example_restore:
  "\<exists>b calls. EpochRestore_run example_dirs example_bundle_env example_restore_vendor ''/b'' ''/db'' = (Inr b, calls) \<and> rb_version b = 90"
  by (simp add: EpochRestore_run_def example_dirs_def example_bundle_env_def example_restore_vendor_def load_def bundle_then_def
    any_epoch_manifest_def set_version_def search_snapshot_manifest_def search_transaction_manifest_def read_epoch_manifest_def
    path_exists_def RestoreBundle_new_def verify_valid_transaction_list_def is_loaded_def full_restore_def run_restore_def
    get_global_db_opts_def Let_def)


text \<open>Two observations on the choice of the epoch manifest. The greatest path is taken in the order of
  strings, so an older epoch with a greater first digit wins over a newer one. And the version of the
  restore is that of the first waypoint of the manifest, while the last one is trusted: they agree
  only for a manifest with one waypoint.\<close>

lemma path_max_lexicographic:
  "path_max [''/b/epoch_ending_100-/epoch_ending.manifest'', ''/b/epoch_ending_99-/epoch_ending.manifest''] =
     Some ''/b/epoch_ending_99-/epoch_ending.manifest''"
  by (simp add: path_less_def)

lemma bundle_waypoint_differs:
  "\<exists>env b wp. load env (RestoreBundle_new ''/b'') = (Inr (), b) \<and> is_loaded env b \<and> rb_waypoint b = Some wp \<and> wp_version wp \<noteq> rb_version b"
proof -
  let ?wps = "[\<lparr>wp_version = 90, wp_value = record_hash\<rparr>, \<lparr>wp_version = 95, wp_value = record_hash\<rparr>]"
  let ?env = "example_bundle_env\<lparr>be_epoch_json := (\<lambda>_. Inr \<lparr>ee_first_epoch = 7, ee_last_epoch = 8, ee_waypoints = ?wps\<rparr>)\<rparr>"
  have "\<exists>b. load ?env (RestoreBundle_new ''/b'') = (Inr (), b) \<and> is_loaded ?env b \<and> rb_waypoint b = Some (?wps ! 1) \<and> rb_version b = 90"
    by (simp add: example_bundle_env_def load_def bundle_then_def
      any_epoch_manifest_def set_version_def search_snapshot_manifest_def search_transaction_manifest_def read_epoch_manifest_def
      path_exists_def RestoreBundle_new_def verify_valid_transaction_list_def is_loaded_def Let_def)
  then show ?thesis by (auto intro!: exI [of _ ?env])
qed

end
