(* ===== verification/F64.thy ===== *)
theory F64
  imports Complex_Main Rust_Prelude
begin

text \<open>
  The type \<^verbatim>\<open>f64\<close> of the sources: IEEE 754 binary64 with rounding to nearest, ties to even.
  A finite value is the rational number it denotes (the two zeros are not told apart: no source
  modelled here depends on the sign of a zero). Every operation rounds the exact rational result
  once, as the standard requires of \<open>+\<close>, \<open>-\<close>, \<open>*\<close>, \<open>/\<close>, the square root and the conversion from an
  integer; \<^verbatim>\<open>as u64\<close> truncates and saturates, as Rust defines it.
\<close>

section \<open>Values and rounding\<close>

datatype f64 = Fin rat | Inf bool | NaN

fun bit_len :: "nat \<Rightarrow> nat" where
  "bit_len n = (if n = 0 then 0 else Suc (bit_len (n div 2)))"

declare bit_len.simps [simp del]

text \<open>\<open>f64_exp x\<close> is the exponent of the leading binary digit of \<open>x\<close>.\<close>

definition f64_exp :: "rat \<Rightarrow> int" where
  "f64_exp x =
     (let (n, d) = quotient_of \<bar>x\<bar>;
          k = int (bit_len (nat n)) - int (bit_len (nat d))
      in if 2 powi k \<le> \<bar>x\<bar> then k else k - 1)"

definition round_half_even :: "rat \<Rightarrow> int" where
  "round_half_even x =
     (let f = \<lfloor>x\<rfloor>; r = x - of_int f in
      if r < 1 / 2 then f else if 1 / 2 < r then f + 1 else if even f then f else f + 1)"

text \<open>53 significant digits, or fewer below the normal range.\<close>

definition f64_quantum :: "rat \<Rightarrow> int" where
  "f64_quantum x = max (f64_exp x - 52) (-1074)"

definition f64_round :: "rat \<Rightarrow> f64" where
  "f64_round x =
     (if x = 0 then Fin 0
      else let q = f64_quantum x;
               v = of_int (round_half_even (x / 2 powi q)) * 2 powi q
           in if 2 ^ 1024 \<le> \<bar>v\<bar> then Inf (x < 0) else Fin v)"

section \<open>Operations\<close>

definition f64_of_u64 :: "u64 \<Rightarrow> f64" where
  "f64_of_u64 n = f64_round (of_int (uint n))"

definition f64_of_nat :: "nat \<Rightarrow> f64" where
  "f64_of_nat n = f64_round (of_nat n)"

fun f64_neg :: "f64 \<Rightarrow> f64" where
  "f64_neg (Fin a) = Fin (- a)"
| "f64_neg (Inf s) = Inf (\<not> s)"
| "f64_neg NaN = NaN"

fun f64_add :: "f64 \<Rightarrow> f64 \<Rightarrow> f64" where
  "f64_add (Fin a) (Fin b) = f64_round (a + b)"
| "f64_add (Inf s) (Fin b) = Inf s"
| "f64_add (Fin a) (Inf t) = Inf t"
| "f64_add (Inf s) (Inf t) = (if s = t then Inf s else NaN)"
| "f64_add _ _ = NaN"

definition f64_sub :: "f64 \<Rightarrow> f64 \<Rightarrow> f64" where
  "f64_sub a b = f64_add a (f64_neg b)"

fun f64_mul :: "f64 \<Rightarrow> f64 \<Rightarrow> f64" where
  "f64_mul (Fin a) (Fin b) = f64_round (a * b)"
| "f64_mul (Inf s) (Fin b) = (if b = 0 then NaN else Inf (s \<noteq> (b < 0)))"
| "f64_mul (Fin a) (Inf t) = (if a = 0 then NaN else Inf (t \<noteq> (a < 0)))"
| "f64_mul (Inf s) (Inf t) = Inf (s \<noteq> t)"
| "f64_mul _ _ = NaN"

text \<open>Division; the sign of a zero divisor is not kept, so \<open>a / 0\<close> has the sign of \<open>a\<close>.\<close>

fun f64_div :: "f64 \<Rightarrow> f64 \<Rightarrow> f64" where
  "f64_div (Fin a) (Fin b) =
     (if b = 0 then (if a = 0 then NaN else Inf (a < 0)) else f64_round (a / b))"
| "f64_div (Inf s) (Fin b) = Inf (s \<noteq> (b < 0))"
| "f64_div (Fin a) (Inf t) = Fin 0"
| "f64_div _ _ = NaN"

fun isqrt :: "nat \<Rightarrow> nat" where
  "isqrt n =
     (if n = 0 then 0
      else let r = 2 * isqrt (n div 4) in if (r + 1) * (r + 1) \<le> n then r + 1 else r)"

declare isqrt.simps [simp del]

text \<open>The square root: \<open>m\<close> is the integer part of the root in units of \<open>2 powi q\<close>, and the root lies
  strictly above the midpoint exactly if the radicand lies above the midpoint's square.\<close>

definition sqrt_round :: "rat \<Rightarrow> rat" where
  "sqrt_round x =
     (let q = f64_exp x div 2 - 52;
          y = x / (2 powi q * 2 powi q);
          m = isqrt (nat \<lfloor>y\<rfloor>);
          h = of_nat m + 1 / 2
      in of_nat (if h * h < y then Suc m else m) * 2 powi q)"

fun f64_sqrt :: "f64 \<Rightarrow> f64" where
  "f64_sqrt (Fin x) = (if x = 0 then Fin 0 else if x < 0 then NaN else Fin (sqrt_round x))"
| "f64_sqrt (Inf s) = (if s then NaN else Inf s)"
| "f64_sqrt NaN = NaN"

text \<open>\<open>f64_ge a b\<close> is \<open>a >= b\<close>, false if either is not a number; \<open>f64_gt\<close> is \<open>a > b\<close>.\<close>

fun f64_ge :: "f64 \<Rightarrow> f64 \<Rightarrow> bool" where
  "f64_ge (Fin a) (Fin b) = (b \<le> a)"
| "f64_ge (Inf s) (Fin b) = (\<not> s)"
| "f64_ge (Fin a) (Inf t) = t"
| "f64_ge (Inf s) (Inf t) = (\<not> s \<or> t)"
| "f64_ge _ _ = False"

fun f64_gt :: "f64 \<Rightarrow> f64 \<Rightarrow> bool" where
  "f64_gt (Fin a) (Fin b) = (b < a)"
| "f64_gt (Inf s) (Fin b) = (\<not> s)"
| "f64_gt (Fin a) (Inf t) = t"
| "f64_gt (Inf s) (Inf t) = (\<not> s \<and> t)"
| "f64_gt _ _ = False"

text \<open>\<^verbatim>\<open>x as u64\<close>, \<^verbatim>\<open>x.trunc()\<close> folded in: truncate towards zero, saturate at both ends.\<close>

fun f64_to_u64 :: "f64 \<Rightarrow> u64" where
  "f64_to_u64 (Fin x) =
     (if x < 0 then 0 else if 2 ^ 64 - 1 \<le> x then 2 ^ 64 - 1 else word_of_int \<lfloor>x\<rfloor>)"
| "f64_to_u64 (Inf s) = (if s then 0 else 2 ^ 64 - 1)"
| "f64_to_u64 NaN = 0"

text \<open>\<^verbatim>\<open>f64::round\<close>: to the nearest integer, halves away from zero.\<close>

fun f64_round_int :: "f64 \<Rightarrow> f64" where
  "f64_round_int (Fin x) =
     Fin (of_int (if x < 0 then - \<lfloor>1 / 2 - x\<rfloor> else \<lfloor>x + 1 / 2\<rfloor>))"
| "f64_round_int v = v"

section \<open>Rounding lemmas\<close>

lemma bit_len_bounds: "0 < n \<Longrightarrow> 2 ^ (bit_len n - 1) \<le> n \<and> n < 2 ^ bit_len n \<and> 0 < bit_len n"
proof (induction n rule: bit_len.induct)
  case (1 n)
  show ?case
  proof (cases "n = 1")
    case True
    then show ?thesis by (simp add: bit_len.simps)
  next
    case False
    with "1.prems" have pos: "0 < n div 2" by simp
    with "1.IH" "1.prems" have ih: "2 ^ (bit_len (n div 2) - 1) \<le> n div 2" "n div 2 < 2 ^ bit_len (n div 2)"
      "0 < bit_len (n div 2)" by auto
    have eq: "bit_len n = Suc (bit_len (n div 2))" using "1.prems" by (subst bit_len.simps) simp
    have "2 ^ bit_len (n div 2) = 2 * (2::nat) ^ (bit_len (n div 2) - 1)"
      using ih(3) by (cases "bit_len (n div 2)") simp_all
    moreover from ih have "2 * 2 ^ (bit_len (n div 2) - 1) \<le> n" "n < 2 * 2 ^ bit_len (n div 2)"
      by linarith+
    ultimately show ?thesis using eq by simp
  qed
qed

lemma powi_2_pos [simp]: "0 < (2::rat) powi k"
  by (simp add: zero_less_power_int)

lemma powi_2_Suc: "(2::rat) powi (k + 1) = 2 * 2 powi k"
  by (simp add: power_int_add)

lemma powi_2_mono: "(2::rat) powi j < 2 powi k \<Longrightarrow> j < k"
  by (meson linorder_not_le one_le_numeral power_int_increasing)

lemma of_nat_nat_bounds:
  assumes "2 ^ i \<le> nat n" "nat n < 2 ^ j"
  shows "0 \<le> n \<Longrightarrow> (2 ^ i \<le> (of_int n :: rat)) \<and> (of_int n :: rat) < 2 ^ j"
proof -
  assume "0 \<le> n"
  then have eq: "(of_nat (nat n) :: rat) = of_int n" by simp
  from assms have "of_nat (2 ^ i) \<le> (of_nat (nat n) :: rat)" "of_nat (nat n) < (of_nat (2 ^ j) :: rat)"
    by (simp_all only: of_nat_le_iff of_nat_less_iff)
  then show ?thesis unfolding eq by simp
qed

lemma f64_exp_bounds:
  assumes "x \<noteq> 0"
  shows "2 powi f64_exp x \<le> \<bar>x\<bar>" "\<bar>x\<bar> < 2 powi (f64_exp x + 1)"
proof -
  obtain n d where nd: "quotient_of \<bar>x\<bar> = (n, d)" by fastforce
  have d: "0 < d" using quotient_of_denom_pos [OF nd] .
  have xeq: "\<bar>x\<bar> = of_int n / of_int d" using quotient_of_div [OF nd] .
  have "0 < of_int n / (of_int d :: rat)" using assms by (simp flip: xeq)
  then have n: "0 < n" using d by (simp add: zero_less_divide_iff)
  let ?a = "bit_len (nat n)" and ?b = "bit_len (nat d)"
  let ?k = "int ?a - int ?b"
  have a: "2 ^ (?a - 1) \<le> nat n" "nat n < 2 ^ ?a" "0 < ?a" using bit_len_bounds [of "nat n"] n by auto
  have b: "2 ^ (?b - 1) \<le> nat d" "nat d < 2 ^ ?b" "0 < ?b" using bit_len_bounds [of "nat d"] d by auto
  have ar: "2 ^ (?a - 1) \<le> (of_int n :: rat)" "of_int n < (2 ^ ?a :: rat)"
    using of_nat_nat_bounds [OF a(1,2)] n by auto
  have br: "2 ^ (?b - 1) \<le> (of_int d :: rat)" "of_int d < (2 ^ ?b :: rat)"
    using of_nat_nat_bounds [OF b(1,2)] d by auto
  have dpos: "0 < (of_int d :: rat)" using d by simp
  have up: "\<bar>x\<bar> < 2 powi (?k + 1)"
  proof -
    have "\<bar>x\<bar> < 2 ^ ?a / 2 ^ (?b - 1)"
      unfolding xeq using ar br dpos n by (intro frac_less) auto
    also have "\<dots> = 2 powi (int ?a - int (?b - 1))"
      by (simp add: power_int_diff power_int_of_nat)
    also have "int ?a - int (?b - 1) = ?k + 1" using b(3) by simp
    finally show ?thesis .
  qed
  have lo: "2 powi (?k - 1) \<le> \<bar>x\<bar>"
  proof -
    have "2 powi (?k - 1) = 2 powi (int (?a - 1) - int ?b)" using a(3) by (simp add: algebra_simps)
    also have "\<dots> = 2 ^ (?a - 1) / (2 ^ ?b :: rat)" by (simp add: power_int_diff power_int_of_nat)
    also have "\<dots> \<le> \<bar>x\<bar>" unfolding xeq using ar br dpos n by (intro frac_le) auto
    finally show ?thesis .
  qed
  have eq: "f64_exp x = (if 2 powi ?k \<le> \<bar>x\<bar> then ?k else ?k - 1)"
    unfolding f64_exp_def nd by simp
  show "2 powi f64_exp x \<le> \<bar>x\<bar>" "\<bar>x\<bar> < 2 powi (f64_exp x + 1)"
    using lo up unfolding eq by auto
qed

lemma f64_exp_eqI:
  assumes "2 powi e \<le> \<bar>x\<bar>" "\<bar>x\<bar> < 2 powi (e + 1)"
  shows "f64_exp x = e"
proof -
  have nz: "x \<noteq> 0" using assms(1) powi_2_pos [of e] by (metis abs_zero not_le)
  from f64_exp_bounds [OF nz] assms have "2 powi e < (2::rat) powi (f64_exp x + 1)"
    "2 powi f64_exp x < (2::rat) powi (e + 1)" by linarith+
  from this [THEN powi_2_mono] show ?thesis by simp
qed

lemma f64_exp_less:
  assumes "x \<noteq> 0" "\<bar>x\<bar> < 2 ^ k"
  shows "f64_exp x < int k"
proof -
  have "2 powi f64_exp x < (2::rat) powi int k"
    using f64_exp_bounds(1) [OF assms(1)] assms(2) by (simp add: power_int_of_nat)
  then show ?thesis by (rule powi_2_mono)
qed

lemma round_half_even_of_int [simp]: "round_half_even (of_int n) = n"
  by (simp add: round_half_even_def)

lemma round_half_even_ge: "of_int n \<le> x \<Longrightarrow> n \<le> round_half_even x"
  by (auto simp: round_half_even_def Let_def le_floor_iff [symmetric])

lemma round_half_even_le: "x \<le> of_int n \<Longrightarrow> round_half_even x \<le> n"
  by (cases "x = of_int n") (auto simp: round_half_even_def Let_def floor_less_iff intro: floor_le_iff [THEN iffD2])

lemma round_half_even_eqI: "\<bar>x - of_int m\<bar> < 1 / 2 \<Longrightarrow> round_half_even x = m"
proof -
  assume "\<bar>x - of_int m\<bar> < 1 / 2"
  then have *: "of_int m - 1 / 2 < x" "x < of_int m + 1 / 2" by linarith+
  show ?thesis
  proof (cases "of_int m \<le> x")
    case True
    with * have "\<lfloor>x\<rfloor> = m" by (intro floor_unique) linarith+
    with * show ?thesis by (simp add: round_half_even_def Let_def)
  next
    case False
    with * have "\<lfloor>x\<rfloor> = m - 1" by (intro floor_unique) simp_all
    with * show ?thesis by (simp add: round_half_even_def Let_def)
  qed
qed

lemma f64_round_exact:
  assumes "f64_quantum x \<le> 0" "x = of_int n" "\<bar>n\<bar> < 2 ^ 1024"
  shows "f64_round x = Fin x"
proof (cases "x = 0")
  case True
  then show ?thesis by (simp add: f64_round_def)
next
  case False
  let ?q = "f64_quantum x"
  have "x / 2 powi ?q = of_int (n * 2 ^ nat (- ?q))"
    using assms(1,2) by (simp add: power_int_def field_simps)
  then have v: "of_int (round_half_even (x / 2 powi ?q)) * 2 powi ?q = x"
    by (simp del: of_int_mult of_int_power) (metis nonzero_eq_divide_eq powi_2_pos less_irrefl)
  have "\<bar>x\<bar> < 2 ^ 1024"
    using assms(2,3) by (metis of_int_abs of_int_less_iff of_int_numeral of_int_power)
  then show ?thesis using False v by (simp add: f64_round_def Let_def)
qed

lemma f64_quantum_le_0:
  assumes "\<bar>x\<bar> < 2 ^ 53"
  shows "x \<noteq> 0 \<Longrightarrow> f64_quantum x \<le> 0"
  using f64_exp_less [OF _ assms] by (simp add: f64_quantum_def)

text \<open>Integers of up to 53 bits are exact.\<close>

lemma f64_round_of_int:
  assumes "\<bar>n\<bar> \<le> 2 ^ 53"
  shows "f64_round (of_int n) = Fin (of_int n)"
proof (cases "\<bar>n\<bar> = 2 ^ 53")
  case True
  have e: "f64_exp (of_int n :: rat) = 53"
    using True by (intro f64_exp_eqI) (simp_all flip: of_int_abs)
  then have q: "f64_quantum (of_int n :: rat) = 1" by (simp add: f64_quantum_def)
  have "n = 2 ^ 53 \<or> n = - (2 ^ 53)" using True by linarith
  then obtain m where m: "n = 2 * m" by (metis dvd_def dvd_minus_iff even_numeral even_power zero_less_numeral)
  have "(of_int n :: rat) / 2 powi 1 = of_int m" by (simp add: m)
  moreover have "\<bar>of_int n :: rat\<bar> < 2 ^ 1024" using True by (simp flip: of_int_abs)
  ultimately show ?thesis using q m by (auto simp: f64_round_def Let_def)
next
  case False
  with assms have lt: "\<bar>n\<bar> < 2 ^ 53" by simp
  show ?thesis
  proof (cases "n = 0")
    case True
    then show ?thesis by (simp add: f64_round_def)
  next
    case nz: False
    have "\<bar>of_int n :: rat\<bar> < 2 ^ 53"
      using lt by (metis of_int_abs of_int_less_iff of_int_numeral of_int_power)
    with nz have "f64_quantum (of_int n) \<le> 0" by (intro f64_quantum_le_0) auto
    moreover have "\<bar>n\<bar> < 2 ^ 1024" using lt by simp
    ultimately show ?thesis by (intro f64_round_exact) auto
  qed
qed

lemma f64_round_of_nat: "n \<le> 2 ^ 53 \<Longrightarrow> f64_round (of_nat n) = Fin (of_nat n)"
  using f64_round_of_int [of "int n"] by simp

lemma f64_of_u64_exact: "unat n \<le> 2 ^ 53 \<Longrightarrow> f64_of_u64 n = Fin (of_nat (unat n))"
  unfolding f64_of_u64_def using f64_round_of_nat [of "unat n"] by (metis of_int_of_nat_eq uint_nat)

text \<open>Rounding does not cross an integer of up to 53 bits.\<close>

lemma f64_round_le_int:
  assumes "0 \<le> x" "x \<le> of_int n" "n \<le> 2 ^ 53"
  shows "\<exists>v. f64_round x = Fin v \<and> 0 \<le> v \<and> v \<le> of_int n"
proof (cases "x = of_int n \<or> x = 0")
  case True
  have "0 \<le> n" using assms by (metis of_int_0_le_iff order_trans)
  with True show ?thesis using f64_round_of_int [of n] assms by (auto simp: f64_round_def)
next
  case False
  let ?q = "f64_quantum x"
  let ?v = "of_int (round_half_even (x / 2 powi ?q)) * 2 powi ?q :: rat"
  have x: "0 < x" "x < of_int n" using False assms by auto
  have n53: "(of_int n :: rat) \<le> 2 ^ 53"
    using assms(3) by (metis of_int_le_iff of_int_numeral of_int_power)
  with x have q: "?q \<le> 0" by (intro f64_quantum_le_0) auto
  have nq: "of_int (n * 2 ^ nat (- ?q)) = (of_int n / 2 powi ?q :: rat)"
    using q by (simp add: power_int_def field_simps)
  have "x / 2 powi ?q \<le> of_int (n * 2 ^ nat (- ?q))"
    unfolding nq using x by (simp add: divide_right_mono order_less_imp_le)
  then have "round_half_even (x / 2 powi ?q) \<le> n * 2 ^ nat (- ?q)" by (rule round_half_even_le)
  then have "of_int (round_half_even (x / 2 powi ?q)) \<le> (of_int n / 2 powi ?q :: rat)"
    by (metis nq of_int_le_iff)
  then have up: "?v \<le> of_int n" by (simp add: pos_le_divide_eq)
  have "0 \<le> round_half_even (x / 2 powi ?q)"
    by (rule round_half_even_ge) (use x in simp)
  then have lo: "0 \<le> ?v" by simp
  have "(2::rat) ^ 53 < 2 ^ 1024" by (rule power_strict_increasing) auto
  then have "\<bar>?v\<bar> < 2 ^ 1024" using lo up n53 by linarith
  then show ?thesis using lo up False by (simp add: f64_round_def Let_def)
qed

text \<open>The error of one rounding, and that multiplying a decimal with three places by a thousand and rounding
  to an integer gives back the decimal digits.\<close>

lemma round_half_even_error: "\<bar>of_int (round_half_even x) - x\<bar> \<le> 1 / 2"
proof -
  have "of_int \<lfloor>x\<rfloor> \<le> x" "x < of_int \<lfloor>x\<rfloor> + 1" using floor_correct [of x] by simp_all
  then show ?thesis by (auto simp: round_half_even_def Let_def)
qed

lemma f64_round_error:
  assumes "\<bar>x\<bar> < 2 ^ k" "k \<le> 53"
  shows "\<exists>v. f64_round x = Fin v \<and> \<bar>v - x\<bar> \<le> 2 powi (int k - 54)"
proof (cases "x = 0")
  case True
  then show ?thesis by (simp add: f64_round_def)
next
  case False
  let ?q = "f64_quantum x"
  let ?v = "of_int (round_half_even (x / 2 powi ?q)) * 2 powi ?q :: rat"
  have q: "?q \<le> int k - 53" using f64_exp_less [OF False assms(1)] assms(2) by (simp add: f64_quantum_def)
  have "?v - x = (of_int (round_half_even (x / 2 powi ?q)) - x / 2 powi ?q) * 2 powi ?q"
    by (simp add: field_simps)
  then have "\<bar>?v - x\<bar> = \<bar>of_int (round_half_even (x / 2 powi ?q)) - x / 2 powi ?q\<bar> * 2 powi ?q"
    by (simp add: abs_mult)
  also have "\<dots> \<le> 1 / 2 * 2 powi ?q" by (intro mult_right_mono round_half_even_error) simp
  also have "\<dots> \<le> 1 / 2 * 2 powi (int k - 53)" using q by (simp add: power_int_increasing)
  also have "\<dots> = 2 powi (int k - 54)" using powi_2_Suc [of "int k - 54"] by simp
  finally have err: "\<bar>?v - x\<bar> \<le> 2 powi (int k - 54)" .
  have "(2::rat) powi (int k - 54) \<le> 2 powi 0" using assms(2) by (intro power_int_increasing) auto
  then have "\<bar>?v\<bar> < 2 ^ k + 1" using err assms(1) by simp
  moreover have "(2::rat) ^ k \<le> 2 ^ 53" using assms(2) by (intro power_increasing) auto
  moreover have "(2::rat) ^ 53 + 1 < 2 ^ 1024" by simp
  ultimately have "\<bar>?v\<bar> < 2 ^ 1024" by linarith
  then show ?thesis using err False by (simp add: f64_round_def Let_def)
qed

lemma f64_round_int_near: "\<bar>x - of_nat k\<bar> < 1 / 2 \<Longrightarrow> f64_round_int (Fin x) = Fin (of_nat k)"
proof -
  assume x: "\<bar>x - of_nat k\<bar> < 1 / 2"
  show ?thesis
  proof (cases "x < 0")
    case True
    then have "k = 0" using x by (cases k) auto
    moreover have "\<lfloor>1 / 2 - x\<rfloor> = 0" using True x \<open>k = 0\<close> by (intro floor_unique) auto
    ultimately show ?thesis using True by simp
  next
    case False
    have "of_nat k \<le> x + 1 / 2" "x + 1 / 2 < of_nat k + 1" using x by linarith+
    then have "\<lfloor>x + 1 / 2\<rfloor> = int k" by (intro floor_unique) simp_all
    then show ?thesis using False by simp
  qed
qed

lemma thousandths_exact:
  assumes "k \<le> 1000000"
  shows "f64_round_int (f64_mul (f64_round (of_nat k / 1000)) (Fin 1000)) = Fin (of_nat k)"
proof -
  have k: "(of_nat k :: rat) \<le> 1000000" using assms by (metis of_nat_le_iff of_nat_numeral)
  have "\<bar>of_nat k / 1000 :: rat\<bar> < 2 ^ 10" using k by simp
  from f64_round_error [OF this] obtain v where
    v: "f64_round (of_nat k / 1000) = Fin v" "\<bar>v - of_nat k / 1000\<bar> \<le> 2 powi (- 44)" by auto
  have p: "(2::rat) powi (- 44) < 1 / 100000" "(2::rat) powi (- 34) < 1 / 100000"
    by (simp_all add: power_int_minus)
  have "\<bar>v * 1000\<bar> < 2 ^ 20" using v(2) p k by (simp add: abs_if split: if_splits)
  from f64_round_error [OF this] obtain w where
    w: "f64_round (v * 1000) = Fin w" "\<bar>w - v * 1000\<bar> \<le> 2 powi (- 34)" by auto
  have "\<bar>w - of_nat k\<bar> < 1 / 2" using v(2) w(2) p by linarith
  then show ?thesis using v(1) w(1) f64_round_int_near by simp
qed

lemma isqrt_bounds: "isqrt n * isqrt n \<le> n \<and> n < (isqrt n + 1) * (isqrt n + 1)"
proof (induction n rule: isqrt.induct)
  case (1 n)
  show ?case
  proof (cases "n = 0")
    case True
    then show ?thesis by (simp add: isqrt.simps)
  next
    case False
    define s where "s = isqrt (n div 4)"
    have ih: "s * s \<le> n div 4" "n div 4 < (s + 1) * (s + 1)"
      using "1.IH" [OF False] by (auto simp: s_def)
    have eq: "isqrt n = (if (2 * s + 1) * (2 * s + 1) \<le> n then 2 * s + 1 else 2 * s)"
      using False by (subst isqrt.simps) (simp add: s_def Let_def)
    have "4 * (s * s) \<le> n" "n < 4 * ((s + 1) * (s + 1))" using ih by linarith+
    then show ?thesis unfolding eq by (auto simp: algebra_simps)
  qed
qed

text \<open>The square root does not cross an integer of up to 52 bits.\<close>

lemma sqrt_round_le_int:
  assumes "0 < y" "y \<le> of_int v * of_int v" "0 \<le> v" "v < 2 ^ 52"
  shows "0 \<le> sqrt_round y \<and> sqrt_round y \<le> of_int v"
proof -
  define q where "q = f64_exp y div 2 - 52"
  define z where "z = y / (2 powi q * 2 powi q)"
  define m where "m = isqrt (nat \<lfloor>z\<rfloor>)"
  have z0: "0 < z" using assms(1) by (simp add: z_def)
  have eq: "sqrt_round y = of_nat (if (of_nat m + 1/2) * (of_nat m + 1/2) < z then Suc m else m) * 2 powi q"
    unfolding sqrt_round_def Let_def q_def z_def m_def by simp
  have v52: "(of_int v :: rat) < 2 ^ 52" using assms(4) by (metis of_int_less_iff of_int_numeral of_int_power)
  have "y < 2 ^ 52 * 2 ^ 52"
    using assms v52 by (meson mult_strict_mono' of_int_0_le_iff order_le_less_trans)
  also have "(2::rat) ^ 52 * 2 ^ 52 = 2 ^ 104" by (simp flip: power_add)
  finally have "f64_exp y < 104" using f64_exp_less [of y 104] assms(1) by simp
  then have q: "q \<le> 0" unfolding q_def by linarith
  define w where "w = v * 2 ^ nat (- q)"
  have w: "(of_int w :: rat) = of_int v / 2 powi q"
    using q by (simp add: w_def power_int_def field_simps)
  have w0: "0 \<le> w" using assms(3) by (simp add: w_def)
  have zw: "z \<le> of_int w * of_int w"
    unfolding z_def w using assms(2) by (simp add: divide_right_mono)
  have "of_nat (m * m) \<le> z"
  proof -
    have "m * m \<le> nat \<lfloor>z\<rfloor>" using isqrt_bounds [of "nat \<lfloor>z\<rfloor>"] by (simp add: m_def)
    then have "int (m * m) \<le> \<lfloor>z\<rfloor>" using z0 by (simp add: le_nat_iff)
    then show ?thesis by (metis le_floor_iff of_int_of_nat_eq)
  qed
  have sq: "a \<le> of_int w" if "a * a \<le> z" "0 \<le> a" for a :: rat
    using that zw w0 by (meson abs_le_square_iff mult_mono' not_le of_int_0_le_iff mult_strict_mono' order_trans order.strict_trans2 less_irrefl)
  have le: "of_nat (if (of_nat m + 1/2) * (of_nat m + 1/2) < z then Suc m else m) \<le> (of_int w :: rat)"
  proof (cases "(of_nat m + 1/2) * (of_nat m + 1/2) < z")
    case True
    then have "of_nat m + 1/2 \<le> (of_int w :: rat)" by (intro sq) auto
    then have "of_int (int m) < (of_int w :: rat)" by simp
    then have "int m < w" by (metis of_int_less_iff)
    then have "int (Suc m) \<le> w" by simp
    then have "of_int (int (Suc m)) \<le> (of_int w :: rat)" by (metis of_int_le_iff)
    then show ?thesis using True by simp
  next
    case False
    have "of_nat m \<le> (of_int w :: rat)" by (rule sq) (use \<open>of_nat (m * m) \<le> z\<close> in auto)
    then show ?thesis using False by simp
  qed
  then have "sqrt_round y \<le> of_int w * 2 powi q"
    unfolding eq by (simp add: mult_right_mono order_less_imp_le)
  also have "\<dots> = of_int v" by (simp add: w)
  finally show ?thesis by (simp add: eq order_less_imp_le)
qed

text \<open>Evaluation of a rounding whose exponent and significand are given.\<close>

lemma f64_round_eval:
  assumes "2 powi e \<le> \<bar>x\<bar>" "\<bar>x\<bar> < 2 powi (e + 1)" "-1022 \<le> e" "e < 1023"
    "\<bar>x / 2 powi (e - 52) - of_int m\<bar> < 1 / 2" "\<bar>m\<bar> \<le> 2 ^ 53"
  shows "f64_round x = Fin (of_int m * 2 powi (e - 52))"
proof -
  have e: "f64_exp x = e" using assms by (intro f64_exp_eqI)
  then have q: "f64_quantum x = e - 52" using assms by (simp add: f64_quantum_def)
  have nz: "x \<noteq> 0" using assms(1) powi_2_pos [of e] by (metis abs_zero not_le)
  have m: "\<bar>of_int m :: rat\<bar> \<le> 2 ^ 53"
    using assms(6) by (metis of_int_abs of_int_le_iff of_int_numeral of_int_power)
  have "\<bar>of_int m * 2 powi (e - 52)\<bar> \<le> 2 ^ 53 * (2 :: rat) powi (e - 52)"
    unfolding abs_mult using m by (simp add: mult_right_mono order_less_imp_le)
  also have "\<dots> = 2 powi (e + 1)" by (simp add: power_int_diff power_int_add)
  also have "\<dots> < 2 powi 1024" using assms(4) by (intro power_int_strict_increasing) auto
  finally have "\<bar>of_int m * 2 powi (e - 52)\<bar> < (2 :: rat) ^ 1024" by simp
  then show ?thesis using nz q round_half_even_eqI [OF assms(5)] by (simp add: f64_round_def Let_def)
qed

lemmas f64_eval_simps = power_int_def power_divide

lemmas f64_exact_simps = f64_of_u64_exact f64_round_of_nat f64_round_of_int

end
