(* ===== verification/Legacy_Recovery.thy ===== *)
theory Legacy_Recovery
  imports F64 Account_Address
begin

text \<open>
  The exported state of a chain that a fork starts from: the account resources of
  \<^verbatim>\<open>types/src/move_resource\<close>, the recovery record and its construction from an account state
  (\<^verbatim>\<open>compatibility/src/legacy_recovery_v6.rs\<close>), and the clean-up of a recovery file
  (\<^verbatim>\<open>tools/genesis/src/parse_json.rs\<close>).

  The vendor's \<^verbatim>\<open>AccountState\<close> is the record \<open>account_state\<close>, one field for the result of each
  resource it is asked for; the vendor's own resource types are the opaque \<open>blob\<close>.
\<close>

section \<open>Resources\<close>

type_synonym blob = "u8 list"

record AncestryResource =
  tree :: "AccountAddress list"

record UserBurnPreferenceResource =
  send_community :: bool

record BurnCounterResource =
  lifetime_burned :: u64
  lifetime_recycled :: u64

record LegacyBalanceResourceV6 =
  coin :: u64

record CumulativeDepositResource =
  cd_value :: u64
  cd_index :: u64
  cd_depositors :: "AccountAddress list"

record RegistryResource =
  registry_list :: "AccountAddress list"
  liquidation_queue :: "AccountAddress list"

record IDResource =
  creation_num :: u64
  id_addr :: AccountAddress

record PaymentResource =
  payee :: AccountAddress
  payment_value :: u64
  description :: "u8 list"

record TimedTransferResource =
  uid :: IDResource
  deadline :: u64
  tx :: PaymentResource
  epoch_latest_veto_received :: u64

record GUIDCapabilityResource =
  guid_addr :: AccountAddress

record TxScheduleResource =
  scheduled :: "TimedTransferResource list"
  veto :: "TimedTransferResource list"
  paid :: "TimedTransferResource list"
  guid_capability :: GUIDCapabilityResource

record FeeMakerResource =
  fee_epoch :: u64
  fee_lifetime :: u64

record EpochFeeMakerRegistryResource =
  fee_makers :: "AccountAddress list"
  epoch_fees_made :: u64

record JailResource =
  is_jailed :: bool
  lifetime_jailed :: u64
  lifetime_vouchees_jailed :: u64
  consecutive_failure_to_rejoin :: u64

record MatchIndexResource =
  match_addr :: "AccountAddress list"
  match_index :: "u64 list"
  match_ratio :: "f64 list"

record PledgeAccountResource =
  address_of_beneficiary :: AccountAddress
  pledge_amount :: u64
  pledge :: u64
  epoch_of_last_deposit :: u64
  lifetime_pledged :: u64
  lifetime_withdrawn :: u64

record MyPledgesResource =
  pledges :: "PledgeAccountResource list"

record ReceiptsResource =
  destination :: "AccountAddress list"
  cumulative :: "u64 list"
  last_payment_timestamp :: "u64 list"
  last_payment_value :: "u64 list"

record ValidatorUniverseResource =
  validators :: "AccountAddress list"

record MyVouchesResource =
  my_buddies :: "AccountAddress list"
  epoch_vouched :: "u64 list"

record CommunityWalletsResource =
  community_list :: "AccountAddress list"

record SlowWalletResource =
  unlocked :: u64
  transferred :: u64

record SlowWalletListResource =
  slow_list :: "AccountAddress list"
  drip_events :: blob

record BurnTrackerResource =
  prev_supply :: u64
  prev_balance :: u64
  burn_at_last_calc :: u64
  cumu_burn :: u64

record ConsensusRewardResource =
  nominal_reward :: u64
  net_reward :: u64
  entry_fee :: u64
  clearing_bid :: u64
  median_win_bid :: u64
  median_history :: "u64 list"

record CurrencyInfoResource =
  total_value :: u128
  preburn_value :: u64
  to_xdx_exchange_rate :: u64
  is_synthetic :: bool
  scaling_factor :: u64
  fractional_part :: u64
  currency_code :: string
  can_mint :: bool

section \<open>The recovery record\<close>

datatype AccountRole = System | Validator | Operator | EndUser | Drop

record LegacyRecoveryV6 =
  account :: "AccountAddress option"
  auth_key :: "AuthenticationKey option"
  role :: AccountRole
  balance :: "LegacyBalanceResourceV6 option"
  val_cfg :: "blob option"
  val_operator_cfg :: "blob option"
  comm_wallet :: "CommunityWalletsResource option"
  currency_info :: "CurrencyInfoResource option"
  ancestry :: "AncestryResource option"
  receipts :: "ReceiptsResource option"
  cumulative_deposits :: "CumulativeDepositResource option"
  slow_wallet :: "SlowWalletResource option"
  slow_wallet_list :: "SlowWalletListResource option"
  user_burn_preference :: "UserBurnPreferenceResource option"
  burn_tracker :: "BurnTrackerResource option"
  my_vouches :: "MyVouchesResource option"
  tx_schedule :: "TxScheduleResource option"
  fee_maker :: "FeeMakerResource option"
  jail :: "JailResource option"
  my_pledge :: "MyPledgesResource option"
  burn_counter :: "BurnCounterResource option"
  donor_voice_registry :: "RegistryResource option"
  epoch_fee_maker_registry :: "EpochFeeMakerRegistryResource option"
  match_index_res :: "MatchIndexResource option"
  validator_universe :: "ValidatorUniverseResource option"
  consensus_reward :: "ConsensusRewardResource option"

definition LegacyRecoveryV6_default :: LegacyRecoveryV6 where
  "LegacyRecoveryV6_default =
     \<lparr>account = None, auth_key = None, role = EndUser, balance = None, val_cfg = None,
      val_operator_cfg = None, comm_wallet = None, currency_info = None, ancestry = None, receipts = None,
      cumulative_deposits = None, slow_wallet = None, slow_wallet_list = None, user_burn_preference = None,
      burn_tracker = None, my_vouches = None, tx_schedule = None, fee_maker = None, jail = None,
      my_pledge = None, burn_counter = None, donor_voice_registry = None, epoch_fee_maker_registry = None,
      match_index_res = None, validator_universe = None, consensus_reward = None\<rparr>"

text \<open>What the vendor's account state answers: the address, the authentication key bytes of the account
  resource, the coin of the coin store, and each Move resource, or a decoding error.\<close>

record account_state =
  get_account_address :: "AccountAddress option result"
  get_account_resource :: "u8 list option result"
  get_coin_store :: "u64 option result"
  get_validator_config :: "blob option result"
  get_validator_operator_config :: "blob option result"
  res_comm_wallet :: "CommunityWalletsResource option result"
  res_ancestry :: "AncestryResource option result"
  res_receipts :: "ReceiptsResource option result"
  res_cumulative_deposits :: "CumulativeDepositResource option result"
  res_slow_wallet :: "SlowWalletResource option result"
  res_slow_wallet_list :: "SlowWalletListResource option result"
  res_user_burn_preference :: "UserBurnPreferenceResource option result"
  res_burn_tracker :: "BurnTrackerResource option result"
  res_my_vouches :: "MyVouchesResource option result"
  res_tx_schedule :: "TxScheduleResource option result"
  res_fee_maker :: "FeeMakerResource option result"
  res_jail :: "JailResource option result"
  res_my_pledge :: "MyPledgesResource option result"
  res_burn_counter :: "BurnCounterResource option result"
  res_donor_voice_registry :: "RegistryResource option result"
  res_epoch_fee_maker_registry :: "EpochFeeMakerRegistryResource option result"
  res_match_index :: "MatchIndexResource option result"
  res_validator_universe :: "ValidatorUniverseResource option result"
  res_consensus_reward :: "ConsensusRewardResource option result"

definition be_word :: "u8 list \<Rightarrow> 256 word" where
  "be_word bs = fold (\<lambda>b acc. 256 * acc + ucast b) bs 0"

text \<open>The tail of \<^verbatim>\<open>get_legacy_recovery\<close>, from the community wallet on.\<close>

definition recover_resources :: "account_state \<Rightarrow> LegacyRecoveryV6 \<Rightarrow> LegacyRecoveryV6 result" where
  "recover_resources st r =
     and_then (res_comm_wallet st) (\<lambda>x. let r = r\<lparr>comm_wallet := x\<rparr> in
     and_then (res_ancestry st) (\<lambda>x. let r = r\<lparr>ancestry := x\<rparr> in
     and_then (res_receipts st) (\<lambda>x. let r = r\<lparr>receipts := x\<rparr> in
     and_then (res_cumulative_deposits st) (\<lambda>x. let r = r\<lparr>cumulative_deposits := x\<rparr> in
     and_then (res_slow_wallet st) (\<lambda>x. let r = r\<lparr>slow_wallet := x\<rparr> in
     and_then (res_slow_wallet_list st) (\<lambda>x. let r = r\<lparr>slow_wallet_list := x\<rparr> in
     and_then (res_user_burn_preference st) (\<lambda>x. let r = r\<lparr>user_burn_preference := x\<rparr> in
     and_then (res_burn_tracker st) (\<lambda>x. let r = r\<lparr>burn_tracker := x\<rparr> in
     and_then (res_my_vouches st) (\<lambda>x. let r = r\<lparr>my_vouches := x\<rparr> in
     and_then (res_tx_schedule st) (\<lambda>x. let r = r\<lparr>tx_schedule := x\<rparr> in
     and_then (res_fee_maker st) (\<lambda>x. let r = r\<lparr>fee_maker := x\<rparr> in
     and_then (res_jail st) (\<lambda>x. let r = r\<lparr>jail := x\<rparr> in
     and_then (res_my_pledge st) (\<lambda>x. let r = r\<lparr>my_pledge := x\<rparr> in
     and_then (res_burn_counter st) (\<lambda>x. let r = r\<lparr>burn_counter := x\<rparr> in
     and_then (res_donor_voice_registry st) (\<lambda>x. let r = r\<lparr>donor_voice_registry := x\<rparr> in
     and_then (res_epoch_fee_maker_registry st) (\<lambda>x. let r = r\<lparr>epoch_fee_maker_registry := x\<rparr> in
     and_then (res_match_index st) (\<lambda>x. let r = r\<lparr>match_index_res := x\<rparr> in
     and_then (res_validator_universe st) (\<lambda>x. let r = r\<lparr>validator_universe := x\<rparr> in
     and_then (res_consensus_reward st) (\<lambda>x.
     Inr (r\<lparr>consensus_reward := x\<rparr>))))))))))))))))))))"

definition get_legacy_recovery :: "account_state \<Rightarrow> LegacyRecoveryV6 result" where
  "get_legacy_recovery st =
     and_then (get_account_address st) (\<lambda>addr.
     let legacy_recovery = LegacyRecoveryV6_default\<lparr>account := addr\<rparr> in
     and_then (get_account_resource st) (\<lambda>account_resource.
     case account_resource of
       None \<Rightarrow> Inr legacy_recovery
     | Some key \<Rightarrow>
         if length key \<noteq> 32 then Inl (Err ''error: TryFromSliceError'') else
         let r = (if addr = Some 1 then legacy_recovery\<lparr>role := System\<rparr> else legacy_recovery);
             r = r\<lparr>auth_key := Some (be_word key)\<rparr> in
         and_then (get_coin_store st) (\<lambda>coin_store.
         let r = r\<lparr>balance := map_option (\<lambda>c. \<lparr>coin = c\<rparr>) coin_store\<rparr> in
         and_then (get_validator_config st) (\<lambda>vc.
         let r = r\<lparr>val_cfg := vc\<rparr>;
             r = (if vc \<noteq> None then r\<lparr>role := Validator\<rparr> else r) in
         and_then (get_validator_operator_config st) (\<lambda>oc.
         let r = r\<lparr>val_operator_cfg := oc\<rparr>;
             r = (if oc \<noteq> None then r\<lparr>role := Operator\<rparr> else r) in
         recover_resources st r)))))"

section \<open>System addresses\<close>

definition SYSTEM_MARK :: string where
  "SYSTEM_MARK = replicate 63 CHR ''0''"

fun strip_system_address ::
  "(AccountAddress \<Rightarrow> string) \<Rightarrow> LegacyRecoveryV6 list \<Rightarrow> LegacyRecoveryV6 list result" where
  "strip_system_address to_string [] = Inr []"
| "strip_system_address to_string (e # es) =
     (case account e of
        None \<Rightarrow> Inl (Panic ''called Option::unwrap() on a None value'')
      | Some a \<Rightarrow>
          and_then (strip_system_address to_string es) (\<lambda>rest.
          Inr (if str_contains (to_string a) SYSTEM_MARK then rest else e # rest)))"

section \<open>Cleaning a recovery file\<close>

definition fix_slow_wallet_one :: "LegacyRecoveryV6 \<Rightarrow> LegacyRecoveryV6 \<times> AccountAddress list" where
  "fix_slow_wallet_one e =
     (case (account e, balance e, slow_wallet e) of
        (Some a, Some b, Some s) \<Rightarrow>
          if coin b < unlocked s
          then (e\<lparr>slow_wallet := Some (s\<lparr>unlocked := coin b\<rparr>)\<rparr>, [a]) else (e, [])
      | _ \<Rightarrow> (e, []))"

fun fix_slow_wallet :: "LegacyRecoveryV6 list \<Rightarrow> LegacyRecoveryV6 list \<times> AccountAddress list" where
  "fix_slow_wallet [] = ([], [])"
| "fix_slow_wallet (e # es) =
     (let (e', errs) = fix_slow_wallet_one e; (es', errs') = fix_slow_wallet es in (e' # es', errs @ errs'))"

definition read_from_recovery_file ::
  "(string \<Rightarrow> LegacyRecoveryV6 list result) \<Rightarrow> string \<Rightarrow> file_system \<Rightarrow> LegacyRecoveryV6 list result" where
  "read_from_recovery_file from_json path fs =
     and_then (unwrap ''Unable to read file'' (files fs path)) (\<lambda>data. expect ''Unable to parse'' (from_json data))"

definition recovery_file_parse ::
  "(string \<Rightarrow> LegacyRecoveryV6 list result) \<Rightarrow> string \<Rightarrow> file_system \<Rightarrow> LegacyRecoveryV6 list result" where
  "recovery_file_parse from_json path fs =
     and_then (read_from_recovery_file from_json path fs) (\<lambda>r. Inr (fst (fix_slow_wallet r)))"

text \<open>The authentication key of a dropped account: 32 bytes of value 9.\<close>

definition tombstone :: AuthenticationKey where
  "tombstone = be_word (replicate 32 9)"

definition drop_one :: "AccountAddress list \<Rightarrow> LegacyRecoveryV6 \<Rightarrow> LegacyRecoveryV6" where
  "drop_one mapped e =
     (case account e of
        Some a \<Rightarrow>
          if a \<in> set mapped
          then LegacyRecoveryV6_default\<lparr>account := Some a, auth_key := Some tombstone, role := Drop\<rparr> else e
      | None \<Rightarrow> e)"

definition drop_accounts ::
  "(string \<Rightarrow> AccountAddress list result) \<Rightarrow> (LegacyRecoveryV6 list \<Rightarrow> string result) \<Rightarrow> string \<Rightarrow> string \<Rightarrow>
   LegacyRecoveryV6 list \<Rightarrow> file_system \<Rightarrow> (LegacyRecoveryV6 list \<times> file_system) result" where
  "drop_accounts from_json to_json drop_dir drop_file r fs =
     and_then (unwrap ''Unable to read file'' (files fs (path_join drop_dir drop_file))) (\<lambda>data.
     and_then (expect ''Unable to parse'' (from_json data)) (\<lambda>mapped.
     let r = map (drop_one mapped) r; path = path_join drop_dir ''migration_sanitized.json'' in
     and_then (to_json r) (\<lambda>json.
     if writable fs path then Inr (r, fs\<lparr>files := (files fs)(path \<mapsto> json)\<rparr>) else Inl (Err ''io error''))))"

section \<open>Roles\<close>

lemma recover_resources_keeps:
  "recover_resources st r = Inr r' \<Longrightarrow> account r' = account r \<and> auth_key r' = auth_key r \<and> role r' = role r \<and>
     balance r' = balance r \<and> val_cfg r' = val_cfg r \<and> val_operator_cfg r' = val_operator_cfg r"
  by (auto simp: recover_resources_def and_then_eq_Inr Let_def)

text \<open>The role of a recovered account is decided by its strongest resource: an operator
  configuration makes it an operator, otherwise a validator configuration makes it a validator,
  otherwise the framework address with an account resource is the system account, and any other is
  an end user; without an account resource nothing but the address is recovered.\<close>

theorem recovered_role:
  assumes "get_legacy_recovery st = Inr r"
  shows "\<exists>addr res. get_account_address st = Inr addr \<and> get_account_resource st = Inr res \<and> account r = addr \<and>
    (case res of
       None \<Rightarrow> r = LegacyRecoveryV6_default\<lparr>account := addr\<rparr>
     | Some key \<Rightarrow> auth_key r = Some (be_word key) \<and> get_validator_config st = Inr (val_cfg r) \<and>
         get_validator_operator_config st = Inr (val_operator_cfg r) \<and>
         role r = (if val_operator_cfg r \<noteq> None then Operator else if val_cfg r \<noteq> None then Validator
                   else if addr = Some 1 then System else EndUser))"
proof -
  obtain addr res where ar: "get_account_address st = Inr addr" "get_account_resource st = Inr res"
    using assms by (auto simp: get_legacy_recovery_def and_then_eq_Inr Let_def)
  show ?thesis
  proof (cases res)
    case None
    then show ?thesis using ar assms by (auto simp: get_legacy_recovery_def)
  next
    case (Some key)
    then have len: "length key = 32" using ar assms by (cases "length key = 32") (auto simp: get_legacy_recovery_def Let_def)
    define r0 where "r0 = (LegacyRecoveryV6_default\<lparr>account := addr\<rparr>)\<lparr>role := (if addr = Some 1 then System else EndUser),
      auth_key := Some (be_word key)\<rparr>"
    obtain cs where cs: "get_coin_store st = Inr cs" using assms ar Some len
      by (cases "get_coin_store st") (simp_all add: get_legacy_recovery_def Let_def)
    obtain vc where vc: "get_validator_config st = Inr vc" using assms ar Some len cs
      by (cases "get_validator_config st") (simp_all add: get_legacy_recovery_def Let_def)
    obtain oc where oc: "get_validator_operator_config st = Inr oc" using assms ar Some len cs vc
      by (cases "get_validator_operator_config st") (simp_all add: get_legacy_recovery_def Let_def)
    have rr: "recover_resources st (r0\<lparr>balance := map_option (\<lambda>c. \<lparr>coin = c\<rparr>) cs, val_cfg := vc, val_operator_cfg := oc,
        role := (if oc \<noteq> None then Operator else if vc \<noteq> None then Validator else role r0)\<rparr>) = Inr r"
      using assms ar Some len cs vc oc
      by (cases "addr = Some 1"; cases "vc = None"; cases "oc = None")
        (simp_all add: get_legacy_recovery_def Let_def r0_def LegacyRecoveryV6_default_def)
    show ?thesis using recover_resources_keeps [OF rr] ar vc oc Some by (auto simp: r0_def)
  qed
qed

definition example_state :: account_state where
  "example_state = \<lparr>get_account_address = Inr (Some 1), get_account_resource = Inr (Some (replicate 32 3)),
     get_coin_store = Inr (Some 500), get_validator_config = Inr None, get_validator_operator_config = Inr None,
     res_comm_wallet = Inr None, res_ancestry = Inr None, res_receipts = Inr None, res_cumulative_deposits = Inr None,
     res_slow_wallet = Inr None, res_slow_wallet_list = Inr None, res_user_burn_preference = Inr None,
     res_burn_tracker = Inr None, res_my_vouches = Inr None, res_tx_schedule = Inr None, res_fee_maker = Inr None,
     res_jail = Inr None, res_my_pledge = Inr None, res_burn_counter = Inr None, res_donor_voice_registry = Inr None,
     res_epoch_fee_maker_registry = Inr None, res_match_index = Inr None, res_validator_universe = Inr None,
     res_consensus_reward = Inr None\<rparr>"

theorem recovered_role_witness: "\<exists>r. get_legacy_recovery example_state = Inr r \<and> role r = System"
proof -
  obtain r where r: "get_legacy_recovery example_state = Inr r"
    by (simp add: get_legacy_recovery_def recover_resources_def example_state_def Let_def)
  show ?thesis using recovered_role [OF r] r by (auto simp: example_state_def)
qed

section \<open>System addresses\<close>

lemma hex_digits_zero_iff: "n < 16 ^ k \<Longrightarrow> hex_digits k n = replicate k CHR ''0'' \<longleftrightarrow> n = 0"
  by (metis hex_digits_0 hex_nat_hex_digits option.inject zero_less_numeral zero_less_power)

lemma str_contains_replicate:
  assumes "length s = Suc k"
  shows "str_contains s (replicate k c) \<longleftrightarrow> take k s = replicate k c \<or> drop 1 s = replicate k c"
proof
  assume "str_contains s (replicate k c)"
  then obtain a b where s: "s = a @ replicate k c @ b" by (auto simp: str_contains_iff)
  then have "length a + length b = 1" using assms by simp
  then show "take k s = replicate k c \<or> drop 1 s = replicate k c" using s by (cases a) auto
next
  assume "take k s = replicate k c \<or> drop 1 s = replicate k c"
  then show "str_contains s (replicate k c)"
  proof
    assume "take k s = replicate k c"
    then have "s = [] @ replicate k c @ drop k s" by (metis append_Nil append_take_drop_id)
    then show ?thesis unfolding str_contains_iff by blast
  next
    assume "drop 1 s = replicate k c"
    then have "s = take 1 s @ replicate k c @ []" by (metis append_Nil2 append_take_drop_id)
    then show ?thesis unfolding str_contains_iff by blast
  qed
qed

lemma system_mark_iff:
  assumes "account_address to_string from_hex_literal"
  shows "str_contains (to_string a) SYSTEM_MARK \<longleftrightarrow> unat a < 16 \<or> 16 ^ 63 dvd unat a"
proof -
  let ?n = "unat a"
  have s: "to_string a = hex_digits 64 ?n"
    using account_address.to_string_bytes [OF assms] addr.to_string_bytes by (simp add: addr_hex_def)
  have n: "?n < 16 ^ 64" by (rule unat_addr_less)
  have "hex_digits 64 ?n = hex_digits 63 (?n div 16) @ [hex_char (?n mod 16)]"
    using hex_digits.simps(2) [of 63] by simp
  moreover have "?n div 16 < 16 ^ 63" using n by (simp add: less_mult_imp_div_less)
  ultimately have t: "take 63 (to_string a) = replicate 63 CHR ''0'' \<longleftrightarrow> ?n < 16"
    using hex_digits_zero_iff [of "?n div 16" 63] by (simp add: s div_eq_0_iff)
  have "hex_digits 64 ?n = hex_digits 1 (?n div 16 ^ 63) @ hex_digits 63 (?n mod 16 ^ 63)"
    using hex_digits_add [of 1 63 ?n] by simp
  then have "drop 1 (to_string a) = hex_digits 63 (?n mod 16 ^ 63)" by (simp only: s) simp
  then have d: "drop 1 (to_string a) = replicate 63 CHR ''0'' \<longleftrightarrow> 16 ^ 63 dvd ?n"
    using hex_digits_zero_iff [of "?n mod 16 ^ 63" 63] by (simp only: dvd_eq_mod_eq_0) simp
  have "length (to_string a) = Suc 63" by (simp add: s)
  from str_contains_replicate [OF this, of "CHR ''0''"] show ?thesis unfolding SYSTEM_MARK_def t d .
qed

text \<open>Stripping the system accounts keeps, in order, exactly the records whose address is neither below
  sixteen nor a multiple of \<open>16 ^ 63\<close> (63 consecutive zero digits), and panics as soon as one
  record has no address.\<close>

theorem strip_system_address_spec:
  assumes "account_address to_string from_hex_literal"
  shows "(if \<forall>e \<in> set es. account e \<noteq> None
     then strip_system_address to_string es =
       Inr (filter (\<lambda>e. \<not> (unat (the (account e)) < 16 \<or> 16 ^ 63 dvd unat (the (account e)))) es)
     else \<exists>msg. strip_system_address to_string es = Inl (Panic msg))"
proof (induction es)
  case (Cons e es)
  then show ?case by (cases "account e") (auto simp: system_mark_iff [OF assms] split: if_splits)
qed simp

theorem strip_system_address_spec_witness:
  "strip_system_address addr_hex [LegacyRecoveryV6_default\<lparr>account := Some 1\<rparr>, LegacyRecoveryV6_default\<lparr>account := Some 77\<rparr>]
     = Inr [LegacyRecoveryV6_default\<lparr>account := Some 77\<rparr>]"
  using strip_system_address_spec [OF addr.account_address_axioms,
    of "[LegacyRecoveryV6_default\<lparr>account := Some 1\<rparr>, LegacyRecoveryV6_default\<lparr>account := Some 77\<rparr>]"]
  by (simp add: dvd_eq_mod_eq_0)

section \<open>Slow wallets\<close>

definition slow_ok :: "LegacyRecoveryV6 \<Rightarrow> bool" where
  "slow_ok e = (case (account e, balance e, slow_wallet e) of
     (Some a, Some b, Some s) \<Rightarrow> unlocked s \<le> coin b | _ \<Rightarrow> True)"

lemma fix_slow_wallet_one_ok: "slow_ok (fst (fix_slow_wallet_one e))"
  by (auto simp: fix_slow_wallet_one_def slow_ok_def split: option.splits if_splits)

lemma fix_slow_wallet_one_id: "slow_ok e \<Longrightarrow> fix_slow_wallet_one e = (e, [])"
  by (auto simp: fix_slow_wallet_one_def slow_ok_def split: option.splits)

lemma fix_slow_wallet_one_errs: "\<not> slow_ok e \<Longrightarrow> snd (fix_slow_wallet_one e) = [the (account e)]"
  by (auto simp: fix_slow_wallet_one_def slow_ok_def split: option.splits)

lemma fix_slow_wallet_map: "fix_slow_wallet es =
    (map (fst \<circ> fix_slow_wallet_one) es, concat (map (snd \<circ> fix_slow_wallet_one) es))"
  by (induction es) (auto simp: case_prod_beta Let_def)

text \<open>After the slow-wallet repair no account has more unlocked coins than its balance; the accounts that
  violated this are reported in order and only their unlocked amount is lowered, to the balance; a
  second run changes nothing and reports nothing.\<close>

theorem fix_slow_wallet_spec:
  "list_all slow_ok (fst (fix_slow_wallet es)) \<and>
   snd (fix_slow_wallet es) = map (the \<circ> account) (filter (\<lambda>e. \<not> slow_ok e) es) \<and>
   list_all2 (\<lambda>e e'. e' = (if slow_ok e then e
      else e\<lparr>slow_wallet := Some ((the (slow_wallet e))\<lparr>unlocked := coin (the (balance e))\<rparr>)\<rparr>)) es (fst (fix_slow_wallet es)) \<and>
   fix_slow_wallet (fst (fix_slow_wallet es)) = (fst (fix_slow_wallet es), [])"
proof (intro conjI)
  show "list_all slow_ok (fst (fix_slow_wallet es))"
    by (simp add: fix_slow_wallet_map list_all_iff fix_slow_wallet_one_ok)
  show "snd (fix_slow_wallet es) = map (the \<circ> account) (filter (\<lambda>e. \<not> slow_ok e) es)"
    by (induction es) (auto simp: fix_slow_wallet_map fix_slow_wallet_one_id fix_slow_wallet_one_errs)
  show "list_all2 (\<lambda>e e'. e' = (if slow_ok e then e
      else e\<lparr>slow_wallet := Some ((the (slow_wallet e))\<lparr>unlocked := coin (the (balance e))\<rparr>)\<rparr>)) es (fst (fix_slow_wallet es))"
    by (auto simp: fix_slow_wallet_map list_all2_conv_all_nth fix_slow_wallet_one_def slow_ok_def split: option.splits)
  have "fix_slow_wallet_one (fst (fix_slow_wallet_one e)) = (fst (fix_slow_wallet_one e), [])" for e
    by (rule fix_slow_wallet_one_id [OF fix_slow_wallet_one_ok])
  then show "fix_slow_wallet (fst (fix_slow_wallet es)) = (fst (fix_slow_wallet es), [])"
    by (induction es) (simp_all add: fix_slow_wallet_map)
qed

end
