(* ===== verification/Snapshot_Reader.thy ===== *)
theory Snapshot_Reader
  imports Legacy_Archive Legacy_Recovery "HOL-Library.Multiset"
begin

text \<open>
  Reading the archives of the current chain (\<^verbatim>\<open>tools/storage/src/read_snapshot.rs\<close>,
  \<^verbatim>\<open>tools/storage/src/read_tx_chunk.rs\<close>): the items of a state snapshot are grouped by account, every
  account is turned into a recovery record, and the records are written as the recovery file that a
  later genesis reads. State keys, values and the account state are types of the vendor; what the code
  uses of them are parameters: the address of an access path, the constructor of an account state, the
  order in which a hash map is iterated.
\<close>

section \<open>Manifests and chunks\<close>

record StateSnapshotBackup =
  ssb_version :: u64
  ssb_epoch :: u64
  ssb_chunks :: "StateSnapshotChunk list"

definition load_snapshot_manifest ::
  "(string \<Rightarrow> StateSnapshotBackup result) \<Rightarrow> archive \<Rightarrow> string \<Rightarrow> StateSnapshotBackup result" where
  "load_snapshot_manifest from_json fs path =
     and_then (ok_or ''No such file or directory'' (text_files fs path)) (\<lambda>config. from_json config)"

definition load_tx_chunk_manifest ::
  "(string \<Rightarrow> TransactionBackup result) \<Rightarrow> archive \<Rightarrow> string \<Rightarrow> TransactionBackup result" where
  "load_tx_chunk_manifest from_json fs path =
     and_then (ok_or ''No such file or directory'' (text_files fs path)) (\<lambda>s. from_json s)"

text \<open>Unlike its namesake of the version five reader, this one does not assert that the file exists: a
  missing chunk is an error that names the file.\<close>

definition read_account_state_chunk ::
  "record_reader \<Rightarrow> ('k \<times> 'v) layout \<Rightarrow> archive \<Rightarrow> string \<Rightarrow> string \<Rightarrow> ('k \<times> 'v) list result" where
  "read_account_state_chunk rd lay fs file_handle archive_path =
     and_then (unwrap ''could not read archive path'' (path_parent archive_path)) (\<lambda>parent.
       let full_handle = path_push parent file_handle in
       case open_for_read fs full_handle of
         Inl e \<Rightarrow> Inl (Err (''snapshot chunk '' @ full_handle))
       | Inr file \<Rightarrow> read_records rd (lay_from_bytes lay) (Suc (length file)) file)"

section \<open>Grouping by account\<close>

text \<open>A hash map of vectors, listed in the order its keys were inserted; the order in which the code
  iterates it is the parameter \<open>iter\<close>. \<^verbatim>\<open>entry(a).or_default().extend(xs)\<close>:\<close>

type_synonym ('k, 'v) state_map = "(AccountAddress \<times> ('k \<times> 'v) list) list"

fun entry_extend :: "AccountAddress \<Rightarrow> ('k \<times> 'v) list \<Rightarrow> ('k, 'v) state_map \<Rightarrow> ('k, 'v) state_map" where
  "entry_extend a xs [] = [(a, xs)]"
| "entry_extend a xs ((b, ys) # m) = (if a = b then (b, ys @ xs) # m else (b, ys) # entry_extend a xs m)"

text \<open>The fold over the items of a chunk: only items under an access path are kept.\<close>

fun group_chunk :: "('k \<Rightarrow> AccountAddress option) \<Rightarrow> ('k, 'v) state_map \<Rightarrow> ('k \<times> 'v) list \<Rightarrow> ('k, 'v) state_map" where
  "group_chunk access acc [] = acc"
| "group_chunk access acc ((key, val) # blobs) =
     group_chunk access (case access key of Some a \<Rightarrow> entry_extend a [(key, val)] acc | None \<Rightarrow> acc) blobs"

fun merge_chunk :: "('k, 'v) state_map \<Rightarrow> ('k, 'v) state_map \<Rightarrow> ('k, 'v) state_map" where
  "merge_chunk m [] = m"
| "merge_chunk m ((a, blobs) # chunk) = merge_chunk (entry_extend a blobs m) chunk"

fun group_chunks ::
  "(string \<Rightarrow> ('k \<times> 'v) list result) \<Rightarrow> ('k \<Rightarrow> AccountAddress option) \<Rightarrow> (('k, 'v) state_map \<Rightarrow> ('k, 'v) state_map) \<Rightarrow>
     ('k, 'v) state_map \<Rightarrow> StateSnapshotChunk list \<Rightarrow> ('k, 'v) state_map result" where
  "group_chunks read access iter m [] = Inr m"
| "group_chunks read access iter m (chunk # chunks) =
     and_then (read (chunk_blobs chunk)) (\<lambda>blobs.
       group_chunks read access iter (merge_chunk m (iter (group_chunk access [] blobs))) chunks)"

text \<open>The table of one account, where a later value of a key replaces an earlier one.\<close>

definition blobs_hash_table :: "('k \<times> 'v) list \<Rightarrow> 'k \<rightharpoonup> 'v" where
  "blobs_hash_table blobs = fold (\<lambda>(key, val) t. t(key \<mapsto> val)) blobs Map.empty"

fun materialize ::
  "(AccountAddress \<Rightarrow> ('k \<rightharpoonup> 'v) \<Rightarrow> account_state option result) \<Rightarrow> ('k, 'v) state_map \<Rightarrow> account_state list result" where
  "materialize from_paths [] = Inr []"
| "materialize from_paths ((address, blobs) # m) =
     and_then (from_paths address (blobs_hash_table blobs)) (\<lambda>a_state.
       and_then (materialize from_paths m) (\<lambda>rest.
         Inr (case a_state of Some s \<Rightarrow> s # rest | None \<Rightarrow> rest)))"

text \<open>What the functions below use of the vendor.\<close>

record ('k, 'v) snapshot_vendor =
  sv_reader :: record_reader
  sv_layout :: "('k \<times> 'v) layout"
  sv_access :: "'k \<Rightarrow> AccountAddress option"
  sv_iter :: "('k, 'v) state_map \<Rightarrow> ('k, 'v) state_map"
  sv_from_paths :: "AccountAddress \<Rightarrow> ('k \<rightharpoonup> 'v) \<Rightarrow> account_state option result"
  sv_manifest_json :: "string \<Rightarrow> StateSnapshotBackup result"
  sv_to_json :: "LegacyRecoveryV6 list \<Rightarrow> string"
  sv_can_write :: "string \<Rightarrow> bool"

definition accounts_from_snapshot_backup ::
  "('k, 'v) snapshot_vendor \<Rightarrow> archive \<Rightarrow> StateSnapshotBackup \<Rightarrow> string \<Rightarrow> account_state list result" where
  "accounts_from_snapshot_backup v fs manifest archive_path =
     and_then (group_chunks (\<lambda>h. read_account_state_chunk (sv_reader v) (sv_layout v) fs h archive_path)
         (sv_access v) (sv_iter v) [] (ssb_chunks manifest)) (\<lambda>m.
       materialize (sv_from_paths v) (sv_iter v m))"

definition manifest_to_json ::
  "('k, 'v) snapshot_vendor \<Rightarrow> archive \<Rightarrow> string \<Rightarrow> string option \<Rightarrow> archive result" where
  "manifest_to_json v fs manifest_path out_path =
     and_then (expect ''parse manifest'' (load_snapshot_manifest (sv_manifest_json v) fs manifest_path)) (\<lambda>snapshot_manifest.
     and_then (unwrap ''called Option::unwrap() on a None value'' (path_parent manifest_path)) (\<lambda>archive_path.
     and_then (expect ''could not decode snapshot'' (accounts_from_snapshot_backup v fs snapshot_manifest archive_path)) (\<lambda>account_states.
     and_then (expect ''could not get legacy recovery'' (map_result get_legacy_recovery account_states)) (\<lambda>legacy_recovery_vec.
       let out = (case out_path of Some p \<Rightarrow> p | None \<Rightarrow> path_push archive_path ''migration.json'') in
       if sv_can_write v out
       then Inr (fs\<lparr>text_files := (text_files fs)(out \<mapsto> sv_to_json v legacy_recovery_vec)\<rparr>)
       else Inl (Panic ''could not save file'')))))"

section \<open>Transaction chunks\<close>

record ('t, 'i, 'e, 'w) TransactionArchiveChunk =
  tac_manifest :: TransactionChunk
  tac_txns :: "'t list"
  tac_txn_infos :: "'i list"
  tac_event_vecs :: "'e list list"
  tac_write_sets :: "'w list"

text \<open>The loop pushes the four parts of each record to four vectors.\<close>

fun push_records :: "('t, 'i, 'e, 'w) TransactionArchiveChunk \<Rightarrow> ('t \<times> 'i \<times> 'e list \<times> 'w) list \<Rightarrow> ('t, 'i, 'e, 'w) TransactionArchiveChunk" where
  "push_records c [] = c"
| "push_records c ((txn, txn_info, events, write_set) # rs) =
     push_records (c\<lparr>tac_txns := tac_txns c @ [txn], tac_txn_infos := tac_txn_infos c @ [txn_info],
       tac_event_vecs := tac_event_vecs c @ [events], tac_write_sets := tac_write_sets c @ [write_set]\<rparr>) rs"

definition load_chunk ::
  "record_reader \<Rightarrow> ('t \<times> 'i \<times> 'e list \<times> 'w) layout \<Rightarrow> archive \<Rightarrow> string \<Rightarrow> TransactionChunk \<Rightarrow>
     ('t, 'i, 'e, 'w) TransactionArchiveChunk result" where
  "load_chunk rd lay fs archive_path manifest =
     and_then (read_chunk rd (lay_from_bytes lay) fs (tc_transactions manifest) archive_path) (\<lambda>records.
       let c = push_records \<lparr>tac_manifest = manifest, tac_txns = [], tac_txn_infos = [], tac_event_vecs = [], tac_write_sets = []\<rparr> records in
       if length (tac_txns c) = length (tac_txn_infos c) \<and> length (tac_txn_infos c) = length (tac_event_vecs c) \<and>
          length (tac_event_vecs c) = length (tac_write_sets c)
       then Inr c
       else Inl (Panic ''transactions chunk have different vector length for txs, events, and writesets''))"

section \<open>What grouping keeps\<close>

text \<open>The items of one account among the items of a snapshot.\<close>

definition items_of :: "('k \<Rightarrow> AccountAddress option) \<Rightarrow> AccountAddress \<Rightarrow> ('k \<times> 'v) list \<Rightarrow> ('k \<times> 'v) list" where
  "items_of access a xs = filter (\<lambda>x. access (fst x) = Some a) xs"

definition groups :: "('k \<Rightarrow> AccountAddress option) \<Rightarrow> ('k \<times> 'v) list \<Rightarrow> ('k, 'v) state_map \<Rightarrow> bool" where
  "groups access xs m \<longleftrightarrow> distinct (map fst m) \<and> fst ` set m = {a. \<exists>x \<in> set xs. access (fst x) = Some a} \<and>
     (\<forall>(a, ys) \<in> set m. ys = items_of access a xs)"

text \<open>The vector under an address, empty when there is none, and how the map operations change it.\<close>

definition entry_of :: "('k, 'v) state_map \<Rightarrow> AccountAddress \<Rightarrow> ('k \<times> 'v) list" where
  "entry_of m a = (case map_of m a of Some xs \<Rightarrow> xs | None \<Rightarrow> [])"

lemma entry_extend_keys: "fst ` set (entry_extend a xs m) = insert a (fst ` set m)"
  by (induction a xs m rule: entry_extend.induct) auto

lemma entry_extend_distinct: "distinct (map fst m) \<Longrightarrow> distinct (map fst (entry_extend a xs m))"
proof (induction a xs m rule: entry_extend.induct)
  case (2 a xs b ys m)
  then show ?case using entry_extend_keys [of a xs m] by auto
qed simp

lemma entry_of_extend:
  "entry_of (entry_extend a xs m) b = (if b = a then entry_of m a @ xs else entry_of m b)"
  by (induction a xs m rule: entry_extend.induct) (auto simp: entry_of_def)

lemma entry_of_member:
  "distinct (map fst m) \<Longrightarrow> (a, xs) \<in> set m \<Longrightarrow> entry_of m a = xs"
  by (simp add: entry_of_def)

lemma entry_of_absent: "a \<notin> fst ` set m \<Longrightarrow> entry_of m a = []"
  by (simp add: entry_of_def iffD2 [OF map_of_eq_None_iff])

lemma all_entries:
  assumes "distinct (map fst m)"
  shows "(\<forall>(a, ys) \<in> set m. Q a ys) \<longleftrightarrow> (\<forall>a \<in> fst ` set m. Q a (entry_of m a))"
proof -
  have "entry_of m (fst x) = snd x" if "x \<in> set m" for x using assms that by (intro entry_of_member) simp_all
  then show ?thesis by (simp add: case_prod_beta cong: ball_cong)
qed

lemma groups_iff:
  "groups access xs m \<longleftrightarrow> distinct (map fst m) \<and> fst ` set m = {a. \<exists>x \<in> set xs. access (fst x) = Some a} \<and>
     (\<forall>a. entry_of m a = items_of access a xs)"
proof (cases "distinct (map fst m) \<and> fst ` set m = {a. \<exists>x \<in> set xs. access (fst x) = Some a}")
  case True
  have "entry_of m a = items_of access a xs" if "a \<notin> fst ` set m" for a
    using that True by (auto simp: items_of_def filter_empty_conv entry_of_absent)
  then have "(\<forall>a. entry_of m a = items_of access a xs) \<longleftrightarrow> (\<forall>a \<in> fst ` set m. entry_of m a = items_of access a xs)"
    by blast
  with True all_entries [of m "\<lambda>a ys. ys = items_of access a xs"] show ?thesis by (simp only: groups_def)
qed (auto simp: groups_def)

lemma groups_perm: "groups access xs m \<Longrightarrow> mset m' = mset m \<Longrightarrow> groups access xs m'"
proof -
  assume g: "groups access xs m" and p: "mset m' = mset m"
  have "mset (map fst m') = mset (map fst m)" using p by simp
  then have "distinct (map fst m') = distinct (map fst m)" by (metis mset_eq_imp_distinct_iff)
  with g mset_eq_setD [OF p] show ?thesis by (simp add: groups_def)
qed

lemma group_chunk_groups:
  "groups access xs acc \<Longrightarrow> groups access (xs @ blobs) (group_chunk access acc blobs)"
proof (induction access acc blobs arbitrary: xs rule: group_chunk.induct)
  case (2 access acc key val blobs)
  have "groups access (xs @ [(key, val)]) (case access key of Some a \<Rightarrow> entry_extend a [(key, val)] acc | None \<Rightarrow> acc)"
    using 2(2) by (auto simp: groups_iff items_of_def entry_of_extend entry_extend_keys entry_extend_distinct split: option.split)
  from 2(1) [OF this] show ?case by simp
qed simp

lemma merge_chunk_entries:
  "distinct (map fst m) \<Longrightarrow> distinct (map fst c) \<Longrightarrow>
     distinct (map fst (merge_chunk m c)) \<and> fst ` set (merge_chunk m c) = fst ` set m \<union> fst ` set c \<and>
     entry_of (merge_chunk m c) a = entry_of m a @ entry_of c a"
proof (induction m c rule: merge_chunk.induct)
  case (2 m b blobs c)
  then show ?case
    by (cases "a = b") (auto simp: entry_extend_keys entry_extend_distinct entry_of_extend entry_of_absent, auto simp: entry_of_def)
qed (simp add: entry_of_def)

lemma merge_chunk_groups:
  "groups access xs m \<Longrightarrow> groups access ys c \<Longrightarrow> groups access (xs @ ys) (merge_chunk m c)"
  using merge_chunk_entries [of m c] by (auto simp: groups_iff items_of_def)

lemma group_chunks_groups:
  assumes iter: "\<And>m. mset (iter m) = mset m"
    and read: "list_all2 (\<lambda>c xs. read (chunk_blobs c) = Inr xs) cs xss"
  shows "groups access ys m \<Longrightarrow> \<exists>m'. group_chunks read access iter m cs = Inr m' \<and> groups access (ys @ concat xss) m'"
  using read
proof (induction cs xss arbitrary: m ys rule: list_all2_induct)
  case (Cons c cs xs xss)
  have "groups access [] []" by (simp add: groups_def)
  from group_chunk_groups [OF this] have "groups access xs (iter (group_chunk access [] xs))"
    using groups_perm iter by fastforce
  from Cons(3) [OF merge_chunk_groups [OF Cons(4) this]] show ?case using Cons(1) by simp
qed simp

lemma group_chunks_Inr:
  "group_chunks read access iter m cs = Inr m' \<Longrightarrow> \<exists>xss. list_all2 (\<lambda>c xs. read (chunk_blobs c) = Inr xs) cs xss"
proof (induction read access iter m cs rule: group_chunks.induct)
  case (2 read access iter m chunk chunks)
  from 2(2) obtain xs where xs: "read (chunk_blobs chunk) = Inr xs"
      "group_chunks read access iter (merge_chunk m (iter (group_chunk access [] xs))) chunks = Inr m'"
    by (auto simp: and_then_eq_Inr)
  obtain xss where "list_all2 (\<lambda>c xs. read (chunk_blobs c) = Inr xs) chunks xss" using 2(1) [OF xs(2)] ..
  with xs(1) have "list_all2 (\<lambda>c xs. read (chunk_blobs c) = Inr xs) (chunk # chunks) (xs # xss)" by simp
  then show ?case by blast
qed auto

lemma groups_sorted: "groups access xs m \<Longrightarrow> m = map (\<lambda>a. (a, items_of access a xs)) (map fst m)"
  by (auto simp: groups_def intro!: map_idI [symmetric])

section \<open>From states to records\<close>

text \<open>What the vendor promises of the hash map and of the account state: an iteration visits every entry
  once, and the state of an address answers with that address.\<close>

definition snapshot_vendor_ok :: "('k, 'v) snapshot_vendor \<Rightarrow> bool" where
  "snapshot_vendor_ok v \<longleftrightarrow> (\<forall>m. mset (sv_iter v m) = mset m) \<and>
     (\<forall>a t st. sv_from_paths v a t = Inr (Some st) \<longrightarrow> get_account_address st = Inr (Some a))"

text \<open>The addresses for which there is a state.\<close>

definition has_state :: "('k, 'v) snapshot_vendor \<Rightarrow> ('k \<times> 'v) list \<Rightarrow> AccountAddress \<Rightarrow> bool" where
  "has_state v xs a \<longleftrightarrow> (\<exists>x \<in> set xs. sv_access v (fst x) = Some a) \<and>
     (\<exists>st. sv_from_paths v a (blobs_hash_table (items_of (sv_access v) a xs)) = Inr (Some st))"

lemma get_legacy_recovery_account:
  "get_legacy_recovery st = Inr r \<Longrightarrow> get_account_address st = Inr (account r)"
  by (auto simp: get_legacy_recovery_def and_then_eq_Inr Let_def LegacyRecoveryV6_default_def
    split: option.splits if_splits dest!: recover_resources_keeps)

lemma materialize_accounts:
  assumes law: "\<And>a t st. f a t = Inr (Some st) \<Longrightarrow> get_account_address st = Inr (Some a)"
  shows "materialize f m = Inr sts \<Longrightarrow> map_result get_legacy_recovery sts = Inr rs \<Longrightarrow>
     map account rs = map (Some \<circ> fst) (filter (\<lambda>(a, bs). \<exists>st. f a (blobs_hash_table bs) = Inr (Some st)) m)"
proof (induction m arbitrary: sts rs)
  case (Cons e m)
  obtain a bs where e: "e = (a, bs)" by fastforce
  from Cons(2) obtain o' sts' where o: "f a (blobs_hash_table bs) = Inr o'" "materialize f m = Inr sts'"
      "sts = (case o' of Some s \<Rightarrow> s # sts' | None \<Rightarrow> sts')" by (auto simp: e and_then_eq_Inr)
  show ?case
  proof (cases o')
    case None
    with Cons o show ?thesis by (simp add: e)
  next
    case (Some st)
    with Cons(3) o obtain r rs' where r: "rs = r # rs'" "get_legacy_recovery st = Inr r" "map_result get_legacy_recovery sts' = Inr rs'"
      by (auto simp: and_then_eq_Inr)
    have "account r = Some a" using get_legacy_recovery_account [OF r(2)] law [OF o(1) [unfolded Some]] by simp
    with Cons(1) [OF o(2) r(3)] r(1) o(1) Some show ?thesis by (simp add: e)
  qed
qed simp

lemma groups_kept:
  assumes g: "groups (sv_access v) xs m"
  shows "fst ` set (filter (\<lambda>(a, bs). \<exists>st. sv_from_paths v a (blobs_hash_table bs) = Inr (Some st)) m) = {a. has_state v xs a}"
proof -
  have pick: "fst ` {x \<in> (\<lambda>a. (a, F a)) ` A. Q x} = {a \<in> A. Q (a, F a)}" for F Q and A :: "AccountAddress set" by force
  have "set m = (\<lambda>a. (a, items_of (sv_access v) a xs)) ` fst ` set m"
    using arg_cong [OF groups_sorted [OF g], of set] by (simp add: image_image)
  then have m: "set m = (\<lambda>a. (a, items_of (sv_access v) a xs)) ` {a. \<exists>x \<in> set xs. sv_access v (fst x) = Some a}"
    using g by (simp add: groups_def)
  show ?thesis unfolding set_filter m pick by (simp add: has_state_def)
qed

lemma snapshot_export_lemma:
  assumes v: "snapshot_vendor_ok v" and run: "manifest_to_json v fs manifest_path out_path = Inr fs'"
  shows "\<exists>m archive_path xss rs.
    load_snapshot_manifest (sv_manifest_json v) fs manifest_path = Inr m \<and> path_parent manifest_path = Some archive_path \<and>
    list_all2 (\<lambda>c xs. read_account_state_chunk (sv_reader v) (sv_layout v) fs (chunk_blobs c) archive_path = Inr xs) (ssb_chunks m) xss \<and>
    fs' = fs\<lparr>text_files := (text_files fs)
      (case_option (path_push archive_path ''migration.json'') id out_path \<mapsto> sv_to_json v rs)\<rparr> \<and>
    distinct (map account rs) \<and> account ` set rs = Some ` {a. has_state v (concat xss) a}"
proof -
  let ?read = "\<lambda>p h. read_account_state_chunk (sv_reader v) (sv_layout v) fs h p"
  from run obtain m p g sts rs where m: "load_snapshot_manifest (sv_manifest_json v) fs manifest_path = Inr m"
      "path_parent manifest_path = Some p" "group_chunks (?read p) (sv_access v) (sv_iter v) [] (ssb_chunks m) = Inr g"
      "materialize (sv_from_paths v) (sv_iter v g) = Inr sts" "map_result get_legacy_recovery sts = Inr rs"
      "fs' = fs\<lparr>text_files := (text_files fs)(case_option (path_push p ''migration.json'') id out_path \<mapsto> sv_to_json v rs)\<rparr>"
    by (auto simp: manifest_to_json_def accounts_from_snapshot_backup_def and_then_eq_Inr expect_eq_Inr unwrap_eq_Inr Let_def
      split: if_splits option.splits)
  from group_chunks_Inr [OF m(3)] obtain xss where xss: "list_all2 (\<lambda>c xs. ?read p (chunk_blobs c) = Inr xs) (ssb_chunks m) xss" by blast
  have perm: "mset (sv_iter v m) = mset m" for m using v by (simp add: snapshot_vendor_ok_def)
  have "groups (sv_access v) [] []" by (simp add: groups_def)
  from group_chunks_groups [OF perm xss this] m(3) have g: "groups (sv_access v) (concat xss) (sv_iter v g)"
    using groups_perm [OF _ perm] by auto
  have acc: "map account rs = map (Some \<circ> fst)
      (filter (\<lambda>(a, bs). \<exists>st. sv_from_paths v a (blobs_hash_table bs) = Inr (Some st)) (sv_iter v g))"
    using v by (intro materialize_accounts [OF _ m(4,5)]) (simp add: snapshot_vendor_ok_def)
  let ?kept = "filter (\<lambda>(a, bs). \<exists>st. sv_from_paths v a (blobs_hash_table bs) = Inr (Some st)) (sv_iter v g)"
  have "distinct (map fst ?kept)" using g by (simp add: groups_def distinct_map_filter)
  then have "distinct (map account rs)" unfolding acc by (simp add: distinct_map comp_inj_on)
  moreover have "account ` set rs = Some ` (fst ` set ?kept)"
    using arg_cong [OF acc, of set] by (simp only: set_map image_comp)
  moreover have "fst ` set ?kept = {a. has_state v (concat xss) a}"
    using g by (rule groups_kept)
  ultimately show ?thesis using m xss by auto
qed

text \<open>The export of a snapshot loses no account and repeats none: when it returns, every chunk of the
  manifest was read, the only file changed is the output, and it holds the recovery records of
  exactly the addresses that have items under an access path in any chunk and a state built from all
  of these items, with one record for each address.\<close>

theorem snapshot_export_exact:
  assumes v: "snapshot_vendor_ok v" and run: "manifest_to_json v fs manifest_path out_path = Inr fs'"
  shows "\<exists>m archive_path xss rs.
    load_snapshot_manifest (sv_manifest_json v) fs manifest_path = Inr m \<and> path_parent manifest_path = Some archive_path \<and>
    list_all2 (\<lambda>c xs. read_account_state_chunk (sv_reader v) (sv_layout v) fs (chunk_blobs c) archive_path = Inr xs) (ssb_chunks m) xss \<and>
    fs' = fs\<lparr>text_files := (text_files fs)
      (case_option (path_push archive_path ''migration.json'') id out_path \<mapsto> sv_to_json v rs)\<rparr> \<and>
    distinct (map account rs) \<and> account ` set rs = Some ` {a. has_state v (concat xss) a}"
  using assms by (rule snapshot_export_lemma)

text \<open>A snapshot with one item, of the account 77.\<close>

definition example_recovered :: LegacyRecoveryV6 where
  "example_recovered = LegacyRecoveryV6_default\<lparr>account := Some 77, auth_key := Some (be_word (replicate 32 3)), balance := Some \<lparr>coin = 500\<rparr>\<rparr>"

definition example_snapshot_vendor :: "(u8 list, u8 list) snapshot_vendor" where
  "example_snapshot_vendor = \<lparr>sv_reader = ref_read_record,
     sv_layout = \<lparr>lay_put = (\<lambda>(k, v). Inr k), lay_get = (\<lambda>bs. Some ((bs, bs), []))\<rparr>,
     sv_access = (\<lambda>_. Some 77), sv_iter = rev, sv_from_paths = (\<lambda>a t. Inr (if t = Map.empty then None else Some (example_state\<lparr>get_account_address := Inr (Some a)\<rparr>))),
     sv_manifest_json = (\<lambda>_. Inr \<lparr>ssb_version = 1, ssb_epoch = 1, ssb_chunks = [\<lparr>chunk_blobs = ''b/0.chunk'', chunk_proof = []\<rparr>]\<rparr>),
     sv_to_json = (\<lambda>rs. if rs = [example_recovered] then ''recovered'' else ''other''), sv_can_write = (\<lambda>_. True)\<rparr>"

definition example_archive :: archive where
  "example_archive = \<lparr>text_files = (\<lambda>_. Some []), binary_files = [''/a/b/0.chunk'' \<mapsto> ref_frame [7]]\<rparr>"

lemma example_snapshot_vendor_ok: "snapshot_vendor_ok example_snapshot_vendor"
  by (auto simp: snapshot_vendor_ok_def example_snapshot_vendor_def split: if_splits)

lemma example_paths:
  "path_parent ''/a/b/state.manifest'' = Some ''/a/b''" "path_parent ''/a/b'' = Some ''/a''"
  "path_push ''/a'' ''b/0.chunk'' = ''/a/b/0.chunk''"
  by (simp_all add: path_parent_def path_push_def starts_with_def)

lemma example_chunk_read:
  "read_account_state_chunk ref_read_record (sv_layout example_snapshot_vendor) example_archive ''b/0.chunk'' ''/a/b'' = Inr [([7], [7])]"
proof -
  let ?decode = "lay_from_bytes (sv_layout example_snapshot_vendor)"
  have l: "length [[7 :: u8]] < Suc (length (ref_frame [7]))"
    using ref_framing.frame_not_Nil [of "[7]"] by simp
  have "read_records ref_read_record ?decode (Suc (length (ref_frame [7]))) (concat (map ref_frame [[7]])) = map_result ?decode [[7]]"
    by (rule ref_framing.read_records_frames [OF _ l]) simp
  then show ?thesis
    by (simp add: read_account_state_chunk_def example_paths open_for_read_def example_snapshot_vendor_def example_archive_def lay_from_bytes_def
      del: read_records.simps)
qed

lemma example_export:
  "manifest_to_json example_snapshot_vendor example_archive ''/a/b/state.manifest'' (Some out) =
     Inr (example_archive\<lparr>text_files := (text_files example_archive)(out \<mapsto> ''recovered'')\<rparr>)"
proof -
  have "get_legacy_recovery (example_state\<lparr>get_account_address := Inr (Some 77)\<rparr>) = Inr example_recovered"
    by (simp add: get_legacy_recovery_def recover_resources_def example_state_def example_recovered_def LegacyRecoveryV6_default_def)
  then show ?thesis using example_chunk_read
    by (simp add: manifest_to_json_def accounts_from_snapshot_backup_def load_snapshot_manifest_def example_paths example_snapshot_vendor_def
      blobs_hash_table_def example_archive_def)
qed

theorem snapshot_export_exact_witness:
  "\<exists>fs' rs. manifest_to_json example_snapshot_vendor example_archive ''/a/b/state.manifest'' (Some ''/o.json'') = Inr fs' \<and>
     text_files fs' ''/o.json'' = Some (sv_to_json example_snapshot_vendor rs) \<and> account ` set rs \<subseteq> {Some 77} \<and> distinct (map account rs)"
proof -
  from snapshot_export_exact [OF example_snapshot_vendor_ok example_export [of "''/o.json''"]] obtain xs rs where
      rs: "example_archive\<lparr>text_files := (text_files example_archive)(''/o.json'' \<mapsto> ''recovered'')\<rparr> =
        example_archive\<lparr>text_files := (text_files example_archive)(''/o.json'' \<mapsto> sv_to_json example_snapshot_vendor rs)\<rparr>"
      "distinct (map account rs)" "account ` set rs = Some ` {a. has_state example_snapshot_vendor xs a}"
    by auto
  have "a = 77" if "has_state example_snapshot_vendor xs a" for a using that by (auto simp: has_state_def example_snapshot_vendor_def)
  then have "account ` set rs \<subseteq> {Some 77}" using rs(3) by auto
  moreover from rs(1) have "text_files (example_archive\<lparr>text_files := (text_files example_archive)(''/o.json'' \<mapsto> ''recovered'')\<rparr>) ''/o.json'' =
      Some (sv_to_json example_snapshot_vendor rs)" by simp
  ultimately show ?thesis using example_export [of "''/o.json''"] rs(2) by (intro exI conjI)
qed

text \<open>Loading a chunk of transactions: the assertion on the four vectors never fails, and the vectors are
  the columns of the records in the file.\<close>

lemma push_records_columns:
  "push_records c rs = c\<lparr>tac_txns := tac_txns c @ map fst rs, tac_txn_infos := tac_txn_infos c @ map (fst \<circ> snd) rs,
     tac_event_vecs := tac_event_vecs c @ map (fst \<circ> snd \<circ> snd) rs, tac_write_sets := tac_write_sets c @ map (snd \<circ> snd \<circ> snd) rs\<rparr>"
  by (induction c rs rule: push_records.induct) simp_all

theorem load_chunk_columns:
  assumes "record_framing rd frame" "layout_ok P lay" "list_all P rs"
    and "path_parent archive_path = Some parent" "holds_records frame lay fs (path_push parent (tc_transactions manifest)) rs"
  shows "load_chunk rd lay fs archive_path manifest = Inr \<lparr>tac_manifest = manifest, tac_txns = map fst rs,
    tac_txn_infos = map (fst \<circ> snd) rs, tac_event_vecs = map (fst \<circ> snd \<circ> snd) rs, tac_write_sets = map (snd \<circ> snd \<circ> snd) rs\<rparr>"
  by (simp add: load_chunk_def read_chunk_holds [OF assms] push_records_columns)

end
