(* ===== verification/BTree_Map.thy ===== *)
theory BTree_Map
  imports Rust_Prelude
begin

text \<open>
  \<^verbatim>\<open>std::collections::BTreeMap\<close> as the sources use it: an association list in ascending key order.
  The locale \<open>ordered_map\<close> is its contract; what the clients need of a map filled from a list is
  proved in the locale.
\<close>

fun btree_insert :: "'k::linorder \<Rightarrow> 'v \<Rightarrow> ('k \<times> 'v) list \<Rightarrow> ('k \<times> 'v) list" where
  "btree_insert k v [] = [(k, v)]"
| "btree_insert k v ((l, w) # m) =
     (if k < l then (k, v) # (l, w) # m
      else if k = l then (k, v) # m
      else (l, w) # btree_insert k v m)"

definition btree_wf :: "('k::linorder \<times> 'v) list \<Rightarrow> bool" where
  "btree_wf m = sorted_wrt (<) (map fst m)"

locale ordered_map =
  fixes empty :: 'm
    and ins :: "'k::linorder \<Rightarrow> 'v \<Rightarrow> 'm \<Rightarrow> 'm"
    and get :: "'m \<Rightarrow> 'k \<Rightarrow> 'v option"
    and iter :: "'m \<Rightarrow> ('k \<times> 'v) list"
    and wf :: "'m \<Rightarrow> bool"
  assumes wf_empty: "wf empty"
    and wf_ins: "wf m \<Longrightarrow> wf (ins k v m)"
    and get_empty: "get empty k = None"
    and get_ins: "wf m \<Longrightarrow> get (ins k v m) = (get m)(k \<mapsto> v)"
    and iter_sorted: "wf m \<Longrightarrow> sorted_wrt (<) (map fst (iter m))"
    and iter_get: "wf m \<Longrightarrow> (k, v) \<in> set (iter m) \<longleftrightarrow> get m k = Some v"
begin

definition fill :: "('k \<times> 'v) list \<Rightarrow> 'm \<Rightarrow> 'm" where
  "fill ps m = fold (\<lambda>(k, v). ins k v) ps m"

lemma fill_wf: "wf m \<Longrightarrow> wf (fill ps m)"
  by (induction ps arbitrary: m) (auto simp: fill_def wf_ins)

lemma fill_get: "wf m \<Longrightarrow> get (fill ps m) = get m ++ map_of (rev ps)"
proof (induction ps arbitrary: m)
  case (Cons p ps)
  then show ?case by (cases p) (auto simp: fill_def wf_ins get_ins map_add_def fun_eq_iff split: option.splits)
qed (simp add: fill_def)

lemma iter_distinct: "wf m \<Longrightarrow> distinct (map fst (iter m))"
  using iter_sorted [of m] by (simp add: strict_sorted_iff)

lemma iter_keys: "wf m \<Longrightarrow> fst ` set (iter m) = dom (get m)"
proof -
  assume "wf m"
  then have "x \<in> fst ` set (iter m) \<longleftrightarrow> (\<exists>y. get m x = Some y)" for x using iter_get by (force simp: image_iff)
  then show ?thesis by (auto simp: dom_def)
qed

text \<open>Two maps with the same entries are iterated the same way.\<close>

lemma iter_eqI:
  assumes "wf m" "wf n" "get m = get n"
  shows "iter m = iter n"
proof -
  have s: "set (iter m) = set (iter n)" using iter_get assms by (metis prod.exhaust subsetI subset_antisym)
  have "inj_on fst (set (iter m))" using iter_distinct [OF assms(1)] by (simp add: distinct_map)
  then show ?thesis
    using s iter_sorted [OF assms(1)] iter_sorted [OF assms(2)]
    by (intro map_sorted_distinct_set_unique [of fst]) (auto simp: strict_sorted_iff)
qed

end

lemma btree_keys: "set (map fst (btree_insert k v m)) = insert k (set (map fst m))"
  by (induction k v m rule: btree_insert.induct) auto

lemma btree_insert_wf: "btree_wf m \<Longrightarrow> btree_wf (btree_insert k v m)"
proof (induction k v m rule: btree_insert.induct)
  case (2 k v l w m)
  then show ?case using btree_keys [of k v m] by (auto simp: btree_wf_def)
qed (simp add: btree_wf_def)

lemma btree_insert_get: "btree_wf m \<Longrightarrow> map_of (btree_insert k v m) = (map_of m)(k \<mapsto> v)"
proof (induction k v m rule: btree_insert.induct)
  case (2 k v l w m)
  then show ?case by (auto simp: btree_wf_def fun_eq_iff)
qed simp

lemma btree_insert_existing: "btree_wf m \<Longrightarrow> map_of m k = Some u \<Longrightarrow> map fst (btree_insert k v m) = map fst m"
proof (induction k v m rule: btree_insert.induct)
  case (2 k v l w m)
  have "k \<in> fst ` set m" if "k \<noteq> l" using 2(3) that by (auto dest!: map_of_SomeD intro: rev_image_eqI)
  then have "l < k" if "k \<noteq> l" using 2(2) that by (auto simp: btree_wf_def)
  then show ?case using 2 by (cases "k = l") (auto simp: btree_wf_def)
qed simp

interpretation btree: ordered_map "[]" btree_insert map_of "\<lambda>m. m" btree_wf
proof
  fix m :: "('a::linorder \<times> 'b) list" and k :: 'a and v :: 'b
  show "btree_wf ([] :: ('a::linorder \<times> 'b) list)" by (simp add: btree_wf_def)
  show "map_of [] k = (None :: 'b option)" by simp
  assume m: "btree_wf m"
  show "btree_wf (btree_insert k v m)" using m by (rule btree_insert_wf)
  show "map_of (btree_insert k v m) = (map_of m)(k \<mapsto> v)" using m by (rule btree_insert_get)
  show "sorted_wrt (<) (map fst m)" using m by (simp add: btree_wf_def)
  have "distinct (map fst m)" using m by (simp add: btree_wf_def strict_sorted_iff)
  then show "(k, v) \<in> set m \<longleftrightarrow> map_of m k = Some v" by (simp add: map_of_eq_Some_iff)
qed

end
