(* ===== verification/Comm_Wallet.thy ===== *)
theory Comm_Wallet
  imports Legacy_Recovery BTree_Map
begin

text \<open>
  Community wallets and donor receipts of a recovery file
  (\<^verbatim>\<open>tools/genesis/src/process_comm_wallet.rs\<close>): the two tables rebuilt from the recovery records,
  and the pass over the receipts that credits every community wallet with its depositors.
\<close>

record WalletState =
  cumulative_value :: u64
  cumulative_index :: u64
  depositors :: "AccountAddress list"
  audit_deposits_with_receipts :: u64

record AllCommWallets =
  wallets :: "(AccountAddress \<times> WalletState) list"
  total_deposits :: u64

record ReceiptsResourceV7 =
  destination_v7 :: "AccountAddress list"
  cumulative_v7 :: "u64 list"
  last_payment_timestamp_v7 :: "u64 list"
  last_payment_value_v7 :: "u64 list"
  audit_not_found :: "AccountAddress list"

record DonorReceipts =
  donors :: "(AccountAddress \<times> ReceiptsResourceV7) list"
  total_cumu :: u64
  audit_not_cw :: "AccountAddress list"

text \<open>The account of a record, \<^verbatim>\<open>e.account.unwrap()\<close>.\<close>

definition account_unwrap :: "LegacyRecoveryV6 \<Rightarrow> AccountAddress result" where
  "account_unwrap e = unwrap ''called Option::unwrap() on a None value'' (account e)"

definition cast_receipts :: "ReceiptsResource \<Rightarrow> ReceiptsResourceV7" where
  "cast_receipts r = \<lparr>destination_v7 = destination r, cumulative_v7 = cumulative r,
     last_payment_timestamp_v7 = last_payment_timestamp r, last_payment_value_v7 = last_payment_value r,
     audit_not_found = []\<rparr>"

fun donor_list :: "LegacyRecoveryV6 list \<Rightarrow> (AccountAddress \<times> ReceiptsResourceV7) list \<Rightarrow>
    (AccountAddress \<times> ReceiptsResourceV7) list result" where
  "donor_list [] list = Inr list"
| "donor_list (e # es) list =
     (case receipts e of
        None \<Rightarrow> donor_list es list
      | Some r \<Rightarrow> and_then (account_unwrap e) (\<lambda>a. donor_list es (btree_insert a (cast_receipts r) list)))"

definition rebuild_donor_receipts :: "LegacyRecoveryV6 list \<Rightarrow> DonorReceipts result" where
  "rebuild_donor_receipts recovery =
     and_then (donor_list recovery []) (\<lambda>list. Inr \<lparr>donors = list, total_cumu = 0, audit_not_cw = []\<rparr>)"

definition cast_wallet :: "CumulativeDepositResource \<Rightarrow> WalletState" where
  "cast_wallet cd = \<lparr>cumulative_value = cd_value cd, cumulative_index = cd_index cd, depositors = [],
     audit_deposits_with_receipts = 0\<rparr>"

fun wallet_list :: "LegacyRecoveryV6 list \<Rightarrow> (AccountAddress \<times> WalletState) list \<Rightarrow> u64 \<Rightarrow>
    ((AccountAddress \<times> WalletState) list \<times> u64) result" where
  "wallet_list [] list tot = Inr (list, tot)"
| "wallet_list (e # es) list tot =
     (case cumulative_deposits e of
        None \<Rightarrow> wallet_list es list tot
      | Some cd \<Rightarrow>
          and_then (account_unwrap e) (\<lambda>a. wallet_list es (btree_insert a (cast_wallet cd) list) (tot + cd_value cd)))"

definition rebuild_cw_cumu_deposits :: "LegacyRecoveryV6 list \<Rightarrow> AllCommWallets result" where
  "rebuild_cw_cumu_deposits recovery =
     and_then (wallet_list recovery [] 0) (\<lambda>(list, tot). Inr \<lparr>wallets = list, total_deposits = tot\<rparr>)"

text \<open>\<^verbatim>\<open>if !v.contains(&x) { v.push(x) }\<close>\<close>

definition push_new :: "'a \<Rightarrow> 'a list \<Rightarrow> 'a list" where
  "push_new x xs = (if x \<in> set xs then xs else xs @ [x])"

definition credit :: "AccountAddress \<Rightarrow> u64 \<Rightarrow> WalletState \<Rightarrow> WalletState" where
  "credit donor value w =
     w\<lparr>audit_deposits_with_receipts := audit_deposits_with_receipts w + value,
       depositors := push_new donor (depositors w)\<rparr>"

text \<open>The \<^verbatim>\<open>filter_map\<close> over one donor's destinations, from position \<open>i\<close> on: the wallet table, the addresses
  that are not community wallets, and the ones this donor paid.\<close>

fun credit_destinations ::
  "AccountAddress \<Rightarrow> u64 list \<Rightarrow> nat \<Rightarrow> AccountAddress list \<Rightarrow> (AccountAddress \<times> WalletState) list \<Rightarrow>
   AccountAddress list \<Rightarrow> ((AccountAddress \<times> WalletState) list \<times> AccountAddress list \<times> AccountAddress list) result" where
  "credit_destinations donor cumu i [] cw not_cw = Inr (cw, not_cw, [])"
| "credit_destinations donor cumu i (maybe_cw # ds) cw not_cw =
     (case map_of cw maybe_cw of
        Some w \<Rightarrow>
          if i < length cumu
          then credit_destinations donor cumu (Suc i) ds (btree_insert maybe_cw (credit donor (cumu ! i) w) cw) not_cw
          else Inl (Panic ''cant parse value'')
      | None \<Rightarrow>
          and_then (credit_destinations donor cumu (Suc i) ds cw (push_new maybe_cw not_cw)) (\<lambda>(cw, not_cw, nf).
          Inr (cw, not_cw, maybe_cw # nf)))"

fun credit_donors ::
  "(AccountAddress \<times> ReceiptsResourceV7) list \<Rightarrow> (AccountAddress \<times> WalletState) list \<Rightarrow> AccountAddress list \<Rightarrow>
   ((AccountAddress \<times> WalletState) list \<times> AccountAddress list \<times> (AccountAddress \<times> ReceiptsResourceV7) list) result" where
  "credit_donors [] cw not_cw = Inr (cw, not_cw, [])"
| "credit_donors ((donor, receipt) # rest) cw not_cw =
     and_then (credit_destinations donor (cumulative_v7 receipt) 0 (destination_v7 receipt) cw not_cw)
       (\<lambda>(cw, not_cw, nf).
     and_then (credit_donors rest cw not_cw) (\<lambda>(cw, not_cw, rest).
     Inr (cw, not_cw, (donor, receipt\<lparr>audit_not_found := nf\<rparr>) # rest)))"

definition update_cw_with_donor :: "AllCommWallets \<Rightarrow> DonorReceipts \<Rightarrow> (AllCommWallets \<times> DonorReceipts) result" where
  "update_cw_with_donor cw dr =
     and_then (credit_donors (donors dr) (wallets cw) (audit_not_cw dr)) (\<lambda>(ws, not_cw, ds).
     Inr (cw\<lparr>wallets := ws\<rparr>, dr\<lparr>donors := ds, audit_not_cw := not_cw\<rparr>))"

definition prepare_cw_and_receipts :: "LegacyRecoveryV6 list \<Rightarrow> (DonorReceipts \<times> AllCommWallets) result" where
  "prepare_cw_and_receipts recovery =
     and_then (rebuild_donor_receipts recovery) (\<lambda>dr.
     and_then (rebuild_cw_cumu_deposits recovery) (\<lambda>cw.
     and_then (update_cw_with_donor cw dr) (\<lambda>(cw, dr). Inr (dr, cw))))"

section \<open>The rebuilt tables\<close>

lemma donor_list_fill:
  "btree_wf m \<Longrightarrow> donor_list es m = Inr m' \<Longrightarrow> btree_wf m' \<and>
   map_of m' = map_of m ++ map_of (rev (List.map_filter (\<lambda>e. map_option (\<lambda>r. (the (account e), cast_receipts r)) (receipts e)) es))"
proof (induction es arbitrary: m)
  case (Cons e es)
  show ?case
  proof (cases "receipts e")
    case None
    then show ?thesis using Cons by (simp add: List.map_filter_simps)
  next
    case (Some r)
    then obtain a where a: "account e = Some a" "donor_list es (btree_insert a (cast_receipts r) m) = Inr m'"
      using Cons.prems by (auto simp: account_unwrap_def and_then_eq_Inr unwrap_eq_Inr)
    then show ?thesis using Cons.IH [OF btree_insert_wf [OF Cons.prems(1)] a(2)] Some Cons.prems(1)
      by (simp add: List.map_filter_simps btree_insert_get map_add_def fun_eq_iff split: option.splits)
  qed
qed (simp add: List.map_filter_simps)

lemma wallet_list_fill:
  "btree_wf m \<Longrightarrow> wallet_list es m t = Inr (m', t') \<Longrightarrow> btree_wf m' \<and>
   map_of m' = map_of m ++ map_of (rev (List.map_filter (\<lambda>e. map_option (\<lambda>cd. (the (account e), cast_wallet cd)) (cumulative_deposits e)) es)) \<and>
   t' = t + sum_list (List.map_filter (\<lambda>e. map_option cd_value (cumulative_deposits e)) es)"
proof (induction es arbitrary: m t)
  case (Cons e es)
  show ?case
  proof (cases "cumulative_deposits e")
    case None
    then show ?thesis using Cons by (simp add: List.map_filter_simps)
  next
    case (Some cd)
    then obtain a where a: "account e = Some a" "wallet_list es (btree_insert a (cast_wallet cd) m) (t + cd_value cd) = Inr (m', t')"
      using Cons.prems by (auto simp: account_unwrap_def and_then_eq_Inr unwrap_eq_Inr)
    then show ?thesis using Cons.IH [OF btree_insert_wf [OF Cons.prems(1)] a(2)] Some Cons.prems(1)
      by (simp add: List.map_filter_simps btree_insert_get map_add_def fun_eq_iff split: option.splits)
  qed
qed (simp add: List.map_filter_simps)

section \<open>Crediting\<close>

text \<open>What one donor's receipts add to the wallet at \<open>a\<close>.\<close>

definition paid_to :: "AccountAddress \<Rightarrow> (AccountAddress \<times> u64) list \<Rightarrow> u64" where
  "paid_to a ps = sum_list (map snd (filter (\<lambda>p. fst p = a) ps))"

definition credited :: "AccountAddress \<Rightarrow> AccountAddress list \<Rightarrow> u64 list \<Rightarrow> AccountAddress \<Rightarrow> WalletState \<Rightarrow> WalletState" where
  "credited donor ds cumu a w =
     (if a \<in> set ds
      then w\<lparr>audit_deposits_with_receipts := audit_deposits_with_receipts w + paid_to a (zip ds cumu),
             depositors := push_new donor (depositors w)\<rparr>
      else w)"

lemma push_new_twice [simp]: "push_new x (push_new x xs) = push_new x xs"
  by (simp add: push_new_def)

lemma set_push_new [simp]: "set (push_new x xs) = insert x (set xs)"
  by (auto simp: push_new_def)

lemma distinct_push_new [simp]: "distinct (push_new x xs) = distinct xs"
  by (simp add: push_new_def)

lemma paid_to_absent: "a \<notin> set ds \<Longrightarrow> paid_to a (zip ds cs) = 0"
proof -
  assume "a \<notin> set ds"
  then have "filter (\<lambda>p. fst p = a) (zip ds cs) = []" by (auto simp: filter_empty_conv dest: set_zip_leftD)
  then show ?thesis by (simp add: paid_to_def)
qed

lemma credited_Cons_here:
  "credited donor ds cs d (credit donor v w) = credited donor (d # ds) (v # cs) d w"
proof -
  have "paid_to d (zip (d # ds) (v # cs)) = v + paid_to d (zip ds cs)" by (simp add: paid_to_def)
  then show ?thesis by (cases "d \<in> set ds") (simp_all add: credited_def credit_def paid_to_absent add.assoc)
qed

lemma credited_Cons_other: "a \<noteq> d \<Longrightarrow> credited donor ds (drop (Suc i) cs) a = credited donor (d # ds) (drop i cs) a"
proof -
  assume "a \<noteq> d"
  moreover have "paid_to a (zip (d # ds) (drop i cs)) = paid_to a (zip ds (drop (Suc i) cs))"
    using \<open>a \<noteq> d\<close> by (cases "i < length cs") (simp_all add: paid_to_def Cons_nth_drop_Suc [symmetric])
  ultimately show ?thesis by (auto simp: credited_def)
qed

lemma credit_destinations_spec:
  "btree_wf cw \<Longrightarrow> credit_destinations donor cumu i ds cw not_cw = Inr (cw', not_cw', nf) \<Longrightarrow>
   btree_wf cw' \<and> map fst cw' = map fst cw \<and>
   (\<forall>a. map_of cw' a = map_option (credited donor ds (drop i cumu) a) (map_of cw a)) \<and>
   nf = filter (\<lambda>d. map_of cw d = None) ds \<and> set not_cw' = set not_cw \<union> set nf \<and>
   (distinct not_cw \<longrightarrow> distinct not_cw')"
proof (induction ds arbitrary: i cw not_cw nf)
  case Nil
  then show ?case by (auto simp: credited_def option.map_ident)
next
  case (Cons d ds)
  show ?case
  proof (cases "map_of cw d")
    case None
    then obtain nf' where nf': "credit_destinations donor cumu (Suc i) ds cw (push_new d not_cw) = Inr (cw', not_cw', nf')" "nf = d # nf'"
      using Cons.prems(2) by (auto simp: and_then_eq_Inr)
    note ih = Cons.IH [OF Cons.prems(1) nf'(1)]
    have "map_of cw' a = map_option (credited donor (d # ds) (drop i cumu) a) (map_of cw a)" for a
      using ih None credited_Cons_other [of a d donor ds i cumu] by (cases "a = d") auto
    then show ?thesis using ih nf' None by auto
  next
    case (Some w)
    define cw1 where "cw1 = btree_insert d (credit donor (cumu ! i) w) cw"
    have i: "i < length cumu" and c: "credit_destinations donor cumu (Suc i) ds cw1 not_cw = Inr (cw', not_cw', nf)"
      using Cons.prems(2) Some by (auto simp: cw1_def split: if_splits)
    have wf1: "btree_wf cw1" unfolding cw1_def by (rule btree_insert_wf [OF Cons.prems(1)])
    have g1: "map_of cw1 = (map_of cw)(d \<mapsto> credit donor (cumu ! i) w)"
      unfolding cw1_def by (rule btree_insert_get [OF Cons.prems(1)])
    have k1: "map fst cw1 = map fst cw" unfolding cw1_def by (rule btree_insert_existing [OF Cons.prems(1) Some])
    note ih = Cons.IH [OF wf1 c]
    have dr: "drop i cumu = cumu ! i # drop (Suc i) cumu" using i by (simp add: Cons_nth_drop_Suc)
    have "map_of cw' a = map_option (credited donor (d # ds) (drop i cumu) a) (map_of cw a)" for a
    proof (cases "a = d")
      case True
      then show ?thesis using ih Some credited_Cons_here [of donor ds "drop (Suc i) cumu" d "cumu ! i" w] by (simp add: g1 dr)
    next
      case False
      then show ?thesis using ih credited_Cons_other [of a d donor ds i cumu] by (simp add: g1)
    qed
    moreover have "filter (\<lambda>x. map_of cw1 x = None) ds = filter (\<lambda>x. map_of cw x = None) (d # ds)"
      using Some by (auto simp: g1 intro: filter_cong)
    ultimately show ?thesis using ih k1 by simp
  qed
qed

text \<open>All donors, in the order of the table.\<close>

definition credited_by :: "(AccountAddress \<times> ReceiptsResourceV7) list \<Rightarrow> AccountAddress \<Rightarrow> WalletState \<Rightarrow> WalletState" where
  "credited_by ds a w = fold (\<lambda>(donor, r). credited donor (destination_v7 r) (cumulative_v7 r) a) ds w"

lemma credit_donors_spec:
  "btree_wf cw \<Longrightarrow> credit_donors ds cw not_cw = Inr (cw', not_cw', ds') \<Longrightarrow>
   btree_wf cw' \<and> map fst cw' = map fst cw \<and> (\<forall>a. map_of cw' a = map_option (credited_by ds a) (map_of cw a)) \<and>
   ds' = map (\<lambda>(d, r). (d, r\<lparr>audit_not_found := filter (\<lambda>a. map_of cw a = None) (destination_v7 r)\<rparr>)) ds \<and>
   (distinct not_cw \<longrightarrow> distinct not_cw') \<and>
   set not_cw' = set not_cw \<union> (\<Union>(d, r) \<in> set ds. {a \<in> set (destination_v7 r). map_of cw a = None})"
proof (induction ds arbitrary: cw not_cw ds')
  case Nil
  then show ?case by (simp add: credited_by_def option.map_ident)
next
  case (Cons p ds)
  obtain donor r where p: "p = (donor, r)" by fastforce
  obtain cw1 nc1 nf ds1 where c: "credit_destinations donor (cumulative_v7 r) 0 (destination_v7 r) cw not_cw = Inr (cw1, nc1, nf)"
      "credit_donors ds cw1 nc1 = Inr (cw', not_cw', ds1)" "ds' = (donor, r\<lparr>audit_not_found := nf\<rparr>) # ds1"
    using Cons.prems(2) by (auto simp: p and_then_eq_Inr)
  note one = credit_destinations_spec [OF Cons.prems(1) c(1)]
  note ih = Cons.IH [OF _ c(2)]
  have n: "map_of cw1 a = None \<longleftrightarrow> map_of cw a = None" for a using one by simp
  have "map_of cw' a = map_option (credited_by (p # ds) a) (map_of cw a)" for a
    using one ih by (cases "map_of cw a") (simp_all add: credited_by_def p)
  then show ?case using one ih c(3) by (auto simp: p n)
qed

lemma credited_by_Cons: "credited_by ((d, r) # ds) a w = credited_by ds a (credited d (destination_v7 r) (cumulative_v7 r) a w)"
  by (simp add: credited_by_def)

lemma credited_by_depositors:
  "distinct (map fst ds) \<Longrightarrow> set (map fst ds) \<inter> set (depositors w) = {} \<Longrightarrow>
   depositors (credited_by ds a w) = depositors w @ map fst (filter (\<lambda>(d, r). a \<in> set (destination_v7 r)) ds)"
proof (induction ds arbitrary: w)
  case (Cons p ds)
  obtain d r where p: "p = (d, r)" by fastforce
  let ?w = "credited d (destination_v7 r) (cumulative_v7 r) a w"
  have "depositors ?w = depositors w @ (if a \<in> set (destination_v7 r) then [d] else [])"
    using Cons.prems by (auto simp: p credited_def push_new_def)
  moreover from this have "set (map fst ds) \<inter> set (depositors ?w) = {}" using Cons.prems by (auto simp: p)
  ultimately show ?case using Cons.IH [of ?w] Cons.prems by (simp add: p credited_by_Cons)
qed (simp add: credited_by_def)

lemma credited_by_audit:
  "audit_deposits_with_receipts (credited_by ds a w) = audit_deposits_with_receipts w +
     sum_list (map (\<lambda>(d, r). paid_to a (zip (destination_v7 r) (cumulative_v7 r))) ds)"
  by (induction ds arbitrary: w) (auto simp: credited_by_def credited_def paid_to_absent add.assoc)

lemma credited_by_cumulative:
  "cumulative_value (credited_by ds a w) = cumulative_value w \<and> cumulative_index (credited_by ds a w) = cumulative_index w"
  by (induction ds arbitrary: w) (auto simp: credited_by_def credited_def)

section \<open>Success\<close>

text \<open>The records that the pass can process: tables need an address, receipts a cumulative value for
  every destination.\<close>

definition cw_ready :: "LegacyRecoveryV6 \<Rightarrow> bool" where
  "cw_ready e = ((receipts e \<noteq> None \<or> cumulative_deposits e \<noteq> None \<longrightarrow> account e \<noteq> None) \<and>
     (case receipts e of Some r \<Rightarrow> length (destination r) \<le> length (cumulative r) | None \<Rightarrow> True))"

definition aligned :: "(AccountAddress \<times> ReceiptsResourceV7) \<Rightarrow> bool" where
  "aligned p = (length (destination_v7 (snd p)) \<le> length (cumulative_v7 (snd p)))"

lemma btree_insert_set: "set (btree_insert k v m) \<subseteq> insert (k, v) (set m)"
  by (induction k v m rule: btree_insert.induct) auto

lemma donor_list_ok:
  "list_all cw_ready es \<Longrightarrow> list_all aligned m \<Longrightarrow> \<exists>m'. donor_list es m = Inr m' \<and> list_all aligned m'"
proof (induction es arbitrary: m)
  case (Cons e es)
  show ?case
  proof (cases "receipts e")
    case (Some r)
    then obtain a where a: "account e = Some a" "length (destination r) \<le> length (cumulative r)"
      using Cons.prems(1) by (auto simp: cw_ready_def)
    then have "list_all aligned (btree_insert a (cast_receipts r) m)"
      using Cons.prems(2) btree_insert_set [of a "cast_receipts r" m]
      by (auto simp: list_all_iff aligned_def cast_receipts_def)
    then show ?thesis using Cons Some a by (simp add: account_unwrap_def)
  qed (use Cons in simp)
qed simp

lemma wallet_list_ok: "list_all cw_ready es \<Longrightarrow> \<exists>r. wallet_list es m t = Inr r"
proof (induction es arbitrary: m t)
  case (Cons e es)
  then show ?case by (cases "cumulative_deposits e") (auto simp: cw_ready_def account_unwrap_def)
qed simp

lemma credit_destinations_ok:
  "i + length ds \<le> length cumu \<Longrightarrow> \<exists>r. credit_destinations donor cumu i ds cw nc = Inr r"
proof (induction ds arbitrary: i cw nc)
  case (Cons d ds)
  then have "i < length cumu" "Suc i + length ds \<le> length cumu" by simp_all
  with Cons.IH [of "Suc i" cw "push_new d nc"] Cons.IH [of "Suc i" _ nc] show ?case
    by (cases "map_of cw d") auto
qed simp

lemma credit_donors_ok: "list_all aligned ds \<Longrightarrow> \<exists>r. credit_donors ds cw nc = Inr r"
proof (induction ds arbitrary: cw nc)
  case (Cons p ds)
  obtain d r where p: "p = (d, r)" by fastforce
  then obtain cw1 nc1 nf where 1: "credit_destinations d (cumulative_v7 r) 0 (destination_v7 r) cw nc = Inr (cw1, nc1, nf)"
    using credit_destinations_ok [of 0 "destination_v7 r" "cumulative_v7 r" d cw nc] Cons.prems by (auto simp: aligned_def)
  obtain cw2 nc2 ds2 where "credit_donors ds cw1 nc1 = Inr (cw2, nc2, ds2)" using Cons by fastforce
  with 1 show ?case by (simp add: p)
qed simp

lemma prepare_ok:
  assumes ready: "list_all cw_ready rec"
  shows "\<exists>r. prepare_cw_and_receipts rec = Inr r"
proof -
  obtain ds where ds: "donor_list rec [] = Inr ds" "list_all aligned ds" using donor_list_ok [OF ready, of "[]"] by auto
  obtain ws t where ws: "wallet_list rec [] 0 = Inr (ws, t)" using wallet_list_ok [OF ready, of "[]" 0] by auto
  obtain ws' nc ds' where "credit_donors ds ws [] = Inr (ws', nc, ds')" using credit_donors_ok [OF ds(2), of ws "[]"] by auto
  with ds(1) ws show ?thesis
    by (simp add: prepare_cw_and_receipts_def rebuild_donor_receipts_def rebuild_cw_cumu_deposits_def update_cw_with_donor_def)
qed


definition example_recovery :: "LegacyRecoveryV6 list" where
  "example_recovery =
     [LegacyRecoveryV6_default\<lparr>account := Some 100, cumulative_deposits := Some \<lparr>cd_value = 9, cd_index = 4, cd_depositors = []\<rparr>\<rparr>,
      LegacyRecoveryV6_default\<lparr>account := Some 77, receipts := Some \<lparr>destination = [100, 200], cumulative = [5, 6],
        last_payment_timestamp = [1, 1], last_payment_value = [5, 6]\<rparr>\<rparr>]"


end
