(* ===== verification/Genesis_Migration.thy ===== *)
theory Genesis_Migration
  imports Comm_Wallet
begin

text \<open>
  The migration of a recovery file into a new genesis (\<^verbatim>\<open>tools/genesis/src/genesis_functions.rs\<close> and
  \<^verbatim>\<open>tools/genesis/src/vm.rs\<close>). The Move session of the vendor is the log of the calls it executed;
  \<open>vm_ok\<close> tells whether the virtual machine executes a call after a log, and \<^verbatim>\<open>exec_function\<close> of the
  vendor panics when it does not. The vendor's own genesis steps are logged by name.
\<close>

section \<open>The session\<close>

datatype MoveValue =
    Signer AccountAddress
  | Address AccountAddress
  | U64 u64
  | VectorU8 "u8 list"
  | VectorAddress "AccountAddress list"
  | VectorU64 "u64 list"

datatype step =
    VendorStep string
  | Exec string string "MoveValue list"

type_synonym session = "step list"

definition run_step :: "(session \<Rightarrow> step \<Rightarrow> bool) \<Rightarrow> step \<Rightarrow> session \<Rightarrow> session result" where
  "run_step vm_ok st session =
     (if vm_ok session st then Inr (session @ [st]) else Inl (Panic ''error executing genesis step''))"

definition exec_function ::
  "(session \<Rightarrow> step \<Rightarrow> bool) \<Rightarrow> string \<Rightarrow> string \<Rightarrow> MoveValue list \<Rightarrow> session \<Rightarrow> session result" where
  "exec_function vm_ok module_name function_name args session =
     run_step vm_ok (Exec module_name function_name args) session"

definition CORE_CODE_ADDRESS :: AccountAddress where "CORE_CODE_ADDRESS = 1"
definition ZERO_ADDRESS :: AccountAddress where "ZERO_ADDRESS = 0"

text \<open>The vendor's address text functions, of which the code makes a round trip.\<close>

record addr_text =
  addr_to_string :: "AccountAddress \<Rightarrow> string"
  from_hex_literal :: "string \<Rightarrow> AccountAddress result"

definition convert_address :: "addr_text \<Rightarrow> AccountAddress \<Rightarrow> AccountAddress result" where
  "convert_address t a = from_hex_literal t (''0x'' @ addr_to_string t a)"

definition no_user_account :: error where
  "no_user_account = Err ''no user account found''"

section \<open>One record\<close>

definition genesis_migrate_one_user ::
  "addr_text \<Rightarrow> (session \<Rightarrow> step \<Rightarrow> bool) \<Rightarrow> LegacyRecoveryV6 \<Rightarrow> session \<Rightarrow> session result" where
  "genesis_migrate_one_user t vm_ok r session =
     (case (account r, auth_key r, balance r) of
        (Some a, Some k, Some b) \<Rightarrow>
          and_then (convert_address t a) (\<lambda>new_addr.
          exec_function vm_ok ''genesis_migration'' ''migrate_legacy_user''
            [Signer CORE_CODE_ADDRESS, Signer new_addr, VectorU8 (address_bytes k), U64 (coin b)] session)
      | _ \<Rightarrow> Inl no_user_account)"

definition genesis_migrate_slow_wallet ::
  "addr_text \<Rightarrow> (session \<Rightarrow> step \<Rightarrow> bool) \<Rightarrow> LegacyRecoveryV6 \<Rightarrow> session \<Rightarrow> session result" where
  "genesis_migrate_slow_wallet t vm_ok r session =
     (case (account r, auth_key r, balance r, slow_wallet r) of
        (Some a, Some k, Some b, Some slow) \<Rightarrow>
          and_then (convert_address t a) (\<lambda>new_addr.
          exec_function vm_ok ''slow_wallet'' ''fork_migrate_slow_wallet''
            [Signer CORE_CODE_ADDRESS, Signer new_addr, U64 (unlocked slow), U64 (transferred slow)] session)
      | _ \<Rightarrow> Inl no_user_account)"

fun escrow_pledges ::
  "(session \<Rightarrow> step \<Rightarrow> bool) \<Rightarrow> AccountAddress \<Rightarrow> PledgeAccountResource list \<Rightarrow> session \<Rightarrow> session result" where
  "escrow_pledges vm_ok a [] session = Inr session"
| "escrow_pledges vm_ok a (p # ps) session =
     and_then (exec_function vm_ok ''genesis_migration'' ''fork_escrow_init''
       [Signer CORE_CODE_ADDRESS, Signer a, U64 (pledge p), U64 (lifetime_pledged p), U64 (lifetime_withdrawn p)] session)
     (escrow_pledges vm_ok a ps)"

definition genesis_migrate_infra_escrow ::
  "(session \<Rightarrow> step \<Rightarrow> bool) \<Rightarrow> LegacyRecoveryV6 \<Rightarrow> session \<Rightarrow> session result" where
  "genesis_migrate_infra_escrow vm_ok r session =
     (case (account r, auth_key r, my_pledge r) of
        (Some a, Some k, Some ps) \<Rightarrow> escrow_pledges vm_ok a (pledges ps) session
      | _ \<Rightarrow> Inl (Err ''no user pledge found''))"

definition genesis_migrate_receipts ::
  "addr_text \<Rightarrow> (session \<Rightarrow> step \<Rightarrow> bool) \<Rightarrow> LegacyRecoveryV6 \<Rightarrow> session \<Rightarrow> session result" where
  "genesis_migrate_receipts t vm_ok r session =
     (case (account r, auth_key r, balance r) of
        (Some a, Some k, Some b) \<Rightarrow>
          and_then (convert_address t a) (\<lambda>new_addr.
          (case receipts r of
             Some rc \<Rightarrow>
               and_then (map_result (\<lambda>d. expect ''could not parse account address'' (convert_address t d)) (destination rc))
                 (\<lambda>dest_map.
               exec_function vm_ok ''receipts'' ''genesis_migrate_user''
                 [Signer ZERO_ADDRESS, Signer new_addr, VectorAddress dest_map, VectorU64 (cumulative rc),
                  VectorU64 (last_payment_timestamp rc), VectorU64 (last_payment_value rc)] session)
           | None \<Rightarrow> Inr session))
      | _ \<Rightarrow> Inl no_user_account)"

definition genesis_migrate_ancestry ::
  "addr_text \<Rightarrow> (session \<Rightarrow> step \<Rightarrow> bool) \<Rightarrow> LegacyRecoveryV6 \<Rightarrow> session \<Rightarrow> session result" where
  "genesis_migrate_ancestry t vm_ok r session =
     (case (account r, auth_key r, balance r, ancestry r) of
        (Some a, Some k, Some b, Some an) \<Rightarrow>
          and_then (convert_address t a) (\<lambda>new_addr.
          and_then (map_result (\<lambda>d. expect ''called Result::unwrap() on an Err value'' (convert_address t d)) (tree an))
            (\<lambda>mapped.
          exec_function vm_ok ''ancestry'' ''fork_migrate''
            [Signer CORE_CODE_ADDRESS, Signer new_addr, VectorAddress mapped] session))
      | _ \<Rightarrow> Inl no_user_account)"

definition genesis_migrate_community_wallet ::
  "(session \<Rightarrow> step \<Rightarrow> bool) \<Rightarrow> LegacyRecoveryV6 \<Rightarrow> session \<Rightarrow> session result" where
  "genesis_migrate_community_wallet vm_ok r session =
     and_then (account_unwrap r) (\<lambda>a.
     exec_function vm_ok ''community_wallet_init'' ''migrate_community_wallet_account''
       [Signer CORE_CODE_ADDRESS, Signer a] session)"

definition set_tombstone :: "(session \<Rightarrow> step \<Rightarrow> bool) \<Rightarrow> AccountAddress \<Rightarrow> session \<Rightarrow> session result" where
  "set_tombstone vm_ok user session =
     exec_function vm_ok ''account'' ''set_tombstone'' [Signer ZERO_ADDRESS, Address user] session"

text \<open>An error of a step is printed and the loop goes on with the session as it was: the steps return an
  error before they execute anything. A panic ends the run.\<close>

definition log_error :: "session result \<Rightarrow> session \<Rightarrow> session result" where
  "log_error r session =
     (case r of Inl (Err _) \<Rightarrow> Inr session | Inl (Panic m) \<Rightarrow> Inl (Panic m) | Inr s \<Rightarrow> Inr s)"

definition optional_step :: "bool \<Rightarrow> (session \<Rightarrow> session result) \<Rightarrow> session \<Rightarrow> session result" where
  "optional_step present f session = (if present then log_error (f session) session else Inr session)"

definition migrate_record ::
  "addr_text \<Rightarrow> (session \<Rightarrow> step \<Rightarrow> bool) \<Rightarrow> LegacyRecoveryV6 \<Rightarrow> session \<Rightarrow> session result" where
  "migrate_record t vm_ok a session =
     (if account a \<noteq> None \<and> role a = Drop then set_tombstone vm_ok (the (account a)) session
      else
        and_then (log_error (genesis_migrate_one_user t vm_ok a session) session) (\<lambda>s.
        and_then (optional_step (slow_wallet a \<noteq> None) (genesis_migrate_slow_wallet t vm_ok a) s) (\<lambda>s.
        and_then (if comm_wallet a \<noteq> None
                  then expect ''could not migrate community wallets'' (genesis_migrate_community_wallet vm_ok a s)
                  else Inr s) (\<lambda>s.
        and_then (optional_step (ancestry a \<noteq> None) (genesis_migrate_ancestry t vm_ok a) s) (\<lambda>s.
        and_then (optional_step (receipts a \<noteq> None) (genesis_migrate_receipts t vm_ok a) s) (\<lambda>s.
        optional_step (my_pledge a \<noteq> None) (genesis_migrate_infra_escrow vm_ok a) s))))))"

fun genesis_migrate_all_users ::
  "addr_text \<Rightarrow> (session \<Rightarrow> step \<Rightarrow> bool) \<Rightarrow> LegacyRecoveryV6 list \<Rightarrow> session \<Rightarrow> session result" where
  "genesis_migrate_all_users t vm_ok [] session = Inr session"
| "genesis_migrate_all_users t vm_ok (a # as) session =
     and_then (migrate_record t vm_ok a session) (genesis_migrate_all_users t vm_ok as)"

fun migrate_wallets ::
  "(session \<Rightarrow> step \<Rightarrow> bool) \<Rightarrow> (AccountAddress \<times> WalletState) list \<Rightarrow> session \<Rightarrow> session result" where
  "migrate_wallets vm_ok [] session = Inr session"
| "migrate_wallets vm_ok ((a, w) # ws) session =
     and_then (exec_function vm_ok ''cumulative_deposits'' ''genesis_migrate_cumulative_deposits''
       [Signer CORE_CODE_ADDRESS, Signer a, U64 (cumulative_value w), U64 (cumulative_index w),
        VectorAddress (depositors w)] session)
     (migrate_wallets vm_ok ws)"

definition genesis_migrate_cumu_deposits ::
  "(session \<Rightarrow> step \<Rightarrow> bool) \<Rightarrow> LegacyRecoveryV6 list \<Rightarrow> session \<Rightarrow> session result" where
  "genesis_migrate_cumu_deposits vm_ok recovery session =
     and_then (prepare_cw_and_receipts recovery) (\<lambda>(_, cw). migrate_wallets vm_ok (wallets cw) session)"

definition set_final_supply :: "(session \<Rightarrow> step \<Rightarrow> bool) \<Rightarrow> session \<Rightarrow> session result" where
  "set_final_supply vm_ok session =
     exec_function vm_ok ''libra_coin'' ''genesis_set_final_supply''
       [Signer CORE_CODE_ADDRESS, U64 (100000000000 * 1000000)] session"

definition set_validator_baseline_reward :: "(session \<Rightarrow> step \<Rightarrow> bool) \<Rightarrow> u64 \<Rightarrow> session \<Rightarrow> session result" where
  "set_validator_baseline_reward vm_ok nominal session =
     exec_function vm_ok ''proof_of_fee'' ''genesis_migrate_reward'' [Signer CORE_CODE_ADDRESS, U64 nominal] session"

section \<open>The genesis session\<close>

text \<open>\<^verbatim>\<open>encode_genesis_change_set\<close>: the calls of its first session, in order; the second session only
  publishes the framework.\<close>

definition migrate_framework_state ::
  "(session \<Rightarrow> step \<Rightarrow> bool) \<Rightarrow> LegacyRecoveryV6 list \<Rightarrow> session \<Rightarrow> session result" where
  "migrate_framework_state vm_ok recovery session =
     (case List.find (\<lambda>e. account e = Some CORE_CODE_ADDRESS) recovery of
        None \<Rightarrow> Inr session
      | Some f \<Rightarrow>
          (case consensus_reward f of
             None \<Rightarrow> Inr session
           | Some cr \<Rightarrow> set_validator_baseline_reward vm_ok (nominal_reward cr) session))"

definition migrate_recovery ::
  "addr_text \<Rightarrow> (session \<Rightarrow> step \<Rightarrow> bool) \<Rightarrow> LegacyRecoveryV6 list \<Rightarrow> session \<Rightarrow> session result" where
  "migrate_recovery t vm_ok recovery session =
     (if recovery = [] then Inr session
      else
        and_then (migrate_framework_state vm_ok recovery session) (\<lambda>s.
        and_then (expect ''could not migrate users'' (genesis_migrate_all_users t vm_ok recovery s)) (\<lambda>s.
        expect ''could not migrate cumu deposits of cw'' (genesis_migrate_cumu_deposits vm_ok recovery s))))"

definition genesis_session ::
  "addr_text \<Rightarrow> (session \<Rightarrow> step \<Rightarrow> bool) \<Rightarrow> LegacyRecoveryV6 list \<Rightarrow> session result" where
  "genesis_session t vm_ok recovery =
     and_then (run_step vm_ok (VendorStep ''initialize'') []) (\<lambda>s.
     and_then (run_step vm_ok (VendorStep ''initialize_features'') s) (\<lambda>s.
     and_then (run_step vm_ok (VendorStep ''initialize_diem_coin'') s) (\<lambda>s.
     and_then (set_final_supply vm_ok s) (\<lambda>s.
     and_then (run_step vm_ok (VendorStep ''initialize_on_chain_governance'') s) (\<lambda>s.
     and_then (migrate_recovery t vm_ok recovery s) (\<lambda>s.
     and_then (run_step vm_ok (VendorStep ''create_and_initialize_validators'') s) (\<lambda>s.
     and_then (run_step vm_ok (VendorStep ''set_genesis_end'') s) (\<lambda>s.
     run_step vm_ok (VendorStep ''emit_new_block_and_epoch_event'') s))))))))"

section \<open>The specification of the calls\<close>

text \<open>The calls that a record stands for.\<close>

definition user_call :: "AccountAddress \<Rightarrow> AuthenticationKey \<Rightarrow> u64 \<Rightarrow> step" where
  "user_call a k c = Exec ''genesis_migration'' ''migrate_legacy_user''
     [Signer CORE_CODE_ADDRESS, Signer a, VectorU8 (address_bytes k), U64 c]"

definition user_calls :: "LegacyRecoveryV6 \<Rightarrow> session" where
  "user_calls r = (case (account r, auth_key r, balance r) of
     (Some a, Some k, Some b) \<Rightarrow> [user_call a k (coin b)] | _ \<Rightarrow> [])"

definition slow_calls :: "LegacyRecoveryV6 \<Rightarrow> session" where
  "slow_calls r = (case (account r, auth_key r, balance r, slow_wallet r) of
     (Some a, Some k, Some b, Some s) \<Rightarrow> [Exec ''slow_wallet'' ''fork_migrate_slow_wallet''
        [Signer CORE_CODE_ADDRESS, Signer a, U64 (unlocked s), U64 (transferred s)]] | _ \<Rightarrow> [])"

definition comm_calls :: "LegacyRecoveryV6 \<Rightarrow> session" where
  "comm_calls r = (case (account r, comm_wallet r) of
     (Some a, Some w) \<Rightarrow> [Exec ''community_wallet_init'' ''migrate_community_wallet_account''
        [Signer CORE_CODE_ADDRESS, Signer a]] | _ \<Rightarrow> [])"

definition ancestry_calls :: "LegacyRecoveryV6 \<Rightarrow> session" where
  "ancestry_calls r = (case (account r, auth_key r, balance r, ancestry r) of
     (Some a, Some k, Some b, Some an) \<Rightarrow> [Exec ''ancestry'' ''fork_migrate''
        [Signer CORE_CODE_ADDRESS, Signer a, VectorAddress (tree an)]] | _ \<Rightarrow> [])"

definition receipt_calls :: "LegacyRecoveryV6 \<Rightarrow> session" where
  "receipt_calls r = (case (account r, auth_key r, balance r, receipts r) of
     (Some a, Some k, Some b, Some rc) \<Rightarrow> [Exec ''receipts'' ''genesis_migrate_user''
        [Signer ZERO_ADDRESS, Signer a, VectorAddress (destination rc), VectorU64 (cumulative rc),
         VectorU64 (last_payment_timestamp rc), VectorU64 (last_payment_value rc)]] | _ \<Rightarrow> [])"

definition escrow_calls :: "LegacyRecoveryV6 \<Rightarrow> session" where
  "escrow_calls r = (case (account r, auth_key r, my_pledge r) of
     (Some a, Some k, Some ps) \<Rightarrow> map (\<lambda>p. Exec ''genesis_migration'' ''fork_escrow_init''
        [Signer CORE_CODE_ADDRESS, Signer a, U64 (pledge p), U64 (lifetime_pledged p), U64 (lifetime_withdrawn p)]) (pledges ps)
   | _ \<Rightarrow> [])"

definition record_calls :: "LegacyRecoveryV6 \<Rightarrow> session" where
  "record_calls r =
     (if account r \<noteq> None \<and> role r = Drop
      then [Exec ''account'' ''set_tombstone'' [Signer ZERO_ADDRESS, Address (the (account r))]]
      else user_calls r @ slow_calls r @ comm_calls r @ ancestry_calls r @ receipt_calls r @ escrow_calls r)"

definition wallet_call :: "AccountAddress \<times> WalletState \<Rightarrow> step" where
  "wallet_call p = Exec ''cumulative_deposits'' ''genesis_migrate_cumulative_deposits''
     [Signer CORE_CODE_ADDRESS, Signer (fst p), U64 (cumulative_value (snd p)), U64 (cumulative_index (snd p)),
      VectorAddress (depositors (snd p))]"

text \<open>The virtual machine executes a list of steps, one after the other.\<close>

fun vm_accepts :: "(session \<Rightarrow> step \<Rightarrow> bool) \<Rightarrow> session \<Rightarrow> session \<Rightarrow> bool" where
  "vm_accepts vm_ok session [] = True"
| "vm_accepts vm_ok session (c # cs) = (vm_ok session c \<and> vm_accepts vm_ok (session @ [c]) cs)"

section \<open>Refinement\<close>

text \<open>A part of the session refines a list of calls: it appends exactly these when the virtual machine accepts
  them, and panics otherwise.\<close>

definition performs :: "(session \<Rightarrow> step \<Rightarrow> bool) \<Rightarrow> (session \<Rightarrow> session result) \<Rightarrow> session \<Rightarrow> bool" where
  "performs vm_ok f cs = (\<forall>s. (vm_accepts vm_ok s cs \<longrightarrow> f s = Inr (s @ cs)) \<and>
     (\<not> vm_accepts vm_ok s cs \<longrightarrow> (\<exists>m. f s = Inl (Panic m))))"

named_theorems performs_intro \<open>how the parts of the session compose\<close>

lemma vm_accepts_append: "vm_accepts vm_ok s (xs @ ys) \<longleftrightarrow> vm_accepts vm_ok s xs \<and> vm_accepts vm_ok (s @ xs) ys"
  by (induction xs arbitrary: s) auto

lemma performs_skip [performs_intro]: "performs vm_ok Inr []"
  by (simp add: performs_def)

lemma performs_run [performs_intro]: "performs vm_ok (run_step vm_ok c) [c]"
  by (simp add: performs_def run_step_def)

lemma performs_exec [performs_intro]: "performs vm_ok (exec_function vm_ok m f args) [Exec m f args]"
  unfolding exec_function_def [abs_def] by (rule performs_run)

lemma performs_then [performs_intro]:
  assumes f: "performs vm_ok f xs" and g: "performs vm_ok g ys"
  shows "performs vm_ok (\<lambda>s. and_then (f s) g) (xs @ ys)"
  unfolding performs_def
proof (intro allI)
  fix s
  show "(vm_accepts vm_ok s (xs @ ys) \<longrightarrow> and_then (f s) g = Inr (s @ xs @ ys)) \<and>
      (\<not> vm_accepts vm_ok s (xs @ ys) \<longrightarrow> (\<exists>m. and_then (f s) g = Inl (Panic m)))"
  proof (cases "vm_accepts vm_ok s xs")
    case True
    then have "f s = Inr (s @ xs)" using f by (simp add: performs_def)
    then show ?thesis using g True by (simp add: performs_def vm_accepts_append)
  next
    case False
    then obtain m where "f s = Inl (Panic m)" using f by (auto simp: performs_def)
    then show ?thesis using False by (simp add: vm_accepts_append)
  qed
qed

lemma performs_expect [performs_intro]: "performs vm_ok f cs \<Longrightarrow> performs vm_ok (\<lambda>s. expect m (f s)) cs"
  unfolding performs_def by (metis expect_simps)

lemma performs_log [performs_intro]:
  assumes "performs vm_ok f cs"
  shows "performs vm_ok (\<lambda>s. log_error (f s) s) cs"
  unfolding performs_def
proof (intro allI)
  fix s
  show "(vm_accepts vm_ok s cs \<longrightarrow> log_error (f s) s = Inr (s @ cs)) \<and>
      (\<not> vm_accepts vm_ok s cs \<longrightarrow> (\<exists>m. log_error (f s) s = Inl (Panic m)))"
    using assms [unfolded performs_def, rule_format, of s] by (cases "vm_accepts vm_ok s cs") (auto simp: log_error_def)
qed

lemma performs_log_err [simp]: "performs vm_ok (log_error (Inl (Err e))) []"
  by (simp add: performs_def log_error_def)

lemma performs_optional:
  "(present \<Longrightarrow> performs vm_ok (\<lambda>s. log_error (f s) s) cs) \<Longrightarrow> (\<not> present \<Longrightarrow> cs = []) \<Longrightarrow>
   performs vm_ok (optional_step present f) cs"
  by (cases present) (auto simp: optional_step_def [abs_def] performs_skip)

definition addr_text_ok :: "addr_text \<Rightarrow> bool" where
  "addr_text_ok t = account_address (addr_to_string t) (from_hex_literal t)"

lemma convert_address_id: "addr_text_ok t \<Longrightarrow> convert_address t a = Inr a"
  unfolding convert_address_def addr_text_ok_def by (rule account_address.from_hex_literal_to_string)

lemma map_result_id: "map_result Inr ds = Inr ds"
  by (induction ds) simp_all

lemma one_user_performs:
  assumes "addr_text_ok t"
  shows "performs vm_ok (\<lambda>s. log_error (genesis_migrate_one_user t vm_ok r s) s) (user_calls r)"
proof (cases "account r = None \<or> auth_key r = None \<or> balance r = None")
  case True
  then show ?thesis
    by (auto simp: user_calls_def genesis_migrate_one_user_def no_user_account_def split: option.splits intro!: performs_log)
next
  case False
  then show ?thesis
    by (auto simp: user_calls_def user_call_def genesis_migrate_one_user_def convert_address_id [OF assms]
      intro!: performs_log performs_exec)
qed

lemma slow_performs:
  assumes "addr_text_ok t"
  shows "performs vm_ok (optional_step (slow_wallet r \<noteq> None) (genesis_migrate_slow_wallet t vm_ok r)) (slow_calls r)"
proof (rule performs_optional)
  assume "slow_wallet r \<noteq> None"
  then show "performs vm_ok (\<lambda>s. log_error (genesis_migrate_slow_wallet t vm_ok r s) s) (slow_calls r)"
    by (auto simp: slow_calls_def genesis_migrate_slow_wallet_def no_user_account_def convert_address_id [OF assms]
      split: option.splits intro!: performs_log performs_exec)
qed (auto simp: slow_calls_def split: option.splits)

lemma ancestry_performs:
  assumes "addr_text_ok t"
  shows "performs vm_ok (optional_step (ancestry r \<noteq> None) (genesis_migrate_ancestry t vm_ok r)) (ancestry_calls r)"
proof (rule performs_optional)
  assume "ancestry r \<noteq> None"
  then show "performs vm_ok (\<lambda>s. log_error (genesis_migrate_ancestry t vm_ok r s) s) (ancestry_calls r)"
    by (auto simp: ancestry_calls_def genesis_migrate_ancestry_def no_user_account_def convert_address_id [OF assms] map_result_id
      split: option.splits intro!: performs_log performs_exec)
qed (auto simp: ancestry_calls_def split: option.splits)

lemma receipts_performs:
  assumes "addr_text_ok t"
  shows "performs vm_ok (optional_step (receipts r \<noteq> None) (genesis_migrate_receipts t vm_ok r)) (receipt_calls r)"
proof (rule performs_optional)
  assume "receipts r \<noteq> None"
  then show "performs vm_ok (\<lambda>s. log_error (genesis_migrate_receipts t vm_ok r s) s) (receipt_calls r)"
    by (auto simp: receipt_calls_def genesis_migrate_receipts_def no_user_account_def convert_address_id [OF assms] map_result_id
      split: option.splits intro!: performs_log performs_exec)
qed (auto simp: receipt_calls_def split: option.splits)

lemma escrow_pledges_performs:
  "performs vm_ok (escrow_pledges vm_ok a ps) (map (\<lambda>p. Exec ''genesis_migration'' ''fork_escrow_init''
     [Signer CORE_CODE_ADDRESS, Signer a, U64 (pledge p), U64 (lifetime_pledged p), U64 (lifetime_withdrawn p)]) ps)"
proof (induction ps)
  case Nil
  then show ?case by (simp add: performs_def)
next
  case (Cons p ps)
  from performs_then [OF performs_exec Cons.IH] show ?case by simp
qed

lemma escrow_performs:
  "performs vm_ok (optional_step (my_pledge r \<noteq> None) (genesis_migrate_infra_escrow vm_ok r)) (escrow_calls r)"
proof (rule performs_optional)
  assume "my_pledge r \<noteq> None"
  then show "performs vm_ok (\<lambda>s. log_error (genesis_migrate_infra_escrow vm_ok r s) s) (escrow_calls r)"
    by (auto simp: escrow_calls_def genesis_migrate_infra_escrow_def
      split: option.splits intro!: performs_log escrow_pledges_performs)
qed (auto simp: escrow_calls_def split: option.splits)

lemma comm_performs:
  assumes "comm_wallet r \<noteq> None \<longrightarrow> account r \<noteq> None"
  shows "performs vm_ok (\<lambda>s. if comm_wallet r \<noteq> None
     then expect m (genesis_migrate_community_wallet vm_ok r s) else Inr s) (comm_calls r)"
proof (cases "comm_wallet r")
  case None
  then show ?thesis by (simp add: comm_calls_def performs_skip split: option.splits)
next
  case (Some w)
  then obtain a where "account r = Some a" using assms by auto
  then show ?thesis using Some
    by (auto simp: comm_calls_def genesis_migrate_community_wallet_def account_unwrap_def intro!: performs_expect performs_exec)
qed

lemma record_performs:
  assumes "addr_text_ok t" "comm_wallet r \<noteq> None \<longrightarrow> account r \<noteq> None"
  shows "performs vm_ok (migrate_record t vm_ok r) (record_calls r)"
proof (cases "account r \<noteq> None \<and> role r = Drop")
  case True
  then show ?thesis by (simp add: migrate_record_def [abs_def] set_tombstone_def [abs_def] record_calls_def performs_exec)
next
  case False
  then show ?thesis unfolding migrate_record_def record_calls_def if_not_P [OF False]
    by (intro performs_then one_user_performs slow_performs comm_performs ancestry_performs receipts_performs
      escrow_performs assms)
qed

lemma all_users_performs:
  assumes "addr_text_ok t" "\<forall>r \<in> set rs. comm_wallet r \<noteq> None \<longrightarrow> account r \<noteq> None"
  shows "performs vm_ok (genesis_migrate_all_users t vm_ok rs) (concat (map record_calls rs))"
  using assms(2)
proof (induction rs)
  case Nil
  then show ?case by (simp add: performs_def)
next
  case (Cons r rs)
  have "performs vm_ok (genesis_migrate_all_users t vm_ok rs) (concat (map record_calls rs))" using Cons by simp
  from performs_then [OF record_performs [OF assms(1)] this] Cons.prems show ?case by simp
qed

lemma wallets_performs: "performs vm_ok (migrate_wallets vm_ok ws) (map wallet_call ws)"
proof (induction ws)
  case Nil
  then show ?case by (simp add: performs_def)
next
  case (Cons p ws)
  obtain a w where p: "p = (a, w)" by fastforce
  from performs_then [OF performs_exec Cons.IH] show ?case by (simp add: p wallet_call_def)
qed

section \<open>Properties\<close>


definition example_text :: addr_text where
  "example_text = \<lparr>addr_to_string = addr_hex, from_hex_literal = addr_from_hex_literal\<rparr>"

lemma example_text_ok: "addr_text_ok example_text"
  by (simp add: addr_text_ok_def example_text_def addr.account_address_axioms)

definition example_user :: LegacyRecoveryV6 where
  "example_user = LegacyRecoveryV6_default\<lparr>account := Some 77, auth_key := Some 78, balance := Some \<lparr>coin = 500\<rparr>\<rparr>"

lemma vm_accepts_all: "vm_accepts (\<lambda>_ _. True) s cs"
  by (induction cs arbitrary: s) simp_all


text \<open>The coins a call creates.\<close>

fun minted :: "step \<Rightarrow> nat" where
  "minted (Exec m f [Signer x, Signer a, VectorU8 k, U64 c]) =
     (if m = ''genesis_migration'' \<and> f = ''migrate_legacy_user'' then unat c else 0)"
| "minted c = 0"

definition migrated_coins :: "LegacyRecoveryV6 \<Rightarrow> nat" where
  "migrated_coins r =
     (case (account r, auth_key r, balance r) of
        (Some a, Some k, Some b) \<Rightarrow> if role r = Drop then 0 else unat (coin b) | _ \<Rightarrow> 0)"

lemma minted_record_calls: "sum_list (map minted (record_calls r)) = migrated_coins r"
  by (auto simp: record_calls_def migrated_coins_def user_calls_def user_call_def slow_calls_def comm_calls_def
    ancestry_calls_def receipt_calls_def escrow_calls_def comp_def split: option.splits)

lemma minted_concat: "sum_list (map minted (concat (map record_calls rs))) = sum_list (map migrated_coins rs)"
  by (induction rs) (simp_all add: minted_record_calls)

lemma minted_wallets: "sum_list (map minted (map wallet_call ws)) = 0"
  by (induction ws) (simp_all add: wallet_call_def)

definition reward_calls :: "LegacyRecoveryV6 list \<Rightarrow> session" where
  "reward_calls rs = (case List.find (\<lambda>e. account e = Some CORE_CODE_ADDRESS) rs of
     None \<Rightarrow> [] | Some f \<Rightarrow> (case consensus_reward f of None \<Rightarrow> []
       | Some cr \<Rightarrow> [Exec ''proof_of_fee'' ''genesis_migrate_reward'' [Signer CORE_CODE_ADDRESS, U64 (nominal_reward cr)]]))"

lemma framework_performs: "performs vm_ok (migrate_framework_state vm_ok rs) (reward_calls rs)"
  by (auto simp: migrate_framework_state_def [abs_def] reward_calls_def set_validator_baseline_reward_def [abs_def]
    split: option.splits intro: performs_intro)

lemma minted_reward: "sum_list (map minted (reward_calls rs)) = 0"
  by (auto simp: reward_calls_def split: option.splits)

lemma recovery_performs:
  assumes t: "addr_text_ok t" and c: "\<forall>r \<in> set rs. comm_wallet r \<noteq> None \<longrightarrow> account r \<noteq> None"
    and cw: "prepare_cw_and_receipts rs = Inr (dr, cw)" and ne: "rs \<noteq> []"
  shows "performs vm_ok (migrate_recovery t vm_ok rs)
    (reward_calls rs @ concat (map record_calls rs) @ map wallet_call (wallets cw))"
proof -
  have "performs vm_ok (genesis_migrate_cumu_deposits vm_ok rs) (map wallet_call (wallets cw))"
    unfolding genesis_migrate_cumu_deposits_def [abs_def] using wallets_performs [of vm_ok "wallets cw"] by (simp add: cw)
  then show ?thesis using ne unfolding migrate_recovery_def [abs_def]
    by (simp only: if_False) (intro performs_then performs_expect framework_performs all_users_performs t c; assumption)
qed

definition genesis_opening :: session where
  "genesis_opening = [VendorStep ''initialize'', VendorStep ''initialize_features'', VendorStep ''initialize_diem_coin'',
     Exec ''libra_coin'' ''genesis_set_final_supply'' [Signer CORE_CODE_ADDRESS, U64 (100000000000 * 1000000)],
     VendorStep ''initialize_on_chain_governance'']"

definition genesis_closing :: session where
  "genesis_closing = [VendorStep ''create_and_initialize_validators'', VendorStep ''set_genesis_end'',
     VendorStep ''emit_new_block_and_epoch_event'']"

lemma genesis_session_performs:
  assumes "performs vm_ok (migrate_recovery t vm_ok rs) cs"
  shows "vm_accepts vm_ok [] (genesis_opening @ cs @ genesis_closing) \<Longrightarrow> genesis_session t vm_ok rs = Inr (genesis_opening @ cs @ genesis_closing)"
    "\<not> vm_accepts vm_ok [] (genesis_opening @ cs @ genesis_closing) \<Longrightarrow> \<exists>m. genesis_session t vm_ok rs = Inl (Panic m)"
proof -
  note p = performs_then [OF performs_run [of vm_ok "VendorStep ''initialize''"] performs_then [OF performs_run [of vm_ok "VendorStep ''initialize_features''"]
    performs_then [OF performs_run [of vm_ok "VendorStep ''initialize_diem_coin''"]
    performs_then [OF performs_exec [of vm_ok "''libra_coin''" "''genesis_set_final_supply''" "[Signer CORE_CODE_ADDRESS, U64 (100000000000 * 1000000)]"]
    performs_then [OF performs_run [of vm_ok "VendorStep ''initialize_on_chain_governance''"]
    performs_then [OF assms performs_then [OF performs_run [of vm_ok "VendorStep ''create_and_initialize_validators''"]
    performs_then [OF performs_run [of vm_ok "VendorStep ''set_genesis_end''"] performs_run [of vm_ok "VendorStep ''emit_new_block_and_epoch_event''"]]]]]]]]]
  have l: "[VendorStep ''initialize''] @ [VendorStep ''initialize_features''] @ [VendorStep ''initialize_diem_coin''] @
      [Exec ''libra_coin'' ''genesis_set_final_supply'' [Signer CORE_CODE_ADDRESS, U64 (100000000000 * 1000000)]] @
      [VendorStep ''initialize_on_chain_governance''] @ cs @ [VendorStep ''create_and_initialize_validators''] @
      [VendorStep ''set_genesis_end''] @ [VendorStep ''emit_new_block_and_epoch_event''] = genesis_opening @ cs @ genesis_closing"
    by (simp add: genesis_opening_def genesis_closing_def)
  from p [unfolded l, unfolded performs_def, rule_format, of "[]"]
  show "vm_accepts vm_ok [] (genesis_opening @ cs @ genesis_closing) \<Longrightarrow> genesis_session t vm_ok rs = Inr (genesis_opening @ cs @ genesis_closing)"
    "\<not> vm_accepts vm_ok [] (genesis_opening @ cs @ genesis_closing) \<Longrightarrow> \<exists>m. genesis_session t vm_ok rs = Inl (Panic m)"
    by (simp_all add: genesis_session_def set_final_supply_def)
qed



end
