(* ===== verification/Genesis_Compare.thy ===== *)
theory Genesis_Compare
  imports Genesis_Migration "HOL-Library.Multiset"
begin

text \<open>
  The audit of a genesis against the recovery file it was made from
  (\<^verbatim>\<open>tools/genesis/src/compare.rs\<close>, \<^verbatim>\<open>tools/genesis/src/genesis_reader.rs\<close>). The database that the genesis
  transaction bootstraps is a parameter, the record \<open>genesis_db\<close> of the resources read from it.
\<close>

section \<open>The database\<close>

text \<open>Resources of an account at the latest checkpoint (an error, absent, or present), the validator set and
  the supply of the root account, and the state items of an account. The supply is held in an
  aggregator, whose value is read from the store, or in an integer.\<close>

record coin_supply =
  supply_aggregator :: "u128 result option"
  supply_integer :: "u128 option"

record genesis_db =
  db_balance :: "AccountAddress \<Rightarrow> u64 option result"
  db_slow_unlocked :: "AccountAddress \<Rightarrow> u64 option result"
  db_validator_set :: "AccountAddress list option result"
  db_coin_info :: "coin_supply option option result"
  db_state_items :: "AccountAddress \<Rightarrow> u8 list result list"

definition total_supply :: "genesis_db \<Rightarrow> u128 option result" where
  "total_supply db =
     and_then (expect ''should have move resource'' (db_coin_info db)) (\<lambda>ci.
     and_then (unwrap ''root should have a GasCoinInfoResourcee'' ci) (\<lambda>supply.
       case supply of
         None \<Rightarrow> Inr None
       | Some s \<Rightarrow>
           (case supply_aggregator s of
              Some v \<Rightarrow> and_then (expect ''supply value exists'' v) (\<lambda>n. Inr (Some n))
            | None \<Rightarrow> and_then (unwrap ''called Option::unwrap() on a None value'' (supply_integer s)) (\<lambda>n. Inr (Some n)))))"

definition MAX_REQUEST_LIMIT :: nat where
  "MAX_REQUEST_LIMIT = 10000"

definition get_account_state :: "genesis_db \<Rightarrow> AccountAddress \<Rightarrow> u8 list list result" where
  "get_account_state db a =
     and_then (map_result (\<lambda>kv. kv) (take MAX_REQUEST_LIMIT (db_state_items db a))) (\<lambda>kvs.
       if drop MAX_REQUEST_LIMIT (db_state_items db a) \<noteq> [] then Inl (Err ''Too many state items under state key prefix'')
       else Inr kvs)"

section \<open>Comparing\<close>

record CompareError =
  ce_index :: u64
  ce_account :: "AccountAddress option"
  ce_expected :: u64
  ce_migrated :: u64
  ce_message :: string

definition slow_errors :: "u64 \<Rightarrow> LegacyRecoveryV6 \<Rightarrow> u64 \<Rightarrow> u64 \<Rightarrow> u64 \<Rightarrow> CompareError list" where
  "slow_errors i old on_chain old_unlocked new_unlocked =
     (if new_unlocked \<noteq> old_unlocked
      then [\<lparr>ce_index = i, ce_account = account old, ce_expected = old_unlocked, ce_migrated = new_unlocked,
             ce_message = ''unexpected slow wallet unlocked''\<rparr>] else []) @
     (if on_chain < new_unlocked
      then [\<lparr>ce_index = i, ce_account = account old, ce_expected = new_unlocked, ce_migrated = on_chain,
             ce_message = ''unlocked greater than balance''\<rparr>] else [])"

definition compare_one :: "genesis_db \<Rightarrow> u64 \<Rightarrow> LegacyRecoveryV6 \<Rightarrow> CompareError list result" where
  "compare_one db i old =
     (if role old = Drop then Inr []
      else case account old of
        None \<Rightarrow> Inr [\<lparr>ce_index = i, ce_account = None, ce_expected = 0, ce_migrated = 0, ce_message = ''account is None''\<rparr>]
      | Some a \<Rightarrow>
          and_then (expect ''should have move resource'' (db_balance db a)) (\<lambda>on_chain.
          case on_chain of
            None \<Rightarrow> Inr []
          | Some c \<Rightarrow>
              and_then (unwrap ''should have a balance struct'' (balance old)) (\<lambda>old_balance.
              let err_list =
                (if c \<noteq> coin old_balance
                 then [\<lparr>ce_index = i, ce_account = account old, ce_expected = coin old_balance, ce_migrated = c,
                        ce_message = ''unexpected balance''\<rparr>] else [])
              in case slow_wallet old of
                   None \<Rightarrow> Inr err_list
                 | Some old_slow \<Rightarrow>
                     and_then (expect ''should have a slow wallet struct'' (db_slow_unlocked db a)) (\<lambda>s.
                     and_then (unwrap ''called Option::unwrap() on a None value'' s) (\<lambda>new_unlocked.
                     Inr (err_list @ slow_errors i old c (unlocked old_slow) new_unlocked))))))"

fun compare_all :: "genesis_db \<Rightarrow> u64 \<Rightarrow> LegacyRecoveryV6 list \<Rightarrow> CompareError list result" where
  "compare_all db i [] = Inr []"
| "compare_all db i (old # olds) =
     and_then (compare_one db i old) (\<lambda>errs.
     and_then (compare_all db (i + 1) olds) (\<lambda>rest. Inr (errs @ rest)))"

definition compare_recovery_vec_to_genesis_tx ::
  "(AccountAddress \<Rightarrow> string) \<Rightarrow> genesis_db \<Rightarrow> LegacyRecoveryV6 list \<Rightarrow> CompareError list result" where
  "compare_recovery_vec_to_genesis_tx to_string db recovery =
     and_then (strip_system_address to_string recovery) (\<lambda>r_as_vec. compare_all db 0 r_as_vec)"

text \<open>The dump of the balances: every record with an address, system and dropped accounts included.\<close>

record JsonDump =
  dump_account :: AccountAddress
  dump_balance :: "u64 option"
  dump_slow :: "u64 option"

fun dump_accounts :: "addr_text \<Rightarrow> genesis_db \<Rightarrow> LegacyRecoveryV6 list \<Rightarrow> JsonDump list result" where
  "dump_accounts t db [] = Inr []"
| "dump_accounts t db (old # olds) =
     (case account old of
        None \<Rightarrow> dump_accounts t db olds
      | Some a0 \<Rightarrow>
          and_then (expect ''could not convert address types'' (convert_address t a0)) (\<lambda>a.
          and_then (expect ''should have a slow wallet struct'' (db_slow_unlocked db a)) (\<lambda>slow.
          and_then (expect ''should have move resource'' (db_balance db a)) (\<lambda>bal.
          and_then (dump_accounts t db olds) (\<lambda>rest.
          Inr (\<lparr>dump_account = a, dump_balance = bal, dump_slow = slow\<rparr> # rest))))))"

definition export_account_balances ::
  "addr_text \<Rightarrow> (JsonDump list \<Rightarrow> string) \<Rightarrow> genesis_db \<Rightarrow> LegacyRecoveryV6 list \<Rightarrow> string \<Rightarrow> file_system \<Rightarrow> file_system result" where
  "export_account_balances t to_json db recovery output fs =
     and_then (dump_accounts t db recovery) (\<lambda>list.
       let path = path_join output ''genesis_balances.json'' in
       if writable fs path then Inr (fs\<lparr>files := (files fs)(path \<mapsto> to_json list)\<rparr>)
       else Inl (Panic ''called Result::unwrap() on an Err value''))"

definition compare_json_to_genesis_blob ::
  "(AccountAddress \<Rightarrow> string) \<Rightarrow> (string \<Rightarrow> LegacyRecoveryV6 list result) \<Rightarrow> (string \<Rightarrow> 'tx result) \<Rightarrow> ('tx \<Rightarrow> genesis_db result) \<Rightarrow>
   file_system \<Rightarrow> string \<Rightarrow> string \<Rightarrow> CompareError list result" where
  "compare_json_to_genesis_blob to_string from_json read_blob_to_tx bootstrap fs json_path genesis_path =
     and_then (recovery_file_parse from_json json_path fs) (\<lambda>recovery.
     and_then (read_blob_to_tx genesis_path) (\<lambda>gen_tx.
     and_then (bootstrap gen_tx) (\<lambda>db. compare_recovery_vec_to_genesis_tx to_string db recovery)))"

definition get_val_set :: "genesis_db \<Rightarrow> AccountAddress list result" where
  "get_val_set db =
     (case db_validator_set db of
        Inl _ \<Rightarrow> Inl (Err ''error calling get_validator_set'')
      | Inr None \<Rightarrow> Inl (Err ''db returns None for validator set struct'')
      | Inr (Some vs) \<Rightarrow> Inr vs)"

definition check_val_set :: "AccountAddress list \<Rightarrow> genesis_db \<Rightarrow> unit result" where
  "check_val_set expected_vals db =
     and_then (get_val_set db) (\<lambda>addrs.
       if length addrs \<noteq> length expected_vals then Inl (Panic ''validator set length mismatch'')
       else if \<not> list_all (\<lambda>v. List.member addrs v) expected_vals then Inl (Panic ''genesis does not contain validator'')
       else Inr ())"

definition check_supply :: "u64 \<Rightarrow> genesis_db \<Rightarrow> unit result" where
  "check_supply expected_supply db =
     and_then (total_supply db) (\<lambda>s.
     and_then (unwrap ''called Option::unwrap() on a None value'' s) (\<lambda>on_chain_supply.
       if (ucast expected_supply :: u128) = on_chain_supply then Inr () else Inl (Panic ''supply mismatch'')))"

section \<open>What a clean audit shows\<close>

definition is_system :: "LegacyRecoveryV6 \<Rightarrow> bool" where
  "is_system e \<longleftrightarrow> unat (the (account e)) < 16 \<or> 16 ^ 63 dvd unat (the (account e))"

lemma strip_system_Inr:
  assumes "account_address to_string from_hex"
  shows "strip_system_address to_string es = Inr kept \<longleftrightarrow>
    (\<forall>e \<in> set es. account e \<noteq> None) \<and> kept = filter (\<lambda>e. \<not> is_system e) es"
proof (induction es arbitrary: kept)
  case (Cons e es)
  then show ?case
    by (cases "account e") (auto simp: system_mark_iff [OF assms] is_system_def and_then_eq_Inr split: if_splits)
qed auto

text \<open>A record agrees with the chain: the audit does not look at accounts without a balance on chain.\<close>

definition agrees :: "genesis_db \<Rightarrow> LegacyRecoveryV6 \<Rightarrow> bool" where
  "agrees db r =
     (case db_balance db (the (account r)) of
        Inr (Some c) \<Rightarrow> c = coin (the (balance r)) \<and>
          (case slow_wallet r of None \<Rightarrow> True
           | Some s \<Rightarrow> db_slow_unlocked db (the (account r)) = Inr (Some (unlocked s)) \<and> unlocked s \<le> c)
      | _ \<Rightarrow> True)"

lemma compare_one_clean:
  assumes "compare_one db i r = Inr errs" "account r \<noteq> None"
  shows "(errs = [] \<longleftrightarrow> role r = Drop \<or> agrees db r) \<and> (\<forall>e \<in> set errs. ce_account e = account r)"
proof (cases "role r = Drop")
  case True
  then show ?thesis using assms by (simp add: compare_one_def)
next
  case False
  obtain a where a: "account r = Some a" using assms(2) by auto
  from assms(1) False a obtain bal where bal: "db_balance db a = Inr bal"
    by (auto simp: compare_one_def and_then_eq_Inr expect_eq_Inr)
  show ?thesis
  proof (cases bal)
    case None
    then show ?thesis using assms False a bal by (auto simp: compare_one_def agrees_def)
  next
    case (Some c)
    obtain b where b: "balance r = Some b"
      using assms(1) False a bal Some by (auto simp: compare_one_def result_Inr_iffs)
    show ?thesis
    proof (cases "slow_wallet r")
      case None
      then show ?thesis using assms False a bal Some b by (auto simp: compare_one_def agrees_def Let_def split: if_splits)
    next
      case (Some sl)
      obtain u where u: "db_slow_unlocked db a = Inr (Some u)"
        using assms(1) False a bal \<open>bal = Some c\<close> b Some by (auto simp: compare_one_def result_Inr_iffs Let_def)
      show ?thesis
        using assms False a bal \<open>bal = Some c\<close> b Some u
        by (auto simp: compare_one_def agrees_def Let_def slow_errors_def split: if_splits)
    qed
  qed
qed

lemma compare_all_clean:
  assumes "compare_all db i rs = Inr errs" "\<forall>r \<in> set rs. account r \<noteq> None"
  shows "(errs = [] \<longleftrightarrow> (\<forall>r \<in> set rs. role r = Drop \<or> agrees db r)) \<and> (\<forall>e \<in> set errs. ce_account e \<noteq> None)"
  using assms
proof (induction rs arbitrary: i errs)
  case (Cons r rs)
  then obtain e1 e2 where e: "compare_one db i r = Inr e1" "compare_all db (i + 1) rs = Inr e2" "errs = e1 @ e2"
    by (auto simp: and_then_eq_Inr)
  from compare_one_clean [OF e(1)] Cons.IH [OF e(2)] Cons.prems(2) show ?case by (auto simp: e(3))
qed simp

text \<open>C28. What the audit of a genesis decides: when it returns, every record has an address, and its error
  list is empty exactly when every record that is neither a system account nor dropped agrees with
  the chain: the account has no balance there, or has the recorded balance and the recorded unlocked
  amount of its slow wallet, which does not exceed the balance. No error ever lacks an account.\<close>

theorem audit_clean_iff:
  assumes "account_address to_string from_hex"
    "compare_recovery_vec_to_genesis_tx to_string db recovery = Inr errs"
  shows "(\<forall>r \<in> set recovery. account r \<noteq> None) \<and>
    (errs = [] \<longleftrightarrow> (\<forall>r \<in> set recovery. is_system r \<or> role r = Drop \<or> agrees db r)) \<and>
    (\<forall>e \<in> set errs. ce_account e \<noteq> None)"
proof -
  obtain kept where k: "strip_system_address to_string recovery = Inr kept" "compare_all db 0 kept = Inr errs"
    using assms(2) by (auto simp: compare_recovery_vec_to_genesis_tx_def and_then_eq_Inr)
  from k(1) have kept: "\<forall>r \<in> set recovery. account r \<noteq> None" "kept = filter (\<lambda>e. \<not> is_system e) recovery"
    using strip_system_Inr [OF assms(1)] by auto
  from compare_all_clean [OF k(2)] kept show ?thesis by auto
qed

section \<open>A migrated genesis passes the audit\<close>

definition slow_call :: "AccountAddress \<Rightarrow> SlowWalletResource \<Rightarrow> step" where
  "slow_call a s = Exec ''slow_wallet'' ''fork_migrate_slow_wallet''
     [Signer CORE_CODE_ADDRESS, Signer a, U64 (unlocked s), U64 (transferred s)]"

text \<open>The chain holds what the calls of the session wrote: the balance of every migrated user, the
  unlocked amount of every migrated slow wallet, and no balance for an account that was not
  migrated.\<close>

definition holds_calls :: "genesis_db \<Rightarrow> session \<Rightarrow> bool" where
  "holds_calls db calls \<longleftrightarrow>
     (\<forall>a k c. user_call a k c \<in> set calls \<longrightarrow> db_balance db a = Inr (Some c)) \<and>
     (\<forall>a s. slow_call a s \<in> set calls \<longrightarrow> db_slow_unlocked db a = Inr (Some (unlocked s))) \<and>
     (\<forall>a. (\<forall>k c. user_call a k c \<notin> set calls) \<longrightarrow> db_balance db a = Inr None)"

lemma record_user_call:
  "account r = Some a \<Longrightarrow> auth_key r = Some k \<Longrightarrow> balance r = Some b \<Longrightarrow> role r \<noteq> Drop \<Longrightarrow>
     user_call a k (coin b) \<in> set (record_calls r)"
  by (simp add: record_calls_def user_calls_def)

lemma record_slow_call:
  "account r = Some a \<Longrightarrow> auth_key r = Some k \<Longrightarrow> balance r = Some b \<Longrightarrow> role r \<noteq> Drop \<Longrightarrow> slow_wallet r = Some s \<Longrightarrow>
     slow_call a s \<in> set (record_calls r)"
  by (simp add: record_calls_def slow_calls_def slow_call_def)

lemma user_call_record:
  "user_call a k c \<in> set (record_calls r) \<Longrightarrow>
     account r = Some a \<and> auth_key r \<noteq> None \<and> (\<exists>b. balance r = Some b \<and> coin b = c) \<and> role r \<noteq> Drop"
  by (cases "account r"; cases "auth_key r"; cases "balance r")
    (auto simp: record_calls_def user_calls_def slow_calls_def comm_calls_def ancestry_calls_def receipt_calls_def
      escrow_calls_def user_call_def split: if_splits option.splits)

lemma compare_one_migrated:
  assumes r: "r \<in> set rs" "account r \<noteq> None" "slow_ok r" and distinct: "distinct (map account rs)"
    and db: "holds_calls db (s @ concat (map record_calls rs))" and s: "\<And>a k c. user_call a k c \<notin> set s"
  shows "compare_one db i r = Inr []"
proof (cases "role r = Drop")
  case False
  obtain a where a: "account r = Some a" using r(2) by auto
  have same: "r' = r" if "r' \<in> set rs" "account r' = Some a" for r'
    using that r(1) a distinct by (auto simp: distinct_map inj_on_def)
  show ?thesis
  proof (cases "auth_key r = None \<or> balance r = None")
    case True
    have "user_call a k c \<notin> set (s @ concat (map record_calls rs))" for k c
      using user_call_record [of a k c] same s True by fastforce
    then have "db_balance db a = Inr None" using db by (simp add: holds_calls_def)
    then show ?thesis by (simp add: compare_one_def a)
  next
    case complete: False
    then obtain k b where kb: "auth_key r = Some k" "balance r = Some b" by auto
    have "user_call a k (coin b) \<in> set (s @ concat (map record_calls rs))"
      using record_user_call [OF a kb False] r(1) by auto
    then have bal: "db_balance db a = Inr (Some (coin b))" using db unfolding holds_calls_def by blast
    show ?thesis
    proof (cases "slow_wallet r")
      case None
      then show ?thesis using bal kb by (simp add: compare_one_def a)
    next
      case (Some sl)
      have "slow_call a sl \<in> set (s @ concat (map record_calls rs))"
        using record_slow_call [OF a kb False Some] r(1) by auto
      then have "db_slow_unlocked db a = Inr (Some (unlocked sl))" using db unfolding holds_calls_def by blast
      then show ?thesis using bal kb Some r(3) by (auto simp: compare_one_def a slow_errors_def slow_ok_def)
    qed
  qed
qed (simp add: compare_one_def)

lemma compare_all_Nil: "(\<And>r i. r \<in> set rs \<Longrightarrow> compare_one db i r = Inr []) \<Longrightarrow> compare_all db i (filter P rs) = Inr []"
  by (induction rs arbitrary: i) simp_all

lemma migrated_audit_clean:
  assumes t: "addr_text_ok t"
    and recs: "\<forall>r \<in> set rs. account r \<noteq> None" "list_all slow_ok rs" "distinct (map account rs)"
    and run: "genesis_migrate_all_users t vm_ok rs s = Inr s'" "\<forall>a k c. user_call a k c \<notin> set s"
    and chain: "holds_calls db s'"
  shows "compare_recovery_vec_to_genesis_tx (addr_to_string t) db rs = Inr []"
proof -
  have "performs vm_ok (genesis_migrate_all_users t vm_ok rs) (concat (map record_calls rs))"
    using all_users_performs [OF t] recs(1) by blast
  then have s': "s' = s @ concat (map record_calls rs)"
    using run(1) unfolding performs_def by (metis Inl_Inr_False sum.inject(2))
  have "compare_one db i r = Inr []" if "r \<in> set rs" for r i
    using that recs run(2) chain by (intro compare_one_migrated [of r rs db s]) (auto simp: s' list_all_iff)
  moreover have "strip_system_address (addr_to_string t) rs = Inr (filter (\<lambda>e. \<not> is_system e) rs)"
    using strip_system_Inr [of "addr_to_string t"] t recs(1) by (auto simp: addr_text_ok_def)
  ultimately show ?thesis
    by (simp add: compare_recovery_vec_to_genesis_tx_def compare_all_Nil)
qed


definition example_slow_user :: LegacyRecoveryV6 where
  "example_slow_user = LegacyRecoveryV6_default\<lparr>account := Some 99, auth_key := Some 98, balance := Some \<lparr>coin = 70\<rparr>,
     slow_wallet := Some \<lparr>unlocked = 20, transferred = 0\<rparr>\<rparr>"

definition example_db :: genesis_db where
  "example_db = \<lparr>db_balance = (\<lambda>a. Inr (if a = 77 then Some 500 else if a = 99 then Some 70 else None)),
     db_slow_unlocked = (\<lambda>a. Inr (if a = 99 then Some 20 else None)), db_validator_set = Inr (Some [77]),
     db_coin_info = Inr (Some (Some \<lparr>supply_aggregator = None, supply_integer = Some 570\<rparr>)), db_state_items = (\<lambda>_. [])\<rparr>"


theorem audit_clean_iff_witness:
  "compare_recovery_vec_to_genesis_tx addr_hex example_db [example_user] = Inr [] \<and> agrees example_db example_user"
proof -
  have "compare_recovery_vec_to_genesis_tx addr_hex example_db [example_user] = Inr []"
    by (simp add: compare_recovery_vec_to_genesis_tx_def compare_one_def example_user_def LegacyRecoveryV6_default_def
      example_db_def system_mark_iff [OF addr.account_address_axioms] dvd_eq_mod_eq_0)
  with audit_clean_iff [OF addr.account_address_axioms this] show ?thesis
    by (auto simp: is_system_def example_user_def LegacyRecoveryV6_default_def dvd_eq_mod_eq_0)
qed

text \<open>An account that is missing on the chain, with all its coins, is not an error of the audit.\<close>

lemma audit_misses_absent_accounts:
  assumes "account_address to_string from_hex" "list_all (\<lambda>r. account r \<noteq> None) rs" "\<And>a. db_balance db a = Inr None"
  shows "compare_recovery_vec_to_genesis_tx to_string db rs = Inr []"
proof -
  have "compare_one db i r = Inr []" if "r \<in> set rs" for r i
    using that assms(2,3) by (auto simp: compare_one_def list_all_iff)
  moreover have "strip_system_address to_string rs = Inr (filter (\<lambda>e. \<not> is_system e) rs)"
    using strip_system_Inr [OF assms(1)] assms(2) by (auto simp: list_all_iff)
  ultimately show ?thesis by (simp add: compare_recovery_vec_to_genesis_tx_def compare_all_Nil)
qed

section \<open>Validator set, supply and state items\<close>

text \<open>The check of the genesis validators is exact for a list without duplicates: it passes if and only if
  the validator set on chain can be read and has the expected validators, each once. The check of the
  supply passes if and only if the supply on chain can be read and equals the expected one, and an
  account state is returned if and only if it has at most 10000 items, all readable.\<close>

theorem genesis_checks_exact:
  "(distinct vals \<longrightarrow> (check_val_set vals db = Inr () \<longleftrightarrow> (\<exists>vs. get_val_set db = Inr vs \<and> mset vs = mset vals))) \<and>
   (check_supply n db = Inr () \<longleftrightarrow> (\<exists>m. total_supply db = Inr (Some m) \<and> unat m = unat n)) \<and>
   (get_account_state db a = Inr kvs \<longleftrightarrow> length kvs \<le> MAX_REQUEST_LIMIT \<and> db_state_items db a = map Inr kvs)"
proof (intro conjI impI)
  assume d: "distinct vals"
  have "length vs = length vals \<and> set vals \<subseteq> set vs \<longleftrightarrow> mset vs = mset vals" for vs :: "AccountAddress list"
  proof
    assume "length vs = length vals \<and> set vals \<subseteq> set vs"
    then have "set vals = set vs" using d by (metis List.finite_set card_length card_subset_eq distinct_card le_antisym card_mono)
    moreover from this have "distinct vs" using d \<open>length vs = length vals \<and> _\<close> by (metis card_distinct distinct_card)
    ultimately show "mset vs = mset vals" using d set_eq_iff_mset_eq_distinct by metis
  next
    assume "mset vs = mset vals"
    then show "length vs = length vals \<and> set vals \<subseteq> set vs" using mset_eq_length mset_eq_setD by (metis order_refl)
  qed
  then show "check_val_set vals db = Inr () \<longleftrightarrow> (\<exists>vs. get_val_set db = Inr vs \<and> mset vs = mset vals)"
    by (auto simp: check_val_set_def and_then_eq_Inr list_all_iff subset_iff split: if_splits)
next
  have "unat n < 2 ^ 64" using unsigned_less [of n, where 'a = nat] by simp
  then have u: "unat (ucast n :: u128) = unat n" by (simp add: unsigned_ucast_eq take_bit_nat_eq_self)
  show "check_supply n db = Inr () \<longleftrightarrow> (\<exists>m. total_supply db = Inr (Some m) \<and> unat m = unat n)"
    by (auto simp: check_supply_def result_Inr_iffs word_unat_eq_iff u split: if_splits) metis
next
  have id: "map_result (\<lambda>kv. kv) xs = Inr kvs \<longleftrightarrow> xs = map Inr kvs" for xs :: "u8 list result list"
    by (induction xs arbitrary: kvs) (auto simp: and_then_eq_Inr)
  show "get_account_state db a = Inr kvs \<longleftrightarrow> length kvs \<le> MAX_REQUEST_LIMIT \<and> db_state_items db a = map Inr kvs"
    by (auto simp: get_account_state_def and_then_eq_Inr id)
qed

theorem genesis_checks_exact_witness:
  "check_val_set [77] example_db = Inr () \<and> check_supply 570 example_db = Inr ()"
  using genesis_checks_exact [of "[77]" example_db 570 0 "[]"]
  by (simp add: example_db_def get_val_set_def total_supply_def)

end
