(* ===== verification/Genesis_Pipeline.thy ===== *)
theory Genesis_Pipeline
  imports Snapshot_Reader Genesis_Compare
begin

text \<open>
  Properties that span the migration of a chain: the export of a state snapshot
  (\<open>Snapshot_Reader\<close>), the parsing and repair of the recovery file (\<open>Legacy_Recovery\<close>), the replay of its
  records on the virtual machine (\<open>Genesis_Migration\<close>) and the audit of the result (\<open>Genesis_Compare\<close>).
\<close>

section \<open>From the recovery file to the genesis session\<close>

lemma record_slow_call_covered:
  assumes "slow_call a w \<in> set (record_calls r)" "slow_ok r"
  shows "\<exists>ys k c. record_calls r = user_call a k c # slow_call a w # ys \<and> unlocked w \<le> c"
  using assms
  by (auto simp: record_calls_def slow_call_def user_calls_def slow_calls_def comm_calls_def ancestry_calls_def receipt_calls_def
    escrow_calls_def user_call_def slow_ok_def split: if_splits option.splits)

text \<open>C7. The slow wallets created at genesis are covered: in a user migration that runs on a parsed
  recovery file, every call that creates a slow wallet comes directly after the call that creates the
  same account, and the unlocked amount is at most the balance of that account, whatever the file
  contained.\<close>

theorem migrated_slow_wallets_covered:
  assumes t: "addr_text_ok t" and c: "\<forall>r \<in> set rs. comm_wallet r \<noteq> None \<longrightarrow> account r \<noteq> None"
    and parsed: "recovery_file_parse from_json path fs = Inr rs"
    and run: "genesis_migrate_all_users t vm_ok rs [] = Inr s"
    and call: "slow_call a w \<in> set s"
  shows "\<exists>xs ys k c. s = xs @ [user_call a k c, slow_call a w] @ ys \<and> unlocked w \<le> c"
proof -
  have s: "s = concat (map record_calls rs)"
    using all_users_performs [OF t c, of vm_ok] run
    by (cases "vm_accepts vm_ok [] (concat (map record_calls rs))") (auto simp: performs_def dest: spec [of _ "[]"])
  then obtain r where r: "r \<in> set rs" "slow_call a w \<in> set (record_calls r)" using call by auto
  have "slow_ok r" using parsed r(1)
    by (auto simp: recovery_file_parse_def and_then_eq_Inr fix_slow_wallet_map fix_slow_wallet_one_ok)
  then obtain ys k c where *: "record_calls r = user_call a k c # slow_call a w # ys" "unlocked w \<le> c"
    using record_slow_call_covered r(2) by blast
  obtain as bs where "rs = as @ r # bs" using r(1) by (auto simp: in_set_conv_decomp)
  then have "s = concat (map record_calls as) @ [user_call a k c, slow_call a w] @ (ys @ concat (map record_calls bs))"
    by (simp add: s *)
  with *(2) show ?thesis by blast
qed

definition example_overdrawn :: LegacyRecoveryV6 where
  "example_overdrawn = example_user\<lparr>slow_wallet := Some \<lparr>unlocked = 900, transferred = 3\<rparr>\<rparr>"

theorem migrated_slow_wallets_covered_witness:
  "\<exists>rs s. recovery_file_parse (\<lambda>_. Inr [example_overdrawn]) ''r'' \<lparr>files = [''r'' \<mapsto> ''[]''], writable = (\<lambda>_. True)\<rparr> = Inr rs \<and>
    genesis_migrate_all_users example_text (\<lambda>_ _. True) rs [] = Inr s \<and>
    (\<exists>xs ys k c. s = xs @ [user_call 77 k c, slow_call 77 \<lparr>unlocked = 500, transferred = 3\<rparr>] @ ys \<and> 500 \<le> c)"
proof -
  let ?fs = "\<lparr>files = [''r'' \<mapsto> ''[]''], writable = (\<lambda>_. True)\<rparr>"
  let ?r = "example_overdrawn\<lparr>slow_wallet := Some \<lparr>unlocked = 500, transferred = 3\<rparr>\<rparr>"
  have p: "recovery_file_parse (\<lambda>_. Inr [example_overdrawn]) ''r'' ?fs = Inr [?r]"
    by (simp add: recovery_file_parse_def read_from_recovery_file_def fix_slow_wallet_map fix_slow_wallet_one_def
      example_overdrawn_def example_user_def LegacyRecoveryV6_default_def)
  have c: "\<forall>r \<in> set [?r]. comm_wallet r \<noteq> None \<longrightarrow> account r \<noteq> None"
    by (simp add: example_overdrawn_def example_user_def LegacyRecoveryV6_default_def)
  have run: "genesis_migrate_all_users example_text (\<lambda>_ _. True) [?r] [] = Inr (record_calls ?r)"
    using all_users_performs [OF example_text_ok c, of "\<lambda>_ _. True"] by (simp add: performs_def vm_accepts_all)
  have "slow_call 77 \<lparr>unlocked = 500, transferred = 3\<rparr> \<in> set (record_calls ?r)"
    by (simp add: record_calls_def slow_calls_def slow_call_def example_overdrawn_def example_user_def LegacyRecoveryV6_default_def)
  from migrated_slow_wallets_covered [OF example_text_ok c p run this] obtain xs ys k b where
    "record_calls ?r = xs @ [user_call 77 k b, slow_call 77 \<lparr>unlocked = 500, transferred = 3\<rparr>] @ ys" "500 \<le> b" by auto
  with p run show ?thesis by blast
qed

section \<open>From a snapshot to an audited genesis\<close>

lemma fix_slow_wallet_accounts: "map account (fst (fix_slow_wallet es)) = map account es"
  by (simp add: fix_slow_wallet_map fix_slow_wallet_one_def split: option.split)



end
