(* ===== verification/Mnemonic_Words.thy ===== *)
theory Mnemonic_Words
  imports Rust_Prelude
begin

text \<open>
  The BIP39 word list of \<^verbatim>\<open>tools/wallet/src/core/mnemonic.rs\<close> (\<^verbatim>\<open>WORDS\<close>): 2048 words in ascending
  order, and that it is strictly ascending, on which the binary search over it relies.
\<close>

text \<open>The order of \<^verbatim>\<open>&str\<close>: bytewise lexicographic.\<close>

fun str_lt :: "string \<Rightarrow> string \<Rightarrow> bool" where
  "str_lt s [] = False"
| "str_lt [] (d # t) = True"
| "str_lt (c # s) (d # t) = (if c = d then str_lt s t else (of_char c :: nat) < of_char d)"

fun ascending :: "string list \<Rightarrow> bool" where
  "ascending (x # y # xs) = (str_lt x y \<and> ascending (y # xs))"
| "ascending xs = True"

text \<open>\<^verbatim>\<open>slice::binary_search\<close>: the half-open range \<open>left..right\<close> that may still hold the word.\<close>

function binary_search_loop :: "string list \<Rightarrow> string \<Rightarrow> nat \<Rightarrow> nat \<Rightarrow> nat option" where
  "binary_search_loop xs w left right =
     (if left < right then
        let mid = left + (right - left) div 2 in
        if xs ! mid = w then Some mid
        else if str_lt (xs ! mid) w then binary_search_loop xs w (mid + 1) right
        else binary_search_loop xs w left mid
      else None)"
  by pat_completeness auto
termination
  by (relation "measure (\<lambda>(xs, w, left, right). right - left)") auto

declare binary_search_loop.simps [simp del]

definition binary_search :: "string list \<Rightarrow> string \<Rightarrow> nat option" where
  "binary_search xs w = binary_search_loop xs w 0 (length xs)"

definition WORDS :: "string list" where
  "WORDS = [
    ''abandon'', ''ability'', ''able'', ''about'', ''above'', ''absent'', ''absorb'',
    ''abstract'', ''absurd'', ''abuse'', ''access'', ''accident'', ''account'', ''accuse'',
    ''achieve'', ''acid'', ''acoustic'', ''acquire'', ''across'', ''act'', ''action'', ''actor'',
    ''actress'', ''actual'', ''adapt'', ''add'', ''addict'', ''address'', ''adjust'', ''admit'',
    ''adult'', ''advance'', ''advice'', ''aerobic'', ''affair'', ''afford'', ''afraid'',
    ''again'', ''age'', ''agent'', ''agree'', ''ahead'', ''aim'', ''air'', ''airport'', ''aisle'',
    ''alarm'', ''album'', ''alcohol'', ''alert'', ''alien'', ''all'', ''alley'', ''allow'',
    ''almost'', ''alone'', ''alpha'', ''already'', ''also'', ''alter'', ''always'', ''amateur'',
    ''amazing'', ''among'', ''amount'', ''amused'', ''analyst'', ''anchor'', ''ancient'',
    ''anger'', ''angle'', ''angry'', ''animal'', ''ankle'', ''announce'', ''annual'', ''another'',
    ''answer'', ''antenna'', ''antique'', ''anxiety'', ''any'', ''apart'', ''apology'',
    ''appear'', ''apple'', ''approve'', ''april'', ''arch'', ''arctic'', ''area'', ''arena'',
    ''argue'', ''arm'', ''armed'', ''armor'', ''army'', ''around'', ''arrange'', ''arrest'',
    ''arrive'', ''arrow'', ''art'', ''artefact'', ''artist'', ''artwork'', ''ask'', ''aspect'',
    ''assault'', ''asset'', ''assist'', ''assume'', ''asthma'', ''athlete'', ''atom'', ''attack'',
    ''attend'', ''attitude'', ''attract'', ''auction'', ''audit'', ''august'', ''aunt'',
    ''author'', ''auto'', ''autumn'', ''average'', ''avocado'', ''avoid'', ''awake'', ''aware'',
    ''away'', ''awesome'', ''awful'', ''awkward'', ''axis'', ''baby'', ''bachelor'', ''bacon'',
    ''badge'', ''bag'', ''balance'', ''balcony'', ''ball'', ''bamboo'', ''banana'', ''banner'',
    ''bar'', ''barely'', ''bargain'', ''barrel'', ''base'', ''basic'', ''basket'', ''battle'',
    ''beach'', ''bean'', ''beauty'', ''because'', ''become'', ''beef'', ''before'', ''begin'',
    ''behave'', ''behind'', ''believe'', ''below'', ''belt'', ''bench'', ''benefit'', ''best'',
    ''betray'', ''better'', ''between'', ''beyond'', ''bicycle'', ''bid'', ''bike'', ''bind'',
    ''biology'', ''bird'', ''birth'', ''bitter'', ''black'', ''blade'', ''blame'', ''blanket'',
    ''blast'', ''bleak'', ''bless'', ''blind'', ''blood'', ''blossom'', ''blouse'', ''blue'',
    ''blur'', ''blush'', ''board'', ''boat'', ''body'', ''boil'', ''bomb'', ''bone'', ''bonus'',
    ''book'', ''boost'', ''border'', ''boring'', ''borrow'', ''boss'', ''bottom'', ''bounce'',
    ''box'', ''boy'', ''bracket'', ''brain'', ''brand'', ''brass'', ''brave'', ''bread'',
    ''breeze'', ''brick'', ''bridge'', ''brief'', ''bright'', ''bring'', ''brisk'', ''broccoli'',
    ''broken'', ''bronze'', ''broom'', ''brother'', ''brown'', ''brush'', ''bubble'', ''buddy'',
    ''budget'', ''buffalo'', ''build'', ''bulb'', ''bulk'', ''bullet'', ''bundle'', ''bunker'',
    ''burden'', ''burger'', ''burst'', ''bus'', ''business'', ''busy'', ''butter'', ''buyer'',
    ''buzz'', ''cabbage'', ''cabin'', ''cable'', ''cactus'', ''cage'', ''cake'', ''call'',
    ''calm'', ''camera'', ''camp'', ''can'', ''canal'', ''cancel'', ''candy'', ''cannon'',
    ''canoe'', ''canvas'', ''canyon'', ''capable'', ''capital'', ''captain'', ''car'', ''carbon'',
    ''card'', ''cargo'', ''carpet'', ''carry'', ''cart'', ''case'', ''cash'', ''casino'',
    ''castle'', ''casual'', ''cat'', ''catalog'', ''catch'', ''category'', ''cattle'', ''caught'',
    ''cause'', ''caution'', ''cave'', ''ceiling'', ''celery'', ''cement'', ''census'',
    ''century'', ''cereal'', ''certain'', ''chair'', ''chalk'', ''champion'', ''change'',
    ''chaos'', ''chapter'', ''charge'', ''chase'', ''chat'', ''cheap'', ''check'', ''cheese'',
    ''chef'', ''cherry'', ''chest'', ''chicken'', ''chief'', ''child'', ''chimney'', ''choice'',
    ''choose'', ''chronic'', ''chuckle'', ''chunk'', ''churn'', ''cigar'', ''cinnamon'',
    ''circle'', ''citizen'', ''city'', ''civil'', ''claim'', ''clap'', ''clarify'', ''claw'',
    ''clay'', ''clean'', ''clerk'', ''clever'', ''click'', ''client'', ''cliff'', ''climb'',
    ''clinic'', ''clip'', ''clock'', ''clog'', ''close'', ''cloth'', ''cloud'', ''clown'',
    ''club'', ''clump'', ''cluster'', ''clutch'', ''coach'', ''coast'', ''coconut'', ''code'',
    ''coffee'', ''coil'', ''coin'', ''collect'', ''color'', ''column'', ''combine'', ''come'',
    ''comfort'', ''comic'', ''common'', ''company'', ''concert'', ''conduct'', ''confirm'',
    ''congress'', ''connect'', ''consider'', ''control'', ''convince'', ''cook'', ''cool'',
    ''copper'', ''copy'', ''coral'', ''core'', ''corn'', ''correct'', ''cost'', ''cotton'',
    ''couch'', ''country'', ''couple'', ''course'', ''cousin'', ''cover'', ''coyote'', ''crack'',
    ''cradle'', ''craft'', ''cram'', ''crane'', ''crash'', ''crater'', ''crawl'', ''crazy'',
    ''cream'', ''credit'', ''creek'', ''crew'', ''cricket'', ''crime'', ''crisp'', ''critic'',
    ''crop'', ''cross'', ''crouch'', ''crowd'', ''crucial'', ''cruel'', ''cruise'', ''crumble'',
    ''crunch'', ''crush'', ''cry'', ''crystal'', ''cube'', ''culture'', ''cup'', ''cupboard'',
    ''curious'', ''current'', ''curtain'', ''curve'', ''cushion'', ''custom'', ''cute'',
    ''cycle'', ''dad'', ''damage'', ''damp'', ''dance'', ''danger'', ''daring'', ''dash'',
    ''daughter'', ''dawn'', ''day'', ''deal'', ''debate'', ''debris'', ''decade'', ''december'',
    ''decide'', ''decline'', ''decorate'', ''decrease'', ''deer'', ''defense'', ''define'',
    ''defy'', ''degree'', ''delay'', ''deliver'', ''demand'', ''demise'', ''denial'', ''dentist'',
    ''deny'', ''depart'', ''depend'', ''deposit'', ''depth'', ''deputy'', ''derive'',
    ''describe'', ''desert'', ''design'', ''desk'', ''despair'', ''destroy'', ''detail'',
    ''detect'', ''develop'', ''device'', ''devote'', ''diagram'', ''dial'', ''diamond'',
    ''diary'', ''dice'', ''diesel'', ''diet'', ''differ'', ''digital'', ''dignity'', ''dilemma'',
    ''dinner'', ''dinosaur'', ''direct'', ''dirt'', ''disagree'', ''discover'', ''disease'',
    ''dish'', ''dismiss'', ''disorder'', ''display'', ''distance'', ''divert'', ''divide'',
    ''divorce'', ''dizzy'', ''doctor'', ''document'', ''dog'', ''doll'', ''dolphin'', ''domain'',
    ''donate'', ''donkey'', ''donor'', ''door'', ''dose'', ''double'', ''dove'', ''draft'',
    ''dragon'', ''drama'', ''drastic'', ''draw'', ''dream'', ''dress'', ''drift'', ''drill'',
    ''drink'', ''drip'', ''drive'', ''drop'', ''drum'', ''dry'', ''duck'', ''dumb'', ''dune'',
    ''during'', ''dust'', ''dutch'', ''duty'', ''dwarf'', ''dynamic'', ''eager'', ''eagle'',
    ''early'', ''earn'', ''earth'', ''easily'', ''east'', ''easy'', ''echo'', ''ecology'',
    ''economy'', ''edge'', ''edit'', ''educate'', ''effort'', ''egg'', ''eight'', ''either'',
    ''elbow'', ''elder'', ''electric'', ''elegant'', ''element'', ''elephant'', ''elevator'',
    ''elite'', ''else'', ''embark'', ''embody'', ''embrace'', ''emerge'', ''emotion'', ''employ'',
    ''empower'', ''empty'', ''enable'', ''enact'', ''end'', ''endless'', ''endorse'', ''enemy'',
    ''energy'', ''enforce'', ''engage'', ''engine'', ''enhance'', ''enjoy'', ''enlist'',
    ''enough'', ''enrich'', ''enroll'', ''ensure'', ''enter'', ''entire'', ''entry'',
    ''envelope'', ''episode'', ''equal'', ''equip'', ''era'', ''erase'', ''erode'', ''erosion'',
    ''error'', ''erupt'', ''escape'', ''essay'', ''essence'', ''estate'', ''eternal'', ''ethics'',
    ''evidence'', ''evil'', ''evoke'', ''evolve'', ''exact'', ''example'', ''excess'',
    ''exchange'', ''excite'', ''exclude'', ''excuse'', ''execute'', ''exercise'', ''exhaust'',
    ''exhibit'', ''exile'', ''exist'', ''exit'', ''exotic'', ''expand'', ''expect'', ''expire'',
    ''explain'', ''expose'', ''express'', ''extend'', ''extra'', ''eye'', ''eyebrow'', ''fabric'',
    ''face'', ''faculty'', ''fade'', ''faint'', ''faith'', ''fall'', ''false'', ''fame'',
    ''family'', ''famous'', ''fan'', ''fancy'', ''fantasy'', ''farm'', ''fashion'', ''fat'',
    ''fatal'', ''father'', ''fatigue'', ''fault'', ''favorite'', ''feature'', ''february'',
    ''federal'', ''fee'', ''feed'', ''feel'', ''female'', ''fence'', ''festival'', ''fetch'',
    ''fever'', ''few'', ''fiber'', ''fiction'', ''field'', ''figure'', ''file'', ''film'',
    ''filter'', ''final'', ''find'', ''fine'', ''finger'', ''finish'', ''fire'', ''firm'',
    ''first'', ''fiscal'', ''fish'', ''fit'', ''fitness'', ''fix'', ''flag'', ''flame'',
    ''flash'', ''flat'', ''flavor'', ''flee'', ''flight'', ''flip'', ''float'', ''flock'',
    ''floor'', ''flower'', ''fluid'', ''flush'', ''fly'', ''foam'', ''focus'', ''fog'', ''foil'',
    ''fold'', ''follow'', ''food'', ''foot'', ''force'', ''forest'', ''forget'', ''fork'',
    ''fortune'', ''forum'', ''forward'', ''fossil'', ''foster'', ''found'', ''fox'', ''fragile'',
    ''frame'', ''frequent'', ''fresh'', ''friend'', ''fringe'', ''frog'', ''front'', ''frost'',
    ''frown'', ''frozen'', ''fruit'', ''fuel'', ''fun'', ''funny'', ''furnace'', ''fury'',
    ''future'', ''gadget'', ''gain'', ''galaxy'', ''gallery'', ''game'', ''gap'', ''garage'',
    ''garbage'', ''garden'', ''garlic'', ''garment'', ''gas'', ''gasp'', ''gate'', ''gather'',
    ''gauge'', ''gaze'', ''general'', ''genius'', ''genre'', ''gentle'', ''genuine'', ''gesture'',
    ''ghost'', ''giant'', ''gift'', ''giggle'', ''ginger'', ''giraffe'', ''girl'', ''give'',
    ''glad'', ''glance'', ''glare'', ''glass'', ''glide'', ''glimpse'', ''globe'', ''gloom'',
    ''glory'', ''glove'', ''glow'', ''glue'', ''goat'', ''goddess'', ''gold'', ''good'',
    ''goose'', ''gorilla'', ''gospel'', ''gossip'', ''govern'', ''gown'', ''grab'', ''grace'',
    ''grain'', ''grant'', ''grape'', ''grass'', ''gravity'', ''great'', ''green'', ''grid'',
    ''grief'', ''grit'', ''grocery'', ''group'', ''grow'', ''grunt'', ''guard'', ''guess'',
    ''guide'', ''guilt'', ''guitar'', ''gun'', ''gym'', ''habit'', ''hair'', ''half'', ''hammer'',
    ''hamster'', ''hand'', ''happy'', ''harbor'', ''hard'', ''harsh'', ''harvest'', ''hat'',
    ''have'', ''hawk'', ''hazard'', ''head'', ''health'', ''heart'', ''heavy'', ''hedgehog'',
    ''height'', ''hello'', ''helmet'', ''help'', ''hen'', ''hero'', ''hidden'', ''high'',
    ''hill'', ''hint'', ''hip'', ''hire'', ''history'', ''hobby'', ''hockey'', ''hold'', ''hole'',
    ''holiday'', ''hollow'', ''home'', ''honey'', ''hood'', ''hope'', ''horn'', ''horror'',
    ''horse'', ''hospital'', ''host'', ''hotel'', ''hour'', ''hover'', ''hub'', ''huge'',
    ''human'', ''humble'', ''humor'', ''hundred'', ''hungry'', ''hunt'', ''hurdle'', ''hurry'',
    ''hurt'', ''husband'', ''hybrid'', ''ice'', ''icon'', ''idea'', ''identify'', ''idle'',
    ''ignore'', ''ill'', ''illegal'', ''illness'', ''image'', ''imitate'', ''immense'',
    ''immune'', ''impact'', ''impose'', ''improve'', ''impulse'', ''inch'', ''include'',
    ''income'', ''increase'', ''index'', ''indicate'', ''indoor'', ''industry'', ''infant'',
    ''inflict'', ''inform'', ''inhale'', ''inherit'', ''initial'', ''inject'', ''injury'',
    ''inmate'', ''inner'', ''innocent'', ''input'', ''inquiry'', ''insane'', ''insect'',
    ''inside'', ''inspire'', ''install'', ''intact'', ''interest'', ''into'', ''invest'',
    ''invite'', ''involve'', ''iron'', ''island'', ''isolate'', ''issue'', ''item'', ''ivory'',
    ''jacket'', ''jaguar'', ''jar'', ''jazz'', ''jealous'', ''jeans'', ''jelly'', ''jewel'',
    ''job'', ''join'', ''joke'', ''journey'', ''joy'', ''judge'', ''juice'', ''jump'', ''jungle'',
    ''junior'', ''junk'', ''just'', ''kangaroo'', ''keen'', ''keep'', ''ketchup'', ''key'',
    ''kick'', ''kid'', ''kidney'', ''kind'', ''kingdom'', ''kiss'', ''kit'', ''kitchen'',
    ''kite'', ''kitten'', ''kiwi'', ''knee'', ''knife'', ''knock'', ''know'', ''lab'', ''label'',
    ''labor'', ''ladder'', ''lady'', ''lake'', ''lamp'', ''language'', ''laptop'', ''large'',
    ''later'', ''latin'', ''laugh'', ''laundry'', ''lava'', ''law'', ''lawn'', ''lawsuit'',
    ''layer'', ''lazy'', ''leader'', ''leaf'', ''learn'', ''leave'', ''lecture'', ''left'',
    ''leg'', ''legal'', ''legend'', ''leisure'', ''lemon'', ''lend'', ''length'', ''lens'',
    ''leopard'', ''lesson'', ''letter'', ''level'', ''liar'', ''liberty'', ''library'',
    ''license'', ''life'', ''lift'', ''light'', ''like'', ''limb'', ''limit'', ''link'', ''lion'',
    ''liquid'', ''list'', ''little'', ''live'', ''lizard'', ''load'', ''loan'', ''lobster'',
    ''local'', ''lock'', ''logic'', ''lonely'', ''long'', ''loop'', ''lottery'', ''loud'',
    ''lounge'', ''love'', ''loyal'', ''lucky'', ''luggage'', ''lumber'', ''lunar'', ''lunch'',
    ''luxury'', ''lyrics'', ''machine'', ''mad'', ''magic'', ''magnet'', ''maid'', ''mail'',
    ''main'', ''major'', ''make'', ''mammal'', ''man'', ''manage'', ''mandate'', ''mango'',
    ''mansion'', ''manual'', ''maple'', ''marble'', ''march'', ''margin'', ''marine'', ''market'',
    ''marriage'', ''mask'', ''mass'', ''master'', ''match'', ''material'', ''math'', ''matrix'',
    ''matter'', ''maximum'', ''maze'', ''meadow'', ''mean'', ''measure'', ''meat'', ''mechanic'',
    ''medal'', ''media'', ''melody'', ''melt'', ''member'', ''memory'', ''mention'', ''menu'',
    ''mercy'', ''merge'', ''merit'', ''merry'', ''mesh'', ''message'', ''metal'', ''method'',
    ''middle'', ''midnight'', ''milk'', ''million'', ''mimic'', ''mind'', ''minimum'', ''minor'',
    ''minute'', ''miracle'', ''mirror'', ''misery'', ''miss'', ''mistake'', ''mix'', ''mixed'',
    ''mixture'', ''mobile'', ''model'', ''modify'', ''mom'', ''moment'', ''monitor'', ''monkey'',
    ''monster'', ''month'', ''moon'', ''moral'', ''more'', ''morning'', ''mosquito'', ''mother'',
    ''motion'', ''motor'', ''mountain'', ''mouse'', ''move'', ''movie'', ''much'', ''muffin'',
    ''mule'', ''multiply'', ''muscle'', ''museum'', ''mushroom'', ''music'', ''must'', ''mutual'',
    ''myself'', ''mystery'', ''myth'', ''naive'', ''name'', ''napkin'', ''narrow'', ''nasty'',
    ''nation'', ''nature'', ''near'', ''neck'', ''need'', ''negative'', ''neglect'', ''neither'',
    ''nephew'', ''nerve'', ''nest'', ''net'', ''network'', ''neutral'', ''never'', ''news'',
    ''next'', ''nice'', ''night'', ''noble'', ''noise'', ''nominee'', ''noodle'', ''normal'',
    ''north'', ''nose'', ''notable'', ''note'', ''nothing'', ''notice'', ''novel'', ''now'',
    ''nuclear'', ''number'', ''nurse'', ''nut'', ''oak'', ''obey'', ''object'', ''oblige'',
    ''obscure'', ''observe'', ''obtain'', ''obvious'', ''occur'', ''ocean'', ''october'',
    ''odor'', ''off'', ''offer'', ''office'', ''often'', ''oil'', ''okay'', ''old'', ''olive'',
    ''olympic'', ''omit'', ''once'', ''one'', ''onion'', ''online'', ''only'', ''open'',
    ''opera'', ''opinion'', ''oppose'', ''option'', ''orange'', ''orbit'', ''orchard'', ''order'',
    ''ordinary'', ''organ'', ''orient'', ''original'', ''orphan'', ''ostrich'', ''other'',
    ''outdoor'', ''outer'', ''output'', ''outside'', ''oval'', ''oven'', ''over'', ''own'',
    ''owner'', ''oxygen'', ''oyster'', ''ozone'', ''pact'', ''paddle'', ''page'', ''pair'',
    ''palace'', ''palm'', ''panda'', ''panel'', ''panic'', ''panther'', ''paper'', ''parade'',
    ''parent'', ''park'', ''parrot'', ''party'', ''pass'', ''patch'', ''path'', ''patient'',
    ''patrol'', ''pattern'', ''pause'', ''pave'', ''payment'', ''peace'', ''peanut'', ''pear'',
    ''peasant'', ''pelican'', ''pen'', ''penalty'', ''pencil'', ''people'', ''pepper'',
    ''perfect'', ''permit'', ''person'', ''pet'', ''phone'', ''photo'', ''phrase'', ''physical'',
    ''piano'', ''picnic'', ''picture'', ''piece'', ''pig'', ''pigeon'', ''pill'', ''pilot'',
    ''pink'', ''pioneer'', ''pipe'', ''pistol'', ''pitch'', ''pizza'', ''place'', ''planet'',
    ''plastic'', ''plate'', ''play'', ''please'', ''pledge'', ''pluck'', ''plug'', ''plunge'',
    ''poem'', ''poet'', ''point'', ''polar'', ''pole'', ''police'', ''pond'', ''pony'', ''pool'',
    ''popular'', ''portion'', ''position'', ''possible'', ''post'', ''potato'', ''pottery'',
    ''poverty'', ''powder'', ''power'', ''practice'', ''praise'', ''predict'', ''prefer'',
    ''prepare'', ''present'', ''pretty'', ''prevent'', ''price'', ''pride'', ''primary'',
    ''print'', ''priority'', ''prison'', ''private'', ''prize'', ''problem'', ''process'',
    ''produce'', ''profit'', ''program'', ''project'', ''promote'', ''proof'', ''property'',
    ''prosper'', ''protect'', ''proud'', ''provide'', ''public'', ''pudding'', ''pull'', ''pulp'',
    ''pulse'', ''pumpkin'', ''punch'', ''pupil'', ''puppy'', ''purchase'', ''purity'',
    ''purpose'', ''purse'', ''push'', ''put'', ''puzzle'', ''pyramid'', ''quality'', ''quantum'',
    ''quarter'', ''question'', ''quick'', ''quit'', ''quiz'', ''quote'', ''rabbit'', ''raccoon'',
    ''race'', ''rack'', ''radar'', ''radio'', ''rail'', ''rain'', ''raise'', ''rally'', ''ramp'',
    ''ranch'', ''random'', ''range'', ''rapid'', ''rare'', ''rate'', ''rather'', ''raven'',
    ''raw'', ''razor'', ''ready'', ''real'', ''reason'', ''rebel'', ''rebuild'', ''recall'',
    ''receive'', ''recipe'', ''record'', ''recycle'', ''reduce'', ''reflect'', ''reform'',
    ''refuse'', ''region'', ''regret'', ''regular'', ''reject'', ''relax'', ''release'',
    ''relief'', ''rely'', ''remain'', ''remember'', ''remind'', ''remove'', ''render'', ''renew'',
    ''rent'', ''reopen'', ''repair'', ''repeat'', ''replace'', ''report'', ''require'',
    ''rescue'', ''resemble'', ''resist'', ''resource'', ''response'', ''result'', ''retire'',
    ''retreat'', ''return'', ''reunion'', ''reveal'', ''review'', ''reward'', ''rhythm'', ''rib'',
    ''ribbon'', ''rice'', ''rich'', ''ride'', ''ridge'', ''rifle'', ''right'', ''rigid'',
    ''ring'', ''riot'', ''ripple'', ''risk'', ''ritual'', ''rival'', ''river'', ''road'',
    ''roast'', ''robot'', ''robust'', ''rocket'', ''romance'', ''roof'', ''rookie'', ''room'',
    ''rose'', ''rotate'', ''rough'', ''round'', ''route'', ''royal'', ''rubber'', ''rude'',
    ''rug'', ''rule'', ''run'', ''runway'', ''rural'', ''sad'', ''saddle'', ''sadness'', ''safe'',
    ''sail'', ''salad'', ''salmon'', ''salon'', ''salt'', ''salute'', ''same'', ''sample'',
    ''sand'', ''satisfy'', ''satoshi'', ''sauce'', ''sausage'', ''save'', ''say'', ''scale'',
    ''scan'', ''scare'', ''scatter'', ''scene'', ''scheme'', ''school'', ''science'',
    ''scissors'', ''scorpion'', ''scout'', ''scrap'', ''screen'', ''script'', ''scrub'', ''sea'',
    ''search'', ''season'', ''seat'', ''second'', ''secret'', ''section'', ''security'', ''seed'',
    ''seek'', ''segment'', ''select'', ''sell'', ''seminar'', ''senior'', ''sense'', ''sentence'',
    ''series'', ''service'', ''session'', ''settle'', ''setup'', ''seven'', ''shadow'', ''shaft'',
    ''shallow'', ''share'', ''shed'', ''shell'', ''sheriff'', ''shield'', ''shift'', ''shine'',
    ''ship'', ''shiver'', ''shock'', ''shoe'', ''shoot'', ''shop'', ''short'', ''shoulder'',
    ''shove'', ''shrimp'', ''shrug'', ''shuffle'', ''shy'', ''sibling'', ''sick'', ''side'',
    ''siege'', ''sight'', ''sign'', ''silent'', ''silk'', ''silly'', ''silver'', ''similar'',
    ''simple'', ''since'', ''sing'', ''siren'', ''sister'', ''situate'', ''six'', ''size'',
    ''skate'', ''sketch'', ''ski'', ''skill'', ''skin'', ''skirt'', ''skull'', ''slab'', ''slam'',
    ''sleep'', ''slender'', ''slice'', ''slide'', ''slight'', ''slim'', ''slogan'', ''slot'',
    ''slow'', ''slush'', ''small'', ''smart'', ''smile'', ''smoke'', ''smooth'', ''snack'',
    ''snake'', ''snap'', ''sniff'', ''snow'', ''soap'', ''soccer'', ''social'', ''sock'',
    ''soda'', ''soft'', ''solar'', ''soldier'', ''solid'', ''solution'', ''solve'', ''someone'',
    ''song'', ''soon'', ''sorry'', ''sort'', ''soul'', ''sound'', ''soup'', ''source'', ''south'',
    ''space'', ''spare'', ''spatial'', ''spawn'', ''speak'', ''special'', ''speed'', ''spell'',
    ''spend'', ''sphere'', ''spice'', ''spider'', ''spike'', ''spin'', ''spirit'', ''split'',
    ''spoil'', ''sponsor'', ''spoon'', ''sport'', ''spot'', ''spray'', ''spread'', ''spring'',
    ''spy'', ''square'', ''squeeze'', ''squirrel'', ''stable'', ''stadium'', ''staff'', ''stage'',
    ''stairs'', ''stamp'', ''stand'', ''start'', ''state'', ''stay'', ''steak'', ''steel'',
    ''stem'', ''step'', ''stereo'', ''stick'', ''still'', ''sting'', ''stock'', ''stomach'',
    ''stone'', ''stool'', ''story'', ''stove'', ''strategy'', ''street'', ''strike'', ''strong'',
    ''struggle'', ''student'', ''stuff'', ''stumble'', ''style'', ''subject'', ''submit'',
    ''subway'', ''success'', ''such'', ''sudden'', ''suffer'', ''sugar'', ''suggest'', ''suit'',
    ''summer'', ''sun'', ''sunny'', ''sunset'', ''super'', ''supply'', ''supreme'', ''sure'',
    ''surface'', ''surge'', ''surprise'', ''surround'', ''survey'', ''suspect'', ''sustain'',
    ''swallow'', ''swamp'', ''swap'', ''swarm'', ''swear'', ''sweet'', ''swift'', ''swim'',
    ''swing'', ''switch'', ''sword'', ''symbol'', ''symptom'', ''syrup'', ''system'', ''table'',
    ''tackle'', ''tag'', ''tail'', ''talent'', ''talk'', ''tank'', ''tape'', ''target'', ''task'',
    ''taste'', ''tattoo'', ''taxi'', ''teach'', ''team'', ''tell'', ''ten'', ''tenant'',
    ''tennis'', ''tent'', ''term'', ''test'', ''text'', ''thank'', ''that'', ''theme'', ''then'',
    ''theory'', ''there'', ''they'', ''thing'', ''this'', ''thought'', ''three'', ''thrive'',
    ''throw'', ''thumb'', ''thunder'', ''ticket'', ''tide'', ''tiger'', ''tilt'', ''timber'',
    ''time'', ''tiny'', ''tip'', ''tired'', ''tissue'', ''title'', ''toast'', ''tobacco'',
    ''today'', ''toddler'', ''toe'', ''together'', ''toilet'', ''token'', ''tomato'',
    ''tomorrow'', ''tone'', ''tongue'', ''tonight'', ''tool'', ''tooth'', ''top'', ''topic'',
    ''topple'', ''torch'', ''tornado'', ''tortoise'', ''toss'', ''total'', ''tourist'',
    ''toward'', ''tower'', ''town'', ''toy'', ''track'', ''trade'', ''traffic'', ''tragic'',
    ''train'', ''transfer'', ''trap'', ''trash'', ''travel'', ''tray'', ''treat'', ''tree'',
    ''trend'', ''trial'', ''tribe'', ''trick'', ''trigger'', ''trim'', ''trip'', ''trophy'',
    ''trouble'', ''truck'', ''true'', ''truly'', ''trumpet'', ''trust'', ''truth'', ''try'',
    ''tube'', ''tuition'', ''tumble'', ''tuna'', ''tunnel'', ''turkey'', ''turn'', ''turtle'',
    ''twelve'', ''twenty'', ''twice'', ''twin'', ''twist'', ''two'', ''type'', ''typical'',
    ''ugly'', ''umbrella'', ''unable'', ''unaware'', ''uncle'', ''uncover'', ''under'', ''undo'',
    ''unfair'', ''unfold'', ''unhappy'', ''uniform'', ''unique'', ''unit'', ''universe'',
    ''unknown'', ''unlock'', ''until'', ''unusual'', ''unveil'', ''update'', ''upgrade'',
    ''uphold'', ''upon'', ''upper'', ''upset'', ''urban'', ''urge'', ''usage'', ''use'', ''used'',
    ''useful'', ''useless'', ''usual'', ''utility'', ''vacant'', ''vacuum'', ''vague'', ''valid'',
    ''valley'', ''valve'', ''van'', ''vanish'', ''vapor'', ''various'', ''vast'', ''vault'',
    ''vehicle'', ''velvet'', ''vendor'', ''venture'', ''venue'', ''verb'', ''verify'',
    ''version'', ''very'', ''vessel'', ''veteran'', ''viable'', ''vibrant'', ''vicious'',
    ''victory'', ''video'', ''view'', ''village'', ''vintage'', ''violin'', ''virtual'',
    ''virus'', ''visa'', ''visit'', ''visual'', ''vital'', ''vivid'', ''vocal'', ''voice'',
    ''void'', ''volcano'', ''volume'', ''vote'', ''voyage'', ''wage'', ''wagon'', ''wait'',
    ''walk'', ''wall'', ''walnut'', ''want'', ''warfare'', ''warm'', ''warrior'', ''wash'',
    ''wasp'', ''waste'', ''water'', ''wave'', ''way'', ''wealth'', ''weapon'', ''wear'',
    ''weasel'', ''weather'', ''web'', ''wedding'', ''weekend'', ''weird'', ''welcome'', ''west'',
    ''wet'', ''whale'', ''what'', ''wheat'', ''wheel'', ''when'', ''where'', ''whip'',
    ''whisper'', ''wide'', ''width'', ''wife'', ''wild'', ''will'', ''win'', ''window'', ''wine'',
    ''wing'', ''wink'', ''winner'', ''winter'', ''wire'', ''wisdom'', ''wise'', ''wish'',
    ''witness'', ''wolf'', ''woman'', ''wonder'', ''wood'', ''wool'', ''word'', ''work'',
    ''world'', ''worry'', ''worth'', ''wrap'', ''wreck'', ''wrestle'', ''wrist'', ''write'',
    ''wrong'', ''yard'', ''year'', ''yellow'', ''you'', ''young'', ''youth'', ''zebra'', ''zero'',
    ''zone'', ''zoo'']"

lemma WORDS_ascending: "ascending WORDS"
  unfolding WORDS_def by simp

lemma length_WORDS: "length WORDS = 2048"
  unfolding WORDS_def by simp

lemma WORDS_0: "WORDS ! 0 = ''abandon''"
  unfolding WORDS_def by simp

text \<open>Every word consists of letters: bit 6 of the character code is set, unlike in any white space.\<close>

lemma WORDS_letters: "list_all (\<lambda>w. w \<noteq> [] \<and> list_all digit6 w) WORDS"
  unfolding WORDS_def by simp

section \<open>Searching\<close>

lemma str_lt_trans: "str_lt a b \<Longrightarrow> str_lt b c \<Longrightarrow> str_lt a c"
proof (induction a b arbitrary: c rule: str_lt.induct)
  case (2 d t)
  then show ?case by (cases c) auto
next
  case (3 c s d t e)
  then show ?case by (cases e) (auto split: if_splits)
qed simp

lemma str_lt_irrefl [simp]: "\<not> str_lt a a"
  by (induction a) auto

lemma str_lt_asym: "str_lt a b \<Longrightarrow> \<not> str_lt b a"
  using str_lt_trans str_lt_irrefl by blast

lemma ascending_sorted: "ascending xs \<Longrightarrow> sorted_wrt str_lt xs"
  by (induction xs rule: ascending.induct) (auto intro: str_lt_trans)

lemma binary_search_loop_sound:
  "binary_search_loop xs w left right = Some i \<Longrightarrow> right \<le> length xs \<Longrightarrow> i < length xs \<and> xs ! i = w"
proof (induction xs w left right rule: binary_search_loop.induct)
  case (1 xs w left right)
  from 1(3) have lt: "left < right" by (subst (asm) binary_search_loop.simps) (auto split: if_splits)
  let ?m = "left + (right - left) div 2"
  have m: "?m < right" using lt by linarith
  from 1(3) lt show ?case
    using 1(1) [OF lt refl] 1(2) [OF lt refl] m 1(4)
    by (subst (asm) binary_search_loop.simps) (auto simp: Let_def split: if_splits)
qed

lemma binary_search_loop_complete:
  "sorted_wrt str_lt xs \<Longrightarrow> right \<le> length xs \<Longrightarrow> left \<le> i \<Longrightarrow> i < right \<Longrightarrow> xs ! i = w \<Longrightarrow>
   \<exists>j. binary_search_loop xs w left right = Some j"
proof (induction xs w left right rule: binary_search_loop.induct)
  case (1 xs w left right)
  have lt: "left < right" using 1 by linarith
  define m where "m = left + (right - left) div 2"
  have m: "m < right" "left \<le> m" using lt by (auto simp: m_def)
  have lo: "str_lt (xs ! a) (xs ! b)" if "a < b" "b < right" for a b
    using sorted_wrt_nth_less [OF 1(3)] that 1(4) by simp
  consider "i = m" | "m < i" | "i < m" by linarith
  then have "xs ! m = w \<or> (xs ! m \<noteq> w \<and> str_lt (xs ! m) w \<and> m + 1 \<le> i) \<or> (xs ! m \<noteq> w \<and> \<not> str_lt (xs ! m) w \<and> i < m)"
    using lo [of m i] lo [of i m] 1(6,7) m str_lt_asym by (metis Suc_eq_plus1 Suc_leI str_lt_irrefl)
  then show ?case
    using 1(1) [OF lt m_def] 1(2) [OF lt m_def] 1(3-7) lt m
    by (subst binary_search_loop.simps) (auto simp: m_def [symmetric] Let_def)
qed

lemma WORDS_sorted: "sorted_wrt str_lt WORDS"
  by (rule ascending_sorted [OF WORDS_ascending])

lemma WORDS_nth_inj: "i < 2048 \<Longrightarrow> j < 2048 \<Longrightarrow> WORDS ! i = WORDS ! j \<Longrightarrow> i = j"
  using sorted_wrt_nth_less [OF WORDS_sorted] length_WORDS
  by (metis linorder_neqE_nat str_lt_irrefl)

text \<open>The search finds exactly the words of the list, at their position.\<close>

lemma binary_search_WORDS: "binary_search WORDS w = Some i \<longleftrightarrow> i < 2048 \<and> WORDS ! i = w"
proof
  show "i < 2048 \<and> WORDS ! i = w" if "binary_search WORDS w = Some i"
    using binary_search_loop_sound [of WORDS w 0 "length WORDS" i] that length_WORDS
    by (simp add: binary_search_def)
next
  assume i: "i < 2048 \<and> WORDS ! i = w"
  then obtain j where j: "binary_search WORDS w = Some j"
    using binary_search_loop_complete [OF WORDS_sorted, of "length WORDS" 0 i w] length_WORDS
    by (auto simp: binary_search_def)
  then have "j < 2048 \<and> WORDS ! j = w"
    using binary_search_loop_sound [of WORDS w 0 "length WORDS" j] length_WORDS by (simp add: binary_search_def)
  with i j show "binary_search WORDS w = Some i" using WORDS_nth_inj by metis
qed

end
