(* ===== verification/Mnemonic.thy ===== *)
theory Mnemonic
  imports Mnemonic_Words
begin

text \<open>
  Mnemonic phrases (\<^verbatim>\<open>tools/wallet/src/core/mnemonic.rs\<close>): the 11-bit reader and writer, the phrase of
  an entropy with its checksum, the parser of a phrase, and the backup file. SHA-256 is a parameter.
  The bit order of both directions is stated over the big-endian bit string of a byte list.
\<close>

unbundle bit_operations_syntax

section \<open>The model\<close>

record Mnemonic =
  mnemonic_words :: "string list"

definition fmt_mnemonic :: "Mnemonic \<Rightarrow> string" where
  "fmt_mnemonic self = str_join '' '' (mnemonic_words self)"

subsection \<open>Reader\<close>

record U11BitReader =
  reader_bytes :: "u8 list"
  position :: u16

definition U11BitReader_new :: "u8 list \<Rightarrow> U11BitReader" where
  "U11BitReader_new bs = \<lparr>reader_bytes = bs, position = 0\<rparr>"

fun read_bits :: "u8 list \<Rightarrow> nat list \<Rightarrow> u16 \<Rightarrow> u16 result" where
  "read_bits bs [] value = Inr value"
| "read_bits bs (i # is) value =
     (if i div 8 < length bs then
        let byte = bs ! (i div 8);
            shift = 7 - i mod 8;
            b = (ucast (drop_bit shift byte) :: u16) AND 1
        in read_bits bs is ((push_bit 1 value) OR b)
      else Inl (Panic ''index out of bounds''))"

definition read_u11 :: "U11BitReader \<Rightarrow> (u16 \<times> U11BitReader) result" where
  "read_u11 self =
     (let start_position = position self; end_position = start_position + 11 in
      and_then (read_bits (reader_bytes self) [unat start_position..<unat end_position] 0) (\<lambda>value.
      Inr (value, self\<lparr>position := end_position\<rparr>)))"

subsection \<open>Writer\<close>

record U11BitWriter =
  writer_bytes :: "u8 list"
  unused :: u16
  buffer :: u16

definition MASKS :: "u16 list" where
  "MASKS = [0, 1, 3, 7, 15, 31, 63, 127]"

definition U11BitWriter_new :: U11BitWriter where
  "U11BitWriter_new = \<lparr>writer_bytes = [], unused = 8, buffer = 0\<rparr>"

text \<open>The \<^verbatim>\<open>while\<close> loop that emits full bytes.\<close>

function write_full_bytes :: "u16 \<Rightarrow> u16 \<Rightarrow> u8 list \<Rightarrow> u16 \<times> u8 list" where
  "write_full_bytes value nbits_remaining bs =
     (if 8 \<le> nbits_remaining
      then write_full_bytes value (nbits_remaining - 8)
             (bs @ [ucast (drop_bit (unat (nbits_remaining - 8)) value)])
      else (nbits_remaining, bs))"
  by pat_completeness auto
termination
  by (relation "measure (\<lambda>(value, n, bs). unat n)") (auto simp: unat_sub word_le_nat_alt)

declare write_full_bytes.simps [simp del]

text \<open>Both indices into \<^verbatim>\<open>MASKS\<close> are below 8, by the guard and by the exit of the loop.\<close>

definition write_u11 :: "u16 \<Rightarrow> U11BitWriter \<Rightarrow> U11BitWriter" where
  "write_u11 value self =
     (let (nbits_remaining, self) =
        (if unused self \<le> 11 \<and> unused self < 8 then
           let excess_bits = 11 - unused self;
               buf = (push_bit (unat (unused self)) (buffer self)) OR
                     (drop_bit (unat excess_bits) value AND MASKS ! unat (unused self))
           in (excess_bits,
               self\<lparr>writer_bytes := writer_bytes self @ [ucast buf], unused := 8, buffer := 0\<rparr>)
         else (11, self));
          (nbits_remaining, bs) = write_full_bytes value nbits_remaining (writer_bytes self);
          self = self\<lparr>writer_bytes := bs\<rparr>
      in if 0 < nbits_remaining
         then self\<lparr>buffer := (push_bit (unat nbits_remaining) (buffer self)) OR
                               (value AND MASKS ! unat nbits_remaining),
                   unused := unused self - nbits_remaining\<rparr>
         else self)"

definition write_buffer :: "U11BitWriter \<Rightarrow> U11BitWriter" where
  "write_buffer self =
     (if unused self \<noteq> 8 then self\<lparr>writer_bytes := writer_bytes self @ [ucast (buffer self)]\<rparr> else self)"

subsection \<open>Phrases\<close>

fun parse_words :: "string list \<Rightarrow> string list \<Rightarrow> U11BitWriter \<Rightarrow> (string list \<times> U11BitWriter) result" where
  "parse_words [] mnemonic bit_writer = Inr (mnemonic, bit_writer)"
| "parse_words (word # ws) mnemonic bit_writer =
     (case binary_search WORDS word of
        Some idx \<Rightarrow> parse_words ws (mnemonic @ [WORDS ! idx]) (write_u11 (of_nat idx) bit_writer)
      | None \<Rightarrow> Inl (Err ''Mnemonic contains an unknown word''))"

definition Mnemonic_from :: "(u8 list \<Rightarrow> u8 list) \<Rightarrow> string \<Rightarrow> Mnemonic result" where
  "Mnemonic_from sha256 s =
     (let ws = str_split CHR '' '' s; len = length ws in
      if \<not> (12 \<le> len \<and> len \<le> 24) \<or> len mod 3 \<noteq> 0
      then Inl (Err ''Mnemonic must have a word count of the following lengths: 24, 21, 18, 15, 12'')
      else
        and_then (parse_words ws [] U11BitWriter_new) (\<lambda>(mnemonic, bit_writer).
        let bs = writer_bytes (write_buffer bit_writer) in
        if bs = [] then Inl (Panic ''internal error: entered unreachable code'')
        else
          let checksum = last bs; entropy = butlast bs;
              computed_checksum = drop_bit (8 - len div 3) (sha256 entropy ! 0)
          in if checksum \<noteq> computed_checksum then Inl (Err ''Mnemonic checksum failed'')
             else Inr \<lparr>mnemonic_words = mnemonic\<rparr>))"

fun read_words :: "nat \<Rightarrow> U11BitReader \<Rightarrow> string list result" where
  "read_words 0 bit_reader = Inr []"
| "read_words (Suc n) bit_reader =
     and_then (read_u11 bit_reader) (\<lambda>(idx, bit_reader).
     if unat idx < length WORDS
     then and_then (read_words n bit_reader) (\<lambda>ws. Inr (WORDS ! unat idx # ws))
     else Inl (Panic ''index out of bounds''))"

definition Mnemonic_new :: "(u8 list \<Rightarrow> u8 list) \<Rightarrow> u8 list \<Rightarrow> Mnemonic result" where
  "Mnemonic_new sha256 entropy =
     (let len = length entropy in
      if \<not> (16 \<le> len \<and> len \<le> 32) \<or> len mod 4 \<noteq> 0
      then Inl (Err ''Entropy data for mnemonic must have one of the following byte lengths: 32, 28, 24, 20, 16'')
      else
        let checksum = sha256 entropy ! 0;
            bit_reader = U11BitReader_new (entropy @ [checksum])
        in and_then (read_words (len * 3 div 4) bit_reader) (\<lambda>ws. Inr \<lparr>mnemonic_words = ws\<rparr>))"

subsection \<open>Backup file\<close>

text \<open>A path holds a file or something else, such as a directory; \<open>can_create\<close> tells which paths the
  operating system lets the program create or truncate.\<close>

datatype fs_node = FsFile string | FsOther

definition Mnemonic_write ::
  "(string \<Rightarrow> bool) \<Rightarrow> Mnemonic \<Rightarrow> string \<Rightarrow> (string \<rightharpoonup> fs_node) \<Rightarrow> (string \<rightharpoonup> fs_node) result" where
  "Mnemonic_write can_create self path fs =
     (if fs path = Some FsOther then Inl (Err ''Output file for mnemonic backup is reserved'')
      else if can_create path then Inr (fs(path \<mapsto> FsFile (fmt_mnemonic self)))
      else Inl (Err ''io error''))"

definition Mnemonic_read :: "(u8 list \<Rightarrow> u8 list) \<Rightarrow> string \<Rightarrow> (string \<rightharpoonup> fs_node) \<Rightarrow> Mnemonic result" where
  "Mnemonic_read sha256 path fs =
     (case fs path of
        Some (FsFile s) \<Rightarrow> Mnemonic_from sha256 s
      | _ \<Rightarrow> Inl (Err ''Input file for mnemonic backup does not exist''))"

section \<open>Bit strings\<close>

text \<open>The lowest \<open>n\<close> bits of a word, most significant first, and the bit string of a byte list.\<close>

definition word_bits :: "nat \<Rightarrow> 'a::len word \<Rightarrow> bool list" where
  "word_bits n w = map (\<lambda>j. bit w (n - 1 - j)) [0..<n]"

definition bytes_bits :: "u8 list \<Rightarrow> bool list" where
  "bytes_bits bs = concat (map (word_bits 8) bs)"

lemma length_word_bits [simp]: "length (word_bits n w) = n"
  by (simp add: word_bits_def)

lemma word_bits_0 [simp]: "word_bits 0 w = []"
  by (simp add: word_bits_def)

lemma word_bits_Suc: "word_bits (Suc n) w = bit w n # word_bits n w"
  by (simp add: word_bits_def upt_conv_Cons map_Suc_upt [symmetric] del: upt_Suc)

lemma word_bits_Suc_snoc: "word_bits (Suc n) w = word_bits n (drop_bit 1 w) @ [bit w 0]"
  by (induction n) (simp_all add: word_bits_Suc bit_simps)

lemma word_bits_eq_iff: "word_bits n v = word_bits n w \<longleftrightarrow> (\<forall>j < n. bit v j = bit w j)"
  by (induction n) (auto simp: word_bits_Suc less_Suc_eq)

lemma take_word_bits: "k \<le> n \<Longrightarrow> take k (word_bits n w) = word_bits k (drop_bit (n - k) w)"
proof (induction k arbitrary: n)
  case (Suc k)
  then obtain m where "n = Suc m" by (cases n) auto
  with Suc show ?case by (simp add: word_bits_Suc bit_simps)
qed simp

lemma word_bits_split: "k \<le> n \<Longrightarrow> word_bits n w = word_bits (n - k) (drop_bit k w) @ word_bits k w"
proof (induction n)
  case (Suc n)
  then show ?case by (cases "k = Suc n") (auto simp: word_bits_Suc Suc_diff_le bit_simps)
qed simp

lemma bytes_bits_simps [simp]: "bytes_bits [] = []"
  "bytes_bits (b # bs) = word_bits 8 b @ bytes_bits bs" "bytes_bits (as @ bs) = bytes_bits as @ bytes_bits bs"
  by (simp_all add: bytes_bits_def)

lemma length_bytes_bits [simp]: "length (bytes_bits bs) = 8 * length bs"
  by (induction bs) simp_all

lemma word_bits_8_inj: "word_bits 8 (b :: u8) = word_bits 8 c \<Longrightarrow> b = c"
  by (rule bit_word_eqI) (simp add: word_bits_eq_iff)

lemma bytes_bits_inj: "length as = length bs \<Longrightarrow> bytes_bits as = bytes_bits bs \<Longrightarrow> as = bs"
  by (induction as bs rule: list_induct2) (auto dest: word_bits_8_inj)

lemma nth_bytes_bits: "i < 8 * length bs \<Longrightarrow> bytes_bits bs ! i = bit (bs ! (i div 8)) (7 - i mod 8)"
proof (induction bs arbitrary: i)
  case (Cons b bs)
  show ?case
  proof (cases "i < 8")
    case True
    then show ?thesis by (simp add: nth_append word_bits_def)
  next
    case False
    then obtain j where j: "i = j + 8" by (metis add.commute le_Suc_ex not_less)
    then have "i div 8 = Suc (j div 8)" "i mod 8 = j mod 8" by simp_all
    with j show ?thesis using Cons by (simp add: nth_append)
  qed
qed simp

section \<open>Reader\<close>

lemma word_bits_push:
  assumes "n < 16"
  shows "word_bits (Suc n) ((push_bit 1 (v :: u16)) OR (ucast (drop_bit k (b :: u8)) AND 1)) = word_bits n v @ [bit b k]"
proof -
  have "word_bits n (drop_bit 1 ((push_bit 1 v) OR (ucast (drop_bit k b) AND 1))) = word_bits n v"
    unfolding word_bits_eq_iff using assms
    by (auto simp: bit_simps bit_double_iff mult.commute [of v 2])
  then show ?thesis by (simp add: word_bits_Suc_snoc bit_simps bit_double_iff mult.commute [of v 2])
qed

lemma read_bits_value:
  "n + length is \<le> 16 \<Longrightarrow> \<forall>i \<in> set is. i < 8 * length bs \<Longrightarrow>
   \<exists>v'. read_bits bs is v = Inr v' \<and> word_bits (n + length is) v' = word_bits n v @ map ((!) (bytes_bits bs)) is"
proof (induction "is" arbitrary: n v)
  case (Cons i "is")
  let ?v = "(push_bit 1 v) OR ((ucast (drop_bit (7 - i mod 8) (bs ! (i div 8))) :: u16) AND 1)"
  have i: "i div 8 < length bs" using Cons(3) by auto
  obtain v' where v': "read_bits bs is ?v = Inr v'"
      "word_bits (Suc n + length is) v' = word_bits (Suc n) ?v @ map ((!) (bytes_bits bs)) is"
    using Cons.IH [of "Suc n" ?v] Cons(2,3) by auto
  have "word_bits (Suc n) ?v = word_bits n v @ [bytes_bits bs ! i]"
    using word_bits_push [of n v "7 - i mod 8" "bs ! (i div 8)"] Cons(2,3) by (simp add: nth_bytes_bits)
  with v' i show ?case by (simp add: Let_def)
qed simp

lemma word_bits_5_0: "word_bits 5 (0 :: u16) = replicate 5 False"
  by (simp add: word_bits_def numeral_eq_Suc)

lemma word_bits_11_less: "word_bits 16 (v :: u16) = replicate 5 False @ bs \<Longrightarrow> v < 2048 \<and> word_bits 11 v = bs"
proof -
  assume a: "word_bits 16 v = replicate 5 False @ bs"
  then have w: "word_bits 5 (drop_bit 11 v) = word_bits 5 (0 :: u16)" "word_bits 11 v = bs"
    using word_bits_split [of 11 16 v] by (simp_all add: word_bits_5_0)
  then have b: "word_bits 11 v = bs" "\<forall>j < 5. \<not> bit v (11 + j)"
    unfolding word_bits_eq_iff by (auto simp: bit_simps)
  have "\<not> bit v (11 + j)" for j using b(2) bit_imp_le_length [of v "11 + j"] by (cases "j < 5") auto
  then have "drop_bit 11 v = 0" by (intro bit_word_eqI) (simp add: bit_simps)
  then have "unat v div 2 ^ 11 = 0" by (metis unat_drop_bit_eq drop_bit_eq_div unsigned_0)
  then show ?thesis using b(1) by (simp add: word_less_nat_alt)
qed

text \<open>One read returns the next eleven bits and advances by eleven.\<close>

lemma read_u11_value:
  assumes p: "unat (position r) + 11 \<le> 8 * length (reader_bytes r)" "length (reader_bytes r) \<le> 33"
  shows "\<exists>v. read_u11 r = Inr (v, r\<lparr>position := position r + 11\<rparr>) \<and> v < 2048 \<and>
    word_bits 11 v = take 11 (drop (unat (position r)) (bytes_bits (reader_bytes r))) \<and>
    unat (position r + 11) = unat (position r) + 11"
proof -
  let ?p = "unat (position r)" and ?bs = "reader_bytes r"
  have pos: "unat (position r + 11) = ?p + 11" using p by (subst unat_add_lem [THEN iffD1]) simp_all
  obtain v where v: "read_bits ?bs [?p..<?p + 11] 0 = Inr v"
      "word_bits 16 v = word_bits 5 (0 :: u16) @ map ((!) (bytes_bits ?bs)) [?p..<?p + 11]"
    using read_bits_value [of 5 "[?p..<?p + 11]" ?bs 0] p(1) by auto
  have "map ((!) (bytes_bits ?bs)) [?p..<?p + 11] = take 11 (drop ?p (bytes_bits ?bs))"
    using p(1) by (intro nth_equalityI) simp_all
  with v word_bits_11_less show ?thesis
    unfolding read_u11_def Let_def pos by (auto simp: word_bits_5_0)
qed

fun chunks11 :: "nat \<Rightarrow> bool list \<Rightarrow> bool list list" where
  "chunks11 0 bs = []"
| "chunks11 (Suc n) bs = take 11 bs # chunks11 n (drop 11 bs)"

lemma read_words_value:
  "unat (position r) + 11 * n \<le> 8 * length (reader_bytes r) \<Longrightarrow> length (reader_bytes r) \<le> 33 \<Longrightarrow>
   \<exists>vs :: u16 list. read_words n r = Inr (map (\<lambda>v. WORDS ! unat v) vs) \<and> length vs = n \<and> (\<forall>v \<in> set vs. v < 2048) \<and>
     concat (map (word_bits 11) vs) = take (11 * n) (drop (unat (position r)) (bytes_bits (reader_bytes r)))"
proof (induction n arbitrary: r)
  case (Suc n)
  obtain v where v: "read_u11 r = Inr (v, r\<lparr>position := position r + 11\<rparr>)" "v < 2048"
      "word_bits 11 v = take 11 (drop (unat (position r)) (bytes_bits (reader_bytes r)))"
      "unat (position r + 11) = unat (position r) + 11"
    using read_u11_value [of r] Suc.prems by auto
  obtain vs :: "u16 list" where vs: "read_words n (r\<lparr>position := position r + 11\<rparr>) = Inr (map (\<lambda>v. WORDS ! unat v) vs)"
      "length vs = n" "\<forall>v \<in> set vs. v < 2048"
      "concat (map (word_bits 11) vs) = take (11 * n) (drop (unat (position r) + 11) (bytes_bits (reader_bytes r)))"
    using Suc.IH [of "r\<lparr>position := position r + 11\<rparr>"] Suc.prems v(4) by (auto simp: add.assoc)
  have "unat v < length WORDS" using v(2) by (simp add: length_WORDS word_less_nat_alt)
  moreover have "take (11 * Suc n) (drop p bs) = take 11 (drop p bs) @ take (11 * n) (drop (p + 11) bs)" for p and bs :: "bool list"
    by (simp add: take_add add.commute)
  ultimately show ?case using v vs by (intro exI [of _ "v # vs"]) (simp del: mult_Suc_right)
qed simp

section \<open>Writer\<close>

definition pending :: "U11BitWriter \<Rightarrow> bool list" where
  "pending w = word_bits (8 - unat (unused w)) (buffer w)"

definition written :: "U11BitWriter \<Rightarrow> bool list" where
  "written w = bytes_bits (writer_bytes w) @ pending w"

text \<open>The invariant the source states as a comment, strengthened: the unused count is between 1 and 8 and the
  buffer holds nothing above its used bits.\<close>

definition writer_inv :: "U11BitWriter \<Rightarrow> bool" where
  "writer_inv w = (1 \<le> unused w \<and> unused w \<le> 8 \<and> (\<forall>j < 16. 8 - unat (unused w) \<le> j \<longrightarrow> \<not> bit (buffer w) j))"

lemma u16_cases_1_8:
  assumes "1 \<le> (u :: u16)" "u \<le> 8"
  shows "u = 1 \<or> u = 2 \<or> u = 3 \<or> u = 4 \<or> u = 5 \<or> u = 6 \<or> u = 7 \<or> u = 8"
proof -
  have "unat u \<in> {1..8}" using assms by (simp add: word_le_nat_alt)
  then have "unat u \<in> {1, 2, 3, 4, 5, 6, 7, 8}" by auto
  then show ?thesis by (auto simp: word_unat_eq_iff)
qed

lemma write_full_bytes_eval:
  "n < 8 \<Longrightarrow> write_full_bytes v n bs = (n, bs)"
  "8 \<le> n \<Longrightarrow> n < 16 \<Longrightarrow> write_full_bytes v n bs = (n - 8, bs @ [ucast (drop_bit (unat (n - 8)) v)])"
proof -
  show a: "n < 8 \<Longrightarrow> write_full_bytes v n bs = (n, bs)" for n bs
    using leD by (subst write_full_bytes.simps) auto
  assume n: "8 \<le> n" "n < 16"
  then have "n - 8 < 8" by (simp add: word_less_nat_alt word_le_nat_alt unat_sub)
  then show "write_full_bytes v n bs = (n - 8, bs @ [ucast (drop_bit (unat (n - 8)) v)])"
    using n a by (subst write_full_bytes.simps) simp
qed

lemma MASKS_bits:
  "bit (1 :: int) j \<longleftrightarrow> j < 1" "bit (3 :: int) j \<longleftrightarrow> j < 2" "bit (7 :: int) j \<longleftrightarrow> j < 3" "bit (15 :: int) j \<longleftrightarrow> j < 4"
  "bit (31 :: int) j \<longleftrightarrow> j < 5" "bit (63 :: int) j \<longleftrightarrow> j < 6" "bit (127 :: int) j \<longleftrightarrow> j < 7"
proof -
  have *: "bit (mask k :: int) j \<longleftrightarrow> j < k" for k by (auto simp: bit_mask_iff)
  show "bit (1 :: int) j \<longleftrightarrow> j < 1" "bit (3 :: int) j \<longleftrightarrow> j < 2" "bit (7 :: int) j \<longleftrightarrow> j < 3" "bit (15 :: int) j \<longleftrightarrow> j < 4"
    "bit (31 :: int) j \<longleftrightarrow> j < 5" "bit (63 :: int) j \<longleftrightarrow> j < 6" "bit (127 :: int) j \<longleftrightarrow> j < 7"
    using * [of 1] * [of 2] * [of 3] * [of 4] * [of 5] * [of 6] * [of 7] by (simp_all add: mask_eq_exp_minus_1)
qed

lemma write_u11_step:
  assumes "writer_inv w"
  shows "writer_inv (write_u11 v w) \<and> written (write_u11 v w) = written w @ word_bits 11 v"
proof -
  have u: "1 \<le> unused w" "unused w \<le> 8" and z: "\<forall>j < 16. 8 - unat (unused w) \<le> j \<longrightarrow> \<not> bit (buffer w) j"
    using assms by (auto simp: writer_inv_def)
  show ?thesis
    using u16_cases_1_8 [OF u] z
    by (elim disjE)
      (simp_all add: write_u11_def write_full_bytes_eval writer_inv_def written_def pending_def
        MASKS_def word_bits_def upt_rec bit_simps mult.commute [of "buffer w" 2] bit_double_iff,
       simp_all add: MASKS_bits numeral_2_eq_2 numeral_3_eq_3)
qed

lemma eights_unique: "8 * a + d = 8 * b + k \<Longrightarrow> d < 8 \<Longrightarrow> k < 8 \<Longrightarrow> a = b \<and> d = (k :: nat)"
proof -
  assume e: "8 * a + d = 8 * b + k" and "d < 8" "k < 8"
  then have "(8 * a + d) div 8 = a" "(8 * b + k) div 8 = b" by simp_all
  then show ?thesis using e by simp
qed

lemma eights_full: "8 * a = 8 * b + k \<Longrightarrow> 0 < k \<Longrightarrow> k \<le> 8 \<Longrightarrow> a = Suc b \<and> k = (8 :: nat)"
  using eights_unique [of a 0 b k] by (cases "k = 8") auto

lemma write_buffer_bytes:
  assumes inv: "writer_inv w" and len: "length (written w) = 8 * L + k" and k: "1 \<le> k" "k \<le> 8"
  shows "\<exists>E c. writer_bytes (write_buffer w) = E @ [c] \<and> length E = L \<and>
    bytes_bits E @ word_bits k c = written w \<and> (\<forall>j < 8. k \<le> j \<longrightarrow> \<not> bit c j)"
proof (cases "unused w = 8")
  case True
  then have wr: "written w = bytes_bits (writer_bytes w)" by (simp add: written_def pending_def)
  have l: "8 * length (writer_bytes w) = 8 * L + k" using len wr by simp
  then have k8: "k = 8" and lb: "length (writer_bytes w) = Suc L" using eights_full [OF l] k by simp_all
  then obtain E c where E: "writer_bytes w = E @ [c]" "length E = L" by (metis length_Suc_conv_rev)
  show ?thesis using E True wr k8 by (auto simp: write_buffer_def)
next
  case False
  define u where "u = unat (unused w)"
  have "unused w \<in> {1, 2, 3, 4, 5, 6, 7}" using u16_cases_1_8 [of "unused w"] inv False by (auto simp: writer_inv_def)
  then have u: "1 \<le> u" "u \<le> 7" by (auto simp: u_def)
  have l: "8 * length (writer_bytes w) + (8 - u) = 8 * L + k"
    using len by (simp add: written_def pending_def u_def)
  have "k \<noteq> 8" using eights_unique [of "length (writer_bytes w)" "8 - u" "Suc L" 0] l u by auto
  then have ku: "k = 8 - u" and lb: "length (writer_bytes w) = L"
    using eights_unique [OF l] u k by simp_all
  have "word_bits k (ucast (buffer w) :: u8) = word_bits k (buffer w)"
    unfolding word_bits_eq_iff using k by (simp add: bit_simps)
  moreover have "\<not> bit (ucast (buffer w) :: u8) j" if "j < 8" "k \<le> j" for j
    using inv that ku by (simp add: writer_inv_def u_def bit_simps)
  ultimately show ?thesis using False lb ku by (auto simp: write_buffer_def written_def pending_def u_def)
qed

section \<open>Words and indices\<close>

abbreviation word_at :: "u16 \<Rightarrow> string" where
  "word_at v \<equiv> WORDS ! unat v"

lemma word_at_search: "v < 2048 \<Longrightarrow> binary_search WORDS (word_at v) = Some (unat v)"
  by (simp add: binary_search_WORDS word_less_nat_alt)

lemma word_at_inj: "u < 2048 \<Longrightarrow> v < 2048 \<Longrightarrow> word_at u = word_at v \<Longrightarrow> u = v"
  using WORDS_nth_inj [of "unat u" "unat v"] by (simp add: word_less_nat_alt word_unat_eq_iff)

lemma map_word_at_inj:
  "\<forall>u \<in> set us. u < 2048 \<Longrightarrow> \<forall>v \<in> set vs. v < 2048 \<Longrightarrow> map word_at us = map word_at vs \<Longrightarrow> us = vs"
proof (induction us arbitrary: vs)
  case (Cons u us)
  then obtain v vs' where vs: "vs = v # vs'" by (cases vs) auto
  then have "u = v" "us = vs'" using word_at_inj [of u v] Cons.IH [of vs'] Cons.prems by simp_all
  with vs show ?case by simp
qed simp

lemma word_at_letters: "v < 2048 \<Longrightarrow> word_at v \<noteq> [] \<and> list_all digit6 (word_at v)"
  using WORDS_letters nth_mem [of "unat v" WORDS] by (auto simp: list_all_iff length_WORDS word_less_nat_alt)

lemma word_at_no_space: "v < 2048 \<Longrightarrow> CHR '' '' \<notin> set (word_at v)"
  using word_at_letters [of v] by (auto simp: list_all_iff)

lemma word_bits_11_inj: "u < 2048 \<Longrightarrow> v < 2048 \<Longrightarrow> word_bits 11 (u :: u16) = word_bits 11 v \<Longrightarrow> u = v"
proof -
  assume a: "u < 2048" "v < 2048" "word_bits 11 u = word_bits 11 v"
  have z: "\<not> bit w j" if "w < 2048" "11 \<le> j" for w :: u16 and j
  proof -
    have "unat w < 2 ^ 11" using that by (simp add: word_less_nat_alt)
    also have "(2 :: nat) ^ 11 \<le> 2 ^ j" using that by (intro power_increasing) auto
    finally have "\<not> bit (unat w) j" by (simp add: bit_iff_odd)
    then show ?thesis by (simp add: bit_unsigned_iff)
  qed
  show "u = v" by (rule bit_word_eqI) (use a z word_bits_eq_iff in \<open>metis not_le\<close>)
qed

lemma concat_word_bits_inj:
  "length us = length vs \<Longrightarrow> \<forall>u \<in> set us. u < 2048 \<Longrightarrow> \<forall>v \<in> set vs. v < (2048 :: u16) \<Longrightarrow>
   concat (map (word_bits 11) us) = concat (map (word_bits 11) vs) \<Longrightarrow> us = vs"
proof (induction us vs rule: list_induct2)
  case (Cons u us v vs)
  then show ?case using word_bits_11_inj [of u v] by simp
qed simp

lemma length_concat_word_bits: "length (concat (map (word_bits n) vs)) = n * length vs"
  by (induction vs) simp_all

lemma parse_words_complete:
  "\<forall>v \<in> set vs. v < 2048 \<Longrightarrow> writer_inv w \<Longrightarrow>
   \<exists>w'. parse_words (map word_at vs) ws w = Inr (ws @ map word_at vs, w') \<and> writer_inv w' \<and>
     written w' = written w @ concat (map (word_bits 11) vs)"
proof (induction vs arbitrary: ws w)
  case (Cons v vs)
  then show ?case using write_u11_step [of w v] Cons.IH [of "write_u11 v w" "ws @ [word_at v]"]
    by (auto simp: word_at_search)
qed simp

lemma parse_words_sound:
  "parse_words ws ms w = Inr r \<Longrightarrow> \<exists>vs. (\<forall>v \<in> set vs. v < 2048) \<and> ws = map word_at vs"
proof (induction ws arbitrary: ms w)
  case (Cons x ws)
  then obtain i where i: "binary_search WORDS x = Some i"
      "parse_words ws (ms @ [WORDS ! i]) (write_u11 (of_nat i) w) = Inr r" by (auto split: option.splits)
  then have b: "i < 2048" "WORDS ! i = x" by (simp_all add: binary_search_WORDS)
  define v :: u16 where "v = of_nat i"
  have v: "unat v = i" using b(1) by (simp add: v_def unat_of_nat)
  obtain vs where "\<forall>v \<in> set vs. v < 2048" "ws = map word_at vs" using Cons.IH [OF i(2)] by auto
  then show ?case using v b by (intro exI [of _ "v # vs"]) (auto simp: word_less_nat_alt)
qed simp

section \<open>Phrases\<close>

lemma str_join_split: "str_join [c] (str_split c s) = s"
proof (induction s)
  case (Cons x s)
  obtain w ws where "str_split c s = w # ws" using str_split_not_Nil by (cases "str_split c s") auto
  with Cons show ?case by (cases ws) auto
qed simp

lemma Mnemonic_new_value:
  assumes "length e = 4 * q" "4 \<le> q" "q \<le> 8"
  shows "\<exists>vs. Mnemonic_new sha256 e = Inr \<lparr>mnemonic_words = map word_at vs\<rparr> \<and> length vs = 3 * q \<and>
    (\<forall>v \<in> set vs. v < 2048) \<and>
    concat (map (word_bits 11) vs) = bytes_bits e @ word_bits q (drop_bit (8 - q) (sha256 e ! 0))"
proof -
  let ?r = "U11BitReader_new (e @ [sha256 e ! 0])"
  have pos: "unat (position ?r) = 0" "reader_bytes ?r = e @ [sha256 e ! 0]" by (simp_all add: U11BitReader_new_def)
  obtain vs :: "u16 list" where vs: "read_words (3 * q) ?r = Inr (map word_at vs)" "length vs = 3 * q"
      "\<forall>v \<in> set vs. v < 2048"
      "concat (map (word_bits 11) vs) = take (11 * (3 * q)) (bytes_bits (e @ [sha256 e ! 0]))"
    using read_words_value [of ?r "3 * q"] assms unfolding pos by auto
  have "take (11 * (3 * q)) (bytes_bits (e @ [sha256 e ! 0])) = bytes_bits e @ word_bits q (drop_bit (8 - q) (sha256 e ! 0))"
    using assms take_word_bits [of q 8 "sha256 e ! 0"] by simp
  moreover have "length e * 3 div 4 = 3 * q" "length e mod 4 = 0" using assms by simp_all
  ultimately show ?thesis using vs assms by (intro exI [of _ vs]) (simp add: Mnemonic_new_def Let_def)
qed

lemma Mnemonic_new_Inr:
  "Mnemonic_new sha256 e = Inr m \<Longrightarrow> \<exists>q. length e = 4 * q \<and> 4 \<le> q \<and> q \<le> 8"
  by (auto simp: Mnemonic_new_def Let_def split: if_splits intro!: exI [of _ "length e div 4"])

lemma Mnemonic_from_value:
  assumes vs: "length vs = 3 * q" "\<forall>v \<in> set vs. v < 2048" and q: "4 \<le> q" "q \<le> 8"
  shows "\<exists>E c. length E = 4 * q \<and> concat (map (word_bits 11) vs) = bytes_bits E @ word_bits q c \<and>
    (\<forall>j < 8. q \<le> j \<longrightarrow> \<not> bit c j) \<and>
    Mnemonic_from sha256 (str_join '' '' (map word_at vs)) =
      (if c \<noteq> drop_bit (8 - q) (sha256 E ! 0) then Inl (Err ''Mnemonic checksum failed'')
       else Inr \<lparr>mnemonic_words = map word_at vs\<rparr>)"
proof -
  have ne: "map word_at vs \<noteq> []" using vs q by auto
  have sp: "str_split CHR '' '' (str_join '' '' (map word_at vs)) = map word_at vs"
    using vs(2) word_at_no_space by (intro str_split_join [OF ne]) auto
  have init: "writer_inv U11BitWriter_new" "written U11BitWriter_new = []"
    by (simp_all add: writer_inv_def written_def pending_def U11BitWriter_new_def)
  obtain w where w: "parse_words (map word_at vs) [] U11BitWriter_new = Inr (map word_at vs, w)"
      "writer_inv w" "written w = concat (map (word_bits 11) vs)"
    using parse_words_complete [OF vs(2) init(1), of "[]"] init(2) by auto
  have "length (written w) = 8 * (4 * q) + q" using vs(1) unfolding w(3) length_concat_word_bits by simp
  then obtain E c where E: "writer_bytes (write_buffer w) = E @ [c]" "length E = 4 * q"
      "bytes_bits E @ word_bits q c = written w" "\<forall>j < 8. q \<le> j \<longrightarrow> \<not> bit c j"
    using write_buffer_bytes [OF w(2), of "4 * q" q] q by auto
  show ?thesis using E w vs q
    by (intro exI [of _ E] exI [of _ c]) (simp add: Mnemonic_from_def sp Let_def)
qed

lemma Mnemonic_from_Inr:
  assumes "Mnemonic_from sha256 s = Inr m"
  shows "\<exists>vs q. s = str_join '' '' (map word_at vs) \<and> length vs = 3 * q \<and> 4 \<le> q \<and> q \<le> 8 \<and> (\<forall>v \<in> set vs. v < 2048)"
proof -
  let ?ws = "str_split CHR '' '' s"
  have l: "12 \<le> length ?ws" "length ?ws \<le> 24" "length ?ws mod 3 = 0"
    using assms by (auto simp: Mnemonic_from_def Let_def split: if_splits)
  then obtain r where "parse_words ?ws [] U11BitWriter_new = Inr r"
    using assms by (auto simp: Mnemonic_from_def Let_def and_then_eq_Inr)
  from parse_words_sound [OF this] obtain vs where vs: "\<forall>v \<in> set vs. v < 2048" "?ws = map word_at vs" by auto
  then have "s = str_join '' '' (map word_at vs)" using str_join_split [of "CHR '' ''" s] by simp
  moreover have "length vs = length ?ws" using vs(2) by simp
  then have "length vs = 3 * (length vs div 3) \<and> 4 \<le> length vs div 3 \<and> length vs div 3 \<le> 8" using l by auto
  ultimately show ?thesis using vs(1) by blast
qed

lemma u8_eq_low_bits:
  assumes "word_bits q c = word_bits q d" "\<forall>j < 8. q \<le> j \<longrightarrow> \<not> bit c j" "\<forall>j < 8. q \<le> j \<longrightarrow> \<not> bit d j"
  shows "(c :: u8) = d"
proof (rule bit_word_eqI)
  fix j assume "j < LENGTH(8)"
  then show "bit c j = bit d j" using assms by (cases "j < q") (auto simp: word_bits_eq_iff)
qed

lemma drop_bit_u8_high: "q \<le> 8 \<Longrightarrow> \<forall>j < 8. q \<le> j \<longrightarrow> \<not> bit (drop_bit (8 - q) (b :: u8)) j"
  by (auto simp: bit_simps dest: bit_imp_le_length)

text \<open>The parser accepts exactly the printed phrases of the generator.\<close>

lemma mnemonic_from_iff:
  "Mnemonic_from sha256 s = Inr m \<longleftrightarrow> (\<exists>e. Mnemonic_new sha256 e = Inr m \<and> s = fmt_mnemonic m)"
proof
  assume a: "Mnemonic_from sha256 s = Inr m"
  from Mnemonic_from_Inr [OF a] obtain vs q where s: "s = str_join '' '' (map word_at vs)"
    and vs: "length vs = 3 * q" "4 \<le> q" "q \<le> 8" "\<forall>v \<in> set vs. v < 2048" by auto
  from Mnemonic_from_value [OF vs(1,4,2,3), of sha256] obtain E c where E: "length E = 4 * q"
      "concat (map (word_bits 11) vs) = bytes_bits E @ word_bits q c" "c = drop_bit (8 - q) (sha256 E ! 0)"
    and m: "m = \<lparr>mnemonic_words = map word_at vs\<rparr>" using a unfolding s by (auto split: if_splits)
  from Mnemonic_new_value [OF E(1) vs(2,3), of sha256] obtain us where
    us: "Mnemonic_new sha256 E = Inr \<lparr>mnemonic_words = map word_at us\<rparr>" "length us = 3 * q" "\<forall>v \<in> set us. v < 2048"
      "concat (map (word_bits 11) us) = bytes_bits E @ word_bits q (drop_bit (8 - q) (sha256 E ! 0))" by auto
  have "us = vs" using concat_word_bits_inj [of us vs] us vs E by simp
  then show "\<exists>e. Mnemonic_new sha256 e = Inr m \<and> s = fmt_mnemonic m"
    using us(1) m s by (auto simp: fmt_mnemonic_def)
next
  assume "\<exists>e. Mnemonic_new sha256 e = Inr m \<and> s = fmt_mnemonic m"
  then obtain e where e: "Mnemonic_new sha256 e = Inr m" and s: "s = fmt_mnemonic m" by auto
  from Mnemonic_new_Inr [OF e] obtain q where q: "length e = 4 * q" "4 \<le> q" "q \<le> 8" by auto
  from Mnemonic_new_value [OF q, of sha256] e obtain vs where vs: "length vs = 3 * q" "\<forall>v \<in> set vs. v < 2048"
      "concat (map (word_bits 11) vs) = bytes_bits e @ word_bits q (drop_bit (8 - q) (sha256 e ! 0))"
    and m: "m = \<lparr>mnemonic_words = map word_at vs\<rparr>" by auto
  from Mnemonic_from_value [OF vs(1,2) q(2,3), of sha256] obtain E c where E: "length E = 4 * q"
      "concat (map (word_bits 11) vs) = bytes_bits E @ word_bits q c" "\<forall>j < 8. q \<le> j \<longrightarrow> \<not> bit c j"
    and f: "Mnemonic_from sha256 (str_join '' '' (map word_at vs)) =
      (if c \<noteq> drop_bit (8 - q) (sha256 E ! 0) then Inl (Err ''Mnemonic checksum failed'') else Inr m)"
    using m by auto
  have "E = e" using E q vs(3) by (intro bytes_bits_inj) (simp_all add: append_eq_append_conv)
  moreover from this have "c = drop_bit (8 - q) (sha256 e ! 0)"
    using E vs(3) q drop_bit_u8_high by (intro u8_eq_low_bits [of q]) auto
  ultimately show "Mnemonic_from sha256 s = Inr m" using f s m by (simp add: fmt_mnemonic_def)
qed

lemma digit6_not_ws: "digit6 c \<Longrightarrow> \<not> is_ascii_ws c"
  by (cases c) (auto simp: is_ascii_ws_def of_char_def split: if_splits)

lemma str_join_ends:
  "ws \<noteq> [] \<Longrightarrow> list_all (\<lambda>w. w \<noteq> []) ws \<Longrightarrow>
   str_join sep ws \<noteq> [] \<and> hd (str_join sep ws) = hd (hd ws) \<and> last (str_join sep ws) = last (last ws)"
proof (induction ws)
  case (Cons w ws)
  then show ?case by (cases ws) auto
qed simp

lemma fmt_mnemonic_trim:
  assumes "Mnemonic_new sha256 e = Inr m"
  shows "trim (fmt_mnemonic m) = fmt_mnemonic m"
proof -
  obtain q where q: "length e = 4 * q" "4 \<le> q" "q \<le> 8" using Mnemonic_new_Inr [OF assms] by blast
  then obtain vs :: "u16 list" where vs: "m = \<lparr>mnemonic_words = map word_at vs\<rparr>" "length vs = 3 * q" "\<forall>v \<in> set vs. v < 2048"
    using Mnemonic_new_value [of e q sha256] assms by auto
  let ?ws = "map word_at vs"
  have ne: "vs \<noteq> []" using vs(2) q by auto
  have l: "list_all (\<lambda>w. w \<noteq> []) ?ws" "\<forall>w \<in> set ?ws. w \<noteq> [] \<and> list_all digit6 w"
    using vs(3) word_at_letters by (auto simp: list_all_iff)
  have "hd ?ws \<in> set ?ws" "last ?ws \<in> set ?ws" using ne by (intro hd_in_set last_in_set; simp)+
  then have "digit6 (hd (hd ?ws))" "digit6 (last (last ?ws))"
    using l(2) hd_in_set [of "hd ?ws"] last_in_set [of "last ?ws"] by (auto simp only: list_all_iff)
  then show ?thesis
    using str_join_ends [of ?ws "'' ''"] ne l(1) by (intro trim_id) (simp_all add: fmt_mnemonic_def vs(1) digit6_not_ws)
qed
section \<open>Properties\<close>

text \<open>C1. The parser accepts exactly the phrases the generator produces: a text is accepted with the value
  \<open>m\<close> iff some entropy generates \<open>m\<close> and the text is the printed form of \<open>m\<close>. In particular
  every generated phrase parses back to itself, and an accepted text has a valid checksum.\<close>

theorem mnemonic_from_iff_new:
  "Mnemonic_from sha256 s = Inr m \<longleftrightarrow> (\<exists>e. Mnemonic_new sha256 e = Inr m \<and> s = fmt_mnemonic m)"
  by (rule mnemonic_from_iff)

text \<open>The generator is total on its domain and loses nothing: it succeeds, without a panic, exactly on
  entropies of 16, 20, 24, 28 or 32 bytes, gives three words for every four bytes, all of the word list,
  and two entropies with the same phrase are equal.\<close>

theorem mnemonic_new_total_injective:
  "(is_ok (Mnemonic_new sha256 e) \<longleftrightarrow> length e \<in> {16, 20, 24, 28, 32}) \<and>
   (\<forall>m. Mnemonic_new sha256 e = Inr m \<longrightarrow>
      4 * length (mnemonic_words m) = 3 * length e \<and> set (mnemonic_words m) \<subseteq> set WORDS \<and>
      (\<forall>e'. Mnemonic_new sha256 e' = Inr m \<longrightarrow> e' = e))"
proof (intro conjI allI impI)
  have dom: "length e \<in> {16, 20, 24, 28, 32} \<longleftrightarrow> (\<exists>q. length e = 4 * q \<and> 4 \<le> q \<and> q \<le> 8)"
    by (auto intro: exI [of _ "length e div 4"])
  show "is_ok (Mnemonic_new sha256 e) \<longleftrightarrow> length e \<in> {16, 20, 24, 28, 32}"
    unfolding dom using Mnemonic_new_value [of e _ sha256] Mnemonic_new_Inr [of sha256 e] by (auto simp: is_ok_iff)
  fix m assume e: "Mnemonic_new sha256 e = Inr m"
  from Mnemonic_new_Inr [OF e] obtain q where q: "length e = 4 * q" "4 \<le> q" "q \<le> 8" by auto
  from Mnemonic_new_value [OF q, of sha256] e obtain vs where vs: "length vs = 3 * q" "\<forall>v \<in> set vs. v < 2048"
      "concat (map (word_bits 11) vs) = bytes_bits e @ word_bits q (drop_bit (8 - q) (sha256 e ! 0))"
    and m: "m = \<lparr>mnemonic_words = map word_at vs\<rparr>" by auto
  show "4 * length (mnemonic_words m) = 3 * length e" using m vs q by simp
  show "set (mnemonic_words m) \<subseteq> set WORDS" using m vs(2) length_WORDS by (auto simp: word_less_nat_alt)
  fix e' assume e': "Mnemonic_new sha256 e' = Inr m"
  from Mnemonic_new_Inr [OF e'] obtain p where p: "length e' = 4 * p" "4 \<le> p" "p \<le> 8" by auto
  from Mnemonic_new_value [OF p, of sha256] e' obtain us where us: "length us = 3 * p" "\<forall>v \<in> set us. v < 2048"
      "concat (map (word_bits 11) us) = bytes_bits e' @ word_bits p (drop_bit (8 - p) (sha256 e' ! 0))"
    and m': "m = \<lparr>mnemonic_words = map word_at us\<rparr>" by auto
  have "us = vs" using map_word_at_inj [OF us(2) vs(2)] m m' by simp
  then have "p = q" using us vs by simp
  then show "e' = e" using us vs \<open>us = vs\<close> p q by (intro bytes_bits_inj) (simp_all add: append_eq_append_conv)
qed

text \<open>A constant digest, for evaluation: sixteen zero bytes then carry the checksum bits of \<open>0x37\<close>.\<close>

theorem mnemonic_new_total_injective_witness:
  "length (replicate 16 0 :: u8 list) \<in> {16, 20, 24, 28, 32} \<and> is_ok (Mnemonic_new (\<lambda>_. replicate 32 0x37) (replicate 16 0))"
  using mnemonic_new_total_injective [of "\<lambda>_. replicate 32 0x37" "replicate 16 0"] by simp

text \<open>A backup is readable: after a generated mnemonic was written to a path, reading the path yields the
  mnemonic; a path that holds something else than a file is left untouched and reported.\<close>

theorem mnemonic_backup_roundtrip:
  assumes "Mnemonic_new sha256 e = Inr m"
  shows "(Mnemonic_write can_create m path fs = Inr fs' \<longrightarrow> Mnemonic_read sha256 path fs' = Inr m \<and>
      (\<forall>p. p \<noteq> path \<longrightarrow> fs' p = fs p)) \<and>
    (is_ok (Mnemonic_write can_create m path fs) \<longleftrightarrow> fs path \<noteq> Some FsOther \<and> can_create path)"
proof -
  have "\<exists>e. Mnemonic_new sha256 e = Inr m \<and> fmt_mnemonic m = fmt_mnemonic m" using assms by blast
  then have "Mnemonic_from sha256 (fmt_mnemonic m) = Inr m" by (simp add: mnemonic_from_iff)
  then show ?thesis by (auto simp: Mnemonic_write_def Mnemonic_read_def)
qed

theorem mnemonic_backup_roundtrip_witness:
  "\<exists>m fs'. Mnemonic_write (\<lambda>_. True) m ''seed.txt'' Map.empty = Inr fs' \<and>
    Mnemonic_read (\<lambda>_. replicate 32 0x37) ''seed.txt'' fs' = Inr m"
proof -
  obtain m where m: "Mnemonic_new (\<lambda>_. replicate 32 0x37) (replicate 16 0) = Inr m"
    using Mnemonic_new_value [of "replicate 16 0" 4 "\<lambda>_. replicate 32 0x37"] by auto
  then show ?thesis
    using mnemonic_backup_roundtrip [OF m, of "\<lambda>_. True" "''seed.txt''" Map.empty] by (simp add: is_ok_iff) blast
qed

text \<open>The phrase of sixteen zero bytes under a digest whose first byte is zero.\<close>

definition zero_phrase :: string where
  "zero_phrase = str_join '' '' (replicate 12 ''abandon'')"

lemma zero_phrase_accepted:
  "Mnemonic_from (\<lambda>_. replicate 32 0) zero_phrase = Inr \<lparr>mnemonic_words = replicate 12 ''abandon''\<rparr>"
proof -
  let ?vs = "replicate 12 (0 :: u16)"
  have ws: "map word_at ?vs = replicate 12 ''abandon''" by (simp add: WORDS_0)
  have p: "length ?vs = 3 * 4" "\<forall>v \<in> set ?vs. v < 2048" "(4 :: nat) \<le> 4" "(4 :: nat) \<le> 8" by simp_all
  obtain E and c :: u8 where E: "length E = 4 * 4" "concat (map (word_bits 11) ?vs) = bytes_bits E @ word_bits 4 c"
      "\<forall>j < 8. 4 \<le> j \<longrightarrow> \<not> bit c j"
      "Mnemonic_from (\<lambda>_. replicate 32 0) (str_join '' '' (map word_at ?vs)) =
        (if c \<noteq> drop_bit (8 - 4) (replicate 32 0 ! 0) then Inl (Err ''Mnemonic checksum failed'')
         else Inr \<lparr>mnemonic_words = map word_at ?vs\<rparr>)"
    using Mnemonic_from_value [OF p, of "\<lambda>_. replicate 32 0"] by blast
  have "set (word_bits 11 (0 :: u16)) \<subseteq> {False}" by (auto simp: word_bits_def)
  then have "set (concat (map (word_bits 11) ?vs)) \<subseteq> {False}" by auto
  then have "set (word_bits 4 c) \<subseteq> {False}" unfolding E(2) by simp
  then have "\<forall>j < 4. \<not> bit c j" by (auto simp: word_bits_def upt_rec less_Suc_eq numeral_eq_Suc)
  then have "word_bits 4 c = word_bits 4 (0 :: u8)" by (simp add: word_bits_eq_iff)
  then have "c = 0" using E(3) by (intro u8_eq_low_bits [of 4]) auto
  then show ?thesis using E(4) unfolding ws zero_phrase_def by simp
qed

end
