(* ===== verification/Wallet.thy ===== *)
theory Wallet
  imports Mnemonic "HOL-Library.AList" "HOL-Library.Multiset"
begin

text \<open>
  Key derivation and the wallet (\<^verbatim>\<open>tools/wallet/src/core\<close>: \<^verbatim>\<open>key_factory.rs\<close>, \<^verbatim>\<open>wallet_library.rs\<close>,
  \<^verbatim>\<open>legacy_scheme.rs\<close>). The primitives of the vendor crates (HKDF, PBKDF2, Ed25519, the
  authentication key and its derived address) are the fields of the record \<open>crypto\<close>, an argument of
  every definition that uses them. The wallet's \<^verbatim>\<open>HashMap\<close> is an association list; its unspecified
  iteration order is the parameter \<open>iter\<close>.
\<close>

section \<open>Key factory\<close>

type_synonym PrivateKey = "u8 list"
type_synonym PublicKey = "u8 list"

record crypto =
  hkdf_extract :: "u8 list \<Rightarrow> u8 list \<Rightarrow> u8 list result"
  hkdf_expand :: "u8 list \<Rightarrow> u8 list \<Rightarrow> nat \<Rightarrow> u8 list result"
  pbkdf2 :: "u8 list \<Rightarrow> u8 list \<Rightarrow> nat \<Rightarrow> nat \<Rightarrow> u8 list"
  private_key_try_from :: "u8 list \<Rightarrow> PrivateKey result"
  private_key_to_bytes :: "PrivateKey \<Rightarrow> u8 list"
  public_key_of :: "PrivateKey \<Rightarrow> PublicKey"
  auth_key_ed25519 :: "PublicKey \<Rightarrow> AuthenticationKey"
  derived_address :: "AuthenticationKey \<Rightarrow> AccountAddress"

definition Main_from :: "u8 list \<Rightarrow> u8 list result" where
  "Main_from data =
     (if length data \<noteq> 32 then Inl (Panic ''assertion failed: data.len() == 32'') else Inr data)"

type_synonym ChildNumber = u64

definition ChildNumber_increment :: "ChildNumber \<Rightarrow> ChildNumber" where
  "ChildNumber_increment n = n + 1"

record ExtendedPrivKey =
  child_number :: ChildNumber
  private_key :: PrivateKey

definition get_public :: "crypto \<Rightarrow> ExtendedPrivKey \<Rightarrow> PublicKey" where
  "get_public c self = public_key_of c (private_key self)"

definition get_authentication_key :: "crypto \<Rightarrow> ExtendedPrivKey \<Rightarrow> AuthenticationKey" where
  "get_authentication_key c self = auth_key_ed25519 c (get_public c self)"

definition get_address :: "crypto \<Rightarrow> ExtendedPrivKey \<Rightarrow> AccountAddress" where
  "get_address c self = derived_address c (auth_key_ed25519 c (get_public c self))"

record KeyFactory =
  main :: "u8 list"

definition MNEMONIC_SALT_PREFIX :: "u8 list" where
  "MNEMONIC_SALT_PREFIX = into_bytes
     ''0L WALLET: UNREST, FIRES, AND VIOLENCE AS PROTESTS RAGE ACROSS US: mnemonic salt prefix$''"

definition MAIN_KEY_SALT :: "u8 list" where
  "MAIN_KEY_SALT = into_bytes
     ''0L WALLET: 30 MILLION AMERICANS HAVE FILED INITIAL UNEMPLOYMENT CLAIMS: master key salt$''"

definition INFO_PREFIX :: "u8 list" where
  "INFO_PREFIX = into_bytes ''0L WALLET: US DEATHS NEAR 100,000, AN INCALCULABLE LOSS: derived key$''"

definition KeyFactory_new :: "crypto \<Rightarrow> u8 list \<Rightarrow> KeyFactory result" where
  "KeyFactory_new c seed =
     and_then (hkdf_extract c MAIN_KEY_SALT seed) (\<lambda>hkdf.
     if length hkdf < 32 then Inl (Panic ''range end index 32 out of range'')
     else and_then (Main_from (take 32 hkdf)) (\<lambda>m. Inr \<lparr>main = m\<rparr>))"

text \<open>\<^verbatim>\<open>LittleEndian::write_u64\<close>\<close>

definition le_u64 :: "u64 \<Rightarrow> u8 list" where
  "le_u64 n = map (\<lambda>i. ucast (drop_bit (8 * i) n)) [0..<8]"

definition private_child :: "crypto \<Rightarrow> KeyFactory \<Rightarrow> ChildNumber \<Rightarrow> ExtendedPrivKey result" where
  "private_child c self child =
     (let info = INFO_PREFIX @ le_u64 child in
      and_then (hkdf_expand c (main self) info 32) (\<lambda>hkdf.
      case private_key_try_from c hkdf of
        Inl _ \<Rightarrow> Inl (Err ''Unable to convert hkdf output into private key'')
      | Inr sk \<Rightarrow> Inr \<lparr>child_number = child, private_key = sk\<rparr>))"

definition Seed_new :: "crypto \<Rightarrow> Mnemonic \<Rightarrow> string \<Rightarrow> u8 list" where
  "Seed_new c mnemonic salt =
     pbkdf2 c (into_bytes (fmt_mnemonic mnemonic)) (MNEMONIC_SALT_PREFIX @ into_bytes salt) 2048 32"

section \<open>Wallet library\<close>

record WalletLibrary =
  wallet_mnemonic :: Mnemonic
  key_factory :: KeyFactory
  addr_map :: "(AccountAddress \<times> ChildNumber) list"
  key_leaf :: ChildNumber

definition new_from_mnemonic :: "crypto \<Rightarrow> Mnemonic \<Rightarrow> WalletLibrary result" where
  "new_from_mnemonic c mnemonic =
     and_then (expect ''called Result::unwrap() on an Err value'' (KeyFactory_new c (Seed_new c mnemonic ''0L''))) (\<lambda>kf.
     Inr \<lparr>wallet_mnemonic = mnemonic, key_factory = kf, addr_map = [], key_leaf = 0\<rparr>)"

text \<open>\<^verbatim>\<open>WalletLibrary::new\<close>, with the 32 random bytes as an argument.\<close>

definition WalletLibrary_new :: "(u8 list \<Rightarrow> u8 list) \<Rightarrow> crypto \<Rightarrow> u8 list \<Rightarrow> WalletLibrary result" where
  "WalletLibrary_new sha256 c data =
     and_then (expect ''called Result::unwrap() on an Err value'' (Mnemonic_new sha256 data)) (new_from_mnemonic c)"

definition mnemonic_string :: "WalletLibrary \<Rightarrow> string" where
  "mnemonic_string self = fmt_mnemonic (wallet_mnemonic self)"

definition new_address ::
  "crypto \<Rightarrow> WalletLibrary \<Rightarrow> (AuthenticationKey \<times> ChildNumber) result \<times> WalletLibrary" where
  "new_address c self =
     (case private_child c (key_factory self) (key_leaf self) of
        Inl e \<Rightarrow> (Inl e, self)
      | Inr child \<Rightarrow>
          let authentication_key = get_authentication_key c child;
              old_key_leaf = key_leaf self;
              address = derived_address c authentication_key;
              self' = self\<lparr>key_leaf := ChildNumber_increment old_key_leaf,
                           addr_map := AList.update address old_key_leaf (addr_map self)\<rparr>
          in if map_of (addr_map self) address = None
             then (Inr (authentication_key, old_key_leaf), self')
             else (Inl (Err ''This address is already in your wallet''), self'))"

partial_function (option) generate_loop :: "crypto \<Rightarrow> ChildNumber \<Rightarrow> WalletLibrary \<Rightarrow> WalletLibrary option" where
  "generate_loop c depth self =
     (if key_leaf self = depth then Some self else generate_loop c depth (snd (new_address c self)))"

text \<open>\<open>None\<close>: the loop does not end.\<close>

definition generate_addresses ::
  "crypto \<Rightarrow> ChildNumber \<Rightarrow> WalletLibrary \<Rightarrow> (unit result \<times> WalletLibrary) option" where
  "generate_addresses c depth self =
     (if depth < key_leaf self
      then Some (Inl (Err ''Addresses already generated up to the supplied depth''), self)
      else map_option (\<lambda>w. (Inr (), w)) (generate_loop c depth self))"

definition new_address_at_child_number :: "crypto \<Rightarrow> WalletLibrary \<Rightarrow> ChildNumber \<Rightarrow> AccountAddress result" where
  "new_address_at_child_number c self n =
     and_then (private_child c (key_factory self) n) (\<lambda>child. Inr (get_address c child))"

fun collect_addresses :: "(ChildNumber \<rightharpoonup> AccountAddress) \<Rightarrow> nat list \<Rightarrow> AccountAddress list result" where
  "collect_addresses rev_map [] = Inr []"
| "collect_addresses rev_map (i # is) =
     (case rev_map (of_nat i) of
        Some a \<Rightarrow> and_then (collect_addresses rev_map is) (\<lambda>as. Inr (a # as))
      | None \<Rightarrow> Inl (Err ''This address is already in your wallet''))"

definition get_addresses ::
  "((AccountAddress \<times> ChildNumber) list \<Rightarrow> (AccountAddress \<times> ChildNumber) list) \<Rightarrow>
   WalletLibrary \<Rightarrow> AccountAddress list result" where
  "get_addresses iter self =
     (let rev_map = map_of (rev (map (\<lambda>(k, v). (v, k)) (iter (addr_map self)))) in
      collect_addresses rev_map [0..<length (addr_map self)])"

definition get_private_key :: "crypto \<Rightarrow> WalletLibrary \<Rightarrow> AccountAddress \<Rightarrow> PrivateKey result" where
  "get_private_key c self address =
     (case map_of (addr_map self) address of
        Some child \<Rightarrow> and_then (private_child c (key_factory self) child) (\<lambda>k. Inr (private_key k))
      | None \<Rightarrow> Inl (Err ''missing address''))"

definition wallet_authentication_key :: "crypto \<Rightarrow> WalletLibrary \<Rightarrow> AccountAddress \<Rightarrow> AuthenticationKey result" where
  "wallet_authentication_key c self address =
     (case map_of (addr_map self) address of
        Some child \<Rightarrow> and_then (private_child c (key_factory self) child) (\<lambda>k. Inr (get_authentication_key c k))
      | None \<Rightarrow> Inl (Err ''missing address''))"

section \<open>Legacy key scheme\<close>

record LegacyKeyScheme =
  scheme_0_owner :: ExtendedPrivKey
  scheme_1_operator :: ExtendedPrivKey
  scheme_2_val_network :: ExtendedPrivKey
  scheme_3_fullnode_network :: ExtendedPrivKey
  scheme_4_consensus :: ExtendedPrivKey
  scheme_5_executor :: ExtendedPrivKey

definition child_unwrap :: "crypto \<Rightarrow> KeyFactory \<Rightarrow> ChildNumber \<Rightarrow> ExtendedPrivKey result" where
  "child_unwrap c kf n = expect ''called Result::unwrap() on an Err value'' (private_child c kf n)"

definition LegacyKeyScheme_new :: "crypto \<Rightarrow> WalletLibrary \<Rightarrow> LegacyKeyScheme result" where
  "LegacyKeyScheme_new c wallet =
     (let kf = key_factory wallet in
      and_then (child_unwrap c kf 0) (\<lambda>k0.
      and_then (child_unwrap c kf 1) (\<lambda>k1.
      and_then (child_unwrap c kf 2) (\<lambda>k2.
      and_then (child_unwrap c kf 3) (\<lambda>k3.
      and_then (child_unwrap c kf 4) (\<lambda>k4.
      and_then (child_unwrap c kf 5) (\<lambda>k5.
      Inr \<lparr>scheme_0_owner = k0, scheme_1_operator = k1, scheme_2_val_network = k2,
           scheme_3_fullnode_network = k3, scheme_4_consensus = k4, scheme_5_executor = k5\<rparr>)))))))"

definition scheme_from_mnemonic :: "(u8 list \<Rightarrow> u8 list) \<Rightarrow> crypto \<Rightarrow> string \<Rightarrow> LegacyKeyScheme result" where
  "scheme_from_mnemonic sha256 c mnemonic =
     and_then (expect ''called Result::unwrap() on an Err value'' (Mnemonic_from sha256 mnemonic)) (\<lambda>m.
     and_then (new_from_mnemonic c m) (LegacyKeyScheme_new c))"

section \<open>Wallets that the operations reach\<close>

inductive wallet_reachable :: "crypto \<Rightarrow> WalletLibrary \<Rightarrow> bool" for c where
  fresh: "new_from_mnemonic c m = Inr w \<Longrightarrow> wallet_reachable c w"
| address: "wallet_reachable c w \<Longrightarrow> wallet_reachable c (snd (new_address c w))"
| generate: "wallet_reachable c w \<Longrightarrow> generate_addresses c depth w = Some (r, w') \<Longrightarrow> wallet_reachable c w'"

text \<open>Every entry of the map is the address of the child key it names.\<close>

definition wallet_inv :: "crypto \<Rightarrow> WalletLibrary \<Rightarrow> bool" where
  "wallet_inv c w = (distinct (map fst (addr_map w)) \<and>
     (\<forall>a n. map_of (addr_map w) a = Some n \<longrightarrow>
        (\<exists>k. private_child c (key_factory w) n = Inr k \<and> get_address c k = a)))"

lemma wallet_inv_fresh: "new_from_mnemonic c m = Inr w \<Longrightarrow> wallet_inv c w"
  by (auto simp: new_from_mnemonic_def wallet_inv_def and_then_eq_Inr)

lemma wallet_inv_new_address:
  assumes "wallet_inv c w"
  shows "wallet_inv c (snd (new_address c w))"
proof (cases "private_child c (key_factory w) (key_leaf w)")
  case (Inl e)
  with assms show ?thesis by (simp add: new_address_def)
next
  case (Inr k)
  let ?m = "AList.update (get_address c k) (key_leaf w) (addr_map w)"
  have w': "key_factory (snd (new_address c w)) = key_factory w" "addr_map (snd (new_address c w)) = ?m"
    using Inr by (simp_all add: new_address_def Let_def get_address_def get_authentication_key_def)
  have d: "distinct (map fst ?m)" using assms by (simp add: wallet_inv_def distinct_update)
  have "\<exists>k'. private_child c (key_factory w) n = Inr k' \<and> get_address c k' = a" if "map_of ?m a = Some n" for a n
    using that Inr assms unfolding update_conv' wallet_inv_def by (cases "a = get_address c k") simp_all
  with d show ?thesis unfolding wallet_inv_def w' by blast
qed

lemma generate_loop_inv: "generate_loop c depth w = Some w' \<Longrightarrow> wallet_inv c w \<longrightarrow> wallet_inv c w'"
  by (erule generate_loop.raw_induct [rotated]) (auto split: if_splits dest: wallet_inv_new_address)

lemma wallet_reachable_inv: "wallet_reachable c w \<Longrightarrow> wallet_inv c w"
  by (induction rule: wallet_reachable.induct)
    (auto simp: wallet_inv_fresh wallet_inv_new_address generate_addresses_def dest: generate_loop_inv split: if_splits)

section \<open>The generating loop\<close>

lemma new_address_key_leaf:
  "key_leaf (snd (new_address c w)) =
     (if is_ok (private_child c (key_factory w) (key_leaf w)) then key_leaf w + 1 else key_leaf w)"
  "key_factory (snd (new_address c w)) = key_factory w"
  by (auto simp: new_address_def Let_def ChildNumber_increment_def is_ok_iff split: sum.splits)

lemma new_address_fails: "\<not> is_ok (private_child c (key_factory w) (key_leaf w)) \<Longrightarrow> snd (new_address c w) = w"
  by (auto simp: new_address_def is_ok_def split: sum.splits)

definition derivable :: "crypto \<Rightarrow> ChildNumber \<Rightarrow> WalletLibrary \<Rightarrow> bool" where
  "derivable c depth w = (\<forall>n. key_leaf w \<le> n \<and> n < depth \<longrightarrow> is_ok (private_child c (key_factory w) n))"

lemma derivable_step:
  assumes "key_leaf w < depth"
  shows "derivable c depth w \<longleftrightarrow>
    is_ok (private_child c (key_factory w) (key_leaf w)) \<and> derivable c depth (snd (new_address c w))"
proof -
  have "key_leaf w \<le> n \<longleftrightarrow> n = key_leaf w \<or> key_leaf w + 1 \<le> n" for n
    using assms by (auto simp: inc_less_eq_iff)
  then show ?thesis using assms by (auto simp: derivable_def new_address_key_leaf)
qed

lemma generate_loop_sound:
  "generate_loop c depth w = Some w' \<Longrightarrow> key_leaf w \<le> depth \<longrightarrow> derivable c depth w \<and> key_leaf w' = depth"
proof (erule generate_loop.raw_induct [rotated], intro impI)
  fix f :: "crypto \<Rightarrow> ChildNumber \<Rightarrow> WalletLibrary \<Rightarrow> WalletLibrary option" and c depth w w'
  assume ih: "\<And>c depth w w'. f c depth w = Some w' \<Longrightarrow> key_leaf w \<le> depth \<longrightarrow> derivable c depth w \<and> key_leaf w' = depth"
    and b: "(if key_leaf w = depth then Some w else f c depth (snd (new_address c w))) = Some w'"
    and le: "key_leaf w \<le> depth"
  show "derivable c depth w \<and> key_leaf w' = depth"
  proof (cases "key_leaf w = depth")
    case False
    then have lt: "key_leaf w < depth" using le by simp
    then have "key_leaf (snd (new_address c w)) \<le> depth" by (auto simp: new_address_key_leaf inc_le)
    with ih b False have ih': "derivable c depth (snd (new_address c w))" "key_leaf w' = depth" by auto
    moreover have "is_ok (private_child c (key_factory w) (key_leaf w))"
      using ih'(1) lt new_address_fails [of c w] unfolding derivable_def by (metis order_refl)
    ultimately show ?thesis using derivable_step [OF lt] by blast
  qed (use b in \<open>auto simp: derivable_def\<close>)
qed

lemma unat_u64_less: "unat (n :: u64) < 18446744073709551616"
  using unsigned_less [of n] by simp

lemma generate_loop_complete:
  "derivable c depth w \<Longrightarrow> key_leaf w \<le> depth \<Longrightarrow> \<exists>w'. generate_loop c depth w = Some w'"
proof (induction "unat depth - unat (key_leaf w)" arbitrary: w)
  case 0
  then have "key_leaf w = depth" by (simp add: word_le_nat_alt word_unat_eq_iff)
  then show ?case by (subst generate_loop.simps) simp
next
  case (Suc n)
  then have lt: "key_leaf w < depth" by (simp add: word_less_nat_alt)
  note d = derivable_step [OF lt, of c, THEN iffD1, OF Suc.prems(1)]
  then have leaf: "key_leaf (snd (new_address c w)) = key_leaf w + 1" by (simp add: new_address_key_leaf)
  moreover have "unat (key_leaf w + 1) = Suc (unat (key_leaf w))"
    using lt unat_u64_less [of depth] by (subst unat_add_lem [THEN iffD1]) (auto simp: word_less_nat_alt)
  ultimately have "\<exists>w'. generate_loop c depth (snd (new_address c w)) = Some w'"
    using Suc d lt by (intro Suc.hyps(1)) (auto simp: inc_le)
  with lt show ?case by (subst generate_loop.simps) simp
qed

text \<open>What a run of the loop leaves behind: the addresses of the children in order, when they differ.\<close>

definition child_address :: "crypto \<Rightarrow> KeyFactory \<Rightarrow> nat \<Rightarrow> AccountAddress" where
  "child_address c kf i = (case private_child c kf (of_nat i) of Inr k \<Rightarrow> get_address c k | Inl _ \<Rightarrow> 0)"

definition filled :: "crypto \<Rightarrow> KeyFactory \<Rightarrow> nat \<Rightarrow> WalletLibrary \<Rightarrow> bool" where
  "filled c kf n w = (key_factory w = kf \<and> key_leaf w = of_nat n \<and>
     addr_map w = map (\<lambda>i. (child_address c kf i, of_nat i)) [0..<n])"

lemma update_fresh: "k \<notin> fst ` set al \<Longrightarrow> AList.update k v al = al @ [(k, v)]"
  by (induction al) auto

lemma filled_step:
  assumes "filled c kf n w" "is_ok (private_child c kf (of_nat n))" "inj_on (child_address c kf) {0..<Suc n}"
  shows "filled c kf (Suc n) (snd (new_address c w))"
proof -
  obtain k where k: "private_child c kf (of_nat n) = Inr k" using assms(2) by (auto simp: is_ok_iff)
  then have a: "get_address c k = child_address c kf n" by (simp add: child_address_def)
  have ne: "child_address c kf n \<noteq> child_address c kf i" if "i < n" for i
    using inj_onD [OF assms(3), of n i] that by auto
  have "fst ` set (addr_map w) = child_address c kf ` {0..<n}"
    using assms(1) by (simp add: filled_def image_image)
  then have "child_address c kf n \<notin> fst ` set (addr_map w)" using ne by (metis imageE atLeastLessThan_iff)
  then have "AList.update (child_address c kf n) (of_nat n) (addr_map w) = addr_map w @ [(child_address c kf n, of_nat n)]"
    by (rule update_fresh)
  then show ?thesis using assms(1) k a
    by (auto simp: filled_def new_address_def Let_def ChildNumber_increment_def get_address_def get_authentication_key_def)
qed

lemma generate_loop_filled:
  assumes inj: "inj_on (child_address c kf) {0..<unat depth}"
    and ok: "\<forall>i < unat depth. is_ok (private_child c kf (of_nat i))"
  shows "generate_loop c depth w = Some w' \<Longrightarrow>
    (\<exists>n \<le> unat depth. filled c kf n w) \<longrightarrow> filled c kf (unat depth) w'"
proof -
  have step: "\<exists>m \<le> unat depth. filled c kf m (snd (new_address c v))"
    if "n \<le> unat depth" "filled c kf n v" "key_leaf v \<noteq> depth" for n v
  proof -
    have "n < unat depth" using that by (cases "n = unat depth") (auto simp: filled_def)
    moreover from this have "inj_on (child_address c kf) {0..<Suc n}" by (intro inj_on_subset [OF inj]) auto
    ultimately show ?thesis using filled_step [of c kf n v] that ok by (auto intro!: exI [of _ "Suc n"])
  qed
  have "generate_loop c' d w = Some w' \<Longrightarrow> c' = c \<longrightarrow> d = depth \<longrightarrow>
      (\<exists>n \<le> unat depth. filled c kf n w) \<longrightarrow> filled c kf (unat depth) w'" for c' d
  proof (erule generate_loop.raw_induct [rotated], intro impI)
    fix f c' d w w'
    assume ih: "\<And>c' d w w'. f c' d w = Some w' \<Longrightarrow> c' = c \<longrightarrow> d = depth \<longrightarrow>
        (\<exists>n \<le> unat depth. filled c kf n w) \<longrightarrow> filled c kf (unat depth) w'"
      and b: "(if key_leaf w = d then Some w else f c' d (snd (new_address c' w))) = Some w'"
      and eq: "c' = c" "d = depth" and fill: "\<exists>n \<le> unat depth. filled c kf n w"
    show "filled c kf (unat depth) w'"
    proof (cases "key_leaf w = depth")
      case True
      from fill obtain n where n: "n \<le> unat depth" "filled c kf n w" by auto
      then have "unat (of_nat n :: u64) = unat depth" using True by (simp add: filled_def)
      moreover have "unat (of_nat n :: u64) = n" using n(1) unat_u64_less [of depth] by (simp add: unat_of_nat)
      ultimately show ?thesis using n(2) True b eq by simp
    next
      case False
      then show ?thesis using ih b eq fill step by (metis (no_types))
    qed
  qed
  then show "generate_loop c depth w = Some w' \<Longrightarrow>
    (\<exists>n \<le> unat depth. filled c kf n w) \<longrightarrow> filled c kf (unat depth) w'" by blast
qed

text \<open>C26. Address generation ends exactly when every child key it needs can be derived: if one derivation
  fails, the loop repeats it forever, because the error is discarded and the counter only advances on
  success. When it ends below the requested depth, the counter is at the depth.\<close>

theorem generate_addresses_terminates_iff:
  "(generate_addresses c depth w \<noteq> None \<longleftrightarrow>
      (\<forall>n. key_leaf w \<le> n \<and> n < depth \<longrightarrow> is_ok (private_child c (key_factory w) n))) \<and>
   (\<forall>w'. generate_addresses c depth w = Some (Inr (), w') \<longrightarrow> key_leaf w' = depth)"
proof (cases "depth < key_leaf w")
  case True
  then show ?thesis by (auto simp: generate_addresses_def)
next
  case False
  then have le: "key_leaf w \<le> depth" by simp
  then show ?thesis using generate_loop_sound [of c depth w] generate_loop_complete [of c depth w]
    by (auto simp: generate_addresses_def derivable_def)
qed

text \<open>C3. A wallet only hands out keys for its own addresses: in every wallet that is built from a mnemonic
  by adding addresses, a private key is returned exactly for the addresses in the map, and the
  address derived from the returned key is the address that was asked for; likewise for the
  authentication key.\<close>

theorem wallet_keys_match_addresses:
  assumes "wallet_reachable c w"
  shows "(is_ok (get_private_key c w a) \<longleftrightarrow> a \<in> fst ` set (addr_map w)) \<and>
    (\<forall>sk. get_private_key c w a = Inr sk \<longrightarrow> derived_address c (auth_key_ed25519 c (public_key_of c sk)) = a) \<and>
    (\<forall>ak. wallet_authentication_key c w a = Inr ak \<longrightarrow> derived_address c ak = a)"
proof (cases "map_of (addr_map w) a")
  case None
  moreover from this have "a \<notin> fst ` set (addr_map w)" by (simp add: map_of_eq_None_iff)
  ultimately show ?thesis by (simp add: get_private_key_def wallet_authentication_key_def)
next
  case (Some n)
  then obtain k where "private_child c (key_factory w) n = Inr k" "get_address c k = a"
    using wallet_reachable_inv [OF assms] unfolding wallet_inv_def by blast
  then show ?thesis using Some map_of_SomeD [OF Some]
    by (force simp: get_private_key_def wallet_authentication_key_def get_address_def get_public_def
      get_authentication_key_def)
qed

lemma collect_addresses_map:
  "\<forall>i \<in> set is. rev_map (of_nat i) = Some (f i) \<Longrightarrow> collect_addresses rev_map is = Inr (map f is)"
  by (induction "is") simp_all

lemma get_addresses_filled:
  assumes "filled c kf n w" "n < 2 ^ 64" "mset (iter (addr_map w)) = mset (addr_map w)"
  shows "get_addresses iter w = Inr (map (child_address c kf) [0..<n])"
proof -
  let ?r = "rev (map (\<lambda>(k, v). (v, k)) (iter (addr_map w)))"
  have m: "addr_map w = map (\<lambda>i. (child_address c kf i, of_nat i)) [0..<n]" using assms(1) by (simp add: filled_def)
  have inj: "inj_on (of_nat :: nat \<Rightarrow> u64) (set [0..<n])"
    using assms(2) by (intro inj_onI) (simp add: word_of_nat_eq_iff take_bit_nat_eq_self)
  have "map fst ?r = rev (map snd (iter (addr_map w)))" by (simp add: rev_map comp_def case_prod_beta)
  then have "mset (map fst ?r) = mset (map snd (addr_map w))"
    using arg_cong [OF assms(3), of "image_mset snd"] by simp
  also have "map snd (addr_map w) = map of_nat [0..<n]" by (simp add: m)
  finally have e: "mset (map fst ?r) = mset (map of_nat [0..<n])" .
  have "distinct (map (of_nat :: nat \<Rightarrow> u64) [0..<n])" using inj by (simp only: distinct_map distinct_upt simp_thms)
  then have d: "distinct (map fst ?r)" using mset_eq_imp_distinct_iff [OF e] by blast
  have "map_of ?r (of_nat i) = Some (child_address c kf i)" if "i < n" for i
  proof (rule map_of_is_SomeI [OF d])
    have "(child_address c kf i, of_nat i) \<in> set (addr_map w)" using that by (auto simp: m)
    then have "(child_address c kf i, of_nat i) \<in> set (iter (addr_map w))" using assms(3) by (metis mset_eq_setD)
    then show "(of_nat i, child_address c kf i) \<in> set ?r" by force
  qed
  then have "collect_addresses (map_of ?r) [0..<n] = Inr (map (child_address c kf) [0..<n])"
    by (intro collect_addresses_map) simp
  then show ?thesis by (simp add: get_addresses_def m [symmetric]) (simp add: m)
qed

text \<open>C4. Restoring a wallet is deterministic: from a fresh wallet, when the first \<open>depth\<close> child keys derive
  and their addresses differ, address generation returns, and the wallet lists exactly those
  addresses in the order of their child numbers, however the hash map is iterated.\<close>

theorem generated_addresses_in_order:
  assumes fresh: "new_from_mnemonic c m = Inr w"
    and ok: "\<forall>i < unat depth. is_ok (private_child c (key_factory w) (of_nat i))"
    and inj: "inj_on (child_address c (key_factory w)) {0..<unat depth}"
    and iter: "\<And>xs. mset (iter xs) = mset xs"
  shows "\<exists>w'. generate_addresses c depth w = Some (Inr (), w') \<and> key_leaf w' = depth \<and>
    get_addresses iter w' = Inr (map (child_address c (key_factory w)) [0..<unat depth])"
proof -
  have leaf: "key_leaf w = 0" "addr_map w = []" using fresh by (auto simp: new_from_mnemonic_def and_then_eq_Inr)
  then have f0: "filled c (key_factory w) 0 w" by (simp add: filled_def)
  have "derivable c depth w" unfolding derivable_def
  proof (intro allI impI)
    fix n assume "key_leaf w \<le> n \<and> n < depth"
    then show "is_ok (private_child c (key_factory w) n)"
      using ok [rule_format, of "unat n"] by (simp add: word_less_nat_alt)
  qed
  then obtain w' where w': "generate_loop c depth w = Some w'" using generate_loop_complete [of c depth w] leaf by auto
  then have "filled c (key_factory w) (unat depth) w'" using generate_loop_filled [OF inj ok w'] f0 by blast
  then show ?thesis using w' leaf get_addresses_filled [of c "key_factory w" "unat depth" w', where iter = iter] iter unat_u64_less [of depth]
    by (auto simp: generate_addresses_def filled_def)
qed

section \<open>An instance\<close>

text \<open>Primitives for evaluation: the private key is the tail of the derivation info, that is the child number;
  key material that starts with the byte \<open>bad\<close> is refused.\<close>

definition example_crypto :: "u8 \<Rightarrow> crypto" where
  "example_crypto bad =
     \<lparr>hkdf_extract = (\<lambda>salt ikm. Inr (replicate 32 7)),
      hkdf_expand = (\<lambda>prk info n. Inr (drop (length INFO_PREFIX) info)),
      pbkdf2 = (\<lambda>pw salt i n. replicate n 1),
      private_key_try_from = (\<lambda>bs. if hd bs = bad then Inl (Err ''bad key'') else Inr bs),
      private_key_to_bytes = (\<lambda>sk. sk),
      public_key_of = (\<lambda>sk. sk),
      auth_key_ed25519 = (\<lambda>pk. fold (\<lambda>b acc. 256 * acc + ucast b) pk 0),
      derived_address = (\<lambda>k. k)\<rparr>"

definition example_wallet :: WalletLibrary where
  "example_wallet = \<lparr>wallet_mnemonic = \<lparr>mnemonic_words = [''abandon'']\<rparr>,
     key_factory = \<lparr>main = replicate 32 7\<rparr>, addr_map = [], key_leaf = 0\<rparr>"

lemma example_fresh: "new_from_mnemonic (example_crypto bad) \<lparr>mnemonic_words = [''abandon'']\<rparr> = Inr example_wallet"
  by (simp add: new_from_mnemonic_def KeyFactory_new_def example_crypto_def Main_from_def example_wallet_def)

lemma example_child:
  "private_child (example_crypto bad) kf n =
     (if ucast n = bad then Inl (Err ''Unable to convert hkdf output into private key'')
      else Inr \<lparr>child_number = n, private_key = le_u64 n\<rparr>)"
proof -
  have "hd (le_u64 n) = ucast n" by (simp add: le_u64_def upt_rec)
  then show ?thesis by (simp add: private_child_def example_crypto_def)
qed

theorem generate_addresses_terminates_iff_witness:
  "generate_addresses (example_crypto 0) 1 example_wallet = None"
proof -
  have "\<not> is_ok (private_child (example_crypto 0) (key_factory example_wallet) 0)" by (simp add: example_child)
  moreover have "key_leaf example_wallet \<le> 0 \<and> (0 :: u64) < 1" by (simp add: example_wallet_def)
  ultimately show ?thesis
    using generate_addresses_terminates_iff [of "example_crypto 0" 1 example_wallet] by blast
qed

theorem wallet_keys_match_addresses_witness:
  "wallet_reachable (example_crypto 9) (snd (new_address (example_crypto 9) example_wallet)) \<and>
   is_ok (get_private_key (example_crypto 9) (snd (new_address (example_crypto 9) example_wallet)) 0)"
proof -
  have r: "wallet_reachable (example_crypto 9) (snd (new_address (example_crypto 9) example_wallet))"
    by (intro wallet_reachable.intros) (rule example_fresh)
  have "addr_map (snd (new_address (example_crypto 9) example_wallet)) = [(0, 0)]"
    by (simp add: new_address_def example_child example_wallet_def get_authentication_key_def get_public_def
      Let_def le_u64_def upt_rec) (simp add: example_crypto_def)
  then show ?thesis using wallet_keys_match_addresses [OF r, of 0] r by simp
qed

theorem generated_addresses_in_order_witness:
  "\<exists>w'. generate_addresses (example_crypto 9) 1 example_wallet = Some (Inr (), w') \<and> get_addresses (\<lambda>xs. xs) w' = Inr [0]"
proof -
  have "child_address (example_crypto 9) (key_factory example_wallet) 0 = 0"
    by (simp add: child_address_def example_child get_address_def get_public_def le_u64_def upt_rec)
      (simp add: example_crypto_def)
  then show ?thesis
    using generated_addresses_in_order [OF example_fresh, of 1 9, where iter = "\<lambda>xs. xs"] by (auto simp: example_child)
qed

end
