(* ===== verification/Account_Keys.thy ===== *)
theory Account_Keys
  imports Wallet Account_Address
begin

text \<open>
  From a mnemonic to the keys and the configuration files of an account and a validator
  (\<^verbatim>\<open>tools/wallet/src\<close>: \<^verbatim>\<open>account_keys.rs\<close>, \<^verbatim>\<open>load_keys.rs\<close>, \<^verbatim>\<open>key_gen.rs\<close>, \<^verbatim>\<open>keys.rs\<close>, \<^verbatim>\<open>utils.rs\<close>,
  \<^verbatim>\<open>validator_files.rs\<close>), and the two conversions of an address to its legacy form
  (\<^verbatim>\<open>get_ol_legacy_address\<close> and, in \<^verbatim>\<open>tools/txs/src/txs_cli.rs\<close>, \<^verbatim>\<open>to_legacy_address\<close>).

  The record \<open>vendor_keys\<close> extends \<open>crypto\<close> by the text forms of the vendor's key types, the BLS
  and X25519 keys and the YAML printer; \<open>vendor_roundtrip\<close> states the documented round trips.
\<close>

section \<open>Legacy addresses\<close>

definition get_ol_legacy_address ::
  "(u8 list \<Rightarrow> string) \<Rightarrow> (string \<Rightarrow> AccountAddress result) \<Rightarrow> AccountAddress \<Rightarrow> AccountAddress result" where
  "get_ol_legacy_address hex_encode from_hex_literal addr =
     (let leg_addr = hex_encode (drop 16 (address_bytes addr));
          literal = ''0x0000000000000000'' @ leg_addr
      in from_hex_literal literal)"

definition to_legacy_address ::
  "(AccountAddress \<Rightarrow> string) \<Rightarrow> (string \<Rightarrow> AccountAddress result) \<Rightarrow> AccountAddress \<Rightarrow> AccountAddress result" where
  "to_legacy_address to_string from_hex_literal address =
     (let address_str = to_string address;
          address_str = (if 32 \<le> length address_str
                         then replicate 32 CHR ''0'' @ drop 32 address_str else address_str)
      in from_hex_literal (''0x'' @ address_str))"

section \<open>Key chain\<close>

record vendor_keys = crypto +
  addr_to_hex_literal :: "AccountAddress \<Rightarrow> string"
  addr_from_literal :: "string \<Rightarrow> AccountAddress result"
  auth_key_to_string :: "AuthenticationKey \<Rightarrow> string"
  auth_key_from_str :: "string \<Rightarrow> AuthenticationKey result"
  hex_encode_bytes :: "u8 list \<Rightarrow> string"
  bls_key_gen :: "u8 list \<Rightarrow> u8 list result"
  bls_public :: "u8 list \<Rightarrow> u8 list"
  bls_pop :: "u8 list \<Rightarrow> u8 list"
  x25519_from_ed25519 :: "u8 list \<Rightarrow> u8 list result"
  x25519_public :: "u8 list \<Rightarrow> u8 list"
  x25519_public_to_string :: "u8 list \<Rightarrow> string"
  parse_address :: "string \<Rightarrow> AccountAddress result"

abbreviation crypto_of :: "vendor_keys \<Rightarrow> crypto" where
  "crypto_of v \<equiv> crypto.truncate v"

record AccountKeys =
  account :: AccountAddress
  auth_key :: AuthenticationKey
  pri_key :: PrivateKey

record KeyChain =
  kc_mnemonic :: string
  seed :: "u8 list"
  child_0_owner :: AccountKeys
  child_1_operator :: AccountKeys
  child_2_val_network :: AccountKeys
  child_3_fullnode_network :: AccountKeys
  child_4_consensus :: AccountKeys
  child_5_executor :: AccountKeys

definition get_account_from_private :: "vendor_keys \<Rightarrow> PrivateKey \<Rightarrow> AccountKeys" where
  "get_account_from_private v pri =
     (let pub_key = public_key_of v pri; auth = auth_key_ed25519 v pub_key
      in \<lparr>account = derived_address v auth, auth_key = auth, pri_key = pri\<rparr>)"

definition nth_key :: "LegacyKeyScheme \<Rightarrow> u8 \<Rightarrow> ExtendedPrivKey result" where
  "nth_key pri_keys n =
     (if n = 0 then Inr (scheme_0_owner pri_keys)
      else if n = 1 then Inr (scheme_1_operator pri_keys)
      else if n = 2 then Inr (scheme_2_val_network pri_keys)
      else if n = 3 then Inr (scheme_3_fullnode_network pri_keys)
      else if n = 4 then Inr (scheme_4_consensus pri_keys)
      else if n = 5 then Inr (scheme_5_executor pri_keys)
      else Inl (Panic ''Invalid key index''))"

definition get_account_from_nth :: "vendor_keys \<Rightarrow> WalletLibrary \<Rightarrow> u8 \<Rightarrow> AccountKeys result" where
  "get_account_from_nth v w n =
     and_then (LegacyKeyScheme_new (crypto_of v) w) (\<lambda>pri_keys.
     and_then (nth_key pri_keys n) (\<lambda>key.
     let auth = get_authentication_key (crypto_of v) key; acct = get_address (crypto_of v) key in
     and_then (addr_from_literal v (addr_to_hex_literal v acct)) (\<lambda>a.
     and_then (auth_key_from_str v (auth_key_to_string v auth)) (\<lambda>k.
     and_then (private_key_try_from v (private_key_to_bytes v (private_key key))) (\<lambda>sk.
     Inr \<lparr>account = a, auth_key = k, pri_key = sk\<rparr>)))))"

definition KeyChain_new :: "vendor_keys \<Rightarrow> WalletLibrary \<Rightarrow> KeyChain result" where
  "KeyChain_new v w =
     and_then (get_account_from_nth v w 0) (\<lambda>c0.
     and_then (get_account_from_nth v w 1) (\<lambda>c1.
     and_then (get_account_from_nth v w 2) (\<lambda>c2.
     and_then (get_account_from_nth v w 3) (\<lambda>c3.
     and_then (get_account_from_nth v w 4) (\<lambda>c4.
     and_then (get_account_from_nth v w 5) (\<lambda>c5.
     Inr \<lparr>kc_mnemonic = mnemonic_string w, seed = main (key_factory w), child_0_owner = c0,
          child_1_operator = c1, child_2_val_network = c2, child_3_fullnode_network = c3,
          child_4_consensus = c4, child_5_executor = c5\<rparr>))))))"

section \<open>Loading and generating\<close>

definition get_account_from_mnem ::
  "(u8 list \<Rightarrow> u8 list) \<Rightarrow> vendor_keys \<Rightarrow> string \<Rightarrow> (AuthenticationKey \<times> AccountAddress \<times> WalletLibrary) result" where
  "get_account_from_mnem sha256 v mnemonic =
     and_then (Mnemonic_from sha256 (trim mnemonic)) (\<lambda>m.
     and_then (new_from_mnemonic (crypto_of v) m) (\<lambda>wallet.
     let (r, wallet) = new_address (crypto_of v) wallet in
     and_then r (\<lambda>(auth, _). Inr (auth, derived_address v auth, wallet))))"

definition get_account_from_wallet ::
  "(u8 list \<Rightarrow> u8 list) \<Rightarrow> vendor_keys \<Rightarrow> WalletLibrary \<Rightarrow> (AuthenticationKey \<times> AccountAddress \<times> WalletLibrary) result" where
  "get_account_from_wallet sha256 v wallet = get_account_from_mnem sha256 v (mnemonic_string wallet)"

text \<open>\<open>env_mnem\<close> is the variable \<^verbatim>\<open>MNEM\<close>, \<open>tty\<close> what the user types; \<^verbatim>\<open>exit(1)\<close> ends the process.\<close>

definition get_account_from_prompt ::
  "(u8 list \<Rightarrow> u8 list) \<Rightarrow> vendor_keys \<Rightarrow> bool \<Rightarrow> string option \<Rightarrow> string result \<Rightarrow>
   (AuthenticationKey \<times> AccountAddress \<times> WalletLibrary) result" where
  "get_account_from_prompt sha256 v mode_testing env_mnem tty =
     (let mnem = (case (mode_testing, env_mnem) of
                    (True, Some m) \<Rightarrow> Inr (trim m)
                  | _ \<Rightarrow> (case tty of Inr m \<Rightarrow> Inr (trim m) | Inl _ \<Rightarrow> Inl (Panic ''exit(1)'')))
      in and_then mnem (\<lambda>m. expect ''exit(1)'' (get_account_from_mnem sha256 v m)))"

definition get_keys_from_mnem :: "(u8 list \<Rightarrow> u8 list) \<Rightarrow> vendor_keys \<Rightarrow> string \<Rightarrow> KeyChain result" where
  "get_keys_from_mnem sha256 v mnem =
     and_then (get_account_from_mnem sha256 v mnem) (\<lambda>(_, _, wallet). KeyChain_new v wallet)"

definition get_keys_from_prompt ::
  "(u8 list \<Rightarrow> u8 list) \<Rightarrow> vendor_keys \<Rightarrow> bool \<Rightarrow> string option \<Rightarrow> string result \<Rightarrow> KeyChain result" where
  "get_keys_from_prompt sha256 v mode_testing env_mnem tty =
     and_then (get_account_from_prompt sha256 v mode_testing env_mnem tty) (\<lambda>(_, _, wallet). KeyChain_new v wallet)"

definition keygen ::
  "(u8 list \<Rightarrow> u8 list) \<Rightarrow> vendor_keys \<Rightarrow> u8 list \<Rightarrow>
   (AuthenticationKey \<times> AccountAddress \<times> WalletLibrary \<times> string) result" where
  "keygen sha256 v random =
     and_then (WalletLibrary_new sha256 (crypto_of v) random) (\<lambda>wallet.
     let mnemonic = mnemonic_string wallet; (r, wallet) = new_address (crypto_of v) wallet in
     and_then (expect ''Could not generate address'' r) (\<lambda>(auth, _).
     Inr (auth, derived_address v auth, wallet, mnemonic)))"

definition legacy_keygen :: "(u8 list \<Rightarrow> u8 list) \<Rightarrow> vendor_keys \<Rightarrow> u8 list \<Rightarrow> KeyChain result" where
  "legacy_keygen sha256 v random =
     and_then (keygen sha256 v random) (\<lambda>(_, _, wallet, _). KeyChain_new v wallet)"

section \<open>Validator identities\<close>

record IdentityBlob =
  blob_account_address :: "AccountAddress option"
  blob_account_private_key :: "PrivateKey option"
  blob_consensus_private_key :: "u8 list option"
  blob_network_private_key :: "u8 list"

record PrivateIdentity =
  priv_account_address :: AccountAddress
  account_private_key :: PrivateKey
  consensus_private_key :: "u8 list"
  full_node_network_private_key :: "u8 list"
  validator_network_private_key :: "u8 list"

record PublicIdentity =
  pub_account_address :: AccountAddress
  account_public_key :: PublicKey
  consensus_public_key :: "u8 list option"
  consensus_proof_of_possession :: "u8 list option"
  full_node_network_public_key :: "u8 list option"
  validator_network_public_key :: "u8 list option"

type_synonym identities = "IdentityBlob \<times> IdentityBlob \<times> PrivateIdentity \<times> PublicIdentity"

definition network_keys_x25519_from_ed25519 :: "vendor_keys \<Rightarrow> PrivateKey \<Rightarrow> u8 list result" where
  "network_keys_x25519_from_ed25519 v pri = x25519_from_ed25519 v (private_key_to_bytes v pri)"

definition generate_key_objects_from_legacy :: "vendor_keys \<Rightarrow> KeyChain \<Rightarrow> identities result" where
  "generate_key_objects_from_legacy v legacy_keys =
     (let account_key = pri_key (child_0_owner legacy_keys) in
      and_then (bls_key_gen v (seed legacy_keys)) (\<lambda>consensus_key.
      and_then (network_keys_x25519_from_ed25519 v (pri_key (child_2_val_network legacy_keys))) (\<lambda>vnk.
      and_then (network_keys_x25519_from_ed25519 v (pri_key (child_3_fullnode_network legacy_keys))) (\<lambda>fnk.
      let account_address = account (child_0_owner legacy_keys);
          validator_blob = \<lparr>blob_account_address = Some account_address,
            blob_account_private_key = Some account_key, blob_consensus_private_key = Some consensus_key,
            blob_network_private_key = vnk\<rparr>
      in
      and_then (parse_address v (x25519_public_to_string v (x25519_public v fnk))) (\<lambda>vfn_address.
      let vfn_blob = \<lparr>blob_account_address = Some vfn_address, blob_account_private_key = None,
            blob_consensus_private_key = None, blob_network_private_key = fnk\<rparr>;
          private_identity = \<lparr>priv_account_address = account_address, account_private_key = account_key,
            consensus_private_key = consensus_key, full_node_network_private_key = fnk,
            validator_network_private_key = vnk\<rparr>;
          public_identity = \<lparr>pub_account_address = account_address,
            account_public_key = public_key_of v account_key,
            consensus_public_key = Some (bls_public v consensus_key),
            consensus_proof_of_possession = Some (bls_pop v consensus_key),
            full_node_network_public_key = Some (x25519_public v fnk),
            validator_network_public_key = Some (x25519_public v vnk)\<rparr>
      in Inr (validator_blob, vfn_blob, private_identity, public_identity))))))"

definition make_validator_keys ::
  "(u8 list \<Rightarrow> u8 list) \<Rightarrow> vendor_keys \<Rightarrow> KeyChain result \<Rightarrow> string option \<Rightarrow> bool \<Rightarrow> (identities \<times> KeyChain) result" where
  "make_validator_keys sha256 v from_prompt mnem keep_legacy_addr =
     and_then (case mnem of Some m \<Rightarrow> get_keys_from_mnem sha256 v m | None \<Rightarrow> from_prompt) (\<lambda>legacy_keys.
     and_then
       (if keep_legacy_addr then
          and_then (get_ol_legacy_address (hex_encode_bytes v) (addr_from_literal v) (account (child_0_owner legacy_keys)))
            (\<lambda>legacy_format. Inr (legacy_keys\<lparr>child_0_owner := (child_0_owner legacy_keys)\<lparr>account := legacy_format\<rparr>\<rparr>))
        else Inr legacy_keys) (\<lambda>legacy_keys.
     and_then (generate_key_objects_from_legacy v legacy_keys) (\<lambda>ids. Inr (ids, legacy_keys))))"

section \<open>Writing the key files\<close>

definition PRIVATE_KEYS_FILE :: string where "PRIVATE_KEYS_FILE = ''private-keys.yaml''"
definition PUBLIC_KEYS_FILE :: string where "PUBLIC_KEYS_FILE = ''public-keys.yaml''"
definition VALIDATOR_FILE :: string where "VALIDATOR_FILE = ''validator-identity.yaml''"
definition VFN_FILE :: string where "VFN_FILE = ''validator-full-node-identity.yaml''"

text \<open>\<open>ci\<close> is the build variable \<^verbatim>\<open>LIBRA_CI\<close>; \<open>prompt_yes\<close> is the user's answer for a file.\<close>

definition check_if_file_exists :: "string option \<Rightarrow> (string \<Rightarrow> bool) \<Rightarrow> file_system \<Rightarrow> string \<Rightarrow> unit result" where
  "check_if_file_exists ci prompt_yes fs file =
     (if files fs file \<noteq> None then
        (case ci of
           Some env \<Rightarrow> if env \<noteq> [] then Inr ()
                      else if prompt_yes file then Inr () else Inl (Err ''Aborted by user'')
         | None \<Rightarrow> if prompt_yes file then Inr () else Inl (Err ''Aborted by user''))
      else Inr ())"

definition write_to_user_only_file :: "file_system \<Rightarrow> string \<Rightarrow> string \<Rightarrow> file_system result" where
  "write_to_user_only_file fs path text_bytes =
     (if writable fs path then Inr (fs\<lparr>files := (files fs)(path \<mapsto> text_bytes)\<rparr>)
      else Inl (Err ''cannot write file''))"

definition write_key_file ::
  "string option \<Rightarrow> (string \<Rightarrow> bool) \<Rightarrow> string \<Rightarrow> string \<Rightarrow> string result \<Rightarrow> file_system \<Rightarrow> file_system result" where
  "write_key_file ci prompt_yes output_dir filename yaml fs =
     (let file = path_join output_dir filename in
      and_then (check_if_file_exists ci prompt_yes fs file) (\<lambda>_.
      and_then yaml (\<lambda>y. write_to_user_only_file fs file y)))"

text \<open>The state of the disk is returned with an error as well: the files written before it stay.\<close>

fun write_key_files ::
  "string option \<Rightarrow> (string \<Rightarrow> bool) \<Rightarrow> string \<Rightarrow> (string \<times> string result) list \<Rightarrow> file_system \<Rightarrow>
   unit result \<times> file_system" where
  "write_key_files ci prompt_yes dir [] fs = (Inr (), fs)"
| "write_key_files ci prompt_yes dir ((name, yaml) # rest) fs =
     (case write_key_file ci prompt_yes dir name yaml fs of
        Inl e \<Rightarrow> (Inl e, fs)
      | Inr fs' \<Rightarrow> write_key_files ci prompt_yes dir rest fs')"

definition save_val_files ::
  "string option \<Rightarrow> (string \<Rightarrow> bool) \<Rightarrow> (PrivateIdentity \<Rightarrow> string result) \<Rightarrow> (PublicIdentity \<Rightarrow> string result) \<Rightarrow>
   (IdentityBlob \<Rightarrow> string result) \<Rightarrow> string \<Rightarrow> string option \<Rightarrow> identities \<Rightarrow> file_system \<Rightarrow>
   unit result \<times> file_system" where
  "save_val_files ci prompt_yes yaml_priv yaml_pub yaml_blob current_dir output_opt ids fs =
     (let (validator_blob, vfn_blob, private_identity, public_identity) = ids;
          output_dir = (case output_opt of Some d \<Rightarrow> d | None \<Rightarrow> current_dir)
      in write_key_files ci prompt_yes output_dir
           [(PRIVATE_KEYS_FILE, yaml_priv private_identity), (PUBLIC_KEYS_FILE, yaml_pub public_identity),
            (VALIDATOR_FILE, yaml_blob validator_blob), (VFN_FILE, yaml_blob vfn_blob)] fs)"

section \<open>Operator and owner configuration\<close>

record OperatorConfiguration =
  operator_account_address :: AccountAddress
  operator_account_public_key :: PublicKey
  op_consensus_public_key :: "u8 list"
  op_consensus_proof_of_possession :: "u8 list"
  op_validator_network_public_key :: "u8 list"
  validator_host :: string
  op_full_node_network_public_key :: "u8 list option"
  full_node_host :: "string option"

record OwnerConfiguration =
  owner_account_address :: AccountAddress
  owner_account_public_key :: PublicKey
  voter_account_address :: AccountAddress
  voter_account_public_key :: PublicKey
  own_operator_account_address :: AccountAddress
  own_operator_account_public_key :: PublicKey
  stake_amount :: u64
  commission_percentage :: u64
  join_during_genesis :: bool

text \<open>The part of \<^verbatim>\<open>set_config_files\<close> that builds the two configurations from the public identity.\<close>

definition build_configs ::
  "string \<Rightarrow> string option \<Rightarrow> PublicIdentity \<Rightarrow> (OperatorConfiguration \<times> OwnerConfiguration) result" where
  "build_configs host fn_host identity =
     and_then (ok_or ''Failed to read consensus public key from public identity file'' (consensus_public_key identity)) (\<lambda>cpk.
     and_then (ok_or ''Failed to read validator network public key from public identity file''
                 (validator_network_public_key identity)) (\<lambda>vnpk.
     and_then (ok_or ''Failed to read consensus proof of possession from public identity file''
                 (consensus_proof_of_possession identity)) (\<lambda>pop.
     let fnpk = (if fn_host \<noteq> None then full_node_network_public_key identity else None);
         operator = \<lparr>operator_account_address = pub_account_address identity,
           operator_account_public_key = account_public_key identity, op_consensus_public_key = cpk,
           op_consensus_proof_of_possession = pop, op_validator_network_public_key = vnpk,
           validator_host = host, op_full_node_network_public_key = fnpk, full_node_host = fn_host\<rparr>;
         owner = \<lparr>owner_account_address = pub_account_address identity,
           owner_account_public_key = account_public_key identity,
           voter_account_address = pub_account_address identity,
           voter_account_public_key = account_public_key identity,
           own_operator_account_address = pub_account_address identity,
           own_operator_account_public_key = account_public_key identity,
           stake_amount = 100000000000000, commission_percentage = 0, join_during_genesis = True\<rparr>
     in Inr (operator, owner))))"

definition set_config_files ::
  "(string \<Rightarrow> PublicIdentity result) \<Rightarrow> (OperatorConfiguration \<Rightarrow> string result) \<Rightarrow>
   (OwnerConfiguration \<Rightarrow> string result) \<Rightarrow> string \<Rightarrow> string option \<Rightarrow> string \<Rightarrow> string option \<Rightarrow> file_system \<Rightarrow>
   (OperatorConfiguration \<times> OwnerConfiguration) result \<times> file_system" where
  "set_config_files from_yaml yaml_op yaml_own global_dir home_dir host fn_host fs =
     (let home = (case home_dir of Some d \<Rightarrow> d | None \<Rightarrow> global_dir);
          identity = and_then (ok_or ''No such file'' (files fs (path_join home PUBLIC_KEYS_FILE))) from_yaml
      in case and_then identity (build_configs host fn_host) of
           Inl e \<Rightarrow> (Inl e, fs)
         | Inr (operator, owner) \<Rightarrow>
             (case and_then (yaml_op operator) (write_to_user_only_file fs (path_join home ''operator.yaml'')) of
                Inl e \<Rightarrow> (Inl e, fs)
              | Inr fs1 \<Rightarrow>
                  (case and_then (yaml_own owner) (write_to_user_only_file fs1 (path_join home ''owner.yaml'')) of
                     Inl e \<Rightarrow> (Inl e, fs1)
                   | Inr fs2 \<Rightarrow> (Inr (operator, owner), fs2))))"

definition read_configs_from_file ::
  "(string \<Rightarrow> OperatorConfiguration result) \<Rightarrow> (string \<Rightarrow> OwnerConfiguration result) \<Rightarrow> string \<Rightarrow> string option \<Rightarrow>
   file_system \<Rightarrow> (OperatorConfiguration \<times> OwnerConfiguration) result" where
  "read_configs_from_file op_from_yaml own_from_yaml global_dir home_path fs =
     (let dir = (case home_path of Some d \<Rightarrow> d | None \<Rightarrow> global_dir) in
      and_then (unwrap ''No such file'' (files fs (path_join dir ''operator.yaml''))) (\<lambda>s.
      and_then (expect ''yaml'' (op_from_yaml s)) (\<lambda>operator.
      and_then (unwrap ''No such file'' (files fs (path_join dir ''owner.yaml''))) (\<lambda>t.
      and_then (expect ''yaml'' (own_from_yaml t)) (\<lambda>owner.
      Inr (operator, owner))))))"

section \<open>Properties\<close>

lemma lower_hex_drop: "lower_hex (drop n bs) = drop (2 * n) (lower_hex bs)"
proof (induction bs arbitrary: n)
  case (Cons b bs)
  then show ?case by (cases n) (simp_all add: lower_hex_Cons)
qed simp

lemma get_ol_legacy_address_low_half:
  assumes "account_address to_string from_hex_literal"
  shows "get_ol_legacy_address lower_hex from_hex_literal a = Inr (take_bit 128 a)"
proof -
  let ?z = "replicate 16 CHR ''0''" and ?t = "drop 32 (to_string a)"
  have t: "lower_hex (drop 16 (address_bytes a)) = ?t"
    using lower_hex_drop [of 16 "address_bytes a"] by (simp add: account_address.to_string_bytes [OF assms])
  have z: "''0x0000000000000000'' = ''0x'' @ ?z" by (simp add: numeral_eq_Suc)
  have l: "length (?z @ ?t) = 48" using account_address.length_to_string [OF assms] by simp
  have "from_hex_literal (''0x'' @ ?z @ ?t) = from_hex_literal (''0x'' @ replicate (64 - length (?z @ ?t)) CHR ''0'' @ ?z @ ?t)"
    using account_address.from_hex_literal_pads [OF assms, of "?z @ ?t"] l by simp
  also have "\<dots> = from_hex_literal (''0x'' @ replicate 32 CHR ''0'' @ ?t)"
    unfolding l by (simp add: replicate_add [symmetric] flip: append_assoc)
  also have "\<dots> = Inr (take_bit 128 a)" by (rule account_address.from_hex_literal_low_half [OF assms])
  finally show ?thesis by (simp only: get_ol_legacy_address_def Let_def t z append_assoc)
qed

lemma to_legacy_address_low_half:
  assumes "account_address to_string from_hex_literal"
  shows "to_legacy_address to_string from_hex_literal a = Inr (take_bit 128 a)"
  using account_address.from_hex_literal_low_half [OF assms, of a] account_address.length_to_string [OF assms, of a]
  by (simp only: to_legacy_address_def Let_def) simp

text \<open>The two conversions to a legacy address, one through the bytes and one through the text of the
  address, agree on every address: both clear the upper sixteen bytes and keep the lower sixteen,
  and applying a conversion again changes nothing.\<close>

theorem legacy_address_conversions_agree:
  assumes "account_address to_string from_hex_literal"
  shows "get_ol_legacy_address lower_hex from_hex_literal a = to_legacy_address to_string from_hex_literal a \<and>
    to_legacy_address to_string from_hex_literal a = Inr (take_bit 128 a) \<and>
    and_then (to_legacy_address to_string from_hex_literal a) (to_legacy_address to_string from_hex_literal) =
      to_legacy_address to_string from_hex_literal a"
  using get_ol_legacy_address_low_half [OF assms] to_legacy_address_low_half [OF assms]
  by simp

theorem legacy_address_conversions_agree_witness:
  "to_legacy_address addr_hex addr_from_hex_literal (2 ^ 200 + 77) = Inr 77"
  using legacy_address_conversions_agree [OF addr.account_address_axioms, of "2 ^ 200 + 77"]
  by (simp add: take_bit_eq_mod)

definition vendor_roundtrip :: "vendor_keys \<Rightarrow> bool" where
  "vendor_roundtrip v =
     ((\<forall>a. addr_from_literal v (addr_to_hex_literal v a) = Inr a) \<and>
      (\<forall>k. auth_key_from_str v (auth_key_to_string v k) = Inr k) \<and>
      (\<forall>bs sk. private_key_try_from v bs = Inr sk \<longrightarrow> private_key_try_from v (private_key_to_bytes v sk) = Inr sk))"

lemma crypto_of_simps [simp]:
  "hkdf_extract (crypto_of v) = hkdf_extract v" "hkdf_expand (crypto_of v) = hkdf_expand v" "pbkdf2 (crypto_of v) = pbkdf2 v"
  "private_key_try_from (crypto_of v) = private_key_try_from v" "private_key_to_bytes (crypto_of v) = private_key_to_bytes v"
  "public_key_of (crypto_of v) = public_key_of v" "auth_key_ed25519 (crypto_of v) = auth_key_ed25519 v"
  "derived_address (crypto_of v) = derived_address v"
  by (simp_all add: crypto.truncate_def)

lemma private_child_key:
  "private_child c kf n = Inr k \<Longrightarrow> child_number k = n \<and> (\<exists>bs. private_key_try_from c bs = Inr (private_key k))"
proof -
  assume a: "private_child c kf n = Inr k"
  then obtain h where h: "hkdf_expand c (main kf) (INFO_PREFIX @ le_u64 n) 32 = Inr h"
    by (auto simp: private_child_def and_then_eq_Inr)
  with a show ?thesis by (auto simp: private_child_def split: sum.splits)
qed

lemma get_account_from_nth_child:
  assumes rt: "vendor_roundtrip v" and a: "get_account_from_nth v w n = Inr x" and n: "n \<le> 5"
  shows "\<exists>k. private_child (crypto_of v) (key_factory w) (of_nat (unat n)) = Inr k \<and>
    x = get_account_from_private v (private_key k)"
proof -
  obtain sch key where sch: "LegacyKeyScheme_new (crypto_of v) w = Inr sch" and key: "nth_key sch n = Inr key"
    using a by (auto simp: get_account_from_nth_def and_then_eq_Inr)
  have "unat n \<in> {0, 1, 2, 3, 4, 5}" using n by (auto simp: word_le_nat_alt)
  then have "n = 0 \<or> n = 1 \<or> n = 2 \<or> n = 3 \<or> n = 4 \<or> n = 5" by (auto simp: word_unat_eq_iff)
  then have k: "private_child (crypto_of v) (key_factory w) (of_nat (unat n)) = Inr key"
    using sch key by (elim disjE)
      (auto simp: LegacyKeyScheme_new_def Let_def and_then_eq_Inr child_unwrap_def nth_key_def expect_eq_Inr)
  obtain bs where "private_key_try_from v bs = Inr (private_key key)" using private_child_key [OF k] by auto
  then have "private_key_try_from v (private_key_to_bytes v (private_key key)) = Inr (private_key key)"
    using rt unfolding vendor_roundtrip_def by blast
  then have "x = get_account_from_private v (private_key key)"
    using a sch key rt by (auto simp: get_account_from_nth_def and_then_eq_Inr vendor_roundtrip_def
      get_account_from_private_def get_address_def get_authentication_key_def get_public_def Let_def)
  with k show ?thesis by blast
qed

lemma get_account_from_mnem_Inr:
  assumes "get_account_from_mnem sha256 v s = Inr (auth, acct, w)"
  shows "\<exists>k. private_child (crypto_of v) (key_factory w) 0 = Inr k \<and>
    auth = auth_key_ed25519 v (public_key_of v (private_key k)) \<and> acct = derived_address v auth"
proof -
  obtain m w0 where w0: "Mnemonic_from sha256 (trim s) = Inr m" "new_from_mnemonic (crypto_of v) m = Inr w0"
    using assms by (auto simp: get_account_from_mnem_def and_then_eq_Inr)
  then have l0: "key_leaf w0 = 0" by (auto simp: new_from_mnemonic_def and_then_eq_Inr)
  obtain r w1 where r: "new_address (crypto_of v) w0 = (r, w1)" by fastforce
  then obtain n where n: "r = Inr (auth, n)" "w1 = w" "acct = derived_address v auth"
    using assms w0 by (auto simp: get_account_from_mnem_def and_then_eq_Inr)
  then show ?thesis using r l0
    by (auto simp: new_address_def get_authentication_key_def get_public_def Let_def split: sum.splits if_splits)
qed

text \<open>The key chain of a mnemonic belongs to the account of the mnemonic: its owner entry is the account
  and the authentication key that loading the mnemonic reports, its seed is the main key of that
  wallet, and each of the six entries is the account of its own private key.\<close>

theorem keychain_owner_is_account:
  assumes rt: "vendor_roundtrip v"
    and kc: "get_keys_from_mnem sha256 v s = Inr kc"
    and acc: "get_account_from_mnem sha256 v s = Inr (auth, acct, w)"
  shows "account (child_0_owner kc) = acct \<and> auth_key (child_0_owner kc) = auth \<and> seed kc = main (key_factory w) \<and>
    (\<forall>k \<in> {child_0_owner kc, child_1_operator kc, child_2_val_network kc, child_3_fullnode_network kc,
        child_4_consensus kc, child_5_executor kc}. k = get_account_from_private v (pri_key k))"
proof -
  have new: "KeyChain_new v w = Inr kc" using kc acc by (simp add: get_keys_from_mnem_def)
  note nth = get_account_from_nth_child [OF rt]
  have own: "k = get_account_from_private v (pri_key k)" if "get_account_from_nth v w n = Inr k" "n \<le> 5" for n k
    using nth [OF that] by (auto simp: get_account_from_private_def Let_def)
  obtain k0 where k0: "get_account_from_nth v w 0 = Inr (child_0_owner kc)"
      "private_child (crypto_of v) (key_factory w) 0 = Inr k0" "child_0_owner kc = get_account_from_private v (private_key k0)"
    using nth [of w 0] new by (auto simp: KeyChain_new_def and_then_eq_Inr)
  have "account (child_0_owner kc) = acct \<and> auth_key (child_0_owner kc) = auth"
    using get_account_from_mnem_Inr [OF acc] k0 by (auto simp: get_account_from_private_def Let_def)
  moreover have "seed kc = main (key_factory w)" using new by (auto simp: KeyChain_new_def and_then_eq_Inr)
  moreover have "get_account_from_nth v w 0 = Inr (child_0_owner kc)" "get_account_from_nth v w 1 = Inr (child_1_operator kc)"
    "get_account_from_nth v w 2 = Inr (child_2_val_network kc)" "get_account_from_nth v w 3 = Inr (child_3_fullnode_network kc)"
    "get_account_from_nth v w 4 = Inr (child_4_consensus kc)" "get_account_from_nth v w 5 = Inr (child_5_executor kc)"
    using new by (auto simp: KeyChain_new_def and_then_eq_Inr)
  ultimately show ?thesis using own by simp
qed


section \<open>An instance\<close>

definition example_vendor :: vendor_keys where
  "example_vendor = crypto.extend (example_crypto 9)
     \<lparr>addr_to_hex_literal = (\<lambda>a. ''0x'' @ addr_hex a), addr_from_literal = addr_from_hex_literal,
      auth_key_to_string = (\<lambda>a. ''0x'' @ addr_hex a), auth_key_from_str = addr_from_hex_literal,
      hex_encode_bytes = lower_hex, bls_key_gen = Inr, bls_public = rev, bls_pop = rev,
      x25519_from_ed25519 = Inr, x25519_public = rev, x25519_public_to_string = lower_hex,
      parse_address = (\<lambda>_. Inr 5)\<rparr>"

lemma example_vendor_crypto: "crypto_of example_vendor = example_crypto 9"
  by (simp add: example_vendor_def crypto.extend_def crypto.truncate_def example_crypto_def)

lemma example_vendor_fields:
  "addr_from_literal example_vendor = addr_from_hex_literal" "hex_encode_bytes example_vendor = lower_hex"
  "bls_key_gen example_vendor = Inr" "x25519_from_ed25519 example_vendor = Inr"
  "parse_address example_vendor = (\<lambda>_. Inr 5)" "private_key_to_bytes example_vendor = (\<lambda>sk. sk)"
  "private_key_try_from example_vendor = (\<lambda>bs. if hd bs = 9 then Inl (Err ''bad key'') else Inr bs)"
  by (simp_all add: example_vendor_def crypto.extend_def example_crypto_def)

lemma example_vendor_roundtrip: "vendor_roundtrip example_vendor"
  using addr.from_hex_literal_to_string
  by (auto simp: vendor_roundtrip_def example_vendor_def crypto.extend_def example_crypto_def split: if_splits)

lemma example_nth:
  assumes "n \<le> 5"
  shows "\<exists>k. get_account_from_nth example_vendor w n = Inr k"
proof -
  have sch: "\<exists>sch. LegacyKeyScheme_new (example_crypto 9) w = Inr sch \<and> (\<forall>k. nth_key sch n = Inr k \<longrightarrow> hd (private_key k) \<noteq> 9) \<and> is_ok (nth_key sch n)"
    using assms
    by (simp add: LegacyKeyScheme_new_def child_unwrap_def example_child Let_def nth_key_def le_u64_def upt_rec)
      (auto simp: word_le_nat_alt word_unat_eq_iff)
  then show ?thesis
    using example_vendor_roundtrip
    by (auto simp: get_account_from_nth_def example_vendor_crypto vendor_roundtrip_def example_vendor_fields is_ok_iff Let_def)
qed

lemma example_account:
  "\<exists>auth acct w. get_account_from_mnem (\<lambda>_. replicate 32 0) example_vendor zero_phrase = Inr (auth, acct, w)"
proof -
  have t: "trim zero_phrase = zero_phrase" by (simp add: zero_phrase_def trim_def is_ascii_ws_def numeral_eq_Suc)
  show ?thesis
    by (simp add: get_account_from_mnem_def t zero_phrase_accepted example_vendor_crypto new_from_mnemonic_def
      KeyFactory_new_def Main_from_def new_address_def example_child Let_def)
      (simp add: example_crypto_def Main_from_def Let_def)
qed

lemma example_keys: "\<exists>kc. get_keys_from_mnem (\<lambda>_. replicate 32 0) example_vendor zero_phrase = Inr kc"
proof -
  obtain auth acct w where a: "get_account_from_mnem (\<lambda>_. replicate 32 0) example_vendor zero_phrase = Inr (auth, acct, w)"
    using example_account by auto
  have "\<exists>kc. KeyChain_new example_vendor w = Inr kc"
    using example_nth [of 0 w] example_nth [of 1 w] example_nth [of 2 w] example_nth [of 3 w] example_nth [of 4 w]
      example_nth [of 5 w] by (auto simp: KeyChain_new_def)
  then show ?thesis using a by (simp add: get_keys_from_mnem_def)
qed

theorem keychain_owner_is_account_witness:
  "\<exists>kc auth acct w. get_keys_from_mnem (\<lambda>_. replicate 32 0) example_vendor zero_phrase = Inr kc \<and>
    get_account_from_mnem (\<lambda>_. replicate 32 0) example_vendor zero_phrase = Inr (auth, acct, w) \<and>
    account (child_0_owner kc) = acct"
  using example_account example_keys keychain_owner_is_account [OF example_vendor_roundtrip] by metis


text \<open>What \<^verbatim>\<open>set_config_files\<close> wrote is what \<^verbatim>\<open>read_configs_from_file\<close> reads: after it succeeded, reading
  the same directory yields the same two configurations, in which owner, voter and operator are one
  account; and it can only succeed when the public identity file carries the three consensus and
  network keys of a validator.\<close>

theorem config_files_roundtrip:
  assumes op: "\<And>x y. yaml_op x = Inr y \<Longrightarrow> op_from_yaml y = Inr x"
    and own: "\<And>x y. yaml_own x = Inr y \<Longrightarrow> own_from_yaml y = Inr x"
    and ok: "set_config_files from_yaml yaml_op yaml_own global_dir home host fn_host fs = (Inr (opc, owc), fs')"
  shows "read_configs_from_file op_from_yaml own_from_yaml global_dir home fs' = Inr (opc, owc) \<and>
    owner_account_address owc = operator_account_address opc \<and> voter_account_address owc = operator_account_address opc \<and>
    own_operator_account_address owc = operator_account_address opc \<and>
    (\<exists>doc identity. files fs (path_join (case home of Some d \<Rightarrow> d | None \<Rightarrow> global_dir) PUBLIC_KEYS_FILE) = Some doc \<and>
       from_yaml doc = Inr identity \<and> consensus_public_key identity = Some (op_consensus_public_key opc) \<and>
       validator_network_public_key identity = Some (op_validator_network_public_key opc) \<and>
       consensus_proof_of_possession identity = Some (op_consensus_proof_of_possession opc))"
proof -
  define dir where "dir = (case home of Some d \<Rightarrow> d | None \<Rightarrow> global_dir)"
  obtain doc identity where f: "files fs (path_join dir PUBLIC_KEYS_FILE) = Some doc" "from_yaml doc = Inr identity"
      "build_configs host fn_host identity = Inr (opc, owc)"
    using ok by (auto simp: set_config_files_def dir_def [symmetric] Let_def and_then_eq_Inr ok_or_eq_Inr
      split: sum.splits prod.splits)
  then obtain y z fs1 where w: "yaml_op opc = Inr y" "write_to_user_only_file fs (path_join dir ''operator.yaml'') y = Inr fs1"
      "yaml_own owc = Inr z" "write_to_user_only_file fs1 (path_join dir ''owner.yaml'') z = Inr fs'"
    using ok by (auto simp: set_config_files_def dir_def [symmetric] Let_def and_then_eq_Inr split: sum.splits)
  have "path_join dir ''operator.yaml'' \<noteq> path_join dir ''owner.yaml''" by (simp add: path_join_def)
  then have "files fs' (path_join dir ''operator.yaml'') = Some y" "files fs' (path_join dir ''owner.yaml'') = Some z"
    using w by (auto simp: write_to_user_only_file_def split: if_splits)
  then have "read_configs_from_file op_from_yaml own_from_yaml global_dir home fs' = Inr (opc, owc)"
    using op [OF w(1)] own [OF w(3)] by (simp add: read_configs_from_file_def dir_def [symmetric])
  moreover have "owner_account_address owc = operator_account_address opc \<and> voter_account_address owc = operator_account_address opc \<and>
      own_operator_account_address owc = operator_account_address opc \<and> consensus_public_key identity = Some (op_consensus_public_key opc) \<and>
      validator_network_public_key identity = Some (op_validator_network_public_key opc) \<and>
      consensus_proof_of_possession identity = Some (op_consensus_proof_of_possession opc)"
    using f(3) by (auto simp: build_configs_def and_then_eq_Inr ok_or_eq_Inr Let_def)
  ultimately show ?thesis using f(1,2) unfolding dir_def [symmetric] by blast
qed

definition example_identity :: PublicIdentity where
  "example_identity = \<lparr>pub_account_address = 77, account_public_key = [1], consensus_public_key = Some [2],
     consensus_proof_of_possession = Some [3], full_node_network_public_key = Some [4],
     validator_network_public_key = Some [5]\<rparr>"

definition example_operator :: OperatorConfiguration where
  "example_operator = \<lparr>operator_account_address = 77, operator_account_public_key = [1],
     op_consensus_public_key = [2], op_consensus_proof_of_possession = [3], op_validator_network_public_key = [5],
     validator_host = ''127.0.0.1:6180'', op_full_node_network_public_key = None, full_node_host = None\<rparr>"

definition example_owner :: OwnerConfiguration where
  "example_owner = \<lparr>owner_account_address = 77, owner_account_public_key = [1], voter_account_address = 77,
     voter_account_public_key = [1], own_operator_account_address = 77, own_operator_account_public_key = [1],
     stake_amount = 100000000000000, commission_percentage = 0, join_during_genesis = True\<rparr>"

theorem config_files_roundtrip_witness:
  "\<exists>fs'. set_config_files (\<lambda>_. Inr example_identity) (\<lambda>x. if x = example_operator then Inr ''op'' else Inl (Err ''other''))
      (\<lambda>x. if x = example_owner then Inr ''own'' else Inl (Err ''other'')) ''/root'' None ''127.0.0.1:6180'' None
      \<lparr>files = [''/root/public-keys.yaml'' \<mapsto> ''id''], writable = (\<lambda>_. True)\<rparr> = (Inr (example_operator, example_owner), fs') \<and>
    read_configs_from_file (\<lambda>_. Inr example_operator) (\<lambda>_. Inr example_owner) ''/root'' None fs' = Inr (example_operator, example_owner)"
  (is "\<exists>fs'. ?set = _ \<and> _")
proof -
  obtain fs' where fs': "?set = (Inr (example_operator, example_owner), fs')"
    by (simp add: set_config_files_def build_configs_def path_join_def PUBLIC_KEYS_FILE_def example_identity_def
      example_operator_def example_owner_def write_to_user_only_file_def Let_def)
  have "read_configs_from_file (\<lambda>_. Inr example_operator) (\<lambda>_. Inr example_owner) ''/root'' None fs' =
      Inr (example_operator, example_owner)"
    by (rule config_files_roundtrip [OF _ _ fs', THEN conjunct1]) (auto split: if_splits)
  with fs' show ?thesis by blast
qed

end
