(* ===== verification/Genesis_Config.thy ===== *)
theory Genesis_Config
  imports Account_Keys Hex_Id Genesis_Compare
begin

text \<open>
  Building a genesis (\<^verbatim>\<open>tools/genesis/src/genesis_builder.rs\<close>): reading the registrations of the validators
  from the registry, parsing them field by field, and the steps of \<^verbatim>\<open>build\<close>. The registry client, the
  base64 and YAML decoders, the text forms of addresses and keys, and the vendor's genesis functions
  are parameters (the records \<open>registry\<close> and \<open>genesis_vendor\<close>).
\<close>

section \<open>Parsing a registration\<close>

record StringOwnerConfiguration =
  so_owner_account_address :: "string option"
  so_owner_account_public_key :: "string option"
  so_voter_account_address :: "string option"
  so_voter_account_public_key :: "string option"
  so_operator_account_address :: "string option"
  so_operator_account_public_key :: "string option"
  so_stake_amount :: "string option"
  so_commission_percentage :: "string option"
  so_join_during_genesis :: "string option"

record StringOperatorConfiguration =
  sp_operator_account_address :: "string option"
  sp_operator_account_public_key :: "string option"
  sp_consensus_public_key :: "string option"
  sp_consensus_proof_of_possession :: "string option"
  sp_validator_network_public_key :: "string option"
  sp_validator_host :: string
  sp_full_node_network_public_key :: "string option"
  sp_full_node_host :: "string option"

record ValidatorConfiguration =
  vc_owner_account_address :: AccountAddress
  vc_owner_account_public_key :: "u8 list"
  vc_operator_account_address :: AccountAddress
  vc_operator_account_public_key :: "u8 list"
  vc_voter_account_address :: AccountAddress
  vc_voter_account_public_key :: "u8 list"
  vc_consensus_public_key :: "u8 list option"
  vc_proof_of_possession :: "u8 list option"
  vc_validator_network_public_key :: "u8 list option"
  vc_validator_host :: "string option"
  vc_full_node_network_public_key :: "u8 list option"
  vc_full_node_host :: "string option"
  vc_stake_amount :: u64
  vc_commission_percentage :: u64
  vc_join_during_genesis :: bool

record registry =
  get_file :: "string \<Rightarrow> string result"
  base64_decode :: "string \<Rightarrow> string result"
  owner_from_yaml :: "string \<Rightarrow> StringOwnerConfiguration result"
  operator_from_yaml :: "string \<Rightarrow> StringOperatorConfiguration result"
  layout_from_yaml :: "string \<Rightarrow> string list result"
  address_with_checks :: "string \<Rightarrow> AccountAddress result"
  from_encoded_string :: "string \<Rightarrow> u8 list result"

definition ED25519_PUBLIC_KEY_LENGTH :: nat where "ED25519_PUBLIC_KEY_LENGTH = 32"
definition BLS_PUBLIC_KEY_LENGTH :: nat where "BLS_PUBLIC_KEY_LENGTH = 48"
definition BLS_POP_LENGTH :: nat where "BLS_POP_LENGTH = 96"

definition LAYOUT_FILE :: string where "LAYOUT_FILE = ''layout.yaml''"
definition OPERATOR_FILE :: string where "OPERATOR_FILE = ''operator.yaml''"
definition OWNER_FILE :: string where "OWNER_FILE = ''owner.yaml''"
definition WAYPOINT_FILE :: string where "WAYPOINT_FILE = ''waypoint.txt''"
definition GENESIS_FILE :: string where "GENESIS_FILE = ''genesis.blob''"

definition parse_key :: "(string \<Rightarrow> u8 list result) \<Rightarrow> nat \<Rightarrow> string \<Rightarrow> u8 list result" where
  "parse_key from_encoded num_bytes str =
     (let num_chars = num_bytes * 2;
          working = trim str;
          working = (if starts_with ''0x'' working then drop 2 working else working)
      in if length working < num_chars then Inl (Err ''Key is too short'')
         else if num_chars < length working then Inl (Err ''Key is too long'')
         else if \<not> list_all is_hexdigit working then Inl (Err ''Key contains a non-hex character'')
         else from_encoded (trim str))"

text \<open>\<^verbatim>\<open>u64::from_str\<close> and \<^verbatim>\<open>bool::from_str\<close>\<close>

definition u64_from_str :: "string \<Rightarrow> u64 result" where
  "u64_from_str s = ok_or ''invalid digit found in string'' (parse_u64 s)"

definition bool_from_str :: "string \<Rightarrow> bool result" where
  "bool_from_str s =
     (if s = ''true'' then Inr True else if s = ''false'' then Inr False
      else Inl (Err ''provided string was not `true` or `false`''))"

text \<open>An error of the field parser becomes an error that names the field and the file; a panic passes.\<close>

definition field_error :: "string \<Rightarrow> string \<Rightarrow> 'a result \<Rightarrow> 'a result" where
  "field_error file field_name r =
     (case r of Inl (Err e) \<Rightarrow> Inl (Err (''Field '' @ field_name @ '' is invalid in file '' @ file @ ''.  Err: '' @ e))
      | Inl (Panic m) \<Rightarrow> Inl (Panic m) | Inr x \<Rightarrow> Inr x)"

definition parse_required_option :: "string option \<Rightarrow> string \<Rightarrow> string \<Rightarrow> (string \<Rightarrow> 'a result) \<Rightarrow> 'a result" where
  "parse_required_option opt file field_name parse =
     (case opt of
        Some field \<Rightarrow> field_error file field_name (parse field)
      | None \<Rightarrow> Inl (Err (''File '' @ file @ '' is missing '' @ field_name)))"

definition parse_optional_option :: "string option \<Rightarrow> string \<Rightarrow> string \<Rightarrow> (string \<Rightarrow> 'a result) \<Rightarrow> 'a option result" where
  "parse_optional_option opt file field_name parse =
     (case opt of
        Some field \<Rightarrow> and_then (field_error file field_name (parse field)) (\<lambda>x. Inr (Some x))
      | None \<Rightarrow> Inr None)"

definition fetch_file :: "registry \<Rightarrow> string \<Rightarrow> string result" where
  "fetch_file c path = and_then (get_file c path) (base64_decode c)"

definition get_config :: "registry \<Rightarrow> string \<Rightarrow> ValidatorConfiguration result" where
  "get_config c user =
     (let owner_file = path_join user OWNER_FILE; operator_file = path_join user OPERATOR_FILE;
          key = parse_key (from_encoded_string c) in
      and_then (and_then (fetch_file c owner_file) (owner_from_yaml c)) (\<lambda>owner.
      and_then (parse_required_option (so_owner_account_address owner) owner_file ''owner_account_address''
        (address_with_checks c)) (\<lambda>owner_addr.
      and_then (parse_required_option (so_owner_account_public_key owner) owner_file ''owner_account_public_key''
        (key ED25519_PUBLIC_KEY_LENGTH)) (\<lambda>owner_key.
      and_then (parse_required_option (so_operator_account_address owner) owner_file ''operator_account_address''
        (address_with_checks c)) (\<lambda>operator_addr.
      and_then (parse_required_option (so_operator_account_public_key owner) owner_file ''operator_account_public_key''
        (key ED25519_PUBLIC_KEY_LENGTH)) (\<lambda>operator_key.
      and_then (parse_required_option (so_voter_account_address owner) owner_file ''voter_account_address''
        (address_with_checks c)) (\<lambda>voter_addr.
      and_then (parse_required_option (so_voter_account_public_key owner) owner_file ''voter_account_public_key''
        (key ED25519_PUBLIC_KEY_LENGTH)) (\<lambda>voter_key.
      and_then (parse_required_option (so_stake_amount owner) owner_file ''stake_amount'' u64_from_str) (\<lambda>stake.
      and_then (parse_optional_option (so_commission_percentage owner) owner_file ''commission_percentage'' u64_from_str) (\<lambda>com.
      and_then (parse_optional_option (so_join_during_genesis owner) owner_file ''join_during_genesis'' bool_from_str) (\<lambda>join.
      and_then (and_then (fetch_file c operator_file) (operator_from_yaml c)) (\<lambda>operator.
      and_then (parse_required_option (sp_operator_account_address operator) operator_file ''operator_account_address''
        (address_with_checks c)) (\<lambda>operator_addr'.
      and_then (parse_required_option (sp_operator_account_public_key operator) operator_file ''operator_account_public_key''
        (key ED25519_PUBLIC_KEY_LENGTH)) (\<lambda>operator_key'.
      and_then (parse_required_option (sp_consensus_public_key operator) operator_file ''consensus_public_key''
        (key BLS_PUBLIC_KEY_LENGTH)) (\<lambda>consensus_key.
      and_then (parse_required_option (sp_consensus_proof_of_possession operator) operator_file ''consensus_proof_of_possession''
        (key BLS_POP_LENGTH)) (\<lambda>pop.
      and_then (parse_required_option (sp_validator_network_public_key operator) operator_file ''validator_network_public_key''
        (key ED25519_PUBLIC_KEY_LENGTH)) (\<lambda>network_key.
      and_then (parse_optional_option (sp_full_node_network_public_key operator) operator_file ''full_node_network_public_key''
        (key ED25519_PUBLIC_KEY_LENGTH)) (\<lambda>full_node_key.
      if operator_addr \<noteq> operator_addr' then Inl (Err ''Operator account in owner file does not match operator account in operator file'')
      else if operator_key \<noteq> operator_key' then Inl (Err ''Operator public key in owner file does not match operator public key in operator file'')
      else Inr
        \<lparr>vc_owner_account_address = owner_addr, vc_owner_account_public_key = owner_key,
         vc_operator_account_address = operator_addr, vc_operator_account_public_key = operator_key,
         vc_voter_account_address = voter_addr, vc_voter_account_public_key = voter_key,
         vc_consensus_public_key = Some consensus_key, vc_proof_of_possession = Some pop,
         vc_validator_network_public_key = Some network_key, vc_validator_host = Some (sp_validator_host operator),
         vc_full_node_network_public_key = full_node_key, vc_full_node_host = sp_full_node_host operator,
         vc_stake_amount = stake, vc_commission_percentage = (case com of Some n \<Rightarrow> n | None \<Rightarrow> 0),
         vc_join_during_genesis = (case join of Some b \<Rightarrow> b | None \<Rightarrow> True)\<rparr>))))))))))))))))))"

text \<open>The loop over the users collects the configurations and the failures; one failure fails the whole.\<close>

fun collect_configs :: "registry \<Rightarrow> string list \<Rightarrow> (ValidatorConfiguration list \<times> (string \<times> string) list) result" where
  "collect_configs c [] = Inr ([], [])"
| "collect_configs c (user # users) =
     (case get_config c user of
        Inl (Panic m) \<Rightarrow> Inl (Panic m)
      | Inr v \<Rightarrow> and_then (collect_configs c users) (\<lambda>(vs, es). Inr (v # vs, es))
      | Inl (Err failure) \<Rightarrow> and_then (collect_configs c users) (\<lambda>(vs, es). Inr (vs, (user, failure) # es)))"

definition get_validator_configs :: "registry \<Rightarrow> string list \<Rightarrow> ValidatorConfiguration list result" where
  "get_validator_configs c users =
     and_then (collect_configs c users) (\<lambda>(validators, errors).
       if errors = [] then Inr validators
       else Inl (Err (str_join '', '' (map (\<lambda>(u, e). u @ '': '' @ e) errors))))"

text \<open>A validator of the test network, from the mnemonic of its persona.\<close>

definition testnet_validator_config ::
  "(u8 list \<Rightarrow> u8 list) \<Rightarrow> vendor_keys \<Rightarrow> string \<Rightarrow> string \<Rightarrow> ValidatorConfiguration result" where
  "testnet_validator_config sha256 v mnem host =
     and_then (get_keys_from_mnem sha256 v mnem) (\<lambda>key_chain.
     and_then (generate_key_objects_from_legacy v key_chain) (\<lambda>(_, _, _, ident).
     Inr \<lparr>vc_owner_account_address = pub_account_address ident, vc_owner_account_public_key = account_public_key ident,
          vc_operator_account_address = pub_account_address ident, vc_operator_account_public_key = account_public_key ident,
          vc_voter_account_address = pub_account_address ident, vc_voter_account_public_key = account_public_key ident,
          vc_consensus_public_key = consensus_public_key ident, vc_proof_of_possession = consensus_proof_of_possession ident,
          vc_validator_network_public_key = validator_network_public_key ident, vc_validator_host = Some host,
          vc_full_node_network_public_key = full_node_network_public_key ident, vc_full_node_host = Some host,
          vc_stake_amount = 1, vc_commission_percentage = 1, vc_join_during_genesis = True\<rparr>))"

section \<open>Building the genesis\<close>

text \<open>The vendor's part: the framework bundles, \<^verbatim>\<open>GenesisInfo::new\<close> as the list of validators it keeps, the
  genesis transaction, its bytes, its waypoint, and the database it bootstraps.\<close>

record 'tx genesis_vendor =
  local_framework :: "u8 list result"
  fetched_framework :: "string \<Rightarrow> u8 list result"
  make_genesis_tx :: "LegacyRecoveryV6 list \<Rightarrow> ValidatorConfiguration list \<Rightarrow> u8 list \<Rightarrow> 'tx result"
  genesis_tx_bytes :: "'tx \<Rightarrow> string result"
  genesis_waypoint :: "'tx \<Rightarrow> string result"
  bootstrap_db :: "'tx \<Rightarrow> genesis_db result"

definition FRAMEWORK_NAME :: string where "FRAMEWORK_NAME = ''framework.mrb''"

definition fetch_genesis_info ::
  "registry \<Rightarrow> 'tx genesis_vendor \<Rightarrow> bool \<Rightarrow> (ValidatorConfiguration list \<times> u8 list) result" where
  "fetch_genesis_info c g use_local_framework =
     and_then (and_then (fetch_file c LAYOUT_FILE) (layout_from_yaml c)) (\<lambda>users.
     and_then (get_validator_configs c users) (\<lambda>validators.
     and_then (if use_local_framework then local_framework g
               else and_then (fetch_file c FRAMEWORK_NAME) (fetched_framework g)) (\<lambda>framework.
     Inr (validators, framework))))"

definition audit_genesis ::
  "addr_text \<Rightarrow> (JsonDump list \<Rightarrow> string) \<Rightarrow> 'tx genesis_vendor \<Rightarrow> 'tx \<Rightarrow> LegacyRecoveryV6 list \<Rightarrow> string \<Rightarrow> file_system \<Rightarrow>
   file_system result" where
  "audit_genesis t to_json g gen_tx recovery output_dir fs =
     (if recovery = [] then Inr fs
      else
        and_then (bootstrap_db g gen_tx) (\<lambda>db.
        and_then (compare_recovery_vec_to_genesis_tx (addr_to_string t) db recovery) (\<lambda>_.
        export_account_balances t to_json db recovery output_dir fs)))"

text \<open>The files on disk are returned with the outcome: those written before an error stay.\<close>

definition build ::
  "string option \<Rightarrow> (string \<Rightarrow> bool) \<Rightarrow> addr_text \<Rightarrow> (JsonDump list \<Rightarrow> string) \<Rightarrow> registry \<Rightarrow> 'tx genesis_vendor \<Rightarrow>
   string \<Rightarrow> bool \<Rightarrow> LegacyRecoveryV6 list \<Rightarrow> ValidatorConfiguration list option \<Rightarrow> file_system \<Rightarrow>
   string list result \<times> file_system" where
  "build ci prompt_yes t to_json c g home_path use_local_framework recovery testnet_vals fs =
     (let output_dir = path_join home_path ''genesis'';
          genesis_file = path_join output_dir GENESIS_FILE;
          waypoint_file = path_join output_dir WAYPOINT_FILE;
          checked = (if testnet_vals = None
            then and_then (check_if_file_exists ci prompt_yes fs genesis_file) (\<lambda>_. check_if_file_exists ci prompt_yes fs waypoint_file)
            else Inr ());
          info = and_then checked (\<lambda>_. case testnet_vals of
              Some vals \<Rightarrow> and_then (local_framework g) (\<lambda>framework. Inr (vals, framework))
            | None \<Rightarrow> fetch_genesis_info c g use_local_framework);
          gen_tx = and_then info (\<lambda>(vals, framework). make_genesis_tx g recovery vals framework)
      in case and_then gen_tx (\<lambda>gen_tx. and_then (genesis_tx_bytes g gen_tx) (\<lambda>bs. and_then (write_to_user_only_file fs genesis_file bs) (\<lambda>fs1. Inr (gen_tx, fs1)))) of
           Inl e \<Rightarrow> (Inl e, fs)
         | Inr (gen_tx, fs1) \<Rightarrow>
             (case and_then (genesis_waypoint g gen_tx) (\<lambda>w. write_to_user_only_file fs1 waypoint_file w) of
                Inl e \<Rightarrow> (Inl e, fs1)
              | Inr fs2 \<Rightarrow>
                  (case audit_genesis t to_json g gen_tx recovery output_dir fs2 of
                     Inl e \<Rightarrow> (Inl e, fs2)
                   | Inr fs3 \<Rightarrow> (Inr [genesis_file, waypoint_file], fs3))))"

section \<open>Registrations\<close>

text \<open>How the client prints a registration: the text forms of its typed fields, keys as \<^verbatim>\<open>0x\<close> and lower-case
  digits.\<close>

definition key_text :: "u8 list \<Rightarrow> string" where
  "key_text k = ''0x'' @ lower_hex k"

definition owner_text :: "(AccountAddress \<Rightarrow> string) \<Rightarrow> OwnerConfiguration \<Rightarrow> StringOwnerConfiguration" where
  "owner_text show_addr o1 =
     \<lparr>so_owner_account_address = Some (show_addr (owner_account_address o1)),
      so_owner_account_public_key = Some (key_text (owner_account_public_key o1)),
      so_voter_account_address = Some (show_addr (voter_account_address o1)),
      so_voter_account_public_key = Some (key_text (voter_account_public_key o1)),
      so_operator_account_address = Some (show_addr (own_operator_account_address o1)),
      so_operator_account_public_key = Some (key_text (own_operator_account_public_key o1)),
      so_stake_amount = Some (show_nat (unat (stake_amount o1))),
      so_commission_percentage = Some (show_nat (unat (commission_percentage o1))),
      so_join_during_genesis = Some (if join_during_genesis o1 then ''true'' else ''false'')\<rparr>"

definition operator_text :: "(AccountAddress \<Rightarrow> string) \<Rightarrow> OperatorConfiguration \<Rightarrow> StringOperatorConfiguration" where
  "operator_text show_addr p =
     \<lparr>sp_operator_account_address = Some (show_addr (operator_account_address p)),
      sp_operator_account_public_key = Some (key_text (operator_account_public_key p)),
      sp_consensus_public_key = Some (key_text (op_consensus_public_key p)),
      sp_consensus_proof_of_possession = Some (key_text (op_consensus_proof_of_possession p)),
      sp_validator_network_public_key = Some (key_text (op_validator_network_public_key p)),
      sp_validator_host = validator_host p,
      sp_full_node_network_public_key = map_option key_text (op_full_node_network_public_key p),
      sp_full_node_host = full_node_host p\<rparr>"

lemma hexdigit_not_ws: "is_hexdigit c \<Longrightarrow> \<not> is_ascii_ws c"
  by (auto simp: is_hexdigit_def is_ascii_ws_def Let_def)

lemma trim_key_text: "trim (key_text k) = key_text k"
proof (rule trim_id)
  have "is_hexdigit (last (key_text k))" if "k \<noteq> []"
    using that lower_hex_hexdigits [of k] by (cases k rule: rev_cases) (auto simp: key_text_def lower_hex_def lower_hex_byte_def list_all_iff)
  then show "\<not> is_ascii_ws (last (key_text k))"
    by (cases "k = []") (auto simp: key_text_def is_ascii_ws_def dest: hexdigit_not_ws)
qed (simp_all add: key_text_def is_ascii_ws_def)

lemma parse_key_text: "length k = n \<Longrightarrow> parse_key f n (key_text k) = f (key_text k)"
  using trim_key_text [of k] by (simp add: parse_key_def key_text_def starts_with_def lower_hex_hexdigits)

lemma parse_key_Inr:
  "parse_key f n s = Inr k \<Longrightarrow> (\<exists>w. length w = 2 * n \<and> list_all is_hexdigit w \<and> (trim s = w \<or> trim s = ''0x'' @ w)) \<and> f (trim s) = Inr k"
  by (rule conjI [OF exI [of _ "if starts_with ''0x'' (trim s) then drop 2 (trim s) else trim s"]])
    (auto simp: parse_key_def Let_def starts_with_iff split: if_splits)

lemma u64_from_str_show: "u64_from_str (show_nat (unat n)) = Inr n"
  by (simp add: u64_from_str_def parse_u64_show)

lemma bool_from_str_show: "bool_from_str (if b then ''true'' else ''false'') = Inr b"
  by (simp add: bool_from_str_def)

lemma parse_required_Some: "parse x = Inr y \<Longrightarrow> parse_required_option (Some x) f n parse = Inr y"
  by (simp add: parse_required_option_def field_error_def)

lemma parse_optional_Some: "parse x = Inr y \<Longrightarrow> parse_optional_option (Some x) f n parse = Inr (Some y)"
  by (simp add: parse_optional_option_def field_error_def)

lemma parse_optional_None: "parse_optional_option None f n parse = Inr None"
  by (simp add: parse_optional_option_def)

text \<open>The keys of an identity have the lengths of their types.\<close>

definition wf_identity :: "PublicIdentity \<Rightarrow> bool" where
  "wf_identity i \<longleftrightarrow> length (account_public_key i) = ED25519_PUBLIC_KEY_LENGTH \<and>
     (\<forall>k. consensus_public_key i = Some k \<longrightarrow> length k = BLS_PUBLIC_KEY_LENGTH) \<and>
     (\<forall>k. consensus_proof_of_possession i = Some k \<longrightarrow> length k = BLS_POP_LENGTH) \<and>
     (\<forall>k. validator_network_public_key i = Some k \<longrightarrow> length k = ED25519_PUBLIC_KEY_LENGTH) \<and>
     (\<forall>k. full_node_network_public_key i = Some k \<longrightarrow> length k = ED25519_PUBLIC_KEY_LENGTH)"

lemma get_config_of_texts:
  assumes files: "fetch_file c (path_join user OWNER_FILE) = Inr own_doc" "owner_from_yaml c own_doc = Inr (owner_text show_addr owc)"
      "fetch_file c (path_join user OPERATOR_FILE) = Inr op_doc" "operator_from_yaml c op_doc = Inr (operator_text show_addr opc)"
    and texts: "\<And>a. address_with_checks c (show_addr a) = Inr a" "\<And>k. from_encoded_string c (key_text k) = Inr k"
    and lens: "length (owner_account_public_key owc) = ED25519_PUBLIC_KEY_LENGTH"
      "length (voter_account_public_key owc) = ED25519_PUBLIC_KEY_LENGTH"
      "length (operator_account_public_key opc) = ED25519_PUBLIC_KEY_LENGTH"
      "length (op_consensus_public_key opc) = BLS_PUBLIC_KEY_LENGTH" "length (op_consensus_proof_of_possession opc) = BLS_POP_LENGTH"
      "length (op_validator_network_public_key opc) = ED25519_PUBLIC_KEY_LENGTH"
      "\<And>k. op_full_node_network_public_key opc = Some k \<Longrightarrow> length k = ED25519_PUBLIC_KEY_LENGTH"
    and agree: "own_operator_account_address owc = operator_account_address opc"
      "own_operator_account_public_key owc = operator_account_public_key opc"
  shows "get_config c user = Inr
    \<lparr>vc_owner_account_address = owner_account_address owc, vc_owner_account_public_key = owner_account_public_key owc,
     vc_operator_account_address = operator_account_address opc, vc_operator_account_public_key = operator_account_public_key opc,
     vc_voter_account_address = voter_account_address owc, vc_voter_account_public_key = voter_account_public_key owc,
     vc_consensus_public_key = Some (op_consensus_public_key opc),
     vc_proof_of_possession = Some (op_consensus_proof_of_possession opc),
     vc_validator_network_public_key = Some (op_validator_network_public_key opc), vc_validator_host = Some (validator_host opc),
     vc_full_node_network_public_key = op_full_node_network_public_key opc, vc_full_node_host = full_node_host opc,
     vc_stake_amount = stake_amount owc, vc_commission_percentage = commission_percentage owc,
     vc_join_during_genesis = join_during_genesis owc\<rparr>"
proof -
  have key: "length k = n \<Longrightarrow> parse_key (from_encoded_string c) n (key_text k) = Inr k" for k n
    by (simp add: parse_key_text texts(2))
  have fn: "parse_optional_option (map_option key_text (op_full_node_network_public_key opc)) f n
      (parse_key (from_encoded_string c) ED25519_PUBLIC_KEY_LENGTH) = Inr (op_full_node_network_public_key opc)" for f n
    by (cases "op_full_node_network_public_key opc") (simp_all add: parse_optional_None parse_optional_Some key lens(7))
  have req: "parse_required_option (Some (key_text k)) f m (parse_key (from_encoded_string c) n) = Inr k" if "length k = n" for k n f m
    using key [OF that] by (rule parse_required_Some)
  have addr: "parse_required_option (Some (show_addr a)) f m (address_with_checks c) = Inr a" for a f m
    using texts(1) by (rule parse_required_Some)
  have num: "parse_required_option (Some (show_nat (unat i))) f m u64_from_str = Inr i"
      "parse_optional_option (Some (show_nat (unat i))) f m u64_from_str = Inr (Some i)" for i f m
    by (rule parse_required_Some parse_optional_Some, rule u64_from_str_show)+
  have flag: "parse_optional_option (Some (if b then ''true'' else ''false'')) f m bool_from_str = Inr (Some b)" for b f m
    by (rule parse_optional_Some, rule bool_from_str_show)
  show ?thesis
    by (simp add: get_config_def Let_def files owner_text_def operator_text_def fn req lens(1-6) agree addr num flag)
qed

text \<open>C29. A validator that registers with the files the wallet writes is accepted by the genesis builder: when
  the registry holds the owner and the operator file made from its public identity, the builder
  reads back a configuration with the address and the account key of the identity as owner, operator
  and voter, its consensus key, proof of possession and network keys, and the hosts it gave.\<close>

theorem registered_validator_accepted:
  assumes conf: "build_configs host fn_host ident = Inr (opc, owc)" and wf: "wf_identity ident"
    and files: "fetch_file c (path_join user OWNER_FILE) = Inr own_doc" "owner_from_yaml c own_doc = Inr (owner_text show_addr owc)"
      "fetch_file c (path_join user OPERATOR_FILE) = Inr op_doc" "operator_from_yaml c op_doc = Inr (operator_text show_addr opc)"
    and texts: "\<And>a. address_with_checks c (show_addr a) = Inr a" "\<And>k. from_encoded_string c (key_text k) = Inr k"
  shows "get_config c user = Inr
    \<lparr>vc_owner_account_address = pub_account_address ident, vc_owner_account_public_key = account_public_key ident,
     vc_operator_account_address = pub_account_address ident, vc_operator_account_public_key = account_public_key ident,
     vc_voter_account_address = pub_account_address ident, vc_voter_account_public_key = account_public_key ident,
     vc_consensus_public_key = consensus_public_key ident, vc_proof_of_possession = consensus_proof_of_possession ident,
     vc_validator_network_public_key = validator_network_public_key ident, vc_validator_host = Some host,
     vc_full_node_network_public_key = (if fn_host \<noteq> None then full_node_network_public_key ident else None),
     vc_full_node_host = fn_host, vc_stake_amount = 100000000000000, vc_commission_percentage = 0,
     vc_join_during_genesis = True\<rparr>"
proof -
  obtain cpk vnpk pop where ks: "consensus_public_key ident = Some cpk" "validator_network_public_key ident = Some vnpk"
      "consensus_proof_of_possession ident = Some pop"
    using conf by (auto simp: build_configs_def result_Inr_iffs)
  have oc: "opc = \<lparr>operator_account_address = pub_account_address ident,
      operator_account_public_key = account_public_key ident, op_consensus_public_key = cpk,
      op_consensus_proof_of_possession = pop, op_validator_network_public_key = vnpk, validator_host = host,
      op_full_node_network_public_key = (if fn_host \<noteq> None then full_node_network_public_key ident else None), full_node_host = fn_host\<rparr>"
    "owc = \<lparr>owner_account_address = pub_account_address ident, owner_account_public_key = account_public_key ident,
      voter_account_address = pub_account_address ident, voter_account_public_key = account_public_key ident,
      own_operator_account_address = pub_account_address ident, own_operator_account_public_key = account_public_key ident,
      stake_amount = 100000000000000, commission_percentage = 0, join_during_genesis = True\<rparr>"
    using conf ks by (auto simp: build_configs_def Let_def)
  have "get_config c user = Inr
    \<lparr>vc_owner_account_address = owner_account_address owc, vc_owner_account_public_key = owner_account_public_key owc,
     vc_operator_account_address = operator_account_address opc, vc_operator_account_public_key = operator_account_public_key opc,
     vc_voter_account_address = voter_account_address owc, vc_voter_account_public_key = voter_account_public_key owc,
     vc_consensus_public_key = Some (op_consensus_public_key opc),
     vc_proof_of_possession = Some (op_consensus_proof_of_possession opc),
     vc_validator_network_public_key = Some (op_validator_network_public_key opc), vc_validator_host = Some (validator_host opc),
     vc_full_node_network_public_key = op_full_node_network_public_key opc, vc_full_node_host = full_node_host opc,
     vc_stake_amount = stake_amount owc, vc_commission_percentage = commission_percentage owc,
     vc_join_during_genesis = join_during_genesis owc\<rparr>"
    by (rule get_config_of_texts [OF files texts]) (use wf ks in \<open>auto simp: oc wf_identity_def split: if_splits\<close>)
  then show ?thesis by (simp add: oc ks)
qed

definition alice_operator :: OperatorConfiguration where
  "alice_operator =
     \<lparr>operator_account_address = 77, operator_account_public_key = replicate 32 1, op_consensus_public_key = replicate 48 2,
      op_consensus_proof_of_possession = replicate 96 3, op_validator_network_public_key = replicate 32 5,
      validator_host = ''127.0.0.1:6180'', op_full_node_network_public_key = None, full_node_host = None\<rparr>"

definition alice_owner :: OwnerConfiguration where
  "alice_owner =
     \<lparr>owner_account_address = 77, owner_account_public_key = replicate 32 1, voter_account_address = 77,
      voter_account_public_key = replicate 32 1, own_operator_account_address = 77, own_operator_account_public_key = replicate 32 1,
      stake_amount = 100000000000000, commission_percentage = 0, join_during_genesis = True\<rparr>"

definition example_registry :: registry where
  "example_registry =
     \<lparr>get_file = Inr, base64_decode = Inr,
      owner_from_yaml = (\<lambda>_. Inr (owner_text addr_hex alice_owner)),
      operator_from_yaml = (\<lambda>_. Inr (operator_text addr_hex alice_operator)),
      layout_from_yaml = (\<lambda>_. Inr [''alice'']),
      address_with_checks = (\<lambda>s. addr_from_hex_literal (''0x'' @ s)),
      from_encoded_string = (\<lambda>s. ok_or ''hex'' (hex_pairs (drop 2 s)))\<rparr>"

definition example_public :: PublicIdentity where
  "example_public = \<lparr>pub_account_address = 77, account_public_key = replicate 32 1, consensus_public_key = Some (replicate 48 2),
     consensus_proof_of_possession = Some (replicate 96 3), full_node_network_public_key = Some (replicate 32 4),
     validator_network_public_key = Some (replicate 32 5)\<rparr>"

lemma example_registry_texts:
  "address_with_checks example_registry (addr_hex a) = Inr a" "from_encoded_string example_registry (key_text k) = Inr k"
  using account_address.from_hex_literal_to_string [OF addr.account_address_axioms]
  by (simp_all add: example_registry_def key_text_def hex_pairs_lower)

lemma example_registry_files:
  "fetch_file example_registry p = Inr p" "owner_from_yaml example_registry d = Inr (owner_text addr_hex alice_owner)"
  "operator_from_yaml example_registry d = Inr (operator_text addr_hex alice_operator)"
  by (simp_all add: fetch_file_def example_registry_def)

lemma alice_config: "\<exists>v. get_config example_registry u = Inr v \<and> vc_operator_account_address v = 77"
  using get_config_of_texts [OF example_registry_files(1,2,1,3) example_registry_texts]
  by (simp add: alice_owner_def alice_operator_def ED25519_PUBLIC_KEY_LENGTH_def BLS_PUBLIC_KEY_LENGTH_def BLS_POP_LENGTH_def)

theorem registered_validator_accepted_witness:
  "\<exists>v. get_config example_registry ''alice'' = Inr v \<and> vc_owner_account_address v = 77 \<and>
     vc_consensus_public_key v = Some (replicate 48 2)"
proof -
  have wf: "wf_identity example_public"
    by (simp add: wf_identity_def example_public_def ED25519_PUBLIC_KEY_LENGTH_def BLS_PUBLIC_KEY_LENGTH_def BLS_POP_LENGTH_def)
  have conf: "build_configs ''127.0.0.1:6180'' None example_public = Inr (alice_operator, alice_owner)"
    by (simp add: build_configs_def example_public_def alice_operator_def alice_owner_def)
  show ?thesis
    using registered_validator_accepted [OF conf wf example_registry_files(1,2,1,3) example_registry_texts]
    by (simp add: example_public_def)
qed

text \<open>What an accepted configuration says.\<close>

lemma field_error_Inr: "field_error f n r = Inr x \<longleftrightarrow> r = Inr x"
  by (auto simp: field_error_def split: sum.splits error.splits)

lemma parse_required_Inr: "parse_required_option opt f n parse = Inr x \<longleftrightarrow> (\<exists>s. opt = Some s \<and> parse s = Inr x)"
  by (cases opt) (simp_all add: parse_required_option_def field_error_Inr)

lemma parse_optional_Inr: "parse_optional_option opt f n parse = Inr x \<longleftrightarrow>
    (case opt of None \<Rightarrow> x = None | Some s \<Rightarrow> \<exists>y. parse s = Inr y \<and> x = Some y)"
  by (cases opt) (auto simp: parse_optional_option_def and_then_eq_Inr field_error_Inr)

text \<open>C30. The registrations are taken all or none, in the order of the layout: the builder returns a list of
  validators if and only if every user of the layout has a valid registration, and then the list is
  their configurations in order. Every accepted configuration names the same operator address and
  operator key in the owner and in the operator file.\<close>

theorem validator_configs_all_or_none:
  "(get_validator_configs c users = Inr vs \<longleftrightarrow> map (get_config c) users = map Inr vs) \<and>
   (get_config c user = Inr v \<longrightarrow>
     (\<exists>own op a k. and_then (fetch_file c (path_join user OWNER_FILE)) (owner_from_yaml c) = Inr own \<and>
        and_then (fetch_file c (path_join user OPERATOR_FILE)) (operator_from_yaml c) = Inr op \<and>
        so_operator_account_address own = Some a \<and> so_operator_account_public_key own = Some k \<and>
        address_with_checks c a = Inr (vc_operator_account_address v) \<and>
        parse_key (from_encoded_string c) ED25519_PUBLIC_KEY_LENGTH k = Inr (vc_operator_account_public_key v) \<and>
        (\<exists>a' k'. sp_operator_account_address op = Some a' \<and> sp_operator_account_public_key op = Some k' \<and>
          address_with_checks c a' = Inr (vc_operator_account_address v) \<and>
          parse_key (from_encoded_string c) ED25519_PUBLIC_KEY_LENGTH k' = Inr (vc_operator_account_public_key v))))"
proof (intro conjI impI)
  have c: "collect_configs c users = Inr (vs, []) \<longleftrightarrow> map (get_config c) users = map Inr vs" for vs
  proof (induction users arbitrary: vs)
    case (Cons u us)
    show ?case
    proof (cases "get_config c u")
      case (Inl e)
      then show ?thesis by (cases e) (auto simp: and_then_eq_Inr)
    next
      case (Inr w)
      then show ?thesis using Cons.IH by (auto simp: and_then_eq_Inr Cons_eq_map_conv)
    qed
  qed auto
  show "get_validator_configs c users = Inr vs \<longleftrightarrow> map (get_config c) users = map Inr vs"
    unfolding c [symmetric] by (auto simp: get_validator_configs_def and_then_eq_Inr split: if_splits)
next
  assume v: "get_config c user = Inr v"
  let ?K = "parse_key (from_encoded_string c) ED25519_PUBLIC_KEY_LENGTH"
  from v obtain own op where o: "and_then (fetch_file c (path_join user OWNER_FILE)) (owner_from_yaml c) = Inr own"
      "and_then (fetch_file c (path_join user OPERATOR_FILE)) (operator_from_yaml c) = Inr op"
      "parse_required_option (so_operator_account_address own) (path_join user OWNER_FILE) ''operator_account_address''
        (address_with_checks c) = Inr (vc_operator_account_address v)"
      "parse_required_option (so_operator_account_public_key own) (path_join user OWNER_FILE) ''operator_account_public_key'' ?K =
        Inr (vc_operator_account_public_key v)"
      "parse_required_option (sp_operator_account_address op) (path_join user OPERATOR_FILE) ''operator_account_address''
        (address_with_checks c) = Inr (vc_operator_account_address v)"
      "parse_required_option (sp_operator_account_public_key op) (path_join user OPERATOR_FILE) ''operator_account_public_key'' ?K =
        Inr (vc_operator_account_public_key v)"
    by (auto simp: get_config_def Let_def and_then_eq_Inr split: if_splits)
  then show "\<exists>own op a k. and_then (fetch_file c (path_join user OWNER_FILE)) (owner_from_yaml c) = Inr own \<and>
        and_then (fetch_file c (path_join user OPERATOR_FILE)) (operator_from_yaml c) = Inr op \<and>
        so_operator_account_address own = Some a \<and> so_operator_account_public_key own = Some k \<and>
        address_with_checks c a = Inr (vc_operator_account_address v) \<and> ?K k = Inr (vc_operator_account_public_key v) \<and>
        (\<exists>a' k'. sp_operator_account_address op = Some a' \<and> sp_operator_account_public_key op = Some k' \<and>
          address_with_checks c a' = Inr (vc_operator_account_address v) \<and> ?K k' = Inr (vc_operator_account_public_key v))"
    unfolding parse_required_Inr by blast
qed

theorem validator_configs_all_or_none_witness:
  "\<exists>v. get_validator_configs example_registry [''alice'', ''bob''] = Inr [v, v] \<and>
     address_with_checks example_registry (addr_hex 77) = Inr (vc_operator_account_address v)"
proof -
  obtain v w where v: "get_config example_registry ''alice'' = Inr v" "get_config example_registry ''bob'' = Inr w"
      "vc_operator_account_address v = 77"
    using alice_config by blast
  have "get_config example_registry ''bob'' = get_config example_registry ''alice''"
    using get_config_of_texts [OF example_registry_files(1,2,1,3) example_registry_texts]
    by (simp add: alice_owner_def alice_operator_def ED25519_PUBLIC_KEY_LENGTH_def BLS_PUBLIC_KEY_LENGTH_def BLS_POP_LENGTH_def)
  then show ?thesis
    using v validator_configs_all_or_none [of example_registry "[''alice'', ''bob'']" "[v, v]" "''alice''" v] example_registry_texts(1) [of 77]
    by auto
qed

section \<open>The steps of the build\<close>

lemma write_file_Inr: "write_to_user_only_file fs p bs = Inr fs' \<Longrightarrow> files fs' = (files fs)(p \<mapsto> bs)"
  by (auto simp: write_to_user_only_file_def split: if_splits)

lemma audit_genesis_files:
  "audit_genesis t to_json g gen_tx recovery dir fs = Inr fs' \<Longrightarrow> p \<noteq> path_join dir ''genesis_balances.json'' \<Longrightarrow> files fs' p = files fs p"
  by (auto simp: audit_genesis_def export_account_balances_def and_then_eq_Inr Let_def split: if_splits)

definition consent :: "string option \<Rightarrow> (string \<Rightarrow> bool) \<Rightarrow> ValidatorConfiguration list option \<Rightarrow> string \<Rightarrow> file_system \<Rightarrow> unit result" where
  "consent ci prompt_yes testnet_vals dir fs =
     (if testnet_vals = None
      then and_then (check_if_file_exists ci prompt_yes fs (path_join dir GENESIS_FILE))
        (\<lambda>_. check_if_file_exists ci prompt_yes fs (path_join dir WAYPOINT_FILE))
      else Inr ())"

lemma consent_refused:
  assumes "ci = None" "q \<in> {path_join dir GENESIS_FILE, path_join dir WAYPOINT_FILE}" "files fs q \<noteq> None" "\<not> prompt_yes q"
  shows "consent ci prompt_yes None dir fs = Inl (Err ''Aborted by user'')"
  using assms by (auto simp: consent_def check_if_file_exists_def and_then_def)

text \<open>The ways a build can end.\<close>

lemma build_cases:
  assumes b: "build ci prompt_yes t to_json c g home local recovery testnet_vals fs = (r, fs')"
  defines "dir \<equiv> path_join home ''genesis''"
  shows "(\<exists>e. r = Inl e \<and> fs' = fs \<and> (\<forall>e'. consent ci prompt_yes testnet_vals dir fs = Inl e' \<longrightarrow> e = e')) \<or>
    (consent ci prompt_yes testnet_vals dir fs = Inr () \<and>
     (\<exists>gen_tx bs fs1. genesis_tx_bytes g gen_tx = Inr bs \<and> write_to_user_only_file fs (path_join dir GENESIS_FILE) bs = Inr fs1 \<and>
       ((\<exists>e. r = Inl e \<and> fs' = fs1) \<or>
        (\<exists>w fs2. genesis_waypoint g gen_tx = Inr w \<and> write_to_user_only_file fs1 (path_join dir WAYPOINT_FILE) w = Inr fs2 \<and>
          ((\<exists>e. r = Inl e \<and> fs' = fs2) \<or>
           (r = Inr [path_join dir GENESIS_FILE, path_join dir WAYPOINT_FILE] \<and>
            audit_genesis t to_json g gen_tx recovery dir fs2 = Inr fs'))))))"
proof (cases "consent ci prompt_yes testnet_vals dir fs")
  case (Inl e)
  then show ?thesis using b by (auto simp: build_def dir_def Let_def consent_def)
next
  case (Inr u)
  then show ?thesis using b
    by (auto simp: build_def dir_def Let_def consent_def and_then_eq_Inr split: sum.splits prod.splits)
qed

text \<open>The genesis builder overwrites nothing without consent and touches only its own files: whatever the
  outcome, every file but the genesis, the waypoint and the dump of the balances is left as it was; outside
  a test network, when the genesis or the waypoint exists and the user refuses, the build is aborted
  and no file changes; and a build that returns has written the genesis transaction and its waypoint.\<close>

theorem build_files:
  assumes b: "build ci prompt_yes t to_json c g home local recovery testnet_vals fs = (r, fs')"
  defines "dir \<equiv> path_join home ''genesis''"
  shows "(\<forall>p. p \<notin> {path_join dir GENESIS_FILE, path_join dir WAYPOINT_FILE, path_join dir ''genesis_balances.json''} \<longrightarrow>
      files fs' p = files fs p) \<and>
    (testnet_vals = None \<and> ci = None \<and> q \<in> {path_join dir GENESIS_FILE, path_join dir WAYPOINT_FILE} \<and>
       files fs q \<noteq> None \<and> \<not> prompt_yes q \<longrightarrow> (\<exists>e. r = Inl (Err e)) \<and> fs' = fs) \<and>
    (r = Inr paths \<longrightarrow> paths = [path_join dir GENESIS_FILE, path_join dir WAYPOINT_FILE] \<and>
       (\<exists>tx bs w. genesis_tx_bytes g tx = Inr bs \<and> genesis_waypoint g tx = Inr w \<and>
          files fs' (path_join dir GENESIS_FILE) = Some bs \<and> files fs' (path_join dir WAYPOINT_FILE) = Some w))"
proof -
  let ?g = "path_join dir GENESIS_FILE" and ?w = "path_join dir WAYPOINT_FILE" and ?d = "path_join dir ''genesis_balances.json''"
  have ne: "?g \<noteq> ?w" "?d \<noteq> ?w" "?d \<noteq> ?g" by (simp_all add: path_join_def GENESIS_FILE_def WAYPOINT_FILE_def)
  note cases = build_cases [OF b, folded dir_def]
  have refuse: "consent ci prompt_yes testnet_vals dir fs = Inl (Err ''Aborted by user'')"
    if "testnet_vals = None \<and> ci = None \<and> q \<in> {?g, ?w} \<and> files fs q \<noteq> None \<and> \<not> prompt_yes q"
    using consent_refused that by blast
  from cases show ?thesis
  proof (elim disjE exE conjE)
    fix e assume "r = Inl e" "fs' = fs" "\<forall>e'. consent ci prompt_yes testnet_vals dir fs = Inl e' \<longrightarrow> e = e'"
    then show ?thesis using refuse by auto
  next
    fix gen_tx bs fs1 e assume "consent ci prompt_yes testnet_vals dir fs = Inr ()" "r = Inl e" "fs' = fs1"
      "write_to_user_only_file fs ?g bs = Inr fs1"
    then show ?thesis using refuse write_file_Inr [of fs ?g bs fs1] by auto
  next
    fix gen_tx bs fs1 w fs2 e assume "consent ci prompt_yes testnet_vals dir fs = Inr ()" "r = Inl e" "fs' = fs2"
      "write_to_user_only_file fs ?g bs = Inr fs1" "write_to_user_only_file fs1 ?w w = Inr fs2"
    then show ?thesis using refuse write_file_Inr [of fs ?g bs fs1] write_file_Inr [of fs1 ?w w fs2] by auto
  next
    fix gen_tx bs fs1 w fs2 assume a: "consent ci prompt_yes testnet_vals dir fs = Inr ()"
      "genesis_tx_bytes g gen_tx = Inr bs" "write_to_user_only_file fs ?g bs = Inr fs1" "genesis_waypoint g gen_tx = Inr w"
      "write_to_user_only_file fs1 ?w w = Inr fs2" "r = Inr [?g, ?w]" "audit_genesis t to_json g gen_tx recovery dir fs2 = Inr fs'"
    have f: "files fs' p = ((files fs)(?g \<mapsto> bs, ?w \<mapsto> w)) p" if "p \<noteq> ?d" for p
      using audit_genesis_files [OF a(7) that] write_file_Inr [OF a(3)] write_file_Inr [OF a(5)] by simp
    have "files fs' ?g = Some bs" "files fs' ?w = Some w" using f [of ?g] f [of ?w] ne by auto
    then show ?thesis using a f refuse by auto
  qed
qed

text \<open>A build in which the audit finds a wrong balance, all the same reported as a success.\<close>

definition example_vendor_tx :: "unit genesis_vendor" where
  "example_vendor_tx = \<lparr>local_framework = Inr [], fetched_framework = (\<lambda>_. Inr []), make_genesis_tx = (\<lambda>_ _ _. Inr ()),
     genesis_tx_bytes = (\<lambda>_. Inr ''tx''), genesis_waypoint = (\<lambda>_. Inr ''w''), bootstrap_db = (\<lambda>_. Inr example_db)\<rparr>"

definition wrong_user :: LegacyRecoveryV6 where
  "wrong_user = example_user\<lparr>balance := Some \<lparr>coin = 999\<rparr>\<rparr>"

lemma example_build:
  "\<exists>fs'. build None (\<lambda>_. False) example_text (\<lambda>_. ''[]'') example_registry example_vendor_tx ''/home'' True [wrong_user] (Some [])
     \<lparr>files = Map.empty, writable = (\<lambda>_. True)\<rparr> =
     (Inr [''/home/genesis/genesis.blob'', ''/home/genesis/waypoint.txt''], fs')"
  by (simp add: build_def example_vendor_tx_def Let_def path_join_def GENESIS_FILE_def WAYPOINT_FILE_def write_to_user_only_file_def
    audit_genesis_def compare_recovery_vec_to_genesis_tx_def compare_one_def wrong_user_def example_user_def LegacyRecoveryV6_default_def
    example_db_def example_text_def system_mark_iff [OF addr.account_address_axioms] dvd_eq_mod_eq_0
    export_account_balances_def convert_address_def account_address.from_hex_literal_to_string [OF addr.account_address_axioms, simplified])

lemma build_ignores_audit:
  "compare_recovery_vec_to_genesis_tx (addr_to_string example_text) example_db [wrong_user] \<noteq> Inr []"
  by (simp add: compare_recovery_vec_to_genesis_tx_def compare_one_def wrong_user_def example_user_def LegacyRecoveryV6_default_def
    example_db_def example_text_def system_mark_iff [OF addr.account_address_axioms] dvd_eq_mod_eq_0)

theorem build_files_witness:
  "\<exists>fs' r. build None (\<lambda>_. False) example_text (\<lambda>_. ''[]'') example_registry example_vendor_tx ''/home'' True [wrong_user] (Some [])
     \<lparr>files = Map.empty, writable = (\<lambda>_. True)\<rparr> = (Inr r, fs') \<and> files fs' ''/home/genesis/genesis.blob'' = Some ''tx''"
proof -
  obtain fs' where b: "build None (\<lambda>_. False) example_text (\<lambda>_. ''[]'') example_registry example_vendor_tx ''/home'' True [wrong_user] (Some [])
     \<lparr>files = Map.empty, writable = (\<lambda>_. True)\<rparr> =
     (Inr [''/home/genesis/genesis.blob'', ''/home/genesis/waypoint.txt''], fs')" using example_build by blast
  have "files fs' ''/home/genesis/genesis.blob'' = Some ''tx''"
    using build_files [OF b, of "[]" "[''/home/genesis/genesis.blob'', ''/home/genesis/waypoint.txt'']"]
    by (auto simp: path_join_def GENESIS_FILE_def WAYPOINT_FILE_def example_vendor_tx_def)
  with b show ?thesis by blast
qed

end
