(* ===== verification/Keyed_Store.thy ===== *)
theory Keyed_Store
  imports Rust_Prelude
begin

text \<open>
  The contract shared by the two vectors of the app configuration that behave like dictionaries:
  the profiles, keyed by account, and the network playlists, keyed by chain name. \<open>put\<close> stores an
  element under its key; \<open>lookup\<close> is the linear search the code does with \<^verbatim>\<open>iter().find\<close>.
  Each vector's operation is proved to satisfy the two laws in the theory that models it.
\<close>

definition find_key :: "('a \<Rightarrow> 'k) \<Rightarrow> 'k \<Rightarrow> 'a list \<Rightarrow> 'a option" where
  "find_key key k xs = List.find (\<lambda>e. key e = k) xs"

lemma find_key_simps [simp]:
  "find_key key k [] = None"
  "find_key key k (x # xs) = (if key x = k then Some x else find_key key k xs)"
  by (simp_all add: find_key_def)

lemma find_key_append:
  "find_key key k (xs @ ys) = (case find_key key k xs of Some x \<Rightarrow> Some x | None \<Rightarrow> find_key key k ys)"
  by (induction xs) auto

lemma find_key_None: "find_key key k xs = None \<longleftrightarrow> k \<notin> key ` set xs"
  by (induction xs) auto

lemma find_key_Some: "find_key key k xs = Some x \<Longrightarrow> x \<in> set xs \<and> key x = k"
  by (induction xs) (auto split: if_splits)

locale keyed_store =
  fixes key :: "'a \<Rightarrow> 'k"
    and put :: "'a \<Rightarrow> 'a list \<Rightarrow> 'a list"
  assumes find_put: "find_key key k (put x xs) = (if k = key x then Some x else find_key key k xs)"
    and keys_put: "map key (put x xs) =
       (if key x \<in> key ` set xs then map key xs else map key xs @ [key x])"
begin

lemma put_distinct: "distinct (map key xs) \<Longrightarrow> distinct (map key (put x xs))"
  by (simp add: keys_put)

lemma put_length: "length (put x xs) = (if key x \<in> key ` set xs then length xs else Suc (length xs))"
  using keys_put [of x xs] by (metis length_append_singleton length_map)

lemma put_not_Nil: "put x xs \<noteq> []"
  using find_put [of "key x" x xs] by auto

lemma puts_distinct: "distinct (map key xs) \<Longrightarrow> distinct (map key (fold put ys xs))"
  by (induction ys arbitrary: xs) (simp_all add: put_distinct)

lemma keys_puts: "key ` set (fold put ys xs) = key ` set xs \<union> key ` set ys"
proof (induction ys arbitrary: xs)
  case (Cons y ys)
  have "key ` set (put y xs) = insert (key y) (key ` set xs)"
    using arg_cong [OF keys_put [of y xs], of set] by auto
  with Cons.IH [of "put y xs"] show ?case by simp
qed simp

text \<open>After any history of updates a lookup returns the last value stored under the key, or what was
  there before if none was.\<close>

lemma find_puts:
  "find_key key k (fold put ys xs) =
     (case find_key key k (rev ys) of Some y \<Rightarrow> Some y | None \<Rightarrow> find_key key k xs)"
  by (induction ys arbitrary: xs) (auto simp: find_put find_key_append split: option.splits)

end

end
