(* ===== verification/Network_Playlist.thy ===== *)
theory Network_Playlist
  imports F64 Keyed_Store "HOL-Library.Multiset"
begin

text \<open>
  \<^verbatim>\<open>types/src/core_types/network_playlist.rs\<close>: the list of upstream nodes a client may connect to,
  how their sync status is refreshed, and which one is picked.

  What lies outside the sources is a parameter: \<open>get_index\<close> is the REST client's answer for a host
  (\<open>None\<close> if it fails), \<open>fetch\<close> downloads and parses a playlist, \<open>shuffle\<close> is the random
  reordering of \<^verbatim>\<open>rand\<close> and \<open>arrival\<close> the order in which \<^verbatim>\<open>FuturesUnordered\<close> yields its results.
\<close>

section \<open>Model\<close>

text \<open>The chain names the sources mention; the vendor's other variants are \<open>OtherChain\<close>. A \<open>Url\<close> is the
  URL parsed from its text; the literals in the sources are well formed.\<close>

datatype NamedChain = MAINNET | TESTNET | TESTING | OtherChain nat

datatype Url = Url string

record HostProfile =
  url :: Url
  host_note :: string
  version :: u64
  is_api :: bool
  is_sync :: bool

definition HostProfile_default :: HostProfile where
  "HostProfile_default =
     \<lparr>url = Url ''http://localhost:8080'', host_note = ''default'', version = 0,
      is_api = False, is_sync = False\<rparr>"

definition HostProfile_new :: "Url \<Rightarrow> HostProfile" where
  "HostProfile_new u = HostProfile_default\<lparr>url := u\<rparr>"

definition check_sync :: "(Url \<Rightarrow> u64 option) \<Rightarrow> HostProfile \<Rightarrow> HostProfile result" where
  "check_sync get_index self =
     (case get_index (url self) of
        Some ledger_version \<Rightarrow> Inr (self\<lparr>version := ledger_version, is_api := True\<rparr>)
      | None \<Rightarrow> Inr (self\<lparr>is_api := False\<rparr>))"

record NetworkPlaylist =
  chain_name :: NamedChain
  nodes :: "HostProfile list"

definition default_chain :: NamedChain where
  "default_chain = MAINNET"

definition NetworkPlaylist_default :: NetworkPlaylist where
  "NetworkPlaylist_default = \<lparr>chain_name = MAINNET, nodes = [HostProfile_default]\<rparr>"

definition find_default_playlist :: "NamedChain option \<Rightarrow> Url result" where
  "find_default_playlist chain_id =
     Inr (case chain_id of
        Some TESTNET \<Rightarrow>
          Url ''https://raw.githubusercontent.com/0LNetworkCommunity/seed-peers/main/fullnode_seed_playlist_testnet.json''
      | _ \<Rightarrow>
          Url ''https://raw.githubusercontent.com/0LNetworkCommunity/seed-peers/main/fullnode_seed_playlist.json'')"

definition replace_all_urls :: "Url \<Rightarrow> NetworkPlaylist \<Rightarrow> NetworkPlaylist" where
  "replace_all_urls u self = self\<lparr>nodes := [HostProfile_new u]\<rparr>"

definition add_url :: "Url \<Rightarrow> NetworkPlaylist \<Rightarrow> NetworkPlaylist" where
  "add_url u self = self\<lparr>nodes := nodes self @ [HostProfile_new u]\<rparr>"

definition NetworkPlaylist_new :: "Url option \<Rightarrow> NamedChain option \<Rightarrow> NetworkPlaylist" where
  "NetworkPlaylist_new url_opt chain_opt =
     (let np = NetworkPlaylist_default;
          np = (case url_opt of Some u \<Rightarrow> replace_all_urls u np | None \<Rightarrow> np)
      in case chain_opt of Some n \<Rightarrow> np\<lparr>chain_name := n\<rparr> | None \<Rightarrow> np)"

definition localhost :: "NamedChain option \<Rightarrow> NetworkPlaylist" where
  "localhost chain_opt =
     \<lparr>chain_name = (case chain_opt of Some n \<Rightarrow> n | None \<Rightarrow> MAINNET),
      nodes = [\<lparr>url = Url ''http://localhost:8080'', host_note = ''localhost'', version = 0,
                is_api = True, is_sync = True\<rparr>]\<rparr>"

definition from_playlist_url ::
  "(Url \<Rightarrow> NetworkPlaylist result) \<Rightarrow> Url \<Rightarrow> NamedChain option \<Rightarrow> NetworkPlaylist result" where
  "from_playlist_url fetch playlist_url chain_id =
     and_then (fetch playlist_url) (\<lambda>play.
       Inr (case chain_id of Some c \<Rightarrow> play\<lparr>chain_name := c\<rparr> | None \<Rightarrow> play))"

definition default_for_network ::
  "(Url \<Rightarrow> NetworkPlaylist result) \<Rightarrow> NamedChain option \<Rightarrow> NetworkPlaylist result" where
  "default_for_network fetch chain_id =
     (if chain_id = Some TESTING then Inr (NetworkPlaylist_new None (Some TESTING))
      else and_then (find_default_playlist chain_id) (\<lambda>u. from_playlist_url fetch u chain_id))"

definition shuffle_order ::
  "(HostProfile list \<Rightarrow> HostProfile list) \<Rightarrow> NetworkPlaylist \<Rightarrow> NetworkPlaylist" where
  "shuffle_order shuffle self = self\<lparr>nodes := shuffle (nodes self)\<rparr>"

definition all_urls :: "NetworkPlaylist \<Rightarrow> Url list result" where
  "all_urls self = Inr (map url (nodes self))"

definition the_good_ones :: "NetworkPlaylist \<Rightarrow> Url list result" where
  "the_good_ones self =
     (let list_urls =
        List.map_filter (\<lambda>e. if is_sync e \<and> is_api e then Some (url e) else None) (nodes self)
      in if list_urls = [] then Inl (Err ''no verified nodes found'') else Inr list_urls)"

definition the_best_one :: "NetworkPlaylist \<Rightarrow> Url result" where
  "the_best_one self =
     and_then (the_good_ones self) (\<lambda>us.
       case us of u # _ \<Rightarrow> Inr u | [] \<Rightarrow> Inl (Err ''Expected an URL for the best one''))"

definition pick_one :: "NetworkPlaylist \<Rightarrow> Url result" where
  "pick_one self =
     (case the_best_one self of
        Inr u \<Rightarrow> Inr u
      | Inl _ \<Rightarrow> and_then (all_urls self) (\<lambda>us.
          case us of u # _ \<Rightarrow> Inr u | [] \<Rightarrow> Inl (Err ''no urls to choose from'')))"

text \<open>The futures run concurrently; those that return \<^verbatim>\<open>Ok\<close> are collected in order of arrival.\<close>

definition collect_ok :: "('a result list \<Rightarrow> 'a result list) \<Rightarrow> 'a result list \<Rightarrow> 'a list" where
  "collect_ok arrival futures =
     List.map_filter (\<lambda>r. case r of Inr x \<Rightarrow> Some x | Inl _ \<Rightarrow> None) (arrival futures)"

text \<open>The squares and their sum are of type \<^verbatim>\<open>u64\<close> and wrap.\<close>

definition sum_squares :: "HostProfile list \<Rightarrow> u64" where
  "sum_squares sync_list = sum_list (map (\<lambda>e. version e ^ 2) sync_list)"

definition rms_version :: "HostProfile list \<Rightarrow> f64" where
  "rms_version sync_list =
     f64_sqrt (f64_div (f64_of_u64 (sum_squares sync_list)) (f64_of_nat (length sync_list)))"

definition mark_synced :: "f64 \<Rightarrow> HostProfile \<Rightarrow> HostProfile" where
  "mark_synced rms p = (if f64_ge (f64_of_u64 (version p)) rms then p\<lparr>is_sync := True\<rparr> else p)"

definition refresh_sync_status ::
  "(Url \<Rightarrow> u64 option) \<Rightarrow> (HostProfile list \<Rightarrow> HostProfile list) \<Rightarrow>
   (HostProfile result list \<Rightarrow> HostProfile result list) \<Rightarrow> NetworkPlaylist \<Rightarrow> NetworkPlaylist" where
  "refresh_sync_status get_index shuffle arrival self =
     (let self = shuffle_order shuffle self;
          sync_list = collect_ok arrival (map (check_sync get_index) (nodes self));
          rms = rms_version sync_list;
          checked = map (mark_synced rms) sync_list
      in self\<lparr>nodes := sort_key version checked\<rparr>)"

definition check_which_are_alive ::
  "(Url \<Rightarrow> u64 option) \<Rightarrow> (HostProfile list \<Rightarrow> HostProfile list) \<Rightarrow>
   (HostProfile result list \<Rightarrow> HostProfile result list) \<Rightarrow> NetworkPlaylist \<Rightarrow> NetworkPlaylist" where
  "check_which_are_alive get_index shuffle arrival self =
     self\<lparr>nodes := collect_ok arrival (map (check_sync get_index) (shuffle (nodes self)))\<rparr>"

section \<open>Picking a node\<close>

definition good :: "HostProfile \<Rightarrow> bool" where
  "good e \<longleftrightarrow> is_sync e \<and> is_api e"

lemma map_filter_good:
  "List.map_filter (\<lambda>e. if is_sync e \<and> is_api e then Some (url e) else None) xs = map url (filter good xs)"
  by (induction xs) (simp_all add: good_def)

lemma the_good_ones_eq:
  "the_good_ones np = (if filter good (nodes np) = [] then Inl (Err ''no verified nodes found'')
     else Inr (map url (filter good (nodes np))))"
  by (simp add: the_good_ones_def Let_def map_filter_good)

lemma the_best_one_eq:
  "the_best_one np = (case filter good (nodes np) of
      [] \<Rightarrow> Inl (Err ''no verified nodes found'') | e # _ \<Rightarrow> Inr (url e))"
  by (simp add: the_best_one_def the_good_ones_eq split: list.splits)

text \<open>\<open>pick_one\<close> returns the URL of the first synced API node; without one it falls back to the
  first node of the list; it fails exactly on an empty list.\<close>

theorem pick_one_spec:
  "pick_one np = (case filter good (nodes np) of
      e # _ \<Rightarrow> Inr (url e)
    | [] \<Rightarrow> (case nodes np of e # _ \<Rightarrow> Inr (url e) | [] \<Rightarrow> Inl (Err ''no urls to choose from'')))"
  by (simp add: pick_one_def the_best_one_eq all_urls_def split: list.splits)

section \<open>Refreshing\<close>

definition checked_host :: "(Url \<Rightarrow> u64 option) \<Rightarrow> HostProfile \<Rightarrow> HostProfile" where
  "checked_host get_index h =
     (case get_index (url h) of
        Some v \<Rightarrow> h\<lparr>version := v, is_api := True\<rparr> | None \<Rightarrow> h\<lparr>is_api := False\<rparr>)"

lemma check_sync_eq: "check_sync get_index h = Inr (checked_host get_index h)"
  by (simp add: check_sync_def checked_host_def split: option.splits)

lemma check_sync_comp: "check_sync get_index = Inr \<circ> checked_host get_index"
  by (rule ext) (simp add: check_sync_eq)

lemma checked_host_fields [simp]:
  "url (checked_host g h) = url h" "host_note (checked_host g h) = host_note h"
  "is_sync (checked_host g h) = is_sync h" "is_api (checked_host g h) = (g (url h) \<noteq> None)"
  "version (checked_host g h) = (case g (url h) of Some v \<Rightarrow> v | None \<Rightarrow> version h)"
  by (simp_all add: checked_host_def split: option.splits)

lemma mark_synced_fields [simp]:
  "url (mark_synced r p) = url p" "version (mark_synced r p) = version p"
  "is_api (mark_synced r p) = is_api p"
  "is_sync (mark_synced r p) = (is_sync p \<or> f64_ge (f64_of_u64 (version p)) r)"
  by (simp_all add: mark_synced_def)

lemma map_filter_Inr: "List.map_filter (\<lambda>r. case r of Inr x \<Rightarrow> Some x | Inl _ \<Rightarrow> None) (map Inr xs) = xs"
  by (induction xs) simp_all

lemma mset_map_filter: "mset xs = mset ys \<Longrightarrow> mset (List.map_filter f xs) = mset (List.map_filter f ys)"
  unfolding List.map_filter_def by (metis mset_filter mset_map)

text \<open>Two documented laws of the parameters: a shuffle and an order of arrival permute.\<close>

lemma mset_collect_ok:
  assumes "\<And>rs. mset (arrival rs) = mset rs"
  shows "mset (collect_ok arrival (map (check_sync g) xs)) = mset (map (checked_host g) xs)"
proof -
  have "mset (arrival (map (check_sync g) xs)) = mset (map Inr (map (checked_host g) xs))"
    by (simp only: assms check_sync_comp map_map)
  from mset_map_filter [OF this, of "\<lambda>r. case r of Inr x \<Rightarrow> Some x | Inl _ \<Rightarrow> None"] show ?thesis
    by (simp only: collect_ok_def map_filter_Inr)
qed

definition synced_list ::
  "(Url \<Rightarrow> u64 option) \<Rightarrow> (HostProfile list \<Rightarrow> HostProfile list) \<Rightarrow>
   (HostProfile result list \<Rightarrow> HostProfile result list) \<Rightarrow> NetworkPlaylist \<Rightarrow> HostProfile list" where
  "synced_list g shuffle arrival np =
     collect_ok arrival (map (check_sync g) (shuffle (nodes np)))"

lemma refresh_nodes:
  "nodes (refresh_sync_status g shuffle arrival np) =
     sort_key version (map (mark_synced (rms_version (synced_list g shuffle arrival np)))
       (synced_list g shuffle arrival np))"
  "chain_name (refresh_sync_status g shuffle arrival np) = chain_name np"
  by (simp_all add: refresh_sync_status_def synced_list_def shuffle_order_def Let_def)

lemma mset_synced_list:
  assumes "\<And>xs. mset (shuffle xs) = mset xs" "\<And>rs. mset (arrival rs) = mset rs"
  shows "mset (synced_list g shuffle arrival np) = mset (map (checked_host g) (nodes np))"
  unfolding synced_list_def
  by (subst mset_collect_ok [OF assms(2)]) (simp add: assms(1))

text \<open>A refresh loses and invents no node, whatever the shuffle and the order of arrival: the URLs
  are the same multiset, every node's API flag says whether its host answered and a node that
  answered carries the reported ledger version; the list comes out sorted by version.\<close>

theorem refresh_sync_status_nodes:
  assumes "\<And>xs. mset (shuffle xs) = mset xs" "\<And>rs. mset (arrival rs) = mset rs"
    and np': "np' = refresh_sync_status g shuffle arrival np"
  shows "mset (map url (nodes np')) = mset (map url (nodes np)) \<and> sorted (map version (nodes np')) \<and>
    (\<forall>h \<in> set (nodes np'). is_api h = (g (url h) \<noteq> None) \<and> (\<forall>v. g (url h) = Some v \<longrightarrow> version h = v))"
proof -
  let ?sl = "synced_list g shuffle arrival np"
  have ms: "mset ?sl = mset (map (checked_host g) (nodes np))"
    using assms(1,2) by (rule mset_synced_list)
  have "mset (map url (nodes np')) = image_mset url (mset ?sl)"
    by (simp add: np' refresh_nodes image_mset.compositionality comp_def)
  also have "\<dots> = mset (map url (nodes np))"
    by (simp add: ms image_mset.compositionality comp_def)
  finally have urls: "mset (map url (nodes np')) = mset (map url (nodes np))" .
  have "set ?sl = checked_host g ` set (nodes np)" using ms by (metis list.set_map set_mset_mset)
  then have "\<forall>h \<in> set (nodes np').
      is_api h = (g (url h) \<noteq> None) \<and> (\<forall>v. g (url h) = Some v \<longrightarrow> version h = v)"
    by (auto simp: np' refresh_nodes)
  then show ?thesis using urls by (simp add: np' refresh_nodes)
qed

definition example_playlist :: NetworkPlaylist where
  "example_playlist = \<lparr>chain_name = MAINNET, nodes =
     [HostProfile_new (Url ''http://a''), HostProfile_new (Url ''http://b'')]\<rparr>"

definition example_index :: "Url \<Rightarrow> u64 option" where
  "example_index u = (if u = Url ''http://a'' then Some 30 else if u = Url ''http://b'' then Some 20 else None)"

theorem refresh_sync_status_nodes_witness:
  "mset (map url (nodes (refresh_sync_status example_index rev rev example_playlist))) =
     mset (map url (nodes example_playlist)) \<and>
   sorted (map version (nodes (refresh_sync_status example_index rev rev example_playlist)))"
  using refresh_sync_status_nodes [of rev rev _ example_index example_playlist, OF mset_rev mset_rev refl]
  by blast

subsection \<open>Which nodes count as synced\<close>

lemma unat_sum_list_exact:
  assumes "sum_list (map (\<lambda>x. unat (f x :: u64)) xs) < 2 ^ 64"
  shows "unat (sum_list (map f xs)) = sum_list (map (\<lambda>x. unat (f x)) xs)"
  using assms
proof (induction xs)
  case (Cons x xs)
  then have "unat (f x) + unat (sum_list (map f xs)) < 2 ^ 64" by simp
  then show ?case using Cons by (simp add: unat_word_ariths)
qed simp

lemma unat_square_exact:
  "unat (v :: u64) * unat v < 2 ^ 64 \<Longrightarrow> unat (v ^ 2) = unat v * unat v"
  by (simp add: power2_eq_square unat_word_ariths)

lemma sum_squares_exact:
  assumes "sum_list (map (\<lambda>e. unat (version e) * unat (version e)) xs) \<le> 2 ^ 53"
  shows "unat (sum_squares xs) = sum_list (map (\<lambda>e. unat (version e) * unat (version e)) xs)"
proof -
  have "unat (version e ^ 2) = unat (version e) * unat (version e)" if "e \<in> set xs" for e
  proof (rule unat_square_exact)
    have "unat (version e) * unat (version e) \<le> 2 ^ 53"
      using assms member_le_sum_list [of "unat (version e) * unat (version e)"
          "map (\<lambda>e. unat (version e) * unat (version e)) xs"] that
      by (auto intro: order_trans)
    then show "unat (version e) * unat (version e) < 2 ^ 64" by simp
  qed
  then have eq: "map (\<lambda>e. unat (version e ^ 2)) xs = map (\<lambda>e. unat (version e) * unat (version e)) xs"
    by simp
  show ?thesis
    unfolding sum_squares_def using assms
    by (subst unat_sum_list_exact) (simp_all only: eq, simp)
qed

lemma sum_list_mset_cong:
  "mset xs = mset ys \<Longrightarrow> sum_list (map f xs) = (sum_list (map f ys) :: nat)"
  by (metis mset_map sum_mset_sum_list)

lemma rms_le_max:
  assumes S: "sum_list (map (\<lambda>e. unat (version e) * unat (version e)) xs) \<le> 2 ^ 53"
    and len: "length xs \<le> 2 ^ 53" and h: "h \<in> set xs"
    and mx: "\<And>e. e \<in> set xs \<Longrightarrow> version e \<le> version h"
  shows "f64_ge (f64_of_u64 (version h)) (rms_version xs)"
proof -
  let ?S = "sum_list (map (\<lambda>e. unat (version e) * unat (version e)) xs)"
  let ?V = "unat (version h)" and ?n = "length xs"
  have n0: "0 < ?n" using h by (cases xs) auto
  have VV: "?V * ?V \<le> 2 ^ 53"
    using S member_le_sum_list [of "?V * ?V" "map (\<lambda>e. unat (version e) * unat (version e)) xs"] h
    by (auto intro: order_trans)
  have V: "?V < 2 ^ 52"
  proof (rule ccontr)
    assume "\<not> ?V < 2 ^ 52"
    then have "2 ^ 52 * 2 ^ 52 \<le> ?V * ?V" by (intro mult_le_mono) auto
    with VV show False by simp
  qed
  have "?S \<le> ?n * (?V * ?V)"
  proof -
    have "?S \<le> sum_list (map (\<lambda>e. ?V * ?V) xs)"
      using mx by (intro sum_list_mono mult_le_mono) (auto simp: word_le_nat_alt)
    then show ?thesis by (simp add: sum_list_triv)
  qed
  then have "(of_nat ?S :: rat) \<le> of_nat (?n * (?V * ?V))" by (simp only: of_nat_le_iff)
  then have q: "(of_nat ?S :: rat) / of_nat ?n \<le> of_int (int (?V * ?V))"
    using n0 by (simp add: divide_le_eq mult.commute)
  have V53: "int (?V * ?V) \<le> 2 ^ 53" using VV by (metis of_nat_le_iff of_nat_numeral of_nat_power)
  obtain v where v: "f64_round (of_nat ?S / of_nat ?n) = Fin v" "0 \<le> v" "v \<le> of_int (int (?V * ?V))"
    using f64_round_le_int [OF _ q V53] by auto
  have Sf: "f64_of_u64 (sum_squares xs) = Fin (of_nat ?S)"
    using f64_of_u64_exact [of "sum_squares xs"] S sum_squares_exact [OF S] by metis
  have avg: "f64_div (f64_of_u64 (sum_squares xs)) (f64_of_nat ?n) = Fin v"
    using n0 v(1) by (simp add: f64_of_nat_def f64_round_of_nat [OF len] Sf)
  have rms: "\<exists>r. rms_version xs = Fin r \<and> r \<le> of_nat ?V"
  proof (cases "v = 0")
    case True
    moreover have "(0 :: rat) \<le> of_nat ?V" by (rule of_nat_0_le_iff)
    ultimately show ?thesis by (simp add: rms_version_def avg)
  next
    case False
    have "0 < v" using False v(2) by simp
    moreover have "v \<le> of_int (int ?V) * of_int (int ?V)" using v(3) by simp
    moreover have "int ?V < 2 ^ 52" using V by (metis of_nat_less_iff of_nat_numeral of_nat_power)
    ultimately have "sqrt_round v \<le> of_int (int ?V)" using sqrt_round_le_int [of v "int ?V"] by simp
    then show ?thesis using \<open>0 < v\<close> by (simp add: rms_version_def avg)
  qed
  then show ?thesis using V by (auto simp: f64_of_u64_exact)
qed

text \<open>C25. The cut-off is the root mean square of the versions, computed in floating point. As long as
  the sum of squares is exact (53 bits), a node with the highest version always passes it, so a
  refresh never rejects every node.\<close>

theorem refresh_marks_highest_version:
  assumes "\<And>xs. mset (shuffle xs) = mset xs" "\<And>rs. mset (arrival rs) = mset rs"
    and np': "np' = refresh_sync_status g shuffle arrival np"
    and h: "h \<in> set (nodes np')" and mx: "\<forall>e \<in> set (nodes np'). version e \<le> version h"
    and S: "sum_list (map (\<lambda>e. unat (version e) * unat (version e)) (nodes np')) \<le> 2 ^ 53"
    and len: "length (nodes np') \<le> 2 ^ 53"
  shows "is_sync h"
proof -
  let ?sl = "synced_list g shuffle arrival np"
  let ?mk = "mark_synced (rms_version ?sl)"
  have ns: "nodes np' = sort_key version (map ?mk ?sl)" by (simp add: np' refresh_nodes)
  have "mset (map version (nodes np')) = mset (map version ?sl)"
    by (simp add: ns image_mset.compositionality comp_def)
  from sum_list_mset_cong [OF this, of "\<lambda>v. unat v * unat v"]
  have S': "sum_list (map (\<lambda>e. unat (version e) * unat (version e)) ?sl) \<le> 2 ^ 53"
    using S by (simp add: comp_def)
  from h obtain e where e: "e \<in> set ?sl" "h = ?mk e" by (auto simp: ns)
  have "version e' \<le> version e" if "e' \<in> set ?sl" for e'
    using mx that e(2) by (force simp: ns)
  then have "f64_ge (f64_of_u64 (version e)) (rms_version ?sl)"
    using rms_le_max [OF S' _ e(1)] len by (simp add: ns)
  then show ?thesis using e(2) by simp
qed

theorem refresh_marks_highest_version_witness:
  "\<exists>h \<in> set (nodes (refresh_sync_status example_index rev rev example_playlist)). version h = 30 \<and> is_sync h"
proof -
  let ?np' = "refresh_sync_status example_index rev rev example_playlist"
  let ?sl = "synced_list example_index rev rev example_playlist"
  have sl: "?sl = [\<lparr>url = Url ''http://a'', host_note = ''default'', version = 30, is_api = True, is_sync = False\<rparr>,
      \<lparr>url = Url ''http://b'', host_note = ''default'', version = 20, is_api = True, is_sync = False\<rparr>]"
    by (simp add: synced_list_def example_playlist_def collect_ok_def check_sync_def example_index_def
        HostProfile_new_def HostProfile_default_def)
  define h where "h = mark_synced (rms_version ?sl) (?sl ! 0)"
  have h: "h \<in> set (nodes ?np')" "version h = 30" by (simp_all add: h_def refresh_nodes sl)
  have "is_sync h"
    using refresh_marks_highest_version [OF mset_rev mset_rev refl h(1)] h(2)
    by (simp add: refresh_nodes sl)
  with h show ?thesis by blast
qed

text \<open>Refreshing sorts the nodes by ascending version and \<open>the_best_one\<close> takes the first good
  one: the node chosen is a good node with the \<^emph>\<open>lowest\<close> version among the good nodes.\<close>

theorem the_best_one_lowest_version:
  assumes np': "np' = refresh_sync_status g shuffle arrival np" and u: "the_best_one np' = Inr u"
  shows "\<exists>h \<in> set (nodes np'). url h = u \<and> good h \<and>
    (\<forall>e \<in> set (nodes np'). good e \<longrightarrow> version h \<le> version e)"
proof -
  have srt: "sorted (map version (nodes np'))" by (simp add: np' refresh_nodes)
  from u obtain h es where f: "filter good (nodes np') = h # es" "url h = u"
    by (auto simp: the_best_one_eq split: list.splits)
  have "sorted (map version (h # es))" unfolding f(1) [symmetric] using srt by (rule sorted_filter)
  then have "\<forall>e \<in> set (filter good (nodes np')). version h \<le> version e" by (simp add: f(1))
  moreover have "h \<in> set (filter good (nodes np'))" by (simp add: f(1))
  ultimately show ?thesis using f(2) by auto
qed

definition example_synced :: NetworkPlaylist where
  "example_synced = example_playlist\<lparr>nodes := map (is_sync_update (\<lambda>_. True)) (nodes example_playlist)\<rparr>"

theorem the_best_one_lowest_version_witness:
  "the_best_one (refresh_sync_status example_index rev rev example_synced) = Inr (Url ''http://b'') \<and>
   (\<exists>h \<in> set (nodes (refresh_sync_status example_index rev rev example_synced)).
      url h = Url ''http://b'' \<and>
      (\<forall>e \<in> set (nodes (refresh_sync_status example_index rev rev example_synced)).
         good e \<longrightarrow> version h \<le> version e))"
proof -
  have sl: "synced_list example_index rev rev example_synced =
     [\<lparr>url = Url ''http://a'', host_note = ''default'', version = 30, is_api = True, is_sync = True\<rparr>,
      \<lparr>url = Url ''http://b'', host_note = ''default'', version = 20, is_api = True, is_sync = True\<rparr>]"
    by (simp add: synced_list_def example_synced_def example_playlist_def collect_ok_def check_sync_def
        example_index_def HostProfile_new_def HostProfile_default_def)
  have u: "the_best_one (refresh_sync_status example_index rev rev example_synced) = Inr (Url ''http://b'')"
    by (simp add: the_best_one_eq refresh_nodes sl good_def)
  with the_best_one_lowest_version [OF refl u] show ?thesis by blast
qed

end
