(* ===== verification/Pledge.thy ===== *)
theory Pledge
  imports Network_Playlist
begin

text \<open>
  \<^verbatim>\<open>types/src/core_types/pledge.rs\<close>: the code-of-conduct pledges. The hash function of the vendor
  library is the parameter \<open>sha3\<close>, the chain mode read from the environment is \<open>mode\<close>, and
  \<open>prompt\<close> is the user's answer to a question.
\<close>

record Pledge =
  pledge_id :: u8
  pledge_name :: string
  pledge_version :: u8
  pledge_hash :: "u8 list"
  question :: string
  preamble :: string
  pledge_on_chain :: bool

definition newline :: string where
  "newline = [CHR 0x0A]"

definition to_hash :: "(u8 list \<Rightarrow> u8 list) \<Rightarrow> Pledge \<Rightarrow> Pledge" where
  "to_hash sha3 self = self\<lparr>pledge_hash := sha3 (into_bytes (question self @ preamble self))\<rparr>"

definition pledge_protect_the_game :: "(u8 list \<Rightarrow> u8 list) \<Rightarrow> Pledge" where
  "pledge_protect_the_game sha3 = to_hash sha3
     \<lparr>pledge_id = 0, pledge_name = ''Protect the Game'', pledge_version = 0, pledge_hash = [],
      question = ''Do you pledge to not damage the game and never cheat other users?'',
      preamble = ''Code is not law at Open Libra. The law is law. The law comes from history.'' @ newline @ newline @
        ''I understand written and unwritten laws come from social norms. I will refer to the expectations of this community based on canonical instructions, code documentation, and common sense to know when I'm cheating at the game, or otherwise unlawfully disadvantaging someone for my benefit.'' @ newline @ newline @
        ''Cheating can include, but is not limited to: gaining an advantage in a way that would be impossible unless it was covert, dishonest, untrue, or otherwise using an expected common courtesy others have extended to me which I'm not willing to return.'',
      pledge_on_chain = False\<rparr>"

definition pledge_validator :: "(u8 list \<Rightarrow> u8 list) \<Rightarrow> Pledge" where
  "pledge_validator sha3 = to_hash sha3
     \<lparr>pledge_id = 1, pledge_name = ''Operate in Good Faith'', pledge_version = 0, pledge_hash = [],
      question = ''Do you pledge to be a validator that acts in good faith to secure the network?'',
      preamble = ''When taking this pledge you are also taking the Protect the Game pledge:'' @ newline @
        [CHR 0x27] @ ''I pledge to not damage the game and never cheat other users'' @ [CHR 0x27] @ ''.'' @ newline @ newline @
        ''Additionally you pledge to: obey the blockchain's policies as intended, some of which may be encoded as smart contracts, not pretend to be multiple people (sybil), not change the blockchain settings or software without consulting the community, run the blockchain security software (e.g validator, and fullnode software) as intended and in its entirety.'',
      pledge_on_chain = False\<rparr>"

definition check_pledge_hash :: "(u8 list \<Rightarrow> u8 list) \<Rightarrow> u8 \<Rightarrow> u8 list \<Rightarrow> bool result" where
  "check_pledge_hash sha3 pledge_idx bytes =
     (if pledge_idx = 0 then Inr (bytes = pledge_hash (pledge_protect_the_game sha3))
      else if pledge_idx = 1 then Inr (bytes = pledge_hash (pledge_validator sha3))
      else if \<not> pledge_idx < 2 then Inl (Panic ''pledge index not found'')
      else Inr False)"

definition pledge_dialogue :: "NamedChain \<Rightarrow> (string \<Rightarrow> bool) \<Rightarrow> Pledge \<Rightarrow> bool" where
  "pledge_dialogue mode prompt self =
     (if mode \<noteq> MAINNET then True else prompt (newline @ question self))"

lemma pledge_ids [simp]:
  "pledge_id (pledge_protect_the_game sha3) = 0" "pledge_id (pledge_validator sha3) = 1"
  by (simp_all add: pledge_protect_the_game_def pledge_validator_def to_hash_def)

lemma check_pledge_hash_canonical [simp]:
  "check_pledge_hash sha3 0 bytes = Inr (bytes = pledge_hash (pledge_protect_the_game sha3))"
  "check_pledge_hash sha3 1 bytes = Inr (bytes = pledge_hash (pledge_validator sha3))"
  by (simp_all add: check_pledge_hash_def)

end
