(* ===== verification/Gas_Coin.thy ===== *)
theory Gas_Coin
  imports F64
begin

text \<open>
  \<^verbatim>\<open>types/src/move_resource/gas_coin.rs\<close>: the conversion between the on-chain coin value
  (an integer of micro-coins) and the decimal amount shown to and entered by users, and the
  slow-wallet balance read from a view function.
\<close>

section \<open>Model\<close>

definition ONCHAIN_DECIMAL_PRECISION :: u8 where
  "ONCHAIN_DECIMAL_PRECISION = 6"

text \<open>\<^verbatim>\<open>10f64.powf(ONCHAIN_DECIMAL_PRECISION as f64)\<close>, the float one million.\<close>

definition coin_scale :: f64 where
  "coin_scale = Fin (10 ^ unat ONCHAIN_DECIMAL_PRECISION)"

definition cast_coin_to_decimal :: "u64 \<Rightarrow> f64" where
  "cast_coin_to_decimal onchain_coin_value = f64_div (f64_of_u64 onchain_coin_value) coin_scale"

definition cast_decimal_to_coin :: "f64 \<Rightarrow> u64" where
  "cast_decimal_to_coin decimal = f64_to_u64 (f64_mul decimal coin_scale)"

record SlowWalletBalance =
  unlocked :: u64
  total :: u64

record LibraBalanceDisplay =
  unlocked_f :: f64
  total_f :: f64

text \<open>What the source asks of a \<^verbatim>\<open>serde_json::Value\<close>: whether it is a string, and which.\<close>

datatype json = JString string | JOther

definition json_u64 :: "json \<Rightarrow> u64 result" where
  "json_u64 v = (case v of
      JString s \<Rightarrow> ok_or ''invalid digit found in string'' (parse_u64 s)
    | JOther \<Rightarrow> Inl (Err ''invalid type, expected a string''))"

definition SlowWalletBalance_from_value :: "json list \<Rightarrow> SlowWalletBalance result" where
  "SlowWalletBalance_from_value value =
     (if length value \<noteq> 2 then Inl (Err ''invalid value length'')
      else and_then (json_u64 (value ! 0)) (\<lambda>u.
           and_then (json_u64 (value ! 1)) (\<lambda>t.
           Inr \<lparr>unlocked = u, total = t\<rparr>)))"

definition scaled :: "SlowWalletBalance \<Rightarrow> LibraBalanceDisplay" where
  "scaled b = \<lparr>unlocked_f = cast_coin_to_decimal (unlocked b),
               total_f = cast_coin_to_decimal (total b)\<rparr>"

section \<open>Properties\<close>

lemma coin_scale_eq [simp]: "coin_scale = Fin 1000000"
  by (simp add: coin_scale_def ONCHAIN_DECIMAL_PRECISION_def)

lemma f64_to_u64_nat: "n < 2 ^ 64 \<Longrightarrow> f64_to_u64 (Fin (of_nat n)) = of_nat n"
proof -
  assume n: "n < 2 ^ 64"
  show ?thesis
  proof (cases "n = 2 ^ 64 - 1")
    case True
    then have "(of_nat n :: rat) = 2 ^ 64 - 1" "(of_nat n :: u64) = 2 ^ 64 - 1" by simp_all
    then show ?thesis by simp
  next
    case False
    with n have "n < 2 ^ 64 - 1" by simp
    then have "(of_nat n :: rat) < of_nat (2 ^ 64 - 1)" by (simp only: of_nat_less_iff)
    then show ?thesis by simp
  qed
qed

text \<open>Scaling a whole number of coins is exact as long as the micro-coin amount fits the
  53-bit significand: the on-chain value is the amount times one million, with no rounding.\<close>

theorem cast_decimal_to_coin_whole:
  assumes "unat n * 10 ^ 6 \<le> 2 ^ 53"
  shows "unat (cast_decimal_to_coin (f64_of_u64 n)) = unat n * 10 ^ 6"
proof -
  have n: "unat n \<le> 2 ^ 53" using assms by simp
  have eq: "(of_nat (unat n) * 1000000 :: rat) = of_nat (unat n * 10 ^ 6)" by simp
  have "cast_decimal_to_coin (f64_of_u64 n) = f64_to_u64 (f64_round (of_nat (unat n) * 1000000))"
    by (simp add: cast_decimal_to_coin_def f64_of_u64_exact [OF n])
  also have "\<dots> = f64_to_u64 (Fin (of_nat (unat n * 10 ^ 6)))"
    unfolding eq using f64_round_of_nat [OF assms] by simp
  also have "\<dots> = of_nat (unat n * 10 ^ 6)"
    by (rule f64_to_u64_nat) (use assms in simp)
  finally have eq: "cast_decimal_to_coin (f64_of_u64 n) = of_nat (unat n * 10 ^ 6)" .
  show ?thesis unfolding eq unat_of_nat by (rule mod_less) (use assms in simp)
qed

theorem cast_decimal_to_coin_whole_witness:
  "unat (25 :: u64) * 10 ^ 6 \<le> 2 ^ 53 \<and> unat (cast_decimal_to_coin (f64_of_u64 25)) = 25000000"
  using cast_decimal_to_coin_whole [of 25] by simp

text \<open>An amount with decimals is truncated, not rounded, after the float multiplication: the
  float nearest to 2.01 coins becomes 2009999 micro-coins, one less than the amount entered.\<close>

theorem cast_decimal_to_coin_truncates:
  "f64_round (201 / 100) = Fin (9052235251014696 / 2 ^ 52) \<and>
   cast_decimal_to_coin (f64_round (201 / 100)) = 2009999"
proof -
  have lit: "f64_round (201 / 100) = Fin (9052235251014696 / 2 ^ 52)"
    using f64_round_eval [of 1 "201 / 100" 4526117625507348] by (simp add: f64_eval_simps)
  have "f64_round (9052235251014696 / 2 ^ 52 * 1000000) = Fin (8632884264959999 * 2 powi (20 - 52))"
    using f64_round_eval [of 20 "9052235251014696 / 2 ^ 52 * 1000000" 8632884264959999]
    by (simp add: f64_eval_simps)
  moreover have "\<lfloor>8632884264959999 / 4294967296 :: rat\<rfloor> = 2009999"
    by (rule floor_unique) simp_all
  ultimately show ?thesis
    unfolding cast_decimal_to_coin_def lit by (simp add: f64_eval_simps)
qed

end
