(* ===== verification/App_Cfg.thy ===== *)
theory App_Cfg
  imports Pledge Gas_Coin Account_Address
begin

text \<open>
  \<^verbatim>\<open>types/src/core_types/app_cfg.rs\<close>: the configuration file of the command line tools. It holds
  the user profiles, the network playlists and the transaction costs, and every command of the
  tools reads the sender's account, the chain and the upstream URL from it.

  Parameters: \<open>to_string\<close> prints an account address, \<open>home\<close> is the global configuration directory,
  \<open>to_yaml\<close> and \<open>from_yaml\<close> are the serializer, \<open>gas_unit_price\<close> and \<open>max_gas_amount\<close> the vendor's
  constants. A mutable borrow is modelled by the index it points at.
\<close>

section \<open>Model\<close>

subsection \<open>Transaction costs\<close>

datatype TxType = Baseline | Critical | Mgmt | Miner | Cheap

record TxCost =
  max_gas_unit_for_tx :: u64
  coin_price_per_unit :: u64
  user_tx_timeout :: u64

record TxConfigs =
  baseline_cost :: TxCost
  critical_txs_cost :: "TxCost option"
  management_txs_cost :: "TxCost option"
  miner_txs_cost :: "TxCost option"
  cheap_txs_cost :: "TxCost option"

definition TxCost_new :: "u64 \<Rightarrow> u64 \<Rightarrow> f64 \<Rightarrow> u64 option \<Rightarrow> TxCost" where
  "TxCost_new gas_unit_price units price_multiplier min_gas_price =
     \<lparr>max_gas_unit_for_tx = units,
      coin_price_per_unit =
        f64_to_u64 (f64_mul
          (f64_of_u64 (max gas_unit_price (case min_gas_price of None \<Rightarrow> 1 | Some m \<Rightarrow> m)))
          price_multiplier),
      user_tx_timeout = 5000\<rparr>"

definition default_baseline_cost :: "u64 \<Rightarrow> u64 \<Rightarrow> TxCost" where
  "default_baseline_cost gup mga = TxCost_new gup (mga div 50) (Fin 2) None"

definition default_critical_txs_cost :: "u64 \<Rightarrow> u64 \<Rightarrow> TxCost" where
  "default_critical_txs_cost gup mga = TxCost_new gup (mga div 6) (Fin 5) None"

definition default_management_txs_cost :: "u64 \<Rightarrow> u64 \<Rightarrow> TxCost" where
  "default_management_txs_cost gup mga = TxCost_new gup (mga div 12) (Fin 4) None"

definition default_miner_txs_cost :: "u64 \<Rightarrow> u64 \<Rightarrow> TxCost" where
  "default_miner_txs_cost gup mga = TxCost_new gup (mga div 25) (Fin 3) None"

definition default_cheap_txs_cost :: "u64 \<Rightarrow> u64 \<Rightarrow> TxCost" where
  "default_cheap_txs_cost gup mga = TxCost_new gup (mga div 100) (Fin 1) None"

definition prod_baseline_cost :: "u64 \<Rightarrow> u64 \<Rightarrow> TxCost" where
  "prod_baseline_cost gup mga = TxCost_new gup (mga div 50) (Fin 2) (Some 100)"

definition framework_upgrade :: "u64 \<Rightarrow> TxCost" where
  "framework_upgrade gup = TxCost_new gup 100000 (Fin 50) (Some 100)"

definition TxConfigs_default :: "u64 \<Rightarrow> u64 \<Rightarrow> TxConfigs" where
  "TxConfigs_default gup mga =
     \<lparr>baseline_cost = default_baseline_cost gup mga,
      critical_txs_cost = Some (default_critical_txs_cost gup mga),
      management_txs_cost = Some (default_management_txs_cost gup mga),
      miner_txs_cost = Some (default_miner_txs_cost gup mga),
      cheap_txs_cost = Some (default_cheap_txs_cost gup mga)\<rparr>"

definition get_cost :: "u64 \<Rightarrow> u64 \<Rightarrow> TxConfigs \<Rightarrow> TxType option \<Rightarrow> TxCost" where
  "get_cost gup mga self tx_type =
     (let cost = (case tx_type of
          Some Critical \<Rightarrow> critical_txs_cost self
        | Some Mgmt \<Rightarrow> management_txs_cost self
        | Some Miner \<Rightarrow> miner_txs_cost self
        | Some Cheap \<Rightarrow> cheap_txs_cost self
        | _ \<Rightarrow> Some (baseline_cost self))
      in case cost of Some c \<Rightarrow> c | None \<Rightarrow> default_baseline_cost gup mga)"

subsection \<open>Profiles\<close>

type_synonym Ed25519PrivateKey = "u8 list"

record Profile =
  account :: AccountAddress
  auth_key :: AuthenticationKey
  test_private_key :: "Ed25519PrivateKey option"
  nickname :: string
  on_chain :: bool
  balance :: SlowWalletBalance
  lang_locale :: "string option"
  statement :: string
  pledges :: "Pledge list option"

definition Profile_default :: Profile where
  "Profile_default =
     \<lparr>account = 0, auth_key = 0, test_private_key = None, nickname = ''default'',
      on_chain = False, balance = \<lparr>unlocked = 0, total = 0\<rparr>, lang_locale = None,
      statement = ''Protests rage across the nation'', pledges = None\<rparr>"

text \<open>A string slice out of range panics.\<close>

definition slice :: "nat \<Rightarrow> nat \<Rightarrow> string \<Rightarrow> string result" where
  "slice i j s =
     (if i \<le> j \<and> j \<le> length s then Inr (take (j - i) (drop i s))
      else Inl (Panic ''byte index out of range''))"

definition get_nickname :: "(AccountAddress \<Rightarrow> string) \<Rightarrow> AccountAddress \<Rightarrow> string result" where
  "get_nickname to_string acc =
     and_then (slice 0 31 (to_string acc)) (\<lambda>p.
       if p = ''00000000000000000000000000000000'' then slice 32 36 (to_string acc)
       else slice 0 4 (to_string acc))"

definition Profile_new ::
  "(AccountAddress \<Rightarrow> string) \<Rightarrow> AuthenticationKey \<Rightarrow> AccountAddress \<Rightarrow> Profile result" where
  "Profile_new to_string auth acc =
     (let p = Profile_default\<lparr>account := acc, auth_key := auth\<rparr>
      in and_then (get_nickname to_string (account p)) (\<lambda>n. Inr (p\<lparr>nickname := n\<rparr>)))"

definition set_private_key :: "Ed25519PrivateKey \<Rightarrow> Profile \<Rightarrow> Profile" where
  "set_private_key key self = self\<lparr>test_private_key := Some key\<rparr>"

definition borrow_private_key :: "Profile \<Rightarrow> Ed25519PrivateKey result" where
  "borrow_private_key self = ok_or ''no private key found'' (test_private_key self)"

definition push_pledge :: "Pledge \<Rightarrow> Profile \<Rightarrow> Profile" where
  "push_pledge new self =
     (case pledges self of
        Some list \<Rightarrow>
          (case List.find (\<lambda>e. pledge_id e = pledge_id new) list of
             None \<Rightarrow> self\<lparr>pledges := Some (list @ [new])\<rparr>
           | Some _ \<Rightarrow> self)
      | None \<Rightarrow> self\<lparr>pledges := Some [new]\<rparr>)"

fun any_pledge :: "(Pledge \<Rightarrow> bool result) \<Rightarrow> Pledge list \<Rightarrow> bool result" where
  "any_pledge f [] = Inr False"
| "any_pledge f (e # es) = and_then (f e) (\<lambda>b. if b then Inr True else any_pledge f es)"

definition check_has_pledge ::
  "NamedChain \<Rightarrow> (u8 list \<Rightarrow> u8 list) \<Rightarrow> Profile \<Rightarrow> u8 \<Rightarrow> bool result" where
  "check_has_pledge mode sha3 self pid =
     (if mode \<noteq> MAINNET then Inr True
      else case pledges self of
        Some list \<Rightarrow>
          any_pledge (\<lambda>e. if pledge_id e = 0 then check_pledge_hash sha3 pid (pledge_hash e)
                          else Inr False) list
      | None \<Rightarrow> Inr False)"

definition maybe_offer_basic_pledge ::
  "NamedChain \<Rightarrow> (u8 list \<Rightarrow> u8 list) \<Rightarrow> (string \<Rightarrow> bool) \<Rightarrow> Profile \<Rightarrow> Profile result" where
  "maybe_offer_basic_pledge mode sha3 prompt self =
     and_then (check_has_pledge mode sha3 self 0) (\<lambda>has.
       if has then Inr self
       else let p = pledge_protect_the_game sha3 in
            Inr (if pledge_dialogue mode prompt p then push_pledge p self else self))"

definition maybe_offer_validator_pledge ::
  "NamedChain \<Rightarrow> (u8 list \<Rightarrow> u8 list) \<Rightarrow> (string \<Rightarrow> bool) \<Rightarrow> Profile \<Rightarrow> Profile result" where
  "maybe_offer_validator_pledge mode sha3 prompt self =
     and_then (check_has_pledge mode sha3 self 1) (\<lambda>has.
       if has then Inr self
       else let p = pledge_validator sha3 in
            Inr (if pledge_dialogue mode prompt p then push_pledge p self else self))"

subsection \<open>The configuration\<close>

record Workspace =
  default_profile :: "string option"
  default_chain_id :: NamedChain
  node_home :: string

definition Workspace_default :: "string \<Rightarrow> Workspace" where
  "Workspace_default home = \<lparr>default_profile = None, default_chain_id = MAINNET, node_home = home\<rparr>"

definition set_default :: "string \<Rightarrow> Workspace \<Rightarrow> Workspace" where
  "set_default profile self = self\<lparr>default_profile := Some profile\<rparr>"

record AppCfg =
  workspace :: Workspace
  user_profiles :: "Profile list"
  network_playlist :: "NetworkPlaylist list"
  tx_configs :: TxConfigs

definition AppCfg_default :: "string \<Rightarrow> u64 \<Rightarrow> u64 \<Rightarrow> AppCfg" where
  "AppCfg_default home gup mga =
     \<lparr>workspace = Workspace_default home, user_profiles = [], network_playlist = [],
      tx_configs = TxConfigs_default gup mga\<rparr>"

definition CONFIG_FILE_NAME :: string where
  "CONFIG_FILE_NAME = ''libra-cli-config.yaml''"

definition default_file_path :: "string \<Rightarrow> string" where
  "default_file_path home = path_join home CONFIG_FILE_NAME"

definition save_file ::
  "(AppCfg \<Rightarrow> string result) \<Rightarrow> AppCfg \<Rightarrow> file_system \<Rightarrow> (string \<times> file_system) result" where
  "save_file to_yaml self fs =
     and_then (to_yaml self) (\<lambda>yaml.
       let p = path_join (node_home (workspace self)) CONFIG_FILE_NAME in
       if writable fs p then Inr (p, fs\<lparr>files := (files fs)(p \<mapsto> yaml)\<rparr>)
       else Inl (Err ''io error''))"

definition load ::
  "(string \<Rightarrow> AppCfg result) \<Rightarrow> string \<Rightarrow> string option \<Rightarrow> file_system \<Rightarrow> AppCfg result" where
  "load from_yaml home file fs =
     (let path = (case file of Some f \<Rightarrow> f | None \<Rightarrow> default_file_path home) in
      case files fs path of
        None \<Rightarrow> Inl (Err ''libra-cli-config.yaml dir does not exist'')
      | Some s \<Rightarrow> from_yaml s)"

definition init_app_configs ::
  "(AccountAddress \<Rightarrow> string) \<Rightarrow> (AppCfg \<Rightarrow> string result) \<Rightarrow> string \<Rightarrow> u64 \<Rightarrow> u64 \<Rightarrow>
   AuthenticationKey \<Rightarrow> AccountAddress \<Rightarrow> string option \<Rightarrow> NamedChain option \<Rightarrow>
   NetworkPlaylist option \<Rightarrow> file_system \<Rightarrow> (AppCfg \<times> file_system) result" where
  "init_app_configs to_string to_yaml home gup mga authkey acc config_path chain np_opt fs =
     (let cfg = AppCfg_default home gup mga in
      and_then (Profile_new to_string authkey acc) (\<lambda>profile.
      let ws = (workspace cfg)\<lparr>default_profile := Some (nickname profile),
                 node_home := (case config_path of Some p \<Rightarrow> p | None \<Rightarrow> home)\<rparr>;
          cfg = cfg\<lparr>workspace := ws, user_profiles := [profile]\<rparr>;
          cfg = (case chain of
                   Some cid \<Rightarrow> cfg\<lparr>workspace := (workspace cfg)\<lparr>default_chain_id := cid\<rparr>\<rparr>
                 | None \<Rightarrow> cfg);
          cfg = (case np_opt of
                   Some np \<Rightarrow> cfg\<lparr>workspace := (workspace cfg)\<lparr>default_chain_id := chain_name np\<rparr>,
                                 network_playlist := network_playlist cfg @ [np]\<rparr>
                 | None \<Rightarrow> cfg)
      in and_then (save_file to_yaml cfg fs) (\<lambda>(_, fs). Inr (cfg, fs))))"

fun find_index_from :: "nat \<Rightarrow> ('a \<Rightarrow> bool) \<Rightarrow> 'a list \<Rightarrow> nat option" where
  "find_index_from i P [] = None"
| "find_index_from i P (x # xs) = (if P x then Some i else find_index_from (Suc i) P xs)"

definition get_profile_idx ::
  "(AccountAddress \<Rightarrow> string) \<Rightarrow> AppCfg \<Rightarrow> string option \<Rightarrow> nat result" where
  "get_profile_idx to_string self nick =
     (if user_profiles self = [] then Inl (Err ''no profiles found'')
      else if length (user_profiles self) = 1 then Inr 0
      else let nick = (case nick of None \<Rightarrow> default_profile (workspace self) | Some n \<Rightarrow> Some n) in
        case nick of
          Some n \<Rightarrow> ok_or ''could not find a profile''
            (find_index_from 0
               (\<lambda>e. str_contains (nickname e) n \<or> str_contains (to_string (account e)) n)
               (user_profiles self))
        | None \<Rightarrow> Inl (Err ''no profiles found''))"

definition unwrap_or :: "'a result \<Rightarrow> 'a \<Rightarrow> 'a" where
  "unwrap_or r d = (case r of Inr x \<Rightarrow> x | Inl _ \<Rightarrow> d)"

definition vec_get :: "'a list \<Rightarrow> nat \<Rightarrow> 'a option" where
  "vec_get xs i = (if i < length xs then Some (xs ! i) else None)"

definition get_profile :: "(AccountAddress \<Rightarrow> string) \<Rightarrow> AppCfg \<Rightarrow> string option \<Rightarrow> Profile result" where
  "get_profile to_string self nick =
     (let idx = unwrap_or (get_profile_idx to_string self nick) 0
      in ok_or ''no profile at index'' (vec_get (user_profiles self) idx))"

text \<open>The borrow of \<open>get_profile_mut\<close> is the index into the vector.\<close>

definition get_profile_mut :: "(AccountAddress \<Rightarrow> string) \<Rightarrow> AppCfg \<Rightarrow> string option \<Rightarrow> nat result" where
  "get_profile_mut to_string self nick =
     (let idx = unwrap_or (get_profile_idx to_string self nick) 0
      in if idx < length (user_profiles self) then Inr idx else Inl (Err ''no profile at index''))"

definition get_block_dir :: "(AccountAddress \<Rightarrow> string) \<Rightarrow> AppCfg \<Rightarrow> string option \<Rightarrow> string result" where
  "get_block_dir to_string self nick =
     and_then (get_profile to_string self nick) (\<lambda>profile.
       Inr (path_join (node_home (workspace self)) (''vdf_proofs_'' @ to_string (account profile))))"

fun replace_first :: "('a \<Rightarrow> bool) \<Rightarrow> 'a \<Rightarrow> 'a list \<Rightarrow> 'a list" where
  "replace_first P v [] = []"
| "replace_first P v (x # xs) = (if P x then v # xs else x # replace_first P v xs)"

definition put_profile :: "Profile \<Rightarrow> Profile list \<Rightarrow> Profile list" where
  "put_profile profile ps =
     (if ps = [] then [profile]
      else case List.find (\<lambda>e. account e = account profile) ps of
        Some _ \<Rightarrow> replace_first (\<lambda>e. account e = account profile) profile ps
      | None \<Rightarrow> ps @ [profile])"

definition maybe_add_profile :: "Profile \<Rightarrow> AppCfg \<Rightarrow> AppCfg result" where
  "maybe_add_profile profile self =
     Inr (self\<lparr>user_profiles := put_profile profile (user_profiles self)\<rparr>)"

definition vec_remove :: "nat \<Rightarrow> 'a list \<Rightarrow> 'a list" where
  "vec_remove i xs = take i xs @ drop (Suc i) xs"

definition try_remove_profile :: "(AccountAddress \<Rightarrow> string) \<Rightarrow> string \<Rightarrow> AppCfg \<Rightarrow> AppCfg result" where
  "try_remove_profile to_string nick self =
     and_then (get_profile_idx to_string self (Some nick)) (\<lambda>idx.
       Inr (self\<lparr>user_profiles := vec_remove idx (user_profiles self)\<rparr>))"

definition set_chain_id :: "NamedChain \<Rightarrow> AppCfg \<Rightarrow> AppCfg" where
  "set_chain_id chain_id self = self\<lparr>workspace := (workspace self)\<lparr>default_chain_id := chain_id\<rparr>\<rparr>"

definition put_playlist :: "NetworkPlaylist \<Rightarrow> NetworkPlaylist list \<Rightarrow> NetworkPlaylist list" where
  "put_playlist new_playlist nps =
     (let found = (\<exists>play \<in> set nps. chain_name play = chain_name new_playlist);
          nps = map (\<lambda>play. if chain_name play = chain_name new_playlist then new_playlist else play) nps
      in if \<not> found then nps @ [new_playlist] else nps)"

definition maybe_add_custom_playlist :: "NetworkPlaylist \<Rightarrow> AppCfg \<Rightarrow> AppCfg" where
  "maybe_add_custom_playlist new_playlist self =
     self\<lparr>network_playlist := put_playlist new_playlist (network_playlist self)\<rparr>"

definition update_network_playlist ::
  "(Url \<Rightarrow> NetworkPlaylist result) \<Rightarrow> NamedChain option \<Rightarrow> Url option \<Rightarrow> AppCfg \<Rightarrow>
   (NetworkPlaylist \<times> AppCfg) result" where
  "update_network_playlist fetch chain_id playlist_url self =
     and_then (find_default_playlist chain_id) (\<lambda>default_url.
     and_then (from_playlist_url fetch
         (case playlist_url of Some u \<Rightarrow> u | None \<Rightarrow> default_url) chain_id) (\<lambda>np.
     Inr (np, maybe_add_custom_playlist np self)))"

definition get_network_profile :: "AppCfg \<Rightarrow> NamedChain option \<Rightarrow> NetworkPlaylist result" where
  "get_network_profile self chain_opt =
     (let np = network_playlist self;
          chain = (case chain_opt of Some c \<Rightarrow> c | None \<Rightarrow> default_chain_id (workspace self))
      in if np = [] then Inl (Err ''no network profiles available'')
         else ok_or ''could not find a network profile''
                (List.find (\<lambda>each. chain_name each = chain) np))"

definition get_network_profile_mut :: "AppCfg \<Rightarrow> NamedChain option \<Rightarrow> nat result" where
  "get_network_profile_mut self chain_opt =
     (let np = network_playlist self;
          chain = (case chain_opt of Some c \<Rightarrow> c | None \<Rightarrow> default_chain_id (workspace self))
      in if np = [] then Inl (Err ''no network profiles found'')
         else ok_or ''cannot get network profile''
                (find_index_from 0 (\<lambda>each. chain_name each = chain) np))"

definition refresh_network_profile_and_save ::
  "(Url \<Rightarrow> u64 option) \<Rightarrow> (HostProfile list \<Rightarrow> HostProfile list) \<Rightarrow>
   (HostProfile result list \<Rightarrow> HostProfile result list) \<Rightarrow> (AppCfg \<Rightarrow> string result) \<Rightarrow>
   NamedChain option \<Rightarrow> AppCfg \<Rightarrow> file_system \<Rightarrow> (NetworkPlaylist \<times> AppCfg \<times> file_system) result" where
  "refresh_network_profile_and_save get_index shuffle arrival to_yaml chain_id self fs =
     and_then (get_network_profile self chain_id) (\<lambda>np.
     let np = refresh_sync_status get_index shuffle arrival np in
     and_then (save_file to_yaml self fs) (\<lambda>(_, fs).
     Inr (np, self, fs)))"

definition pick_url :: "AppCfg \<Rightarrow> NamedChain option \<Rightarrow> Url result" where
  "pick_url self chain_id = and_then (get_network_profile self chain_id) pick_one"

section \<open>Profiles and playlists as keyed stores\<close>

lemma find_key_find: "List.find (\<lambda>e. key e = k) xs = find_key key k xs"
  by (simp add: find_key_def)

lemma find_replace_first:
  "find_key key (key x) xs \<noteq> None \<Longrightarrow>
   find_key key k (replace_first (\<lambda>e. key e = key x) x xs) =
     (if k = key x then Some x else find_key key k xs)"
  by (induction xs) auto

lemma keys_replace_first: "map key (replace_first (\<lambda>e. key e = key x) x xs) = map key xs"
  by (induction xs) auto

interpretation profiles: keyed_store account put_profile
proof
  fix k and x :: Profile and xs
  show "find_key account k (put_profile x xs) = (if k = account x then Some x else find_key account k xs)"
    by (auto simp: put_profile_def find_key_find find_replace_first find_key_append split: option.splits)
  show "map account (put_profile x xs) =
      (if account x \<in> account ` set xs then map account xs else map account xs @ [account x])"
    using find_key_None [of account "account x" xs]
    by (auto simp: put_profile_def find_key_find keys_replace_first split: option.splits)
qed

lemma ex_key_iff: "(\<exists>p \<in> set xs. key p = k) \<longleftrightarrow> k \<in> key ` set xs"
  by auto

lemma find_put_playlist:
  "find_key chain_name k (put_playlist x xs) = (if k = chain_name x then Some x else find_key chain_name k xs)"
proof -
  have "find_key chain_name k (map (\<lambda>p. if chain_name p = chain_name x then x else p) xs) =
      (if k = chain_name x then if chain_name x \<in> chain_name ` set xs then Some x else None
       else find_key chain_name k xs)"
    by (induction xs) auto
  then show ?thesis
    using find_key_None [of chain_name "chain_name x" xs]
    by (auto simp: put_playlist_def Let_def find_key_append ex_key_iff split: option.splits)
qed

interpretation playlists: keyed_store chain_name put_playlist
proof
  fix k and x :: NetworkPlaylist and xs
  show "find_key chain_name k (put_playlist x xs) =
      (if k = chain_name x then Some x else find_key chain_name k xs)"
    by (rule find_put_playlist)
  have "map chain_name (map (\<lambda>p. if chain_name p = chain_name x then x else p) xs) = map chain_name xs"
    by (induction xs) auto
  then show "map chain_name (put_playlist x xs) =
      (if chain_name x \<in> chain_name ` set xs then map chain_name xs else map chain_name xs @ [chain_name x])"
    by (simp only: put_playlist_def Let_def ex_key_iff map_append) simp
qed

fun add_profiles :: "Profile list \<Rightarrow> AppCfg \<Rightarrow> AppCfg result" where
  "add_profiles [] cfg = Inr cfg"
| "add_profiles (p # ps) cfg = and_then (maybe_add_profile p cfg) (add_profiles ps)"

lemma add_profiles_eq:
  "add_profiles ps cfg = Inr (cfg\<lparr>user_profiles := fold put_profile ps (user_profiles cfg)\<rparr>)"
  by (induction ps arbitrary: cfg) (simp_all add: maybe_add_profile_def)

text \<open>Adding profiles one after another never fails, and afterwards the profile found for an
  account is the last one added for it, or the one that was there before if none was added.\<close>

theorem add_profiles_lookup:
  "\<exists>cfg'. add_profiles ps cfg = Inr cfg' \<and>
     find_key account a (user_profiles cfg') =
       (case find_key account a (rev ps) of Some p \<Rightarrow> Some p | None \<Rightarrow> find_key account a (user_profiles cfg))"
  by (simp add: add_profiles_eq profiles.find_puts)

section \<open>The well-formed configurations\<close>

definition wf_cfg :: "AppCfg \<Rightarrow> bool" where
  "wf_cfg cfg \<longleftrightarrow> distinct (map account (user_profiles cfg)) \<and>
     distinct (map chain_name (network_playlist cfg))"

text \<open>One step: any operation of the configuration that changes it. A refreshed or edited playlist is
  written back through the borrow of \<open>get_network_profile_mut\<close>, an edited profile through that of
  \<open>get_profile_mut\<close>; both keep the key.\<close>

inductive cfg_step :: "(AccountAddress \<Rightarrow> string) \<Rightarrow> AppCfg \<Rightarrow> AppCfg \<Rightarrow> bool" for to_string where
  add_profile: "maybe_add_profile p cfg = Inr cfg' \<Longrightarrow> cfg_step to_string cfg cfg'"
| remove_profile: "try_remove_profile to_string n cfg = Inr cfg' \<Longrightarrow> cfg_step to_string cfg cfg'"
| set_chain: "cfg_step to_string cfg (set_chain_id c cfg)"
| add_playlist: "cfg_step to_string cfg (maybe_add_custom_playlist np cfg)"
| update_playlist: "update_network_playlist fetch c u cfg = Inr (np, cfg') \<Longrightarrow> cfg_step to_string cfg cfg'"
| set_default_profile:
    "cfg_step to_string cfg (cfg\<lparr>workspace := set_default n (workspace cfg)\<rparr>)"
| edit_profile: "get_profile_mut to_string cfg n = Inr i \<Longrightarrow>
    account p = account (user_profiles cfg ! i) \<Longrightarrow>
    cfg_step to_string cfg (cfg\<lparr>user_profiles := (user_profiles cfg)[i := p]\<rparr>)"
| edit_playlist: "get_network_profile_mut cfg c = Inr i \<Longrightarrow>
    chain_name np = chain_name (network_playlist cfg ! i) \<Longrightarrow>
    cfg_step to_string cfg (cfg\<lparr>network_playlist := (network_playlist cfg)[i := np]\<rparr>)"

inductive cfg_reachable :: "(AccountAddress \<Rightarrow> string) \<Rightarrow> AppCfg \<Rightarrow> AppCfg \<Rightarrow> bool"
  for to_string cfg0 where
  start: "cfg_reachable to_string cfg0 cfg0"
| step: "cfg_reachable to_string cfg0 cfg \<Longrightarrow> cfg_step to_string cfg cfg' \<Longrightarrow>
    cfg_reachable to_string cfg0 cfg'"

lemma distinct_vec_remove: "distinct (map f xs) \<Longrightarrow> distinct (map f (vec_remove i xs))"
proof -
  assume d: "distinct (map f xs)"
  have "map f (vec_remove i xs) = take i (map f xs) @ drop (Suc i) (map f xs)"
    by (simp add: vec_remove_def take_map drop_map)
  moreover have "set (take i (map f xs)) \<inter> set (drop (Suc i) (map f xs)) = {}"
    using d by (rule set_take_disj_set_drop_if_distinct) simp
  ultimately show ?thesis using d by (simp only: distinct_append distinct_take distinct_drop)
qed

lemma map_list_update_same: "f v = f (xs ! i) \<Longrightarrow> map f (xs[i := v]) = map f xs"
  by (metis list_update_id map_update)

lemma cfg_step_wf: "cfg_step to_string cfg cfg' \<Longrightarrow> wf_cfg cfg \<Longrightarrow> wf_cfg cfg'"
proof (induction rule: cfg_step.induct)
  case (add_profile p cfg cfg')
  then show ?case by (auto simp: wf_cfg_def maybe_add_profile_def profiles.put_distinct)
next
  case (remove_profile n cfg cfg')
  then show ?case
    by (auto simp: wf_cfg_def try_remove_profile_def result_Inr_iffs distinct_vec_remove)
next
  case (update_playlist fetch c u cfg np cfg')
  then show ?case
    by (auto simp: wf_cfg_def update_network_playlist_def result_Inr_iffs maybe_add_custom_playlist_def
        playlists.put_distinct)
qed (auto simp: wf_cfg_def set_chain_id_def maybe_add_custom_playlist_def playlists.put_distinct
       set_default_def map_list_update_same)

text \<open>C21. In every configuration reachable from the default one (or any well-formed one) by the
  operations, at most one profile per account and at most one playlist per chain exist.\<close>

theorem cfg_reachable_wf:
  assumes "cfg_reachable to_string cfg0 cfg" and "wf_cfg cfg0"
  shows "wf_cfg cfg"
  using assms by (induction rule: cfg_reachable.induct) (auto intro: cfg_step_wf)

definition example_profile :: Profile where
  "example_profile = Profile_default\<lparr>account := 7, nickname := ''0000''\<rparr>"

definition example_cfg :: AppCfg where
  "example_cfg = (AppCfg_default ''/root/.libra'' 100 1000)\<lparr>user_profiles := [Profile_default]\<rparr>"

theorem cfg_reachable_wf_witness:
  "wf_cfg (example_cfg\<lparr>user_profiles := put_profile example_profile [Profile_default]\<rparr>)"
proof -
  have "cfg_reachable addr_hex example_cfg
      (example_cfg\<lparr>user_profiles := put_profile example_profile [Profile_default]\<rparr>)"
    by (rule cfg_reachable.step [OF cfg_reachable.start], rule cfg_step.add_profile [of example_profile])
      (simp add: maybe_add_profile_def example_cfg_def)
  moreover have "wf_cfg example_cfg" by (simp add: wf_cfg_def example_cfg_def AppCfg_default_def)
  ultimately show ?thesis by (rule cfg_reachable_wf)
qed

section \<open>Finding profiles\<close>

lemma find_index_from_bounds: "find_index_from i P xs = Some j \<Longrightarrow> i \<le> j \<and> j < i + length xs \<and> P (xs ! (j - i))"
proof (induction xs arbitrary: i)
  case (Cons x xs)
  show ?case
  proof (cases "P x")
    case False
    with Cons.IH [of "Suc i"] Cons.prems
    have "Suc i \<le> j \<and> j < Suc i + length xs \<and> P (xs ! (j - Suc i))" by simp
    then show ?thesis by (auto simp: nth_Cons' Suc_diff_Suc)
  qed (use Cons in simp)
qed simp

lemma get_profile_idx_less:
  "get_profile_idx ts cfg n = Inr i \<Longrightarrow> i < length (user_profiles cfg)"
  by (auto simp: get_profile_idx_def Let_def result_Inr_iffs split: if_splits option.splits
      dest!: find_index_from_bounds)

text \<open>\<open>get_profile\<close> falls back to the first profile: on a non-empty list it never fails, and where no
  profile matches the requested nickname it returns the first profile of the list instead of an
  error. (A search that finds an index returns that profile.)\<close>

theorem get_profile_falls_back:
  assumes "user_profiles cfg = p # ps"
  shows "get_profile ts cfg n = Inr (case get_profile_idx ts cfg n of
      Inr i \<Rightarrow> user_profiles cfg ! i | Inl _ \<Rightarrow> p)"
proof (cases "get_profile_idx ts cfg n")
  case (Inl e)
  then show ?thesis using assms by (simp add: get_profile_def unwrap_or_def vec_get_def)
next
  case (Inr i)
  then show ?thesis using get_profile_idx_less [OF Inr]
    by (simp add: get_profile_def unwrap_or_def vec_get_def)
qed

theorem get_profile_falls_back_witness:
  "get_profile addr_hex (example_cfg\<lparr>user_profiles := [Profile_default, example_profile]\<rparr>) (Some ''zz'')
     = Inr Profile_default"
proof -
  let ?cfg = "example_cfg\<lparr>user_profiles := [Profile_default, example_profile]\<rparr>"
  have no: "\<not> str_contains (addr_hex a) ''zz''" for a
  proof
    assume "str_contains (addr_hex a) ''zz''"
    then have "CHR ''z'' \<in> set (addr_hex a)" by (auto simp: str_contains_iff)
    moreover have "\<not> is_hexdigit CHR ''z''" by (simp add: is_hexdigit_def)
    ultimately show False using addr.to_string_hexdigits [of a] by (metis list.pred_set)
  qed
  have "get_profile_idx addr_hex ?cfg (Some ''zz'') = Inl (Err ''could not find a profile'')"
    by (simp add: get_profile_idx_def no Profile_default_def example_profile_def starts_with_def)
  then show ?thesis using get_profile_falls_back [of ?cfg Profile_default "[example_profile]" addr_hex] by simp
qed

text \<open>Removing a profile when only one exists ignores the name: the sole profile is removed
  whatever nickname is given.\<close>

theorem try_remove_sole_profile:
  assumes "user_profiles cfg = [p]"
  shows "try_remove_profile ts n cfg = Inr (cfg\<lparr>user_profiles := []\<rparr>)"
  using assms by (simp add: try_remove_profile_def get_profile_idx_def vec_remove_def)

theorem try_remove_sole_profile_witness:
  "try_remove_profile addr_hex ''not-this-one'' example_cfg = Inr (example_cfg\<lparr>user_profiles := []\<rparr>)"
  by (rule try_remove_sole_profile [of _ Profile_default]) (simp add: example_cfg_def)

text \<open>The branch of \<open>get_nickname\<close> for legacy addresses is dead (31 characters are compared with
  32): a nickname is always the first four characters, so every legacy address, whose upper
  sixteen bytes are zero, gets the nickname \<open>0000\<close>.\<close>

theorem get_nickname_always_prefix:
  assumes "account_address ts fhl"
  shows "get_nickname ts a = Inr (take 4 (ts a)) \<and>
    (take_bit 128 a = a \<longrightarrow> get_nickname ts a = Inr ''0000'')"
proof -
  have len: "length (ts a) = 64" using account_address.length_to_string [OF assms] .
  then have "length (take 31 (ts a)) \<noteq> length ''00000000000000000000000000000000''" by simp
  then have "take 31 (ts a) \<noteq> ''00000000000000000000000000000000''" by (metis (no_types))
  then have nick: "get_nickname ts a = Inr (take 4 (ts a))"
    using len by (simp add: get_nickname_def slice_def)
  have "take 4 (ts a) = ''0000''" if "take_bit 128 a = a"
  proof -
    have "take 4 (ts a) = take 4 (replicate 32 CHR ''0'' @ drop 32 (ts a))"
      using account_address.to_string_low_half [OF assms, of a] that by simp
    also have "\<dots> = ''0000''" by (simp add: numeral_eq_Suc)
    finally show ?thesis .
  qed
  with nick show ?thesis by simp
qed

theorem get_nickname_always_prefix_witness: "get_nickname addr_hex 7 = Inr ''0000''"
proof -
  have "take_bit 128 (7 :: AccountAddress) = 7" by (simp add: take_bit_eq_mod)
  with get_nickname_always_prefix [OF addr.account_address_axioms, of 7] show ?thesis by blast
qed

section \<open>Saving, loading and refreshing\<close>

text \<open>What is saved can be loaded back: after a successful \<open>save_file\<close>, \<open>load\<close> from the path it
  returned gives the configuration that was saved, and no other file has changed.\<close>

theorem load_after_save:
  assumes yaml: "\<And>c y. to_yaml c = Inr y \<Longrightarrow> from_yaml y = Inr c"
    and saved: "save_file to_yaml cfg fs = Inr (path, fs')"
  shows "load from_yaml home (Some path) fs' = Inr cfg \<and>
    path = path_join (node_home (workspace cfg)) CONFIG_FILE_NAME \<and>
    (\<forall>q. q \<noteq> path \<longrightarrow> files fs' q = files fs q)"
  using saved by (auto simp: save_file_def load_def Let_def and_then_eq_Inr yaml split: if_splits)

theorem load_after_save_witness:
  "\<exists>fs'. save_file (\<lambda>c. if c = example_cfg then Inr ''doc'' else Inl (Err ''e'')) example_cfg
      \<lparr>files = Map.empty, writable = (\<lambda>_. True)\<rparr> = Inr (default_file_path ''/root/.libra'', fs') \<and>
    load (\<lambda>y. if y = ''doc'' then Inr example_cfg else Inl (Err ''e'')) ''/home''
      (Some (default_file_path ''/root/.libra'')) fs' = Inr example_cfg"
proof -
  let ?ty = "\<lambda>c. if c = example_cfg then Inr ''doc'' else Inl (Err ''e'')"
  let ?fy = "\<lambda>y. if y = ''doc'' then Inr example_cfg else Inl (Err ''e'')"
  let ?fs = "\<lparr>files = Map.empty, writable = (\<lambda>_. True)\<rparr>"
  let ?fs' = "?fs\<lparr>files := [default_file_path ''/root/.libra'' \<mapsto> ''doc'']\<rparr>"
  have s: "save_file ?ty example_cfg ?fs = Inr (default_file_path ''/root/.libra'', ?fs')"
    by (simp add: save_file_def example_cfg_def AppCfg_default_def Workspace_default_def default_file_path_def Let_def)
  have y: "\<And>c y. ?ty c = Inr y \<Longrightarrow> ?fy y = Inr c" by (auto split: if_splits)
  show ?thesis using s load_after_save [where to_yaml = ?ty and from_yaml = ?fy, OF y s] by blast
qed

text \<open>\<open>refresh_network_profile_and_save\<close> refreshes a copy of the playlist: the caller gets the
  refreshed list, but the configuration keeps the old one and the file written is the YAML of the
  unrefreshed configuration.\<close>

theorem refresh_is_not_saved:
  assumes "refresh_network_profile_and_save gi sh ar to_yaml c cfg fs = Inr (np', cfg', fs')"
  shows "cfg' = cfg \<and>
    (\<exists>np. get_network_profile cfg c = Inr np \<and> np' = refresh_sync_status gi sh ar np) \<and>
    (\<exists>y. to_yaml cfg = Inr y \<and>
       files fs' = (files fs)(path_join (node_home (workspace cfg)) CONFIG_FILE_NAME \<mapsto> y))"
  using assms
  by (auto simp: refresh_network_profile_and_save_def save_file_def Let_def and_then_eq_Inr split: if_splits)

theorem refresh_is_not_saved_witness:
  "\<exists>np' fs'. refresh_network_profile_and_save example_index rev rev (\<lambda>_. Inr ''old'') (Some MAINNET)
      (example_cfg\<lparr>network_playlist := [example_playlist]\<rparr>)
      \<lparr>files = Map.empty, writable = (\<lambda>_. True)\<rparr>
      = Inr (np', example_cfg\<lparr>network_playlist := [example_playlist]\<rparr>, fs') \<and>
    np' = refresh_sync_status example_index rev rev example_playlist"
proof -
  let ?cfg = "example_cfg\<lparr>network_playlist := [example_playlist]\<rparr>"
  let ?fs = "\<lparr>files = Map.empty, writable = (\<lambda>_. True)\<rparr>"
  obtain np' cfg' fs' where r: "refresh_network_profile_and_save example_index rev rev (\<lambda>_. Inr ''old'')
      (Some MAINNET) ?cfg ?fs = Inr (np', cfg', fs')"
    by (simp add: refresh_network_profile_and_save_def get_network_profile_def save_file_def
        example_playlist_def Let_def)
  have "get_network_profile ?cfg (Some MAINNET) = Inr example_playlist"
    by (simp add: get_network_profile_def example_playlist_def)
  with r refresh_is_not_saved [OF r] show ?thesis by auto
qed

section \<open>Playlists and URLs\<close>

text \<open>After \<open>update_network_playlist\<close> for a chain, \<open>get_network_profile\<close> and \<open>pick_url\<close> for that chain
  use the playlist that was downloaded, and the playlists of other chains are untouched.\<close>

theorem update_network_playlist_effect:
  assumes "update_network_playlist fetch (Some c) u cfg = Inr (np, cfg')"
  shows "chain_name np = c \<and> get_network_profile cfg' (Some c) = Inr np \<and> pick_url cfg' (Some c) = pick_one np \<and>
    (\<forall>k. k \<noteq> c \<longrightarrow> find_key chain_name k (network_playlist cfg') = find_key chain_name k (network_playlist cfg))"
proof -
  have np: "chain_name np = c" and cfg': "cfg' = maybe_add_custom_playlist np cfg"
    using assms by (auto simp: update_network_playlist_def and_then_eq_Inr from_playlist_url_def)
  have nn: "network_playlist cfg' \<noteq> []"
    by (simp add: cfg' maybe_add_custom_playlist_def playlists.put_not_Nil)
  have f: "find_key chain_name k (network_playlist cfg') =
      (if k = c then Some np else find_key chain_name k (network_playlist cfg))" for k
    by (simp add: cfg' maybe_add_custom_playlist_def playlists.find_put np)
  have g: "get_network_profile cfg' (Some c) = Inr np"
    using nn f [of c] by (simp add: get_network_profile_def Let_def find_key_find)
  then show ?thesis using np f by (simp add: pick_url_def)
qed

theorem update_network_playlist_effect_witness:
  "\<exists>cfg'. update_network_playlist (\<lambda>_. Inr example_playlist) (Some TESTNET) None example_cfg =
      Inr (example_playlist\<lparr>chain_name := TESTNET\<rparr>, cfg') \<and>
    get_network_profile cfg' (Some TESTNET) = Inr (example_playlist\<lparr>chain_name := TESTNET\<rparr>)"
proof -
  have u: "update_network_playlist (\<lambda>_. Inr example_playlist) (Some TESTNET) None example_cfg =
      Inr (example_playlist\<lparr>chain_name := TESTNET\<rparr>,
        maybe_add_custom_playlist (example_playlist\<lparr>chain_name := TESTNET\<rparr>) example_cfg)"
    by (simp add: update_network_playlist_def find_default_playlist_def from_playlist_url_def)
  show ?thesis using u update_network_playlist_effect [OF u] by blast
qed

section \<open>Pledges\<close>

text \<open>A profile changes its pledges only by being offered one of the two canonical pledges.\<close>

inductive pledge_reachable ::
  "NamedChain \<Rightarrow> (u8 list \<Rightarrow> u8 list) \<Rightarrow> Profile \<Rightarrow> Profile \<Rightarrow> bool" for mode sha3 p0 where
  pledge_start: "pledges p0 = None \<Longrightarrow> pledge_reachable mode sha3 p0 p0"
| offer_basic: "pledge_reachable mode sha3 p0 p \<Longrightarrow>
    maybe_offer_basic_pledge mode sha3 prompt p = Inr p' \<Longrightarrow> pledge_reachable mode sha3 p0 p'"
| offer_validator: "pledge_reachable mode sha3 p0 p \<Longrightarrow>
    maybe_offer_validator_pledge mode sha3 prompt p = Inr p' \<Longrightarrow> pledge_reachable mode sha3 p0 p'"

definition pledge_list :: "Profile \<Rightarrow> Pledge list" where
  "pledge_list p = (case pledges p of None \<Rightarrow> [] | Some l \<Rightarrow> l)"

definition canonical :: "(u8 list \<Rightarrow> u8 list) \<Rightarrow> Profile \<Rightarrow> bool" where
  "canonical sha3 p \<longleftrightarrow> set (pledge_list p) \<subseteq> {pledge_protect_the_game sha3, pledge_validator sha3}"

lemma pledge_list_push:
  "pledge_list (push_pledge n p) =
     (if pledge_id n \<in> pledge_id ` set (pledge_list p) then pledge_list p else pledge_list p @ [n])"
  using find_key_None [of pledge_id "pledge_id n" "pledge_list p"]
  by (auto simp: push_pledge_def pledge_list_def find_key_find split: option.splits)

lemma canonical_push:
  "canonical sha3 p \<Longrightarrow> n \<in> {pledge_protect_the_game sha3, pledge_validator sha3} \<Longrightarrow>
   canonical sha3 (push_pledge n p)"
  by (auto simp: canonical_def pledge_list_push)

lemma offers_canonical:
  "canonical sha3 p \<Longrightarrow> maybe_offer_basic_pledge mode sha3 prompt p = Inr p' \<Longrightarrow> canonical sha3 p'"
  "canonical sha3 p \<Longrightarrow> maybe_offer_validator_pledge mode sha3 prompt p = Inr p' \<Longrightarrow> canonical sha3 p'"
  by (auto simp: maybe_offer_basic_pledge_def maybe_offer_validator_pledge_def and_then_eq_Inr Let_def
      canonical_push split: if_splits)

lemma canonical_init: "pledges p = None \<Longrightarrow> canonical sha3 p"
  by (simp add: canonical_def pledge_list_def)

lemma pledge_reachable_canonical: "pledge_reachable mode sha3 p0 p \<Longrightarrow> canonical sha3 p"
  by (induction rule: pledge_reachable.induct) (auto intro: canonical_init offers_canonical)

lemma any_pledge_pure: "any_pledge (\<lambda>e. Inr (P e)) es = Inr (\<exists>e \<in> set es. P e)"
  by (induction es) auto

lemma check_has_pledge_eq:
  assumes "pid = 0 \<and> h = pledge_hash (pledge_protect_the_game sha3) \<or>
    pid = 1 \<and> h = pledge_hash (pledge_validator sha3)"
  shows "check_has_pledge MAINNET sha3 p pid =
     Inr (\<exists>e \<in> set (pledge_list p). pledge_id e = 0 \<and> pledge_hash e = h)"
proof -
  have "(\<lambda>e. if pledge_id e = 0 then check_pledge_hash sha3 pid (pledge_hash e) else Inr False) =
      (\<lambda>e. Inr (pledge_id e = 0 \<and> pledge_hash e = h))"
    using assms by auto
  from arg_cong [OF this, of any_pledge] have "check_has_pledge MAINNET sha3 p pid = (case pledges p of
      Some list \<Rightarrow> any_pledge (\<lambda>e. Inr (pledge_id e = 0 \<and> pledge_hash e = h)) list | None \<Rightarrow> Inr False)"
    by (simp only: check_has_pledge_def if_False simp_thms)
  then show ?thesis
    by (auto simp: pledge_list_def any_pledge_pure split: option.splits)
qed

text \<open>On mainnet the validator pledge is never recognised: whatever pledges a profile has taken
  through the offers, \<open>check_has_pledge\<close> for the validator pledge answers false (the two pledge texts
  having different hashes), because it looks for the validator hash under pledge id 0.\<close>

theorem validator_pledge_never_recognised:
  assumes "pledge_reachable MAINNET sha3 p0 p"
    and "pledge_hash (pledge_protect_the_game sha3) \<noteq> pledge_hash (pledge_validator sha3)"
  shows "check_has_pledge MAINNET sha3 p 1 = Inr False"
  using pledge_reachable_canonical [OF assms(1)] assms(2)
  by (auto simp: check_has_pledge_eq [where h = "pledge_hash (pledge_validator sha3)"] canonical_def)

definition example_sha3 :: "u8 list \<Rightarrow> u8 list" where
  "example_sha3 bs = [of_nat (length bs)]"

lemma example_sha3_differs:
  "pledge_hash (pledge_protect_the_game example_sha3) \<noteq> pledge_hash (pledge_validator example_sha3)"
  by (simp add: pledge_protect_the_game_def pledge_validator_def to_hash_def example_sha3_def
      into_bytes_def newline_def)

theorem validator_pledge_never_recognised_witness:
  "check_has_pledge MAINNET example_sha3 (push_pledge (pledge_validator example_sha3) Profile_default) 1 = Inr False"
proof -
  have "pledge_reachable MAINNET example_sha3 Profile_default
      (push_pledge (pledge_validator example_sha3) Profile_default)"
    by (rule offer_validator [OF pledge_start, of _ _ _ "\<lambda>_. True"])
      (simp_all add: Profile_default_def maybe_offer_validator_pledge_def check_has_pledge_def pledge_dialogue_def)
  then show ?thesis using example_sha3_differs by (rule validator_pledge_never_recognised)
qed

text \<open>The basic pledge is recognised once it is accepted: after offering it to a profile whose
  owner answers yes, \<open>check_has_pledge\<close> for it answers true.\<close>

theorem basic_pledge_recognised:
  assumes "pledge_reachable MAINNET sha3 p0 p"
    and "maybe_offer_basic_pledge MAINNET sha3 prompt p = Inr p'"
    and "prompt (newline @ question (pledge_protect_the_game sha3))"
  shows "check_has_pledge MAINNET sha3 p' 0 = Inr True"
proof -
  let ?g = "pledge_protect_the_game sha3"
  have c: "canonical sha3 p" by (rule pledge_reachable_canonical [OF assms(1)])
  have eq: "check_has_pledge MAINNET sha3 q 0 =
      Inr (\<exists>e \<in> set (pledge_list q). pledge_id e = 0 \<and> pledge_hash e = pledge_hash ?g)" for q
    by (rule check_has_pledge_eq) simp
  show ?thesis
  proof (cases "\<exists>e \<in> set (pledge_list p). pledge_id e = 0 \<and> pledge_hash e = pledge_hash ?g")
    case True
    then show ?thesis using assms(2) by (simp add: maybe_offer_basic_pledge_def eq)
  next
    case False
    then have "p' = push_pledge ?g p"
      using assms(2,3)
      by (auto simp: maybe_offer_basic_pledge_def eq pledge_dialogue_def Let_def split: if_splits)
    moreover have "0 \<notin> pledge_id ` set (pledge_list p)" using False c unfolding canonical_def by fastforce
    ultimately show ?thesis by (simp add: eq pledge_list_push)
  qed
qed

theorem basic_pledge_recognised_witness:
  "check_has_pledge MAINNET example_sha3 (push_pledge (pledge_protect_the_game example_sha3) Profile_default) 0
     = Inr True"
proof -
  have "pledge_reachable MAINNET example_sha3 Profile_default Profile_default"
    by (rule pledge_start) (simp add: Profile_default_def)
  moreover have "maybe_offer_basic_pledge MAINNET example_sha3 (\<lambda>_. True) Profile_default =
      Inr (push_pledge (pledge_protect_the_game example_sha3) Profile_default)"
    by (simp add: Profile_default_def maybe_offer_basic_pledge_def check_has_pledge_def pledge_dialogue_def)
  ultimately show ?thesis by (rule basic_pledge_recognised) simp
qed

section \<open>Transaction costs\<close>

text \<open>The price per unit of a \<open>TxCost\<close> is exactly the larger of the vendor's gas price and the
  requested minimum, times the whole-number multiplier, as long as the product has at most 53
  bits; it is at least the multiplier for the default minimum of 1.\<close>

theorem TxCost_new_price:
  assumes "unat (max gup (case mn of None \<Rightarrow> 1 | Some m \<Rightarrow> m)) * k \<le> 2 ^ 53" and "0 < k"
  shows "unat (coin_price_per_unit (TxCost_new gup units (Fin (of_nat k)) mn)) =
    unat (max gup (case mn of None \<Rightarrow> 1 | Some m \<Rightarrow> m)) * k"
proof -
  let ?m = "max gup (case mn of None \<Rightarrow> 1 | Some m \<Rightarrow> m)"
  have "unat ?m * 1 \<le> unat ?m * k" using assms(2) by (intro mult_le_mono) auto
  then have m: "unat ?m \<le> 2 ^ 53" using assms(1) by linarith
  have "coin_price_per_unit (TxCost_new gup units (Fin (of_nat k)) mn) =
      f64_to_u64 (f64_round (of_nat (unat ?m) * of_nat k))"
    by (simp add: TxCost_new_def f64_of_u64_exact [OF m])
  also have "(of_nat (unat ?m) * of_nat k :: rat) = of_nat (unat ?m * k)" by (rule of_nat_mult [symmetric])
  also have "f64_to_u64 (f64_round (of_nat (unat ?m * k))) = f64_to_u64 (Fin (of_nat (unat ?m * k)))"
    by (simp only: f64_round_of_nat [OF assms(1)])
  also have "\<dots> = of_nat (unat ?m * k)" by (rule f64_to_u64_nat) (use assms(1) in simp)
  finally have eq: "coin_price_per_unit (TxCost_new gup units (Fin (of_nat k)) mn) = of_nat (unat ?m * k)" .
  show ?thesis unfolding eq unat_of_nat by (rule mod_less) (use assms(1) in simp)
qed

theorem TxCost_new_price_witness:
  "unat (coin_price_per_unit (framework_upgrade 1)) = 5000"
  using TxCost_new_price [of 1 "Some 100" 50 100000]
  by (simp add: framework_upgrade_def max_def)

end
