(* ===== verification/Tx_Sender.thy ===== *)
theory Tx_Sender
  imports Framework_Sdk App_Cfg Account_Keys
begin

text \<open>
  Signing and submitting transactions (\<^verbatim>\<open>tools/txs/src/submit_transaction.rs\<close>). The node is seen
  through the record \<open>client\<close>, whose answers may depend on the transactions it has accepted so far
  (\<open>ledger\<close>, oldest first). Signing belongs to the vendor's \<^verbatim>\<open>LocalAccount\<close>; the locale \<open>local_signer\<close> states
  what the code relies on: the signed transaction carries the request, the address and the sequence
  number of the account, and the account moves on to the next number. An operation of a sender takes
  and returns the sender and the ledger. The lemmas show which sequence numbers the ledger can
  receive from one sender, over every sequence of operations.
\<close>

section \<open>The vendor's types\<close>

record LocalAccount =
  la_address :: AccountAddress
  la_key :: PrivateKey
  la_sequence :: u64

record TransactionBuilder =
  tb_payload :: TransactionPayload
  tb_expiration :: u64
  tb_chain_id :: u8
  tb_gas_unit_price :: u64
  tb_max_gas_amount :: u64

record SignedTransaction =
  tx_request :: TransactionBuilder
  tx_sender :: AccountAddress
  tx_sequence :: u64

type_synonym ledger = "SignedTransaction list"

datatype ExecutionStatus = Success | OutOfGas | MiscellaneousError | OtherFailure nat

record TransactionOnChainData =
  status :: ExecutionStatus
  transaction_hash :: "u8 list"

record client =
  lookup_originating_address :: "ledger \<Rightarrow> AuthenticationKey \<Rightarrow> AccountAddress result"
  get_sequence_number :: "ledger \<Rightarrow> AccountAddress \<Rightarrow> u64 result"
  get_index :: "ledger \<Rightarrow> u8 result"
  client_submit :: "ledger \<Rightarrow> SignedTransaction \<Rightarrow> unit result"
  wait_for_transaction :: "ledger \<Rightarrow> SignedTransaction \<Rightarrow> TransactionOnChainData result"
  simulate :: "ledger \<Rightarrow> SignedTransaction \<Rightarrow> bool list result"

text \<open>What a sender uses besides the node: the clock, the signer, the address text functions, the
  cryptography, the serialization and the vendor's gas constants.\<close>

record tx_env =
  now :: u64
  sign_with_transaction_builder :: "LocalAccount \<Rightarrow> TransactionBuilder \<Rightarrow> SignedTransaction \<times> LocalAccount"
  address_to_string :: "AccountAddress \<Rightarrow> string"
  address_from_literal :: "string \<Rightarrow> AccountAddress result"
  keys :: vendor_keys
  codec :: bcs
  gas_unit_price :: u64
  max_gas_amount :: u64

section \<open>Sender\<close>

record Sender =
  local_account :: LocalAccount
  tx_cost :: TxCost
  chain_id :: u8
  response :: "TransactionOnChainData option"

definition DEFAULT_TIMEOUT_SECS :: u64 where
  "DEFAULT_TIMEOUT_SECS = 10"

definition auth_key_of :: "tx_env \<Rightarrow> PrivateKey \<Rightarrow> AuthenticationKey" where
  "auth_key_of env key = auth_key_ed25519 (keys env) (public_key_of (keys env) key)"

definition Sender_new ::
  "tx_env \<Rightarrow> client result \<Rightarrow> ledger \<Rightarrow> PrivateKey \<Rightarrow> u8 \<Rightarrow> client option \<Rightarrow> bool \<Rightarrow> (client \<times> Sender) result" where
  "Sender_new env default_client led account_key chain client_opt use_legacy_address =
     and_then (case client_opt of Some c \<Rightarrow> Inr c | None \<Rightarrow> default_client) (\<lambda>cl.
     and_then (lookup_originating_address cl led (auth_key_of env account_key)) (\<lambda>looked_up.
     and_then (if \<not> use_legacy_address then Inr looked_up
               else to_legacy_address (address_to_string env) (address_from_literal env) looked_up) (\<lambda>address.
     and_then (get_sequence_number cl led address) (\<lambda>seq.
     Inr (cl, \<lparr>local_account = \<lparr>la_address = address, la_key = account_key, la_sequence = seq\<rparr>,
               tx_cost = default_baseline_cost (gas_unit_price env) (max_gas_amount env),
               chain_id = chain, response = None\<rparr>)))))"

definition set_tx_cost :: "TxCost \<Rightarrow> Sender \<Rightarrow> Sender" where
  "set_tx_cost cost self = self\<lparr>tx_cost := cost\<rparr>"

definition from_app_cfg ::
  "tx_env \<Rightarrow> (Url \<Rightarrow> client) \<Rightarrow> KeyChain result \<Rightarrow> ledger \<Rightarrow> AppCfg \<Rightarrow> string option \<Rightarrow> (client \<times> Sender) result" where
  "from_app_cfg env connect prompt led app_cfg profile_name =
     and_then (get_profile (address_to_string env) app_cfg profile_name) (\<lambda>profile.
     and_then (case borrow_private_key profile of
                 Inr k \<Rightarrow> Inr k
               | Inl _ \<Rightarrow> and_then prompt (\<lambda>leg_keys. Inr (pri_key (child_0_owner leg_keys)))) (\<lambda>key.
     and_then (pick_url app_cfg None) (\<lambda>url.
     let cl = connect url;
         address = (case lookup_originating_address cl led (auth_key_of env key) of
                      Inr a \<Rightarrow> a | Inl _ \<Rightarrow> App_Cfg.account profile)
     in case get_index cl led of
          Inl _ \<Rightarrow> Inl (Err ''cannot connect to client'')
        | Inr chain \<Rightarrow>
            and_then (get_sequence_number cl led address) (\<lambda>seq.
            Inr (cl, \<lparr>local_account = \<lparr>la_address = address, la_key = key, la_sequence = seq\<rparr>,
                      tx_cost = get_cost (gas_unit_price env) (max_gas_amount env) (tx_configs app_cfg) None,
                      chain_id = chain, response = None\<rparr>)))))"

text \<open>\<open>cfg\<close> is the profile that \<^verbatim>\<open>CliConfig::load_profile_ext\<close> finds in the current directory.\<close>

record ProfileConfig =
  vp_account :: "AccountAddress option"
  vp_rest_url :: "string option"
  vp_network :: "u8 option"

definition from_vendor_profile ::
  "tx_env \<Rightarrow> (string \<Rightarrow> Url result) \<Rightarrow> (Url \<Rightarrow> client) \<Rightarrow> KeyChain result \<Rightarrow> ledger \<Rightarrow> ProfileConfig option result \<Rightarrow>
   PrivateKey option \<Rightarrow> (client \<times> Sender) result" where
  "from_vendor_profile env parse_url connect prompt led cfg key_opt =
     and_then cfg (\<lambda>cfg. case cfg of
       None \<Rightarrow> Inl (Err ''could not read profile'')
     | Some c \<Rightarrow>
         and_then (ok_or ''no profile found'' (vp_account c)) (\<lambda>address.
         and_then (case key_opt of
                     Some p \<Rightarrow> Inr p
                   | None \<Rightarrow> and_then prompt (\<lambda>leg_keys. Inr (pri_key (child_0_owner leg_keys)))) (\<lambda>key.
         and_then (and_then (ok_or ''could not find rest_url in profile'' (vp_rest_url c)) parse_url) (\<lambda>url.
         let cl = connect url in
         and_then (case get_index cl led of
                     Inr _ \<Rightarrow> get_sequence_number cl led address
                   | Inl _ \<Rightarrow> Inl (Err ''cannot connect to client'')) (\<lambda>seq.
         and_then (ok_or ''cannot get which network id to connect to'' (vp_network c)) (\<lambda>chain.
         Inr (cl, \<lparr>local_account = \<lparr>la_address = address, la_key = key, la_sequence = seq\<rparr>,
                   tx_cost = default_baseline_cost (gas_unit_price env) (max_gas_amount env),
                   chain_id = chain, response = None\<rparr>)))))))"

definition sign_payload :: "tx_env \<Rightarrow> TransactionPayload \<Rightarrow> Sender \<Rightarrow> SignedTransaction \<times> Sender" where
  "sign_payload env payload self =
     (let time = now env + DEFAULT_TIMEOUT_SECS * 10;
          tb = \<lparr>tb_payload = payload, tb_expiration = time, tb_chain_id = chain_id self,
                tb_gas_unit_price = coin_price_per_unit (tx_cost self),
                tb_max_gas_amount = max_gas_unit_for_tx (tx_cost self)\<rparr>;
          (signed, acc) = sign_with_transaction_builder env (local_account self) tb
      in (signed, self\<lparr>local_account := acc\<rparr>))"

text \<open>A transaction that the node accepts joins the ledger, whatever happens while waiting for it.\<close>

definition submit :: "client \<Rightarrow> SignedTransaction \<Rightarrow> ledger \<Rightarrow> TransactionOnChainData result \<times> ledger" where
  "submit cl signed_trans led =
     (case client_submit cl led signed_trans of
        Inl e \<Rightarrow> (Inl e, led)
      | Inr _ \<Rightarrow> (wait_for_transaction cl (led @ [signed_trans]) signed_trans, led @ [signed_trans]))"

definition sign_submit_wait ::
  "tx_env \<Rightarrow> client \<Rightarrow> TransactionPayload \<Rightarrow> Sender \<Rightarrow> ledger \<Rightarrow> TransactionOnChainData result \<times> Sender \<times> ledger" where
  "sign_submit_wait env cl payload self led =
     (let (signed, self) = sign_payload env payload self;
          (r, led) = submit cl signed led
      in case r of Inl e \<Rightarrow> (Inl e, self, led) | Inr d \<Rightarrow> (Inr d, self\<lparr>response := Some d\<rparr>, led))"

definition eval_response :: "Sender \<Rightarrow> ExecutionStatus + ExecutionStatus" where
  "eval_response self =
     (case response self of
        None \<Rightarrow> Inl MiscellaneousError
      | Some r \<Rightarrow> if status r = Success then Inr (status r) else Inl (status r))"

definition estimate ::
  "tx_env \<Rightarrow> client \<Rightarrow> TransactionPayload \<Rightarrow> Sender \<Rightarrow> ledger \<Rightarrow> bool list result \<times> Sender" where
  "estimate env cl payload self led =
     (let (signed, self) = sign_payload env payload self in (simulate cl led signed, self))"

definition tx_hash :: "Sender \<Rightarrow> u8 list option" where
  "tx_hash self = map_option transaction_hash (response self)"

section \<open>The signer\<close>

locale local_signer =
  fixes sign :: "LocalAccount \<Rightarrow> TransactionBuilder \<Rightarrow> SignedTransaction \<times> LocalAccount"
  assumes signed: "fst (sign acc tb) = \<lparr>tx_request = tb, tx_sender = la_address acc, tx_sequence = la_sequence acc\<rparr>"
    and moved_on: "snd (sign acc tb) = acc\<lparr>la_sequence := la_sequence acc + 1\<rparr>"
begin

lemma sign_eq:
  "sign acc tb = (\<lparr>tx_request = tb, tx_sender = la_address acc, tx_sequence = la_sequence acc\<rparr>,
     acc\<lparr>la_sequence := la_sequence acc + 1\<rparr>)"
  using signed moved_on by (metis prod.collapse)

end

definition ref_sign :: "LocalAccount \<Rightarrow> TransactionBuilder \<Rightarrow> SignedTransaction \<times> LocalAccount" where
  "ref_sign acc tb = (\<lparr>tx_request = tb, tx_sender = la_address acc, tx_sequence = la_sequence acc\<rparr>,
     acc\<lparr>la_sequence := la_sequence acc + 1\<rparr>)"

interpretation ref_signer: local_signer ref_sign
  by unfold_locales (simp_all add: ref_sign_def)

section \<open>What one operation does\<close>

abbreviation signer_ok :: "tx_env \<Rightarrow> bool" where
  "signer_ok env \<equiv> local_signer (sign_with_transaction_builder env)"

definition signed_tx :: "tx_env \<Rightarrow> TransactionPayload \<Rightarrow> Sender \<Rightarrow> SignedTransaction" where
  "signed_tx env payload s =
     \<lparr>tx_request = \<lparr>tb_payload = payload, tb_expiration = now env + 100, tb_chain_id = chain_id s,
        tb_gas_unit_price = coin_price_per_unit (tx_cost s), tb_max_gas_amount = max_gas_unit_for_tx (tx_cost s)\<rparr>,
      tx_sender = la_address (local_account s), tx_sequence = la_sequence (local_account s)\<rparr>"

definition next_sequence :: "Sender \<Rightarrow> Sender" where
  "next_sequence s = s\<lparr>local_account := (local_account s)\<lparr>la_sequence := la_sequence (local_account s) + 1\<rparr>\<rparr>"

lemma sign_payload_eq:
  "signer_ok env \<Longrightarrow> sign_payload env payload s = (signed_tx env payload s, next_sequence s)"
  by (simp add: sign_payload_def local_signer.sign_eq signed_tx_def next_sequence_def DEFAULT_TIMEOUT_SECS_def)

lemma submit_ledger: "snd (submit cl tx led) = (if is_ok (client_submit cl led tx) then led @ [tx] else led)"
  by (simp add: submit_def is_ok_iff split: sum.splits)

lemma sign_submit_wait_effect:
  assumes "signer_ok env" "sign_submit_wait env cl payload s led = (r, s', led')"
  shows "led' = (if is_ok (client_submit cl led (signed_tx env payload s)) then led @ [signed_tx env payload s] else led)"
    "local_account s' = local_account (next_sequence s)" "tx_cost s' = tx_cost s" "chain_id s' = chain_id s"
    "is_ok r \<Longrightarrow> led' = led @ [signed_tx env payload s]"
    "r = Inl (Err e) \<Longrightarrow> response s' = response s"
  using assms
  by (auto simp: sign_submit_wait_def sign_payload_eq submit_def next_sequence_def is_ok_iff split: sum.splits)

section \<open>Sequence numbers\<close>

text \<open>The states of a sender and of the ledger that its operations lead to, with other accounts'
  transactions arriving in between.\<close>

inductive sender_reachable :: "tx_env \<Rightarrow> client \<Rightarrow> Sender \<Rightarrow> ledger \<Rightarrow> Sender \<Rightarrow> ledger \<Rightarrow> bool"
  for env cl s0 led0 where
  start: "sender_reachable env cl s0 led0 s0 led0"
| send: "sender_reachable env cl s0 led0 s led \<Longrightarrow> sign_submit_wait env cl payload s led = (r, s', led') \<Longrightarrow>
    sender_reachable env cl s0 led0 s' led'"
| simulated: "sender_reachable env cl s0 led0 s led \<Longrightarrow> estimate env cl payload s led = (r, s') \<Longrightarrow>
    sender_reachable env cl s0 led0 s' led"
| cost: "sender_reachable env cl s0 led0 s led \<Longrightarrow> sender_reachable env cl s0 led0 (set_tx_cost c s) led"
| other: "sender_reachable env cl s0 led0 s led \<Longrightarrow> tx_sender tx \<noteq> la_address (local_account s0) \<Longrightarrow>
    sender_reachable env cl s0 led0 s (led @ [tx])"

text \<open>The transactions of the sender that joined the ledger after the start.\<close>

definition own_txs :: "Sender \<Rightarrow> ledger \<Rightarrow> ledger \<Rightarrow> ledger" where
  "own_txs s0 led0 led = filter (\<lambda>tx. tx_sender tx = la_address (local_account s0)) (drop (length led0) led)"

definition numbered :: "u64 \<Rightarrow> nat \<Rightarrow> ledger \<Rightarrow> bool" where
  "numbered seq n txs \<longleftrightarrow>
     (\<exists>ks. map tx_sequence txs = map (\<lambda>k. seq + of_nat k) ks \<and> sorted_wrt (<) ks \<and> (\<forall>k \<in> set ks. k < n))"

definition sequence_inv :: "Sender \<Rightarrow> ledger \<Rightarrow> Sender \<Rightarrow> ledger \<Rightarrow> nat \<Rightarrow> bool" where
  "sequence_inv s0 led0 s led n \<longleftrightarrow>
     length led0 \<le> length led \<and>
     la_address (local_account s) = la_address (local_account s0) \<and>
     la_sequence (local_account s) = la_sequence (local_account s0) + of_nat n \<and>
     chain_id s = chain_id s0 \<and>
     numbered (la_sequence (local_account s0)) n (own_txs s0 led0 led) \<and>
     (\<forall>tx \<in> set (own_txs s0 led0 led). tb_chain_id (tx_request tx) = chain_id s0)"

lemma numbered_mono: "numbered seq n txs \<Longrightarrow> n \<le> m \<Longrightarrow> numbered seq m txs"
  by (fastforce simp: numbered_def)

lemma numbered_snoc:
  assumes "numbered seq n txs" "tx_sequence tx = seq + of_nat n"
  shows "numbered seq (Suc n) (txs @ [tx])"
proof -
  obtain ks where "map tx_sequence txs = map (\<lambda>k. seq + of_nat k) ks" "sorted_wrt (<) ks" "\<forall>k \<in> set ks. k < n"
    using assms(1) by (auto simp: numbered_def)
  then show ?thesis using assms(2)
    by (intro exI [of _ "ks @ [n]"] iffD2 [OF numbered_def]) (auto simp: sorted_wrt_append less_SucI)
qed

lemma own_txs_snoc:
  "length led0 \<le> length led \<Longrightarrow> own_txs s0 led0 (led @ [tx]) =
     own_txs s0 led0 led @ (if tx_sender tx = la_address (local_account s0) then [tx] else [])"
  by (simp add: own_txs_def)

lemma sequence_inv_skip: "sequence_inv s0 led0 s led n \<Longrightarrow> sequence_inv s0 led0 (next_sequence s) led (Suc n)"
  by (auto simp: sequence_inv_def next_sequence_def algebra_simps intro: numbered_mono)

lemma sequence_inv_send:
  assumes "sequence_inv s0 led0 s led n"
  shows "sequence_inv s0 led0 (next_sequence s) (led @ [signed_tx env payload s]) (Suc n)"
  using assms
  by (auto simp: sequence_inv_def next_sequence_def own_txs_snoc signed_tx_def algebra_simps intro!: numbered_snoc)

lemma sequence_inv_cong:
  "sequence_inv s0 led0 s led n \<Longrightarrow> local_account s' = local_account s \<Longrightarrow> chain_id s' = chain_id s \<Longrightarrow>
   sequence_inv s0 led0 s' led n"
  by (simp add: sequence_inv_def)

lemma sender_reachable_inv:
  assumes "signer_ok env" "sender_reachable env cl s0 led0 s led"
  shows "\<exists>n. sequence_inv s0 led0 s led n"
  using assms(2)
proof (induction rule: sender_reachable.induct)
  case start
  have "sequence_inv s0 led0 s0 led0 0" by (simp add: sequence_inv_def own_txs_def numbered_def)
  then show ?case ..
next
  case (send s led payload r s' led')
  then obtain n where n: "sequence_inv s0 led0 s led n" by blast
  note e = sign_submit_wait_effect [OF assms(1) send.hyps(2)]
  have "sequence_inv s0 led0 (next_sequence s) led' (Suc n)"
    using sequence_inv_send [OF n] sequence_inv_skip [OF n] e(1) by simp
  then have "sequence_inv s0 led0 s' led' (Suc n)"
    by (rule sequence_inv_cong) (simp_all add: e next_sequence_def)
  then show ?case ..
next
  case (simulated s led payload r s')
  then have "s' = next_sequence s" using assms(1) by (simp add: estimate_def sign_payload_eq)
  then show ?case using simulated.IH sequence_inv_skip by blast
next
  case (cost s led c)
  then show ?case using sequence_inv_cong [of s0 led0 s led _ "set_tx_cost c s"] by (auto simp: set_tx_cost_def)
next
  case (other s led tx)
  then show ?case by (auto simp: sequence_inv_def own_txs_snoc)
qed

text \<open>C20. One sender never uses a sequence number twice: over every sequence of submissions, simulations and
  cost changes, with other accounts' transactions in between, the sender's transactions in the ledger
  carry strictly increasing offsets from the number it started with, all below the number it would
  use next, and all are for its own chain.\<close>

theorem sender_sequence_numbers:
  assumes "signer_ok env" "sender_reachable env cl s0 led0 s led"
  shows "\<exists>n. la_sequence (local_account s) = la_sequence (local_account s0) + of_nat n \<and>
    numbered (la_sequence (local_account s0)) n (own_txs s0 led0 led) \<and>
    (\<forall>tx \<in> set (own_txs s0 led0 led). tb_chain_id (tx_request tx) = chain_id s0)"
  using sender_reachable_inv [OF assms] by (auto simp: sequence_inv_def)

section \<open>A rejected submission\<close>

text \<open>A submission that the node rejects still consumes a sequence number: the ledger is unchanged, and
  whatever is submitted next is signed with a number one above the one the node expects. The same
  holds after a simulation.\<close>

theorem rejected_submission_leaves_gap:
  assumes env: "signer_ok env" and rej: "client_submit cl led (signed_tx env p s) = Inl e"
    and one: "sign_submit_wait env cl p s led = (r1, s1, led1)"
    and two: "sign_submit_wait env cl q s1 led1 = (Inr d, s2, led2)"
  shows "led1 = led \<and> r1 = Inl e \<and> (\<exists>tx. led2 = led @ [tx] \<and> tb_payload (tx_request tx) = q \<and>
    tx_sequence tx = la_sequence (local_account s) + 1)"
proof -
  have "r1 = Inl e" using one rej env by (auto simp: sign_submit_wait_def sign_payload_eq submit_def)
  moreover have "led1 = led" "local_account s1 = local_account (next_sequence s)"
    using sign_submit_wait_effect [OF env one] rej by (simp_all add: is_ok_iff)
  moreover have "led2 = led1 @ [signed_tx env q s1]" using sign_submit_wait_effect(5) [OF env two] by (simp add: is_ok_iff)
  ultimately show ?thesis by (auto simp: signed_tx_def next_sequence_def)
qed

section \<open>Examples\<close>

definition example_env :: tx_env where
  "example_env = \<lparr>now = 1000, sign_with_transaction_builder = ref_sign, address_to_string = addr_hex,
     address_from_literal = addr_from_hex_literal, keys = example_vendor, codec = ref_bcs,
     gas_unit_price = 100, max_gas_amount = 2000000\<rparr>"

text \<open>A node that accepts a transaction when the sequence number is even.\<close>

definition example_client :: client where
  "example_client = \<lparr>lookup_originating_address = (\<lambda>_ k. Inr k), get_sequence_number = (\<lambda>_ _. Inr 5),
     get_index = (\<lambda>_. Inr 1),
     client_submit = (\<lambda>_ tx. if even (unat (tx_sequence tx)) then Inr () else Inl (Err ''rejected'')),
     wait_for_transaction = (\<lambda>_ _. Inr \<lparr>status = Success, transaction_hash = []\<rparr>), simulate = (\<lambda>_ _. Inr [True])\<rparr>"

definition example_sender :: Sender where
  "example_sender = \<lparr>local_account = \<lparr>la_address = 77, la_key = [], la_sequence = 5\<rparr>,
     tx_cost = default_baseline_cost 100 2000000, chain_id = 1, response = None\<rparr>"

abbreviation example_payload :: TransactionPayload where
  "example_payload \<equiv> ModuleBundle []"

lemma example_signer_ok: "signer_ok example_env"
  using ref_signer.local_signer_axioms by (simp add: example_env_def)

lemma example_first:
  "sign_submit_wait example_env example_client example_payload example_sender [] = (Inl (Err ''rejected''), next_sequence example_sender, [])"
  by (simp add: sign_submit_wait_def sign_payload_eq [OF example_signer_ok] submit_def example_client_def signed_tx_def
    example_sender_def)

lemma example_second:
  "\<exists>d s2 led2. sign_submit_wait example_env example_client example_payload (next_sequence example_sender) [] = (Inr d, s2, led2)"
  by (simp add: sign_submit_wait_def sign_payload_eq [OF example_signer_ok] submit_def example_client_def signed_tx_def
    example_sender_def next_sequence_def)

theorem sender_sequence_numbers_witness:
  "\<exists>n. la_sequence (local_account (next_sequence example_sender)) = 5 + of_nat n \<and> numbered 5 n (own_txs example_sender [] [])"
proof -
  have "sender_reachable example_env example_client example_sender [] (next_sequence example_sender) []"
    by (rule sender_reachable.send [OF sender_reachable.start example_first])
  from sender_sequence_numbers [OF example_signer_ok this] show ?thesis by (auto simp: example_sender_def)
qed

theorem rejected_submission_leaves_gap_witness:
  "\<exists>d s2 tx. sign_submit_wait example_env example_client example_payload (next_sequence example_sender) [] = (Inr d, s2, [tx]) \<and>
    tx_sequence tx = 6"
proof -
  have rej: "client_submit example_client [] (signed_tx example_env example_payload example_sender) = Inl (Err ''rejected'')"
    by (simp add: example_client_def signed_tx_def example_sender_def)
  obtain d s2 led2 where two: "sign_submit_wait example_env example_client example_payload (next_sequence example_sender) [] = (Inr d, s2, led2)"
    using example_second by blast
  from rejected_submission_leaves_gap [OF example_signer_ok rej example_first two]
  obtain tx where "led2 = [tx]" "tx_sequence tx = 6" by (auto simp: example_sender_def)
  then show ?thesis using two by blast
qed

end
