(* ===== verification/Batch_Tx.thy ===== *)
theory Batch_Tx
  imports Tx_Sender "HOL-Library.Sublist"
begin

text \<open>
  Batch proposals of a community wallet (\<^verbatim>\<open>BatchTx::run\<close> and \<^verbatim>\<open>propose_single\<close> of
  \<^verbatim>\<open>tools/txs/src/txs_cli_community.rs\<close>): the instructions of a JSON file are matched with the ballots
  on chain, checked, proposed one by one, and the file is rewritten. The JSON answers of the node are
  modelled as values with the accessors the code unwraps; the queries and the JSON reader and writer of
  the file are the parameter \<open>chain_view\<close>. The lemmas show which transactions a run can submit, in
  which order, and what the rewritten file says.
\<close>

section \<open>JSON values\<close>

datatype Value =
    VNull | VBool bool | VNumber int | VString string | VArray "Value list" | VObject "(string \<times> Value) list"

definition unwrap_none :: "'a option \<Rightarrow> 'a result" where
  "unwrap_none = unwrap ''called Option::unwrap() on a None value''"

fun as_object :: "Value \<Rightarrow> (string \<times> Value) list option" where
  "as_object (VObject kvs) = Some kvs" | "as_object _ = None"

fun as_array :: "Value \<Rightarrow> Value list option" where
  "as_array (VArray vs) = Some vs" | "as_array _ = None"

fun as_str :: "Value \<Rightarrow> string option" where
  "as_str (VString s) = Some s" | "as_str _ = None"

fun as_bool :: "Value \<Rightarrow> bool option" where
  "as_bool (VBool x) = Some x" | "as_bool _ = None"

text \<open>\<^verbatim>\<open>v.get(key).unwrap()\<close> on an object that was unwrapped\<close>

definition field :: "string \<Rightarrow> (string \<times> Value) list \<Rightarrow> Value result" where
  "field k kvs = unwrap_none (map_of kvs k)"

definition object_field :: "string \<Rightarrow> (string \<times> Value) list \<Rightarrow> (string \<times> Value) list result" where
  "object_field k kvs = and_then (field k kvs) (\<lambda>v. unwrap_none (as_object v))"

definition array_field :: "string \<Rightarrow> (string \<times> Value) list \<Rightarrow> Value list result" where
  "array_field k kvs = and_then (field k kvs) (\<lambda>v. unwrap_none (as_array v))"

definition str_field :: "string \<Rightarrow> (string \<times> Value) list \<Rightarrow> string result" where
  "str_field k kvs = and_then (field k kvs) (\<lambda>v. unwrap_none (as_str v))"

section \<open>Instructions\<close>

record ProposePay =
  recipient :: string
  parsed :: "AccountAddress option"
  amount :: u64
  description :: string
  is_slow :: "bool option"
  proposed :: "bool option"
  approved :: "bool option"
  voters :: "AccountAddress list option"
  pay_error :: "string option"
  pay_note :: "string option"

record BatchTx =
  community_wallet :: AccountAddress
  batch_file :: string
  batch_out :: "string option"
  check :: bool

record chain_view =
  get_view :: "ledger \<Rightarrow> string \<Rightarrow> string option \<Rightarrow> string option \<Rightarrow> Value result"
  multi_auth_ballots :: "ledger \<Rightarrow> AccountAddress \<Rightarrow> Value result"
  address_parse :: "string \<Rightarrow> AccountAddress result"
  to_canonical_string :: "AccountAddress \<Rightarrow> string"
  pays_from_json :: "string \<Rightarrow> ProposePay list result"
  pays_to_json :: "ProposePay list \<Rightarrow> string result"

definition unwrap_result :: "'a result \<Rightarrow> 'a result" where
  "unwrap_result = expect ''called Result::unwrap() on an Err value''"

section \<open>Ballots\<close>

definition read_ballot :: "chain_view \<Rightarrow> Value \<Rightarrow> (AccountAddress \<times> ProposePay) result" where
  "read_ballot view e =
     and_then (unwrap_none (as_object e)) (\<lambda>ballot.
     and_then (object_field ''tally_type'' ballot) (\<lambda>prop.
     and_then (object_field ''proposal_data'' prop) (\<lambda>data.
     and_then (and_then (str_field ''payee'' data) (\<lambda>s. unwrap_result (address_parse view s))) (\<lambda>payee.
     and_then (and_then (str_field ''value'' data) (\<lambda>s. unwrap_none (parse_u64 s))) (\<lambda>value.
     and_then (array_field ''votes'' prop) (\<lambda>vs.
     and_then (map_result (\<lambda>v. and_then (unwrap_none (as_str v)) (\<lambda>s. unwrap_result (address_parse view s))) vs) (\<lambda>votes.
     and_then (and_then (field ''approved'' prop) (\<lambda>v. unwrap_none (as_bool v))) (\<lambda>is_approved.
     Inr (payee, \<lparr>recipient = to_canonical_string view payee, parsed = Some payee, amount = value,
       description = ''debugging'', is_slow = None, proposed = None, approved = Some is_approved,
       voters = Some votes, pay_error = None, pay_note = None\<rparr>)))))))))"

fun collect_ballots ::
  "chain_view \<Rightarrow> Value list \<Rightarrow> (AccountAddress \<rightharpoonup> ProposePay) \<Rightarrow> (AccountAddress \<rightharpoonup> ProposePay) result" where
  "collect_ballots view [] m = Inr m"
| "collect_ballots view (e # es) m = and_then (read_ballot view e) (\<lambda>(a, pp). collect_ballots view es (m(a \<mapsto> pp)))"

definition pending_or_approved :: "chain_view \<Rightarrow> Value \<Rightarrow> (AccountAddress \<rightharpoonup> ProposePay) result" where
  "pending_or_approved view ballots =
     and_then (unwrap_none (as_object ballots)) (\<lambda>d.
     and_then (object_field ''vote'' d) (\<lambda>v.
     and_then (array_field ''ballots_approved'' v) (\<lambda>appr.
     and_then (array_field ''ballots_pending'' v) (\<lambda>p.
     collect_ballots view (p @ appr) Map.empty))))"

section \<open>One instruction\<close>

definition scaled_amount :: "ProposePay \<Rightarrow> u64" where
  "scaled_amount inst = cast_decimal_to_coin (f64_of_u64 (amount inst))"

definition propose_single ::
  "tx_env \<Rightarrow> client \<Rightarrow> AccountAddress \<Rightarrow> ProposePay \<Rightarrow> Sender \<Rightarrow> ledger \<Rightarrow> unit result \<times> Sender \<times> ledger" where
  "propose_single env cl multisig inst s led =
     (case and_then (unwrap_none (parsed inst)) (\<lambda>to_addr.
             donor_voice_txs_propose_payment_tx (codec env) multisig to_addr (scaled_amount inst)
               (into_bytes (description inst))) of
        Inl e \<Rightarrow> (Inl e, s, led)
      | Inr payload \<Rightarrow>
          let (r, s, led) = sign_submit_wait env cl payload s led in (map_sum id (\<lambda>_. ()) r, s, led))"

text \<open>An instruction whose recipient and amount are already on a ballot takes over its state.\<close>

definition match_pending :: "(AccountAddress \<rightharpoonup> ProposePay) \<Rightarrow> AccountAddress \<Rightarrow> ProposePay \<Rightarrow> ProposePay" where
  "match_pending known addr inst =
     (case known addr of
        None \<Rightarrow> inst
      | Some pp \<Rightarrow>
          if amount pp = scaled_amount inst
          then inst\<lparr>proposed := Some True, voters := voters pp, approved := approved pp\<rparr> else inst)"

definition query_is_slow :: "chain_view \<Rightarrow> ledger \<Rightarrow> string \<Rightarrow> bool result" where
  "query_is_slow view led who =
     and_then (get_view view led ''0x1::slow_wallet::is_slow'' None (Some who)) (\<lambda>v.
     and_then (unwrap_none (as_array v)) (\<lambda>vs.
     if vs = [] then Inl (Panic ''index out of bounds'') else unwrap_none (as_bool (hd vs))))"

definition has_voted :: "AccountAddress \<Rightarrow> ProposePay \<Rightarrow> bool" where
  "has_voted me inst = (case voters inst of Some v \<Rightarrow> me \<in> set v | None \<Rightarrow> False)"

definition batch_step ::
  "tx_env \<Rightarrow> client \<Rightarrow> chain_view \<Rightarrow> BatchTx \<Rightarrow> (AccountAddress \<rightharpoonup> ProposePay) \<Rightarrow> ProposePay \<Rightarrow> Sender \<Rightarrow> ledger \<Rightarrow>
   ProposePay result \<times> Sender \<times> ledger" where
  "batch_step env cl view self known inst s led =
     (case address_parse view (recipient inst) of
        Inl _ \<Rightarrow> (Inl (Panic (''could not parse '' @ recipient inst)), s, led)
      | Inr addr \<Rightarrow>
          let inst = match_pending known addr (inst\<lparr>parsed := Some addr\<rparr>) in
          (case query_is_slow view led (recipient inst) of
             Inl e \<Rightarrow> (Inl e, s, led)
           | Inr res_slow \<Rightarrow>
               let inst = inst\<lparr>is_slow := Some res_slow\<rparr> in
               if \<not> res_slow then (Inr inst, s, led)
               else if has_voted (la_address (local_account s)) inst then (Inr inst, s, led)
               else if check self then (Inr inst, s, led)
               else
                 (case propose_single env cl (community_wallet self) inst s led of
                    (Inr _, s, led) \<Rightarrow> (Inr (inst\<lparr>proposed := Some True\<rparr>), s, led)
                  | (Inl (Err m), s, led) \<Rightarrow> (Inr (inst\<lparr>proposed := Some False, pay_error := Some m\<rparr>), s, led)
                  | (Inl (Panic m), s, led) \<Rightarrow> (Inl (Panic m), s, led))))"

fun batch_loop ::
  "tx_env \<Rightarrow> client \<Rightarrow> chain_view \<Rightarrow> BatchTx \<Rightarrow> (AccountAddress \<rightharpoonup> ProposePay) \<Rightarrow> ProposePay list \<Rightarrow> Sender \<Rightarrow> ledger \<Rightarrow>
   ProposePay list result \<times> Sender \<times> ledger" where
  "batch_loop env cl view self known [] s led = (Inr [], s, led)"
| "batch_loop env cl view self known (inst # rest) s led =
     (case batch_step env cl view self known inst s led of
        (Inl e, s, led) \<Rightarrow> (Inl e, s, led)
      | (Inr inst, s, led) \<Rightarrow>
          let (r, s, led) = batch_loop env cl view self known rest s led
          in (map_sum id ((#) inst) r, s, led))"

section \<open>The run\<close>

definition batch_read :: "chain_view \<Rightarrow> BatchTx \<Rightarrow> ledger \<Rightarrow> file_system \<Rightarrow> (ProposePay list \<times> (AccountAddress \<rightharpoonup> ProposePay)) result" where
  "batch_read view self led fs =
     and_then (unwrap ''Unable to read file'' (files fs (batch_file self))) (\<lambda>data.
     and_then (expect ''Unable to parse'' (pays_from_json view data)) (\<lambda>list.
     and_then (multi_auth_ballots view led (community_wallet self)) (\<lambda>ballots.
     and_then (pending_or_approved view ballots) (\<lambda>known.
     Inr (list, known)))))"

definition batch_write :: "chain_view \<Rightarrow> BatchTx \<Rightarrow> ProposePay list \<Rightarrow> file_system \<Rightarrow> file_system result" where
  "batch_write view self list fs =
     and_then (pays_to_json view list) (\<lambda>json.
     let p = (case batch_out self of Some out_path \<Rightarrow> out_path | None \<Rightarrow> batch_file self) in
     if writable fs p then Inr (fs\<lparr>files := (files fs)(p \<mapsto> json)\<rparr>) else Inl (Err ''cannot write file''))"

definition BatchTx_run ::
  "tx_env \<Rightarrow> client \<Rightarrow> chain_view \<Rightarrow> BatchTx \<Rightarrow> Sender \<Rightarrow> ledger \<Rightarrow> file_system \<Rightarrow>
   unit result \<times> Sender \<times> ledger \<times> file_system" where
  "BatchTx_run env cl view self s led fs =
     (case batch_read view self led fs of
        Inl e \<Rightarrow> (Inl e, s, led, fs)
      | Inr (list, known) \<Rightarrow>
          (case batch_loop env cl view self known list s led of
             (Inl e, s, led) \<Rightarrow> (Inl e, s, led, fs)
           | (Inr list, s, led) \<Rightarrow>
               (case batch_write view self list fs of
                  Inl e \<Rightarrow> (Inl e, s, led, fs)
                | Inr fs \<Rightarrow> (Inr (), s, led, fs))))"

section \<open>What a run submits and writes\<close>

text \<open>\<open>proposal\<close> relates an instruction to a transaction that proposes it: a payment of the wallet to the
  parsed recipient of the scaled amount, signed by \<open>me\<close>, who has no vote on a matching ballot, to a
  recipient that the chain reports as slow wallet.\<close>

definition proposal ::
  "tx_env \<Rightarrow> chain_view \<Rightarrow> AccountAddress \<Rightarrow> (AccountAddress \<rightharpoonup> ProposePay) \<Rightarrow> AccountAddress \<Rightarrow> ProposePay \<Rightarrow>
   SignedTransaction \<Rightarrow> bool" where
  "proposal env view wallet known me inst tx \<longleftrightarrow>
     (\<exists>addr. address_parse view (recipient inst) = Inr addr \<and>
        encode (codec env) (DonorVoiceTxsProposePaymentTx wallet addr (scaled_amount inst) (into_bytes (description inst)))
          = Inr (tb_payload (tx_request tx)) \<and>
        \<not> has_voted me (match_pending known addr inst)) \<and>
     tx_sender tx = me \<and> (\<exists>l. query_is_slow view l (recipient inst) = Inr True)"

definition outcome :: "chain_view \<Rightarrow> ProposePay \<Rightarrow> ProposePay \<Rightarrow> bool" where
  "outcome view inst inst' \<longleftrightarrow>
     recipient inst' = recipient inst \<and> amount inst' = amount inst \<and> description inst' = description inst \<and>
     pay_note inst' = pay_note inst \<and> is_slow inst' \<noteq> None \<and>
     (\<exists>addr. address_parse view (recipient inst) = Inr addr \<and> parsed inst' = Some addr)"

lemma match_pending_fields [simp]:
  "recipient (match_pending known a inst) = recipient inst" "amount (match_pending known a inst) = amount inst"
  "description (match_pending known a inst) = description inst" "parsed (match_pending known a inst) = parsed inst"
  "pay_note (match_pending known a inst) = pay_note inst"
  "scaled_amount (match_pending known a inst) = scaled_amount inst"
  by (simp_all add: match_pending_def scaled_amount_def split: option.splits)

lemma has_voted_match [simp]:
  "has_voted me (match_pending known a (inst\<lparr>parsed := x\<rparr>)) = has_voted me (match_pending known a inst)"
  "has_voted me (inst\<lparr>is_slow := y\<rparr>) = has_voted me inst"
  by (auto simp: has_voted_def match_pending_def scaled_amount_def split: option.splits)

lemma scaled_amount_upd [simp]:
  "scaled_amount (inst\<lparr>is_slow := x\<rparr>) = scaled_amount inst" "scaled_amount (inst\<lparr>parsed := z\<rparr>) = scaled_amount inst"
  by (simp_all add: scaled_amount_def)

lemma propose_single_effect:
  assumes "signer_ok env" "propose_single env cl wallet inst s led = (r, s', led')" "parsed inst = Some addr"
  shows "la_address (local_account s') = la_address (local_account s)"
    "led' = led \<or> (\<exists>tx. led' = led @ [tx] \<and> tx_sender tx = la_address (local_account s) \<and>
       encode (codec env) (DonorVoiceTxsProposePaymentTx wallet addr (scaled_amount inst) (into_bytes (description inst)))
         = Inr (tb_payload (tx_request tx)))"
proof -
  let ?p = "donor_voice_txs_propose_payment_tx (codec env) wallet addr (scaled_amount inst) (into_bytes (description inst))"
  have "la_address (local_account s') = la_address (local_account s) \<and>
    (led' = led \<or> (\<exists>tx. led' = led @ [tx] \<and> tx_sender tx = la_address (local_account s) \<and> ?p = Inr (tb_payload (tx_request tx))))"
  proof (cases ?p)
    case (Inl e)
    then show ?thesis using assms by (simp add: propose_single_def unwrap_none_def unwrap_def)
  next
    case (Inr payload)
    obtain d s1 l1 where d: "sign_submit_wait env cl payload s led = (d, s1, l1)" by (metis prod_cases3)
    then have "s' = s1" "led' = l1"
      using Inr assms by (auto simp: propose_single_def unwrap_none_def unwrap_def)
    then show ?thesis
      using sign_submit_wait_effect(1,2) [OF assms(1) d] Inr by (auto simp: signed_tx_def next_sequence_def)
  qed
  then show "la_address (local_account s') = la_address (local_account s)"
    "led' = led \<or> (\<exists>tx. led' = led @ [tx] \<and> tx_sender tx = la_address (local_account s) \<and>
       encode (codec env) (DonorVoiceTxsProposePaymentTx wallet addr (scaled_amount inst) (into_bytes (description inst)))
         = Inr (tb_payload (tx_request tx)))"
    by simp_all
qed

lemma batch_step_effect:
  assumes env: "signer_ok env" and step: "batch_step env cl view self known inst s led = (r, s', led')"
  shows "la_address (local_account s') = la_address (local_account s)"
    "led' = led \<or> (\<exists>tx. led' = led @ [tx] \<and>
       proposal env view (community_wallet self) known (la_address (local_account s)) inst tx)"
    "check self \<Longrightarrow> led' = led \<and> s' = s" "r = Inr inst' \<Longrightarrow> outcome view inst inst'"
proof -
  let ?me = "la_address (local_account s)"
  have "la_address (local_account s') = ?me \<and>
    (led' = led \<or> (\<exists>tx. led' = led @ [tx] \<and> proposal env view (community_wallet self) known ?me inst tx)) \<and>
    (check self \<longrightarrow> led' = led \<and> s' = s) \<and> (\<forall>i. r = Inr i \<longrightarrow> outcome view inst i)"
  proof (cases "address_parse view (recipient inst)")
    case (Inl e)
    then show ?thesis using step by (auto simp: batch_step_def)
  next
    case (Inr addr)
    note a = Inr
    define i where "i = (match_pending known addr (inst\<lparr>parsed := Some addr\<rparr>))\<lparr>is_slow := Some True\<rparr>"
    have i: "parsed i = Some addr" "scaled_amount i = scaled_amount inst" "description i = description inst"
      "has_voted ?me i = has_voted ?me (match_pending known addr inst)" by (simp_all add: i_def)
    consider "query_is_slow view led (recipient inst) \<noteq> Inr True \<or> has_voted ?me i \<or> check self"
      | (go) "query_is_slow view led (recipient inst) = Inr True" "\<not> has_voted ?me i" "\<not> check self" by blast
    then show ?thesis
    proof cases
      case 1
      then show ?thesis using step a i(4)
        by (auto simp: batch_step_def outcome_def Let_def i_def split: sum.splits if_splits)
    next
      case go
      obtain q s1 l1 where q: "propose_single env cl (community_wallet self) i s led = (q, s1, l1)" by (metis prod_cases3)
      have st: "s' = s1" "led' = l1" "\<forall>x. r = Inr x \<longrightarrow> outcome view inst x"
        using step a go i(4) q
        by (auto simp: batch_step_def outcome_def i_def [symmetric] Let_def split: sum.splits error.splits)
          (auto simp: i_def)
      show ?thesis
        using propose_single_effect [OF env q i(1)] st go a i
        by (auto simp: proposal_def)
    qed
  qed
  then show "la_address (local_account s') = ?me"
    "led' = led \<or> (\<exists>tx. led' = led @ [tx] \<and> proposal env view (community_wallet self) known ?me inst tx)"
    "check self \<Longrightarrow> led' = led \<and> s' = s" "r = Inr inst' \<Longrightarrow> outcome view inst inst'"
    by blast+
qed

text \<open>\<open>submitted\<close>: the transactions that propose some of the instructions, in the order of the file.\<close>

definition submitted ::
  "tx_env \<Rightarrow> chain_view \<Rightarrow> AccountAddress \<Rightarrow> (AccountAddress \<rightharpoonup> ProposePay) \<Rightarrow> AccountAddress \<Rightarrow> ProposePay list \<Rightarrow>
   ledger \<Rightarrow> bool" where
  "submitted env view wallet known me list txs \<longleftrightarrow>
     (\<exists>sel. subseq sel list \<and> list_all2 (proposal env view wallet known me) sel txs)"

lemma submitted_Nil [simp]: "submitted env view wallet known me list []"
  unfolding submitted_def by (rule exI [of _ "[]"]) simp

lemma submitted_skip:
  "submitted env view wallet known me list txs \<Longrightarrow> submitted env view wallet known me (inst # list) txs"
  by (auto simp: submitted_def intro: subseq_Cons')

lemma submitted_Cons:
  assumes "proposal env view wallet known me inst tx" "submitted env view wallet known me list txs"
  shows "submitted env view wallet known me (inst # list) (tx # txs)"
proof -
  obtain sel where "subseq sel list" "list_all2 (proposal env view wallet known me) sel txs"
    using assms(2) by (auto simp: submitted_def)
  then show ?thesis using assms(1)
    by (auto simp: submitted_def intro!: exI [of _ "inst # sel"])
qed

lemma batch_loop_effect:
  assumes env: "signer_ok env" and loop: "batch_loop env cl view self known list s led = (r, s', led')"
  shows "(\<exists>txs. led' = led @ txs \<and>
      submitted env view (community_wallet self) known (la_address (local_account s)) list txs) \<and>
    (check self \<longrightarrow> led' = led \<and> s' = s) \<and>
    (\<forall>out. r = Inr out \<longrightarrow> list_all2 (outcome view) list out)"
  using loop
proof (induction list arbitrary: s led r s' led')
  case Nil
  then show ?case by auto
next
  case (Cons inst rest)
  let ?me = "la_address (local_account s)"
  obtain q s1 l1 where step: "batch_step env cl view self known inst s led = (q, s1, l1)" by (metis prod_cases3)
  note e = batch_step_effect [OF env step]
  have first: "l1 = led \<or> (\<exists>tx. l1 = led @ [tx] \<and> proposal env view (community_wallet self) known ?me inst tx)" by (rule e(2))
  show ?case
  proof (cases q)
    case (Inl x)
    then have eqs: "r = Inl x" "s' = s1" "led' = l1" using Cons.prems step by auto
    have "\<exists>txs. l1 = led @ txs \<and> submitted env view (community_wallet self) known ?me (inst # rest) txs"
      using first submitted_Cons [OF _ submitted_Nil] submitted_Nil by (metis append_Nil2)
    then show ?thesis using eqs e(3) by simp
  next
    case (Inr i)
    obtain q2 s2 l2 where rest: "batch_loop env cl view self known rest s1 l1 = (q2, s2, l2)" by (metis prod_cases3)
    have eqs: "r = map_sum id ((#) i) q2" "s' = s2" "led' = l2"
      using Cons.prems step rest Inr by auto
    from Cons.IH [OF rest] obtain txs where txs: "l2 = l1 @ txs"
        "submitted env view (community_wallet self) known ?me rest txs"
      and chk: "check self \<longrightarrow> l2 = l1 \<and> s2 = s1" and out: "\<forall>out. q2 = Inr out \<longrightarrow> list_all2 (outcome view) rest out"
      unfolding e(1) using eqs by auto
    have "\<exists>txs. l2 = led @ txs \<and> submitted env view (community_wallet self) known ?me (inst # rest) txs"
      using first txs submitted_Cons [OF _ txs(2)] submitted_skip [OF txs(2)] by auto
    moreover have "list_all2 (outcome view) (inst # rest) os" if "r = Inr os" for os
      using that out e(4) [of i] Inr eqs(1) by (cases q2) auto
    ultimately show ?thesis using eqs chk e(3) by simp
  qed
qed


section \<open>Examples\<close>

text \<open>A file with two instructions, of which only the first recipient is a slow wallet.\<close>

definition example_pay :: "string \<Rightarrow> ProposePay" where
  "example_pay who = \<lparr>recipient = who, parsed = None, amount = 3, description = ''rent'', is_slow = None, proposed = None,
     approved = None, voters = None, pay_error = None, pay_note = None\<rparr>"

definition example_view :: chain_view where
  "example_view = \<lparr>get_view = (\<lambda>_ _ _ who. Inr (VArray [VBool (who = Some ''0xa'')])),
     multi_auth_ballots = (\<lambda>_ _. Inr (VObject [(''vote'', VObject [(''ballots_approved'', VArray []), (''ballots_pending'', VArray [])])])),
     address_parse = (\<lambda>s. if s = ''0xa'' then Inr 10 else Inr 11), to_canonical_string = addr_hex,
     pays_from_json = (\<lambda>_. Inr [example_pay ''0xa'', example_pay ''0xb'']), pays_to_json = (\<lambda>_. Inr ''updated'')\<rparr>"

definition example_batch :: BatchTx where
  "example_batch = \<lparr>community_wallet = 99, batch_file = ''batch.json'', batch_out = None, check = False\<rparr>"

definition example_fs :: file_system where
  "example_fs = \<lparr>files = [''batch.json'' \<mapsto> ''pays''], writable = (\<lambda>_. True)\<rparr>"

lemma example_batch_read:
  "batch_read example_view example_batch [] example_fs = Inr ([example_pay ''0xa'', example_pay ''0xb''], Map.empty)"
  by (simp add: batch_read_def example_view_def example_batch_def example_fs_def unwrap_def expect_def
    pending_or_approved_def unwrap_none_def object_field_def array_field_def field_def)

lemma example_env_codec: "codec example_env = ref_bcs"
  by (simp add: example_env_def)

lemma example_batch_run:
  "\<exists>s' tx fs'. BatchTx_run example_env example_client example_view example_batch (next_sequence example_sender) [] example_fs =
     (Inr (), s', [tx], fs')"
proof -
  have "is_ok (encode ref_bcs (DonorVoiceTxsProposePaymentTx 99 10 n (into_bytes ''rent'')))" for n
    by (rule ref_bcs.encode_fits) (simp add: into_bytes_def)
  then obtain p where p: "donor_voice_txs_propose_payment_tx ref_bcs 99 10 (scaled_amount (example_pay ''0xa'')) (into_bytes ''rent'') = Inr p"
    by (auto simp: is_ok_iff)
  have step: "\<exists>i s' tx. batch_step example_env example_client example_view example_batch Map.empty (example_pay ''0xa'')
      (next_sequence example_sender) [] = (Inr i, s', [tx])"
    using p
    by (simp add: batch_step_def example_view_def match_pending_def query_is_slow_def unwrap_none_def unwrap_def has_voted_def
      example_pay_def propose_single_def scaled_amount_def example_batch_def example_env_codec
      sign_submit_wait_def sign_payload_eq [OF example_signer_ok] submit_def example_client_def signed_tx_def
      example_sender_def next_sequence_def)
  have skip: "\<exists>i. batch_step example_env example_client example_view example_batch Map.empty (example_pay ''0xb'') s led = (Inr i, s, led)" for s led
    by (simp add: batch_step_def example_view_def match_pending_def query_is_slow_def unwrap_none_def unwrap_def example_pay_def)
  obtain i s1 tx where step: "batch_step example_env example_client example_view example_batch Map.empty (example_pay ''0xa'')
      (next_sequence example_sender) [] = (Inr i, s1, [tx])" using step by blast
  obtain j where "batch_step example_env example_client example_view example_batch Map.empty (example_pay ''0xb'') s1 [tx] = (Inr j, s1, [tx])"
    using skip by blast
  then show ?thesis using step
    by (simp add: BatchTx_run_def example_batch_read batch_write_def) (simp add: example_view_def example_fs_def)
qed


end
