(* ===== verification/Tx_Commands.thy ===== *)
theory Tx_Commands
  imports Batch_Tx
begin

text \<open>
  The transaction commands (\<^verbatim>\<open>tools/txs/src\<close>: \<^verbatim>\<open>txs_cli_vals.rs\<close>, \<^verbatim>\<open>txs_cli_governance.rs\<close>, \<^verbatim>\<open>txs_cli_user.rs\<close>,
  \<^verbatim>\<open>txs_cli_community.rs\<close>, \<^verbatim>\<open>transfer.rs\<close>, \<^verbatim>\<open>generic_tx.rs\<close>, \<^verbatim>\<open>publish.rs\<close>, with \<^verbatim>\<open>parse_function_id\<close> of
  \<^verbatim>\<open>types/src/util.rs\<close>, the proposal queries of \<^verbatim>\<open>tools/query/src/chain_queries.rs\<close> and the registration
  of \<^verbatim>\<open>tools/config/src/validator_registration.rs\<close>). Each command builds a payload from its
  arguments and hands it to the sender. The record \<open>cmd_env\<close> collects the vendor code the commands
  call. The lemmas state which call each command submits.
\<close>

section \<open>What the commands use\<close>

record RotationProofChallenge =
  rp_account_address :: AccountAddress
  rp_module_name :: string
  rp_struct_name :: string
  rp_sequence_number :: u64
  rp_originator :: AccountAddress
  rp_current_auth_key :: AccountAddress
  rp_new_public_key :: "u8 list"

record RotationCapabilityOfferProofChallengeV2 =
  ro_account_address :: AccountAddress
  ro_module_name :: string
  ro_struct_name :: string
  ro_chain_id :: u8
  ro_sequence_number :: u64
  ro_source_address :: AccountAddress
  ro_recipient_address :: AccountAddress

record cmd_env =
  cmd_tx :: tx_env
  cmd_view :: chain_view
  global_config_dir :: string
  path_exists :: "string \<Rightarrow> bool"
  operator_from_yaml :: "string \<Rightarrow> OperatorConfiguration result"
  as_network_address :: "string \<Rightarrow> u8 list \<Rightarrow> string result"
  network_addresses_to_bytes :: "string list \<Rightarrow> u8 list result"
  hex_decode :: "string \<Rightarrow> u8 list result"
  sign_arbitrary_message :: "PrivateKey \<Rightarrow> u8 list \<Rightarrow> u8 list"
  rotation_proof_to_bytes :: "RotationProofChallenge \<Rightarrow> u8 list result"
  rotation_offer_to_bytes :: "RotationCapabilityOfferProofChallengeV2 \<Rightarrow> u8 list result"
  private_key_from_encoded_string :: "string \<Rightarrow> PrivateKey result"
  keys_from_prompt :: "KeyChain result"
  confirm_prompt :: "nat \<Rightarrow> bool"
  account_authentication_key :: "ledger \<Rightarrow> AccountAddress \<Rightarrow> AuthenticationKey result"
  Identifier_new :: "string \<Rightarrow> string result"
  parse_type_tags :: "string \<Rightarrow> TypeTag list result"
  parse_transaction_arguments :: "string \<Rightarrow> TransactionArgument list result"
  convert_txn_args :: "TransactionArgument list \<Rightarrow> u8 list list"
  build_package :: "string \<Rightarrow> (u8 list result \<times> u8 list list) result"
  payload_size :: "TransactionPayload \<Rightarrow> nat result"
  MAX_PUBLISH_PACKAGE_SIZE :: nat

abbreviation bcs_of :: "cmd_env \<Rightarrow> bcs" where
  "bcs_of c \<equiv> codec (cmd_tx c)"

abbreviation core_code_address :: AccountAddress where
  "core_code_address \<equiv> 1"

text \<open>\<^verbatim>\<open>sender.sign_submit_wait(payload).await?; Ok(())\<close>, the tail of every command.\<close>

definition send_payload ::
  "cmd_env \<Rightarrow> client \<Rightarrow> TransactionPayload result \<Rightarrow> Sender \<Rightarrow> ledger \<Rightarrow> unit result \<times> Sender \<times> ledger" where
  "send_payload c cl payload s led =
     (case payload of
        Inl e \<Rightarrow> (Inl e, s, led)
      | Inr p \<Rightarrow> let (r, s, led) = sign_submit_wait (cmd_tx c) cl p s led in (map_sum id (\<lambda>_. ()) r, s, led))"

section \<open>Validator commands\<close>

record ValCredentials =
  vc_account :: AccountAddress
  vc_consensus_pubkey :: "u8 list"
  vc_proof_of_possession :: "u8 list"
  vc_network_addresses :: "u8 list"
  vc_fullnode_addresses :: "u8 list"

definition registration_from_private_file :: "cmd_env \<Rightarrow> file_system \<Rightarrow> string option \<Rightarrow> ValCredentials result" where
  "registration_from_private_file c fs operator_keyfile =
     (let file = (case operator_keyfile of Some f \<Rightarrow> f | None \<Rightarrow> path_join (global_config_dir c) ''operator.yaml'') in
      and_then (ok_or ''No such file'' (files fs file)) (\<lambda>yaml_str.
      and_then (operator_from_yaml c yaml_str) (\<lambda>oc.
      and_then (as_network_address c (validator_host oc) (op_validator_network_public_key oc)) (\<lambda>val_net_protocol.
      and_then (ok_or ''cannot find fullnode host in operator config file'' (full_node_host oc)) (\<lambda>fullnode_host.
      and_then (ok_or ''cannot find fullnode network public key in operator config file''
                  (op_full_node_network_public_key oc)) (\<lambda>fn_key.
      and_then (as_network_address c fullnode_host fn_key) (\<lambda>vfn_fullnode_protocol.
      and_then (network_addresses_to_bytes c [val_net_protocol]) (\<lambda>network.
      and_then (network_addresses_to_bytes c [vfn_fullnode_protocol]) (\<lambda>fullnode.
      Inr \<lparr>vc_account = operator_account_address oc, vc_consensus_pubkey = op_consensus_public_key oc,
           vc_proof_of_possession = op_consensus_proof_of_possession oc, vc_network_addresses = network,
           vc_fullnode_addresses = fullnode\<rparr>)))))))))"

datatype ValidatorTxs =
    Pof u64 "f64 option" u64 bool
  | Jail AccountAddress
  | Vouch AccountAddress bool
  | Register "string option"
  | UpdateConfig "string option"

definition scaled_bid :: "f64 \<Rightarrow> u64" where
  "scaled_bid b = f64_to_u64 (f64_round_int (f64_mul b (Fin 1000)))"

fun make_payload :: "cmd_env \<Rightarrow> file_system \<Rightarrow> ValidatorTxs \<Rightarrow> EntryFunctionCall result" where
  "make_payload c fs (Pof net_reward bid_pct expiry retract) =
     (if retract then Inr ProofOfFeePofRetractBid
      else case bid_pct of
        Some b \<Rightarrow>
          if 1100 < scaled_bid b
          then Inl (Err ''a bid amount at 110.0% or above the epochs reward, will be rejected'')
          else Inr (ProofOfFeePofUpdateBid (scaled_bid b) expiry)
      | None \<Rightarrow> Inr (ProofOfFeePofUpdateBidNetReward net_reward expiry))"
| "make_payload c fs (Jail unjail_acct) = Inr (JailUnjailByVoucher unjail_acct)"
| "make_payload c fs (Vouch vouch_acct revoke) =
     Inr (if revoke then VouchRevoke vouch_acct else VouchVouchFor vouch_acct)"
| "make_payload c fs (Register operator_file) =
     and_then (registration_from_private_file c fs operator_file) (\<lambda>reg.
     Inr (ValidatorUniverseRegisterValidator (vc_consensus_pubkey reg) (vc_proof_of_possession reg)
       (vc_network_addresses reg) (vc_fullnode_addresses reg)))"
| "make_payload c fs (UpdateConfig operator_file) =
     (let file = (case operator_file of Some f \<Rightarrow> f | None \<Rightarrow> path_join (global_config_dir c) ''operator.yaml'') in
      and_then (ok_or ''No such file'' (files fs file)) (\<lambda>yaml_str.
      and_then (operator_from_yaml c yaml_str) (\<lambda>oc.
      and_then (as_network_address c (validator_host oc) (op_validator_network_public_key oc)) (\<lambda>val_net_protocol.
      and_then (ok_or ''cannot find fullnode host in operator config file'' (full_node_host oc)) (\<lambda>fullnode_host.
      and_then (ok_or ''cannot find fullnode network public key operator config file''
                  (op_full_node_network_public_key oc)) (\<lambda>fn_key.
      and_then (as_network_address c fullnode_host fn_key) (\<lambda>vfn_fullnode_protocol.
      and_then (network_addresses_to_bytes c [val_net_protocol]) (\<lambda>network.
      and_then (network_addresses_to_bytes c [vfn_fullnode_protocol]) (\<lambda>fullnode.
      Inr (StakeUpdateNetworkAndFullnodeAddresses (operator_account_address oc) network fullnode))))))))))"

definition ValidatorTxs_run ::
  "cmd_env \<Rightarrow> client \<Rightarrow> file_system \<Rightarrow> ValidatorTxs \<Rightarrow> Sender \<Rightarrow> ledger \<Rightarrow> unit result \<times> Sender \<times> ledger" where
  "ValidatorTxs_run c cl fs self s led =
     send_payload c cl (and_then (make_payload c fs self) (encode (bcs_of c))) s led"

section \<open>Governance commands\<close>

definition strings_from_value :: "Value \<Rightarrow> string list result" where
  "strings_from_value v =
     and_then (ok_or ''invalid type'' (as_array v)) (map_result (\<lambda>x. ok_or ''invalid type'' (as_str x)))"

definition bools_from_value :: "Value \<Rightarrow> bool list result" where
  "bools_from_value v =
     and_then (ok_or ''invalid type'' (as_array v)) (map_result (\<lambda>x. ok_or ''invalid type'' (as_bool x)))"

definition first_of :: "'a list \<Rightarrow> 'a option" where
  "first_of xs = (case xs of [] \<Rightarrow> None | x # _ \<Rightarrow> Some x)"

definition get_next_governance_proposal_id :: "chain_view \<Rightarrow> ledger \<Rightarrow> u64 result" where
  "get_next_governance_proposal_id q led =
     and_then (get_view q led ''0x1::diem_governance::get_next_governance_proposal_id'' None None) (\<lambda>res.
     and_then (strings_from_value res) (\<lambda>ss.
     and_then (ok_or ''could not get a response'' (first_of ss)) (\<lambda>s.
     ok_or ''invalid digit found in string'' (parse_u64 s))))"

definition is_gov_proposal_resolved :: "chain_view \<Rightarrow> ledger \<Rightarrow> u64 \<Rightarrow> bool result" where
  "is_gov_proposal_resolved q led pid =
     and_then (get_view q led ''0x1::diem_governance::is_resolved'' None (Some (show_nat (unat pid)))) (\<lambda>res.
     and_then (bools_from_value res) (\<lambda>bs.
     ok_or ''could not get a response'' (first_of bs)))"

datatype GovernanceTxs =
    Gov_Propose string string
  | Gov_Vote u64 bool
  | Gov_Resolve u64 string
  | Gov_EpochBoundary

fun governance_payload ::
  "cmd_env \<Rightarrow> file_system \<Rightarrow> ledger \<Rightarrow> GovernanceTxs \<Rightarrow> TransactionPayload result" where
  "governance_payload c fs led (Gov_Propose proposal_script_dir metadata_url) =
     (let hash_path = path_join proposal_script_dir ''script_sha3'' in
      if \<not> path_exists c proposal_script_dir \<or> \<not> path_exists c hash_path
      then Inl (Err ''cannot find upgrade script package'')
      else
        and_then (ok_or ''No such file'' (files fs hash_path)) (\<lambda>hash.
        and_then (get_next_governance_proposal_id (cmd_view c) led) (\<lambda>_.
        and_then (hex_decode c hash) (\<lambda>hash_bytes.
        diem_governance_ol_create_proposal_v2 (bcs_of c) hash_bytes (into_bytes metadata_url)
          (into_bytes ''metadata struct'') True))))"
| "governance_payload c fs led (Gov_Vote proposal_id should_fail) =
     diem_governance_ol_vote (bcs_of c) proposal_id (\<not> should_fail)"
| "governance_payload c fs led (Gov_Resolve proposal_id proposal_script_dir) =
     (case is_gov_proposal_resolved (cmd_view c) led proposal_id of
        Inl _ \<Rightarrow> Inl (Err ''cannot get status of proposal'')
      | Inr True \<Rightarrow> Inl (Err ''proposal has already been resolved'')
      | Inr False \<Rightarrow>
          if \<not> path_exists c proposal_script_dir then Inl (Panic ''proposal script cannot be found'')
          else
            and_then (unwrap_none (files fs (path_join proposal_script_dir ''script.mv''))) (\<lambda>bytes.
            Inr (Script (into_bytes bytes) [] [ArgU64 proposal_id])))"
| "governance_payload c fs led Gov_EpochBoundary = diem_governance_trigger_epoch (bcs_of c)"

definition GovernanceTxs_run ::
  "cmd_env \<Rightarrow> client \<Rightarrow> file_system \<Rightarrow> GovernanceTxs \<Rightarrow> Sender \<Rightarrow> ledger \<Rightarrow> unit result \<times> Sender \<times> ledger" where
  "GovernanceTxs_run c cl fs self s led = send_payload c cl (governance_payload c fs led self) s led"

section \<open>User commands\<close>

definition rotate_key ::
  "cmd_env \<Rightarrow> AccountAddress \<Rightarrow> PrivateKey \<Rightarrow> AuthenticationKey \<Rightarrow> u64 \<Rightarrow> PrivateKey \<Rightarrow> TransactionPayload result" where
  "rotate_key c sender_address current_private_key authkey sequence_number new_private_key =
     (let pub = public_key_of (keys (cmd_tx c));
          rotation_proof =
            \<lparr>rp_account_address = core_code_address, rp_module_name = ''account'', rp_struct_name = ''RotationProofChallenge'',
             rp_sequence_number = sequence_number, rp_originator = sender_address, rp_current_auth_key = authkey,
             rp_new_public_key = pub new_private_key\<rparr>
      in and_then (rotation_proof_to_bytes c rotation_proof) (\<lambda>rotation_msg.
         account_rotate_authentication_key (bcs_of c) 0 (pub current_private_key) 0 (pub new_private_key)
           (sign_arbitrary_message c current_private_key rotation_msg)
           (sign_arbitrary_message c new_private_key rotation_msg)))"

definition rotate_key_delegated ::
  "cmd_env \<Rightarrow> u64 \<Rightarrow> AccountAddress \<Rightarrow> AuthenticationKey \<Rightarrow> PrivateKey \<Rightarrow> TransactionPayload result" where
  "rotate_key_delegated c sequence_number target_account_address target_auth_key new_private_key =
     (let new_public_key = public_key_of (keys (cmd_tx c)) new_private_key;
          rotation_proof =
            \<lparr>rp_account_address = core_code_address, rp_module_name = ''account'', rp_struct_name = ''RotationProofChallenge'',
             rp_sequence_number = sequence_number, rp_originator = target_account_address,
             rp_current_auth_key = target_auth_key, rp_new_public_key = new_public_key\<rparr>
      in and_then (rotation_proof_to_bytes c rotation_proof) (\<lambda>rotation_msg.
         account_rotate_authentication_key_with_rotation_capability (bcs_of c) target_account_address 0 new_public_key
           (sign_arbitrary_message c new_private_key rotation_msg)))"

definition offer_rotation_capability_v2 ::
  "cmd_env \<Rightarrow> LocalAccount \<Rightarrow> AccountAddress \<Rightarrow> u8 \<Rightarrow> u64 \<Rightarrow> TransactionPayload result" where
  "offer_rotation_capability_v2 c offerer_account delegate_account chain sequence_number =
     (let rotation_capability_offer_proof =
            \<lparr>ro_account_address = core_code_address, ro_module_name = ''account'',
             ro_struct_name = ''RotationCapabilityOfferProofChallengeV2'', ro_chain_id = chain,
             ro_sequence_number = sequence_number, ro_source_address = la_address offerer_account,
             ro_recipient_address = delegate_account\<rparr>
      in and_then (unwrap_result (rotation_offer_to_bytes c rotation_capability_offer_proof)) (\<lambda>msg.
         account_offer_rotation_capability (bcs_of c) (sign_arbitrary_message c (la_key offerer_account) msg) 0
           (public_key_of (keys (cmd_tx c)) (la_key offerer_account)) delegate_account))"

definition revoke_rotation_capability :: "cmd_env \<Rightarrow> AccountAddress \<Rightarrow> TransactionPayload result" where
  "revoke_rotation_capability c delegate_account = account_revoke_rotation_capability (bcs_of c) delegate_account"

datatype UserTxs =
    SetSlow
  | RotationCapability bool AccountAddress
  | RotateKey "string option" "AccountAddress option"

definition SetSlowTx_run :: "cmd_env \<Rightarrow> client \<Rightarrow> Sender \<Rightarrow> ledger \<Rightarrow> unit result \<times> Sender \<times> ledger" where
  "SetSlowTx_run c cl s led = send_payload c cl (slow_wallet_user_set_slow (bcs_of c)) s led"

definition capability_payload ::
  "cmd_env \<Rightarrow> client \<Rightarrow> bool \<Rightarrow> AccountAddress \<Rightarrow> Sender \<Rightarrow> ledger \<Rightarrow> TransactionPayload result" where
  "capability_payload c cl revoke delegate_address s led =
     and_then (get_index cl led) (\<lambda>chain.
     and_then (get_sequence_number cl led (la_address (local_account s))) (\<lambda>seq.
     if revoke then revoke_rotation_capability c delegate_address
     else offer_rotation_capability_v2 c (local_account s) delegate_address chain seq))"

definition RotationCapabilityTx_run ::
  "cmd_env \<Rightarrow> client \<Rightarrow> bool \<Rightarrow> AccountAddress \<Rightarrow> Sender \<Rightarrow> ledger \<Rightarrow> unit result \<times> Sender \<times> ledger" where
  "RotationCapabilityTx_run c cl revoke delegate_address s led =
     send_payload c cl (capability_payload c cl revoke delegate_address s led) s led"

text \<open>The two prompts are answered by \<open>confirm_prompt c 0\<close> and \<open>confirm_prompt c 1\<close>.\<close>

definition rotation_payload ::
  "cmd_env \<Rightarrow> client \<Rightarrow> string option \<Rightarrow> AccountAddress option \<Rightarrow> bool \<Rightarrow> Sender \<Rightarrow> ledger \<Rightarrow> TransactionPayload result" where
  "rotation_payload c cl new_key claim_address confirm s led =
     (let sender_account = la_address (local_account s); key = la_key (local_account s) in
      if confirm \<and> \<not> confirm_prompt c 0 then Inl (Err ''better safe than sorry, exiting.'')
      else
        and_then (case new_key of
                    Some pk \<Rightarrow> private_key_from_encoded_string c pk
                  | None \<Rightarrow> and_then (keys_from_prompt c) (\<lambda>legacy. Inr (pri_key (child_0_owner legacy)))) (\<lambda>new_private_key.
        and_then (get_sequence_number cl led sender_account) (\<lambda>seq.
        and_then (case claim_address of
                    Some target \<Rightarrow>
                      and_then (account_authentication_key c led target) (\<lambda>target_auth_key.
                      rotate_key_delegated c seq target target_auth_key new_private_key)
                  | None \<Rightarrow>
                      rotate_key c sender_account key (auth_key_of (cmd_tx c) key) seq new_private_key) (\<lambda>payload.
        if confirm \<and> \<not> confirm_prompt c 1 then Inl (Err ''better safe than sorry, exiting.'')
        else Inr payload))))"

definition RotateKeyTx_run ::
  "cmd_env \<Rightarrow> client \<Rightarrow> string option \<Rightarrow> AccountAddress option \<Rightarrow> bool \<Rightarrow> Sender \<Rightarrow> ledger \<Rightarrow>
   unit result \<times> Sender \<times> ledger" where
  "RotateKeyTx_run c cl new_key claim_address confirm s led =
     send_payload c cl (rotation_payload c cl new_key claim_address confirm s led) s led"

text \<open>The error of a user or community command is printed and dropped; a panic is not.\<close>

definition print_error :: "unit result \<times> 'a \<Rightarrow> unit result \<times> 'a" where
  "print_error p = (case p of (Inl (Panic m), x) \<Rightarrow> (Inl (Panic m), x) | (_, x) \<Rightarrow> (Inr (), x))"

fun UserTxs_run :: "cmd_env \<Rightarrow> client \<Rightarrow> UserTxs \<Rightarrow> Sender \<Rightarrow> ledger \<Rightarrow> unit result \<times> Sender \<times> ledger" where
  "UserTxs_run c cl (RotateKey new_key claim) s led = print_error (RotateKeyTx_run c cl new_key claim True s led)"
| "UserTxs_run c cl SetSlow s led = print_error (SetSlowTx_run c cl s led)"
| "UserTxs_run c cl (RotationCapability revoke delegate) s led =
     print_error (RotationCapabilityTx_run c cl revoke delegate s led)"

section \<open>Community commands\<close>

datatype CommunityTxs =
    GovInit "AccountAddress list" u64
  | GovOffer "AccountAddress list" u64
  | GovClaim AccountAddress
  | GovCage u64
  | GovAdmin AccountAddress AccountAddress "bool option" u64 "u64 option"
  | Propose AccountAddress AccountAddress u64 string
  | Batch BatchTx
  | Veto AccountAddress u64
  | Migration AccountAddress
  | GovInitDeprectated

text \<open>The payloads of the commands other than \<open>Batch\<close>.\<close>

fun community_payload :: "cmd_env \<Rightarrow> CommunityTxs \<Rightarrow> TransactionPayload result" where
  "community_payload c (GovInit admins num_signers) =
     community_wallet_init_init_community (bcs_of c) admins num_signers"
| "community_payload c (GovOffer admins num_signers) =
     community_wallet_init_propose_offer (bcs_of c) admins num_signers"
| "community_payload c (GovClaim wallet) = multi_action_claim_offer (bcs_of c) wallet"
| "community_payload c (GovCage num_signers) = community_wallet_init_finalize_and_cage (bcs_of c) num_signers"
| "community_payload c (GovAdmin wallet admin drop_opt n epochs) =
     (let is_add_operation = (case drop_opt of Some d \<Rightarrow> d | None \<Rightarrow> True) in
      community_wallet_init_change_signer_community_multisig (bcs_of c) wallet admin is_add_operation n
        (case epochs of Some e \<Rightarrow> e | None \<Rightarrow> 10))"
| "community_payload c (Propose wallet payee coins memo) =
     donor_voice_txs_propose_payment_tx (bcs_of c) wallet payee (cast_decimal_to_coin (f64_of_u64 coins))
       (into_bytes memo)"
| "community_payload c (Veto wallet proposal_id) = donor_voice_txs_propose_veto_tx (bcs_of c) wallet proposal_id"
| "community_payload c (Migration wallet) = multi_action_migration_migrate_offer (bcs_of c) wallet"
| "community_payload c GovInitDeprectated = multi_action_init_gov_deprecated (bcs_of c)"
| "community_payload c (Batch batch) = Inl (Err ''several payloads'')"

definition CommunityTxs_run ::
  "cmd_env \<Rightarrow> client \<Rightarrow> CommunityTxs \<Rightarrow> Sender \<Rightarrow> ledger \<Rightarrow> file_system \<Rightarrow>
   unit result \<times> Sender \<times> ledger \<times> file_system" where
  "CommunityTxs_run c cl self s led fs =
     print_error
       (case self of
          Batch batch \<Rightarrow> BatchTx_run (cmd_tx c) cl (cmd_view c) batch s led fs
        | _ \<Rightarrow> let (r, s, led) = send_payload c cl (community_payload c self) s led in (r, s, led, fs))"

section \<open>Transfers, arbitrary entry functions, packages\<close>

definition transfer ::
  "cmd_env \<Rightarrow> client \<Rightarrow> AccountAddress \<Rightarrow> f64 \<Rightarrow> bool \<Rightarrow> Sender \<Rightarrow> ledger \<Rightarrow>
   TransactionOnChainData option result \<times> Sender \<times> ledger" where
  "transfer c cl to_addr decimal est s led =
     (case encode (bcs_of c) (OlAccountTransfer to_addr (cast_decimal_to_coin decimal)) of
        Inl e \<Rightarrow> (Inl e, s, led)
      | Inr payload \<Rightarrow>
          if est then
            let (res, s) = estimate (cmd_tx c) cl payload s led
            in (and_then res (\<lambda>res. if res = [] then Inl (Panic ''index out of bounds'') else Inr None), s, led)
          else
            let (r, s, led) = sign_submit_wait (cmd_tx c) cl payload s led
            in (case r of
                  Inr tx \<Rightarrow> (Inr (Some tx), s, led)
                | Inl (Err e) \<Rightarrow> (Inl (Err (''ERROR: transaction could not complete, message: '' @ e)), s, led)
                | Inl (Panic e) \<Rightarrow> (Inl (Panic e), s, led)))"

text \<open>\<^verbatim>\<open>s.split("::")\<close>\<close>

fun split_colons :: "string \<Rightarrow> string list" where
  "split_colons [] = [[]]"
| "split_colons [x] = [[x]]"
| "split_colons (x # y # s) =
     (if x = CHR '':'' \<and> y = CHR '':'' then [] # split_colons s
      else case split_colons (y # s) of [] \<Rightarrow> [[x]] | w # ws \<Rightarrow> (x # w) # ws)"

definition parse_function_id :: "cmd_env \<Rightarrow> string \<Rightarrow> (AccountAddress \<times> string \<times> string) result" where
  "parse_function_id c function_id =
     (case map trim (split_colons function_id) of
        [a, m, f] \<Rightarrow>
          and_then (address_from_literal (cmd_tx c) a) (\<lambda>module_address.
          and_then (Identifier_new c m) (\<lambda>module_name.
          and_then (Identifier_new c f) (\<lambda>function_name.
          Inr (module_address, module_name, function_name))))
      | _ \<Rightarrow> Inl (Err (''Invalid function id: '' @ function_id)))"

definition build_entry_function ::
  "cmd_env \<Rightarrow> string \<Rightarrow> string option \<Rightarrow> string option \<Rightarrow> EntryFunction result" where
  "build_entry_function c function_id types arguments =
     and_then (parse_function_id c function_id) (\<lambda>(module_address, module_name, function_name).
     and_then (case types of Some t \<Rightarrow> parse_type_tags c t | None \<Rightarrow> Inr []) (\<lambda>tys.
     and_then (case arguments of Some a \<Rightarrow> parse_transaction_arguments c a | None \<Rightarrow> Inr []) (\<lambda>as.
     Inr \<lparr>ef_address = module_address, ef_module = module_name, ef_function = function_name, ty_args = tys,
          args = convert_txn_args c as\<rparr>)))"

definition generic ::
  "cmd_env \<Rightarrow> client \<Rightarrow> string \<Rightarrow> string option \<Rightarrow> string option \<Rightarrow> Sender \<Rightarrow> ledger \<Rightarrow> unit result \<times> Sender \<times> ledger" where
  "generic c cl function_id types arguments s led =
     send_payload c cl (and_then (build_entry_function c function_id types arguments) (\<lambda>e. Inr (EntryFunction e))) s led"

text \<open>\<open>build_package\<close> yields the serialized metadata, or the error of its extraction, and the code.\<close>

definition encode_publish_payload :: "cmd_env \<Rightarrow> string \<Rightarrow> TransactionPayload result" where
  "encode_publish_payload c package_dir =
     and_then (build_package c package_dir) (\<lambda>(metadata, compiled_units).
     and_then metadata (\<lambda>metadata.
     and_then (code_publish_package_txn (bcs_of c) metadata compiled_units) (\<lambda>payload.
     and_then (payload_size c payload) (\<lambda>size.
     if MAX_PUBLISH_PACKAGE_SIZE c < size then Inl (Err ''The package is larger than the limit'')
     else Inr payload))))"

section \<open>What a command submits\<close>

lemma send_payload_effect:
  assumes "signer_ok (cmd_tx c)" "send_payload c cl payload s led = (r, s', led')"
  shows "led' = led \<or> (\<exists>p. payload = Inr p \<and> led' = led @ [signed_tx (cmd_tx c) p s])"
    "la_address (local_account s') = la_address (local_account s)"
    "is_ok r \<Longrightarrow> \<exists>p. payload = Inr p \<and> led' = led @ [signed_tx (cmd_tx c) p s]"
    "payload = Inr p \<Longrightarrow> is_ok (client_submit cl led (signed_tx (cmd_tx c) p s)) \<Longrightarrow> led' = led @ [signed_tx (cmd_tx c) p s]"
proof -
  have "(led' = led \<or> (\<exists>p. payload = Inr p \<and> led' = led @ [signed_tx (cmd_tx c) p s])) \<and>
    la_address (local_account s') = la_address (local_account s) \<and>
    (is_ok r \<longrightarrow> (\<exists>p. payload = Inr p \<and> led' = led @ [signed_tx (cmd_tx c) p s])) \<and>
    (payload = Inr p \<longrightarrow> is_ok (client_submit cl led (signed_tx (cmd_tx c) p s)) \<longrightarrow> led' = led @ [signed_tx (cmd_tx c) p s])"
  proof (cases payload)
    case (Inl e)
    then show ?thesis using assms(2) by (auto simp: send_payload_def)
  next
    case (Inr p)
    obtain d s1 l1 where d: "sign_submit_wait (cmd_tx c) cl p s led = (d, s1, l1)" by (metis prod_cases3)
    then have "s' = s1" "led' = l1" "is_ok r = is_ok d"
      using Inr assms(2) by (auto simp: send_payload_def is_ok_def split: sum.splits)
    then show ?thesis
      using sign_submit_wait_effect(1,2,5) [OF assms(1) d] Inr by (auto simp: next_sequence_def)
  qed
  then show "led' = led \<or> (\<exists>p. payload = Inr p \<and> led' = led @ [signed_tx (cmd_tx c) p s])"
    "la_address (local_account s') = la_address (local_account s)"
    "is_ok r \<Longrightarrow> \<exists>p. payload = Inr p \<and> led' = led @ [signed_tx (cmd_tx c) p s]"
    "payload = Inr p \<Longrightarrow> is_ok (client_submit cl led (signed_tx (cmd_tx c) p s)) \<Longrightarrow> led' = led @ [signed_tx (cmd_tx c) p s]"
    by blast+
qed

lemma signed_tx_fields [simp]:
  "tb_payload (tx_request (signed_tx env p s)) = p" "tx_sender (signed_tx env p s) = la_address (local_account s)"
  "tx_sequence (signed_tx env p s) = la_sequence (local_account s)" "tb_chain_id (tx_request (signed_tx env p s)) = chain_id s"
  "tb_gas_unit_price (tx_request (signed_tx env p s)) = coin_price_per_unit (tx_cost s)"
  "tb_max_gas_amount (tx_request (signed_tx env p s)) = max_gas_unit_for_tx (tx_cost s)"
  by (simp_all add: signed_tx_def)

section \<open>Bids\<close>

text \<open>C27. A bid given as a decimal with three places, the nearest double of \<open>k / 1000\<close>, is submitted with exactly
  these digits, although the product with 1000 is computed in double precision: up to 1100 it becomes
  the bid \<open>k\<close>, above it is rejected.\<close>

theorem pof_bid_exact:
  assumes "k \<le> 1000000"
  shows "make_payload c fs (Pof net_reward (Some (f64_round (of_nat k / 1000))) expiry False) =
    (if k \<le> 1100 then Inr (ProofOfFeePofUpdateBid (of_nat k) expiry)
     else Inl (Err ''a bid amount at 110.0% or above the epochs reward, will be rejected''))"
proof -
  have b: "scaled_bid (f64_round (of_nat k / 1000)) = of_nat k"
    using thousandths_exact [OF assms] assms f64_to_u64_nat [of k] by (simp add: scaled_bid_def)
  have "(1100 :: u64) < of_nat k \<longleftrightarrow> 1100 < k"
    using assms by (simp add: word_less_nat_alt unat_of_nat)
  then show ?thesis by (simp add: b)
qed

section \<open>Key rotation\<close>

text \<open>The message whose signature the chain checks in \<^verbatim>\<open>account.move\<close> before it rotates a key.\<close>

definition rotation_challenge ::
  "cmd_env \<Rightarrow> AccountAddress \<Rightarrow> AuthenticationKey \<Rightarrow> u64 \<Rightarrow> PublicKey \<Rightarrow> u8 list result" where
  "rotation_challenge c originator authkey seq new_public_key =
     rotation_proof_to_bytes c
       \<lparr>rp_account_address = 1, rp_module_name = ''account'', rp_struct_name = ''RotationProofChallenge'',
        rp_sequence_number = seq, rp_originator = originator, rp_current_auth_key = authkey,
        rp_new_public_key = new_public_key\<rparr>"

text \<open>The checks of \<^verbatim>\<open>rotate_authentication_key\<close> and of \<^verbatim>\<open>rotate_authentication_key_with_rotation_capability\<close> on a
  payload, for the account \<open>a\<close> with authentication key \<open>ak\<close> and the sequence number \<open>seq\<close> of the sender.\<close>

definition rotation_proved ::
  "(PublicKey \<Rightarrow> u8 list \<Rightarrow> u8 list \<Rightarrow> bool) \<Rightarrow> cmd_env \<Rightarrow> AccountAddress \<Rightarrow> AuthenticationKey \<Rightarrow> u64 \<Rightarrow> PublicKey \<Rightarrow>
   TransactionPayload \<Rightarrow> bool" where
  "rotation_proved verify c a ak seq new_pk p \<longleftrightarrow>
     (\<exists>pk sig new_sig msg. decode (bcs_of c) p = Some (AccountRotateAuthenticationKey 0 pk 0 new_pk sig new_sig) \<and>
        auth_key_ed25519 (keys (cmd_tx c)) pk = ak \<and> rotation_challenge c a ak seq new_pk = Inr msg \<and>
        verify pk msg sig \<and> verify new_pk msg new_sig)"

definition rotation_proved_delegated ::
  "(PublicKey \<Rightarrow> u8 list \<Rightarrow> u8 list \<Rightarrow> bool) \<Rightarrow> cmd_env \<Rightarrow> AccountAddress \<Rightarrow> AuthenticationKey \<Rightarrow> u64 \<Rightarrow> PublicKey \<Rightarrow>
   TransactionPayload \<Rightarrow> bool" where
  "rotation_proved_delegated verify c a ak seq new_pk p \<longleftrightarrow>
     (\<exists>new_sig msg. decode (bcs_of c) p =
          Some (AccountRotateAuthenticationKeyWithRotationCapability a 0 new_pk new_sig) \<and>
        rotation_challenge c a ak seq new_pk = Inr msg \<and> verify new_pk msg new_sig)"

text \<open>\<open>verify\<close> checks what \<^verbatim>\<open>sign_arbitrary_message\<close> signs.\<close>

abbreviation signatures_verify :: "(PublicKey \<Rightarrow> u8 list \<Rightarrow> u8 list \<Rightarrow> bool) \<Rightarrow> cmd_env \<Rightarrow> bool" where
  "signatures_verify verify c \<equiv> (\<forall>k m. verify (public_key_of (keys (cmd_tx c)) k) m (sign_arbitrary_message c k m))"

lemma rotate_key_proved:
  assumes "bcs_library (bcs_of c)" "signatures_verify verify c"
    "rotate_key c a key (auth_key_of (cmd_tx c) key) seq new = Inr p"
  shows "rotation_proved verify c a (auth_key_of (cmd_tx c) key) seq (public_key_of (keys (cmd_tx c)) new) p"
proof -
  let ?pk = "public_key_of (keys (cmd_tx c))"
  obtain msg where msg: "rotation_challenge c a (auth_key_of (cmd_tx c) key) seq (?pk new) = Inr msg"
      "encode (bcs_of c) (AccountRotateAuthenticationKey 0 (?pk key) 0 (?pk new)
         (sign_arbitrary_message c key msg) (sign_arbitrary_message c new msg)) = Inr p"
    using assms(3) by (auto simp: rotate_key_def rotation_challenge_def Let_def and_then_eq_Inr)
  then show ?thesis
    using bcs_library.decode_encode [OF assms(1) msg(2)] assms(2)
    by (auto simp: rotation_proved_def auth_key_of_def intro!: exI [of _ "?pk key"])
qed

lemma rotate_key_delegated_proved:
  assumes "bcs_library (bcs_of c)" "signatures_verify verify c" "rotate_key_delegated c seq a ak new = Inr p"
  shows "rotation_proved_delegated verify c a ak seq (public_key_of (keys (cmd_tx c)) new) p"
proof -
  let ?pk = "public_key_of (keys (cmd_tx c))"
  obtain msg where msg: "rotation_challenge c a ak seq (?pk new) = Inr msg"
      "encode (bcs_of c) (AccountRotateAuthenticationKeyWithRotationCapability a 0 (?pk new)
         (sign_arbitrary_message c new msg)) = Inr p"
    using assms(3) by (auto simp: rotate_key_delegated_def rotation_challenge_def Let_def and_then_eq_Inr)
  then show ?thesis
    using bcs_library.decode_encode [OF assms(1) msg(2)] assms(2) by (auto simp: rotation_proved_delegated_def)
qed

text \<open>C19. The key rotation command submits at most one transaction, only after every prompt was confirmed, and
  its payload passes the checks of the chain. Without a claimed account it carries the challenge for the
  sender's own address, authentication key and sequence number, signed by the current and by the new
  key; with one, the challenge for the claimed account and its authentication key on chain, with the
  sender's sequence number, signed by the new key.\<close>

theorem rotate_key_command:
  assumes env: "signer_ok (cmd_tx c)" and bcs: "bcs_library (bcs_of c)" and ver: "signatures_verify verify c"
    and run: "RotateKeyTx_run c cl new_key claim confirm s led = (r, s', led')"
  shows "led' = led \<or>
    (\<exists>tx seq new. led' = led @ [tx] \<and> tx_sender tx = la_address (local_account s) \<and>
      (confirm \<longrightarrow> confirm_prompt c 0 \<and> confirm_prompt c 1) \<and>
      get_sequence_number cl led (la_address (local_account s)) = Inr seq \<and>
      (\<forall>pk. new_key = Some pk \<longrightarrow> private_key_from_encoded_string c pk = Inr new) \<and>
      (case claim of
         None \<Rightarrow> rotation_proved verify c (la_address (local_account s))
           (auth_key_of (cmd_tx c) (la_key (local_account s))) seq (public_key_of (keys (cmd_tx c)) new)
           (tb_payload (tx_request tx))
       | Some a \<Rightarrow> \<exists>ak. account_authentication_key c led a = Inr ak \<and>
           rotation_proved_delegated verify c a ak seq (public_key_of (keys (cmd_tx c)) new) (tb_payload (tx_request tx))))"
  using send_payload_effect(1) [OF env run [unfolded RotateKeyTx_run_def]]
proof
  assume "\<exists>p. rotation_payload c cl new_key claim confirm s led = Inr p \<and> led' = led @ [signed_tx (cmd_tx c) p s]"
  then show ?thesis
    using rotate_key_proved [OF bcs ver] rotate_key_delegated_proved [OF bcs ver]
    by (fastforce simp: rotation_payload_def Let_def and_then_eq_Inr split: if_splits option.splits)
qed simp

section \<open>Examples\<close>

definition example_cmd :: cmd_env where
  "example_cmd = \<lparr>cmd_tx = example_env, cmd_view = example_view, global_config_dir = ''home'', path_exists = (\<lambda>_. True),
     operator_from_yaml = (\<lambda>_. Inr example_operator), as_network_address = (\<lambda>h _. Inr h),
     network_addresses_to_bytes = (\<lambda>as. Inr (into_bytes (concat as))), hex_decode = (\<lambda>s. Inr (into_bytes s)),
     sign_arbitrary_message = (\<lambda>k m. public_key_of example_vendor k @ m),
     rotation_proof_to_bytes = (\<lambda>ch. Inr (rp_new_public_key ch @ [of_nat (unat (rp_sequence_number ch))])),
     rotation_offer_to_bytes = (\<lambda>_. Inr []), private_key_from_encoded_string = (\<lambda>s. Inr (into_bytes s)),
     keys_from_prompt = Inl (Err ''no terminal''), confirm_prompt = (\<lambda>_. True),
     account_authentication_key = (\<lambda>_ a. Inr a), Identifier_new = Inr, parse_type_tags = (\<lambda>_. Inr []),
     parse_transaction_arguments = (\<lambda>_. Inr []), convert_txn_args = (\<lambda>_. []),
     build_package = (\<lambda>_. Inr (Inr [], [])), payload_size = (\<lambda>_. Inr 1), MAX_PUBLISH_PACKAGE_SIZE = 60000\<rparr>"

definition example_verify :: "PublicKey \<Rightarrow> u8 list \<Rightarrow> u8 list \<Rightarrow> bool" where
  "example_verify pk m sig \<longleftrightarrow> sig = pk @ m"

lemma example_cmd_env: "signer_ok (cmd_tx example_cmd)" "bcs_library (bcs_of example_cmd)"
  "signatures_verify example_verify example_cmd"
  using example_signer_ok ref_bcs.bcs_library_axioms
  by (simp_all add: example_cmd_def example_env_def example_verify_def)

theorem pof_bid_exact_witness:
  "make_payload example_cmd example_fs (Pof 0 (Some (f64_round (1001 / 1000))) 7 False) = Inr (ProofOfFeePofUpdateBid 1001 7)"
  using pof_bid_exact [of 1001 example_cmd example_fs 0 7] by simp

lemma example_rotation_payload:
  "\<exists>p. rotation_payload example_cmd example_client (Some ''k'') None True (next_sequence example_sender) [] = Inr p"
proof -
  have "is_ok (encode ref_bcs (AccountRotateAuthenticationKey 0 pk 0 new s1 s2))"
    if "length pk \<le> 9" "length new \<le> 9" "length s1 \<le> 9" "length s2 \<le> 9" for pk new s1 s2
    using that by (intro ref_bcs.encode_fits) simp
  moreover have "length (public_key_of example_vendor k) = length k" for k
    by (simp add: example_vendor_def crypto.extend_def example_crypto_def)
  ultimately show ?thesis
    by (simp add: rotation_payload_def example_cmd_def example_env_def example_client_def rotate_key_def Let_def is_ok_iff and_then_eq_Inr
      next_sequence_def example_sender_def into_bytes_def)
qed

theorem rotate_key_command_witness:
  "\<exists>r s' tx seq. RotateKeyTx_run example_cmd example_client (Some ''k'') None True (next_sequence example_sender) [] = (r, s', [tx]) \<and>
     rotation_proved example_verify example_cmd 77 (auth_key_of example_env []) seq (public_key_of example_vendor (into_bytes ''k''))
       (tb_payload (tx_request tx))"
proof -
  let ?s = "next_sequence example_sender"
  obtain r s' led' where run: "RotateKeyTx_run example_cmd example_client (Some ''k'') None True ?s [] = (r, s', led')"
    by (metis prod_cases3)
  obtain p where p: "rotation_payload example_cmd example_client (Some ''k'') None True ?s [] = Inr p"
    using example_rotation_payload by blast
  have "is_ok (client_submit example_client [] (signed_tx (cmd_tx example_cmd) p ?s))"
    by (simp add: example_client_def signed_tx_def next_sequence_def example_sender_def)
  then have led: "led' = [signed_tx (cmd_tx example_cmd) p ?s]"
    using send_payload_effect(4) [OF example_cmd_env(1) run [unfolded RotateKeyTx_run_def] p] by simp
  have "la_address (local_account ?s) = 77" "la_key (local_account ?s) = []"
    "cmd_tx example_cmd = example_env" "keys example_env = example_vendor"
    "private_key_from_encoded_string example_cmd ''k'' = Inr (into_bytes ''k'')"
    by (simp_all add: next_sequence_def example_sender_def example_cmd_def example_env_def)
  then show ?thesis using rotate_key_command [OF example_cmd_env run] led run by auto
qed

end
