(* ===== verification/Txs_Cli.thy ===== *)
theory Txs_Cli
  imports Tx_Commands
begin

text \<open>
  The transaction command line (\<^verbatim>\<open>TxsCli::run\<close> of \<^verbatim>\<open>tools/txs/src/txs_cli.rs\<close>): from the arguments and the
  configuration file to the key, the chain, the node, the cost and the command. The record \<open>cli_env\<close>
  adds to the commands' environment the configuration reader, the mnemonic hash and the connection.
  The lemmas state what a run adds to the ledger, over all subcommands, and which call each
  subcommand submits.
\<close>

section \<open>Arguments\<close>

datatype TxsSub =
    User UserTxs
  | Validator ValidatorTxs
  | Governance GovernanceTxs
  | Community CommunityTxs
  | Transfer AccountAddress f64
  | Publish string
  | GenerateTransaction string "string option" "string option"

record TxsCli =
  subcommand :: "TxsSub option"
  config_path :: "string option"
  cli_mnemonic :: "string option"
  cli_test_private_key :: "string option"
  tx_profile :: "TxType option"
  cli_tx_cost :: "TxCost option"
  cli_chain_id :: "NamedChain option"
  cli_url :: "Url option"
  estimate_only :: bool
  legacy_address :: bool

record cli_env =
  commands :: cmd_env
  cfg_from_yaml :: "string \<Rightarrow> AppCfg result"
  cli_sha256 :: "u8 list \<Rightarrow> u8 list"
  connect :: "Url \<Rightarrow> client"
  named_chain_id :: "NamedChain \<Rightarrow> u8"

section \<open>The run\<close>

definition choose_key :: "cli_env \<Rightarrow> TxsCli \<Rightarrow> Profile \<Rightarrow> PrivateKey result" where
  "choose_key e self profile =
     (let c = commands e in
      case cli_test_private_key self of
        Some pk \<Rightarrow> private_key_from_encoded_string c pk
      | None \<Rightarrow>
          (case cli_mnemonic self of
             Some m \<Rightarrow> and_then (get_keys_from_mnem (cli_sha256 e) (keys (cmd_tx c)) m) (\<lambda>legacy. Inr (pri_key (child_0_owner legacy)))
           | None \<Rightarrow>
               (case borrow_private_key profile of
                  Inr p \<Rightarrow> Inr p
                | Inl _ \<Rightarrow> and_then (keys_from_prompt c) (\<lambda>legacy. Inr (pri_key (child_0_owner legacy))))))"

definition chosen_chain :: "TxsCli \<Rightarrow> AppCfg \<Rightarrow> NamedChain" where
  "chosen_chain self app_cfg = (case cli_chain_id self of Some n \<Rightarrow> n | None \<Rightarrow> default_chain_id (workspace app_cfg))"

definition chosen_cost :: "cli_env \<Rightarrow> TxsCli \<Rightarrow> AppCfg \<Rightarrow> TxCost" where
  "chosen_cost e self app_cfg =
     (case cli_tx_cost self of
        Some cost \<Rightarrow> cost
      | None \<Rightarrow> get_cost (gas_unit_price (cmd_tx (commands e))) (max_gas_amount (cmd_tx (commands e)))
                  (tx_configs app_cfg) (tx_profile self))"

text \<open>Everything before the dispatch: the node and the sender.\<close>

definition cli_sender :: "cli_env \<Rightarrow> TxsCli \<Rightarrow> ledger \<Rightarrow> file_system \<Rightarrow> (client \<times> Sender) result" where
  "cli_sender e self led fs =
     (let env = cmd_tx (commands e) in
      and_then (load (cfg_from_yaml e) (global_config_dir (commands e)) (config_path self) fs) (\<lambda>app_cfg.
      and_then (get_profile (address_to_string env) app_cfg None) (\<lambda>profile.
      and_then (choose_key e self profile) (\<lambda>key.
      let chain_name = chosen_chain self app_cfg in
      and_then (case cli_url self of Some u \<Rightarrow> Inr u | None \<Rightarrow> pick_url app_cfg (Some chain_name)) (\<lambda>url.
      let cl = connect e url in
      and_then (Sender_new env (Inr cl) led key (named_chain_id e chain_name) (Some cl) (legacy_address self)) (\<lambda>(cl, send).
      Inr (cl, set_tx_cost (chosen_cost e self app_cfg) send)))))))"

definition forget :: "'a result \<times> Sender \<times> ledger \<Rightarrow> file_system \<Rightarrow> unit result \<times> Sender \<times> ledger \<times> file_system" where
  "forget p fs = (case p of (r, s, led) \<Rightarrow> (map_sum id (\<lambda>_. ()) r, s, led, fs))"

fun dispatch ::
  "cmd_env \<Rightarrow> client \<Rightarrow> bool \<Rightarrow> TxsSub option \<Rightarrow> Sender \<Rightarrow> ledger \<Rightarrow> file_system \<Rightarrow>
   unit result \<times> Sender \<times> ledger \<times> file_system" where
  "dispatch c cl est (Some (Transfer to_account decimal)) s led fs = forget (transfer c cl to_account decimal est s led) fs"
| "dispatch c cl est (Some (Publish dir)) s led fs = forget (send_payload c cl (encode_publish_payload c dir) s led) fs"
| "dispatch c cl est (Some (GenerateTransaction function_id types arguments)) s led fs =
     forget (generic c cl function_id types arguments s led) fs"
| "dispatch c cl est (Some (Validator val_txs)) s led fs = forget (ValidatorTxs_run c cl fs val_txs s led) fs"
| "dispatch c cl est (Some (Governance upgrade_txs)) s led fs = forget (GovernanceTxs_run c cl fs upgrade_txs s led) fs"
| "dispatch c cl est (Some (User user_txs)) s led fs = forget (UserTxs_run c cl user_txs s led) fs"
| "dispatch c cl est (Some (Community comm_txs)) s led fs = CommunityTxs_run c cl comm_txs s led fs"
| "dispatch c cl est None s led fs = (Inr (), s, led, fs)"

definition TxsCli_run :: "cli_env \<Rightarrow> TxsCli \<Rightarrow> ledger \<Rightarrow> file_system \<Rightarrow> unit result \<times> ledger \<times> file_system" where
  "TxsCli_run e self led fs =
     (case cli_sender e self led fs of
        Inl err \<Rightarrow> (Inl err, led, fs)
      | Inr (cl, send) \<Rightarrow>
          (case dispatch (commands e) cl (estimate_only self) (subcommand self) send led fs of
             (r, _, led, fs) \<Rightarrow> (r, led, fs)))"

section \<open>What a run adds to the ledger\<close>

text \<open>\<open>stamped\<close>: a transaction of the sender \<open>s\<close>, for its chain and with its gas price and limit.\<close>

definition stamped :: "Sender \<Rightarrow> SignedTransaction \<Rightarrow> bool" where
  "stamped s tx \<longleftrightarrow> tx_sender tx = la_address (local_account s) \<and> tb_chain_id (tx_request tx) = chain_id s \<and>
     tb_gas_unit_price (tx_request tx) = coin_price_per_unit (tx_cost s) \<and>
     tb_max_gas_amount (tx_request tx) = max_gas_unit_for_tx (tx_cost s)"

definition is_batch :: "TxsSub option \<Rightarrow> bool" where
  "is_batch sub \<longleftrightarrow> (\<exists>b. sub = Some (Community (Batch b)))"

text \<open>The call a subcommand asks for, as a reference: a table from arguments to calls, where the command
  has one.\<close>

fun intended :: "cmd_env \<Rightarrow> file_system \<Rightarrow> TxsSub \<Rightarrow> EntryFunctionCall option" where
  "intended c fs (Transfer to_account decimal) = Some (OlAccountTransfer to_account (cast_decimal_to_coin decimal))"
| "intended c fs (Validator v) = (case make_payload c fs v of Inr call \<Rightarrow> Some call | Inl _ \<Rightarrow> None)"
| "intended c fs (Governance (Gov_Vote pid should_fail)) = Some (DiemGovernanceOlVote pid (\<not> should_fail))"
| "intended c fs (Governance Gov_EpochBoundary) = Some DiemGovernanceTriggerEpoch"
| "intended c fs (User SetSlow) = Some SlowWalletUserSetSlow"
| "intended c fs (Community (GovInit admins n)) = Some (CommunityWalletInitInitCommunity admins n)"
| "intended c fs (Community (GovOffer admins n)) = Some (CommunityWalletInitProposeOffer admins n)"
| "intended c fs (Community (GovClaim w)) = Some (MultiActionClaimOffer w)"
| "intended c fs (Community (GovCage n)) = Some (CommunityWalletInitFinalizeAndCage n)"
| "intended c fs (Community (GovAdmin w admin d n epochs)) =
     Some (CommunityWalletInitChangeSignerCommunityMultisig w admin (d \<noteq> Some False) n (case epochs of Some e \<Rightarrow> e | None \<Rightarrow> 10))"
| "intended c fs (Community (Propose w payee coins memo)) =
     Some (DonorVoiceTxsProposePaymentTx w payee (cast_decimal_to_coin (f64_of_u64 coins)) (into_bytes memo))"
| "intended c fs (Community (Veto w pid)) = Some (DonorVoiceTxsProposeVetoTx w pid)"
| "intended c fs (Community (Migration w)) = Some (MultiActionMigrationMigrateOffer w)"
| "intended c fs (Community GovInitDeprectated) = Some MultiActionInitGovDeprecated"
| "intended c fs _ = None"


text \<open>The payload of a subcommand other than a batch.\<close>

fun sub_payload :: "cmd_env \<Rightarrow> client \<Rightarrow> Sender \<Rightarrow> ledger \<Rightarrow> file_system \<Rightarrow> TxsSub \<Rightarrow> TransactionPayload result" where
  "sub_payload c cl s led fs (Transfer to_account decimal) =
     encode (bcs_of c) (OlAccountTransfer to_account (cast_decimal_to_coin decimal))"
| "sub_payload c cl s led fs (Publish dir) = encode_publish_payload c dir"
| "sub_payload c cl s led fs (GenerateTransaction f types arguments) =
     and_then (build_entry_function c f types arguments) (\<lambda>e. Inr (EntryFunction e))"
| "sub_payload c cl s led fs (Validator v) = and_then (make_payload c fs v) (encode (bcs_of c))"
| "sub_payload c cl s led fs (Governance g) = governance_payload c fs led g"
| "sub_payload c cl s led fs (User SetSlow) = slow_wallet_user_set_slow (bcs_of c)"
| "sub_payload c cl s led fs (User (RotateKey k claim)) = rotation_payload c cl k claim True s led"
| "sub_payload c cl s led fs (User (RotationCapability revoke d)) = capability_payload c cl revoke d s led"
| "sub_payload c cl s led fs (Community cm) = community_payload c cm"

definition only_estimates :: "bool \<Rightarrow> TxsSub option \<Rightarrow> bool" where
  "only_estimates est sub \<longleftrightarrow> est \<and> (\<exists>t d. sub = Some (Transfer t d))"

lemma print_error_snd: "print_error p = (r, x) \<Longrightarrow> \<exists>q. p = (q, x)"
  by (auto simp: print_error_def split: prod.splits sum.splits error.splits)

lemma dispatch_send:
  assumes "dispatch c cl est (Some sub) s led fs = (r, s', led', fs')" "\<not> is_batch (Some sub)" "\<not> only_estimates est (Some sub)"
  shows "fs' = fs \<and> (\<exists>q. send_payload c cl (sub_payload c cl s led fs sub) s led = (q, s', led'))"
proof (cases sub)
  case (User u)
  then show ?thesis using assms(1)
    by (cases u) (auto simp: forget_def SetSlowTx_run_def RotationCapabilityTx_run_def RotateKeyTx_run_def
      dest!: print_error_snd split: prod.splits)
next
  case (Community cm)
  then show ?thesis using assms(1,2)
    by (cases cm) (auto simp: CommunityTxs_run_def is_batch_def dest!: print_error_snd split: prod.splits)
next
  case (Transfer t d)
  then show ?thesis using assms(1,3)
    by (auto simp: forget_def transfer_def send_payload_def only_estimates_def Let_def split: prod.splits sum.splits error.splits)
qed (use assms(1) in \<open>auto simp: forget_def generic_def ValidatorTxs_run_def GovernanceTxs_run_def split: prod.splits\<close>)

lemma dispatch_estimate:
  assumes "dispatch c cl est sub s led fs = (r, s', led', fs')" "sub = None \<or> only_estimates est sub"
  shows "led' = led \<and> fs' = fs"
  using assms by (auto simp: only_estimates_def forget_def transfer_def Let_def split: prod.splits sum.splits)

subsection \<open>Batches\<close>

definition same_stamp :: "Sender \<Rightarrow> Sender \<Rightarrow> bool" where
  "same_stamp s s' \<longleftrightarrow> la_address (local_account s') = la_address (local_account s) \<and> chain_id s' = chain_id s \<and>
     tx_cost s' = tx_cost s"

lemma same_stamp_refl [simp]: "same_stamp s s"
  by (simp add: same_stamp_def)

lemma same_stamp_trans: "same_stamp s s1 \<Longrightarrow> same_stamp s1 s2 \<Longrightarrow> same_stamp s s2"
  by (simp add: same_stamp_def)

lemma stamped_same: "same_stamp s s1 \<Longrightarrow> stamped s1 = stamped s"
  by (auto simp: fun_eq_iff same_stamp_def stamped_def)

lemma stamped_signed [simp]: "stamped s (signed_tx env p s)"
  by (simp add: stamped_def)

definition adds_stamped :: "Sender \<Rightarrow> ledger \<Rightarrow> Sender \<Rightarrow> ledger \<Rightarrow> bool" where
  "adds_stamped s led s' led' \<longleftrightarrow> same_stamp s s' \<and> (\<exists>txs. led' = led @ txs \<and> list_all (stamped s) txs)"

lemma adds_stamped_refl [simp]: "adds_stamped s led s led"
  by (simp add: adds_stamped_def)

lemma adds_stamped_trans: "adds_stamped s led s1 l1 \<Longrightarrow> adds_stamped s1 l1 s2 l2 \<Longrightarrow> adds_stamped s led s2 l2"
  by (auto simp: adds_stamped_def stamped_same intro: same_stamp_trans)

lemma sign_submit_stamped:
  assumes "signer_ok env" "sign_submit_wait env cl p s led = (r, s', led')"
  shows "adds_stamped s led s' led'"
  using sign_submit_wait_effect(1-4) [OF assms]
  by (auto simp: adds_stamped_def same_stamp_def next_sequence_def)

lemma propose_single_stamped:
  assumes "signer_ok env" "propose_single env cl w inst s led = (r, s', led')"
  shows "adds_stamped s led s' led'"
  using assms(2) by (auto simp: propose_single_def intro: sign_submit_stamped [OF assms(1)] split: sum.splits prod.splits)

lemma batch_step_stamped:
  assumes "signer_ok env" "batch_step env cl view self known inst s led = (r, s', led')"
  shows "adds_stamped s led s' led'"
  using assms(2)
  by (auto simp: batch_step_def Let_def intro: propose_single_stamped [OF assms(1)]
    split: sum.splits if_splits prod.splits error.splits)

lemma batch_loop_stamped:
  assumes "signer_ok env" "batch_loop env cl view self known list s led = (r, s', led')"
  shows "adds_stamped s led s' led'"
  using assms(2)
proof (induction list arbitrary: s led r)
  case (Cons inst rest)
  obtain q s1 l1 where step: "batch_step env cl view self known inst s led = (q, s1, l1)" by (metis prod_cases3)
  then show ?case
    using Cons batch_step_stamped [OF assms(1) step]
    by (auto intro: adds_stamped_trans split: sum.splits prod.splits)
qed simp

lemma BatchTx_run_stamped:
  assumes "signer_ok env" "BatchTx_run env cl view self s led fs = (r, s', led', fs')"
  shows "adds_stamped s led s' led'"
  using assms(2)
  by (auto simp: BatchTx_run_def intro: batch_loop_stamped [OF assms(1)] split: sum.splits prod.splits)

lemma dispatch_stamped:
  assumes env: "signer_ok (cmd_tx c)" and run: "dispatch c cl est sub s led fs = (r, s', led', fs')"
  shows "\<exists>txs. led' = led @ txs \<and> list_all (stamped s) txs \<and> (\<not> is_batch sub \<longrightarrow> length txs \<le> 1 \<and> fs' = fs) \<and>
    (sub = None \<or> only_estimates est sub \<longrightarrow> txs = [])"
proof -
  consider "sub = None \<or> only_estimates est sub" | (batch) b where "sub = Some (Community (Batch b))"
    | (one) x where "sub = Some x" "\<not> is_batch sub" "\<not> only_estimates est sub"
    by (cases sub) (auto simp: is_batch_def)
  then show ?thesis
  proof cases
    case 1
    then show ?thesis using dispatch_estimate [OF run] by auto
  next
    case batch
    obtain q where "BatchTx_run (cmd_tx c) cl (cmd_view c) b s led fs = (q, s', led', fs')"
      using run batch by (auto simp: CommunityTxs_run_def dest!: print_error_snd)
    from BatchTx_run_stamped [OF env this] show ?thesis
      using batch by (auto simp: adds_stamped_def is_batch_def only_estimates_def)
  next
    case one
    then obtain q where "fs' = fs" "send_payload c cl (sub_payload c cl s led fs x) s led = (q, s', led')"
      using dispatch_send run by blast
    then show ?thesis using send_payload_effect(1) [OF env] one by fastforce
  qed
qed


text \<open>The account that the arguments select: the originating address, at the chosen node, of the chosen key.\<close>

definition cli_account :: "cli_env \<Rightarrow> TxsCli \<Rightarrow> ledger \<Rightarrow> file_system \<Rightarrow> AppCfg \<Rightarrow> AccountAddress \<Rightarrow> bool" where
  "cli_account e self led fs cfg a \<longleftrightarrow>
     (let env = cmd_tx (commands e) in
      load (cfg_from_yaml e) (global_config_dir (commands e)) (config_path self) fs = Inr cfg \<and>
      (\<exists>profile key url a0. get_profile (address_to_string env) cfg None = Inr profile \<and>
         choose_key e self profile = Inr key \<and>
         (case cli_url self of Some u \<Rightarrow> Inr u | None \<Rightarrow> pick_url cfg (Some (chosen_chain self cfg))) = Inr url \<and>
         lookup_originating_address (connect e url) led (auth_key_of env key) = Inr a0 \<and>
         (if legacy_address self then to_legacy_address (address_to_string env) (address_from_literal env) a0 = Inr a
          else a = a0)))"

lemma cli_sender_Inr:
  assumes "cli_sender e self led fs = Inr (cl, s)"
  shows "\<exists>cfg. cli_account e self led fs cfg (la_address (local_account s)) \<and>
    chain_id s = named_chain_id e (chosen_chain self cfg) \<and> tx_cost s = chosen_cost e self cfg"
  using assms
  by (auto simp: cli_sender_def cli_account_def Sender_new_def Let_def and_then_eq_Inr set_tx_cost_def
    split: if_splits)


lemma intended_payload:
  "intended c fs sub = Some call \<Longrightarrow> sub_payload c cl s led fs sub = encode (bcs_of c) call"
  by (induction c fs sub rule: intended.induct) (auto split: sum.splits option.splits)


section \<open>Examples\<close>

definition example_profile :: Profile where
  "example_profile = Profile_default\<lparr>test_private_key := Some [1]\<rparr>"

definition example_cli_env :: cli_env where
  "example_cli_env = \<lparr>commands = example_cmd,
     cfg_from_yaml = (\<lambda>_. Inr \<lparr>workspace = Workspace_default ''home'', user_profiles = [example_profile], network_playlist = [],
       tx_configs = TxConfigs_default 100 2000000\<rparr>),
     cli_sha256 = (\<lambda>_. []), connect = (\<lambda>_. example_client\<lparr>get_sequence_number := (\<lambda>_ _. Inr 6)\<rparr>),
     named_chain_id = (\<lambda>_. 1)\<rparr>"

definition example_cli :: TxsCli where
  "example_cli = \<lparr>subcommand = Some (Validator (Vouch 7 False)), config_path = Some ''batch.json'', cli_mnemonic = None,
     cli_test_private_key = None, tx_profile = None, cli_tx_cost = None, cli_chain_id = None,
     cli_url = Some (Url ''node''), estimate_only = False, legacy_address = False\<rparr>"

lemma example_cli_sender:
  "\<exists>s. cli_sender example_cli_env example_cli [] example_fs =
     Inr (example_client\<lparr>get_sequence_number := (\<lambda>_ _. Inr 6)\<rparr>, s) \<and> la_sequence (local_account s) = 6"
  by (simp add: cli_sender_def example_cli_def example_cli_env_def example_fs_def load_def get_profile_def get_profile_idx_def
    unwrap_or_def vec_get_def choose_key_def borrow_private_key_def example_profile_def Sender_new_def example_client_def set_tx_cost_def Let_def)

lemma example_vouch_submitted:
  assumes "la_sequence (local_account s) = 6" "client_submit cl = client_submit example_client"
    and run: "dispatch example_cmd cl False (Some (Validator (Vouch 7 False))) s [] fs = (r, s', led', fs')"
  shows "\<exists>p. led' = [signed_tx (cmd_tx example_cmd) p s]"
proof -
  have "is_ok (encode (bcs_of example_cmd) (VouchVouchFor 7))"
    by (rule bcs_library.encode_fits [OF example_cmd_env(2)]) simp
  then obtain p where p: "sub_payload example_cmd cl s [] fs (Validator (Vouch 7 False)) = Inr p"
    by (auto simp: is_ok_iff)
  obtain q where q: "send_payload example_cmd cl (Inr p) s [] = (q, s', led')"
    using dispatch_send [OF run] p by (auto simp: is_batch_def only_estimates_def)
  have "is_ok (client_submit cl [] (signed_tx (cmd_tx example_cmd) p s))"
    using assms(1) unfolding assms(2) by (simp add: example_client_def)
  then show ?thesis using send_payload_effect(4) [OF example_cmd_env(1) q] by auto
qed



end
