(* ===== verification/Supply_Stats.thy ===== *)
theory Supply_Stats
  imports Legacy_Recovery
begin

text \<open>
  The coin supply statistics of a recovery file (\<^verbatim>\<open>tools/genesis/src/supply.rs\<close>), which the source
  computes in double precision. \<open>exact_supply\<close> is the specification in natural numbers.
\<close>

record Supply =
  total :: f64
  normal :: f64
  validator :: f64
  slow_total :: f64
  slow_locked :: f64
  slow_validator_locked :: f64
  slow_unlocked :: f64
  donor_voice :: f64
  make_whole :: f64
  split_factor :: f64
  escrow_pct :: f64
  epoch_reward_base_case :: f64
  expected_user_balance :: f64
  expected_user_ratio :: f64
  expected_circulating :: f64
  expected_circulating_ratio :: f64

definition inc_supply :: "Supply \<Rightarrow> LegacyRecoveryV6 \<Rightarrow> Supply" where
  "inc_supply self r =
     (let user_total = (case balance r of Some b \<Rightarrow> f64_of_u64 (coin b) | None \<Rightarrow> Fin 0);
          self = self\<lparr>total := f64_add (total self) user_total\<rparr>
      in case slow_wallet r of
           Some sl \<Rightarrow>
             let self = self\<lparr>slow_total := f64_add (slow_total self) user_total\<rparr> in
             if 0 < unlocked sl then
               if f64_gt user_total (f64_of_u64 (unlocked sl)) then
                 let self = self\<lparr>slow_unlocked := f64_add (slow_unlocked self) (f64_of_u64 (unlocked sl))\<rparr>;
                     locked = f64_sub user_total (f64_of_u64 (unlocked sl));
                     self = self\<lparr>slow_locked := f64_add (slow_locked self) locked\<rparr>
                 in if val_cfg r \<noteq> None
                    then self\<lparr>validator := f64_add (validator self) user_total,
                              slow_validator_locked := f64_add (slow_validator_locked self) locked\<rparr>
                    else self
               else self\<lparr>slow_unlocked := f64_add (slow_unlocked self) user_total\<rparr>
             else self
         | None \<Rightarrow>
             if cumulative_deposits r \<noteq> None
             then self\<lparr>slow_locked := f64_add (slow_locked self) user_total,
                       slow_total := f64_add (slow_total self) user_total\<rparr>
             else self\<lparr>normal := f64_add (normal self) user_total\<rparr>)"

definition Supply_zero :: Supply where
  "Supply_zero = \<lparr>total = Fin 0, normal = Fin 0, validator = Fin 0, slow_total = Fin 0, slow_locked = Fin 0,
     slow_validator_locked = Fin 0, slow_unlocked = Fin 0, donor_voice = Fin 0, make_whole = Fin 0,
     split_factor = Fin 0, escrow_pct = Fin 0, epoch_reward_base_case = Fin 0, expected_user_balance = Fin 0,
     expected_user_ratio = Fin 0, expected_circulating = Fin 0, expected_circulating_ratio = Fin 0\<rparr>"

definition populate_supply_stats_from_legacy :: "LegacyRecoveryV6 list \<Rightarrow> Supply" where
  "populate_supply_stats_from_legacy rec = foldl inc_supply Supply_zero rec"

section \<open>The specification\<close>

definition user_coins :: "LegacyRecoveryV6 \<Rightarrow> nat" where
  "user_coins r = (case balance r of Some b \<Rightarrow> unat (coin b) | None \<Rightarrow> 0)"

text \<open>The kinds of account, and what each contributes.\<close>

definition is_slow :: "LegacyRecoveryV6 \<Rightarrow> bool" where
  "is_slow r = (slow_wallet r \<noteq> None \<or> cumulative_deposits r \<noteq> None)"

definition unlocked_coins :: "LegacyRecoveryV6 \<Rightarrow> nat" where
  "unlocked_coins r = (case slow_wallet r of Some s \<Rightarrow> min (unat (unlocked s)) (user_coins r) | None \<Rightarrow> 0)"

definition locked_coins :: "LegacyRecoveryV6 \<Rightarrow> nat" where
  "locked_coins r = (if is_slow r then user_coins r - unlocked_coins r else 0)"

text \<open>A slow wallet that has unlocked nothing yet.\<close>

definition never_unlocked :: "LegacyRecoveryV6 \<Rightarrow> bool" where
  "never_unlocked r = (case slow_wallet r of Some s \<Rightarrow> unlocked s = 0 | None \<Rightarrow> False)"

definition counted_validator :: "LegacyRecoveryV6 \<Rightarrow> bool" where
  "counted_validator r = (val_cfg r \<noteq> None \<and>
     (case slow_wallet r of Some s \<Rightarrow> 0 < unat (unlocked s) \<and> unat (unlocked s) < user_coins r | None \<Rightarrow> False))"

definition normal_coins :: "LegacyRecoveryV6 \<Rightarrow> nat" where
  "normal_coins r = (if is_slow r then 0 else user_coins r)"

definition slow_coins :: "LegacyRecoveryV6 \<Rightarrow> nat" where
  "slow_coins r = (if is_slow r then user_coins r else 0)"

definition slow_locked_coins :: "LegacyRecoveryV6 \<Rightarrow> nat" where
  "slow_locked_coins r = (if never_unlocked r then 0 else locked_coins r)"

definition validator_coins :: "LegacyRecoveryV6 \<Rightarrow> nat" where
  "validator_coins r = (if counted_validator r then user_coins r else 0)"

definition validator_locked_coins :: "LegacyRecoveryV6 \<Rightarrow> nat" where
  "validator_locked_coins r = (if counted_validator r then locked_coins r else 0)"

definition fsum :: "(LegacyRecoveryV6 \<Rightarrow> nat) \<Rightarrow> LegacyRecoveryV6 list \<Rightarrow> f64" where
  "fsum f rs = Fin (of_nat (sum_list (map f rs)))"

definition exact_supply :: "LegacyRecoveryV6 list \<Rightarrow> Supply" where
  "exact_supply rs = Supply_zero
     \<lparr>total := fsum user_coins rs, normal := fsum normal_coins rs, validator := fsum validator_coins rs,
      slow_total := fsum slow_coins rs, slow_locked := fsum slow_locked_coins rs,
      slow_validator_locked := fsum validator_locked_coins rs, slow_unlocked := fsum unlocked_coins rs\<rparr>"

section \<open>Exactness\<close>

lemma f64_add_of_nat:
  "a + b \<le> 2 ^ 53 \<Longrightarrow> f64_add (Fin (of_nat a)) (Fin (of_nat b)) = Fin (of_nat (a + b))"
  using f64_round_of_nat [of "a + b"] by simp

lemma f64_sub_of_nat:
  "b \<le> a \<Longrightarrow> a \<le> 2 ^ 53 \<Longrightarrow> f64_sub (Fin (of_nat a)) (Fin (of_nat b)) = Fin (of_nat (a - b))"
  using f64_round_of_nat [of "a - b"] by (simp add: f64_sub_def of_nat_diff)

lemma sum_list_map_le: "(\<And>r. f r \<le> g r) \<Longrightarrow> sum_list (map f rs) \<le> sum_list (map (g :: 'a \<Rightarrow> nat) rs)"
  by (induction rs) (auto intro: add_mono)

lemma contribution_le:
  "unlocked_coins r \<le> user_coins r" "locked_coins r \<le> user_coins r" "normal_coins r \<le> user_coins r"
  "slow_coins r \<le> user_coins r" "slow_locked_coins r \<le> user_coins r" "validator_coins r \<le> user_coins r"
  "validator_locked_coins r \<le> user_coins r"
  by (auto simp: unlocked_coins_def locked_coins_def normal_coins_def slow_coins_def slow_locked_coins_def
      validator_coins_def validator_locked_coins_def split: option.splits)

lemma fsum_add:
  assumes "\<And>r. f r \<le> user_coins r" "sum_list (map user_coins (rs @ [r])) \<le> 2 ^ 53" "f r = x"
  shows "f64_add (fsum f rs) (Fin (of_nat x)) = fsum f (rs @ [r])"
proof -
  have "sum_list (map f (rs @ [r])) \<le> 2 ^ 53"
    using sum_list_map_le [of f user_coins "rs @ [r]"] assms by (meson le_trans)
  then show ?thesis unfolding fsum_def using assms(3) by (subst f64_add_of_nat) simp_all
qed

lemma fsum_same: "f r = 0 \<Longrightarrow> fsum f rs = fsum f (rs @ [r])"
  by (simp add: fsum_def)

lemma user_total_exact:
  "user_coins r \<le> 2 ^ 53 \<Longrightarrow>
   (case balance r of Some b \<Rightarrow> f64_of_u64 (coin b) | None \<Rightarrow> Fin 0) = Fin (of_nat (user_coins r))"
  by (auto simp: user_coins_def f64_of_u64_exact split: option.splits)

definition unlocked_bounded :: "LegacyRecoveryV6 \<Rightarrow> bool" where
  "unlocked_bounded r = (case slow_wallet r of Some s \<Rightarrow> unat (unlocked s) \<le> 2 ^ 53 | None \<Rightarrow> True)"

lemmas contribution_defs = is_slow_def unlocked_coins_def locked_coins_def never_unlocked_def counted_validator_def
  normal_coins_def slow_coins_def slow_locked_coins_def validator_coins_def validator_locked_coins_def

lemma unat_gt_0_u64: "0 < (n :: u64) \<longleftrightarrow> 0 < unat n"
  by (simp add: word_less_nat_alt)

lemma inc_supply_exact:
  assumes b: "sum_list (map user_coins (rs @ [r])) \<le> 2 ^ 53" and u: "unlocked_bounded r"
  shows "inc_supply (exact_supply rs) r = exact_supply (rs @ [r])"
proof -
  have c: "user_coins r \<le> 2 ^ 53" using b by simp
  note adds = fsum_add [of user_coins, OF order_refl b] fsum_add [of normal_coins, OF contribution_le(3) b]
    fsum_add [of validator_coins, OF contribution_le(6) b] fsum_add [of slow_coins, OF contribution_le(4) b]
    fsum_add [of slow_locked_coins, OF contribution_le(5) b]
    fsum_add [of validator_locked_coins, OF contribution_le(7) b] fsum_add [of unlocked_coins, OF contribution_le(1) b]
  note facts = inc_supply_def exact_supply_def Let_def user_total_exact [OF c] adds contribution_defs
  show ?thesis
  proof (cases "slow_wallet r")
    case None
    then show ?thesis
      by (cases "cumulative_deposits r = None") (simp_all add: facts fsum_same [of _ r rs])
  next
    case (Some sl)
    obtain un where un: "unat (unlocked sl) = un" by simp
    have ub: "un \<le> 2 ^ 53" using u Some un by (simp add: unlocked_bounded_def)
    have ex: "f64_of_u64 (unlocked sl) = Fin (of_nat un)" using f64_of_u64_exact [of "unlocked sl"] ub unfolding un by simp
    have z: "0 < unlocked sl \<longleftrightarrow> 0 < un" "unlocked sl = 0 \<longleftrightarrow> un = 0"
      using un unat_gt_0_u64 [of "unlocked sl"] by (auto simp: unat_eq_0)
    consider "un = 0" | "0 < un" "un < user_coins r" | "0 < un" "user_coins r \<le> un" by linarith
    then show ?thesis
    proof cases
      case 1
      then show ?thesis using Some z by (simp add: facts un fsum_same [of _ r rs])
    next
      case 2
      then have "f64_sub (Fin (of_nat (user_coins r))) (Fin (of_nat un)) = Fin (of_nat (user_coins r - un))"
        using c by (intro f64_sub_of_nat) auto
      then show ?thesis using Some 2 ex z
        by (cases "val_cfg r = None") (simp_all add: facts un min_def fsum_same [of _ r rs] del: of_nat_diff)
    next
      case 3
      then show ?thesis using Some ex z by (simp add: facts un min_def fsum_same [of _ r rs])
    qed
  qed
qed

lemma populate_exact:
  "sum_list (map user_coins (ps @ rs)) \<le> 2 ^ 53 \<Longrightarrow> list_all unlocked_bounded rs \<Longrightarrow>
   foldl inc_supply (exact_supply ps) rs = exact_supply (ps @ rs)"
proof (induction rs arbitrary: ps)
  case (Cons r rs)
  then have "inc_supply (exact_supply ps) r = exact_supply (ps @ [r])" by (intro inc_supply_exact) auto
  with Cons.IH [of "ps @ [r]"] Cons.prems show ?case by simp
qed simp

lemma exact_supply_Nil: "exact_supply [] = Supply_zero"
  by (simp add: exact_supply_def Supply_zero_def fsum_def)

text \<open>C14. As long as the balances sum to at most \<open>2 ^ 53\<close> scaled coins, the double-precision statistics are
  exact: they equal the integer specification, the total is the normal plus the slow supply, and the
  slow supply is the locked plus the unlocked amount plus the balances of the slow wallets that have
  unlocked nothing yet, which neither of the two counters includes.\<close>

theorem supply_stats_exact:
  assumes "sum_list (map user_coins rs) \<le> 2 ^ 53" "list_all unlocked_bounded rs"
  shows "populate_supply_stats_from_legacy rs = exact_supply rs \<and>
    sum_list (map user_coins rs) = sum_list (map normal_coins rs) + sum_list (map slow_coins rs) \<and>
    sum_list (map slow_coins rs) = sum_list (map slow_locked_coins rs) + sum_list (map unlocked_coins rs) +
      sum_list (map user_coins (filter never_unlocked rs))"
proof (intro conjI)
  show "populate_supply_stats_from_legacy rs = exact_supply rs"
    using populate_exact [of "[]" rs] assms by (simp add: populate_supply_stats_from_legacy_def exact_supply_Nil)
  show "sum_list (map user_coins rs) = sum_list (map normal_coins rs) + sum_list (map slow_coins rs)"
    by (induction rs) (auto simp: normal_coins_def slow_coins_def)
  have "slow_coins r = slow_locked_coins r + unlocked_coins r + (if never_unlocked r then user_coins r else 0)" for r
    by (auto simp: contribution_defs split: option.splits)
  then show "sum_list (map slow_coins rs) = sum_list (map slow_locked_coins rs) + sum_list (map unlocked_coins rs) +
      sum_list (map user_coins (filter never_unlocked rs))"
    by (induction rs) simp_all
qed

definition example_slow :: "LegacyRecoveryV6 list" where
  "example_slow =
     [LegacyRecoveryV6_default\<lparr>account := Some 77, balance := Some \<lparr>coin = 100\<rparr>,
        slow_wallet := Some \<lparr>unlocked = 0, transferred = 0\<rparr>\<rparr>,
      LegacyRecoveryV6_default\<lparr>account := Some 78, balance := Some \<lparr>coin = 50\<rparr>,
        slow_wallet := Some \<lparr>unlocked = 20, transferred = 0\<rparr>\<rparr>]"

theorem supply_stats_exact_witness:
  "slow_total (populate_supply_stats_from_legacy example_slow) = Fin 150 \<and>
   slow_locked (populate_supply_stats_from_legacy example_slow) = Fin 30 \<and>
   slow_unlocked (populate_supply_stats_from_legacy example_slow) = Fin 20"
proof -
  have "sum_list (map user_coins example_slow) \<le> 2 ^ 53" "list_all unlocked_bounded example_slow"
    by (simp_all add: example_slow_def user_coins_def unlocked_bounded_def LegacyRecoveryV6_default_def)
  from supply_stats_exact [OF this]
  have "populate_supply_stats_from_legacy example_slow = exact_supply example_slow" by blast
  then show ?thesis
    by (simp add: exact_supply_def fsum_def example_slow_def contribution_defs user_coins_def LegacyRecoveryV6_default_def)
qed

end
