(* ===== verification/Governance_Script.thy ===== *)
theory Governance_Script
  imports Rust_Prelude
begin

text \<open>
  The governance script of an upgrade (\<^verbatim>\<open>framework/src/builder/framework_release_bundle.rs\<close>). The code writer of
  the vendor is the sequence of calls made to it, which \<^verbatim>\<open>process_result\<close> hands over to a renderer; the
  metadata of a package is opaque (the record \<open>metadata_lib\<close> reads it). What the script does when it runs
  is given by an interpreter of its statements (\<open>exec\<close>), against which the generator is verified.
\<close>

section \<open>The writer\<close>

datatype writer_call = Emit string | Emitln string | Indent | Unindent

record 'm metadata_lib =
  package_name :: "'m \<Rightarrow> string"
  source_digest :: "'m \<Rightarrow> string"
  with_policy :: "u8 \<Rightarrow> 'm \<Rightarrow> 'm"
  to_bytes :: "'m \<Rightarrow> u8 list result"

record 'm ReleasePackage =
  metadata :: 'm
  code :: "u8 list list"

definition NL :: string where "NL = [CHR 0x0A]"

definition emit_byte :: "u8 \<Rightarrow> writer_call" where
  "emit_byte b = Emit (show_nat (unat b) @ ''u8,'')"

fun blob_bytes :: "nat \<Rightarrow> u8 list \<Rightarrow> writer_call list" where
  "blob_bytes i [] = []"
| "blob_bytes i (b # bs) = (if (i + 1) mod 20 = 0 then [Emitln []] else []) @ emit_byte b # blob_bytes (i + 1) bs"

definition generate_blob :: "u8 list \<Rightarrow> writer_call list" where
  "generate_blob data = [Emitln ''vector['', Indent] @ blob_bytes 0 data @ [Emitln [], Unindent, Emit '']'']"

definition generate_next_execution_hash_blob :: "string \<Rightarrow> u8 list \<Rightarrow> writer_call list" where
  "generate_next_execution_hash_blob for_address next_execution_hash =
     (if next_execution_hash = into_bytes ''vector::empty<u8>()'' then
        [Emitln (''let framework_signer = diem_governance::resolve_multi_step_proposal(proposal_id, @'' @ for_address @
           '', vector::empty<u8>());'' @ NL)]
      else
        [Emitln ''let framework_signer = diem_governance::resolve_multi_step_proposal('', Indent,
         Emitln ''proposal_id,'', Emitln (CHR 0x40 # for_address @ '',''), Emit ''vector[''] @
        map emit_byte next_execution_hash @ [Emitln ''],'', Unindent, Emitln '');''])"

section \<open>The script\<close>

fun emit_code_chunks :: "nat \<Rightarrow> u8 list list \<Rightarrow> writer_call list" where
  "emit_code_chunks i [] = []"
| "emit_code_chunks i (c # cs) =
     [Emitln (''let code_chunk'' @ show_nat i @ '' = '')] @ generate_blob c @
     [Emitln '';'', Emitln (''vector::push_back(&mut code, code_chunk'' @ show_nat i @ '');'')] @
     emit_code_chunks (i + 1) cs"

text \<open>\<^verbatim>\<open>u16::MAX / 2\<close>\<close>

definition chunk_size :: nat where "chunk_size = 65535 div 2"

text \<open>The loop over the chunks drains the metadata; \<^verbatim>\<open>drain\<close> panics past the end.\<close>

fun emit_metadata_chunks :: "nat \<Rightarrow> nat list \<Rightarrow> u8 list \<Rightarrow> writer_call list result" where
  "emit_metadata_chunks num_of_chunks [] md = Inr []"
| "emit_metadata_chunks num_of_chunks (i # is) md =
     (let to_drain = (if i = num_of_chunks then length md else chunk_size) in
      if length md < to_drain then Inl (Panic ''range end index out of range'')
      else and_then (emit_metadata_chunks num_of_chunks is (drop to_drain md)) (\<lambda>calls.
        Inr ([Emit (''let metadata_chunk'' @ show_nat i @ '' = '')] @ generate_blob (take to_drain md) @
             [Emitln '';''] @ calls)))"

definition append_chunk :: "nat \<Rightarrow> writer_call" where
  "append_chunk i = Emitln (''vector::append(&mut metadata_chunk1, metadata_chunk'' @ show_nat i @ '');'')"

definition script_header :: "string \<Rightarrow> string \<Rightarrow> u8 list \<Rightarrow> string \<Rightarrow> string \<Rightarrow> writer_call list" where
  "script_header name digest next_execution_hash framework_git_hash build_hash =
     [Emitln (''// Upgrade proposal for package `'' @ name @ ''`'' @ NL),
      Emitln (''// Framework commit hash: '' @ framework_git_hash @ NL @ ''// Builder commit hash: '' @ build_hash @ NL),
      Emitln (''// Next step script hash: '' @ lower_hex next_execution_hash @ NL),
      Emitln (''// source digest: '' @ digest),
      Emitln ''script {'', Indent,
      Emitln ''use std::vector;'', Emitln ''use diem_framework::diem_governance;'',
      Emitln (''use diem_framework::code;'' @ NL), Emitln (''use diem_framework::version;'' @ NL),
      Emitln ''fun main(proposal_id: u64){'', Indent]"

definition libra_author_script ::
  "'m metadata_lib \<Rightarrow> string \<Rightarrow> 'm ReleasePackage \<Rightarrow> string \<Rightarrow> u8 list \<Rightarrow> string \<Rightarrow> writer_call list result" where
  "libra_author_script lib build_hash release for_address next_execution_hash framework_git_hash =
     and_then (to_bytes lib (metadata release)) (\<lambda>md.
       let num_of_chunks = length md div chunk_size + 1 in
       and_then (emit_metadata_chunks num_of_chunks [1..<num_of_chunks + 1] md) (\<lambda>chunks.
         Inr (script_header (package_name lib (metadata release)) (source_digest lib (metadata release))
                next_execution_hash framework_git_hash build_hash @
              generate_next_execution_hash_blob for_address next_execution_hash @
              [Emitln ''let code = vector::empty();''] @ emit_code_chunks 0 (code release) @
              chunks @ map append_chunk [2..<num_of_chunks + 1] @
              [Emitln ''code::publish_package_txn(&framework_signer, metadata_chunk1, code);'',
               Emitln (''version::upgrade_set_git(&framework_signer, x'' @ [CHR 0x22] @ framework_git_hash @ [CHR 0x22] @ '')''),
               Unindent, Emitln ''}'', Unindent, Emitln ''}''])))"

definition libra_author_script_file ::
  "'m metadata_lib \<Rightarrow> string \<Rightarrow> (writer_call list \<Rightarrow> string) \<Rightarrow> 'm ReleasePackage \<Rightarrow> string \<Rightarrow> string \<Rightarrow> u8 list \<Rightarrow>
     string \<Rightarrow> file_system \<Rightarrow> file_system result" where
  "libra_author_script_file lib build_hash render release for_address out next_execution_hash framework_git_hash fs =
     and_then (libra_author_script lib build_hash release for_address next_execution_hash framework_git_hash) (\<lambda>calls.
       if writable fs out then Inr (fs\<lparr>files := (files fs)(out \<mapsto> render calls)\<rparr>)
       else Inl (Err ''cannot write file''))"

section \<open>What a script does\<close>

text \<open>The state of a running script: the byte literal being read, the last complete one, the variable it will
  be bound to, the variables, the vector \<open>code\<close>, and the effects: the next hash handed to the governance
  module, the package published and the commit recorded.\<close>

record script_state =
  literal :: "u8 list option"
  last_literal :: "u8 list option"
  target :: "string option"
  vars :: "string \<Rightarrow> u8 list option"
  code_vector :: "u8 list list"
  next_hash :: "u8 list option"
  published :: "(u8 list \<times> u8 list list) option"
  git_hash :: "string option"

definition initial_script :: script_state where
  "initial_script = \<lparr>literal = None, last_literal = None, target = None, vars = Map.empty, code_vector = [],
     next_hash = None, published = None, git_hash = None\<rparr>"

definition strip_prefix :: "string \<Rightarrow> string \<Rightarrow> string option" where
  "strip_prefix p s = (if starts_with p s then Some (drop (length p) s) else None)"

definition is_digit :: "char \<Rightarrow> bool" where
  "is_digit c = (digit_value c \<noteq> None)"

definition read_u8 :: "string \<Rightarrow> u8 option" where
  "read_u8 t =
     (if dropWhile is_digit t \<noteq> ''u8,'' \<or> takeWhile is_digit t = [] then None
      else case digits_value 0 (takeWhile is_digit t) of
             None \<Rightarrow> None | Some n \<Rightarrow> if n < 256 then Some (of_nat n) else None)"

definition upto_char :: "char \<Rightarrow> string \<Rightarrow> string" where
  "upto_char c s = takeWhile (\<lambda>x. x \<noteq> c) s"

definition read_literal :: "string \<Rightarrow> u8 list \<Rightarrow> script_state \<Rightarrow> script_state option" where
  "read_literal t bs s =
     (if t = '']'' \<or> t = ''],'' then Some (s\<lparr>literal := None, last_literal := Some bs\<rparr>)
      else map_option (\<lambda>b. s\<lparr>literal := Some (bs @ [b])\<rparr>) (read_u8 t))"

definition run_statement :: "string \<Rightarrow> script_state \<Rightarrow> script_state option" where
  "run_statement t s =
     (if t = ''vector['' then Some (s\<lparr>literal := Some []\<rparr>)
      else if t = '';'' then
        (case (target s, last_literal s) of
           (Some x, Some v) \<Rightarrow> Some (s\<lparr>vars := (vars s)(x \<mapsto> v), target := None, last_literal := None\<rparr>)
         | _ \<Rightarrow> None)
      else if t = '');'' then
        map_option (\<lambda>v. s\<lparr>next_hash := Some v, last_literal := None\<rparr>) (last_literal s)
      else if t = ''let framework_signer = diem_governance::resolve_multi_step_proposal('' \<or> t = ''proposal_id,'' \<or>
        starts_with [CHR 0x40] t then Some s
      else if t = ''let code = vector::empty();'' then Some (s\<lparr>code_vector := []\<rparr>)
      else case strip_prefix ''let '' t of Some r \<Rightarrow> Some (s\<lparr>target := Some (upto_char (CHR '' '') r)\<rparr>) | None \<Rightarrow>
      case strip_prefix ''vector::push_back(&mut code, '' t of
        Some r \<Rightarrow> map_option (\<lambda>v. s\<lparr>code_vector := code_vector s @ [v]\<rparr>) (vars s (upto_char (CHR '')'') r)) | None \<Rightarrow>
      case strip_prefix ''vector::append(&mut metadata_chunk1, '' t of
        Some r \<Rightarrow> (case (vars s ''metadata_chunk1'', vars s (upto_char (CHR '')'') r)) of
                     (Some a, Some b) \<Rightarrow> Some (s\<lparr>vars := (vars s)(''metadata_chunk1'' \<mapsto> a @ b)\<rparr>) | _ \<Rightarrow> None) | None \<Rightarrow>
      case strip_prefix (''version::upgrade_set_git(&framework_signer, x'' @ [CHR 0x22]) t of
        Some r \<Rightarrow> if next_hash s = None then None else Some (s\<lparr>git_hash := Some (upto_char (CHR 0x22) r)\<rparr>) | None \<Rightarrow>
      if t = ''code::publish_package_txn(&framework_signer, metadata_chunk1, code);'' then
        (case (next_hash s, vars s ''metadata_chunk1'') of
           (Some _, Some m) \<Rightarrow> Some (s\<lparr>published := Some (m, code_vector s)\<rparr>) | _ \<Rightarrow> None)
      else if starts_with ''//'' t \<or> starts_with ''use '' t \<or> t = ''script {'' \<or> t = ''fun main(proposal_id: u64){'' \<or> t = ''}''
        then Some s
      else None)"

fun exec1 :: "writer_call \<Rightarrow> script_state \<Rightarrow> script_state option" where
  "exec1 Indent s = Some s"
| "exec1 Unindent s = Some s"
| "exec1 (Emit t) s =
     (if t = [] then Some s else case literal s of Some bs \<Rightarrow> read_literal t bs s | None \<Rightarrow> run_statement t s)"
| "exec1 (Emitln t) s =
     (if t = [] then Some s else case literal s of Some bs \<Rightarrow> read_literal t bs s | None \<Rightarrow> run_statement t s)"

fun exec :: "writer_call list \<Rightarrow> script_state \<Rightarrow> script_state option" where
  "exec [] s = Some s"
| "exec (c # cs) s = (case exec1 c s of None \<Rightarrow> None | Some s' \<Rightarrow> exec cs s')"

lemma exec_append: "exec (as @ bs) s = (case exec as s of None \<Rightarrow> None | Some s' \<Rightarrow> exec bs s')"
  by (induction as arbitrary: s) (auto split: option.splits)

lemma exec_appendI: "exec as s = Some s' \<Longrightarrow> exec (as @ bs) s = exec bs s'"
  by (simp add: exec_append)

section \<open>Literals\<close>

lemma show_nat_digits: "c \<in> set (show_nat n) \<Longrightarrow> is_digit c"
proof (induction n rule: show_nat.induct)
  case (1 n)
  have d: "is_digit (char_of (48 + d))" if "d < 10" for d :: nat
    using digit_value_char_of [OF that] by (simp add: is_digit_def)
  show ?case
  proof (cases "n < 10")
    case True
    then show ?thesis using "1.prems" d by (subst (asm) show_nat.simps) auto
  next
    case False
    then have "c \<in> set (show_nat (n div 10)) \<or> c = char_of (48 + n mod 10)"
      using "1.prems" by (subst (asm) show_nat.simps) auto
    then show ?thesis using "1.IH" False d [of "n mod 10"] by auto
  qed
qed

lemma show_nat_inj: "show_nat m = show_nat n \<longleftrightarrow> m = n"
  by (metis digits_value_show_nat option.inject)

lemma not_digits [simp]: "\<not> is_digit (CHR ''u'')" "\<not> is_digit (CHR '' '')" "\<not> is_digit (CHR '')'')" "\<not> is_digit (CHR '']'')"
  by (simp_all add: is_digit_def digit_value_def)

lemma read_u8_byte: "read_u8 (show_nat (unat b) @ ''u8,'') = Some b"
proof -
  have "takeWhile is_digit (show_nat (unat b) @ ''u8,'') = show_nat (unat b)"
    "dropWhile is_digit (show_nat (unat b) @ ''u8,'') = ''u8,''"
    using show_nat_digits by (auto simp: takeWhile_append dropWhile_append)
  then show ?thesis by (simp add: read_u8_def digits_value_show_nat)
qed

lemma exec_byte: "literal s = Some acc \<Longrightarrow> exec1 (emit_byte b) s = Some (s\<lparr>literal := Some (acc @ [b])\<rparr>)"
proof -
  assume l: "literal s = Some acc"
  obtain c cs where "show_nat (unat b) = c # cs" by (cases "show_nat (unat b)") auto
  moreover have "is_digit c" using calculation show_nat_digits [of c "unat b"] by simp
  ultimately show ?thesis using l read_u8_byte [of b] by (auto simp: emit_byte_def read_literal_def)
qed

lemma exec_blob_bytes:
  "literal s = Some acc \<Longrightarrow> exec (blob_bytes i bs) s = Some (s\<lparr>literal := Some (acc @ bs)\<rparr>)"
proof (induction i bs arbitrary: s acc rule: blob_bytes.induct)
  case (1 i)
  then show ?case by simp
next
  case (2 i b bs)
  then show ?case by (simp add: exec_byte)
qed

lemma exec_bytes:
  "literal s = Some acc \<Longrightarrow> exec (map emit_byte bs) s = Some (s\<lparr>literal := Some (acc @ bs)\<rparr>)"
  by (induction bs arbitrary: s acc) (simp_all add: exec_byte)

lemma exec_blob:
  "literal s = None \<Longrightarrow> exec (generate_blob bs) s = Some (s\<lparr>last_literal := Some bs\<rparr>)"
  by (simp add: generate_blob_def exec_append exec_blob_bytes run_statement_def read_literal_def)

section \<open>Statements\<close>

lemma upto_char_append: "c \<notin> set a \<Longrightarrow> upto_char c (a @ c # b) = a"
  by (induction a) (auto simp: upto_char_def)

lemma not_in_show_nat: "\<not> is_digit c \<Longrightarrow> c \<notin> set (show_nat n)"
  using show_nat_digits by blast

definition code_var :: "nat \<Rightarrow> string" where
  "code_var i = ''code_chunk'' @ show_nat i"

definition metadata_var :: "nat \<Rightarrow> string" where
  "metadata_var i = ''metadata_chunk'' @ show_nat i"

lemma metadata_var_inj [simp]: "metadata_var i = metadata_var j \<longleftrightarrow> i = j"
  by (simp add: metadata_var_def show_nat_inj)

lemma metadata_var_1: "metadata_var 1 = ''metadata_chunk1''"
  by code_simp

definition idle :: "script_state \<Rightarrow> bool" where
  "idle s = (literal s = None \<and> last_literal s = None \<and> target s = None)"

lemma idle_updates [simp]:
  "idle (s\<lparr>vars := e\<rparr>) = idle s" "idle (s\<lparr>code_vector := v\<rparr>) = idle s" "idle (s\<lparr>next_hash := h\<rparr>) = idle s"
  "idle (s\<lparr>published := p\<rparr>) = idle s" "idle (s\<lparr>git_hash := g\<rparr>) = idle s" "idle initial_script"
  by (simp_all add: idle_def initial_script_def)

lemma idle_clear: "idle s \<Longrightarrow> s\<lparr>last_literal := None, target := None\<rparr> = s" "idle s \<Longrightarrow> s\<lparr>last_literal := None\<rparr> = s"
  by (cases s, simp add: idle_def)+

lemmas statement_simps = run_statement_def strip_prefix_def starts_with_def

lemma run_let_chunk:
  "run_statement (''let code_chunk'' @ show_nat i @ '' = '') s = Some (s\<lparr>target := Some (code_var i)\<rparr>)"
  "run_statement (''let metadata_chunk'' @ show_nat i @ '' = '') s = Some (s\<lparr>target := Some (metadata_var i)\<rparr>)"
  using upto_char_append [of "CHR '' ''" "''code_chunk'' @ show_nat i" "''= ''"]
    upto_char_append [of "CHR '' ''" "''metadata_chunk'' @ show_nat i" "''= ''"]
  by (simp_all add: statement_simps not_in_show_nat code_var_def metadata_var_def)

lemma idle_bind: "last_literal s = None \<Longrightarrow> target s = None \<Longrightarrow> s\<lparr>vars := e, target := None, last_literal := None\<rparr> = s\<lparr>vars := e\<rparr>"
  by (cases s) simp

lemma exec_bind:
  assumes "idle s" "run_statement t s = Some (s\<lparr>target := Some x\<rparr>)" "t \<noteq> []"
  shows "exec (Emit t # generate_blob bs @ Emitln '';'' # cs) s = exec cs (s\<lparr>vars := (vars s)(x \<mapsto> bs)\<rparr>)"
    "exec (Emitln t # generate_blob bs @ Emitln '';'' # cs) s = exec cs (s\<lparr>vars := (vars s)(x \<mapsto> bs)\<rparr>)"
  using assms by (simp_all add: exec_append exec_blob idle_def run_statement_def [of "'';''"] idle_bind)

lemma exec_push_back:
  assumes "idle s" "vars s (code_var i) = Some v"
  shows "exec1 (Emitln (''vector::push_back(&mut code, code_chunk'' @ show_nat i @ '');'')) s =
    Some (s\<lparr>code_vector := code_vector s @ [v]\<rparr>)"
  using assms upto_char_append [of "CHR '')''" "''code_chunk'' @ show_nat i" "'';''"]
  by (simp add: idle_def statement_simps not_in_show_nat code_var_def)

lemma exec_append_chunk:
  assumes "idle s" "vars s (metadata_var 1) = Some a" "vars s (metadata_var i) = Some b"
  shows "exec1 (append_chunk i) s = Some (s\<lparr>vars := (vars s)(metadata_var 1 \<mapsto> a @ b)\<rparr>)"
  using assms [unfolded metadata_var_1] upto_char_append [of "CHR '')''" "''metadata_chunk'' @ show_nat i" "'';''"]
  unfolding metadata_var_1
  by (simp add: idle_def append_chunk_def statement_simps not_in_show_nat metadata_var_def)

lemma exec_code_chunks:
  assumes "idle s"
  shows "\<exists>e. exec (emit_code_chunks i cs) s = Some (s\<lparr>vars := e, code_vector := code_vector s @ cs\<rparr>)"
  using assms
proof (induction i cs arbitrary: s rule: emit_code_chunks.induct)
  case (1 i)
  then show ?case by (intro exI [of _ "vars s"]) simp
next
  case (2 i c cs)
  let ?s = "s\<lparr>vars := (vars s)(code_var i \<mapsto> c), code_vector := code_vector s @ [c]\<rparr>"
  obtain e where e: "exec (emit_code_chunks (i + 1) cs) ?s = Some (?s\<lparr>vars := e, code_vector := code_vector ?s @ cs\<rparr>)"
    using "2.IH" [of ?s] "2.prems" by auto
  have "exec (emit_code_chunks i (c # cs)) s = exec (emit_code_chunks (i + 1) cs) ?s"
    using exec_bind(2) [OF "2.prems" run_let_chunk(1), of i c] "2.prems"
      exec_push_back [of "s\<lparr>vars := (vars s)(code_var i \<mapsto> c)\<rparr>" i c] by simp
  with e show ?case by (intro exI [of _ e]) simp
qed

section \<open>The metadata\<close>

text \<open>What the chunk loop leaves behind: each chunk bound to its own variable, together the metadata.\<close>

lemma exec_metadata_chunks:
  assumes "idle s" "emit_metadata_chunks n [i..<Suc n] md = Inr calls" "i \<le> n"
  shows "\<exists>e chunks. exec calls s = Some (s\<lparr>vars := e\<rparr>) \<and> length chunks = Suc n - i \<and> concat chunks = md \<and>
    (\<forall>j < length chunks. e (metadata_var (i + j)) = Some (chunks ! j)) \<and>
    (\<forall>j < i. e (metadata_var j) = vars s (metadata_var j))"
  using assms
proof (induction "Suc n - i" arbitrary: i s md calls)
  case 0
  then show ?case by simp
next
  case (Suc k)
  define d where "d = (if i = n then length md else chunk_size)"
  let ?v = "metadata_var i"
  let ?s = "s\<lparr>vars := (vars s)(?v \<mapsto> take d md)\<rparr>"
  have upt: "[i..<Suc n] = i # [Suc i..<Suc n]" using Suc.prems(3) by (simp add: upt_rec)
  obtain calls' where c: "emit_metadata_chunks n [Suc i..<Suc n] (drop d md) = Inr calls'"
    "calls = Emit (''let metadata_chunk'' @ show_nat i @ '' = '') # generate_blob (take d md) @ Emitln '';'' # calls'"
    using Suc.prems(2) unfolding upt d_def [symmetric] by (auto simp: and_then_eq_Inr Let_def d_def split: if_splits)
  have run: "exec calls s = exec calls' ?s"
    using exec_bind(1) [OF Suc.prems(1) run_let_chunk(2), of i "take d md" calls'] c(2) by simp
  show ?case
  proof (cases "i = n")
    case True
    then have "calls' = []" "take d md = md" using c(1) by (simp_all add: d_def)
    then show ?thesis using run True
      by (intro exI [of _ "vars ?s"] exI [of _ "[md]"]) simp
  next
    case False
    then have p: "k = Suc n - Suc i" "idle ?s" "Suc i \<le> n" using Suc.hyps(2) Suc.prems by simp_all
    obtain e chunks where e: "exec calls' ?s = Some (?s\<lparr>vars := e\<rparr>)" "length chunks = Suc n - Suc i"
      "concat chunks = drop d md" "\<forall>j < length chunks. e (metadata_var (Suc i + j)) = Some (chunks ! j)"
      "\<forall>j < Suc i. e (metadata_var j) = vars ?s (metadata_var j)"
      using Suc.hyps(1) [OF p(1,2) c(1) p(3)] by blast
    show ?thesis
    proof (intro exI [of _ e] exI [of _ "take d md # chunks"] conjI allI impI)
      show "exec calls s = Some (s\<lparr>vars := e\<rparr>)" using run e(1) by simp
      show "length (take d md # chunks) = Suc n - i" using e(2) Suc.prems(3) False by simp
      show "concat (take d md # chunks) = md" using e(3) by simp
      show "e (metadata_var (i + j)) = Some ((take d md # chunks) ! j)"
        if "j < length (take d md # chunks)" for j
        using that e(4,5) by (cases j) simp_all
      show "e (metadata_var j) = vars s (metadata_var j)" if "j < i" for j
        using that e(5) by auto
    qed
  qed
qed

text \<open>Appending the remaining chunks to the first yields all of them.\<close>

lemma exec_append_chunks:
  assumes "idle s" "vars s (metadata_var 1) = Some a" "1 < i" "length chunks = n - i"
    "\<forall>j < length chunks. vars s (metadata_var (i + j)) = Some (chunks ! j)"
  shows "\<exists>e. exec (map append_chunk [i..<n]) s = Some (s\<lparr>vars := e\<rparr>) \<and> e (metadata_var 1) = Some (a @ concat chunks)"
  using assms
proof (induction chunks arbitrary: i s a)
  case Nil
  then show ?case by (intro exI [of _ "vars s"]) simp
next
  case (Cons c cs)
  have upt: "[i..<n] = i # [Suc i..<n]" using Cons.prems(4) by (simp add: upt_rec)
  let ?s = "s\<lparr>vars := (vars s)(metadata_var 1 \<mapsto> a @ c)\<rparr>"
  have "vars s (metadata_var i) = Some c" using Cons.prems(5) by (auto dest: spec [of _ 0])
  then have run: "exec (map append_chunk [i..<n]) s = exec (map append_chunk [Suc i..<n]) ?s"
    using exec_append_chunk [OF Cons.prems(1,2)] upt by simp
  have "\<forall>j < length cs. vars ?s (metadata_var (Suc i + j)) = Some (cs ! j)"
    using Cons.prems(3,5) by fastforce
  then show ?case using Cons.IH [of ?s "a @ c" "Suc i"] Cons.prems run by auto
qed

section \<open>The script publishes the package\<close>

lemma emit_metadata_total: "length md div chunk_size + i = n \<Longrightarrow>
    is_ok (emit_metadata_chunks n [i..<Suc n] md)"
proof (induction "Suc n - i" arbitrary: i md)
  case 0
  then show ?case by simp
next
  case (Suc k)
  have upt: "[i..<Suc n] = i # [Suc i..<Suc n]" using Suc.hyps(2) by (simp add: upt_rec)
  show ?case
  proof (cases "i = n")
    case True
    then show ?thesis unfolding upt by (simp add: is_ok_iff and_then_eq_Inr)
  next
    case False
    then have "0 < length md div chunk_size" using Suc by simp
    then have l: "chunk_size \<le> length md" using div_less [of "length md" chunk_size] by (metis less_irrefl not_le)
    then have "(length md - chunk_size) div chunk_size = length md div chunk_size - 1"
      by (simp add: chunk_size_def le_div_geq)
    then have "is_ok (emit_metadata_chunks n [Suc i..<Suc n] (drop chunk_size md))"
      using Suc False \<open>0 < length md div chunk_size\<close> by (intro Suc.hyps(1)) auto
    then show ?thesis using False l unfolding upt by (auto simp: is_ok_iff and_then_eq_Inr)
  qed
qed

lemma is_ok_bind: "is_ok (and_then r (\<lambda>x. Inr (f x))) \<longleftrightarrow> is_ok r"
  by (cases r) simp_all

lemma libra_author_script_total:
  "is_ok (libra_author_script lib bh release addr nh gh) \<longleftrightarrow> is_ok (to_bytes lib (metadata release))"
proof (cases "to_bytes lib (metadata release)")
  case (Inr md)
  moreover have "is_ok (emit_metadata_chunks (length md div chunk_size + 1) [1..<length md div chunk_size + 1 + 1] md)"
    using emit_metadata_total [of md 1 "length md div chunk_size + 1"] by (simp del: upt_Suc)
  ultimately show ?thesis by (simp only: libra_author_script_def and_then_simps Let_def is_ok_bind is_ok_simps)
qed (simp add: libra_author_script_def)

lemma exec_header:
  "idle s \<Longrightarrow> exec (script_header name digest nh gh bh) s = Some s"
  by (simp add: script_header_def idle_def statement_simps)

lemma exec_next_hash:
  assumes "idle s" "nh \<noteq> into_bytes ''vector::empty<u8>()''"
  shows "exec (generate_next_execution_hash_blob addr nh) s = Some (s\<lparr>next_hash := Some nh\<rparr>)"
proof -
  have "s\<lparr>literal := None, last_literal := None, next_hash := h\<rparr> = s\<lparr>next_hash := h\<rparr>" for h
    using assms(1) by (cases s) (simp add: idle_def)
  then show ?thesis using assms
    by (simp add: generate_next_execution_hash_blob_def exec_append exec_bytes idle_def statement_simps read_literal_def)
qed

lemma exec_publish:
  assumes "idle s" "next_hash s = Some nh" "vars s (metadata_var 1) = Some md" "CHR 0x22 \<notin> set gh"
  shows "exec [Emitln ''code::publish_package_txn(&framework_signer, metadata_chunk1, code);'',
      Emitln (''version::upgrade_set_git(&framework_signer, x'' @ [CHR 0x22] @ gh @ [CHR 0x22] @ '')''),
      Unindent, Emitln ''}'', Unindent, Emitln ''}''] s =
    Some (s\<lparr>published := Some (md, code_vector s), git_hash := Some gh\<rparr>)"
  using assms [unfolded metadata_var_1] upto_char_append [of "CHR 0x22" gh "'')''"]
  by (simp add: idle_def statement_simps)

lemma exec_metadata:
  assumes "idle s" "emit_metadata_chunks n [1..<n + 1] md = Inr calls" "0 < n"
  shows "\<exists>e. exec (calls @ map append_chunk [2..<n + 1]) s = Some (s\<lparr>vars := e\<rparr>) \<and> e (metadata_var 1) = Some md"
proof -
  obtain e chunks where e: "exec calls s = Some (s\<lparr>vars := e\<rparr>)" "length chunks = n" "concat chunks = md"
    "\<forall>j < length chunks. e (metadata_var (1 + j)) = Some (chunks ! j)"
    using exec_metadata_chunks [of s n 1 md calls] assms by (auto simp del: upt_Suc)
  obtain c cs where cs: "chunks = c # cs" using e(2) assms(3) by (cases chunks) auto
  have "e (metadata_var 1) = Some c" using e(4) cs by (auto dest: spec [of _ 0])
  moreover have "\<forall>j < length cs. e (metadata_var (2 + j)) = Some (cs ! j)" using e(4) cs by fastforce
  ultimately show ?thesis
    using exec_append_chunks [of "s\<lparr>vars := e\<rparr>" c 2 cs "n + 1"] e cs assms(1)
    by (auto simp: exec_append simp del: upt_Suc)
qed

lemma script_runs:
  assumes "libra_author_script lib bh release addr nh gh = Inr calls" "to_bytes lib (metadata release) = Inr md"
    and "nh \<noteq> into_bytes ''vector::empty<u8>()''" "CHR 0x22 \<notin> set gh"
  shows "\<exists>s. exec calls initial_script = Some s \<and> next_hash s = Some nh \<and> published s = Some (md, code release) \<and>
    git_hash s = Some gh"
proof -
  let ?n = "length md div chunk_size + 1"
  obtain chunks where c: "emit_metadata_chunks ?n [1..<?n + 1] md = Inr chunks"
    and calls: "calls = script_header (package_name lib (metadata release)) (source_digest lib (metadata release)) nh gh bh @
      generate_next_execution_hash_blob addr nh @ [Emitln ''let code = vector::empty();''] @ emit_code_chunks 0 (code release) @
      (chunks @ map append_chunk [2..<?n + 1]) @
      [Emitln ''code::publish_package_txn(&framework_signer, metadata_chunk1, code);'',
       Emitln (''version::upgrade_set_git(&framework_signer, x'' @ [CHR 0x22] @ gh @ [CHR 0x22] @ '')''),
       Unindent, Emitln ''}'', Unindent, Emitln ''}'']"
    using assms(1,2) by (auto simp only: libra_author_script_def and_then_simps Let_def and_then_eq_Inr append_assoc Inr_inject)
  define s1 where "s1 = initial_script\<lparr>next_hash := Some nh, code_vector := []\<rparr>"
  have s1: "idle s1" "next_hash s1 = Some nh" "code_vector s1 = []" by (simp_all add: s1_def)
  obtain e1 where e1: "exec (emit_code_chunks 0 (code release)) s1 = Some (s1\<lparr>vars := e1, code_vector := code release\<rparr>)"
    using exec_code_chunks [OF s1(1), of 0 "code release"] s1(3) by auto
  obtain e2 where e2: "exec (chunks @ map append_chunk [2..<?n + 1]) (s1\<lparr>vars := e1, code_vector := code release\<rparr>) =
      Some (s1\<lparr>vars := e1, code_vector := code release, vars := e2\<rparr>)" "e2 (metadata_var 1) = Some md"
    using exec_metadata [OF _ c zero_less_Suc [of "length md div chunk_size", unfolded Suc_eq_plus1], of "s1\<lparr>vars := e1, code_vector := code release\<rparr>"] s1(1) by (simp only: idle_updates) blast
  let ?s = "s1\<lparr>vars := e1, code_vector := code release, vars := e2\<rparr>"
  have "exec [Emitln ''let code = vector::empty();''] (initial_script\<lparr>next_hash := Some nh\<rparr>) = Some s1"
    by (simp add: s1_def initial_script_def statement_simps)
  then have "exec calls initial_script = Some (?s\<lparr>published := Some (md, code release), git_hash := Some gh\<rparr>)"
    using exec_publish [of ?s nh md gh] e2 s1 assms(4)
    unfolding calls by (simp only: exec_appendI [OF exec_header] exec_appendI [OF exec_next_hash [OF _ assms(3)]]
      exec_appendI idle_updates exec_appendI [OF e1] exec_appendI [OF e2(1)]) simp
  then show ?thesis using s1(2) by simp
qed

text \<open>C11. The generated governance script is complete and publishes exactly the package it was made for. Whenever
  the metadata can be serialized the generator succeeds (draining the chunks never runs past the end), and
  the script, run statement by statement, hands the given next hash to the governance module, publishes
  the whole metadata, however many chunks it was split into, with the code of every module in order, and
  records the commit of the framework.\<close>

theorem script_publishes_package:
  assumes "to_bytes lib (metadata release) = Inr md" "nh \<noteq> into_bytes ''vector::empty<u8>()''" "CHR 0x22 \<notin> set gh"
  shows "\<exists>calls s. libra_author_script lib bh release addr nh gh = Inr calls \<and> exec calls initial_script = Some s \<and>
    next_hash s = Some nh \<and> published s = Some (md, code release) \<and> git_hash s = Some gh"
  using libra_author_script_total [of lib bh release addr nh gh] script_runs [OF _ assms] assms(1)
  by (auto simp: is_ok_iff)

text \<open>A package of two modules whose metadata fills more than one chunk.\<close>

definition example_lib :: "nat metadata_lib" where
  "example_lib = \<lparr>package_name = (\<lambda>_. ''LibraFramework''), source_digest = (\<lambda>_. ''d''), with_policy = (\<lambda>_ m. m),
     to_bytes = (\<lambda>m. Inr (replicate m 7))\<rparr>"

theorem script_publishes_package_witness:
  "\<exists>calls s. libra_author_script example_lib ''b'' \<lparr>metadata = 40000, code = [[1, 2], [3]]\<rparr> ''1'' (replicate 32 5) ''abc'' = Inr calls \<and>
    exec calls initial_script = Some s \<and> next_hash s = Some (replicate 32 5) \<and>
    published s = Some (replicate 40000 7, [[1, 2], [3]]) \<and> git_hash s = Some ''abc''"
proof -
  have "length (replicate 32 (5 :: u8)) \<noteq> length (into_bytes ''vector::empty<u8>()'')" by (simp add: into_bytes_def)
  then have n: "replicate 32 (5 :: u8) \<noteq> into_bytes ''vector::empty<u8>()''" by metis
  show ?thesis
    using script_publishes_package [of example_lib "\<lparr>metadata = 40000, code = [[1, 2], [3]]\<rparr>" "replicate 40000 7"
        "replicate 32 5" "''abc''" "''b''" "''1''"] n
    by (simp add: example_lib_def)
qed

end
