(* ===== verification/Upgrade_Proposal.thy ===== *)
theory Upgrade_Proposal
  imports Governance_Script
begin

text \<open>
  Upgrade proposals (\<^verbatim>\<open>framework/src/builder/framework_generate_upgrade_proposal.rs\<close> and the commands of
  \<^verbatim>\<open>framework/src/framework_cli.rs\<close>): the core modules are compiled last to first, each governance script carrying
  the execution hash of the script that runs after it. The Move compiler, the package template, git, the
  hash and the serialization are parameters (\<open>upgrade_vendor\<close>); the file system is passed along.
\<close>

section \<open>Build options and vendor code\<close>

record BuildOptions =
  with_srcs :: bool
  with_abis :: bool
  with_source_maps :: bool
  with_error_map :: bool
  skip_fetch_latest_git_deps :: bool
  bytecode_version :: "nat option"

record 'm upgrade_vendor =
  uv_lib :: "'m metadata_lib"
  uv_build_hash :: string
  uv_render :: "writer_call list \<Rightarrow> string"
  uv_from_hex_literal :: "string \<Rightarrow> AccountAddress result"
  uv_display_address :: "AccountAddress \<Rightarrow> string"
  uv_discover :: "string \<Rightarrow> string result"
  uv_head_commit :: "string \<Rightarrow> string result"
  uv_canonicalize :: "file_system \<Rightarrow> string \<Rightarrow> string result"
  uv_exists :: "file_system \<Rightarrow> string \<Rightarrow> bool"
  uv_create_dir_all :: "string \<Rightarrow> file_system \<Rightarrow> file_system result"
  uv_release_package :: "BuildOptions \<Rightarrow> file_system \<Rightarrow> string \<Rightarrow> 'm ReleasePackage result"
  uv_script_code :: "BuildOptions \<Rightarrow> file_system \<Rightarrow> string \<Rightarrow> u8 list list result"
  uv_init_move_dir :: "string \<Rightarrow> string \<Rightarrow> string \<Rightarrow> string \<Rightarrow> file_system \<Rightarrow> file_system result"
  uv_sha3 :: "u8 list \<Rightarrow> u8 list"

definition BYTECODE_VERSION :: nat where "BYTECODE_VERSION = 6"

definition CORE_MODULE_ADDRESS :: string where "CORE_MODULE_ADDRESS = ''0x1''"

definition default_core_modules :: "string list" where
  "default_core_modules = [''move-stdlib'', ''vendor-stdlib'', ''libra-framework'']"

definition core_module_options :: BuildOptions where
  "core_module_options = \<lparr>with_srcs = False, with_abis = False, with_source_maps = False, with_error_map = True,
     skip_fetch_latest_git_deps = True, bytecode_version = Some BYTECODE_VERSION\<rparr>"

definition script_options :: BuildOptions where
  "script_options = \<lparr>with_srcs = False, with_abis = False, with_source_maps = False, with_error_map = False,
     skip_fetch_latest_git_deps = True, bytecode_version = Some BYTECODE_VERSION\<rparr>"

section \<open>Paths and files\<close>

text \<open>\<^verbatim>\<open>PathBuf::push\<close>: an absolute path replaces. \<^verbatim>\<open>PathBuf::set_extension\<close>: what follows the last dot of the file
  name is replaced, a leading dot excepted.\<close>

definition path_push :: "string \<Rightarrow> string \<Rightarrow> string" where
  "path_push dir p = (if starts_with ''/'' p then p else path_join dir p)"

definition file_name_of :: "string \<Rightarrow> string" where
  "file_name_of p = rev (takeWhile (\<lambda>c. c \<noteq> CHR ''/'') (rev p))"

definition file_stem_of :: "string \<Rightarrow> string" where
  "file_stem_of f =
     (let stem = rev (tl (dropWhile (\<lambda>c. c \<noteq> CHR ''.'') (rev f))) in
      if CHR ''.'' \<in> set f \<and> stem \<noteq> [] then stem else f)"

definition set_extension :: "string \<Rightarrow> string \<Rightarrow> string" where
  "set_extension ext p =
     take (length p - length (file_name_of p)) p @ file_stem_of (file_name_of p) @ ''.'' @ ext"

definition fs_write :: "string \<Rightarrow> string \<Rightarrow> file_system \<Rightarrow> file_system result" where
  "fs_write path text fs =
     (if writable fs path then Inr (fs\<lparr>files := (files fs)(path \<mapsto> text)\<rparr>) else Inl (Err ''cannot write file''))"

definition raw_text :: "u8 list \<Rightarrow> string" where
  "raw_text bs = map (\<lambda>b. char_of (unat b)) bs"

section \<open>Compiling a script\<close>

definition save_build :: "string \<Rightarrow> u8 list \<Rightarrow> u8 list \<Rightarrow> file_system \<Rightarrow> file_system result" where
  "save_build script_package_dir bytes hash fs =
     and_then (fs_write (path_join script_package_dir ''script.mv'') (raw_text bytes) fs)
       (fs_write (path_join script_package_dir ''script_sha3'') (lower_hex hash))"

definition init_move_dir_wrapper ::
  "'m upgrade_vendor \<Rightarrow> string \<Rightarrow> string \<Rightarrow> string \<Rightarrow> file_system \<Rightarrow> file_system result" where
  "init_move_dir_wrapper v package_dir script_name framework_local_dir fs =
     and_then (uv_canonicalize v fs framework_local_dir) (\<lambda>d.
       uv_init_move_dir v package_dir script_name ''LibraFramework'' d fs)"

definition libra_compile_script ::
  "'m upgrade_vendor \<Rightarrow> string \<Rightarrow> file_system \<Rightarrow> (u8 list \<times> u8 list \<times> file_system) result" where
  "libra_compile_script v script_package_dir fs =
     and_then (uv_script_code v script_options fs script_package_dir) (\<lambda>code.
       if code = [] then Inl (Err ''could not find any code in BuiltPackage'')
       else let bytes = last code; hash = uv_sha3 v bytes in
         and_then (save_build script_package_dir bytes hash fs) (\<lambda>fs. Inr (bytes, hash, fs)))"

text \<open>\<^verbatim>\<open>discover\<close> is unwrapped; an error of the head falls back to a placeholder.\<close>

definition get_framework_git_head :: "'m upgrade_vendor \<Rightarrow> string \<Rightarrow> string result" where
  "get_framework_git_head v path = and_then (expect ''called `Result::unwrap()` on an `Err` value'' (uv_discover v path)) (uv_head_commit v)"

definition framework_git_hash :: "'m upgrade_vendor \<Rightarrow> string \<Rightarrow> string result" where
  "framework_git_hash v path =
     (case get_framework_git_head v path of
        Inl (Err _) \<Rightarrow> Inr ''none'' | Inl (Panic m) \<Rightarrow> Inl (Panic m) | Inr h \<Rightarrow> Inr h)"

section \<open>The steps of a proposal\<close>

definition ordered_display_name :: "nat \<Rightarrow> string \<Rightarrow> string" where
  "ordered_display_name deploy_order core_module_name = show_nat deploy_order @ ''-'' @ core_module_name"

definition temp_gov_module :: "string \<Rightarrow> nat \<Rightarrow> string \<Rightarrow> string" where
  "temp_gov_module proposal_dir deploy_order name = path_join proposal_dir (ordered_display_name deploy_order name)"

definition gov_script_path :: "string \<Rightarrow> nat \<Rightarrow> string \<Rightarrow> string" where
  "gov_script_path proposal_dir deploy_order name =
     set_extension ''move'' (path_join (path_join (temp_gov_module proposal_dir deploy_order name) ''sources'')
       (ordered_display_name deploy_order name))"

definition forced :: "'m upgrade_vendor \<Rightarrow> bool \<Rightarrow> 'm ReleasePackage \<Rightarrow> 'm ReleasePackage" where
  "forced v force release =
     (if force then release\<lparr>metadata := with_policy (uv_lib v) 0 (metadata release)\<rparr> else release)"

definition hash_comment :: "u8 list \<Rightarrow> string" where
  "hash_comment hash = ''// This script source hash (used for tx authorization): 0x'' @ lower_hex hash @ NL"

text \<open>One turn of the loop over the core modules: the script with its name, its hash, and the files.\<close>

definition upgrade_step ::
  "'m upgrade_vendor \<Rightarrow> string \<Rightarrow> string \<Rightarrow> bool \<Rightarrow> string \<Rightarrow> string \<Rightarrow> nat \<Rightarrow> string \<Rightarrow> u8 list \<Rightarrow> file_system \<Rightarrow>
     ((string \<times> string) \<times> u8 list \<times> file_system) result" where
  "upgrade_step v proposal_dir framework_dir force addr git deploy_order name next_execution_hash fs =
     and_then (uv_canonicalize v fs framework_dir) (\<lambda>dir. let core_module_dir = path_push dir name in
     if \<not> uv_exists v fs core_module_dir then Inl (Err (''package path does not exist at '' @ core_module_dir))
     else and_then (uv_release_package v core_module_options fs core_module_dir) (\<lambda>release.
     let temp = temp_gov_module proposal_dir deploy_order name; path = gov_script_path proposal_dir deploy_order name in
     and_then (init_move_dir_wrapper v temp ''upgrade_scripts'' (path_join framework_dir ''libra-framework'') fs) (\<lambda>fs.
     and_then (libra_author_script_file (uv_lib v) (uv_build_hash v) (uv_render v) (forced v force release) addr path
       next_execution_hash git fs) (\<lambda>fs.
     and_then (libra_compile_script v temp fs) (\<lambda>(_, hash, fs).
     and_then (ok_or ''No such file or directory'' (files fs path)) (\<lambda>text.
       Inr ((name, hash_comment hash @ text), hash, fs)))))))"

fun upgrade_loop ::
  "'m upgrade_vendor \<Rightarrow> string \<Rightarrow> string \<Rightarrow> bool \<Rightarrow> string \<Rightarrow> string \<Rightarrow> nat \<Rightarrow> nat \<Rightarrow> string list \<Rightarrow> u8 list \<Rightarrow> file_system \<Rightarrow>
     ((string \<times> string) list \<times> file_system) result" where
  "upgrade_loop v pd fd force addr git len idx [] next fs = Inr ([], fs)"
| "upgrade_loop v pd fd force addr git len idx (name # names) next fs =
     and_then (upgrade_step v pd fd force addr git (len - idx) name next fs) (\<lambda>(script, hash, fs).
     and_then (upgrade_loop v pd fd force addr git len (idx + 1) names hash fs) (\<lambda>(scripts, fs).
       Inr (script # scripts, fs)))"

definition make_framework_upgrade_artifacts ::
  "'m upgrade_vendor \<Rightarrow> string \<Rightarrow> string \<Rightarrow> string list option \<Rightarrow> bool \<Rightarrow> file_system \<Rightarrow>
     ((string \<times> string) list \<times> file_system) result" where
  "make_framework_upgrade_artifacts v proposal_dir framework_dir core_modules force fs =
     and_then (framework_git_hash v framework_dir) (\<lambda>git.
     and_then (uv_from_hex_literal v CORE_MODULE_ADDRESS) (\<lambda>addr.
     let modules = rev (case core_modules of Some ms \<Rightarrow> ms | None \<Rightarrow> default_core_modules) in
     upgrade_loop v proposal_dir framework_dir force (uv_display_address v addr) git (length modules) 0 modules [] fs))"

fun write_scripts :: "nat \<Rightarrow> (string \<times> string) list \<Rightarrow> string \<Rightarrow> file_system \<Rightarrow> file_system result" where
  "write_scripts idx [] proposal_dir fs = Inr fs"
| "write_scripts idx ((script_name, script) # rest) proposal_dir fs =
     and_then (fs_write (set_extension ''move'' (path_join proposal_dir (show_nat idx @ ''-'' @ script_name))) script fs)
       (write_scripts (idx + 1) rest proposal_dir)"

definition write_to_file :: "(string \<times> string) list \<Rightarrow> string \<Rightarrow> file_system \<Rightarrow> file_system result" where
  "write_to_file result_scripts proposal_dir fs = write_scripts 0 result_scripts proposal_dir fs"

section \<open>The commands\<close>

record FrameworkUpgrade =
  fu_output_dir :: string
  fu_framework_local_dir :: string
  fu_core_modules :: "string list option"
  fu_danger_force_upgrade :: bool

definition FrameworkUpgrade_execute :: "'m upgrade_vendor \<Rightarrow> FrameworkUpgrade \<Rightarrow> file_system \<Rightarrow> file_system result" where
  "FrameworkUpgrade_execute v self fs =
     and_then (if \<not> uv_exists v fs (fu_output_dir self) then uv_create_dir_all v (fu_output_dir self) fs else Inr fs) (\<lambda>fs.
     and_then (make_framework_upgrade_artifacts v (fu_output_dir self) (fu_framework_local_dir self)
       (fu_core_modules self) (fu_danger_force_upgrade self) fs) (\<lambda>(_, fs). Inr fs))"

record GovernanceScript =
  gs_script_dir :: string
  gs_framework_local_dir :: string
  gs_only_make_template :: bool

definition governance_template :: string where
  "governance_template = NL @ concat (map (\<lambda>line. line @ NL)
     [''script {'',
      ''  // THIS IS A TEMPLATE GOVERNANCE SCRIPT'',
      ''  // you can generate this file with commandline tools: `libra-framework governance --output-dir --framework-local-dir`'',
      ''  use diem_framework::diem_governance;'',
      ''  use std::vector;'',
      [],
      ''  fun main(proposal_id: u64){'',
      ''      let next_hash = vector::empty();'',
      ''      let _framework_signer = diem_governance::resolve_multi_step_proposal(proposal_id, '' @ [CHR 0x40] @
        ''0000000000000000000000000000000000000000000000000000000000000001, next_hash);'',
      ''  }'',
      ''}''])"

definition make_template_files ::
  "'m upgrade_vendor \<Rightarrow> string \<Rightarrow> string \<Rightarrow> string \<Rightarrow> string option \<Rightarrow> file_system \<Rightarrow> file_system result" where
  "make_template_files v package_dir framework_local_dir script_name script_source fs =
     and_then (uv_create_dir_all v package_dir fs) (\<lambda>fs.
     and_then (init_move_dir_wrapper v package_dir script_name framework_local_dir fs) (\<lambda>fs.
       fs_write (path_join (path_join package_dir ''sources'') (script_name @ ''.move''))
         (case script_source of Some t \<Rightarrow> t | None \<Rightarrow> governance_template) fs))"

text \<open>The answer of the prompt is a parameter; the compiled script is saved a second time.\<close>

definition GovernanceScript_execute ::
  "'m upgrade_vendor \<Rightarrow> bool result \<Rightarrow> GovernanceScript \<Rightarrow> file_system \<Rightarrow> file_system result" where
  "GovernanceScript_execute v confirm self fs =
     (if \<not> uv_exists v fs (gs_script_dir self) \<or> gs_only_make_template self then
        and_then confirm (\<lambda>yes.
          if yes then
            (let script_name = ''governance_script_template'' in
             make_template_files v (path_join (gs_script_dir self) script_name) (gs_framework_local_dir self)
               script_name None fs)
          else Inr fs)
      else and_then (libra_compile_script v (gs_script_dir self) fs) (\<lambda>(bytes, hash, fs).
        save_build (gs_script_dir self) bytes hash fs))"

section \<open>The paths of a step\<close>

lemma file_name_of_suffix: "\<exists>d. p = d @ file_name_of p \<and> CHR ''/'' \<notin> set (file_name_of p)"
proof -
  have "rev p = takeWhile (\<lambda>c. c \<noteq> CHR ''/'') (rev p) @ dropWhile (\<lambda>c. c \<noteq> CHR ''/'') (rev p)" by simp
  then have "p = rev (dropWhile (\<lambda>c. c \<noteq> CHR ''/'') (rev p)) @ file_name_of p"
    unfolding file_name_of_def by (metis rev_append rev_rev_ident)
  moreover have "CHR ''/'' \<notin> set (file_name_of p)" by (auto simp: file_name_of_def dest: set_takeWhileD)
  ultimately show ?thesis by blast
qed

lemma file_name_of_join: "file_name_of (d @ CHR ''/'' # x) = file_name_of x \<or> CHR ''/'' \<notin> set x \<and> file_name_of (d @ CHR ''/'' # x) = x"
  by (auto simp: file_name_of_def takeWhile_append takeWhile_eq_all_conv)

lemma set_extension_dir: "\<exists>y. set_extension ext (d @ CHR ''/'' # x) = d @ CHR ''/'' # y"
proof -
  let ?p = "d @ CHR ''/'' # x"
  obtain e where e: "?p = e @ file_name_of ?p" "CHR ''/'' \<notin> set (file_name_of ?p)" using file_name_of_suffix by blast
  have "length (file_name_of ?p) \<le> length x"
  proof (rule ccontr)
    assume "\<not> length (file_name_of ?p) \<le> length x"
    then have "length e \<le> length d" using arg_cong [OF e(1), of length] by simp
    then have "CHR ''/'' \<in> set (file_name_of ?p)" using e(1)
      by (metis append_eq_append_conv_if drop_append in_set_conv_decomp append_eq_conv_conj diff_is_0_eq drop0 set_append Un_iff)
    with e(2) show False by simp
  qed
  then have "length d + 1 \<le> length ?p - length (file_name_of ?p)" by simp
  then obtain k where "length ?p - length (file_name_of ?p) = length d + 1 + k" using le_Suc_ex by blast
  then have "take (length ?p - length (file_name_of ?p)) ?p = d @ CHR ''/'' # take k x" by simp
  then show ?thesis unfolding set_extension_def by simp
qed

lemma gov_script_path_dir: "\<exists>y. gov_script_path pd k name = path_join (temp_gov_module pd k name) (''sources/'' @ y)"
  using set_extension_dir [of "''move''" "temp_gov_module pd k name @ ''/sources''"]
  by (auto simp: gov_script_path_def path_join_def)

lemma fs_write_Inr: "fs_write p t fs = Inr fs' \<longleftrightarrow> writable fs p \<and> fs' = fs\<lparr>files := (files fs)(p \<mapsto> t)\<rparr>"
  by (auto simp: fs_write_def)

lemma save_build_files:
  assumes "save_build d bytes hash fs = Inr fs'"
  shows "files fs' (path_join d ''script_sha3'') = Some (lower_hex hash)"
    "files fs' (path_join d ''script.mv'') = Some (raw_text bytes)"
    "files fs' (path_join d (''sources/'' @ y)) = files fs (path_join d (''sources/'' @ y))"
  using assms by (auto simp: save_build_def and_then_eq_Inr fs_write_Inr path_join_def)

section \<open>A step is what the governance needs\<close>

text \<open>What one step of a proposal promises: the text returned is the script written in its directory, headed by
  the hash of the bytecode compiled from that directory; run, the script hands over \<open>next\<close> and publishes
  the package built from the core module.\<close>

definition step_correct ::
  "'m upgrade_vendor \<Rightarrow> string \<Rightarrow> string \<Rightarrow> bool \<Rightarrow> string \<Rightarrow> nat \<Rightarrow> string \<Rightarrow> u8 list \<Rightarrow> string \<times> string \<Rightarrow>
     writer_call list \<Rightarrow> u8 list \<Rightarrow> bool" where
  "step_correct v pd fd force git k name next script calls hash \<longleftrightarrow>
     script = (name, hash_comment hash @ uv_render v calls) \<and>
     (\<exists>fs codes. files fs (gov_script_path pd k name) = Some (uv_render v calls) \<and>
        uv_script_code v script_options fs (temp_gov_module pd k name) = Inr codes \<and> codes \<noteq> [] \<and>
        hash = uv_sha3 v (last codes)) \<and>
     (\<exists>fs dir release s. uv_canonicalize v fs fd = Inr dir \<and>
        uv_release_package v core_module_options fs (path_push dir name) = Inr release \<and>
        exec calls initial_script = Some s \<and> next_hash s = Some next \<and> git_hash s = Some git \<and>
        map_option Inr (map_option fst (published s)) = Some (to_bytes (uv_lib v) (metadata (forced v force release))) \<and>
        map_option snd (published s) = Some (code release))"

text \<open>The files a step leaves beside its script: the bytecode and its hash.\<close>

definition step_saved :: "'m upgrade_vendor \<Rightarrow> file_system \<Rightarrow> string \<Rightarrow> nat \<Rightarrow> string \<Rightarrow> u8 list \<Rightarrow> bool" where
  "step_saved v fs pd k name hash \<longleftrightarrow>
     files fs (path_join (temp_gov_module pd k name) ''script_sha3'') = Some (lower_hex hash) \<and>
     (\<exists>bytes. files fs (path_join (temp_gov_module pd k name) ''script.mv'') = Some (raw_text bytes) \<and> hash = uv_sha3 v bytes)"

lemma upgrade_step_correct:
  assumes "upgrade_step v pd fd force addr git k name next fs = Inr (script, hash, fs')"
    and "next \<noteq> into_bytes ''vector::empty<u8>()''" "CHR 0x22 \<notin> set git"
  shows "\<exists>calls. step_correct v pd fd force git k name next script calls hash"
    "step_saved v fs' pd k name hash"
proof -
  let ?p = "gov_script_path pd k name" let ?t = "temp_gov_module pd k name"
  obtain dir release fs1 fs2 bytes body where
    r: "uv_canonicalize v fs fd = Inr dir" "uv_release_package v core_module_options fs (path_push dir name) = Inr release"
    and a: "libra_author_script_file (uv_lib v) (uv_build_hash v) (uv_render v) (forced v force release) addr ?p next git fs1 = Inr fs2"
    and c: "libra_compile_script v ?t fs2 = Inr (bytes, hash, fs')"
    and t: "files fs' ?p = Some body" "script = (name, hash_comment hash @ body)"
    using assms(1) by (auto simp: upgrade_step_def and_then_eq_Inr ok_or_eq_Inr Let_def split: if_splits)
  obtain calls where calls: "libra_author_script (uv_lib v) (uv_build_hash v) (forced v force release) addr next git = Inr calls"
    "files fs2 ?p = Some (uv_render v calls)"
    using a by (auto simp: libra_author_script_file_def and_then_eq_Inr split: if_splits)
  obtain codes where codes: "uv_script_code v script_options fs2 ?t = Inr codes" "codes \<noteq> []"
    "bytes = last codes" "hash = uv_sha3 v bytes" "save_build ?t bytes hash fs2 = Inr fs'"
    using c by (auto simp: libra_compile_script_def and_then_eq_Inr Let_def split: if_splits)
  have "body = uv_render v calls"
    using t(1) calls(2) gov_script_path_dir [of pd k name] save_build_files(3) [OF codes(5)] by auto
  moreover obtain md where md: "to_bytes (uv_lib v) (metadata (forced v force release)) = Inr md"
    using libra_author_script_total calls(1) by (metis is_ok_iff)
  moreover have "code (forced v force release) = code release" by (simp add: forced_def)
  ultimately have "step_correct v pd fd force git k name next script calls hash"
    using script_runs [OF calls(1) md assms(2,3)] r codes t(2) calls(2) by (fastforce simp: step_correct_def)
  then show "\<exists>calls. step_correct v pd fd force git k name next script calls hash" by blast
  show "step_saved v fs' pd k name hash" using save_build_files(1,2) [OF codes(5)] codes(4) by (auto simp: step_saved_def)
qed

text \<open>What a later step does to the files of an earlier one: nothing, when the package template writes below its own
  directory only.\<close>

definition template_confined :: "'m upgrade_vendor \<Rightarrow> bool" where
  "template_confined v \<longleftrightarrow> (\<forall>pkg n m d fs fs' q. uv_init_move_dir v pkg n m d fs = Inr fs' \<longrightarrow>
     \<not> starts_with (pkg @ ''/'') q \<longrightarrow> files fs' q = files fs q)"

lemma upgrade_step_frame:
  assumes "upgrade_step v pd fd force addr git k name next fs = Inr (script, hash, fs')" "template_confined v"
    and "\<not> starts_with (temp_gov_module pd k name @ ''/'') q"
  shows "files fs' q = files fs q"
proof -
  let ?p = "gov_script_path pd k name" let ?t = "temp_gov_module pd k name"
  have under: "starts_with (?t @ ''/'') ?p" "starts_with (?t @ ''/'') (path_join ?t y)" for y
    using gov_script_path_dir [of pd k name] by (auto simp: starts_with_iff path_join_def)
  obtain d release fs1 fs2 bytes where
    "uv_init_move_dir v ?t ''upgrade_scripts'' ''LibraFramework'' d fs = Inr fs1"
    and a: "libra_author_script_file (uv_lib v) (uv_build_hash v) (uv_render v) release addr ?p next git fs1 = Inr fs2"
    and c: "libra_compile_script v ?t fs2 = Inr (bytes, hash, fs')"
    using assms(1) by (auto simp: upgrade_step_def init_move_dir_wrapper_def and_then_eq_Inr ok_or_eq_Inr Let_def split: if_splits)
  then have "files fs1 q = files fs q" using assms(2,3) by (auto simp: template_confined_def)
  moreover have "files fs2 q = files fs1 q" using a assms(3) under(1)
    by (auto simp: libra_author_script_file_def and_then_eq_Inr split: if_splits)
  moreover have "files fs' q = files fs2 q" using c assms(3) under(2) [of "''script.mv''"] under(2) [of "''script_sha3''"]
    by (auto simp: libra_compile_script_def save_build_def fs_write_Inr and_then_eq_Inr Let_def split: if_splits)
  ultimately show ?thesis by simp
qed

lemma steps_apart: "j \<noteq> k \<Longrightarrow> \<not> starts_with (temp_gov_module pd j a @ ''/'') (path_join (temp_gov_module pd k b) y)"
proof
  assume jk: "j \<noteq> k" and "starts_with (temp_gov_module pd j a @ ''/'') (path_join (temp_gov_module pd k b) y)"
  then obtain r where "show_nat j @ CHR ''-'' # a @ ''/'' @ r = show_nat k @ CHR ''-'' # b @ ''/'' @ y"
    by (auto simp: starts_with_iff temp_gov_module_def ordered_display_name_def path_join_def)
  then have "takeWhile is_digit (show_nat j @ CHR ''-'' # a @ ''/'' @ r) = takeWhile is_digit (show_nat k @ CHR ''-'' # b @ ''/'' @ y)" by simp
  moreover have "\<not> is_digit (CHR ''-'')" by (simp add: is_digit_def digit_value_def)
  ultimately show False using show_nat_digits jk by (simp add: takeWhile_append2 show_nat_inj)
qed

lemma upgrade_loop_frame:
  "upgrade_loop v pd fd force addr git len idx names next fs = Inr (scripts, fs') \<Longrightarrow> template_confined v \<Longrightarrow> len - idx < k \<Longrightarrow>
    files fs' (path_join (temp_gov_module pd k b) y) = files fs (path_join (temp_gov_module pd k b) y)"
proof (induction names arbitrary: idx "next" fs scripts)
  case (Cons name names)
  obtain script hash fs1 scripts' where s: "upgrade_step v pd fd force addr git (len - idx) name next fs = Inr (script, hash, fs1)"
    and l: "upgrade_loop v pd fd force addr git len (idx + 1) names hash fs1 = Inr (scripts', fs')"
    using Cons.prems(1) by (auto simp: and_then_eq_Inr)
  show ?case
    using Cons.IH [OF l Cons.prems(2)] Cons.prems(3) upgrade_step_frame [OF s Cons.prems(2) steps_apart] by fastforce
qed simp

section \<open>The steps of a proposal are chained\<close>

lemma upgrade_loop_correct:
  assumes "upgrade_loop v pd fd force addr git len idx names next fs = Inr (scripts, fs')"
    and "next \<noteq> into_bytes ''vector::empty<u8>()''" "\<forall>b. uv_sha3 v b \<noteq> into_bytes ''vector::empty<u8>()''"
    and "CHR 0x22 \<notin> set git" "template_confined v" "idx + length names \<le> len"
  shows "\<exists>hashes. length hashes = length names \<and> length scripts = length names \<and>
    (\<forall>j < length names. \<exists>calls. step_correct v pd fd force git (len - (idx + j)) (names ! j) ((next # hashes) ! j)
       (scripts ! j) calls (hashes ! j)) \<and>
    (\<forall>j < length names. step_saved v fs' pd (len - (idx + j)) (names ! j) (hashes ! j))"
  using assms(1,2,6)
proof (induction names arbitrary: idx "next" fs scripts)
  case Nil
  then show ?case by simp
next
  case (Cons name names)
  obtain script hash fs1 scripts' where s: "upgrade_step v pd fd force addr git (len - idx) name next fs = Inr (script, hash, fs1)"
    and l: "upgrade_loop v pd fd force addr git len (idx + 1) names hash fs1 = Inr (scripts', fs')" "scripts = script # scripts'"
    using Cons.prems(1) by (auto simp: and_then_eq_Inr)
  note st = upgrade_step_correct [OF s Cons.prems(2) assms(4)]
  have h: "hash \<noteq> into_bytes ''vector::empty<u8>()''" using st(2) assms(3) by (auto simp: step_saved_def)
  obtain hs where hs: "length hs = length names" "length scripts' = length names"
    "\<forall>j < length names. \<exists>calls. step_correct v pd fd force git (len - (idx + 1 + j)) (names ! j) ((hash # hs) ! j)
       (scripts' ! j) calls (hs ! j)"
    "\<forall>j < length names. step_saved v fs' pd (len - (idx + 1 + j)) (names ! j) (hs ! j)"
    using Cons.IH [OF l(1) h] Cons.prems(3) by auto
  have "step_saved v fs' pd (len - idx) name hash"
    using st(2) upgrade_loop_frame [OF l(1) assms(5), of "len - idx"] Cons.prems(3) by (simp add: step_saved_def)
  then have "step_saved v fs' pd (len - (idx + j)) ((name # names) ! j) ((hash # hs) ! j)" if "j < length (name # names)" for j
    using that hs(4) by (cases j) auto
  moreover have "\<exists>calls. step_correct v pd fd force git (len - (idx + j)) ((name # names) ! j) ((next # hash # hs) ! j)
      (scripts ! j) calls ((hash # hs) ! j)" if "j < length (name # names)" for j
    using that st(1) hs(3) l(2) by (cases j) auto
  ultimately show ?case using hs(1,2) l(2) by (intro exI [of _ "hash # hs"]) auto
qed

text \<open>The steps of an upgrade proposal are chained. Whenever the artifacts are made, there is one script per core
  module, and one hash each, such that the script of the module deployed as number \<open>k\<close> publishes that module's package and
  hands over the execution hash of the script deployed next, the last one an empty hash; each text returned is
  headed by the hash of the bytecode compiled from it; and in the end every directory holds that bytecode and
  its hash. The texts are returned in reverse order of deployment.\<close>

theorem upgrade_steps_chained:
  assumes "make_framework_upgrade_artifacts v pd fd core_modules force fs = Inr (scripts, fs')"
    and "modules = (case core_modules of Some ms \<Rightarrow> ms | None \<Rightarrow> default_core_modules)"
    and "\<forall>b. length (uv_sha3 v b) = 32" "framework_git_hash v fd = Inr git" "CHR 0x22 \<notin> set git" "template_confined v"
  shows "\<exists>hashes. length hashes = length modules \<and> length scripts = length modules \<and>
    (\<forall>k < length modules. step_saved v fs' pd (k + 1) (modules ! k) (hashes ! k) \<and>
       (\<exists>calls. step_correct v pd fd force git (k + 1) (modules ! k)
          (if k + 1 < length modules then hashes ! (k + 1) else []) (scripts ! (length modules - 1 - k)) calls (hashes ! k)))"
proof -
  let ?n = "length modules"
  have len: "length (into_bytes ''vector::empty<u8>()'') = 19" by (simp add: into_bytes_def)
  then have no: "\<forall>b. uv_sha3 v b \<noteq> into_bytes ''vector::empty<u8>()''" "[] \<noteq> into_bytes ''vector::empty<u8>()''"
    using assms(3) by (auto dest: arg_cong [of _ _ length])
  obtain addr where "upgrade_loop v pd fd force addr git (length (rev modules)) 0 (rev modules) [] fs = Inr (scripts, fs')"
    using assms(1,2,4) by (auto simp: make_framework_upgrade_artifacts_def and_then_eq_Inr Let_def)
  from upgrade_loop_correct [OF this no(2,1) assms(5,6)] obtain hs where hs: "length hs = ?n" "length scripts = ?n"
    "\<forall>j < ?n. \<exists>calls. step_correct v pd fd force git (?n - j) (rev modules ! j) (([] # hs) ! j) (scripts ! j) calls (hs ! j)"
    "\<forall>j < ?n. step_saved v fs' pd (?n - j) (rev modules ! j) (hs ! j)"
    by auto
  have "step_saved v fs' pd (k + 1) (modules ! k) (rev hs ! k) \<and>
      (\<exists>calls. step_correct v pd fd force git (k + 1) (modules ! k) (if k + 1 < ?n then rev hs ! (k + 1) else [])
      (scripts ! (?n - 1 - k)) calls (rev hs ! k))" if k: "k < ?n" for k
  proof -
    have "?n - (?n - 1 - k) = k + 1" "rev modules ! (?n - 1 - k) = modules ! k" "hs ! (?n - 1 - k) = rev hs ! k"
      "([] # hs) ! (?n - 1 - k) = (if k + 1 < ?n then rev hs ! (k + 1) else [])"
      using k hs(1) by (auto simp: rev_nth nth_Cons')
    moreover have "?n - 1 - k < ?n" using k by simp
    ultimately show ?thesis using hs(3,4) [rule_format, of "?n - 1 - k"] by simp
  qed
  then show ?thesis using hs(1,2) by (intro exI [of _ "rev hs"]) simp
qed

text \<open>The files that \<open>write_to_file\<close> makes of the result are numbered against the order of deployment.\<close>

lemma write_scripts_keeps: "write_scripts i ss pd fs = Inr fs' \<Longrightarrow> files fs p \<noteq> None \<Longrightarrow> files fs' p \<noteq> None"
  by (induction i ss pd fs rule: write_scripts.induct) (auto simp: and_then_eq_Inr fs_write_Inr split: if_splits)

lemma written_order_reversed:
  assumes "write_scripts idx scripts pd fs = Inr fs'" "k < length scripts"
  shows "files fs' (set_extension ''move'' (path_join pd (show_nat (idx + k) @ ''-'' @ fst (scripts ! k)))) \<noteq> None"
  using assms
proof (induction idx scripts pd fs arbitrary: k rule: write_scripts.induct)
  case (2 idx n t rest pd fs)
  let ?fs = "fs\<lparr>files := (files fs)(set_extension ''move'' (path_join pd (show_nat idx @ ''-'' @ n)) \<mapsto> t)\<rparr>"
  have w: "fs_write (set_extension ''move'' (path_join pd (show_nat idx @ ''-'' @ n))) t fs = Inr ?fs"
    "write_scripts (idx + 1) rest pd ?fs = Inr fs'"
    using "2.prems"(1) by (auto simp: and_then_eq_Inr fs_write_Inr)
  show ?case
  proof (cases k)
    case 0
    then show ?thesis using write_scripts_keeps [OF w(2), of "set_extension ''move'' (path_join pd (show_nat idx @ ''-'' @ n))"] by simp
  next
    case (Suc j)
    then show ?thesis using "2.IH" [OF w(2), of j] "2.prems"(2) by simp
  qed
qed simp

text \<open>An instance: a compiler that returns one script, a template that writes nothing, a constant hash.\<close>

definition example_upgrade :: "nat upgrade_vendor" where
  "example_upgrade =
     \<lparr>uv_lib = example_lib, uv_build_hash = ''b'', uv_render = (\<lambda>_. ''script''), uv_from_hex_literal = (\<lambda>_. Inr 1),
      uv_display_address = (\<lambda>_. ''1''), uv_discover = Inr, uv_head_commit = (\<lambda>_. Inr ''abc''),
      uv_canonicalize = (\<lambda>_. Inr), uv_exists = (\<lambda>_ _. True), uv_create_dir_all = (\<lambda>_. Inr),
      uv_release_package = (\<lambda>_ _ _. Inr \<lparr>metadata = 3, code = [[1]]\<rparr>), uv_script_code = (\<lambda>_ _ _. Inr [[9]]),
      uv_init_move_dir = (\<lambda>_ _ _ _. Inr), uv_sha3 = (\<lambda>b. replicate 32 (hd b))\<rparr>"

lemma example_upgrade_laws:
  "\<forall>b. length (uv_sha3 example_upgrade b) = 32" "framework_git_hash example_upgrade ''/f'' = Inr ''abc''"
  "CHR 0x22 \<notin> set ''abc''" "template_confined example_upgrade"
  by (simp_all add: example_upgrade_def template_confined_def framework_git_hash_def get_framework_git_head_def)

lemma example_upgrade_made:
  "\<exists>scripts fs'. make_framework_upgrade_artifacts example_upgrade ''/p'' ''/f'' (Some [''a'', ''b'']) False
      \<lparr>files = Map.empty, writable = (\<lambda>_. True)\<rparr> = Inr (scripts, fs')"
proof -
  let ?fs = "\<lparr>files = Map.empty, writable = (\<lambda>_. True)\<rparr> :: file_system"
  have step: "\<exists>s h fs'. upgrade_step example_upgrade ''/p'' ''/f'' False ad g k n nh fs = Inr (s, h, fs') \<and> writable fs' = (\<lambda>_. True)"
    if "writable fs = (\<lambda>_. True)" for fs ad g k n nh
  proof -
    obtain calls where c: "libra_author_script example_lib ''b'' \<lparr>metadata = 3, code = [[1]]\<rparr> ad nh g = Inr calls"
      using libra_author_script_total [of example_lib "''b''" "\<lparr>metadata = 3, code = [[1]]\<rparr>" ad nh g]
      by (auto simp: is_ok_iff example_lib_def)
    obtain y where "gov_script_path ''/p'' k n = path_join (temp_gov_module ''/p'' k n) (''sources/'' @ y)"
      using gov_script_path_dir by blast
    then show ?thesis using c that
      by (simp add: upgrade_step_def libra_author_script_file_def init_move_dir_wrapper_def libra_compile_script_def
          save_build_def fs_write_def forced_def example_upgrade_def path_join_def Let_def)
  qed
  obtain s1 h1 fs1 where 1: "upgrade_step example_upgrade ''/p'' ''/f'' False ''1'' ''abc'' 2 ''b'' [] ?fs = Inr (s1, h1, fs1)"
    "writable fs1 = (\<lambda>_. True)" using step [of ?fs "''1''" "''abc''" 2 "''b''" "[]"] by auto
  obtain s2 h2 fs2 where 2: "upgrade_step example_upgrade ''/p'' ''/f'' False ''1'' ''abc'' 1 ''a'' h1 fs1 = Inr (s2, h2, fs2)"
    using step [OF 1(2)] by blast
  have f: "uv_from_hex_literal example_upgrade = (\<lambda>_. Inr 1)" "uv_display_address example_upgrade = (\<lambda>_. ''1'')"
    by (simp_all add: example_upgrade_def)
  show ?thesis using 1(1) 2
    by (intro exI) (simp add: make_framework_upgrade_artifacts_def example_upgrade_laws(2) f numeral_2_eq_2)
qed

theorem upgrade_steps_chained_witness:
  "\<exists>scripts fs' hashes. make_framework_upgrade_artifacts example_upgrade ''/p'' ''/f'' (Some [''a'', ''b'']) False
      \<lparr>files = Map.empty, writable = (\<lambda>_. True)\<rparr> = Inr (scripts, fs') \<and>
    length hashes = 2 \<and> length scripts = 2 \<and>
    (\<exists>calls. step_correct example_upgrade ''/p'' ''/f'' False ''abc'' 1 ''a'' (hashes ! 1) (scripts ! 1) calls (hashes ! 0)) \<and>
    (\<exists>calls. step_correct example_upgrade ''/p'' ''/f'' False ''abc'' 2 ''b'' [] (scripts ! 0) calls (hashes ! 1))"
proof -
  obtain scripts fs' where m: "make_framework_upgrade_artifacts example_upgrade ''/p'' ''/f'' (Some [''a'', ''b'']) False
      \<lparr>files = Map.empty, writable = (\<lambda>_. True)\<rparr> = Inr (scripts, fs')"
    using example_upgrade_made by blast
  from upgrade_steps_chained [OF m refl example_upgrade_laws] obtain hashes where h: "length hashes = length [''a'', ''b'']"
    "length scripts = length [''a'', ''b'']"
    "\<forall>k < length [''a'', ''b'']. step_saved example_upgrade fs' ''/p'' (k + 1) ([''a'', ''b''] ! k) (hashes ! k) \<and>
       (\<exists>calls. step_correct example_upgrade ''/p'' ''/f'' False ''abc'' (k + 1) ([''a'', ''b''] ! k)
       (if k + 1 < length [''a'', ''b''] then hashes ! (k + 1) else []) (scripts ! (length [''a'', ''b''] - 1 - k)) calls (hashes ! k))"
    by (simp only: option.case) blast
  show ?thesis using m h(1,2) h(3) [rule_format, of 0] h(3) [rule_format, of 1]
    by (intro exI [of _ scripts] exI [of _ fs'] exI [of _ hashes]) (simp add: numeral_2_eq_2)
qed

end
