(* ===== verification/Framework_Release.thy ===== *)
theory Framework_Release
  imports Upgrade_Proposal
begin

text \<open>
  Framework releases (\<^verbatim>\<open>framework/src/release.rs\<close>): the targets with their text form, the packages of a release
  and the options handed to the vendor's release builder. Reading and building a bundle is a parameter.
\<close>

datatype ReleaseTarget = Head | Devnet | Testnet | Mainnet

definition RELEASE_BUNDLE_EXTENSION :: string where "RELEASE_BUNDLE_EXTENSION = ''mrb''"

fun fmt_target :: "ReleaseTarget \<Rightarrow> string" where
  "fmt_target Head = ''head''"
| "fmt_target Devnet = ''devnet''"
| "fmt_target Testnet = ''testnet''"
| "fmt_target Mainnet = ''mainnet''"

text \<open>\<^verbatim>\<open>str::to_lowercase\<close> on ASCII text\<close>

definition lower_char :: "char \<Rightarrow> char" where
  "lower_char c = (let n = of_char c :: nat in if 65 \<le> n \<and> n \<le> 90 then char_of (n + 32) else c)"

definition target_from_str :: "string \<Rightarrow> ReleaseTarget result" where
  "target_from_str s =
     (let l = map lower_char s in
      if l = ''head'' then Inr Head
      else if l = ''devnet'' then Inr Devnet
      else if l = ''testnet'' then Inr Testnet
      else if l = ''mainnet'' then Inr Mainnet
      else Inl (Err ''Invalid target. Valid values are: head, devnet, testnet, mainnet''))"

definition packages :: "ReleaseTarget \<Rightarrow> (string \<times> string option) list" where
  "packages self =
     [(''move-stdlib'', None), (''vendor-stdlib'', None),
      (''libra-framework'', Some ''cached-packages/src/libra_framework_sdk_builder.rs'')]"

definition bundle_file_name :: "ReleaseTarget \<Rightarrow> string" where
  "bundle_file_name self = fmt_target self @ ''.'' @ RELEASE_BUNDLE_EXTENSION"

text \<open>The bundle of a target is read below the manifest directory of the crate, which is fixed when it is compiled.\<close>

definition load_bundle :: "(string \<Rightarrow> 'b result) \<Rightarrow> string \<Rightarrow> ReleaseTarget \<Rightarrow> 'b result" where
  "load_bundle read_bundle cargo_manifest_dir self =
     read_bundle (path_join (path_join cargo_manifest_dir ''releases'') (bundle_file_name self))"

definition load_bundle_from_file :: "(string \<Rightarrow> 'b result) \<Rightarrow> string \<Rightarrow> 'b result" where
  "load_bundle_from_file read_bundle path = read_bundle path"

record DocgenOptions =
  include_impl :: bool
  include_specs :: bool
  specs_inlined :: bool
  include_dep_diagram :: bool
  collapsed_sections :: bool
  landing_page_template :: "string option"
  references_file :: "string option"

record ReleaseBuildOptions = BuildOptions +
  dev :: bool
  named_addresses_option :: "(string \<times> AccountAddress) list"
  install_dir :: "string option"
  with_docs :: bool
  docgen_options :: "DocgenOptions option"

record ReleaseOptions =
  build_options :: ReleaseBuildOptions
  package_paths :: "string list"
  rust_bindings :: "string list"
  release_output :: string

text \<open>The directory comes from the environment, or else is the current one; a current directory that cannot be
  read panics.\<close>

definition release_source_path :: "string option \<Rightarrow> string result \<Rightarrow> string result" where
  "release_source_path cargo_manifest_dir current_dir =
     (case cargo_manifest_dir of Some p \<Rightarrow> Inr p | None \<Rightarrow> expect ''could not get local current_dir'' current_dir)"

definition create_release_options ::
  "string option \<Rightarrow> string result \<Rightarrow> ReleaseTarget \<Rightarrow> bool \<Rightarrow> string option \<Rightarrow> ReleaseOptions result" where
  "create_release_options cargo_manifest_dir current_dir self dev_mode out =
     and_then (release_source_path cargo_manifest_dir current_dir) (\<lambda>source_path.
       let ps = map (\<lambda>(path, binding_path). (path_join source_path path, case binding_path of Some b \<Rightarrow> b | None \<Rightarrow> []))
                  (packages self) in
       Inr \<lparr>build_options =
              \<lparr>with_srcs = dev_mode, with_abis = True, with_source_maps = dev_mode, with_error_map = True,
               skip_fetch_latest_git_deps = True, bytecode_version = Some BYTECODE_VERSION,
               dev = dev_mode, named_addresses_option = [], install_dir = None, with_docs = True,
               docgen_options = Some
                 \<lparr>include_impl = True, include_specs = True, specs_inlined = False, include_dep_diagram = False,
                  collapsed_sections = True, landing_page_template = Some ''doc_template/overview.md'',
                  references_file = Some ''doc_template/references.md''\<rparr>\<rparr>,
            package_paths = map fst ps,
            rust_bindings = map (\<lambda>(_, binding). if binding \<noteq> [] then path_join source_path binding else binding) ps,
            release_output = (case out of Some path \<Rightarrow> path | None \<Rightarrow> path_join source_path ''releases/head.mrb'')\<rparr>)"

definition create_release ::
  "(ReleaseOptions \<Rightarrow> unit result) \<Rightarrow> string option \<Rightarrow> string result \<Rightarrow> ReleaseTarget \<Rightarrow> bool \<Rightarrow> string option \<Rightarrow> unit result" where
  "create_release build cargo_manifest_dir current_dir self dev_mode out =
     and_then (create_release_options cargo_manifest_dir current_dir self dev_mode out) build"

record GenesisRelease =
  gr_target :: ReleaseTarget
  gr_production :: bool

definition GenesisRelease_execute ::
  "(ReleaseOptions \<Rightarrow> unit result) \<Rightarrow> string option \<Rightarrow> string result \<Rightarrow> GenesisRelease \<Rightarrow> unit result" where
  "GenesisRelease_execute build cargo_manifest_dir current_dir self =
     create_release build cargo_manifest_dir current_dir (gr_target self) (\<not> gr_production self) None"

text \<open>The alternatives of the command line; the prompt of the governance command is a parameter.\<close>

datatype FrameworkCli = Release GenesisRelease | Governance GovernanceScript | Upgrade FrameworkUpgrade

fun FrameworkCli_execute ::
  "(ReleaseOptions \<Rightarrow> unit result) \<Rightarrow> string option \<Rightarrow> string result \<Rightarrow> 'm upgrade_vendor \<Rightarrow> bool result \<Rightarrow>
     FrameworkCli \<Rightarrow> file_system \<Rightarrow> file_system result" where
  "FrameworkCli_execute build env cwd v confirm (Release tool) fs =
     and_then (GenesisRelease_execute build env cwd tool) (\<lambda>_. Inr fs)"
| "FrameworkCli_execute build env cwd v confirm (Governance tool) fs = GovernanceScript_execute v confirm tool fs"
| "FrameworkCli_execute build env cwd v confirm (Upgrade tool) fs = FrameworkUpgrade_execute v tool fs"

definition NAMED_ADDRESSES :: "string \<Rightarrow> AccountAddress option" where
  "NAMED_ADDRESSES = map_of
     [(''std'', 1), (''diem_std'', 1), (''diem_framework'', 1), (''diem_token'', 3), (''diem_token_objects'', 4),
      (''core_resources'', 0xA550C18), (''vm_reserved'', 0), (''ol_framework'', 1)]"

section \<open>Properties\<close>

lemma target_from_str_iff: "target_from_str s = Inr t \<longleftrightarrow> map lower_char s = fmt_target t"
  by (cases t) (auto simp: target_from_str_def Let_def)

lemma lower_char_lower: "c \<in> set (fmt_target t) \<Longrightarrow> lower_char c = c"
  by (cases t) (auto simp: lower_char_def)

lemma target_roundtrip: "target_from_str (fmt_target t) = Inr t"
  using lower_char_lower [of _ t] by (simp add: target_from_str_iff map_idI)

lemma bundle_file_name_inj: "bundle_file_name s = bundle_file_name t \<longleftrightarrow> s = t"
  using target_roundtrip by (metis append_same_eq bundle_file_name_def sum.inject(2))

text \<open>A release publishes the modules an upgrade replaces by default, in the same order, without sources in production.\<close>

lemma release_matches_upgrade:
  assumes "create_release_options env cwd t dev_mode out = Inr opts"
  shows "\<exists>d. package_paths opts = map (path_join d) default_core_modules"
    "with_srcs (build_options opts) = dev_mode" "length (rust_bindings opts) = length (package_paths opts)"
  using assms by (auto simp: create_release_options_def and_then_eq_Inr Let_def packages_def default_core_modules_def)

end
