(* ===== verification/Governance_Flow.thy ===== *)
theory Governance_Flow
  imports Tx_Commands Hex_Id Upgrade_Proposal
begin

text \<open>
  From the artifacts of an upgrade to the governance transactions: the framework builder
  (\<^verbatim>\<open>framework/src/builder\<close>) writes \<^verbatim>\<open>script_sha3\<close> and \<^verbatim>\<open>script.mv\<close>, the governance commands
  (\<^verbatim>\<open>tools/txs/src/txs_cli_governance.rs\<close>) read them. What is voted on is what is executed.
\<close>

lemma u8_of_char: "of_char (char_of (unat b)) = (b :: u8)"
proof -
  have "(of_char (char_of (unat b)) :: u8) = of_nat (of_char (char_of (unat b)))" by (simp only: of_nat_of_char)
  then show ?thesis by simp
qed

lemma into_bytes_raw_text: "into_bytes (raw_text bs) = bs"
  by (induction bs) (simp_all add: into_bytes_def raw_text_def u8_of_char)

lemma propose_saved_step:
  assumes "step_saved v fs pd k name hash" "\<forall>bs. hex_decode c (lower_hex bs) = Inr bs" "\<forall>p. path_exists c p"
    and "is_ok (get_next_governance_proposal_id (cmd_view c) led)"
  shows "governance_payload c fs led (Gov_Propose (temp_gov_module pd k name) address) =
    diem_governance_ol_create_proposal_v2 (bcs_of c) hash (into_bytes address) (into_bytes ''metadata struct'') True"
  using assms by (auto simp: step_saved_def is_ok_iff)

lemma resolve_saved_step:
  assumes "step_saved v fs pd k name hash" "\<forall>p. path_exists c p" "is_gov_proposal_resolved (cmd_view c) led pid = Inr False"
  shows "\<exists>bytes. hash = uv_sha3 v bytes \<and>
    governance_payload c fs led (Gov_Resolve pid (temp_gov_module pd k name)) = Inr (Script bytes [] [ArgU64 pid])"
  using assms by (auto simp: step_saved_def into_bytes_raw_text unwrap_none_def)

text \<open>C8. What the validators vote on is what is executed. After the artifacts of an upgrade have been made, there is for
  each step the bytecode its \<open>resolve\<close> command submits, such that the proposal created from the first directory
  carries the hash of the bytecode resolved there, and every script, when it runs, hands over the hash of the
  bytecode that the next \<open>resolve\<close> submits, the last one an empty hash: no step can run anything the
  vote did not fix.\<close>

theorem voted_script_is_executed:
  assumes "make_framework_upgrade_artifacts v pd fd core_modules force fs = Inr (scripts, fs')"
    and "modules = (case core_modules of Some ms \<Rightarrow> ms | None \<Rightarrow> default_core_modules)" "modules \<noteq> []"
    and "\<forall>b. length (uv_sha3 v b) = 32" "framework_git_hash v fd = Inr git" "CHR 0x22 \<notin> set git" "template_confined v"
    and "\<forall>bs. hex_decode c (lower_hex bs) = Inr bs" "\<forall>p. path_exists c p"
    and "is_ok (get_next_governance_proposal_id (cmd_view c) led)" "is_gov_proposal_resolved (cmd_view c) led pid = Inr False"
  shows "\<exists>bytes. governance_payload c fs' led (Gov_Propose (temp_gov_module pd 1 (hd modules)) address) =
      diem_governance_ol_create_proposal_v2 (bcs_of c) (uv_sha3 v (bytes 0)) (into_bytes address) (into_bytes ''metadata struct'') True \<and>
    (\<forall>k < length modules.
      governance_payload c fs' led (Gov_Resolve pid (temp_gov_module pd (k + 1) (modules ! k))) = Inr (Script (bytes k) [] [ArgU64 pid]) \<and>
      (\<exists>calls s. scripts ! (length modules - 1 - k) = (modules ! k, hash_comment (uv_sha3 v (bytes k)) @ uv_render v calls) \<and>
        exec calls initial_script = Some s \<and>
        next_hash s = Some (if k + 1 < length modules then uv_sha3 v (bytes (k + 1)) else [])))"
proof -
  let ?n = "length modules"
  obtain hs where hs: "\<And>k. k < ?n \<Longrightarrow> step_saved v fs' pd (k + 1) (modules ! k) (hs ! k)"
    "\<And>k. k < ?n \<Longrightarrow> \<exists>calls. step_correct v pd fd force git (k + 1) (modules ! k)
       (if k + 1 < ?n then hs ! (k + 1) else []) (scripts ! (?n - 1 - k)) calls (hs ! k)"
    using upgrade_steps_chained [OF assms(1,2,4-7)] by blast
  have "\<forall>k. \<exists>b. k < ?n \<longrightarrow> hs ! k = uv_sha3 v b \<and>
      governance_payload c fs' led (Gov_Resolve pid (temp_gov_module pd (k + 1) (modules ! k))) = Inr (Script b [] [ArgU64 pid])"
    using resolve_saved_step [OF hs(1) assms(9,11)] by blast
  then obtain bytes where b: "\<And>k. k < ?n \<Longrightarrow> hs ! k = uv_sha3 v (bytes k)"
    "\<And>k. k < ?n \<Longrightarrow> governance_payload c fs' led (Gov_Resolve pid (temp_gov_module pd (k + 1) (modules ! k))) =
       Inr (Script (bytes k) [] [ArgU64 pid])"
    by metis
  have "governance_payload c fs' led (Gov_Propose (temp_gov_module pd 1 (hd modules)) address) =
      diem_governance_ol_create_proposal_v2 (bcs_of c) (uv_sha3 v (bytes 0)) (into_bytes address) (into_bytes ''metadata struct'') True"
    using propose_saved_step [OF hs(1) assms(8,9,10), of 0 address] assms(3) b(1) [of 0] by (simp add: hd_conv_nth)
  moreover have "\<exists>calls s. scripts ! (?n - 1 - k) = (modules ! k, hash_comment (uv_sha3 v (bytes k)) @ uv_render v calls) \<and>
      exec calls initial_script = Some s \<and> next_hash s = Some (if k + 1 < ?n then uv_sha3 v (bytes (k + 1)) else [])" if k: "k < ?n" for k
    using hs(2) [OF k] b(1) [OF k] b(1) [of "k + 1"] by (auto simp: step_correct_def split: if_splits)
  ultimately show ?thesis using b(2) by blast
qed

text \<open>A proposal of one step.\<close>

definition example_governance :: cmd_env where
  "example_governance = example_cmd\<lparr>hex_decode := (\<lambda>s. ok_or ''odd'' (hex_pairs s)),
     cmd_view := example_view\<lparr>get_view := (\<lambda>_ f _ _. Inr (VArray [if f = ''0x1::diem_governance::is_resolved'' then VBool False else VString ''3'']))\<rparr>\<rparr>"

theorem voted_script_is_executed_witness:
  "\<exists>scripts fs' b. make_framework_upgrade_artifacts example_upgrade ''/p'' ''/f'' (Some [''a'', ''b'']) False
      \<lparr>files = Map.empty, writable = (\<lambda>_. True)\<rparr> = Inr (scripts, fs') \<and>
    governance_payload example_governance fs' [] (Gov_Propose (temp_gov_module ''/p'' 1 ''a'') ''w'') =
      diem_governance_ol_create_proposal_v2 (bcs_of example_governance) (uv_sha3 example_upgrade b) (into_bytes ''w'')
        (into_bytes ''metadata struct'') True \<and>
    governance_payload example_governance fs' [] (Gov_Resolve 3 (temp_gov_module ''/p'' 1 ''a'')) = Inr (Script b [] [ArgU64 3])"
proof -
  obtain scripts fs' where m: "make_framework_upgrade_artifacts example_upgrade ''/p'' ''/f'' (Some [''a'', ''b'']) False
      \<lparr>files = Map.empty, writable = (\<lambda>_. True)\<rparr> = Inr (scripts, fs')"
    using example_upgrade_made by blast
  have h: "\<forall>bs. hex_decode example_governance (lower_hex bs) = Inr bs" "\<forall>p. path_exists example_governance p"
    "is_ok (get_next_governance_proposal_id (cmd_view example_governance) [])"
    "is_gov_proposal_resolved (cmd_view example_governance) [] 3 = Inr False"
    by (simp_all add: example_governance_def example_cmd_def example_view_def hex_pairs_lower get_next_governance_proposal_id_def
        is_gov_proposal_resolved_def strings_from_value_def bools_from_value_def first_of_def parse_u64_def digit_value_def)
  have ne: "(case Some [''a'', ''b''] of Some ms \<Rightarrow> ms | None \<Rightarrow> default_core_modules) \<noteq> []" by simp
  from voted_script_is_executed [OF m refl ne example_upgrade_laws h, of "''w''"] obtain bytes where
    b: "governance_payload example_governance fs' [] (Gov_Propose (temp_gov_module ''/p'' 1 (hd [''a'', ''b''])) ''w'') =
      diem_governance_ol_create_proposal_v2 (bcs_of example_governance) (uv_sha3 example_upgrade (bytes 0)) (into_bytes ''w'')
        (into_bytes ''metadata struct'') True"
    "\<forall>k < length [''a'', ''b'']. governance_payload example_governance fs' []
      (Gov_Resolve 3 (temp_gov_module ''/p'' (k + 1) ([''a'', ''b''] ! k))) = Inr (Script (bytes k) [] [ArgU64 3])"
    by (simp only: option.case) blast
  show ?thesis using m b(1) b(2) [rule_format, of 0]
    by (intro exI [of _ scripts] exI [of _ fs'] exI [of _ "bytes 0"]) (simp del: governance_payload.simps)
qed

end
