(* ===== verification/Rescue_Session.thy ===== *)
theory Rescue_Session
  imports Governance_Flow
begin

text \<open>
  The rescue tool (\<^verbatim>\<open>tools/rescue/src\<close>): transactions made from sessions of the Move virtual machine on the
  database of a stopped node, and the bootstrapper that checks and commits them. A session is the log of the
  steps it executed; \<open>rs_vm\<close> says whether the virtual machine executes a step after a log. What a step that
  fails leaves in the vendor's session is not modelled: it is not in the log. The database is a parameter.
\<close>

section \<open>Sessions\<close>

datatype MoveValue =
    Signer AccountAddress | Address AccountAddress | U64 u64 | U8 u8 | VectorU8 "u8 list" | VectorAddress "AccountAddress list"

datatype session_step = PublishBundle AccountAddress | Call string "MoveValue list"

type_synonym session = "session_step list"

datatype 'c rescue_tx = GenesisScript AccountAddress "u8 list" | GenesisDirect 'c | OtherTransaction

definition is_genesis :: "'c rescue_tx \<Rightarrow> bool" where
  "is_genesis tx = (case tx of OtherTransaction \<Rightarrow> False | _ \<Rightarrow> True)"

record Waypoint =
  way_version :: u64
  way_value :: "u8 list"

text \<open>A database, as far as the tool looks at it: the number of its transactions and its content, which is opaque.
  \<open>rs_calculate_genesis\<close> yields the waypoint and the database that a commit leaves.\<close>

record 'd database =
  db_transactions :: u64
  db_content :: 'd

record ('c, 'd) rescue_lib =
  rs_open_readonly :: "string \<Rightarrow> unit result"
  rs_vm :: "session \<Rightarrow> session_step \<Rightarrow> unit result"
  rs_finish :: "session \<Rightarrow> 'c result"
  rs_tx_to_bytes :: "'c rescue_tx \<Rightarrow> u8 list result"
  rs_tx_from_bytes :: "u8 list \<Rightarrow> 'c rescue_tx result"
  rs_credentials_from_yaml :: "string \<Rightarrow> ValCredentials result"
  rs_latest_trees :: "'d database \<Rightarrow> unit result"
  rs_calculate_genesis :: "'d database \<Rightarrow> 'c rescue_tx \<Rightarrow> (Waypoint \<times> 'd database) result"

type_synonym 'd databases = "string \<Rightarrow> 'd database option"

definition run_session_step :: "('c, 'd) rescue_lib \<Rightarrow> session_step \<Rightarrow> session \<Rightarrow> session result" where
  "run_session_step l st s = and_then (rs_vm l s st) (\<lambda>_. Inr (s @ [st]))"

definition libra_execute_session_function :: "('c, 'd) rescue_lib \<Rightarrow> string \<Rightarrow> MoveValue list \<Rightarrow> session \<Rightarrow> session result" where
  "libra_execute_session_function l function_str vs s = run_session_step l (Call function_str vs) s"

definition CORE_CODE_ADDRESS :: AccountAddress where "CORE_CODE_ADDRESS = 1"

definition upgrade_framework :: "('c, 'd) rescue_lib \<Rightarrow> session \<Rightarrow> session result" where
  "upgrade_framework l s = run_session_step l (PublishBundle CORE_CODE_ADDRESS) s"

definition writeset_voodoo_events :: "('c, 'd) rescue_lib \<Rightarrow> session \<Rightarrow> session result" where
  "writeset_voodoo_events l s =
     and_then (libra_execute_session_function l ''0x1::stake::on_new_epoch'' [] s) (\<lambda>s.
     and_then (libra_execute_session_function l ''0x1::block::emit_writeset_block_event''
       [Signer 0, Address CORE_CODE_ADDRESS] s) (\<lambda>s.
     libra_execute_session_function l ''0x1::reconfiguration::reconfigure'' [] s))"

definition combined_steps :: "('c, 'd) rescue_lib \<Rightarrow> session \<Rightarrow> session result" where
  "combined_steps l s = and_then (upgrade_framework l s) (writeset_voodoo_events l)"

text \<open>The caller's steps first; then the validators of a debug run, then the epoch interval, whose failure panics.\<close>

definition libra_run_session ::
  "('c, 'd) rescue_lib \<Rightarrow> string \<Rightarrow> (session \<Rightarrow> session result) \<Rightarrow> AccountAddress list option \<Rightarrow> u64 option \<Rightarrow> session result" where
  "libra_run_session l dir f debug_vals epoch_interval =
     and_then (rs_open_readonly l dir) (\<lambda>_.
     and_then (case f [] of Inl (Err e) \<Rightarrow> Inl (Err (''Unexpected VM Error Running Rescue VM Session: '' @ e)) | r \<Rightarrow> r) (\<lambda>s.
     and_then (case debug_vals of
         Some vals \<Rightarrow> libra_execute_session_function l ''0x1::diem_governance::set_validators''
                       [Signer CORE_CODE_ADDRESS, VectorAddress vals] s
       | None \<Rightarrow> Inr s) (\<lambda>s.
     case epoch_interval of
       Some ms \<Rightarrow>
         and_then (expect ''set epoch interval seconds''
           (libra_execute_session_function l ''0x1::block::update_epoch_interval_microsecs''
              [Signer CORE_CODE_ADDRESS, U64 ms] s))
         (libra_execute_session_function l ''0x1::reconfiguration::reconfigure'' [])
     | None \<Rightarrow> Inr s)))"

definition publish_current_framework :: "('c, 'd) rescue_lib \<Rightarrow> string \<Rightarrow> AccountAddress list option \<Rightarrow> 'c result" where
  "publish_current_framework l dir debug_vals =
     and_then (libra_run_session l dir (combined_steps l) debug_vals None) (rs_finish l)"

section \<open>Replacing the validators\<close>

definition starting_balance :: u64 where "starting_balance = 1000 * 1000000"

text \<open>An account that cannot be created is taken to exist and is neither funded nor registered.\<close>

definition add_validator :: "('c, 'd) rescue_lib \<Rightarrow> ValCredentials \<Rightarrow> session \<Rightarrow> session result" where
  "add_validator l cred s =
     and_then (libra_execute_session_function l ''0x1::stake::configure_allowed_validators''
       [Signer CORE_CODE_ADDRESS, VectorAddress [vc_account cred]] s) (\<lambda>s.
     case libra_execute_session_function l ''0x1::ol_account::create_impl''
         [Signer CORE_CODE_ADDRESS, Signer (vc_account cred)] s of
       Inr s \<Rightarrow>
         and_then (libra_execute_session_function l ''0x1::libra_coin::mint_to_impl''
           [Signer CORE_CODE_ADDRESS, Signer (vc_account cred), U64 starting_balance] s)
         (libra_execute_session_function l ''0x1::validator_universe::register_validator''
           [Signer (vc_account cred), VectorU8 (vc_consensus_pubkey cred), VectorU8 (vc_proof_of_possession cred),
            VectorU8 (vc_network_addresses cred), VectorU8 (vc_fullnode_addresses cred)])
     | Inl (Err _) \<Rightarrow> Inr s
     | Inl (Panic m) \<Rightarrow> Inl (Panic m))"

fun add_validators :: "('c, 'd) rescue_lib \<Rightarrow> ValCredentials list \<Rightarrow> session \<Rightarrow> session result" where
  "add_validators l [] s = Inr s"
| "add_validators l (cred # creds) s = and_then (add_validator l cred s) (add_validators l creds)"

definition session_add_validators :: "('c, 'd) rescue_lib \<Rightarrow> ValCredentials list \<Rightarrow> bool \<Rightarrow> session \<Rightarrow> session result" where
  "session_add_validators l creds upgrade s =
     and_then (if upgrade then upgrade_framework l s else Inr s) (\<lambda>s.
     and_then (libra_execute_session_function l ''0x1::chain_id::set_impl'' [Signer 1, U8 4] s) (\<lambda>s.
     and_then (libra_execute_session_function l ''0x1::validator_universe::clean_validator_universe'' [Signer 1] s) (\<lambda>s.
     and_then (libra_execute_session_function l ''0x1::stake::bulk_set_next_validators'' [Signer 1, VectorAddress []] s) (\<lambda>s.
     and_then (add_validators l creds s) (\<lambda>s.
     and_then (libra_execute_session_function l ''0x1::diem_governance::set_validators''
       [Signer 1, VectorAddress (map vc_account creds)] s) (writeset_voodoo_events l))))))"

definition twin_testnet :: "('c, 'd) rescue_lib \<Rightarrow> string \<Rightarrow> ValCredentials list \<Rightarrow> 'c result" where
  "twin_testnet l dir testnet_vals =
     and_then (libra_run_session l dir (session_add_validators l testnet_vals False) None None) (rs_finish l)"

section \<open>Rescue transactions\<close>

definition parse_pub_files_to_vec :: "('c, 'd) rescue_lib \<Rightarrow> file_system \<Rightarrow> string list \<Rightarrow> ValCredentials list result" where
  "parse_pub_files_to_vec l fs paths =
     map_result (\<lambda>p. and_then (unwrap ''could not read registration file'' (files fs p)) (\<lambda>t.
       expect ''could not parse file'' (rs_credentials_from_yaml l t))) paths"

record RescueTxOpts =
  rx_data_path :: string
  rx_blob_path :: "string option"
  rx_script_path :: "string option"
  rx_framework_upgrade :: bool
  rx_debug_vals :: "AccountAddress list option"
  rx_testnet_vals :: "string list option"

text \<open>The script wins over the upgrade, which wins over new validators.\<close>

definition rescue_transaction ::
  "'m upgrade_vendor \<Rightarrow> ('c, 'd) rescue_lib \<Rightarrow> RescueTxOpts \<Rightarrow> file_system \<Rightarrow> ('c rescue_tx \<times> file_system) result" where
  "rescue_transaction v l self fs =
     (case rx_script_path self of
        Some p \<Rightarrow> and_then (libra_compile_script v p fs) (\<lambda>(code, _, fs). Inr (GenesisScript CORE_CODE_ADDRESS code, fs))
      | None \<Rightarrow>
          if rx_framework_upgrade self then
            and_then (publish_current_framework l (rx_data_path self) (rx_debug_vals self)) (\<lambda>cs. Inr (GenesisDirect cs, fs))
          else (case rx_testnet_vals self of
            Some reg_files \<Rightarrow>
              and_then (parse_pub_files_to_vec l fs reg_files) (\<lambda>registrations.
              and_then (twin_testnet l (rx_data_path self) registrations) (\<lambda>cs. Inr (GenesisDirect cs, fs)))
          | None \<Rightarrow> Inl (Err ''no options provided, need a --framework-upgrade or a --script-path'')))"

definition RescueTxOpts_run ::
  "'m upgrade_vendor \<Rightarrow> ('c, 'd) rescue_lib \<Rightarrow> RescueTxOpts \<Rightarrow> file_system \<Rightarrow> (string \<times> file_system) result" where
  "RescueTxOpts_run v l self fs =
     and_then (rescue_transaction v l self fs) (\<lambda>(gen_tx, fs).
     let out = path_join (case rx_blob_path self of Some b \<Rightarrow> b | None \<Rightarrow> rx_data_path self) ''rescue.blob'' in
     and_then (rs_tx_to_bytes l gen_tx) (\<lambda>bytes.
     and_then (fs_write out (raw_text bytes) fs) (\<lambda>fs. Inr (out, fs))))"

section \<open>The bootstrapper\<close>

record BootstrapOpts =
  bo_db_dir :: string
  bo_genesis_txn_file :: string
  bo_waypoint_to_verify :: "Waypoint option"
  bo_commit :: bool
  bo_info :: bool

definition load_genesis_txn :: "('c, 'd) rescue_lib \<Rightarrow> file_system \<Rightarrow> string \<Rightarrow> 'c rescue_tx result" where
  "load_genesis_txn l fs p =
     and_then (ok_or ''No such file or directory'' (files fs p)) (\<lambda>buffer. rs_tx_from_bytes l (into_bytes buffer))"

definition with_context :: "string \<Rightarrow> 'a result \<Rightarrow> 'a result" where
  "with_context msg r = (case r of Inl (Err _) \<Rightarrow> Inl (Err msg) | x \<Rightarrow> x)"

definition bootstrap_run ::
  "('c, 'd) rescue_lib \<Rightarrow> BootstrapOpts \<Rightarrow> file_system \<Rightarrow> 'd databases \<Rightarrow> (Waypoint option \<times> 'd databases) result" where
  "bootstrap_run l self fs dbs =
     and_then (with_context ''Failed loading genesis txn.'' (load_genesis_txn l fs (bo_genesis_txn_file self))) (\<lambda>genesis_txn.
     if \<not> is_genesis genesis_txn then Inl (Panic ''Not a GenesisTransaction'')
     else and_then (unwrap ''Failed to open DB.'' (dbs (bo_db_dir self))) (\<lambda>db.
     and_then (with_context ''Failed to get latest tree state.'' (rs_latest_trees l db)) (\<lambda>_.
     if bo_info self then Inr (None, dbs)
     else if (case bo_waypoint_to_verify self of Some w \<Rightarrow> way_version w \<noteq> db_transactions db | None \<Rightarrow> False)
     then Inl (Err ''Trying to generate waypoint at the wrong version'')
     else and_then (with_context ''Failed to calculate genesis.'' (rs_calculate_genesis l db genesis_txn)) (\<lambda>(output_waypoint, db').
     if (case bo_waypoint_to_verify self of Some w \<Rightarrow> w \<noteq> output_waypoint | None \<Rightarrow> False)
     then Inl (Err ''Waypoint verification failed.'')
     else Inr (Some output_waypoint, if bo_commit self then dbs(bo_db_dir self \<mapsto> db') else dbs)))))"

datatype rescue_command = RescueTx RescueTxOpts | Bootstrap BootstrapOpts

text \<open>A rescue transaction is checked against the database without committing it.\<close>

fun RescueCli_run ::
  "'m upgrade_vendor \<Rightarrow> ('c, 'd) rescue_lib \<Rightarrow> rescue_command option \<Rightarrow> file_system \<Rightarrow> 'd databases \<Rightarrow>
     (file_system \<times> 'd databases) result" where
  "RescueCli_run v l (Some (RescueTx mission)) fs dbs =
     and_then (RescueTxOpts_run v l mission fs) (\<lambda>(blob_path, fs).
     and_then (bootstrap_run l \<lparr>bo_db_dir = rx_data_path mission, bo_genesis_txn_file = blob_path, bo_waypoint_to_verify = None,
        bo_commit = False, bo_info = False\<rparr> fs dbs) (\<lambda>(_, dbs). Inr (fs, dbs)))"
| "RescueCli_run v l (Some (Bootstrap bootstrap)) fs dbs =
     and_then (bootstrap_run l bootstrap fs dbs) (\<lambda>(_, dbs). Inr (fs, dbs))"
| "RescueCli_run v l None fs dbs = Inr (fs, dbs)"

section \<open>What a rescue does\<close>

lemma run_session_step_Inr: "run_session_step l st s = Inr s' \<longleftrightarrow> s' = s @ [st] \<and> rs_vm l s st = Inr ()"
  by (auto simp: run_session_step_def and_then_eq_Inr)

lemmas session_Inr = run_session_step_Inr libra_execute_session_function_def and_then_eq_Inr

lemma writeset_voodoo_log:
  "writeset_voodoo_events l s = Inr s' \<Longrightarrow> s' = s @
    [Call ''0x1::stake::on_new_epoch'' [], Call ''0x1::block::emit_writeset_block_event'' [Signer 0, Address 1],
     Call ''0x1::reconfiguration::reconfigure'' []]"
  by (auto simp: writeset_voodoo_events_def session_Inr CORE_CODE_ADDRESS_def)

text \<open>The steps of one registration, in the two cases of the account.\<close>

definition registration_steps :: "ValCredentials \<Rightarrow> bool \<Rightarrow> session_step list" where
  "registration_steps cred created =
     Call ''0x1::stake::configure_allowed_validators'' [Signer 1, VectorAddress [vc_account cred]] #
     (if created then
        [Call ''0x1::ol_account::create_impl'' [Signer 1, Signer (vc_account cred)],
         Call ''0x1::libra_coin::mint_to_impl'' [Signer 1, Signer (vc_account cred), U64 starting_balance],
         Call ''0x1::validator_universe::register_validator''
           [Signer (vc_account cred), VectorU8 (vc_consensus_pubkey cred), VectorU8 (vc_proof_of_possession cred),
            VectorU8 (vc_network_addresses cred), VectorU8 (vc_fullnode_addresses cred)]]
      else [])"

lemma add_validator_log:
  assumes "add_validator l cred s = Inr s'"
  shows "s' = s @ registration_steps cred
    (rs_vm l (s @ [Call ''0x1::stake::configure_allowed_validators'' [Signer 1, VectorAddress [vc_account cred]]])
       (Call ''0x1::ol_account::create_impl'' [Signer 1, Signer (vc_account cred)]) = Inr ())"
  using assms by (auto simp: add_validator_def session_Inr registration_steps_def CORE_CODE_ADDRESS_def run_session_step_def
      and_then_def split: sum.splits error.splits)

lemma add_validators_log:
  "add_validators l creds s = Inr s' \<Longrightarrow>
    \<exists>created. length created = length creds \<and> s' = s @ concat (map2 registration_steps creds created)"
proof (induction l creds s rule: add_validators.induct)
  case (2 l cred creds s)
  then obtain s1 where s1: "add_validator l cred s = Inr s1" "add_validators l creds s1 = Inr s'"
    by (auto simp: and_then_eq_Inr)
  obtain created where "length created = length creds" "s' = s1 @ concat (map2 registration_steps creds created)"
    using "2.IH" [OF s1(2)] by blast
  moreover obtain b where "s1 = s @ registration_steps cred b" using add_validator_log [OF s1(1)] by blast
  ultimately show ?case by (intro exI [of _ "b # created"]) simp
qed simp

text \<open>The validators of a twin are those of the registrations, whether or not they could be registered: the set is
  replaced by all their accounts, but keys and network addresses are stored only for accounts that were
  created here.\<close>

lemma session_add_validators_log:
  assumes "session_add_validators l creds upgrade s = Inr s'"
  shows "\<exists>created. length created = length creds \<and>
    s' = s @ (if upgrade then [PublishBundle 1] else []) @
      [Call ''0x1::chain_id::set_impl'' [Signer 1, U8 4], Call ''0x1::validator_universe::clean_validator_universe'' [Signer 1],
       Call ''0x1::stake::bulk_set_next_validators'' [Signer 1, VectorAddress []]] @
      concat (map2 registration_steps creds created) @
      [Call ''0x1::diem_governance::set_validators'' [Signer 1, VectorAddress (map vc_account creds)],
       Call ''0x1::stake::on_new_epoch'' [], Call ''0x1::block::emit_writeset_block_event'' [Signer 0, Address 1],
       Call ''0x1::reconfiguration::reconfigure'' []]"
proof -
  let ?up = "if upgrade then [PublishBundle 1] else []"
  let ?pre = "[Call ''0x1::chain_id::set_impl'' [Signer 1, U8 4], Call ''0x1::validator_universe::clean_validator_universe'' [Signer 1],
       Call ''0x1::stake::bulk_set_next_validators'' [Signer 1, VectorAddress []]]"
  obtain s1 s2 where a: "add_validators l creds (s @ ?up @ ?pre) = Inr s1"
    and s2: "s2 = s1 @ [Call ''0x1::diem_governance::set_validators'' [Signer 1, VectorAddress (map vc_account creds)]]"
    and w: "writeset_voodoo_events l s2 = Inr s'"
    using assms by (cases upgrade) (auto simp: session_add_validators_def session_Inr upgrade_framework_def CORE_CODE_ADDRESS_def)
  obtain created where "length created = length creds" "s1 = (s @ ?up @ ?pre) @ concat (map2 registration_steps creds created)"
    using add_validators_log [OF a] by blast
  then show ?thesis using writeset_voodoo_log [OF w] s2 by (intro exI [of _ created]) simp
qed

lemma existing_account_not_registered:
  assumes "add_validator l cred s = Inr s'" "\<And>s. rs_vm l s (Call ''0x1::ol_account::create_impl'' [Signer 1, Signer (vc_account cred)]) \<noteq> Inr ()"
  shows "s' = s @ [Call ''0x1::stake::configure_allowed_validators'' [Signer 1, VectorAddress [vc_account cred]]]"
  using add_validator_log [OF assms(1)] assms(2) by (simp add: registration_steps_def)

section \<open>Committing\<close>

lemma bootstrap_commit:
  assumes "bootstrap_run l self fs dbs = Inr (w, dbs')" "bo_commit self" "\<not> bo_info self"
  shows "\<exists>tx db db' way. load_genesis_txn l fs (bo_genesis_txn_file self) = Inr tx \<and> is_genesis tx \<and> dbs (bo_db_dir self) = Some db \<and>
    rs_calculate_genesis l db tx = Inr (way, db') \<and> dbs' = dbs(bo_db_dir self \<mapsto> db') \<and>
    (\<forall>v. bo_waypoint_to_verify self = Some v \<longrightarrow> v = way \<and> way_version v = db_transactions db)"
  using assms by (fastforce simp: bootstrap_run_def with_context_def and_then_eq_Inr unwrap_eq_Inr
      split: if_splits option.splits sum.splits error.splits)

lemma bootstrap_dry:
  "bootstrap_run l self fs dbs = Inr (w, dbs') \<Longrightarrow> \<not> bo_commit self \<Longrightarrow> dbs' = dbs"
  by (auto simp: bootstrap_run_def and_then_eq_Inr split: if_splits)

lemma RescueTxOpts_run_blob:
  assumes "RescueTxOpts_run v l m fs = Inr (out, fs')" "\<forall>tx bs. rs_tx_to_bytes l tx = Inr bs \<longrightarrow> rs_tx_from_bytes l bs = Inr tx"
  shows "\<exists>tx fs0. rescue_transaction v l m fs = Inr (tx, fs0) \<and> load_genesis_txn l fs' out = Inr tx"
  using assms by (auto simp: RescueTxOpts_run_def and_then_eq_Inr Let_def fs_write_Inr load_genesis_txn_def into_bytes_raw_text)

text \<open>C12. A rescue changes a database only by committing the transaction it was made for. Making a rescue
  transaction leaves every database as it was; and when the blob it wrote is then bootstrapped with a commit
  and the waypoint the operators agreed on, what is applied to the database is that very transaction, a
  genesis transaction, on a database at the version of the waypoint, with exactly that waypoint as its outcome.\<close>

theorem rescue_then_commit:
  assumes "RescueCli_run v l (Some (RescueTx m)) fs dbs = Inr (fs', dbs1)" "RescueTxOpts_run v l m fs = Inr (out, fs')"
    and "RescueCli_run v l (Some (Bootstrap b)) fs' dbs1 = Inr (fs'', dbs2)"
    and "bo_genesis_txn_file b = out" "bo_db_dir b = dir" "bo_commit b" "\<not> bo_info b" "bo_waypoint_to_verify b = Some w"
    and "\<forall>tx bs. rs_tx_to_bytes l tx = Inr bs \<longrightarrow> rs_tx_from_bytes l bs = Inr tx"
  shows "dbs1 = dbs \<and> (\<exists>tx fs0 db db'. rescue_transaction v l m fs = Inr (tx, fs0) \<and> is_genesis tx \<and> dbs dir = Some db \<and>
    way_version w = db_transactions db \<and> rs_calculate_genesis l db tx = Inr (w, db') \<and> dbs2 = dbs(dir \<mapsto> db'))"
proof -
  have dry: "dbs1 = dbs" using assms(1) bootstrap_dry by (fastforce simp: and_then_eq_Inr)
  obtain tx fs0 where tx: "rescue_transaction v l m fs = Inr (tx, fs0)" "load_genesis_txn l fs' out = Inr tx"
    using RescueTxOpts_run_blob [OF assms(2,9)] by blast
  obtain wo where "bootstrap_run l b fs' dbs = Inr (wo, dbs2)" using assms(3) dry by (auto simp: and_then_eq_Inr)
  from bootstrap_commit [OF this assms(6,7)] show ?thesis using dry tx assms(4,5,8) by auto
qed

definition example_rescue :: "(nat, nat) rescue_lib" where
  "example_rescue =
     \<lparr>rs_open_readonly = (\<lambda>_. Inr ()), rs_vm = (\<lambda>_ _. Inr ()), rs_finish = (\<lambda>s. Inr (length s)),
      rs_tx_to_bytes = (\<lambda>tx. case tx of GenesisDirect n \<Rightarrow> Inr (replicate n 0) | _ \<Rightarrow> Inl (Err ''no'')),
      rs_tx_from_bytes = (\<lambda>bs. Inr (GenesisDirect (length bs))), rs_credentials_from_yaml = (\<lambda>_. Inl (Err ''no'')),
      rs_latest_trees = (\<lambda>_. Inr ()),
      rs_calculate_genesis = (\<lambda>db tx. Inr (\<lparr>way_version = db_transactions db, way_value = []\<rparr>, db\<lparr>db_transactions := db_transactions db + 1\<rparr>))\<rparr>"

definition example_mission :: RescueTxOpts where
  "example_mission = \<lparr>rx_data_path = ''/d'', rx_blob_path = None, rx_script_path = None, rx_framework_upgrade = True,
     rx_debug_vals = None, rx_testnet_vals = None\<rparr>"

definition example_bootstrap :: BootstrapOpts where
  "example_bootstrap = \<lparr>bo_db_dir = ''/d'', bo_genesis_txn_file = ''/d/rescue.blob'',
     bo_waypoint_to_verify = Some \<lparr>way_version = 7, way_value = []\<rparr>, bo_commit = True, bo_info = False\<rparr>"

text \<open>An upgrade of the framework on a database of seven transactions.\<close>

theorem rescue_then_commit_witness:
  "let dbs = [''/d'' \<mapsto> \<lparr>db_transactions = 7, db_content = (0 :: nat)\<rparr>] in
   \<exists>fs' dbs1 fs'' dbs2. RescueCli_run example_upgrade example_rescue (Some (RescueTx example_mission))
       \<lparr>files = Map.empty, writable = (\<lambda>_. True)\<rparr> dbs = Inr (fs', dbs1) \<and>
     RescueCli_run example_upgrade example_rescue (Some (Bootstrap example_bootstrap)) fs' dbs1 = Inr (fs'', dbs2) \<and>
     dbs1 = dbs \<and> dbs2 = dbs(''/d'' \<mapsto> \<lparr>db_transactions = 8, db_content = 0\<rparr>)"
proof -
  let ?dbs = "[''/d'' \<mapsto> \<lparr>db_transactions = 7, db_content = (0 :: nat)\<rparr>]"
  let ?fs = "\<lparr>files = Map.empty, writable = (\<lambda>_. True)\<rparr> :: file_system"
  let ?fs' = "?fs\<lparr>files := (files ?fs)(''/d/rescue.blob'' \<mapsto> raw_text [0, 0, 0, 0])\<rparr>"
  have r: "RescueTxOpts_run example_upgrade example_rescue example_mission ?fs = Inr (''/d/rescue.blob'', ?fs')"
    by (simp add: RescueTxOpts_run_def rescue_transaction_def example_mission_def example_rescue_def publish_current_framework_def
        libra_run_session_def combined_steps_def upgrade_framework_def writeset_voodoo_events_def session_Inr
        run_session_step_def libra_execute_session_function_def path_join_def fs_write_def Let_def)
  have c1: "RescueCli_run example_upgrade example_rescue (Some (RescueTx example_mission)) ?fs ?dbs = Inr (?fs', ?dbs)"
    using r by (simp add: bootstrap_run_def load_genesis_txn_def into_bytes_raw_text is_genesis_def with_context_def
        example_rescue_def example_mission_def)
  have c2: "RescueCli_run example_upgrade example_rescue (Some (Bootstrap example_bootstrap)) ?fs' ?dbs =
      Inr (?fs', ?dbs(''/d'' \<mapsto> \<lparr>db_transactions = 8, db_content = 0\<rparr>))"
    by (simp add: bootstrap_run_def load_genesis_txn_def into_bytes_raw_text is_genesis_def with_context_def
        example_rescue_def example_bootstrap_def)
  have law: "\<forall>tx bs. rs_tx_to_bytes example_rescue tx = Inr bs \<longrightarrow> rs_tx_from_bytes example_rescue bs = Inr tx"
    by (auto simp: example_rescue_def split: rescue_tx.splits)
  have "?dbs = ?dbs \<and> (\<exists>tx fs0 db db'. rescue_transaction example_upgrade example_rescue example_mission ?fs = Inr (tx, fs0) \<and> is_genesis tx \<and>
      ?dbs ''/d'' = Some db \<and> way_version (\<lparr>way_version = 7, way_value = []\<rparr> :: Waypoint) = db_transactions db \<and>
      rs_calculate_genesis example_rescue db tx = Inr (\<lparr>way_version = 7, way_value = []\<rparr>, db') \<and>
      ?dbs(''/d'' \<mapsto> \<lparr>db_transactions = 8, db_content = 0\<rparr>) = ?dbs(''/d'' \<mapsto> db'))"
    by (rule rescue_then_commit [OF c1 r c2 _ _ _ _ _ law]) (simp_all add: example_bootstrap_def)
  with c1 c2 show ?thesis unfolding Let_def by blast
qed

end
