(* ===== verification/Vdf_Proof.thy ===== *)
theory Vdf_Proof
  imports App_Cfg
begin

text \<open>
  The delay proofs of the tower on disk (\<^verbatim>\<open>types/src/core_types/block.rs\<close>): writing a proof, reading one by its
  number, and finding the highest one in a directory. JSON and \<^verbatim>\<open>glob\<close> are parameters; the file system is
  passed along where a call can change it.
\<close>

section \<open>Proofs\<close>

record VDFProof =
  vdf_height :: u64
  vdf_elapsed_secs :: u64
  vdf_preimage :: "u8 list"
  vdf_proof :: "u8 list"
  vdf_difficulty :: "u64 option"
  vdf_security :: "u64 option"

record vdf_lib =
  vdf_to_json :: "VDFProof \<Rightarrow> string result"
  vdf_from_json :: "string \<Rightarrow> VDFProof result"
  vdf_dir_exists :: "file_system \<Rightarrow> string \<Rightarrow> bool"
  vdf_create_dir_all :: "string \<Rightarrow> file_system \<Rightarrow> file_system result"
  vdf_glob :: "file_system \<Rightarrow> string \<Rightarrow> string result list result"

definition GENESIS_VDF_SECURITY_PARAM :: "NamedChain \<Rightarrow> u64" where
  "GENESIS_VDF_SECURITY_PARAM mode = 512"

definition GENESIS_VDF_ITERATIONS :: "NamedChain \<Rightarrow> u64" where
  "GENESIS_VDF_ITERATIONS mode = (if mode = MAINNET then 120000000 else 100)"

definition FILENAME :: string where "FILENAME = ''proof''"

definition difficulty :: "VDFProof \<Rightarrow> u64 result" where
  "difficulty self = unwrap ''called `Option::unwrap()` on a `None` value'' (vdf_difficulty self)"

definition security :: "VDFProof \<Rightarrow> u64 result" where
  "security self = unwrap ''called `Option::unwrap()` on a `None` value'' (vdf_security self)"

definition proof_file_name :: "string \<Rightarrow> u64 \<Rightarrow> string" where
  "proof_file_name dir num = path_join dir (FILENAME @ ''_'' @ show_nat (unat num) @ ''.json'')"

definition read_to_string :: "file_system \<Rightarrow> string \<Rightarrow> string result" where
  "read_to_string fs path = ok_or ''No such file or directory'' (files fs path)"

definition get_genesis_tx_data :: "vdf_lib \<Rightarrow> file_system \<Rightarrow> string \<Rightarrow> (u8 list \<times> u8 list) result" where
  "get_genesis_tx_data l fs path =
     and_then (read_to_string fs path) (\<lambda>t.
     and_then (expect ''Genesis block should deserialize'' (vdf_from_json l t)) (\<lambda>block.
       Inr (vdf_preimage block, vdf_proof block)))"

section \<open>Operations on the directory\<close>

definition write_json :: "vdf_lib \<Rightarrow> VDFProof \<Rightarrow> string \<Rightarrow> file_system \<Rightarrow> (string \<times> file_system) result" where
  "write_json l self blocks_dir fs =
     and_then (if \<not> vdf_dir_exists l fs blocks_dir then vdf_create_dir_all l blocks_dir fs else Inr fs) (\<lambda>fs.
     let path = proof_file_name blocks_dir (vdf_height self) in
     if \<not> writable fs path then Inl (Err ''cannot create file'')
     else and_then (vdf_to_json l self) (\<lambda>t. Inr (path, fs\<lparr>files := (files fs)(path \<mapsto> t)\<rparr>)))"

text \<open>\<^verbatim>\<open>fs::remove_file(&block_file)\<close>: the path it is given is the content that was read.\<close>

definition remove_file :: "string \<Rightarrow> file_system \<Rightarrow> file_system result" where
  "remove_file path fs =
     (if files fs path = None then Inl (Err ''No such file or directory'')
      else Inr (fs\<lparr>files := (files fs)(path := None)\<rparr>))"

definition parse_block_file :: "vdf_lib \<Rightarrow> string \<Rightarrow> bool \<Rightarrow> file_system \<Rightarrow> VDFProof result \<times> file_system" where
  "parse_block_file l path purge_if_bad fs =
     (case read_to_string fs path of
        Inl e \<Rightarrow> (Inl e, fs)
      | Inr block_file \<Rightarrow>
          (case vdf_from_json l block_file of
             Inr v \<Rightarrow> (Inr v, fs)
           | Inl (Panic m) \<Rightarrow> (Inl (Panic m), fs)
           | Inl (Err e) \<Rightarrow>
               (let bad = Inl (Err (''Could not read latest block file in path '' @ path @ '', message: '' @ e)) in
                if purge_if_bad then
                  (case remove_file block_file fs of Inl e' \<Rightarrow> (Inl e', fs) | Inr fs' \<Rightarrow> (bad, fs'))
                else (bad, fs))))"

definition get_proof_number :: "vdf_lib \<Rightarrow> u64 \<Rightarrow> string \<Rightarrow> file_system \<Rightarrow> (VDFProof \<times> string) result" where
  "get_proof_number l num blocks_dir fs =
     (let file = proof_file_name blocks_dir num in
      and_then (fst (parse_block_file l file False fs)) (\<lambda>p.
        if vdf_height p = num then Inr (p, file)
        else Inl (Err (''file '' @ file @ '' does not contain proof height '' @ show_nat (unat num) @ '', found '' @
               show_nat (unat (vdf_height p)) @ '' instead''))))"

text \<open>The loop over the files: entries that cannot be listed or read are passed over (a panic of the reader is not).\<close>

fun highest_loop ::
  "vdf_lib \<Rightarrow> file_system \<Rightarrow> string result list \<Rightarrow> (VDFProof \<times> string) option \<Rightarrow> (VDFProof \<times> string) option result" where
  "highest_loop l fs [] best = Inr best"
| "highest_loop l fs (Inl e # es) best = highest_loop l fs es best"
| "highest_loop l fs (Inr entry # es) best =
     (case fst (parse_block_file l entry False fs) of
        Inl (Panic m) \<Rightarrow> Inl (Panic m)
      | Inl (Err e) \<Rightarrow> highest_loop l fs es best
      | Inr block \<Rightarrow>
          highest_loop l fs es
            (case best of
               Some (b, p) \<Rightarrow> if vdf_height b < vdf_height block then Some (block, entry) else best
             | None \<Rightarrow> Some (block, entry)))"

definition get_highest_block :: "vdf_lib \<Rightarrow> string \<Rightarrow> file_system \<Rightarrow> (VDFProof \<times> string) result" where
  "get_highest_block l blocks_dir fs =
     and_then (vdf_glob l fs (path_join blocks_dir (FILENAME @ ''_*.json''))) (\<lambda>file_list.
     and_then (highest_loop l fs file_list None) (\<lambda>best.
       ok_or ''cannot find a valid VDF proof in files to determine next proof's parameters. Exiting.'' best))"

definition get_latest_proof ::
  "vdf_lib \<Rightarrow> (AccountAddress \<Rightarrow> string) \<Rightarrow> AppCfg \<Rightarrow> bool \<Rightarrow> file_system \<Rightarrow> VDFProof result \<times> file_system" where
  "get_latest_proof l to_string config purge_if_bad fs =
     (case and_then (get_block_dir to_string config None) (\<lambda>d. get_highest_block l d fs) of
        Inl e \<Rightarrow> (Inl e, fs)
      | Inr (_, path) \<Rightarrow> parse_block_file l path purge_if_bad fs)"

section \<open>The highest proof\<close>

definition readable :: "vdf_lib \<Rightarrow> file_system \<Rightarrow> string result \<Rightarrow> (VDFProof \<times> string) option" where
  "readable l fs entry =
     (case entry of Inl _ \<Rightarrow> None
      | Inr p \<Rightarrow> (case fst (parse_block_file l p False fs) of Inr b \<Rightarrow> Some (b, p) | Inl _ \<Rightarrow> None))"

definition readable_proofs :: "vdf_lib \<Rightarrow> file_system \<Rightarrow> string result list \<Rightarrow> (VDFProof \<times> string) list" where
  "readable_proofs l fs es = List.map_filter (readable l fs) es"

definition no_panic :: "vdf_lib \<Rightarrow> bool" where
  "no_panic l = (\<forall>t m. vdf_from_json l t \<noteq> Inl (Panic m))"

text \<open>The first of the proofs with the greatest height.\<close>

fun first_highest :: "(VDFProof \<times> string) list \<Rightarrow> (VDFProof \<times> string) option" where
  "first_highest [] = None"
| "first_highest (x # xs) =
     (case first_highest xs of
        None \<Rightarrow> Some x
      | Some y \<Rightarrow> if vdf_height (fst x) < vdf_height (fst y) then Some y else Some x)"

lemma parse_no_panic: "no_panic l \<Longrightarrow> fst (parse_block_file l p False fs) \<noteq> Inl (Panic m)"
  by (auto simp: parse_block_file_def read_to_string_def no_panic_def ok_or_def Let_def split: sum.splits option.splits error.splits)

lemma readable_proofs_simps:
  "readable_proofs l fs [] = []"
  "readable_proofs l fs (e # es) = (case readable l fs e of None \<Rightarrow> [] | Some x \<Rightarrow> [x]) @ readable_proofs l fs es"
  by (simp_all add: readable_proofs_def split: option.splits)

lemma first_highest_None [simp]: "first_highest xs = None \<longleftrightarrow> xs = []"
  by (cases xs) (auto split: option.splits)

lemma first_highest_is_max:
  "first_highest xs = Some x \<Longrightarrow> x \<in> set xs \<and> (\<forall>y \<in> set xs. vdf_height (fst y) \<le> vdf_height (fst x))"
  by (induction xs arbitrary: x) (force split: option.splits if_splits)+

lemma first_highest_two:
  "first_highest (x # y # xs) = first_highest ((if vdf_height (fst x) < vdf_height (fst y) then y else x) # xs)"
  by (cases "first_highest xs") (auto split: if_splits)

lemma highest_loop_spec:
  assumes "no_panic l"
  shows "highest_loop l fs es best = Inr (first_highest ((case best of None \<Rightarrow> [] | Some b \<Rightarrow> [b]) @ readable_proofs l fs es))"
  using assms
proof (induction l fs es best rule: highest_loop.induct)
  case (1 l fs best)
  then show ?case by (cases best) (simp_all add: readable_proofs_simps)
next
  case (2 l fs e es best)
  then show ?case by (simp add: readable_proofs_simps readable_def)
next
  case (3 l fs entry es best)
  show ?case
  proof (cases "fst (parse_block_file l entry False fs)")
    case (Inl e)
    then show ?thesis using 3 parse_no_panic [OF "3.prems"]
      by (cases e) (auto simp: readable_proofs_simps readable_def)
  next
    case (Inr b)
    then show ?thesis using 3
      by (cases best) (auto simp: readable_proofs_simps readable_def first_highest_two simp del: first_highest.simps)
  qed
qed

text \<open>The search returns a readable proof of greatest height, and fails only when there is none.\<close>

lemma get_highest_block_spec:
  assumes "no_panic l" "vdf_glob l fs (path_join dir (FILENAME @ ''_*.json'')) = Inr es"
  shows "get_highest_block l dir fs = Inr x \<longleftrightarrow> first_highest (readable_proofs l fs es) = Some x"
  using assms by (simp add: get_highest_block_def highest_loop_spec ok_or_eq_Inr)

lemma readable_proofs_set: "(b, p) \<in> set (readable_proofs l fs es) \<longleftrightarrow>
    Inr p \<in> set es \<and> fst (parse_block_file l p False fs) = Inr b"
proof (induction es)
  case (Cons e es)
  then show ?case by (cases e) (auto simp: readable_proofs_simps readable_def split: sum.splits)
qed (simp add: readable_proofs_simps)

lemma parse_block_file_written:
  "files fs path = Some t \<Longrightarrow> vdf_from_json l t = Inr p \<Longrightarrow> parse_block_file l path purge fs = (Inr p, fs)"
  by (simp add: parse_block_file_def read_to_string_def)

lemma write_json_files:
  "write_json l p dir fs = Inr (path, fs') \<Longrightarrow>
    path = proof_file_name dir (vdf_height p) \<and> (\<exists>t. vdf_to_json l p = Inr t \<and> files fs' path = Some t)"
  by (auto simp: write_json_def and_then_eq_Inr Let_def split: if_splits)

text \<open>C39. A written proof is the one the tower continues from. When a proof has been written, reading the
  proof of its height from that directory returns it with its path; and if every other readable proof in the
  directory is lower, the search for the highest proof and the latest proof of the configuration return it
  too, whatever unreadable files lie beside it.\<close>

theorem written_proof_is_latest:
  assumes "write_json l p dir fs = Inr (path, fs')" "\<forall>t. vdf_to_json l p = Inr t \<longrightarrow> vdf_from_json l t = Inr p" "no_panic l"
    and "vdf_glob l fs' (path_join dir (FILENAME @ ''_*.json'')) = Inr es" "Inr path \<in> set es"
    and "\<forall>q b. Inr q \<in> set es \<and> q \<noteq> path \<and> fst (parse_block_file l q False fs') = Inr b \<longrightarrow> vdf_height b < vdf_height p"
    and "get_block_dir to_string cfg None = Inr dir"
  shows "get_proof_number l (vdf_height p) dir fs' = Inr (p, path) \<and> get_highest_block l dir fs' = Inr (p, path) \<and>
    get_latest_proof l to_string cfg purge fs' = (Inr p, fs')"
proof -
  obtain t where t: "path = proof_file_name dir (vdf_height p)" "vdf_to_json l p = Inr t" "files fs' path = Some t"
    using write_json_files [OF assms(1)] by blast
  have parse: "parse_block_file l path pu fs' = (Inr p, fs')" for pu
    using parse_block_file_written [OF t(3)] assms(2) t(2) by blast
  then have n: "get_proof_number l (vdf_height p) dir fs' = Inr (p, path)"
    using t(1) by (simp add: get_proof_number_def Let_def)
  have mem: "(p, path) \<in> set (readable_proofs l fs' es)" using parse assms(5) by (simp add: readable_proofs_set)
  then obtain x where x: "first_highest (readable_proofs l fs' es) = Some x" by (cases "first_highest (readable_proofs l fs' es)") auto
  have "x = (p, path)"
  proof (rule ccontr)
    assume "x \<noteq> (p, path)"
    moreover have "fst x = b \<Longrightarrow> snd x = path \<Longrightarrow> b = p" for b
      using first_highest_is_max [OF x] parse by (metis prod.collapse readable_proofs_set fst_conv sum.inject(2))
    ultimately have "snd x \<noteq> path" by (metis prod.collapse)
    then have "vdf_height (fst x) < vdf_height p"
      using first_highest_is_max [OF x] assms(6) readable_proofs_set [of "fst x" "snd x" l fs' es] by auto
    then show False using first_highest_is_max [OF x] mem by fastforce
  qed
  then have h: "get_highest_block l dir fs' = Inr (p, path)" using x get_highest_block_spec [OF assms(3,4)] by simp
  then show ?thesis using n assms(7) parse by (simp add: get_latest_proof_def)
qed

definition example_proof :: VDFProof where
  "example_proof = \<lparr>vdf_height = 5, vdf_elapsed_secs = 1, vdf_preimage = [], vdf_proof = [], vdf_difficulty = None, vdf_security = None\<rparr>"

text \<open>A directory that also holds an unreadable file.\<close>

definition example_vdf_lib :: vdf_lib where
  "example_vdf_lib =
     \<lparr>vdf_to_json = (\<lambda>_. Inr ''five''), vdf_from_json = (\<lambda>t. if t = ''five'' then Inr example_proof else Inl (Err ''bad'')),
      vdf_dir_exists = (\<lambda>_ _. True), vdf_create_dir_all = (\<lambda>_. Inr),
      vdf_glob = (\<lambda>_ _. Inr [Inr ''/n/vdf_proofs_1/proof_4.json'', Inr (proof_file_name ''/n/vdf_proofs_1'' 5)])\<rparr>"

definition example_vdf_cfg :: AppCfg where
  "example_vdf_cfg = example_cfg\<lparr>workspace := (workspace example_cfg)\<lparr>node_home := ''/n''\<rparr>\<rparr>"

theorem written_proof_is_latest_witness:
  "\<exists>path fs'. write_json example_vdf_lib example_proof ''/n/vdf_proofs_1''
      \<lparr>files = [''/n/vdf_proofs_1/proof_4.json'' \<mapsto> ''x''], writable = (\<lambda>_. True)\<rparr> = Inr (path, fs') \<and>
    get_highest_block example_vdf_lib ''/n/vdf_proofs_1'' fs' = Inr (example_proof, path) \<and>
    get_latest_proof example_vdf_lib (\<lambda>_. ''1'') example_vdf_cfg True fs' = (Inr example_proof, fs')"
proof -
  let ?d = "''/n/vdf_proofs_1''" let ?p = "proof_file_name ?d 5"
  let ?fs = "\<lparr>files = [''/n/vdf_proofs_1/proof_4.json'' \<mapsto> ''x''], writable = (\<lambda>_. True)\<rparr> :: file_system"
  let ?fs' = "?fs\<lparr>files := (files ?fs)(?p \<mapsto> ''five'')\<rparr>"
  have ne: "?p \<noteq> ''/n/vdf_proofs_1/proof_4.json''" by code_simp
  have w: "write_json example_vdf_lib example_proof ?d ?fs = Inr (?p, ?fs')"
    by (simp add: write_json_def example_vdf_lib_def example_proof_def Let_def)
  have dir: "get_block_dir (\<lambda>_. ''1'') example_vdf_cfg None = Inr ?d"
    by (simp add: get_block_dir_def get_profile_def get_profile_idx_def example_vdf_cfg_def example_cfg_def AppCfg_default_def
        Workspace_default_def path_join_def unwrap_or_def vec_get_def Let_def)
  show ?thesis
    using written_proof_is_latest [of example_vdf_lib example_proof ?d ?fs ?p ?fs' "[Inr ''/n/vdf_proofs_1/proof_4.json'', Inr ?p]" "\<lambda>_. ''1''" example_vdf_cfg True]
      w dir ne
    by (auto simp: example_vdf_lib_def no_panic_def parse_block_file_def read_to_string_def Let_def)
qed

text \<open>The option to purge an unreadable proof never removes it: the file that is removed is the one named by its
  content.\<close>

lemma purge_removes_wrong_file:
  assumes "files fs path = Some t" "vdf_from_json l t = Inl (Err e)" "t \<noteq> path"
  shows "files (snd (parse_block_file l path True fs)) path = Some t"
  using assms by (auto simp: parse_block_file_def read_to_string_def remove_file_def Let_def)

end
