(* ===== verification/Cli_Config.thy ===== *)
theory Cli_Config
  imports Rust_Prelude
begin

text \<open>
  The vendor's client configuration as this program locates, loads and saves it
  (\<^verbatim>\<open>types/src/type_extensions/cli_config_ext.rs\<close>, \<^verbatim>\<open>global_config_ext.rs\<close>), and the wizard that writes a profile
  (\<^verbatim>\<open>tools/config/src/make_profile.rs\<close>). The configuration type, its YAML form, the key and URL parsers, the
  node and the user's answers are parameters.
\<close>

section \<open>Paths\<close>

text \<open>A path is its components and whether it is absolute; \<^verbatim>\<open>pop\<close> fails on the root and on the empty path.\<close>

datatype path = Path (absolute: bool) (components: "string list")

definition push :: "string \<Rightarrow> path \<Rightarrow> path" where
  "push c p = Path (absolute p) (components p @ [c])"

definition pop :: "path \<Rightarrow> path option" where
  "pop p = (if components p = [] then None else Some (Path (absolute p) (butlast (components p))))"

definition path_str :: "path \<Rightarrow> string" where
  "path_str p = (if absolute p then ''/'' else []) @ str_join ''/'' (components p)"

definition GLOBAL_CONFIG_DIRECTORY_0L :: string where "GLOBAL_CONFIG_DIRECTORY_0L = ''.libra''"
definition CONFIG_FILE :: string where "CONFIG_FILE = ''config.yaml''"
definition LEGACY_CONFIG_FILE :: string where "LEGACY_CONFIG_FILE = ''config.yml''"
definition GLOBAL_CONFIG_FILE :: string where "GLOBAL_CONFIG_FILE = ''global_config.yaml''"
definition DEFAULT_PROFILE :: string where "DEFAULT_PROFILE = ''default''"

datatype ConfigSearchMode = CurrentDir | CurrentDirAndParents
datatype ConfigType = Global | Workspace

datatype cli_error = ConfigNotFoundError string | UnableToParse string string | AbortedError | UnexpectedError string
  | CliPanic string

type_synonym 'a cli_result = "cli_error + 'a"

definition bind :: "('e + 'a) \<Rightarrow> ('a \<Rightarrow> 'e + 'b) \<Rightarrow> 'e + 'b" where
  "bind r f = (case r of Inl e \<Rightarrow> Inl e | Inr x \<Rightarrow> f x)"

lemma bind_simps [simp]: "bind (Inl e) f = Inl e" "bind (Inr x) f = f x"
  by (simp_all add: bind_def)

lemma bind_eq_Inr: "bind r f = Inr y \<longleftrightarrow> (\<exists>x. r = Inr x \<and> f x = Inr y)"
  by (cases r) simp_all

section \<open>Finding the directory\<close>

text \<open>The search loop: the directory is appended, and where there is none both it and the last component of the
  place searched are popped.\<close>

function find_loop :: "(path \<Rightarrow> bool) \<Rightarrow> path \<Rightarrow> path \<Rightarrow> path" where
  "find_loop is_dir starting_path current_path =
     (let c = push GLOBAL_CONFIG_DIRECTORY_0L current_path in
      if is_dir c then c
      else case pop c of
             None \<Rightarrow> push GLOBAL_CONFIG_DIRECTORY_0L starting_path
           | Some c1 \<Rightarrow> (case pop c1 of
                           None \<Rightarrow> push GLOBAL_CONFIG_DIRECTORY_0L starting_path
                         | Some c2 \<Rightarrow> find_loop is_dir starting_path c2))"
  by pat_completeness auto
termination
  by (relation "measure (\<lambda>(_, _, c). length (components c))") (auto simp: push_def pop_def split: if_splits)

declare find_loop.simps [simp del]

fun find_workspace_config :: "(path \<Rightarrow> bool) \<Rightarrow> path \<Rightarrow> ConfigSearchMode \<Rightarrow> path" where
  "find_workspace_config is_dir starting_path CurrentDir = push GLOBAL_CONFIG_DIRECTORY_0L starting_path"
| "find_workspace_config is_dir starting_path CurrentDirAndParents = find_loop is_dir starting_path starting_path"

record ProfileConfig =
  private_key :: "string option"
  public_key :: "string option"
  account :: "AccountAddress option"
  rest_url :: "string option"
  faucet_url :: "string option"

definition ProfileConfig_default :: ProfileConfig where
  "ProfileConfig_default = \<lparr>private_key = None, public_key = None, account = None, rest_url = None, faucet_url = None\<rparr>"

record CliConfig =
  profiles :: "(string \<Rightarrow> ProfileConfig option) option"

text \<open>\<open>cl_home\<close> is \<^verbatim>\<open>dirs::home_dir\<close>.\<close>

record cli_lib =
  cl_default :: CliConfig
  cl_remove_profile :: "string \<Rightarrow> CliConfig \<Rightarrow> ProfileConfig option \<times> CliConfig"
  cl_from_yaml :: "string \<Rightarrow> CliConfig cli_result"
  cl_to_yaml :: "CliConfig \<Rightarrow> string cli_result"
  cl_is_dir :: "file_system \<Rightarrow> path \<Rightarrow> bool"
  cl_create_dir_if_not_exist :: "path \<Rightarrow> file_system \<Rightarrow> file_system cli_result"
  cl_home :: "path option"

text \<open>The \<^verbatim>\<open>expect\<close> of \<^verbatim>\<open>global_config_dir\<close> is a panic.\<close>

definition global_config_dir :: "cli_lib \<Rightarrow> path cli_result" where
  "global_config_dir l =
     (case cl_home l of Some h \<Rightarrow> Inr (push GLOBAL_CONFIG_DIRECTORY_0L h)
      | None \<Rightarrow> Inl (CliPanic ''weird...cannot get a home path''))"

definition libra_folder :: "cli_lib \<Rightarrow> file_system \<Rightarrow> path option \<Rightarrow> ConfigSearchMode \<Rightarrow> path cli_result" where
  "libra_folder l fs workspace mode =
     (case workspace of
        Some p \<Rightarrow> Inr (find_workspace_config (cl_is_dir l fs) p mode)
      | None \<Rightarrow> global_config_dir l)"

definition config_exists_ext :: "cli_lib \<Rightarrow> file_system \<Rightarrow> path option \<Rightarrow> ConfigSearchMode \<Rightarrow> bool cli_result" where
  "config_exists_ext l fs workspace mode =
     bind (libra_folder l fs workspace mode) (\<lambda>folder. Inr (files fs (path_str (push CONFIG_FILE folder)) \<noteq> None))"

definition load_ext :: "cli_lib \<Rightarrow> file_system \<Rightarrow> path option \<Rightarrow> ConfigSearchMode \<Rightarrow> CliConfig cli_result" where
  "load_ext l fs workspace mode =
     bind (libra_folder l fs workspace mode) (\<lambda>folder.
       let config_file = path_str (push CONFIG_FILE folder) in
       case files fs config_file of Some t \<Rightarrow> cl_from_yaml l t | None \<Rightarrow> Inl (ConfigNotFoundError config_file))"

text \<open>A missing configuration is reported with advice. A profile that is asked for by name has to exist; the
  default profile may be missing.\<close>

definition load_profile_ext ::
  "cli_lib \<Rightarrow> file_system \<Rightarrow> string option \<Rightarrow> path option \<Rightarrow> ConfigSearchMode \<Rightarrow> ProfileConfig option cli_result" where
  "load_profile_ext l fs profile workspace mode =
     (case load_ext l fs workspace mode of
        Inl (ConfigNotFoundError p) \<Rightarrow>
          Inl (UnexpectedError (''Unable to find config '' @ p @ '', have you run `libra-config vendor-init`?''))
      | Inl e \<Rightarrow> Inl e
      | Inr config \<Rightarrow>
          (case profile of
             Some name \<Rightarrow>
               (case fst (cl_remove_profile l name config) of
                  Some account_profile \<Rightarrow> Inr (Some account_profile)
                | None \<Rightarrow> Inl (UnexpectedError (''Profile '' @ name @ '' not found'')))
           | None \<Rightarrow> Inr (fst (cl_remove_profile l DEFAULT_PROFILE config))))"

text \<open>Saving also removes a legacy file; a failure to remove it is ignored.\<close>

definition save_ext :: "cli_lib \<Rightarrow> CliConfig \<Rightarrow> path option \<Rightarrow> file_system \<Rightarrow> (path \<times> file_system) cli_result" where
  "save_ext l self workspace fs =
     bind (libra_folder l fs workspace CurrentDir) (\<lambda>folder.
     bind (cl_create_dir_if_not_exist l folder fs) (\<lambda>fs.
     let config_file = push CONFIG_FILE folder; legacy_config_file = path_str (push LEGACY_CONFIG_FILE folder) in
     bind (cl_to_yaml l self) (\<lambda>config_bytes.
     if \<not> writable fs (path_str config_file) then Inl (UnexpectedError ''cannot write file'')
     else let fs = fs\<lparr>files := (files fs)(path_str config_file \<mapsto> config_bytes)\<rparr> in
       Inr (config_file, if files fs legacy_config_file \<noteq> None then fs\<lparr>files := (files fs)(legacy_config_file := None)\<rparr> else fs))))"

section \<open>The global configuration\<close>

record 'g global_lib =
  gl_default :: 'g
  gl_from_yaml :: "string \<Rightarrow> 'g cli_result"
  gl_config_type :: "'g \<Rightarrow> ConfigType option"
  gl_current_dir :: "path cli_result"

text \<open>The vendor's default kind of configuration is the workspace.\<close>

definition global_folder :: "cli_lib \<Rightarrow> path cli_result" where
  "global_folder l =
     (case cl_home l of Some dir \<Rightarrow> Inr (push GLOBAL_CONFIG_DIRECTORY_0L dir)
      | None \<Rightarrow> Inl (UnexpectedError ''Unable to retrieve home directory''))"

definition global_load_ext :: "cli_lib \<Rightarrow> 'g global_lib \<Rightarrow> file_system \<Rightarrow> 'g cli_result" where
  "global_load_ext l g fs =
     bind (global_folder l) (\<lambda>dir.
       case files fs (path_str (push GLOBAL_CONFIG_FILE dir)) of
         Some t \<Rightarrow> gl_from_yaml g t | None \<Rightarrow> Inr (gl_default g))"

definition get_config_location_ext ::
  "cli_lib \<Rightarrow> 'g global_lib \<Rightarrow> ConfigType \<Rightarrow> file_system \<Rightarrow> 'g \<Rightarrow> ConfigSearchMode \<Rightarrow> path cli_result" where
  "get_config_location_ext l g default_type fs self mode =
     (case (case gl_config_type g self of Some t \<Rightarrow> t | None \<Rightarrow> default_type) of
        Global \<Rightarrow> global_folder l
      | Workspace \<Rightarrow> bind (gl_current_dir g) (\<lambda>d. Inr (find_workspace_config (cl_is_dir l fs) d mode)))"

section \<open>The profile wizard\<close>

datatype Network = Mainnet | Testnet | Devnet | Local | Custom

record wizard =
  read_line :: "string \<Rightarrow> string cli_result"
  prompt_overwrite :: "string \<Rightarrow> unit cli_result"
  key_from_encoded_string :: "string \<Rightarrow> string cli_result"
  network_from_str :: "string \<Rightarrow> Network cli_result"
  account_address_from_public_key :: "string \<Rightarrow> AccountAddress"
  url_parse :: "string \<Rightarrow> string cli_result"
  lookup_address :: "string \<Rightarrow> AccountAddress \<Rightarrow> AccountAddress cli_result"
  wizard_current_dir :: "path option"

definition custom_network :: "wizard \<Rightarrow> ProfileConfig \<Rightarrow> ProfileConfig cli_result" where
  "custom_network w profile_config =
     bind (read_line w ''Rest endpoint'') (\<lambda>line. let input = trim line in
     bind (if input = [] then
             (case rest_url profile_config of Some current \<Rightarrow> Inr (Some current) | None \<Rightarrow> Inl AbortedError)
           else (case url_parse w input of Inr u \<Rightarrow> Inr (Some u)
                 | Inl _ \<Rightarrow> Inl (UnableToParse ''Rest Endpoint'' input))) (\<lambda>url.
       Inr (profile_config\<lparr>rest_url := url, faucet_url := None\<rparr>)))"

definition check_network :: "wizard \<Rightarrow> ProfileConfig \<Rightarrow> string cli_result" where
  "check_network w cfg =
     (case rest_url cfg of
        None \<Rightarrow> Inl (CliPanic ''Must have rest client as created above'')
      | Some u \<Rightarrow> (case url_parse w u of Inr url \<Rightarrow> Inr url | Inl _ \<Rightarrow> Inl (UnableToParse ''rest_url'' u)))"

definition choose_network :: "wizard \<Rightarrow> string \<Rightarrow> Network cli_result" where
  "choose_network w line = (let input = trim line in if input = [] then Inr Local else network_from_str w input)"

definition set_network :: "wizard \<Rightarrow> Network \<Rightarrow> ProfileConfig \<Rightarrow> ProfileConfig cli_result" where
  "set_network w network profile_config =
     (case network of
        Local \<Rightarrow> Inr (profile_config\<lparr>rest_url := Some ''http://localhost:8080'', faucet_url := None\<rparr>)
      | Custom \<Rightarrow> custom_network w profile_config
      | _ \<Rightarrow> Inl (UnexpectedError ''0L only supports Local and Custom networks (for now)''))"

text \<open>The address is looked up when the answer contains a y; whatever fails there leaves the derived address.\<close>

definition resolve_address :: "wizard \<Rightarrow> string \<Rightarrow> ProfileConfig \<Rightarrow> AccountAddress \<Rightarrow> AccountAddress cli_result" where
  "resolve_address w line profile_config address =
     (if CHR ''y'' \<in> set (trim line) then
        (case check_network w profile_config of
           Inr client \<Rightarrow> (case lookup_address w client address of Inr a \<Rightarrow> Inr a | Inl _ \<Rightarrow> Inr address)
         | Inl (CliPanic m) \<Rightarrow> Inl (CliPanic m)
         | Inl _ \<Rightarrow> Inr address)
      else Inr address)"

definition insert_profile :: "string \<Rightarrow> ProfileConfig \<Rightarrow> CliConfig \<Rightarrow> CliConfig" where
  "insert_profile name p config =
     config\<lparr>profiles := Some ((case profiles config of Some m \<Rightarrow> m | None \<Rightarrow> Map.empty)(name \<mapsto> p))\<rparr>"

definition make_profile_run ::
  "cli_lib \<Rightarrow> wizard \<Rightarrow> string \<Rightarrow> string option \<Rightarrow> bool \<Rightarrow> file_system \<Rightarrow> (path \<times> file_system) cli_result" where
  "make_profile_run l w encoded profile in_workspace fs =
     (let profile_name = (case profile of Some n \<Rightarrow> n | None \<Rightarrow> DEFAULT_PROFILE) in
     bind (key_from_encoded_string w encoded) (\<lambda>key.
     let (existing, config) = cl_remove_profile l profile_name (cl_default l) in
     bind (case existing of Some p \<Rightarrow> bind (prompt_overwrite w profile_name) (\<lambda>_. Inr p) | None \<Rightarrow> Inr ProfileConfig_default) (\<lambda>profile_config.
     bind (read_line w ''network'') (\<lambda>line.
     bind (choose_network w line) (\<lambda>network.
     bind (set_network w network profile_config) (\<lambda>profile_config.
     bind (read_line w ''address'') (\<lambda>line.
     bind (resolve_address w line profile_config (account_address_from_public_key w key)) (\<lambda>address.
     let profile_config = profile_config\<lparr>private_key := None, public_key := Some key, account := Some address\<rparr> in
       save_ext l (insert_profile profile_name profile_config config)
         (if in_workspace then wizard_current_dir w else None) fs))))))))"

section \<open>The search is the nearest ancestor\<close>

definition ancestors :: "path \<Rightarrow> path list" where
  "ancestors p = map (\<lambda>n. Path (absolute p) (take n (components p))) (rev [0..<Suc (length (components p))])"

lemma ancestors_root: "components p = [] \<Longrightarrow> ancestors p = [p]"
  by (cases p) (simp add: ancestors_def)

lemma ancestors_butlast:
  assumes "components p \<noteq> []"
  shows "ancestors p = p # ancestors (Path (absolute p) (butlast (components p)))"
proof -
  obtain cs c where c: "components p = cs @ [c]" using assms by (metis rev_exhaust)
  have "map (\<lambda>n. Path (absolute p) (take n (cs @ [c]))) (rev [0..<Suc (length cs)]) =
      map (\<lambda>n. Path (absolute p) (take n cs)) (rev [0..<Suc (length cs)])"
    by (intro map_cong) auto
  then show ?thesis using c by (cases p) (simp add: ancestors_def)
qed

lemma find_loop_spec:
  "find_loop is_dir start cur =
     (case List.find (\<lambda>d. is_dir (push GLOBAL_CONFIG_DIRECTORY_0L d)) (ancestors cur) of
        Some d \<Rightarrow> push GLOBAL_CONFIG_DIRECTORY_0L d | None \<Rightarrow> push GLOBAL_CONFIG_DIRECTORY_0L start)"
proof (induction is_dir start cur rule: find_loop.induct)
  case (1 is_dir start cur)
  have pop: "pop (push c cur) = Some cur" for c by (cases cur) (simp add: pop_def push_def)
  show ?case
  proof (cases "components cur = []")
    case True
    then show ?thesis by (subst find_loop.simps) (simp add: pop Let_def ancestors_root, simp add: pop_def)
  next
    case False
    then have p: "pop cur = Some (Path (absolute cur) (butlast (components cur)))" by (simp add: pop_def)
    show ?thesis using 1 [OF refl _ pop p] False p
      by (subst find_loop.simps) (simp add: pop Let_def ancestors_butlast)
  qed
qed

text \<open>The search ends at every starting path, and what it returns is the configuration directory of the nearest
  ancestor that has one, or else the one of the starting path.\<close>

lemma find_workspace_config_nearest:
  "find_workspace_config is_dir start CurrentDirAndParents =
     (case List.find (\<lambda>d. is_dir (push GLOBAL_CONFIG_DIRECTORY_0L d)) (ancestors start) of
        Some d \<Rightarrow> push GLOBAL_CONFIG_DIRECTORY_0L d | None \<Rightarrow> push GLOBAL_CONFIG_DIRECTORY_0L start)"
  by (simp add: find_loop_spec)

section \<open>What the wizard leaves\<close>

lemma path_str_inj_push: "a \<noteq> b \<Longrightarrow> path_str (push a p) \<noteq> path_str (push b p)"
proof -
  have j: "str_join ''/'' (cs @ [c]) = (if cs = [] then [] else str_join ''/'' cs @ ''/'') @ c" for cs c
    by (induction "''/''" cs rule: str_join.induct) auto
  assume "a \<noteq> b" then show ?thesis by (simp add: path_str_def push_def j)
qed

lemma save_ext_load:
  assumes "save_ext l c loc fs = Inr (path, fs')" "\<And>t. cl_to_yaml l c = Inr t \<Longrightarrow> cl_from_yaml l t = Inr c"
  shows "load_ext l fs' loc CurrentDir = Inr c"
proof -
  have ne: "path_str (push LEGACY_CONFIG_FILE d) \<noteq> path_str (push CONFIG_FILE d)" for d
    by (rule path_str_inj_push) (simp add: LEGACY_CONFIG_FILE_def CONFIG_FILE_def)
  have folder: "libra_folder l fs' loc CurrentDir = libra_folder l fs loc CurrentDir"
    by (simp add: libra_folder_def split: option.split)
  show ?thesis using assms ne not_sym [OF ne]
    by (auto simp: save_ext_def load_ext_def folder bind_eq_Inr Let_def split: if_splits)
qed

lemma set_network_url: "set_network w n p = Inr p' \<Longrightarrow> rest_url p' \<noteq> None"
  by (auto simp: set_network_def custom_network_def bind_eq_Inr Let_def split: Network.splits if_splits option.splits sum.splits)

text \<open>C40. A profile made by the wizard is the one that is loaded, and the only one left. Whenever the wizard
  ends, loading the profile of that name from the place it was saved to finds it, with the public key that
  was given, an address, a node and no private key; but the configuration saved holds no other profile,
  because the wizard starts from an empty configuration instead of the one on disk.\<close>

theorem wizard_profile_loaded:
  assumes "make_profile_run l w encoded profile in_workspace fs = Inr (path, fs')"
    and "name = (case profile of Some n \<Rightarrow> n | None \<Rightarrow> DEFAULT_PROFILE)"
    and "loc = (if in_workspace then wizard_current_dir w else None)"
    and "\<forall>c t. cl_to_yaml l c = Inr t \<longrightarrow> cl_from_yaml l t = Inr c"
    and "\<forall>n c. cl_remove_profile l n c = (case profiles c of None \<Rightarrow> (None, c) | Some m \<Rightarrow> (m n, c\<lparr>profiles := Some (m(n := None))\<rparr>))"
    and "profiles (cl_default l) = None \<or> profiles (cl_default l) = Some Map.empty"
  shows "\<exists>p. load_profile_ext l fs' (Some name) loc CurrentDir = Inr (Some p) \<and>
    load_ext l fs' loc CurrentDir = Inr \<lparr>profiles = Some [name \<mapsto> p]\<rparr> \<and>
    private_key p = None \<and> Inr (the (public_key p)) = key_from_encoded_string w encoded \<and>
    account p \<noteq> None \<and> rest_url p \<noteq> None"
proof -
  obtain config where c: "cl_remove_profile l name (cl_default l) = (None, config)"
    "profiles config = None \<or> profiles config = Some Map.empty"
    using assms(5,6) by (cases "profiles (cl_default l)") auto
  obtain key line network p0 line2 a where
    k: "key_from_encoded_string w encoded = Inr key" "set_network w network ProfileConfig_default = Inr p0"
    and s: "save_ext l (insert_profile name (p0\<lparr>private_key := None, public_key := Some key, account := Some a\<rparr>) config) loc fs = Inr (path, fs')"
    using assms(1) by (auto simp: make_profile_run_def bind_eq_Inr Let_def c(1) simp flip: assms(2,3))
  let ?p = "p0\<lparr>private_key := None, public_key := Some key, account := Some a\<rparr>"
  have "insert_profile name ?p config = \<lparr>profiles = Some [name \<mapsto> ?p]\<rparr>"
    using c(2) by (cases config) (auto simp: insert_profile_def)
  then have load: "load_ext l fs' loc CurrentDir = Inr \<lparr>profiles = Some [name \<mapsto> ?p]\<rparr>"
    using save_ext_load [OF s] assms(4) by auto
  then have "load_profile_ext l fs' (Some name) loc CurrentDir = Inr (Some ?p)"
    using assms(5) by (simp add: load_profile_ext_def)
  then show ?thesis using load set_network_url [OF k(2)] k(1) by (intro exI [of _ ?p]) simp
qed

definition example_cli :: "CliConfig \<Rightarrow> cli_lib" where
  "example_cli c =
     \<lparr>cl_default = \<lparr>profiles = None\<rparr>,
      cl_remove_profile = (\<lambda>n c. case profiles c of None \<Rightarrow> (None, c) | Some m \<Rightarrow> (m n, c\<lparr>profiles := Some (m(n := None))\<rparr>)),
      cl_from_yaml = (\<lambda>t. Inr c), cl_to_yaml = (\<lambda>d. if d = c then Inr ''yaml'' else Inl AbortedError),
      cl_is_dir = (\<lambda>_ _. True), cl_create_dir_if_not_exist = (\<lambda>_. Inr), cl_home = Some (Path True [''home'', ''a''])\<rparr>"

definition example_wizard :: wizard where
  "example_wizard =
     \<lparr>read_line = (\<lambda>q. Inr (if q = ''network'' then [] else ''y'')), prompt_overwrite = (\<lambda>_. Inr ()), key_from_encoded_string = Inr,
      network_from_str = (\<lambda>_. Inr Local), account_address_from_public_key = (\<lambda>_. 1), url_parse = Inr,
      lookup_address = (\<lambda>_ _. Inr 7), wizard_current_dir = None\<rparr>"

text \<open>A rotated account: its address is the one looked up.\<close>

theorem wizard_profile_loaded_witness:
  "let p = \<lparr>private_key = None, public_key = Some ''k'', account = Some 7, rest_url = Some ''http://localhost:8080'', faucet_url = None\<rparr>;
       l = example_cli \<lparr>profiles = Some [DEFAULT_PROFILE \<mapsto> p]\<rparr> in
   \<exists>path fs'. make_profile_run l example_wizard ''k'' None False \<lparr>files = Map.empty, writable = (\<lambda>_. True)\<rparr> = Inr (path, fs') \<and>
     (\<exists>q. load_profile_ext l fs' (Some DEFAULT_PROFILE) None CurrentDir = Inr (Some q))"
proof -
  define p where "p = \<lparr>private_key = None, public_key = Some ''k'', account = Some 7, rest_url = Some ''http://localhost:8080'', faucet_url = None\<rparr>"
  define l where "l = example_cli \<lparr>profiles = Some [DEFAULT_PROFILE \<mapsto> p]\<rparr>"
  have "\<exists>path fs'. make_profile_run l example_wizard ''k'' None False \<lparr>files = Map.empty, writable = (\<lambda>_. True)\<rparr> = Inr (path, fs')"
    by (simp add: make_profile_run_def l_def p_def example_cli_def example_wizard_def choose_network_def set_network_def
        resolve_address_def check_network_def save_ext_def libra_folder_def global_config_dir_def insert_profile_def
        ProfileConfig_default_def trim_def is_ascii_ws_def Let_def)
  then obtain path fs' where run: "make_profile_run l example_wizard ''k'' None False \<lparr>files = Map.empty, writable = (\<lambda>_. True)\<rparr> = Inr (path, fs')"
    by blast
  have laws: "\<forall>c t. cl_to_yaml l c = Inr t \<longrightarrow> cl_from_yaml l t = Inr c"
    "\<forall>n c. cl_remove_profile l n c = (case profiles c of None \<Rightarrow> (None, c) | Some m \<Rightarrow> (m n, c\<lparr>profiles := Some (m(n := None))\<rparr>))"
    "profiles (cl_default l) = None \<or> profiles (cl_default l) = Some Map.empty"
    by (simp_all add: l_def example_cli_def)
  have "\<exists>q. load_profile_ext l fs' (Some DEFAULT_PROFILE) None CurrentDir = Inr (Some q)"
    using wizard_profile_loaded [OF run refl refl laws] by auto
  then show ?thesis using run by (auto simp: Let_def p_def l_def)
qed

end
