(* ===== verification/Client_Queries.thy ===== *)
theory Client_Queries
  imports Tx_Commands App_Cfg
begin

text \<open>
  Reading the chain: the client extension (\<^verbatim>\<open>types/src/type_extensions/client_ext.rs\<close>) and the query tool
  (\<^verbatim>\<open>tools/query/src\<close>). A query builds a request to a full node and reads the answer; the node, the parsers of
  the vendor and its serialization are parameters (\<open>rest_client\<close>, \<open>query_lib\<close>).
\<close>

section \<open>Requests\<close>

record ViewRequest =
  vr_function :: string
  vr_type_arguments :: "string list"
  vr_arguments :: "Value list"

record rest_client =
  rc_view :: "ViewRequest \<Rightarrow> Value list result"
  rc_chain_id :: "u8 result"
  rc_account_resource :: "AccountAddress \<Rightarrow> string \<Rightarrow> Value option result"
  rc_account_resource_bcs :: "AccountAddress \<Rightarrow> string \<Rightarrow> u8 list result"
  rc_account_resources :: "AccountAddress \<Rightarrow> string result"
  rc_account_events :: "AccountAddress \<Rightarrow> string \<Rightarrow> string \<Rightarrow> u64 option \<Rightarrow> Value list result"
  rc_account_transactions :: "AccountAddress \<Rightarrow> u64 option \<Rightarrow> u64 option \<Rightarrow> (u64 \<times> u64 option \<times> bool) list result"
  rc_annotate_latest :: "AccountAddress \<Rightarrow> string option result"

record ValidatorConfig =
  vac_consensus_public_key :: Value
  vac_validator_network_addresses :: "Value result"
  vac_fullnode_network_addresses :: "Value result"
  vac_validator_index :: u64

text \<open>\<open>ql_move_type\<close> is the type argument of a request; \<open>ql_address_value\<close>, \<open>ql_sequence\<close> and \<open>ql_val_config\<close> read an address,
  an who and a validator configuration.\<close>

record query_lib =
  ql_function_id :: "string \<Rightarrow> string result"
  ql_parse_type_tags :: "string \<Rightarrow> TypeTag list result"
  ql_move_type :: "TypeTag \<Rightarrow> string"
  ql_address_string :: "AccountAddress \<Rightarrow> string"
  ql_address_value :: "Value \<Rightarrow> AccountAddress result"
  ql_address_to_value :: "AccountAddress \<Rightarrow> Value"
  ql_sequence :: "Value \<Rightarrow> u64 result"
  ql_val_config :: "u8 list \<Rightarrow> ValidatorConfig result"
  ql_val_config_module :: string
  ql_val_config_struct :: string
  ql_numbers :: "Value \<Rightarrow> u128 list result"

text \<open>\<^verbatim>\<open>Context\<close>: an error is replaced, a panic passes.\<close>

definition context_err :: "string \<Rightarrow> 'a result \<Rightarrow> 'a result" where
  "context_err msg r = (case r of Inl (Err _) \<Rightarrow> Inl (Err msg) | x \<Rightarrow> x)"

definition entry_function_id :: "query_lib \<Rightarrow> string \<Rightarrow> string \<Rightarrow> string result" where
  "entry_function_id q module_name function_name =
     (let s = ''0x1::'' @ module_name @ ''::'' @ function_name in
      context_err (''Invalid function id: '' @ s) (ql_function_id q s))"

definition view_args :: "string option \<Rightarrow> Value list" where
  "view_args arguments = (case arguments of None \<Rightarrow> [] | Some a \<Rightarrow> map (\<lambda>arg. VString (trim arg)) (str_split (CHR '','') a))"

definition view_ext :: "query_lib \<Rightarrow> rest_client \<Rightarrow> string \<Rightarrow> string option \<Rightarrow> string option \<Rightarrow> Value result" where
  "view_ext q c function_id type_arguments arguments =
     and_then (context_err (''Invalid function id: '' @ function_id) (ql_function_id q function_id)) (\<lambda>f.
     and_then (case type_arguments of
         Some t \<Rightarrow> and_then (context_err (''Unable to parse the type argument(s): '' @ t) (ql_parse_type_tags q t))
                     (\<lambda>ts. Inr (map (ql_move_type q) ts))
       | None \<Rightarrow> Inr []) (\<lambda>tys.
     and_then (context_err ''Failed to execute View request''
         (rc_view c \<lparr>vr_function = f, vr_type_arguments = tys, vr_arguments = view_args arguments\<rparr>)) (\<lambda>vs.
       Inr (VArray vs))))"

text \<open>A view of one account, as most helpers build it.\<close>

definition account_view :: "query_lib \<Rightarrow> rest_client \<Rightarrow> string \<Rightarrow> string \<Rightarrow> AccountAddress \<Rightarrow> Value list result" where
  "account_view q c m f who =
     and_then (entry_function_id q m f) (\<lambda>id.
       rc_view c \<lparr>vr_function = id, vr_type_arguments = [], vr_arguments = [VString (ql_address_string q who)]\<rparr>)"

definition lookup_originating_address_ext :: "query_lib \<Rightarrow> rest_client \<Rightarrow> AuthenticationKey \<Rightarrow> AccountAddress result" where
  "lookup_originating_address_ext q c authentication_key =
     and_then (account_view q c ''account'' ''get_originating_address'' authentication_key) (\<lambda>res.
       if res = [] then Inl (Panic ''index out of bounds'') else ql_address_value q (hd res))"

definition get_move_resource :: "rest_client \<Rightarrow> string \<Rightarrow> string \<Rightarrow> (u8 list \<Rightarrow> 'a result) \<Rightarrow> AccountAddress \<Rightarrow> 'a result" where
  "get_move_resource c module_name struct_name read address =
     and_then (rc_account_resource_bcs c address (''0x1::'' @ module_name @ ''::'' @ struct_name)) read"

definition get_account_resources_ext :: "rest_client \<Rightarrow> AccountAddress \<Rightarrow> string result" where
  "get_account_resources_ext c who = context_err ''Failed to get account resources'' (rc_account_resources c who)"

definition get_sequence_number_ext :: "query_lib \<Rightarrow> rest_client \<Rightarrow> AccountAddress \<Rightarrow> u64 result" where
  "get_sequence_number_ext q c who =
     and_then (context_err ''Failed to get account resource'' (rc_account_resource c who ''0x1::account::Account'')) (\<lambda>r.
       case r of Some data \<Rightarrow> ql_sequence q data | None \<Rightarrow> Inl (Err ''No data returned for the sequence number''))"

text \<open>The node of the configuration has to answer before it is used.\<close>

definition from_libra_config ::
  "(Url \<Rightarrow> rest_client) \<Rightarrow> AppCfg \<Rightarrow> NamedChain option \<Rightarrow> (rest_client \<times> u8) result" where
  "from_libra_config connect app_cfg chain_id_opt =
     and_then (pick_url app_cfg chain_id_opt) (\<lambda>u. let c = connect u in
     and_then (rc_chain_id c) (\<lambda>chain_id. Inr (c, chain_id)))"

definition default_client ::
  "(Url \<Rightarrow> rest_client) \<Rightarrow> (string \<Rightarrow> AppCfg result) \<Rightarrow> string \<Rightarrow> file_system \<Rightarrow> rest_client result" where
  "default_client connect from_yaml home fs =
     and_then (load from_yaml home None fs) (\<lambda>app_cfg.
     and_then (from_libra_config connect app_cfg None) (\<lambda>(c, _). Inr c))"

section \<open>Queries of the chain and of accounts\<close>

definition first_u64 :: "Value \<Rightarrow> u64 result" where
  "first_u64 v =
     and_then (strings_from_value v) (\<lambda>ss.
     and_then (unwrap_none (first_of ss)) (\<lambda>s. ok_or ''invalid digit found in string'' (parse_u64 s)))"

definition get_epoch :: "query_lib \<Rightarrow> rest_client \<Rightarrow> u64 result" where
  "get_epoch q c = and_then (view_ext q c ''0x1::reconfiguration::get_current_epoch'' None None) first_u64"

definition get_height :: "query_lib \<Rightarrow> rest_client \<Rightarrow> u64 result" where
  "get_height q c = and_then (view_ext q c ''0x1::block::get_current_block_height'' None None) first_u64"

definition u64_of_value :: "Value \<Rightarrow> u64 result" where
  "u64_of_value v =
     and_then (ok_or ''invalid type'' (as_str v)) (\<lambda>s. ok_or ''invalid digit found in string'' (parse_u64 s))"

definition get_tower_difficulty :: "query_lib \<Rightarrow> rest_client \<Rightarrow> (u64 \<times> u64) result" where
  "get_tower_difficulty q c =
     and_then (entry_function_id q ''tower_state'' ''get_difficulty'') (\<lambda>f.
     and_then (rc_view c \<lparr>vr_function = f, vr_type_arguments = [], vr_arguments = []\<rparr>) (\<lambda>res.
     and_then (ok_or ''no difficulty returned'' (first_of res)) (\<lambda>d.
     and_then (u64_of_value d) (\<lambda>difficulty.
     and_then (ok_or ''no security param returned'' (vec_get res 1)) (\<lambda>s.
     and_then (u64_of_value s) (\<lambda>security. Inr (difficulty, security)))))))"

definition can_gov_proposal_resolve :: "query_lib \<Rightarrow> rest_client \<Rightarrow> u64 \<Rightarrow> bool result" where
  "can_gov_proposal_resolve q c pid =
     and_then (view_ext q c ''0x1::diem_governance::get_can_resolve'' None (Some (show_nat (unat pid)))) (\<lambda>v.
       ok_or ''cannot parse api res'' (as_bool v))"

definition get_gov_proposal_votes :: "query_lib \<Rightarrow> rest_client \<Rightarrow> u64 \<Rightarrow> u128 list result" where
  "get_gov_proposal_votes q c pid =
     and_then (view_ext q c ''0x1::diem_governance::get_votes'' None (Some (show_nat (unat pid)))) (ql_numbers q)"

fun json_of :: "Value \<Rightarrow> json" where
  "json_of (VString s) = JString s" | "json_of _ = JOther"

definition get_account_balance_libra :: "query_lib \<Rightarrow> rest_client \<Rightarrow> AccountAddress \<Rightarrow> SlowWalletBalance result" where
  "get_account_balance_libra q c who =
     and_then (account_view q c ''ol_account'' ''balance'' who) (\<lambda>res. SlowWalletBalance_from_value (map json_of res))"

definition get_val_config :: "query_lib \<Rightarrow> rest_client \<Rightarrow> AccountAddress \<Rightarrow> ValidatorConfig result" where
  "get_val_config q c who = get_move_resource c (ql_val_config_module q) (ql_val_config_struct q) (ql_val_config q) who"

definition get_events :: "rest_client \<Rightarrow> AccountAddress \<Rightarrow> bool \<Rightarrow> u64 option \<Rightarrow> Value list result" where
  "get_events c who withdrawn_or_deposited seq_start =
     rc_account_events c who ''0x1::coin::CoinStore<0x1::libra_coin::LibraCoin>''
       (if withdrawn_or_deposited then ''withdraw_events'' else ''deposit_events'') seq_start"

definition is_community_wallet_migrated :: "query_lib \<Rightarrow> rest_client \<Rightarrow> AccountAddress \<Rightarrow> Value result" where
  "is_community_wallet_migrated q c who =
     and_then (account_view q c ''community_wallet'' ''qualifies'' who) (\<lambda>res. Inr (VArray res))"

definition community_wallet_signers :: "query_lib \<Rightarrow> rest_client \<Rightarrow> AccountAddress \<Rightarrow> Value result" where
  "community_wallet_signers q c who =
     and_then (account_view q c ''multi_action'' ''get_authorities'' who) (\<lambda>res. Inr (VArray res))"

definition multi_auth_ballots_query :: "rest_client \<Rightarrow> AccountAddress \<Rightarrow> Value result" where
  "multi_auth_ballots_query c who =
     and_then (rc_account_resource c who ''0x1::multi_action::Action<0x1::donor_voice_txs::Payment>'') unwrap_none"

text \<open>The elements of a view, as text: the text form of a value is a parameter.\<close>

definition display_view :: "(Value \<Rightarrow> string) \<Rightarrow> Value list \<Rightarrow> string result" where
  "display_view to_string res =
     (let values_to_string = map to_string res in
      if 1 < length values_to_string then Inr (CHR ''['' # str_join '', '' values_to_string @ '']'')
      else and_then (unwrap ''api didn't return a value'' (first_of values_to_string)) (\<lambda>s. Inr (CHR ''['' # s @ '']'')))"

section \<open>The query command\<close>

datatype QueryType =
    Balance AccountAddress
  | ValConfig AccountAddress
  | Epoch
  | Resource AccountAddress string
  | View string "string option" "string option"
  | LookupAddress AuthenticationKey
  | BlockHeight
  | SyncDelay
  | Events AccountAddress bool "u64 option"
  | Txs AccountAddress "u64 option" "u64 option" "string option"
  | ComWalletMigrated AccountAddress
  | ComWalletSigners AccountAddress
  | ComWalletPendTransactions AccountAddress
  | Annotate AccountAddress

text \<open>The balance is printed in coins, as doubles; everything else is JSON.\<close>

datatype answer = Coins LibraBalanceDisplay | Json Value

definition u64_json :: "u64 \<Rightarrow> Value" where "u64_json n = VNumber (uint n)"

definition transaction_json :: "u64 \<times> u64 option \<times> bool \<Rightarrow> Value" where
  "transaction_json tx =
     (case tx of (timestamp, ver, still) \<Rightarrow>
        VObject [(''timestamp'', u64_json timestamp),
                 (''version'', case ver of Some n \<Rightarrow> u64_json n | None \<Rightarrow> VNull), (''is_pending'', VBool still)])"

fun query_to_json :: "query_lib \<Rightarrow> (u8 list \<Rightarrow> unit result) \<Rightarrow> rest_client \<Rightarrow> QueryType \<Rightarrow> answer result" where
  "query_to_json q tx_schedule c (Balance who) =
     and_then (get_account_balance_libra q c who) (\<lambda>res. Inr (Coins (scaled res)))"
| "query_to_json q tx_schedule c (View function_id type_arguments arguments) =
     and_then (view_ext q c function_id type_arguments arguments) (\<lambda>res. Inr (Json (VObject [(''body'', res)])))"
| "query_to_json q tx_schedule c Epoch = and_then (get_epoch q c) (\<lambda>num. Inr (Json (VObject [(''epoch'', u64_json num)])))"
| "query_to_json q tx_schedule c (LookupAddress akey) =
     and_then (lookup_originating_address_ext q c akey) (\<lambda>addr.
       Inr (Json (VObject [(''address'', ql_address_to_value q addr)])))"
| "query_to_json q tx_schedule c (Resource who rpath) =
     and_then (rc_account_resource c who rpath) (\<lambda>r.
       case r of Some data \<Rightarrow> Inr (Json data)
       | None \<Rightarrow> Inl (Err (''no resource '' @ rpath @ '', found at address '' @ ql_address_string q who)))"
| "query_to_json q tx_schedule c (ValConfig who) =
     and_then (get_val_config q c who) (\<lambda>res.
     and_then (context_err ''can't BCS decode the validator network address'' (vac_validator_network_addresses res)) (\<lambda>va.
     and_then (context_err ''can't BCS decode the fullnode network address'' (vac_fullnode_network_addresses res)) (\<lambda>fa.
       Inr (Json (VObject
         [(''consensus_public_key'', vac_consensus_public_key res), (''validator_network_addresses'', va),
          (''fullnode_network_addresses'', fa), (''validator_index'', u64_json (vac_validator_index res))])))))"
| "query_to_json q tx_schedule c BlockHeight =
     and_then (get_height q c) (\<lambda>height. Inr (Json (VObject [(''BlockHeight'', u64_json height)])))"
| "query_to_json q tx_schedule c (Events who wd seq_start) =
     and_then (get_events c who wd seq_start) (\<lambda>res. Inr (Json (VObject [(''events'', VArray res)])))"
| "query_to_json q tx_schedule c (Txs who txs_height txs_count ttype) =
     and_then (rc_account_transactions c who txs_height txs_count) (\<lambda>res.
       Inr (Json (VObject [(''transactions'', VArray (map transaction_json res))])))"
| "query_to_json q tx_schedule c (ComWalletMigrated who) =
     and_then (is_community_wallet_migrated q c who) (\<lambda>res. Inr (Json (VObject [(''migrated'', res)])))"
| "query_to_json q tx_schedule c (ComWalletSigners who) =
     and_then (community_wallet_signers q c who) (\<lambda>_. Inr (Json (VObject [(''signers'', VString ''None'')])))"
| "query_to_json q tx_schedule c (ComWalletPendTransactions who) =
     and_then (get_move_resource c ''donor_voice'' ''TxSchedule'' tx_schedule who) (\<lambda>_.
       Inr (Json (VObject [(''pending_transactions'', VString ''None'')])))"
| "query_to_json q tx_schedule c (Annotate who) =
     and_then (rc_annotate_latest c who) (\<lambda>blob.
       case blob of Some pretty \<Rightarrow> Inr (Json (VString pretty))
       | None \<Rightarrow> Inl (Err (''cannot find account state at '' @ ql_address_string q who)))"
| "query_to_json q tx_schedule c SyncDelay =
     Inl (Err ''Not implemented for type: SyncDelay: Ground control to Major Tom.'')"

record QueryCli =
  qc_subcommand :: QueryType
  qc_config_path :: "string option"
  qc_url :: "Url option"

definition QueryCli_run ::
  "query_lib \<Rightarrow> (u8 list \<Rightarrow> unit result) \<Rightarrow> (Url \<Rightarrow> rest_client) \<Rightarrow> (string \<Rightarrow> AppCfg result) \<Rightarrow> string \<Rightarrow> file_system \<Rightarrow>
     QueryCli \<Rightarrow> answer result" where
  "QueryCli_run q tx_schedule connect from_yaml home fs self =
     and_then (case qc_url self of
         Some u \<Rightarrow> Inr (connect u)
       | None \<Rightarrow> (case qc_config_path self of
            Some p \<Rightarrow> and_then (load from_yaml home (Some p) fs) (\<lambda>app_cfg.
                        and_then (from_libra_config connect app_cfg None) (\<lambda>(c, _). Inr c))
          | None \<Rightarrow> default_client connect from_yaml home fs)) (\<lambda>client.
       query_to_json q tx_schedule client (qc_subcommand self))"

section \<open>What the queries read\<close>

lemma trim_word: "w = [] \<or> \<not> is_ascii_ws (hd w) \<and> \<not> is_ascii_ws (last w) \<Longrightarrow> trim w = w"
  using trim_id [of w] by (cases "w = []") (auto simp: trim_def)

text \<open>Arguments joined with commas reach the view function one by one.\<close>

lemma view_args_join:
  assumes "ws \<noteq> []" "\<forall>w \<in> set ws. CHR '','' \<notin> set w \<and> (w = [] \<or> \<not> is_ascii_ws (hd w) \<and> \<not> is_ascii_ws (last w))"
  shows "view_args (Some (str_join '','' ws)) = map VString ws"
  using assms str_split_join [of ws "CHR '',''"] trim_word by (simp add: view_args_def)

lemma first_u64_show: "first_u64 (VArray [VString (show_nat (unat n))]) = Inr n"
  by (simp add: first_u64_def strings_from_value_def first_of_def unwrap_none_def parse_u64_show)

text \<open>The height is the first string of the view, read as a number; an empty answer panics instead of failing.\<close>

lemma get_height_reads:
  assumes "ql_function_id q ''0x1::block::get_current_block_height'' = Inr f"
    and "rc_view c \<lparr>vr_function = f, vr_type_arguments = [], vr_arguments = []\<rparr> = Inr vs"
  shows "vs = [VString (show_nat (unat n))] \<Longrightarrow> get_height q c = Inr n" "vs = [] \<Longrightarrow> \<exists>m. get_height q c = Inl (Panic m)"
  using assms first_u64_show [of n]
  by (auto simp: get_height_def view_ext_def context_err_def view_args_def first_u64_def strings_from_value_def first_of_def
      unwrap_none_def)

text \<open>A rotated account is found through its authentication key, and its balance is the one the view reports, in
  coins.\<close>

lemma balance_query_reads:
  assumes "ql_function_id q ''0x1::ol_account::balance'' = Inr f"
    and "rc_view c \<lparr>vr_function = f, vr_type_arguments = [], vr_arguments = [VString (ql_address_string q a)]\<rparr> =
      Inr [VString (show_nat (unat u)), VString (show_nat (unat t))]"
  shows "query_to_json q ts c (Balance a) = Inr (Coins (scaled \<lparr>unlocked = u, total = t\<rparr>))"
  using assms by (simp add: get_account_balance_libra_def account_view_def entry_function_id_def context_err_def
    SlowWalletBalance_from_value_def json_u64_def parse_u64_show)

text \<open>No node and no configuration makes the sync delay answerable.\<close>

lemma sync_delay_never_answered:
  "qc_subcommand self = SyncDelay \<Longrightarrow> \<not> is_ok (QueryCli_run q ts connect from_yaml home fs self)"
  by (auto simp: QueryCli_run_def is_ok_iff and_then_eq_Inr)

end
