(* ===== verification/Spec2Isabelle.thy ===== *)
theory Spec2Isabelle
  imports V5_0_Sdk V5_Scripts V6_Sdk Restore_Bundle Genesis_Pipeline Genesis_Config Txs_Cli App_Cfg Hash_Value Legacy_Address Supply_Stats Account_Keys
    Framework_Release Rescue_Session Vdf_Proof Cli_Config Client_Queries
begin

text \<open>
  Verification of the libra-v7 tools (Rust sources under \<^verbatim>\<open>src/\<close>): a command line client, wallet and
  genesis builder for a Move blockchain.

  \<^bold>\<open>The program and how its parts interact.\<close> The wallet turns a mnemonic phrase into keys and writes the
  key and configuration files of an account and of a validator. The application configuration holds
  profiles, network playlists and transaction costs; every command reads its key, chain and node from
  it. The transaction tool builds the payload of a command with generated builders, signs it and
  submits it; the query tool reads the chain. The framework tool compiles the Move packages of an upgrade into
  governance scripts, which the governance commands propose and resolve. The genesis tools read the accounts of an
  older chain from a recovery file, repair them, compute the supply, and replay them as calls to the Move virtual
  machine of the new chain; a comparison checks the result against the file. The compatibility crate reads data of
  the older releases: addresses, hash values, type tags, events, account states, backups and transactions. The
  storage tool exports a snapshot as a recovery file and restores a database from a bundle of backups.

  \<^bold>\<open>Theories.\<close>
  \<^item> \<open>Rust_Prelude\<close>: machine integers, results with errors and panics, strings, files. \<open>F64\<close>: double
    precision arithmetic with its rounding lemmas. \<open>Keyed_Store\<close>, \<open>Hex_Id\<close>, \<open>BTree_Map\<close>, \<open>Bcs\<close>, \<open>Serde_Layout\<close>:
    interfaces stated as locales (a list of records with a key, a byte identifier with its hexadecimal form, an
    ordered map, a serialization library, the layout of derived serializers) with the lemmas proved once and
    interpreted on the models.
  \<^item> \<open>Mnemonic_Words\<close>, \<open>Mnemonic\<close>, \<open>Wallet\<close>, \<open>Account_Keys\<close> (\<^verbatim>\<open>tools/wallet/src\<close>): the bit reader and
    writer at their width, phrases, key derivation, the address map of the wallet with its possibly
    endless generation loop, key chains, validator identities and their files.
  \<^item> \<open>Gas_Coin\<close>, \<open>Network_Playlist\<close>, \<open>Pledge\<close>, \<open>App_Cfg\<close>, \<open>Vdf_Proof\<close> (\<^verbatim>\<open>types/src\<close>): coin scaling,
    playlists, pledges, the configuration as a state machine with its invariant, the delay proofs on disk.
  \<^item> \<open>Cli_Config\<close> (\<^verbatim>\<open>types/src/type_extensions\<close>, \<^verbatim>\<open>tools/config/src/make_profile.rs\<close>): the vendor's client configuration,
    where it is found, and the profile wizard. \<open>Client_Queries\<close> (\<^verbatim>\<open>client_ext.rs\<close>, \<^verbatim>\<open>tools/query/src\<close>): the queries.
  \<^item> \<open>Hash_Value\<close>, \<open>Legacy_Address\<close>, \<open>Event_Key\<close>, \<open>Type_Tags\<close>, \<open>Account_State\<close>, \<open>Legacy_Archive\<close>,
    \<open>Legacy_Transactions\<close> (\<^verbatim>\<open>compatibility/src/version_five\<close>).
  \<^item> \<open>Account_Address\<close>, \<open>Legacy_Recovery\<close>, \<open>Supply_Stats\<close>, \<open>Comm_Wallet\<close>, \<open>Genesis_Migration\<close>,
    \<open>Genesis_Compare\<close>, \<open>Genesis_Config\<close> (\<^verbatim>\<open>tools/genesis/src\<close> and \<^verbatim>\<open>compatibility/src/legacy_recovery_v6.rs\<close>).
  \<^item> \<open>Snapshot_Reader\<close>, \<open>Restore_Bundle\<close> (\<^verbatim>\<open>tools/storage/src\<close>): snapshots as recovery files, chunks of
    transactions, the search of a bundle and its three restores as calls to the vendor's controllers.
  \<^item> \<open>Entry_Function\<close>, \<open>Framework_Sdk\<close>, \<open>V7_Sdk\<close>, \<open>V6_Sdk\<close>, \<open>Script_Function\<close>, \<open>V5_2_Sdk\<close>, \<open>V5_0_Sdk\<close>, \<open>V5_Scripts\<close>
    (\<^verbatim>\<open>framework/cached-packages\<close> and \<^verbatim>\<open>compatibility/src/sdk\<close>): the calls of five releases, their builders
    and decoders, on shared payload types and a shared table of decoders.
  \<^item> \<open>Tx_Sender\<close>, \<open>Batch_Tx\<close>, \<open>Tx_Commands\<close>, \<open>Txs_Cli\<close> (\<^verbatim>\<open>tools/txs/src\<close>): the sender with its sequence number,
    the commands, the command line.
  \<^item> \<open>Governance_Script\<close>, \<open>Upgrade_Proposal\<close>, \<open>Framework_Release\<close> (\<^verbatim>\<open>framework/src\<close>): the script of an upgrade with an
    interpreter of its statements, the steps of a proposal and their files, the release targets.
  \<^item> \<open>Rescue_Session\<close> (\<^verbatim>\<open>tools/rescue/src\<close>): sessions on a stopped database, rescue transactions, the bootstrapper.
  \<^item> \<open>Genesis_Pipeline\<close>, \<open>Governance_Flow\<close> and this theory: properties that span components (from an exported snapshot
    to an audited genesis; from the artifacts of an upgrade to the governance transactions; from key
    generation to the account restored).

  \<^bold>\<open>How the code is modelled.\<close> A struct is a record, an enum a datatype, a function a definition of the same
  name (with a prefix or suffix where the name is taken). A fallible function returns a \<open>result\<close>, whose
  left side distinguishes an error value from a panic, so every \<^verbatim>\<open>?\<close>, \<^verbatim>\<open>unwrap\<close>, \<^verbatim>\<open>expect\<close> and \<^verbatim>\<open>assert\<close> is a branch.
  Mutable state is passed and returned; the file system is a map from paths to contents. Integers keep
  their width and wrap as in the release profile. Loops are structural recursion, or recursion with a measure (the
  search through parent directories); the address generation, which may not end, is a partial function into an
  option, and the theorem about it states when it ends. Output to a terminal is left out.

  \<^bold>\<open>Parameters.\<close> Code outside \<^verbatim>\<open>src/\<close> is an argument of the definitions: hashes, key derivation and
  signatures, the hexadecimal and BCS codecs, YAML and JSON readers, the Move virtual machine and
  compiler, the database, the node and the user's answers. Laws a theorem needs of them are hypotheses
  or locales, each with an instance.

  \<^bold>\<open>What is shown.\<close> Round trips (phrases, addresses, type tags, transactions, calls, configuration
  files, delay proofs), invariants of the configuration and the sender, exactness of the supply and of the
  community wallet pass below the 53 bits of a double, the sequence of calls a migration makes as a
  refinement of a specification on the recovery file, that a migrated genesis passes the audit, what each
  transaction command can add to the ledger, when address generation ends, how the calls of the older releases are
  read by the newer ones, that a restore uses matching manifests, and that the scripts of an upgrade publish the
  packages they were made for and execute only what was voted on, and that a rescue commits only the transaction and
  waypoint the operators agreed on.

  \<^bold>\<open>Bounds.\<close> Double precision results are exact up to \<open>2 ^ 53\<close>; BCS sequences have at most \<open>2 ^ 31 - 1\<close> elements;
  type tags nest at most nine deep. Two definitions take fuel: reading the records of a file, whose length bounds
  the rounds (\<open>read_records_fuel\<close>), and reading type tags, bounded by their nesting (\<open>de_type_tag_fuel\<close>); both lemmas
  show that more fuel changes nothing.

  \<^bold>\<open>Not modelled.\<close> Argument parsing, printing and progress bars; HTTP, GitHub and database access; the
  genesis registration and the wizards, which are prompts around the modelled operations; the YAML texts written for a node, which
  are templates without logic; the deprecated types of \<^verbatim>\<open>compatibility/src/deprecated\<close>, which only carry fields; the JSON
  views of version five transactions and the script interfaces of \<^verbatim>\<open>script_v5.rs\<close>, likewise; the Move
  framework, which the virtual machine runs; test suites.
\<close>

section \<open>Keys\<close>

lemma keygen_account:
  assumes "keygen sha256 v random = Inr (auth, acct, w, phrase)"
  shows "get_account_from_mnem sha256 v phrase = Inr (auth, acct, w)" "phrase = mnemonic_string w"
proof -
  obtain m w0 where m: "Mnemonic_new sha256 random = Inr m" "new_from_mnemonic (crypto_of v) m = Inr w0"
    using assms by (auto simp: keygen_def WalletLibrary_new_def and_then_eq_Inr expect_eq_Inr)
  have wm: "wallet_mnemonic w0 = m" using m(2) by (auto simp: new_from_mnemonic_def and_then_eq_Inr)
  have ph: "phrase = fmt_mnemonic m"
    using assms m wm by (auto simp: keygen_def WalletLibrary_new_def and_then_eq_Inr expect_eq_Inr mnemonic_string_def
      split: prod.splits)
  have "Mnemonic_from sha256 (trim phrase) = Inr m"
    using m(1) mnemonic_from_iff fmt_mnemonic_trim [OF m(1)] ph by metis
  then show "get_account_from_mnem sha256 v phrase = Inr (auth, acct, w)" using assms m
    by (auto simp: keygen_def WalletLibrary_new_def get_account_from_mnem_def and_then_eq_Inr expect_eq_Inr split: prod.splits)
  have "w = snd (new_address (crypto_of v) w0)"
    using assms m by (auto simp: keygen_def WalletLibrary_new_def and_then_eq_Inr expect_eq_Inr split: prod.splits)
  then have "wallet_mnemonic w = m"
    using wm by (auto simp: new_address_def Let_def split: sum.splits)
  with ph show "phrase = mnemonic_string w" by (simp add: mnemonic_string_def)
qed

text \<open>C2. A generated account can always be restored from the phrase shown to the user: when key generation
  returns an account, its authentication key, its wallet and a phrase, loading the phrase yields the same
  key, account and wallet, reloading the wallet does too, and the validator key chain printed by the
  legacy generator is the one derived from the phrase.\<close>

theorem keygen_restores_account:
  assumes "keygen sha256 v random = Inr (auth, acct, w, phrase)"
  shows "get_account_from_mnem sha256 v phrase = Inr (auth, acct, w) \<and>
    get_account_from_wallet sha256 v w = Inr (auth, acct, w) \<and>
    legacy_keygen sha256 v random = get_keys_from_mnem sha256 v phrase"
  using keygen_account [OF assms] assms
  by (simp add: get_account_from_wallet_def legacy_keygen_def get_keys_from_mnem_def)

theorem keygen_restores_account_witness:
  "\<exists>random auth acct w. keygen (\<lambda>_. replicate 32 0) example_vendor random = Inr (auth, acct, w, zero_phrase) \<and>
    get_account_from_mnem (\<lambda>_. replicate 32 0) example_vendor zero_phrase = Inr (auth, acct, w)"
proof -
  let ?m = "\<lparr>mnemonic_words = replicate 12 ''abandon''\<rparr>"
  obtain e where e: "Mnemonic_new (\<lambda>_. replicate 32 0) e = Inr ?m" "zero_phrase = fmt_mnemonic ?m"
    using zero_phrase_accepted mnemonic_from_iff by blast
  have t: "trim zero_phrase = zero_phrase" using fmt_mnemonic_trim [OF e(1)] e(2) by simp
  obtain w0 where w: "new_from_mnemonic (crypto_of example_vendor) ?m = Inr w0"
    using example_account
    by (auto simp: get_account_from_mnem_def t zero_phrase_accepted and_then_eq_Inr case_prod_beta Let_def)
  obtain r w1 where "new_address (crypto_of example_vendor) w0 = (r, w1)" by fastforce
  note w0 = w this
  have r: "\<exists>auth ch. r = Inr (auth, ch)"
    using example_account w0 by (auto simp: get_account_from_mnem_def t zero_phrase_accepted and_then_eq_Inr)
  have ph: "mnemonic_string w0 = zero_phrase"
    using w0(1) e(2) by (auto simp: mnemonic_string_def new_from_mnemonic_def and_then_eq_Inr)
  have "\<exists>auth acct w. keygen (\<lambda>_. replicate 32 0) example_vendor e = Inr (auth, acct, w, zero_phrase)"
    using e(1) w0 r ph by (auto simp: keygen_def WalletLibrary_new_def)
  then show ?thesis using keygen_restores_account by blast
qed

end
